(* ===== verification/Boron_Prelude.thy ===== *)
theory Boron_Prelude
  imports Main "HOL-Library.Multiset" "HOL-Library.Sublist"
begin

text \<open>
  Shared ground of the development: JavaScript strings, JSON-like values with the truthiness and
  property-access rules of the language, optional lookups, and the contract of an array-sort
  comparator as a locale.

  Strings. A JavaScript string is a list of UTF-16 code units; the model keeps the code units
  0 to 255 (Latin-1), one \<open>char\<close> each. The program's only literals outside that range are the
  em dash and the horizontal ellipsis; they are represented by the two otherwise unused control
  codes \<open>em_dash\<close> and \<open>ellipsis\<close> below.

  Numbers. A number held in a JSON value is an integer here; the components that compute with
  fractions say how they are represented.
\<close>

named_theorems js_str \<open>facts about the string primitives\<close>
named_theorems js_val \<open>facts about JavaScript values\<close>

section \<open>Characters and strings\<close>

type_synonym jsstring = string

definition em_dash :: char where "em_dash = CHR 0x97"
definition ellipsis :: char where "ellipsis = CHR 0x85"

definition code :: "char \<Rightarrow> nat" where "code c = of_char c"

definition is_digit :: "char \<Rightarrow> bool" where
  "is_digit c \<longleftrightarrow> 48 \<le> code c \<and> code c \<le> 57"

definition is_upper :: "char \<Rightarrow> bool" where
  "is_upper c \<longleftrightarrow> 65 \<le> code c \<and> code c \<le> 90"

definition is_lower :: "char \<Rightarrow> bool" where
  "is_lower c \<longleftrightarrow> 97 \<le> code c \<and> code c \<le> 122"

text \<open>The regular-expression class of word characters.\<close>

definition is_word :: "char \<Rightarrow> bool" where
  "is_word c \<longleftrightarrow> is_digit c \<or> is_upper c \<or> is_lower c \<or> c = CHR ''_''"

text \<open>The white space that \<open>trim\<close> and the class \<open>\s\<close> recognise, within Latin-1.\<close>

definition is_space :: "char \<Rightarrow> bool" where
  "is_space c \<longleftrightarrow> (9 \<le> code c \<and> code c \<le> 13) \<or> code c = 32 \<or> code c = 160"

definition lower_char :: "char \<Rightarrow> char" where
  "lower_char c =
     (let n = code c
      in if (65 \<le> n \<and> n \<le> 90) \<or> (192 \<le> n \<and> n \<le> 222 \<and> n \<noteq> 215)
         then char_of (n + 32) else c)"

definition toLowerCase :: "jsstring \<Rightarrow> jsstring" where
  "toLowerCase s = map lower_char s"

definition upper_ascii :: "char \<Rightarrow> char" where
  "upper_ascii c = (if is_lower c then char_of (code c - 32) else c)"

definition startsWith :: "jsstring \<Rightarrow> jsstring \<Rightarrow> bool" where
  "startsWith s p \<longleftrightarrow> take (length p) s = p"

definition endsWith :: "jsstring \<Rightarrow> jsstring \<Rightarrow> bool" where
  "endsWith s p \<longleftrightarrow> length p \<le> length s \<and> drop (length s - length p) s = p"

fun js_includes :: "jsstring \<Rightarrow> jsstring \<Rightarrow> bool" where
  "js_includes [] q = (q = [])"
| "js_includes (c # cs) q = (startsWith (c # cs) q \<or> js_includes cs q)"

definition trimStart :: "jsstring \<Rightarrow> jsstring" where
  "trimStart s = dropWhile is_space s"

definition trim :: "jsstring \<Rightarrow> jsstring" where
  "trim s = rev (dropWhile is_space (rev (dropWhile is_space s)))"

text \<open>\<open>s.split(c)\<close> for a one-character separator: never empty.\<close>

fun split_on :: "char \<Rightarrow> jsstring \<Rightarrow> jsstring list" where
  "split_on c [] = [[]]"
| "split_on c (x # xs) =
     (if x = c then [] # split_on c xs
      else (case split_on c xs of [] \<Rightarrow> [[x]] | w # ws \<Rightarrow> (x # w) # ws))"

fun join_with :: "jsstring \<Rightarrow> jsstring list \<Rightarrow> jsstring" where
  "join_with sep [] = []"
| "join_with sep [w] = w"
| "join_with sep (w # ws) = w @ sep @ join_with sep ws"

text \<open>Decimal rendering of a number.\<close>

fun show_nat :: "nat \<Rightarrow> jsstring" where
  "show_nat n = (if n < 10 then [char_of (48 + n)] else show_nat (n div 10) @ [char_of (48 + n mod 10)])"

declare show_nat.simps [simp del]

definition show_int :: "int \<Rightarrow> jsstring" where
  "show_int i = (if i < 0 then CHR ''-'' # show_nat (nat (- i)) else show_nat (nat i))"

subsection \<open>Facts about strings\<close>

lemma startsWith_iff_prefix: "startsWith s p \<longleftrightarrow> prefix p s"
  unfolding startsWith_def by (metis append_take_drop_id prefixI prefixE append_eq_conv_conj)

lemma endsWith_iff_suffix: "endsWith s p \<longleftrightarrow> suffix p s"
proof
  assume "endsWith s p"
  then have "s = take (length s - length p) s @ p"
    unfolding endsWith_def by (metis append_take_drop_id)
  then show "suffix p s" by (metis suffixI)
next
  assume "suffix p s"
  then obtain zs where "s = zs @ p" by (auto simp: suffix_def)
  then show "endsWith s p" by (simp add: endsWith_def)
qed

lemma includes_iff_sublist: "js_includes s q \<longleftrightarrow> sublist q s"
  by (induction s) (auto simp: startsWith_iff_prefix sublist_Cons_right)

lemma includes_infix [js_str]: "js_includes (a @ q @ b) q"
  by (simp add: includes_iff_sublist)

lemma includes_self_append [simp, js_str]: "js_includes (a @ q) q"
  by (simp add: includes_iff_sublist)

lemma includes_trans: "js_includes a b \<Longrightarrow> js_includes b c \<Longrightarrow> js_includes a c"
  by (metis includes_iff_sublist sublist_order.order_trans)

lemma startsWith_append [simp, js_str]: "startsWith (p @ s) p"
  by (simp add: startsWith_def)

lemma endsWith_append [simp, js_str]: "endsWith (s @ p) p"
  by (simp add: endsWith_def)

lemma code_less_256: "code c < 256"
  by (simp add: code_def)

lemma code_char_of [simp]: "n < 256 \<Longrightarrow> code (char_of n) = n"
  by (simp add: code_def)

lemma code_eq_iff: "code c = code d \<longleftrightarrow> c = d"
  by (simp add: code_def)

lemma code_lower_char:
  "code (lower_char c) =
     (if (65 \<le> code c \<and> code c \<le> 90) \<or> (192 \<le> code c \<and> code c \<le> 222 \<and> code c \<noteq> 215)
      then code c + 32 else code c)"
  using code_less_256[of c] by (auto simp: lower_char_def Let_def)

lemma lower_char_idem [simp]: "lower_char (lower_char c) = lower_char c"
proof -
  have "code (lower_char (lower_char c)) = code (lower_char c)"
    unfolding code_lower_char[of "lower_char c"] by (simp add: code_lower_char)
  then show ?thesis by (simp add: code_eq_iff)
qed

lemma toLowerCase_idem [simp, js_str]: "toLowerCase (toLowerCase s) = toLowerCase s"
  by (simp add: toLowerCase_def)

lemma toLowerCase_append [simp, js_str]: "toLowerCase (s @ t) = toLowerCase s @ toLowerCase t"
  by (simp add: toLowerCase_def)

lemma length_toLowerCase [simp, js_str]: "length (toLowerCase s) = length s"
  by (simp add: toLowerCase_def)

lemma is_space_lower_char [simp]: "is_space (lower_char c) \<longleftrightarrow> is_space c"
  using code_less_256[of c] by (auto simp: is_space_def code_lower_char)

lemma dropWhile_map_lower:
  "dropWhile is_space (map lower_char s) = map lower_char (dropWhile is_space s)"
  by (induction s) auto

lemma trim_toLowerCase [js_str]: "trim (toLowerCase s) = toLowerCase (trim s)"
  by (simp add: trim_def toLowerCase_def dropWhile_map_lower rev_map)

lemma trim_Nil [simp]: "trim [] = []"
  by (simp add: trim_def)

lemma dropWhile_rev_dropWhile_hd:
  "rev (dropWhile P (rev (dropWhile P s))) \<noteq> [] \<Longrightarrow>
     \<not> P (hd (rev (dropWhile P (rev (dropWhile P s)))))"
proof -
  assume ne: "rev (dropWhile P (rev (dropWhile P s))) \<noteq> []"
  let ?t = "dropWhile P s"
  let ?u = "rev (dropWhile P (rev ?t))"
  have pre: "prefix ?u ?t"
    by (metis rev_rev_ident suffix_dropWhile suffix_to_prefix)
  then have "hd ?u = hd ?t" using ne by (metis hd_append2 prefix_def)
  moreover have "?t \<noteq> []" using pre ne by (metis prefix_bot.extremum_uniqueI)
  then have "\<not> P (hd ?t)" by (metis hd_dropWhile)
  ultimately show ?thesis by simp
qed

lemma dropWhile_eq_self_hd: "(s \<noteq> [] \<Longrightarrow> \<not> P (hd s)) \<Longrightarrow> dropWhile P s = s"
  by (cases s) auto

lemma trim_idem [simp, js_str]: "trim (trim s) = trim s"
proof -
  let ?t = "trim s"
  have "dropWhile is_space ?t = ?t"
    unfolding trim_def by (rule dropWhile_eq_self_hd) (rule dropWhile_rev_dropWhile_hd)
  moreover have "dropWhile is_space (rev ?t) = rev ?t"
    by (simp add: trim_def)
  ultimately show ?thesis by (simp add: trim_def[of ?t])
qed

lemma trim_hd_not_space: "trim s \<noteq> [] \<Longrightarrow> \<not> is_space (hd (trim s))"
  unfolding trim_def by (rule dropWhile_rev_dropWhile_hd)

lemma trim_last_not_space: "trim s \<noteq> [] \<Longrightarrow> \<not> is_space (last (trim s))"
  unfolding trim_def by (metis hd_dropWhile last_rev rev_is_Nil_conv)

lemma trim_id: "(s \<noteq> [] \<Longrightarrow> \<not> is_space (hd s)) \<Longrightarrow> (s \<noteq> [] \<Longrightarrow> \<not> is_space (last s)) \<Longrightarrow> trim s = s"
  by (metis dropWhile_eq_self_hd hd_rev rev_rev_ident trim_def rev_is_Nil_conv)

lemma set_trim: "set (trim s) \<subseteq> set s"
proof
  fix x
  assume "x \<in> set (trim s)"
  then have "x \<in> set (dropWhile is_space (rev (dropWhile is_space s)))"
    by (simp add: trim_def)
  then have "x \<in> set (dropWhile is_space s)"
    by (metis set_dropWhileD set_rev)
  then show "x \<in> set s" by (rule set_dropWhileD)
qed

lemma split_on_nonempty [simp]: "split_on c s \<noteq> []"
  by (induction s) (auto split: list.splits)

lemma join_split_on: "join_with [c] (split_on c s) = s"
proof (induction s)
  case Nil
  then show ?case by simp
next
  case (Cons x xs)
  obtain w ws where w: "split_on c xs = w # ws" by (metis neq_Nil_conv split_on_nonempty)
  show ?case
    using Cons.IH by (cases ws) (auto simp: w)
qed

lemma split_on_no_sep: "w \<in> set (split_on c s) \<Longrightarrow> c \<notin> set w"
proof (induction s arbitrary: w)
  case Nil
  then show ?case by simp
next
  case (Cons x xs)
  obtain v vs where v: "split_on c xs = v # vs" by (metis neq_Nil_conv split_on_nonempty)
  have "\<forall>u\<in>set (v # vs). c \<notin> set u" using Cons.IH v by auto
  then show ?case using Cons.prems v by (auto split: if_splits)
qed

section \<open>JavaScript values\<close>

datatype json =
    JUndef
  | JNull
  | JBool bool
  | JNum int
  | JStr jsstring
  | JArr "json list"
  | JObj "(jsstring \<times> json) list"

text \<open>Truthiness, and the optional property access \<open>v?.k\<close>.\<close>

fun truthy :: "json \<Rightarrow> bool" where
  "truthy JUndef = False"
| "truthy JNull = False"
| "truthy (JBool b) = b"
| "truthy (JNum n) = (n \<noteq> 0)"
| "truthy (JStr s) = (s \<noteq> [])"
| "truthy (JArr xs) = True"
| "truthy (JObj kvs) = True"

fun jget :: "json \<Rightarrow> jsstring \<Rightarrow> json" where
  "jget (JObj kvs) k = (case map_of kvs k of Some v \<Rightarrow> v | None \<Rightarrow> JUndef)"
| "jget _ k = JUndef"

text \<open>\<open>v ?? d\<close> and \<open>v || d\<close>.\<close>

definition nullish :: "json \<Rightarrow> bool" where
  "nullish v \<longleftrightarrow> v = JUndef \<or> v = JNull"

definition js_or :: "json \<Rightarrow> json \<Rightarrow> json" where
  "js_or a b = (if truthy a then a else b)"

text \<open>\<open>String(v)\<close>; an array joins its elements with commas, null and undefined elements empty.\<close>

fun js_String :: "json \<Rightarrow> jsstring" where
  "js_String JUndef = ''undefined''"
| "js_String JNull = ''null''"
| "js_String (JBool b) = (if b then ''true'' else ''false'')"
| "js_String (JNum n) = show_int n"
| "js_String (JStr s) = s"
| "js_String (JArr xs) =
     join_with '','' (map (\<lambda>v. if v = JUndef \<or> v = JNull then [] else js_String v) xs)"
| "js_String (JObj kvs) = ''[object Object]''"

definition is_plain_object :: "json \<Rightarrow> bool" where
  "is_plain_object v = (case v of JObj _ \<Rightarrow> True | _ \<Rightarrow> False)"

text \<open>The strings among optional ones: \<open>x || d\<close> on a string that may be absent or empty.\<close>

definition or_string :: "jsstring option \<Rightarrow> jsstring \<Rightarrow> jsstring" where
  "or_string v d = (case v of None \<Rightarrow> d | Some s \<Rightarrow> if s = [] then d else s)"

lemma jget_JObj_Cons [js_val]:
  "jget (JObj ((k', v) # kvs)) k = (if k' = k then v else jget (JObj kvs) k)"
  by simp

lemma truthy_js_or [js_val]: "truthy (js_or a b) \<longleftrightarrow> truthy a \<or> truthy b"
  by (simp add: js_or_def)

section \<open>Sorting with a comparator\<close>

text \<open>
  \<open>Array.prototype.sort\<close> is stable, and its result is determined when the comparator is a total
  preorder: the model inserts each element before the first later one that is not smaller.
\<close>

fun js_insert :: "('a \<Rightarrow> 'a \<Rightarrow> int) \<Rightarrow> 'a \<Rightarrow> 'a list \<Rightarrow> 'a list" where
  "js_insert cmp x [] = [x]"
| "js_insert cmp x (y # ys) = (if cmp x y \<le> 0 then x # y # ys else y # js_insert cmp x ys)"

fun js_sort :: "('a \<Rightarrow> 'a \<Rightarrow> int) \<Rightarrow> 'a list \<Rightarrow> 'a list" where
  "js_sort cmp [] = []"
| "js_sort cmp (x # xs) = js_insert cmp x (js_sort cmp xs)"

lemma mset_js_insert [simp]: "mset (js_insert cmp x xs) = add_mset x (mset xs)"
  by (induction xs) auto

lemma mset_js_sort [simp]: "mset (js_sort cmp xs) = mset xs"
  by (induction xs) auto

lemma set_js_sort [simp]: "set (js_sort cmp xs) = set xs"
  by (metis mset_js_sort set_mset_mset)

lemma length_js_sort [simp]: "length (js_sort cmp xs) = length xs"
  by (metis mset_js_sort size_mset)

lemma set_js_insert [simp]: "set (js_insert cmp x xs) = insert x (set xs)"
  by (metis mset_js_insert set_mset_add_mset_insert set_mset_mset)

text \<open>
  The contract a comparator must keep for the sorted order to exist: it is total and transitive
  on the elements of the carrier. Everything the clients need of a sort follows from it.
\<close>

locale js_comparator =
  fixes cmp :: "'a \<Rightarrow> 'a \<Rightarrow> int" and carrier :: "'a \<Rightarrow> bool"
  assumes total: "carrier x \<Longrightarrow> carrier y \<Longrightarrow> 0 < cmp x y \<Longrightarrow> cmp y x \<le> 0"
    and trans: "carrier x \<Longrightarrow> carrier y \<Longrightarrow> carrier z \<Longrightarrow>
                  cmp x y \<le> 0 \<Longrightarrow> cmp y z \<le> 0 \<Longrightarrow> cmp x z \<le> 0"
begin

lemma refl: "carrier x \<Longrightarrow> cmp x x \<le> 0"
  using total[of x x] by force

lemma insert_sorted:
  assumes "sorted_wrt (\<lambda>a b. cmp a b \<le> 0) xs" "carrier x" "\<forall>y\<in>set xs. carrier y"
  shows "sorted_wrt (\<lambda>a b. cmp a b \<le> 0) (js_insert cmp x xs)"
  using assms
proof (induction xs)
  case Nil
  then show ?case by simp
next
  case (Cons y ys)
  show ?case
  proof (cases "cmp x y \<le> 0")
    case True
    with Cons.prems show ?thesis by (auto intro: trans)
  next
    case False
    then have "cmp y x \<le> 0" using Cons.prems total[of x y] by simp
    with False Cons show ?thesis by auto
  qed
qed

lemma sort_sorted:
  "\<forall>y\<in>set xs. carrier y \<Longrightarrow> sorted_wrt (\<lambda>a b. cmp a b \<le> 0) (js_sort cmp xs)"
  by (induction xs) (auto intro: insert_sorted)

text \<open>Stability: the elements of one equivalence class keep their order.\<close>

lemma insert_filter:
  assumes "carrier x" "\<forall>y\<in>set xs. carrier y" "carrier k"
  shows "filter (\<lambda>a. cmp k a \<le> 0 \<and> cmp a k \<le> 0) (js_insert cmp x xs) =
         filter (\<lambda>a. cmp k a \<le> 0 \<and> cmp a k \<le> 0) (x # xs)"
  using assms
proof (induction xs)
  case Nil
  then show ?case by simp
next
  case (Cons y ys)
  have "\<not> (cmp k x \<le> 0 \<and> cmp x k \<le> 0 \<and> cmp k y \<le> 0 \<and> cmp y k \<le> 0)" if "\<not> cmp x y \<le> 0"
    using that trans[of x k y] Cons.prems by auto
  with Cons show ?case by auto
qed

lemma sort_stable:
  assumes "\<forall>y\<in>set xs. carrier y" "carrier k"
  shows "filter (\<lambda>a. cmp k a \<le> 0 \<and> cmp a k \<le> 0) (js_sort cmp xs) =
         filter (\<lambda>a. cmp k a \<le> 0 \<and> cmp a k \<le> 0) xs"
  using assms by (induction xs) (auto simp: insert_filter)

lemma sort_id:
  "sorted_wrt (\<lambda>a b. cmp a b \<le> 0) xs \<Longrightarrow> js_sort cmp xs = xs"
proof (induction xs)
  case Nil
  then show ?case by simp
next
  case (Cons x xs)
  then show ?case by (cases xs) auto
qed

lemma sort_idem:
  "\<forall>y\<in>set xs. carrier y \<Longrightarrow> js_sort cmp (js_sort cmp xs) = js_sort cmp xs"
  by (rule sort_id) (rule sort_sorted)

end

section \<open>Sanitisers\<close>

text \<open>
  Several modules accept a value from outside (browser storage, a request, another tab) and map it
  to one the program can use: \<open>normalizeSkin\<close>, \<open>normalizeMode\<close>, the appearance
  preferences, the branding record. They share this contract: the result is always valid, and a
  valid value is returned unchanged.
\<close>

locale sanitizer =
  fixes norm :: "'a \<Rightarrow> 'a" and valid :: "'a \<Rightarrow> bool"
  assumes valid_norm: "valid (norm x)"
    and norm_valid: "valid x \<Longrightarrow> norm x = x"
begin

lemma idem: "norm (norm x) = norm x"
  by (rule norm_valid) (rule valid_norm)

lemma fixed_iff: "norm x = x \<longleftrightarrow> valid x"
  by (metis norm_valid valid_norm)

lemma range_eq: "range norm = {x. valid x}"
  by (auto simp: valid_norm intro: image_eqI[where f = norm] norm_valid[symmetric])

end

section \<open>Generic list facts\<close>

lemma filter_eq_subseq: "subseq (filter P xs) xs"
  by simp

lemma distinct_map_filter_fst:
  "distinct (map f xs) \<Longrightarrow> distinct (map f (filter P xs))"
  by (induction xs) auto

lemma find_Some_iff_mem: "List.find P xs = Some x \<Longrightarrow> x \<in> set xs \<and> P x"
  by (auto simp: find_Some_iff in_set_conv_nth)

lemma map_of_mem: "map_of kvs k = Some v \<Longrightarrow> (k, v) \<in> set kvs"
  by (rule map_of_SomeD)

end
