(* ===== verification/Navigation.thy ===== *)
theory Navigation
  imports Boron_Prelude
begin

text \<open>
  The navigation model of the client: the three role-specific navigation lists
  (\<open>config/nav.js\<close>), the installed-capability filter (\<open>config/capabilities.js\<close>), and the three
  places that turn a filtered list into something to click on: the command palette
  (\<open>CommandPalette.jsx\<close>, \<open>buildEntries\<close>), the dashboard search (\<open>DashboardSearch.jsx\<close>,
  \<open>entriesFor\<close>) and the tools menu (\<open>MoreMenu.jsx\<close>, \<open>groupedItems\<close>).
  An icon is kept as the name of its component.
\<close>

section \<open>Data\<close>

datatype nav_entry =
    Section jsstring
  | Link (label: jsstring) (to_path: jsstring) (icon: jsstring) (external: bool)

text \<open>
  \<open>item.section\<close> is truthy on a heading with a non-empty title; \<open>item.to\<close> of a heading is
  undefined, which \<open>capabilityForPath\<close> reads as the empty path.
\<close>

fun is_section :: "nav_entry \<Rightarrow> bool" where
  "is_section (Section t) = (t \<noteq> [])"
| "is_section (Link _ _ _ _) = False"

fun entry_path :: "nav_entry \<Rightarrow> jsstring" where
  "entry_path (Section _) = []"
| "entry_path (Link _ p _ _) = p"

definition customerNav :: "nav_entry list" where
  "customerNav =
    [Section ''Overview'',
     Link ''Dashboard'' ''/dashboard'' ''LayoutDashboard'' False,
     Link ''Tasks'' ''/tasks'' ''ListChecks'' False,
     Section ''Websites'',
     Link ''Domains'' ''/domains'' ''Globe'' False,
     Link ''Subdomains'' ''/subdomains'' ''Network'' False,
     Link ''FTP Accounts'' ''/ftp'' ''Upload'' False,
     Link ''SSL Certificates'' ''/ssl'' ''ShieldCheck'' False,
     Link ''Databases'' ''/databases'' ''Database'' False,
     Link ''DNS Management'' ''/dns'' ''Network'' False,
     Link ''Redirects'' ''/redirects'' ''ExternalLink'' False,
     Link ''Domain Forwarding'' ''/forwarding'' ''ArrowRightLeft'' False,
     Link ''LiteSpeed Cache'' ''/cache'' ''Zap'' False,
     Section ''Email'',
     Link ''Email Accounts'' ''/email'' ''Mail'' False,
     Link ''Webmail'' ''/email?webmail=1'' ''ExternalLink'' False,
     Link ''Email Settings'' ''/email/settings'' ''Cog'' False,
     Link ''Email DNS Records'' ''/email/dns'' ''Network'' False,
     Link ''Spam Filters'' ''/email/spam'' ''ShieldBan'' False,
     Link ''IMAP Migration'' ''/email/migration'' ''ArrowRightLeft'' False,
     Section ''Software'',
     Link ''WordPress Manager'' ''/wordpress'' ''WordPressIcon'' False,
     Link ''Node.js App'' ''/node-apps'' ''NodeIcon'' False,
     Link ''Python App'' ''/python-apps'' ''PythonIcon'' False,
     Link ''Redis'' ''/redis'' ''RedisIcon'' False,
     Section ''Backups'',
     Link ''Backups'' ''/backups'' ''Archive'' False,
     Section ''Site Tools'',
     Link ''File Manager'' ''/files'' ''FolderOpen'' False,
     Link ''PHP Settings'' ''/php'' ''FileCode2'' False,
     Link ''Cron Jobs'' ''/cron'' ''Clock'' False,
     Link ''Git'' ''/git'' ''GitIcon'' False,
     Link ''SSH Keys'' ''/ssh'' ''KeyRound'' False,
     Link ''Terminal'' ''/terminal'' ''TerminalSquare'' False,
     Link ''Disk Usage'' ''/disk-usage'' ''HardDrive'' False,
     Link ''Why is my site down?'' ''/site-health'' ''Activity'' False,
     Link ''Logs'' ''/logs'' ''ScrollText'' False,
     Link ''Dev Tools'' ''/devtools'' ''Wrench'' False,
     Link ''Change Password'' ''/change-password'' ''KeyRound'' False,
     Link ''Malware Scanner'' ''/malware'' ''ShieldAlert'' False,
     Link ''2FA & Security'' ''/security'' ''ShieldCheck'' False,
     Link ''Processes'' ''/processes'' ''Cpu'' False,
     Link ''Website Security'' ''/website-security'' ''Shield'' False,
     Link ''Website Maintenance'' ''/website-maintenance'' ''Construction'' False,
     Link ''Custom Error Pages'' ''/error-pages'' ''FileText'' False,
     Link ''Website Statistics'' ''/website-statistics'' ''GaugeCircle'' False,
     Link ''Appearance'' ''/appearance'' ''Palette'' False]"

definition adminNav :: "nav_entry list" where
  "adminNav =
    [Section ''Administration'',
     Link ''Dashboard'' ''/overview'' ''LayoutDashboard'' False,
     Link ''WordPress Installations'' ''/wordpress'' ''WordPressIcon'' False,
     Link ''Accounts'' ''/accounts'' ''Users'' False,
     Link ''Create account'' ''/accounts/new'' ''Users'' False,
     Link ''Resellers'' ''/resellers'' ''Store'' False,
     Link ''Administrators'' ''/administrators'' ''ShieldCheck'' False,
     Link ''Server Health'' ''/health'' ''Activity'' False,
     Link ''Diagnostics'' ''/diagnostics'' ''Stethoscope'' False,
     Link ''Data Retention'' ''/retention'' ''ArchiveRestore'' False,
     Link ''Tasks'' ''/tasks'' ''ListChecks'' False,
     Link ''Resource Manager'' ''/resource-manager'' ''Cpu'' False,
     Link ''Filesystem Isolation'' ''/filesystem-isolation'' ''Boxes'' False,
     Link ''Security Center'' ''/security-center'' ''ShieldCheck'' False,
     Link ''Stack Manager'' ''/stack-manager'' ''ServerCog'' False,
     Link ''Services'' ''/services'' ''Cog'' False,
     Link ''OpenLiteSpeed'' ''/openlitespeed'' ''Server'' False,
     Link ''Updates'' ''/updates'' ''ArrowUpCircle'' False,
     Section ''Hosting Management'',
     Link ''Backup Manager'' ''/backup-jobs'' ''Archive'' False,
     Link ''Plans'' ''/plans'' ''Layers'' False,
     Link ''SSL Certificates'' ''/ssl'' ''ShieldCheck'' False,
     Link ''Bandwidth'' ''/bandwidth'' ''Gauge'' False,
     Link ''Site Statistics'' ''/site-stats'' ''BarChart3'' False,
     Link ''Maintenance Mode'' ''/maintenance-mode'' ''Construction'' False,
     Link ''Node.js Applications'' ''/software/node-apps'' ''NodeIcon'' False,
     Link ''Python Applications'' ''/software/python-apps'' ''PythonIcon'' False,
     Section ''Panel Configuration'',
     Link ''Server Setup'' ''/server-setup'' ''ServerCog'' False,
     Link ''Panel Settings'' ''/panel-settings'' ''Cog'' False,
     Link ''Branding'' ''/branding'' ''Palette'' False,
     Link ''Appearance'' ''/appearance'' ''Palette'' False,
     Link ''Security'' ''/security'' ''ShieldCheck'' False,
     Link ''Templates'' ''/templates'' ''FileText'' False,
     Section ''Mail & Network'',
     Link ''Mail Queue'' ''/mail-queue'' ''Inbox'' False,
     Link ''Email Tracking'' ''/mail-tracking'' ''BarChart3'' False,
     Link ''IMAP Migrations'' ''/imap-migrations'' ''ArrowRightLeft'' False,
     Link ''Firewall'' ''/firewall'' ''Flame'' False,
     Link ''IP Management'' ''/ip-management'' ''Network'' False,
     Link ''IP Bans'' ''/ip-bans'' ''Ban'' False,
     Link ''Fail2ban'' ''/fail2ban'' ''ShieldAlert'' False,
     Link ''IP Whitelist'' ''/ip-whitelist'' ''LockKeyhole'' False,
     Link ''DNS Setup'' ''/dns-setup'' ''Route'' False,
     Link ''Cloudflare'' ''/cloudflare'' ''Cloud'' False,
     Link ''DNS Cluster'' ''/dns-cluster'' ''Network'' False,
     Section ''Security & Logs'',
     Link ''Malware Scanner'' ''/malware'' ''ShieldAlert'' False,
     Link ''Audit Log'' ''/audit-log'' ''ScrollText'' False,
     Link ''Account Log'' ''/account-log'' ''History'' False,
     Link ''Error Log'' ''/error-log'' ''AlertOctagon'' False,
     Link ''WAF'' ''/waf'' ''ShieldHalf'' False,
     Link ''Slow Queries'' ''/slow-queries'' ''ListChecks'' False,
     Link ''DB Monitor'' ''/db-monitor'' ''DatabaseZap'' False,
     Link ''API Tokens'' ''/tokens'' ''KeyRound'' False,
     Section ''Integrations'',
     Link ''Webhooks'' ''/webhooks'' ''Webhook'' False,
     Link ''Notifications'' ''/notifications'' ''BellRing'' False,
     Link ''Account Migrations'' ''/import/accounts'' ''DownloadCloud'' False,
     Link ''API Docs'' ''/api/docs'' ''BookOpen'' True]"

definition resellerNav :: "nav_entry list" where
  "resellerNav =
    [Section ''Reseller'',
     Link ''Accounts Overview'' ''/reseller'' ''LayoutDashboard'' False,
     Section ''Preferences'',
     Link ''Change Password'' ''/change-password'' ''KeyRound'' False,
     Link ''2FA & Security'' ''/security'' ''ShieldCheck'' False,
     Link ''Appearance'' ''/appearance'' ''Palette'' False]"

text \<open>The list a role gets (\<open>role === 'admin' ? adminNav : role === 'reseller' ? resellerNav : customerNav\<close>).\<close>

definition nav_for :: "jsstring \<Rightarrow> nav_entry list" where
  "nav_for role =
     (if role = ''admin'' then adminNav else if role = ''reseller'' then resellerNav else customerNav)"

section \<open>Installed capabilities\<close>

definition PREFIX_CAPABILITY :: "(jsstring \<times> jsstring) list" where
  "PREFIX_CAPABILITY =
    [(''/email'', ''mail''), (''/mail-'', ''mail''), (''/imap-'', ''mail''),
     (''/dns'', ''dns''), (''/cloudflare'', ''dns''), (''/nameservers'', ''dns''),
     (''/databases'', ''database''), (''/db-monitor'', ''database''), (''/slow-queries'', ''database''),
     (''/ftp'', ''ftp''), (''/redis'', ''redis''), (''/node-'', ''apps''), (''/python-'', ''apps''),
     (''/software/node-'', ''apps''), (''/software/python-'', ''apps''),
     (''/wordpress'', ''wordpress''), (''/backup'', ''backups''), (''/waf'', ''waf''),
     (''/malware'', ''malware''), (''/fail2ban'', ''fail2ban'')]"

definition capabilityForPath :: "jsstring \<Rightarrow> jsstring option" where
  "capabilityForPath path =
     (case List.find (\<lambda>(pre, _). startsWith path pre) PREFIX_CAPABILITY of
        None \<Rightarrow> None
      | Some (_, c) \<Rightarrow> if c = [] then None else Some c)"

definition pathIsAvailable :: "jsstring \<Rightarrow> jsstring list \<Rightarrow> bool" where
  "pathIsAvailable path capabilities =
     (if capabilities = [] then True
      else (case capabilityForPath path of
              None \<Rightarrow> True
            | Some required \<Rightarrow> required \<in> set capabilities))"

text \<open>
  \<open>filterNavigation\<close>: first the entries that are headings or lead to an available path, then
  those that are not headings or are followed, anywhere later, by a link.
\<close>

fun drop_trailing_sections :: "nav_entry list \<Rightarrow> nav_entry list" where
  "drop_trailing_sections [] = []"
| "drop_trailing_sections (item # rest) =
     (if \<not> is_section item \<or> list_ex (\<lambda>next. \<not> is_section next) rest
      then item # drop_trailing_sections rest
      else drop_trailing_sections rest)"

definition filterNavigation :: "nav_entry list \<Rightarrow> jsstring list \<Rightarrow> nav_entry list" where
  "filterNavigation items capabilities =
     drop_trailing_sections
       (filter (\<lambda>item. is_section item \<or> pathIsAvailable (entry_path item) capabilities) items)"

subsection \<open>Properties of the filter\<close>

lemma drop_trailing_links:
  "filter (\<lambda>i. \<not> is_section i) (drop_trailing_sections items) = filter (\<lambda>i. \<not> is_section i) items"
  by (induction items) auto

lemma drop_trailing_subseq: "subseq (drop_trailing_sections items) items"
  by (induction items) auto

lemma drop_trailing_ex_link:
  "drop_trailing_sections items \<noteq> [] \<Longrightarrow> list_ex (\<lambda>i. \<not> is_section i) items"
  by (induction items) (auto split: if_splits)

lemma drop_trailing_last:
  "drop_trailing_sections items \<noteq> [] \<Longrightarrow> \<not> is_section (last (drop_trailing_sections items))"
proof (induction items)
  case Nil
  then show ?case by simp
next
  case (Cons i rest)
  show ?case
  proof (cases "drop_trailing_sections rest = []")
    case True
    then have "\<not> list_ex (\<lambda>n. \<not> is_section n) rest"
      by (metis drop_trailing_links filter.simps(1) filter_empty_conv list_ex_iff)
    with True Cons.prems show ?thesis by (auto split: if_splits)
  next
    case False
    with Cons.IH show ?thesis by auto
  qed
qed

lemma drop_trailing_id:
  "(xs \<noteq> [] \<Longrightarrow> \<not> is_section (last xs)) \<Longrightarrow> drop_trailing_sections xs = xs"
proof (induction xs)
  case Nil
  then show ?case by simp
next
  case (Cons x xs)
  show ?case
  proof (cases "xs = []")
    case True
    with Cons.prems show ?thesis by simp
  next
    case False
    then have "list_ex (\<lambda>n. \<not> is_section n) xs"
      using Cons.prems by (auto simp: list_ex_iff intro: bexI[where x = "last xs"])
    moreover have "drop_trailing_sections xs = xs"
      using Cons False by auto
    ultimately show ?thesis by simp
  qed
qed

lemma filterNavigation_links:
  "filter (\<lambda>i. \<not> is_section i) (filterNavigation items caps) =
   filter (\<lambda>i. \<not> is_section i \<and> pathIsAvailable (entry_path i) caps) items"
  by (auto simp: filterNavigation_def drop_trailing_links intro: filter_cong)

lemma filterNavigation_available:
  "i \<in> set (filterNavigation items caps) \<Longrightarrow> \<not> is_section i \<Longrightarrow>
     i \<in> set items \<and> pathIsAvailable (entry_path i) caps"
proof -
  assume "i \<in> set (filterNavigation items caps)" and "\<not> is_section i"
  then have "i \<in> set (filter (\<lambda>i. \<not> is_section i) (filterNavigation items caps))" by simp
  then show ?thesis unfolding filterNavigation_links by simp
qed

lemma filterNavigation_idem:
  "filterNavigation (filterNavigation items caps) caps = filterNavigation items caps"
proof -
  let ?P = "\<lambda>i. is_section i \<or> pathIsAvailable (entry_path i) caps"
  have "filter ?P (filterNavigation items caps) = filterNavigation items caps"
    by (rule filter_True) (auto dest: filterNavigation_available)
  moreover have "drop_trailing_sections (filterNavigation items caps) = filterNavigation items caps"
    unfolding filterNavigation_def by (rule drop_trailing_id) (rule drop_trailing_last)
  ultimately show ?thesis by (simp add: filterNavigation_def[of "filterNavigation items caps"])
qed

definition ends_in_link :: "nav_entry list \<Rightarrow> bool" where
  "ends_in_link items \<longleftrightarrow> items = [] \<or> \<not> is_section (last items)"

text \<open>\<open>filterNavigation\<close> keeps exactly the links whose capability is installed, in their order,
  adds nothing, never ends in a heading, and filtering a filtered list changes nothing.\<close>

theorem filterNavigation_correct:
  "filter (\<lambda>i. \<not> is_section i) (filterNavigation items caps) =
     filter (\<lambda>i. \<not> is_section i \<and> pathIsAvailable (entry_path i) caps) items \<and>
   subseq (filterNavigation items caps) items \<and>
   ends_in_link (filterNavigation items caps) \<and>
   filterNavigation (filterNavigation items caps) caps = filterNavigation items caps"
proof -
  have "subseq (filterNavigation items caps) items"
    unfolding filterNavigation_def
    by (rule subseq_order.trans[OF drop_trailing_subseq]) simp
  moreover have "ends_in_link (filterNavigation items caps)"
    unfolding filterNavigation_def ends_in_link_def using drop_trailing_last by blast
  ultimately show ?thesis
    using filterNavigation_links filterNavigation_idem by blast
qed

text \<open>No installed-capability list at all (an older server) hides nothing.\<close>

lemma filterNavigation_no_capabilities:
  "(items \<noteq> [] \<Longrightarrow> \<not> is_section (last items)) \<Longrightarrow> filterNavigation items [] = items"
  by (simp add: filterNavigation_def pathIsAvailable_def drop_trailing_id)

section \<open>What the lists become\<close>

text \<open>
  An entry of the palette or of the dashboard search carries the heading that was last seen
  before it: \<open>buildEntries\<close> starts from \<open>'Pages'\<close>, \<open>entriesFor\<close> from \<open>'Tools'\<close>.
\<close>

record search_entry =
  e_section :: jsstring
  e_label :: jsstring
  e_to :: jsstring
  e_icon :: jsstring
  e_external :: bool
  e_keywords :: jsstring

fun with_sections :: "jsstring \<Rightarrow> nav_entry list \<Rightarrow> search_entry list" where
  "with_sections section [] = []"
| "with_sections section (Section t # rest) =
     (if t \<noteq> [] then with_sections t rest
      else \<lparr>e_section = section, e_label = [], e_to = [], e_icon = [], e_external = False,
            e_keywords = []\<rparr> # with_sections section rest)"
| "with_sections section (Link l p i x # rest) =
     \<lparr>e_section = section, e_label = l, e_to = p, e_icon = i, e_external = x, e_keywords = []\<rparr>
       # with_sections section rest"

definition buildEntries :: "nav_entry list \<Rightarrow> search_entry list" where
  "buildEntries nav = with_sections ''Pages'' nav"

definition entriesFor :: "jsstring \<Rightarrow> jsstring list \<Rightarrow> search_entry list" where
  "entriesFor role capabilities = with_sections ''Tools'' (filterNavigation (nav_for role) capabilities)"

lemma with_sections_paths:
  "map e_to (with_sections s nav) = map entry_path (filter (\<lambda>i. \<not> is_section i) nav)"
  by (induction s nav rule: with_sections.induct) auto

text \<open>The tools menu groups links under their heading and drops the excluded and the empty.\<close>

record nav_group =
  g_label :: jsstring
  g_items :: "nav_entry list"

text \<open>
  \<open>groups\<close> is built by pushing; \<open>current\<close> is the last pushed group. The accumulator holds the
  groups in order, and an empty accumulator is \<open>current === null\<close>.
\<close>

definition add_to_last :: "nav_entry \<Rightarrow> nav_group list \<Rightarrow> nav_group list" where
  "add_to_last item groups =
     (case rev groups of
        [] \<Rightarrow> [\<lparr>g_label = ''Tools'', g_items = [item]\<rparr>]
      | current # before \<Rightarrow> rev before @ [current\<lparr>g_items := g_items current @ [item]\<rparr>])"

fun group_loop :: "jsstring list \<Rightarrow> nav_group list \<Rightarrow> nav_entry list \<Rightarrow> nav_group list" where
  "group_loop excluded groups [] = groups"
| "group_loop excluded groups (item # rest) =
     (case item of
        Section t \<Rightarrow>
          if t \<noteq> [] then group_loop excluded (groups @ [\<lparr>g_label = t, g_items = []\<rparr>]) rest
          else group_loop excluded (add_to_last item groups) rest
      | Link l p i x \<Rightarrow>
          if p \<in> set excluded then group_loop excluded groups rest
          else group_loop excluded (add_to_last item groups) rest)"

definition groupedItems :: "nav_entry list \<Rightarrow> jsstring list \<Rightarrow> nav_group list" where
  "groupedItems nav excluded =
     filter (\<lambda>group. g_items group \<noteq> []) (group_loop excluded [] nav)"

definition CUSTOMER_PRIMARY :: "jsstring list" where
  "CUSTOMER_PRIMARY = [''/dashboard'', ''/domains'', ''/email'', ''/databases'']"

definition ADMIN_PRIMARY :: "jsstring list" where
  "ADMIN_PRIMARY = [''/accounts'', ''/health'', ''/services'']"

text \<open>The groups the page shows; it only distinguishes administrators from everybody else.\<close>

definition moreMenu :: "jsstring \<Rightarrow> jsstring list \<Rightarrow> nav_group list" where
  "moreMenu role capabilities =
     (let isAdmin = (role = ''admin'')
      in groupedItems (filterNavigation (if isAdmin then adminNav else customerNav) capabilities)
           (if isAdmin then ADMIN_PRIMARY else CUSTOMER_PRIMARY))"

lemma concat_add_to_last:
  "concat (map g_items (add_to_last item groups)) = concat (map g_items groups) @ [item]"
proof (cases groups rule: rev_cases)
  case Nil
  then show ?thesis by (simp add: add_to_last_def)
next
  case (snoc gs g)
  then show ?thesis by (simp add: add_to_last_def)
qed

lemma concat_group_loop:
  "concat (map g_items (group_loop excluded groups nav)) =
   concat (map g_items groups) @
     filter (\<lambda>i. \<not> is_section i \<and> (case i of Section _ \<Rightarrow> True | Link _ p _ _ \<Rightarrow> p \<notin> set excluded)) nav"
  by (induction nav arbitrary: groups) (auto simp: concat_add_to_last split: nav_entry.split)

lemma concat_filter_nonempty:
  "concat (map g_items (filter (\<lambda>g. g_items g \<noteq> []) gs)) = concat (map g_items gs)"
  by (induction gs) auto

text \<open>The tools menu shows every link of the list it is given except the excluded ones, each
  exactly once and in order, and shows no empty group.\<close>

theorem groupedItems_partition:
  "concat (map g_items (groupedItems nav excluded)) =
     filter (\<lambda>i. \<not> is_section i \<and> (case i of Section _ \<Rightarrow> True | Link _ p _ _ \<Rightarrow> p \<notin> set excluded)) nav \<and>
   (\<forall>g\<in>set (groupedItems nav excluded). g_items g \<noteq> [])"
  by (auto simp: groupedItems_def concat_filter_nonempty concat_group_loop)

theorem groupedItems_partition_witness:
  "concat (map g_items (groupedItems resellerNav [''/security''])) \<noteq> []"
proof -
  have "filter (\<lambda>i. \<not> is_section i \<and> (case i of Section _ \<Rightarrow> True | Link _ p _ _ \<Rightarrow> p \<notin> set [''/security'']))
          resellerNav \<noteq> []"
    by (simp add: resellerNav_def)
  then show ?thesis
    using groupedItems_partition[of resellerNav "[''/security'']"] by simp
qed

section \<open>The bottom bar on small screens\<close>

definition customerItems :: "(jsstring \<times> jsstring) list" where
  "customerItems =
    [(''Home'', ''/dashboard''), (''Domains'', ''/domains''), (''Email'', ''/email''),
     (''DBs'', ''/databases''), (''WordPress'', ''/wordpress'')]"

definition adminItems :: "(jsstring \<times> jsstring) list" where
  "adminItems =
    [(''Home'', ''/overview''), (''Accounts'', ''/accounts''), (''Health'', ''/health''),
     (''Services'', ''/services''), (''WordPress'', ''/wordpress'')]"

definition resellerItems :: "(jsstring \<times> jsstring) list" where
  "resellerItems =
    [(''Accounts'', ''/reseller''), (''Security'', ''/security''), (''Settings'', ''/appearance'')]"

definition mobileItems :: "jsstring \<Rightarrow> (jsstring \<times> jsstring) list" where
  "mobileItems role =
     (if role = ''admin'' then adminItems else if role = ''reseller'' then resellerItems else customerItems)"

text \<open>
  Unlike every other menu, the bottom bar does not ask which capabilities are installed: on a
  server without mail it still offers the mail page.
\<close>

lemma mobileItems_ignores_capabilities:
  "(''Email'', ''/email'') \<in> set (mobileItems ''customer'') \<and> \<not> pathIsAvailable ''/email'' [''dns'']"
  by (simp add: mobileItems_def customerItems_def pathIsAvailable_def capabilityForPath_def
      PREFIX_CAPABILITY_def startsWith_def)

text \<open>The tools menu takes a reseller for a customer.\<close>

lemma moreMenu_reseller_is_customer:
  "moreMenu ''reseller'' caps = moreMenu ''customer'' caps"
  by (simp add: moreMenu_def)

end
