(* ===== verification/Routing.thy ===== *)
theory Routing
  imports Navigation
begin

text \<open>
  The client-side router: the role guard \<open>ProtectedRoute\<close>
  (\<open>components/auth/ProtectedRoute.jsx\<close>), the route table with its guards and the index redirect
  (\<open>routes.jsx\<close>), the redirect of the sign-in page (\<open>pages/Login.jsx\<close>), and the page titles
  (\<open>lib/route-title.js\<close>).

  Which route of the table a path selects is decided by the router library; here it is a
  parameter \<open>m\<close>, used through the law \<open>matcher_ok\<close>: a path that a route without parameters
  spells out selects that route, and every path selects some route of the table.
\<close>

section \<open>The guard\<close>

datatype guard = NoGuard | AnyRole | AdminOnly | CustomerOnly | ResellerOnly

text \<open>A guard renders its children or navigates; going to the sign-in page it remembers the path.\<close>

datatype verdict =
    Children
  | GoTo jsstring "jsstring option"

definition has_role :: "jsstring option \<Rightarrow> bool" where
  "has_role role \<longleftrightarrow> (case role of None \<Rightarrow> False | Some r \<Rightarrow> r \<noteq> [])"

definition protectedRoute :: "bool \<Rightarrow> bool \<Rightarrow> bool \<Rightarrow> jsstring option \<Rightarrow> jsstring \<Rightarrow> verdict" where
  "protectedRoute adminOnly customerOnly resellerOnly role pathname =
     (if \<not> has_role role then GoTo ''/login'' (Some pathname)
      else if adminOnly \<and> role \<noteq> Some ''admin''
        then GoTo (if role = Some ''reseller'' then ''/reseller'' else ''/dashboard'') None
      else if customerOnly \<and> role \<noteq> Some ''customer''
        then GoTo (if role = Some ''reseller'' then ''/reseller'' else ''/accounts'') None
      else if resellerOnly \<and> role \<noteq> Some ''reseller''
        then GoTo (if role = Some ''admin'' then ''/overview'' else ''/dashboard'') None
      else Children)"

fun run_guard :: "guard \<Rightarrow> jsstring option \<Rightarrow> jsstring \<Rightarrow> verdict" where
  "run_guard NoGuard role p = Children"
| "run_guard AnyRole role p = protectedRoute False False False role p"
| "run_guard AdminOnly role p = protectedRoute True False False role p"
| "run_guard CustomerOnly role p = protectedRoute False True False role p"
| "run_guard ResellerOnly role p = protectedRoute False False True role p"

section \<open>The route table\<close>

datatype element =
    is_Page: Page jsstring
  | LoginPage
  | IndexRedirect
  | RedirectTo jsstring
  | NotFound

record route =
  r_path :: jsstring
  r_guard :: guard
  r_element :: element

abbreviation rt :: "jsstring \<Rightarrow> guard \<Rightarrow> element \<Rightarrow> route" where
  "rt p g e \<equiv> \<lparr>r_path = p, r_guard = g, r_element = e\<rparr>"

text \<open>The children of the guarded shell; their paths are relative to \<open>/\<close>.\<close>

definition shell_routes :: "route list" where
  "shell_routes =
    [rt '''' NoGuard IndexRedirect,
     rt ''overview'' AdminOnly (Page ''Dashboard''),
     rt ''reseller'' ResellerOnly (Page ''Resellers''),
     rt ''appearance'' NoGuard (Page ''Appearance''),
     rt ''dashboard'' CustomerOnly (Page ''Dashboard''),
     rt ''domains'' CustomerOnly (Page ''Domains''),
     rt ''subdomains'' CustomerOnly (Page ''Domains subdomainsOnly''),
     rt ''domains/:domain'' CustomerOnly (Page ''DomainDetail''),
     rt ''redirects'' CustomerOnly (Page ''DomainFeature feature=redirects''),
     rt ''forwarding'' CustomerOnly (Page ''DomainFeature feature=forwarding''),
     rt ''cache'' CustomerOnly (Page ''DomainFeature feature=cache''),
     rt ''website-security'' CustomerOnly (Page ''DomainFeature feature=security''),
     rt ''website-maintenance'' CustomerOnly (Page ''DomainFeature feature=maintenance''),
     rt ''error-pages'' CustomerOnly (Page ''DomainFeature feature=errors''),
     rt ''website-statistics'' CustomerOnly (Page ''DomainFeature feature=statistics''),
     rt ''php'' CustomerOnly (Page ''Php''),
     rt ''email'' CustomerOnly (Page ''Email mode=accounts''),
     rt ''email/settings'' CustomerOnly (Page ''Email mode=settings''),
     rt ''email/spam'' CustomerOnly (Page ''Email mode=spam''),
     rt ''email/migration'' CustomerOnly (Page ''Email mode=migration''),
     rt ''email/dns'' CustomerOnly (Page ''Dns emailOnly''),
     rt ''databases'' CustomerOnly (Page ''Databases''),
     rt ''files'' CustomerOnly (Page ''Files''),
     rt ''backups'' CustomerOnly (Page ''Backups''),
     rt ''backup-jobs'' AdminOnly (Page ''BackupJobs''),
     rt ''apps'' CustomerOnly (Page ''Apps''),
     rt ''node-apps'' CustomerOnly (Page ''Apps type=node''),
     rt ''python-apps'' CustomerOnly (Page ''Apps type=python''),
     rt ''redis'' CustomerOnly (Page ''Redis''),
     rt ''dns'' CustomerOnly (Page ''Dns''),
     rt ''ssl'' AnyRole (Page ''Ssl''),
     rt ''cron'' CustomerOnly (Page ''Cron''),
     rt ''ftp'' CustomerOnly (Page ''Ftp''),
     rt ''git'' CustomerOnly (Page ''Git''),
     rt ''ssh'' CustomerOnly (Page ''SshKeys''),
     rt ''terminal'' CustomerOnly (Page ''Terminal''),
     rt ''devtools'' CustomerOnly (Page ''DevTools''),
     rt ''processes'' CustomerOnly (Page ''Processes''),
     rt ''more'' NoGuard (Page ''MoreMenu''),
     rt ''change-password'' NoGuard (Page ''ChangePassword''),
     rt ''security'' NoGuard (Page ''Security''),
     rt ''logs'' CustomerOnly (Page ''Logs''),
     rt ''disk-usage'' CustomerOnly (Page ''DiskUsage''),
     rt ''site-health'' CustomerOnly (Page ''SiteHealth''),
     rt ''malware'' NoGuard (Page ''MalwareScanner''),
     rt ''tasks'' AnyRole (Page ''Tasks''),
     rt ''accounts'' AdminOnly (Page ''Accounts''),
     rt ''accounts/new'' AdminOnly (Page ''CreateAccount''),
     rt ''accounts/:username'' AdminOnly (Page ''AccountDetail''),
     rt ''plans'' AdminOnly (Page ''Plans''),
     rt ''plans/new'' AdminOnly (Page ''PlanEditor''),
     rt ''plans/:planId/edit'' AdminOnly (Page ''PlanEditor''),
     rt ''resellers'' AdminOnly (Page ''Resellers''),
     rt ''administrators'' AdminOnly (Page ''Administrators''),
     rt ''software/node-apps'' AdminOnly (Page ''SoftwareInventory type=node''),
     rt ''software/python-apps'' AdminOnly (Page ''SoftwareInventory type=python''),
     rt ''panel-settings'' AdminOnly (Page ''PanelSettings''),
     rt ''branding'' AdminOnly (Page ''Branding''),
     rt ''templates'' AdminOnly (Page ''Templates''),
     rt ''accounts/:username/php'' AdminOnly (Page ''Php''),
     rt ''accounts/:username/dns'' AdminOnly (Page ''Dns''),
     rt ''accounts/:username/ssl'' AdminOnly (Page ''Ssl''),
     rt ''accounts/:username/redirects'' AdminOnly (Page ''DomainFeature feature=redirects''),
     rt ''accounts/:username/domains/:domain'' AdminOnly (Page ''DomainDetail''),
     rt ''health'' AdminOnly (Page ''ServerHealth''),
     rt ''diagnostics'' AdminOnly (Page ''Diagnostics''),
     rt ''retention'' AdminOnly (Page ''Retention''),
     rt ''services'' AdminOnly (Page ''Services''),
     rt ''bandwidth'' AdminOnly (Page ''BandwidthRanking''),
     rt ''mail-queue'' AdminOnly (Page ''MailQueue''),
     rt ''mail-tracking'' AdminOnly (Page ''MailTracking''),
     rt ''firewall'' AdminOnly (Page ''Firewall''),
     rt ''openlitespeed'' AdminOnly (Page ''OpenLiteSpeed''),
     rt ''ip-management'' AdminOnly (Page ''IpManagement''),
     rt ''ip-bans'' AdminOnly (Page ''IpBans''),
     rt ''fail2ban'' AdminOnly (Page ''Fail2ban''),
     rt ''ip-whitelist'' AdminOnly (Page ''IpWhitelist''),
     rt ''cloudflare'' AdminOnly (Page ''Cloudflare''),
     rt ''dns-cluster'' AdminOnly (Page ''DnsCluster''),
     rt ''dns-setup'' AdminOnly (Page ''DnsSetup''),
     rt ''server-setup'' AdminOnly (Page ''ServerSetup''),
     rt ''resource-manager'' AdminOnly (Page ''ResourceManager''),
     rt ''filesystem-isolation'' AdminOnly (Page ''FilesystemIsolation''),
     rt ''security-center'' AdminOnly (Page ''SecurityCenter''),
     rt ''stack-manager'' AdminOnly (Page ''StackManager''),
     rt ''audit-log'' AdminOnly (Page ''AuditLog''),
     rt ''account-log'' AdminOnly (Page ''AccountLog''),
     rt ''error-log'' AdminOnly (Page ''ErrorLog''),
     rt ''waf'' AdminOnly (Page ''Waf''),
     rt ''slow-queries'' AdminOnly (Page ''SlowQueries''),
     rt ''webhooks'' AdminOnly (Page ''Webhooks''),
     rt ''notifications'' AdminOnly (Page ''NotificationSettings''),
     rt ''import/accounts'' AdminOnly (Page ''AccountImports''),
     rt ''import/cpanel'' NoGuard (RedirectTo ''/import/accounts''),
     rt ''tokens'' AdminOnly (Page ''ApiTokens''),
     rt ''wordpress'' NoGuard (Page ''WordPressManager''),
     rt ''updates'' AdminOnly (Page ''Updates''),
     rt ''db-monitor'' AdminOnly (Page ''DbMonitor''),
     rt ''maintenance-mode'' AdminOnly (Page ''MaintenanceOverview''),
     rt ''site-stats'' AdminOnly (Page ''SiteStats''),
     rt ''imap-migrations'' AdminOnly (Page ''ImapMigrations''),
     rt ''*'' NoGuard NotFound]"

text \<open>The routes outside the shell have absolute paths.\<close>

definition top_routes :: "route list" where
  "top_routes =
    [rt ''/login'' NoGuard LoginPage,
     rt ''/maintenance'' NoGuard (Page ''Maintenance''),
     rt ''*'' NoGuard NotFound]"

text \<open>A matched route is a top-level one or a child of the shell, whose own guard runs first.\<close>

datatype matched = Top route | InShell route

definition is_static :: "route \<Rightarrow> bool" where
  "is_static r \<longleftrightarrow> CHR '':'' \<notin> set (r_path r) \<and> CHR ''*'' \<notin> set (r_path r)"

definition matcher_ok :: "(jsstring \<Rightarrow> matched) \<Rightarrow> bool" where
  "matcher_ok m \<longleftrightarrow>
     (\<forall>r\<in>set shell_routes. is_static r \<longrightarrow> m (''/'' @ r_path r) = InShell r) \<and>
     (\<forall>r\<in>set top_routes. is_static r \<longrightarrow> m (r_path r) = Top r) \<and>
     (\<forall>p. m p \<in> InShell ` set shell_routes \<union> Top ` set top_routes)"

section \<open>Navigation\<close>

definition landing :: "jsstring \<Rightarrow> jsstring" where
  "landing r = (if r = ''admin'' then ''/overview'' else if r = ''reseller'' then ''/reseller''
                else ''/dashboard'')"

datatype screen =
    Shown element
  | Redirect jsstring "jsstring option"

text \<open>What an element does: pages are shown, the rest may redirect. \<open>from\<close> is the location state.\<close>

fun render_element :: "jsstring option \<Rightarrow> jsstring option \<Rightarrow> element \<Rightarrow> screen" where
  "render_element role from (Page p) = Shown (Page p)"
| "render_element role from NotFound = Shown NotFound"
| "render_element role from (RedirectTo p) = Redirect p None"
| "render_element role from IndexRedirect =
     Redirect (if role = Some ''admin'' then ''/overview''
               else if role = Some ''reseller'' then ''/reseller'' else ''/dashboard'') None"
| "render_element role from LoginPage =
     (case role of
        None \<Rightarrow> Shown LoginPage
      | Some r \<Rightarrow> if r = [] then Shown LoginPage
                  else Redirect (or_string from (landing r)) None)"

fun guarded :: "verdict \<Rightarrow> screen \<Rightarrow> screen" where
  "guarded Children s = s"
| "guarded (GoTo p from) s = Redirect p from"

fun render_matched :: "jsstring option \<Rightarrow> jsstring \<Rightarrow> jsstring option \<Rightarrow> matched \<Rightarrow> screen" where
  "render_matched role pathname from (Top r) =
     guarded (run_guard (r_guard r) role pathname) (render_element role from (r_element r))"
| "render_matched role pathname from (InShell r) =
     guarded (protectedRoute False False False role pathname)
       (guarded (run_guard (r_guard r) role pathname) (render_element role from (r_element r)))"

text \<open>Following redirects, at most \<open>n\<close> of them: the final path and what is shown there.\<close>

fun follow :: "nat \<Rightarrow> (jsstring \<Rightarrow> matched) \<Rightarrow> jsstring option \<Rightarrow> jsstring option \<Rightarrow> jsstring
                 \<Rightarrow> (jsstring \<times> element) option" where
  "follow n m role from pathname =
     (case render_matched role pathname from (m pathname) of
        Shown e \<Rightarrow> Some (pathname, e)
      | Redirect p from' \<Rightarrow>
          (case n of 0 \<Rightarrow> None | Suc n' \<Rightarrow> follow n' m role from' p))"

declare follow.simps [simp del]

text \<open>Which guard lets a role through.\<close>

fun permits :: "guard \<Rightarrow> jsstring \<Rightarrow> bool" where
  "permits NoGuard r = True"
| "permits AnyRole r = (r \<noteq> [])"
| "permits AdminOnly r = (r = ''admin'')"
| "permits CustomerOnly r = (r = ''customer'')"
| "permits ResellerOnly r = (r = ''reseller'')"

definition known_roles :: "jsstring list" where
  "known_roles = [''admin'', ''reseller'', ''customer'']"

definition home_of :: "jsstring \<Rightarrow> jsstring" where
  "home_of r = (if r = ''admin'' then ''/accounts'' else landing r)"

subsection \<open>One guard at a time\<close>

lemma known_role_nonempty: "r \<in> set known_roles \<Longrightarrow> r \<noteq> []"
  by (auto simp: known_roles_def)

lemma shell_guard_known [simp]:
  "r \<noteq> [] \<Longrightarrow> protectedRoute False False False (Some r) p = Children"
  by (simp add: protectedRoute_def has_role_def)

lemma run_guard_children:
  "r \<noteq> [] \<Longrightarrow> run_guard g (Some r) p = Children \<longleftrightarrow> permits g r"
  by (cases g) (auto simp: protectedRoute_def has_role_def)

text \<open>A refused known role is sent to a page that its role opens.\<close>

definition opens :: "(jsstring \<Rightarrow> matched) \<Rightarrow> jsstring \<Rightarrow> jsstring \<Rightarrow> bool" where
  "opens m r p \<longleftrightarrow> (\<exists>q s. m p = InShell q \<and> permits (r_guard q) r \<and> r_element q = Page s)"

lemma opens_shown:
  assumes "opens m r p" "r \<noteq> []"
  shows "\<exists>e. render_matched (Some r) p from (m p) = Shown e"
proof -
  from assms obtain q s where "m p = InShell q" "permits (r_guard q) r" "r_element q = Page s"
    by (auto simp: opens_def)
  then show ?thesis using assms(2) run_guard_children[of r "r_guard q" p] by simp
qed

lemma shell_pages:
  "rt ''overview'' AdminOnly (Page ''Dashboard'') \<in> set shell_routes"
  "rt ''accounts'' AdminOnly (Page ''Accounts'') \<in> set shell_routes"
  "rt ''reseller'' ResellerOnly (Page ''Resellers'') \<in> set shell_routes"
  "rt ''dashboard'' CustomerOnly (Page ''Dashboard'') \<in> set shell_routes"
  "rt ''import/accounts'' AdminOnly (Page ''AccountImports'') \<in> set shell_routes"
  by (simp_all add: shell_routes_def)

lemma matcher_shell:
  "matcher_ok m \<Longrightarrow> r \<in> set shell_routes \<Longrightarrow> is_static r \<Longrightarrow> m (''/'' @ r_path r) = InShell r"
  by (simp add: matcher_ok_def)

lemma matcher_pages:
  assumes "matcher_ok m"
  shows "m ''/overview'' = InShell (rt ''overview'' AdminOnly (Page ''Dashboard''))"
    and "m ''/accounts'' = InShell (rt ''accounts'' AdminOnly (Page ''Accounts''))"
    and "m ''/reseller'' = InShell (rt ''reseller'' ResellerOnly (Page ''Resellers''))"
    and "m ''/dashboard'' = InShell (rt ''dashboard'' CustomerOnly (Page ''Dashboard''))"
    and "m ''/import/accounts'' = InShell (rt ''import/accounts'' AdminOnly (Page ''AccountImports''))"
  using shell_pages[THEN matcher_shell[OF assms]] by (simp_all add: is_static_def)

lemma landing_opens:
  "matcher_ok m \<Longrightarrow> r \<in> set known_roles \<Longrightarrow> opens m r (landing r)"
  by (auto simp: opens_def matcher_pages landing_def known_roles_def)

lemma guard_refusal_opens:
  assumes "matcher_ok m" "r \<in> set known_roles" "run_guard g (Some r) p = GoTo p' from'"
  shows "opens m r p'"
  using assms(2,3)
  by (cases g)
     (auto simp: protectedRoute_def has_role_def known_roles_def opens_def matcher_pages[OF assms(1)]
       split: if_splits)

lemma elements_of_table:
  "q \<in> set shell_routes \<Longrightarrow> r_element q = RedirectTo p \<Longrightarrow> p = ''/import/accounts''"
  "q \<in> set shell_routes \<Longrightarrow> r_element q \<noteq> LoginPage"
  "q \<in> set top_routes \<Longrightarrow> r_guard q = NoGuard"
  "q \<in> set top_routes \<Longrightarrow> r_element q \<noteq> RedirectTo p"
  "q \<in> set top_routes \<Longrightarrow> r_element q \<noteq> IndexRedirect"
  by (auto simp: shell_routes_def top_routes_def)
section \<open>Redirect chains end\<close>

lemma follow_shown:
  "render_matched role p from (m p) = Shown e \<Longrightarrow> follow n m role from p = Some (p, e)"
  by (simp add: follow.simps)

lemma follow_redirect:
  "render_matched role p from (m p) = Redirect p' from' \<Longrightarrow>
     follow (Suc n) m role from p = follow n m role from' p'"
  by (simp add: follow.simps)

text \<open>Where a chain may stop: a page whose guard admits the role, never the sign-in form.\<close>

definition settled :: "(jsstring \<Rightarrow> matched) \<Rightarrow> jsstring \<Rightarrow> (jsstring \<times> element) option \<Rightarrow> bool" where
  "settled m r result \<longleftrightarrow>
     (case result of
        None \<Rightarrow> False
      | Some (p, e) \<Rightarrow> e \<noteq> LoginPage \<and>
          (case m p of InShell q \<Rightarrow> permits (r_guard q) r \<and> r_element q = e
                     | Top q \<Rightarrow> r_element q = e))"

lemma render_shell_shown:
  assumes "render_matched role p from (InShell q) = Shown e"
  shows "\<exists>r. role = Some r \<and> r \<noteq> [] \<and> permits (r_guard q) r"
proof (cases "has_role role")
  case True
  then obtain r where r: "role = Some r" "r \<noteq> []" by (auto simp: has_role_def split: option.splits)
  with assms have "run_guard (r_guard q) (Some r) p = Children"
    by (cases "run_guard (r_guard q) (Some r) p") auto
  with r show ?thesis by (simp add: run_guard_children)
next
  case False
  with assms show ?thesis by (simp add: protectedRoute_def)
qed

lemma settled_opens:
  assumes "opens m r p" "r \<noteq> []"
  shows "settled m r (follow n m (Some r) from p)"
proof -
  from assms obtain q s where q: "m p = InShell q" "permits (r_guard q) r" "r_element q = Page s"
    by (auto simp: opens_def)
  then have "render_matched (Some r) p from (m p) = Shown (Page s)"
    using assms(2) run_guard_children[of r "r_guard q" p] by simp
  from follow_shown[of "Some r" p "from" m, OF this] q show ?thesis
    by (simp add: settled_def)
qed

lemma settled_refused:
  assumes "matcher_ok m" "r \<in> set known_roles" "m p = InShell q"
    and "run_guard (r_guard q) (Some r) p = GoTo p' from'"
  shows "settled m r (follow (Suc n) m (Some r) from p)"
proof -
  have "render_matched (Some r) p from (m p) = Redirect p' from'"
    using assms known_role_nonempty by auto
  moreover have "opens m r p'" using guard_refusal_opens assms(1,2,4) by blast
  ultimately show ?thesis
    using settled_opens known_role_nonempty[OF assms(2)] by (simp add: follow_redirect)
qed

lemma settled_import:
  assumes "matcher_ok m" "r \<in> set known_roles"
  shows "settled m r (follow (Suc n) m (Some r) from ''/import/accounts'')"
proof (cases "run_guard AdminOnly (Some r) ''/import/accounts''")
  case Children
  then have "permits AdminOnly r"
    using run_guard_children known_role_nonempty[OF assms(2)] by blast
  then have "opens m r ''/import/accounts''"
    using matcher_pages(5)[OF assms(1)] by (auto simp: opens_def)
  then show ?thesis using settled_opens known_role_nonempty[OF assms(2)] by blast
next
  case (GoTo p' from')
  then show ?thesis
    by (intro settled_refused[OF assms matcher_pages(5)[OF assms(1)]]) simp
qed

lemma settled_in_shell:
  assumes "matcher_ok m" "r \<in> set known_roles" "m p = InShell q"
  shows "settled m r (follow (Suc (Suc n)) m (Some r) from p)"
proof (cases "run_guard (r_guard q) (Some r) p")
  case (GoTo p' from')
  with assms show ?thesis by (intro settled_refused) auto
next
  case Children
  have "r \<noteq> []" using assms(2) by (rule known_role_nonempty)
  have "q \<in> set shell_routes" using assms(1,3) unfolding matcher_ok_def
    by (metis (no_types, lifting) UnE imageE matched.distinct(1) matched.inject(2))
  have rend: "render_matched (Some r) p from (m p) = render_element (Some r) from (r_element q)"
    using assms(3) Children \<open>r \<noteq> []\<close> by simp
  have perm: "permits (r_guard q) r"
    using run_guard_children[OF \<open>r \<noteq> []\<close>] Children by blast
  show ?thesis
  proof (cases "r_element q")
    case (Page s)
    with rend have "render_matched (Some r) p from (m p) = Shown (Page s)" by simp
    from follow_shown[of "Some r" p "from" m, OF this] perm Page assms(3) show ?thesis
      by (simp add: settled_def)
  next
    case NotFound
    with rend have "render_matched (Some r) p from (m p) = Shown NotFound" by simp
    from follow_shown[of "Some r" p "from" m, OF this] perm NotFound assms(3) show ?thesis
      by (simp add: settled_def)
  next
    case LoginPage
    with elements_of_table(2)[OF \<open>q \<in> set shell_routes\<close>] show ?thesis by simp
  next
    case IndexRedirect
    with rend have "render_matched (Some r) p from (m p) = Redirect (landing r) None"
      by (simp add: landing_def)
    with settled_opens[OF landing_opens[OF assms(1,2)] \<open>r \<noteq> []\<close>] show ?thesis
      by (simp add: follow_redirect)
  next
    case (RedirectTo p')
    with rend have "render_matched (Some r) p from (m p) = Redirect ''/import/accounts'' None"
      using elements_of_table(1)[OF \<open>q \<in> set shell_routes\<close>] by simp
    with settled_import[OF assms(1,2)] show ?thesis by (simp add: follow_redirect)
  qed
qed

text \<open>C40. For each of the three roles the server knows, following redirects from any address
  (including the sign-in page reached from a guarded address) ends after at most three redirects, on
  a page whose guard admits the role, and never on the sign-in form: no redirect loop.\<close>

theorem navigation_settles:
  assumes "matcher_ok m" "r \<in> set known_roles"
    and "from = None \<or> (\<exists>f q. from = Some f \<and> m f = InShell q)"
  shows "settled m r (follow 3 m (Some r) from p)"
proof -
  have ne: "r \<noteq> []" using assms(2) by (rule known_role_nonempty)
  have three: "(3::nat) = Suc (Suc (Suc 0))" by simp
  have "m p \<in> InShell ` set shell_routes \<union> Top ` set top_routes"
    using assms(1) by (simp add: matcher_ok_def)
  then consider (shell) q where "m p = InShell q" | (top) q where "m p = Top q" "q \<in> set top_routes"
    by auto
  then show ?thesis
  proof cases
    case shell
    then show ?thesis using settled_in_shell[OF assms(1,2)] by (simp add: three)
  next
    case top
    then have rend: "render_matched (Some r) p from (m p) = render_element (Some r) from (r_element q)"
      using elements_of_table(3) by simp
    show ?thesis
    proof (cases "r_element q = LoginPage")
      case False
      then obtain e where "render_matched (Some r) p from (m p) = Shown e" "r_element q = e"
        using rend elements_of_table(4,5)[OF top(2)] by (cases "r_element q") auto
      with False top(1) show ?thesis
        using follow_shown[of "Some r" p "from" m e 3] by (simp add: settled_def)
    next
      case True
      let ?t = "or_string from (landing r)"
      have "render_matched (Some r) p from (m p) = Redirect ?t None"
        using True rend ne by simp
      then have "follow 3 m (Some r) from p = follow 2 m (Some r) None ?t"
        using follow_redirect[of "Some r" p "from" m ?t None 2] by (simp add: numeral_eq_Suc)
      moreover have "settled m r (follow 2 m (Some r) None ?t)"
      proof -
        have "?t = landing r \<or> (\<exists>q. m ?t = InShell q)"
          using assms(3) by (auto simp: or_string_def)
        moreover have "\<exists>q. m (landing r) = InShell q"
          using landing_opens[OF assms(1,2)] by (auto simp: opens_def)
        ultimately obtain q' where "m ?t = InShell q'" by auto
        from settled_in_shell[OF assms(1,2) this, where n = 0] show ?thesis by (simp add: numeral_eq_Suc)
      qed
      ultimately show ?thesis by simp
    qed
  qed
qed

text \<open>A concrete matcher: the routes without parameters, and the catch-all otherwise.\<close>

definition static_matcher :: "jsstring \<Rightarrow> matched" where
  "static_matcher p =
     (case List.find (\<lambda>r. is_static r \<and> r_path r = p) top_routes of
        Some r \<Rightarrow> Top r
      | None \<Rightarrow>
          (case List.find (\<lambda>r. is_static r \<and> ''/'' @ r_path r = p) shell_routes of
             Some r \<Rightarrow> InShell r
           | None \<Rightarrow> InShell (rt ''*'' NoGuard NotFound)))"

lemma find_unique:
  assumes "distinct (map f (filter P xs))" "x \<in> set xs" "P x"
  shows "List.find (\<lambda>r. P r \<and> f r = f x) xs = Some x"
  using assms
proof (induction xs)
  case Nil
  then show ?case by simp
next
  case (Cons y ys)
  show ?case
  proof (cases "x = y")
    case True
    with Cons.prems show ?thesis by simp
  next
    case False
    then have "x \<in> set ys" using Cons.prems by simp
    moreover have "\<not> (P y \<and> f y = f x)"
      using Cons.prems \<open>x \<in> set ys\<close> by (auto simp: image_iff)
    ultimately show ?thesis using Cons by (auto split: if_splits)
  qed
qed

lemma shell_paths_distinct: "distinct (map (\<lambda>r. ''/'' @ r_path r) (filter is_static shell_routes))"
  by code_simp

lemma shell_paths_not_top:
  "list_all (\<lambda>r. ''/'' @ r_path r \<noteq> ''/login'' \<and> ''/'' @ r_path r \<noteq> ''/maintenance'') shell_routes"
  by code_simp

lemma static_matcher_shell: "\<forall>r\<in>set shell_routes. is_static r \<longrightarrow> static_matcher (''/'' @ r_path r) = InShell r"
proof (intro ballI impI)
  fix r
  assume r: "r \<in> set shell_routes" "is_static r"
  have "''/'' @ r_path r \<noteq> ''/login'' \<and> ''/'' @ r_path r \<noteq> ''/maintenance''"
    using shell_paths_not_top r(1) unfolding list_all_iff by blast
  then have "List.find (\<lambda>q. is_static q \<and> r_path q = ''/'' @ r_path r) top_routes = None"
    by (auto simp: find_None_iff top_routes_def is_static_def)
  moreover have "List.find (\<lambda>q. is_static q \<and> ''/'' @ r_path q = ''/'' @ r_path r) shell_routes = Some r"
    by (rule find_unique[OF shell_paths_distinct r])
  ultimately show "static_matcher (''/'' @ r_path r) = InShell r"
    by (simp add: static_matcher_def)
qed

lemma static_matcher_top: "\<forall>r\<in>set top_routes. is_static r \<longrightarrow> static_matcher (r_path r) = Top r"
  by (simp add: static_matcher_def top_routes_def is_static_def)

lemma static_matcher_range:
  "static_matcher p \<in> InShell ` set shell_routes \<union> Top ` set top_routes"
proof -
  have "rt ''*'' NoGuard NotFound \<in> set shell_routes" by (simp add: shell_routes_def)
  then show ?thesis
    by (auto simp: static_matcher_def dest: find_Some_iff_mem split: option.split)
qed

lemma static_matcher_ok: "matcher_ok static_matcher"
  unfolding matcher_ok_def using static_matcher_shell static_matcher_top static_matcher_range by blast

theorem navigation_settles_witness:
  "settled static_matcher ''customer''
     (follow 3 static_matcher (Some ''customer'') (Some ''/import/cpanel'') ''/login'')"
proof (rule navigation_settles[OF static_matcher_ok])
  show "''customer'' \<in> set known_roles" by (simp add: known_roles_def)
  have "rt ''import/cpanel'' NoGuard (RedirectTo ''/import/accounts'') \<in> set shell_routes"
    by (simp add: shell_routes_def)
  then have "static_matcher ''/import/cpanel'' = InShell (rt ''import/cpanel'' NoGuard (RedirectTo ''/import/accounts''))"
    using static_matcher_shell by (force simp: is_static_def)
  then show "Some ''/import/cpanel'' = None \<or>
      (\<exists>f q. Some ''/import/cpanel'' = Some f \<and> static_matcher f = InShell q)" by blast
qed

text \<open>C2. Whatever the router matches, an element of the shell is only ever rendered to a signed-in
  user whose role its guard admits.\<close>

theorem guard_sound:
  assumes "render_matched role p from (InShell q) = Shown e"
  shows "\<exists>r. role = Some r \<and> r \<noteq> [] \<and> permits (r_guard q) r \<and>
             (r_element q = e)"
proof -
  obtain r where r: "role = Some r" "r \<noteq> []" "permits (r_guard q) r"
    using render_shell_shown[OF assms] by blast
  then have "render_matched role p from (InShell q) = render_element role from (r_element q)"
    using run_guard_children[of r "r_guard q" p] by simp
  with assms have "render_element role from (r_element q) = Shown e" by simp
  with r show ?thesis by (cases "r_element q") auto
qed

theorem guard_sound_witness:
  "\<exists>r. Some ''admin'' = Some r \<and> r \<noteq> [] \<and> permits AdminOnly r \<and>
       r_element (rt ''accounts'' AdminOnly (Page ''Accounts'')) = Page ''Accounts''"
proof -
  have "render_matched (Some ''admin'') ''/accounts'' None
          (InShell (rt ''accounts'' AdminOnly (Page ''Accounts''))) = Shown (Page ''Accounts'')"
    by (simp add: protectedRoute_def has_role_def)
  from guard_sound[OF this] show ?thesis by simp
qed

text \<open>
  The three-role assumption is needed: for any other role the customer and administrator pages
  refuse it into each other, without end.
\<close>

lemma unknown_role_loops:
  assumes "matcher_ok m" "r \<notin> set known_roles" "r \<noteq> []"
  shows "follow n m (Some r) from ''/dashboard'' = None \<and> follow n m (Some r) from ''/accounts'' = None"
proof (induction n arbitrary: "from")
  have d: "render_matched (Some r) ''/dashboard'' f (m ''/dashboard'') = Redirect ''/accounts'' None" for f
    using assms(2,3) by (simp add: matcher_pages[OF assms(1)] protectedRoute_def has_role_def known_roles_def)
  have a: "render_matched (Some r) ''/accounts'' f (m ''/accounts'') = Redirect ''/dashboard'' None" for f
    using assms(2,3) by (simp add: matcher_pages[OF assms(1)] protectedRoute_def has_role_def known_roles_def)
  {
    case 0
    show ?case using d[of "from"] a[of "from"] by (simp add: follow.simps)
  next
    case (Suc n)
    show ?case using Suc.IH[of None] d[of "from"] a[of "from"] by (simp add: follow.simps[of "Suc n"])
  }
qed

section \<open>Menu entries lead somewhere\<close>

text \<open>\<open>item.to.split('?')[0]\<close>.\<close>

definition path_part :: "jsstring \<Rightarrow> jsstring" where
  "path_part s = hd (split_on CHR ''?'' s)"

text \<open>The addresses of the parameterless pages a role opens.\<close>

definition pages_for :: "jsstring \<Rightarrow> jsstring list" where
  "pages_for r =
     map (\<lambda>q. ''/'' @ r_path q)
       (filter (\<lambda>q. permits (r_guard q) r \<and> is_static q \<and>
                     is_Page (r_element q)) shell_routes)"

lemma pages_for_opens:
  "matcher_ok m \<Longrightarrow> p \<in> set (pages_for r) \<Longrightarrow> opens m r p"
  unfolding pages_for_def
  by (auto dest: matcher_shell simp: opens_def is_Page_def)

definition reaches :: "jsstring list \<Rightarrow> nav_entry \<Rightarrow> bool" where
  "reaches pages item =
     (case item of Section _ \<Rightarrow> True | Link l p i x \<Rightarrow> x \<or> path_part p \<in> set pages)"

lemma admin_nav_reaches: "list_all (reaches (pages_for ''admin'')) adminNav"
  by code_simp

lemma reseller_nav_reaches: "list_all (reaches (pages_for ''reseller'')) resellerNav"
  by code_simp

lemma customer_nav_reaches: "list_all (reaches (pages_for ''customer'')) customerNav"
  by code_simp

lemma nav_entry_opens:
  assumes "matcher_ok m" "r \<in> set known_roles"
    and "Link l p i False \<in> set (filterNavigation (nav_for r) caps)"
  shows "opens m r (path_part p)"
proof -
  have "Link l p i False \<in> set (nav_for r)"
    using filterNavigation_available[OF assms(3)] by simp
  moreover have "list_all (reaches (pages_for r)) (nav_for r)"
    using assms(2) admin_nav_reaches reseller_nav_reaches customer_nav_reaches
    by (auto simp: known_roles_def nav_for_def)
  ultimately have "reaches (pages_for r) (Link l p i False)" unfolding list_all_iff by blast
  then show ?thesis using pages_for_opens[OF assms(1)] by (simp add: reaches_def)
qed

text \<open>Every menu entry a role is offered, after any capability filter, opens a page of the
  panel whose guard admits that role: no menu entry bounces or leads to the not-found page (the one
  external entry leaves the client router).\<close>

theorem nav_links_open:
  assumes "matcher_ok m" "r \<in> set known_roles"
    and "Link l p i False \<in> set (filterNavigation (nav_for r) caps)"
  shows "opens m r (path_part p)"
  using assms by (rule nav_entry_opens)

theorem nav_links_open_witness: "opens static_matcher ''customer'' ''/email''"
proof -
  have "Link ''Webmail'' ''/email?webmail=1'' ''ExternalLink'' False \<in> set customerNav"
    by (simp add: customerNav_def)
  moreover have "filterNavigation customerNav [] = customerNav"
    by (rule filterNavigation_no_capabilities) (simp add: customerNav_def)
  ultimately have "Link ''Webmail'' ''/email?webmail=1'' ''ExternalLink'' False
      \<in> set (filterNavigation (nav_for ''customer'') [])"
    by (simp add: nav_for_def)
  from nav_links_open[OF static_matcher_ok _ this] show ?thesis
    by (simp add: known_roles_def path_part_def)
qed

section \<open>Page titles\<close>

definition exactOverrides :: "(jsstring \<times> jsstring) list" where
  "exactOverrides =
    [(''/appearance'', ''Appearance''), (''/accounts/new'', ''Create account''),
     (''/plans/new'', ''Create plan''), (''/more'', ''More tools'')]"

text \<open>
  \<open>new URLSearchParams(search).get(k)\<close>: the first pair of the query with that key, a leading
  question mark ignored. Keys and values are taken without percent escapes.
\<close>

definition query_get :: "jsstring \<Rightarrow> jsstring \<Rightarrow> jsstring option" where
  "query_get search k =
     (let q = (case search of CHR ''?'' # rest \<Rightarrow> rest | _ \<Rightarrow> search)
      in map_of (map (\<lambda>kv. (takeWhile (\<lambda>c. c \<noteq> CHR ''='') kv,
                             drop 1 (dropWhile (\<lambda>c. c \<noteq> CHR ''='') kv)))
                  (filter (\<lambda>kv. kv \<noteq> []) (split_on CHR ''&'' q))) k)"

text \<open>
  The regular expressions of the source match a whole path of fixed segments, with \<open>[^/]+\<close> for a
  non-empty one: on the list of segments they are patterns.
\<close>

fun title_pattern :: "jsstring list \<Rightarrow> jsstring option" where
  "title_pattern segs =
     (case segs of
        [a, b, c, d] \<Rightarrow>
          if a = [] \<and> b = ''plans'' \<and> c \<noteq> [] \<and> d = ''edit'' then Some ''Edit plan''
          else if a = [] \<and> b = ''accounts'' \<and> c \<noteq> [] \<and> d = ''php'' then Some ''PHP Settings''
          else if a = [] \<and> b = ''accounts'' \<and> c \<noteq> [] \<and> d = ''dns'' then Some ''DNS Management''
          else if a = [] \<and> b = ''accounts'' \<and> c \<noteq> [] \<and> d = ''ssl'' then Some ''SSL Certificates''
          else if a = [] \<and> b = ''accounts'' \<and> c \<noteq> [] \<and> d = ''redirects'' then Some ''Redirects''
          else None
      | [a, b, c, d, e] \<Rightarrow>
          if a = [] \<and> b = ''accounts'' \<and> c \<noteq> [] \<and> d = ''domains'' \<and> e \<noteq> [] then Some ''Domain'' else None
      | [a, b, c] \<Rightarrow>
          if a = [] \<and> b = ''accounts'' \<and> c \<noteq> [] then Some ''Account''
          else if a = [] \<and> b = ''domains'' \<and> c \<noteq> [] then Some ''Domain''
          else None
      | _ \<Rightarrow> None)"

definition nav_label :: "nav_entry list \<Rightarrow> jsstring \<Rightarrow> jsstring option" where
  "nav_label nav pathname =
     (case List.find (\<lambda>item. case item of Section _ \<Rightarrow> False
                                        | Link _ p _ _ \<Rightarrow> path_part p = pathname) nav of
        Some (Link l _ _ _) \<Rightarrow> Some l
      | _ \<Rightarrow> None)"

definition routeTitle :: "jsstring \<Rightarrow> jsstring \<Rightarrow> jsstring \<Rightarrow> jsstring" where
  "routeTitle pathname search role =
     (if pathname = ''/email'' \<and> query_get search ''webmail'' = Some ''1'' then ''Webmail''
      else (case map_of exactOverrides pathname of
        Some t \<Rightarrow> t
      | None \<Rightarrow>
          (case title_pattern (split_on CHR ''/'' pathname) of
             Some t \<Rightarrow> t
           | None \<Rightarrow> or_string (nav_label (nav_for role) pathname) ''Boron Panel'')))"

definition titled :: "jsstring \<Rightarrow> nav_entry \<Rightarrow> bool" where
  "titled role item =
     (case item of
        Section _ \<Rightarrow> True
      | Link l p i x \<Rightarrow> routeTitle (path_part p) (drop (length (path_part p)) p) role = l)"

lemma titles_checked:
  "list_all (titled ''admin'') adminNav" "list_all (titled ''reseller'') resellerNav"
  "list_all (titled ''customer'') customerNav"
  by code_simp+

text \<open>The title shown on the page a menu entry opens is the label of that menu entry, for every
  role (the two entries that share the mail page are told apart by the query).\<close>

theorem routeTitle_is_label:
  assumes "r \<in> set known_roles" "Link l p i x \<in> set (nav_for r)"
  shows "routeTitle (path_part p) (drop (length (path_part p)) p) r = l"
proof -
  have "list_all (titled r) (nav_for r)"
    using assms(1) titles_checked by (auto simp: known_roles_def nav_for_def)
  then have "titled r (Link l p i x)" using assms(2) unfolding list_all_iff by blast
  then show ?thesis by (simp add: titled_def)
qed

theorem routeTitle_is_label_witness: "routeTitle ''/email'' ''?webmail=1'' ''customer'' = ''Webmail''"
proof -
  have "Link ''Webmail'' ''/email?webmail=1'' ''ExternalLink'' False \<in> set (nav_for ''customer'')"
    by (simp add: nav_for_def customerNav_def)
  from routeTitle_is_label[OF _ this] show ?thesis by (simp add: known_roles_def path_part_def)
qed

end
