(* ===== verification/Search.thy ===== *)
theory Search
  imports Navigation
begin

text \<open>
  The tool search shared by the sidebar, the dashboard and the command palette
  (\<open>config/search.js\<close>): text normalisation, the row-by-row edit distance, the score of an entry
  and the ranked result list.
\<close>

section \<open>Normalisation\<close>

text \<open>
  Compatibility decomposition followed by the removal of the combining marks, on Latin-1. The two
  decompositions that leave Latin-1 (the fraction slash and the Greek mu) put a space there: the
  next step turns them into one anyway.
\<close>

definition nfkd_base :: "char \<Rightarrow> jsstring" where
  "nfkd_base c =
     (let n = code c in
      if n = 160 \<or> n = 168 \<or> n = 175 \<or> n = 180 \<or> n = 181 \<or> n = 184 then '' ''
      else if n = 170 \<or> n = 224 \<or> n = 225 \<or> n = 226 \<or> n = 227 \<or> n = 228
      \<or> n = 229 then ''a''
      else if n = 178 then ''2''
      else if n = 179 then ''3''
      else if n = 185 then ''1''
      else if n = 186 \<or> n = 242 \<or> n = 243 \<or> n = 244 \<or> n = 245 \<or> n = 246
      then ''o''
      else if n = 188 then ''1 4''
      else if n = 189 then ''1 2''
      else if n = 190 then ''3 4''
      else if n = 192 \<or> n = 193 \<or> n = 194 \<or> n = 195 \<or> n = 196 \<or> n = 197
      then ''A''
      else if n = 199 then ''C''
      else if n = 200 \<or> n = 201 \<or> n = 202 \<or> n = 203 then ''E''
      else if n = 204 \<or> n = 205 \<or> n = 206 \<or> n = 207 then ''I''
      else if n = 209 then ''N''
      else if n = 210 \<or> n = 211 \<or> n = 212 \<or> n = 213 \<or> n = 214 then ''O''
      else if n = 217 \<or> n = 218 \<or> n = 219 \<or> n = 220 then ''U''
      else if n = 221 then ''Y''
      else if n = 231 then ''c''
      else if n = 232 \<or> n = 233 \<or> n = 234 \<or> n = 235 then ''e''
      else if n = 236 \<or> n = 237 \<or> n = 238 \<or> n = 239 then ''i''
      else if n = 241 then ''n''
      else if n = 249 \<or> n = 250 \<or> n = 251 \<or> n = 252 then ''u''
      else if n = 253 \<or> n = 255 then ''y''
      else [c])"

definition alnum :: "char \<Rightarrow> bool" where
  "alnum c \<longleftrightarrow> is_lower c \<or> is_digit c"

text \<open>\<open>replace(/[^a-z0-9]+/g, ' ')\<close>: each maximal run of other characters becomes one space.\<close>

function squeeze :: "jsstring \<Rightarrow> jsstring" where
  "squeeze [] = []"
| "squeeze (c # cs) =
     (if alnum c then c # squeeze cs
      else CHR '' '' # squeeze (dropWhile (\<lambda>x. \<not> alnum x) cs))"
  by pat_completeness auto
termination
  by (relation "measure length") (auto simp: less_Suc_eq_le length_dropWhile_le)

definition fold_case :: "jsstring \<Rightarrow> jsstring" where
  "fold_case s = toLowerCase (concat (map nfkd_base s))"

definition normalize :: "jsstring \<Rightarrow> jsstring" where
  "normalize text = trim (squeeze (fold_case text))"

subsection \<open>Normalised text is the list of its words\<close>

fun fields :: "('a \<Rightarrow> bool) \<Rightarrow> 'a list \<Rightarrow> 'a list list" where
  "fields P [] = [[]]"
| "fields P (x # xs) =
     (if P x then [] # fields P xs
      else (case fields P xs of [] \<Rightarrow> [[x]] | w # ws \<Rightarrow> (x # w) # ws))"

definition word_runs :: "jsstring \<Rightarrow> jsstring list" where
  "word_runs s = filter (\<lambda>w. w \<noteq> []) (fields (\<lambda>c. \<not> alnum c) s)"

lemma fields_nonempty [simp]: "fields P s \<noteq> []"
  by (induction s) (auto split: list.splits)

lemma fields_append_sep: "P c \<Longrightarrow> fields P (a @ c # b) = fields P a @ fields P b"
  by (induction a) (auto split: list.splits)

lemma word_runs_append_sep:
  "\<not> alnum c \<Longrightarrow> word_runs (a @ c # b) = word_runs a @ word_runs b"
  by (simp add: word_runs_def fields_append_sep)

lemma word_runs_sep_Cons: "\<not> alnum c \<Longrightarrow> word_runs (c # b) = word_runs b"
  using word_runs_append_sep[of c "[]" b] by (simp add: word_runs_def)

lemma word_runs_Nil [simp]: "word_runs [] = []"
  by (simp add: word_runs_def)

lemma fields_all: "\<forall>c\<in>set w. \<not> P c \<Longrightarrow> fields P w = [w]"
  by (induction w) auto

lemma word_runs_word: "w \<noteq> [] \<Longrightarrow> \<forall>c\<in>set w. alnum c \<Longrightarrow> word_runs w = [w]"
  by (simp add: word_runs_def fields_all)

lemma fields_elems: "\<forall>w\<in>set (fields P s). \<forall>c\<in>set w. \<not> P c \<and> c \<in> set s"
proof (induction s)
  case Nil
  then show ?case by simp
next
  case (Cons x xs)
  obtain v vs where v: "fields P xs = v # vs" by (metis neq_Nil_conv fields_nonempty)
  show ?case using Cons.IH v by simp
qed

lemma word_runs_elems: "w \<in> set (word_runs s) \<Longrightarrow> w \<noteq> [] \<and> (\<forall>c\<in>set w. alnum c)"
  unfolding word_runs_def using fields_elems by fastforce

lemma word_runs_dropWhile: "word_runs (dropWhile (\<lambda>x. \<not> alnum x) s) = word_runs s"
  by (induction s) (auto simp: word_runs_sep_Cons)

lemma alnum_not_space: "alnum c \<Longrightarrow> \<not> is_space c"
  by (auto simp: alnum_def is_lower_def is_digit_def is_space_def)

lemma not_alnum_space: "\<not> alnum (CHR '' '')"
  by (simp add: alnum_def is_lower_def is_digit_def code_def)

lemma is_space_space: "is_space (CHR '' '')"
  by (simp add: is_space_def code_def)

definition rtrim :: "jsstring \<Rightarrow> jsstring" where
  "rtrim s = rev (dropWhile is_space (rev s))"

lemma rtrim_append_space:
  assumes "w \<noteq> []" "\<forall>c\<in>set w. \<not> is_space c"
  shows "rtrim (w @ CHR '' '' # s) = (if rtrim s = [] then w else w @ CHR '' '' # rtrim s)"
proof (cases "dropWhile is_space (rev s) = []")
  case True
  have "dropWhile is_space (rev w) = rev w"
    using assms by (metis dropWhile_eq_self_hd hd_in_set set_rev)
  with True show ?thesis
    by (simp add: rtrim_def dropWhile_append3 dropWhile_append is_space_space)
next
  case False
  then obtain x where "x \<in> set (rev s)" "\<not> is_space x" by auto
  then have "rtrim (w @ CHR '' '' # s) = w @ CHR '' '' # rtrim s"
    by (simp add: rtrim_def dropWhile_append1)
  with False show ?thesis by (simp add: rtrim_def)
qed

lemma squeeze_word: "\<forall>c\<in>set w. alnum c \<Longrightarrow> squeeze (w @ s) = w @ squeeze s"
  by (induction w) auto

lemma rtrim_id: "\<forall>c\<in>set w. \<not> is_space c \<Longrightarrow> rtrim w = w"
  unfolding rtrim_def by (metis dropWhile_eq_self_hd hd_in_set rev_rev_ident set_rev)

lemma join_with_Cons: "ws \<noteq> [] \<Longrightarrow> join_with sep (w # ws) = w @ sep @ join_with sep ws"
  by (cases ws) auto

lemma join_with_eq_Nil: "\<forall>w\<in>set ws. w \<noteq> [] \<Longrightarrow> join_with sep ws = [] \<longleftrightarrow> ws = []"
  by (cases ws; cases "tl ws") (auto simp: neq_Nil_conv)

lemma rtrim_squeeze:
  "(s \<noteq> [] \<Longrightarrow> alnum (hd s)) \<Longrightarrow> rtrim (squeeze s) = join_with '' '' (word_runs s)"
proof (induction s rule: length_induct)
  case (1 s)
  show ?case
  proof (cases "s = []")
    case True
    then show ?thesis by (simp add: rtrim_def)
  next
    case False
    let ?w = "takeWhile alnum s" and ?r = "dropWhile alnum s"
    have w: "?w \<noteq> []" "\<forall>c\<in>set ?w. alnum c"
      using "1.prems" False by (cases s; auto dest: set_takeWhileD)+
    then have nsp: "\<forall>c\<in>set ?w. \<not> is_space c" using alnum_not_space by blast
    have s: "s = ?w @ ?r" by simp
    show ?thesis
    proof (cases ?r)
      case Nil
      then have ts: "takeWhile alnum s = s" by (metis append_Nil2 takeWhile_dropWhile_id)
      then have "\<forall>c\<in>set s. alnum c" using w(2) by simp
      then show ?thesis
        using False squeeze_word[of s "[]"] alnum_not_space
        by (simp add: word_runs_word rtrim_id)
    next
      case (Cons c cs)
      then have c: "\<not> alnum c" by (metis hd_dropWhile list.distinct(1) list.sel(1))
      let ?t = "dropWhile (\<lambda>x. \<not> alnum x) cs"
      have sq: "squeeze s = ?w @ CHR '' '' # squeeze ?t"
        using squeeze_word[OF w(2), of ?r] Cons c s by simp
      have wr: "word_runs s = ?w # word_runs ?t"
        using word_runs_append_sep[OF c, of ?w cs] Cons s word_runs_word[OF w]
        by (simp add: word_runs_dropWhile)
      have "length ?t \<le> length cs" by (rule length_dropWhile_le)
      moreover have "length s = length ?w + Suc (length cs)"
        by (subst s) (simp add: Cons)
      ultimately have "length ?t < length s" by simp
      moreover have "?t \<noteq> [] \<Longrightarrow> alnum (hd ?t)" using hd_dropWhile by blast
      ultimately have IH: "rtrim (squeeze ?t) = join_with '' '' (word_runs ?t)"
        using "1.IH" by blast
      have "join_with '' '' (word_runs ?t) = [] \<longleftrightarrow> word_runs ?t = []"
        by (rule join_with_eq_Nil) (use word_runs_elems in blast)
      then show ?thesis
        using rtrim_append_space[OF w(1) nsp, of "squeeze ?t"] IH
        by (auto simp: sq wr join_with_Cons)
    qed
  qed
qed

lemma trim_squeeze: "trim (squeeze s) = join_with '' '' (word_runs s)"
proof (cases "s = [] \<or> alnum (hd s)")
  case True
  have hd: "squeeze s \<noteq> [] \<Longrightarrow> \<not> is_space (hd (squeeze s))"
    using True alnum_not_space by (cases s) auto
  then have "dropWhile is_space (squeeze s) = squeeze s" by (rule dropWhile_eq_self_hd)
  then have "trim (squeeze s) = rtrim (squeeze s)" by (simp add: trim_def rtrim_def)
  with True rtrim_squeeze show ?thesis by auto
next
  case False
  then obtain c cs where s: "s = c # cs" "\<not> alnum c" by (cases s) auto
  let ?t = "dropWhile (\<lambda>x. \<not> alnum x) cs"
  have t: "?t \<noteq> [] \<Longrightarrow> alnum (hd ?t)" using hd_dropWhile by blast
  then have "squeeze ?t \<noteq> [] \<Longrightarrow> \<not> is_space (hd (squeeze ?t))"
    using alnum_not_space by (cases ?t) auto
  then have "dropWhile is_space (squeeze ?t) = squeeze ?t" by (rule dropWhile_eq_self_hd)
  then have "trim (squeeze s) = rtrim (squeeze ?t)"
    using s by (simp add: trim_def rtrim_def is_space_space)
  with t rtrim_squeeze[of ?t] s show ?thesis
    by (simp add: word_runs_dropWhile word_runs_sep_Cons)
qed

lemma normalize_words: "normalize s = join_with '' '' (word_runs (fold_case s))"
  by (simp add: normalize_def trim_squeeze)

lemma nfkd_base_ascii: "code c < 128 \<Longrightarrow> nfkd_base c = [c]"
  unfolding nfkd_base_def Let_def by simp

lemma nfkd_base_alnum: "alnum c \<or> c = CHR '' '' \<Longrightarrow> nfkd_base c = [c]"
  by (rule nfkd_base_ascii) (auto simp: alnum_def is_lower_def is_digit_def code_def)

lemma lower_char_alnum: "alnum c \<or> c = CHR '' '' \<Longrightarrow> lower_char c = c"
  by (auto simp: lower_char_def Let_def alnum_def is_lower_def is_digit_def code_def)

lemma fold_case_id: "\<forall>c\<in>set s. alnum c \<or> c = CHR '' '' \<Longrightarrow> fold_case s = s"
  by (induction s) (auto simp: fold_case_def nfkd_base_alnum lower_char_alnum toLowerCase_def)

lemma word_runs_join:
  "\<forall>w\<in>set ws. w \<noteq> [] \<and> (\<forall>c\<in>set w. alnum c) \<Longrightarrow> word_runs (join_with '' '' ws) = ws"
proof (induction ws)
  case Nil
  then show ?case by simp
next
  case (Cons w ws)
  show ?case
  proof (cases "ws = []")
    case True
    with Cons.prems show ?thesis by (simp add: word_runs_word)
  next
    case False
    have w: "word_runs w = [w]" using Cons.prems by (intro word_runs_word) auto
    have "word_runs (join_with '' '' (w # ws)) = word_runs (w @ CHR '' '' # join_with '' '' ws)"
      using False by (simp add: join_with_Cons)
    also have "\<dots> = word_runs w @ word_runs (join_with '' '' ws)"
      by (rule word_runs_append_sep) (rule not_alnum_space)
    finally show ?thesis using Cons w by simp
  qed
qed

lemma set_join_with: "set (join_with sep ws) \<subseteq> (\<Union>w\<in>set ws. set w) \<union> set sep"
  by (induction sep ws rule: join_with.induct) auto

lemma split_join:
  "ws \<noteq> [] \<Longrightarrow> \<forall>w\<in>set ws. CHR '' '' \<notin> set w \<Longrightarrow> split_on CHR '' '' (join_with '' '' ws) = ws"
proof (induction ws)
  case Nil
  then show ?case by simp
next
  case (Cons w ws)
  have nosep: "CHR '' '' \<notin> set w \<Longrightarrow> split_on CHR '' '' (w @ CHR '' '' # s) = w # split_on CHR '' '' s" for s w
    by (induction w) auto
  have alone: "CHR '' '' \<notin> set w \<Longrightarrow> split_on CHR '' '' w = [w]" for w
    by (induction w) auto
  from Cons show ?case
    by (cases "ws = []") (auto simp: nosep alone join_with_Cons)
qed

text \<open>The normal form: words of lower-case letters and digits, one space between two words.\<close>

definition normal_text :: "jsstring \<Rightarrow> bool" where
  "normal_text s \<longleftrightarrow> (\<exists>ws. s = join_with '' '' ws \<and> (\<forall>w\<in>set ws. w \<noteq> [] \<and> (\<forall>c\<in>set w. alnum c)))"

lemma normal_text_normalize: "normal_text (normalize s)"
  unfolding normal_text_def using normalize_words word_runs_elems by blast

lemma normalize_normal_text:
  assumes "normal_text s"
  shows "normalize s = s"
proof -
  from assms obtain ws where ws: "s = join_with '' '' ws"
      "\<forall>w\<in>set ws. w \<noteq> [] \<and> (\<forall>c\<in>set w. alnum c)"
    by (auto simp: normal_text_def)
  then have "\<forall>c\<in>set s. alnum c \<or> c = CHR '' ''"
    using set_join_with[of "'' ''" ws] by auto
  then have "fold_case s = s" by (rule fold_case_id)
  then show ?thesis using ws by (simp add: normalize_words word_runs_join)
qed

interpretation search_text: sanitizer normalize normal_text
  by unfold_locales (rule normal_text_normalize, rule normalize_normal_text)

text \<open>Normalising search text is idempotent, and its result is always a sequence of non-empty
  words over \<open>a-z0-9\<close> separated by single spaces, without leading or trailing space.\<close>

theorem normalize_canonical:
  "normalize (normalize s) = normalize s \<and> normal_text (normalize s) \<and>
   trim (normalize s) = normalize s"
  using search_text.idem search_text.valid_norm trim_idem unfolding normalize_def by blast

section \<open>Edit distance\<close>

text \<open>
  \<open>next[j] = min (next[j-1] + 1, row[j] + 1, row[j-1] + (a[i-1] !== b[j-1]))\<close>: \<open>lft\<close> is
  \<open>next[j-1]\<close>, the row list starts at \<open>row[j-1]\<close>.
\<close>

fun next_cells :: "char \<Rightarrow> jsstring \<Rightarrow> nat list \<Rightarrow> nat \<Rightarrow> nat list" where
  "next_cells x (y # ys) (diag # up # row) lft =
     (let cell = min (lft + 1) (min (up + 1) (diag + (if x \<noteq> y then 1 else 0)))
      in cell # next_cells x ys (up # row) cell)"
| "next_cells x _ _ lft = []"

fun distance_rows :: "jsstring \<Rightarrow> jsstring \<Rightarrow> nat \<Rightarrow> nat list \<Rightarrow> nat list" where
  "distance_rows [] b i row = row"
| "distance_rows (x # xs) b i row = distance_rows xs b (i + 1) (i # next_cells x b row i)"

definition distance :: "jsstring \<Rightarrow> jsstring \<Rightarrow> nat" where
  "distance a b = distance_rows a b 1 [0..<length b + 1] ! length b"

subsection \<open>Specification: the least number of edits\<close>

text \<open>\<open>edits n a b\<close>: \<open>a\<close> becomes \<open>b\<close> by \<open>n\<close> insertions, deletions and substitutions.\<close>

inductive edits :: "nat \<Rightarrow> 'a list \<Rightarrow> 'a list \<Rightarrow> bool" where
  edits_Nil: "edits 0 [] []"
| edits_keep: "edits n a b \<Longrightarrow> edits n (a @ [x]) (b @ [x])"
| edits_subst: "edits n a b \<Longrightarrow> edits (Suc n) (a @ [x]) (b @ [y])"
| edits_del: "edits n a b \<Longrightarrow> edits (Suc n) (a @ [x]) b"
| edits_ins: "edits n a b \<Longrightarrow> edits (Suc n) a (b @ [y])"

definition least_edits :: "nat \<Rightarrow> 'a list \<Rightarrow> 'a list \<Rightarrow> bool" where
  "least_edits n a b \<longleftrightarrow> edits n a b \<and> (\<forall>k. edits k a b \<longrightarrow> n \<le> k)"

lemma edits_length: "edits n a b \<Longrightarrow> length a \<le> length b + n \<and> length b \<le> length a + n"
  by (induction rule: edits.induct) auto

lemma least_Nil_left: "least_edits (length b) [] (b :: 'a list)"
proof -
  have "edits (length b) [] b"
    by (induction b rule: rev_induct) (auto intro: edits.intros)
  then show ?thesis using edits_length by (fastforce simp: least_edits_def)
qed

lemma least_Nil_right: "least_edits (length a) (a :: 'a list) []"
proof -
  have "edits (length a) a []"
    by (induction a rule: rev_induct) (auto intro: edits.intros)
  then show ?thesis using edits_length by (fastforce simp: least_edits_def)
qed

lemma least_step:
  assumes diag: "least_edits d a b" and up: "least_edits u a (b @ [y])"
    and lft: "least_edits l (a @ [x]) b"
  shows "least_edits (min (l + 1) (min (u + 1) (d + (if x \<noteq> y then 1 else 0)))) (a @ [x]) (b @ [y])"
proof -
  let ?m = "min (l + 1) (min (u + 1) (d + (if x \<noteq> y then 1 else 0)))"
  have e: "edits (d + (if x \<noteq> y then 1 else 0)) (a @ [x]) (b @ [y])" "edits (u + 1) (a @ [x]) (b @ [y])"
    "edits (l + 1) (a @ [x]) (b @ [y])"
    using assms edits_keep[of d a b x] edits_subst[of d a b x y] edits_del[of u a "b @ [y]" x]
      edits_ins[of l "a @ [x]" b y]
    by (auto simp: least_edits_def)
  then have "edits ?m (a @ [x]) (b @ [y])" by (auto simp: min_def)
  moreover have "?m \<le> k" if "edits k (a @ [x]) (b @ [y])" for k
    using that
  proof (cases rule: edits.cases)
    case edits_keep
    with diag have "d \<le> k" "x = y" by (auto simp: least_edits_def)
    then show ?thesis by simp
  next
    case (edits_subst n)
    with diag have "d \<le> n" by (auto simp: least_edits_def)
    then show ?thesis using edits_subst by auto
  next
    case (edits_del n)
    with up have "u \<le> n" by (auto simp: least_edits_def)
    then show ?thesis using edits_del by auto
  next
    case (edits_ins n)
    with lft have "l \<le> n" by (auto simp: least_edits_def)
    then show ?thesis using edits_ins by auto
  qed simp
  ultimately show ?thesis by (simp add: least_edits_def)
qed

lemma length_next_cells: "length row = length ys + 1 \<Longrightarrow> length (next_cells x ys row lft) = length ys"
  by (induction x ys row lft rule: next_cells.induct) (auto simp: Let_def)

lemma next_cells_least:
  assumes "length row = length ys + 1" "\<forall>k\<le>length ys. least_edits (row ! k) a (p @ take k ys)"
    and "least_edits lft (a @ [x]) p" "k < length ys"
  shows "least_edits (next_cells x ys row lft ! k) (a @ [x]) (p @ take (Suc k) ys)"
  using assms
proof (induction ys arbitrary: row lft p k)
  case Nil
  then show ?case by simp
next
  case (Cons y ys)
  then obtain diag up rest where row: "row = diag # up # rest"
    by (metis One_nat_def Suc_length_conv add.right_neutral add_Suc_right length_Cons)
  let ?cell = "min (lft + 1) (min (up + 1) (diag + (if x \<noteq> y then 1 else 0)))"
  have d: "least_edits diag a p" using Cons.prems(2) row by (metis append_Nil2 le0 nth_Cons_0 take0)
  have u: "least_edits up a (p @ [y])"
    using Cons.prems(2)[rule_format, of 1] row by simp
  have cell: "least_edits ?cell (a @ [x]) (p @ [y])"
    by (rule least_step[OF d u Cons.prems(3)])
  show ?case
  proof (cases k)
    case 0
    then show ?thesis using cell row by (simp add: Let_def)
  next
    case (Suc k')
    have "\<forall>j\<le>length ys. least_edits ((up # rest) ! j) a ((p @ [y]) @ take j ys)"
    proof (intro allI impI)
      fix j
      assume "j \<le> length ys"
      with Cons.prems(2)[rule_format, of "Suc j"] row
      show "least_edits ((up # rest) ! j) a ((p @ [y]) @ take j ys)" by simp
    qed
    with Cons.IH[of "up # rest" "p @ [y]" ?cell k'] Cons.prems(1,4) cell row Suc
    show ?thesis by (simp add: Let_def)
  qed
qed

text \<open>The row after the first \<open>i\<close> characters of the first string.\<close>

definition row_ok :: "jsstring \<Rightarrow> jsstring \<Rightarrow> nat list \<Rightarrow> bool" where
  "row_ok a b row \<longleftrightarrow> length row = length b + 1 \<and> (\<forall>k\<le>length b. least_edits (row ! k) a (take k b))"

lemma row_ok_start: "row_ok [] b [0..<length b + 1]"
proof -
  have "least_edits ([0..<length b + 1] ! k) [] (take k b)" if "k \<le> length b" for k
  proof -
    have "length (take k b) = k" using that by simp
    then have "least_edits k [] (take k b)" using least_Nil_left[of "take k b"] by simp
    moreover have "[0..<length b + 1] ! k = k" using that by (simp add: nth_upt del: upt_Suc)
    ultimately show ?thesis by simp
  qed
  then show ?thesis by (simp add: row_ok_def)
qed

lemma row_ok_step:
  assumes "row_ok a b row"
  shows "row_ok (a @ [x]) b (Suc (length a) # next_cells x b row (Suc (length a)))"
proof -
  have len: "length row = length b + 1" using assms by (simp add: row_ok_def)
  have first: "least_edits (Suc (length a)) (a @ [x]) []"
    using least_Nil_right[of "a @ [x]"] by simp
  have "least_edits (next_cells x b row (Suc (length a)) ! k) (a @ [x]) (take (Suc k) b)" if "k < length b" for k
    using next_cells_least[of row b a "[]" "Suc (length a)" x k] assms that first
    by (simp add: row_ok_def)
  with first show ?thesis
    using length_next_cells[OF len] by (auto simp: row_ok_def nth_Cons split: nat.split)
qed

lemma row_ok_rows:
  "row_ok a b row \<Longrightarrow> row_ok (a @ xs) b (distance_rows xs b (Suc (length a)) row)"
proof (induction xs arbitrary: a row)
  case Nil
  then show ?case by simp
next
  case (Cons x xs)
  then have "row_ok ((a @ [x]) @ xs) b
      (distance_rows xs b (Suc (length (a @ [x]))) (Suc (length a) # next_cells x b row (Suc (length a))))"
    using row_ok_step by blast
  then show ?case by simp
qed

text \<open>C24. The two-row dynamic program returns the least number of single-character insertions,
  deletions and substitutions that turn the first string into the second.\<close>

theorem distance_least: "least_edits (distance a b) a b"
proof -
  have "row_ok a b (distance_rows a b 1 [0..<length b + 1])"
    using row_ok_rows[OF row_ok_start[of b], of a] by (simp del: upt_Suc)
  then show ?thesis by (auto simp: row_ok_def distance_def)
qed

section \<open>Scoring\<close>

definition synonyms :: "(jsstring \<times> jsstring) list" where
  "synonyms =
    [(''/panel-settings'', ''panel configuration admin administrator customer user port ports listener address access 2222''),
     (''/node-apps'', ''node nodejs node.js javascript application apps express npm runtime''),
     (''/python-apps'', ''python application apps django flask fastapi wsgi asgi pip runtime''),
     (''/wordpress'', ''wordpress wp blog website cms softaculous installer install clone staging backup login plugins themes''),
     (''/dns'', ''dns zone editor zones records nameserver nameservers a aaaa cname mx txt spf dkim domain name management''),
     (''/email/dns'', ''email mail dns records mx spf dkim dmarc autodiscover zone editor deliverability''),
     (''/domains'', ''domain subdomain addon parked alias website redirect''),
     (''/subdomains'', ''subdomain child domain website create public html''),
     (''/email'', ''email mail mailbox webmail forwarder forwarding autoresponder autoresponders vacation smtp imap inbox''),
     (''/email/settings'', ''email settings mail forwarder forwarding catch all spam filter autoresponder routing smtp imap migration''),
     (''/databases'', ''database mysql mariadb sql phpmyadmin db users''),
     (''/files'', ''file manager upload download folders permissions documents''),
     (''/ssl'', ''ssl tls https certificate lets encrypt certbot renew wildcard domain security''),
     (''/backup-jobs'', ''backup restore recovery snapshots jetbackup incremental schedules jobs destinations ssh retention''),
     (''/backups'', ''backup restore recovery snapshots archive''),
     (''/php'', ''php version extensions settings configuration ini memory upload limit''),
     (''/ftp'', ''ftp sftp file transfer accounts''),
     (''/cron'', ''cron scheduled task jobs automation''),
     (''/security'', ''security two factor 2fa totp authenticator''),
     (''/appearance'', ''theme style skin appearance evolution paper lantern dark light''),
     (''/accounts'', ''hosting users customers accounts domains management''),
     (''/updates'', ''panel upgrade update version release''),
     (''/logs'', ''logs errors access debug troubleshooting''),
     (''/disk-usage'', ''disk storage space quota usage''),
     (''/ssh'', ''ssh keys secure shell''),
     (''/devtools'', ''developer composer wpcli tools''),
     (''/malware'', ''malware virus scanner scan wordpress hack compromise webshell clamav quarantine restore security files scripts''),
     (''/openlitespeed'', ''openlitespeed ols web server webadmin 7080 connections timeout gzip brotli quic http3 password reload''),
     (''/ip-management'', ''server ip address addresses multiple dedicated shared allocation pool network interface new account default random'')]"

definition stop_words :: "jsstring list" where
  "stop_words =
    [''the'', ''a'', ''to'', ''my'', ''how'', ''do'', ''i'', ''settings'', ''manage'', ''can'', ''you'',
     ''add'', ''create'', ''set'', ''up'', ''change'', ''view'', ''show'', ''me'', ''edit'',
     ''configure'', ''for'', ''an'']"

definition close_word :: "jsstring \<Rightarrow> jsstring \<Rightarrow> bool" where
  "close_word token w \<longleftrightarrow>
     \<bar>int (length w) - int (length token)\<bar> \<le> 2 \<and>
     distance w token \<le> (if length token > 6 then 2 else 1)"

text \<open>The loop over the tokens; 0 is the early return.\<close>

fun token_loop :: "jsstring list \<Rightarrow> jsstring list \<Rightarrow> int \<Rightarrow> int option" where
  "token_loop words [] score = Some score"
| "token_loop words (token # tokens) score =
     (if token \<in> set words then token_loop words tokens (score + 8)
      else if list_ex (\<lambda>w. startsWith w token) words then token_loop words tokens (score + 5)
      else if length token \<ge> 3 \<and> list_ex (close_word token) words
        then token_loop words tokens (score + 2)
      else None)"

definition search_text_of :: "search_entry \<Rightarrow> jsstring" where
  "search_text_of item =
     e_label item @ '' '' @ e_section item @ '' '' @ e_to item @ '' '' @ e_keywords item @ '' '' @
     or_string (map_of synonyms (e_to item)) []"

definition searchScore :: "search_entry \<Rightarrow> jsstring \<Rightarrow> int" where
  "searchScore item query =
     (let q = normalize query in
      if q = [] then 1 else
      let label = normalize (e_label item);
          text = normalize (search_text_of item);
          words = split_on CHR '' '' text;
          tokens = filter (\<lambda>word. word \<notin> set stop_words) (split_on CHR '' '' q)
      in if tokens = [] then (if js_includes text q then 1 else 0)
         else (case token_loop words tokens 0 of
                 None \<Rightarrow> 0
               | Some score \<Rightarrow> score + (if js_includes label q then 20 else 0)))"

text \<open>A scored entry remembers its position; ties are broken by it.\<close>

definition rank_cmp :: "(search_entry \<times> nat \<times> int) \<Rightarrow> (search_entry \<times> nat \<times> int) \<Rightarrow> int" where
  "rank_cmp a b =
     (if snd (snd b) - snd (snd a) \<noteq> 0 then snd (snd b) - snd (snd a)
      else int (fst (snd a)) - int (fst (snd b)))"

definition scored :: "search_entry list \<Rightarrow> jsstring \<Rightarrow> (search_entry \<times> nat \<times> int) list" where
  "scored entries query =
     map (\<lambda>(index, item). (item, index, searchScore item query)) (enumerate 0 entries)"

definition searchEntries :: "search_entry list \<Rightarrow> jsstring \<Rightarrow> search_entry list" where
  "searchEntries entries query =
     map fst (js_sort rank_cmp (filter (\<lambda>r. snd (snd r) > 0) (scored entries query)))"

interpretation rank: js_comparator rank_cmp "\<lambda>_. True"
  by unfold_locales (auto simp: rank_cmp_def split: if_splits)

subsection \<open>The ranking\<close>

definition score_cmp :: "('a \<times> 'b \<times> int) \<Rightarrow> ('a \<times> 'b \<times> int) \<Rightarrow> int" where
  "score_cmp a b = snd (snd b) - snd (snd a)"

interpretation by_score: js_comparator score_cmp "\<lambda>_. True"
  by unfold_locales (auto simp: score_cmp_def)

lemma js_insert_cong:
  "(\<And>y. y \<in> set ys \<Longrightarrow> cmp x y \<le> 0 \<longleftrightarrow> cmp' x y \<le> 0) \<Longrightarrow> js_insert cmp x ys = js_insert cmp' x ys"
  by (induction ys) auto

text \<open>With the positions ascending, breaking ties by position is what a stable sort does.\<close>

lemma rank_sort_is_stable:
  "sorted_wrt (\<lambda>a b. fst (snd a) < fst (snd b)) xs \<Longrightarrow> js_sort rank_cmp xs = js_sort score_cmp xs"
proof (induction xs)
  case Nil
  then show ?case by simp
next
  case (Cons x xs)
  then have "js_insert rank_cmp x (js_sort score_cmp xs) = js_insert score_cmp x (js_sort score_cmp xs)"
    by (intro js_insert_cong) (auto simp: rank_cmp_def score_cmp_def)
  with Cons show ?case by simp
qed

lemma scored_positions: "sorted_wrt (\<lambda>a b. fst (snd a) < fst (snd b)) (scored entries query)"
proof -
  have "sorted_wrt (\<lambda>a b. fst (snd a) < fst (snd b))
          (map (\<lambda>(index, item). (item, index, searchScore item query)) (enumerate n entries))" for n
  proof (induction entries arbitrary: n)
    case Nil
    then show ?case by simp
  next
    case (Cons e es)
    have "n < fst (snd r)" if "r \<in> set (map (\<lambda>(index, item). (item, index, searchScore item query))
        (enumerate (Suc n) es))" for r
      using that by (auto simp: in_set_enumerate_eq)
    with Cons show ?case by auto
  qed
  then show ?thesis by (simp add: scored_def)
qed

lemma scored_score: "r \<in> set (scored entries query) \<Longrightarrow> snd (snd r) = searchScore (fst r) query"
  by (auto simp: scored_def)

lemma scored_tuple: "(e, i, s) \<in> set (scored entries query) \<Longrightarrow> s = searchScore e query"
  using scored_score by fastforce

lemma map_fst_scored: "map fst (scored entries query) = entries"
  by (simp add: scored_def comp_def case_prod_unfold enumerate_eq_zip)

lemma searchEntries_stable_sort:
  "searchEntries entries query =
     map fst (js_sort score_cmp (filter (\<lambda>r. snd (snd r) > 0) (scored entries query)))"
  unfolding searchEntries_def
  by (subst rank_sort_is_stable) (auto intro: sorted_wrt_filter scored_positions)

lemma map_fst_filter_scored:
  "map fst (filter (\<lambda>r. P (snd (snd r))) (scored entries query)) =
   filter (\<lambda>e. P (searchScore e query)) entries"
proof -
  have "filter (\<lambda>r. P (snd (snd r))) (scored entries query) =
        filter (\<lambda>r. P (searchScore (fst r) query)) (scored entries query)"
    by (rule filter_cong) (auto simp: scored_score)
  then have "map fst (filter (\<lambda>r. P (snd (snd r))) (scored entries query)) =
        filter (\<lambda>e. P (searchScore e query)) (map fst (scored entries query))"
    by (simp add: filter_map comp_def)
  then show ?thesis by (simp add: map_fst_scored)
qed

lemma searchEntries_sorted:
  "sorted_wrt (\<lambda>a b. searchScore b query \<le> searchScore a query) (searchEntries entries query)"
proof -
  let ?L = "js_sort score_cmp (filter (\<lambda>r. snd (snd r) > 0) (scored entries query))"
  have "sorted_wrt (\<lambda>a b. score_cmp a b \<le> 0) ?L" by (rule by_score.sort_sorted) simp
  then have "sorted_wrt (\<lambda>a b. searchScore (fst b) query \<le> searchScore (fst a) query) ?L"
    by (rule sorted_wrt_mono_rel[rotated]) (auto simp: score_cmp_def dest!: scored_score)
  then show ?thesis by (simp add: searchEntries_stable_sort sorted_wrt_map)
qed

lemma searchEntries_tie:
  "filter (\<lambda>e. searchScore e query = v) (searchEntries entries query) =
   filter (\<lambda>e. searchScore e query = v \<and> v > 0) entries"
proof -
  let ?R = "filter (\<lambda>r. snd (snd r) > 0) (scored entries query)"
  have "filter (\<lambda>e. searchScore e query = v) (searchEntries entries query) =
        map fst (filter (\<lambda>r. searchScore (fst r) query = v) (js_sort score_cmp ?R))"
    by (simp add: searchEntries_stable_sort filter_map comp_def)
  also have "filter (\<lambda>r. searchScore (fst r) query = v) (js_sort score_cmp ?R) =
             filter (\<lambda>r. snd (snd r) = v) (js_sort score_cmp ?R)"
    by (rule filter_cong) (auto dest: scored_tuple)
  also have "\<dots> = filter (\<lambda>r. snd (snd r) = v) ?R"
  proof -
    have eq: "(score_cmp (undefined, undefined, v) r \<le> 0 \<and> score_cmp r (undefined, undefined, v) \<le> 0)
        \<longleftrightarrow> snd (snd r) = v" for r :: "search_entry \<times> nat \<times> int"
      by (auto simp: score_cmp_def)
    show ?thesis
      using by_score.sort_stable[of ?R "(undefined, undefined, v)"] unfolding eq by simp
  qed
  also have "map fst \<dots> = map fst (filter (\<lambda>r. (\<lambda>s. s = v \<and> s > 0) (snd (snd r))) (scored entries query))"
    by (rule arg_cong[where f = "map fst"]) (auto intro: filter_cong)
  also have "\<dots> = filter (\<lambda>e. searchScore e query = v \<and> searchScore e query > 0) entries"
    by (rule map_fst_filter_scored)
  finally show ?thesis by (simp cong: conj_cong)
qed

lemma mset_searchEntries:
  "mset (searchEntries entries query) = mset (filter (\<lambda>e. searchScore e query > 0) entries)"
proof -
  have "mset (searchEntries entries query) =
        mset (map fst (filter (\<lambda>r. (\<lambda>s. s > 0) (snd (snd r))) (scored entries query)))"
    by (simp add: searchEntries_stable_sort)
  then show ?thesis by (simp only: map_fst_filter_scored)
qed

text \<open>The result list holds exactly the entries with a positive score, each as often as given,
  best score first, and entries of equal score stay in menu order.\<close>

theorem searchEntries_ranked:
  "mset (searchEntries entries query) = mset (filter (\<lambda>e. searchScore e query > 0) entries) \<and>
   sorted_wrt (\<lambda>a b. searchScore b query \<le> searchScore a query) (searchEntries entries query) \<and>
   filter (\<lambda>e. searchScore e query = v) (searchEntries entries query) =
     filter (\<lambda>e. searchScore e query = v \<and> v > 0) entries"
  using mset_searchEntries searchEntries_sorted searchEntries_tie by blast

lemma searchScore_blank: "normalize query = [] \<Longrightarrow> searchScore e query = 1"
  by (simp add: searchScore_def Let_def)

lemma searchEntries_blank: "normalize query = [] \<Longrightarrow> searchEntries entries query = entries"
  using searchEntries_tie[of query 1 entries] mset_searchEntries[of entries query]
  by (simp add: searchScore_blank)

subsection \<open>Searching for a label finds its entry\<close>

lemma fold_case_append: "fold_case (a @ b) = fold_case a @ fold_case b"
  by (simp add: fold_case_def)

lemma fold_case_space: "fold_case ('' '' @ s) = CHR '' '' # fold_case s"
  using fold_case_id[of "'' ''"] fold_case_append[of "'' ''" s] by simp

lemma words_of_normalize:
  "normalize s \<noteq> [] \<Longrightarrow> split_on CHR '' '' (normalize s) = word_runs (fold_case s)"
proof -
  assume "normalize s \<noteq> []"
  then have "word_runs (fold_case s) \<noteq> []" by (auto simp: normalize_words)
  moreover have "\<forall>w\<in>set (word_runs (fold_case s)). CHR '' '' \<notin> set w"
    using word_runs_elems not_alnum_space by blast
  ultimately show ?thesis unfolding normalize_words by (rule split_join)
qed

lemma word_runs_label:
  "word_runs (fold_case (search_text_of e)) =
     word_runs (fold_case (e_label e)) @
     word_runs (fold_case (e_section e @ '' '' @ e_to e @ '' '' @ e_keywords e @ '' '' @
                  or_string (map_of synonyms (e_to e)) []))"
  using word_runs_append_sep[OF not_alnum_space] fold_case_space
  by (simp add: search_text_of_def fold_case_append)

lemma token_loop_exact:
  "set tokens \<subseteq> set words \<Longrightarrow> token_loop words tokens score = Some (score + 8 * int (length tokens))"
  by (induction tokens arbitrary: score) auto

lemma join_with_append:
  "ws \<noteq> [] \<Longrightarrow> vs \<noteq> [] \<Longrightarrow> join_with sep (ws @ vs) = join_with sep ws @ sep @ join_with sep vs"
proof (induction ws)
  case Nil
  then show ?case by simp
next
  case (Cons w ws)
  then show ?case by (cases "ws = []") (auto simp: join_with_Cons)
qed

lemma own_label_score: "searchScore e (e_label e) > 0"
proof (cases "normalize (e_label e) = []")
  case True
  then show ?thesis by (simp add: searchScore_blank)
next
  case False
  let ?ws = "word_runs (fold_case (e_label e))"
  let ?t = "normalize (search_text_of e)"
  obtain vs where vs: "word_runs (fold_case (search_text_of e)) = ?ws @ vs"
    using word_runs_label by blast
  have ws: "?ws \<noteq> []" using False by (auto simp: normalize_words)
  then have "?t \<noteq> []"
    using vs word_runs_elems join_with_eq_Nil by (metis append_is_Nil_conv normalize_words)
  then have words: "split_on CHR '' '' ?t = ?ws @ vs"
    using words_of_normalize vs by simp
  have q: "split_on CHR '' '' (normalize (e_label e)) = ?ws"
    using words_of_normalize[OF False] .
  have inc: "js_includes ?t (normalize (e_label e))"
  proof (cases "vs = []")
    case True
    then show ?thesis using vs by (simp add: normalize_words includes_iff_sublist)
  next
    case False
    then show ?thesis using vs ws
      by (simp add: normalize_words join_with_append includes_iff_sublist)
  qed
  let ?tokens = "filter (\<lambda>word. word \<notin> set stop_words) ?ws"
  have "set ?tokens \<subseteq> set (?ws @ vs)" by auto
  from token_loop_exact[OF this, of 0] inc show ?thesis
    by (auto simp: searchScore_def Let_def False words q)
qed

text \<open>Typing the label of a tool always finds that tool, whatever the label is made of.\<close>

theorem search_finds_label:
  assumes "e \<in> set entries"
  shows "e \<in> set (searchEntries entries (e_label e))"
proof -
  have "e \<in> set (filter (\<lambda>e'. searchScore e' (e_label e) > 0) entries)"
    using assms own_label_score by simp
  then show ?thesis using mset_searchEntries by (metis set_mset_mset)
qed

definition webmail_entry :: search_entry where
  "webmail_entry =
     \<lparr>e_section = ''Email'', e_label = ''Webmail'', e_to = ''/email?webmail=1'', e_icon = ''ExternalLink'',
      e_external = False, e_keywords = []\<rparr>"

theorem search_finds_label_witness: "webmail_entry \<in> set (searchEntries [webmail_entry] ''Webmail'')"
  using search_finds_label[of webmail_entry "[webmail_entry]"] by (simp add: webmail_entry_def)
end
