(* ===== verification/Tool_Groups.thy ===== *)
theory Tool_Groups
  imports Navigation "HOL-Library.AList"
begin

text \<open>
  The grouped tools of the dashboard and of the sidebar (\<open>config/toolGroups.js\<close>,
  \<open>getToolGroups\<close>): two layouts per role, filled from the navigation list of the role after the
  capability filter, with a fallback group for entries no layout names and the backup shortcuts.
\<close>

section \<open>Layouts\<close>

definition customer_evolution :: "(jsstring \<times> jsstring list) list" where
  "customer_evolution =
    [(''Account Manager'',
       [''/domains'', ''/subdomains'', ''/ftp'', ''/ssl'', ''/databases'', ''/dns'', ''/php'']),
     (''E-mail Manager'',
       [''/email'', ''/email?webmail=1'', ''/email/settings'', ''/email/dns'', ''/email/spam'',
        ''/email/migration'']),
     (''Software'',
       [''/wordpress'', ''/node-apps'', ''/python-apps'', ''/redis'', ''/git'', ''/cron'']),
     (''Site Tools'',
       [''/files'', ''/redirects'', ''/forwarding'', ''/cache'', ''/website-maintenance'',
        ''/error-pages'', ''/backups'']),
     (''Advanced Tools'',
       [''/ssh'', ''/terminal'', ''/logs'', ''/devtools'', ''/appearance'']),
     (''Usage & Security'',
       [''/disk-usage'', ''/website-statistics'', ''/processes'', ''/malware'',
        ''/website-security'', ''/security'', ''/site-health''])]"

definition customer_paper :: "(jsstring \<times> jsstring list) list" where
  "customer_paper =
    [(''Domains'',
       [''/domains'', ''/subdomains'', ''/ftp'', ''/ssl'', ''/databases'', ''/dns'', ''/php'']),
     (''Email'',
       [''/email'', ''/email?webmail=1'', ''/email/settings'', ''/email/dns'', ''/email/spam'',
        ''/email/migration'']),
     (''Software'',
       [''/wordpress'', ''/node-apps'', ''/python-apps'', ''/redis'', ''/git'', ''/cron'']),
     (''Site Tools'',
       [''/files'', ''/redirects'', ''/forwarding'', ''/cache'', ''/website-maintenance'',
        ''/error-pages'', ''/backups'']),
     (''Advanced Tools'',
       [''/ssh'', ''/terminal'', ''/logs'', ''/devtools'', ''/appearance'']),
     (''Usage & Security'',
       [''/disk-usage'', ''/website-statistics'', ''/processes'', ''/malware'',
        ''/website-security'', ''/security'', ''/site-health''])]"

definition admin_evolution :: "(jsstring \<times> jsstring list) list" where
  "admin_evolution =
    [(''Account Manager'',
       [''/accounts/new'', ''/accounts'', ''/resellers'', ''/administrators'', ''/plans'',
        ''/import/accounts'']),
     (''Server Manager'',
       [''/health'', ''/diagnostics'', ''/services'', ''/openlitespeed'', ''/resource-manager'',
        ''/filesystem-isolation'', ''/security-center'', ''/stack-manager'', ''/db-monitor'',
        ''/slow-queries'', ''/dns-setup'', ''/cloudflare'', ''/dns-cluster'', ''/ip-management'',
        ''/backup-jobs'']),
     (''Email'',
       [''/mail-queue'', ''/mail-tracking'', ''/imap-migrations'', ''/notifications'']),
     (''Software & Websites'',
       [''/wordpress'', ''/software/node-apps'', ''/software/python-apps'', ''/templates'',
        ''/maintenance-mode'', ''/updates'']),
     (''Security & Network'',
       [''/ssl'', ''/malware'', ''/firewall'', ''/fail2ban'', ''/waf'', ''/ip-bans'',
        ''/ip-whitelist'', ''/tokens'']),
     (''Metrics, Logs & Integrations'',
       [''/bandwidth'', ''/site-stats'', ''/audit-log'', ''/account-log'', ''/error-log'',
        ''/retention'', ''/webhooks'']),
     (''Account & Preferences'',
       [''/server-setup'', ''/panel-settings'', ''/branding'', ''/appearance'', ''/security'',
        ''/api/docs''])]"

definition admin_paper :: "(jsstring \<times> jsstring list) list" where
  "admin_paper =
    [(''Account Manager'',
       [''/accounts/new'', ''/accounts'', ''/resellers'', ''/administrators'', ''/plans'',
        ''/import/accounts'']),
     (''Server & Databases'',
       [''/health'', ''/diagnostics'', ''/services'', ''/openlitespeed'', ''/resource-manager'',
        ''/filesystem-isolation'', ''/security-center'', ''/stack-manager'', ''/db-monitor'',
        ''/slow-queries'', ''/backup-jobs'', ''/updates'']),
     (''Domains & Network'',
       [''/dns-setup'', ''/cloudflare'', ''/dns-cluster'', ''/ip-management'']),
     (''Email'',
       [''/mail-queue'', ''/mail-tracking'', ''/imap-migrations'', ''/notifications'']),
     (''Metrics, Logs & Integrations'',
       [''/bandwidth'', ''/site-stats'', ''/audit-log'', ''/account-log'', ''/error-log'',
        ''/retention'', ''/webhooks'']),
     (''Security'',
       [''/ssl'', ''/malware'', ''/firewall'', ''/fail2ban'', ''/waf'', ''/ip-bans'',
        ''/ip-whitelist'', ''/tokens'', ''/security'']),
     (''Software & Websites'',
       [''/wordpress'', ''/software/node-apps'', ''/software/python-apps'', ''/templates'',
        ''/maintenance-mode'']),
     (''Developer Tools'',
       [''/api/docs'']),
     (''Preferences'',
       [''/server-setup'', ''/panel-settings'', ''/branding'', ''/change-password'',
        ''/appearance''])]"

definition labels :: "(jsstring \<times> jsstring) list" where
  "labels =
    [(''/files'', ''File Manager''),
     (''/email'', ''Email Accounts''),
     (''/ftp'', ''FTP Accounts''),
     (''/email/settings'', ''Email Settings''),
     (''/email/spam'', ''Spam Filters''),
     (''/email/migration'', ''IMAP Migration''),
     (''/email/dns'', ''Email DNS Records''),
     (''/subdomains'', ''Subdomains''),
     (''/ssl'', ''SSL Certificates''),
     (''/dns'', ''DNS Management''),
     (''/php'', ''PHP Settings''),
     (''/git'', ''Git Version Control''),
     (''/apps'', ''Applications''),
     (''/node-apps'', ''Node.js App''),
     (''/python-apps'', ''Python App''),
     (''/redis'', ''Redis''),
     (''/accounts'', ''Manage Accounts''),
     (''/health'', ''Server Information''),
     (''/services'', ''Service Monitor''),
     (''/diagnostics'', ''Diagnostics''),
     (''/resellers'', ''Reseller Management''),
     (''/accounts/new'', ''Create account''),
     (''/administrators'', ''Administrators''),
     (''/software/node-apps'', ''Node.js Applications''),
     (''/software/python-apps'', ''Python Applications''),
     (''/updates'', ''Panel Updates''),
     (''/appearance'', ''Change Style'')]"

definition tones :: "jsstring list" where
  "tones = [''sky'', ''green'', ''amber'', ''violet'', ''rose'', ''teal'']"

definition layout_for :: "jsstring \<Rightarrow> jsstring \<Rightarrow> (jsstring \<times> jsstring list) list" where
  "layout_for role skin =
     (if role = ''admin'' then (if skin = ''paper-lantern'' then admin_paper else admin_evolution)
      else (if skin = ''paper-lantern'' then customer_paper else customer_evolution))"

section \<open>Building the groups\<close>

record tool =
  t_label :: jsstring
  t_to :: jsstring
  t_icon :: jsstring
  t_external :: bool
  t_tone :: jsstring

record tool_group =
  tg_title :: jsstring
  tg_items :: "tool list"

fun tool_of :: "nav_entry \<Rightarrow> jsstring \<Rightarrow> tool" where
  "tool_of (Link l p i x) tone = \<lparr>t_label = l, t_to = p, t_icon = i, t_external = x, t_tone = tone\<rparr>"
| "tool_of (Section s) tone = \<lparr>t_label = [], t_to = [], t_icon = [], t_external = False, t_tone = tone\<rparr>"

text \<open>\<open>new Map(nav.filter(item => item.to).map(item => [item.to, item]))\<close>, in insertion order.\<close>

definition available_nav :: "jsstring \<Rightarrow> jsstring list \<Rightarrow> nav_entry list" where
  "available_nav role capabilities =
     filter (\<lambda>item. is_section item \<or> pathIsAvailable (entry_path item) capabilities)
       (if role = ''admin'' then adminNav else customerNav)"

definition nav_lookup :: "nav_entry list \<Rightarrow> (jsstring \<times> nav_entry) list" where
  "nav_lookup nav =
     fold (\<lambda>item m. AList.update (entry_path item) item m)
       (filter (\<lambda>item. entry_path item \<noteq> []) nav) []"

definition initially_used :: "jsstring \<Rightarrow> jsstring list" where
  "initially_used role =
     [''/overview'', ''/dashboard'', ''/tasks''] @ (if role = ''customer'' then [''/change-password''] else [])"

definition group_tools :: "(jsstring \<times> nav_entry) list \<Rightarrow> nat \<Rightarrow> jsstring list \<Rightarrow> tool list" where
  "group_tools lookup index paths =
     map (\<lambda>(i, path).
            (case map_of lookup path of
               None \<Rightarrow> tool_of (Section []) []
             | Some item \<Rightarrow>
                 (tool_of item (tones ! ((index + i) mod length tones)))
                   \<lparr>t_label := or_string (map_of labels path) (t_label (tool_of item []))\<rparr>))
       (enumerate 0 (filter (\<lambda>path. map_of lookup path \<noteq> None) paths))"

definition layout_groups :: "(jsstring \<times> nav_entry) list \<Rightarrow> (jsstring \<times> jsstring list) list \<Rightarrow> tool_group list" where
  "layout_groups lookup definitions =
     filter (\<lambda>g. tg_items g \<noteq> [])
       (map (\<lambda>(index, (title, paths)). \<lparr>tg_title = title, tg_items = group_tools lookup index paths\<rparr>)
          (enumerate 0 definitions))"

definition used_paths :: "jsstring \<Rightarrow> (jsstring \<times> nav_entry) list \<Rightarrow> (jsstring \<times> jsstring list) list \<Rightarrow> jsstring set" where
  "used_paths role lookup definitions =
     set (initially_used role) \<union>
     set (filter (\<lambda>path. map_of lookup path \<noteq> None) (concat (map snd definitions)))"

definition with_remaining :: "jsstring \<Rightarrow> (jsstring \<times> nav_entry) list \<Rightarrow> (jsstring \<times> jsstring list) list \<Rightarrow> tool_group list" where
  "with_remaining role lookup definitions =
     (let remaining = filter (\<lambda>item. entry_path item \<notin> used_paths role lookup definitions) (map snd lookup)
      in layout_groups lookup definitions @
         (if remaining \<noteq> []
          then [\<lparr>tg_title = ''More tools'', tg_items = map (\<lambda>item. tool_of item ''sky'') remaining\<rparr>]
          else []))"

definition backup_path :: "jsstring \<Rightarrow> jsstring" where
  "backup_path role = (if role = ''admin'' then ''/backup-jobs'' else ''/backups'')"

definition shortcut :: "tool \<Rightarrow> jsstring \<times> jsstring \<times> jsstring \<times> jsstring \<Rightarrow> tool" where
  "shortcut backupTool s =
     (case s of (to, l, i, tone) \<Rightarrow> backupTool\<lparr>t_to := to, t_label := l, t_icon := i, t_tone := tone\<rparr>)"

definition shortcut_table :: "jsstring \<Rightarrow> (jsstring \<times> jsstring \<times> jsstring \<times> jsstring) list" where
  "shortcut_table role =
     (if role = ''admin'' then
        [(''/backup-jobs'', ''Backup Manager'', ''Archive'', ''sky''),
         (''/backup-jobs?tab=jobs'', ''Backup Jobs'', ''CalendarClock'', ''green''),
         (''/backup-jobs?tab=destinations'', ''Destinations'', ''Cloud'', ''violet''),
         (''/backup-jobs?tab=history&view=recovery'', ''Restore & Downloads'', ''RotateCcw'', ''amber''),
         (''/backup-jobs?tab=history&view=activity'', ''Queue & Logs'', ''ListChecks'', ''teal''),
         (''/backup-jobs?tab=notifications'', ''Notification Plugins'', ''BellRing'', ''rose'')]
      else
        [(''/backups'', ''Backup Manager'', ''Archive'', ''sky''),
         (''/backups?component=files'', ''File Backups'', ''FileArchive'', ''amber''),
         (''/backups?component=databases'', ''Database Backups'', ''DatabaseBackup'', ''violet''),
         (''/backups?component=mail'', ''Email Backups'', ''Mail'', ''teal''),
         (''/backups?action=create&kind=full'', ''Full Account Backups'', ''HardDriveDownload'', ''green''),
         (''/backups?view=restores'', ''Downloads & Activity'', ''Download'', ''rose'')])"

definition getToolGroups :: "jsstring \<Rightarrow> jsstring \<Rightarrow> jsstring list \<Rightarrow> tool_group list" where
  "getToolGroups role skin capabilities =
     (let lookup = nav_lookup (available_nav role capabilities);
          definitions = layout_for role skin;
          groups = with_remaining role lookup definitions
      in filter (\<lambda>group. tg_items group \<noteq> [])
           (case map_of lookup (backup_path role) of
              None \<Rightarrow> groups
            | Some backupTool \<Rightarrow>
                map (\<lambda>group. group\<lparr>tg_items := filter (\<lambda>item. t_to item \<noteq> backup_path role) (tg_items group)\<rparr>) groups @
                [\<lparr>tg_title = ''Backups'',
                  tg_items = map (shortcut (tool_of backupTool [])) (shortcut_table role)\<rparr>]))"

section \<open>Which tools appear\<close>

definition tool_paths :: "tool_group list \<Rightarrow> jsstring list" where
  "tool_paths groups = concat (map (\<lambda>g. map t_to (tg_items g)) groups)"

lemma nav_lookup_gen:
  "distinct (map fst m) \<Longrightarrow> distinct (map entry_path items) \<Longrightarrow>
     (\<forall>i\<in>set items. entry_path i \<notin> fst ` set m) \<Longrightarrow>
     fold (\<lambda>item m. AList.update (entry_path item) item m) items m = m @ map (\<lambda>i. (entry_path i, i)) items"
proof (induction items arbitrary: m)
  case Nil
  then show ?case by simp
next
  case (Cons i items)
  have upd: "k \<notin> fst ` set m \<Longrightarrow> AList.update k v m = m @ [(k, v)]" for k v and m :: "(jsstring \<times> nav_entry) list"
    by (induction m) auto
  have new: "entry_path i \<notin> fst ` set m" using Cons.prems by simp
  have "fold (\<lambda>item m. AList.update (entry_path item) item m) items (m @ [(entry_path i, i)]) =
        (m @ [(entry_path i, i)]) @ map (\<lambda>i. (entry_path i, i)) items"
  proof (rule Cons.IH)
    show "distinct (map fst (m @ [(entry_path i, i)]))" using Cons.prems(1) new by auto
    show "distinct (map entry_path items)" using Cons.prems(2) by simp
    show "\<forall>j\<in>set items. entry_path j \<notin> fst ` set (m @ [(entry_path i, i)])"
      using Cons.prems(2,3) by (auto simp: image_iff)
  qed
  then show ?case using upd[OF new] by simp
qed

text \<open>No two entries of a navigation list share an address.\<close>

lemma nav_paths_distinct:
  "distinct (map entry_path (filter (\<lambda>i. entry_path i \<noteq> []) adminNav))"
  "distinct (map entry_path (filter (\<lambda>i. entry_path i \<noteq> []) customerNav))"
  by (simp_all add: adminNav_def customerNav_def)

lemma nav_lookup_available:
  "nav_lookup (available_nav role caps) =
     map (\<lambda>i. (entry_path i, i)) (filter (\<lambda>i. entry_path i \<noteq> []) (available_nav role caps))"
proof -
  let ?nav = "if role = ''admin'' then adminNav else customerNav"
  have "filter (\<lambda>i. entry_path i \<noteq> []) (available_nav role caps) =
        filter (\<lambda>i. is_section i \<or> pathIsAvailable (entry_path i) caps)
          (filter (\<lambda>i. entry_path i \<noteq> []) ?nav)"
    by (simp add: available_nav_def conj_commute)
  moreover have "distinct (map entry_path (filter (\<lambda>i. entry_path i \<noteq> []) ?nav))"
    using nav_paths_distinct by simp
  ultimately have "distinct (map entry_path (filter (\<lambda>i. entry_path i \<noteq> []) (available_nav role caps)))"
    by (simp only: distinct_map_filter_fst)
  from nav_lookup_gen[OF _ this, of "[]"] show ?thesis by (simp add: nav_lookup_def)
qed

definition link_paths :: "jsstring \<Rightarrow> jsstring list \<Rightarrow> jsstring list" where
  "link_paths role caps = filter (\<lambda>p. p \<noteq> []) (map entry_path (available_nav role caps))"

lemma lookup_keys: "map fst (nav_lookup (available_nav role caps)) = link_paths role caps"
  by (simp add: nav_lookup_available link_paths_def comp_def filter_map)

lemma lookup_Some_iff:
  "map_of (nav_lookup (available_nav role caps)) p \<noteq> None \<longleftrightarrow> p \<in> set (link_paths role caps)"
  using lookup_keys[of role caps] by (metis map_of_eq_None_iff list.set_map)

lemma lookup_path:
  "map_of (nav_lookup (available_nav role caps)) p = Some i \<Longrightarrow> entry_path i = p \<and> p \<noteq> []"
  by (auto simp: nav_lookup_available dest!: map_of_SomeD)

lemma t_to_tool_of: "t_to (tool_of i tone) = entry_path i"
  by (cases i) auto

lemma group_tools_paths:
  "map t_to (group_tools (nav_lookup (available_nav role caps)) index paths) =
     filter (\<lambda>p. p \<in> set (link_paths role caps)) paths"
proof -
  let ?L = "nav_lookup (available_nav role caps)"
  let ?ps = "filter (\<lambda>p. map_of ?L p \<noteq> None) paths"
  have mem: "snd x \<in> set ?ps" if "x \<in> set (enumerate 0 ?ps)" for x
    using that by (metis image_eqI list.set_map map_snd_enumerate)
  have "map t_to (group_tools ?L index paths) = map snd (enumerate 0 ?ps)"
    unfolding group_tools_def map_map
  proof (rule map_cong[OF refl])
    fix x
    assume "x \<in> set (enumerate 0 ?ps)"
    from mem[OF this] have "map_of ?L (snd x) \<noteq> None" by auto
    then obtain item where "map_of ?L (snd x) = Some item" by (metis option.exhaust)
    then show "(t_to \<circ> (\<lambda>(i, path). case map_of ?L path of None \<Rightarrow> tool_of (Section []) []
        | Some item \<Rightarrow> (tool_of item (tones ! ((index + i) mod length tones)))
            \<lparr>t_label := or_string (map_of labels path) (t_label (tool_of item []))\<rparr>)) x = snd x"
      using lookup_path by (cases x) (simp add: t_to_tool_of)
  qed
  also have "\<dots> = ?ps" by simp
  also have "\<dots> = filter (\<lambda>p. p \<in> set (link_paths role caps)) paths"
    by (rule filter_cong[OF refl]) (rule lookup_Some_iff)
  finally show ?thesis .
qed

lemma tool_paths_nonempty: "tool_paths (filter (\<lambda>g. tg_items g \<noteq> []) gs) = tool_paths gs"
  by (induction gs) (auto simp: tool_paths_def)

lemma tool_paths_append: "tool_paths (a @ b) = tool_paths a @ tool_paths b"
  by (simp add: tool_paths_def)

lemma layout_groups_paths:
  "tool_paths (layout_groups (nav_lookup (available_nav role caps)) defs) =
     filter (\<lambda>p. p \<in> set (link_paths role caps)) (concat (map snd defs))"
proof -
  let ?L = "nav_lookup (available_nav role caps)"
  have "tool_paths (map (\<lambda>(index, (title, paths)). \<lparr>tg_title = title, tg_items = group_tools ?L index paths\<rparr>)
          (enumerate n defs)) = filter (\<lambda>p. p \<in> set (link_paths role caps)) (concat (map snd defs))" for n
    by (induction defs arbitrary: n) (auto simp: tool_paths_def group_tools_paths)
  then show ?thesis by (simp add: layout_groups_def tool_paths_nonempty)
qed

definition used_in :: "jsstring \<Rightarrow> jsstring \<Rightarrow> jsstring list \<Rightarrow> jsstring set" where
  "used_in role skin caps =
     set (initially_used role) \<union>
     (set (concat (map snd (layout_for role skin))) \<inter> set (link_paths role caps))"

lemma used_paths_eq:
  "used_paths role (nav_lookup (available_nav role caps)) (layout_for role skin) = used_in role skin caps"
proof -
  have "filter (\<lambda>path. map_of (nav_lookup (available_nav role caps)) path \<noteq> None)
          (concat (map snd (layout_for role skin))) =
        filter (\<lambda>p. p \<in> set (link_paths role caps)) (concat (map snd (layout_for role skin)))"
    by (rule filter_cong[OF refl]) (rule lookup_Some_iff)
  then show ?thesis by (auto simp: used_paths_def used_in_def)
qed

text \<open>The addresses before the backup shortcuts are put in.\<close>

definition base_paths :: "jsstring \<Rightarrow> jsstring \<Rightarrow> jsstring list \<Rightarrow> jsstring list" where
  "base_paths role skin caps =
     filter (\<lambda>p. p \<in> set (link_paths role caps)) (concat (map snd (layout_for role skin))) @
     filter (\<lambda>p. p \<notin> used_in role skin caps) (link_paths role caps)"

lemma with_remaining_paths:
  "tool_paths (with_remaining role (nav_lookup (available_nav role caps)) (layout_for role skin)) =
     base_paths role skin caps"
proof -
  let ?L = "nav_lookup (available_nav role caps)"
  let ?rem = "filter (\<lambda>item. entry_path item \<notin> used_in role skin caps) (map snd ?L)"
  have "map entry_path (map snd ?L) = link_paths role caps"
    by (simp add: nav_lookup_available link_paths_def comp_def filter_map)
  then have "map entry_path ?rem = filter (\<lambda>p. p \<notin> used_in role skin caps) (link_paths role caps)"
    by (metis (no_types, lifting) comp_apply filter_cong filter_map)
  then show ?thesis
    unfolding with_remaining_def used_paths_eq Let_def tool_paths_append layout_groups_paths base_paths_def
    by (auto simp: tool_paths_def comp_def t_to_tool_of)
qed

definition shortcut_paths :: "jsstring \<Rightarrow> jsstring list" where
  "shortcut_paths role = map fst (shortcut_table role)"

lemma getToolGroups_paths:
  "tool_paths (getToolGroups role skin caps) =
     (if backup_path role \<in> set (link_paths role caps)
      then filter (\<lambda>p. p \<noteq> backup_path role) (base_paths role skin caps) @ shortcut_paths role
      else base_paths role skin caps)"
proof -
  let ?L = "nav_lookup (available_nav role caps)"
  have filt: "tool_paths (map (\<lambda>g. g\<lparr>tg_items := filter (\<lambda>item. t_to item \<noteq> bp) (tg_items g)\<rparr>) gs) =
      filter (\<lambda>p. p \<noteq> bp) (tool_paths gs)" for gs :: "tool_group list" and bp
    by (induction gs) (auto simp: tool_paths_def filter_map comp_def)
  have short: "map t_to (map (shortcut b) (shortcut_table role)) = shortcut_paths role" for b
    by (auto simp: shortcut_paths_def shortcut_def split: prod.split)
  show ?thesis
  proof (cases "map_of ?L (backup_path role)")
    case None
    then have "backup_path role \<notin> set (link_paths role caps)" using lookup_Some_iff by blast
    with None show ?thesis
      by (simp add: getToolGroups_def Let_def tool_paths_nonempty with_remaining_paths)
  next
    case (Some b)
    then have "backup_path role \<in> set (link_paths role caps)" using lookup_Some_iff by blast
    moreover have "tool_paths [\<lparr>tg_title = ''Backups'',
        tg_items = map (shortcut (tool_of b [])) (shortcut_table role)\<rparr>] = shortcut_paths role"
      using short[of "tool_of b []"] by (simp add: tool_paths_def)
    moreover have "shortcut_table role \<noteq> []" by (simp add: shortcut_table_def)
    ultimately show ?thesis using Some
      by (simp add: getToolGroups_def Let_def tool_paths_nonempty tool_paths_append filt
          with_remaining_paths)
  qed
qed

lemma base_paths_mem:
  "p \<in> set (base_paths role skin caps) \<longleftrightarrow>
     p \<in> set (link_paths role caps) \<and>
     (p \<in> set (initially_used role) \<longrightarrow> p \<in> set (concat (map snd (layout_for role skin))))"
  by (auto simp: base_paths_def used_in_def)

lemma link_paths_available: "p \<in> set (link_paths role caps) \<Longrightarrow> pathIsAvailable p caps"
  by (auto simp: link_paths_def available_nav_def elim!: is_section.elims)

lemma shortcut_capability:
  "list_all (\<lambda>p. capabilityForPath p = Some ''backups'') (backup_path role # shortcut_paths role)"
proof (cases "role = ''admin''")
  case True
  then show ?thesis
    by (simp add: shortcut_paths_def shortcut_table_def backup_path_def capabilityForPath_def
        PREFIX_CAPABILITY_def startsWith_def)
next
  case False
  then show ?thesis
    by (simp add: shortcut_paths_def shortcut_table_def backup_path_def capabilityForPath_def
        PREFIX_CAPABILITY_def startsWith_def)
qed

lemma shortcut_available:
  "p \<in> set (shortcut_paths role) \<Longrightarrow> pathIsAvailable (backup_path role) caps \<Longrightarrow> pathIsAvailable p caps"
  using shortcut_capability[of role] by (auto simp: list_all_iff pathIsAvailable_def)

text \<open>Every navigation entry whose capability is installed has a tile, except the entries the
  page shows elsewhere (the dashboards, the task list and, for customers, the password page); and
  every tile leads to an address whose capability is installed.\<close>

theorem tool_groups_complete_and_available:
  "(p \<in> set (link_paths role caps) \<and> p \<notin> set (initially_used role)
      \<longrightarrow> p \<in> set (tool_paths (getToolGroups role skin caps))) \<and>
   (p \<in> set (tool_paths (getToolGroups role skin caps)) \<longrightarrow> pathIsAvailable p caps)"
proof -
  have bp: "backup_path role \<in> set (shortcut_paths role)"
    by (simp add: backup_path_def shortcut_paths_def shortcut_table_def)
  show ?thesis
    using bp base_paths_mem link_paths_available shortcut_available
    by (auto simp: getToolGroups_paths split: if_splits)
qed

theorem tool_groups_complete_and_available_witness:
  "''/files'' \<in> set (tool_paths (getToolGroups ''customer'' ''evolution'' [''mail'']))"
proof -
  have "''/files'' \<in> set (link_paths ''customer'' [''mail''])"
  proof -
    have "pathIsAvailable ''/files'' [''mail'']"
      by (simp add: pathIsAvailable_def capabilityForPath_def PREFIX_CAPABILITY_def startsWith_def)
    moreover have "Link ''File Manager'' ''/files'' ''FolderOpen'' False \<in> set customerNav"
      by (simp add: customerNav_def)
    ultimately show ?thesis by (force simp: link_paths_def available_nav_def)
  qed
  then show ?thesis
    using tool_groups_complete_and_available[of "''/files''" "''customer''" "[''mail'']" "''evolution''"]
    by (simp add: initially_used_def)
qed

subsection \<open>No tile twice\<close>

lemma layouts_distinct: "distinct (concat (map snd (layout_for role skin)))"
proof -
  have "distinct (concat (map snd customer_evolution))" "distinct (concat (map snd customer_paper))"
    "distinct (concat (map snd admin_evolution))" "distinct (concat (map snd admin_paper))"
    by (simp_all add: customer_evolution_def customer_paper_def admin_evolution_def admin_paper_def)
  then show ?thesis by (simp add: layout_for_def)
qed

lemma link_paths_distinct: "distinct (link_paths role caps)"
proof -
  let ?nav = "if role = ''admin'' then adminNav else customerNav"
  have "link_paths role caps =
        map entry_path (filter (\<lambda>i. is_section i \<or> pathIsAvailable (entry_path i) caps)
          (filter (\<lambda>i. entry_path i \<noteq> []) ?nav))"
    by (simp add: link_paths_def available_nav_def filter_map comp_def conj_commute)
  moreover have "distinct (map entry_path (filter (\<lambda>i. entry_path i \<noteq> []) ?nav))"
    using nav_paths_distinct by simp
  ultimately show ?thesis by (simp only: distinct_map_filter_fst)
qed

lemma shortcuts_not_in_nav:
  "list_all (\<lambda>p. p \<noteq> ''/backup-jobs'' \<longrightarrow> p \<notin> set (map entry_path adminNav)) (shortcut_paths ''admin'')"
  "role \<noteq> ''admin'' \<Longrightarrow>
     list_all (\<lambda>p. p \<noteq> ''/backups'' \<longrightarrow> p \<notin> set (map entry_path customerNav)) (shortcut_paths role)"
  by (simp_all add: shortcut_paths_def shortcut_table_def adminNav_def customerNav_def)

lemma shortcut_paths_fresh:
  assumes "p \<in> set (shortcut_paths role)" "p \<in> set (link_paths role caps)"
  shows "p = backup_path role"
proof (cases "role = ''admin''")
  case True
  then have "p \<in> set (map entry_path adminNav)"
    using assms(2) by (auto simp: link_paths_def available_nav_def)
  with True assms(1) shortcuts_not_in_nav(1) show ?thesis
    unfolding list_all_iff backup_path_def by auto
next
  case False
  then have "p \<in> set (map entry_path customerNav)"
    using assms(2) by (auto simp: link_paths_def available_nav_def)
  with False assms(1) shortcuts_not_in_nav(2)[OF False] show ?thesis
    unfolding list_all_iff backup_path_def by auto
qed

text \<open>For every role, layout and set of installed capabilities, no address has two tiles and no
  group is shown empty.\<close>

theorem tool_groups_distinct:
  "distinct (tool_paths (getToolGroups role skin caps)) \<and>
   [] \<notin> set (map tg_items (getToolGroups role skin caps))"
proof
  have base: "distinct (base_paths role skin caps)"
    using layouts_distinct link_paths_distinct
    by (auto simp: base_paths_def used_in_def)
  have "distinct (shortcut_paths role)"
    by (simp add: shortcut_paths_def shortcut_table_def)
  moreover have "set (base_paths role skin caps) \<subseteq> set (link_paths role caps)"
    using base_paths_mem by blast
  ultimately show "distinct (tool_paths (getToolGroups role skin caps))"
    using base shortcut_paths_fresh by (auto simp: getToolGroups_paths)
  show "[] \<notin> set (map tg_items (getToolGroups role skin caps))"
    by (auto simp: getToolGroups_def Let_def)
qed

text \<open>
  The comment in the source says that leaving out the password tile keeps every customer group at
  six tools. With everything installed the first group has seven.
\<close>

lemma customer_group_of_seven: "length (snd (hd customer_evolution)) = 7"
  by (simp add: customer_evolution_def)

end
