(* ===== verification/Api_Client.thy ===== *)
theory Api_Client
  imports Boron_Prelude "HOL-Library.AList"
begin

text \<open>
  The HTTP client of the panel (\<open>lib/api.js\<close>): how a failed request becomes the message, the
  support reference and the field errors the pages show; the global reaction to 401 and 503; and
  the calls that sign in, verify a second factor, impersonate and change a password. Also the
  retry rule of the query cache (\<open>lib/queryClient.js\<close>).

  A request is sent with \<open>axios\<close>: its outcome (a response, or no response at all) is an argument
  of the functions here. A regular expression of the source is a function on the character list.
\<close>

section \<open>Matching and replacing\<close>

definition is_hex_ci :: "char \<Rightarrow> bool" where
  "is_hex_ci c \<longleftrightarrow> is_digit c \<or> (97 \<le> code (lower_char c) \<and> code (lower_char c) \<le> 102)"

text \<open>\<open>/^[a-f0-9]{16}$/i\<close>\<close>

definition valid_reference :: "jsstring \<Rightarrow> bool" where
  "valid_reference s \<longleftrightarrow> length s = 16 \<and> list_all is_hex_ci s"

text \<open>\<open>/reference:\s*([a-f0-9]{16})/i\<close>, the captured group of the first match.\<close>

definition reference_here :: "jsstring \<Rightarrow> jsstring option" where
  "reference_here s =
     (if toLowerCase (take 10 s) = ''reference:'' \<and>
         valid_reference (take 16 (dropWhile is_space (drop 10 s)))
      then Some (take 16 (dropWhile is_space (drop 10 s))) else None)"

fun find_reference :: "jsstring \<Rightarrow> jsstring option" where
  "find_reference [] = None"
| "find_reference (c # cs) =
     (case reference_here (c # cs) of Some r \<Rightarrow> Some r | None \<Rightarrow> find_reference cs)"

text \<open>\<open>/p/i.test(s)\<close> for a literal lower-case pattern.\<close>

definition test_ci :: "jsstring \<Rightarrow> jsstring \<Rightarrow> bool" where
  "test_ci p s \<longleftrightarrow> js_includes (toLowerCase s) p"

text \<open>\<open>replace(/\bValue error,\s*/gi, '')\<close>; the flag says whether the previous character is a word one.\<close>

function strip_value_error :: "bool \<Rightarrow> jsstring \<Rightarrow> jsstring" where
  "strip_value_error prev [] = []"
| "strip_value_error prev (c # cs) =
     (if \<not> prev \<and> toLowerCase (take 12 (c # cs)) = ''value error,''
      then strip_value_error False (dropWhile is_space (drop 12 (c # cs)))
      else c # strip_value_error (is_word c) cs)"
  by pat_completeness auto
termination
proof (relation "measure (\<lambda>(_, s). length s)", goal_cases)
  case (2 prev c cs)
  have "length (dropWhile is_space (drop 11 cs)) \<le> length (drop 11 cs)" by (rule length_dropWhile_le)
  then show ?case by simp
qed auto

text \<open>\<open>replace(/Input should be /g, 'Enter ')\<close>\<close>

function replace_all :: "jsstring \<Rightarrow> jsstring \<Rightarrow> jsstring \<Rightarrow> jsstring" where
  "replace_all p r [] = []"
| "replace_all p r (c # cs) =
     (if p \<noteq> [] \<and> startsWith (c # cs) p then r @ replace_all p r (drop (length p) (c # cs))
      else c # replace_all p r cs)"
  by pat_completeness auto
termination
  by (relation "measure (\<lambda>(_, _, s). length s)") (auto simp: neq_Nil_conv)

section \<open>The message a person sees\<close>

definition GENERIC_MESSAGE :: jsstring where
  "GENERIC_MESSAGE = ''Something went wrong. Please try again.''"

definition SERVER_MESSAGE :: jsstring where
  "SERVER_MESSAGE = ''The server could not complete this operation. Retry once; if it fails again, ask the administrator to check the Error Log.''"

definition internal_markers :: "jsstring list" where
  "internal_markers =
    [''internal operation failure'', ''object of type'', ''traceback'', ''sqlalchemy'',
     ''operationalerror'', ''integrityerror'', ''<html'', ''<!doctype'']"

definition with_reference :: "jsstring \<Rightarrow> jsstring \<Rightarrow> jsstring" where
  "with_reference text r = text @ '' (reference: '' @ r @ '')''"

definition finish :: "jsstring option \<Rightarrow> jsstring \<Rightarrow> jsstring" where
  "finish reference text =
     (case reference of
        None \<Rightarrow> text
      | Some r \<Rightarrow> if r \<noteq> [] \<and> \<not> js_includes text r then with_reference text r else text)"

definition is_internal :: "jsstring \<Rightarrow> int option \<Rightarrow> bool" where
  "is_internal message status \<longleftrightarrow>
     list_ex (\<lambda>p. test_ci p message) internal_markers \<or>
     (case status of None \<Rightarrow> False | Some s \<Rightarrow> s \<ge> 500)"

definition humanErrorMessage :: "json \<Rightarrow> int option \<Rightarrow> jsstring" where
  "humanErrorMessage raw status =
     (let message = js_String (js_or raw (JStr GENERIC_MESSAGE));
          reference = find_reference message
      in if test_ci ''mem_mb must be between 64 and 65536'' message
           then finish reference ''Memory must be between 0.0625 and 64 GB.''
         else if test_ci ''bandwidth_limit_mb must be at least 1'' message
           then finish reference ''Enter a positive bandwidth limit in GB, or leave it blank for no limit.''
         else if is_internal message status
           then finish reference SERVER_MESSAGE
         else replace_all ''Input should be '' ''Enter '' (strip_value_error False message))"

section \<open>From a failed request to an error\<close>

record http_response =
  status :: int
  rdata :: json
  reference_header :: json

record ax_error =
  response :: "http_response option"
  ax_message :: jsstring

record client_error =
  err_message :: jsstring
  err_reference :: "json"
  err_status :: "int option"
  err_fields :: "(jsstring \<times> jsstring) list option"

definition field_key :: "json \<Rightarrow> jsstring" where
  "field_key d =
     (case jget d ''loc'' of
        JArr ls \<Rightarrow> js_String (if ls = [] then JUndef else last ls)
      | _ \<Rightarrow> ''form'')"

text \<open>
  The loop over the validation errors. An element that is null or undefined has no properties: the
  access throws, and \<open>None\<close> stands for that.
\<close>

fun collect_fields :: "json list \<Rightarrow> (jsstring \<times> jsstring) list \<Rightarrow> (jsstring \<times> jsstring) list option" where
  "collect_fields [] flds = Some flds"
| "collect_fields (d # ds) flds =
     (if nullish d then None
      else collect_fields ds
             (AList.update (field_key d) (humanErrorMessage (jget d ''msg'') None) flds))"

definition join_messages :: "json list \<Rightarrow> jsstring" where
  "join_messages ds =
     join_with ''; '' (map (\<lambda>d. if nullish (jget d ''msg'') then [] else js_String (jget d ''msg'')) ds)"

definition first_truthy :: "json \<Rightarrow> json \<Rightarrow> json \<Rightarrow> json" where
  "first_truthy a b c = js_or a (js_or b c)"

definition append_reference :: "json \<Rightarrow> jsstring \<Rightarrow> jsstring" where
  "append_reference reference message =
     (if truthy reference \<and> valid_reference (js_String reference) \<and>
         \<not> js_includes message (js_String reference)
      then with_reference message (js_String reference) else message)"

text \<open>The message and the flds taken from the response body.\<close>

definition body_message :: "ax_error \<Rightarrow> (jsstring \<times> (jsstring \<times> jsstring) list option) option" where
  "body_message error =
     (let data = (case response error of None \<Rightarrow> JUndef | Some r \<Rightarrow> rdata r) in
      case data of
        JStr s \<Rightarrow>
          Some (if s \<noteq> [] then s
                else if ax_message error \<noteq> [] \<and> response error = None
                  then ''Cannot reach the server. Check your connection.''
                else GENERIC_MESSAGE, None)
      | _ \<Rightarrow>
          (if truthy (jget data ''detail'') then
             (case jget data ''detail'' of
                JArr ds \<Rightarrow>
                  (case collect_fields ds [] of
                     None \<Rightarrow> None
                   | Some flds \<Rightarrow> Some (join_messages ds, Some flds))
              | detail \<Rightarrow> Some (js_String detail, None))
           else if truthy (jget data ''error'') then Some (js_String (jget data ''error''), None)
           else if ax_message error \<noteq> [] \<and> response error = None
             then Some (''Cannot reach the server. Check your connection.'', None)
           else Some (GENERIC_MESSAGE, None)))"

definition normalizeError :: "ax_error \<Rightarrow> client_error option" where
  "normalizeError error =
     (let stat = map_option status (response error);
          data = (case response error of None \<Rightarrow> JUndef | Some r \<Rightarrow> rdata r);
          header = (case response error of None \<Rightarrow> JUndef | Some r \<Rightarrow> reference_header r)
      in case body_message error of
           None \<Rightarrow> None
         | Some (message, flds) \<Rightarrow>
             let reference = first_truthy header (jget data ''reference'')
                   (case find_reference message of None \<Rightarrow> JUndef | Some r \<Rightarrow> JStr r);
                 shown = append_reference reference (humanErrorMessage (JStr message) stat)
             in Some \<lparr>err_message = shown, err_reference = js_or reference JNull,
                      err_status = stat, err_fields = flds\<rparr>)"

definition responseError :: "http_response \<Rightarrow> jsstring \<Rightarrow> client_error" where
  "responseError res fallback =
     (let reference = first_truthy (jget (rdata res) ''reference'') (reference_header res) JNull;
          message = humanErrorMessage (js_or (jget (rdata res) ''detail'') (JStr fallback)) (Some (status res))
      in \<lparr>err_message = append_reference reference message, err_reference = reference,
          err_status = Some (status res), err_fields = None\<rparr>)"

section \<open>Facts about the messages\<close>

lemma reference_here_valid: "reference_here s = Some r \<Longrightarrow> valid_reference r"
  by (auto simp: reference_here_def split: if_splits)

lemma find_reference_valid: "find_reference s = Some r \<Longrightarrow> valid_reference r"
  by (induction s) (auto split: option.splits dest: reference_here_valid)

lemma find_reference_included: "find_reference s = Some r \<Longrightarrow> js_includes s r"
proof (induction s)
  case Nil
  then show ?case by simp
next
  case (Cons c cs)
  show ?case
  proof (cases "reference_here (c # cs)")
    case None
    with Cons have "js_includes cs r" by simp
    then show ?thesis by (simp add: includes_iff_sublist sublist_Cons_right)
  next
    case (Some r')
    then have r: "r = take 16 (dropWhile is_space (drop 10 (c # cs)))"
      using Cons.prems by (auto simp: reference_here_def split: if_splits)
    have "sublist r (dropWhile is_space (drop 10 (c # cs)))"
      unfolding r by (rule prefix_imp_sublist) (rule take_is_prefix)
    also have "sublist \<dots> (drop 10 (c # cs))"
      by (rule suffix_imp_sublist) (rule suffix_dropWhile)
    also have "sublist \<dots> (c # cs)"
      by (rule suffix_imp_sublist) (rule suffix_drop)
    finally show ?thesis by (simp add: includes_iff_sublist)
  qed
qed

text \<open>What may be shown for an internal failure: the fixed text, with references of hex digits.\<close>

inductive safe_message :: "jsstring \<Rightarrow> bool" where
  safe_base: "safe_message SERVER_MESSAGE"
| safe_ref: "safe_message m \<Longrightarrow> valid_reference r \<Longrightarrow> safe_message (with_reference m r)"

lemma finish_safe:
  "safe_message t \<Longrightarrow> (\<And>r. ref = Some r \<Longrightarrow> valid_reference r) \<Longrightarrow> safe_message (finish ref t)"
  by (auto simp: finish_def intro: safe_ref split: option.split)

lemma append_reference_safe: "safe_message m \<Longrightarrow> safe_message (append_reference v m)"
  by (auto simp: append_reference_def intro: safe_ref)

text \<open>The two fixed texts for plan limits are the only other outcomes for an internal failure.\<close>

definition limit_message :: "jsstring \<Rightarrow> bool" where
  "limit_message m \<longleftrightarrow>
     test_ci ''mem_mb must be between 64 and 65536'' m \<or>
     test_ci ''bandwidth_limit_mb must be at least 1'' m"

lemma humanErrorMessage_internal:
  assumes "is_internal (js_String (js_or raw (JStr GENERIC_MESSAGE))) stat"
    and "\<not> limit_message (js_String (js_or raw (JStr GENERIC_MESSAGE)))"
  shows "safe_message (humanErrorMessage raw stat)"
proof -
  have "humanErrorMessage raw stat =
        finish (find_reference (js_String (js_or raw (JStr GENERIC_MESSAGE)))) SERVER_MESSAGE"
    using assms by (simp add: humanErrorMessage_def Let_def limit_message_def)
  then show ?thesis by (auto intro!: finish_safe safe_base find_reference_valid)
qed

lemma normalizeError_message:
  assumes "normalizeError error = Some e"
  obtains message reference where
    "body_message error = Some (message, err_fields e)"
    "err_message e = append_reference reference (humanErrorMessage (JStr message) (map_option status (response error)))"
    "err_reference e = js_or reference JNull"
    "err_status e = map_option status (response error)"
  using assms by (auto simp: normalizeError_def Let_def split: option.splits)

lemma normalizeError_internal_safe:
  assumes "normalizeError error = Some e" "response error = Some r" "500 \<le> status r"
    and "body_message error = Some (message, flds)" "\<not> limit_message message"
  shows "safe_message (err_message e)"
proof -
  obtain message' reference where m:
    "body_message error = Some (message', err_fields e)"
    "err_message e = append_reference reference (humanErrorMessage (JStr message') (map_option status (response error)))"
    using normalizeError_message[OF assms(1)] by blast
  have "message' = message" using m(1) assms(4) by simp
  have "\<not> limit_message (js_String (js_or (JStr message) (JStr GENERIC_MESSAGE)))"
    using assms(5) by (auto simp: js_or_def limit_message_def test_ci_def GENERIC_MESSAGE_def
        toLowerCase_def lower_char_def Let_def code_def startsWith_def)
  moreover have "is_internal (js_String (js_or (JStr message) (JStr GENERIC_MESSAGE))) (Some (status r))"
    using assms(3) by (simp add: is_internal_def)
  ultimately have "safe_message (humanErrorMessage (JStr message) (Some (status r)))"
    by (intro humanErrorMessage_internal)
  then show ?thesis using m(2) \<open>message' = message\<close> assms(2) append_reference_safe by simp
qed


definition sample_failure :: ax_error where
  "sample_failure =
     \<lparr>response = Some \<lparr>status = 500, rdata = JObj [(''detail'', JStr ''KeyError secret'')],
                        reference_header = JStr ''0123456789abcdef''\<rparr>,
      ax_message = ''Request failed''\<rparr>"


lemma append_reference_included:
  "truthy v \<Longrightarrow> valid_reference (js_String v) \<Longrightarrow> js_includes (append_reference v m) (js_String v)"
  using includes_infix[of "m @ '' (reference: ''" "js_String v" "'')''"]
  by (auto simp: append_reference_def with_reference_def)

text \<open>A support reference that is kept on the error, and is well formed, can be read in the
  message itself, for interceptor errors and for the sign-in calls.\<close>

theorem reference_is_shown:
  "(normalizeError error = Some e \<longrightarrow> truthy (err_reference e) \<longrightarrow>
      valid_reference (js_String (err_reference e)) \<longrightarrow>
      js_includes (err_message e) (js_String (err_reference e))) \<and>
   (truthy (err_reference (responseError res fallback)) \<longrightarrow>
      valid_reference (js_String (err_reference (responseError res fallback))) \<longrightarrow>
      js_includes (err_message (responseError res fallback)) (js_String (err_reference (responseError res fallback))))"
proof (intro conjI impI)
  assume e: "normalizeError error = Some e" "truthy (err_reference e)"
    "valid_reference (js_String (err_reference e))"
  obtain message reference where m:
    "err_message e = append_reference reference (humanErrorMessage (JStr message) (map_option status (response error)))"
    "err_reference e = js_or reference JNull"
    using normalizeError_message[OF e(1)] by blast
  then have "err_reference e = reference" using e(2) by (auto simp: js_or_def split: if_splits)
  then show "js_includes (err_message e) (js_String (err_reference e))"
    using m(1) e append_reference_included by simp
next
  assume "truthy (err_reference (responseError res fallback))"
    "valid_reference (js_String (err_reference (responseError res fallback)))"
  then show "js_includes (err_message (responseError res fallback))
      (js_String (err_reference (responseError res fallback)))"
    using append_reference_included by (simp add: responseError_def Let_def)
qed

theorem reference_is_shown_witness:
  "\<exists>e. normalizeError sample_failure = Some e \<and> js_includes (err_message e) ''0123456789abcdef''"
proof -
  obtain e where e: "normalizeError sample_failure = Some e" "err_reference e = JStr ''0123456789abcdef''"
    by (simp add: normalizeError_def body_message_def sample_failure_def Let_def first_truthy_def js_or_def)
  have "valid_reference ''0123456789abcdef''"
    by (simp add: valid_reference_def is_hex_ci_def is_digit_def lower_char_def Let_def code_def)
  with e show ?thesis using reference_is_shown[of sample_failure e] by simp
qed

subsection \<open>Field errors\<close>

lemma collect_fields_map_of:
  "collect_fields ds flds = Some out \<Longrightarrow>
     map_of out k =
       (case List.find (\<lambda>d. field_key d = k) (rev ds) of
          Some d \<Rightarrow> Some (humanErrorMessage (jget d ''msg'') None)
        | None \<Rightarrow> map_of flds k)"
proof (induction ds arbitrary: flds)
  case Nil
  then show ?case by simp
next
  case (Cons d ds)
  have snoc: "List.find P (xs @ [x]) = (case List.find P xs of Some y \<Rightarrow> Some y | None \<Rightarrow> if P x then Some x else None)"
    for P and xs :: "json list" and x
    by (induction xs) auto
  from Cons.prems have "\<not> nullish d"
    and "collect_fields ds (AList.update (field_key d) (humanErrorMessage (jget d ''msg'') None) flds) = Some out"
    by (auto split: if_splits)
  from Cons.IH[OF this(2)] show ?case
    by (auto simp: snoc update_conv split: option.split)
qed

lemma collect_fields_None: "collect_fields ds flds = None \<longleftrightarrow> (\<exists>d\<in>set ds. nullish d)"
  by (induction ds arbitrary: flds) auto

text \<open>A validation answer yields, for each field it names, the readable text of the last error
  about that field, and no other field; the conversion throws exactly when an element of the list
  is null or undefined.\<close>

theorem validation_fields:
  assumes "response error = Some r" "rdata r = JObj kvs" "map_of kvs ''detail'' = Some (JArr ds)"
  shows "(normalizeError error = None \<longleftrightarrow> (\<exists>d\<in>set ds. nullish d)) \<and>
         (\<forall>e. normalizeError error = Some e \<longrightarrow>
            (\<exists>flds. err_fields e = Some flds \<and>
              map_of flds k = map_option (\<lambda>d. humanErrorMessage (jget d ''msg'') None)
                                  (List.find (\<lambda>d. field_key d = k) (rev ds))))"
proof -
  have b: "body_message error =
      (case collect_fields ds [] of None \<Rightarrow> None | Some flds \<Rightarrow> Some (join_messages ds, Some flds))"
    using assms by (simp add: body_message_def Let_def)
  show ?thesis
  proof (cases "collect_fields ds []")
    case None
    then have "normalizeError error = None" using b by (simp add: normalizeError_def Let_def)
    with None show ?thesis using collect_fields_None by auto
  next
    case (Some flds)
    then have "\<exists>e. normalizeError error = Some e \<and> err_fields e = Some flds"
      using b by (simp add: normalizeError_def Let_def)
    with Some show ?thesis
      using collect_fields_None[of ds "[]"] collect_fields_map_of[OF Some, of k]
      by (auto split: option.splits)
  qed
qed

definition sample_validation :: ax_error where
  "sample_validation =
     \<lparr>response = Some \<lparr>status = 422,
        rdata = JObj [(''detail'', JArr [JObj [(''loc'', JArr [JStr ''body'', JStr ''username'']),
                                             (''msg'', JStr ''too short'')]])],
        reference_header = JUndef\<rparr>,
      ax_message = ''Request failed''\<rparr>"

theorem validation_fields_witness:
  "\<exists>e flds. normalizeError sample_validation = Some e \<and> err_fields e = Some flds \<and>
     map_of flds ''username'' = Some (humanErrorMessage (JStr ''too short'') None)"
proof -
  let ?d = "JObj [(''loc'', JArr [JStr ''body'', JStr ''username'']), (''msg'', JStr ''too short'')]"
  have r: "response sample_validation = Some \<lparr>status = 422, rdata = JObj [(''detail'', JArr [?d])],
      reference_header = JUndef\<rparr>"
    by (simp add: sample_validation_def)
  have m: "map_of [(''detail'', JArr [?d])] ''detail'' = Some (JArr [?d])" by simp
  from validation_fields[OF r _ m, of "''username''"] show ?thesis
    by (auto simp: nullish_def field_key_def)
qed

section \<open>Global reactions\<close>

datatype effect = Unauthorized | MaintenanceMode

datatype failure = Rejected client_error | TypeErrorThrown

text \<open>The response interceptor on a rejected request.\<close>

definition intercept :: "ax_error \<Rightarrow> effect list \<times> failure" where
  "intercept error =
     ((case response error of
         None \<Rightarrow> []
       | Some r \<Rightarrow> if status r = 401 then [Unauthorized]
                   else if status r = 503 then [MaintenanceMode] else []),
      (case normalizeError error of None \<Rightarrow> TypeErrorThrown | Some e \<Rightarrow> Rejected e))"

section \<open>Signing in\<close>

text \<open>
  What \<open>axios\<close> delivers for one request: an error, or a response. The calls below that pass
  \<open>validateStatus: () => true\<close> receive a response of any status.
\<close>

type_synonym delivery = "ax_error + http_response"

datatype http_request = GET jsstring | POST jsstring "(jsstring \<times> json) list"

record identity =
  id_role :: json
  id_username :: json
  id_installProfile :: json
  id_capabilities :: json

datatype login_result = Needs2fa json | Identified identity

type_synonym 'a call = "http_request list \<times> effect list \<times> (failure + 'a)"

definition whoami :: "delivery \<Rightarrow> json call" where
  "whoami d =
     (case d of
        Inl error \<Rightarrow> ([GET ''/api/v1/whoami''], fst (intercept error), Inl (snd (intercept error)))
      | Inr res \<Rightarrow> ([GET ''/api/v1/whoami''], [], Inr (rdata res)))"

definition identity_of :: "json \<Rightarrow> identity" where
  "identity_of me =
     \<lparr>id_role = jget me ''role'', id_username = jget me ''username'',
      id_installProfile = jget me ''install_profile'', id_capabilities = jget me ''capabilities''\<rparr>"

definition resolve_identity :: "delivery \<Rightarrow> identity call" where
  "resolve_identity d =
     (case whoami d of
        (reqs, effs, Inl f) \<Rightarrow> (reqs, effs, Inl f)
      | (reqs, effs, Inr me) \<Rightarrow>
          (reqs, effs, if nullish me then Inl TypeErrorThrown else Inr (identity_of me)))"

definition login :: "jsstring \<Rightarrow> jsstring \<Rightarrow> delivery \<Rightarrow> delivery \<Rightarrow> login_result call" where
  "login username password d1 d2 =
     (let req = POST ''/login'' [(''username'', JStr username), (''password'', JStr password)] in
      case d1 of
        Inl error \<Rightarrow> ([req], fst (intercept error), Inl (snd (intercept error)))
      | Inr res \<Rightarrow>
          if status res = 429 \<or> status res = 401
            then ([req], [], Inl (Rejected (responseError res ''Invalid username or password.'')))
          else if truthy (jget (rdata res) ''needs_2fa'')
            then ([req], [], Inr (Needs2fa (jget (rdata res) ''pending_token'')))
          else (case resolve_identity d2 of
                  (reqs, effs, Inl f) \<Rightarrow> (req # reqs, effs, Inl f)
                | (reqs, effs, Inr me) \<Rightarrow> (req # reqs, effs, Inr (Identified me))))"

definition loginVerify2fa :: "json \<Rightarrow> jsstring \<Rightarrow> delivery \<Rightarrow> delivery \<Rightarrow> identity call" where
  "loginVerify2fa pendingToken otp d1 d2 =
     (let req = POST ''/login/2fa'' [(''pending_token'', pendingToken), (''code'', JStr otp)] in
      case d1 of
        Inl error \<Rightarrow> ([req], fst (intercept error), Inl (snd (intercept error)))
      | Inr res \<Rightarrow>
          if status res \<ge> 400
            then ([req], [], Inl (Rejected (responseError res ''Invalid or expired code.'')))
          else (case resolve_identity d2 of
                  (reqs, effs, r) \<Rightarrow> (req # reqs, effs, r)))"

text \<open>\<open>logout\<close> swallows every failure, after the interceptor has reacted to it.\<close>

definition logout :: "delivery \<Rightarrow> unit call" where
  "logout d =
     (case d of
        Inl error \<Rightarrow> ([POST ''/logout'' []], fst (intercept error), Inr ())
      | Inr res \<Rightarrow> ([POST ''/logout'' []], [], Inr ()))"

definition impersonate :: "jsstring \<Rightarrow> delivery \<Rightarrow> delivery \<Rightarrow> json call" where
  "impersonate username d1 d2 =
     (let mint = POST (''/api/v1/admin/accounts/'' @ username @ ''/impersonate'') [] in
      case d1 of
        Inl error \<Rightarrow> ([mint], fst (intercept error), Inl (snd (intercept error)))
      | Inr res \<Rightarrow>
          if nullish (rdata res) then ([mint], [], Inl TypeErrorThrown)
          else
            let redeem = POST ''/api/v1/impersonate/redeem'' [(''token'', jget (rdata res) ''token'')]
            in (case d2 of
                  Inl error \<Rightarrow> ([mint, redeem], fst (intercept error), Inl (snd (intercept error)))
                | Inr res2 \<Rightarrow> ([mint, redeem], [], Inr (rdata res2))))"

definition returnToAdmin :: "delivery \<Rightarrow> json call" where
  "returnToAdmin d =
     (case d of
        Inl error \<Rightarrow> ([POST ''/api/v1/impersonate/return'' []], fst (intercept error), Inl (snd (intercept error)))
      | Inr res \<Rightarrow> ([POST ''/api/v1/impersonate/return'' []], [], Inr (rdata res)))"

definition changePassword :: "jsstring \<Rightarrow> jsstring \<Rightarrow> jsstring \<Rightarrow> delivery \<Rightarrow> json call" where
  "changePassword current_password new_password confirm_password d =
     (let req = POST ''/change-password'' [(''current_password'', JStr current_password),
                  (''new_password'', JStr new_password), (''confirm_password'', JStr confirm_password)] in
      case d of
        Inl error \<Rightarrow> ([req], fst (intercept error), Inl (snd (intercept error)))
      | Inr res \<Rightarrow>
          if status res \<ge> 400
            then ([req], [], Inl (Rejected (responseError res ''Could not change password.'')))
          else ([req], [], Inr (rdata res)))"

abbreviation call_result :: "'a call \<Rightarrow> failure + 'a" where
  "call_result c \<equiv> snd (snd c)"

abbreviation call_requests :: "'a call \<Rightarrow> http_request list" where
  "call_requests c \<equiv> fst c"

lemma resolve_identity_Inr:
  "call_result (resolve_identity d) = Inr i \<longleftrightarrow>
     (\<exists>res. d = Inr res \<and> \<not> nullish (rdata res) \<and> i = identity_of (rdata res))"
  by (cases d) (auto simp: resolve_identity_def whoami_def)

lemma login_identified:
  assumes "call_result (login u p d1 d2) = Inr (Identified i)"
  shows "\<exists>res res2. d1 = Inr res \<and> status res \<notin> {401, 429} \<and>
      \<not> truthy (jget (rdata res) ''needs_2fa'') \<and> d2 = Inr res2 \<and> i = identity_of (rdata res2)"
proof -
  obtain res where res: "d1 = Inr res" using assms by (cases d1) (auto simp: login_def Let_def)
  with assms have ok: "status res \<notin> {401, 429}" "\<not> truthy (jget (rdata res) ''needs_2fa'')"
    by (auto simp: login_def Let_def split: if_splits)
  with assms res have "call_result (resolve_identity d2) = Inr i"
    by (auto simp: login_def Let_def split: prod.splits sum.splits)
  with res ok show ?thesis unfolding resolve_identity_Inr by blast
qed

lemma login_needs2fa_quiet:
  "call_result (login u p d1 d2) = Inr (Needs2fa t) \<Longrightarrow>
     fst (snd (login u p d1 d2)) = [] \<and> length (call_requests (login u p d1 d2)) = 1"
  by (auto simp: login_def Let_def split: sum.splits if_splits prod.splits)

text \<open>Signing in identifies a user only through the identity request made after the credentials
  were not refused and no second factor was asked; a refusal (401 or 429) sends nothing further and
  reports that status.\<close>

theorem login_identity:
  "(call_result (login u p d1 d2) = Inr (Identified i) \<longrightarrow>
      (\<exists>res res2. d1 = Inr res \<and> status res \<notin> {401, 429} \<and> \<not> truthy (jget (rdata res) ''needs_2fa'') \<and>
         d2 = Inr res2 \<and> i = identity_of (rdata res2))) \<and>
   (d1 = Inr res \<longrightarrow> status res \<in> {401, 429} \<longrightarrow>
      length (call_requests (login u p d1 d2)) = 1 \<and>
      (\<exists>e. call_result (login u p d1 d2) = Inl (Rejected e) \<and> err_status e = Some (status res)))"
proof (intro conjI impI)
  assume "call_result (login u p d1 d2) = Inr (Identified i)"
  then show "\<exists>res res2. d1 = Inr res \<and> status res \<notin> {401, 429} \<and>
      \<not> truthy (jget (rdata res) ''needs_2fa'') \<and> d2 = Inr res2 \<and> i = identity_of (rdata res2)"
    by (rule login_identified)
next
  assume "d1 = Inr res" "status res \<in> {401, 429}"
  then show "length (call_requests (login u p d1 d2)) = 1"
    and "\<exists>e. call_result (login u p d1 d2) = Inl (Rejected e) \<and> err_status e = Some (status res)"
    by (auto simp: login_def Let_def responseError_def)
qed

definition ok_response :: "json \<Rightarrow> http_response" where
  "ok_response body = \<lparr>status = 200, rdata = body, reference_header = JUndef\<rparr>"

theorem login_identity_witness:
  "\<exists>res2. Inr (ok_response (JObj [(''role'', JStr ''admin'')])) = (Inr res2 :: delivery) \<and>
     identity_of (JObj [(''role'', JStr ''admin'')]) = identity_of (rdata res2)"
proof -
  let ?me = "JObj [(''role'', JStr ''admin'')]"
  have "call_result (login ''a'' ''b'' (Inr (ok_response (JStr []))) (Inr (ok_response ?me)))
          = Inr (Identified (identity_of ?me))"
    by (simp add: login_def Let_def ok_response_def resolve_identity_def whoami_def nullish_def)
  with login_identity[of "''a''" "''b''" "Inr (ok_response (JStr []))" "Inr (ok_response ?me)"
      "identity_of ?me"]
  show ?thesis by blast
qed

text \<open>
  Every status other than these two passes for a success of the credentials: when the sign-in
  request fails with status 500 while an older session cookie is still valid, the caller is told it
  is signed in. The second-factor call does refuse every status of 400 and above.
\<close>

lemma login_ignores_server_failure:
  "status res = 500 \<Longrightarrow> \<not> truthy (jget (rdata res) ''needs_2fa'') \<Longrightarrow> \<not> nullish (rdata res2) \<Longrightarrow>
     call_result (login u p (Inr res) (Inr res2)) = Inr (Identified (identity_of (rdata res2)))"
  by (simp add: login_def Let_def resolve_identity_def whoami_def)

lemma verify2fa_refuses_failures:
  "400 \<le> status res \<Longrightarrow>
     \<exists>e. call_result (loginVerify2fa t c (Inr res) d2) = Inl (Rejected e) \<and> err_status e = Some (status res)"
  by (auto simp: loginVerify2fa_def Let_def responseError_def)

lemma loginVerify2fa_identified:
  "call_result (loginVerify2fa t c d1 d2) = Inr i \<Longrightarrow>
     \<exists>res res2. d1 = Inr res \<and> status res < 400 \<and> d2 = Inr res2 \<and> \<not> nullish (rdata res2) \<and>
       i = identity_of (rdata res2)"
proof -
  assume L: "call_result (loginVerify2fa t c d1 d2) = Inr i"
  then obtain res where res: "d1 = Inr res" "status res < 400"
    by (cases d1) (auto simp: loginVerify2fa_def Let_def split: if_splits)
  with L have "call_result (resolve_identity d2) = Inr i"
    by (auto simp: loginVerify2fa_def Let_def split: prod.splits)
  with res show ?thesis unfolding resolve_identity_Inr by blast
qed

section \<open>Retrying a query\<close>

definition query_retry :: "nat \<Rightarrow> int option \<Rightarrow> bool" where
  "query_retry failureCount s =
     (if s = Some 401 \<or> s = Some 403 \<or> s = Some 404 \<or> s = Some 422 then False
      else failureCount < 2)"

end
