(* ===== verification/Sessions.thy ===== *)
theory Sessions
  imports Api_Client
begin

text \<open>
  The session store (\<open>store/auth.js\<close>) with the handlers \<open>main.jsx\<close> registers for 401 and 503:
  sign-in, second factor, sign-out, reconciliation with the server, return from impersonation, and
  what survives a reload.

  Each operation is split where the code awaits a request. While it waits, other things happen: a
  list of events (queries starting and finishing, the server changing the session behind the
  cookie) is interleaved at every such point. The query cache is modelled by what the code relies
  on: an entry is the key and the session it was fetched under; \<open>cancelQueries\<close> followed by
  \<open>clear\<close> empties the cache and drops the requests in flight.
\<close>

section \<open>State\<close>

record auth_state =
  role :: json
  username :: json
  pending2fa :: "json option"
  impersonating :: bool
  impersonator :: json
  identitySynced :: bool
  installProfile :: json
  capabilities :: json

record world =
  au :: auth_state
  cache :: "(jsstring \<times> json) list"
  inflight :: "(jsstring \<times> json) list"
  cookie :: json
  location :: jsstring

definition initial_auth :: auth_state where
  "initial_auth =
     \<lparr>role = JNull, username = JNull, pending2fa = None, impersonating = False, impersonator = JNull,
      identitySynced = False, installProfile = JStr ''full'', capabilities = JArr []\<rparr>"

definition isAuthenticated :: "auth_state \<Rightarrow> bool" where
  "isAuthenticated a \<longleftrightarrow> truthy (role a)"

definition isAdmin :: "auth_state \<Rightarrow> bool" where
  "isAdmin a \<longleftrightarrow> role a = JStr ''admin''"

section \<open>Queries around the store\<close>

datatype event =
    StartQuery jsstring
  | FinishQuery jsstring
  | ServerSession json

fun run_event :: "event \<Rightarrow> world \<Rightarrow> world" where
  "run_event (StartQuery k) s = s\<lparr>inflight := inflight s @ [(k, cookie s)]\<rparr>"
| "run_event (FinishQuery k) s =
     (case map_of (inflight s) k of
        None \<Rightarrow> s
      | Some session \<Rightarrow>
          s\<lparr>inflight := filter (\<lambda>e. fst e \<noteq> k) (inflight s),
            cache := AList.update k session (cache s)\<rparr>)"
| "run_event (ServerSession c) s = s\<lparr>cookie := c\<rparr>"

fun run_events :: "event list \<Rightarrow> world \<Rightarrow> world" where
  "run_events [] s = s"
| "run_events (e # es) s = run_events es (run_event e s)"

definition clearSessionCache :: "world \<Rightarrow> world" where
  "clearSessionCache s = s\<lparr>cache := [], inflight := []\<rparr>"

definition no_session_change :: "event list \<Rightarrow> bool" where
  "no_session_change es \<longleftrightarrow> list_all (\<lambda>e. case e of ServerSession _ \<Rightarrow> False | _ \<Rightarrow> True) es"

text \<open>Every cached or pending answer belongs to this session.\<close>

definition owned_by :: "json \<Rightarrow> world \<Rightarrow> bool" where
  "owned_by c s \<longleftrightarrow> (\<forall>e\<in>set (cache s) \<union> set (inflight s). snd e = c)"

definition cache_empty :: "world \<Rightarrow> bool" where
  "cache_empty s \<longleftrightarrow> cache s = [] \<and> inflight s = []"

lemma cache_empty_clear [simp]: "cache_empty (clearSessionCache s)"
  by (simp add: clearSessionCache_def cache_empty_def)

lemma cookie_clear [simp]: "cookie (clearSessionCache s) = cookie s"
  by (simp add: clearSessionCache_def)

lemma au_clearSessionCache [simp]: "au (clearSessionCache s) = au s"
  by (simp add: clearSessionCache_def)

lemma run_event_owned:
  assumes "owned_by (cookie s) s" "case e of ServerSession _ \<Rightarrow> False | _ \<Rightarrow> True"
  shows "owned_by (cookie s) (run_event e s) \<and> cookie (run_event e s) = cookie s"
proof (cases e)
  case (StartQuery k)
  with assms show ?thesis by (auto simp: owned_by_def)
next
  case (FinishQuery k)
  have upd: "set (AList.update k c xs) \<subseteq> insert (k, c) (set xs)" for c and xs :: "(jsstring \<times> json) list"
    by (induction xs) auto
  show ?thesis
  proof (cases "map_of (inflight s) k")
    case None
    with FinishQuery assms show ?thesis by simp
  next
    case (Some c)
    then have "(k, c) \<in> set (inflight s)" by (rule map_of_SomeD)
    then have "c = cookie s" using assms(1) unfolding owned_by_def by (metis UnI2 snd_conv)
    with Some FinishQuery assms(1) upd[of c "cache s"] show ?thesis
      by (auto simp: owned_by_def)
  qed
next
  case (ServerSession c)
  with assms show ?thesis by simp
qed

lemma run_events_owned:
  "owned_by (cookie s) s \<Longrightarrow> no_session_change es \<Longrightarrow>
     owned_by (cookie s) (run_events es s) \<and> cookie (run_events es s) = cookie s"
proof (induction es arbitrary: s)
  case Nil
  then show ?case by simp
next
  case (Cons e es)
  then have "owned_by (cookie s) (run_event e s)" "cookie (run_event e s) = cookie s"
    using run_event_owned[of s e] by (auto simp: no_session_change_def)
  then show ?case using Cons.IH[of "run_event e s"] Cons.prems(2) by (simp add: no_session_change_def)
qed

lemma au_run_events [simp]: "au (run_events es s) = au s"
proof (induction es arbitrary: s)
  case Nil
  then show ?case by simp
next
  case (Cons e es)
  have "au (run_event e s) = au s" by (cases e) (auto split: option.split)
  with Cons show ?case by simp
qed

lemma empty_owned: "cache_empty s \<Longrightarrow> owned_by c s"
  by (simp add: cache_empty_def owned_by_def)

section \<open>Operations\<close>

definition signed_out :: "auth_state \<Rightarrow> auth_state" where
  "signed_out a = a\<lparr>role := JNull, username := JNull, pending2fa := None, impersonating := False,
     impersonator := JNull, identitySynced := False, installProfile := JStr ''full'', capabilities := JArr []\<rparr>"

definition store_clear :: "world \<Rightarrow> world" where
  "store_clear s = (clearSessionCache s)\<lparr>au := signed_out (au s)\<rparr>"

text \<open>The handlers registered in \<open>main.jsx\<close>: 401 clears the store and goes to the sign-in page.\<close>

fun apply_effect :: "effect \<Rightarrow> world \<Rightarrow> world" where
  "apply_effect Unauthorized s =
     (let s' = store_clear s
      in if endsWith (location s') ''/login'' then s' else s'\<lparr>location := ''/login''\<rparr>)"
| "apply_effect MaintenanceMode s = s\<lparr>location := ''/maintenance''\<rparr>"

fun apply_effects :: "effect list \<Rightarrow> world \<Rightarrow> world" where
  "apply_effects [] s = s"
| "apply_effects (e # es) s = apply_effects es (apply_effect e s)"

definition signed_in :: "identity \<Rightarrow> auth_state \<Rightarrow> auth_state" where
  "signed_in i a = a\<lparr>role := id_role i, username := id_username i, pending2fa := None,
     impersonating := False, impersonator := JNull, identitySynced := True,
     installProfile := js_or (id_installProfile i) (JStr ''full''),
     capabilities := js_or (id_capabilities i) (JArr [])\<rparr>"

datatype login_outcome = AskSecondFactor | SignedIn json

definition store_login :: "jsstring \<Rightarrow> jsstring \<Rightarrow> delivery \<Rightarrow> delivery \<Rightarrow> event list \<Rightarrow> event list
     \<Rightarrow> world \<Rightarrow> world \<times> (failure + login_outcome)" where
  "store_login u p d1 d2 evs1 evs2 s =
     (let s1 = run_events evs1 (clearSessionCache s) in
      case login u p d1 d2 of
        (reqs, effs, result) \<Rightarrow>
          let s2 = apply_effects effs (if length reqs > 1 then run_events evs2 s1 else s1)
          in (case result of
                Inl f \<Rightarrow> (s2, Inl f)
              | Inr (Needs2fa token) \<Rightarrow> (s2\<lparr>au := (au s2)\<lparr>pending2fa := Some token\<rparr>\<rparr>, Inr AskSecondFactor)
              | Inr (Identified i) \<Rightarrow>
                  (let s3 = clearSessionCache s2
                   in (s3\<lparr>au := signed_in i (au s3)\<rparr>, Inr (SignedIn (id_role i))))))"

text \<open>Without a pending token \<open>verify2fa\<close> throws before it sends anything.\<close>

datatype verify_error = NoPending2fa | VerifyFailed failure

definition store_verify2fa :: "jsstring \<Rightarrow> delivery \<Rightarrow> delivery \<Rightarrow> event list \<Rightarrow> event list
     \<Rightarrow> world \<Rightarrow> world \<times> (verify_error + json)" where
  "store_verify2fa otp d1 d2 evs1 evs2 s =
     (case pending2fa (au s) of
        None \<Rightarrow> (s, Inl NoPending2fa)
      | Some token \<Rightarrow>
          (let s1 = run_events evs1 s in
           case loginVerify2fa token otp d1 d2 of
             (reqs, effs, result) \<Rightarrow>
               let s2 = apply_effects effs (if length reqs > 1 then run_events evs2 s1 else s1)
               in (case result of
                     Inl f \<Rightarrow> (s2, Inl (VerifyFailed f))
                   | Inr i \<Rightarrow>
                       (let s3 = clearSessionCache s2
                        in (s3\<lparr>au := signed_in i (au s3)\<rparr>, Inr (id_role i))))))"

definition store_logout :: "delivery \<Rightarrow> event list \<Rightarrow> world \<Rightarrow> world" where
  "store_logout d evs s =
     (let s1 = run_events evs (clearSessionCache s)
      in case logout d of (reqs, effs, _) \<Rightarrow> store_clear (apply_effects effs s1))"

definition reconcile :: "json \<Rightarrow> auth_state \<Rightarrow> auth_state" where
  "reconcile me a = a\<lparr>role := jget me ''role'', username := jget me ''username'',
     impersonating := truthy (jget me ''impersonating''),
     impersonator := js_or (jget me ''impersonator'') JNull, identitySynced := True,
     installProfile := js_or (jget me ''install_profile'') (JStr ''full''),
     capabilities := js_or (jget me ''capabilities'') (JArr [])\<rparr>"

definition same_identity :: "json \<Rightarrow> auth_state \<Rightarrow> bool" where
  "same_identity me a \<longleftrightarrow> role a = jget me ''role'' \<and> username a = jget me ''username'' \<and>
     impersonating a = truthy (jget me ''impersonating'')"

definition store_sync :: "delivery \<Rightarrow> event list \<Rightarrow> world \<Rightarrow> world \<times> json" where
  "store_sync d evs s =
     (let s1 = run_events evs s in
      case whoami d of
        (reqs, effs, result) \<Rightarrow>
          let s2 = apply_effects effs s1;
              failed = (s2\<lparr>au := (au s2)\<lparr>identitySynced := True\<rparr>\<rparr>, JNull)
          in (case result of
                Inl f \<Rightarrow> failed
              | Inr me \<Rightarrow>
                  if nullish me then failed
                  else (let s3 = (if same_identity me (au s2) then s2 else clearSessionCache s2)
                        in (s3\<lparr>au := reconcile me (au s3)\<rparr>, me))))"

text \<open>
  Only role and user name are kept in the browser's storage. A full page load starts from the
  initial state with these two, and an empty cache; the address is the application root.
\<close>

definition partialize :: "auth_state \<Rightarrow> json \<times> json" where
  "partialize a = (role a, username a)"

definition rehydrate :: "json \<times> json \<Rightarrow> auth_state" where
  "rehydrate saved = initial_auth\<lparr>role := fst saved, username := snd saved\<rparr>"

definition page_load :: "jsstring \<Rightarrow> world \<Rightarrow> world" where
  "page_load url s =
     \<lparr>au = rehydrate (partialize (au s)), cache = [], inflight = [], cookie = cookie s, location = url\<rparr>"

text \<open>Whether the request succeeds or fails, the page is loaded again.\<close>

definition store_returnToAdmin :: "delivery \<Rightarrow> event list \<Rightarrow> world \<Rightarrow> world" where
  "store_returnToAdmin d evs s =
     (let s1 = run_events evs (clearSessionCache s)
      in case returnToAdmin d of (reqs, effs, _) \<Rightarrow> page_load ''/app'' (apply_effects effs s1))"

section \<open>No answer crosses from one session into the next\<close>

lemma store_login_success:
  "store_login u p d1 d2 evs1 evs2 s = (s', Inr (SignedIn r)) \<Longrightarrow>
     cache_empty s' \<and> (\<exists>i. call_result (login u p d1 d2) = Inr (Identified i) \<and> role (au s') = id_role i)"
  by (auto simp: store_login_def Let_def cache_empty_def clearSessionCache_def signed_in_def
      split: prod.splits sum.splits login_result.splits)

lemma store_verify_success:
  "store_verify2fa otp d1 d2 evs1 evs2 s = (s', Inr r) \<Longrightarrow> cache_empty s'"
  by (auto simp: store_verify2fa_def Let_def cache_empty_def clearSessionCache_def
      split: option.splits prod.splits sum.splits)

lemma store_clear_empty: "cache_empty (store_clear s)"
  by (simp add: store_clear_def cache_empty_def clearSessionCache_def)

lemma store_logout_empty: "cache_empty (store_logout d evs s)"
  by (auto simp: store_logout_def Let_def store_clear_def cache_empty_def clearSessionCache_def
      split: prod.splits)

lemma store_return_empty: "cache_empty (store_returnToAdmin d evs s)"
  by (auto simp: store_returnToAdmin_def Let_def page_load_def cache_empty_def split: prod.splits)

lemma store_sync_changed:
  "\<not> same_identity me (au s) \<Longrightarrow> \<not> nullish me \<Longrightarrow>
     cache_empty (fst (store_sync (Inr \<lparr>status = st, rdata = me, reference_header = h\<rparr>) evs s))"
  by (simp add: store_sync_def whoami_def Let_def cache_empty_def clearSessionCache_def)

text \<open>What may follow the end of a session change without another one.\<close>

inductive session_change :: "world \<Rightarrow> world \<Rightarrow> bool" where
  by_login: "store_login u p d1 d2 evs1 evs2 s = (s', Inr (SignedIn r)) \<Longrightarrow> session_change s s'"
| by_verify: "store_verify2fa otp d1 d2 evs1 evs2 s = (s', Inr r) \<Longrightarrow> session_change s s'"
| by_logout: "s' = store_logout d evs s \<Longrightarrow> session_change s s'"
| by_clear: "s' = store_clear s \<Longrightarrow> session_change s s'"
| by_sync: "\<not> same_identity me (au s) \<Longrightarrow> \<not> nullish me \<Longrightarrow>
     s' = fst (store_sync (Inr \<lparr>status = st, rdata = me, reference_header = h\<rparr>) evs s) \<Longrightarrow> session_change s s'"
| by_return: "s' = store_returnToAdmin d evs s \<Longrightarrow> session_change s s'"

lemma session_change_empty: "session_change s s' \<Longrightarrow> cache_empty s'"
  by (induction rule: session_change.induct)
     (auto dest: store_login_success store_verify_success store_sync_changed
       simp: store_logout_empty store_return_empty store_clear_empty)

text \<open>C1. After any change of session (sign-in, second factor, sign-out, a 401, a different identity
  found by reconciliation, the return from impersonation), whatever was cached or in flight before
  and whatever was interleaved meanwhile, every answer that later reaches the cache was requested
  under the session the cookie then carries.\<close>

theorem session_isolation:
  assumes "session_change s s'" "no_session_change es"
  shows "owned_by (cookie s') (run_events es s')"
  using run_events_owned[OF empty_owned[OF session_change_empty[OF assms(1)]] assms(2)] by blast

definition busy_world :: world where
  "busy_world =
     \<lparr>au = signed_in (identity_of (JObj [(''role'', JStr ''admin''), (''username'', JStr ''root'')])) initial_auth,
      cache = [(''accounts'', JStr ''root'')], inflight = [(''health'', JStr ''root'')],
      cookie = JStr ''root'', location = ''/health''\<rparr>"

theorem session_isolation_witness:
  "owned_by JNull (run_events [FinishQuery ''health'', StartQuery ''version'', FinishQuery ''version'']
     (store_logout (Inr (ok_response JNull)) [FinishQuery ''health'', ServerSession JNull] busy_world))"
proof -
  let ?s = "store_logout (Inr (ok_response JNull)) [FinishQuery ''health'', ServerSession JNull] busy_world"
  have "session_change busy_world ?s" by (rule by_logout) simp
  moreover have "cookie ?s = JNull"
    by (simp add: store_logout_def logout_def store_clear_def clearSessionCache_def busy_world_def)
  ultimately show ?thesis
    using session_isolation[of busy_world ?s
        "[FinishQuery ''health'', StartQuery ''version'', FinishQuery ''version'']"]
    by (simp add: no_session_change_def)
qed

section \<open>Where an identity comes from\<close>

datatype session_op =
    OpLogin jsstring jsstring delivery delivery "event list" "event list"
  | OpVerify jsstring delivery delivery "event list" "event list"
  | OpLogout delivery "event list"
  | OpClear
  | OpSync delivery "event list"
  | OpReturn delivery "event list"
  | OpReload jsstring
  | OpEffect effect
  | OpEvents "event list"

fun run_op :: "session_op \<Rightarrow> world \<Rightarrow> world" where
  "run_op (OpLogin u p d1 d2 e1 e2) s = fst (store_login u p d1 d2 e1 e2 s)"
| "run_op (OpVerify otp d1 d2 e1 e2) s = fst (store_verify2fa otp d1 d2 e1 e2 s)"
| "run_op (OpLogout d e) s = store_logout d e s"
| "run_op OpClear s = store_clear s"
| "run_op (OpSync d e) s = fst (store_sync d e s)"
| "run_op (OpReturn d e) s = store_returnToAdmin d e s"
| "run_op (OpReload url) s = page_load url s"
| "run_op (OpEffect x) s = apply_effect x s"
| "run_op (OpEvents e) s = run_events e s"

fun run_ops :: "session_op list \<Rightarrow> world \<Rightarrow> world" where
  "run_ops [] s = s"
| "run_ops (x # xs) s = run_ops xs (run_op x s)"

text \<open>The answers to the identity request that an operation may have received.\<close>

fun answers :: "session_op \<Rightarrow> json list" where
  "answers (OpLogin u p d1 (Inr res) e1 e2) = [rdata res]"
| "answers (OpVerify otp d1 (Inr res) e1 e2) = [rdata res]"
| "answers (OpSync (Inr res) e) = [rdata res]"
| "answers _ = []"

definition identity_from :: "json list \<Rightarrow> auth_state \<Rightarrow> bool" where
  "identity_from mes a \<longleftrightarrow> (role a, username a) = (JNull, JNull) \<or>
     list_ex (\<lambda>me. role a = jget me ''role'' \<and> username a = jget me ''username'') mes"

lemma identity_from_mono: "identity_from mes a \<Longrightarrow> set mes \<subseteq> set mes' \<Longrightarrow> identity_from mes' a"
  by (auto simp: identity_from_def list_ex_iff)

lemma identity_from_cong:
  "role a = role b \<Longrightarrow> username a = username b \<Longrightarrow> identity_from mes a = identity_from mes b"
  by (simp add: identity_from_def)

lemma identity_from_effects:
  "identity_from mes (au s) \<Longrightarrow> identity_from mes (au (apply_effects es s))"
proof (induction es arbitrary: s)
  case Nil
  then show ?case by simp
next
  case (Cons e es)
  have "identity_from mes (au (apply_effect e s))"
    using Cons.prems by (cases e) (auto simp: identity_from_def store_clear_def signed_out_def Let_def)
  with Cons.IH show ?case by simp
qed

lemma identity_from_signed_in:
  "i = identity_of me \<Longrightarrow> me \<in> set mes \<Longrightarrow> identity_from mes (signed_in i a)"
  by (auto simp: identity_from_def list_ex_iff signed_in_def identity_of_def)

lemma identity_from_reconcile: "me \<in> set mes \<Longrightarrow> identity_from mes (reconcile me a)"
  by (auto simp: identity_from_def list_ex_iff reconcile_def)

lemma identity_from_record [simp]:
  "identity_from mes (a\<lparr>pending2fa := t\<rparr>) = identity_from mes a"
  "identity_from mes (a\<lparr>identitySynced := b\<rparr>) = identity_from mes a"
  by (simp_all add: identity_from_def)

lemma login_from:
  assumes "identity_from mes (au s)"
  shows "identity_from (answers (OpLogin u p d1 d2 e1 e2) @ mes) (au (fst (store_login u p d1 d2 e1 e2 s)))"
proof -
  obtain reqs effs result where L: "login u p d1 d2 = (reqs, effs, result)" by (cases "login u p d1 d2") auto
  define s2 where "s2 = apply_effects effs (if length reqs > 1
     then run_events e2 (run_events e1 (clearSessionCache s)) else run_events e1 (clearSessionCache s))"
  have s2: "identity_from (answers (OpLogin u p d1 d2 e1 e2) @ mes) (au s2)"
    unfolding s2_def using assms
    by (intro identity_from_effects) (auto intro: identity_from_mono)
  show ?thesis
  proof (cases result)
    case (Inl f)
    with L s2 show ?thesis by (simp add: store_login_def Let_def s2_def)
  next
    case (Inr r)
    show ?thesis
    proof (cases r)
      case (Needs2fa t)
      with L Inr s2 show ?thesis by (simp add: store_login_def Let_def s2_def)
    next
      case (Identified i)
      with L Inr have "call_result (login u p d1 d2) = Inr (Identified i)" by simp
      then obtain res2 where "d2 = Inr res2" "i = identity_of (rdata res2)"
        using login_identified by blast
      with L Inr Identified show ?thesis
        by (simp add: store_login_def Let_def identity_from_signed_in)
    qed
  qed
qed

lemma verify_from:
  assumes "identity_from mes (au s)"
  shows "identity_from (answers (OpVerify otp d1 d2 e1 e2) @ mes) (au (fst (store_verify2fa otp d1 d2 e1 e2 s)))"
proof (cases "pending2fa (au s)")
  case None
  with assms show ?thesis by (auto simp: store_verify2fa_def intro: identity_from_mono)
next
  case (Some token)
  obtain reqs effs result where L: "loginVerify2fa token otp d1 d2 = (reqs, effs, result)"
    by (cases "loginVerify2fa token otp d1 d2") auto
  define s2 where "s2 = apply_effects effs (if length reqs > 1
     then run_events e2 (run_events e1 s) else run_events e1 s)"
  have s2: "identity_from (answers (OpVerify otp d1 d2 e1 e2) @ mes) (au s2)"
    unfolding s2_def using assms
    by (intro identity_from_effects) (auto intro: identity_from_mono)
  show ?thesis
  proof (cases result)
    case (Inl f)
    with L Some s2 show ?thesis by (simp add: store_verify2fa_def Let_def s2_def)
  next
    case (Inr i)
    with L have "call_result (loginVerify2fa token otp d1 d2) = Inr i" by simp
    then obtain res2 where "d2 = Inr res2" "i = identity_of (rdata res2)"
      using loginVerify2fa_identified by blast
    with L Some Inr show ?thesis
      by (simp add: store_verify2fa_def Let_def identity_from_signed_in)
  qed
qed

lemma sync_from:
  assumes "identity_from mes (au s)"
  shows "identity_from (answers (OpSync d e) @ mes) (au (fst (store_sync d e s)))"
proof -
  have m: "identity_from (answers (OpSync d e) @ mes) (au (apply_effects es (run_events e s)))" for es
    using assms by (intro identity_from_effects) (auto intro: identity_from_mono)
  show ?thesis
  proof (cases d)
    case (Inl error)
    then show ?thesis using m[of "fst (intercept error)"] by (simp add: store_sync_def whoami_def Let_def)
  next
    case (Inr res)
    then show ?thesis using m[of "[]"]
      by (auto simp: store_sync_def whoami_def Let_def intro: identity_from_reconcile)
  qed
qed

lemma op_from: "identity_from mes (au s) \<Longrightarrow> identity_from (answers x @ mes) (au (run_op x s))"
proof (cases x)
  case (OpLogin u p d1 d2 e1 e2)
  assume "identity_from mes (au s)"
  with OpLogin show ?thesis using login_from by simp
next
  case (OpVerify otp d1 d2 e1 e2)
  assume "identity_from mes (au s)"
  with OpVerify show ?thesis using verify_from by simp
next
  case (OpSync d e)
  assume "identity_from mes (au s)"
  with OpSync show ?thesis using sync_from by simp
next
  case (OpLogout d e)
  then show ?thesis
    by (auto simp: store_logout_def Let_def store_clear_def signed_out_def identity_from_def split: prod.splits)
next
  case OpClear
  then show ?thesis by (simp add: store_clear_def signed_out_def identity_from_def)
next
  case (OpReturn d e)
  assume a: "identity_from mes (au s)"
  have "identity_from mes (au (apply_effects es (run_events e (clearSessionCache s))))" for es
    using a by (intro identity_from_effects) simp
  then have "identity_from mes (au (store_returnToAdmin d e s))"
    by (auto simp: store_returnToAdmin_def Let_def page_load_def rehydrate_def partialize_def
        identity_from_def split: prod.splits)
  with OpReturn show ?thesis by (auto intro: identity_from_mono)
next
  case (OpReload url)
  assume "identity_from mes (au s)"
  with OpReload show ?thesis
    by (auto simp: page_load_def rehydrate_def partialize_def identity_from_def)
next
  case (OpEffect y)
  assume "identity_from mes (au s)"
  with OpEffect show ?thesis using identity_from_effects[of mes s "[y]"] by (auto intro: identity_from_mono)
next
  case (OpEvents e)
  assume "identity_from mes (au s)"
  with OpEvents show ?thesis by (auto intro: identity_from_mono)
qed

lemma ops_from:
  "identity_from mes (au s) \<Longrightarrow> identity_from (concat (map answers ops) @ mes) (au (run_ops ops s))"
proof (induction ops arbitrary: s mes)
  case Nil
  then show ?case by simp
next
  case (Cons x ops)
  from Cons.IH[OF op_from[OF Cons.prems, of x]] show ?case
    by (auto intro: identity_from_mono)
qed

definition fresh_world :: "jsstring \<Rightarrow> json \<Rightarrow> world" where
  "fresh_world url c = \<lparr>au = initial_auth, cache = [], inflight = [], cookie = c, location = url\<rparr>"

text \<open>C38. Starting signed out, after any sequence of operations, reloads, 401s and interleaved
  queries, the role and the user name the panel shows are together the ones of an answer to the
  identity request, or none.\<close>

theorem identity_only_from_server:
  "identity_from (concat (map answers ops)) (au (run_ops ops (fresh_world url c)))"
  using ops_from[of "[]" "fresh_world url c" ops]
  by (simp add: identity_from_def fresh_world_def initial_auth_def)

section \<open>Second factor\<close>

text \<open>C39. When a second factor is asked, the sign-in changes nothing of the identity and stores only
  the pending token. Without a pending token the second step is refused and changes nothing; a
  success consumes the token.\<close>

theorem second_factor_protocol:
  "(snd (store_login u p d1 d2 e1 e2 s) = Inr AskSecondFactor \<longrightarrow>
      (\<exists>t. au (fst (store_login u p d1 d2 e1 e2 s)) = (au s)\<lparr>pending2fa := Some t\<rparr>)) \<and>
   (pending2fa (au s) = None \<longrightarrow> store_verify2fa otp d1 d2 e1 e2 s = (s, Inl NoPending2fa)) \<and>
   (\<forall>r. snd (store_verify2fa otp d1 d2 e1 e2 s) = Inr r \<longrightarrow>
      pending2fa (au (fst (store_verify2fa otp d1 d2 e1 e2 s))) = None \<and>
      role (au (fst (store_verify2fa otp d1 d2 e1 e2 s))) = r)"
proof (intro conjI allI impI)
  assume A: "snd (store_login u p d1 d2 e1 e2 s) = Inr AskSecondFactor"
  obtain reqs effs result where L: "login u p d1 d2 = (reqs, effs, result)" by (cases "login u p d1 d2") auto
  with A obtain t where R: "result = Inr (Needs2fa t)"
    by (auto simp: store_login_def Let_def split: sum.splits login_result.splits)
  then have "effs = []" using login_needs2fa_quiet[of u p d1 d2 t] L by simp
  with L R show "\<exists>t. au (fst (store_login u p d1 d2 e1 e2 s)) = (au s)\<lparr>pending2fa := Some t\<rparr>"
    by (auto simp: store_login_def Let_def)
next
  assume "pending2fa (au s) = None"
  then show "store_verify2fa otp d1 d2 e1 e2 s = (s, Inl NoPending2fa)" by (simp add: store_verify2fa_def)
next
  fix r
  assume "snd (store_verify2fa otp d1 d2 e1 e2 s) = Inr r"
  then show "pending2fa (au (fst (store_verify2fa otp d1 d2 e1 e2 s))) = None"
    and "role (au (fst (store_verify2fa otp d1 d2 e1 e2 s))) = r"
    by (auto simp: store_verify2fa_def Let_def signed_in_def split: option.splits prod.splits sum.splits)
qed

theorem second_factor_protocol_witness:
  "\<exists>t. au (fst (store_login ''a'' ''b''
       (Inr (ok_response (JObj [(''needs_2fa'', JBool True), (''pending_token'', JStr ''t'')])))
       (Inr (ok_response JNull)) [] [] busy_world)) = (au busy_world)\<lparr>pending2fa := Some t\<rparr>"
proof -
  let ?d = "Inr (ok_response (JObj [(''needs_2fa'', JBool True), (''pending_token'', JStr ''t'')]))"
  have "snd (store_login ''a'' ''b'' ?d (Inr (ok_response JNull)) [] [] busy_world) = Inr AskSecondFactor"
    by (simp add: store_login_def login_def Let_def ok_response_def)
  then show ?thesis
    using second_factor_protocol[of "''a''" "''b''" ?d "Inr (ok_response JNull)" "[]" "[]" busy_world] by blast
qed

section \<open>A reload\<close>

text \<open>Whatever a page load kept in the browser's storage, the reconciliation that follows it
  replaces the identity, the impersonation flag and the capabilities by the server's; nothing that
  was cached before survives.\<close>

theorem reload_restores_server_identity:
  assumes "\<not> nullish me"
  shows "au (fst (store_sync (Inr \<lparr>status = st, rdata = me, reference_header = h\<rparr>) [] (page_load url s)))
           = reconcile me initial_auth \<and>
         cache_empty (fst (store_sync (Inr \<lparr>status = st, rdata = me, reference_header = h\<rparr>) [] (page_load url s)))"
  using assms
  by (auto simp: store_sync_def whoami_def Let_def page_load_def rehydrate_def partialize_def
      reconcile_def initial_auth_def cache_empty_def clearSessionCache_def)

theorem reload_restores_server_identity_witness:
  "au (fst (store_sync (Inr \<lparr>status = 200, rdata = JObj [(''role'', JStr ''customer'')], reference_header = JUndef\<rparr>)
       [] (page_load ''/app'' busy_world))) = reconcile (JObj [(''role'', JStr ''customer'')]) initial_auth"
  using reload_restores_server_identity[of "JObj [(''role'', JStr ''customer'')]"] by (simp add: nullish_def)

end
