(* ===== verification/Format.thy ===== *)
theory Format
  imports Boron_Prelude Complex_Main
begin

text \<open>
  The shared formatters of \<open>lib/utils.js\<close> and the catalogues of \<open>config/constants.js\<close>.

  Numbers that may be fractions are rationals. What the JavaScript runtime formats by itself
  (\<open>toFixed\<close>, \<open>Intl.NumberFormat\<close>, \<open>Intl.RelativeTimeFormat\<close>, dates) is a parameter of the
  functions that call it. \<open>formatBytes\<close> is stated for whole numbers of bytes, where the quotient
  of logarithms is at least 0; its rounding in binary floating point is not modelled.
\<close>

section \<open>Rounding\<close>

definition js_round :: "rat \<Rightarrow> int" where
  "js_round q = \<lfloor>q + 1 / 2\<rfloor>"

section \<open>Durations\<close>

definition formatDuration :: "rat option \<Rightarrow> jsstring" where
  "formatDuration seconds =
     (case seconds of
        None \<Rightarrow> [em_dash]
      | Some q \<Rightarrow>
          (let s = \<lfloor>q\<rfloor>; d = s div 86400; h = (s mod 86400) div 3600; m = (s mod 3600) div 60
           in if d > 0 then show_int d @ ''d '' @ show_int h @ ''h''
              else if h > 0 then show_int h @ ''h '' @ show_int m @ ''m''
              else if m > 0 then show_int m @ ''m''
              else show_int s @ ''s''))"

text \<open>What the parts of a rendered duration stand for.\<close>

fun duration_value :: "(int \<times> char) list \<Rightarrow> int" where
  "duration_value [] = 0"
| "duration_value ((n, u) # ps) =
     n * (if u = CHR ''d'' then 86400 else if u = CHR ''h'' then 3600 else if u = CHR ''m'' then 60 else 1)
       + duration_value ps"

fun show_parts :: "(int \<times> char) list \<Rightarrow> jsstring" where
  "show_parts [] = []"
| "show_parts [(n, u)] = show_int n @ [u]"
| "show_parts ((n, u) # ps) = show_int n @ [u] @ '' '' @ show_parts ps"

text \<open>A rendered duration reads as at most two parts whose value never exceeds the duration
  and misses it by less than the smallest part shown stands for; hours stay below 24 and minutes
  below 60.\<close>

theorem formatDuration_value:
  assumes "0 \<le> q"
  shows "\<exists>ps. formatDuration (Some q) = show_parts ps \<and> ps \<noteq> [] \<and> length ps \<le> 2 \<and>
           0 \<le> \<lfloor>q\<rfloor> - duration_value ps \<and>
           \<lfloor>q\<rfloor> - duration_value ps < duration_value [(1, snd (last ps))] \<and>
           list_all (\<lambda>(n, u). 0 \<le> n \<and> (u = CHR ''h'' \<longrightarrow> n < 24) \<and> (u \<in> {CHR ''m'', CHR ''s''} \<longrightarrow> n < 60)) ps"
proof -
  define s where "s = \<lfloor>q\<rfloor>"
  have s0: "0 \<le> s" using assms by (simp add: s_def)
  define d where "d = s div 86400"
  define h where "h = (s mod 86400) div 3600"
  define m where "m = (s mod 3600) div 60"
  have F: "formatDuration (Some q) =
      (if d > 0 then show_int d @ ''d '' @ show_int h @ ''h''
       else if h > 0 then show_int h @ ''h '' @ show_int m @ ''m''
       else if m > 0 then show_int m @ ''m'' else show_int s @ ''s'')"
    by (simp add: formatDuration_def s_def d_def h_def m_def Let_def)
  have b: "0 \<le> d" "0 \<le> h" "h < 24" "0 \<le> m" "m < 60" using s0 by (simp_all add: d_def h_def m_def)
  have dd: "s = d * 86400 + s mod 86400"
    by (simp add: d_def)
  have hh: "0 \<le> s mod 86400 - h * 3600" "s mod 86400 - h * 3600 < 3600"
    unfolding h_def by (simp_all add: minus_div_mult_eq_mod)
  have mm: "0 \<le> s mod 3600 - m * 60" "s mod 3600 - m * 60 < 60"
    unfolding m_def by (simp_all add: minus_div_mult_eq_mod)
  consider "d > 0" | "d = 0" "h > 0" | "d = 0" "h = 0" "m > 0" | "d = 0" "h = 0" "m = 0"
    using b by linarith
  then show ?thesis
  proof cases
    case 1
    have "0 \<le> s - (d * 86400 + h * 3600)" "s - (d * 86400 + h * 3600) < 3600"
      using dd hh by linarith+
    with 1 b show ?thesis
      unfolding F s_def[symmetric] by (intro exI[of _ "[(d, CHR ''d''), (h, CHR ''h'')]"]) simp
  next
    case 2
    then have "s mod 86400 = s" using dd by linarith
    then have "h * 3600 + s mod 3600 = s" unfolding h_def by simp
    then have "0 \<le> s - (h * 3600 + m * 60)" "s - (h * 3600 + m * 60) < 60"
      using mm by linarith+
    with 2 b show ?thesis
      unfolding F s_def[symmetric] by (intro exI[of _ "[(h, CHR ''h''), (m, CHR ''m'')]"]) simp
  next
    case 3
    then have "s < 3600" using dd hh by linarith
    then have "s mod 3600 = s" using s0 by simp
    then have "0 \<le> s - m * 60" "s - m * 60 < 60" using mm by linarith+
    with 3 b show ?thesis
      unfolding F s_def[symmetric] by (intro exI[of _ "[(m, CHR ''m'')]"]) simp
  next
    case 4
    then have "s < 3600" using dd hh by linarith
    then have "s mod 3600 = s" using s0 by simp
    then have "s < 60" using mm 4 by linarith
    with 4 s0 show ?thesis
      unfolding F s_def[symmetric] by (intro exI[of _ "[(s, CHR ''s'')]"]) simp
  qed
qed

theorem formatDuration_value_witness:
  "\<exists>ps. formatDuration (Some (90061 :: rat)) = show_parts ps \<and> ps \<noteq> []"
  using formatDuration_value[of 90061] by auto

section \<open>Shares and sizes\<close>

definition percent :: "rat \<Rightarrow> rat option \<Rightarrow> int" where
  "percent used whole =
     (case whole of None \<Rightarrow> 0 | Some t \<Rightarrow> if t = 0 then 0 else min 100 (js_round ((used / t) * 100)))"

fun log_k :: "nat \<Rightarrow> nat" where
  "log_k n = (if n < 1024 then 0 else Suc (log_k (n div 1024)))"

declare log_k.simps [simp del]

definition byte_units :: "jsstring list" where
  "byte_units = [''B'', ''KB'', ''MB'', ''GB'', ''TB'', ''PB'']"

definition formatBytes :: "(rat \<Rightarrow> nat \<Rightarrow> jsstring) \<Rightarrow> int option \<Rightarrow> nat \<Rightarrow> jsstring" where
  "formatBytes toFixed bytes decimals =
     (case bytes of
        None \<Rightarrow> [em_dash]
      | Some b \<Rightarrow>
          if b = 0 then ''0 B''
          else (let i = min (log_k (nat \<bar>b\<bar>)) (length byte_units - 1);
                    val = of_int b / of_int (1024 ^ i)
                in toFixed val (if i = 0 then 0 else decimals) @ '' '' @ byte_units ! i))"

definition formatMB :: "(rat \<Rightarrow> nat \<Rightarrow> jsstring) \<Rightarrow> int option \<Rightarrow> jsstring" where
  "formatMB toFixed mb =
     (case mb of None \<Rightarrow> [em_dash] | Some m \<Rightarrow> formatBytes toFixed (Some (m * 1024 * 1024)) 1)"

lemma log_k_bounds: "0 < n \<Longrightarrow> 1024 ^ log_k n \<le> n \<and> n < 1024 ^ Suc (log_k n)"
proof (induction n rule: log_k.induct)
  case (1 n)
  show ?case
  proof (cases "n < 1024")
    case True
    with 1 show ?thesis by (simp add: log_k.simps)
  next
    case False
    define k where "k = log_k (n div 1024)"
    have q0: "0 < n div 1024" using False by simp
    with 1 False have IH: "1024 ^ k \<le> n div 1024" "n div 1024 < 1024 ^ Suc k"
      unfolding k_def by auto
    have lk: "log_k n = Suc k" using False by (simp add: log_k.simps k_def)
    have "1024 * (n div 1024) \<le> n" "n < 1024 * (n div 1024) + 1024"
      using div_mult_mod_eq[of n 1024] mod_less_divisor[of 1024 n] by linarith+
    moreover have "1024 * (n div 1024) + 1024 \<le> 1024 * 1024 ^ Suc k" using IH(2) by linarith
    ultimately show ?thesis unfolding lk using IH(1) by simp
  qed
qed

text \<open>A size of up to one unit beyond the last is shown in the largest unit that keeps the
  number at least 1, and below 1024 unless the last unit is used; a percentage of a non-negative
  use lies between 0 and 100.\<close>

theorem formatBytes_unit:
  assumes "b \<noteq> 0"
  shows "\<exists>i v. i < length byte_units \<and> v * 1024 ^ i = of_int b \<and> 1 \<le> \<bar>v\<bar> \<and>
           (i < length byte_units - 1 \<longrightarrow> \<bar>v\<bar> < 1024) \<and>
           formatBytes toFixed (Some b) dec = toFixed v (if i = 0 then 0 else dec) @ '' '' @ byte_units ! i"
proof -
  let ?n = "nat \<bar>b\<bar>"
  define i where "i = min (log_k ?n) (length byte_units - 1)"
  define v :: rat where "v = of_int b / of_int (1024 ^ i)"
  have n0: "0 < ?n" using assms by simp
  have lo: "1024 ^ i \<le> ?n"
  proof -
    have "(1024 :: nat) ^ i \<le> 1024 ^ log_k ?n" by (intro power_increasing) (auto simp: i_def)
    with log_k_bounds[OF n0] show ?thesis by linarith
  qed
  have absv: "\<bar>v\<bar> = of_nat ?n / 1024 ^ i" by (simp add: v_def)
  have one: "1 \<le> \<bar>v\<bar>"
  proof -
    have "(1024 :: rat) ^ i \<le> of_nat ?n"
      using lo by (metis of_nat_le_iff of_nat_numeral of_nat_power)
    then show ?thesis unfolding absv by (simp add: pos_le_divide_eq)
  qed
  have up: "\<bar>v\<bar> < 1024" if "i < length byte_units - 1"
  proof -
    from that have "i = log_k ?n" by (simp add: i_def min_def split: if_splits)
    with log_k_bounds[OF n0] have "?n < 1024 * 1024 ^ i" by simp
    then have "(of_nat ?n :: rat) < 1024 * 1024 ^ i"
      by (metis of_nat_less_iff of_nat_mult of_nat_numeral of_nat_power)
    then show ?thesis unfolding absv by (simp add: pos_divide_less_eq)
  qed
  have "v * 1024 ^ i = of_int b" by (simp add: v_def)
  moreover have "formatBytes toFixed (Some b) dec = toFixed v (if i = 0 then 0 else dec) @ '' '' @ byte_units ! i"
    using assms by (simp add: formatBytes_def i_def v_def Let_def)
  moreover have "i < length byte_units" by (simp add: i_def byte_units_def)
  ultimately show ?thesis using one up by blast
qed

theorem formatBytes_unit_witness:
  "\<exists>i (v :: rat). i < length byte_units \<and> v * 1024 ^ i = of_int 1536 \<and>
     formatBytes (\<lambda>_ _. ''1.5'') (Some 1536) 1 = ''1.5'' @ '' '' @ byte_units ! i"
proof -
  have "(1536 :: int) \<noteq> 0" by simp
  from formatBytes_unit[OF this, of "\<lambda>_ _. ''1.5''" 1] show ?thesis by blast
qed

lemma percent_bounds: "0 \<le> used \<Longrightarrow> (\<And>t. whole = Some t \<Longrightarrow> 0 \<le> t) \<Longrightarrow> 0 \<le> percent used whole \<and> percent used whole \<le> 100"
  by (auto simp: percent_def js_round_def split: option.splits)

section \<open>Text\<close>

definition pluralize :: "(int \<Rightarrow> jsstring) \<Rightarrow> int \<Rightarrow> jsstring \<Rightarrow> jsstring option \<Rightarrow> jsstring" where
  "pluralize formatNumber n singular plural =
     formatNumber n @ '' '' @ (if n = 1 then singular else or_string plural (singular @ ''s''))"

definition despace :: "jsstring \<Rightarrow> jsstring" where
  "despace = map (\<lambda>c. if c = CHR ''_'' \<or> c = CHR ''-'' then CHR '' '' else c)"

text \<open>The word boundary: a word character that does not follow another one.\<close>

fun capitalise :: "bool \<Rightarrow> jsstring \<Rightarrow> jsstring" where
  "capitalise after [] = []"
| "capitalise after (c # cs) =
     (if is_word c \<and> \<not> after then upper_ascii c else c) # capitalise (is_word c) cs"

definition titleCase :: "json \<Rightarrow> jsstring" where
  "titleCase v = (if truthy v then capitalise False (despace (js_String v)) else [])"

definition truncate :: "jsstring \<Rightarrow> nat \<Rightarrow> jsstring" where
  "truncate s n = (if s = [] then [] else if length s > n then take (n - 1) s @ [ellipsis] else s)"

lemma code_upper_ascii: "code (upper_ascii c) = (if is_lower c then code c - 32 else code c)"
  using code_less_256[of c] by (auto simp: upper_ascii_def is_lower_def)

lemma is_word_code: "is_word c \<longleftrightarrow> (48 \<le> code c \<and> code c \<le> 57) \<or> (65 \<le> code c \<and> code c \<le> 90) \<or>
    (97 \<le> code c \<and> code c \<le> 122) \<or> code c = 95"
proof -
  have "c = CHR ''_'' \<longleftrightarrow> code c = 95" by (simp add: code_eq_iff[symmetric, of c] code_def)
  then show ?thesis by (auto simp: is_word_def is_digit_def is_upper_def is_lower_def)
qed

lemma is_word_upper_ascii [simp]: "is_word (upper_ascii c) = is_word c"
  unfolding is_word_code code_upper_ascii is_lower_def by auto

lemma upper_ascii_idem [simp]: "upper_ascii (upper_ascii c) = upper_ascii c"
proof -
  have "code (upper_ascii (upper_ascii c)) = code (upper_ascii c)"
    unfolding code_upper_ascii[of "upper_ascii c"] by (auto simp: is_lower_def code_upper_ascii)
  then show ?thesis by (simp add: code_eq_iff)
qed

lemma capitalise_idem: "capitalise b (capitalise b s) = capitalise b s"
  by (induction s arbitrary: b) auto

lemma separators_not_lower: "upper_ascii c \<in> {CHR ''_'', CHR ''-''} \<Longrightarrow> c \<in> {CHR ''_'', CHR ''-''}"
proof -
  assume a: "upper_ascii c \<in> {CHR ''_'', CHR ''-''}"
  then have "code (upper_ascii c) = 95 \<or> code (upper_ascii c) = 45"
    by (auto simp: code_def)
  then have "\<not> is_lower c" unfolding code_upper_ascii by (auto simp: is_lower_def split: if_splits)
  with a show ?thesis by (simp add: upper_ascii_def)
qed

lemma despace_no_separator: "c \<in> set (despace s) \<Longrightarrow> c \<noteq> CHR ''_'' \<and> c \<noteq> CHR ''-''"
  by (auto simp: despace_def)

lemma despace_id: "CHR ''_'' \<notin> set s \<Longrightarrow> CHR ''-'' \<notin> set s \<Longrightarrow> despace s = s"
  by (induction s) (auto simp: despace_def)

lemma capitalise_separators:
  "CHR ''_'' \<notin> set s \<Longrightarrow> CHR ''-'' \<notin> set s \<Longrightarrow>
     CHR ''_'' \<notin> set (capitalise b s) \<and> CHR ''-'' \<notin> set (capitalise b s)"
proof (induction s arbitrary: b)
  case Nil
  then show ?case by simp
next
  case (Cons c cs)
  have "upper_ascii c \<notin> {CHR ''_'', CHR ''-''}" using Cons.prems separators_not_lower[of c] by auto
  with Cons show ?case by auto
qed

text \<open>Titles are stable: a title put through \<open>titleCase\<close> again is unchanged, it holds no
  underscore or hyphen, and it has the length of the text it came from.\<close>

theorem titleCase_stable:
  "titleCase (JStr (titleCase v)) = titleCase v \<and>
   CHR ''_'' \<notin> set (titleCase v) \<and> CHR ''-'' \<notin> set (titleCase v) \<and>
   length (titleCase (JStr s)) = length s"
proof -
  have len: "length (capitalise b s) = length s" for b s by (induction s arbitrary: b) auto
  have sep: "CHR ''_'' \<notin> set (capitalise False (despace s)) \<and> CHR ''-'' \<notin> set (capitalise False (despace s))" for s
    by (rule capitalise_separators) (auto dest: despace_no_separator)
  have "capitalise False (despace (capitalise False (despace s))) = capitalise False (despace s)" for s
    using despace_id[of "capitalise False (despace s)"] sep[of s] by (simp add: capitalise_idem)
  then show ?thesis using sep by (auto simp: titleCase_def len despace_def)
qed

lemma truncate_length: "0 < n \<Longrightarrow> length (truncate s n) \<le> n"
  by (auto simp: truncate_def)

lemma truncate_short: "length s \<le> n \<Longrightarrow> truncate s n = s"
  by (auto simp: truncate_def)

section \<open>Relative times\<close>

definition time_steps :: "(jsstring \<times> rat) list" where
  "time_steps = [(''year'', 31536000), (''month'', 2592000), (''day'', 86400), (''hour'', 3600),
     (''minute'', 60), (''second'', 1)]"

fun pick_step :: "(int \<Rightarrow> jsstring \<Rightarrow> jsstring) \<Rightarrow> rat \<Rightarrow> (jsstring \<times> rat) list \<Rightarrow> jsstring" where
  "pick_step rtf diff [] = []"
| "pick_step rtf diff ((unit, secs) # rest) =
     (if \<bar>diff\<bar> \<ge> secs \<or> unit = ''second'' then rtf (js_round (diff / secs)) unit
      else pick_step rtf diff rest)"

text \<open>\<open>parsed\<close> is the time of the date, None when it does not parse; \<open>now\<close> the current time, both in
  milliseconds.\<close>

definition relativeTime :: "(int \<Rightarrow> jsstring \<Rightarrow> jsstring) \<Rightarrow> rat \<Rightarrow> json \<Rightarrow> rat option \<Rightarrow> jsstring" where
  "relativeTime rtf now stamp parsed =
     (if \<not> truthy stamp then [em_dash]
      else (case parsed of None \<Rightarrow> js_String stamp
            | Some t \<Rightarrow> pick_step rtf ((t - now) / 1000) time_steps))"

lemma pick_step_unit:
  "\<exists>secs. (''second'', secs) \<in> set steps \<Longrightarrow>
     \<exists>n unit. pick_step rtf diff steps = rtf n unit \<and> unit \<in> fst ` set steps"
proof (induction steps)
  case Nil
  then show ?case by simp
next
  case (Cons p steps)
  obtain unit secs where p: "p = (unit, secs)" by (cases p)
  show ?case
  proof (cases "\<bar>diff\<bar> \<ge> secs \<or> unit = ''second''")
    case True
    then have "pick_step rtf diff (p # steps) = rtf (js_round (diff / secs)) unit" by (simp only: p pick_step.simps if_True)
    with p show ?thesis by fastforce
  next
    case False
    then have "pick_step rtf diff (p # steps) = pick_step rtf diff steps" by (simp only: p pick_step.simps if_False)
    moreover have "\<exists>secs. (''second'', secs) \<in> set steps" using False Cons.prems p by auto
    ultimately show ?thesis using Cons.IH by (metis insertCI image_insert list.simps(15))
  qed
qed

lemma relativeTime_unit:
  "truthy stamp \<Longrightarrow> \<exists>n unit. relativeTime rtf now stamp (Some t) = rtf n unit \<and> unit \<in> fst ` set time_steps"
proof -
  have "(''second'', 1) \<in> set time_steps" by (simp add: time_steps_def)
  then have e: "\<exists>secs. (''second'', secs) \<in> set time_steps" by blast
  assume "truthy stamp"
  then have "relativeTime rtf now stamp (Some t) = pick_step rtf ((t - now) / 1000) time_steps"
    by (simp only: relativeTime_def option.case not_not if_False simp_thms)
  with pick_step_unit[OF e, of rtf "(t - now) / 1000"] show ?thesis by simp
qed

section \<open>Catalogues\<close>

definition PHP_VERSIONS :: "jsstring list" where
  "PHP_VERSIONS = [''8.5'', ''8.4'', ''8.3'', ''8.2'', ''8.1'']"

definition NODE_VERSIONS :: "jsstring list" where
  "NODE_VERSIONS = [''20'', ''18'']"

definition NOTIFICATION_EVENTS :: "(jsstring \<times> jsstring) list" where
  "NOTIFICATION_EVENTS =
     [(''account.created'', ''Account created''),
      (''account.suspended'', ''Account suspended''),
      (''account.unsuspended'', ''Account unsuspended''),
      (''account.terminated'', ''Account terminated''),
      (''backup.completed'', ''Backup completed''),
      (''backup.failed'', ''Backup failed''),
      (''backup.partial'', ''Backup completed with warnings''),
      (''backup.overdue'', ''Backup overdue''),
      (''backup.destination_unavailable'', ''Backup destination unavailable''),
      (''backup.restore_completed'', ''Restore completed''),
      (''backup.restore_failed'', ''Restore failed''),
      (''backup.download_ready'', ''Download ready''),
      (''ssl.expiring'', ''SSL certificate expiring''),
      (''usage.limit.reached'', ''Resource usage alert''),
      (''login.new'', ''New panel login''),
      (''dns.zone_activated'', ''DNS zone activated''),
      (''task.failed'', ''Critical task failed''),
      (''host.disk'', ''Host disk space low''),
      (''host.inodes'', ''Host inode space low''),
      (''host.memory'', ''Host memory pressure''),
      (''host.load'', ''Host load pressure''),
      (''host.login_burst'', ''Failed-login burst''),
      (''host.service_down'', ''Host service down''),
      (''host.service_recovered'', ''Host service recovered'')]"

definition WEBHOOK_EVENTS :: "jsstring list" where
  "WEBHOOK_EVENTS =
     [''account.created'', ''account.suspended'', ''account.terminated'', ''backup.completed'',
      ''backup.failed'', ''backup.partial'', ''backup.overdue'', ''backup.destination_unavailable'',
      ''backup.restore_completed'', ''backup.restore_failed'', ''backup.download_ready'',
      ''ssl.expiring'', ''usage.limit.reached'', ''dns.zone_activated'', ''task.failed'',
      ''host.disk'', ''host.inodes'', ''host.memory'', ''host.load'', ''host.login_burst'',
      ''host.service_down'', ''host.service_recovered'']"

lemma webhook_events_are_known:
  "set WEBHOOK_EVENTS \<union> {''account.unsuspended'', ''login.new''} = fst ` set NOTIFICATION_EVENTS"
  unfolding WEBHOOK_EVENTS_def NOTIFICATION_EVENTS_def by (simp add: insert_commute insert_absorb2)

lemma distinct_event_keys: "distinct (map fst NOTIFICATION_EVENTS) \<and> distinct WEBHOOK_EVENTS"
  by code_simp

end
