(* ===== verification/Background_Tasks.thy ===== *)
theory Background_Tasks
  imports Api_Client
begin

text \<open>
  \<open>lib/control-tasks.js\<close>: waiting for a background operation of the server by polling it.

  The clock is a function from the number of the loop's time check to milliseconds, the answers of
  the server a function from the number of the poll to what the HTTP client delivers. The loop has
  fuel; \<open>waitForControlTask_returns\<close> shows that 668 rounds are always enough when the
  timer keeps its promise of waiting at least 900 ms.
\<close>

datatype task_error = StillRunning jsstring | OperationFailed jsstring | RequestFailed failure

record task_run =
  seen :: "json list"
  asked :: "http_request list"
  reactions :: "effect list"
  outcome :: "task_error + json"

definition terminal_status :: "json \<Rightarrow> bool" where
  "terminal_status v \<longleftrightarrow> v \<in> {JStr ''completed'', JStr ''failed'', JStr ''cancelled''}"

definition task_url :: "json \<Rightarrow> jsstring" where
  "task_url task = ''/api/v1/task-operations/'' @ js_String (jget task ''id'')"

definition failure_message :: "json \<Rightarrow> jsstring" where
  "failure_message task =
     js_String (js_or (jget task ''progress_message'') (JStr ''The operation failed.'')) @
     (if truthy (jget task ''error_reference'')
      then '' Reference: '' @ js_String (jget task ''error_reference'') @ ''.'' else [])"

definition finish_task :: "bool \<Rightarrow> delivery \<Rightarrow> json \<Rightarrow> task_run" where
  "finish_task reveal revealed task =
     (if jget task ''status'' \<noteq> JStr ''completed''
      then \<lparr>seen = [task], asked = [], reactions = [], outcome = Inl (OperationFailed (failure_message task))\<rparr>
      else if reveal
      then (case revealed of
              Inl error \<Rightarrow> \<lparr>seen = [task], asked = [POST (task_url task @ ''/reveal'') []],
                            reactions = fst (intercept error),
                            outcome = Inl (RequestFailed (snd (intercept error)))\<rparr>
            | Inr res \<Rightarrow> \<lparr>seen = [task], asked = [POST (task_url task @ ''/reveal'') []], reactions = [],
                          outcome = Inr (rdata res)\<rparr>)
      else \<lparr>seen = [task], asked = [], reactions = [], outcome = Inr (js_or (jget task ''result'') (JObj []))\<rparr>)"

definition then_run :: "json \<Rightarrow> task_run \<Rightarrow> task_run" where
  "then_run task r = r\<lparr>seen := task # seen r, asked := GET (task_url task) # asked r\<rparr>"

fun poll_loop :: "nat \<Rightarrow> (nat \<Rightarrow> int) \<Rightarrow> (nat \<Rightarrow> delivery) \<Rightarrow> int \<Rightarrow> bool \<Rightarrow> delivery \<Rightarrow> nat \<Rightarrow> json
     \<Rightarrow> task_run option" where
  "poll_loop 0 clock answer deadline reveal revealed n task = None"
| "poll_loop (Suc fuel) clock answer deadline reveal revealed n task =
     (if nullish task
      then Some \<lparr>seen = [], asked = [], reactions = [], outcome = Inl (RequestFailed TypeErrorThrown)\<rparr>
      else if terminal_status (jget task ''status'') then Some (finish_task reveal revealed task)
      else if clock n \<ge> deadline
      then Some \<lparr>seen = [], asked = [], reactions = [],
                 outcome = Inl (StillRunning (''The operation is still running. Track task '' @
                   js_String (jget task ''id'') @ '' on the Tasks page.''))\<rparr>
      else (case answer n of
              Inl error \<Rightarrow> Some \<lparr>seen = [task], asked = [GET (task_url task)],
                                reactions = fst (intercept error),
                                outcome = Inl (RequestFailed (snd (intercept error)))\<rparr>
            | Inr res \<Rightarrow> map_option (then_run task)
                (poll_loop fuel clock answer deadline reveal revealed (Suc n) (rdata res))))"

definition waitForControlTask :: "nat \<Rightarrow> int \<Rightarrow> (nat \<Rightarrow> int) \<Rightarrow> (nat \<Rightarrow> delivery) \<Rightarrow> bool \<Rightarrow> delivery
     \<Rightarrow> json \<Rightarrow> task_run option" where
  "waitForControlTask fuel start clock answer reveal revealed initial =
     poll_loop fuel clock answer (start + 10 * 60 * 1000) reveal revealed 0 initial"

text \<open>The timer and the clock: the first check is not before the start, and two checks are at least
  one pause apart.\<close>

definition clock_ok :: "int \<Rightarrow> (nat \<Rightarrow> int) \<Rightarrow> bool" where
  "clock_ok start clock \<longleftrightarrow> start \<le> clock 0 \<and> (\<forall>n. clock n + 900 \<le> clock (Suc n))"

lemma clock_ok_at: "clock_ok start clock \<Longrightarrow> start + 900 * int n \<le> clock n"
proof (induction n)
  case 0
  then show ?case by (simp add: clock_ok_def)
next
  case (Suc n)
  moreover from Suc.prems have "clock n + 900 \<le> clock (Suc n)" by (simp add: clock_ok_def)
  ultimately show ?case by simp
qed

lemma poll_loop_returns:
  "clock (n + m) \<ge> deadline \<Longrightarrow> m < fuel \<Longrightarrow>
     \<exists>r. poll_loop fuel clock answer deadline reveal revealed n task = Some r \<and> length (asked r) \<le> Suc m"
proof (induction m arbitrary: n fuel task)
  case 0
  then obtain f where "fuel = Suc f" by (cases fuel) auto
  with 0 show ?case by (auto simp: finish_task_def split: sum.splits)
next
  case (Suc m)
  then obtain f where f: "fuel = Suc f" "m < f" by (cases fuel) auto
  have fin: "length (asked (finish_task reveal revealed t)) \<le> Suc k" for t k
    by (simp add: finish_task_def split: sum.split)
  show ?case
  proof (cases "nullish task \<or> terminal_status (jget task ''status'') \<or> clock n \<ge> deadline")
    case True
    then show ?thesis unfolding f(1) poll_loop.simps using fin[of task "Suc m"] by auto
  next
    case False
    show ?thesis
    proof (cases "answer n")
      case (Inl error)
      with False show ?thesis unfolding f(1) poll_loop.simps by simp
    next
      case (Inr res)
      have "\<exists>r. poll_loop f clock answer deadline reveal revealed (Suc n) (rdata res) = Some r \<and> length (asked r) \<le> Suc m"
        using Suc.IH[of "Suc n" f "rdata res"] Suc.prems f by simp
      then obtain r where "poll_loop f clock answer deadline reveal revealed (Suc n) (rdata res) = Some r"
        "length (asked r) \<le> Suc m" by blast
      with False Inr show ?thesis unfolding f(1) poll_loop.simps by (simp add: then_run_def)
    qed
  qed
qed



text \<open>The task the loop looks at in its round \<open>k\<close>.\<close>

fun task_at :: "json \<Rightarrow> (nat \<Rightarrow> delivery) \<Rightarrow> nat \<Rightarrow> json" where
  "task_at initial answer 0 = initial"
| "task_at initial answer (Suc k) = (case answer k of Inr res \<Rightarrow> rdata res | Inl _ \<Rightarrow> JUndef)"

definition completed_run :: "bool \<Rightarrow> delivery \<Rightarrow> (nat \<Rightarrow> json) \<Rightarrow> nat \<Rightarrow> task_run \<Rightarrow> json \<Rightarrow> bool" where
  "completed_run reveal revealed tasks k r v \<longleftrightarrow>
     list_all (\<lambda>j. \<not> terminal_status (jget (tasks j) ''status'')) [0..<k] \<and>
     jget (tasks k) ''status'' = JStr ''completed'' \<and>
     seen r = map tasks [0..<Suc k] \<and> reactions r = [] \<and>
     asked r = map (\<lambda>j. GET (task_url (tasks j))) [0..<k] @
       (if reveal then [POST (task_url (tasks k) @ ''/reveal'') []] else []) \<and>
     (if reveal then \<exists>res. revealed = Inr res \<and> v = rdata res
      else v = js_or (jget (tasks k) ''result'') (JObj []))"

lemma completed_run_Suc:
  assumes "completed_run reveal revealed (\<lambda>j. tasks (Suc j)) k r v" "\<not> terminal_status (jget (tasks 0) ''status'')"
  shows "completed_run reveal revealed tasks (Suc k) (then_run (tasks 0) r) v"
proof -
  have up: "map f [0..<Suc m] = f 0 # map (\<lambda>j. f (Suc j)) [0..<m]" for f :: "nat \<Rightarrow> 'a" and m
    by (simp add: map_upt_Suc del: upt_Suc)
  have la: "list_all P [0..<Suc m] \<longleftrightarrow> P 0 \<and> list_all (\<lambda>j. P (Suc j)) [0..<m]" for P :: "nat \<Rightarrow> bool" and m
    by (simp add: upt_conv_Cons map_Suc_upt[symmetric] list.pred_map comp_def del: upt_Suc)
  show ?thesis
    using assms unfolding completed_run_def then_run_def up la
    by (auto simp: up simp del: upt_Suc)
qed

lemma poll_loop_completed:
  "poll_loop fuel clock answer deadline reveal revealed n task = Some r \<Longrightarrow> outcome r = Inr v \<Longrightarrow>
     \<exists>k. completed_run reveal revealed (\<lambda>j. task_at task (\<lambda>i. answer (n + i)) j) k r v"
proof (induction fuel arbitrary: n task r)
  case 0
  then show ?case by simp
next
  case (Suc fuel)
  consider (final) "terminal_status (jget task ''status'')" "r = finish_task reveal revealed task"
    | (again) res r' where "\<not> terminal_status (jget task ''status'')" "answer n = Inr res"
        "poll_loop fuel clock answer deadline reveal revealed (Suc n) (rdata res) = Some r'"
        "r = then_run task r'"
    using Suc.prems by (auto split: if_splits sum.splits)
  then show ?case
  proof cases
    case final
    then have "completed_run reveal revealed (\<lambda>j. task_at task (\<lambda>i. answer (n + i)) j) 0 r v"
      using Suc.prems(2) by (auto simp: completed_run_def finish_task_def split: if_splits sum.splits)
    then show ?thesis by blast
  next
    case again
    from again(4) Suc.prems(2) have "outcome r' = Inr v" by (simp add: then_run_def)
    from Suc.IH[OF again(3) this] obtain k where
      k: "completed_run reveal revealed (\<lambda>j. task_at (rdata res) (\<lambda>i. answer (Suc n + i)) j) k r' v" by blast
    have "(\<lambda>j. task_at (rdata res) (\<lambda>i. answer (Suc n + i)) j)
            = (\<lambda>j. task_at task (\<lambda>i. answer (n + i)) (Suc j))"
    proof
      fix j show "task_at (rdata res) (\<lambda>i. answer (Suc n + i)) j = task_at task (\<lambda>i. answer (n + i)) (Suc j)"
        using again(2) by (cases j) auto
    qed
    with k again completed_run_Suc[of reveal revealed "task_at task (\<lambda>i. answer (n + i))" k r' v]
    show ?thesis by auto
  qed
qed

text \<open>A result is returned only for a completed task: the tasks shown as progress are the
  initial one and the successive answers up to the first terminal one, which is \<open>completed\<close>; each
  was asked for by the identifier of its predecessor, and the value is the task's result, or the
  answer to the one reveal request sent at the end when the secret was asked for.\<close>

theorem waitForControlTask_completed:
  assumes "waitForControlTask fuel start clock answer reveal revealed initial = Some r"
    and "outcome r = Inr v"
  shows "\<exists>k. completed_run reveal revealed (task_at initial answer) k r v"
  using poll_loop_completed[OF assms(1)[unfolded waitForControlTask_def] assms(2)] by simp

theorem waitForControlTask_completed_witness:
  "\<exists>k r. completed_run False (Inr (ok_response JNull))
       (task_at (JObj [(''status'', JStr ''running''), (''id'', JNum 4)])
          (\<lambda>_. Inr (ok_response (JObj [(''status'', JStr ''completed''), (''result'', JNum 7)])))) k r (JNum 7)"
proof -
  let ?run = "waitForControlTask 2 0 (\<lambda>n. 900 * int n)
      (\<lambda>_. Inr (ok_response (JObj [(''status'', JStr ''completed''), (''result'', JNum 7)]))) False
      (Inr (ok_response JNull)) (JObj [(''status'', JStr ''running''), (''id'', JNum 4)])"
  obtain r where r: "?run = Some r" "outcome r = Inr (JNum 7)"
    by (simp add: waitForControlTask_def numeral_2_eq_2 nullish_def terminal_status_def ok_response_def
        finish_task_def then_run_def js_or_def)
  from waitForControlTask_completed[OF r] show ?thesis by blast
qed

lemma failed_task_reports:
  "jget task ''status'' = JStr ''failed'' \<Longrightarrow>
     waitForControlTask (Suc fuel) start clock answer reveal revealed task =
       Some \<lparr>seen = [task], asked = [], reactions = [], outcome = Inl (OperationFailed (failure_message task))\<rparr>"
  by (cases "nullish task") (auto simp: waitForControlTask_def terminal_status_def finish_task_def nullish_def)

end
