(* ===== verification/Dns_Owner.thy ===== *)
theory Dns_Owner
  imports Boron_Prelude
begin

text \<open>
  \<open>lib/dns-owner.js\<close>: what a record name typed into the zone editor stands for.
\<close>

record owner_preview =
  fqdn :: jsstring
  owner_error :: "jsstring option"
  confirmRelative :: bool

definition strip_dot :: "jsstring \<Rightarrow> jsstring" where
  "strip_dot s = (if endsWith s ''.'' then butlast s else s)"

definition zone_origin :: "jsstring option \<Rightarrow> jsstring" where
  "zone_origin zone = strip_dot (toLowerCase (trim (or_string zone [])))"

definition dnsOwnerPreview :: "jsstring option \<Rightarrow> jsstring option \<Rightarrow> owner_preview" where
  "dnsOwnerPreview zone input =
     (let origin = zone_origin zone;
          raw = toLowerCase (trim (or_string input []));
          name = strip_dot raw
      in if name = [] \<or> name = ''@'' \<or> name = origin
         then \<lparr>fqdn = origin, owner_error = None, confirmRelative = False\<rparr>
         else if endsWith name (''.'' @ origin)
         then \<lparr>fqdn = name, owner_error = None, confirmRelative = False\<rparr>
         else if endsWith raw ''.''
         then \<lparr>fqdn = name,
               owner_error = Some (''This hostname is outside '' @ origin @ ''. Enter a name within this DNS zone.''),
               confirmRelative = False\<rparr>
         else \<lparr>fqdn = name @ ''.'' @ origin, owner_error = None, confirmRelative = js_includes name ''.''\<rparr>)"

definition in_zone :: "jsstring \<Rightarrow> jsstring \<Rightarrow> bool" where
  "in_zone origin name \<longleftrightarrow> name = origin \<or> endsWith name (''.'' @ origin)"

lemma owner_in_zone:
  "owner_error (dnsOwnerPreview zone input) = None \<longleftrightarrow> in_zone (zone_origin zone) (fqdn (dnsOwnerPreview zone input))"
proof -
  have e: "endsWith (n @ CHR ''.'' # z) (CHR ''.'' # z)" for n z
    using endsWith_append[of n "CHR ''.'' # z"] by simp
  show ?thesis using e by (auto simp: dnsOwnerPreview_def in_zone_def Let_def)
qed

text \<open>The preview reports an error exactly when the name it shows lies outside the zone; the
  user is asked to confirm exactly when a dotted name was completed with the zone's name.\<close>

theorem dnsOwnerPreview_in_zone:
  "(owner_error (dnsOwnerPreview zone input) = None \<longleftrightarrow>
      in_zone (zone_origin zone) (fqdn (dnsOwnerPreview zone input))) \<and>
   (confirmRelative (dnsOwnerPreview zone input) \<longleftrightarrow>
      (\<exists>name. js_includes name ''.'' \<and> \<not> in_zone (zone_origin zone) name \<and>
         strip_dot (toLowerCase (trim (or_string input []))) = name \<and>
         \<not> endsWith (toLowerCase (trim (or_string input []))) ''.'' \<and>
         fqdn (dnsOwnerPreview zone input) = name @ ''.'' @ zone_origin zone))"
proof -
  have e: "endsWith (n @ CHR ''.'' # z) (CHR ''.'' # z)" for n z
    using endsWith_append[of n "CHR ''.'' # z"] by simp
  have at: "\<not> js_includes ''@'' ''.''" by (simp add: startsWith_def)
  show ?thesis
    using e at by (auto simp: dnsOwnerPreview_def in_zone_def Let_def)
qed

lemma trim_prefix_append:
  assumes "trim (a @ b) = a @ b" "a \<noteq> []" "trim c = c" "c \<noteq> []"
  shows "trim (a @ d @ c) = a @ d @ c"
proof (rule trim_id)
  have "hd (a @ b) = hd a" using assms(2) by simp
  then show "\<not> is_space (hd (a @ d @ c))" using assms trim_hd_not_space[of "a @ b"] by simp
  show "\<not> is_space (last (a @ d @ c))" using assms trim_last_not_space[of c] by simp
qed

lemma strip_dot_prefix: "\<exists>t. s = strip_dot s @ t"
  by (metis append_Nil2 append_butlast_last_id butlast.simps(1) strip_dot_def)

lemma strip_dot_lower: "toLowerCase s = s \<Longrightarrow> toLowerCase (strip_dot s) = strip_dot s"
  by (metis (no_types) strip_dot_def toLowerCase_def map_butlast)

lemma preview_fixed:
  assumes "zone_origin zone = z" "toLowerCase (trim n) = n" "\<not> endsWith n ''.''" "n \<noteq> []" "in_zone z n"
  shows "dnsOwnerPreview zone (Some n) = \<lparr>fqdn = n, owner_error = None, confirmRelative = False\<rparr>"
proof -
  have "trim n = n \<and> toLowerCase n = n"
    by (metis assms(2) toLowerCase_idem trim_idem trim_toLowerCase)
  then have "toLowerCase (trim (or_string (Some n) [])) = n" "strip_dot n = n"
    using assms by (auto simp: or_string_def strip_dot_def)
  moreover have "n = ''@'' \<Longrightarrow> \<not> endsWith n (CHR ''.'' # z)" by (cases z) (auto simp: endsWith_def)
  ultimately show ?thesis using assms
    by (cases "n = ''@''") (auto simp: dnsOwnerPreview_def Let_def in_zone_def)
qed

lemma endsWith_dot_append: "z \<noteq> [] \<Longrightarrow> endsWith (n @ z) ''.'' \<longleftrightarrow> endsWith z ''.''"
  by (cases z rule: rev_cases) (auto simp: endsWith_def)

text \<open>For a proper zone name the preview is a fixed point: the full name it shows, entered
  again, stands for itself without an error or a question.\<close>

theorem dnsOwnerPreview_idempotent:
  assumes "zone_origin zone \<noteq> []" "trim (zone_origin zone) = zone_origin zone"
    "\<not> endsWith (zone_origin zone) ''.''" "owner_error (dnsOwnerPreview zone input) = None"
    "\<not> endsWith (strip_dot (toLowerCase (trim (or_string input [])))) ''.''"
    "trim (strip_dot (toLowerCase (trim (or_string input [])))) = strip_dot (toLowerCase (trim (or_string input [])))"
  shows "dnsOwnerPreview zone (Some (fqdn (dnsOwnerPreview zone input))) =
           \<lparr>fqdn = fqdn (dnsOwnerPreview zone input), owner_error = None, confirmRelative = False\<rparr>"
proof (rule preview_fixed[OF refl])
  let ?z = "zone_origin zone"
  define name where "name = strip_dot (toLowerCase (trim (or_string input [])))"
  have lowz: "toLowerCase ?z = ?z" unfolding zone_origin_def by (rule strip_dot_lower) simp
  have lown: "toLowerCase name = name" unfolding name_def by (rule strip_dot_lower) simp
  have tn: "trim name = name" using assms(6) unfolding name_def .
  have dn: "\<not> endsWith name ''.''" using assms(5) unfolding name_def .
  consider (zone) "fqdn (dnsOwnerPreview zone input) = ?z"
    | (inside) "fqdn (dnsOwnerPreview zone input) = name" "name \<noteq> []"
    | (relative) "fqdn (dnsOwnerPreview zone input) = name @ ''.'' @ ?z" "name \<noteq> []"
    using assms(4) by (auto simp: dnsOwnerPreview_def name_def Let_def split: if_splits)
  note c = this
  show "toLowerCase (trim (fqdn (dnsOwnerPreview zone input))) = fqdn (dnsOwnerPreview zone input)"
    using c
  proof cases
    case relative
    have "trim (name @ ''.'' @ ?z) = name @ ''.'' @ ?z"
      using trim_prefix_append[of name "[]" ?z "''.''"] tn relative(2) assms by simp
    moreover have "toLowerCase ''.'' = ''.''" by (simp add: toLowerCase_def lower_char_def code_def)
    ultimately show ?thesis using relative lown lowz by (metis toLowerCase_append)
  qed (use assms lowz lown tn in auto)
  show "\<not> endsWith (fqdn (dnsOwnerPreview zone input)) ''.''"
    using c
  proof cases
    case relative
    then show ?thesis using endsWith_dot_append[of ?z "name @ ''.''"] assms by simp
  qed (use assms dn in auto)
  show "fqdn (dnsOwnerPreview zone input) \<noteq> []" using c assms by cases auto
  show "in_zone ?z (fqdn (dnsOwnerPreview zone input))"
    using dnsOwnerPreview_in_zone assms(4) by blast
qed

theorem dnsOwnerPreview_idempotent_witness:
  "dnsOwnerPreview (Some ''Example.com.'') (Some (fqdn (dnsOwnerPreview (Some ''Example.com.'') (Some '' WWW '')))) =
     \<lparr>fqdn = fqdn (dnsOwnerPreview (Some ''Example.com.'') (Some '' WWW '')), owner_error = None, confirmRelative = False\<rparr>"
  by (rule dnsOwnerPreview_idempotent; code_simp)

end
