(* ===== verification/Js_Numbers.thy ===== *)
theory Js_Numbers
  imports Boron_Prelude
begin

text \<open>
  Conversions between texts and numbers: \<open>parseInt\<close> in base ten, \<open>Number\<close> on a text, and the
  decimal rendering they invert. The numbers of the model are integers: a text that is no decimal
  integer (a fraction, an exponent, a base prefix, no number at all) is converted by a parameter,
  \<open>frac\<close>, whose value JNull stands for NaN, which JSON writes as null.
\<close>

fun digits_value :: "int \<Rightarrow> jsstring \<Rightarrow> int" where
  "digits_value acc [] = acc"
| "digits_value acc (c # cs) = (if is_digit c then digits_value (acc * 10 + int (code c - 48)) cs else acc)"

definition parseInt10 :: "jsstring \<Rightarrow> int option" where
  "parseInt10 s =
     (let t = trimStart s;
          neg = startsWith t ''-'';
          u = (if neg \<or> startsWith t ''+'' then tl t else t)
      in if u = [] \<or> \<not> is_digit (hd u) then None
         else Some (if neg then - digits_value 0 u else digits_value 0 u))"

definition is_sign :: "char \<Rightarrow> bool" where
  "is_sign c \<longleftrightarrow> c = CHR ''+'' \<or> c = CHR ''-''"

definition unsigned_part :: "jsstring \<Rightarrow> jsstring" where
  "unsigned_part t = (if t \<noteq> [] \<and> is_sign (hd t) then tl t else t)"

definition integer_literal :: "jsstring \<Rightarrow> int option" where
  "integer_literal t =
     (let u = unsigned_part t
      in if u \<noteq> [] \<and> list_all is_digit u
         then Some (if startsWith t ''-'' then - digits_value 0 u else digits_value 0 u) else None)"

definition js_Number :: "(jsstring \<Rightarrow> json) \<Rightarrow> jsstring \<Rightarrow> json" where
  "js_Number frac s =
     (let t = trim s
      in if t = [] then JNum 0 else case integer_literal t of Some n \<Rightarrow> JNum n | None \<Rightarrow> frac t)"

lemma digits_value_snoc:
  "list_all is_digit cs \<Longrightarrow> is_digit c \<Longrightarrow> digits_value acc (cs @ [c]) = digits_value acc cs * 10 + int (code c - 48)"
  by (induction cs arbitrary: acc) auto

lemma digit_char: "n < 10 \<Longrightarrow> is_digit (char_of (48 + n)) \<and> code (char_of (48 + n)) - 48 = n"
  by (simp add: is_digit_def)

lemma show_nat_digits: "list_all is_digit (show_nat n)"
proof (induction n rule: show_nat.induct)
  case (1 n)
  then show ?case using digit_char[of n] digit_char[of "n mod 10"] by (subst show_nat.simps) simp
qed

lemma show_nat_not_Nil [simp]: "show_nat n \<noteq> []"
  by (subst show_nat.simps) simp

lemma digits_value_show_nat [simp]: "digits_value 0 (show_nat n) = int n"
proof (induction n rule: show_nat.induct)
  case (1 n)
  show ?case
  proof (cases "n < 10")
    case True
    then show ?thesis using digit_char[of n] by (subst show_nat.simps) simp
  next
    case False
    have "digits_value 0 (show_nat (n div 10) @ [char_of (48 + n mod 10)]) =
        int (n div 10) * 10 + int (code (char_of (48 + n mod 10)) - 48)"
      using False 1 digits_value_snoc[OF show_nat_digits] digit_char[of "n mod 10"] by simp
    moreover have "int (n div 10) * 10 + int (n mod 10) = int n"
      by presburger
    ultimately show ?thesis using False digit_char[of "n mod 10"] by (subst show_nat.simps) simp
  qed
qed

lemma show_nat_hd: "is_digit (hd (show_nat n))"
  using show_nat_digits[of n] by (cases "show_nat n") auto

lemma digit_not_sign: "is_digit c \<Longrightarrow> \<not> is_sign c \<and> \<not> is_space c \<and> c \<noteq> CHR ''-''"
  by (auto simp: is_digit_def is_sign_def is_space_def code_def)

lemma trim_show_nat [simp]: "trim (show_nat n) = show_nat n"
proof (rule trim_id)
  show "\<not> is_space (hd (show_nat n))" using show_nat_hd digit_not_sign by blast
  have "last (show_nat n) \<in> set (show_nat n)" by simp
  then show "\<not> is_space (last (show_nat n))"
    using show_nat_digits[of n] digit_not_sign unfolding list_all_iff by blast
qed

text \<open>A number that was rendered reads back as itself.\<close>

lemma js_Number_show_nat [simp]: "js_Number frac (show_nat n) = JNum (int n)"
proof -
  have "\<not> startsWith (show_nat n) ''-''"
    using show_nat_hd[of n] digit_not_sign by (cases "show_nat n") (auto simp: startsWith_def)
  moreover have "unsigned_part (show_nat n) = show_nat n"
    using show_nat_hd digit_not_sign by (simp add: unsigned_part_def)
  ultimately have "integer_literal (show_nat n) = Some (int n)"
    by (simp add: integer_literal_def Let_def show_nat_digits)
  then show ?thesis by (simp add: js_Number_def)
qed

lemma js_Number_show_int: "0 \<le> i \<Longrightarrow> js_Number frac (show_int i) = JNum i"
  by (simp add: show_int_def)

lemma trimStart_id: "s \<noteq> [] \<Longrightarrow> \<not> is_space (hd s) \<Longrightarrow> trimStart s = s"
  by (cases s) (auto simp: trimStart_def)

lemma parse_shown [simp]: "parseInt10 (show_int n) = Some n"
proof (cases "n < 0")
  case True
  have "trimStart (CHR ''-'' # show_nat (nat (- n))) = CHR ''-'' # show_nat (nat (- n))"
    by (rule trimStart_id) (simp_all add: is_space_def code_def)
  then show ?thesis using True show_nat_hd[of "nat (- n)"]
    by (simp add: parseInt10_def show_int_def startsWith_def Let_def)
next
  case False
  have d: "is_digit (hd (show_nat (nat n)))" by (rule show_nat_hd)
  have "\<not> startsWith (show_nat (nat n)) ''-''" "\<not> startsWith (show_nat (nat n)) ''+''"
    using digit_not_sign[OF d] by (cases "show_nat (nat n)"; simp add: startsWith_def is_sign_def; fail)+
  moreover have "trimStart (show_nat (nat n)) = show_nat (nat n)"
    by (rule trimStart_id) (use digit_not_sign[OF d] in auto)
  ultimately show ?thesis using False d by (simp add: parseInt10_def show_int_def Let_def)
qed

end
