(* ===== verification/Node_Socket.thy ===== *)
theory Node_Socket
  imports Js_Numbers "HOL-Library.AList"
begin

text \<open>
  \<open>scripts/node_socket_activation.cjs\<close>: the preload that sends an application's
  \<open>server.listen\<close> for its assigned port to the socket inherited from systemd.

  The numeric conversion \<open>Number\<close> is a parameter, None standing for NaN. A call of the original \<open>listen\<close> is its argument list.
\<close>

datatype js_arg = AVal json | AFun nat

definition assignedPort :: "jsstring option \<Rightarrow> int option" where
  "assignedPort PORT = parseInt10 (or_string PORT [])"

definition listenFds :: "jsstring option \<Rightarrow> int option" where
  "listenFds LISTEN_FDS = parseInt10 (or_string LISTEN_FDS ''0'')"

text \<open>The comparison \<open>NaN < 1\<close> is false.\<close>

definition requestsAssignedPort :: "(json \<Rightarrow> int option) \<Rightarrow> int option \<Rightarrow> int option \<Rightarrow> js_arg list \<Rightarrow> bool" where
  "requestsAssignedPort to_number port fds args =
     (case port of
        None \<Rightarrow> False
      | Some p \<Rightarrow>
          if (case fds of Some n \<Rightarrow> n < 1 | None \<Rightarrow> False) then False
          else (case args of
                  [] \<Rightarrow> False
                | AFun _ # _ \<Rightarrow> False
                | AVal v # _ \<Rightarrow>
                    (case v of
                       JNum _ \<Rightarrow> to_number v = Some p
                     | JStr _ \<Rightarrow> to_number v = Some p
                     | JObj _ \<Rightarrow> to_number (jget v ''port'') = Some p
                     | JArr _ \<Rightarrow> to_number JUndef = Some p
                     | _ \<Rightarrow> False)))"

definition listen_options :: "js_arg list \<Rightarrow> (jsstring \<times> json) list" where
  "listen_options args =
     (let given = (case args of
                     AVal (JObj kvs) # _ \<Rightarrow> kvs
                   | AVal (JArr xs) # _ \<Rightarrow> zip (map show_nat [0..<length xs]) xs
                   | _ \<Rightarrow> [])
      in AList.update ''exclusive'' (JBool False)
           (AList.update ''fd'' (JNum 3) (AList.delete ''host'' (AList.delete ''path'' (AList.delete ''port'' given)))))"

definition boronSocketListen :: "(json \<Rightarrow> int option) \<Rightarrow> int option \<Rightarrow> int option \<Rightarrow> js_arg list \<Rightarrow> js_arg list" where
  "boronSocketListen to_number port fds args =
     (if \<not> requestsAssignedPort to_number port fds args then args
      else (case last args of
              AFun f \<Rightarrow> [AVal (JObj (listen_options args)), AFun f]
            | AVal _ \<Rightarrow> [AVal (JObj (listen_options args))]))"

text \<open>A call of \<open>listen\<close> for the assigned port always reaches the inherited descriptor 3 and
  never binds a port, a path or a host; the other options and the callback are kept. Every other
  call is passed on unchanged.\<close>

theorem boronSocketListen_redirects:
  "if requestsAssignedPort to_number port fds args
   then \<exists>kvs rest. boronSocketListen to_number port fds args = AVal (JObj kvs) # rest \<and>
          map_of kvs ''fd'' = Some (JNum 3) \<and> map_of kvs ''exclusive'' = Some (JBool False) \<and>
          map_of kvs ''port'' = None \<and> map_of kvs ''path'' = None \<and> map_of kvs ''host'' = None \<and>
          rest = (case last args of AFun f \<Rightarrow> [AFun f] | AVal _ \<Rightarrow> []) \<and>
          (\<forall>given. hd args = AVal (JObj given) \<longrightarrow>
             (\<forall>k. k \<notin> {''fd'', ''exclusive'', ''port'', ''path'', ''host''} \<longrightarrow> map_of kvs k = map_of given k))
   else boronSocketListen to_number port fds args = args"
proof (cases "requestsAssignedPort to_number port fds args")
  case True
  then obtain a rest where args: "args = a # rest"
    by (cases args) (auto simp: requestsAssignedPort_def split: option.splits if_splits)
  let ?kvs = "listen_options args"
  have "boronSocketListen to_number port fds args =
      AVal (JObj ?kvs) # (case last args of AFun f \<Rightarrow> [AFun f] | AVal _ \<Rightarrow> [])"
    using True by (simp add: boronSocketListen_def split: js_arg.split)
  moreover have "map_of ?kvs ''fd'' = Some (JNum 3)" "map_of ?kvs ''exclusive'' = Some (JBool False)"
    "map_of ?kvs ''port'' = None" "map_of ?kvs ''path'' = None" "map_of ?kvs ''host'' = None"
    by (simp_all add: listen_options_def Let_def AList.update_conv' AList.delete_conv')
  moreover have "\<forall>given. hd args = AVal (JObj given) \<longrightarrow>
      (\<forall>k. k \<notin> {''fd'', ''exclusive'', ''port'', ''path'', ''host''} \<longrightarrow> map_of ?kvs k = map_of given k)"
    by (auto simp: args listen_options_def Let_def AList.update_conv' AList.delete_conv')
  ultimately show ?thesis using True by auto
next
  case False
  then show ?thesis by (simp add: boronSocketListen_def)
qed

theorem boronSocketListen_redirects_witness:
  "boronSocketListen (\<lambda>v. case v of JNum n \<Rightarrow> Some n | _ \<Rightarrow> None) (assignedPort (Some ''3000'')) (listenFds (Some ''1''))
     [AVal (JNum 8080), AFun 1] = [AVal (JNum 8080), AFun 1]"
proof -
  have "\<not> requestsAssignedPort (\<lambda>v. case v of JNum n \<Rightarrow> Some n | _ \<Rightarrow> None) (assignedPort (Some ''3000''))
      (listenFds (Some ''1'')) [AVal (JNum 8080), AFun 1]"
    by code_simp
  then show ?thesis
    using boronSocketListen_redirects[of "\<lambda>v. case v of JNum n \<Rightarrow> Some n | _ \<Rightarrow> None"
        "assignedPort (Some ''3000'')" "listenFds (Some ''1'')" "[AVal (JNum 8080), AFun 1]"]
    by (simp only: if_False)
qed

lemma assigned_port_3000: "assignedPort (Some ''3000'') = Some 3000"
  by code_simp

end
