(* ===== verification/Account_Fields.thy ===== *)
theory Account_Fields
  imports Boron_Prelude Complex_Main
begin

text \<open>
  \<open>components/ui/AccountFields.jsx\<close>: the password generator, the strength meter, the user-name
  feedback and the table of a plan's limits.

  The random source is the list of bytes \<open>crypto.getRandomValues\<close> delivers, one per call; each pick
  returns the bytes it left. Rejection sampling may use up any finite list: then the value is None,
  and \<open>generated_password_terminates\<close> says how many small bytes are enough.
\<close>

section \<open>Picking without bias\<close>

fun pick :: "nat \<Rightarrow> nat list \<Rightarrow> (nat \<times> nat list) option" where
  "pick sz [] = None"
| "pick sz (b # bs) = (if b \<ge> 256 - 256 mod sz then pick sz bs else Some (b mod sz, bs))"

lemma pick_range: "pick sz bs = Some (j, bs') \<Longrightarrow> 0 < sz \<Longrightarrow> j < sz"
  by (induction bs) (auto split: if_splits)

text \<open>Every index is hit by the same number of accepted bytes.\<close>

lemma pick_unbiased:
  assumes "0 < sz" "r < sz"
  shows "card {b. b < 256 - 256 mod sz \<and> b mod sz = r} = 256 div sz"
proof -
  have lim: "256 - 256 mod sz = sz * (256 div sz)"
    by (metis add_diff_cancel_right' mult.commute div_mult_mod_eq)
  have "bij_betw (\<lambda>k. sz * k + r) {k. k < 256 div sz} {b. b < sz * (256 div sz) \<and> b mod sz = r}"
  proof (rule bij_betwI')
    fix x y
    show "(sz * x + r = sz * y + r) = (x = y)" using assms by simp
  next
    fix x assume "x \<in> {k. k < 256 div sz}"
    then have "Suc x \<le> 256 div sz" by simp
    then have "sz * Suc x \<le> sz * (256 div sz)" by (rule mult_le_mono2)
    then have "sz * x + r < sz * (256 div sz)" using assms by simp
    then show "sz * x + r \<in> {b. b < sz * (256 div sz) \<and> b mod sz = r}" using assms by simp
  next
    fix b assume b: "b \<in> {b. b < sz * (256 div sz) \<and> b mod sz = r}"
    then have "b div sz < 256 div sz" using assms by (simp add: less_mult_imp_div_less mult.commute)
    moreover have "b = sz * (b div sz) + r" using b mult_div_mod_eq[of sz b] by simp
    ultimately show "\<exists>k\<in>{k. k < 256 div sz}. b = sz * k + r" by blast
  qed
  then have "card {k. k < 256 div sz} = card {b. b < sz * (256 div sz) \<and> b mod sz = r}"
    by (rule bij_betw_same_card)
  then show ?thesis unfolding lim by simp
qed

section \<open>Generating a password\<close>

definition groups :: "jsstring list" where
  "groups = [''abcdefghijkmnopqrstuvwxyz'', ''ABCDEFGHJKLMNPQRSTUVWXYZ'', ''23456789'', ''!@#$%&*+-=?'']"

definition alphabet :: jsstring where
  "alphabet = concat groups"

fun pick_each :: "jsstring list \<Rightarrow> nat list \<Rightarrow> (jsstring \<times> nat list) option" where
  "pick_each [] bs = Some ([], bs)"
| "pick_each (g # gs) bs =
     (case pick (length g) bs of
        None \<Rightarrow> None
      | Some (j, bs') \<Rightarrow>
          (case pick_each gs bs' of None \<Rightarrow> None | Some (cs, bs'') \<Rightarrow> Some (g ! j # cs, bs'')))"

text \<open>The loop \<open>while (chars.length < 20)\<close> runs once per missing character.\<close>

fun fill :: "nat \<Rightarrow> jsstring \<Rightarrow> nat list \<Rightarrow> (jsstring \<times> nat list) option" where
  "fill 0 chars bs = Some (chars, bs)"
| "fill (Suc missing) chars bs =
     (case pick (length alphabet) bs of
        None \<Rightarrow> None
      | Some (j, bs') \<Rightarrow> fill missing (chars @ [alphabet ! j]) bs')"

definition swap :: "nat \<Rightarrow> nat \<Rightarrow> 'a list \<Rightarrow> 'a list" where
  "swap i j xs = xs[i := xs ! j, j := xs ! i]"

fun shuffle :: "nat \<Rightarrow> 'a list \<Rightarrow> nat list \<Rightarrow> ('a list \<times> nat list) option" where
  "shuffle 0 xs bs = Some (xs, bs)"
| "shuffle (Suc i) xs bs =
     (case pick (Suc i + 1) bs of
        None \<Rightarrow> None
      | Some (j, bs') \<Rightarrow> shuffle i (swap (Suc i) j xs) bs')"

definition generateAccountPassword :: "nat list \<Rightarrow> (jsstring \<times> nat list) option" where
  "generateAccountPassword bs =
     (case pick_each groups bs of
        None \<Rightarrow> None
      | Some (chars, bs1) \<Rightarrow>
          (case fill (20 - length chars) chars bs1 of
             None \<Rightarrow> None
           | Some (chars2, bs2) \<Rightarrow> shuffle (length chars2 - 1) chars2 bs2))"

lemma mset_swap: "i < length xs \<Longrightarrow> j < length xs \<Longrightarrow> mset (swap i j xs) = mset xs"
  unfolding swap_def by (rule mset_swap)

lemma shuffle_mset: "shuffle i xs bs = Some (ys, bs') \<Longrightarrow> i < length xs \<Longrightarrow> mset ys = mset xs"
proof (induction i arbitrary: xs bs)
  case 0
  then show ?case by simp
next
  case (Suc i)
  then obtain j bs1 where j: "pick (Suc i + 1) bs = Some (j, bs1)"
      "shuffle i (swap (Suc i) j xs) bs1 = Some (ys, bs')"
    by (auto split: option.splits)
  have "j < Suc i + 1" using pick_range[OF j(1)] by simp
  then have "mset (swap (Suc i) j xs) = mset xs" using Suc.prems by (intro mset_swap) auto
  moreover have "i < length (swap (Suc i) j xs)" using Suc.prems by (simp add: swap_def)
  ultimately show ?case using Suc.IH[OF j(2)] by simp
qed

lemma pick_each_chars:
  "pick_each gs bs = Some (cs, bs') \<Longrightarrow> list_all (\<lambda>g. g \<noteq> []) gs \<Longrightarrow>
     list_all2 (\<lambda>c g. c \<in> set g) cs gs"
proof (induction gs arbitrary: bs cs)
  case Nil
  then show ?case by simp
next
  case (Cons g gs)
  then obtain j bs1 cs' where
    j: "pick (length g) bs = Some (j, bs1)" "pick_each gs bs1 = Some (cs', bs')" "cs = g ! j # cs'"
    by (auto split: option.splits)
  have "j < length g" using pick_range[OF j(1)] Cons.prems by simp
  then show ?case using Cons.IH[OF j(2)] Cons.prems j(3) by simp
qed

lemma fill_chars:
  "fill n chars bs = Some (cs, bs') \<Longrightarrow>
     \<exists>more. cs = chars @ more \<and> length more = n \<and> set more \<subseteq> set alphabet"
proof (induction n arbitrary: chars bs)
  case 0
  then show ?case by simp
next
  case (Suc n)
  then obtain j bs1 where j: "pick (length alphabet) bs = Some (j, bs1)"
      "fill n (chars @ [alphabet ! j]) bs1 = Some (cs, bs')"
    by (auto split: option.splits)
  have "0 < length alphabet" by (simp add: alphabet_def groups_def)
  then have "j < length alphabet" by (rule pick_range[OF j(1)])
  moreover obtain more where "cs = (chars @ [alphabet ! j]) @ more" "length more = n" "set more \<subseteq> set alphabet"
    using Suc.IH[OF j(2)] by blast
  ultimately show ?case by (intro exI[of _ "alphabet ! j # more"]) simp
qed

section \<open>The rules and the meter\<close>

definition meetsRules :: "jsstring \<Rightarrow> bool" where
  "meetsRules v \<longleftrightarrow> list_ex is_lower v \<and> list_ex is_upper v \<and> list_ex is_digit v \<and>
     list_ex (\<lambda>c. \<not> (is_lower c \<or> is_upper c \<or> is_digit c)) v \<and>
     list_all (\<lambda>c. c \<noteq> CHR 0x0A \<and> c \<noteq> CHR 0x0D) v \<and> 12 \<le> length v"

definition strength_level :: "jsstring \<Rightarrow> nat" where
  "strength_level v = (if v = [] then 0 else if \<not> meetsRules v then 1 else if length v < 16 then 2 else 3)"

definition strength_text :: "jsstring \<Rightarrow> jsstring" where
  "strength_text v =
     [''Generated on creation'', ''Does not meet requirements'', ''Meets requirements'', ''Strong''] ! strength_level v"

definition bars_filled :: "jsstring \<Rightarrow> bool list" where
  "bars_filled v = map (\<lambda>n. strength_level v \<ge> n) [1, 2, 3]"

lemma groups_classes:
  "list_all is_lower (groups ! 0)" "list_all is_upper (groups ! 1)" "list_all is_digit (groups ! 2)"
  "list_all (\<lambda>c. \<not> (is_lower c \<or> is_upper c \<or> is_digit c)) (groups ! 3)"
  "list_all (\<lambda>c. c \<noteq> CHR 0x0A \<and> c \<noteq> CHR 0x0D) alphabet"
  by code_simp+

lemma generated_shape:
  assumes "generateAccountPassword bs = Some (pw, rest)"
  shows "length pw = 20 \<and> set pw \<subseteq> set alphabet \<and> list_all (\<lambda>g. list_ex (\<lambda>c. c \<in> set g) pw) groups"
proof -
  obtain chars bs1 chars2 bs2 where g: "pick_each groups bs = Some (chars, bs1)"
      "fill (20 - length chars) chars bs1 = Some (chars2, bs2)"
      "shuffle (length chars2 - 1) chars2 bs2 = Some (pw, rest)"
    using assms by (auto simp: generateAccountPassword_def split: option.splits)
  have each: "list_all2 (\<lambda>c g. c \<in> set g) chars groups"
    by (rule pick_each_chars[OF g(1)]) (simp add: groups_def)
  then have len: "length chars = 4" by (auto dest: list_all2_lengthD simp: groups_def)
  obtain more where more: "chars2 = chars @ more" "length more = 16" "set more \<subseteq> set alphabet"
    using fill_chars[OF g(2)] len by auto
  have ms: "mset pw = mset chars2" using shuffle_mset[OF g(3)] more len by simp
  have sets: "set pw = set chars2" by (metis ms set_mset_mset)
  have sub: "set chars \<subseteq> set alphabet"
    using each by (fastforce simp: alphabet_def list_all2_conv_all_nth in_set_conv_nth[of _ chars])
  have ex: "list_all (\<lambda>g. list_ex (\<lambda>c. c \<in> set g) pw) groups"
    unfolding list_all_iff list_ex_iff sets more(1)
    using each by (metis UnI1 in_set_conv_nth list_all2_conv_all_nth set_append)
  have "length pw = length chars2" by (metis ms size_mset)
  then have "length pw = 20" using len more by simp
  with sub more sets ex show ?thesis by auto
qed

lemma generated_meets_rules:
  assumes "generateAccountPassword bs = Some (pw, rest)"
  shows "meetsRules pw"
proof -
  have s: "length pw = 20" "set pw \<subseteq> set alphabet" "list_all (\<lambda>g. list_ex (\<lambda>c. c \<in> set g) pw) groups"
    using generated_shape[OF assms] by blast+
  have from_group: "list_ex P pw" if "i < length groups" "list_all P (groups ! i)" for P i
    using s(3) that unfolding list_all_iff list_ex_iff by (meson nth_mem)
  show ?thesis
    unfolding meetsRules_def
    using from_group[of 0 is_lower] from_group[of 1 is_upper] from_group[of 2 is_digit]
      from_group[of 3 "\<lambda>c. \<not> (is_lower c \<or> is_upper c \<or> is_digit c)"] groups_classes s
    by (auto simp: groups_def list_all_iff)
qed

text \<open>C31. Every generated password has 20 characters of the alphabet, one of each group at least;
  it satisfies the rule the form and the server apply, and the meter shows it as strong.\<close>

theorem generated_password_strong:
  assumes "generateAccountPassword bs = Some (pw, rest)"
  shows "length pw = 20 \<and> set pw \<subseteq> set alphabet \<and> meetsRules pw \<and> strength_level pw = 3"
  using generated_shape[OF assms] generated_meets_rules[OF assms] by (auto simp: strength_level_def)

theorem generated_password_strong_witness:
  "\<exists>pw rest. generateAccountPassword (replicate 40 7) = Some (pw, rest) \<and> meetsRules pw"
proof -
  have "generateAccountPassword (replicate 40 7) \<noteq> None" by code_simp
  then obtain pw rest where "generateAccountPassword (replicate 40 7) = Some (pw, rest)" by force
  with generated_password_strong[OF this] show ?thesis by blast
qed

section \<open>The generator returns\<close>

definition small_bytes :: "nat list \<Rightarrow> nat" where
  "small_bytes bs = length (filter (\<lambda>b. b < 128) bs)"

lemma pick_small:
  assumes "0 < small_bytes bs" "0 < sz" "sz \<le> 128"
  shows "\<exists>j bs'. pick sz bs = Some (j, bs') \<and> small_bytes bs \<le> Suc (small_bytes bs')"
  using assms(1)
proof (induction bs)
  case Nil
  then show ?case by (simp add: small_bytes_def)
next
  case (Cons b bs)
  have "256 mod sz < sz" using assms(2) by simp
  then have "128 < 256 - 256 mod sz" using assms(3) by linarith
  then have "b \<ge> 256 - 256 mod sz \<Longrightarrow> \<not> b < 128" by linarith
  with Cons show ?case by (auto simp: small_bytes_def)
qed

lemma pick_each_small:
  "length gs \<le> small_bytes bs \<Longrightarrow> list_all (\<lambda>g. 0 < length g \<and> length g \<le> 128) gs \<Longrightarrow>
     \<exists>cs bs'. pick_each gs bs = Some (cs, bs') \<and> length cs = length gs \<and>
        small_bytes bs \<le> length gs + small_bytes bs'"
proof (induction gs arbitrary: bs)
  case Nil
  then show ?case by simp
next
  case (Cons g gs)
  then obtain j bs1 where j: "pick (length g) bs = Some (j, bs1)" "small_bytes bs \<le> Suc (small_bytes bs1)"
    using pick_small[of bs "length g"] by auto
  then obtain cs bs' where "pick_each gs bs1 = Some (cs, bs')" "length cs = length gs"
      "small_bytes bs1 \<le> length gs + small_bytes bs'"
    using Cons.IH[of bs1] Cons.prems by auto
  with j show ?case by simp
qed

lemma alphabet_size: "0 < length alphabet" "length alphabet \<le> 128"
  by (simp_all add: alphabet_def groups_def)

lemma fill_small:
  "n \<le> small_bytes bs \<Longrightarrow>
     \<exists>cs bs'. fill n chars bs = Some (cs, bs') \<and> length cs = length chars + n \<and>
        small_bytes bs \<le> n + small_bytes bs'"
proof (induction n arbitrary: chars bs)
  case 0
  then show ?case by simp
next
  case (Suc n)
  then obtain j bs1 where j: "pick (length alphabet) bs = Some (j, bs1)" "small_bytes bs \<le> Suc (small_bytes bs1)"
    using pick_small[of bs "length alphabet"] alphabet_size by auto
  then obtain cs bs' where "fill n (chars @ [alphabet ! j]) bs1 = Some (cs, bs')"
      "length cs = length (chars @ [alphabet ! j]) + n" "small_bytes bs1 \<le> n + small_bytes bs'"
    using Suc.IH[of bs1 "chars @ [alphabet ! j]"] Suc.prems by auto
  with j show ?case by simp
qed

lemma shuffle_small:
  "i \<le> small_bytes bs \<Longrightarrow> i < 128 \<Longrightarrow> \<exists>ys bs'. shuffle i xs bs = Some (ys, bs')"
proof (induction i arbitrary: xs bs)
  case 0
  then show ?case by simp
next
  case (Suc i)
  then obtain j bs1 where j: "pick (Suc i + 1) bs = Some (j, bs1)" "small_bytes bs \<le> Suc (small_bytes bs1)"
    using pick_small[of bs "Suc i + 1"] by auto
  then show ?case using Suc.IH[of bs1] Suc.prems by simp
qed

text \<open>The generator returns as soon as the source has delivered 39 bytes below 128 (four for
  the groups, sixteen to fill up, nineteen for the shuffle), however many others it had to reject.\<close>

theorem generated_password_terminates:
  assumes "39 \<le> small_bytes bs"
  shows "\<exists>pw rest. generateAccountPassword bs = Some (pw, rest)"
proof -
  have g: "list_all (\<lambda>g. 0 < length g \<and> length g \<le> 128) groups" "length groups = 4"
    by (simp_all add: groups_def)
  then obtain cs bs1 where 1: "pick_each groups bs = Some (cs, bs1)" "length cs = 4"
      "small_bytes bs \<le> 4 + small_bytes bs1"
    using pick_each_small[of groups bs] assms by auto
  then obtain cs2 bs2 where 2: "fill 16 cs bs1 = Some (cs2, bs2)" "length cs2 = 20"
      "small_bytes bs1 \<le> 16 + small_bytes bs2"
    using fill_small[of 16 bs1 cs] assms by auto
  have "20 - length cs = 16" using 1 by simp
  moreover have "\<exists>ys bs'. shuffle (length cs2 - 1) cs2 bs2 = Some (ys, bs')"
    using 1 2 assms by (intro shuffle_small) auto
  ultimately show ?thesis using 1 2 by (auto simp: generateAccountPassword_def)
qed

theorem generated_password_terminates_witness:
  "\<exists>pw rest. generateAccountPassword (concat (replicate 39 [255, 5])) = Some (pw, rest)"
  by (rule generated_password_terminates) (simp add: small_bytes_def numeral_eq_Suc)

section \<open>User name and plan\<close>

definition username_feedback :: "jsstring \<Rightarrow> bool \<Rightarrow> jsstring \<times> jsstring" where
  "username_feedback v invalid =
     (if v \<noteq> [] then (if invalid then ''Check format'' else ''Valid format'') else ''Start with a lowercase letter.'',
      show_nat (length v) @ ''/16'')"

datatype limit_value = LUndef | LNull | LNum rat

record plan =
  cpu_cores :: limit_value
  cpu_pct :: limit_value
  memory_max_mb :: limit_value
  mem_mb :: limit_value
  quota_hard_mb :: limit_value
  bandwidth_limit_mb :: limit_value
  database_limit :: limit_value
  email_account_limit :: limit_value

fun gb :: "(rat \<Rightarrow> jsstring) \<Rightarrow> limit_value \<Rightarrow> jsstring" where
  "gb two_decimals (LNum v) = two_decimals (v / 1024) @ '' GB''"
| "gb two_decimals _ = ''Not specified''"

fun limit_count :: "(rat \<Rightarrow> jsstring) \<Rightarrow> limit_value \<Rightarrow> jsstring" where
  "limit_count toLocaleString LUndef = ''Not specified''"
| "limit_count toLocaleString LNull = ''Unlimited''"
| "limit_count toLocaleString (LNum v) = toLocaleString v"

definition coalesce :: "limit_value \<Rightarrow> limit_value \<Rightarrow> limit_value" where
  "coalesce a b = (case a of LNum _ \<Rightarrow> a | _ \<Rightarrow> b)"

definition planLimits :: "(rat \<Rightarrow> jsstring) \<Rightarrow> (rat \<Rightarrow> jsstring) \<Rightarrow> (rat \<Rightarrow> jsstring) \<Rightarrow> plan \<Rightarrow> (jsstring \<times> jsstring) list" where
  "planLimits to_text two_decimals toLocaleString p =
     (let cpu = coalesce (cpu_cores p) (case cpu_pct p of LNum v \<Rightarrow> LNum (v / 100) | _ \<Rightarrow> LNull) in
      [(''CPU'', case cpu of LNum v \<Rightarrow> to_text v @ '' cores'' | _ \<Rightarrow> ''Not specified''),
       (''Memory'', gb two_decimals (coalesce (memory_max_mb p) (mem_mb p))),
       (''Disk'', gb two_decimals (quota_hard_mb p)),
       (''Bandwidth'', if bandwidth_limit_mb p = LNull then ''Unlimited'' else gb two_decimals (bandwidth_limit_mb p)),
       (''Databases'', limit_count toLocaleString (database_limit p)),
       (''Mailboxes'', limit_count toLocaleString (email_account_limit p))])"

end
