(* ===== verification/Data_Table.thy ===== *)
theory Data_Table
  imports Boron_Prelude
begin

text \<open>
  \<open>components/ui/Table.jsx\<close>: the table every list page uses. Filtering, sorting, paging, the column
  picker, the controlled and uncontrolled forms of the three inputs, row activation, and what is
  shown for each state of the query behind it.

  A row is a JSON object. The collation behind \<open>localeCompare\<close> is a parameter. A column's renderer
  is a function to text.
\<close>

section \<open>Columns and properties\<close>

record column =
  ckey :: jsstring
  header :: "jsstring option" \<comment> \<open>None for a header that is not text\<close>
  searchable :: "bool option"
  sortable :: bool
  searchValue :: "(json \<Rightarrow> json) option"
  sortValue :: "(json \<Rightarrow> json) option"
  render :: "(json \<Rightarrow> jsstring) option"

datatype sort_dir = Asc | Desc

record sort_spec =
  skey :: jsstring
  sdir :: sort_dir

text \<open>A property the caller may leave out (\<open>undefined\<close>), give as null, or give.\<close>

datatype 'a given = Undefined | GivenNull | Given 'a

definition nullish_or :: "'a given \<Rightarrow> 'a \<Rightarrow> 'a" where
  "nullish_or g d = (case g of Given v \<Rightarrow> v | _ \<Rightarrow> d)"

record table_props =
  columns :: "column list"
  rows :: "json list"
  loading :: bool
  failed :: bool
  filterable :: bool
  pageSize :: nat
  controlledQuery :: "jsstring given"
  controlledSort :: "sort_spec option given"
  controlledPage :: "int given"
  emptyTitle :: jsstring
  emptyDescription :: jsstring
  hasEmptyAction :: bool
  clickable :: bool
  columnPicker :: bool

record table_state =
  hiddenColumns :: "jsstring list"
  internalQuery :: jsstring
  internalSort :: "sort_spec option"
  internalPage :: int

definition initial_table :: "jsstring list \<Rightarrow> sort_spec option \<Rightarrow> table_state" where
  "initial_table defaultHiddenColumns initialSort =
     \<lparr>hiddenColumns = defaultHiddenColumns, internalQuery = [], internalSort = initialSort, internalPage = 1\<rparr>"

definition query_of :: "table_props \<Rightarrow> table_state \<Rightarrow> jsstring" where
  "query_of p s = nullish_or (controlledQuery p) (internalQuery s)"

text \<open>A controlled sort of null falls back to the internal one, as \<open>??\<close> does.\<close>

definition sort_of :: "table_props \<Rightarrow> table_state \<Rightarrow> sort_spec option" where
  "sort_of p s = (case controlledSort p of Given (Some v) \<Rightarrow> Some v | _ \<Rightarrow> internalSort s)"

definition page_of :: "table_props \<Rightarrow> table_state \<Rightarrow> int" where
  "page_of p s = nullish_or (controlledPage p) (internalPage s)"

definition displayedColumns :: "table_props \<Rightarrow> table_state \<Rightarrow> column list" where
  "displayedColumns p s = filter (\<lambda>c. ckey c \<notin> set (hiddenColumns s)) (columns p)"

section \<open>Filtering and sorting\<close>

definition searchKeys :: "table_props \<Rightarrow> column list" where
  "searchKeys p = filter (\<lambda>c. searchable c \<noteq> Some False \<and> (searchable c = Some True \<or> ckey c \<noteq> [])) (columns p)"

definition cell_text :: "column \<Rightarrow> json \<Rightarrow> json" where
  "cell_text c row = (case searchValue c of Some f \<Rightarrow> f row | None \<Rightarrow> jget row (ckey c))"

definition row_matches :: "table_props \<Rightarrow> jsstring \<Rightarrow> json \<Rightarrow> bool" where
  "row_matches p q row \<longleftrightarrow>
     list_ex (\<lambda>c. \<not> nullish (cell_text c row) \<and> js_includes (toLowerCase (js_String (cell_text c row))) q) (searchKeys p)"

definition get_val :: "table_props \<Rightarrow> jsstring \<Rightarrow> json \<Rightarrow> json" where
  "get_val p k row =
     (case List.find (\<lambda>c. ckey c = k) (columns p) of
        Some c \<Rightarrow> (case sortValue c of Some f \<Rightarrow> f row | None \<Rightarrow> jget row k)
      | None \<Rightarrow> jget row k)"

definition value_cmp :: "(jsstring \<Rightarrow> jsstring \<Rightarrow> int) \<Rightarrow> sort_dir \<Rightarrow> json \<Rightarrow> json \<Rightarrow> int" where
  "value_cmp localeCompare d va vb =
     (if nullish va then 1 else if nullish vb then -1
      else (let cmp = (case (va, vb) of
                         (JNum a, JNum b) \<Rightarrow> a - b
                       | _ \<Rightarrow> localeCompare (js_String va) (js_String vb))
            in if d = Desc then - cmp else cmp))"

definition filter_rows :: "table_props \<Rightarrow> table_state \<Rightarrow> json list" where
  "filter_rows p s =
     (if filterable p \<and> trim (query_of p s) \<noteq> []
      then filter (row_matches p (toLowerCase (trim (query_of p s)))) (rows p)
      else rows p)"

definition filtered :: "(jsstring \<Rightarrow> jsstring \<Rightarrow> int) \<Rightarrow> table_props \<Rightarrow> table_state \<Rightarrow> json list" where
  "filtered localeCompare p s =
     (case sort_of p s of
        Some spec \<Rightarrow>
          if skey spec \<noteq> []
          then js_sort (\<lambda>a b. value_cmp localeCompare (sdir spec) (get_val p (skey spec) a) (get_val p (skey spec) b))
                 (filter_rows p s)
          else filter_rows p s
      | None \<Rightarrow> filter_rows p s)"

lemma set_filtered: "mset (filtered lc p s) = mset (filter_rows p s)"
  by (simp add: filtered_def split: option.split)

section \<open>Pages\<close>

definition js_ceil_div :: "nat \<Rightarrow> nat \<Rightarrow> nat" where
  "js_ceil_div n k = (n + k - 1) div k"

definition totalPages :: "nat \<Rightarrow> 'a list \<Rightarrow> int" where
  "totalPages per xs = (if per \<noteq> 0 then max 1 (int (js_ceil_div (length xs) per)) else 1)"

text \<open>\<open>slice(a, b)\<close>: a negative bound counts from the end.\<close>

definition slice_index :: "int \<Rightarrow> nat \<Rightarrow> nat" where
  "slice_index i n = (if i < 0 then nat (max 0 (int n + i)) else nat (min i (int n)))"

definition js_slice :: "int \<Rightarrow> int \<Rightarrow> 'a list \<Rightarrow> 'a list" where
  "js_slice a b xs = take (slice_index b (length xs) - slice_index a (length xs)) (drop (slice_index a (length xs)) xs)"

definition clampedPage :: "nat \<Rightarrow> 'a list \<Rightarrow> int \<Rightarrow> int" where
  "clampedPage per xs page = min page (totalPages per xs)"

definition page_rows :: "nat \<Rightarrow> 'a list \<Rightarrow> int \<Rightarrow> 'a list" where
  "page_rows per xs page =
     (let c = clampedPage per xs page
      in if per \<noteq> 0 then js_slice ((c - 1) * int per) (c * int per) xs else xs)"

lemma page_rows_nat:
  assumes "0 < per" "k < nat (totalPages per xs)"
  shows "page_rows per xs (int k + 1) = take per (drop (k * per) xs)"
proof -
  have c: "clampedPage per xs (int k + 1) = int k + 1"
    using assms(2) by (simp add: clampedPage_def)
  have a: "slice_index (int k * int per) n = min (k * per) n" for n
    by (auto simp: slice_index_def of_nat_mult[symmetric] simp del: of_nat_mult)
  have b: "slice_index ((int k + 1) * int per) n = min (Suc k * per) n" for n
  proof -
    have "(int k + 1) * int per = int (Suc k * per)" by (simp add: algebra_simps)
    then show ?thesis unfolding slice_index_def by (auto simp del: of_nat_mult mult_Suc)
  qed
  have "js_slice (int k * int per) ((int k + 1) * int per) xs = take per (drop (k * per) xs)"
  proof (cases "k * per \<le> length xs")
    case True
    then have "min (Suc k * per) (length xs) - k * per = min per (length xs - k * per)" by auto
    with True show ?thesis unfolding js_slice_def a b
      by (metis length_drop min.absorb1 min.commute take_all_iff min_def take_take order.refl)
  next
    case False
    then show ?thesis unfolding js_slice_def a b by simp
  qed
  with c assms(1) show ?thesis by (simp add: page_rows_def)
qed

lemma concat_chunks:
  "length xs \<le> m * per \<Longrightarrow> concat (map (\<lambda>k. take per (drop (k * per) xs)) [0..<m]) = xs"
proof -
  have "concat (map (\<lambda>k. take per (drop (k * per) xs)) [0..<m]) = take (m * per) xs"
    by (induction m) (auto simp: take_add[symmetric] add.commute)
  moreover assume "length xs \<le> m * per"
  ultimately show ?thesis by simp
qed

lemma ceil_div_bounds:
  assumes "0 < k"
  shows "n \<le> js_ceil_div n k * k" and "0 < n \<Longrightarrow> (js_ceil_div n k - 1) * k < n"
proof -
  have e: "n + k - 1 = js_ceil_div n k * k + (n + k - 1) mod k"
    unfolding js_ceil_div_def by simp
  have m: "(n + k - 1) mod k < k" using assms by simp
  from e m show "n \<le> js_ceil_div n k * k" by linarith
  assume "0 < n"
  have "js_ceil_div n k * k \<le> n + k - 1" using e by linarith
  then have "js_ceil_div n k * k < n + k" using \<open>0 < n\<close> assms by linarith
  then show "(js_ceil_div n k - 1) * k < n"
    using \<open>0 < n\<close> by (cases "js_ceil_div n k") auto
qed

lemma page_rows_nonempty:
  assumes "0 < per" "xs \<noteq> []" "1 \<le> page"
  shows "page_rows per xs page \<noteq> []"
proof -
  let ?n = "nat (totalPages per xs)"
  have n: "?n = max 1 (js_ceil_div (length xs) per)" using assms by (auto simp: totalPages_def)
  define k where "k = nat (clampedPage per xs page - 1)"
  have tp: "1 \<le> totalPages per xs" by (simp add: totalPages_def)
  have c: "clampedPage per xs page = int k + 1" "k < ?n"
    using assms(3) tp by (auto simp: k_def clampedPage_def)
  then have "clampedPage per xs (int k + 1) = int k + 1" by (simp add: clampedPage_def)
  then have "page_rows per xs page = page_rows per xs (int k + 1)"
    unfolding page_rows_def using c(1) by simp
  then have pr: "page_rows per xs page = take per (drop (k * per) xs)"
    using page_rows_nat[OF assms(1) c(2)] by simp
  have len: "0 < length xs" using assms by simp
  have "k \<le> js_ceil_div (length xs) per - 1" using c(2) unfolding n by auto
  then have "k * per < length xs"
    using ceil_div_bounds(2)[OF assms(1) len] by (meson le_less_trans mult_le_mono1)
  then show ?thesis unfolding pr using assms by simp
qed

text \<open>C36. Paging loses and repeats nothing: the pages 1 to the last, in order, are the rows; no page
  up to the last is empty while there is a row, and a page beyond the last shows the last.\<close>

theorem pages_partition:
  assumes "0 < per"
  shows "concat (map (\<lambda>k. page_rows per xs (int k + 1)) [0..<nat (totalPages per xs)]) = xs \<and>
         (xs \<noteq> [] \<longrightarrow> (\<forall>page. 1 \<le> page \<longrightarrow> page_rows per xs page \<noteq> [])) \<and>
         (\<forall>page. totalPages per xs \<le> page \<longrightarrow> page_rows per xs page = page_rows per xs (totalPages per xs))"
proof (intro conjI allI impI)
  let ?n = "nat (totalPages per xs)"
  have n: "?n = max 1 (js_ceil_div (length xs) per)" using assms by (auto simp: totalPages_def)
  have "map (\<lambda>k. page_rows per xs (int k + 1)) [0..<?n] = map (\<lambda>k. take per (drop (k * per) xs)) [0..<?n]"
    using page_rows_nat[OF assms] by (intro map_cong) auto
  moreover have "length xs \<le> ?n * per"
    using ceil_div_bounds(1)[OF assms, of "length xs"] unfolding n
    by (metis dual_order.trans max.cobounded2 mult_le_mono1)
  ultimately show "concat (map (\<lambda>k. page_rows per xs (int k + 1)) [0..<?n]) = xs"
    using concat_chunks by metis
  show "page_rows per xs page \<noteq> []" if "xs \<noteq> []" "1 \<le> page" for page
    using page_rows_nonempty[OF assms that] .
  show "page_rows per xs page = page_rows per xs (totalPages per xs)" if "totalPages per xs \<le> page" for page
    using that by (simp add: page_rows_def clampedPage_def)
qed

theorem pages_partition_witness:
  "concat (map (\<lambda>k. page_rows 2 [1 :: nat, 2, 3] (int k + 1)) [0..<nat (totalPages 2 [1 :: nat, 2, 3])]) = [1, 2, 3]"
  using pages_partition[of 2 "[1 :: nat, 2, 3]"] by simp

section \<open>Filtering and sorting, stated\<close>

lemma value_cmp_num [simp]:
  "value_cmp lc d (JNum a) (JNum b) = (if d = Desc then b - a else a - b)"
  by (simp add: value_cmp_def nullish_def)

lemma value_cmp_str [simp]:
  "value_cmp lc d (JStr a) (JStr b) = (if d = Desc then - lc a b else lc a b)"
  by (simp add: value_cmp_def nullish_def)

definition numeric_column :: "table_props \<Rightarrow> jsstring \<Rightarrow> json \<Rightarrow> bool" where
  "numeric_column p k row \<longleftrightarrow> (case get_val p k row of JNum _ \<Rightarrow> True | _ \<Rightarrow> False)"

definition text_column :: "table_props \<Rightarrow> jsstring \<Rightarrow> json \<Rightarrow> bool" where
  "text_column p k row \<longleftrightarrow> (case get_val p k row of JStr _ \<Rightarrow> True | _ \<Rightarrow> False)"

text \<open>What a collation promises: a total preorder.\<close>

definition collation_ok :: "(jsstring \<Rightarrow> jsstring \<Rightarrow> int) \<Rightarrow> bool" where
  "collation_ok lc \<longleftrightarrow> (\<forall>a b. (0 < lc a b) = (lc b a < 0)) \<and>
     (\<forall>a b c. lc a b \<le> 0 \<longrightarrow> lc b c \<le> 0 \<longrightarrow> lc a c \<le> 0)"

interpretation numeric_sort: js_comparator
  "\<lambda>a b. value_cmp lc d (get_val p k a) (get_val p k b)" "numeric_column p k" for lc d p k
  by unfold_locales (auto simp: numeric_column_def split: json.splits)

lemma text_comparator:
  assumes "collation_ok lc"
  shows "js_comparator (\<lambda>a b. value_cmp lc d (get_val p k a) (get_val p k b)) (text_column p k)"
proof
  fix x y
  assume "text_column p k x" "text_column p k y" "0 < value_cmp lc d (get_val p k x) (get_val p k y)"
  then show "value_cmp lc d (get_val p k y) (get_val p k x) \<le> 0"
    using assms unfolding collation_ok_def text_column_def
    by (auto split: json.splits if_splits) (smt (verit))+
next
  fix x y z
  assume "text_column p k x" "text_column p k y" "text_column p k z"
    "value_cmp lc d (get_val p k x) (get_val p k y) \<le> 0" "value_cmp lc d (get_val p k y) (get_val p k z) \<le> 0"
  then show "value_cmp lc d (get_val p k x) (get_val p k z) \<le> 0"
    using assms unfolding collation_ok_def text_column_def
    by (auto split: json.splits if_splits) (smt (verit))+
qed

definition in_order :: "(jsstring \<Rightarrow> jsstring \<Rightarrow> int) \<Rightarrow> table_props \<Rightarrow> sort_spec \<Rightarrow> json list \<Rightarrow> bool" where
  "in_order lc p spec xs \<longleftrightarrow>
     sorted_wrt (\<lambda>a b. value_cmp lc (sdir spec) (get_val p (skey spec) a) (get_val p (skey spec) b) \<le> 0) xs"

text \<open>The table shows exactly the rows that match the search, each as often as it was given.
  When a sort is chosen and the column holds numbers only, or texts only, they are in order, in
  the chosen direction.\<close>

theorem filtered_rows_correct:
  assumes "collation_ok lc" "sort_of p s = Some spec" "skey spec \<noteq> []"
    "list_all (numeric_column p (skey spec)) (rows p) \<or> list_all (text_column p (skey spec)) (rows p)"
  shows "mset (filtered lc p s) = mset (filter_rows p s) \<and> in_order lc p spec (filtered lc p s)"
proof -
  let ?cmp = "\<lambda>a b. value_cmp lc (sdir spec) (get_val p (skey spec) a) (get_val p (skey spec) b)"
  have f: "filtered lc p s = js_sort ?cmp (filter_rows p s)" using assms by (simp add: filtered_def)
  have sub: "set (filter_rows p s) \<subseteq> set (rows p)" by (auto simp: filter_rows_def)
  consider "\<forall>r\<in>set (filter_rows p s). numeric_column p (skey spec) r"
    | "\<forall>r\<in>set (filter_rows p s). text_column p (skey spec) r"
    using assms(4) sub unfolding list_all_iff by blast
  then have "in_order lc p spec (filtered lc p s)"
  proof cases
    case 1
    then show ?thesis unfolding f in_order_def by (rule numeric_sort.sort_sorted)
  next
    case 2
    then show ?thesis unfolding f in_order_def
      by (rule js_comparator.sort_sorted[OF text_comparator[OF assms(1)]])
  qed
  with f show ?thesis by simp
qed

definition sample_table :: table_props where
  "sample_table =
     \<lparr>columns = [\<lparr>ckey = ''size'', header = Some ''Size'', searchable = None, sortable = True,
                   searchValue = None, sortValue = None, render = None\<rparr>],
      rows = [JObj [(''size'', JNum 5)], JObj [(''size'', JNum 2)]],
      loading = False, failed = False, filterable = True, pageSize = 1,
      controlledQuery = Undefined, controlledSort = Undefined, controlledPage = Undefined,
      emptyTitle = ''Nothing here yet'', emptyDescription = [], hasEmptyAction = False,
      clickable = False, columnPicker = False\<rparr>"

theorem filtered_rows_correct_witness:
  "in_order (\<lambda>_ _. 0) sample_table \<lparr>skey = ''size'', sdir = Asc\<rparr>
     (filtered (\<lambda>_ _. 0) sample_table (initial_table [] (Some \<lparr>skey = ''size'', sdir = Asc\<rparr>)))"
proof -
  have "list_all (numeric_column sample_table ''size'') (rows sample_table)" by code_simp
  then show ?thesis
    using filtered_rows_correct[of "\<lambda>_ _. 0" sample_table
        "initial_table [] (Some \<lparr>skey = ''size'', sdir = Asc\<rparr>)" "\<lparr>skey = ''size'', sdir = Asc\<rparr>"]
    by (simp add: collation_ok_def sort_of_def sample_table_def initial_table_def)
qed

text \<open>Two rows without a value each come after the other: for them the comparator is inconsistent.\<close>

lemma missing_values_inconsistent:
  "nullish va \<Longrightarrow> nullish vb \<Longrightarrow> value_cmp lc d va vb = 1 \<and> value_cmp lc d vb va = 1"
  by (simp add: value_cmp_def)

section \<open>Events\<close>

datatype table_event =
    TypeQuery jsstring
  | ToggleSort column
  | PreviousPage
  | NextPage
  | ShowColumn jsstring bool

datatype callback =
    OnQueryChange jsstring
  | OnSortChange "sort_spec option"
  | OnPageChange int

definition updateQuery :: "table_props \<Rightarrow> jsstring \<Rightarrow> table_state \<Rightarrow> table_state \<times> callback list" where
  "updateQuery p v s =
     ((if controlledQuery p = Undefined then s\<lparr>internalQuery := v\<rparr> else s), [OnQueryChange v])"

definition updateSort :: "table_props \<Rightarrow> sort_spec option \<Rightarrow> table_state \<Rightarrow> table_state \<times> callback list" where
  "updateSort p v s =
     ((if controlledSort p = Undefined then s\<lparr>internalSort := v\<rparr> else s), [OnSortChange v])"

definition updatePage :: "table_props \<Rightarrow> int \<Rightarrow> table_state \<Rightarrow> table_state \<times> callback list" where
  "updatePage p v s =
     ((if controlledPage p = Undefined then s\<lparr>internalPage := v\<rparr> else s), [OnPageChange v])"

definition next_sort :: "jsstring \<Rightarrow> sort_spec option \<Rightarrow> sort_spec option" where
  "next_sort k prev =
     (case prev of
        None \<Rightarrow> Some \<lparr>skey = k, sdir = Asc\<rparr>
      | Some spec \<Rightarrow>
          if skey spec \<noteq> k then Some \<lparr>skey = k, sdir = Asc\<rparr>
          else if sdir spec = Asc then Some \<lparr>skey = k, sdir = Desc\<rparr>
          else None)"

definition toggleSort :: "table_props \<Rightarrow> column \<Rightarrow> table_state \<Rightarrow> table_state \<times> callback list" where
  "toggleSort p col s =
     (if \<not> sortable col then (s, [])
      else (case updateSort p (next_sort (ckey col) (sort_of p s)) s of
              (s1, c1) \<Rightarrow> (case updatePage p 1 s1 of (s2, c2) \<Rightarrow> (s2, c1 @ c2))))"

definition picker_columns :: "table_props \<Rightarrow> column list" where
  "picker_columns p = filter (\<lambda>c. ckey c \<noteq> ''select'' \<and> ckey c \<noteq> ''actions'') (columns p)"

definition picker_disabled :: "table_props \<Rightarrow> jsstring \<Rightarrow> bool" where
  "picker_disabled p k =
     (case List.find (\<lambda>c. ckey c \<noteq> ''select'') (columns p) of None \<Rightarrow> False | Some c \<Rightarrow> ckey c = k)"

text \<open>Which events the page offers.\<close>

fun offered :: "(jsstring \<Rightarrow> jsstring \<Rightarrow> int) \<Rightarrow> table_props \<Rightarrow> table_state \<Rightarrow> table_event \<Rightarrow> bool" where
  "offered lc p s (TypeQuery v) = filterable p"
| "offered lc p s (ToggleSort col) =
     (ckey col \<in> ckey ` set (displayedColumns p s) \<and> sortable col \<and> \<not> loading p \<and> \<not> failed p \<and> filtered lc p s \<noteq> [])"
| "offered lc p s PreviousPage =
     (pageSize p > 0 \<and> \<not> loading p \<and> \<not> failed p \<and> filtered lc p s \<noteq> [] \<and>
      1 < clampedPage (pageSize p) (filtered lc p s) (page_of p s))"
| "offered lc p s NextPage =
     (pageSize p > 0 \<and> \<not> loading p \<and> \<not> failed p \<and> filtered lc p s \<noteq> [] \<and>
      clampedPage (pageSize p) (filtered lc p s) (page_of p s) < totalPages (pageSize p) (filtered lc p s))"
| "offered lc p s (ShowColumn k b) =
     (columnPicker p \<and> k \<in> ckey ` set (picker_columns p) \<and> \<not> picker_disabled p k)"

fun table_update :: "(jsstring \<Rightarrow> jsstring \<Rightarrow> int) \<Rightarrow> table_props \<Rightarrow> table_event \<Rightarrow> table_state
     \<Rightarrow> table_state \<times> callback list" where
  "table_update lc p (TypeQuery v) s =
     (case updateQuery p v s of
        (s1, c1) \<Rightarrow> (case updatePage p 1 s1 of (s2, c2) \<Rightarrow> (s2, c1 @ c2)))"
| "table_update lc p (ToggleSort col) s = toggleSort p col s"
| "table_update lc p PreviousPage s =
     updatePage p (max 1 (clampedPage (pageSize p) (filtered lc p s) (page_of p s) - 1)) s"
| "table_update lc p NextPage s =
     updatePage p (min (totalPages (pageSize p) (filtered lc p s))
       (clampedPage (pageSize p) (filtered lc p s) (page_of p s) + 1)) s"
| "table_update lc p (ShowColumn k b) s =
     (s\<lparr>hiddenColumns := (if b then filter (\<lambda>h. h \<noteq> k) (hiddenColumns s)
                          else if k \<in> set (hiddenColumns s) then hiddenColumns s else hiddenColumns s @ [k])\<rparr>, [])"

text \<open>
  The parent renders the table with other properties after each event; \<open>P\<close> is what they all satisfy.
\<close>

inductive table_reach :: "(jsstring \<Rightarrow> jsstring \<Rightarrow> int) \<Rightarrow> (table_props \<Rightarrow> bool) \<Rightarrow> table_state \<Rightarrow> table_state \<Rightarrow> bool"
  for lc P s where
  start: "table_reach lc P s s"
| step: "table_reach lc P s s1 \<Longrightarrow> P p \<Longrightarrow> offered lc p s1 e \<Longrightarrow> table_update lc p e s1 = (s2, cs) \<Longrightarrow>
     table_reach lc P s s2"

definition props_ok :: "table_props \<Rightarrow> bool" where
  "props_ok p \<longleftrightarrow> (case controlledPage p of Given n \<Rightarrow> 1 \<le> n | _ \<Rightarrow> True)"

lemma totalPages_pos [simp]: "1 \<le> totalPages per xs"
  by (simp add: totalPages_def)

lemma clampedPage_pos: "1 \<le> page \<Longrightarrow> 1 \<le> clampedPage per xs page"
  by (simp add: clampedPage_def)

lemma page_of_pos: "props_ok p \<Longrightarrow> 1 \<le> internalPage s \<Longrightarrow> 1 \<le> page_of p s"
  by (auto simp: props_ok_def page_of_def nullish_or_def split: given.splits)

lemma internalPage_updates:
  "internalPage (fst (updatePage p v s)) = (if controlledPage p = Undefined then v else internalPage s)"
  "internalPage (fst (updateQuery p q s)) = internalPage s"
  "internalPage (fst (updateSort p so s)) = internalPage s"
  by (simp_all add: updatePage_def updateQuery_def updateSort_def)

lemma update_page_positive:
  assumes "props_ok p" "1 \<le> internalPage s"
  shows "1 \<le> internalPage (fst (table_update lc p e s))"
proof (cases e)
  case NextPage
  have "1 \<le> clampedPage (pageSize p) (filtered lc p s) (page_of p s)"
    using assms by (intro clampedPage_pos page_of_pos)
  with NextPage assms totalPages_pos[of "pageSize p" "filtered lc p s"] show ?thesis
    by (simp add: internalPage_updates min_def)
qed (use assms in \<open>auto simp: internalPage_updates toggleSort_def updatePage_def updateQuery_def updateSort_def\<close>)

lemma hidden_updates:
  "hiddenColumns (fst (updatePage p v s)) = hiddenColumns s"
  "hiddenColumns (fst (updateQuery p q s)) = hiddenColumns s"
  "hiddenColumns (fst (updateSort p so s)) = hiddenColumns s"
  by (simp_all add: updatePage_def updateQuery_def updateSort_def)

lemma update_keeps_fixed_column:
  assumes "picker_disabled p k" "offered lc p s e" "k \<notin> set (hiddenColumns s)"
  shows "k \<notin> set (hiddenColumns (fst (table_update lc p e s)))"
proof (cases e)
  case (ToggleSort col)
  then show ?thesis using assms by (auto simp: toggleSort_def updateSort_def updatePage_def)
qed (use assms in \<open>auto simp: hidden_updates updateQuery_def updatePage_def\<close>)

text \<open>Whatever the user types, sorts, pages and hides, and however the parent re-renders the table
  with a positive page, the page number stays at least 1; and the first column that is not the
  selection box, once visible, is never hidden.\<close>

theorem table_invariant:
  assumes "table_reach lc P s0 s" "1 \<le> internalPage s0" "\<And>p. P p \<Longrightarrow> props_ok p"
    "\<And>p. P p \<Longrightarrow> picker_disabled p k" "k \<notin> set (hiddenColumns s0)"
  shows "1 \<le> internalPage s \<and> k \<notin> set (hiddenColumns s)"
  using assms(1)
proof (induction rule: table_reach.induct)
  case start
  show ?case using assms by simp
next
  case (step s1 p e s2 cs)
  have "s2 = fst (table_update lc p e s1)" using step.hyps by simp
  then show ?case
    using update_page_positive[of p s1 lc e] update_keeps_fixed_column[of p k lc s1 e] step assms by simp
qed

theorem table_invariant_witness:
  "1 \<le> internalPage (fst (table_update (\<lambda>_ _. 0) sample_table NextPage (initial_table [] None))) \<and>
   ''size'' \<notin> set (hiddenColumns (fst (table_update (\<lambda>_ _. 0) sample_table NextPage (initial_table [] None))))"
proof -
  let ?s = "initial_table [] None" and ?P = "\<lambda>p. p = sample_table"
  let ?s' = "fst (table_update (\<lambda>_ _. 0) sample_table NextPage ?s)"
  have "offered (\<lambda>_ _. 0) sample_table ?s NextPage" by code_simp
  then have "table_reach (\<lambda>_ _. 0) ?P ?s ?s'"
    using table_reach.step[OF table_reach.start, of ?P sample_table "\<lambda>_ _. 0" ?s NextPage ?s'
        "snd (table_update (\<lambda>_ _. 0) sample_table NextPage ?s)"]
    by (simp only: prod.collapse)
  from table_invariant[OF this, of "''size''"] show ?thesis
    by (simp add: initial_table_def props_ok_def picker_disabled_def sample_table_def)
qed

section \<open>What is shown\<close>

record footer =
  shown_from :: int
  shown_to :: int
  shown_of :: nat
  shown_page :: int
  shown_pages :: int
  prev_disabled :: bool
  next_disabled :: bool

datatype table_view =
    ShowSkeleton nat nat
  | ShowError
  | ShowEmpty jsstring jsstring bool
  | ShowRows "json list" "footer option"

definition table_footer :: "nat \<Rightarrow> json list \<Rightarrow> int \<Rightarrow> footer" where
  "table_footer per xs page =
     (let c = clampedPage per xs page
      in \<lparr>shown_from = (c - 1) * int per + 1, shown_to = min (c * int per) (int (length xs)), shown_of = length xs,
          shown_page = c, shown_pages = totalPages per xs,
          prev_disabled = (c \<le> 1), next_disabled = (c \<ge> totalPages per xs)\<rparr>)"

definition table_view :: "(jsstring \<Rightarrow> jsstring \<Rightarrow> int) \<Rightarrow> table_props \<Rightarrow> table_state \<Rightarrow> table_view" where
  "table_view lc p s =
     (let xs = filtered lc p s; q = query_of p s
      in if loading p then ShowSkeleton (if pageSize p = 0 then 6 else pageSize p) (length (columns p))
         else if failed p then ShowError
         else if xs = []
         then ShowEmpty (if q \<noteq> [] then ''No matches'' else emptyTitle p)
                (if q \<noteq> [] then ''Try a different search.'' else emptyDescription p)
                (q = [] \<and> hasEmptyAction p)
         else ShowRows (page_rows (pageSize p) xs (page_of p s))
                (if pageSize p > 0 then Some (table_footer (pageSize p) xs (page_of p s)) else None))"

definition renderCell :: "column \<Rightarrow> json \<Rightarrow> jsstring" where
  "renderCell col row =
     (case render col of
        Some f \<Rightarrow> f row
      | None \<Rightarrow> if nullish (jget row (ckey col)) then [em_dash] else js_String (jget row (ckey col)))"

definition header_sort :: "table_props \<Rightarrow> table_state \<Rightarrow> column \<Rightarrow> sort_dir option" where
  "header_sort p s col =
     (case sort_of p s of Some spec \<Rightarrow> if skey spec = ckey col then Some (sdir spec) else None | None \<Rightarrow> None)"

definition sort_label :: "table_props \<Rightarrow> table_state \<Rightarrow> column \<Rightarrow> jsstring" where
  "sort_label p s col =
     ''Sort by '' @ (case header col of Some h \<Rightarrow> h | None \<Rightarrow> ckey col) @
     (case header_sort p s col of
        None \<Rightarrow> [] | Some Asc \<Rightarrow> '', currently ascending'' | Some Desc \<Rightarrow> '', currently descending'')"

lemma take_drop_nth: "take n (drop a xs) = map (\<lambda>i. xs ! i) [a..<min (a + n) (length xs)]"
proof (rule nth_equalityI)
  show "length (take n (drop a xs)) = length (map (\<lambda>i. xs ! i) [a..<min (a + n) (length xs)])" by simp
  fix i assume "i < length (take n (drop a xs))"
  then have "i < n" "a + i < length xs" by auto
  then show "take n (drop a xs) ! i = map (\<lambda>i. xs ! i) [a..<min (a + n) (length xs)] ! i" by simp
qed

text \<open>When rows are shown there is at least one, and the footer tells the truth: the numbers from
  and to are the positions of the first and the last row shown among all that match.\<close>

theorem table_footer_truthful:
  assumes "table_view lc p s = ShowRows rs (Some f)" "1 \<le> page_of p s"
  shows "rs \<noteq> [] \<and> 1 \<le> shown_from f \<and> shown_from f \<le> shown_to f \<and> shown_to f \<le> int (shown_of f) \<and>
         rs = map (\<lambda>i. filtered lc p s ! i) [nat (shown_from f - 1)..<nat (shown_to f)]"
proof -
  let ?xs = "filtered lc p s"
  have sz: "0 < pageSize p" and ne: "?xs \<noteq> []" and f: "f = table_footer (pageSize p) ?xs (page_of p s)"
    and rs: "rs = page_rows (pageSize p) ?xs (page_of p s)"
    using assms(1) by (auto simp: table_view_def Let_def split: if_splits)
  define k where "k = nat (clampedPage (pageSize p) ?xs (page_of p s) - 1)"
  have c: "clampedPage (pageSize p) ?xs (page_of p s) = int k + 1"
    using clampedPage_pos[OF assms(2), of "pageSize p" ?xs] by (simp add: k_def)
  have kt: "k < nat (totalPages (pageSize p) ?xs)"
    using c by (auto simp: clampedPage_def)
  have "clampedPage (pageSize p) ?xs (int k + 1) = int k + 1" using kt by (simp add: clampedPage_def)
  then have rs': "rs = take (pageSize p) (drop (k * pageSize p) ?xs)"
    using page_rows_nat[OF sz kt] rs c by (simp add: page_rows_def)
  have rne: "rs \<noteq> []"
    using page_rows_nonempty[OF sz ne assms(2)] rs by simp
  then have lt: "k * pageSize p < length ?xs" unfolding rs' by auto
  have fr: "shown_from f = int (k * pageSize p) + 1"
    unfolding f table_footer_def Let_def c by simp
  have to: "shown_to f = int (min (Suc k * pageSize p) (length ?xs))"
  proof -
    have "(int k + 1) * int (pageSize p) = int (Suc k * pageSize p)" by (simp add: algebra_simps)
    then show ?thesis unfolding f table_footer_def Let_def c
      by (simp only: footer.simps of_nat_min)
  qed
  define a where "a = k * pageSize p"
  define b where "b = min (Suc k * pageSize p) (length ?xs)"
  have "rs = map (\<lambda>i. ?xs ! i) [a..<b]"
    unfolding rs' a_def b_def using take_drop_nth[of "pageSize p" "k * pageSize p" ?xs] by (simp add: add.commute)
  moreover have "shown_of f = length ?xs" unfolding f table_footer_def Let_def by simp
  moreover have "a < b" "b \<le> length ?xs" using lt sz by (simp_all add: a_def b_def)
  moreover have "shown_from f = int a + 1" "shown_to f = int b" using fr to by (simp_all only: a_def b_def)
  ultimately show ?thesis using rne by simp
qed

theorem table_footer_truthful_witness:
  "\<exists>rs f. table_view (\<lambda>_ _. 0) sample_table (initial_table [] None) = ShowRows rs (Some f) \<and> shown_from f \<le> shown_to f"
proof -
  have "filtered (\<lambda>_ _. 0) sample_table (initial_table [] None) = rows sample_table" by code_simp
  then obtain rs f where v: "table_view (\<lambda>_ _. 0) sample_table (initial_table [] None) = ShowRows rs (Some f)"
    by (simp add: table_view_def sample_table_def Let_def)
  moreover have "1 \<le> page_of sample_table (initial_table [] None)" by code_simp
  ultimately show ?thesis using table_footer_truthful[OF v] by blast
qed

section \<open>Activating a row\<close>

record row_event =
  on_row_itself :: bool
  key_event :: bool
  inside_control :: bool
  pressed :: jsstring

datatype row_effect = PreventDefault | RowClick json

definition activateRow :: "bool \<Rightarrow> row_event \<Rightarrow> json \<Rightarrow> row_effect list" where
  "activateRow hasHandler e row =
     (if \<not> hasHandler then []
      else if \<not> on_row_itself e \<and> (key_event e \<or> inside_control e) then []
      else if key_event e \<and> pressed e \<notin> {''Enter'', '' ''} then []
      else (if key_event e then [PreventDefault] else []) @ [RowClick row])"

lemma nested_control_never_opens_row:
  "\<not> on_row_itself e \<Longrightarrow> inside_control e \<or> key_event e \<Longrightarrow> activateRow b e row = []"
  by (auto simp: activateRow_def)

lemma three_clicks_clear_sort: "next_sort k (next_sort k (next_sort k None)) = None"
  by (simp add: next_sort_def)

text \<open>A controlled sort that was cleared (null) shows the initial sort again instead of none.\<close>

lemma cleared_controlled_sort_falls_back:
  "controlledSort p = Given None \<Longrightarrow> sort_of p (initial_table h (Some spec)) = Some spec"
  by (simp add: sort_of_def initial_table_def)

end
