(* ===== verification/Preferences.thy ===== *)
theory Preferences
  imports Boron_Prelude "HOL-Library.AList"
begin

text \<open>
  The browser preferences: \<open>config/themes.js\<close>, the normaliser of
  \<open>public/appearance-preferences.js\<close>, the store of \<open>store/ui.js\<close> with its persistence and its
  reaction to another tab, \<open>hooks/useDomainContext.js\<close> and \<open>hooks/useBranding.js\<close>.

  Browser storage holds, under each key, nothing, a text that does not parse, or a JSON value;
  storing and reading back a value through its text is the identity on JSON values. The storage may
  be blocked: then reads give nothing and writes are dropped.
\<close>

section \<open>Normalisers\<close>

definition skin_ids :: "jsstring list" where
  "skin_ids = [''evolution'', ''paper-lantern'']"

definition normalizeSkin :: "json \<Rightarrow> jsstring" where
  "normalizeSkin v = (case v of JStr s \<Rightarrow> if s \<in> set skin_ids then s else ''evolution'' | _ \<Rightarrow> ''evolution'')"

definition normalizeMode :: "json \<Rightarrow> jsstring" where
  "normalizeMode v = (if v = JStr ''dark'' then ''dark'' else ''light'')"

definition font_keys :: "jsstring list" where
  "font_keys = [''open-sans'', ''inter'', ''roboto'', ''lato'', ''system'']"

record appearance =
  colors :: "(jsstring \<times> jsstring) list"
  font :: json
  textSize :: jsstring
  density :: jsstring
  motion :: jsstring

definition is_hex :: "char \<Rightarrow> bool" where
  "is_hex c \<longleftrightarrow> is_digit c \<or> (97 \<le> code (lower_char c) \<and> code (lower_char c) \<le> 102 \<and> code c < 128)"

definition validColor :: "json \<Rightarrow> bool" where
  "validColor v = (case v of JStr s \<Rightarrow> length s = 7 \<and> hd s = CHR ''#'' \<and> list_all is_hex (tl s) | _ \<Rightarrow> False)"

definition as_object :: "json \<Rightarrow> json" where
  "as_object raw = (case raw of JObj _ \<Rightarrow> raw | JArr _ \<Rightarrow> raw | _ \<Rightarrow> JObj [])"

fun color_text :: "json \<Rightarrow> jsstring" where
  "color_text (JStr s) = toLowerCase s"
| "color_text _ = []"

definition default_skins :: "jsstring list" where
  "default_skins = [''evolution'', ''paper-lantern'']"

text \<open>\<open>Object.hasOwn\<close> turns the stored font into a property name first.\<close>

definition normalize_appearance :: "json \<Rightarrow> appearance" where
  "normalize_appearance raw0 =
     (let raw = as_object raw0; cs = jget raw ''colors''
      in \<lparr>colors = map (\<lambda>k. (k, color_text (jget cs k))) (filter (\<lambda>k. validColor (jget cs k)) default_skins),
          font = (if js_String (jget raw ''font'') \<in> set font_keys then jget raw ''font'' else JStr ''open-sans''),
          textSize = (if jget raw ''textSize'' = JStr ''large'' then ''large'' else ''default''),
          density = (if jget raw ''density'' = JStr ''compact'' then ''compact''
                     else if jget raw ''density'' = JStr ''comfortable'' then ''comfortable'' else ''default''),
          motion = (if jget raw ''motion'' = JStr ''reduced'' then ''reduced'' else ''system'')\<rparr>)"

definition json_of_appearance :: "appearance \<Rightarrow> json" where
  "json_of_appearance a =
     JObj [(''colors'', JObj (map (\<lambda>(k, c). (k, JStr c)) (colors a))), (''font'', font a),
           (''textSize'', JStr (textSize a)), (''density'', JStr (density a)), (''motion'', JStr (motion a))]"

definition valid_appearance :: "appearance \<Rightarrow> bool" where
  "valid_appearance a \<longleftrightarrow>
     map fst (colors a) \<in> {[], [''evolution''], [''paper-lantern''], [''evolution'', ''paper-lantern'']} \<and>
     list_all (\<lambda>(k, c). validColor (JStr c) \<and> toLowerCase c = c) (colors a) \<and>
     js_String (font a) \<in> set font_keys \<and> textSize a \<in> {''large'', ''default''} \<and>
     density a \<in> {''compact'', ''comfortable'', ''default''} \<and> motion a \<in> {''reduced'', ''system''}"

lemma is_hex_lower: "is_hex c \<Longrightarrow> is_hex (lower_char c)"
  using code_less_256[of c] by (auto simp: is_hex_def is_digit_def code_lower_char split: if_splits)

lemma validColor_lower: "validColor (JStr s) \<Longrightarrow> validColor (JStr (toLowerCase s))"
proof -
  assume v: "validColor (JStr s)"
  then obtain x xs where s: "s = x # xs" by (cases s) (auto simp: validColor_def)
  have "lower_char (CHR ''#'') = CHR ''#''" by (simp add: lower_char_def code_def)
  with v s show ?thesis by (auto simp: validColor_def toLowerCase_def list_all_iff is_hex_lower)
qed

lemma valid_normalize: "valid_appearance (normalize_appearance raw)"
proof -
  have "validColor v \<Longrightarrow> \<exists>s. v = JStr s" for v by (cases v) (auto simp: validColor_def)
  then have c: "validColor v \<Longrightarrow> validColor (JStr (color_text v)) \<and> toLowerCase (color_text v) = color_text v" for v
    using validColor_lower by fastforce
  show ?thesis
    unfolding valid_appearance_def normalize_appearance_def Let_def default_skins_def
    using c by (auto simp: font_keys_def)
qed

lemma normalize_valid:
  assumes "valid_appearance a"
  shows "normalize_appearance (json_of_appearance a) = a"
proof -
  have cs: "map (\<lambda>k. (k, color_text (jget (JObj (map (\<lambda>(k, c). (k, JStr c)) (colors a))) k)))
        (filter (\<lambda>k. validColor (jget (JObj (map (\<lambda>(k, c). (k, JStr c)) (colors a))) k)) default_skins) = colors a"
  proof -
    have "map fst (colors a) \<in> {[], [''evolution''], [''paper-lantern''], [''evolution'', ''paper-lantern'']}"
      using assms by (simp add: valid_appearance_def)
    then consider "colors a = []" | c where "colors a = [(''evolution'', c)]" | c where "colors a = [(''paper-lantern'', c)]"
      | c d where "colors a = [(''evolution'', c), (''paper-lantern'', d)]"
      by (auto simp: map_eq_Cons_conv)
    then show ?thesis
      using assms by cases (auto simp: valid_appearance_def default_skins_def validColor_def[of JUndef])
  qed
  have g: "jget (json_of_appearance a) ''colors'' = JObj (map (\<lambda>(k, c). (k, JStr c)) (colors a))"
    "jget (json_of_appearance a) ''font'' = font a" "jget (json_of_appearance a) ''textSize'' = JStr (textSize a)"
    "jget (json_of_appearance a) ''density'' = JStr (density a)"
    "jget (json_of_appearance a) ''motion'' = JStr (motion a)" "as_object (json_of_appearance a) = json_of_appearance a"
    by (simp_all add: json_of_appearance_def as_object_def)
  have f: "(if js_String (font a) \<in> set font_keys then font a else JStr ''open-sans'') = font a"
    and t: "(if JStr (textSize a) = JStr ''large'' then ''large'' else ''default'') = textSize a"
    and d: "(if JStr (density a) = JStr ''compact'' then ''compact''
             else if JStr (density a) = JStr ''comfortable'' then ''comfortable'' else ''default'') = density a"
    and m: "(if JStr (motion a) = JStr ''reduced'' then ''reduced'' else ''system'') = motion a"
    using assms unfolding valid_appearance_def by auto
  show ?thesis
    unfolding normalize_appearance_def Let_def g cs f t d m by simp
qed

interpretation skin_preference: sanitizer "\<lambda>s. normalizeSkin (JStr s)" "\<lambda>s. s \<in> set skin_ids"
  by unfold_locales (auto simp: normalizeSkin_def skin_ids_def)

interpretation mode_preference: sanitizer "\<lambda>s. normalizeMode (JStr s)" "\<lambda>s. s \<in> {''dark'', ''light''}"
  by unfold_locales (auto simp: normalizeMode_def)

interpretation appearance_preference:
  sanitizer "\<lambda>a. normalize_appearance (json_of_appearance a)" valid_appearance
  by unfold_locales (auto simp: valid_normalize normalize_valid)

lemma normalizeSkin_valid [simp]: "normalizeSkin v \<in> set skin_ids"
  by (auto simp: normalizeSkin_def skin_ids_def split: json.splits)

lemma normalizeMode_valid [simp]: "normalizeMode v \<in> {''dark'', ''light''}"
  by (simp add: normalizeMode_def)

section \<open>The store\<close>

record ui_state =
  sidebarCollapsed :: bool
  theme :: jsstring
  skin :: jsstring
  look :: appearance
  closedToolGroups :: "(jsstring \<times> json) list"
  navigationGroups :: "(jsstring \<times> json) list"
  domainContexts :: "(jsstring \<times> json) list"
  accountSwitcher :: json
  paletteOpen :: bool
  mobileNavOpen :: bool

definition initial_ui :: ui_state where
  "initial_ui =
     \<lparr>sidebarCollapsed = False, theme = ''light'', skin = ''evolution'', look = normalize_appearance JUndef,
      closedToolGroups = [], navigationGroups = [], domainContexts = [], accountSwitcher = JNull,
      paletteOpen = False, mobileNavOpen = False\<rparr>"

record document_root =
  dark_class :: bool
  data_skin :: jsstring
  colorScheme :: jsstring
  applied :: appearance

datatype stored = Missing | Unparsable | Saved json

record browser =
  blocked :: bool
  ui_item :: stored
  branding_item :: stored

record tab =
  ui :: ui_state
  root :: document_root
  syncing :: bool

definition object_or_empty :: "json \<Rightarrow> (jsstring \<times> json) list" where
  "object_or_empty v = (case v of JObj kvs \<Rightarrow> kvs | _ \<Rightarrow> [])"

definition persisted_state :: "ui_state \<Rightarrow> json" where
  "persisted_state s =
     JObj [(''appearance'', json_of_appearance (look s)), (''sidebarCollapsed'', JBool (sidebarCollapsed s)),
           (''theme'', JStr (theme s)), (''skin'', JStr (skin s)),
           (''closedToolGroups'', JObj (closedToolGroups s)), (''navigationGroups'', JObj (navigationGroups s)),
           (''domainContexts'', JObj (domainContexts s))]"

definition merge_saved :: "json \<Rightarrow> ui_state \<Rightarrow> ui_state" where
  "merge_saved saved current =
     current\<lparr>look := normalize_appearance (jget saved ''appearance''),
       sidebarCollapsed := truthy (jget saved ''sidebarCollapsed''),
       theme := normalizeMode (jget saved ''theme''),
       skin := normalizeSkin (jget saved ''skin''),
       closedToolGroups := object_or_empty (jget saved ''closedToolGroups''),
       navigationGroups := object_or_empty (jget saved ''navigationGroups''),
       domainContexts := object_or_empty (jget saved ''domainContexts'')\<rparr>"

definition read_ui :: "browser \<Rightarrow> stored" where
  "read_ui b = (if blocked b then Missing else ui_item b)"

definition write_ui :: "json \<Rightarrow> browser \<Rightarrow> browser" where
  "write_ui v b = (if blocked b then b else b\<lparr>ui_item := Saved v\<rparr>)"

definition read_branding :: "browser \<Rightarrow> stored" where
  "read_branding b = (if blocked b then Missing else branding_item b)"

definition write_branding :: "json \<Rightarrow> browser \<Rightarrow> browser" where
  "write_branding v b = (if blocked b then b else b\<lparr>branding_item := Saved v\<rparr>)"

definition envelope :: "ui_state \<Rightarrow> json" where
  "envelope s = JObj [(''state'', persisted_state s), (''version'', JNum 0)]"

text \<open>At start the middleware merges what is stored, or nothing, into the initial state; a text that
  does not parse leaves the initial state.\<close>

definition hydrate :: "stored \<Rightarrow> ui_state" where
  "hydrate st =
     (case st of
        Missing \<Rightarrow> merge_saved JUndef initial_ui
      | Unparsable \<Rightarrow> initial_ui
      | Saved v \<Rightarrow> merge_saved (jget v ''state'') initial_ui)"

definition applyTheme :: "jsstring \<Rightarrow> jsstring \<Rightarrow> appearance \<Rightarrow> document_root" where
  "applyTheme th sk a =
     \<lparr>dark_class = (normalizeMode (JStr th) = ''dark''), data_skin = normalizeSkin (JStr sk),
      colorScheme = normalizeMode (JStr th), applied = a\<rparr>"

definition start_tab :: "browser \<Rightarrow> tab" where
  "start_tab b =
     (let s = hydrate (read_ui b)
      in \<lparr>ui = s, root = applyTheme (theme s) (skin s) (look s), syncing = False\<rparr>)"

text \<open>Every \<open>set\<close> also persists, unless the preferences of another tab are being applied.\<close>

definition set_ui :: "ui_state \<Rightarrow> tab \<times> browser \<Rightarrow> tab \<times> browser" where
  "set_ui s tb =
     (case tb of (t, b) \<Rightarrow> (t\<lparr>ui := s\<rparr>, if syncing t then b else write_ui (envelope s) b))"

definition apply_root :: "tab \<times> browser \<Rightarrow> tab \<times> browser" where
  "apply_root tb =
     (case tb of (t, b) \<Rightarrow> (t\<lparr>root := applyTheme (theme (ui t)) (skin (ui t)) (look (ui t))\<rparr>, b))"

datatype ui_action =
    SetAppearance "(jsstring \<times> json) list"
  | ResetAppearance
  | SetTheme json
  | ToggleTheme
  | SetSkin json
  | ToggleSidebar
  | SetSidebarCollapsed bool
  | ToggleToolGroup jsstring
  | SetNavigationGroup jsstring bool
  | SetDomainContext jsstring jsstring
  | SetAccountSwitcher json
  | SetPaletteOpen bool
  | TogglePalette
  | SetMobileNavOpen bool

definition patch_object :: "json \<Rightarrow> (jsstring \<times> json) list \<Rightarrow> json" where
  "patch_object v patch = (case v of JObj kvs \<Rightarrow> JObj (fold (\<lambda>(k, w). AList.update k w) patch kvs) | _ \<Rightarrow> JObj patch)"

fun ui_run :: "ui_action \<Rightarrow> tab \<times> browser \<Rightarrow> tab \<times> browser" where
  "ui_run (SetAppearance patch) tb =
     (let s = ui (fst tb)
      in apply_root (set_ui (s\<lparr>look := normalize_appearance (patch_object (json_of_appearance (look s)) patch)\<rparr>) tb))"
| "ui_run ResetAppearance tb = apply_root (set_ui ((ui (fst tb))\<lparr>look := normalize_appearance JUndef\<rparr>) tb)"
| "ui_run (SetTheme v) tb = apply_root (set_ui ((ui (fst tb))\<lparr>theme := normalizeMode v\<rparr>) tb)"
| "ui_run ToggleTheme tb =
     apply_root (set_ui ((ui (fst tb))\<lparr>theme := normalizeMode (JStr (if theme (ui (fst tb)) = ''dark'' then ''light'' else ''dark''))\<rparr>) tb)"
| "ui_run (SetSkin v) tb = apply_root (set_ui ((ui (fst tb))\<lparr>skin := normalizeSkin v\<rparr>) tb)"
| "ui_run ToggleSidebar tb = set_ui ((ui (fst tb))\<lparr>sidebarCollapsed := \<not> sidebarCollapsed (ui (fst tb))\<rparr>) tb"
| "ui_run (SetSidebarCollapsed v) tb = set_ui ((ui (fst tb))\<lparr>sidebarCollapsed := v\<rparr>) tb"
| "ui_run (ToggleToolGroup k) tb =
     (let s = ui (fst tb)
      in set_ui (s\<lparr>closedToolGroups := AList.update k (JBool (\<not> truthy (jget (JObj (closedToolGroups s)) k))) (closedToolGroups s)\<rparr>) tb)"
| "ui_run (SetNavigationGroup k closed) tb =
     set_ui ((ui (fst tb))\<lparr>navigationGroups := AList.update k (JBool closed) (navigationGroups (ui (fst tb)))\<rparr>) tb"
| "ui_run (SetDomainContext username domain) tb =
     (if username = [] \<or> domain = [] then tb
      else set_ui ((ui (fst tb))\<lparr>domainContexts := AList.update username (JStr domain) (domainContexts (ui (fst tb)))\<rparr>) tb)"
| "ui_run (SetAccountSwitcher v) tb = set_ui ((ui (fst tb))\<lparr>accountSwitcher := v\<rparr>) tb"
| "ui_run (SetPaletteOpen v) tb = set_ui ((ui (fst tb))\<lparr>paletteOpen := v\<rparr>) tb"
| "ui_run TogglePalette tb = set_ui ((ui (fst tb))\<lparr>paletteOpen := \<not> paletteOpen (ui (fst tb))\<rparr>) tb"
| "ui_run (SetMobileNavOpen v) tb = set_ui ((ui (fst tb))\<lparr>mobileNavOpen := v\<rparr>) tb"

text \<open>
  The reaction to a storage event: reads the current value, not the event's, applies it without
  writing it back. An unreadable or missing text leaves (or resets to the normalised defaults of
  an empty object) what the code does in each case.
\<close>

definition syncUIPreferences :: "jsstring \<Rightarrow> bool \<Rightarrow> tab \<times> browser \<Rightarrow> tab \<times> browser" where
  "syncUIPreferences key same_area tb =
     (if key \<noteq> ''boron.ui'' \<or> \<not> same_area then tb
      else (case tb of (t, b) \<Rightarrow>
        (let parsed = (if blocked b then None
                       else case ui_item b of Missing \<Rightarrow> Some (JObj []) | Unparsable \<Rightarrow> None | Saved v \<Rightarrow> Some v)
         in (case parsed of
               None \<Rightarrow> (t\<lparr>syncing := False\<rparr>, b)
             | Some v \<Rightarrow>
                 if nullish v then (t\<lparr>syncing := False\<rparr>, b)
                 else (let saved = js_or (jget v ''state'') (JObj []);
                           s = (ui t)\<lparr>theme := normalizeMode (jget saved ''theme''),
                                      skin := normalizeSkin (jget saved ''skin''),
                                      domainContexts := object_or_empty (jget saved ''domainContexts''),
                                      look := normalize_appearance (jget saved ''appearance'')\<rparr>
                       in (case apply_root (set_ui s (t\<lparr>syncing := True\<rparr>, b)) of
                             (t', b') \<Rightarrow> (t'\<lparr>syncing := False\<rparr>, b')))))))"

section \<open>Storage as an interface\<close>

locale item_storage =
  fixes read :: "browser \<Rightarrow> stored" and "write" :: "json \<Rightarrow> browser \<Rightarrow> browser"
  assumes read_write: "\<not> blocked b \<Longrightarrow> read (write v b) = Saved v"
    and read_blocked: "blocked b \<Longrightarrow> read b = Missing"
    and write_blocked: "blocked b \<Longrightarrow> write v b = b"
    and blocked_write: "blocked (write v b) = blocked b"
begin

lemma last_write_wins: "\<not> blocked b \<Longrightarrow> read (write w (write v b)) = Saved w"
  by (rule read_write) (simp add: blocked_write)

lemma read_after_writes: "read (fold write vs b) = (if blocked b then Missing else if vs = [] then read b else Saved (last vs))"
proof (induction vs rule: rev_induct)
  case Nil
  then show ?case by (simp add: read_blocked)
next
  case (snoc v vs)
  have "blocked (fold write vs b) = blocked b" by (induction vs arbitrary: b) (simp_all add: blocked_write)
  then show ?case by (simp add: read_write read_blocked blocked_write)
qed

end

interpretation ui_storage: item_storage read_ui write_ui
  by unfold_locales (auto simp: read_ui_def write_ui_def)

interpretation branding_storage: item_storage read_branding write_branding
  by unfold_locales (auto simp: read_branding_def write_branding_def)

section \<open>What the preferences guarantee\<close>

definition ui_ok :: "ui_state \<Rightarrow> bool" where
  "ui_ok s \<longleftrightarrow> theme s \<in> {''dark'', ''light''} \<and> skin s \<in> set skin_ids \<and> valid_appearance (look s)"

definition tab_ok :: "tab \<Rightarrow> bool" where
  "tab_ok t \<longleftrightarrow> ui_ok (ui t) \<and> \<not> syncing t \<and> root t = applyTheme (theme (ui t)) (skin (ui t)) (look (ui t))"

datatype tab_event = Act ui_action | StorageEvent jsstring bool | OtherTab "browser \<Rightarrow> stored"

text \<open>Another tab may store anything at any moment.\<close>

fun tab_step :: "tab_event \<Rightarrow> tab \<times> browser \<Rightarrow> tab \<times> browser" where
  "tab_step (Act a) tb = ui_run a tb"
| "tab_step (StorageEvent k same) tb = syncUIPreferences k same tb"
| "tab_step (OtherTab f) tb = (fst tb, (snd tb)\<lparr>ui_item := f (snd tb)\<rparr>)"

lemma initial_ok: "ui_ok initial_ui"
  by (simp add: ui_ok_def initial_ui_def skin_ids_def valid_normalize)

lemma merge_ok: "ui_ok (merge_saved saved s)"
  using normalizeMode_valid[of "jget saved ''theme''"]
  by (simp add: ui_ok_def merge_saved_def valid_normalize)

lemma start_ok: "tab_ok (start_tab b)"
  by (auto simp: start_tab_def Let_def tab_ok_def hydrate_def merge_ok initial_ok split: stored.split)

lemma run_ok: "tab_ok (fst tb) \<Longrightarrow> tab_ok (fst (ui_run a tb))"
  using normalizeMode_valid
  by (cases tb; cases a)
     (auto simp: tab_ok_def ui_ok_def set_ui_def apply_root_def valid_normalize Let_def)

lemma sync_ok: "tab_ok (fst tb) \<Longrightarrow> tab_ok (fst (syncUIPreferences k same tb))"
  using normalizeMode_valid
  by (cases tb)
     (auto simp: tab_ok_def ui_ok_def syncUIPreferences_def set_ui_def apply_root_def valid_normalize Let_def
       split: option.split stored.split)

text \<open>C37. Whatever the browser had stored, and after any sequence of actions, storage events and
  writes of other tabs, the preferences are valid (a known skin and mode, a valid appearance) and
  the document shows them.\<close>

theorem preferences_always_valid:
  "tab_ok (fst (fold tab_step events (start_tab b, b')))"
proof -
  have step: "tab_ok (fst tb) \<Longrightarrow> tab_ok (fst (tab_step e tb))" for e tb
    by (cases e) (auto simp: run_ok sync_ok)
  have "tab_ok (fst tb) \<Longrightarrow> tab_ok (fst (fold tab_step events tb))" for tb
    by (induction events arbitrary: tb) (auto simp: step)
  then show ?thesis by (simp add: start_ok)
qed

lemma merge_persisted:
  "ui_ok s \<Longrightarrow> merge_saved (persisted_state s) initial_ui =
     s\<lparr>accountSwitcher := JNull, paletteOpen := False, mobileNavOpen := False\<rparr>"
  using mode_preference.norm_valid[of "theme s"] skin_preference.norm_valid[of "skin s"] normalize_valid[of "look s"]
  by (auto simp: ui_ok_def merge_saved_def persisted_state_def object_or_empty_def initial_ui_def
      intro!: ui_state.equality)

text \<open>Two tabs agree: when one tab changed a preference and another receives the storage event,
  it shows the same theme, skin, appearance and domain contexts; receiving the event writes
  nothing, so no event echoes; and a later start of the panel restores what the first tab had.\<close>

theorem tabs_converge:
  assumes "ui_ok (ui (fst (set_ui s (t1, b))))" "\<not> syncing t1" "\<not> blocked b"
    and "sync = syncUIPreferences ''boron.ui'' True (t2, snd (set_ui s (t1, b)))"
  shows "theme (ui (fst sync)) = theme s \<and> skin (ui (fst sync)) = skin s \<and> look (ui (fst sync)) = look s \<and>
         domainContexts (ui (fst sync)) = domainContexts s \<and>
         snd sync = snd (set_ui s (t1, b)) \<and>
         ui (start_tab (snd sync)) = s\<lparr>accountSwitcher := JNull, paletteOpen := False, mobileNavOpen := False\<rparr>"
proof -
  have ok: "ui_ok s" using assms(1) by (simp add: set_ui_def)
  have b: "snd (set_ui s (t1, b)) = write_ui (envelope s) b" using assms(2) by (simp add: set_ui_def)
  have item: "ui_item (write_ui (envelope s) b) = Saved (envelope s)" "\<not> blocked (write_ui (envelope s) b)"
    using assms(3) by (simp_all add: write_ui_def)
  have st: "jget (envelope s) ''state'' = persisted_state s" "truthy (persisted_state s)" "\<not> nullish (envelope s)"
    by (simp_all add: envelope_def persisted_state_def nullish_def)
  have m: "normalizeMode (JStr (theme s)) = theme s" "normalizeSkin (JStr (skin s)) = skin s"
    "normalize_appearance (json_of_appearance (look s)) = look s"
    using ok mode_preference.norm_valid[of "theme s"] skin_preference.norm_valid[of "skin s"]
    by (auto simp: ui_ok_def normalize_valid)
  have p: "jget (persisted_state s) ''theme'' = JStr (theme s)" "jget (persisted_state s) ''skin'' = JStr (skin s)"
    "jget (persisted_state s) ''appearance'' = json_of_appearance (look s)"
    "jget (persisted_state s) ''domainContexts'' = JObj (domainContexts s)"
    by (simp_all add: persisted_state_def)
  have "theme (ui (fst sync)) = theme s \<and> skin (ui (fst sync)) = skin s \<and> look (ui (fst sync)) = look s \<and>
      domainContexts (ui (fst sync)) = domainContexts s \<and> snd sync = snd (set_ui s (t1, b))"
    unfolding assms(4) b
    using item st m p
    by (simp add: syncUIPreferences_def Let_def js_or_def set_ui_def apply_root_def object_or_empty_def)
  moreover have "hydrate (read_ui (write_ui (envelope s) b)) = merge_saved (persisted_state s) initial_ui"
    using ui_storage.read_write[OF assms(3)] st by (simp add: hydrate_def)
  ultimately show ?thesis
    using merge_persisted[OF ok] b by (simp add: start_tab_def Let_def)
qed

theorem tabs_converge_witness:
  "theme (ui (fst (syncUIPreferences ''boron.ui'' True (start_tab \<lparr>blocked = False, ui_item = Unparsable, branding_item = Missing\<rparr>,
     snd (set_ui (initial_ui\<lparr>theme := ''dark''\<rparr>) (start_tab \<lparr>blocked = False, ui_item = Missing, branding_item = Missing\<rparr>,
        \<lparr>blocked = False, ui_item = Missing, branding_item = Missing\<rparr>)))))) = ''dark''"
proof -
  let ?b = "\<lparr>blocked = False, ui_item = Missing, branding_item = Missing\<rparr>"
  let ?s = "initial_ui\<lparr>theme := ''dark''\<rparr>"
  have ok: "ui_ok (ui (fst (set_ui ?s (start_tab ?b, ?b))))"
    using initial_ok by (simp add: set_ui_def ui_ok_def)
  have ns: "\<not> syncing (start_tab ?b)" using start_ok by (simp add: tab_ok_def)
  have "theme ?s = ''dark''" by simp
  with tabs_converge[OF ok ns _ refl, of "start_tab \<lparr>blocked = False, ui_item = Unparsable, branding_item = Missing\<rparr>"]
  show ?thesis by simp
qed

lemma sidebar_not_synchronised:
  "sidebarCollapsed (ui (fst (syncUIPreferences k same (t, b)))) = sidebarCollapsed (ui t)"
  by (auto simp: syncUIPreferences_def Let_def set_ui_def apply_root_def split: option.split stored.split)

section \<open>The domain an account works on\<close>

definition domain_name_of :: "json \<Rightarrow> json" where
  "domain_name_of item = (case item of JStr _ \<Rightarrow> item | _ \<Rightarrow> jget item ''domain'')"

definition domain_names :: "json list \<Rightarrow> json list" where
  "domain_names domains = filter truthy (map domain_name_of domains)"

definition selected_domain :: "json list \<Rightarrow> json \<Rightarrow> json" where
  "selected_domain names stored =
     (if stored \<in> set names then stored else (case names of [] \<Rightarrow> JStr [] | n # _ \<Rightarrow> n))"

text \<open>The effect after a render stores a selection that differs from the stored one.\<close>

definition domain_effect :: "jsstring \<Rightarrow> json list \<Rightarrow> json \<Rightarrow> (jsstring \<times> json) list" where
  "domain_effect username domains stored =
     (let sel = selected_domain (domain_names domains) stored
      in if username \<noteq> [] \<and> truthy sel \<and> sel \<noteq> stored then [(username, sel)] else [])"

definition choose_domain :: "jsstring \<Rightarrow> json list \<Rightarrow> json \<Rightarrow> (jsstring \<times> json) list" where
  "choose_domain username domains domain =
     (if username \<noteq> [] \<and> truthy domain \<and> domain \<in> set (domain_names domains) then [(username, domain)] else [])"

lemma domain_selection_settles:
  "domain_effect u ds stored = [(u, sel)] \<Longrightarrow>
     sel \<in> set (domain_names ds) \<and> selected_domain (domain_names ds) sel = sel \<and> domain_effect u ds sel = []"
  by (auto simp: domain_effect_def selected_domain_def Let_def split: if_splits list.splits)

section \<open>Branding\<close>

definition validAssetUrl :: "json \<Rightarrow> bool" where
  "validAssetUrl v \<longleftrightarrow> nullish v \<or> v = JStr ''/api/v1/branding/logo'' \<or> v = JStr ''/api/v1/branding/favicon''"

definition string_or_null :: "json \<Rightarrow> json" where
  "string_or_null v = (case v of JStr _ \<Rightarrow> v | _ \<Rightarrow> JNull)"

definition normalizeBranding :: "json \<Rightarrow> json option" where
  "normalizeBranding value =
     (if \<not> truthy value \<or> (case value of JObj _ \<Rightarrow> False | JArr _ \<Rightarrow> False | _ \<Rightarrow> True) then None
      else (case jget value ''panel_name'' of
              JStr name \<Rightarrow>
                if trim name = [] \<or> length name > 120 then None
                else if \<not> validAssetUrl (jget value ''logo_url'') \<or> \<not> validAssetUrl (jget value ''favicon_url'') then None
                else Some (JObj [(''panel_name'', JStr name),
                                 (''logo_url'', js_or (jget value ''logo_url'') JNull),
                                 (''favicon_url'', js_or (jget value ''favicon_url'') JNull),
                                 (''support_email'', string_or_null (jget value ''support_email'')),
                                 (''support_url'', string_or_null (jget value ''support_url''))])
            | _ \<Rightarrow> None))"

definition cachedBranding :: "browser \<Rightarrow> json option" where
  "cachedBranding b = (case read_branding b of Saved v \<Rightarrow> normalizeBranding v | _ \<Rightarrow> None)"

definition fetchBranding :: "json \<Rightarrow> browser \<Rightarrow> browser \<times> json option" where
  "fetchBranding answer b =
     (case normalizeBranding answer of
        None \<Rightarrow> (b, None)
      | Some data \<Rightarrow> (write_branding data b, Some data))"

record branding_view =
  brandingReady :: bool
  panelName :: jsstring
  logoUrl :: json
  faviconUrl :: json
  supportEmail :: json
  supportUrl :: json

text \<open>The query's value: not yet there, null (refused by the normaliser), or a record.\<close>

datatype query_value = NoData | NullData | Data json

definition useBranding :: "query_value \<Rightarrow> bool \<Rightarrow> branding_view" where
  "useBranding data isError =
     (let ready = (data \<noteq> NoData \<or> isError);
          v = (case data of Data j \<Rightarrow> j | _ \<Rightarrow> JUndef)
      in \<lparr>brandingReady = ready,
          panelName = (if ready then js_String (js_or (jget v ''panel_name'') (JStr ''Boron'')) else []),
          logoUrl = (if ready then js_or (jget v ''logo_url'') JNull else JUndef),
          faviconUrl = (if ready then js_or (jget v ''favicon_url'') JNull else JUndef),
          supportEmail = js_or (jget v ''support_email'') JNull,
          supportUrl = js_or (jget v ''support_url'') JNull\<rparr>)"

lemma normalizeBranding_Some:
  "normalizeBranding v = Some d \<Longrightarrow>
     \<exists>name logo fav mail url. d = JObj [(''panel_name'', JStr name), (''logo_url'', logo), (''favicon_url'', fav),
         (''support_email'', mail), (''support_url'', url)] \<and>
       trim name \<noteq> [] \<and> length name \<le> 120 \<and>
       logo \<in> {JNull, JStr ''/api/v1/branding/logo'', JStr ''/api/v1/branding/favicon''} \<and>
       fav \<in> {JNull, JStr ''/api/v1/branding/logo'', JStr ''/api/v1/branding/favicon''} \<and>
       string_or_null mail = mail \<and> string_or_null url = url"
proof -
  assume N: "normalizeBranding v = Some d"
  then obtain name where n: "jget v ''panel_name'' = JStr name" "trim name \<noteq> []" "length name \<le> 120"
      and u: "validAssetUrl (jget v ''logo_url'')" "validAssetUrl (jget v ''favicon_url'')"
      and d: "d = JObj [(''panel_name'', JStr name), (''logo_url'', js_or (jget v ''logo_url'') JNull),
        (''favicon_url'', js_or (jget v ''favicon_url'') JNull), (''support_email'', string_or_null (jget v ''support_email'')),
        (''support_url'', string_or_null (jget v ''support_url''))]"
    by (cases "jget v ''panel_name''") (simp_all add: normalizeBranding_def not_less split: if_splits)
  have asset: "validAssetUrl x \<Longrightarrow> js_or x JNull \<in> {JNull, JStr ''/api/v1/branding/logo'', JStr ''/api/v1/branding/favicon''}" for x
    unfolding validAssetUrl_def nullish_def js_or_def by auto
  have "string_or_null (string_or_null x) = string_or_null x" for x
    by (cases x) (simp_all add: string_or_null_def)
  with n d asset[OF u(1)] asset[OF u(2)] show ?thesis by blast
qed

text \<open>Branding from the server or from the browser's cache is used only when it is safe: a name
  of at most 120 characters that is not blank, and images from the two fixed addresses only. What
  was accepted is accepted unchanged again, so the cache of a usable browser gives it back.\<close>

theorem branding_safe_and_stable:
  assumes "normalizeBranding v = Some d"
  shows "normalizeBranding d = Some d \<and>
         jget d ''logo_url'' \<in> {JNull, JStr ''/api/v1/branding/logo'', JStr ''/api/v1/branding/favicon''} \<and>
         jget d ''favicon_url'' \<in> {JNull, JStr ''/api/v1/branding/logo'', JStr ''/api/v1/branding/favicon''} \<and>
         (\<exists>name. jget d ''panel_name'' = JStr name \<and> trim name \<noteq> [] \<and> length name \<le> 120) \<and>
         cachedBranding (fst (fetchBranding v b)) = (if blocked b then None else Some d)"
proof -
  obtain name logo fav mail url where d:
    "d = JObj [(''panel_name'', JStr name), (''logo_url'', logo), (''favicon_url'', fav),
         (''support_email'', mail), (''support_url'', url)]"
    and n: "trim name \<noteq> []" "length name \<le> 120"
    and l: "logo \<in> {JNull, JStr ''/api/v1/branding/logo'', JStr ''/api/v1/branding/favicon''}"
    and f: "fav \<in> {JNull, JStr ''/api/v1/branding/logo'', JStr ''/api/v1/branding/favicon''}"
    and m: "string_or_null mail = mail" "string_or_null url = url"
    using normalizeBranding_Some[OF assms] by blast
  have "js_or logo JNull = logo" "js_or fav JNull = fav" "validAssetUrl logo" "validAssetUrl fav"
    using l f by (auto simp: js_or_def validAssetUrl_def nullish_def)
  then have again: "normalizeBranding d = Some d"
    using d n m by (simp add: normalizeBranding_def)
  have "cachedBranding (fst (fetchBranding v b)) = (if blocked b then None else Some d)"
    using branding_storage.read_write[of b d] branding_storage.read_blocked[of b]
      branding_storage.write_blocked[of b d] again assms
    by (simp add: cachedBranding_def fetchBranding_def)
  with again d n l f show ?thesis by auto
qed

theorem branding_safe_and_stable_witness:
  "cachedBranding (fst (fetchBranding (JObj [(''panel_name'', JStr ''Acme'')])
      \<lparr>blocked = False, ui_item = Missing, branding_item = Unparsable\<rparr>)) =
   Some (JObj [(''panel_name'', JStr ''Acme''), (''logo_url'', JNull), (''favicon_url'', JNull),
               (''support_email'', JNull), (''support_url'', JNull)])"
proof -
  have "normalizeBranding (JObj [(''panel_name'', JStr ''Acme'')]) =
     Some (JObj [(''panel_name'', JStr ''Acme''), (''logo_url'', JNull), (''favicon_url'', JNull),
               (''support_email'', JNull), (''support_url'', JNull)])"
    by code_simp
  from branding_safe_and_stable[OF this, of "\<lparr>blocked = False, ui_item = Missing, branding_item = Unparsable\<rparr>"]
  show ?thesis by simp
qed

section \<open>Small hooks\<close>

definition useAccountUsername :: "jsstring option \<Rightarrow> jsstring option \<Rightarrow> jsstring option" where
  "useAccountUsername route_param auth_username =
     (case route_param of Some u \<Rightarrow> if u = [] then auth_username else Some u | None \<Rightarrow> auth_username)"

definition isUpdateJobActive :: "json \<Rightarrow> bool" where
  "isUpdateJobActive s \<longleftrightarrow>
     jget (jget s ''active_job'') ''status'' \<in> {JStr ''pending'', JStr ''running'', JStr ''finalizing''}"

definition update_poll_interval :: "json \<Rightarrow> nat" where
  "update_poll_interval s = (if isUpdateJobActive s then 2500 else 5 * 60000)"

definition useVersion :: "jsstring \<Rightarrow> json \<Rightarrow> jsstring" where
  "useVersion app_version data =
     (if truthy (jget data ''version'') then ''v'' @ js_String (jget data ''version'') else app_version)"

end
