(* ===== verification/Ui_Kit.thy ===== *)
theory Ui_Kit
  imports Api_Client
begin

text \<open>
  The widgets every page is built from: the toast store (\<open>components/ui/Toast.jsx\<close>), the confirmation
  dialog (\<open>components/ui/Dialog.jsx\<close>), the registry of unsaved sections
  (\<open>components/ui/DraftChanges.jsx\<close>), the status badge (\<open>components/ui/StatusBadge.jsx\<close>), and the
  life of a mutation as the pages see it.
\<close>

section \<open>Toasts\<close>

datatype tone = Success | ErrorTone | WarningTone | InfoTone

record toast_entry =
  toast_id :: nat
  variant :: tone
  toast_title :: jsstring
  toast_description :: jsstring
  duration :: nat

record toast_store =
  idSeq :: nat
  toasts :: "toast_entry list"

definition empty_toasts :: toast_store where
  "empty_toasts = \<lparr>idSeq = 0, toasts = []\<rparr>"

definition push_toast :: "tone \<Rightarrow> jsstring \<Rightarrow> jsstring \<Rightarrow> toast_store \<Rightarrow> toast_store \<times> nat" where
  "push_toast v title description s =
     (let i = Suc (idSeq s)
      in (\<lparr>idSeq = i,
           toasts = toasts s @ [\<lparr>toast_id = i, variant = v, toast_title = title, toast_description = description,
                                 duration = 4500\<rparr>]\<rparr>, i))"

definition dismiss_toast :: "nat \<Rightarrow> toast_store \<Rightarrow> toast_store" where
  "dismiss_toast i s = s\<lparr>toasts := filter (\<lambda>t. toast_id t \<noteq> i) (toasts s)\<rparr>"

text \<open>\<open>toast.error\<close> takes a text or an error object.\<close>

definition error_title :: "json \<Rightarrow> jsstring" where
  "error_title v =
     (case v of JStr s \<Rightarrow> s
      | _ \<Rightarrow> js_String (js_or (jget v ''message'') (JStr ''Something went wrong'')))"

datatype toast_action = Push tone jsstring jsstring | Dismiss nat

fun toast_run :: "toast_action \<Rightarrow> toast_store \<Rightarrow> toast_store" where
  "toast_run (Push v t d) s = fst (push_toast v t d s)"
| "toast_run (Dismiss i) s = dismiss_toast i s"

definition toasts_ok :: "toast_store \<Rightarrow> bool" where
  "toasts_ok s \<longleftrightarrow> distinct (map toast_id (toasts s)) \<and> list_all (\<lambda>t. 0 < toast_id t \<and> toast_id t \<le> idSeq s) (toasts s)"

lemma toasts_ok_run: "toasts_ok s \<Longrightarrow> toasts_ok (toast_run a s)"
proof (cases a)
  case (Dismiss i)
  assume "toasts_ok s"
  then show ?thesis
    using Dismiss distinct_map_filter_fst[of toast_id "toasts s" "\<lambda>t. toast_id t \<noteq> i"]
    by (auto simp: toasts_ok_def dismiss_toast_def list_all_iff)
qed (auto simp: toasts_ok_def push_toast_def Let_def list_all_iff)

text \<open>Toasts never share an identifier, so dismissing one removes exactly that one.\<close>

lemma toast_ids_unique: "toasts_ok (fold toast_run actions empty_toasts)"
proof -
  have "toasts_ok s \<Longrightarrow> toasts_ok (fold toast_run actions s)" for s
    by (induction actions arbitrary: s) (auto simp: toasts_ok_run)
  then show ?thesis by (simp add: toasts_ok_def empty_toasts_def)
qed

text \<open>The reference a toast offers to copy: 16 hexadecimal digits after the marker.\<close>

definition is_lower_hex :: "char \<Rightarrow> bool" where
  "is_lower_hex c \<longleftrightarrow> is_digit c \<or> (97 \<le> code c \<and> code c \<le> 102)"

fun match_reference :: "jsstring \<Rightarrow> jsstring option" where
  "match_reference [] = None"
| "match_reference (c # cs) =
     (let marker = ''reference: ''; rest = drop (length marker) (c # cs); digits = take 16 rest
      in if startsWith (c # cs) marker \<and> length digits = 16 \<and> list_all is_lower_hex digits then Some digits
         else match_reference cs)"

definition toast_reference :: "toast_entry \<Rightarrow> jsstring option" where
  "toast_reference t = match_reference (toast_title t @ '' '' @ toast_description t)"

definition toast_details_link :: "bool \<Rightarrow> toast_entry \<Rightarrow> jsstring option" where
  "toast_details_link admin t =
     (case toast_reference t of
        Some r \<Rightarrow> if admin then Some (''/app/error-log?reference='' @ r) else None | None \<Rightarrow> None)"

lemma match_reference_hex:
  "match_reference s = Some r \<Longrightarrow> length r = 16 \<and> list_all is_lower_hex r"
  by (induction s) (auto simp: Let_def split: if_splits)

section \<open>Mutations\<close>

text \<open>A mutation of a page: idle, waiting for the answer, settled. \<open>reset\<close> forgets the error.\<close>

record mutation =
  isPending :: bool
  mut_error :: "jsstring option"

definition idle :: mutation where
  "idle = \<lparr>isPending = False, mut_error = None\<rparr>"

definition mutate :: "mutation \<Rightarrow> mutation" where
  "mutate m = \<lparr>isPending = True, mut_error = None\<rparr>"

definition settle_ok :: "mutation \<Rightarrow> mutation" where
  "settle_ok m = \<lparr>isPending = False, mut_error = None\<rparr>"

definition settle_error :: "jsstring \<Rightarrow> mutation \<Rightarrow> mutation" where
  "settle_error e m = \<lparr>isPending = False, mut_error = Some e\<rparr>"

text \<open>What a page does to the world besides its own state.\<close>

datatype page_effect =
    Send http_request
  | Toast tone jsstring jsstring
  | Invalidate "jsstring list"
  | GoTo jsstring

section \<open>The confirmation dialog\<close>

record confirm_props =
  dialog_open :: bool
  dialog_loading :: bool
  confirmationText :: jsstring
  acknowledgementLabel :: jsstring

record confirm_state =
  typed :: jsstring
  acknowledged :: bool

definition fresh_confirm :: confirm_state where
  "fresh_confirm = \<lparr>typed = [], acknowledged = False\<rparr>"

definition confirmed :: "confirm_props \<Rightarrow> confirm_state \<Rightarrow> bool" where
  "confirmed p s \<longleftrightarrow> (confirmationText p = [] \<or> typed s = confirmationText p) \<and>
                     (acknowledgementLabel p = [] \<or> acknowledged s)"

datatype confirm_event =
    Rendered confirm_props \<comment> \<open>the parent passes new properties; the effect on \<open>open\<close> runs\<close>
  | TypeConfirmation jsstring
  | Acknowledge bool
  | CancelButton
  | CloseRequest \<comment> \<open>Escape, a click outside, the close button\<close>
  | ConfirmButton

datatype confirm_output = OnOpenChange bool | OnConfirm

text \<open>State: the properties of the last render and the dialog's own fields.\<close>

fun confirm_enabled :: "confirm_event \<Rightarrow> confirm_props \<times> confirm_state \<Rightarrow> bool" where
  "confirm_enabled (Rendered p') ps = True"
| "confirm_enabled (TypeConfirmation v) (p, s) = (dialog_open p \<and> confirmationText p \<noteq> [])"
| "confirm_enabled (Acknowledge b) (p, s) = (dialog_open p \<and> acknowledgementLabel p \<noteq> [] \<and> \<not> dialog_loading p)"
| "confirm_enabled CancelButton (p, s) = (dialog_open p \<and> \<not> dialog_loading p)"
| "confirm_enabled CloseRequest (p, s) = dialog_open p"
| "confirm_enabled ConfirmButton (p, s) = (dialog_open p \<and> confirmed p s \<and> \<not> dialog_loading p)"

fun confirm_step :: "confirm_event \<Rightarrow> confirm_props \<times> confirm_state
     \<Rightarrow> (confirm_props \<times> confirm_state) \<times> confirm_output list" where
  "confirm_step (Rendered p') (p, s) = ((p', if dialog_open p' then s else fresh_confirm), [])"
| "confirm_step (TypeConfirmation v) (p, s) = ((p, s\<lparr>typed := v\<rparr>), [])"
| "confirm_step (Acknowledge b) (p, s) = ((p, s\<lparr>acknowledged := b\<rparr>), [])"
| "confirm_step CancelButton (p, s) = ((p, s), [OnOpenChange False])"
| "confirm_step CloseRequest (p, s) = ((p, s), if dialog_loading p then [] else [OnOpenChange False])"
| "confirm_step ConfirmButton (p, s) = ((p, s), [OnConfirm])"

inductive confirm_run :: "confirm_event list \<Rightarrow> confirm_props \<times> confirm_state \<Rightarrow> bool" where
  mounted: "\<not> dialog_open p \<Longrightarrow> confirm_run [] (p, fresh_confirm)"
| event: "confirm_run es ps \<Longrightarrow> confirm_enabled e ps \<Longrightarrow> confirm_run (es @ [e]) (fst (confirm_step e ps))"

text \<open>The events since the dialog was last rendered closed.\<close>

definition since_closed :: "confirm_event list \<Rightarrow> confirm_event list" where
  "since_closed es = rev (takeWhile (\<lambda>e. case e of Rendered p \<Rightarrow> dialog_open p | _ \<Rightarrow> True) (rev es))"

lemma since_closed_snoc:
  "since_closed (es @ [e]) =
     (case e of Rendered p \<Rightarrow> if dialog_open p then since_closed es @ [e] else [] | _ \<Rightarrow> since_closed es @ [e])"
  by (auto simp: since_closed_def split: confirm_event.split)

lemma confirm_run_typed:
  "confirm_run es ps \<Longrightarrow>
     (typed (snd ps) \<noteq> [] \<longrightarrow> TypeConfirmation (typed (snd ps)) \<in> set (since_closed es)) \<and>
     (acknowledged (snd ps) \<longrightarrow> Acknowledge True \<in> set (since_closed es))"
proof (induction rule: confirm_run.induct)
  case (mounted p)
  then show ?case by (simp add: fresh_confirm_def)
next
  case (event es ps e)
  obtain p s where ps: "ps = (p, s)" by (cases ps)
  from event.IH show ?case
    by (cases e) (auto simp: ps since_closed_snoc fresh_confirm_def)
qed

text \<open>The dialog confirms only what was confirmed in it: when the button reports a confirmation,
  the required text was typed exactly, and the box ticked, after the dialog was last closed; and
  nothing is being carried out.\<close>

theorem confirmation_is_deliberate:
  assumes "confirm_run es (p, s)" "confirm_enabled ConfirmButton (p, s)"
  shows "\<not> dialog_loading p \<and>
         (confirmationText p = [] \<or> TypeConfirmation (confirmationText p) \<in> set (since_closed es)) \<and>
         (acknowledgementLabel p = [] \<or> Acknowledge True \<in> set (since_closed es))"
  using confirm_run_typed[OF assms(1)] assms(2) by (auto simp: confirmed_def)

definition delete_props :: confirm_props where
  "delete_props = \<lparr>dialog_open = True, dialog_loading = False, confirmationText = ''example'', acknowledgementLabel = []\<rparr>"

theorem confirmation_is_deliberate_witness:
  "TypeConfirmation ''example'' \<in> set (since_closed [Rendered delete_props, TypeConfirmation ''example''])"
proof -
  have 1: "confirm_run [] (delete_props\<lparr>dialog_open := False\<rparr>, fresh_confirm)" by (rule confirm_run.mounted) simp
  have 2: "confirm_run ([] @ [Rendered delete_props]) (fst (confirm_step (Rendered delete_props) (delete_props\<lparr>dialog_open := False\<rparr>, fresh_confirm)))"
    by (rule confirm_run.event[OF 1]) simp
  have e: "fst (confirm_step (Rendered delete_props) (delete_props\<lparr>dialog_open := False\<rparr>, fresh_confirm)) = (delete_props, fresh_confirm)"
    by (simp add: delete_props_def)
  have 3: "confirm_run (([] @ [Rendered delete_props]) @ [TypeConfirmation ''example''])
      (fst (confirm_step (TypeConfirmation ''example'') (delete_props, fresh_confirm)))"
    by (rule confirm_run.event[OF 2[unfolded e]]) (simp add: delete_props_def)
  have "confirm_enabled ConfirmButton (delete_props, fresh_confirm\<lparr>typed := ''example''\<rparr>)"
    by (simp add: delete_props_def confirmed_def)
  with confirmation_is_deliberate[of "[Rendered delete_props, TypeConfirmation ''example'']" delete_props
      "fresh_confirm\<lparr>typed := ''example''\<rparr>"] 3
  show ?thesis by (simp add: delete_props_def)
qed

lemma loading_dialog_stays: "dialog_loading p \<Longrightarrow> snd (confirm_step CloseRequest (p, s)) = []"
  by simp

section \<open>Unsaved sections\<close>

record draft =
  dirty :: bool
  busy :: bool
  can_save :: bool
  draft_label :: jsstring
  draft_disabled :: bool
  saveLabel :: jsstring

type_synonym drafts = "(jsstring \<times> draft) list"

definition register_draft :: "jsstring \<Rightarrow> draft \<Rightarrow> drafts \<Rightarrow> drafts" where
  "register_draft k d ds = (if k \<in> fst ` set ds then map (\<lambda>(k', d'). (k', if k' = k then d else d')) ds else ds @ [(k, d)])"

definition unregister_draft :: "jsstring \<Rightarrow> drafts \<Rightarrow> drafts" where
  "unregister_draft k ds = filter (\<lambda>e. fst e \<noteq> k) ds"

definition active_drafts :: "drafts \<Rightarrow> drafts" where
  "active_drafts ds = filter (\<lambda>e. dirty (snd e)) ds"

definition savable_drafts :: "drafts \<Rightarrow> drafts" where
  "savable_drafts ds = filter (\<lambda>e. can_save (snd e)) (active_drafts ds)"

definition chosen_draft :: "jsstring \<Rightarrow> drafts \<Rightarrow> (jsstring \<times> draft) option" where
  "chosen_draft selected ds =
     (case List.find (\<lambda>e. fst e = selected) (savable_drafts ds) of
        Some e \<Rightarrow> Some e
      | None \<Rightarrow> (case savable_drafts ds of [] \<Rightarrow> None | e # _ \<Rightarrow> Some e))"

definition shouldBlock :: "drafts \<Rightarrow> bool" where
  "shouldBlock ds = list_ex (\<lambda>e. dirty (snd e)) ds"

definition draft_busy :: "bool \<Rightarrow> drafts \<Rightarrow> bool" where
  "draft_busy saving ds \<longleftrightarrow> saving \<or> list_ex (\<lambda>e. busy (snd e)) (active_drafts ds)"

record save_bar =
  bar_sections :: nat
  bar_choices :: "(jsstring \<times> jsstring) list"
  bar_choice_disabled :: bool
  discard_disabled :: bool
  save_button :: "(jsstring \<times> bool) option"

definition save_bar_of :: "bool \<Rightarrow> jsstring \<Rightarrow> drafts \<Rightarrow> save_bar option" where
  "save_bar_of saving selected ds =
     (if active_drafts ds = [] then None
      else Some \<lparr>bar_sections = length (active_drafts ds),
                 bar_choices = (if length (savable_drafts ds) > 1
                                then map (\<lambda>e. (fst e, draft_label (snd e))) (savable_drafts ds) else []),
                 bar_choice_disabled = draft_busy saving ds,
                 discard_disabled = draft_busy saving ds,
                 save_button = (case chosen_draft selected ds of
                                  None \<Rightarrow> None
                                | Some e \<Rightarrow> Some (if saveLabel (snd e) = [] then ''Save'' else saveLabel (snd e),
                                                draft_disabled (snd e))) \<rparr>)"

text \<open>The keys whose \<open>onDiscard\<close> is called when the user leaves anyway.\<close>

definition discarded :: "drafts \<Rightarrow> jsstring list" where
  "discarded ds = map fst (active_drafts ds)"

text \<open>Leaving the page is stopped exactly when the bar is shown, and leaving anyway discards every
  unsaved section; the section that Save saves is always an unsaved one that can be saved.\<close>

lemma drafts_never_lost_silently:
  "(shouldBlock ds \<longleftrightarrow> save_bar_of saving selected ds \<noteq> None) \<and>
   (\<forall>k d. (k, d) \<in> set ds \<and> dirty d \<longrightarrow> k \<in> set (discarded ds)) \<and>
   (\<forall>e. chosen_draft selected ds = Some e \<longrightarrow> e \<in> set ds \<and> dirty (snd e) \<and> can_save (snd e))"
proof -
  have "chosen_draft selected ds = Some e \<Longrightarrow> e \<in> set (savable_drafts ds)" for e
    by (auto simp: chosen_draft_def split: option.splits list.splits dest: find_Some_iff_mem)
  then show ?thesis
    by (auto simp: shouldBlock_def save_bar_of_def active_drafts_def savable_drafts_def discarded_def
        list_ex_iff filter_empty_conv image_iff)
qed

section \<open>Status badges\<close>

datatype badge = BadgeSuccess | BadgeWarning | BadgeInfo | BadgeNeutral | BadgeDanger

definition STATUS_MAP :: "(jsstring \<times> badge) list" where
  "STATUS_MAP =
     [(''active'', BadgeSuccess), (''running'', BadgeSuccess), (''installed'', BadgeSuccess), (''issued'', BadgeSuccess),
      (''valid'', BadgeSuccess), (''ok'', BadgeSuccess), (''completed'', BadgeSuccess), (''delivered'', BadgeSuccess),
      (''enabled'', BadgeSuccess), (''suspended'', BadgeWarning), (''pending'', BadgeWarning),
      (''provisioning'', BadgeWarning), (''terminating'', BadgeWarning), (''activating'', BadgeInfo),
      (''deactivating'', BadgeInfo), (''queued'', BadgeWarning), (''deferred'', BadgeWarning), (''expiring'', BadgeWarning),
      (''warning'', BadgeWarning), (''healthy'', BadgeSuccess), (''running_job'', BadgeInfo), (''terminated'', BadgeNeutral),
      (''stopped'', BadgeNeutral), (''inactive'', BadgeNeutral), (''disabled'', BadgeNeutral), (''none'', BadgeNeutral),
      (''error'', BadgeDanger), (''failed'', BadgeDanger), (''expired'', BadgeDanger), (''banned'', BadgeDanger)]"

definition replace_char :: "char \<Rightarrow> char \<Rightarrow> jsstring \<Rightarrow> jsstring" where
  "replace_char a b = map (\<lambda>c. if c = a then b else c)"

definition statusBadge :: "json \<Rightarrow> jsstring option \<Rightarrow> badge \<times> jsstring" where
  "statusBadge st lbl =
     (let key = toLowerCase (if nullish st then [] else js_String st)
      in (case map_of STATUS_MAP key of Some b \<Rightarrow> b | None \<Rightarrow> BadgeNeutral,
          case lbl of
            Some l \<Rightarrow> l
          | None \<Rightarrow> replace_char (CHR ''_'') (CHR '' '') (if nullish st then [em_dash] else js_String st)))"

lemma failure_is_never_green:
  "s \<in> {''error'', ''failed'', ''expired'', ''banned''} \<Longrightarrow> fst (statusBadge (JStr s) l) = BadgeDanger"
  by (elim insertE emptyE; simp only:; code_simp)

end
