(* ===== verification/Updates_Page.thy ===== *)
theory Updates_Page
  imports Ui_Kit Preferences Format
begin

text \<open>
  \<open>pages/admin/Updates.jsx\<close>: watching and starting panel updates, rollbacks and database restores.

  The server's answers are JSON values. The page is a state machine: its fields, the data of its
  queries and its mutations form the state; the user's actions and the arriving answers are the
  events, each offered or not as the markup's \<open>disabled\<close> and conditional rendering say. Date
  formatting is left out; the table of history is the component of the theory \<open>Data_Table\<close>.
\<close>

section \<open>Steps of a job\<close>

definition UPDATE_STEPS :: "jsstring list" where
  "UPDATE_STEPS = [''preflight'', ''backup'', ''download'', ''checksum'', ''extract'', ''venv'', ''migrate'', ''finalize'']"

definition STEP_LABELS :: "(jsstring \<times> jsstring) list" where
  "STEP_LABELS =
     [(''preflight'', ''Pre-flight checks (test suite, disk space)''),
      (''backup'', ''Backup panel DB + /etc/boron''),
      (''download'', ''Download release from GitHub''),
      (''checksum'', ''Verify SHA256 checksum''),
      (''extract'', ''Validate + stage new version''),
      (''venv'', ''Build Python environment''),
      (''migrate'', ''Run database migrations''),
      (''mail-guard'', ''Prepare mailbox recovery''),
      (''db-grants'', ''Reconcile database permissions''),
      (''litespeed-repo'', ''Verify LiteSpeed repository configuration''),
      (''ols-webadmin'', ''Configure OpenLiteSpeed administration''),
      (''ftps-tls'', ''Configure FTP certificates''),
      (''signature'', ''Verify publisher signature''),
      (''release-metadata'', ''Validate release metadata''),
      (''finalize'', ''Swap, restart panel services, health check'')]"

definition step_label :: "jsstring \<Rightarrow> jsstring option" where
  "step_label name = map_of STEP_LABELS name"

definition array_of :: "json \<Rightarrow> json list" where
  "array_of v = (case v of JArr xs \<Rightarrow> xs | _ \<Rightarrow> [])"

definition job_steps :: "json \<Rightarrow> json list" where
  "job_steps job = array_of (jget job ''steps'')"

definition stepsFor :: "json \<Rightarrow> jsstring list" where
  "stepsFor job =
     (if jget job ''kind'' = JStr ''rollback'' then [''preflight'', ''finalize'']
      else if list_ex (\<lambda>s. jget s ''step'' = JStr ''mail-guard'') (job_steps job)
      then butlast UPDATE_STEPS @ [''mail-guard'', ''finalize'']
      else UPDATE_STEPS)"

text \<open>The last report of a step wins, as in an object filled in order.\<close>

definition latest_step :: "json \<Rightarrow> jsstring \<Rightarrow> json" where
  "latest_step job name =
     (case List.find (\<lambda>s. js_String (jget s ''step'') = name) (rev (job_steps job)) of Some s \<Rightarrow> s | None \<Rightarrow> JUndef)"

datatype step_icon = IconOk | IconFailed | IconRunning | IconWaiting | NoIcon

record step_row =
  row_icon :: step_icon
  row_label :: jsstring
  row_detail :: "json option"

definition step_row_of :: "json \<Rightarrow> jsstring \<Rightarrow> step_row" where
  "step_row_of job name =
     (let s = latest_step job name; state = jget s ''status''
      in \<lparr>row_icon = (if state = JStr ''ok'' then IconOk else if state = JStr ''failed'' then IconFailed
                      else if state = JStr ''running'' then IconRunning
                      else if \<not> truthy state then IconWaiting else NoIcon),
          row_label = (case step_label name of Some l \<Rightarrow> l | None \<Rightarrow> name),
          row_detail = (if truthy (jget s ''detail'') \<and> state \<noteq> JStr ''ok'' then Some (jget s ''detail'') else None)\<rparr>)"

definition step_list :: "json \<Rightarrow> step_row list" where
  "step_list job = map (step_row_of job) (stepsFor job)"

section \<open>Progress\<close>

definition progressSteps :: "json \<Rightarrow> jsstring list" where
  "progressSteps job = (if jget job ''kind'' = JStr ''rollback'' then [''preflight'', ''finalize''] else UPDATE_STEPS)"

definition step_done :: "json \<Rightarrow> jsstring \<Rightarrow> bool" where
  "step_done job name \<longleftrightarrow> jget (latest_step job name) ''status'' = JStr ''ok'' \<and>
     (name \<noteq> ''finalize'' \<or> jget job ''status'' = JStr ''completed'')"

definition okSteps :: "json \<Rightarrow> nat" where
  "okSteps job = length (filter (step_done job) (progressSteps job))"

definition progressPercent :: "json \<Rightarrow> int" where
  "progressPercent job = js_round (of_nat (okSteps job) / of_nat (length (progressSteps job)) * 100)"

definition runningStep :: "json \<Rightarrow> json" where
  "runningStep job =
     (case List.find (\<lambda>s. jget s ''status'' = JStr ''running'' \<and> latest_step job (js_String (jget s ''step'')) = s)
        (rev (job_steps job)) of Some s \<Rightarrow> s | None \<Rightarrow> JUndef)"

definition currentStage :: "json \<Rightarrow> jsstring" where
  "currentStage job =
     (if jget job ''status'' = JStr ''pending'' then ''Waiting to start''
      else if jget job ''status'' = JStr ''finalizing'' then ''Swap, restart panel services, health check''
      else (case step_label (js_String (jget (runningStep job) ''step'')) of
              Some l \<Rightarrow> l
            | None \<Rightarrow>
                (case List.find (\<lambda>n. jget (latest_step job n) ''status'' \<noteq> JStr ''ok'') (progressSteps job) of
                   Some n \<Rightarrow> (case step_label n of Some l \<Rightarrow> l | None \<Rightarrow> ''Finishing update'')
                 | None \<Rightarrow> ''Finishing update'')))"

lemma floor_half:
  "\<lfloor>1 / 2 :: rat\<rfloor> = 0" "\<lfloor>51 / 2 :: rat\<rfloor> = 25" "\<lfloor>101 / 2 :: rat\<rfloor> = 50"
  "\<lfloor>151 / 2 :: rat\<rfloor> = 75" "\<lfloor>201 / 2 :: rat\<rfloor> = 100"
  by (simp_all add: floor_eq_iff)

text \<open>The share shown as progress lies between 0 and 100 and is 100 only for a completed job whose
  every stage was last reported ok; extra or repeated reports never push it beyond.\<close>

theorem progress_truthful:
  "0 \<le> progressPercent job \<and> progressPercent job \<le> 100 \<and>
   (progressPercent job = 100 \<longleftrightarrow>
      jget job ''status'' = JStr ''completed'' \<and>
      list_all (\<lambda>n. jget (latest_step job n) ''status'' = JStr ''ok'') (progressSteps job))"
proof -
  let ?n = "length (progressSteps job)"
  have le: "okSteps job \<le> ?n" by (simp add: okSteps_def)
  have n: "?n = 2 \<or> ?n = 8" by (simp add: progressSteps_def UPDATE_STEPS_def)
  have all: "okSteps job = ?n \<longleftrightarrow> list_all (step_done job) (progressSteps job)"
    unfolding okSteps_def list_all_iff by (metis filter_id_conv length_filter_less less_irrefl)
  have fin: "''finalize'' \<in> set (progressSteps job)" by (simp add: progressSteps_def UPDATE_STEPS_def)
  have full: "list_all (step_done job) (progressSteps job) \<longleftrightarrow>
      jget job ''status'' = JStr ''completed'' \<and>
      list_all (\<lambda>n. jget (latest_step job n) ''status'' = JStr ''ok'') (progressSteps job)"
    using fin unfolding list_all_iff step_done_def by blast
  have vals: "progressPercent job \<in> (if ?n = 2 then {0, 50, 100} else {0, 13, 25, 38, 50, 63, 75, 88, 100}) \<and>
      (progressPercent job = 100 \<longleftrightarrow> okSteps job = ?n)"
  proof (cases "?n = 2")
    case True
    with le have "okSteps job = 0 \<or> okSteps job = 1 \<or> okSteps job = 2" by auto
    with True show ?thesis by (auto simp: progressPercent_def js_round_def floor_half)
  next
    case False
    with n have n8: "?n = 8" by simp
    with le have "okSteps job \<in> {0, 1, 2, 3, 4, 5, 6, 7, 8}" by auto
    with n8 show ?thesis by (auto simp: progressPercent_def js_round_def floor_half)
  qed
  then show ?thesis using all full by (auto split: if_splits)
qed

section \<open>State of the page\<close>

record preflight_query =
  pre_data :: "json option"
  pre_error :: "jsstring option"

record updates_page =
  u_status :: json
  u_loading :: bool
  u_error :: bool
  updateOpen :: bool
  rollbackOpen :: bool
  acknowledgeDataPlane :: bool
  overrideTasks :: bool
  restoreBackup :: json
  detailJob :: json
  code_update :: jsstring
  code_rollback :: jsstring
  code_restore :: jsstring
  preflight_plain :: preflight_query
  preflight_override :: preflight_query
  channelMut :: mutation
  checkMut :: mutation
  startMut :: mutation
  rollbackMut :: mutation
  restoreMut :: mutation
  lastActiveId :: json
  u_effects :: "page_effect list"

definition initial_updates :: updates_page where
  "initial_updates =
     \<lparr>u_status = JUndef, u_loading = True, u_error = False, updateOpen = False, rollbackOpen = False,
      acknowledgeDataPlane = False, overrideTasks = False, restoreBackup = JNull, detailJob = JNull,
      code_update = [], code_rollback = [], code_restore = [],
      preflight_plain = \<lparr>pre_data = None, pre_error = None\<rparr>, preflight_override = \<lparr>pre_data = None, pre_error = None\<rparr>,
      channelMut = idle, checkMut = idle, startMut = idle, rollbackMut = idle, restoreMut = idle,
      lastActiveId = JNull, u_effects = []\<rparr>"

definition active_job :: "updates_page \<Rightarrow> json" where
  "active_job s = jget (u_status s) ''active_job''"

definition job_active :: "updates_page \<Rightarrow> bool" where
  "job_active s \<longleftrightarrow> truthy (active_job s)"

definition current_preflight :: "updates_page \<Rightarrow> preflight_query" where
  "current_preflight s = (if overrideTasks s then preflight_override s else preflight_plain s)"

definition preflight_value :: "updates_page \<Rightarrow> json" where
  "preflight_value s = (case pre_data (current_preflight s) of Some v \<Rightarrow> v | None \<Rightarrow> JUndef)"

definition preflightLoading :: "updates_page \<Rightarrow> bool" where
  "preflightLoading s \<longleftrightarrow> pre_data (current_preflight s) = None \<and> pre_error (current_preflight s) = None"

definition dataPlaneReloads :: "updates_page \<Rightarrow> json list" where
  "dataPlaneReloads s =
     array_of (js_or (jget (jget (preflight_value s) ''release_metadata'') ''data_plane_reloads'')
                (js_or (jget (jget (u_status s) ''release_metadata'') ''data_plane_reloads'') (JArr [])))"

definition preflightBlocked :: "updates_page \<Rightarrow> bool" where
  "preflightBlocked s \<longleftrightarrow> array_of (jget (preflight_value s) ''critical_failures'') \<noteq> []"

definition acknowledgementRequired :: "updates_page \<Rightarrow> bool" where
  "acknowledgementRequired s \<longleftrightarrow> dataPlaneReloads s \<noteq> []"

definition startDisabled :: "updates_page \<Rightarrow> bool" where
  "startDisabled s \<longleftrightarrow> preflightLoading s \<or> pre_error (current_preflight s) \<noteq> None \<or> preflightBlocked s \<or>
     (acknowledgementRequired s \<and> \<not> acknowledgeDataPlane s)"

definition totp :: "jsstring \<Rightarrow> json" where
  "totp c = (if trim c = [] then JNull else JStr (trim c))"

definition confirm_body :: "jsstring \<Rightarrow> (jsstring \<times> json) list" where
  "confirm_body c = [(''confirm'', JBool True), (''totp_code'', totp c)]"

definition start_body :: "updates_page \<Rightarrow> (jsstring \<times> json) list" where
  "start_body s = confirm_body (code_update s) @
     [(''acknowledge_data_plane'', JBool (acknowledgeDataPlane s)), (''override_active_tasks'', JBool (overrideTasks s))]"

definition restore_body :: "updates_page \<Rightarrow> (jsstring \<times> json) list" where
  "restore_body s = confirm_body (code_restore s) @ [(''backup_id'', jget (restoreBackup s) ''id'')]"

definition emit :: "page_effect list \<Rightarrow> updates_page \<Rightarrow> updates_page" where
  "emit es s = s\<lparr>u_effects := u_effects s @ es\<rparr>"

section \<open>Effects of a render\<close>

text \<open>Closing a dialog forgets what was entered in it.\<close>

definition close_effects :: "updates_page \<Rightarrow> updates_page" where
  "close_effects s =
     (let s1 = (if updateOpen s then s else s\<lparr>acknowledgeDataPlane := False, overrideTasks := False, code_update := []\<rparr>);
          s2 = (if rollbackOpen s1 then s1 else s1\<lparr>code_rollback := []\<rparr>)
      in (if truthy (restoreBackup s2) then s2 else s2\<lparr>code_restore := []\<rparr>))"

text \<open>The toast for the end of a job: fires when the job last seen active is the last job.\<close>

definition terminal_toast :: "json \<Rightarrow> page_effect list" where
  "terminal_toast lj =
     (let rollback = (jget lj ''kind'' = JStr ''rollback'')
      in if jget lj ''status'' = JStr ''completed''
         then [Toast Success (if rollback then ''Rollback complete'' else ''Update complete'')
                 (''Panel is now on v'' @ js_String (jget lj ''to_version'') @ ''.''),
               Invalidate [''panel-version'']]
         else if jget lj ''status'' = JStr ''failed''
         then [Toast ErrorTone (if rollback then ''Rollback failed'' else ''Update failed'')
                 (if truthy (jget lj ''rolled_back'') then ''The panel was automatically restored to the previous version.''
                  else js_String (jget lj ''error''))]
         else [])"

definition status_effect :: "updates_page \<Rightarrow> updates_page" where
  "status_effect s =
     (if truthy (active_job s) then s\<lparr>lastActiveId := jget (active_job s) ''id''\<rparr>
      else (let lj = jget (u_status s) ''last_job''
            in if \<not> nullish (lastActiveId s) \<and> jget lj ''id'' = lastActiveId s
               then emit (terminal_toast lj @ [Invalidate [''update-history'']]) (s\<lparr>lastActiveId := JNull\<rparr>)
               else s))"

section \<open>Events\<close>

datatype updates_event =
    StatusArrives json
  | StatusFails
  | PreflightArrives bool json
  | PreflightFails bool jsstring
  | OpenUpdate
  | CloseUpdate
  | OpenRollback
  | CloseRollback
  | OpenRestore json
  | CloseRestore
  | ShowEvidence json
  | CloseEvidence
  | TickAcknowledge bool
  | TickOverride bool
  | TypeUpdateCode jsstring
  | TypeRollbackCode jsstring
  | TypeRestoreCode jsstring
  | SubmitUpdate
  | SubmitRollback
  | SubmitRestore
  | StartSettles "jsstring option"
  | RollbackSettles "jsstring option"
  | RestoreSettles "jsstring option"
  | ChooseChannel jsstring
  | ChannelSettles "jsstring + json"
  | CheckNow
  | CheckSettles "jsstring + json"

definition update_card_shown :: "updates_page \<Rightarrow> bool" where
  "update_card_shown s \<longleftrightarrow> \<not> u_loading s \<and> \<not> u_error s \<and> truthy (jget (u_status s) ''configured'')"

definition restorable :: "json \<Rightarrow> bool" where
  "restorable backup \<longleftrightarrow> truthy (jget backup ''integrity_ok'') \<and> truthy (jget backup ''schema_compatible'')"

fun updates_offered :: "updates_page \<Rightarrow> updates_event \<Rightarrow> bool" where
  "updates_offered s (StatusArrives v) = True"
| "updates_offered s StatusFails = True"
| "updates_offered s (PreflightArrives k v) = updateOpen s"
| "updates_offered s (PreflightFails k e) = updateOpen s"
| "updates_offered s OpenUpdate =
     (update_card_shown s \<and> truthy (jget (u_status s) ''update_available'') \<and> \<not> job_active s)"
| "updates_offered s CloseUpdate = updateOpen s"
| "updates_offered s OpenRollback =
     (update_card_shown s \<and> truthy (jget (u_status s) ''rollback_available'') \<and> \<not> job_active s)"
| "updates_offered s CloseRollback = rollbackOpen s"
| "updates_offered s (OpenRestore b) = (restorable b \<and> truthy b)"
| "updates_offered s CloseRestore = truthy (restoreBackup s)"
| "updates_offered s (ShowEvidence j) = truthy j"
| "updates_offered s CloseEvidence = truthy (detailJob s)"
| "updates_offered s (TickAcknowledge b) = (updateOpen s \<and> acknowledgementRequired s)"
| "updates_offered s (TickOverride b) = (updateOpen s \<and> truthy (jget (preflight_value s) ''override_required''))"
| "updates_offered s (TypeUpdateCode c) = (updateOpen s \<and> length c \<le> 16)"
| "updates_offered s (TypeRollbackCode c) = (rollbackOpen s \<and> length c \<le> 16)"
| "updates_offered s (TypeRestoreCode c) = (truthy (restoreBackup s) \<and> length c \<le> 16)"
| "updates_offered s SubmitUpdate = (updateOpen s \<and> \<not> startDisabled s \<and> \<not> isPending (startMut s))"
| "updates_offered s SubmitRollback = (rollbackOpen s \<and> \<not> isPending (rollbackMut s))"
| "updates_offered s SubmitRestore = (truthy (restoreBackup s) \<and> \<not> isPending (restoreMut s))"
| "updates_offered s (StartSettles r) = isPending (startMut s)"
| "updates_offered s (RollbackSettles r) = isPending (rollbackMut s)"
| "updates_offered s (RestoreSettles r) = isPending (restoreMut s)"
| "updates_offered s (ChooseChannel c) =
     (c \<in> {''stable'', ''beta'', ''development''} \<and> \<not> u_loading s \<and> \<not> u_error s \<and> \<not> job_active s \<and> \<not> isPending (channelMut s))"
| "updates_offered s (ChannelSettles r) = isPending (channelMut s)"
| "updates_offered s CheckNow = (\<not> job_active s \<and> \<not> isPending (checkMut s))"
| "updates_offered s (CheckSettles r) = isPending (checkMut s)"

definition set_preflight :: "bool \<Rightarrow> (preflight_query \<Rightarrow> preflight_query) \<Rightarrow> updates_page \<Rightarrow> updates_page" where
  "set_preflight k f s =
     (if k then s\<lparr>preflight_override := f (preflight_override s)\<rparr> else s\<lparr>preflight_plain := f (preflight_plain s)\<rparr>)"

definition check_toast :: "json \<Rightarrow> page_effect" where
  "check_toast data =
     (if truthy (jget data ''error'') then Toast ErrorTone ''Update check failed'' (js_String (jget data ''error''))
      else if jget data ''release_availability'' = JStr ''unpublished''
      then Toast InfoTone ''No release published yet''
             (''The '' @ js_String (jget data ''channel'') @ '' tier is selected. Your current installation is unchanged.'')
      else if truthy (jget data ''update_available'')
      then Toast InfoTone ''Update available'' (''v'' @ js_String (jget data ''latest_version'') @ '' can be installed.'')
      else Toast Success ''Up to date'' (''v'' @ js_String (jget data ''current_version'') @ '' is the latest release.''))"

text \<open>After a change of tier the cached status keeps its other members.\<close>

definition retier :: "json \<Rightarrow> json \<Rightarrow> json" where
  "retier data previous =
     (let kvs = (case previous of JObj kvs \<Rightarrow> kvs | _ \<Rightarrow> [])
      in JObj (fold (\<lambda>(k, v). AList.update k v)
           [(''channel'', jget data ''channel''), (''branch'', jget data ''branch''), (''latest_version'', JNull),
            (''update_available'', JBool False), (''checked_at'', JNull), (''error'', JNull),
            (''release_availability'', JNull)] kvs))"

fun updates_step :: "updates_event \<Rightarrow> updates_page \<Rightarrow> updates_page" where
  "updates_step (StatusArrives v) s = status_effect (s\<lparr>u_status := v, u_loading := False, u_error := False\<rparr>)"
| "updates_step StatusFails s = s\<lparr>u_loading := False, u_error := True\<rparr>"
| "updates_step (PreflightArrives k v) s = set_preflight k (\<lambda>_. \<lparr>pre_data = Some v, pre_error = None\<rparr>) s"
| "updates_step (PreflightFails k e) s = set_preflight k (\<lambda>q. q\<lparr>pre_error := Some e\<rparr>) s"
| "updates_step OpenUpdate s = s\<lparr>updateOpen := True\<rparr>"
| "updates_step CloseUpdate s = close_effects (s\<lparr>updateOpen := False\<rparr>)"
| "updates_step OpenRollback s = s\<lparr>rollbackOpen := True\<rparr>"
| "updates_step CloseRollback s = close_effects (s\<lparr>rollbackOpen := False\<rparr>)"
| "updates_step (OpenRestore b) s = s\<lparr>restoreBackup := b\<rparr>"
| "updates_step CloseRestore s = close_effects (s\<lparr>restoreBackup := JNull\<rparr>)"
| "updates_step (ShowEvidence j) s = s\<lparr>detailJob := j\<rparr>"
| "updates_step CloseEvidence s = s\<lparr>detailJob := JNull\<rparr>"
| "updates_step (TickAcknowledge b) s = s\<lparr>acknowledgeDataPlane := b\<rparr>"
| "updates_step (TickOverride b) s = s\<lparr>overrideTasks := b\<rparr>"
| "updates_step (TypeUpdateCode c) s = s\<lparr>code_update := c\<rparr>"
| "updates_step (TypeRollbackCode c) s = s\<lparr>code_rollback := c\<rparr>"
| "updates_step (TypeRestoreCode c) s = s\<lparr>code_restore := c\<rparr>"
| "updates_step SubmitUpdate s =
     emit [Send (POST ''/api/v1/admin/update/start'' (start_body s))] (s\<lparr>startMut := mutate (startMut s)\<rparr>)"
| "updates_step SubmitRollback s =
     emit [Send (POST ''/api/v1/admin/update/rollback'' (confirm_body (code_rollback s)))]
       (s\<lparr>rollbackMut := mutate (rollbackMut s)\<rparr>)"
| "updates_step SubmitRestore s =
     emit [Send (POST ''/api/v1/admin/update/database-restore'' (restore_body s))] (s\<lparr>restoreMut := mutate (restoreMut s)\<rparr>)"
| "updates_step (StartSettles None) s =
     close_effects (emit [Toast InfoTone ''Update started'' ''Progress is shown below. The panel restarts near the end.'',
                          Invalidate [''update-status''], Invalidate [''update-history'']]
       (s\<lparr>startMut := settle_ok (startMut s), updateOpen := False\<rparr>))"
| "updates_step (StartSettles (Some e)) s =
     emit [Toast ErrorTone ''Could not start update'' e] (s\<lparr>startMut := settle_error e (startMut s)\<rparr>)"
| "updates_step (RollbackSettles None) s =
     close_effects (emit [Toast InfoTone ''Rollback started'' ''The panel restarts on the previous version shortly.'',
                          Invalidate [''update-status''], Invalidate [''update-history'']]
       (s\<lparr>rollbackMut := settle_ok (rollbackMut s), rollbackOpen := False\<rparr>))"
| "updates_step (RollbackSettles (Some e)) s =
     emit [Toast ErrorTone ''Could not start rollback'' e] (s\<lparr>rollbackMut := settle_error e (rollbackMut s)\<rparr>)"
| "updates_step (RestoreSettles None) s =
     close_effects (emit [Toast InfoTone ''Database restore started''
                            ''The panel will reconnect after the restored database passes its health check.'',
                          Invalidate [''update-database-backups'']]
       (s\<lparr>restoreMut := settle_ok (restoreMut s), restoreBackup := JNull\<rparr>))"
| "updates_step (RestoreSettles (Some e)) s =
     emit [Toast ErrorTone ''Could not restore panel database'' e] (s\<lparr>restoreMut := settle_error e (restoreMut s)\<rparr>)"
| "updates_step (ChooseChannel c) s =
     emit [Send (POST ''/api/v1/admin/update/channel'' [(''channel'', JStr c)])] (s\<lparr>channelMut := mutate (channelMut s)\<rparr>)"
| "updates_step (ChannelSettles (Inr data)) s =
     status_effect (emit [Invalidate [''update-status''],
                          Toast Success ''Update tier saved'' ''Only signed releases from this tier will be offered.'']
       (s\<lparr>channelMut := settle_ok (channelMut s), u_status := retier data (u_status s)\<rparr>))"
| "updates_step (ChannelSettles (Inl e)) s =
     emit [Toast ErrorTone ''Could not change update tier'' e] (s\<lparr>channelMut := settle_error e (channelMut s)\<rparr>)"
| "updates_step CheckNow s =
     emit [Send (POST ''/api/v1/admin/update/check'' [])] (s\<lparr>checkMut := mutate (checkMut s)\<rparr>)"
| "updates_step (CheckSettles (Inr data)) s =
     emit [Invalidate [''update-status''], check_toast data] (s\<lparr>checkMut := settle_ok (checkMut s)\<rparr>)"
| "updates_step (CheckSettles (Inl e)) s =
     emit [Toast ErrorTone ''Update check failed'' e] (s\<lparr>checkMut := settle_error e (checkMut s)\<rparr>)"

inductive updates_reach :: "updates_page \<Rightarrow> bool" where
  start: "updates_reach initial_updates"
| step: "updates_reach s \<Longrightarrow> updates_offered s e \<Longrightarrow> updates_reach (updates_step e s)"

inductive_cases updates_reachE: "updates_reach s"

section \<open>What the page guarantees\<close>

text \<open>The fields of a start request that the server relies on, checked against the page that sent it.\<close>

definition reviewed_start :: "updates_page \<Rightarrow> http_request \<Rightarrow> bool" where
  "reviewed_start s r \<longleftrightarrow>
     r = POST ''/api/v1/admin/update/start'' (start_body s) \<and> updateOpen s \<and>
     map_of (start_body s) ''confirm'' = Some (JBool True) \<and>
     (\<exists>report. pre_data (if overrideTasks s then preflight_override s else preflight_plain s) = Some report \<and>
        array_of (jget report ''critical_failures'') = []) \<and>
     map_of (start_body s) ''override_active_tasks'' = Some (JBool (overrideTasks s)) \<and>
     (dataPlaneReloads s \<noteq> [] \<longrightarrow> map_of (start_body s) ''acknowledge_data_plane'' = Some (JBool True))"

definition is_start :: "page_effect \<Rightarrow> bool" where
  "is_start e \<longleftrightarrow> (case e of Send (POST url _) \<Rightarrow> url = ''/api/v1/admin/update/start'' | _ \<Rightarrow> False)"

lemma effects_of_step:
  "\<exists>new. u_effects (updates_step e s) = u_effects s @ new \<and>
     (\<forall>x\<in>set new. is_start x \<longrightarrow> e = SubmitUpdate \<and> x = Send (POST ''/api/v1/admin/update/start'' (start_body s)))"
proof -
  have ce: "u_effects (close_effects t) = u_effects t" for t
    by (simp add: close_effects_def Let_def)
  have tt: "x \<in> set (terminal_toast lj) \<Longrightarrow> \<not> is_start x" for x lj
    by (auto simp: terminal_toast_def is_start_def Let_def split: if_splits)
  have se: "\<exists>new. u_effects (status_effect t) = u_effects t @ new \<and> (\<forall>x\<in>set new. \<not> is_start x)" for t
    using tt by (auto simp: status_effect_def Let_def emit_def is_start_def)
  have ct: "\<not> is_start (check_toast d)" for d by (simp add: check_toast_def is_start_def)
  show ?thesis
  proof (cases e)
    case (StatusArrives v)
    then show ?thesis using se[of "s\<lparr>u_status := v, u_loading := False, u_error := False\<rparr>"] by auto
  next
    case (StartSettles r)
    then show ?thesis by (cases r) (auto simp: ce emit_def is_start_def)
  next
    case (RollbackSettles r)
    then show ?thesis by (cases r) (auto simp: ce emit_def is_start_def)
  next
    case (RestoreSettles r)
    then show ?thesis by (cases r) (auto simp: ce emit_def is_start_def)
  next
    case (ChannelSettles r)
    show ?thesis
    proof (cases r)
      case (Inr d)
      obtain new where "u_effects (updates_step e s) = u_effects s @
          [Invalidate [''update-status''], Toast Success ''Update tier saved'' ''Only signed releases from this tier will be offered.''] @ new"
          "\<forall>x\<in>set new. \<not> is_start x"
        using se[of "emit [Invalidate [''update-status''],
            Toast Success ''Update tier saved'' ''Only signed releases from this tier will be offered.'']
            (s\<lparr>channelMut := settle_ok (channelMut s), u_status := retier d (u_status s)\<rparr>)"]
        by (auto simp: ChannelSettles Inr emit_def)
      then show ?thesis by (auto simp: is_start_def)
    qed (auto simp: ChannelSettles emit_def is_start_def)
  next
    case (CheckSettles r)
    then show ?thesis by (cases r) (auto simp: emit_def is_start_def ct[unfolded is_start_def])
  qed (auto simp: ce emit_def is_start_def set_preflight_def)
qed

lemma submit_reviewed:
  "updates_offered s SubmitUpdate \<Longrightarrow> reviewed_start s (POST ''/api/v1/admin/update/start'' (start_body s))"
  by (auto simp: reviewed_start_def start_body_def confirm_body_def startDisabled_def preflightLoading_def
      current_preflight_def preflightBlocked_def preflight_value_def acknowledgementRequired_def
      split: if_splits)


definition ready_report :: json where
  "ready_report = JObj [(''checks'', JArr []), (''critical_failures'', JArr [])]"

definition update_scenario :: "updates_event list" where
  "update_scenario =
     [StatusArrives (JObj [(''configured'', JBool True), (''update_available'', JBool True)]), OpenUpdate,
      PreflightArrives False ready_report, TypeUpdateCode ''123456'', SubmitUpdate]"

fun offered_all :: "updates_event list \<Rightarrow> updates_page \<Rightarrow> bool" where
  "offered_all [] s = True"
| "offered_all (e # es) s = (updates_offered s e \<and> offered_all es (updates_step e s))"

lemma offered_reach: "updates_reach s \<Longrightarrow> offered_all es s \<Longrightarrow> updates_reach (fold updates_step es s)"
  by (induction es arbitrary: s) (auto intro: updates_reach.step)


text \<open>The acknowledgement outlives the list it was given for: when a later preflight declares other
  reloads, the tick stays.\<close>

lemma acknowledgement_survives_new_reloads:
  "acknowledgeDataPlane (updates_step (PreflightArrives k v) s) = acknowledgeDataPlane s \<and>
   acknowledgeDataPlane (updates_step (TickOverride b) s) = acknowledgeDataPlane s"
  by (simp add: set_preflight_def)

text \<open>An open dialog can still submit while another job has become active.\<close>

lemma submit_ignores_active_job:
  "updates_offered s SubmitUpdate = updates_offered (s\<lparr>lastActiveId := x\<rparr>) SubmitUpdate \<and>
   (updateOpen s \<and> pre_data (current_preflight s) = Some ready_report \<and> pre_error (current_preflight s) = None \<and>
    acknowledgeDataPlane s \<and> \<not> isPending (startMut s) \<and> job_active s \<longrightarrow> updates_offered s SubmitUpdate)"
  by (auto simp: startDisabled_def preflightLoading_def current_preflight_def preflightBlocked_def
      preflight_value_def acknowledgementRequired_def dataPlaneReloads_def ready_report_def array_of_def)

section \<open>One toast per finished job\<close>

definition toasts_in :: "page_effect list \<Rightarrow> nat" where
  "toasts_in es = length (filter (\<lambda>e. case e of Toast _ t _ \<Rightarrow>
     t \<in> {''Rollback complete'', ''Update complete'', ''Rollback failed'', ''Update failed''} | _ \<Rightarrow> False) es)"

fun see_statuses :: "json list \<Rightarrow> updates_page \<Rightarrow> updates_page" where
  "see_statuses [] s = s"
| "see_statuses (v # vs) s = see_statuses vs (status_effect (s\<lparr>u_status := v\<rparr>))"

lemma toasts_in_append: "toasts_in (a @ b) = toasts_in a + toasts_in b"
  by (simp add: toasts_in_def)

lemma terminal_toast_one: "toasts_in (terminal_toast lj @ [Invalidate k]) \<le> 1"
  by (auto simp: terminal_toast_def toasts_in_def Let_def)

lemma idle_statuses_quiet:
  "list_all (\<lambda>v. \<not> truthy (jget v ''active_job'')) vs \<Longrightarrow> nullish (lastActiveId s) \<Longrightarrow>
     u_effects (see_statuses vs s) = u_effects s"
  by (induction vs arbitrary: s) (auto simp: status_effect_def active_job_def Let_def)

text \<open>However often the status is polled after a job ended, its end is announced at most once; while a
  job is active nothing is announced.\<close>

theorem job_end_announced_once:
  assumes "list_all (\<lambda>v. \<not> truthy (jget v ''active_job'')) vs"
  shows "toasts_in (u_effects (see_statuses vs s)) \<le> toasts_in (u_effects s) + 1"
  using assms
proof (induction vs arbitrary: s)
  case Nil
  then show ?case by simp
next
  case (Cons v vs)
  let ?s = "status_effect (s\<lparr>u_status := v\<rparr>)"
  show ?case
  proof (cases "nullish (lastActiveId ?s) \<and> \<not> nullish (lastActiveId s)")
    case True
    then have "u_effects (see_statuses vs ?s) = u_effects ?s"
      using Cons.prems idle_statuses_quiet[of vs ?s] by simp
    moreover have "toasts_in (u_effects ?s) \<le> toasts_in (u_effects s) + 1"
      using Cons.prems terminal_toast_one
      by (auto simp: status_effect_def active_job_def Let_def emit_def toasts_in_append)
    ultimately show ?thesis by simp
  next
    case False
    then have "u_effects ?s = u_effects s"
      using Cons.prems by (auto simp: status_effect_def active_job_def Let_def emit_def nullish_def)
    with Cons show ?thesis by (metis list.pred_inject(2) see_statuses.simps(2))
  qed
qed

theorem job_end_announced_once_witness:
  "toasts_in (u_effects (see_statuses [JObj [(''last_job'', JObj [(''id'', JNum 3), (''status'', JStr ''completed'')])],
       JObj [(''last_job'', JObj [(''id'', JNum 3), (''status'', JStr ''completed'')])]]
     (initial_updates\<lparr>lastActiveId := JNum 3\<rparr>))) \<le> 1"
proof -
  let ?v = "JObj [(''last_job'', JObj [(''id'', JNum 3), (''status'', JStr ''completed'')])]"
  have idle: "list_all (\<lambda>v. \<not> truthy (jget v ''active_job'')) [?v, ?v]" by code_simp
  have zero: "toasts_in (u_effects (initial_updates\<lparr>lastActiveId := JNum 3\<rparr>)) = 0" by code_simp
  show ?thesis using job_end_announced_once[OF idle, of "initial_updates\<lparr>lastActiveId := JNum 3\<rparr>"]
    unfolding zero by (simp only: add_0)
qed

section \<open>What the page shows\<close>

datatype version_card =
    CardLoading
  | CardError
  | CardNotConfigured
  | CardVersions jsstring jsstring "jsstring option" "jsstring option" "(jsstring \<times> bool) option" "jsstring \<times> bool"

text \<open>Current version, latest version, its badge, the changelog link, the rollback button and the
  update button, each button with whether it is disabled.\<close>

definition version_card :: "updates_page \<Rightarrow> version_card" where
  "version_card s =
     (let st = u_status s; latest = jget st ''latest_version'' in
      if u_loading s then CardLoading
      else if u_error s then CardError
      else if \<not> truthy (jget st ''configured'') then CardNotConfigured
      else CardVersions
        (''v'' @ js_String (jget st ''current_version''))
        (if truthy latest then ''v'' @ js_String latest else [em_dash])
        (if truthy (jget st ''update_available'') then Some ''Update available''
         else if truthy latest then Some ''Up to date'' else None)
        (if truthy (jget st ''changelog_url'') then Some (js_String (jget st ''changelog_url'')) else None)
        (if truthy (jget st ''rollback_available'')
         then Some (''Roll back to v'' @ js_String (jget st ''rollback_to''), job_active s) else None)
        (if truthy (jget st ''update_available'') then ''Update to v'' @ js_String latest
         else if jget st ''release_availability'' = JStr ''unpublished'' then ''No release published yet''
         else ''Panel is up to date'',
         \<not> truthy (jget st ''update_available'') \<or> job_active s))"

definition card_notes :: "updates_page \<Rightarrow> jsstring list" where
  "card_notes s =
     (let st = u_status s; reloads = array_of (jget (jget st ''release_metadata'') ''data_plane_reloads'') in
      (if jget st ''release_availability'' = JStr ''unpublished''
       then [''No '' @ (if jget st ''channel'' = JStr ''development'' then ''Development'' else ''Beta'') @
             '' release published yet. Your tier is saved; your current installation is unchanged. Check again after a signed release is published for this tier.'']
       else []) @
      (if truthy (jget st ''error'') then [''Last check error: '' @ js_String (jget st ''error'')] else []) @
      (if truthy (jget st ''rollback_blocked_reason'')
       then [''Rollback unavailable: '' @ js_String (jget st ''rollback_blocked_reason'')] else []) @
      (if reloads \<noteq> []
       then [''This release declares reloads for: '' @ join_with '', '' (map js_String reloads) @
             ''. You will review and acknowledge them before installation.''] else []))"

definition progress_panel :: "updates_page \<Rightarrow> (jsstring \<times> int \<times> nat \<times> nat \<times> jsstring \<times> bool) option" where
  "progress_panel s =
     (if job_active s
      then Some ((if jget (active_job s) ''kind'' = JStr ''rollback'' then ''Rollback'' else ''Update'') @ '' progress'',
                 progressPercent (active_job s), okSteps (active_job s), length (progressSteps (active_job s)),
                 currentStage (active_job s), u_error s)
      else None)"

definition failed_job_card :: "updates_page \<Rightarrow> (jsstring \<times> jsstring) option" where
  "failed_job_card s =
     (let lj = jget (u_status s) ''last_job'' in
      if \<not> job_active s \<and> jget lj ''status'' = JStr ''failed''
      then Some (''Last '' @ (if jget lj ''kind'' = JStr ''rollback'' then ''rollback'' else ''update''),
                 js_String (jget lj ''error''))
      else None)"

definition restore_action :: "json \<Rightarrow> jsstring + jsstring" where
  "restore_action backup =
     (if restorable backup then Inr ''Restore database''
      else Inl (js_String (js_or (jget backup ''compatibility_reason'') (JStr ''Invalid snapshot''))))"

definition impact_text :: "updates_page \<Rightarrow> jsstring" where
  "impact_text s =
     (if acknowledgementRequired s
      then ''The panel restarts and this release also reloads: '' @ join_with '', '' (map js_String (dataPlaneReloads s)) @ ''.''
      else ''The Boron API and root helper restart during this operation (~10-30s of panel downtime).'')"

text \<open>The buttons of the card are the events of the page.\<close>

lemma version_card_matches_events:
  "(\<exists>cur lat bdg link roll lbl. version_card s = CardVersions cur lat bdg link roll (lbl, False)) \<longleftrightarrow> updates_offered s OpenUpdate"
  by (auto simp: version_card_def Let_def update_card_shown_def)

end
