(* ===== verification/Url_Params.thy ===== *)
theory Url_Params
  imports Boron_Prelude
begin

text \<open>
  The query of an address as \<open>URLSearchParams\<close> keeps it: names and values in order, the first of a
  name counting for \<open>get\<close>; \<open>set\<close> overwrites the first occurrence and drops the others, or
  appends; \<open>delete\<close> drops them all.
\<close>

type_synonym params = "(jsstring \<times> jsstring) list"

definition param_delete :: "jsstring \<Rightarrow> params \<Rightarrow> params" where
  "param_delete k ps = filter (\<lambda>e. fst e \<noteq> k) ps"

fun param_set :: "jsstring \<Rightarrow> jsstring \<Rightarrow> params \<Rightarrow> params" where
  "param_set k v [] = [(k, v)]"
| "param_set k v (e # ps) = (if fst e = k then (k, v) # param_delete k ps else e # param_set k v ps)"

lemma map_of_param_delete: "map_of (param_delete k ps) j = (if j = k then None else map_of ps j)"
  by (induction ps) (auto simp: param_delete_def)

lemma map_of_param_set: "map_of (param_set k v ps) j = (if j = k then Some v else map_of ps j)"
  by (induction ps) (auto simp: map_of_param_delete)

lemmas param_simps = map_of_param_delete map_of_param_set

end
