(* ===== verification/Accounts_Page.thy ===== *)
theory Accounts_Page
  imports Ui_Kit Data_Table Format Url_Params
begin

text \<open>
  \<open>pages/admin/Accounts.jsx\<close>: the list of hosting accounts with its address parameters, the bulk
  actions on the selected accounts, the change of reseller and the enabling of website isolation.

  The address parameters are an association list in order, as \<open>URLSearchParams\<close> keeps them. The
  numeric conversion of what was typed is a parameter; numbers are rationals.
\<close>

section \<open>The list's address\<close>

definition listQuery :: "params \<Rightarrow> jsstring" where
  "listQuery ps = or_string (map_of ps ''q'') []"

text \<open>\<open>parseInt\<close> in base ten, None for NaN.\<close>

definition leading_digits :: "jsstring \<Rightarrow> jsstring" where
  "leading_digits s = takeWhile is_digit s"

definition digits_int :: "jsstring \<Rightarrow> int" where
  "digits_int ds = foldl (\<lambda>acc c. acc * 10 + int (code c - 48)) 0 ds"

definition parse_int :: "jsstring \<Rightarrow> int option" where
  "parse_int s =
     (let t = trimStart s; neg = startsWith t ''-'';
          ds = leading_digits (if neg \<or> startsWith t ''+'' then tl t else t)
      in if ds = [] then None else Some (if neg then - digits_int ds else digits_int ds))"

definition listPage :: "params \<Rightarrow> int" where
  "listPage ps = max 1 (case parse_int (or_string (map_of ps ''page'') ''1'') of None \<Rightarrow> 1 | Some n \<Rightarrow> if n = 0 then 1 else n)"

definition listSort :: "params \<Rightarrow> sort_spec option" where
  "listSort ps =
     (case map_of ps ''sort'' of
        None \<Rightarrow> None
      | Some k \<Rightarrow> if k = [] then None
                  else Some \<lparr>skey = k, sdir = (if map_of ps ''dir'' = Some ''desc'' then Desc else Asc)\<rparr>)"

definition setPageParam :: "int \<Rightarrow> params \<Rightarrow> params" where
  "setPageParam v ps = (if v = 1 then param_delete ''page'' ps else param_set ''page'' (show_int v) ps)"

definition setQueryParam :: "jsstring \<Rightarrow> params \<Rightarrow> params" where
  "setQueryParam v ps =
     param_delete ''page'' (if v \<noteq> [] then param_set ''q'' v ps else param_delete ''q'' ps)"

definition dir_text :: "sort_dir \<Rightarrow> jsstring" where
  "dir_text d = (case d of Asc \<Rightarrow> ''asc'' | Desc \<Rightarrow> ''desc'')"

definition setSortParams :: "sort_spec option \<Rightarrow> params \<Rightarrow> params" where
  "setSortParams v ps =
     param_delete ''page''
       (case v of
          Some spec \<Rightarrow> param_set ''dir'' (dir_text (sdir spec)) (param_set ''sort'' (skey spec) ps)
        | None \<Rightarrow> param_delete ''dir'' (param_delete ''sort'' ps))"

lemma digits_int_show_nat: "takeWhile is_digit (show_nat n) = show_nat n \<and> digits_int (show_nat n) = int n"
proof (induction n rule: show_nat.induct)
  case (1 n)
  have d: "m < 10 \<Longrightarrow> is_digit (char_of (48 + m)) \<and> code (char_of (48 + m)) - 48 = m" for m :: nat
    by (simp add: is_digit_def)
  show ?case
  proof (cases "n < 10")
    case True
    then show ?thesis using d[of n] by (simp add: show_nat.simps digits_int_def)
  next
    case False
    have all: "\<forall>c\<in>set (show_nat (n div 10)). is_digit c"
      using 1 False by (metis (mono_tags, lifting) set_takeWhileD)
    have "digits_int (show_nat (n div 10) @ [char_of (48 + n mod 10)]) = int (n div 10) * 10 + int (n mod 10)"
      using 1 False d[of "n mod 10"] by (simp add: digits_int_def)
    also have "\<dots> = int n" by presburger
    finally show ?thesis using False d[of "n mod 10"] all
      by (subst (1 2 3) show_nat.simps) (simp add: takeWhile_append2)
  qed
qed

lemma parse_show_nat: "parse_int (show_nat n) = Some (int n)"
proof -
  have ne: "show_nat n \<noteq> []" by (subst show_nat.simps) simp
  have dig: "is_digit (hd (show_nat n))"
    using digits_int_show_nat[of n] ne by (metis hd_in_set set_takeWhileD)
  then have h: "hd (show_nat n) \<noteq> CHR ''-''" "hd (show_nat n) \<noteq> CHR ''+''" "\<not> is_space (hd (show_nat n))"
    by (auto simp: is_digit_def code_def is_space_def)
  obtain c cs where c: "show_nat n = c # cs" using ne by (cases "show_nat n") auto
  then have "trimStart (show_nat n) = show_nat n" "\<not> startsWith (show_nat n) ''-''" "\<not> startsWith (show_nat n) ''+''"
    using h by (auto simp: trimStart_def startsWith_def)
  moreover have "leading_digits (show_nat n) = show_nat n" using digits_int_show_nat[of n] by (simp only: leading_digits_def)
  ultimately show ?thesis using digits_int_show_nat[of n] ne by (simp add: parse_int_def Let_def)
qed

lemma parse_one: "parse_int ''1'' = Some 1"
  by code_simp

text \<open>The list's state lives in the address and comes back from it: what the table reports as its
  new query, sort or page is what the address then gives, and a new query or sort starts at the
  first page without touching the other.\<close>

theorem address_round_trip:
  "(1 \<le> n \<longrightarrow> listPage (setPageParam n ps) = n \<and> listQuery (setPageParam n ps) = listQuery ps \<and>
       listSort (setPageParam n ps) = listSort ps) \<and>
   listQuery (setQueryParam v ps) = v \<and> listPage (setQueryParam v ps) = 1 \<and> listSort (setQueryParam v ps) = listSort ps \<and>
   (\<forall>spec. skey spec \<noteq> [] \<longrightarrow> listSort (setSortParams (Some spec) ps) = Some spec) \<and>
   listSort (setSortParams None ps) = None \<and> listPage (setSortParams so ps) = 1 \<and>
   listQuery (setSortParams so ps) = listQuery ps"
proof (intro conjI allI impI)
  assume n: "1 \<le> n"
  then have "show_int n = show_nat (nat n)" by (simp add: show_int_def)
  moreover have "show_nat k \<noteq> []" for k by (subst show_nat.simps) simp
  ultimately show "listPage (setPageParam n ps) = n"
    using n by (auto simp: listPage_def setPageParam_def map_of_param_delete map_of_param_set or_string_def
        parse_show_nat parse_one)
  show "listQuery (setPageParam n ps) = listQuery ps" "listSort (setPageParam n ps) = listSort ps"
    by (simp_all add: setPageParam_def listQuery_def listSort_def map_of_param_delete map_of_param_set)
next
  fix spec :: sort_spec assume "skey spec \<noteq> []"
  then show "listSort (setSortParams (Some spec) ps) = Some spec"
    by (cases "sdir spec")
       (auto simp: listSort_def setSortParams_def map_of_param_delete map_of_param_set dir_text_def
         intro!: sort_spec.equality)
qed (auto simp: listQuery_def setQueryParam_def listPage_def listSort_def setSortParams_def map_of_param_delete
       map_of_param_set or_string_def parse_one split: option.split)

section \<open>Bulk actions\<close>

record limits_form =
  cpu_cores_field :: jsstring
  mem_gb_field :: jsstring
  io_mb_field :: jsstring
  pids_max_field :: jsstring

record bulk_bar =
  bulk_action :: jsstring
  bulk_limits :: limits_form
  bulk_subject :: jsstring
  bulk_body :: jsstring
  bulk_job_id :: json
  bulk_confirm_open :: bool
  bulk_trigger :: mutation
  bulk_job :: json

definition initial_bulk :: bulk_bar where
  "initial_bulk =
     \<lparr>bulk_action = ''suspend'',
      bulk_limits = \<lparr>cpu_cores_field = [], mem_gb_field = [], io_mb_field = [], pids_max_field = []\<rparr>,
      bulk_subject = [], bulk_body = [], bulk_job_id = JNull, bulk_confirm_open = False, bulk_trigger = idle,
      bulk_job = JUndef\<rparr>"

definition bulk_actions :: "(jsstring \<times> jsstring) list" where
  "bulk_actions = [(''suspend'', ''Suspend''), (''unsuspend'', ''Unsuspend''), (''update_limits'', ''Update limits''),
     (''notify'', ''Send notification'')]"

datatype param_value = PNum rat | PText jsstring

definition limit_params :: "(jsstring \<Rightarrow> rat) \<Rightarrow> limits_form \<Rightarrow> (jsstring \<times> param_value) list" where
  "limit_params to_number l =
     (if cpu_cores_field l \<noteq> [] then [(''cpu_pct'', PNum (of_int (js_round (to_number (cpu_cores_field l) * 100))))] else []) @
     (if mem_gb_field l \<noteq> [] then [(''mem_mb'', PNum (of_int (js_round (to_number (mem_gb_field l) * 1024))))] else []) @
     (if io_mb_field l \<noteq> [] then [(''io_mb'', PNum (to_number (io_mb_field l)))] else []) @
     (if pids_max_field l \<noteq> [] then [(''pids_max'', PNum (to_number (pids_max_field l)))] else [])"

definition action_params :: "(jsstring \<Rightarrow> rat) \<Rightarrow> bulk_bar \<Rightarrow> (jsstring \<times> param_value) list" where
  "action_params to_number s =
     (if bulk_action s = ''update_limits'' then limit_params to_number (bulk_limits s)
      else if bulk_action s = ''notify'' then [(''subject'', PText (trim (bulk_subject s))), (''body'', PText (trim (bulk_body s)))]
      else [])"

record bulk_request =
  br_action :: jsstring
  br_usernames :: "jsstring list"
  br_params :: "(jsstring \<times> param_value) list"

definition bulk_request_of :: "(jsstring \<Rightarrow> rat) \<Rightarrow> jsstring list \<Rightarrow> bulk_bar \<Rightarrow> bulk_request" where
  "bulk_request_of to_number selected s =
     \<lparr>br_action = bulk_action s, br_usernames = selected, br_params = action_params to_number s\<rparr>"

definition job_running :: "json \<Rightarrow> bool" where
  "job_running job \<longleftrightarrow> jget job ''status'' \<in> {JStr ''pending'', JStr ''running''}"

definition job_finished :: "json \<Rightarrow> bool" where
  "job_finished job \<longleftrightarrow> jget job ''status'' \<in> {JStr ''completed'', JStr ''failed''}"

definition bulk_running :: "bulk_bar \<Rightarrow> bool" where
  "bulk_running s \<longleftrightarrow> isPending (bulk_trigger s) \<or> job_running (bulk_job s)"

definition bulk_poll :: "bulk_bar \<Rightarrow> nat option" where
  "bulk_poll s = (if job_running (bulk_job s) then Some 1500 else None)"

datatype bulk_event =
    ChooseAction jsstring
  | TypeLimits limits_form
  | TypeNotice jsstring jsstring
  | ApplyBulk
  | DismissBulk
  | ConfirmBulk
  | BulkStarted json
  | BulkRefused jsstring
  | BulkJobArrives json
  | ClearSelection

definition bulk_confirm_title :: "jsstring list \<Rightarrow> bulk_bar \<Rightarrow> jsstring" where
  "bulk_confirm_title selected s =
     ''Apply '' @ replace_char (CHR ''_'') (CHR '' '') (bulk_action s) @ '' to '' @ show_nat (length selected) @ '' accounts?''"

definition bulk_confirm_text :: "jsstring list \<Rightarrow> jsstring" where
  "bulk_confirm_text selected =
     ''Accounts: '' @ join_with '', '' selected @
     ''. Changes run in order and stop if an account fails. Individual results appear below.''"

fun bulk_offered :: "bulk_bar \<Rightarrow> bulk_event \<Rightarrow> bool" where
  "bulk_offered s (ChooseAction a) = (a \<in> fst ` set bulk_actions)"
| "bulk_offered s (TypeLimits l) = (bulk_action s = ''update_limits'')"
| "bulk_offered s (TypeNotice subj txt) = (bulk_action s = ''notify'')"
| "bulk_offered s ApplyBulk = (\<not> bulk_running s)"
| "bulk_offered s DismissBulk = (bulk_confirm_open s \<and> \<not> isPending (bulk_trigger s))"
| "bulk_offered s ConfirmBulk = (bulk_confirm_open s \<and> \<not> isPending (bulk_trigger s))"
| "bulk_offered s (BulkStarted j) = isPending (bulk_trigger s)"
| "bulk_offered s (BulkRefused e) = isPending (bulk_trigger s)"
| "bulk_offered s (BulkJobArrives j) = (\<not> nullish (bulk_job_id s) \<and> jget j ''id'' = bulk_job_id s)"
| "bulk_offered s ClearSelection = (\<not> bulk_running s)"

text \<open>The query is keyed by the job's identifier: another identifier starts without data. Selecting
  nothing takes the bar away.\<close>

fun bulk_step :: "(jsstring \<Rightarrow> rat) \<Rightarrow> bulk_event \<Rightarrow> jsstring list \<times> bulk_bar
     \<Rightarrow> (jsstring list \<times> bulk_bar) \<times> bulk_request list \<times> page_effect list" where
  "bulk_step num (ChooseAction a) (sel, s) = ((sel, s\<lparr>bulk_action := a, bulk_job_id := JNull, bulk_job := JUndef\<rparr>), [], [])"
| "bulk_step num (TypeLimits l) (sel, s) = ((sel, s\<lparr>bulk_limits := l\<rparr>), [], [])"
| "bulk_step num (TypeNotice subj txt) (sel, s) = ((sel, s\<lparr>bulk_subject := subj, bulk_body := txt\<rparr>), [], [])"
| "bulk_step num ApplyBulk (sel, s) = ((sel, s\<lparr>bulk_confirm_open := True\<rparr>), [], [])"
| "bulk_step num DismissBulk (sel, s) = ((sel, s\<lparr>bulk_confirm_open := False\<rparr>), [], [])"
| "bulk_step num ConfirmBulk (sel, s) = ((sel, s\<lparr>bulk_trigger := mutate (bulk_trigger s)\<rparr>), [bulk_request_of num sel s], [])"
| "bulk_step num (BulkStarted j) (sel, s) =
     ((sel, s\<lparr>bulk_trigger := settle_ok (bulk_trigger s), bulk_confirm_open := False, bulk_job_id := jget j ''id'',
              bulk_job := (if bulk_job_id s = jget j ''id'' then bulk_job s else JUndef)\<rparr>), [],
      [Toast Success ''Bulk action started'' (show_nat (length sel) @ '' accounts'')])"
| "bulk_step num (BulkRefused e) (sel, s) =
     ((sel, s\<lparr>bulk_trigger := settle_error e (bulk_trigger s)\<rparr>), [], [Toast ErrorTone ''Could not start bulk action'' e])"
| "bulk_step num (BulkJobArrives j) (sel, s) =
     ((sel, s\<lparr>bulk_job := j\<rparr>), [],
      if job_finished j \<and> \<not> (job_finished (bulk_job s) \<and> jget (bulk_job s) ''id'' = jget j ''id'')
      then [Invalidate [''accounts'']] else [])"
| "bulk_step num ClearSelection (sel, s) = (([], initial_bulk), [], [])"

inductive bulk_reach :: "(jsstring \<Rightarrow> rat) \<Rightarrow> jsstring list \<times> bulk_bar \<Rightarrow> bulk_request list \<Rightarrow> bool" for num where
  fresh: "bulk_reach num (sel, initial_bulk) []"
| step: "bulk_reach num (sel, s) sent \<Longrightarrow> bulk_offered s e \<Longrightarrow>
     bulk_reach num (fst (bulk_step num e (sel, s))) (sent @ fst (snd (bulk_step num e (sel, s))))"
| select: "bulk_reach num (sel, s) sent \<Longrightarrow> sel' \<noteq> [] \<Longrightarrow> bulk_reach num (sel', s) sent"

definition params_fit :: "bulk_request \<Rightarrow> bool" where
  "params_fit r \<longleftrightarrow>
     br_action r \<in> fst ` set bulk_actions \<and>
     set (map fst (br_params r)) \<subseteq>
       (if br_action r = ''update_limits'' then {''cpu_pct'', ''mem_mb'', ''io_mb'', ''pids_max''}
        else if br_action r = ''notify'' then {''subject'', ''body''} else {})"

lemma params_fit_request:
  "bulk_action s \<in> fst ` set bulk_actions \<Longrightarrow> params_fit (bulk_request_of num sel s)"
  by (auto simp: params_fit_def bulk_request_of_def action_params_def limit_params_def)

lemma bulk_action_known: "bulk_reach num ss sent \<Longrightarrow> bulk_action (snd ss) \<in> fst ` set bulk_actions"
proof (induction rule: bulk_reach.induct)
  case (fresh sel)
  then show ?case by (simp add: initial_bulk_def bulk_actions_def)
next
  case (step sel s sent e)
  then show ?case by (cases e) (auto simp: initial_bulk_def bulk_actions_def)
next
  case (select sel s sent sel')
  then show ?case by simp
qed

text \<open>Every bulk request names a known action and carries only the parameters of that action,
  whatever was typed into the forms of the others; and while one is being sent no other leaves.\<close>

theorem bulk_requests_fit:
  assumes "bulk_reach num ss sent"
  shows "list_all params_fit sent \<and> (isPending (bulk_trigger (snd ss)) \<longrightarrow> \<not> bulk_offered (snd ss) ConfirmBulk)"
  using assms
proof (induction rule: bulk_reach.induct)
  case (fresh sel)
  then show ?case by (simp add: initial_bulk_def idle_def)
next
  case (step sel s sent e)
  have "bulk_action s \<in> fst ` set bulk_actions" using bulk_action_known[OF step.hyps(1)] by simp
  then have "params_fit (bulk_request_of num sel s)" by (rule params_fit_request)
  with step.IH show ?case by (cases e) auto
next
  case (select sel s sent sel')
  then show ?case by simp
qed

theorem bulk_requests_fit_witness:
  "list_all params_fit [bulk_request_of (\<lambda>_. 2) [''alice''] (initial_bulk\<lparr>bulk_confirm_open := True\<rparr>)]"
proof -
  have 1: "bulk_reach (\<lambda>_. 2) ([''alice''], initial_bulk) []" by (rule bulk_reach.fresh)
  have 2: "bulk_reach (\<lambda>_. 2) ([''alice''], initial_bulk\<lparr>bulk_confirm_open := True\<rparr>) []"
    using bulk_reach.step[OF 1, of ApplyBulk]
    by (simp add: bulk_running_def job_running_def initial_bulk_def idle_def)
  have 3: "bulk_reach (\<lambda>_. 2) ([''alice''], (initial_bulk\<lparr>bulk_confirm_open := True\<rparr>)\<lparr>bulk_trigger := mutate idle\<rparr>)
      [bulk_request_of (\<lambda>_. 2) [''alice''] (initial_bulk\<lparr>bulk_confirm_open := True\<rparr>)]"
    using bulk_reach.step[OF 2, of ConfirmBulk]
    by (simp add: initial_bulk_def idle_def)
  show ?thesis using bulk_requests_fit[OF 3] by blast
qed

section \<open>Selection\<close>

definition shown_accounts :: "json list \<Rightarrow> json list" where
  "shown_accounts data = filter (\<lambda>a. jget a ''status'' \<noteq> JStr ''terminated'') data"

definition usernames_of :: "json list \<Rightarrow> jsstring list" where
  "usernames_of accounts = map (\<lambda>a. js_String (jget a ''username'')) accounts"

definition toggle_selected :: "jsstring \<Rightarrow> jsstring list \<Rightarrow> jsstring list" where
  "toggle_selected u sel = (if u \<in> set sel then filter (\<lambda>x. x \<noteq> u) sel else sel @ [u])"

definition allSelected :: "jsstring list \<Rightarrow> jsstring list \<Rightarrow> bool" where
  "allSelected allOnPage sel \<longleftrightarrow> allOnPage \<noteq> [] \<and> list_all (\<lambda>u. u \<in> set sel) allOnPage"

definition toggle_all :: "jsstring list \<Rightarrow> jsstring list \<Rightarrow> jsstring list" where
  "toggle_all allOnPage sel = (if allSelected allOnPage sel then [] else remdups allOnPage)"

lemma toggle_twice: "distinct sel \<Longrightarrow> set (toggle_selected u (toggle_selected u sel)) = set sel"
  by (auto simp: toggle_selected_def)

text \<open>The box in the header takes every account of the server, not the ones of the page or of the
  search, although the list it works on is called \<open>allOnPage\<close>.\<close>

lemma header_box_selects_all_pages:
  "\<not> allSelected (usernames_of accounts) sel \<Longrightarrow>
     set (toggle_all (usernames_of accounts) sel) = set (usernames_of accounts)"
  by (simp add: toggle_all_def)

text \<open>An account that disappeared stays selected and is part of the next bulk request.\<close>

lemma stale_selection_is_sent:
  "br_usernames (bulk_request_of num sel s) = sel"
  by (simp add: bulk_request_of_def)

section \<open>Reseller\<close>

definition owner_id :: "json \<Rightarrow> json" where
  "owner_id account = js_or (jget (jget account ''reseller'') ''id'') (JStr [])"

definition reseller_options :: "json list \<Rightarrow> json \<Rightarrow> json list" where
  "reseller_options resellers account =
     filter (\<lambda>r. jget r ''status'' = JStr ''active'' \<or> jget r ''id'' = jget (jget account ''reseller'') ''id'') resellers"

definition reseller_save_disabled :: "jsstring \<Rightarrow> json \<Rightarrow> bool \<Rightarrow> bool" where
  "reseller_save_disabled owner account pending \<longleftrightarrow> owner = js_String (owner_id account) \<or> pending"

definition reseller_request :: "(jsstring \<Rightarrow> int) \<Rightarrow> jsstring \<Rightarrow> json \<Rightarrow> jsstring \<times> json" where
  "reseller_request to_number owner account =
     (''/api/v1/admin/resellers/accounts/'' @ js_String (jget account ''username''),
      if owner = [] then JNull else js_or (JNum (to_number owner)) JNull)"

section \<open>Website isolation for all accounts\<close>

record isolation_dialog =
  nsOpen :: bool
  ns_job_id :: json
  ns_notified :: json
  ns_mut :: mutation
  ns_job :: json

definition initial_isolation :: isolation_dialog where
  "initial_isolation = \<lparr>nsOpen = False, ns_job_id = JNull, ns_notified = JNull, ns_mut = idle, ns_job = JUndef\<rparr>"

definition ns_running :: "isolation_dialog \<Rightarrow> bool" where
  "ns_running s \<longleftrightarrow> isPending (ns_mut s) \<or> (truthy (ns_job s) \<and> job_running (ns_job s))"

definition ns_finished :: "isolation_dialog \<Rightarrow> bool" where
  "ns_finished s \<longleftrightarrow> truthy (ns_job s) \<and> job_finished (ns_job s)"

definition resetBulk :: "isolation_dialog \<Rightarrow> isolation_dialog" where
  "resetBulk s = s\<lparr>ns_job_id := JNull, ns_job := JUndef, ns_notified := JNull, ns_mut := idle\<rparr>"

definition job_counts :: "json \<Rightarrow> jsstring" where
  "job_counts job = js_String (jget job ''completed_count'') @ '' / '' @ js_String (jget job ''total'')"

definition finish_toast :: "json \<Rightarrow> page_effect" where
  "finish_toast job =
     (if jget job ''status'' = JStr ''completed''
      then Toast Success ''Namespace isolation enabled'' (job_counts job @ '' accounts enabled.'')
      else Toast ErrorTone ''Bulk-enable stopped''
             (js_String (js_or (jget job ''error'') (JStr (''Stopped after '' @ job_counts job @ '' accounts.'')))))"

definition ns_effect :: "isolation_dialog \<Rightarrow> isolation_dialog \<times> page_effect list" where
  "ns_effect s =
     (if \<not> ns_finished s \<or> ns_notified s = jget (ns_job s) ''id'' then (s, [])
      else (s\<lparr>ns_notified := jget (ns_job s) ''id''\<rparr>, [finish_toast (ns_job s), Invalidate [''accounts'']]))"

datatype ns_event = OpenIsolation | CloseIsolation | ConfirmIsolation | IsolationStarted json | IsolationRefused jsstring | IsolationJob json

fun ns_offered :: "isolation_dialog \<Rightarrow> ns_event \<Rightarrow> bool" where
  "ns_offered s OpenIsolation = True"
| "ns_offered s CloseIsolation = (nsOpen s \<and> \<not> ns_running s)"
| "ns_offered s ConfirmIsolation = (nsOpen s \<and> \<not> ns_running s)"
| "ns_offered s (IsolationStarted j) = isPending (ns_mut s)"
| "ns_offered s (IsolationRefused e) = isPending (ns_mut s)"
| "ns_offered s (IsolationJob j) = (truthy (ns_job_id s) \<and> jget j ''id'' = ns_job_id s)"

fun ns_step :: "ns_event \<Rightarrow> isolation_dialog \<Rightarrow> isolation_dialog \<times> page_effect list" where
  "ns_step OpenIsolation s = (s\<lparr>nsOpen := True\<rparr>, [])"
| "ns_step CloseIsolation s = ((if ns_running s then s\<lparr>nsOpen := False\<rparr> else resetBulk (s\<lparr>nsOpen := False\<rparr>)), [])"
| "ns_step ConfirmIsolation s =
     (if ns_finished s then (resetBulk (s\<lparr>nsOpen := False\<rparr>), [])
      else if \<not> truthy (ns_job_id s)
      then (s\<lparr>ns_mut := mutate (ns_mut s)\<rparr>, [Send (POST ''/api/v1/accounts/namespace/bulk-enable'' [])])
      else (s, []))"
| "ns_step (IsolationStarted j) s =
     (s\<lparr>ns_mut := settle_ok (ns_mut s), ns_notified := JNull, ns_job_id := jget j ''id'', ns_job := JUndef\<rparr>, [])"
| "ns_step (IsolationRefused e) s =
     (s\<lparr>ns_mut := settle_error e (ns_mut s)\<rparr>, [Toast ErrorTone ''Could not start bulk-enable'' e])"
| "ns_step (IsolationJob j) s = ns_effect (s\<lparr>ns_job := j\<rparr>)"

definition ns_confirm_label :: "isolation_dialog \<Rightarrow> jsstring" where
  "ns_confirm_label s =
     (if ns_finished s then ''Close'' else if ns_running s then ''Enabling'' @ [ellipsis] else ''Enable for all eligible'')"

text \<open>While the enabling runs the dialog can neither be closed nor confirmed again, so a second job is
  never started beside a running one; and the end of a job is reported once.\<close>

lemma isolation_single_job:
  "ns_running s \<Longrightarrow> \<not> ns_offered s ConfirmIsolation \<and> \<not> ns_offered s CloseIsolation"
  by simp

lemma isolation_reported_once:
  assumes "ns_step (IsolationJob j) s = (s1, es1)" "ns_step (IsolationJob j) s1 = (s2, es2)"
  shows "es2 = []"
  using assms by (auto simp: ns_effect_def ns_finished_def split: if_splits)

section \<open>The table\<close>

definition reseller_name :: "json \<Rightarrow> json" where
  "reseller_name r = js_or (jget (jget r ''reseller'') ''username'') (JStr ''admin'')"

definition text_or_dash :: "jsstring \<Rightarrow> json \<Rightarrow> jsstring" where
  "text_or_dash k r = (if truthy (jget r k) then js_String (jget r k) else [em_dash])"

definition plain_column :: "jsstring \<Rightarrow> jsstring option \<Rightarrow> bool option \<Rightarrow> bool \<Rightarrow> column" where
  "plain_column k h search sorts =
     \<lparr>ckey = k, header = h, searchable = search, sortable = sorts, searchValue = None, sortValue = None, render = None\<rparr>"

definition account_columns :: "(json \<Rightarrow> jsstring) \<Rightarrow> column list" where
  "account_columns formatDate =
     [plain_column ''select'' None (Some False) False,
      (plain_column ''username'' (Some ''Username'') (Some True) True)\<lparr>render := Some (\<lambda>r.
         js_String (jget r ''username'') @ '' '' @
         js_String (js_or (jget r ''primary_domain'') (JStr ''No primary domain'')))\<rparr>,
      (plain_column ''status'' (Some ''Status'') None True)\<lparr>render := Some (\<lambda>r. snd (statusBadge (jget r ''status'') None))\<rparr>,
      (plain_column ''primary_domain'' (Some ''Primary domain'') (Some True) False)\<lparr>render := Some (text_or_dash ''primary_domain'')\<rparr>,
      (plain_column ''server_ip'' (Some ''Server IP'') (Some True) False)\<lparr>render := Some (text_or_dash ''server_ip'')\<rparr>,
      (plain_column ''reseller'' (Some ''Reseller'') (Some True) False)\<lparr>searchValue := Some reseller_name,
         render := Some (\<lambda>r. js_String (js_or (jget (jget r ''reseller'') ''username'') (JStr ''Admin owned'')))\<rparr>,
      (plain_column ''created_at'' (Some ''Created'') None True)\<lparr>render := Some (\<lambda>r.
         if truthy (jget r ''created_at'') then formatDate (jget r ''created_at'') else [em_dash])\<rparr>,
      (plain_column ''actions'' (Some []) (Some False) False)]"

definition account_table :: "(json \<Rightarrow> jsstring) \<Rightarrow> params \<Rightarrow> bool \<Rightarrow> bool \<Rightarrow> json list \<Rightarrow> table_props" where
  "account_table formatDate ps isLoading isError data =
     \<lparr>columns = account_columns formatDate, rows = shown_accounts data, loading = isLoading, failed = isError,
      filterable = True, pageSize = 15, controlledQuery = Given (listQuery ps), controlledSort = Given (listSort ps),
      controlledPage = Given (listPage ps), emptyTitle = ''No accounts yet'',
      emptyDescription = ''Create your first hosting account to get started.'', hasEmptyAction = True,
      clickable = True, columnPicker = True\<rparr>"

definition initial_account_table :: table_state where
  "initial_account_table = initial_table [''primary_domain'', ''server_ip'', ''created_at''] None"

text \<open>The list page keeps the table's contract: its page is always at least 1, the user name column
  cannot be hidden, and no terminated account is shown or selected by the header.\<close>

theorem account_list_safe:
  "props_ok (account_table fd ps l f data) \<and> picker_disabled (account_table fd ps l f data) ''username'' \<and>
   ''username'' \<notin> set (hiddenColumns initial_account_table) \<and>
   list_all (\<lambda>a. jget a ''status'' \<noteq> JStr ''terminated'') (rows (account_table fd ps l f data)) \<and>
   set (filtered lc (account_table fd ps l f data) s) \<subseteq> set (rows (account_table fd ps l f data))"
proof -
  have "set (filtered lc p s) \<subseteq> set (rows p)" for p
    using set_filtered[of lc p s, THEN arg_cong, of set_mset] by (auto simp: filter_rows_def)
  moreover have "props_ok (account_table fd ps l f data)"
    by (simp add: props_ok_def account_table_def listPage_def)
  moreover have "picker_disabled (account_table fd ps l f data) ''username''"
    by (simp add: picker_disabled_def account_table_def account_columns_def plain_column_def)
  moreover have "''username'' \<notin> set (hiddenColumns initial_account_table)"
    by (simp add: initial_account_table_def initial_table_def)
  moreover have "list_all (\<lambda>a. jget a ''status'' \<noteq> JStr ''terminated'') (rows (account_table fd ps l f data))"
    by (simp add: account_table_def shown_accounts_def list_all_iff)
  ultimately show ?thesis by blast
qed

definition count_text :: "bool \<Rightarrow> bool \<Rightarrow> json list \<Rightarrow> jsstring" where
  "count_text isLoading isError accounts =
     (if isLoading then ''Loading accounts'' @ [ellipsis] else if isError then ''Accounts unavailable''
      else show_nat (length accounts) @ '' '' @ (if length accounts = 1 then ''account'' else ''accounts''))"

definition update_banner :: "json \<Rightarrow> jsstring option" where
  "update_banner updateStatus =
     (if truthy (jget updateStatus ''update_available'')
      then Some (''Boron v'' @ js_String (jget updateStatus ''latest_version'') @ '' is available (you are on v'' @
                 js_String (jget updateStatus ''current_version'') @ '').'')
      else None)"

end
