(* ===== verification/Cron_Page.thy ===== *)
theory Cron_Page
  imports Ui_Kit Format
begin

text \<open>
  \<open>pages/customer/Cron.jsx\<close>: the schedule builder, its preview, and the dialogs for creating,
  editing and deleting cron jobs. The preview is compared with the description the server computes
  (\<open>daemon/cron.py\<close>), which it is meant to mirror.

  A schedule that is the name of a member every JavaScript object inherits (such as
  \<open>constructor\<close>) is outside the model of the nickname table.
\<close>

section \<open>Words of a schedule\<close>

fun split_where :: "(char \<Rightarrow> bool) \<Rightarrow> jsstring \<Rightarrow> jsstring list" where
  "split_where P [] = [[]]"
| "split_where P (c # cs) =
     (if P c then [] # split_where P cs
      else (case split_where P cs of [] \<Rightarrow> [[c]] | w # ws \<Rightarrow> (c # w) # ws))"

text \<open>Splitting at runs of white space: empty pieces only at the two ends.\<close>

definition inner_pieces :: "jsstring list \<Rightarrow> jsstring list" where
  "inner_pieces ws =
     (case ws of [] \<Rightarrow> [] | [w] \<Rightarrow> [w]
      | w # rest \<Rightarrow> w # filter (\<lambda>v. v \<noteq> []) (butlast rest) @ [last rest])"

definition split_spaces :: "jsstring \<Rightarrow> jsstring list" where
  "split_spaces s = inner_pieces (split_where is_space s)"

section \<open>The preview\<close>

definition nicknames :: "(jsstring \<times> jsstring) list" where
  "nicknames =
     [(''@yearly'', ''Once a year, at midnight on January 1st''),
      (''@annually'', ''Once a year, at midnight on January 1st''),
      (''@monthly'', ''Once a month, at midnight on the 1st''),
      (''@weekly'', ''Once a week, at midnight on Sunday''),
      (''@daily'', ''Every day at midnight''),
      (''@midnight'', ''Every day at midnight''),
      (''@hourly'', ''Every hour, on the hour'')]"

definition WEEKDAY_NAMES :: "jsstring list" where
  "WEEKDAY_NAMES = [''Sunday'', ''Monday'', ''Tuesday'', ''Wednesday'', ''Thursday'', ''Friday'', ''Saturday'']"

definition MONTH_NAMES :: "jsstring list" where
  "MONTH_NAMES = [[], ''January'', ''February'', ''March'', ''April'', ''May'', ''June'', ''July'', ''August'',
     ''September'', ''October'', ''November'', ''December'']"

definition isDigits :: "jsstring \<Rightarrow> bool" where
  "isDigits s \<longleftrightarrow> s \<noteq> [] \<and> list_all is_digit s"

definition nat_of_digits :: "jsstring \<Rightarrow> nat" where
  "nat_of_digits ds = foldl (\<lambda>acc c. acc * 10 + (code c - 48)) 0 ds"

definition padStart2 :: "jsstring \<Rightarrow> jsstring" where
  "padStart2 s = replicate (2 - length s) (CHR ''0'') @ s"

definition fmtTime :: "jsstring \<Rightarrow> jsstring \<Rightarrow> jsstring" where
  "fmtTime h m = padStart2 (show_nat (nat_of_digits h)) @ '':'' @ padStart2 (show_nat (nat_of_digits m))"

definition step_of :: "jsstring \<Rightarrow> nat option" where
  "step_of minute =
     (if startsWith minute ''*/'' \<and> isDigits (drop 2 minute) then Some (nat_of_digits (drop 2 minute)) else None)"

abbreviation star :: jsstring where
  "star \<equiv> ''*''"

definition describe_fields :: "jsstring \<Rightarrow> jsstring \<Rightarrow> jsstring \<Rightarrow> jsstring \<Rightarrow> jsstring \<Rightarrow> jsstring" where
  "describe_fields minute hour day month dow =
     (if minute = star \<and> hour = star \<and> day = star \<and> month = star \<and> dow = star then ''Every minute''
      else if step_of minute \<noteq> None \<and> hour = star \<and> day = star \<and> month = star \<and> dow = star
      then (case step_of minute of None \<Rightarrow> []
            | Some n \<Rightarrow> if n \<le> 1 then ''Every minute'' else ''Every '' @ show_nat n @ '' minutes'')
      else if isDigits minute \<and> hour = star \<and> day = star \<and> month = star \<and> dow = star
      then (if minute = ''0'' then ''Every hour, on the hour''
            else ''Every hour, at minute '' @ show_nat (nat_of_digits minute))
      else if isDigits minute \<and> isDigits hour \<and> day = star \<and> month = star \<and> dow = star
      then ''Every day at '' @ fmtTime hour minute
      else if isDigits minute \<and> isDigits hour \<and> isDigits dow \<and> day = star \<and> month = star
      then ''Every '' @ WEEKDAY_NAMES ! (nat_of_digits dow mod 7) @ '' at '' @ fmtTime hour minute
      else if isDigits minute \<and> isDigits hour \<and> isDigits day \<and> month = star \<and> dow = star
      then ''On day '' @ show_nat (nat_of_digits day) @ '' of every month at '' @ fmtTime hour minute
      else if isDigits minute \<and> isDigits hour \<and> isDigits day \<and> isDigits month \<and> dow = star
      then (let mi = nat_of_digits month
            in ''Once a year on '' @ (if 1 \<le> mi \<and> mi \<le> 12 then MONTH_NAMES ! mi else month) @ '' '' @
               show_nat (nat_of_digits day) @ '' at '' @ fmtTime hour minute)
      else ''Custom schedule'')"

definition describeScheduleLocally :: "jsstring \<Rightarrow> jsstring" where
  "describeScheduleLocally schedule =
     (let trimmed = trim schedule in
      case map_of nicknames trimmed of
        Some d \<Rightarrow> d
      | None \<Rightarrow>
          (case split_spaces trimmed of
             [minute, hour, day, month, dow] \<Rightarrow> describe_fields minute hour day month dow
           | _ \<Rightarrow> ''Custom schedule''))"

section \<open>The server's description\<close>

text \<open>
  Python's \<open>isdigit\<close> also holds for the superscript digits, and its white space includes four
  separator codes and the next-line code; within the printable range the two languages agree.
\<close>

definition py_digit :: "char \<Rightarrow> bool" where
  "py_digit c \<longleftrightarrow> is_digit c \<or> code c \<in> {178, 179, 185}"

definition py_space :: "char \<Rightarrow> bool" where
  "py_space c \<longleftrightarrow> is_space c \<or> (28 \<le> code c \<and> code c \<le> 31) \<or> code c = 133"

definition py_isdigit :: "jsstring \<Rightarrow> bool" where
  "py_isdigit s \<longleftrightarrow> s \<noteq> [] \<and> list_all py_digit s"

definition py_split :: "jsstring \<Rightarrow> jsstring list" where
  "py_split s = filter (\<lambda>w. w \<noteq> []) (split_where py_space s)"

definition py_strip :: "jsstring \<Rightarrow> jsstring" where
  "py_strip s = rev (dropWhile py_space (rev (dropWhile py_space s)))"

definition two_digits :: "nat \<Rightarrow> jsstring" where
  "two_digits n = (if n < 10 then ''0'' @ show_nat n else show_nat n)"

definition py_time :: "jsstring \<Rightarrow> jsstring \<Rightarrow> jsstring" where
  "py_time h m = two_digits (nat_of_digits h) @ '':'' @ two_digits (nat_of_digits m)"

definition py_step :: "jsstring \<Rightarrow> nat option" where
  "py_step minute =
     (case minute of
        a # b # rest \<Rightarrow>
          if a = CHR ''*'' \<and> b = CHR ''/'' \<and> rest \<noteq> [] \<and> list_all is_digit rest then Some (nat_of_digits rest) else None
      | _ \<Rightarrow> None)"

definition py_fields :: "jsstring \<Rightarrow> jsstring \<Rightarrow> jsstring \<Rightarrow> jsstring \<Rightarrow> jsstring \<Rightarrow> jsstring" where
  "py_fields minute hour day month dow =
     (if [minute, hour, day, month, dow] = [star, star, star, star, star] then ''Every minute''
      else (case (py_step minute, [hour, day, month, dow] = [star, star, star, star]) of
        (Some n, True) \<Rightarrow> if n \<le> 1 then ''Every minute'' else ''Every '' @ show_nat n @ '' minutes''
      | _ \<Rightarrow>
          if py_isdigit minute \<and> [hour, day, month, dow] = [star, star, star, star]
          then (if minute = ''0'' then ''Every hour, on the hour''
                else ''Every hour, at minute '' @ show_nat (nat_of_digits minute))
          else if py_isdigit minute \<and> py_isdigit hour \<and> [day, month, dow] = [star, star, star]
          then ''Every day at '' @ py_time hour minute
          else if py_isdigit minute \<and> py_isdigit hour \<and> py_isdigit dow \<and> [day, month] = [star, star]
          then ''Every '' @ WEEKDAY_NAMES ! (nat_of_digits dow mod 7) @ '' at '' @ py_time hour minute
          else if py_isdigit minute \<and> py_isdigit hour \<and> py_isdigit day \<and> [month, dow] = [star, star]
          then ''On day '' @ show_nat (nat_of_digits day) @ '' of every month at '' @ py_time hour minute
          else if py_isdigit minute \<and> py_isdigit hour \<and> py_isdigit day \<and> py_isdigit month \<and> dow = star
          then ''Once a year on '' @
            (if 1 \<le> nat_of_digits month \<and> nat_of_digits month \<le> 12 then MONTH_NAMES ! nat_of_digits month else month) @
            '' '' @ show_nat (nat_of_digits day) @ '' at '' @ py_time hour minute
          else ''Custom schedule''))"

definition describe_schedule :: "jsstring \<Rightarrow> jsstring" where
  "describe_schedule schedule =
     (let s = py_strip schedule; parts = py_split s in
      if s \<in> fst ` set nicknames then (case map_of nicknames s of Some d \<Rightarrow> d | None \<Rightarrow> [])
      else if length parts \<noteq> 5 then ''Custom schedule''
      else py_fields (parts ! 0) (parts ! 1) (parts ! 2) (parts ! 3) (parts ! 4))"

definition plain_char :: "char \<Rightarrow> bool" where
  "plain_char c \<longleftrightarrow> (9 \<le> code c \<and> code c \<le> 13) \<or> (32 \<le> code c \<and> code c \<le> 126)"

lemma plain_agree: "plain_char c \<Longrightarrow> py_space c = is_space c \<and> py_digit c = is_digit c"
  by (auto simp: plain_char_def py_space_def is_space_def py_digit_def is_digit_def)

lemma dropWhile_agree:
  "list_all plain_char s \<Longrightarrow> dropWhile py_space s = dropWhile is_space s \<and> list_all plain_char (dropWhile is_space s)"
  by (induction s) (auto simp: plain_agree)

lemma py_strip_plain: "list_all plain_char s \<Longrightarrow> py_strip s = trim s \<and> list_all plain_char (trim s)"
  using dropWhile_agree[of s] dropWhile_agree[of "rev (dropWhile is_space s)"]
  by (auto simp: py_strip_def trim_def)

lemma split_where_nonempty [simp]: "split_where P s \<noteq> []"
  by (induction s) (auto split: list.split)

lemma split_where_cong: "(\<And>c. c \<in> set s \<Longrightarrow> P c = Q c) \<Longrightarrow> split_where P s = split_where Q s"
  by (induction s) auto

lemma split_where_chars: "w \<in> set (split_where P s) \<Longrightarrow> set w \<subseteq> set s"
proof (induction s arbitrary: w)
  case Nil
  then show ?case by simp
next
  case (Cons c cs)
  obtain v vs where v: "split_where P cs = v # vs" by (cases "split_where P cs") auto
  have "\<And>u. u \<in> set (v # vs) \<Longrightarrow> set u \<subseteq> set cs" using Cons.IH v by simp
  then have "set v \<subseteq> set cs" "\<And>u. u \<in> set vs \<Longrightarrow> set u \<subseteq> set cs" by auto
  then show ?case using Cons.prems v by (cases "P c") auto
qed

lemma split_where_hd: "s \<noteq> [] \<Longrightarrow> \<not> P (hd s) \<Longrightarrow> hd (split_where P s) \<noteq> []"
  by (cases s) (auto split: list.split)

lemma split_where_last: "s \<noteq> [] \<Longrightarrow> \<not> P (last s) \<Longrightarrow> last (split_where P s) \<noteq> []"
proof (induction s)
  case Nil
  then show ?case by simp
next
  case (Cons c cs)
  obtain v vs where v: "split_where P cs = v # vs" by (cases "split_where P cs") auto
  show ?case
  proof (cases "cs = []")
    case True
    with Cons.prems show ?thesis by simp
  next
    case False
    with Cons.IH Cons.prems v have "last (v # vs) \<noteq> []" by simp
    with v show ?thesis by (cases vs) auto
  qed
qed

lemma pieces_of_trimmed:
  assumes "trim s = s" "s \<noteq> []"
  shows "split_spaces s = filter (\<lambda>w. w \<noteq> []) (split_where is_space s)"
proof -
  have h: "hd (split_where is_space s) \<noteq> []" "last (split_where is_space s) \<noteq> []"
    using split_where_hd[of s is_space] split_where_last[of s is_space] trim_hd_not_space[of s]
      trim_last_not_space[of s] assms by auto
  obtain w ws where w: "split_where is_space s = w # ws" by (cases "split_where is_space s") auto
  show ?thesis
  proof (cases ws rule: rev_cases)
    case Nil
    with w h show ?thesis by (simp add: split_spaces_def inner_pieces_def)
  next
    case (snoc us u)
    have "inner_pieces (w # us @ [u]) = w # filter (\<lambda>v. v \<noteq> []) us @ [u]"
      by (cases us) (simp_all add: inner_pieces_def)
    with snoc w h show ?thesis by (simp add: split_spaces_def)
  qed
qed

lemma show_nat_length: "n < 10 \<Longrightarrow> length (show_nat n) = 1" "10 \<le> n \<Longrightarrow> 2 \<le> length (show_nat n)"
proof -
  show "n < 10 \<Longrightarrow> length (show_nat n) = 1" by (simp add: show_nat.simps)
  have "show_nat k \<noteq> []" for k by (subst show_nat.simps) simp
  then have "0 < length (show_nat (n div 10))" by simp
  moreover assume "10 \<le> n"
  ultimately show "2 \<le> length (show_nat n)" by (subst show_nat.simps) (simp add: Suc_le_eq)
qed

lemma pad_two: "padStart2 (show_nat n) = two_digits n"
  using show_nat_length[of n] by (cases "n < 10") (simp_all add: padStart2_def two_digits_def)

lemma py_step_eq: "py_step m = step_of m"
  by (cases m; cases "tl m") (auto simp: py_step_def step_of_def startsWith_def isDigits_def split: list.split)

lemma isdigit_plain: "list_all plain_char s \<Longrightarrow> py_isdigit s = isDigits s"
  by (induction s) (auto simp: py_isdigit_def isDigits_def plain_agree)

lemma py_fields_eq:
  assumes "list_all plain_char a" "list_all plain_char b" "list_all plain_char c" "list_all plain_char d" "list_all plain_char e"
  shows "py_fields a b c d e = describe_fields a b c d e"
proof -
  have t: "py_time h m = fmtTime h m" for h m by (simp add: py_time_def fmtTime_def pad_two)
  note dg = isdigit_plain[OF assms(1)] isdigit_plain[OF assms(2)] isdigit_plain[OF assms(3)]
    isdigit_plain[OF assms(4)] isdigit_plain[OF assms(5)]
  show ?thesis
    unfolding py_fields_def describe_fields_def dg t py_step_eq Let_def list.inject simp_thms
    by (cases "step_of a"; cases "b = star"; cases "c = star"; cases "d = star"; cases "e = star";
        simp only: option.simps prod.case bool.case simp_thms if_True if_False option.distinct)
qed



lemma superscript_digits_differ:
  "describeScheduleLocally ([char_of (178 :: nat)] @ '' * * * *'') \<noteq> describe_schedule ([char_of (178 :: nat)] @ '' * * * *'')"
  by code_simp

section \<open>The form\<close>

record cron_form =
  f_minute :: jsstring
  f_hour :: jsstring
  f_dom :: jsstring
  f_month :: jsstring
  f_dow :: jsstring
  f_raw :: jsstring
  f_command :: jsstring
  f_label :: jsstring

definition EMPTY_FORM :: cron_form where
  "EMPTY_FORM =
     \<lparr>f_minute = ''0'', f_hour = ''3'', f_dom = star, f_month = star, f_dow = star, f_raw = [], f_command = [], f_label = []\<rparr>"

definition SCHEDULE_TEMPLATES :: "(jsstring \<times> jsstring list) list" where
  "SCHEDULE_TEMPLATES =
     [(''Every minute'', [star, star, star, star, star]),
      (''Every 5 minutes'', [''*/5'', star, star, star, star]),
      (''Every 15 minutes'', [''*/15'', star, star, star, star]),
      (''Every 30 minutes'', [''*/30'', star, star, star, star]),
      (''Hourly'', [''0'', star, star, star, star]),
      (''Daily'', [''0'', ''0'', star, star, star]),
      (''Weekly'', [''0'', ''0'', star, star, ''0'']),
      (''Monthly'', [''0'', ''0'', ''1'', star, star]),
      (''Custom'', [])]"

definition form_fields :: "cron_form \<Rightarrow> jsstring list" where
  "form_fields f = [f_minute f, f_hour f, f_dom f, f_month f, f_dow f]"

definition usingRaw :: "cron_form \<Rightarrow> bool" where
  "usingRaw f \<longleftrightarrow> trim (f_raw f) \<noteq> []"

definition builderValid :: "cron_form \<Rightarrow> bool" where
  "builderValid f \<longleftrightarrow> list_all (\<lambda>s. trim s \<noteq> []) (form_fields f)"

definition composedSchedule :: "cron_form \<Rightarrow> jsstring" where
  "composedSchedule f =
     (if usingRaw f then trim (f_raw f)
      else if builderValid f then join_with '' '' (map trim (form_fields f)) else [])"

definition apply_template :: "jsstring list \<Rightarrow> cron_form \<Rightarrow> cron_form" where
  "apply_template t f =
     (case t of
        [a, b, c, d, e] \<Rightarrow> f\<lparr>f_minute := a, f_hour := b, f_dom := c, f_month := d, f_dow := e, f_raw := []\<rparr>
      | _ \<Rightarrow> f)"

definition template_active :: "jsstring list \<Rightarrow> cron_form \<Rightarrow> bool" where
  "template_active t f \<longleftrightarrow> (if t \<noteq> [] then \<not> usingRaw f \<and> form_fields f = t else usingRaw f)"

definition preview :: "cron_form \<Rightarrow> jsstring \<times> jsstring" where
  "preview f =
     (if composedSchedule f \<noteq> [] then (describeScheduleLocally (composedSchedule f), composedSchedule f)
      else ([em_dash], [em_dash]))"

definition text_of :: "json \<Rightarrow> jsstring" where
  "text_of v = (if truthy v then js_String v else [])"

definition openEdit_form :: "json \<Rightarrow> cron_form" where
  "openEdit_form job =
     (let sched = text_of (jget job ''schedule'') in
      case split_spaces (trim sched) of
        [a, b, c, d, e] \<Rightarrow>
          \<lparr>f_minute = a, f_hour = b, f_dom = c, f_month = d, f_dow = e, f_raw = [],
           f_command = text_of (jget job ''command''), f_label = text_of (jget job ''label'')\<rparr>
      | _ \<Rightarrow> EMPTY_FORM\<lparr>f_raw := sched, f_command := text_of (jget job ''command''), f_label := text_of (jget job ''label'')\<rparr>)"

definition save_body :: "cron_form \<Rightarrow> (jsstring \<times> json) list" where
  "save_body f =
     [(''schedule'', JStr (composedSchedule f)), (''command'', JStr (trim (f_command f))), (''label'', JStr (trim (f_label f)))]"

definition save_disabled :: "cron_form \<Rightarrow> bool" where
  "save_disabled f \<longleftrightarrow> composedSchedule f = [] \<or> trim (f_command f) = []"

lemma split_where_words:
  "w \<in> set (split_where P s) \<Longrightarrow> \<forall>c\<in>set w. \<not> P c"
proof (induction s arbitrary: w)
  case Nil
  then show ?case by simp
next
  case (Cons c cs)
  obtain v vs where v: "split_where P cs = v # vs" by (cases "split_where P cs") auto
  then have "\<forall>x\<in>set v. \<not> P x" "\<And>u. u \<in> set vs \<Longrightarrow> \<forall>x\<in>set u. \<not> P x" using Cons.IH by auto
  then show ?case using Cons.prems v by (cases "P c") auto
qed

lemma words_trimmed:
  assumes "s \<noteq> []" "w \<in> set (split_spaces (trim s))" "trim s \<noteq> []"
  shows "trim w = w \<and> w \<noteq> []"
proof -
  have "w \<in> set (split_where is_space (trim s))" "w \<noteq> []"
    using assms pieces_of_trimmed[of "trim s"] by auto
  moreover from this have "\<forall>c\<in>set w. \<not> is_space c" by (auto dest: split_where_words)
  ultimately show ?thesis by (simp add: trim_id)
qed



text \<open>Every template but the last is described by a sentence; choosing it makes it the active one.\<close>

lemma templates_described:
  "list_all (\<lambda>(l, t). t = [] \<or>
     (template_active t (apply_template t EMPTY_FORM) \<and>
      describeScheduleLocally (composedSchedule (apply_template t EMPTY_FORM)) \<noteq> ''Custom schedule'')) SCHEDULE_TEMPLATES"
  by code_simp

text \<open>The last template, Custom, changes nothing: it does not clear the raw schedule.\<close>

lemma custom_keeps_raw: "apply_template [] f = f"
  by (simp add: apply_template_def)

section \<open>The page\<close>

record cron_page =
  c_dialogOpen :: bool
  c_editing :: json
  c_form :: cron_form
  c_toDelete :: json
  c_mailto :: jsstring
  c_mailto_loading :: bool
  saveMut :: mutation
  deleteMut :: mutation
  mailtoMut :: mutation

definition initial_cron :: cron_page where
  "initial_cron =
     \<lparr>c_dialogOpen = False, c_editing = JNull, c_form = EMPTY_FORM, c_toDelete = JNull, c_mailto = [],
      c_mailto_loading = True, saveMut = idle, deleteMut = idle, mailtoMut = idle\<rparr>"

datatype cron_event =
    OpenCreate
  | OpenEdit json
  | CloseDialog
  | EditForm cron_form
  | ChooseTemplate "jsstring list"
  | SubmitCron
  | CronSaved
  | CronRefused jsstring
  | AskDelete json
  | CancelDelete
  | ConfirmDelete
  | CronDeleted
  | DeleteRefused jsstring
  | MailtoArrives json
  | TypeMailto jsstring
  | SubmitMailto
  | MailtoSaved
  | MailtoRefused jsstring

text \<open>A request: the method, the address and the body.\<close>

datatype cron_request =
    CreateCron jsstring "(jsstring \<times> json) list"
  | PutCron jsstring "(jsstring \<times> json) list"
  | DeleteCron jsstring
  | PatchMailto jsstring jsstring

definition crons_url :: "jsstring \<Rightarrow> jsstring" where
  "crons_url username = ''/api/v1/accounts/'' @ username @ ''/crons''"

definition cron_url :: "jsstring \<Rightarrow> json \<Rightarrow> jsstring" where
  "cron_url username job = crons_url username @ ''/'' @ js_String (jget job ''id'')"

definition same_five :: "cron_form \<Rightarrow> cron_form \<Rightarrow> bool" where
  "same_five f g \<longleftrightarrow> form_fields f = form_fields g"

fun cron_offered :: "cron_page \<Rightarrow> cron_event \<Rightarrow> bool" where
  "cron_offered s OpenCreate = True"
| "cron_offered s (OpenEdit job) = truthy job"
| "cron_offered s CloseDialog = c_dialogOpen s"
| "cron_offered s (EditForm f) = (c_dialogOpen s \<and> (usingRaw (c_form s) \<longrightarrow> same_five f (c_form s)))"
| "cron_offered s (ChooseTemplate t) = (c_dialogOpen s \<and> t \<in> snd ` set SCHEDULE_TEMPLATES)"
| "cron_offered s SubmitCron =
     (c_dialogOpen s \<and> \<not> save_disabled (c_form s) \<and> f_command (c_form s) \<noteq> [] \<and> \<not> isPending (saveMut s))"
| "cron_offered s CronSaved = isPending (saveMut s)"
| "cron_offered s (CronRefused e) = isPending (saveMut s)"
| "cron_offered s (AskDelete job) = truthy job"
| "cron_offered s CancelDelete = (truthy (c_toDelete s) \<and> \<not> isPending (deleteMut s))"
| "cron_offered s ConfirmDelete = (truthy (c_toDelete s) \<and> \<not> isPending (deleteMut s))"
| "cron_offered s CronDeleted = isPending (deleteMut s)"
| "cron_offered s (DeleteRefused e) = isPending (deleteMut s)"
| "cron_offered s (MailtoArrives d) = True"
| "cron_offered s (TypeMailto v) = (\<not> c_mailto_loading s)"
| "cron_offered s SubmitMailto = (\<not> c_mailto_loading s \<and> \<not> isPending (mailtoMut s))"
| "cron_offered s MailtoSaved = isPending (mailtoMut s)"
| "cron_offered s (MailtoRefused e) = isPending (mailtoMut s)"

fun cron_step :: "jsstring \<Rightarrow> cron_event \<Rightarrow> cron_page \<Rightarrow> cron_page \<times> cron_request list \<times> page_effect list" where
  "cron_step u OpenCreate s = (s\<lparr>c_editing := JNull, c_form := EMPTY_FORM, c_dialogOpen := True\<rparr>, [], [])"
| "cron_step u (OpenEdit job) s = (s\<lparr>c_form := openEdit_form job, c_editing := job, c_dialogOpen := True\<rparr>, [], [])"
| "cron_step u CloseDialog s = (s\<lparr>c_dialogOpen := False\<rparr>, [], [])"
| "cron_step u (EditForm f) s = (s\<lparr>c_form := f\<rparr>, [], [])"
| "cron_step u (ChooseTemplate t) s = (s\<lparr>c_form := apply_template t (c_form s)\<rparr>, [], [])"
| "cron_step u SubmitCron s =
     (s\<lparr>saveMut := mutate (saveMut s)\<rparr>,
      [if truthy (c_editing s) then PutCron (cron_url u (c_editing s)) (save_body (c_form s))
       else CreateCron (crons_url u) (save_body (c_form s))], [])"
| "cron_step u CronSaved s =
     (s\<lparr>saveMut := settle_ok (saveMut s), c_dialogOpen := False, c_editing := JNull, c_form := EMPTY_FORM\<rparr>, [],
      [Toast Success (if truthy (c_editing s) then ''Cron job updated'' else ''Cron job added'') [], Invalidate [''crons'', u]])"
| "cron_step u (CronRefused e) s =
     (s\<lparr>saveMut := settle_error e (saveMut s)\<rparr>, [],
      [Toast ErrorTone (if truthy (c_editing s) then ''Could not update cron job'' else ''Could not add cron job'') e])"
| "cron_step u (AskDelete job) s = (s\<lparr>c_toDelete := job\<rparr>, [], [])"
| "cron_step u CancelDelete s = (s\<lparr>c_toDelete := JNull\<rparr>, [], [])"
| "cron_step u ConfirmDelete s = (s\<lparr>deleteMut := mutate (deleteMut s)\<rparr>, [DeleteCron (cron_url u (c_toDelete s))], [])"
| "cron_step u CronDeleted s =
     (s\<lparr>deleteMut := settle_ok (deleteMut s), c_toDelete := JNull\<rparr>, [], [Toast Success ''Cron job deleted'' [], Invalidate [''crons'', u]])"
| "cron_step u (DeleteRefused e) s =
     (s\<lparr>deleteMut := settle_error e (deleteMut s)\<rparr>, [], [Toast ErrorTone ''Could not delete cron job'' e])"
| "cron_step u (MailtoArrives d) s =
     (s\<lparr>c_mailto_loading := False, c_mailto := (if truthy d then text_of (jget d ''mailto'') else c_mailto s)\<rparr>, [], [])"
| "cron_step u (TypeMailto v) s = (s\<lparr>c_mailto := v\<rparr>, [], [])"
| "cron_step u SubmitMailto s =
     (s\<lparr>mailtoMut := mutate (mailtoMut s)\<rparr>, [PatchMailto (crons_url u @ ''/mailto'') (trim (c_mailto s))], [])"
| "cron_step u MailtoSaved s =
     (s\<lparr>mailtoMut := settle_ok (mailtoMut s)\<rparr>, [], [Toast Success ''Cron email saved'' [], Invalidate [''cron-mailto'', u]])"
| "cron_step u (MailtoRefused e) s =
     (s\<lparr>mailtoMut := settle_error e (mailtoMut s)\<rparr>, [], [Toast ErrorTone ''Could not save cron email'' e])"

inductive cron_reach :: "jsstring \<Rightarrow> cron_page \<Rightarrow> cron_request list \<Rightarrow> bool" for u where
  start: "cron_reach u initial_cron []"
| step: "cron_reach u s sent \<Longrightarrow> cron_offered s e \<Longrightarrow> cron_step u e s = (s', new, effs) \<Longrightarrow> cron_reach u s' (sent @ new)"

inductive_cases cron_reachE: "cron_reach u s sent"

definition request_complete :: "cron_request \<Rightarrow> bool" where
  "request_complete r =
     (case r of
        CreateCron url b \<Rightarrow> jget (JObj b) ''schedule'' \<noteq> JStr [] \<and> jget (JObj b) ''command'' \<noteq> JStr []
      | PutCron url b \<Rightarrow> jget (JObj b) ''schedule'' \<noteq> JStr [] \<and> jget (JObj b) ''command'' \<noteq> JStr []
      | DeleteCron url \<Rightarrow> True
      | PatchMailto url v \<Rightarrow> trim v = v)"

text \<open>Every job the page ever creates or changes has a schedule and a command, with no blanks around
  them; the MAILTO it saves has none either; and a job is deleted only through the open question
  about that very job.\<close>

theorem cron_requests_complete:
  assumes "cron_reach u s sent"
  shows "list_all request_complete sent \<and>
         (\<forall>url. cron_offered s ConfirmDelete \<and> fst (snd (cron_step u ConfirmDelete s)) = [DeleteCron url] \<longrightarrow>
            url = cron_url u (c_toDelete s))"
proof -
  have "list_all request_complete sent"
    using assms
  proof (induction rule: cron_reach.induct)
    case start
    then show ?case by simp
  next
    case (step s sent e s' new effs)
    have "list_all request_complete new"
      using step.hyps by (cases e) (auto simp: request_complete_def save_body_def save_disabled_def)
    with step.IH show ?case by simp
  qed
  then show ?thesis by auto
qed

theorem cron_requests_complete_witness:
  "request_complete (CreateCron ''/api/v1/accounts/alice/crons'' (save_body (EMPTY_FORM\<lparr>f_command := ''ls''\<rparr>)))"
proof -
  let ?f = "EMPTY_FORM\<lparr>f_command := ''ls''\<rparr>"
  let ?s1 = "initial_cron\<lparr>c_dialogOpen := True\<rparr>" and ?s2 = "initial_cron\<lparr>c_dialogOpen := True, c_form := ?f\<rparr>"
  have 1: "cron_reach ''alice'' ?s1 []"
    using cron_reach.step[OF cron_reach.start, of OpenCreate "''alice''" ?s1 "[]" "[]"] by (simp add: initial_cron_def)
  have "\<not> usingRaw (c_form ?s1)" by code_simp
  then have 2: "cron_reach ''alice'' ?s2 []"
    using cron_reach.step[OF 1, of "EditForm ?f" ?s2 "[]" "[]"] by (simp add: initial_cron_def)
  have ok: "\<not> save_disabled ?f" by code_simp
  have url: "crons_url ''alice'' = ''/api/v1/accounts/alice/crons''" by (simp add: crons_url_def)
  have "cron_reach ''alice'' (?s2\<lparr>saveMut := mutate idle\<rparr>) ([] @ [CreateCron (crons_url ''alice'') (save_body ?f)])"
    by (rule cron_reach.step[OF 2, of SubmitCron _ _ "[]"]) (use ok in \<open>simp_all add: initial_cron_def idle_def\<close>)
  from cron_requests_complete[OF this] show ?thesis by (simp add: url)
qed

text \<open>While a save waits for its answer the dialog can be closed and another job opened: the answer
  then closes that dialog and drops what was entered in it.\<close>

lemma late_answer_closes_next_dialog:
  "isPending (saveMut s) \<Longrightarrow>
     cron_offered s (OpenEdit job) = truthy job \<and>
     c_dialogOpen (fst (cron_step u CronSaved (fst (cron_step u (OpenEdit job) s)))) = False \<and>
     c_form (fst (cron_step u CronSaved (fst (cron_step u (OpenEdit job) s)))) = EMPTY_FORM"
  by simp

end
