(* ===== verification/Firewall_Page.thy ===== *)
theory Firewall_Page
  imports Ui_Kit Data_Table Complex_Main
begin

text \<open>
  \<open>pages/admin/Firewall.jsx\<close>: changing the server's firewall, each change being temporary until it
  is confirmed with the token its answer carried.

  The value of a number field and the parsing of an uploaded file are parameters. The mutations of
  the page are kept as the list of those waiting for an answer; their failures only show a toast.
\<close>

section \<open>Forms\<close>

record rule_form =
  r_action :: jsstring
  r_port :: jsstring
  r_protocol :: jsstring
  r_direction :: jsstring
  r_from :: jsstring
  r_to :: jsstring
  r_comment :: jsstring

definition EMPTY_RULE :: rule_form where
  "EMPTY_RULE =
     \<lparr>r_action = ''allow'', r_port = [], r_protocol = ''any'', r_direction = ''in'', r_from = [], r_to = [], r_comment = []\<rparr>"

record ban_form =
  ban_value :: jsstring
  ban_minutes :: int
  ban_reason :: jsstring

definition EMPTY_BAN :: ban_form where
  "EMPTY_BAN = \<lparr>ban_value = [], ban_minutes = 60, ban_reason = []\<rparr>"

definition or_any :: "jsstring \<Rightarrow> jsstring" where
  "or_any s = (if trim s = [] then ''any'' else trim s)"

definition rule_body :: "(jsstring \<Rightarrow> int option) \<Rightarrow> rule_form \<Rightarrow> (jsstring \<times> json) list" where
  "rule_body number f =
     [(''action'', JStr (r_action f)),
      (''port'', case number (r_port f) of Some n \<Rightarrow> JNum n | None \<Rightarrow> JNull),
      (''protocol'', JStr (r_protocol f)), (''direction'', JStr (r_direction f)),
      (''from_addr'', JStr (or_any (r_from f))), (''to_addr'', JStr (or_any (r_to f))),
      (''comment'', JStr (trim (r_comment f)))]"

text \<open>The field of the address shown for a direction, and typing into it.\<close>

definition address_shown :: "rule_form \<Rightarrow> jsstring" where
  "address_shown f = (if r_direction f = ''out'' then r_to f else r_from f)"

definition type_address :: "jsstring \<Rightarrow> rule_form \<Rightarrow> rule_form" where
  "type_address v f = (if r_direction f = ''out'' then f\<lparr>r_to := v\<rparr> else f\<lparr>r_from := v\<rparr>)"

definition address_label :: "rule_form \<Rightarrow> jsstring" where
  "address_label f = (if r_direction f = ''out'' then ''Destination address'' else ''Source address'')"

definition outbound_warning :: "rule_form \<Rightarrow> bool" where
  "outbound_warning f \<longleftrightarrow> r_direction f = ''out'' \<and> r_action f = ''deny''"

text \<open>An address typed for one direction is sent along after the direction was changed, although
  its field is no longer shown.\<close>

lemma hidden_address_is_sent:
  "r_direction f = ''in'' \<Longrightarrow> trim v \<noteq> [] \<Longrightarrow>
     address_shown ((type_address v f)\<lparr>r_direction := ''out''\<rparr>) = r_to f \<and>
     map_of (rule_body number ((type_address v f)\<lparr>r_direction := ''out''\<rparr>)) ''from_addr'' = Some (JStr (trim v))"
  by (simp add: type_address_def address_shown_def rule_body_def or_any_def)

section \<open>The page\<close>

datatype fw_op =
    ToggleOp | AddRuleOp | DeleteRuleOp | AddBypassOp | DeleteBypassOp | PresetOp | BanOp | UnbanOp
  | PreviewOp | ImportOp | KeepOp | RevertOp

datatype fw_request =
    FwPost jsstring "(jsstring \<times> json) list"
  | FwDelete jsstring

record fw_page =
  fw_data :: json
  fw_loading :: bool
  addOpen :: bool
  rule :: rule_form
  toggleAction :: jsstring
  deleteRule :: json
  bypassOpen :: bool
  bypass_address :: jsstring
  bypass_label :: jsstring
  deleteBypass :: json
  confirmationToken :: jsstring
  now :: int
  preset_id :: jsstring
  preset_action :: jsstring
  preset_address :: jsstring
  banOpen :: bool
  ban :: ban_form
  deleteBan :: json
  importOpen :: bool
  importText :: jsstring
  replaceImport :: bool
  importPreview :: json
  waiting :: "fw_op list"

definition initial_fw :: fw_page where
  "initial_fw =
     \<lparr>fw_data = JUndef, fw_loading = True, addOpen = False, rule = EMPTY_RULE, toggleAction = [], deleteRule = JNull,
      bypassOpen = False, bypass_address = [], bypass_label = [], deleteBypass = JNull, confirmationToken = [], now = 0,
      preset_id = [], preset_action = ''allow'', preset_address = [], banOpen = False, ban = EMPTY_BAN, deleteBan = JNull,
      importOpen = False, importText = [], replaceImport = False, importPreview = JNull, waiting = []\<rparr>"

definition pending_change :: "fw_page \<Rightarrow> json" where
  "pending_change s = jget (fw_data s) ''pending_change''"

text \<open>\<open>expires_at\<close> in seconds, \<open>now\<close> in milliseconds; the ceiling of the difference, not below 0.\<close>

definition secondsLeft :: "int \<Rightarrow> int \<Rightarrow> int" where
  "secondsLeft expires_at now_ms = max 0 (- ((now_ms - expires_at * 1000) div 1000))"

lemma secondsLeft_ceiling:
  "secondsLeft e n = max 0 \<lceil>(of_int e :: rat) - of_int n / 1000\<rceil>"
proof -
  have "\<lceil>(of_int e :: rat) - of_int n / 1000\<rceil> = - \<lfloor>of_int (n - e * 1000) / (of_int 1000 :: rat)\<rfloor>"
    by (simp add: ceiling_def diff_divide_distrib)
  also have "\<dots> = - ((n - e * 1000) div 1000)"
    by (simp only: floor_divide_of_int_eq)
  finally show ?thesis by (simp add: secondsLeft_def)
qed

lemma expired_shows_zero: "e * 1000 \<le> n \<longleftrightarrow> secondsLeft e n = 0"
  unfolding secondsLeft_def by linarith

section \<open>Events\<close>

datatype fw_event =
    RulesArrive json
  | RulesFail
  | Tick int
  | OpenAdd | CloseAdd | EditRule rule_form
  | AskToggle | CancelToggle
  | AskDeleteRule json | CancelDeleteRule
  | OpenBypass | CloseBypass | EditBypass jsstring jsstring
  | AskDeleteBypass json | CancelDeleteBypass
  | EditPreset jsstring jsstring jsstring
  | OpenBan | CloseBan | EditBan ban_form
  | AskUnban json | CancelUnban
  | OpenImport | DismissImport | CancelImport | FileRead jsstring | TickReplace bool
  | Submit fw_op
  | Succeeds fw_op json int
  | Fails fw_op jsstring

definition fw_active :: "fw_page \<Rightarrow> json" where
  "fw_active s = jget (fw_data s) ''active''"

definition submit_enabled :: "(jsstring \<Rightarrow> int option) \<Rightarrow> fw_page \<Rightarrow> fw_op \<Rightarrow> bool" where
  "submit_enabled number s op \<longleftrightarrow> op \<notin> set (waiting s) \<and>
     (case op of
        ToggleOp \<Rightarrow> toggleAction s \<noteq> []
      | AddRuleOp \<Rightarrow> addOpen s \<and> (case number (r_port (rule s)) of Some n \<Rightarrow> 1 \<le> n \<and> n \<le> 65535 | None \<Rightarrow> False)
      | DeleteRuleOp \<Rightarrow> truthy (deleteRule s)
      | AddBypassOp \<Rightarrow> bypassOpen s \<and> bypass_address s \<noteq> []
      | DeleteBypassOp \<Rightarrow> truthy (deleteBypass s)
      | PresetOp \<Rightarrow> preset_id s \<noteq> []
      | BanOp \<Rightarrow> banOpen s \<and> ban_value (ban s) \<noteq> []
      | UnbanOp \<Rightarrow> truthy (deleteBan s)
      | PreviewOp \<Rightarrow> importOpen s \<and> importText s \<noteq> []
      | ImportOp \<Rightarrow> importOpen s \<and> truthy (importPreview s)
      | KeepOp \<Rightarrow> truthy (pending_change s) \<and> confirmationToken s \<noteq> []
      | RevertOp \<Rightarrow> truthy (pending_change s))"

fun fw_offered :: "(jsstring \<Rightarrow> int option) \<Rightarrow> fw_page \<Rightarrow> fw_event \<Rightarrow> bool" where
  "fw_offered number s (RulesArrive v) = True"
| "fw_offered number s RulesFail = True"
| "fw_offered number s (Tick n) = truthy (pending_change s)"
| "fw_offered number s OpenAdd = True"
| "fw_offered number s CloseAdd = addOpen s"
| "fw_offered number s (EditRule f) = addOpen s"
| "fw_offered number s AskToggle = truthy (fw_data s)"
| "fw_offered number s CancelToggle = (toggleAction s \<noteq> [] \<and> ToggleOp \<notin> set (waiting s))"
| "fw_offered number s (AskDeleteRule r) = (truthy r \<and> \<not> truthy (jget r ''protected''))"
| "fw_offered number s CancelDeleteRule = (truthy (deleteRule s) \<and> DeleteRuleOp \<notin> set (waiting s))"
| "fw_offered number s OpenBypass = True"
| "fw_offered number s CloseBypass = bypassOpen s"
| "fw_offered number s (EditBypass a l) = bypassOpen s"
| "fw_offered number s (AskDeleteBypass e) = truthy e"
| "fw_offered number s CancelDeleteBypass = (truthy (deleteBypass s) \<and> DeleteBypassOp \<notin> set (waiting s))"
| "fw_offered number s (EditPreset i a addr) = True"
| "fw_offered number s OpenBan = True"
| "fw_offered number s CloseBan = banOpen s"
| "fw_offered number s (EditBan b) = (banOpen s \<and> ban_minutes b \<in> {15, 60, 360, 1440, 10080, 43200})"
| "fw_offered number s (AskUnban e) = truthy e"
| "fw_offered number s CancelUnban = (truthy (deleteBan s) \<and> UnbanOp \<notin> set (waiting s))"
| "fw_offered number s OpenImport = True"
| "fw_offered number s DismissImport = importOpen s"
| "fw_offered number s CancelImport = importOpen s"
| "fw_offered number s (FileRead t) = importOpen s"
| "fw_offered number s (TickReplace b) = importOpen s"
| "fw_offered number s (Submit op) = submit_enabled number s op"
| "fw_offered number s (Succeeds op v t) = (op \<in> set (waiting s))"
| "fw_offered number s (Fails op e) = (op \<in> set (waiting s))"

definition import_body :: "(jsstring \<Rightarrow> json option) \<Rightarrow> fw_page \<Rightarrow> (jsstring \<times> json) list option" where
  "import_body parse s =
     map_option (\<lambda>c. [(''configuration'', c), (''replace'', JBool (replaceImport s))]) (parse (importText s))"

definition fw_request_of :: "(jsstring \<Rightarrow> int option) \<Rightarrow> (jsstring \<Rightarrow> json option) \<Rightarrow> fw_page \<Rightarrow> fw_op \<Rightarrow> fw_request option" where
  "fw_request_of number parse s op =
     (case op of
        ToggleOp \<Rightarrow> Some (FwPost (''/api/v1/firewall/'' @ toggleAction s) [(''confirm'', JBool True)])
      | AddRuleOp \<Rightarrow> Some (FwPost ''/api/v1/firewall/rules'' (rule_body number (rule s)))
      | DeleteRuleOp \<Rightarrow> Some (FwDelete (''/api/v1/firewall/rules/'' @ js_String (jget (deleteRule s) ''rule_id'')))
      | AddBypassOp \<Rightarrow> Some (FwPost ''/api/v1/firewall/bypass''
          [(''address'', JStr (trim (bypass_address s))), (''label'', JStr (trim (bypass_label s)))])
      | DeleteBypassOp \<Rightarrow> Some (FwDelete (''/api/v1/firewall/bypass/'' @ js_String (jget (deleteBypass s) ''bypass_id'')))
      | PresetOp \<Rightarrow> Some (FwPost ''/api/v1/firewall/presets''
          [(''preset_id'', JStr (preset_id s)), (''action'', JStr (preset_action s)), (''address'', JStr (or_any (preset_address s)))])
      | BanOp \<Rightarrow> Some (FwPost ''/api/v1/firewall/temporary-bans''
          [(''value'', JStr (ban_value (ban s))), (''duration_minutes'', JNum (ban_minutes (ban s))),
           (''reason'', JStr (ban_reason (ban s)))])
      | UnbanOp \<Rightarrow> Some (FwDelete (''/api/v1/firewall/temporary-bans/'' @ js_String (jget (deleteBan s) ''id'')))
      | PreviewOp \<Rightarrow> map_option (FwPost ''/api/v1/firewall/configuration/preview'') (import_body parse s)
      | ImportOp \<Rightarrow> map_option (FwPost ''/api/v1/firewall/configuration/import'') (import_body parse s)
      | KeepOp \<Rightarrow> Some (FwPost ''/api/v1/firewall/pending/confirm'' [(''confirmation_token'', JStr (confirmationToken s))])
      | RevertOp \<Rightarrow> Some (FwPost ''/api/v1/firewall/pending/revert'' []))"

definition applied_message :: "fw_op \<Rightarrow> jsstring \<Rightarrow> jsstring" where
  "applied_message op action =
     (case op of
        ToggleOp \<Rightarrow> if action = ''enable'' then ''Firewall enabled temporarily'' else ''Firewall disabled temporarily''
      | AddRuleOp \<Rightarrow> ''Rule added temporarily''
      | DeleteRuleOp \<Rightarrow> ''Rule deleted temporarily''
      | AddBypassOp \<Rightarrow> ''Full-access IP added temporarily''
      | DeleteBypassOp \<Rightarrow> ''Full-access IP removed temporarily''
      | PresetOp \<Rightarrow> ''Service preset applied temporarily''
      | BanOp \<Rightarrow> ''Temporary block applied''
      | UnbanOp \<Rightarrow> ''Temporary block removed''
      | ImportOp \<Rightarrow> ''Firewall configuration imported temporarily''
      | _ \<Rightarrow> [])"

definition failure_title :: "fw_op \<Rightarrow> jsstring" where
  "failure_title op =
     (case op of
        ToggleOp \<Rightarrow> ''Action failed''
      | AddRuleOp \<Rightarrow> ''Could not add rule''
      | DeleteRuleOp \<Rightarrow> ''Could not delete rule''
      | AddBypassOp \<Rightarrow> ''Could not add bypass IP''
      | DeleteBypassOp \<Rightarrow> ''Could not remove bypass IP''
      | PresetOp \<Rightarrow> ''Could not apply preset''
      | BanOp \<Rightarrow> ''Could not block address''
      | UnbanOp \<Rightarrow> ''Could not remove block''
      | PreviewOp \<Rightarrow> ''Could not preview import''
      | ImportOp \<Rightarrow> ''Could not import configuration''
      | KeepOp \<Rightarrow> ''Could not confirm change''
      | RevertOp \<Rightarrow> ''Could not revert change'')"

definition is_change :: "fw_op \<Rightarrow> bool" where
  "is_change op \<longleftrightarrow> op \<notin> {PreviewOp, KeepOp, RevertOp}"

definition token_of :: "json \<Rightarrow> jsstring" where
  "token_of answer =
     (let t = jget (jget answer ''pending_change'') ''confirmation_token'' in if truthy t then js_String t else [])"

definition changeApplied :: "json \<Rightarrow> int \<Rightarrow> jsstring \<Rightarrow> fw_page \<Rightarrow> fw_page \<times> page_effect list" where
  "changeApplied answer t message s =
     (s\<lparr>confirmationToken := token_of answer, now := t\<rparr>,
      [Toast WarningTone ''Confirm firewall access''
         (message @ ''. Keep this change within two minutes or Boron will revert it.''),
       Invalidate [''firewall-rules'']])"

text \<open>What a successful change closes and clears.\<close>

definition after_change :: "fw_op \<Rightarrow> fw_page \<Rightarrow> fw_page" where
  "after_change op s =
     (case op of
        ToggleOp \<Rightarrow> s\<lparr>toggleAction := []\<rparr>
      | AddRuleOp \<Rightarrow> s\<lparr>addOpen := False, rule := EMPTY_RULE\<rparr>
      | DeleteRuleOp \<Rightarrow> s\<lparr>deleteRule := JNull\<rparr>
      | AddBypassOp \<Rightarrow> s\<lparr>bypassOpen := False, bypass_address := [], bypass_label := []\<rparr>
      | DeleteBypassOp \<Rightarrow> s\<lparr>deleteBypass := JNull\<rparr>
      | BanOp \<Rightarrow> s\<lparr>banOpen := False, ban := EMPTY_BAN\<rparr>
      | UnbanOp \<Rightarrow> s\<lparr>deleteBan := JNull\<rparr>
      | ImportOp \<Rightarrow> s\<lparr>importOpen := False, importPreview := JNull\<rparr>
      | _ \<Rightarrow> s)"

definition done_waiting :: "fw_op \<Rightarrow> fw_page \<Rightarrow> fw_page" where
  "done_waiting op s = s\<lparr>waiting := filter (\<lambda>x. x \<noteq> op) (waiting s)\<rparr>"

definition fw_success :: "fw_op \<Rightarrow> json \<Rightarrow> int \<Rightarrow> fw_page \<Rightarrow> fw_page \<times> page_effect list" where
  "fw_success op v t s =
     (if is_change op
      then (case changeApplied v t (applied_message op (toggleAction s)) (done_waiting op s) of
              (s1, effs) \<Rightarrow> (after_change op s1, effs))
      else if op = PreviewOp then ((done_waiting op s)\<lparr>importPreview := v\<rparr>, [])
      else ((done_waiting op s)\<lparr>confirmationToken := []\<rparr>,
            [Toast Success (if op = KeepOp then ''Firewall change kept'' else ''Firewall change reverted'') [],
             Invalidate [''firewall-rules'']]))"

text \<open>A file that does not parse fails the mutation before anything is sent.\<close>

fun fw_step :: "(jsstring \<Rightarrow> int option) \<Rightarrow> (jsstring \<Rightarrow> json option) \<Rightarrow> fw_event \<Rightarrow> fw_page
     \<Rightarrow> fw_page \<times> fw_request list \<times> page_effect list" where
  "fw_step number parse (RulesArrive v) s = (s\<lparr>fw_data := v, fw_loading := False\<rparr>, [], [])"
| "fw_step number parse RulesFail s = (s\<lparr>fw_loading := False\<rparr>, [], [])"
| "fw_step number parse (Tick n) s = (s\<lparr>now := n\<rparr>, [], [])"
| "fw_step number parse OpenAdd s = (s\<lparr>addOpen := True\<rparr>, [], [])"
| "fw_step number parse CloseAdd s = (s\<lparr>addOpen := False\<rparr>, [], [])"
| "fw_step number parse (EditRule f) s = (s\<lparr>rule := f\<rparr>, [], [])"
| "fw_step number parse AskToggle s = (s\<lparr>toggleAction := (if truthy (fw_active s) then ''disable'' else ''enable'')\<rparr>, [], [])"
| "fw_step number parse CancelToggle s = (s\<lparr>toggleAction := []\<rparr>, [], [])"
| "fw_step number parse (AskDeleteRule r) s = (s\<lparr>deleteRule := r\<rparr>, [], [])"
| "fw_step number parse CancelDeleteRule s = (s\<lparr>deleteRule := JNull\<rparr>, [], [])"
| "fw_step number parse OpenBypass s = (s\<lparr>bypassOpen := True\<rparr>, [], [])"
| "fw_step number parse CloseBypass s = (s\<lparr>bypassOpen := False\<rparr>, [], [])"
| "fw_step number parse (EditBypass a l) s = (s\<lparr>bypass_address := a, bypass_label := l\<rparr>, [], [])"
| "fw_step number parse (AskDeleteBypass e) s = (s\<lparr>deleteBypass := e\<rparr>, [], [])"
| "fw_step number parse CancelDeleteBypass s = (s\<lparr>deleteBypass := JNull\<rparr>, [], [])"
| "fw_step number parse (EditPreset i a addr) s = (s\<lparr>preset_id := i, preset_action := a, preset_address := addr\<rparr>, [], [])"
| "fw_step number parse OpenBan s = (s\<lparr>banOpen := True\<rparr>, [], [])"
| "fw_step number parse CloseBan s = (s\<lparr>banOpen := False\<rparr>, [], [])"
| "fw_step number parse (EditBan b) s = (s\<lparr>ban := b\<rparr>, [], [])"
| "fw_step number parse (AskUnban e) s = (s\<lparr>deleteBan := e\<rparr>, [], [])"
| "fw_step number parse CancelUnban s = (s\<lparr>deleteBan := JNull\<rparr>, [], [])"
| "fw_step number parse OpenImport s = (s\<lparr>importOpen := True\<rparr>, [], [])"
| "fw_step number parse DismissImport s = (s\<lparr>importOpen := False, importPreview := JNull\<rparr>, [], [])"
| "fw_step number parse CancelImport s = (s\<lparr>importOpen := False\<rparr>, [], [])"
| "fw_step number parse (FileRead t) s = (s\<lparr>importText := t, importPreview := JNull\<rparr>, [], [])"
| "fw_step number parse (TickReplace b) s = (s\<lparr>replaceImport := b, importPreview := JNull\<rparr>, [], [])"
| "fw_step number parse (Submit op) s =
     (case fw_request_of number parse s op of
        Some r \<Rightarrow> (s\<lparr>waiting := op # waiting s\<rparr>, [r], [])
      | None \<Rightarrow> (s, [], [Toast ErrorTone (failure_title op) ''Choose a valid Boron firewall JSON file.'']))"
| "fw_step number parse (Succeeds op v t) s = (case fw_success op v t s of (s', effs) \<Rightarrow> (s', [], effs))"
| "fw_step number parse (Fails op e) s = (done_waiting op s, [], [Toast ErrorTone (failure_title op) e])"

text \<open>Ghost component: the answer of the last change applied from this page and not yet decided.\<close>

definition undecided :: "fw_event \<Rightarrow> json \<Rightarrow> json" where
  "undecided e g =
     (case e of Succeeds op v t \<Rightarrow> if is_change op then v else if op = PreviewOp then g else JUndef | _ \<Rightarrow> g)"

inductive fw_reach :: "(jsstring \<Rightarrow> int option) \<Rightarrow> (jsstring \<Rightarrow> json option) \<Rightarrow> fw_page \<Rightarrow> json \<Rightarrow> bool"
  for number parse where
  start: "fw_reach number parse initial_fw JUndef"
| step: "fw_reach number parse s g \<Longrightarrow> fw_offered number s e \<Longrightarrow>
     fw_reach number parse (fst (fw_step number parse e s)) (undecided e g)"

lemma token_after_change: "confirmationToken (after_change op s) = confirmationToken s"
  by (cases op) (simp_all add: after_change_def)

lemma fw_token:
  "fw_reach number parse s g \<Longrightarrow> confirmationToken s = token_of g"
proof (induction rule: fw_reach.induct)
  case start
  then show ?case by (simp add: initial_fw_def token_of_def)
next
  case (step s g e)
  have none: "token_of JUndef = []" by (simp add: token_of_def)
  show ?case
  proof (cases e)
    case (Submit op)
    with step show ?thesis by (auto simp: undecided_def split: option.split)
  next
    case (Succeeds op v t)
    with step show ?thesis
      by (auto simp: undecided_def fw_success_def changeApplied_def token_after_change done_waiting_def none)
  next
    case (Fails op m)
    with step show ?thesis by (simp add: undecided_def done_waiting_def)
  qed (use step in \<open>auto simp: undecided_def\<close>)
qed

text \<open>C5. Keeping a change is offered only with the confirmation token that came with the last change
  applied from this page, while a change is pending; the request carries exactly that token; and
  every change the page applies announces that it must be confirmed.\<close>

theorem keep_needs_own_token:
  assumes "fw_reach number parse s g" "fw_offered number s (Submit KeepOp)"
  shows "token_of g \<noteq> [] \<and> truthy (pending_change s) \<and>
         fw_request_of number parse s KeepOp =
           Some (FwPost ''/api/v1/firewall/pending/confirm'' [(''confirmation_token'', JStr (token_of g))]) \<and>
         (\<forall>op v t. is_change op \<longrightarrow>
            (\<exists>m. Toast WarningTone ''Confirm firewall access''
                (m @ ''. Keep this change within two minutes or Boron will revert it.'') \<in> set (snd (fw_success op v t s))))"
  using fw_token[OF assms(1)] assms(2)
  by (auto simp: submit_enabled_def fw_request_of_def fw_success_def changeApplied_def)

definition pending_answer :: json where
  "pending_answer = JObj [(''pending_change'', JObj [(''confirmation_token'', JStr ''t1''), (''expires_at'', JNum 120)])]"

theorem keep_needs_own_token_witness:
  "\<exists>s. fw_request_of (\<lambda>_. None) (\<lambda>_. None) s KeepOp =
     Some (FwPost ''/api/v1/firewall/pending/confirm'' [(''confirmation_token'', JStr ''t1'')])"
proof -
  let ?n = "\<lambda>_. None" and ?p = "\<lambda>_. None"
  let ?s1 = "fst (fw_step ?n ?p (RulesArrive pending_answer) initial_fw)"
  let ?s2 = "fst (fw_step ?n ?p AskToggle ?s1)"
  let ?s3 = "fst (fw_step ?n ?p (Submit ToggleOp) ?s2)"
  let ?s4 = "fst (fw_step ?n ?p (Succeeds ToggleOp pending_answer 0) ?s3)"
  have 1: "fw_reach ?n ?p ?s1 (undecided (RulesArrive pending_answer) JUndef)"
    by (rule fw_reach.step[OF fw_reach.start]) simp
  have 2: "fw_reach ?n ?p ?s2 (undecided AskToggle (undecided (RulesArrive pending_answer) JUndef))"
    by (rule fw_reach.step[OF 1]) (code_simp)
  have 3: "fw_reach ?n ?p ?s3 (undecided (Submit ToggleOp) (undecided AskToggle (undecided (RulesArrive pending_answer) JUndef)))"
    by (rule fw_reach.step[OF 2]) (code_simp)
  have 4: "fw_reach ?n ?p ?s4 (undecided (Succeeds ToggleOp pending_answer 0)
      (undecided (Submit ToggleOp) (undecided AskToggle (undecided (RulesArrive pending_answer) JUndef))))"
    by (rule fw_reach.step[OF 3]) (code_simp)
  have "fw_offered ?n ?s4 (Submit KeepOp)" by code_simp
  from keep_needs_own_token[OF 4 this] show ?thesis
    by (auto simp: undecided_def is_change_def token_of_def pending_answer_def)
qed

text \<open>
  A configuration can be imported that was not previewed: while a preview is awaited another file
  can be chosen; the answer about the first then enables the import of the second.
\<close>

lemma import_without_review:
  assumes "importOpen s" "importText s \<noteq> []" "PreviewOp \<notin> set (waiting s)" "ImportOp \<notin> set (waiting s)"
    "parse (importText s) \<noteq> None" "truthy v"
  shows "let s1 = fst (fw_step number parse (Submit PreviewOp) s);
             s2 = fst (fw_step number parse (FileRead other) s1);
             s3 = fst (fw_step number parse (Succeeds PreviewOp v t) s2)
         in fw_offered number s (Submit PreviewOp) \<and> fw_offered number s1 (FileRead other) \<and>
            fw_offered number s2 (Succeeds PreviewOp v t) \<and> fw_offered number s3 (Submit ImportOp) \<and>
            importText s3 = other"
  using assms
  by (auto simp: submit_enabled_def fw_request_of_def import_body_def fw_success_def is_change_def done_waiting_def Let_def)

lemma protected_rules_stay: "truthy (jget r ''protected'') \<Longrightarrow> \<not> fw_offered number s (AskDeleteRule r)"
  by simp

section \<open>What is shown\<close>

definition unknownLabel :: "fw_page \<Rightarrow> jsstring" where
  "unknownLabel s = (if fw_loading s then ''Loading'' @ [ellipsis] else ''Unavailable'')"

definition status_label :: "fw_page \<Rightarrow> jsstring" where
  "status_label s =
     (if nullish (fw_active s) then unknownLabel s else if truthy (fw_active s) then ''Active'' else ''Inactive'')"

definition rows_of :: "jsstring \<Rightarrow> json \<Rightarrow> json list" where
  "rows_of k d = (case jget d k of JArr xs \<Rightarrow> xs | _ \<Rightarrow> [])"

definition fw_counts :: "fw_page \<Rightarrow> jsstring list" where
  "fw_counts s =
     (if truthy (fw_data s)
      then [show_nat (length (filter (\<lambda>r. jget r ''direction'' \<noteq> JStr ''out'') (rows_of ''rules'' (fw_data s)))),
            show_nat (length (filter (\<lambda>r. jget r ''direction'' = JStr ''out'') (rows_of ''rules'' (fw_data s)))),
            show_nat (length (rows_of ''bypass'' (fw_data s)))]
      else [unknownLabel s, unknownLabel s, unknownLabel s])"

definition toggle_question :: "fw_page \<Rightarrow> jsstring \<times> jsstring \<times> jsstring" where
  "toggle_question s =
     (if toggleAction s = ''disable''
      then (''Disable firewall?'', ''This disables all UFW firewall protection and exposes every port. Are you sure?'', ''Disable UFW'')
      else (''Enable firewall?'', ''This enables UFW enforcement. SSH, panel, web, and mail ports are auto-allowed first.'', ''Enable UFW''))"

definition delete_rule_text :: "json \<Rightarrow> jsstring" where
  "delete_rule_text r =
     (if truthy r
      then ''Remove the '' @ js_String (jget r ''action'') @ '' rule on port '' @ js_String (jget r ''port'') @ ''/'' @
           js_String (jget r ''protocol'') @
           (if truthy (jget r ''from'') \<and> jget r ''from'' \<noteq> JStr ''any'' then '' from '' @ js_String (jget r ''from'') @ ''.'' else ''.'')
      else [])"

definition rule_endpoint :: "json \<Rightarrow> jsstring" where
  "rule_endpoint r =
     (if jget r ''direction'' = JStr ''out'' then ''to '' @ js_String (js_or (jget r ''to'') (JStr ''any''))
      else ''from '' @ js_String (js_or (jget r ''from'') (JStr ''any'')))"

definition fw_columns :: "column list" where
  "fw_columns =
     [\<lparr>ckey = ''action'', header = Some ''Action'', searchable = Some True, sortable = True, searchValue = None, sortValue = None,
       render = Some (\<lambda>r. js_String (jget r ''action''))\<rparr>,
      \<lparr>ckey = ''direction'', header = Some ''Direction'', searchable = Some True, sortable = True, searchValue = None, sortValue = None,
       render = Some (\<lambda>r. if jget r ''direction'' = JStr ''out'' then ''Outbound'' else ''Inbound'')\<rparr>,
      \<lparr>ckey = ''port'', header = Some ''Port'', searchable = Some True, sortable = True, searchValue = None, sortValue = None,
       render = Some (\<lambda>r. js_String (jget r ''port''))\<rparr>,
      \<lparr>ckey = ''protocol'', header = Some ''Protocol'', searchable = None, sortable = True, searchValue = None, sortValue = None,
       render = Some (\<lambda>r. js_String (jget r ''protocol''))\<rparr>,
      \<lparr>ckey = ''endpoint'', header = Some ''Address'', searchable = Some True, sortable = False, searchValue = None, sortValue = None,
       render = Some rule_endpoint\<rparr>,
      \<lparr>ckey = ''comment'', header = Some ''Comment'', searchable = Some True, sortable = False, searchValue = None, sortValue = None,
       render = Some (\<lambda>r. if truthy (jget r ''comment'') then js_String (jget r ''comment'') else [em_dash])\<rparr>,
      \<lparr>ckey = ''controls'', header = Some [], searchable = None, sortable = False, searchValue = None, sortValue = None,
       render = Some (\<lambda>r. if truthy (jget r ''protected'') then ''Protected'' else ''Delete'')\<rparr>]"

text \<open>The address column cannot be searched: the search reads a member \<open>endpoint\<close> rules do not have.\<close>

lemma address_not_searchable:
  "jget r ''endpoint'' = JUndef \<Longrightarrow> nullish (cell_text (fw_columns ! 4) r)"
  by (simp add: fw_columns_def cell_text_def nullish_def)

end
