(* ===== verification/Page_Machine.thy ===== *)
theory Page_Machine
  imports Ui_Kit Js_Numbers
begin

text \<open>
  What the pages with forms and dialogs share: the requests they send, the encoding of a path
  segment, and a page as a machine of events. A page is a state, the events its enabled controls,
  its answers and its clock can deliver (\<open>offered\<close>), and the reaction to each (\<open>step\<close>). The
  locale \<open>page_contract\<close> is what a page has to show for everything it ever sends to be well formed.
\<close>

section \<open>Requests\<close>

type_synonym body = "(jsstring \<times> json) list"

datatype api_request =
    ApiGet jsstring
  | ApiPost jsstring body
  | ApiPut jsstring body
  | ApiPatch jsstring body
  | ApiDelete jsstring
  | ApiDeleteWith jsstring body \<comment> \<open>with query parameters\<close>
  | OpenWindow jsstring

text \<open>\<open>encodeURIComponent\<close>: the bytes of the UTF-8 form, other than the unreserved characters, as
  percent triplets.\<close>

definition unreserved :: "char \<Rightarrow> bool" where
  "unreserved c \<longleftrightarrow> is_digit c \<or> is_upper c \<or> is_lower c \<or> c \<in> set ''-_.!~*()'' \<or> c = CHR 0x27"

definition hex_digit :: "nat \<Rightarrow> char" where
  "hex_digit n = (if n < 10 then char_of (48 + n) else char_of (55 + n))"

definition percent_byte :: "nat \<Rightarrow> jsstring" where
  "percent_byte n = [CHR ''%'', hex_digit (n div 16), hex_digit (n mod 16)]"

definition encode_char :: "char \<Rightarrow> jsstring" where
  "encode_char c =
     (if unreserved c then [c]
      else if code c < 128 then percent_byte (code c)
      else percent_byte (192 + code c div 64) @ percent_byte (128 + code c mod 64))"

definition encodeURIComponent :: "jsstring \<Rightarrow> jsstring" where
  "encodeURIComponent s = concat (map encode_char s)"

lemma hex_digit_alnum: "n < 16 \<Longrightarrow> is_digit (hex_digit n) \<or> is_upper (hex_digit n)"
  by (auto simp: hex_digit_def is_digit_def is_upper_def)

lemma percent_byte_chars:
  assumes "n < 256" "c \<in> set (percent_byte n)"
  shows "c = CHR ''%'' \<or> unreserved c"
proof -
  have "n div 16 < 16" "n mod 16 < 16" using assms(1) by auto
  then have "unreserved (hex_digit (n div 16))" "unreserved (hex_digit (n mod 16))"
    using hex_digit_alnum unfolding unreserved_def by blast+
  with assms(2) show ?thesis by (auto simp: percent_byte_def)
qed

lemma encode_char_chars: "c \<in> set (encode_char d) \<Longrightarrow> c = CHR ''%'' \<or> unreserved c"
proof -
  assume c: "c \<in> set (encode_char d)"
  have "192 + code d div 64 < 256" "128 + code d mod 64 < 256" "code d < 256"
    using code_less_256[of d] by auto
  note b = this[THEN percent_byte_chars]
  show ?thesis
    using c b by (auto simp only: encode_char_def set_append Un_iff list.set split: if_splits)
qed

lemma encoded_chars: "c \<in> set (encodeURIComponent s) \<Longrightarrow> c = CHR ''%'' \<or> unreserved c"
  using encode_char_chars by (auto simp: encodeURIComponent_def)

text \<open>No encoded segment can leave its place in an address.\<close>

lemma disjoint_by_chars:
  "(\<And>c. c \<in> set a \<Longrightarrow> P c) \<Longrightarrow> list_all (\<lambda>c. \<not> P c) b \<Longrightarrow> set a \<inter> set b = {}"
  by (auto simp: list_all_iff)

lemma encoded_segment_stays:
  "set (encodeURIComponent s) \<inter> set ''/?#&= '' = {}"
  by (rule disjoint_by_chars[OF encoded_chars]) (assumption, code_simp)

lemma endsWith_suffix: "length z \<le> length y \<Longrightarrow> endsWith (x @ y) z = endsWith y z"
  by (simp add: endsWith_def)

lemma not_endsWith: "\<not> endsWith y (drop n z) \<Longrightarrow> length (drop n z) \<le> length y \<Longrightarrow> \<not> endsWith (x @ y) z"
proof
  assume n: "\<not> endsWith y (drop n z)" "length (drop n z) \<le> length y" and e: "endsWith (x @ y) z"
  have "suffix (drop n z) z" by (rule suffixI[of _ "take n z"]) simp
  then have "endsWith (x @ y) (drop n z)" using e by (metis endsWith_iff_suffix suffix_order.trans)
  then show False using n by (simp add: endsWith_suffix)
qed

lemma encode_unreserved: "list_all unreserved s \<Longrightarrow> encodeURIComponent s = s"
  by (induction s) (auto simp: encodeURIComponent_def encode_char_def)

lemmas mutation_simps = mutate_def settle_ok_def settle_error_def idle_def

section \<open>Pages\<close>

type_synonym ('e, 's) page_step = "'e \<Rightarrow> 's \<Rightarrow> 's \<times> api_request list \<times> page_effect list"

inductive page_reach :: "'s \<Rightarrow> ('s \<Rightarrow> 'e \<Rightarrow> bool) \<Rightarrow> ('e, 's) page_step \<Rightarrow> 's \<Rightarrow> api_request list \<Rightarrow> bool"
  for init offered step where
  start: "page_reach init offered step init []"
| step: "page_reach init offered step s sent \<Longrightarrow> offered s e \<Longrightarrow> step e s = (s', new, effs) \<Longrightarrow>
     page_reach init offered step s' (sent @ new)"

inductive_cases page_reachE: "page_reach init offered step s sent"

locale page_contract =
  fixes init :: "'s" and offered :: "'s \<Rightarrow> 'e \<Rightarrow> bool" and step :: "('e, 's) page_step"
    and inv :: "'s \<Rightarrow> bool" and good :: "api_request \<Rightarrow> bool"
  assumes inv_init: "inv init"
    and inv_step: "inv s \<Longrightarrow> offered s e \<Longrightarrow> inv (fst (step e s))"
    and good_step: "inv s \<Longrightarrow> offered s e \<Longrightarrow> list_all good (fst (snd (step e s)))"
begin

lemma reach_inv:
  assumes "page_reach init offered step s sent"
  shows "inv s \<and> list_all good sent"
  using assms
proof (induction rule: page_reach.induct)
  case start
  then show ?case by (simp add: inv_init)
next
  case (step s sent e s' new effs)
  with inv_step[of s e] good_step[of s e] show ?case by simp
qed

lemma run_inv:
  assumes "inv s" "\<And>pre e post. es = pre @ e # post \<Longrightarrow> offered (fold (\<lambda>e s. fst (step e s)) pre s) e"
  shows "inv (fold (\<lambda>e s. fst (step e s)) es s)"
  using assms
proof (induction es arbitrary: s)
  case Nil
  then show ?case by simp
next
  case (Cons e es)
  have "offered s e" using Cons.prems(2)[of "[]" e es] by simp
  then have "inv (fst (step e s))" using Cons.prems(1) by (rule inv_step[rotated])
  moreover have "offered (fold (\<lambda>e s. fst (step e s)) pre (fst (step e s))) x" if "es = pre @ x # post" for pre x post
    using Cons.prems(2)[of "e # pre" x post] that by simp
  ultimately show ?case using Cons.IH[of "fst (step e s)"] by simp
qed

end

section \<open>Requests that can overlap\<close>

type_synonym runs = "nat list \<times> nat" \<comment> \<open>the ones under way, and how many were started\<close>

definition start_run :: "runs \<Rightarrow> runs" where
  "start_run r = (fst r @ [snd r], Suc (snd r))"

definition settle_run :: "nat \<Rightarrow> runs \<Rightarrow> runs" where
  "settle_run i r = (filter (\<lambda>j. j \<noteq> i) (fst r), snd r)"

definition run_observed :: "runs \<Rightarrow> bool" where
  "run_observed r \<longleftrightarrow> snd r \<noteq> 0 \<and> snd r - 1 \<in> set (fst r)"

section \<open>Refinement\<close>

text \<open>
  A specification is a labelled transition system whose labels are what can be seen of the page from
  outside: the targets of its requests of one kind. A page implements it when each of its steps is a
  step of the specification with the label its requests show.
\<close>

inductive spec_run :: "'a \<Rightarrow> ('a \<Rightarrow> 't list \<Rightarrow> 'a \<Rightarrow> bool) \<Rightarrow> 't list \<Rightarrow> 'a \<Rightarrow> bool"
  for ainit astep where
  start: "spec_run ainit astep [] ainit"
| step: "spec_run ainit astep ts a \<Longrightarrow> astep a l a' \<Longrightarrow> spec_run ainit astep (ts @ l) a'"

locale page_refinement =
  fixes init :: "'s" and offered :: "'s \<Rightarrow> 'e \<Rightarrow> bool" and step :: "('e, 's) page_step" and inv :: "'s \<Rightarrow> bool"
    and abs_state :: "'s \<Rightarrow> 'a" and shown :: "api_request \<Rightarrow> 't list"
    and ainit :: "'a" and astep :: "'a \<Rightarrow> 't list \<Rightarrow> 'a \<Rightarrow> bool"
  assumes inv_init: "inv init"
    and inv_step: "inv s \<Longrightarrow> offered s e \<Longrightarrow> inv (fst (step e s))"
    and abs_init: "abs_state init = ainit"
    and simulation: "inv s \<Longrightarrow> offered s e \<Longrightarrow>
                       astep (abs_state s) (concat (map shown (fst (snd (step e s))))) (abs_state (fst (step e s)))"
begin

lemma refines:
  assumes "page_reach init offered step s sent"
  shows "inv s \<and> spec_run ainit astep (concat (map shown sent)) (abs_state s)"
  using assms
proof (induction rule: page_reach.induct)
  case start
  then show ?case using spec_run.start[of ainit astep] by (simp add: inv_init abs_init)
next
  case (step s sent e s' new effs)
  then have "astep (abs_state s) (concat (map shown new)) (abs_state s')"
    using simulation[of s e] by simp
  with step show ?case using inv_step[of s e] by (auto intro: spec_run.step)
qed

end

text \<open>
  The specification of a question about one object: it is asked, can be withdrawn, and its
  confirmation sends one request about exactly that object, whose failure leaves the question open.
\<close>

datatype 't question = NoQuestion | Asking 't | Carrying 't

inductive question_step :: "'t question \<Rightarrow> 't list \<Rightarrow> 't question \<Rightarrow> bool" where
  idle: "question_step q [] q"
| ask: "question_step NoQuestion [] (Asking t)"
| withdraw: "question_step (Asking t) [] NoQuestion"
| confirm: "question_step (Asking t) [t] (Carrying t)"
| succeed: "question_step (Carrying t) [] NoQuestion"
| fail: "question_step (Carrying t) [] (Asking t)"

inductive_simps question_step_simps:
  "question_step NoQuestion l q" "question_step (Asking t) l q" "question_step (Carrying t) l q"

abbreviation question_run :: "'t list \<Rightarrow> 't question \<Rightarrow> bool" where
  "question_run \<equiv> spec_run NoQuestion question_step"

text \<open>The targets of the deletions among the requests.\<close>

definition deletion_shown :: "api_request \<Rightarrow> jsstring list" where
  "deletion_shown r = (case r of ApiDelete url \<Rightarrow> [url] | _ \<Rightarrow> [])"

lemma carrying_was_sent: "question_run ts (Carrying t) \<Longrightarrow> ts \<noteq> [] \<and> last ts = t"
proof -
  have "spec_run NoQuestion question_step ts q \<Longrightarrow> q = Carrying t \<Longrightarrow> ts \<noteq> [] \<and> last ts = t" for q
    by (induction rule: spec_run.induct) (auto elim: question_step.cases)
  then show "question_run ts (Carrying t) \<Longrightarrow> ts \<noteq> [] \<and> last ts = t" by blast
qed

text \<open>A scripted run, for the witnesses: the state and everything sent, provided each event was offered.\<close>

fun page_run :: "('s \<Rightarrow> 'e \<Rightarrow> bool) \<Rightarrow> ('e, 's) page_step \<Rightarrow> 'e list \<Rightarrow> 's \<times> api_request list \<Rightarrow> ('s \<times> api_request list) option" where
  "page_run offered step [] (s, sent) = Some (s, sent)"
| "page_run offered step (e # es) (s, sent) =
     (if offered s e then page_run offered step es (fst (step e s), sent @ fst (snd (step e s))) else None)"

lemma page_run_reach:
  "page_run offered step es (s, sent) = Some (s', sent') \<Longrightarrow> page_reach init offered step s sent \<Longrightarrow>
     page_reach init offered step s' sent'"
proof (induction es arbitrary: s sent)
  case Nil
  then show ?case by simp
next
  case (Cons e es)
  have "page_reach init offered step (fst (step e s)) (sent @ fst (snd (step e s)))"
    using Cons.prems by (intro page_reach.step[of _ _ _ s sent e _ _ "snd (snd (step e s))"]) (auto split: if_splits)
  with Cons show ?case by (auto split: if_splits)
qed

lemma scripted_reach:
  "page_run offered step es (init, []) = Some (s', sent') \<Longrightarrow> page_reach init offered step s' sent'"
  by (erule page_run_reach) (rule page_reach.start)

text \<open>The text of a thrown error; that of the engine's own errors is a parameter.\<close>

definition thrown_text :: "jsstring \<Rightarrow> failure \<Rightarrow> jsstring" where
  "thrown_text engine f = (case f of Rejected e \<Rightarrow> err_message e | TypeErrorThrown \<Rightarrow> engine)"

text \<open>Texts read from answers.\<close>

definition json_list :: "json \<Rightarrow> json list" where
  "json_list v = (case v of JArr xs \<Rightarrow> xs | _ \<Rightarrow> [])"

definition json_fields :: "json \<Rightarrow> (jsstring \<times> json) list" where
  "json_fields v = (case v of JObj kvs \<Rightarrow> kvs | _ \<Rightarrow> [])"

definition json_text :: "json \<Rightarrow> jsstring" where
  "json_text v = (if truthy v then js_String v else [])"

text \<open>Lines of a text field, and the text an array of lines is joined to.\<close>

definition newline :: char where "newline = CHR 0x0A"

definition linesToList :: "jsstring \<Rightarrow> jsstring list" where
  "linesToList s = filter (\<lambda>x. x \<noteq> []) (map trim (split_on newline s))"

definition clean_line :: "jsstring \<Rightarrow> bool" where
  "clean_line x \<longleftrightarrow> x \<noteq> [] \<and> trim x = x \<and> newline \<notin> set x"

definition js_join :: "jsstring \<Rightarrow> json list \<Rightarrow> jsstring" where
  "js_join sep vs = join_with sep (map (\<lambda>v. if nullish v then [] else js_String v) vs)"

lemma split_on_single: "c \<notin> set x \<Longrightarrow> split_on c x = [x]"
  by (induction x) (auto split: list.split)

lemma split_on_append: "c \<notin> set x \<Longrightarrow> split_on c (x @ c # y) = x # split_on c y"
  by (induction x) (auto split: list.split)

lemma split_on_join: "ws \<noteq> [] \<Longrightarrow> list_all (\<lambda>w. c \<notin> set w) ws \<Longrightarrow> split_on c (join_with [c] ws) = ws"
  by (induction "[c]" ws rule: join_with.induct) (auto simp: split_on_single split_on_append)

lemma lines_clean: "list_all (\<lambda>x. x \<noteq> [] \<and> trim x = x) (linesToList s)"
  by (auto simp: linesToList_def list_all_iff)

text \<open>Clean lines survive the text field.\<close>

lemma linesToList_join:
  assumes "list_all clean_line ws"
  shows "linesToList (join_with [newline] ws) = ws"
proof (cases "ws = []")
  case True
  have "linesToList [] = []" by code_simp
  then show ?thesis using True by simp
next
  case False
  have "list_all (\<lambda>w. newline \<notin> set w) ws" using assms by (auto simp: list_all_iff clean_line_def)
  moreover have "map trim ws = ws" "filter (\<lambda>x. x \<noteq> []) ws = ws"
    using assms by (auto simp: list_all_iff clean_line_def intro: map_idI filter_True)
  ultimately show ?thesis using split_on_join[OF False] by (simp add: linesToList_def)
qed

lemma js_join_strings: "js_join sep (map JStr ws) = join_with sep ws"
  by (simp add: js_join_def comp_def nullish_def)

text \<open>\<open>{...v, k1: w1, ...}\<close>\<close>

definition with_fields :: "json \<Rightarrow> (jsstring \<times> json) list \<Rightarrow> json" where
  "with_fields v new = JObj (new @ json_fields v)"

lemma truthy_with_fields [simp]: "truthy (with_fields v new)"
  by (simp add: with_fields_def)

lemma jget_with_fields [simp]:
  "jget (with_fields v new) k = (case map_of new k of Some w \<Rightarrow> w | None \<Rightarrow> jget v k)"
  by (auto simp: with_fields_def json_fields_def map_add_def split: option.split json.split)

text \<open>An object built by spreading fields over another, a later field replacing an earlier one of its
  name, and what is sent of an object: its fields that are not undefined.\<close>

definition put_fields :: "json \<Rightarrow> (jsstring \<times> json) list \<Rightarrow> json" where
  "put_fields v new = JObj (fold (\<lambda>(k, w). AList.update k w) new (json_fields v))"

definition sent_fields :: "json \<Rightarrow> (jsstring \<times> json) list" where
  "sent_fields v = filter (\<lambda>(k, w). w \<noteq> JUndef) (json_fields v)"

lemma fold_update_map_of:
  "map_of (fold (\<lambda>(k, w). AList.update k w) new r) j = (case map_of (rev new) j of Some w \<Rightarrow> Some w | None \<Rightarrow> map_of r j)"
  by (induction new arbitrary: r) (auto simp: update_conv map_of_append map_add_def split: option.splits prod.splits)

lemma json_fields_put: "json_fields (put_fields v new) = fold (\<lambda>(k, w). AList.update k w) new (json_fields v)"
  by (simp add: put_fields_def json_fields_def)

lemma put_fields_distinct:
  "distinct (map fst (json_fields v)) \<Longrightarrow> distinct (map fst (json_fields (put_fields v new)))"
proof -
  have "distinct (map fst r) \<Longrightarrow> distinct (map fst (fold (\<lambda>(k, w). AList.update k w) new r))" for r :: "(jsstring \<times> json) list"
    by (induction new arbitrary: r) (auto simp: distinct_update split: prod.splits)
  then show "distinct (map fst (json_fields v)) \<Longrightarrow> distinct (map fst (json_fields (put_fields v new)))"
    by (simp add: json_fields_put)
qed

lemma jget_fields: "jget v k = (case map_of (json_fields v) k of Some w \<Rightarrow> w | None \<Rightarrow> JUndef)"
  by (cases v) (simp_all add: json_fields_def)

lemma jget_put_fields: "jget (put_fields v new) k = (case map_of (rev new) k of Some w \<Rightarrow> w | None \<Rightarrow> jget v k)"
  by (simp add: jget_fields json_fields_put fold_update_map_of split: option.split)

lemma sent_lookup:
  assumes "distinct (map fst (json_fields v))"
  shows "map_of (sent_fields v) k = (if jget v k = JUndef then None else Some (jget v k))"
proof -
  have "distinct (map fst fs) \<Longrightarrow> map_of (filter (\<lambda>(k, w). w \<noteq> JUndef) fs) k =
      (case map_of fs k of None \<Rightarrow> None | Some w \<Rightarrow> if w = JUndef then None else Some w)" for fs :: "(jsstring \<times> json) list"
    by (induction fs) (auto simp: map_of_eq_None_iff split: option.splits)
  from this[OF assms] show ?thesis by (auto simp: sent_fields_def jget_fields split: option.splits)
qed

end
