(* ===== verification/Backups_Page.thy ===== *)
theory Backups_Page
  imports Page_Machine Data_Table
begin

text \<open>
  \<open>pages/customer/Backups.jsx\<close>: the backup points of an account. Archives are created and restored
  here, recovery points of the hosting provider are listed beside them.

  What the queries hold (\<open>useQuery\<close>) is a value that can change at any time. The rows of the answers
  are objects; the file size and date formatters are parameters.
\<close>

section \<open>Tables of the page\<close>

definition BACKUP_KINDS :: "(jsstring \<times> jsstring) list" where
  "BACKUP_KINDS =
     [(''full'', ''Full account (files + databases + mail + DNS + config)''),
      (''file'', ''Single file / directory''),
      (''database'', ''Single database''),
      (''databases'', ''All databases''),
      (''mailbox'', ''Single mailbox'')]"

definition BACKUP_EMAIL_EVENTS :: "(jsstring \<times> jsstring) list" where
  "BACKUP_EMAIL_EVENTS =
     [(''backup.completed'', ''Backup completed''), (''backup.failed'', ''Backup failed''),
      (''backup.partial'', ''Completed with warnings''), (''backup.overdue'', ''Backup overdue''),
      (''backup.destination_unavailable'', ''Destination unavailable''),
      (''backup.restore_completed'', ''Restore completed''), (''backup.restore_failed'', ''Restore failed''),
      (''backup.download_ready'', ''Download ready'')]"

definition isActive :: "json list \<Rightarrow> bool" where
  "isActive rs = list_ex (\<lambda>j. jget j ''status'' = JStr ''running'' \<or> jget j ''status'' = JStr ''pending'') rs"

definition poll_every :: "nat \<Rightarrow> json list \<Rightarrow> nat option" where
  "poll_every ms rs = (if isActive rs then Some ms else None)"

section \<open>The inventory\<close>

definition component_label :: "json \<Rightarrow> json" where
  "component_label v =
     (case map_of [(''files'', ''Files''), (''databases'', ''Databases''), (''mail'', ''Email''), (''config'', ''Configuration'')]
        (js_String v) of
        Some l \<Rightarrow> JStr l | None \<Rightarrow> v)"

definition snapshot_kind :: "json \<Rightarrow> jsstring" where
  "snapshot_kind row =
     or_string
       (Some (join_with '', '' (map (\<lambda>v. if nullish v then [] else js_String v)
          (map component_label (json_list (jget (jget row ''options'') ''components''))))))
       ''Recovery point''"

definition snapshot_row :: "json \<Rightarrow> json" where
  "snapshot_row row = with_fields row
     [(''_source'', JStr ''snapshot''), (''_key'', JStr (''snapshot-'' @ js_String (jget row ''id''))),
      (''kind'', JStr (snapshot_kind row))]"

definition archive_row :: "json \<Rightarrow> json" where
  "archive_row row = with_fields row
     [(''_source'', JStr ''archive''), (''_key'', JStr (''archive-'' @ js_String (jget row ''id'')))]"

definition inventory_of :: "jsstring \<Rightarrow> json list \<Rightarrow> json list \<Rightarrow> json list" where
  "inventory_of backupType runs jobs =
     filter (\<lambda>row. backupType = ''all'' \<or> jget row ''_source'' = JStr backupType)
       (map snapshot_row runs @ map archive_row jobs)"

lemma row_sources [simp]:
  "jget (snapshot_row r) ''_source'' = JStr ''snapshot''" "jget (archive_row r) ''_source'' = JStr ''archive''"
  "jget (snapshot_row r) ''_key'' = JStr (''snapshot-'' @ js_String (jget r ''id''))"
  "jget (archive_row r) ''_key'' = JStr (''archive-'' @ js_String (jget r ''id''))"
  by (simp_all add: snapshot_row_def archive_row_def)

lemma archive_row_fields [simp]:
  "k \<noteq> ''_source'' \<Longrightarrow> k \<noteq> ''_key'' \<Longrightarrow> jget (archive_row r) k = jget r k"
  by (simp add: archive_row_def)

lemma inventory_all: "inventory_of ''all'' runs jobs = map snapshot_row runs @ map archive_row jobs"
  by (simp add: inventory_of_def)

lemma inventory_archive: "inventory_of ''archive'' runs jobs = map archive_row jobs"
  by (simp add: inventory_of_def filter_empty_conv)

lemma inventory_snapshot: "inventory_of ''snapshot'' runs jobs = map snapshot_row runs"
  by (simp add: inventory_of_def filter_empty_conv)

definition row_key :: "json \<Rightarrow> jsstring" where
  "row_key row = js_String (jget row ''_key'')"

text \<open>The list offers every backup exactly once: the three choices of the filter partition it, and no
  two rows share the key they are rendered under as long as the server's identifiers differ
  within each kind.\<close>

theorem inventory_complete:
  assumes "distinct (map (\<lambda>r. js_String (jget r ''id'')) runs)" "distinct (map (\<lambda>r. js_String (jget r ''id'')) jobs)"
  shows "inventory_of ''all'' runs jobs = inventory_of ''snapshot'' runs jobs @ inventory_of ''archive'' runs jobs \<and>
         length (inventory_of ''all'' runs jobs) = length runs + length jobs \<and>
         distinct (map row_key (inventory_of t runs jobs))"
proof -
  have "distinct (map row_key (map snapshot_row runs @ map archive_row jobs))"
    using assms by (auto simp: row_key_def comp_def distinct_map inj_on_def)
  then have "distinct (map row_key (inventory_of t runs jobs))"
    unfolding inventory_of_def by (rule distinct_map_filter_fst)
  then show ?thesis by (simp add: inventory_all inventory_archive inventory_snapshot)
qed

theorem inventory_complete_witness:
  "distinct (map row_key (inventory_of ''all'' [JObj [(''id'', JNum 1)]] [JObj [(''id'', JNum 1)], JObj [(''id'', JNum 2)]]))"
proof -
  have "distinct (map (\<lambda>r. js_String (jget r ''id'')) [JObj [(''id'', JNum 1)]])" by simp
  moreover have "distinct (map (\<lambda>r. js_String (jget r ''id'')) [JObj [(''id'', JNum 1)], JObj [(''id'', JNum 2)]])"
    by code_simp
  ultimately show ?thesis by (rule inventory_complete[THEN conjunct2, THEN conjunct2])
qed

section \<open>The page\<close>

record backup_form =
  bf_kind :: jsstring
  bf_item :: jsstring
  bf_domain :: jsstring

definition EMPTY_BACKUP :: backup_form where
  "EMPTY_BACKUP = \<lparr>bf_kind = ''full'', bf_item = [], bf_domain = []\<rparr>"

datatype inventory_query = QIdle | QLoading | QFailed jsstring | QReady json

definition query_data :: "inventory_query \<Rightarrow> json" where
  "query_data q = (case q of QReady v \<Rightarrow> v | _ \<Rightarrow> JUndef)"

definition query_blocked :: "inventory_query \<Rightarrow> bool" where
  "query_blocked q = (case q of QLoading \<Rightarrow> True | QFailed e \<Rightarrow> True | _ \<Rightarrow> False)"

record backups_page =
  bk_section :: jsstring
  bk_type :: jsstring
  bk_snapshot :: json
  bk_createOpen :: bool
  bk_form :: backup_form
  bk_toRestore :: json
  bk_toBrowse :: json
  bk_address :: "(jsstring \<times> jsstring) list"
  bk_runs :: "json list"
  bk_jobs :: "json list"
  bk_databases :: json
  bk_mailboxes :: inventory_query
  bk_create :: mutation
  bk_restore :: mutation

definition initial_backups :: "(jsstring \<times> jsstring) list \<Rightarrow> backups_page" where
  "initial_backups address =
     \<lparr>bk_section = (if map_of address ''view'' = Some ''restores'' then ''history'' else ''inventory''),
      bk_type = ''all'', bk_snapshot = JNull, bk_createOpen = False, bk_form = EMPTY_BACKUP, bk_toRestore = JNull,
      bk_toBrowse = JNull, bk_address = address, bk_runs = [], bk_jobs = [], bk_databases = JUndef,
      bk_mailboxes = QIdle, bk_create = idle, bk_restore = idle\<rparr>"

text \<open>The effect that follows a link such as \<open>?action=create&kind=database\<close>, run when the address changes.\<close>

definition address_effect :: "backups_page \<Rightarrow> backups_page" where
  "address_effect s =
     (case map_of (bk_address s) ''kind'' of
        Some kind \<Rightarrow>
          if map_of (bk_address s) ''action'' = Some ''create'' \<and> kind \<in> set (map fst BACKUP_KINDS)
          then s\<lparr>bk_form := \<lparr>bf_kind = kind, bf_item = [], bf_domain = []\<rparr>, bk_createOpen := True, bk_address := []\<rparr>
          else if map_of (bk_address s) ''view'' = Some ''restores''
          then s\<lparr>bk_section := ''history'', bk_address := []\<rparr> else s
      | None \<Rightarrow>
          if map_of (bk_address s) ''view'' = Some ''restores''
          then s\<lparr>bk_section := ''history'', bk_address := []\<rparr> else s)"

lemma address_effect_cases: "address_effect s = s \<or> bk_address (address_effect s) = []"
  by (simp add: address_effect_def split: option.split)

lemma address_effect_empty: "bk_address s = [] \<Longrightarrow> address_effect s = s"
  by (simp add: address_effect_def)

lemma address_effect_once: "address_effect (address_effect s) = address_effect s"
  using address_effect_cases[of s] address_effect_empty[of "address_effect s"] by metis

definition needsItemRef :: "backup_form \<Rightarrow> bool" where
  "needsItemRef f \<longleftrightarrow> bf_kind f \<notin> {''full'', ''databases''}"

text \<open>A member that is \<open>undefined\<close> is left out of the request.\<close>

definition backup_body :: "backup_form \<Rightarrow> body" where
  "backup_body f =
     (''kind'', JStr (bf_kind f)) #
     (if needsItemRef f \<and> trim (bf_item f) \<noteq> [] then [(''item_ref'', JStr (trim (bf_item f)))] else [])"

definition database_names :: "json \<Rightarrow> json list" where
  "database_names d = map (\<lambda>x. jget x ''db_name'') (json_list (jget d ''databases''))"

definition mail_domains :: "inventory_query \<Rightarrow> json list" where
  "mail_domains q = json_list (jget (query_data q) ''domains'')"

definition mailboxes_of :: "inventory_query \<Rightarrow> jsstring \<Rightarrow> json list" where
  "mailboxes_of q d =
     map (\<lambda>m. jget m ''address'') (filter (\<lambda>m. jget m ''domain'' = JStr d) (json_list (jget (query_data q) ''mailboxes'')))"

definition backup_disabled :: "backups_page \<Rightarrow> bool" where
  "backup_disabled s \<longleftrightarrow>
     (needsItemRef (bk_form s) \<and> trim (bf_item (bk_form s)) = []) \<or>
     (bf_kind (bk_form s) = ''mailbox'' \<and> bf_domain (bk_form s) = []) \<or>
     (bf_kind (bk_form s) = ''databases'' \<and> json_list (jget (bk_databases s) ''databases'') = [])"

datatype backup_event =
    AddressChanges "(jsstring \<times> jsstring) list"
  | JobsArrive "json list" | RunsArrive "json list"
  | DatabasesArrive json | MailboxesChange inventory_query
  | ChooseSection jsstring | ChooseType jsstring
  | ShowRun json | CloseRun
  | OpenCreate | DismissCreate
  | ChooseKind jsstring | ChooseDatabase jsstring | ChooseMailDomain jsstring | ChooseMailbox jsstring | TypeItem jsstring
  | SubmitBackup | BackupStarted | BackupRefused jsstring
  | AskRestore json | DismissRestore | ConfirmRestore | RestoreStarted | RestoreRefused jsstring
  | AskBrowse json | CloseBrowse | DownloadPortable json

definition inventory :: "backups_page \<Rightarrow> json list" where
  "inventory s = inventory_of (bk_type s) (bk_runs s) (bk_jobs s)"

text \<open>The actions of a row.\<close>

definition restorable_row :: "json \<Rightarrow> bool" where
  "restorable_row r \<longleftrightarrow> jget r ''_source'' \<noteq> JStr ''snapshot'' \<and> jget r ''status'' = JStr ''completed''"

fun backups_offered :: "bool \<Rightarrow> backups_page \<Rightarrow> backup_event \<Rightarrow> bool" where
  "backups_offered admin s (ChooseSection x) = (x \<in> {''inventory'', ''history'', ''notifications''})"
| "backups_offered admin s (ChooseType t) = (t \<in> {''all'', ''snapshot'', ''archive''})"
| "backups_offered admin s (ShowRun r) = (r \<in> set (inventory s) \<and> jget r ''_source'' = JStr ''snapshot'')"
| "backups_offered admin s CloseRun = truthy (bk_snapshot s)"
| "backups_offered admin s DismissCreate = (bk_createOpen s \<and> \<not> isPending (bk_create s))"
| "backups_offered admin s (ChooseKind k) = (bk_createOpen s \<and> k \<in> set (map fst BACKUP_KINDS))"
| "backups_offered admin s (ChooseDatabase d) =
     (bk_createOpen s \<and> bf_kind (bk_form s) = ''database'' \<and> (d = [] \<or> JStr d \<in> set (database_names (bk_databases s))))"
| "backups_offered admin s (ChooseMailDomain d) =
     (bk_createOpen s \<and> bf_kind (bk_form s) = ''mailbox'' \<and> \<not> query_blocked (bk_mailboxes s) \<and>
      (d = [] \<or> JStr d \<in> set (mail_domains (bk_mailboxes s))))"
| "backups_offered admin s (ChooseMailbox m) =
     (bk_createOpen s \<and> bf_kind (bk_form s) = ''mailbox'' \<and> bf_domain (bk_form s) \<noteq> [] \<and> \<not> query_blocked (bk_mailboxes s) \<and>
      (m = [] \<or> JStr m \<in> set (mailboxes_of (bk_mailboxes s) (bf_domain (bk_form s)))))"
| "backups_offered admin s (TypeItem v) = (bk_createOpen s \<and> bf_kind (bk_form s) = ''file'')"
| "backups_offered admin s SubmitBackup = (bk_createOpen s \<and> \<not> isPending (bk_create s) \<and> \<not> backup_disabled s)"
| "backups_offered admin s BackupStarted = isPending (bk_create s)"
| "backups_offered admin s (BackupRefused e) = isPending (bk_create s)"
| "backups_offered admin s (AskRestore r) = (r \<in> set (inventory s) \<and> restorable_row r)"
| "backups_offered admin s DismissRestore = (truthy (bk_toRestore s) \<and> \<not> isPending (bk_restore s))"
| "backups_offered admin s ConfirmRestore = (truthy (bk_toRestore s) \<and> \<not> isPending (bk_restore s))"
| "backups_offered admin s RestoreStarted = isPending (bk_restore s)"
| "backups_offered admin s (RestoreRefused e) = isPending (bk_restore s)"
| "backups_offered admin s (AskBrowse r) = (r \<in> set (inventory s) \<and> restorable_row r)"
| "backups_offered admin s CloseBrowse = truthy (bk_toBrowse s)"
| "backups_offered admin s (DownloadPortable r) =
     (r \<in> set (inventory s) \<and> restorable_row r \<and> admin \<and> jget r ''kind'' = JStr ''full'')"
| "backups_offered admin s _ = True"

definition backups_url :: "jsstring \<Rightarrow> jsstring" where
  "backups_url u = ''/api/v1/accounts/'' @ u @ ''/backups''"

definition restore_url :: "jsstring \<Rightarrow> json \<Rightarrow> jsstring" where
  "restore_url u job = backups_url u @ ''/'' @ js_String (jget job ''id'') @ ''/restore''"

fun backups_step :: "jsstring \<Rightarrow> backup_event \<Rightarrow> backups_page \<Rightarrow> backups_page \<times> api_request list \<times> page_effect list" where
  "backups_step u (AddressChanges a) s = (address_effect (s\<lparr>bk_address := a\<rparr>), [], [])"
| "backups_step u (JobsArrive xs) s = (s\<lparr>bk_jobs := xs\<rparr>, [], [])"
| "backups_step u (RunsArrive xs) s = (s\<lparr>bk_runs := xs\<rparr>, [], [])"
| "backups_step u (DatabasesArrive d) s = (s\<lparr>bk_databases := d\<rparr>, [], [])"
| "backups_step u (MailboxesChange q) s = (s\<lparr>bk_mailboxes := q\<rparr>, [], [])"
| "backups_step u (ChooseSection x) s = (s\<lparr>bk_section := x\<rparr>, [], [])"
| "backups_step u (ChooseType t) s = (s\<lparr>bk_type := t\<rparr>, [], [])"
| "backups_step u (ShowRun r) s = (s\<lparr>bk_snapshot := r\<rparr>, [], [])"
| "backups_step u CloseRun s = (s\<lparr>bk_snapshot := JNull\<rparr>, [], [])"
| "backups_step u OpenCreate s = (s\<lparr>bk_createOpen := True\<rparr>, [], [])"
| "backups_step u DismissCreate s = (s\<lparr>bk_createOpen := False\<rparr>, [], [])"
| "backups_step u (ChooseKind k) s = (s\<lparr>bk_form := \<lparr>bf_kind = k, bf_item = [], bf_domain = []\<rparr>\<rparr>, [], [])"
| "backups_step u (ChooseDatabase d) s = (s\<lparr>bk_form := (bk_form s)\<lparr>bf_item := d\<rparr>\<rparr>, [], [])"
| "backups_step u (ChooseMailDomain d) s = (s\<lparr>bk_form := (bk_form s)\<lparr>bf_domain := d, bf_item := []\<rparr>\<rparr>, [], [])"
| "backups_step u (ChooseMailbox m) s = (s\<lparr>bk_form := (bk_form s)\<lparr>bf_item := m\<rparr>\<rparr>, [], [])"
| "backups_step u (TypeItem v) s = (s\<lparr>bk_form := (bk_form s)\<lparr>bf_item := v\<rparr>\<rparr>, [], [])"
| "backups_step u SubmitBackup s =
     (s\<lparr>bk_create := mutate (bk_create s)\<rparr>, [ApiPost (backups_url u) (backup_body (bk_form s))], [])"
| "backups_step u BackupStarted s =
     (s\<lparr>bk_create := settle_ok (bk_create s), bk_section := ''inventory'', bk_type := ''all'', bk_createOpen := False, bk_form := EMPTY_BACKUP\<rparr>, [],
      [Toast Success ''Backup started'' ''The backup job is running in the background.'', Invalidate [''backups'', u]])"
| "backups_step u (BackupRefused e) s = (s\<lparr>bk_create := settle_error e (bk_create s)\<rparr>, [], [])"
| "backups_step u (AskRestore r) s = (s\<lparr>bk_toRestore := r\<rparr>, [], [])"
| "backups_step u DismissRestore s = (s\<lparr>bk_toRestore := JNull\<rparr>, [], [])"
| "backups_step u ConfirmRestore s =
     (s\<lparr>bk_restore := mutate (bk_restore s)\<rparr>, [ApiPost (restore_url u (bk_toRestore s)) []], [])"
| "backups_step u RestoreStarted s =
     (s\<lparr>bk_restore := settle_ok (bk_restore s), bk_section := ''history'', bk_toRestore := JNull\<rparr>, [],
      [Toast Success ''Restore started'' ''The restore job is running in the background.'',
       Invalidate [''backups'', u], Invalidate [''backup-restores'', u]])"
| "backups_step u (RestoreRefused e) s = (s\<lparr>bk_restore := settle_error e (bk_restore s)\<rparr>, [], [])"
| "backups_step u (AskBrowse r) s = (s\<lparr>bk_toBrowse := r\<rparr>, [], [])"
| "backups_step u CloseBrowse s = (s\<lparr>bk_toBrowse := JNull\<rparr>, [], [])"
| "backups_step u (DownloadPortable r) s =
     (s, [OpenWindow (''/api/v1/admin/account-archives/'' @ js_String (jget r ''id'') @ ''/download'')], [])"

section \<open>What is sent\<close>

definition valid_backup_body :: "body \<Rightarrow> bool" where
  "valid_backup_body b \<longleftrightarrow>
     (case b of
        [(k, JStr kind)] \<Rightarrow> k = ''kind'' \<and> kind \<in> {''full'', ''databases''}
      | [(k, JStr kind), (i, JStr item)] \<Rightarrow>
          k = ''kind'' \<and> i = ''item_ref'' \<and> kind \<in> {''file'', ''database'', ''mailbox''} \<and> item \<noteq> [] \<and> trim item = item
      | _ \<Rightarrow> False)"

definition backup_request_ok :: "jsstring \<Rightarrow> bool \<Rightarrow> api_request \<Rightarrow> bool" where
  "backup_request_ok u admin r =
     (case r of
        ApiPost url b \<Rightarrow> (url = backups_url u \<and> valid_backup_body b) \<or> (startsWith url (backups_url u @ ''/'') \<and> b = [])
      | OpenWindow url \<Rightarrow> admin
      | _ \<Rightarrow> False)"

definition kind_ok :: "jsstring \<Rightarrow> bool" where
  "kind_ok k \<longleftrightarrow> k \<in> set (map fst BACKUP_KINDS)"

definition backups_inv :: "backups_page \<Rightarrow> bool" where
  "backups_inv s \<longleftrightarrow>
     kind_ok (bf_kind (bk_form s)) \<and>
     (truthy (bk_toRestore s) \<longrightarrow> restorable_row (bk_toRestore s))"

lemma kind_ok_iff: "k \<in> fst ` set BACKUP_KINDS \<longleftrightarrow> kind_ok k"
  by (simp add: kind_ok_def)

lemma restore_url_start: "startsWith (restore_url u j) (backups_url u @ ''/'')"
  using startsWith_append[of "backups_url u @ ''/''" "js_String (jget j ''id'') @ ''/restore''"] by (simp add: restore_url_def)

lemma kind_ok_empty [simp]: "kind_ok (bf_kind EMPTY_BACKUP)"
  by code_simp

lemma backups_inv_initial: "backups_inv (initial_backups a)"
  by (simp add: backups_inv_def initial_backups_def)

lemma backups_inv_address: "backups_inv s \<Longrightarrow> backups_inv (address_effect (s\<lparr>bk_address := a\<rparr>))"
  by (auto simp: backups_inv_def address_effect_def kind_ok_iff split: option.split)

lemma valid_backup_body:
  "kind_ok (bf_kind f) \<Longrightarrow> \<not> (needsItemRef f \<and> trim (bf_item f) = []) \<Longrightarrow> valid_backup_body (backup_body f)"
  by (auto simp: kind_ok_def valid_backup_body_def backup_body_def needsItemRef_def BACKUP_KINDS_def)

lemma backup_disabled_item: "\<not> backup_disabled s \<Longrightarrow> \<not> (needsItemRef (bk_form s) \<and> trim (bf_item (bk_form s)) = [])"
  by (simp add: backup_disabled_def)

lemma backups_inv_step:
  "backups_inv s \<Longrightarrow> backups_offered admin s e \<Longrightarrow> backups_inv (fst (backups_step u e s))"
  by (cases e) (simp_all add: backups_inv_address, simp_all add: backups_inv_def kind_ok_iff)

lemma backups_good_step:
  "backups_inv s \<Longrightarrow> backups_offered admin s e \<Longrightarrow> list_all (backup_request_ok u admin) (fst (snd (backups_step u e s)))"
  by (cases e)
    (simp_all add: backup_request_ok_def backups_inv_def restore_url_start valid_backup_body backup_disabled_item)

interpretation backups: page_contract "initial_backups a" "backups_offered admin" "backups_step u" backups_inv "backup_request_ok u admin"
  by unfold_locales (simp_all only: backups_inv_initial backups_inv_step backups_good_step)

text \<open>Whatever link opened the page and whatever the queries answer: every backup asked for names a known
  kind, with the trimmed item for exactly the kinds that need one; a restore concerns a completed
  archive, never a recovery point of the provider, and is sent only from its confirmation; the
  portable download is opened by administrators only.
\<close>

theorem backup_requests_valid:
  assumes "page_reach (initial_backups a) (backups_offered admin) (backups_step u) s sent"
  shows "list_all (backup_request_ok u admin) sent \<and>
         (backups_offered admin s ConfirmRestore \<longrightarrow>
            restorable_row (bk_toRestore s) \<and>
            fst (snd (backups_step u ConfirmRestore s)) = [ApiPost (restore_url u (bk_toRestore s)) []]) \<and>
         (backups_offered admin s SubmitBackup \<longrightarrow> valid_backup_body (backup_body (bk_form s)))"
proof -
  from backups.reach_inv[OF assms] have ok: "backups_inv s" "list_all (backup_request_ok u admin) sent" by auto
  have "valid_backup_body (backup_body (bk_form s))" if "backups_offered admin s SubmitBackup"
    using that ok(1) by (intro valid_backup_body backup_disabled_item) (simp_all add: backups_inv_def)
  with ok show ?thesis by (simp add: backups_inv_def)
qed

definition mailbox_script :: "backup_event list" where
  "mailbox_script =
     [MailboxesChange (QReady (JObj [(''domains'', JArr [JStr ''a.org'']),
        (''mailboxes'', JArr [JObj [(''address'', JStr ''x@a.org''), (''domain'', JStr ''a.org'')]])])),
      ChooseMailDomain ''a.org'', ChooseMailbox ''x@a.org'', SubmitBackup]"

theorem backup_requests_valid_witness:
  "\<exists>s. list_all (backup_request_ok ''joe'' False)
     [ApiPost ''/api/v1/accounts/joe/backups'' [(''kind'', JStr ''mailbox''), (''item_ref'', JStr ''x@a.org'')]] \<and>
     page_reach (initial_backups [(''action'', ''create''), (''kind'', ''mailbox'')]) (backups_offered False) (backups_step ''joe'') s
     [ApiPost ''/api/v1/accounts/joe/backups'' [(''kind'', JStr ''mailbox''), (''item_ref'', JStr ''x@a.org'')]]"
proof -
  let ?a = "[(''action'', ''create''), (''kind'', ''mailbox'')]"
  let ?run = "page_run (backups_offered False) (backups_step ''joe'') (AddressChanges ?a # mailbox_script) (initial_backups ?a, [])"
  have "map_option snd ?run = Some [ApiPost ''/api/v1/accounts/joe/backups'' [(''kind'', JStr ''mailbox''), (''item_ref'', JStr ''x@a.org'')]]"
    by code_simp
  then obtain s where "?run = Some (s, [ApiPost ''/api/v1/accounts/joe/backups'' [(''kind'', JStr ''mailbox''), (''item_ref'', JStr ''x@a.org'')]])"
    by auto
  from scripted_reach[OF this] backup_requests_valid[OF scripted_reach[OF this]] show ?thesis by blast
qed

section \<open>What is shown\<close>

text \<open>The queries poll while a job of theirs runs: the archives and restores every five seconds, the
  recovery points every three.\<close>

definition backups_poll :: "json \<Rightarrow> nat option" where
  "backups_poll d = poll_every 5000 (json_list (jget d ''jobs''))"

definition snapshots_poll :: "json \<Rightarrow> nat option" where
  "snapshots_poll d = poll_every 3000 (json_list (jget d ''runs''))"

definition restores_poll :: "json \<Rightarrow> nat option" where
  "restores_poll d = poll_every 5000 (json_list (jget d ''restore_jobs''))"

definition kind_cell :: "json \<Rightarrow> jsstring" where
  "kind_cell r = js_String (jget r ''kind'') @
     (if truthy (jget r ''item_ref'') then ''('' @ js_String (jget r ''item_ref'') @ '')'' else [])"

definition progress_cell :: "json \<Rightarrow> jsstring" where
  "progress_cell r =
     (if jget r ''status'' = JStr ''failed'' \<and> truthy (jget r ''error'') then js_String (jget r ''error'')
      else js_String (js_or (jget r ''progress_message'') (JStr [em_dash])))"

definition size_value :: "json \<Rightarrow> json" where
  "size_value r =
     (if jget r ''_source'' = JStr ''snapshot'' then jget (jget r ''summary'') ''total_bytes_processed'' else jget r ''size_bytes'')"

definition action_labels :: "bool \<Rightarrow> json \<Rightarrow> jsstring list" where
  "action_labels admin r =
     (if jget r ''_source'' = JStr ''snapshot'' then [''View details'']
      else if jget r ''status'' = JStr ''completed''
      then [''Restore'', ''Browse''] @ (if admin \<and> jget r ''kind'' = JStr ''full'' then [''Portable archive''] else [])
      else [])"

definition backup_column :: "jsstring \<Rightarrow> jsstring \<Rightarrow> bool option \<Rightarrow> bool \<Rightarrow> (json \<Rightarrow> json) option \<Rightarrow> (json \<Rightarrow> jsstring) \<Rightarrow> column" where
  "backup_column k h se so sv r =
     \<lparr>ckey = k, header = Some h, searchable = se, sortable = so, searchValue = None, sortValue = sv, render = Some r\<rparr>"

definition backupColumns :: "(json \<Rightarrow> jsstring) \<Rightarrow> (json \<Rightarrow> jsstring) \<Rightarrow> bool \<Rightarrow> column list" where
  "backupColumns formatDate formatSize admin =
     [backup_column ''id'' ''Backup'' None False None
        (\<lambda>r. (if jget r ''_source'' = JStr ''snapshot'' then ''Backup #'' else ''Archive #'') @ js_String (jget r ''id'')),
      backup_column ''_source'' ''Backup type'' None True None
        (\<lambda>r. if jget r ''_source'' = JStr ''snapshot'' then ''Scheduled recovery point'' else ''On-demand archive''),
      backup_column ''kind'' ''Kind'' (Some True) True None kind_cell,
      backup_column ''status'' ''Status'' None True None (\<lambda>r. snd (statusBadge (jget r ''status'') None)),
      backup_column ''trigger'' ''Trigger'' None True None
        (\<lambda>r. js_String (js_or (jget r ''trigger'')
           (JStr (if jget r ''_source'' = JStr ''snapshot'' then ''Provider backup job'' else [em_dash])))),
      backup_column ''size_bytes'' ''Size'' None True
        (Some (\<lambda>r. if nullish (size_value r) then JNum 0 else size_value r))
        (\<lambda>r. if nullish (size_value r) then [em_dash] else formatSize (size_value r)),
      backup_column ''started_at'' ''Started'' None True None (\<lambda>r. formatDate (jget r ''started_at'')),
      backup_column ''progress_message'' ''Progress'' None False None progress_cell,
      backup_column ''actions'' [] None False None (\<lambda>r. join_with '' '' (action_labels admin r))]"

text \<open>The buttons of a row are exactly the events it offers.\<close>

lemma row_actions:
  assumes "r \<in> set (inventory s)"
  shows "''Restore'' \<in> set (action_labels admin r) \<longleftrightarrow> backups_offered admin s (AskRestore r)"
    "''Browse'' \<in> set (action_labels admin r) \<longleftrightarrow> backups_offered admin s (AskBrowse r)"
    "''Portable archive'' \<in> set (action_labels admin r) \<longleftrightarrow> backups_offered admin s (DownloadPortable r)"
    "''View details'' \<in> set (action_labels admin r) \<longleftrightarrow> backups_offered admin s (ShowRun r)"
  using assms by (auto simp: action_labels_def restorable_row_def)

definition backups_table :: "(json \<Rightarrow> jsstring) \<Rightarrow> (json \<Rightarrow> jsstring) \<Rightarrow> bool \<Rightarrow> bool \<Rightarrow> bool \<Rightarrow> backups_page \<Rightarrow> table_props" where
  "backups_table formatDate formatSize admin isLoading isFailed s =
     \<lparr>columns = backupColumns formatDate formatSize admin, rows = inventory s, loading = isLoading, failed = isFailed,
      filterable = True, pageSize = 15, controlledQuery = Undefined, controlledSort = Undefined, controlledPage = Undefined,
      emptyTitle = (if bk_type s = ''snapshot'' then ''No scheduled recovery points yet''
                    else if bk_type s = ''archive'' then ''No on-demand archives yet'' else ''No backups yet''),
      emptyDescription = (if bk_type s = ''snapshot'' then ''Recovery points from your hosting provider'' @ [CHR 0x27] @ ''s backup jobs will appear here.''
                          else ''Create a full or partial archive backup to protect your account.''),
      hasEmptyAction = (bk_type s \<noteq> ''snapshot''), clickable = False, columnPicker = False\<rparr>"

text \<open>The dialog that lists the contents of an archive.\<close>

datatype browse_view =
    BrowseLoading
  | BrowseFailed
  | BrowseListing "(jsstring \<times> jsstring) list" "(jsstring \<times> jsstring list) list" "jsstring list"
  | BrowseSingle jsstring jsstring

definition count_of :: "json \<Rightarrow> jsstring" where
  "count_of v = show_nat (length (json_list v))"

definition browse_stats :: "(json \<Rightarrow> jsstring) \<Rightarrow> json \<Rightarrow> (jsstring \<times> jsstring) list" where
  "browse_stats formatDate m =
     [(''Backed up'', formatDate (jget m ''backed_up_at'')),
      (''PHP version'', js_String (js_or (jget m ''php_version'') (JStr [em_dash]))),
      (''Domains'', count_of (jget m ''domains'')), (''Databases'', count_of (jget m ''databases'')),
      (''Mail domains'', count_of (jget m ''mail_domains'')), (''Mailboxes'', count_of (jget m ''mail_users'')),
      (''Cron jobs'', count_of (jget m ''cron_jobs'')),
      (''DNS zone'', js_String (js_or (jget (jget m ''dns_zone'') ''zone'') (JStr ''none'')))]"

definition badge_lists :: "jsstring \<Rightarrow> json \<Rightarrow> (jsstring \<times> jsstring list) list" where
  "badge_lists kind m =
     filter (\<lambda>(l, items). items \<noteq> [])
       (if kind = ''full''
        then [(''Domains'', map (\<lambda>d. js_String (jget d ''domain'')) (json_list (jget m ''domains''))),
              (''Databases'', map (\<lambda>d. js_String (jget d ''db_name'')) (json_list (jget m ''databases''))),
              (''Mailboxes'', map (\<lambda>u. js_String (jget u ''local_part'') @ ''@'' @ js_String (jget u ''domain''))
                 (json_list (jget m ''mail_users'')))]
        else [(''Databases'', map js_String (json_list (jget m ''databases'')))])"

definition browse_dialog :: "(json \<Rightarrow> jsstring) \<Rightarrow> bool \<Rightarrow> bool \<Rightarrow> json \<Rightarrow> json \<Rightarrow> browse_view" where
  "browse_dialog formatDate isLoading isError d job =
     (if isLoading then BrowseLoading
      else if isError then BrowseFailed
      else if jget d ''kind'' \<in> {JStr ''full'', JStr ''databases''} \<and> truthy (jget d ''manifest'')
      then BrowseListing
             (if jget d ''kind'' = JStr ''full'' then browse_stats formatDate (jget d ''manifest'') else [])
             (badge_lists (js_String (jget d ''kind'')) (jget d ''manifest''))
             (map js_String (json_list (jget d ''contents'')))
      else BrowseSingle (js_String (jget d ''kind'')) (js_String (js_or (jget d ''item_ref'') (jget job ''item_ref''))))"

section \<open>Email notifications\<close>

record prefs_form =
  pf_email :: jsstring
  pf_events :: "(jsstring \<times> json) list"

definition prefs_loaded :: "json \<Rightarrow> prefs_form" where
  "prefs_loaded d = \<lparr>pf_email = json_text (jget d ''customer_email''), pf_events = json_fields (jget d ''events'')\<rparr>"

definition pref_checked :: "prefs_form \<Rightarrow> jsstring \<Rightarrow> json" where
  "pref_checked f k = (let v = jget (JObj (pf_events f)) k in if nullish v then JBool True else v)"

definition tick_pref :: "jsstring \<Rightarrow> bool \<Rightarrow> prefs_form \<Rightarrow> prefs_form" where
  "tick_pref k b f = f\<lparr>pf_events := (k, JBool b) # pf_events f\<rparr>"

definition prefs_request :: "jsstring \<Rightarrow> prefs_form \<Rightarrow> api_request" where
  "prefs_request u f =
     ApiPatch (''/api/v1/accounts/'' @ encodeURIComponent u @ ''/notification-prefs'')
       [(''customer_email'', JStr (pf_email f)), (''events'', JObj (pf_events f))]"

text \<open>Ticking one event changes what is shown and sent for that event only, and events never decided
  show as on without being sent.\<close>

lemma tick_pref_local:
  "pref_checked (tick_pref k b f) k' = (if k' = k then JBool b else pref_checked f k')"
  "jget (JObj (pf_events (tick_pref k b f))) k' = (if k' = k then JBool b else jget (JObj (pf_events f)) k')"
  by (auto simp: tick_pref_def pref_checked_def nullish_def Let_def)

lemma undecided_event_on:
  "jget (JObj (pf_events f)) k = JUndef \<Longrightarrow> pref_checked f k = JBool True"
  by (simp add: pref_checked_def nullish_def)

end
