(* ===== verification/Palette.thy ===== *)
theory Palette
  imports Search Routing
begin

text \<open>
  The two search boxes of the panel as state machines: the command palette
  (\<open>components/layout/CommandPalette.jsx\<close>), opened from the keyboard, and the search field of the
  dashboard (\<open>components/themes/DashboardSearch.jsx\<close>). Focus handling and scrolling are left out.
\<close>

section \<open>The command palette\<close>

datatype palette_action =
    OpenPage jsstring
  | OpenTab jsstring
  | ToggleTheme
  | LogOutThenLogin

definition action_entry :: "jsstring \<Rightarrow> jsstring \<Rightarrow> search_entry" where
  "action_entry l i = \<lparr>e_section = ''Actions'', e_label = l, e_to = [], e_icon = i, e_external = False, e_keywords = []\<rparr>"

definition settings_entry :: "jsstring \<Rightarrow> jsstring \<Rightarrow> jsstring \<Rightarrow> jsstring \<Rightarrow> search_entry" where
  "settings_entry l p i k = \<lparr>e_section = ''Settings'', e_label = l, e_to = p, e_icon = i, e_external = False, e_keywords = k\<rparr>"

definition page_action :: "search_entry \<Rightarrow> palette_action" where
  "page_action e = (if e_external e then OpenTab (e_to e) else OpenPage (e_to e))"

definition palette_settings :: "jsstring \<Rightarrow> search_entry list" where
  "palette_settings role =
     (if role = ''admin'' then
        [settings_entry ''Panel access ports'' ''/panel-settings?section=access'' ''Network'' ''admin customer port listener 2222'',
         settings_entry ''Panel hostname'' ''/panel-settings?section=hostname'' ''Globe'' ''panel url domain address'',
         settings_entry ''Panel SSL'' ''/panel-settings?section=hostname'' ''ShieldCheck'' ''panel certificate renew lets encrypt tls'',
         settings_entry ''Error telemetry'' ''/panel-settings?section=telemetry'' ''Settings'' ''sentry logging diagnostics reporting'']
      else [])"

definition palette_actions :: "jsstring \<Rightarrow> (search_entry \<times> palette_action) list" where
  "palette_actions theme =
     [(action_entry (if theme = ''dark'' then ''Switch to light mode'' else ''Switch to dark mode'')
         (if theme = ''dark'' then ''Sun'' else ''Moon''), ToggleTheme),
      (action_entry ''Change password'' ''KeyRound'', OpenPage ''/change-password''),
      (action_entry ''Log out'' ''LogOut'', LogOutThenLogin)]"

record palette_context =
  pc_role :: jsstring
  pc_capabilities :: "jsstring list"
  pc_theme :: jsstring

definition palette_entries :: "palette_context \<Rightarrow> (search_entry \<times> palette_action) list" where
  "palette_entries c =
     map (\<lambda>e. (e, page_action e))
       (buildEntries (filterNavigation (nav_for (pc_role c)) (pc_capabilities c)) @ palette_settings (pc_role c)) @
     palette_actions (pc_theme c)"

definition palette_results :: "palette_context \<Rightarrow> jsstring \<Rightarrow> search_entry list" where
  "palette_results c query =
     (let q = toLowerCase (trim query) in
      if q = [] then map fst (palette_entries c) else searchEntries (map fst (palette_entries c)) q)"

text \<open>The action of a result: that of the entry it is.\<close>

definition action_of :: "palette_context \<Rightarrow> search_entry \<Rightarrow> palette_action" where
  "action_of c e = (case map_of (palette_entries c) e of Some a \<Rightarrow> a | None \<Rightarrow> page_action e)"

text \<open>The global shortcut.\<close>

record key_event =
  key :: jsstring
  ctrlKey :: bool
  metaKey :: bool
  altKey :: bool
  shiftKey :: bool
  editable :: bool

definition shortcut_opens :: "key_event \<Rightarrow> bool" where
  "shortcut_opens e \<longleftrightarrow>
     ((toLowerCase (key e) = ''k'' \<and> (ctrlKey e \<or> metaKey e)) \<or>
      (key e = ''/'' \<and> \<not> altKey e \<and> \<not> metaKey e \<and> (\<not> editable e \<or> ctrlKey e))) \<and>
     \<not> (key e = ''/'' \<and> shiftKey e)"

text \<open>Typing never opens the palette: a key without a modifier opens it only outside the fields.\<close>

lemma typing_does_not_open:
  "editable e \<Longrightarrow> \<not> ctrlKey e \<Longrightarrow> \<not> metaKey e \<Longrightarrow> \<not> shortcut_opens e"
  by (auto simp: shortcut_opens_def)

lemma control_k_opens: "toLowerCase (key e) = ''k'' \<Longrightarrow> ctrlKey e \<or> metaKey e \<Longrightarrow> shortcut_opens e"
proof -
  assume k: "toLowerCase (key e) = ''k''" and "ctrlKey e \<or> metaKey e"
  moreover have "key e \<noteq> ''/''"
  proof
    assume "key e = ''/''"
    with k have "toLowerCase ''/'' = ''k''" by simp
    then show False by code_simp
  qed
  ultimately show ?thesis by (simp add: shortcut_opens_def)
qed

record palette =
  p_open :: bool
  p_query :: jsstring
  p_selected :: int
  p_drawer :: bool \<comment> \<open>\<open>mobileNavOpen\<close>\<close>

definition initial_palette :: palette where
  "initial_palette = \<lparr>p_open = False, p_query = [], p_selected = 0, p_drawer = False\<rparr>"

text \<open>The two effects: a change of the query or of the visibility selects the first result, closing
  clears the query.\<close>

definition palette_effects :: "palette \<Rightarrow> palette \<Rightarrow> palette" where
  "palette_effects before s =
     (let s1 = (if p_query s \<noteq> p_query before \<or> p_open s \<noteq> p_open before then s\<lparr>p_selected := 0\<rparr> else s)
      in if p_open s \<noteq> p_open before \<and> \<not> p_open s then s1\<lparr>p_query := [], p_selected := 0\<rparr> else s1)"

datatype palette_event =
    Shortcut key_event
  | SetOpen bool
  | SetDrawer bool
  | TypeQuery jsstring
  | ArrowDown | ArrowUp | Enter
  | Click nat
  | Hover nat

fun palette_enabled :: "palette_context \<Rightarrow> palette \<Rightarrow> palette_event \<Rightarrow> bool" where
  "palette_enabled c s (Shortcut e) = True"
| "palette_enabled c s (SetOpen b) = True"
| "palette_enabled c s (SetDrawer b) = True"
| "palette_enabled c s (Click i) = (p_open s \<and> i < length (palette_results c (p_query s)))"
| "palette_enabled c s (Hover i) = (p_open s \<and> i < length (palette_results c (p_query s)))"
| "palette_enabled c s _ = p_open s"

definition at_index :: "'a list \<Rightarrow> int \<Rightarrow> 'a option" where
  "at_index xs i = (if 0 \<le> i \<and> nat i < length xs then Some (xs ! nat i) else None)"

definition run_entry :: "palette_context \<Rightarrow> search_entry \<Rightarrow> palette \<Rightarrow> palette \<times> palette_action list" where
  "run_entry c e s = (s\<lparr>p_open := False\<rparr>, [action_of c e])"

fun palette_react :: "palette_context \<Rightarrow> palette_event \<Rightarrow> palette \<Rightarrow> palette \<times> palette_action list" where
  "palette_react c (Shortcut e) s = (if shortcut_opens e then s\<lparr>p_drawer := False, p_open := True\<rparr> else s, [])"
| "palette_react c (SetOpen b) s = (s\<lparr>p_open := b\<rparr>, [])"
| "palette_react c (SetDrawer b) s = (s\<lparr>p_drawer := b\<rparr>, [])"
| "palette_react c (TypeQuery q) s = (s\<lparr>p_query := q\<rparr>, [])"
| "palette_react c ArrowDown s =
     (s\<lparr>p_selected := min (p_selected s + 1) (int (length (palette_results c (p_query s))) - 1)\<rparr>, [])"
| "palette_react c ArrowUp s = (s\<lparr>p_selected := max (p_selected s - 1) 0\<rparr>, [])"
| "palette_react c Enter s =
     (case at_index (palette_results c (p_query s)) (p_selected s) of
        Some e \<Rightarrow> run_entry c e s | None \<Rightarrow> (s, []))"
| "palette_react c (Click i) s = run_entry c (palette_results c (p_query s) ! i) s"
| "palette_react c (Hover i) s = (s\<lparr>p_selected := int i\<rparr>, [])"

definition palette_step :: "palette_context \<Rightarrow> palette_event \<Rightarrow> palette \<Rightarrow> palette \<times> palette_action list" where
  "palette_step c e s = (case palette_react c e s of (s', out) \<Rightarrow> (palette_effects s s', out))"

text \<open>The session may change while the palette is mounted: every event names the context it meets.\<close>

inductive palette_reach :: "palette \<Rightarrow> (palette_context \<times> palette_action) list \<Rightarrow> bool" where
  start: "palette_reach initial_palette []"
| step: "palette_reach s acts \<Longrightarrow> palette_enabled c s e \<Longrightarrow> palette_step c e s = (s', out) \<Longrightarrow>
     palette_reach s' (acts @ map (Pair c) out)"

lemma palette_results_entries:
  assumes "e \<in> set (palette_results c q)"
  shows "e \<in> fst ` set (palette_entries c)"
proof -
  have "set (searchEntries es w) \<subseteq> set es" for es w
  proof -
    have "set_mset (mset (searchEntries es w)) = set_mset (mset (filter (\<lambda>e. searchScore e w > 0) es))"
      by (simp only: mset_searchEntries)
    then show ?thesis by auto
  qed
  with assms show ?thesis by (fastforce simp: palette_results_def Let_def split: if_splits)
qed

lemma action_of_result:
  assumes "e \<in> set (palette_results c q)"
  shows "(e, action_of c e) \<in> set (palette_entries c)"
proof -
  from palette_results_entries[OF assms] obtain a where "map_of (palette_entries c) e = Some a"
    by (metis (no_types, lifting) domIff dom_map_of_conv_image_fst not_None_eq)
  then show ?thesis by (auto simp: action_of_def dest: map_of_SomeD)
qed

lemma with_sections_member:
  "e \<in> set (with_sections s nav) \<Longrightarrow> list_all (\<lambda>i. is_section i \<or> i \<noteq> Section []) nav \<Longrightarrow>
     Link (e_label e) (e_to e) (e_icon e) (e_external e) \<in> set nav"
  by (induction s nav rule: with_sections.induct) (auto split: if_splits)

lemma nav_for_headed: "list_all (\<lambda>i. is_section i \<or> i \<noteq> Section []) (nav_for r)"
proof -
  have "list_all (\<lambda>i. i \<noteq> Section []) adminNav" "list_all (\<lambda>i. i \<noteq> Section []) resellerNav" "list_all (\<lambda>i. i \<noteq> Section []) customerNav"
    by code_simp+
  then show ?thesis unfolding nav_for_def by (auto simp: list_all_iff)
qed

text \<open>An action of the palette is one the role may take: each page it opens is admitted by its guard.\<close>

definition allowed_action :: "(jsstring \<Rightarrow> matched) \<Rightarrow> jsstring \<Rightarrow> palette_action \<Rightarrow> bool" where
  "allowed_action m r a = (case a of OpenPage p \<Rightarrow> opens m r (path_part p) | _ \<Rightarrow> True)"

lemma palette_entry_allowed:
  assumes m: "matcher_ok m" and r: "pc_role c \<in> set known_roles" and a: "(e, a) \<in> set (palette_entries c)"
  shows "allowed_action m (pc_role c) a"
proof -
  consider (nav) "e \<in> set (buildEntries (filterNavigation (nav_for (pc_role c)) (pc_capabilities c)))" "a = page_action e"
    | (settings) "e \<in> set (palette_settings (pc_role c))" "a = page_action e"
    | (action) "a \<in> {ToggleTheme, OpenPage ''/change-password'', LogOutThenLogin}"
    using a by (auto simp: palette_entries_def palette_actions_def)
  then show ?thesis
  proof cases
    case nav
    have "list_all (\<lambda>i. is_section i \<or> i \<noteq> Section []) (filterNavigation (nav_for (pc_role c)) (pc_capabilities c))"
      using nav_for_headed filterNavigation_available unfolding list_all_iff by blast
    then have "Link (e_label e) (e_to e) (e_icon e) (e_external e) \<in> set (filterNavigation (nav_for (pc_role c)) (pc_capabilities c))"
      using nav(1) with_sections_member unfolding buildEntries_def by blast
    then show ?thesis
      using nav(2) nav_entry_opens[OF m r] by (cases "e_external e") (auto simp: page_action_def allowed_action_def)
  next
    case settings
    then have "pc_role c = ''admin''" "path_part (e_to e) = ''/panel-settings''" "\<not> e_external e"
      by (auto simp: palette_settings_def settings_entry_def path_part_def split: if_splits)
    moreover have "''/panel-settings'' \<in> set (pages_for ''admin'')" by code_simp
    ultimately show ?thesis
      using settings(2) pages_for_opens[OF m] by (simp add: page_action_def allowed_action_def)
  next
    case action
    have "list_all (\<lambda>r. ''/change-password'' \<in> set (pages_for r)) known_roles" by code_simp
    then have "opens m (pc_role c) ''/change-password''"
      using r pages_for_opens[OF m] by (auto simp: list_all_iff)
    moreover have "path_part ''/change-password'' = ''/change-password''" by code_simp
    ultimately show ?thesis using action by (auto simp: allowed_action_def)
  qed
qed

lemma at_index_mem: "at_index xs i = Some x \<Longrightarrow> x \<in> set xs"
  by (auto simp: at_index_def split: if_splits)

lemma palette_react_out:
  "palette_enabled c s e \<Longrightarrow> a \<in> set (snd (palette_react c e s)) \<Longrightarrow>
     \<exists>x. x \<in> set (palette_results c (p_query s)) \<and> a = action_of c x \<and> \<not> p_open (fst (palette_react c e s))"
  by (cases e) (auto simp: run_entry_def dest: at_index_mem split: option.splits intro: nth_mem)

lemma palette_effects_closed:
  assumes "\<not> p_open s \<Longrightarrow> p_query s = [] \<and> p_selected s = 0"
    and "p_open s \<or> p_open s' \<or> (p_query s' = p_query s \<and> p_selected s' = p_selected s)"
    and "\<not> p_open (palette_effects s s')"
  shows "p_query (palette_effects s s') = [] \<and> p_selected (palette_effects s s') = 0"
proof -
  have closed: "\<not> p_open s'" using assms(3) by (simp add: palette_effects_def Let_def split: if_splits)
  show ?thesis
  proof (cases "p_open s")
    case True
    with closed show ?thesis by (simp add: palette_effects_def Let_def)
  next
    case False
    with closed assms(1,2) show ?thesis by (simp add: palette_effects_def Let_def)
  qed
qed

lemma palette_closed_clean:
  "palette_reach s acts \<Longrightarrow> \<not> p_open s \<Longrightarrow> p_query s = [] \<and> p_selected s = 0"
proof (induction rule: palette_reach.induct)
  case start
  then show ?case by (simp add: initial_palette_def)
next
  case (step s acts c e s' out)
  have open': "p_open s \<or> p_open (fst (palette_react c e s)) \<or> 
      (p_query (fst (palette_react c e s)) = p_query s \<and> p_selected (fst (palette_react c e s)) = p_selected s)"
    using step.hyps(2) by (cases e) (auto simp: run_entry_def split: option.splits)
  have "s' = palette_effects s (fst (palette_react c e s))"
    using step.hyps(3) by (simp add: palette_step_def split_beta)
  with palette_effects_closed[OF step.IH open'] step.prems show ?case by blast
qed

text \<open>Whatever is typed, clicked or pressed, and however the session changes meanwhile: the palette only
  ever runs an action that belongs to the current role, so every page it opens admits that role; and a
  closed palette keeps neither a query nor a selection.
\<close>

theorem palette_runs_allowed:
  assumes "palette_reach s acts" "matcher_ok m"
  shows "list_all (\<lambda>(c, a). pc_role c \<in> set known_roles \<longrightarrow> (\<exists>e. (e, a) \<in> set (palette_entries c)) \<and> allowed_action m (pc_role c) a) acts \<and>
         (\<not> p_open s \<longrightarrow> p_query s = [] \<and> p_selected s = 0)"
proof -
  have "list_all (\<lambda>(c, a). pc_role c \<in> set known_roles \<longrightarrow> (\<exists>e. (e, a) \<in> set (palette_entries c)) \<and> allowed_action m (pc_role c) a) acts"
    using assms(1)
  proof (induction rule: palette_reach.induct)
    case start
    then show ?case by simp
  next
    case (step s acts c e s' out)
    have out: "out = snd (palette_react c e s)"
      using step.hyps(3) by (simp add: palette_step_def split_beta)
    have "(\<exists>e. (e, a) \<in> set (palette_entries c)) \<and> (pc_role c \<in> set known_roles \<longrightarrow> allowed_action m (pc_role c) a)"
      if "a \<in> set out" for a
      using that palette_react_out[OF step.hyps(2)] action_of_result palette_entry_allowed[OF assms(2)] unfolding out by metis
    with step.IH show ?case by (auto simp: list_all_iff)
  qed
  with palette_closed_clean[OF assms(1)] show ?thesis by blast
qed

definition admin_context :: palette_context where
  "admin_context = \<lparr>pc_role = ''admin'', pc_capabilities = [], pc_theme = ''dark''\<rparr>"

definition control_k :: key_event where
  "control_k = \<lparr>key = ''K'', ctrlKey = True, metaKey = False, altKey = False, shiftKey = False, editable = True\<rparr>"

definition palette_script :: "palette_event list" where
  "palette_script = [Shortcut control_k, ArrowDown, ArrowDown, Enter]"

fun palette_run :: "palette_context \<Rightarrow> palette_event list \<Rightarrow> palette \<times> palette_action list \<Rightarrow> (palette \<times> palette_action list) option" where
  "palette_run c [] r = Some r"
| "palette_run c (e # es) (s, acts) =
     (if palette_enabled c s e then palette_run c es (fst (palette_step c e s), acts @ snd (palette_step c e s)) else None)"

lemma palette_run_reach:
  "palette_run c es (s, acts) = Some (s', acts') \<Longrightarrow> palette_reach s (map (Pair c) acts) \<Longrightarrow> palette_reach s' (map (Pair c) acts')"
proof (induction es arbitrary: s acts)
  case Nil
  then show ?case by simp
next
  case (Cons e es)
  then have "palette_reach (fst (palette_step c e s)) (map (Pair c) (acts @ snd (palette_step c e s)))"
    by (auto intro!: palette_reach.step[of s] split: if_splits)
  with Cons show ?case by (auto split: if_splits)
qed

theorem palette_runs_allowed_witness:
  "opens static_matcher ''admin'' ''/accounts''"
proof -
  have "palette_run admin_context palette_script (initial_palette, []) = Some (initial_palette, [OpenPage ''/accounts''])"
    by code_simp
  from palette_run_reach[OF this] have reach: "palette_reach initial_palette [(admin_context, OpenPage ''/accounts'')]"
    using palette_reach.start by simp
  have "path_part ''/accounts'' = ''/accounts''" by code_simp
  with palette_runs_allowed[OF reach static_matcher_ok] show ?thesis
    by (simp add: allowed_action_def admin_context_def known_roles_def)
qed

text \<open>With results on the screen the selection stays on one of them; without, the arrow down leaves it
  before the first, where Enter does nothing.\<close>

lemma palette_selection_in_range:
  assumes "0 \<le> p_selected s" "nat (p_selected s) < length (palette_results c (p_query s))" "e \<in> {ArrowDown, ArrowUp, Hover i}"
    and "palette_enabled c s e"
  shows "0 \<le> p_selected (fst (palette_react c e s)) \<and>
         nat (p_selected (fst (palette_react c e s))) < length (palette_results c (p_query (fst (palette_react c e s))))"
  using assms by auto

lemma arrow_down_without_results:
  "palette_results c (p_query s) = [] \<Longrightarrow> 0 \<le> p_selected s \<Longrightarrow>
     p_selected (fst (palette_react c ArrowDown s)) = -1 \<and> palette_react c Enter (fst (palette_react c ArrowDown s)) = (fst (palette_react c ArrowDown s), [])"
  by (simp add: at_index_def)

text \<open>The heading above a result: where its section differs from the one before.\<close>

fun result_headers :: "jsstring option \<Rightarrow> search_entry list \<Rightarrow> (jsstring option \<times> search_entry) list" where
  "result_headers previous [] = []"
| "result_headers previous (e # es) =
     ((if Some (e_section e) = previous then None else Some (e_section e)), e) # result_headers (Some (e_section e)) es"

text \<open>Read from the top, the last heading before a result is its section.\<close>

fun last_header :: "jsstring option \<Rightarrow> (jsstring option \<times> 'a) list \<Rightarrow> jsstring option" where
  "last_header h [] = h"
| "last_header h ((x, _) # rest) = last_header (case x of None \<Rightarrow> h | Some t \<Rightarrow> Some t) rest"

lemma headers_tell_sections:
  "es \<noteq> [] \<Longrightarrow> last_header h (result_headers h es) = Some (e_section (last es))"
proof (induction h es rule: result_headers.induct)
  case (2 previous e es)
  then show ?case by (cases es) auto
qed simp

section \<open>The search field of the dashboard\<close>

record dashboard_search =
  d_query :: jsstring
  d_open :: bool
  d_selected :: nat

definition initial_search :: dashboard_search where
  "initial_search = \<lparr>d_query = [], d_open = False, d_selected = 0\<rparr>"

definition dashboard_results :: "jsstring \<Rightarrow> jsstring list \<Rightarrow> jsstring \<Rightarrow> search_entry list" where
  "dashboard_results role capabilities query =
     (if trim query \<noteq> [] then take 9 (searchEntries (entriesFor role capabilities) query) else [])"

definition choose_item :: "search_entry \<Rightarrow> dashboard_search \<Rightarrow> dashboard_search \<times> palette_action list" where
  "choose_item item s = (s\<lparr>d_open := False, d_query := []\<rparr>, [page_action item])"

datatype search_event =
    FocusField | LeaveField | TypeSearch jsstring | SearchDown | SearchUp | SearchEnter | SearchEscape | ClearSearch bool
  | PointAt nat | ChooseAt nat

fun search_enabled :: "search_entry list \<Rightarrow> dashboard_search \<Rightarrow> search_event \<Rightarrow> bool" where
  "search_enabled results s (ClearSearch focused) = (d_query s \<noteq> [])"
| "search_enabled results s (PointAt i) = (d_open s \<and> trim (d_query s) \<noteq> [] \<and> i < length results)"
| "search_enabled results s (ChooseAt i) = (d_open s \<and> trim (d_query s) \<noteq> [] \<and> i < length results)"
| "search_enabled results s _ = True"

fun search_react :: "search_entry list \<Rightarrow> search_event \<Rightarrow> dashboard_search \<Rightarrow> dashboard_search \<times> palette_action list" where
  "search_react results FocusField s = (s\<lparr>d_open := True\<rparr>, [])"
| "search_react results LeaveField s = (s\<lparr>d_open := False\<rparr>, [])"
| "search_react results (TypeSearch q) s = (s\<lparr>d_query := q, d_selected := 0, d_open := True\<rparr>, [])"
| "search_react results SearchDown s =
     (s\<lparr>d_open := True, d_selected := min (d_selected s + 1) (length results - 1)\<rparr>, [])"
| "search_react results SearchUp s = (s\<lparr>d_selected := d_selected s - 1\<rparr>, [])"
| "search_react results SearchEnter s =
     (if d_selected s < length results then choose_item (results ! d_selected s) s else (s, []))"
| "search_react results SearchEscape s = (s\<lparr>d_open := False, d_query := []\<rparr>, [])"
| "search_react results (ClearSearch focused) s = (s\<lparr>d_query := [], d_open := focused\<rparr>, [])"
| "search_react results (PointAt i) s = (s\<lparr>d_selected := i\<rparr>, [])"
| "search_react results (ChooseAt i) s = choose_item (results ! i) s"

text \<open>The button that clears the field gives it the focus; if the field did not have it, the focus handler
  opens the list again.\<close>

definition selection_valid :: "jsstring \<Rightarrow> jsstring list \<Rightarrow> dashboard_search \<Rightarrow> bool" where
  "selection_valid role caps s \<longleftrightarrow>
     dashboard_results role caps (d_query s) \<noteq> [] \<longrightarrow> d_selected s < length (dashboard_results role caps (d_query s))"

lemma dashboard_results_blank [simp]: "dashboard_results role caps [] = []"
  by (simp add: dashboard_results_def)

text \<open>The list never exceeds nine entries, all of them available to the role, and the marked entry is
  always one of them.\<close>

lemma dashboard_results_available:
  "length (dashboard_results role caps q) \<le> 9 \<and> set (dashboard_results role caps q) \<subseteq> set (entriesFor role caps)"
proof -
  have "set (searchEntries (entriesFor role caps) q) \<subseteq> set (entriesFor role caps)"
  proof -
    have "set_mset (mset (searchEntries (entriesFor role caps) q)) =
          set_mset (mset (filter (\<lambda>e. searchScore e q > 0) (entriesFor role caps)))"
      by (simp only: mset_searchEntries)
    then show ?thesis by auto
  qed
  then show ?thesis by (auto simp: dashboard_results_def dest: in_set_takeD)
qed

lemma dashboard_selection:
  assumes "selection_valid role caps s" "search_enabled (dashboard_results role caps (d_query s)) s e"
  shows "selection_valid role caps (fst (search_react (dashboard_results role caps (d_query s)) e s))"
  using assms by (cases e) (auto simp: selection_valid_def choose_item_def)

end
