(* ===== verification/Databases_Page.thy ===== *)
theory Databases_Page
  imports Page_Machine Data_Table Format
begin

text \<open>
  \<open>pages/customer/Databases.jsx\<close>: databases, their users and privileges. A call of a mutation is kept
  with its arguments until its answer arrives (\<open>da_waiting\<close>); what the two queries hold can change at
  any time. The windows phpMyAdmin opens in and the chosen files are parameters of the events.
\<close>

section \<open>Operations and requests\<close>

datatype db_op =
    CreateDb jsstring jsstring
  | CreateUser jsstring jsstring jsstring
  | AssignUser jsstring jsstring jsstring jsstring "jsstring list"
  | RevokeUser jsstring jsstring jsstring
  | ResetUser json
  | DeleteUser json
  | RenameUser json jsstring
  | ResetDb json
  | DeleteDb json
  | BulkDelete "jsstring list"
  | OpenPma json bool
  | CheckDb json bool
  | RenameDb json jsstring
  | ImportSql json jsstring

definition PRIVILEGES :: "jsstring list" where
  "PRIVILEGES =
     [''SELECT'', ''INSERT'', ''UPDATE'', ''DELETE'', ''CREATE'', ''DROP'', ''ALTER'', ''INDEX'', ''REFERENCES'',
      ''CREATE TEMPORARY TABLES'', ''LOCK TABLES'']"

definition field_text :: "json \<Rightarrow> jsstring \<Rightarrow> jsstring" where
  "field_text v k = js_String (jget v k)"

text \<open>\<open>password: form.password || undefined\<close>: an empty one is left out.\<close>

definition optional_password :: "jsstring \<Rightarrow> body" where
  "optional_password p = (if p = [] then [] else [(''password'', JStr p)])"

definition databases_url :: "jsstring \<Rightarrow> jsstring" where
  "databases_url u = ''/api/v1/accounts/'' @ u @ ''/databases''"

definition database_url :: "jsstring \<Rightarrow> json \<Rightarrow> jsstring" where
  "database_url u row = databases_url u @ ''/'' @ encodeURIComponent (field_text row ''db_name'')"

definition user_url :: "jsstring \<Rightarrow> json \<Rightarrow> jsstring" where
  "user_url u user = databases_url u @ ''/users/'' @ encodeURIComponent (field_text user ''db_user'')"

fun db_requests :: "jsstring \<Rightarrow> db_op \<Rightarrow> api_request list" where
  "db_requests u (CreateDb n p) = [ApiPost (databases_url u) ((''name'', JStr n) # optional_password p)]"
| "db_requests u (CreateUser n p h) =
     [ApiPost (databases_url u @ ''/users'') ((''name'', JStr n) # optional_password p @ [(''host'', JStr h)])]"
| "db_requests u (AssignUser d user h preset privs) =
     [ApiPost (databases_url u @ ''/'' @ encodeURIComponent d @ ''/users'')
        [(''user'', JStr user), (''host'', JStr h), (''preset'', JStr preset), (''privileges'', JArr (map JStr privs))]]"
| "db_requests u (RevokeUser d user h) =
     [ApiDelete (databases_url u @ ''/'' @ encodeURIComponent d @ ''/users/'' @ encodeURIComponent user @ ''?host='' @ encodeURIComponent h)]"
| "db_requests u (ResetUser user) = [ApiPatch (user_url u user @ ''/password'') [(''host'', jget user ''host'')]]"
| "db_requests u (DeleteUser user) = [ApiDelete (user_url u user @ ''?host='' @ encodeURIComponent (field_text user ''host''))]"
| "db_requests u (RenameUser user n) = [ApiPatch (user_url u user) [(''host'', jget user ''host''), (''new_name'', JStr n)]]"
| "db_requests u (ResetDb row) = [ApiPost (databases_url u @ ''/'' @ field_text row ''db_name'' @ ''/password'') []]"
| "db_requests u (DeleteDb row) = [ApiDelete (databases_url u @ ''/'' @ field_text row ''db_name'')]"
| "db_requests u (BulkDelete names) = map (\<lambda>n. ApiDelete (databases_url u @ ''/'' @ n)) names"
| "db_requests u (OpenPma row popup) = [ApiPost (databases_url u @ ''/'' @ field_text row ''db_name'' @ ''/pma-token'') []]"
| "db_requests u (CheckDb row repair) = [ApiPost (database_url u row @ (if repair then ''/repair'' else ''/check'')) []]"
| "db_requests u (RenameDb row n) = [ApiPatch (database_url u row) [(''new_name'', JStr n)]]"
| "db_requests u (ImportSql row file) = [ApiPost (database_url u row @ ''/import'') [(''file'', JStr file)]]"

section \<open>Deleting several databases\<close>

text \<open>One request per name, all settled; a failure carries its message, which may be missing.\<close>

definition bulk_failures :: "(jsstring \<times> jsstring option option) list \<Rightarrow> jsstring list" where
  "bulk_failures results =
     concat (map (\<lambda>(n, r). case r of None \<Rightarrow> [] | Some m \<Rightarrow> [n @ '': '' @ or_string m ''Could not delete'']) results)"

definition bulk_counts :: "nat \<Rightarrow> nat \<Rightarrow> jsstring" where
  "bulk_counts ok bad = show_nat ok @ '' deleted; '' @ show_nat bad @ '' failed. ''"

definition bulk_result :: "(jsstring \<times> jsstring option option) list \<Rightarrow> jsstring + nat" where
  "bulk_result results =
     (let failures = bulk_failures results
      in if failures \<noteq> []
         then Inl (bulk_counts (length results - length failures) (length failures) @ join_with '' '' failures)
         else Inr (length results))"

lemma bulk_failures_count: "length (bulk_failures results) = length (filter (\<lambda>(n, r). r \<noteq> None) results)"
  by (induction results) (auto simp: bulk_failures_def split: option.splits)

lemma join_with_includes: "w \<in> set ws \<Longrightarrow> js_includes (join_with sep ws) w"
proof (induction sep ws rule: join_with.induct)
  case (3 sep w' w'' ws)
  show ?case
  proof (cases "w = w'")
    case True
    then show ?thesis using includes_infix[of "[]" w' "sep @ join_with sep (w'' # ws)"] by simp
  next
    case False
    with 3 have "js_includes (join_with sep (w'' # ws)) w" by simp
    then have "js_includes ((w' @ sep) @ join_with sep (w'' # ws)) w"
      using includes_trans[OF includes_self_append] by blast
    then show ?thesis by simp
  qed
next
  case (2 sep w')
  then show ?case using includes_infix[of "[]" w "[]"] by simp
qed simp

text \<open>C14. Deleting several databases tells the truth: it is reported as done exactly when every single request
  succeeded, with their number; otherwise the report counts the deleted and the failed, which together
  are all, and names each database that failed, with its reason.
\<close>

theorem bulk_delete_accounting:
  "case bulk_result results of
     Inr n \<Rightarrow> n = length results \<and> list_all (\<lambda>(d, r). r = None) results
   | Inl message \<Rightarrow>
       (\<exists>ok bad. ok + bad = length results \<and> bad = length (filter (\<lambda>(d, r). r \<noteq> None) results) \<and> 0 < bad \<and>
          startsWith message (bulk_counts ok bad)) \<and>
       list_all (\<lambda>(d, r). r = None \<or> js_includes message (d @ '': '' @ or_string (the r) ''Could not delete'')) results"
proof (cases "bulk_failures results = []")
  case True
  then have "filter (\<lambda>(n, r). r \<noteq> None) results = []"
    using bulk_failures_count[of results] by simp
  with True show ?thesis by (auto simp: bulk_result_def list_all_iff filter_empty_conv)
next
  case False
  let ?ok = "length results - length (bulk_failures results)" and ?bad = "length (bulk_failures results)"
  let ?m = "bulk_counts ?ok ?bad @ join_with '' '' (bulk_failures results)"
  have le: "?bad \<le> length results" by (simp add: bulk_failures_count)
  have start: "startsWith ?m (bulk_counts ?ok ?bad)"
    by (rule startsWith_append)
  have "r = None \<or> js_includes ?m (d @ '': '' @ or_string (the r) ''Could not delete'')" if "(d, r) \<in> set results" for d r
  proof (cases r)
    case (Some m)
    with that have "d @ '': '' @ or_string (the r) ''Could not delete'' \<in> set (bulk_failures results)"
      by (auto simp: bulk_failures_def intro!: bexI[of _ "(d, r)"])
    then have "js_includes (join_with '' '' (bulk_failures results)) (d @ '': '' @ or_string (the r) ''Could not delete'')"
      by (rule join_with_includes)
    then show ?thesis using includes_trans[OF includes_self_append] by blast
  qed simp
  then have named: "list_all (\<lambda>(d, r). r = None \<or> js_includes ?m (d @ '': '' @ or_string (the r) ''Could not delete'')) results"
    by (auto simp: list_all_iff)
  have bad: "?bad = length (filter (\<lambda>(d, r). r \<noteq> None) results)" by (rule bulk_failures_count)
  have "bulk_result results = Inl ?m" using False by (simp add: bulk_result_def Let_def)
  moreover have "?ok + ?bad = length results" "0 < ?bad" using le False by auto
  moreover from this start bad have "\<exists>ok bad. ok + bad = length results \<and> bad = length (filter (\<lambda>(d, r). r \<noteq> None) results) \<and> 0 < bad \<and>
      startsWith ?m (bulk_counts ok bad)" by blast
  ultimately show ?thesis using named by simp
qed

section \<open>The page\<close>

record db_creds =
  cr_title :: jsstring
  cr_name :: json
  cr_user :: json
  cr_password :: json

record db_page =
  da_data :: json
  da_users :: json
  da_selected :: json
  da_name :: jsstring
  da_password :: jsstring
  da_toDelete :: json
  du_name :: jsstring
  du_password :: jsstring
  du_host :: jsstring
  da_userToDelete :: json
  da_userToRename :: json
  da_renameUser :: jsstring
  da_assignUser :: jsstring
  da_preset :: jsstring
  da_custom :: "jsstring list"
  da_health :: json
  da_rename :: jsstring
  da_creds :: "db_creds option"
  da_access :: jsstring
  da_createOpen :: bool
  da_set :: "jsstring list"
  da_bulkOpen :: bool
  da_waiting :: "db_op list"

definition initial_db :: db_page where
  "initial_db =
     \<lparr>da_data = JUndef, da_users = JUndef, da_selected = JNull, da_name = [], da_password = [], da_toDelete = JNull,
      du_name = [], du_password = [], du_host = ''localhost'', da_userToDelete = JNull, da_userToRename = JNull,
      da_renameUser = [], da_assignUser = [], da_preset = ''all'', da_custom = [''SELECT''], da_health = JNull,
      da_rename = [], da_creds = None, da_access = [], da_createOpen = False, da_set = [], da_bulkOpen = False,
      da_waiting = []\<rparr>"

datatype db_event =
    DataArrives json | UsersArrive json
  | OpenCreate | DismissCreate | TypeCreate jsstring jsstring
  | TypeUser jsstring jsstring jsstring
  | Manage json | ChooseAccess jsstring | ManageAccess | CloseManage
  | AskDelete json | DeleteSelected | CancelDelete
  | AskDeleteUser json | CancelDeleteUser
  | AskRenameUser json | TypeRenameUser jsstring | DismissRenameUser | CancelRenameUser
  | ChooseAssignUser jsstring | ChoosePreset jsstring | TickPrivilege jsstring bool
  | TypeRename jsstring
  | TickRow jsstring bool | SelectAll | ClearSelection | OpenBulk | CancelBulk
  | CloseCreds
  | Start db_op | ResetSelected
  | Succeeds db_op json | Fails db_op jsstring
  | BulkSettles "(jsstring \<times> jsstring option option) list"

fun op_kind :: "db_op \<Rightarrow> nat" where
  "op_kind (CreateDb _ _) = 0" | "op_kind (CreateUser _ _ _) = 1" | "op_kind (AssignUser _ _ _ _ _) = 2"
| "op_kind (RevokeUser _ _ _) = 3" | "op_kind (ResetUser _) = 4" | "op_kind (DeleteUser _) = 5"
| "op_kind (RenameUser _ _) = 6" | "op_kind (ResetDb _) = 7" | "op_kind (DeleteDb _) = 8" | "op_kind (BulkDelete _) = 9"
| "op_kind (OpenPma _ _) = 10" | "op_kind (CheckDb _ _) = 11" | "op_kind (RenameDb _ _) = 12" | "op_kind (ImportSql _ _) = 13"

definition pending :: "db_page \<Rightarrow> nat \<Rightarrow> bool" where
  "pending s k \<longleftrightarrow> list_ex (\<lambda>op. op_kind op = k) (da_waiting s)"

definition db_rows :: "db_page \<Rightarrow> json list" where
  "db_rows s = json_list (jget (da_data s) ''databases'')"

definition db_users :: "db_page \<Rightarrow> json list" where
  "db_users s = json_list (jget (da_users s) ''users'')"

definition row_named :: "db_page \<Rightarrow> json \<Rightarrow> json" where
  "row_named s name = (case List.find (\<lambda>r. jget r ''db_name'' = name) (db_rows s) of Some r \<Rightarrow> r | None \<Rightarrow> JUndef)"

definition grants_of :: "db_page \<Rightarrow> json list" where
  "grants_of s = json_list (jget (row_named s (jget (da_selected s) ''db_name'')) ''grants'')"

definition same_login :: "json \<Rightarrow> json \<Rightarrow> bool" where
  "same_login a b \<longleftrightarrow> jget a ''db_user'' = jget b ''db_user'' \<and> jget a ''host'' = jget b ''host''"

definition assignable :: "db_page \<Rightarrow> jsstring list" where
  "assignable s =
     map (\<lambda>x. field_text x ''db_user'' @ [newline] @ field_text x ''host'')
       (filter (\<lambda>x. \<not> list_ex (\<lambda>g. same_login g x) (grants_of s)) (db_users s))"

definition managing :: "db_page \<Rightarrow> bool" where
  "managing s \<longleftrightarrow> truthy (da_selected s)"

text \<open>Which calls a control of the page can make, with which arguments.\<close>

fun may_start :: "db_page \<Rightarrow> db_op \<Rightarrow> bool" where
  "may_start s (CreateDb n p) = (da_createOpen s \<and> \<not> pending s 0 \<and> trim (da_name s) \<noteq> [] \<and> n = trim (da_name s) \<and> p = da_password s)"
| "may_start s (CreateUser n p h) =
     (\<not> pending s 1 \<and> trim (du_name s) \<noteq> [] \<and> du_host s \<noteq> [] \<and> n = trim (du_name s) \<and> p = du_password s \<and>
      h = or_string (Some (trim (du_host s))) ''localhost'')"
| "may_start s (AssignUser d user h preset privs) =
     (managing s \<and> \<not> pending s 2 \<and> da_assignUser s \<noteq> [] \<and> \<not> (da_preset s = ''custom'' \<and> da_custom s = []) \<and>
      d = field_text (da_selected s) ''db_name'' \<and> preset = da_preset s \<and>
      privs = (if da_preset s = ''custom'' then da_custom s else []) \<and>
      (case split_on newline (da_assignUser s) of x # y # _ \<Rightarrow> user = x \<and> h = y | _ \<Rightarrow> False))"
| "may_start s (RevokeUser d user h) =
     (managing s \<and> \<not> pending s 3 \<and> d = field_text (da_selected s) ''db_name'' \<and>
      list_ex (\<lambda>g. \<not> truthy (jget g ''original'') \<and> user = field_text g ''db_user'' \<and> h = field_text g ''host'') (grants_of s))"
| "may_start s (ResetUser user) = (user \<in> set (db_users s))"
| "may_start s (DeleteUser user) = (truthy (da_userToDelete s) \<and> user = da_userToDelete s \<and> \<not> pending s 5)"
| "may_start s (RenameUser user n) =
     (truthy (da_userToRename s) \<and> user = da_userToRename s \<and> trim (da_renameUser s) \<noteq> [] \<and> n = trim (da_renameUser s) \<and> \<not> pending s 6)"
| "may_start s (ResetDb row) = (row \<in> set (db_rows s))"
| "may_start s (DeleteDb row) = (truthy (da_toDelete s) \<and> row = da_toDelete s \<and> \<not> pending s 8)"
| "may_start s (BulkDelete names) = (da_bulkOpen s \<and> names = da_set s \<and> \<not> pending s 9)"
| "may_start s (OpenPma row popup) = (row \<in> set (db_rows s) \<or> (managing s \<and> row = da_selected s \<and> \<not> pending s 10))"
| "may_start s (CheckDb row repair) = (managing s \<and> row = da_selected s \<and> \<not> pending s 11)"
| "may_start s (RenameDb row n) = (managing s \<and> row = da_selected s \<and> trim (da_rename s) \<noteq> [] \<and> n = trim (da_rename s) \<and> \<not> pending s 12)"
| "may_start s (ImportSql row file) = (managing s \<and> row = da_selected s \<and> \<not> pending s 13)"

fun db_offered :: "db_page \<Rightarrow> db_event \<Rightarrow> bool" where
  "db_offered s (Manage row) = (row \<in> set (db_rows s))"
| "db_offered s DismissCreate = (da_createOpen s \<and> \<not> pending s 0)"
| "db_offered s (TypeCreate n p) = da_createOpen s"
| "db_offered s (ChooseAccess d) = (d = [] \<or> list_ex (\<lambda>r. jget r ''db_name'' = JStr d) (db_rows s))"
| "db_offered s ManageAccess = (da_access s \<noteq> [])"
| "db_offered s CloseManage = managing s"
| "db_offered s (AskDelete row) = (row \<in> set (db_rows s))"
| "db_offered s DeleteSelected = managing s"
| "db_offered s CancelDelete = (truthy (da_toDelete s) \<and> \<not> pending s 8)"
| "db_offered s (AskDeleteUser user) = (user \<in> set (db_users s))"
| "db_offered s CancelDeleteUser = (truthy (da_userToDelete s) \<and> \<not> pending s 5)"
| "db_offered s (AskRenameUser user) = (user \<in> set (db_users s))"
| "db_offered s (TypeRenameUser n) = truthy (da_userToRename s)"
| "db_offered s DismissRenameUser = truthy (da_userToRename s)"
| "db_offered s CancelRenameUser = truthy (da_userToRename s)"
| "db_offered s (ChooseAssignUser v) = (managing s \<and> (v = [] \<or> v \<in> set (assignable s)))"
| "db_offered s (ChoosePreset p) = (managing s \<and> p \<in> {''all'', ''read_only'', ''custom''})"
| "db_offered s (TickPrivilege p b) = (managing s \<and> da_preset s = ''custom'' \<and> p \<in> set PRIVILEGES \<and> b = (p \<notin> set (da_custom s)))"
| "db_offered s (TypeRename n) = managing s"
| "db_offered s (TickRow n b) = (list_ex (\<lambda>r. jget r ''db_name'' = JStr n) (db_rows s) \<and> b = (n \<notin> set (da_set s)))"
| "db_offered s SelectAll = (da_set s \<noteq> [] \<and> length (da_set s) < length (db_rows s))"
| "db_offered s ClearSelection = (da_set s \<noteq> [])"
| "db_offered s OpenBulk = (da_set s \<noteq> [])"
| "db_offered s CancelBulk = (da_bulkOpen s \<and> \<not> pending s 9)"
| "db_offered s CloseCreds = (da_creds s \<noteq> None)"
| "db_offered s (Start op) = may_start s op"
| "db_offered s ResetSelected = (managing s \<and> \<not> pending s 7)"
| "db_offered s (Succeeds op v) = (op \<in> set (da_waiting s) \<and> op_kind op \<noteq> 9)"
| "db_offered s (Fails op e) = (op \<in> set (da_waiting s) \<and> op_kind op \<noteq> 9)"
| "db_offered s (BulkSettles rs) = (BulkDelete (map fst rs) \<in> set (da_waiting s))"
| "db_offered s _ = True"

definition refreshDatabaseState :: "jsstring \<Rightarrow> page_effect list" where
  "refreshDatabaseState u = [Invalidate [''databases'', u], Invalidate [''database-users'', u]]"

definition creds_of :: "jsstring \<Rightarrow> json \<Rightarrow> db_creds" where
  "creds_of title res = \<lparr>cr_title = title, cr_name = jget res ''db_name'', cr_user = jget res ''db_user'', cr_password = jget res ''password''\<rparr>"

text \<open>What an answer changes (\<open>onSuccess\<close>).\<close>

fun db_success :: "jsstring \<Rightarrow> db_op \<Rightarrow> json \<Rightarrow> db_page \<Rightarrow> db_page \<times> page_effect list" where
  "db_success u (CreateDb n p) res s =
     ((if truthy (jget res ''password'') then s\<lparr>da_creds := Some (creds_of ''Database created'' res)\<rparr> else s)
        \<lparr>da_name := [], da_password := [], da_createOpen := False\<rparr>,
      Toast Success ''Database created'' (js_String (js_or (jget res ''db_name'') (JStr (da_name s))) @ '' is ready to use.'') #
        refreshDatabaseState u)"
| "db_success u (CreateUser n p h) res s =
     (s\<lparr>da_creds := Some ((creds_of ''Database user created'' res)\<lparr>cr_name := JUndef\<rparr>), du_name := [], du_password := [], du_host := ''localhost''\<rparr>,
      Toast Success ''Database user created'' (field_text res ''db_user'' @ '' can now be assigned to one or more databases.'') #
        refreshDatabaseState u)"
| "db_success u (AssignUser d x h preset privs) res s =
     (s\<lparr>da_assignUser := []\<rparr>, Toast Success ''User assigned'' [] # refreshDatabaseState u)"
| "db_success u (RevokeUser d x h) res s = (s, Toast Success ''Database access removed'' [] # refreshDatabaseState u)"
| "db_success u (ResetUser x) res s =
     (s\<lparr>da_creds := Some ((creds_of ''New database user password'' res)\<lparr>cr_name := JUndef\<rparr>)\<rparr>, [])"
| "db_success u (DeleteUser x) res s = (s\<lparr>da_userToDelete := JNull\<rparr>, Toast Success ''Database user removed'' [] # refreshDatabaseState u)"
| "db_success u (RenameUser x n) res s =
     (s\<lparr>da_userToRename := JNull, da_renameUser := []\<rparr>,
      Toast Success ''Database user renamed'' (field_text res ''db_user'' @ ''@'' @ field_text res ''host'' @ '' is ready.'') # refreshDatabaseState u)"
| "db_success u (ResetDb row) res s =
     (s\<lparr>da_creds := Some \<lparr>cr_title = ''New password'', cr_name = js_or (jget res ''db_name'') (jget row ''db_name''),
         cr_user = js_or (jget res ''db_user'') (jget row ''db_user''), cr_password = jget res ''password''\<rparr>\<rparr>,
      Toast Success ''Password reset'' (''A new password was generated for '' @ field_text row ''db_name'' @ ''.'') # refreshDatabaseState u)"
| "db_success u (DeleteDb row) res s =
     (s\<lparr>da_toDelete := JNull\<rparr>,
      Toast Success ''Database dropped'' (field_text row ''db_name'' @ '' was permanently removed.'') # refreshDatabaseState u)"
| "db_success u (BulkDelete names) res s = (s, [])"
| "db_success u (OpenPma row popup) res s =
     (s, if truthy (jget res ''pma_url'') then [GoTo (field_text res ''pma_url'')]
         else [Toast ErrorTone ''phpMyAdmin is not set up'' ''Ask your administrator to configure phpMyAdmin access.''])"
| "db_success u (CheckDb row repair) res s = (s\<lparr>da_health := res\<rparr>, [])"
| "db_success u (RenameDb row n) res s =
     (s\<lparr>da_selected := JNull, da_rename := []\<rparr>, Toast Success ''Database renamed'' (json_text (jget res ''warning'')) # refreshDatabaseState u)"
| "db_success u (ImportSql row file) res s =
     (s, Toast Success ''SQL imported'' ''A private pre-import recovery copy was retained.'' # refreshDatabaseState u)"

fun db_failure_title :: "db_op \<Rightarrow> jsstring" where
  "db_failure_title (CreateDb _ _) = ''Could not create database''"
| "db_failure_title (CreateUser _ _ _) = ''Could not create database user''"
| "db_failure_title (AssignUser _ _ _ _ _) = ''Could not assign user''"
| "db_failure_title (RevokeUser _ _ _) = ''Could not remove database access''"
| "db_failure_title (ResetUser _) = ''Could not reset database user password''"
| "db_failure_title (DeleteUser _) = ''Could not remove database user''"
| "db_failure_title (RenameUser _ _) = ''Could not rename database user''"
| "db_failure_title (ResetDb _) = ''Could not reset password''"
| "db_failure_title (DeleteDb _) = ''Could not drop database''"
| "db_failure_title (BulkDelete _) = ''Could not delete selected databases''"
| "db_failure_title (OpenPma _ _) = ''Could not open phpMyAdmin''"
| "db_failure_title (CheckDb _ _) = ''Database check failed''"
| "db_failure_title (RenameDb _ _) = ''Could not rename database''"
| "db_failure_title (ImportSql _ _) = ''Could not import SQL''"

definition settled_op :: "db_op \<Rightarrow> db_page \<Rightarrow> db_page" where
  "settled_op op s = s\<lparr>da_waiting := remove1 op (da_waiting s)\<rparr>"

definition begin_op :: "jsstring \<Rightarrow> db_op \<Rightarrow> db_page \<Rightarrow> db_page \<times> api_request list \<times> page_effect list" where
  "begin_op u op s = (s\<lparr>da_waiting := op # da_waiting s\<rparr>, db_requests u op, [])"

definition toggle_member :: "jsstring \<Rightarrow> bool \<Rightarrow> jsstring list \<Rightarrow> jsstring list" where
  "toggle_member x b xs = (if b then (if x \<in> set xs then xs else xs @ [x]) else filter (\<lambda>y. y \<noteq> x) xs)"

fun db_step :: "jsstring \<Rightarrow> db_event \<Rightarrow> db_page \<Rightarrow> db_page \<times> api_request list \<times> page_effect list" where
  "db_step u (DataArrives d) s = (s\<lparr>da_data := d\<rparr>, [], [])"
| "db_step u (UsersArrive d) s = (s\<lparr>da_users := d\<rparr>, [], [])"
| "db_step u OpenCreate s = (s\<lparr>da_createOpen := True\<rparr>, [], [])"
| "db_step u DismissCreate s = (s\<lparr>da_createOpen := False\<rparr>, [], [])"
| "db_step u (TypeCreate n p) s = (s\<lparr>da_name := n, da_password := p\<rparr>, [], [])"
| "db_step u (TypeUser n p h) s = (s\<lparr>du_name := n, du_password := p, du_host := h\<rparr>, [], [])"
| "db_step u (Manage row) s = (s\<lparr>da_selected := row\<rparr>, [], [])"
| "db_step u (ChooseAccess d) s = (s\<lparr>da_access := d\<rparr>, [], [])"
| "db_step u ManageAccess s = (s\<lparr>da_selected := (let r = row_named s (JStr (da_access s)) in if truthy r then r else JNull)\<rparr>, [], [])"
| "db_step u CloseManage s = (s\<lparr>da_selected := JNull\<rparr>, [], [])"
| "db_step u (AskDelete row) s = (s\<lparr>da_toDelete := row\<rparr>, [], [])"
| "db_step u DeleteSelected s = (s\<lparr>da_toDelete := da_selected s, da_selected := JNull\<rparr>, [], [])"
| "db_step u CancelDelete s = (s\<lparr>da_toDelete := JNull\<rparr>, [], [])"
| "db_step u (AskDeleteUser x) s = (s\<lparr>da_userToDelete := x\<rparr>, [], [])"
| "db_step u CancelDeleteUser s = (s\<lparr>da_userToDelete := JNull\<rparr>, [], [])"
| "db_step u (AskRenameUser x) s = (s\<lparr>da_userToRename := x, da_renameUser := []\<rparr>, [], [])"
| "db_step u (TypeRenameUser n) s = (s\<lparr>da_renameUser := n\<rparr>, [], [])"
| "db_step u DismissRenameUser s = (s\<lparr>da_userToRename := JNull, da_renameUser := []\<rparr>, [], [])"
| "db_step u CancelRenameUser s = (s\<lparr>da_userToRename := JNull\<rparr>, [], [])"
| "db_step u (ChooseAssignUser v) s = (s\<lparr>da_assignUser := v\<rparr>, [], [])"
| "db_step u (ChoosePreset p) s = (s\<lparr>da_preset := p\<rparr>, [], [])"
| "db_step u (TickPrivilege p b) s = (s\<lparr>da_custom := (if b then da_custom s @ [p] else filter (\<lambda>x. x \<noteq> p) (da_custom s))\<rparr>, [], [])"
| "db_step u (TypeRename n) s = (s\<lparr>da_rename := n\<rparr>, [], [])"
| "db_step u (TickRow n b) s = (s\<lparr>da_set := toggle_member n b (da_set s)\<rparr>, [], [])"
| "db_step u SelectAll s = (s\<lparr>da_set := remdups (map (\<lambda>r. field_text r ''db_name'') (db_rows s))\<rparr>, [], [])"
| "db_step u ClearSelection s = (s\<lparr>da_set := []\<rparr>, [], [])"
| "db_step u OpenBulk s = (s\<lparr>da_bulkOpen := True\<rparr>, [], [])"
| "db_step u CancelBulk s = (s\<lparr>da_bulkOpen := False\<rparr>, [], [])"
| "db_step u CloseCreds s = (s\<lparr>da_creds := None\<rparr>, [], [])"
| "db_step u (Start op) s = begin_op u op s"
| "db_step u ResetSelected s = begin_op u (ResetDb (da_selected s)) (s\<lparr>da_selected := JNull\<rparr>)"
| "db_step u (Succeeds op v) s = (case db_success u op v (settled_op op s) of (s', effs) \<Rightarrow> (s', [], effs))"
| "db_step u (Fails op e) s = (settled_op op s, [], [Toast ErrorTone (db_failure_title op) e])"
| "db_step u (BulkSettles rs) s =
     (case bulk_result rs of
        Inl e \<Rightarrow> (settled_op (BulkDelete (map fst rs)) s, [], [Toast ErrorTone ''Could not delete selected databases'' e])
      | Inr n \<Rightarrow>
          ((settled_op (BulkDelete (map fst rs)) s)\<lparr>da_set := [], da_bulkOpen := False\<rparr>, [],
           Toast Success (show_nat n @ '' database'' @ (if n = 1 then [] else ''s'') @ '' deleted'') [] # refreshDatabaseState u))"

section \<open>What is sent\<close>

definition text_ok :: "json \<Rightarrow> bool" where
  "text_ok v \<longleftrightarrow> (case v of JStr t \<Rightarrow> t \<noteq> [] \<and> trim t = t | _ \<Rightarrow> v = JUndef)"

definition custom_ok :: "jsstring list \<Rightarrow> bool" where
  "custom_ok xs \<longleftrightarrow> distinct xs \<and> list_all (\<lambda>x. x \<in> set PRIVILEGES) xs"

definition preset_ok :: "jsstring \<Rightarrow> bool" where
  "preset_ok p \<longleftrightarrow> p \<in> {''all'', ''read_only'', ''custom''}"

definition grant_ok :: "json \<Rightarrow> json \<Rightarrow> bool" where
  "grant_ok preset privileges \<longleftrightarrow>
     (case preset of
        JStr p \<Rightarrow> preset_ok p \<and> custom_ok (map js_String (json_list privileges)) \<and> (p = ''custom'' \<longleftrightarrow> json_list privileges \<noteq> [])
      | _ \<Rightarrow> preset = JUndef)"

definition db_body_ok :: "body \<Rightarrow> bool" where
  "db_body_ok b \<longleftrightarrow>
     text_ok (jget (JObj b) ''name'') \<and> text_ok (jget (JObj b) ''new_name'') \<and> jget (JObj b) ''password'' \<noteq> JStr [] \<and>
     grant_ok (jget (JObj b) ''preset'') (jget (JObj b) ''privileges'')"

definition db_request_ok :: "jsstring \<Rightarrow> api_request \<Rightarrow> bool" where
  "db_request_ok u r =
     (case r of
        ApiPost url b \<Rightarrow> startsWith url (databases_url u) \<and> db_body_ok b
      | ApiPatch url b \<Rightarrow> startsWith url (databases_url u) \<and> db_body_ok b
      | ApiDelete url \<Rightarrow> startsWith url (databases_url u @ ''/'')
      | _ \<Rightarrow> False)"

definition db_inv :: "db_page \<Rightarrow> bool" where
  "db_inv s \<longleftrightarrow> preset_ok (da_preset s) \<and> custom_ok (da_custom s)"

lemma db_inv_parts [simp]:
  "db_inv (begin_state\<lparr>da_waiting := w\<rparr>) = db_inv begin_state" "db_inv (settled_op op s) = db_inv s"
  by (simp_all add: db_inv_def settled_op_def)

lemma db_inv_success: "db_inv s \<Longrightarrow> db_inv (fst (db_success u op v s))"
  by (cases op) (simp_all add: db_inv_def)

lemma custom_ok_tick: "custom_ok xs \<Longrightarrow> x \<in> set PRIVILEGES \<Longrightarrow> x \<notin> set xs \<Longrightarrow> custom_ok (xs @ [x])"
  "custom_ok xs \<Longrightarrow> custom_ok (filter P xs)"
  by (auto simp: custom_ok_def list_all_iff)

lemma db_inv_initial: "db_inv initial_db"
  by code_simp

lemma db_inv_step: "db_inv s \<Longrightarrow> db_offered s e \<Longrightarrow> db_inv (fst (db_step u e s))"
proof (cases e)
  case (Succeeds op v)
  assume "db_inv s"
  then show ?thesis using Succeeds db_inv_success[of "settled_op op s" u op v] by (simp add: split_beta)
next
  case (BulkSettles rs)
  assume "db_inv s"
  then show ?thesis using BulkSettles by (auto simp: db_inv_def settled_op_def split: sum.split)
qed (auto simp: db_inv_def begin_op_def settled_op_def preset_ok_def custom_ok_tick)

lemma url_prefix: "startsWith (databases_url u @ x) (databases_url u)" "startsWith (databases_url u @ CHR ''/'' # x) (databases_url u @ ''/'')"
  "startsWith (databases_url u) (databases_url u)"
  using startsWith_append[of "databases_url u @ ''/''" x] startsWith_append[of "databases_url u" "[]"] by simp_all

lemma body_without_keys: "db_body_ok []" "db_body_ok [(''host'', v)]" "db_body_ok [(''file'', v)]"
  by (simp_all add: db_body_ok_def text_ok_def grant_ok_def)

lemma body_named:
  "trim n = n \<Longrightarrow> n \<noteq> [] \<Longrightarrow> db_body_ok ((''name'', JStr n) # optional_password p)"
  "trim n = n \<Longrightarrow> n \<noteq> [] \<Longrightarrow> db_body_ok ((''name'', JStr n) # optional_password p @ [(''host'', v)])"
  "trim n = n \<Longrightarrow> n \<noteq> [] \<Longrightarrow> db_body_ok [(''host'', v), (''new_name'', JStr n)]"
  "trim n = n \<Longrightarrow> n \<noteq> [] \<Longrightarrow> db_body_ok [(''new_name'', JStr n)]"
  by (simp_all add: db_body_ok_def text_ok_def grant_ok_def optional_password_def)

lemma body_granted:
  "preset_ok p \<Longrightarrow> custom_ok xs \<Longrightarrow> (p = ''custom'' \<longleftrightarrow> xs \<noteq> []) \<Longrightarrow>
     db_body_ok [(''user'', a), (''host'', b), (''preset'', JStr p), (''privileges'', JArr (map JStr xs))]"
  by (simp add: db_body_ok_def text_ok_def grant_ok_def json_list_def comp_def)

lemma db_requests_ok: "db_inv s \<Longrightarrow> may_start s op \<Longrightarrow> list_all (db_request_ok u) (db_requests u op)"
proof (cases op)
  case (AssignUser d x h preset privs)
  assume "db_inv s" "may_start s op"
  moreover have "custom_ok []" by (simp add: custom_ok_def)
  ultimately have "db_body_ok [(''user'', JStr x), (''host'', JStr h), (''preset'', JStr preset), (''privileges'', JArr (map JStr privs))]"
    using AssignUser by (intro body_granted) (auto simp: db_inv_def split: if_splits)
  then show ?thesis using AssignUser by (simp add: db_request_ok_def url_prefix)
qed (auto simp: db_request_ok_def url_prefix body_without_keys body_named database_url_def user_url_def list_all_iff)

lemma db_good_step: "db_inv s \<Longrightarrow> db_offered s e \<Longrightarrow> list_all (db_request_ok u) (fst (snd (db_step u e s)))"
proof (cases e)
  case (Start op)
  assume "db_inv s" "db_offered s e"
  then show ?thesis using Start db_requests_ok[of s op u] by (simp add: begin_op_def)
next
  case ResetSelected
  then show ?thesis by (simp add: begin_op_def db_request_ok_def url_prefix body_without_keys)
next
  case (BulkSettles rs)
  then show ?thesis by (simp split: sum.split)
qed (simp_all add: split_beta)

interpretation databases: page_contract initial_db db_offered "db_step u" db_inv "db_request_ok u"
  by unfold_locales (simp_all only: db_inv_initial db_inv_step db_good_step)

text \<open>C18. Every request of the page stays below the account's databases; a name it sends is trimmed and not
  empty, an empty password is never sent (the server then makes one), and privileges are sent exactly
  for the custom preset: distinct ones the server knows, at least one. Several databases are deleted
  only from the open question, one request for each database it lists.
\<close>

theorem database_requests_valid:
  assumes "page_reach initial_db db_offered (db_step u) s sent"
  shows "list_all (db_request_ok u) sent \<and>
         (db_offered s (Start (BulkDelete names)) \<longrightarrow> da_bulkOpen s \<and> names = da_set s \<and>
            fst (snd (db_step u (Start (BulkDelete names)) s)) = map (\<lambda>n. ApiDelete (databases_url u @ ''/'' @ n)) (da_set s))"
  using databases.reach_inv[OF assms] by (auto simp: begin_op_def)

definition assign_script :: "db_event list" where
  "assign_script =
     [DataArrives (JObj [(''databases'', JArr [JObj [(''db_name'', JStr ''joe_shop'')]])]),
      UsersArrive (JObj [(''users'', JArr [JObj [(''db_user'', JStr ''joe_r''), (''host'', JStr ''localhost'')]])]),
      Manage (JObj [(''db_name'', JStr ''joe_shop'')]), ChooseAssignUser (''joe_r'' @ [newline] @ ''localhost''),
      ChoosePreset ''custom'', TickPrivilege ''DROP'' True,
      Start (AssignUser ''joe_shop'' ''joe_r'' ''localhost'' ''custom'' [''SELECT'', ''DROP''])]"

theorem database_requests_valid_witness:
  "\<exists>s. page_reach initial_db db_offered (db_step ''joe'') s (db_requests ''joe'' (AssignUser ''joe_shop'' ''joe_r'' ''localhost'' ''custom'' [''SELECT'', ''DROP''])) \<and>
     list_all (db_request_ok ''joe'') (db_requests ''joe'' (AssignUser ''joe_shop'' ''joe_r'' ''localhost'' ''custom'' [''SELECT'', ''DROP'']))"
proof -
  let ?r = "db_requests ''joe'' (AssignUser ''joe_shop'' ''joe_r'' ''localhost'' ''custom'' [''SELECT'', ''DROP''])"
  have "map_option snd (page_run db_offered (db_step ''joe'') assign_script (initial_db, [])) = Some ?r"
    by code_simp
  then obtain s where "page_run db_offered (db_step ''joe'') assign_script (initial_db, []) = Some (s, ?r)" by auto
  from scripted_reach[OF this] database_requests_valid[OF scripted_reach[OF this]] show ?thesis by blast
qed

text \<open>A name typed to rename one database is still in the field when another is opened, and can be sent
  for it; so can the user chosen for the first, who is no longer among the choices when the second
  already grants access.\<close>

lemma rename_survives_close:
  assumes "managing s" "trim (da_rename s) \<noteq> []" "row \<in> set (db_rows s)" "truthy row" "\<not> pending s 12"
  shows "let s' = fst (db_step u (Manage row) (fst (db_step u CloseManage s)))
         in may_start s' (RenameDb row (trim (da_rename s)))"
  using assms by (simp add: managing_def pending_def)

lemma hidden_user_assigned:
  assumes "split_on newline (da_assignUser s) = [x, h]" "da_assignUser s \<noteq> []" "truthy row" "\<not> pending s 2" "da_preset s = ''all''"
  shows "let s' = fst (db_step u (Manage row) (fst (db_step u CloseManage s)))
         in may_start s' (AssignUser (field_text row ''db_name'') x h ''all'' [])"
  using assms by (simp add: managing_def pending_def)

text \<open>After a deletion of several that failed in part, the selection still names the deleted ones and
  nothing asks for the list again.\<close>

lemma partial_bulk_keeps_selection:
  assumes "bulk_result rs = Inl e"
  shows "da_set (fst (db_step u (BulkSettles rs) s)) = da_set s \<and>
         snd (snd (db_step u (BulkSettles rs) s)) = [Toast ErrorTone ''Could not delete selected databases'' e]"
  using assms by (simp add: settled_op_def)

text \<open>The credentials shown are those of the last answer that carried any, and closing the dialog
  leaves no copy of the password in the state.\<close>

definition shows_secret :: "db_page \<Rightarrow> jsstring \<Rightarrow> bool" where
  "shows_secret s p \<longleftrightarrow> (case da_creds s of Some c \<Rightarrow> cr_password c = JStr p | None \<Rightarrow> False)"

lemma closed_credentials_forgotten: "\<not> shows_secret (fst (db_step u CloseCreds s)) p"
  by (simp add: shows_secret_def)

lemma credentials_from_answers:
  assumes "shows_secret (fst (db_step u e s)) p" "\<not> shows_secret s p"
  shows "\<exists>op v. e = Succeeds op v \<and> jget v ''password'' = JStr p"
proof (cases e)
  case (Succeeds op v)
  with assms show ?thesis
    by (cases op) (auto simp: shows_secret_def settled_op_def creds_of_def split: if_splits)
next
  case (BulkSettles rs)
  with assms show ?thesis by (auto simp: shows_secret_def settled_op_def split: sum.splits)
qed (use assms in \<open>auto simp: shows_secret_def settled_op_def begin_op_def\<close>)

section \<open>What is shown\<close>

definition access_text :: "json \<Rightarrow> jsstring" where
  "access_text g =
     (if jget g ''preset'' = JStr ''read_only'' then ''Read only''
      else if jget g ''preset'' = JStr ''custom'' then join_with '', '' (map js_String (json_list (jget g ''privileges'')))
      else ''Full hosted access'')"

definition user_access :: "json \<Rightarrow> jsstring" where
  "user_access x =
     (if json_list (jget x ''databases'') \<noteq> [] then join_with '', '' (map (\<lambda>d. field_text d ''db_name'') (json_list (jget x ''databases'')))
      else ''Not assigned'')"

definition bulk_title :: "db_page \<Rightarrow> jsstring" where
  "bulk_title s = ''Delete '' @ show_nat (length (da_set s)) @ '' selected database'' @ (if length (da_set s) = 1 then [] else ''s'') @ ''?''"

definition health_lines :: "db_page \<Rightarrow> jsstring list option" where
  "health_lines s =
     (if truthy (da_health s) \<and> jget (da_health s) ''database'' = jget (da_selected s) ''db_name''
      then Some (if json_list (jget (da_health s) ''tables'') = [] then [''This database has no tables.'']
                 else map (\<lambda>t. field_text t ''table'' @ '' '' @ [CHR 0xB7] @ '' '' @ js_String (js_or (jget t ''engine'') (JStr ''unknown'')) @
                        '' '' @ [CHR 0xB7] @ '' '' @ field_text t ''status'' @ '': '' @ field_text t ''message'')
                      (json_list (jget (da_health s) ''tables'')))
      else None)"

end
