(* ===== verification/Security_Page.thy ===== *)
theory Security_Page
  imports Page_Machine Format
begin

text \<open>
  \<open>pages/customer/Security.jsx\<close>: the sessions of the account, the two-factor policy for administrators,
  and the enrolment in two-factor authentication. The answers of the queries can change at any time;
  the page behind an open dialog cannot be used (the dialogs are modal).
\<close>

section \<open>Active sessions\<close>

record sessions_card =
  sc_data :: json
  sc_loading :: bool
  sc_failed :: bool
  revokeId :: json
  revokeOthers :: bool
  revoke :: mutation
  revokeAll :: mutation

definition initial_sessions :: sessions_card where
  "initial_sessions =
     \<lparr>sc_data = JUndef, sc_loading = True, sc_failed = False, revokeId = JNull, revokeOthers = False, revoke = idle, revokeAll = idle\<rparr>"

definition session_rows :: "sessions_card \<Rightarrow> json list" where
  "session_rows s = json_list (jget (sc_data s) ''sessions'')"

definition impersonation_rows :: "sessions_card \<Rightarrow> json list" where
  "impersonation_rows s = json_list (jget (sc_data s) ''impersonation_sessions'')"

definition revokable :: "sessions_card \<Rightarrow> json \<Rightarrow> bool" where
  "revokable s row \<longleftrightarrow>
     (\<not> sc_loading s \<and> \<not> sc_failed s \<and> row \<in> set (session_rows s) \<and> \<not> truthy (jget row ''current'')) \<or>
     (row \<in> set (impersonation_rows s) \<and> truthy (jget row ''revocable''))"

definition others_disabled :: "sessions_card \<Rightarrow> bool" where
  "others_disabled s \<longleftrightarrow> filter (\<lambda>row. \<not> truthy (jget row ''current'')) (session_rows s @ impersonation_rows s) = []"

datatype sessions_event =
    SessionsArrive json | SessionsFail
  | AskRevoke json | CancelRevoke | ConfirmRevoke | Revoked | RevokeFails jsstring
  | AskOthers | CancelOthers | ConfirmOthers | OthersRevoked json | OthersFail jsstring

fun sessions_offered :: "sessions_card \<Rightarrow> sessions_event \<Rightarrow> bool" where
  "sessions_offered s (SessionsArrive d) = True"
| "sessions_offered s SessionsFail = True"
| "sessions_offered s (AskRevoke row) = (nullish (revokeId s) \<and> \<not> revokeOthers s \<and> revokable s row)"
| "sessions_offered s CancelRevoke = (\<not> nullish (revokeId s) \<and> \<not> isPending (revoke s))"
| "sessions_offered s ConfirmRevoke = (\<not> nullish (revokeId s) \<and> \<not> isPending (revoke s))"
| "sessions_offered s Revoked = isPending (revoke s)"
| "sessions_offered s (RevokeFails e) = isPending (revoke s)"
| "sessions_offered s AskOthers = (nullish (revokeId s) \<and> \<not> revokeOthers s \<and> \<not> others_disabled s)"
| "sessions_offered s CancelOthers = (revokeOthers s \<and> \<not> isPending (revokeAll s))"
| "sessions_offered s ConfirmOthers = (revokeOthers s \<and> \<not> isPending (revokeAll s))"
| "sessions_offered s (OthersRevoked r) = isPending (revokeAll s)"
| "sessions_offered s (OthersFail e) = isPending (revokeAll s)"

definition session_url :: "json \<Rightarrow> jsstring" where
  "session_url i = ''/api/v1/security/sessions/'' @ js_String i"

definition ended_text :: "json \<Rightarrow> jsstring" where
  "ended_text r =
     js_String (jget r ''count'') @ '' session'' @ (if jget r ''count'' = JNum 1 then [] else ''s'') @ '' ended.''"

fun sessions_step :: "sessions_event \<Rightarrow> sessions_card \<Rightarrow> sessions_card \<times> api_request list \<times> page_effect list" where
  "sessions_step (SessionsArrive d) s = (s\<lparr>sc_data := d, sc_loading := False, sc_failed := False\<rparr>, [], [])"
| "sessions_step SessionsFail s = (s\<lparr>sc_loading := False, sc_failed := True\<rparr>, [], [])"
| "sessions_step (AskRevoke row) s = (s\<lparr>revokeId := jget row ''id''\<rparr>, [], [])"
| "sessions_step CancelRevoke s = (s\<lparr>revokeId := JNull\<rparr>, [], [])"
| "sessions_step ConfirmRevoke s = (s\<lparr>revoke := mutate (revoke s)\<rparr>, [ApiDelete (session_url (revokeId s))], [])"
| "sessions_step Revoked s =
     (s\<lparr>revoke := settle_ok (revoke s), revokeId := JNull\<rparr>, [], [Invalidate [''active-sessions''], Toast Success ''Session revoked'' []])"
| "sessions_step (RevokeFails e) s =
     (s\<lparr>revoke := settle_error e (revoke s)\<rparr>, [], [Toast ErrorTone ''Could not revoke session'' e])"
| "sessions_step AskOthers s = (s\<lparr>revokeOthers := True\<rparr>, [], [])"
| "sessions_step CancelOthers s = (s\<lparr>revokeOthers := False\<rparr>, [], [])"
| "sessions_step ConfirmOthers s =
     (s\<lparr>revokeAll := mutate (revokeAll s)\<rparr>, [ApiPost ''/api/v1/security/sessions/revoke-others'' []], [])"
| "sessions_step (OthersRevoked r) s =
     (s\<lparr>revokeAll := settle_ok (revokeAll s), revokeOthers := False\<rparr>, [],
      [Invalidate [''active-sessions''], Toast Success ''Other sessions revoked'' (ended_text r)])"
| "sessions_step (OthersFail e) s =
     (s\<lparr>revokeAll := settle_error e (revokeAll s)\<rparr>, [], [Toast ErrorTone ''Could not revoke other sessions'' e])"

text \<open>What the card looks like as a question about one session: the question is about the address
  that would be deleted.\<close>

definition revoke_question :: "sessions_card \<Rightarrow> jsstring question" where
  "revoke_question s =
     (if nullish (revokeId s) then NoQuestion
      else if isPending (revoke s) then Carrying (session_url (revokeId s)) else Asking (session_url (revokeId s)))"

definition deleted_url :: "api_request \<Rightarrow> jsstring list" where
  "deleted_url r = (case r of ApiDelete url \<Rightarrow> [url] | _ \<Rightarrow> [])"

definition sessions_inv :: "sessions_card \<Rightarrow> bool" where
  "sessions_inv s \<longleftrightarrow> (isPending (revoke s) \<longrightarrow> \<not> nullish (revokeId s))"

lemma nullish_simps [simp]: "nullish JNull" "nullish JUndef"
  by (simp_all add: nullish_def)

interpretation sessions: page_refinement initial_sessions sessions_offered sessions_step sessions_inv revoke_question deleted_url NoQuestion question_step
proof unfold_locales
  show "sessions_inv initial_sessions" "revoke_question initial_sessions = NoQuestion"
    by (simp_all add: sessions_inv_def initial_sessions_def revoke_question_def mutation_simps)
next
  fix s e
  assume "sessions_inv s" "sessions_offered s e"
  then show "sessions_inv (fst (sessions_step e s))"
    by (cases e) (simp_all add: sessions_inv_def mutation_simps)
next
  fix s e
  assume "sessions_inv s" "sessions_offered s e"
  then show "question_step (revoke_question s) (concat (map deleted_url (fst (snd (sessions_step e s))))) (revoke_question (fst (sessions_step e s)))"
    by (cases e)
      (auto simp: sessions_inv_def revoke_question_def deleted_url_def mutation_simps question_step_simps)
qed


definition two_sessions :: json where
  "two_sessions = JObj [(''sessions'', JArr
     [JObj [(''id'', JNum 1), (''current'', JBool True)], JObj [(''id'', JNum 2), (''current'', JBool False)]])]"

definition revoke_script :: "sessions_event list" where
  "revoke_script =
     [SessionsArrive two_sessions, AskRevoke (JObj [(''id'', JNum 2), (''current'', JBool False)]), ConfirmRevoke]"


text \<open>Only sessions other than the current one can be asked about in the list.\<close>

lemma current_session_not_asked:
  "sessions_offered s (AskRevoke row) \<Longrightarrow> row \<notin> set (impersonation_rows s) \<Longrightarrow> \<not> truthy (jget row ''current'')"
  by (auto simp: revokable_def)

section \<open>The policy for administrators\<close>

record policy_form =
  require_admin_2fa :: json
  admin_2fa_grace_days :: json

definition policy_loaded :: "json \<Rightarrow> policy_form option \<Rightarrow> policy_form option" where
  "policy_loaded d f =
     (if truthy d then Some \<lparr>require_admin_2fa = jget d ''require_admin_2fa'', admin_2fa_grace_days = jget d ''admin_2fa_grace_days''\<rparr>
      else f)"

definition policy_body :: "(json \<Rightarrow> json) \<Rightarrow> policy_form \<Rightarrow> body" where
  "policy_body number f =
     [(''require_admin_2fa'', JBool (truthy (require_admin_2fa f))),
      (''admin_2fa_grace_days'', number (admin_2fa_grace_days f))]"

definition policy_save_disabled :: "policy_form option \<Rightarrow> mutation \<Rightarrow> bool" where
  "policy_save_disabled f m \<longleftrightarrow> f = None \<or> isPending m"

definition policy_hint :: "json \<Rightarrow> jsstring" where
  "policy_hint d =
     js_String (jget d ''administrators_with_2fa'') @ '' active administrator'' @
     (if jget d ''administrators_with_2fa'' = JNum 1 then [] else ''s'') @
     '' currently have 2FA. At least one is required before this policy can be enabled.''"

text \<open>The bounds 0 and 30 of the number field are not checked before sending: its button stands in no
  form, and the value typed is sent as it is.\<close>

lemma grace_period_unchecked:
  "number (JStr ''400'') = JNum 400 \<Longrightarrow>
     \<not> policy_save_disabled (Some (f\<lparr>admin_2fa_grace_days := JStr ''400''\<rparr>)) idle \<and>
     jget (JObj (policy_body number (f\<lparr>admin_2fa_grace_days := JStr ''400''\<rparr>))) ''admin_2fa_grace_days'' = JNum 400"
  by (simp add: policy_save_disabled_def policy_body_def idle_def)

text \<open>Answers of the query replace what was entered.\<close>

lemma policy_answer_overwrites: "truthy d \<Longrightarrow> policy_loaded d f = policy_loaded d g"
  by (simp add: policy_loaded_def)

section \<open>Enrolment\<close>

record security_page =
  st_data :: json
  st_loading :: bool
  st_error :: bool
  setupData :: json
  s_code :: jsstring
  codeError :: jsstring
  recoveryCodes :: "json list option"
  disableOpen :: bool
  s_password :: jsstring
  passwordError :: jsstring
  setupMut :: mutation
  verifyMut :: mutation
  disableMut :: mutation

definition initial_security :: security_page where
  "initial_security =
     \<lparr>st_data = JUndef, st_loading = True, st_error = False, setupData = JNull, s_code = [], codeError = [],
      recoveryCodes = None, disableOpen = False, s_password = [], passwordError = [],
      setupMut = idle, verifyMut = idle, disableMut = idle\<rparr>"

definition two_factor_on :: "security_page \<Rightarrow> bool" where
  "two_factor_on s \<longleftrightarrow> truthy (jget (st_data s) ''enabled'')"

datatype security_view =
    ImpersonationNotice | LoadingCard | StatusFailed | RevealCodes "json list" | EnabledCard | SetupCard json | OffCard

definition security_view :: "bool \<Rightarrow> security_page \<Rightarrow> security_view" where
  "security_view impersonated s =
     (if impersonated then ImpersonationNotice
      else if st_loading s then LoadingCard
      else if st_error s then StatusFailed
      else (case recoveryCodes s of
              Some codes \<Rightarrow> RevealCodes codes
            | None \<Rightarrow> if two_factor_on s then EnabledCard
                     else if truthy (setupData s) then SetupCard (setupData s) else OffCard))"

datatype security_event =
    StatusArrives json | StatusFails
  | TypePassword jsstring | ClickEnable | SetupAnswers json | SetupFails jsstring
  | TypeCode jsstring | SubmitVerify | VerifyAnswers json | VerifyFails jsstring | CancelSetup
  | SavedCodes
  | OpenDisable | DismissDisable | CancelDisable | SubmitDisable | DisableAnswers | DisableFails jsstring

fun security_offered :: "bool \<Rightarrow> security_page \<Rightarrow> security_event \<Rightarrow> bool" where
  "security_offered imp s (StatusArrives d) = (\<not> imp)"
| "security_offered imp s StatusFails = (\<not> imp)"
| "security_offered imp s (TypePassword p) = (\<not> imp \<and> (disableOpen s \<or> security_view imp s = OffCard))"
| "security_offered imp s ClickEnable =
     (security_view imp s = OffCard \<and> \<not> disableOpen s \<and> s_password s \<noteq> [] \<and> \<not> isPending (setupMut s))"
| "security_offered imp s (SetupAnswers v) = isPending (setupMut s)"
| "security_offered imp s (SetupFails e) = isPending (setupMut s)"
| "security_offered imp s (TypeCode v) = (security_view imp s = SetupCard (setupData s) \<and> \<not> disableOpen s \<and> length v \<le> 6)"
| "security_offered imp s SubmitVerify =
     (security_view imp s = SetupCard (setupData s) \<and> \<not> disableOpen s \<and> trim (s_code s) \<noteq> [] \<and> \<not> isPending (verifyMut s))"
| "security_offered imp s (VerifyAnswers v) = isPending (verifyMut s)"
| "security_offered imp s (VerifyFails e) = isPending (verifyMut s)"
| "security_offered imp s CancelSetup =
     (security_view imp s = SetupCard (setupData s) \<and> \<not> disableOpen s \<and> \<not> isPending (verifyMut s))"
| "security_offered imp s SavedCodes = (\<not> disableOpen s \<and> (case security_view imp s of RevealCodes c \<Rightarrow> True | _ \<Rightarrow> False))"
| "security_offered imp s OpenDisable = (\<not> imp \<and> two_factor_on s \<and> recoveryCodes s = None \<and> \<not> disableOpen s)"
| "security_offered imp s DismissDisable = (\<not> imp \<and> disableOpen s)"
| "security_offered imp s CancelDisable = (\<not> imp \<and> disableOpen s \<and> \<not> isPending (disableMut s))"
| "security_offered imp s SubmitDisable = (\<not> imp \<and> disableOpen s \<and> s_password s \<noteq> [] \<and> \<not> isPending (disableMut s))"
| "security_offered imp s DisableAnswers = isPending (disableMut s)"
| "security_offered imp s (DisableFails e) = isPending (disableMut s)"

definition submitVerify :: "security_page \<Rightarrow> security_page \<times> api_request list \<times> page_effect list" where
  "submitVerify s =
     (let c = trim (s_code s)
      in if c = [] then (s\<lparr>codeError := ''Enter the 6-digit code from your authenticator app.''\<rparr>, [], [])
         else (s\<lparr>codeError := [], verifyMut := mutate (verifyMut s)\<rparr>,
               [ApiPost ''/api/v1/2fa/verify'' [(''code'', JStr c), (''current_password'', JStr (s_password s))]], []))"

definition submitDisable :: "security_page \<Rightarrow> security_page \<times> api_request list \<times> page_effect list" where
  "submitDisable s =
     (if s_password s = [] then (s\<lparr>passwordError := ''Enter your current password to confirm.''\<rparr>, [], [])
      else (s\<lparr>passwordError := [], disableMut := mutate (disableMut s)\<rparr>,
            [ApiPost ''/api/v1/2fa/disable'' [(''current_password'', JStr (s_password s))]], []))"

fun security_step :: "jsstring \<Rightarrow> security_event \<Rightarrow> security_page \<Rightarrow> security_page \<times> api_request list \<times> page_effect list" where
  "security_step u (StatusArrives d) s = (s\<lparr>st_data := d, st_loading := False, st_error := False\<rparr>, [], [])"
| "security_step u StatusFails s = (s\<lparr>st_loading := False, st_error := True\<rparr>, [], [])"
| "security_step u (TypePassword p) s = (s\<lparr>s_password := p\<rparr>, [], [])"
| "security_step u ClickEnable s =
     (s\<lparr>setupMut := mutate (setupMut s)\<rparr>, [ApiPost ''/api/v1/2fa/setup'' [(''current_password'', JStr (s_password s))]], [])"
| "security_step u (SetupAnswers v) s =
     (s\<lparr>setupMut := settle_ok (setupMut s), setupData := v, s_code := [], codeError := []\<rparr>, [], [])"
| "security_step u (SetupFails e) s =
     (s\<lparr>setupMut := settle_error e (setupMut s)\<rparr>, [], [Toast ErrorTone ''Could not start 2FA setup'' e])"
| "security_step u (TypeCode v) s = (s\<lparr>s_code := filter is_digit v\<rparr>, [], [])"
| "security_step u SubmitVerify s = submitVerify s"
| "security_step u (VerifyAnswers v) s =
     (s\<lparr>verifyMut := settle_ok (verifyMut s), recoveryCodes := Some (json_list (jget v ''recovery_codes'')), setupData := JNull,
        s_password := [], s_code := [], codeError := []\<rparr>, [],
      [Toast Success ''Two-factor authentication enabled'' (''Save your recovery codes now '' @ [em_dash] @ '' they are shown only once.''),
       Invalidate [''2fa-status'', u]])"
| "security_step u (VerifyFails e) s =
     (s\<lparr>verifyMut := settle_error e (verifyMut s), codeError := e\<rparr>, [], [Toast ErrorTone ''Could not verify code'' e])"
| "security_step u CancelSetup s = (s\<lparr>setupData := JNull, s_password := [], s_code := [], codeError := []\<rparr>, [], [])"
| "security_step u SavedCodes s = (s\<lparr>recoveryCodes := None\<rparr>, [], [])"
| "security_step u OpenDisable s = (s\<lparr>disableOpen := True\<rparr>, [], [])"
| "security_step u DismissDisable s = (s\<lparr>disableOpen := False, s_password := [], passwordError := []\<rparr>, [], [])"
| "security_step u CancelDisable s = (s\<lparr>disableOpen := False\<rparr>, [], [])"
| "security_step u SubmitDisable s = submitDisable s"
| "security_step u DisableAnswers s =
     (s\<lparr>disableMut := settle_ok (disableMut s), disableOpen := False, s_password := [], passwordError := [], recoveryCodes := None\<rparr>, [],
      [Toast Success ''Two-factor authentication disabled'' ''Your account no longer requires a second factor to sign in.'',
       Invalidate [''2fa-status'', u]])"
| "security_step u (DisableFails e) s =
     (s\<lparr>disableMut := settle_error e (disableMut s), passwordError := e\<rparr>, [], [Toast ErrorTone ''Could not disable 2FA'' e])"

definition recovery_file :: "jsstring \<Rightarrow> json list \<Rightarrow> jsstring" where
  "recovery_file u codes =
     ''Boron two-factor recovery codes'' @ (if u = [] then [] else '' for '' @ u) @ [CHR 0x0A] @
     ''Each code works once. Keep them somewhere safe.'' @ [CHR 0x0A, CHR 0x0A] @
     join_with [CHR 0x0A] (map js_String codes) @ [CHR 0x0A]"

definition two_factor_request_ok :: "api_request \<Rightarrow> bool" where
  "two_factor_request_ok r =
     (case r of
        ApiPost url b \<Rightarrow>
          (url = ''/api/v1/2fa/verify'' \<and>
             (case jget (JObj b) ''code'' of JStr c \<Rightarrow> c \<noteq> [] \<and> length c \<le> 6 \<and> list_all is_digit c | _ \<Rightarrow> False)) \<or>
          (url \<in> {''/api/v1/2fa/setup'', ''/api/v1/2fa/disable''} \<and>
             (case jget (JObj b) ''current_password'' of JStr p \<Rightarrow> p \<noteq> [] | _ \<Rightarrow> False))
      | _ \<Rightarrow> False)"

definition security_inv :: "bool \<Rightarrow> security_page \<Rightarrow> bool" where
  "security_inv imp s \<longleftrightarrow> list_all is_digit (s_code s) \<and> length (s_code s) \<le> 6 \<and>
     (imp \<longrightarrow> \<not> isPending (setupMut s) \<and> \<not> isPending (verifyMut s) \<and> \<not> isPending (disableMut s))"

lemma trim_digits: "list_all is_digit c \<Longrightarrow> trim c = c"
proof (rule trim_id)
  assume "list_all is_digit c"
  moreover have "is_digit x \<Longrightarrow> \<not> is_space x" for x by (auto simp: is_digit_def is_space_def)
  ultimately show "c \<noteq> [] \<Longrightarrow> \<not> is_space (hd c)" "c \<noteq> [] \<Longrightarrow> \<not> is_space (last c)"
    by (auto simp: list_all_iff)
qed

lemma security_view_imp [simp]: "security_view True s = ImpersonationNotice"
  by (simp add: security_view_def)

lemma security_inv_step:
  "security_inv imp s \<Longrightarrow> security_offered imp s e \<Longrightarrow> security_inv imp (fst (security_step u e s))"
  by (cases imp; cases e)
    (auto simp: security_inv_def submitVerify_def submitDisable_def Let_def mutation_simps list_all_iff
        intro: order_trans[OF length_filter_le])

lemma security_good_step:
  "security_inv imp s \<Longrightarrow> security_offered imp s e \<Longrightarrow>
     list_all (\<lambda>r. \<not> imp \<and> two_factor_request_ok r) (fst (snd (security_step u e s)))"
  by (cases imp; cases e)
    (auto simp: security_inv_def submitVerify_def submitDisable_def Let_def two_factor_request_ok_def trim_digits)

interpretation security: page_contract initial_security "security_offered imp" "security_step u" "security_inv imp"
    "\<lambda>r. \<not> imp \<and> two_factor_request_ok r"
  by unfold_locales (simp_all add: security_inv_step security_good_step, simp add: security_inv_def initial_security_def mutation_simps)


definition enrol_script :: "security_event list" where
  "enrol_script =
     [StatusArrives (JObj [(''enabled'', JBool False)]), TypePassword ''pw'', ClickEnable,
      SetupAnswers (JObj [(''secret'', JStr ''ABC'')]), TypeCode ''12x3'', SubmitVerify]"


text \<open>
  The recovery codes of a confirmation stay until the user has saved them: no answer of the status query,
  failed or not, drops them, and they are on the screen whenever the status is known.
\<close>

lemma recovery_codes_kept:
  assumes "recoveryCodes s = Some codes" "security_offered False s e" "e \<noteq> SavedCodes" "e \<noteq> DisableAnswers"
    and "\<And>v. e \<noteq> VerifyAnswers v"
  shows "recoveryCodes (fst (security_step u e s)) = Some codes"
  using assms by (cases e) (auto simp: submitVerify_def submitDisable_def Let_def)

lemma recovery_codes_shown:
  "recoveryCodes s = Some codes \<Longrightarrow> security_view False (fst (security_step u (StatusArrives d) s)) = RevealCodes codes"
  by (simp add: security_view_def)

lemma saved_codes_gone:
  "recoveryCodes (fst (security_step u SavedCodes s)) = None \<and>
   (\<forall>e. (\<forall>v. e \<noteq> VerifyAnswers v) \<longrightarrow> recoveryCodes s = None \<longrightarrow> recoveryCodes (fst (security_step u e s)) = None)"
proof -
  have "recoveryCodes (fst (security_step u e s)) = None" if "\<And>v. e \<noteq> VerifyAnswers v" "recoveryCodes s = None" for e
    using that by (cases e) (auto simp: submitVerify_def submitDisable_def Let_def)
  then show ?thesis by simp
qed

text \<open>The Cancel button of the dialog that switches the factor off keeps the password typed, which
  Escape clears: reopening shows it again.\<close>

lemma cancel_keeps_password:
  "s_password (fst (security_step u OpenDisable (fst (security_step u CancelDisable s)))) = s_password s \<and>
   s_password (fst (security_step u OpenDisable (fst (security_step u DismissDisable s)))) = []"
  by simp

text \<open>The password sent with the code is read when the code is sent: editing the field while the setup
  is awaited sends another one than the setup used.\<close>

lemma verify_sends_later_password:
  assumes "isPending (setupMut s)" "security_view False s = OffCard" "\<not> disableOpen s"
  shows "security_offered False s (TypePassword p) \<and>
         (let s' = (fst (security_step u (SetupAnswers v) (fst (security_step u (TypePassword p) s))))\<lparr>s_code := ''123456''\<rparr>
          in fst (snd (submitVerify s')) = [ApiPost ''/api/v1/2fa/verify'' [(''code'', JStr ''123456''), (''current_password'', JStr p)]])"
proof -
  have "trim ''123456'' = ''123456''" by code_simp
  with assms show ?thesis by (simp add: submitVerify_def Let_def)
qed

end
