(* ===== verification/Dns_Page.thy ===== *)
theory Dns_Page
  imports Page_Machine Dns_Owner
begin

text \<open>
  \<open>pages/customer/Dns.jsx\<close>: the records of a zone, the zone editor with its templates, and the mail
  records. The domain the page works on is the account's domain context: the picker, the top bar and
  other tabs change it, the last also behind an open dialog.
\<close>

section \<open>Records\<close>

record dns_row =
  dr_subdomain :: jsstring
  dr_type :: json
  dr_ttl :: json
  dr_values :: "json list"

definition subdomain_of :: "jsstring \<Rightarrow> jsstring \<Rightarrow> jsstring" where
  "subdomain_of zone name =
     (if name = zone \<or> name = [] then ''@''
      else if zone \<noteq> [] \<and> endsWith name (''.'' @ zone) then take (length name - (length zone + 1)) name
      else name)"

definition record_values :: "json \<Rightarrow> json list" where
  "record_values r =
     (case jget r ''values'' of
        JArr vs \<Rightarrow> vs
      | _ \<Rightarrow> (case jget r ''records'' of
                JArr rs \<Rightarrow> map (\<lambda>x. case x of JStr _ \<Rightarrow> x | _ \<Rightarrow> jget x ''content'') rs
              | _ \<Rightarrow> []))"

definition record_row :: "jsstring \<Rightarrow> json \<Rightarrow> dns_row" where
  "record_row zone r =
     \<lparr>dr_subdomain = subdomain_of zone (strip_dot (json_text (jget r ''name''))), dr_type = jget r ''type'',
      dr_ttl = jget r ''ttl'', dr_values = record_values r\<rparr>"

definition row_key :: "dns_row \<Rightarrow> jsstring" where
  "row_key r = dr_subdomain r @ ''|'' @ js_String (dr_type r)"

definition email_row :: "dns_row \<Rightarrow> bool" where
  "email_row r \<longleftrightarrow>
     dr_type r = JStr ''MX'' \<or>
     (dr_type r = JStr ''TXT'' \<and>
        (dr_subdomain r = ''@'' \<or> dr_subdomain r = ''_dmarc'' \<or> js_includes (dr_subdomain r) ''._domainkey'')) \<or>
     dr_subdomain r \<in> set [''mail'', ''webmail'', ''autodiscover'', ''autoconfig'']"

record dns_dialog =
  dd_edit :: bool
  dd_subdomain :: jsstring
  dd_type :: json
  dd_ttl :: jsstring
  dd_values :: jsstring
  dd_confirmed :: bool

definition DNS_TYPES :: "jsstring list" where
  "DNS_TYPES = [''A'', ''AAAA'', ''CNAME'', ''MX'', ''TXT'', ''NS'', ''SRV'', ''CAA'']"

definition dialog_types :: "bool \<Rightarrow> jsstring list" where
  "dialog_types emailOnly = (if emailOnly then [''MX'', ''TXT'', ''A'', ''CNAME''] else DNS_TYPES)"

definition add_dialog :: "bool \<Rightarrow> dns_dialog" where
  "add_dialog emailOnly =
     \<lparr>dd_edit = False, dd_subdomain = ''@'', dd_type = JStr (if emailOnly then ''MX'' else ''A''), dd_ttl = ''3600'',
      dd_values = [], dd_confirmed = False\<rparr>"

definition edit_dialog :: "dns_row \<Rightarrow> dns_dialog" where
  "edit_dialog r =
     \<lparr>dd_edit = True, dd_subdomain = dr_subdomain r, dd_type = dr_type r, dd_ttl = js_String (dr_ttl r),
      dd_values = js_join [newline] (dr_values r), dd_confirmed = False\<rparr>"

definition record_body :: "(jsstring \<Rightarrow> json) \<Rightarrow> jsstring \<Rightarrow> dns_dialog \<Rightarrow> body" where
  "record_body frac domain d =
     [(''domain'', JStr domain), (''subdomain'', JStr (or_string (Some (trim (dd_subdomain d))) ''@'')),
      (''type'', dd_type d), (''values'', JArr (map JStr (linesToList (dd_values d)))),
      (''ttl'', js_or (js_Number frac (dd_ttl d)) (JNum 3600)),
      (''mode'', JStr (if dd_edit d then ''replace'' else ''add''))]"

text \<open>The number field's own check, made before the form is submitted: a number below the minimum is
  refused; a text that is no number stands for an empty field, which may stay empty.\<close>

definition number_field_ok :: "(jsstring \<Rightarrow> json) \<Rightarrow> int \<Rightarrow> jsstring \<Rightarrow> bool" where
  "number_field_ok frac lo t \<longleftrightarrow>
     trim t = [] \<or> (case js_Number frac t of JNum n \<Rightarrow> lo \<le> n | _ \<Rightarrow> True)"

section \<open>The page\<close>

record zone_editor =
  ze_zone :: json
  ze_text :: jsstring
  ze_fingerprint :: json
  ze_templates :: json
  ze_conflicts :: json
  ze_confirmation :: jsstring
  ze_changes :: json
  ze_reviewed :: "jsstring option"

record dns_page =
  dn_domain :: jsstring
  dn_data :: json
  dn_readiness :: json
  dn_dialog :: "dns_dialog option"
  dn_toDelete :: "dns_row option"
  dn_advanced :: "zone_editor option"
  dn_template :: jsstring
  dmarc_policy :: jsstring
  dmarc_subdomain_policy :: jsstring
  dmarc_rua :: jsstring
  dn_save :: mutation
  dn_delete :: mutation
  dn_repair :: mutation
  dn_dmarc :: mutation
  dn_load :: mutation
  dn_preview :: mutation
  dn_templateLoad :: mutation
  dn_apply :: mutation
  dn_failed :: bool \<comment> \<open>rendering threw: the page is replaced by the error element of its route\<close>

definition initial_dns :: "jsstring \<Rightarrow> dns_page" where
  "initial_dns domain =
     \<lparr>dn_domain = domain, dn_data = JUndef, dn_readiness = JUndef, dn_dialog = None, dn_toDelete = None, dn_advanced = None,
      dn_template = ''hosting'', dmarc_policy = ''none'', dmarc_subdomain_policy = ''none'', dmarc_rua = [],
      dn_save = idle, dn_delete = idle, dn_repair = idle, dn_dmarc = idle, dn_load = idle, dn_preview = idle,
      dn_templateLoad = idle, dn_apply = idle, dn_failed = False\<rparr>"

definition dns_zone :: "dns_page \<Rightarrow> jsstring" where
  "dns_zone s = strip_dot (json_text (js_or (jget (dn_data s) ''zone'') (JStr (dn_domain s))))"

definition dns_rows :: "bool \<Rightarrow> dns_page \<Rightarrow> dns_row list" where
  "dns_rows emailOnly s =
     filter (\<lambda>r. \<not> emailOnly \<or> email_row r) (map (record_row (dns_zone s)) (json_list (jget (dn_data s) ''records'')))"

definition unmanaged :: "dns_page \<Rightarrow> bool" where
  "unmanaged s \<longleftrightarrow> jget (dn_data s) ''managed'' = JBool False"

definition ownerPreview :: "dns_page \<Rightarrow> dns_dialog \<Rightarrow> owner_preview" where
  "ownerPreview s d = dnsOwnerPreview (Some (dns_zone s)) (Some (dd_subdomain d))"

definition record_blocked :: "dns_page \<Rightarrow> dns_dialog \<Rightarrow> bool" where
  "record_blocked s d \<longleftrightarrow>
     owner_error (ownerPreview s d) \<noteq> None \<or>
     (\<not> dd_edit d \<and> confirmRelative (ownerPreview s d) \<and> \<not> dd_confirmed d)"

definition no_dialog :: "dns_page \<Rightarrow> bool" where
  "no_dialog s \<longleftrightarrow> dn_dialog s = None \<and> dn_toDelete s = None \<and> dn_advanced s = None"

definition apply_disabled :: "dns_page \<Rightarrow> zone_editor \<Rightarrow> bool" where
  "apply_disabled s a \<longleftrightarrow>
     json_list (ze_changes a) = [] \<or> ze_reviewed a \<noteq> Some (ze_text a) \<or> JStr (ze_confirmation a) \<noteq> ze_zone a \<or>
     isPending (dn_preview s) \<or> isPending (dn_templateLoad s) \<or> isPending (dn_apply s)"

datatype dns_event =
    RecordsArrive json | ReadinessArrives json | SwitchDomain jsstring json
  | OpenAdd | OpenEdit dns_row | TypeName jsstring | ChooseType jsstring | TypeTtl jsstring | TypeValues jsstring
  | TickRelative bool | CloseDialog | SubmitRecord | RecordSaved | RecordFails jsstring
  | AskDeleteRecord dns_row | CancelDeleteRecord | ConfirmDeleteRecord | RecordDeleted | DeleteFails jsstring
  | RepairMail "json list" | MailRepaired | RepairFails jsstring
  | ChoosePolicy jsstring | ChooseSubPolicy jsstring | TypeRua jsstring | InstallDmarc | DmarcInstalled | DmarcFails jsstring
  | OpenEditor | EditorArrives json | EditorFails jsstring | TypeZone jsstring | TypeConfirm jsstring
  | ChooseTemplate jsstring | LoadTemplate | TemplateArrives json | TemplateFails jsstring
  | PreviewZone | PreviewArrives json | PreviewFails jsstring | CloseEditor
  | ApplyZone | ZoneApplied json | ApplyFails jsstring

fun dns_control :: "bool \<Rightarrow> (jsstring \<Rightarrow> json) \<Rightarrow> dns_page \<Rightarrow> dns_event \<Rightarrow> bool" where
  "dns_control eo frac s (RecordsArrive d) = True"
| "dns_control eo frac s (ReadinessArrives d) = eo"
| "dns_control eo frac s (SwitchDomain d cached) = (d \<noteq> dn_domain s)"
| "dns_control eo frac s OpenAdd = (no_dialog s \<and> dn_domain s \<noteq> [] \<and> \<not> unmanaged s)"
| "dns_control eo frac s (OpenEdit r) = (no_dialog s \<and> \<not> unmanaged s \<and> r \<in> set (dns_rows eo s))"
| "dns_control eo frac s (TypeName n) = (case dn_dialog s of Some d \<Rightarrow> \<not> dd_edit d | None \<Rightarrow> False)"
| "dns_control eo frac s (ChooseType t) = (case dn_dialog s of Some d \<Rightarrow> \<not> dd_edit d \<and> t \<in> set (dialog_types eo) | None \<Rightarrow> False)"
| "dns_control eo frac s (TypeTtl t) = (dn_dialog s \<noteq> None)"
| "dns_control eo frac s (TypeValues v) = (dn_dialog s \<noteq> None)"
| "dns_control eo frac s (TickRelative b) =
     (case dn_dialog s of Some d \<Rightarrow> \<not> dd_edit d \<and> confirmRelative (ownerPreview s d) | None \<Rightarrow> False)"
| "dns_control eo frac s CloseDialog = (dn_dialog s \<noteq> None)"
| "dns_control eo frac s SubmitRecord =
     (case dn_dialog s of
        Some d \<Rightarrow> \<not> record_blocked s d \<and> \<not> isPending (dn_save s) \<and> dd_values d \<noteq> [] \<and> number_field_ok frac 60 (dd_ttl d)
      | None \<Rightarrow> False)"
| "dns_control eo frac s RecordSaved = isPending (dn_save s)"
| "dns_control eo frac s (RecordFails e) = isPending (dn_save s)"
| "dns_control eo frac s (AskDeleteRecord r) = (no_dialog s \<and> \<not> unmanaged s \<and> r \<in> set (dns_rows eo s))"
| "dns_control eo frac s CancelDeleteRecord = (dn_toDelete s \<noteq> None \<and> \<not> isPending (dn_delete s))"
| "dns_control eo frac s ConfirmDeleteRecord = (dn_toDelete s \<noteq> None \<and> \<not> isPending (dn_delete s))"
| "dns_control eo frac s RecordDeleted = isPending (dn_delete s)"
| "dns_control eo frac s (DeleteFails e) = isPending (dn_delete s)"
| "dns_control eo frac s (RepairMail keys) =
     (eo \<and> no_dialog s \<and> truthy (jget (dn_readiness s) ''managed'') \<and>
      (keys = [] \<and> \<not> isPending (dn_repair s) \<or>
       list_ex (\<lambda>r. jget r ''status'' = JStr ''conflicting'' \<and> keys = [jget r ''key'']) (json_list (jget (dn_readiness s) ''records''))))"
| "dns_control eo frac s MailRepaired = isPending (dn_repair s)"
| "dns_control eo frac s (RepairFails e) = isPending (dn_repair s)"
| "dns_control eo frac s (ChoosePolicy p) = (eo \<and> no_dialog s \<and> p \<in> set [''none'', ''quarantine'', ''reject''])"
| "dns_control eo frac s (ChooseSubPolicy p) = (eo \<and> no_dialog s \<and> p \<in> set [''none'', ''quarantine'', ''reject''])"
| "dns_control eo frac s (TypeRua v) = (eo \<and> no_dialog s)"
| "dns_control eo frac s InstallDmarc =
     (eo \<and> no_dialog s \<and> truthy (jget (dn_readiness s) ''managed'') \<and> \<not> isPending (dn_dmarc s))"
| "dns_control eo frac s DmarcInstalled = isPending (dn_dmarc s)"
| "dns_control eo frac s (DmarcFails e) = isPending (dn_dmarc s)"
| "dns_control eo frac s OpenEditor =
     (\<not> eo \<and> no_dialog s \<and> dn_domain s \<noteq> [] \<and> \<not> unmanaged s \<and> \<not> isPending (dn_load s))"
| "dns_control eo frac s (EditorArrives d) = isPending (dn_load s)"
| "dns_control eo frac s (EditorFails e) = isPending (dn_load s)"
| "dns_control eo frac s (TypeZone t) = (dn_advanced s \<noteq> None \<and> \<not> isPending (dn_apply s))"
| "dns_control eo frac s (TypeConfirm t) = (case dn_advanced s of Some a \<Rightarrow> truthy (ze_changes a) | None \<Rightarrow> False)"
| "dns_control eo frac s (ChooseTemplate t) = (dn_advanced s \<noteq> None)"
| "dns_control eo frac s LoadTemplate = (dn_advanced s \<noteq> None \<and> \<not> isPending (dn_apply s) \<and> \<not> isPending (dn_templateLoad s))"
| "dns_control eo frac s (TemplateArrives d) = isPending (dn_templateLoad s)"
| "dns_control eo frac s (TemplateFails e) = isPending (dn_templateLoad s)"
| "dns_control eo frac s PreviewZone =
     (dn_advanced s \<noteq> None \<and> \<not> isPending (dn_apply s) \<and> \<not> isPending (dn_templateLoad s) \<and> \<not> isPending (dn_preview s))"
| "dns_control eo frac s (PreviewArrives d) = isPending (dn_preview s)"
| "dns_control eo frac s (PreviewFails e) = isPending (dn_preview s)"
| "dns_control eo frac s CloseEditor = (dn_advanced s \<noteq> None \<and> \<not> isPending (dn_apply s))"
| "dns_control eo frac s ApplyZone = (case dn_advanced s of Some a \<Rightarrow> \<not> apply_disabled s a | None \<Rightarrow> False)"
| "dns_control eo frac s (ZoneApplied d) = isPending (dn_apply s)"
| "dns_control eo frac s (ApplyFails e) = isPending (dn_apply s)"

definition dns_offered :: "bool \<Rightarrow> (jsstring \<Rightarrow> json) \<Rightarrow> dns_page \<Rightarrow> dns_event \<Rightarrow> bool" where
  "dns_offered eo frac s e \<longleftrightarrow> \<not> dn_failed s \<and> dns_control eo frac s e"

section \<open>Requests and reactions\<close>

definition records_url :: "jsstring \<Rightarrow> jsstring" where
  "records_url domain = ''/api/v1/dns/zones/'' @ domain @ ''/records''"

definition editor_url :: "json \<Rightarrow> jsstring" where
  "editor_url zone = ''/api/v1/dns/zones/'' @ js_String zone @ ''/advanced''"

definition mail_url :: "jsstring \<Rightarrow> jsstring \<Rightarrow> jsstring" where
  "mail_url u domain = ''/api/v1/accounts/'' @ u @ ''/email/domains/'' @ domain"

definition preview_request :: "zone_editor \<Rightarrow> api_request" where
  "preview_request a =
     ApiPost (editor_url (ze_zone a) @ ''/preview'') [(''text'', JStr (ze_text a)), (''fingerprint'', ze_fingerprint a)]"

definition apply_request :: "zone_editor \<Rightarrow> api_request" where
  "apply_request a =
     ApiPut (editor_url (ze_zone a))
       [(''text'', JStr (ze_text a)), (''fingerprint'', ze_fingerprint a), (''confirmation'', JStr (ze_confirmation a))]"

definition invalidate_records :: "dns_page \<Rightarrow> page_effect" where
  "invalidate_records s = Invalidate [''dns-records'', dn_domain s]"

definition submit_record :: "(jsstring \<Rightarrow> json) \<Rightarrow> dns_page \<Rightarrow> dns_page \<times> api_request list \<times> page_effect list" where
  "submit_record frac s =
     (case dn_dialog s of
        None \<Rightarrow> (s, [], [])
      | Some d \<Rightarrow>
          if record_blocked s d then (s, [], [])
          else (s\<lparr>dn_save := mutate (dn_save s)\<rparr>, [ApiPut (records_url (dn_domain s)) (record_body frac (dn_domain s) d)], []))"

definition overlay :: "json \<Rightarrow> jsstring \<Rightarrow> json \<Rightarrow> json" where
  "overlay d k v = (case map_of (json_fields d) k of Some w \<Rightarrow> w | None \<Rightarrow> v)"

definition opened_editor :: "json \<Rightarrow> zone_editor" where
  "opened_editor d =
     \<lparr>ze_zone = jget d ''zone'', ze_text = json_text (jget d ''text''), ze_fingerprint = jget d ''fingerprint'',
      ze_templates = jget d ''templates'', ze_conflicts = JArr [], ze_confirmation = [], ze_changes = JNull, ze_reviewed = None\<rparr>"

definition empty_editor :: zone_editor where
  "empty_editor =
     \<lparr>ze_zone = JUndef, ze_text = [], ze_fingerprint = JUndef, ze_templates = JUndef, ze_conflicts = JUndef,
      ze_confirmation = [], ze_changes = JUndef, ze_reviewed = None\<rparr>"

definition with_template :: "json \<Rightarrow> zone_editor \<Rightarrow> zone_editor" where
  "with_template d a =
     \<lparr>ze_zone = overlay d ''zone'' (ze_zone a), ze_text = json_text (overlay d ''text'' (JStr (ze_text a))),
      ze_fingerprint = overlay d ''fingerprint'' (ze_fingerprint a), ze_templates = overlay d ''templates'' (ze_templates a),
      ze_conflicts = overlay d ''conflicts'' (ze_conflicts a), ze_confirmation = [], ze_changes = JNull,
      ze_reviewed = ze_reviewed a\<rparr>"

definition on_dialog :: "(dns_dialog \<Rightarrow> dns_dialog) \<Rightarrow> dns_page \<Rightarrow> dns_page" where
  "on_dialog f s = s\<lparr>dn_dialog := map_option f (dn_dialog s)\<rparr>"

definition on_editor :: "(zone_editor \<Rightarrow> zone_editor) \<Rightarrow> dns_page \<Rightarrow> dns_page" where
  "on_editor f s = s\<lparr>dn_advanced := map_option f (dn_advanced s)\<rparr>"

text \<open>The answer to a preview is stored beside the text the editor holds when it arrives; when the
  editor was closed meanwhile, reading that text throws.\<close>

definition preview_arrives :: "json \<Rightarrow> dns_page \<Rightarrow> dns_page" where
  "preview_arrives d s =
     (case dn_advanced s of
        None \<Rightarrow> s\<lparr>dn_failed := True\<rparr>
      | Some a \<Rightarrow> s\<lparr>dn_advanced := Some (a\<lparr>ze_changes := jget d ''changes'', ze_reviewed := Some (ze_text a)\<rparr>)\<rparr>)"

text \<open>The list of templates has to be an array when the editor is rendered.\<close>

definition show_editor :: "zone_editor \<Rightarrow> dns_page \<Rightarrow> dns_page" where
  "show_editor a s =
     s\<lparr>dn_advanced := Some a, dn_failed := (dn_failed s \<or> (case ze_templates a of JArr ts \<Rightarrow> False | _ \<Rightarrow> True))\<rparr>"

definition template_arrives :: "json \<Rightarrow> dns_page \<Rightarrow> dns_page" where
  "template_arrives d s = show_editor (with_template d (case dn_advanced s of Some a \<Rightarrow> a | None \<Rightarrow> empty_editor)) s"

definition editor_request :: "(zone_editor \<Rightarrow> api_request) \<Rightarrow> dns_page \<Rightarrow> api_request list" where
  "editor_request f s = (case dn_advanced s of Some a \<Rightarrow> [f a] | None \<Rightarrow> [])"

fun dns_step :: "bool \<Rightarrow> jsstring \<Rightarrow> (jsstring \<Rightarrow> json) \<Rightarrow> dns_event \<Rightarrow> dns_page \<Rightarrow> dns_page \<times> api_request list \<times> page_effect list" where
  "dns_step eo u frac (RecordsArrive d) s = (s\<lparr>dn_data := d\<rparr>, [], [])"
| "dns_step eo u frac (ReadinessArrives d) s = (s\<lparr>dn_readiness := d\<rparr>, [], [])"
| "dns_step eo u frac (SwitchDomain d cached) s = (s\<lparr>dn_domain := d, dn_data := cached, dn_readiness := JUndef\<rparr>, [], [])"
| "dns_step eo u frac OpenAdd s = (s\<lparr>dn_dialog := Some (add_dialog eo)\<rparr>, [], [])"
| "dns_step eo u frac (OpenEdit r) s = (s\<lparr>dn_dialog := Some (edit_dialog r)\<rparr>, [], [])"
| "dns_step eo u frac (TypeName n) s = (on_dialog (\<lambda>d. d\<lparr>dd_subdomain := n, dd_confirmed := False\<rparr>) s, [], [])"
| "dns_step eo u frac (ChooseType t) s = (on_dialog (\<lambda>d. d\<lparr>dd_type := JStr t\<rparr>) s, [], [])"
| "dns_step eo u frac (TypeTtl t) s = (on_dialog (\<lambda>d. d\<lparr>dd_ttl := t\<rparr>) s, [], [])"
| "dns_step eo u frac (TypeValues v) s = (on_dialog (\<lambda>d. d\<lparr>dd_values := v\<rparr>) s, [], [])"
| "dns_step eo u frac (TickRelative b) s = (on_dialog (\<lambda>d. d\<lparr>dd_confirmed := b\<rparr>) s, [], [])"
| "dns_step eo u frac CloseDialog s = (s\<lparr>dn_dialog := None\<rparr>, [], [])"
| "dns_step eo u frac SubmitRecord s = submit_record frac s"
| "dns_step eo u frac RecordSaved s =
     (s\<lparr>dn_save := settle_ok (dn_save s), dn_dialog := None\<rparr>, [], [Toast Success ''DNS record saved'' [], invalidate_records s])"
| "dns_step eo u frac (RecordFails e) s = (s\<lparr>dn_save := settle_error e (dn_save s)\<rparr>, [], [Toast ErrorTone ''Could not save record'' e])"
| "dns_step eo u frac (AskDeleteRecord r) s = (s\<lparr>dn_toDelete := Some r\<rparr>, [], [])"
| "dns_step eo u frac CancelDeleteRecord s = (s\<lparr>dn_toDelete := None\<rparr>, [], [])"
| "dns_step eo u frac ConfirmDeleteRecord s =
     (s\<lparr>dn_delete := mutate (dn_delete s)\<rparr>,
      (case dn_toDelete s of
         Some r \<Rightarrow> [ApiDeleteWith (records_url (dn_domain s)) [(''subdomain'', JStr (dr_subdomain r)), (''type'', dr_type r)]]
       | None \<Rightarrow> []), [])"
| "dns_step eo u frac RecordDeleted s =
     (s\<lparr>dn_delete := settle_ok (dn_delete s), dn_toDelete := None\<rparr>, [], [Toast Success ''DNS record deleted'' [], invalidate_records s])"
| "dns_step eo u frac (DeleteFails e) s =
     (s\<lparr>dn_delete := settle_error e (dn_delete s), dn_toDelete := None\<rparr>, [], [Toast ErrorTone ''Could not delete record'' e])"
| "dns_step eo u frac (RepairMail keys) s =
     (s\<lparr>dn_repair := mutate (dn_repair s)\<rparr>,
      [ApiPost (mail_url u (dn_domain s) @ ''/dns-repair'') [(''replace_conflicts'', JArr keys)]], [])"
| "dns_step eo u frac MailRepaired s =
     (s\<lparr>dn_repair := settle_ok (dn_repair s)\<rparr>, [ApiGet (mail_url u (dn_domain s) @ ''/dns-readiness'')], [Toast Success ''Mail DNS records updated'' [], invalidate_records s])"
| "dns_step eo u frac (RepairFails e) s = (s\<lparr>dn_repair := settle_error e (dn_repair s)\<rparr>, [], [Toast ErrorTone ''Could not repair mail DNS'' e])"
| "dns_step eo u frac (ChoosePolicy p) s = (s\<lparr>dmarc_policy := p\<rparr>, [], [])"
| "dns_step eo u frac (ChooseSubPolicy p) s = (s\<lparr>dmarc_subdomain_policy := p\<rparr>, [], [])"
| "dns_step eo u frac (TypeRua v) s = (s\<lparr>dmarc_rua := v\<rparr>, [], [])"
| "dns_step eo u frac InstallDmarc s =
     (s\<lparr>dn_dmarc := mutate (dn_dmarc s)\<rparr>,
      [ApiPut (mail_url u (dn_domain s) @ ''/dmarc'')
         [(''policy'', JStr (dmarc_policy s)), (''subdomain_policy'', JStr (dmarc_subdomain_policy s)), (''rua'', JStr (dmarc_rua s))]], [])"
| "dns_step eo u frac DmarcInstalled s =
     (s\<lparr>dn_dmarc := settle_ok (dn_dmarc s)\<rparr>, [ApiGet (mail_url u (dn_domain s) @ ''/dns-readiness'')], [Toast Success ''DMARC policy installed'' [], invalidate_records s])"
| "dns_step eo u frac (DmarcFails e) s = (s\<lparr>dn_dmarc := settle_error e (dn_dmarc s)\<rparr>, [], [Toast ErrorTone ''Could not install DMARC'' e])"
| "dns_step eo u frac OpenEditor s = (s\<lparr>dn_load := mutate (dn_load s)\<rparr>, [ApiGet (editor_url (JStr (dn_domain s)))], [])"
| "dns_step eo u frac (EditorArrives d) s = (show_editor (opened_editor d) (s\<lparr>dn_load := settle_ok (dn_load s)\<rparr>), [], [])"
| "dns_step eo u frac (EditorFails e) s = (s\<lparr>dn_load := settle_error e (dn_load s)\<rparr>, [], [Toast ErrorTone ''Could not load zone editor'' e])"
| "dns_step eo u frac (TypeZone t) s = (on_editor (\<lambda>a. a\<lparr>ze_text := t, ze_changes := JNull, ze_confirmation := []\<rparr>) s, [], [])"
| "dns_step eo u frac (TypeConfirm t) s = (on_editor (\<lambda>a. a\<lparr>ze_confirmation := t\<rparr>) s, [], [])"
| "dns_step eo u frac (ChooseTemplate t) s = (s\<lparr>dn_template := t\<rparr>, [], [])"
| "dns_step eo u frac LoadTemplate s =
     (s\<lparr>dn_templateLoad := mutate (dn_templateLoad s)\<rparr>,
      editor_request (\<lambda>a. ApiPost (editor_url (ze_zone a) @ ''/template'') [(''template'', JStr (dn_template s))]) s, [])"
| "dns_step eo u frac (TemplateArrives d) s = (template_arrives d (s\<lparr>dn_templateLoad := settle_ok (dn_templateLoad s)\<rparr>), [], [])"
| "dns_step eo u frac (TemplateFails e) s =
     (s\<lparr>dn_templateLoad := settle_error e (dn_templateLoad s)\<rparr>, [], [Toast ErrorTone ''Could not load DNS template'' e])"
| "dns_step eo u frac PreviewZone s = (s\<lparr>dn_preview := mutate (dn_preview s)\<rparr>, editor_request preview_request s, [])"
| "dns_step eo u frac (PreviewArrives d) s = (preview_arrives d (s\<lparr>dn_preview := settle_ok (dn_preview s)\<rparr>), [], [])"
| "dns_step eo u frac (PreviewFails e) s =
     (s\<lparr>dn_preview := settle_error e (dn_preview s)\<rparr>, [], [Toast ErrorTone ''Could not preview DNS changes'' e])"
| "dns_step eo u frac CloseEditor s = (s\<lparr>dn_advanced := None\<rparr>, [], [])"
| "dns_step eo u frac ApplyZone s = (s\<lparr>dn_apply := mutate (dn_apply s)\<rparr>, editor_request apply_request s, [])"
| "dns_step eo u frac (ZoneApplied d) s =
     (s\<lparr>dn_apply := settle_ok (dn_apply s), dn_advanced := None\<rparr>, [],
      [Toast Success ''DNS changes applied''
         (js_String (jget d ''changed'') @ '' record sets updated. Previous configuration retained for administrator recovery.''),
       Invalidate [''dns-records'', json_text (jget d ''zone'')]])"
| "dns_step eo u frac (ApplyFails e) s =
     (s\<lparr>dn_apply := settle_error e (dn_apply s)\<rparr>, [], [Toast ErrorTone ''Could not apply DNS changes'' e])"

section \<open>What is sent\<close>

definition ttl_ok :: "json \<Rightarrow> bool" where
  "ttl_ok v \<longleftrightarrow> (case v of JNum n \<Rightarrow> 60 \<le> n | _ \<Rightarrow> truthy v)"

definition clean_value :: "json \<Rightarrow> bool" where
  "clean_value v \<longleftrightarrow> (case v of JStr x \<Rightarrow> x \<noteq> [] \<and> trim x = x | _ \<Rightarrow> False)"

definition record_put_ok :: "jsstring \<Rightarrow> body \<Rightarrow> bool" where
  "record_put_ok url b \<longleftrightarrow>
     url = records_url (js_String (jget (JObj b) ''domain'')) \<and> clean_value (jget (JObj b) ''subdomain'') \<and>
     list_all clean_value (json_list (jget (JObj b) ''values'')) \<and> ttl_ok (jget (JObj b) ''ttl'')"

definition apply_ok :: "jsstring \<Rightarrow> body \<Rightarrow> bool" where
  "apply_ok url b \<longleftrightarrow> url = editor_url (jget (JObj b) ''confirmation'')"

definition policy_ok :: "jsstring \<Rightarrow> bool" where
  "policy_ok p \<longleftrightarrow> p \<in> set [''none'', ''quarantine'', ''reject'']"

definition dmarc_ok :: "body \<Rightarrow> bool" where
  "dmarc_ok b \<longleftrightarrow> policy_ok (js_String (jget (JObj b) ''policy'')) \<and> policy_ok (js_String (jget (JObj b) ''subdomain_policy''))"

definition dns_request_ok :: "api_request \<Rightarrow> bool" where
  "dns_request_ok r = (case r of ApiPut url b \<Rightarrow> record_put_ok url b \<or> apply_ok url b \<or> dmarc_ok b | _ \<Rightarrow> True)"

definition dns_inv :: "dns_page \<Rightarrow> bool" where
  "dns_inv s \<longleftrightarrow> policy_ok (dmarc_policy s) \<and> policy_ok (dmarc_subdomain_policy s)"

lemma record_body_ok: "number_field_ok frac 60 (dd_ttl d) \<Longrightarrow> record_put_ok (records_url domain) (record_body frac domain d)"
proof -
  assume "number_field_ok frac 60 (dd_ttl d)"
  then have "ttl_ok (js_or (js_Number frac (dd_ttl d)) (JNum 3600))"
    by (auto simp: ttl_ok_def number_field_ok_def js_or_def js_Number_def split: json.splits if_splits)
  moreover have "clean_value (JStr (or_string (Some (trim (dd_subdomain d))) ''@''))"
  proof -
    have "trim ''@'' = ''@''" by code_simp
    then show ?thesis by (simp add: clean_value_def or_string_def)
  qed
  moreover have "list_all clean_value (map JStr (linesToList (dd_values d)))"
    using lines_clean[of "dd_values d"] by (simp add: list_all_iff clean_value_def)
  ultimately show ?thesis by (simp add: record_put_ok_def record_body_def json_list_def)
qed

lemma apply_request_ok: "\<not> apply_disabled s a \<Longrightarrow> dns_request_ok (apply_request a)"
  by (simp add: apply_disabled_def dns_request_ok_def apply_request_def apply_ok_def)

lemma dns_inv_step: "dns_inv s \<Longrightarrow> dns_offered eo frac s e \<Longrightarrow> dns_inv (fst (dns_step eo u frac e s))"
  by (cases e)
    (simp_all add: dns_inv_def dns_offered_def policy_ok_def submit_record_def on_dialog_def on_editor_def show_editor_def
      template_arrives_def preview_arrives_def split: option.split)

lemma dns_good_step:
  "dns_inv s \<Longrightarrow> dns_offered eo frac s e \<Longrightarrow> list_all dns_request_ok (fst (snd (dns_step eo u frac e s)))"
proof (cases e)
  case SubmitRecord
  assume "dns_offered eo frac s e"
  with SubmitRecord record_body_ok show ?thesis
    by (auto simp: dns_offered_def submit_record_def dns_request_ok_def split: option.splits)
next
  case ApplyZone
  assume "dns_offered eo frac s e"
  with ApplyZone apply_request_ok show ?thesis
    by (auto simp: dns_offered_def editor_request_def split: option.splits)
qed (auto simp: dns_inv_def editor_request_def preview_request_def dns_request_ok_def dmarc_ok_def split: option.split)

lemma dns_inv_initial: "dns_inv (initial_dns domain)"
  by (simp add: dns_inv_def initial_dns_def policy_ok_def)

interpretation dns: page_contract "initial_dns domain" "dns_offered eo frac" "dns_step eo u frac" dns_inv dns_request_ok
  by unfold_locales (simp_all only: dns_inv_initial dns_inv_step dns_good_step)

text \<open>Every record saved carries a name, values without blank lines or outer blanks, and a lifetime of at
  least a minute, in the zone named in its address; a zone is replaced only under its own name typed as
  the confirmation; and when a record can be submitted, the name shown for it lies within the zone, and a
  relative name that looks complete has been confirmed.
\<close>

theorem dns_saves_bounded:
  assumes "page_reach (initial_dns domain) (dns_offered eo frac) (dns_step eo u frac) s sent"
  shows "list_all dns_request_ok sent \<and>
         (dns_offered eo frac s SubmitRecord \<longrightarrow>
            (\<exists>d. dn_dialog s = Some d \<and> in_zone (zone_origin (Some (dns_zone s))) (fqdn (ownerPreview s d)) \<and>
                 (dd_edit d \<or> dd_confirmed d \<or> \<not> confirmRelative (ownerPreview s d)) \<and>
                 fst (snd (dns_step eo u frac SubmitRecord s)) = [ApiPut (records_url (dn_domain s)) (record_body frac (dn_domain s) d)]))"
proof -
  have "list_all dns_request_ok sent" using dns.reach_inv[OF assms] by blast
  moreover have "\<exists>d. dn_dialog s = Some d \<and> in_zone (zone_origin (Some (dns_zone s))) (fqdn (ownerPreview s d)) \<and>
       (dd_edit d \<or> dd_confirmed d \<or> \<not> confirmRelative (ownerPreview s d)) \<and>
       fst (snd (dns_step eo u frac SubmitRecord s)) = [ApiPut (records_url (dn_domain s)) (record_body frac (dn_domain s) d)]"
    if "dns_offered eo frac s SubmitRecord"
  proof -
    from that obtain d where d: "dn_dialog s = Some d" "\<not> record_blocked s d"
      by (auto simp: dns_offered_def split: option.splits)
    then have "in_zone (zone_origin (Some (dns_zone s))) (fqdn (ownerPreview s d))"
      using owner_in_zone[of "Some (dns_zone s)" "Some (dd_subdomain d)"] by (simp add: record_blocked_def ownerPreview_def)
    with d show ?thesis by (auto simp: record_blocked_def submit_record_def)
  qed
  ultimately show ?thesis by blast
qed

definition no_fraction :: "jsstring \<Rightarrow> json" where "no_fraction t = JNull"

definition record_script :: "dns_event list" where
  "record_script =
     [RecordsArrive (JObj [(''zone'', JStr ''a.com.'')]), OpenAdd, TypeName '' www.b '', TickRelative True, TypeTtl ''60'',
      TypeValues (''1.2.3.4'' @ [newline] @ '' ''), SubmitRecord]"

definition script_put :: api_request where
  "script_put =
     ApiPut ''/api/v1/dns/zones/a.com/records''
       [(''domain'', JStr ''a.com''), (''subdomain'', JStr ''www.b''), (''type'', JStr ''A''), (''values'', JArr [JStr ''1.2.3.4'']),
        (''ttl'', JNum 60), (''mode'', JStr ''add'')]"

theorem dns_saves_bounded_witness: "list_all dns_request_ok [script_put]"
proof -
  have "map_option snd (page_run (dns_offered False no_fraction) (dns_step False ''joe'' no_fraction) record_script (initial_dns ''a.com'', []))
      = Some [script_put]"
    by code_simp
  then obtain s where "page_run (dns_offered False no_fraction) (dns_step False ''joe'' no_fraction) record_script (initial_dns ''a.com'', [])
      = Some (s, [script_put])"
    by auto
  from dns_saves_bounded[OF scripted_reach[OF this]] show ?thesis by blast
qed

section \<open>Reviewed changes of a zone\<close>

text \<open>The preview request an application of a zone rests on, and the runs in which every application
  follows one.\<close>

definition applied_text :: "api_request \<Rightarrow> api_request option" where
  "applied_text r =
     (case r of
        ApiPut url b \<Rightarrow>
          if endsWith url ''/advanced''
          then Some (ApiPost (url @ ''/preview'') [(''text'', jget (JObj b) ''text''), (''fingerprint'', jget (JObj b) ''fingerprint'')])
          else None
      | _ \<Rightarrow> None)"

fun reviewed :: "api_request list \<Rightarrow> api_request list \<Rightarrow> bool" where
  "reviewed seen [] = True"
| "reviewed seen (r # rs) =
     ((case applied_text r of Some p \<Rightarrow> p \<in> set seen | None \<Rightarrow> True) \<and> reviewed (r # seen) rs)"

lemma reviewed_append: "reviewed seen (xs @ ys) \<longleftrightarrow> reviewed seen xs \<and> reviewed (rev xs @ seen) ys"
  by (induction xs arbitrary: seen) auto

lemma reviewed_single: "reviewed (rev xs) [r] \<longleftrightarrow> (case applied_text r of Some p \<Rightarrow> p \<in> set xs | None \<Rightarrow> True)"
  by (simp split: option.split)

text \<open>A calm user leaves the editor alone while a preview is awaited.\<close>

definition disturbs :: "dns_event \<Rightarrow> bool" where
  "disturbs e = (case e of TypeZone t \<Rightarrow> True | TemplateArrives d \<Rightarrow> True | EditorArrives d \<Rightarrow> True | CloseEditor \<Rightarrow> True | _ \<Rightarrow> False)"

definition calm_offered :: "bool \<Rightarrow> (jsstring \<Rightarrow> json) \<Rightarrow> dns_page \<Rightarrow> dns_event \<Rightarrow> bool" where
  "calm_offered eo frac s e \<longleftrightarrow> dns_offered eo frac s e \<and> (isPending (dn_preview s) \<longrightarrow> \<not> disturbs e)"

definition previewed :: "dns_page \<Rightarrow> api_request list \<Rightarrow> bool" where
  "previewed s sent \<longleftrightarrow>
     (isPending (dn_preview s) \<longrightarrow> dn_advanced s \<noteq> None \<and> \<not> isPending (dn_apply s)) \<and>
     (case dn_advanced s of
        None \<Rightarrow> True
      | Some a \<Rightarrow>
          (isPending (dn_preview s) \<or> (json_list (ze_changes a) \<noteq> [] \<and> ze_reviewed a = Some (ze_text a)) \<longrightarrow>
             preview_request a \<in> set sent))"

lemma endsWith_last: "endsWith s q \<Longrightarrow> q \<noteq> [] \<Longrightarrow> s \<noteq> [] \<and> last s = last q"
  by (auto simp: endsWith_iff_suffix suffix_def)

lemma records_url_not_editor [simp]: "\<not> endsWith (records_url d) ''/advanced''"
  using endsWith_last[of "records_url d" "''/advanced''"] by (auto simp: records_url_def)

lemma dmarc_url_not_editor [simp]: "\<not> endsWith (mail_url u d @ ''/dmarc'') ''/advanced''"
  using endsWith_last[of "mail_url u d @ ''/dmarc''" "''/advanced''"] by (auto simp: mail_url_def)

lemma editor_url_ends [simp]: "endsWith (editor_url z) ''/advanced''"
  using endsWith_append[of "''/api/v1/dns/zones/'' @ js_String z" "''/advanced''"] by (simp add: editor_url_def)

lemma applied_text_simps [simp]:
  "applied_text (ApiPut (records_url d) b) = None" "applied_text (ApiPut (mail_url u d @ ''/dmarc'') b) = None"
  "applied_text (apply_request a) = Some (preview_request a)" "applied_text (preview_request a) = None"
  "applied_text (ApiPost url b) = None" "applied_text (ApiGet url) = None" "applied_text (ApiDeleteWith url b) = None"
  by (simp_all add: applied_text_def apply_request_def preview_request_def)

lemmas dns_parts = dns_offered_def submit_record_def on_dialog_def on_editor_def show_editor_def template_arrives_def
  preview_arrives_def editor_request_def

lemma json_list_JNull [simp]: "json_list JNull = []"
  by (simp add: json_list_def)

lemma calm_reviewed_step:
  assumes "previewed s sent" "calm_offered eo frac s e"
  shows "reviewed (rev sent) (fst (snd (dns_step eo u frac e s)))"
proof (cases e)
  case ApplyZone
  with assms obtain a where a: "dn_advanced s = Some a" "\<not> apply_disabled s a"
    by (auto simp: calm_offered_def dns_offered_def split: option.splits)
  then have "preview_request a \<in> set sent" using assms(1) by (simp add: previewed_def apply_disabled_def)
  then show ?thesis using ApplyZone a(1) by (simp add: editor_request_def)
next
  case SubmitRecord
  then show ?thesis by (simp add: submit_record_def split: option.split)
qed (auto simp: editor_request_def split: option.split)

lemma calm_previewed_step:
  assumes "previewed s sent" "calm_offered eo frac s e"
  shows "previewed (fst (dns_step eo u frac e s)) (sent @ fst (snd (dns_step eo u frac e s)))"
  using assms
  by (cases e)
    (auto simp: previewed_def calm_offered_def disturbs_def dns_parts mutation_simps preview_request_def opened_editor_def
       with_template_def apply_disabled_def split: option.splits)

text \<open>C26. Provided the editor is left alone while a preview is awaited, a zone is only ever replaced by a text the
  server has previewed: every application carries the text and the fingerprint of an earlier preview request
  for the same zone.
\<close>

theorem applied_zone_was_previewed:
  assumes "page_reach (initial_dns domain) (calm_offered eo frac) (dns_step eo u frac) s sent"
  shows "reviewed [] sent"
proof -
  from assms have "previewed s sent \<and> reviewed [] sent"
  proof (induction rule: page_reach.induct)
    case start
    then show ?case by (simp add: previewed_def initial_dns_def idle_def)
  next
    case (step s sent e s' new effs)
    then show ?case
      using calm_previewed_step[of s sent eo frac e u] calm_reviewed_step[of s sent eo frac e u] by (simp add: reviewed_append)
  qed
  then show ?thesis by simp
qed

definition sample_editor :: json where
  "sample_editor =
     JObj [(''zone'', JStr ''a.com''), (''text'', JStr ''A''), (''fingerprint'', JStr ''f''), (''templates'', JArr [])]"

definition review_script :: "dns_event list" where
  "review_script =
     [OpenEditor, EditorArrives sample_editor, TypeZone ''B'', PreviewZone, PreviewArrives (JObj [(''changes'', JArr [JStr ''c''])]),
      TypeConfirm ''a.com'', ApplyZone]"

definition sent_put :: "jsstring \<Rightarrow> api_request" where
  "sent_put t =
     ApiPut ''/api/v1/dns/zones/a.com/advanced''
       [(''text'', JStr t), (''fingerprint'', JStr ''f''), (''confirmation'', JStr ''a.com'')]"

definition sent_preview :: "jsstring \<Rightarrow> api_request" where
  "sent_preview t = ApiPost ''/api/v1/dns/zones/a.com/advanced/preview'' [(''text'', JStr t), (''fingerprint'', JStr ''f'')]"

theorem applied_zone_was_previewed_witness:
  "reviewed [] [ApiGet ''/api/v1/dns/zones/a.com/advanced'', sent_preview ''B'', sent_put ''B'']"
proof -
  let ?sent = "[ApiGet ''/api/v1/dns/zones/a.com/advanced'', sent_preview ''B'', sent_put ''B'']"
  have "map_option snd (page_run (calm_offered False no_fraction) (dns_step False ''joe'' no_fraction) review_script (initial_dns ''a.com'', []))
      = Some ?sent"
    by code_simp
  then obtain s where "page_run (calm_offered False no_fraction) (dns_step False ''joe'' no_fraction) review_script (initial_dns ''a.com'', [])
      = Some (s, ?sent)"
    by auto
  from applied_zone_was_previewed[OF scripted_reach[OF this]] show ?thesis .
qed

text \<open>Without that, the text edited while a preview is awaited is applied although only the earlier text
  was previewed: the answer marks whatever the editor holds as reviewed.\<close>

definition hasty_script :: "dns_event list" where
  "hasty_script =
     [OpenEditor, EditorArrives sample_editor, PreviewZone, TypeZone ''B'', PreviewArrives (JObj [(''changes'', JArr [JStr ''c''])]),
      TypeConfirm ''a.com'', ApplyZone]"

lemma unseen_text_applied:
  "map_option snd (page_run (dns_offered False no_fraction) (dns_step False ''joe'' no_fraction) hasty_script (initial_dns ''a.com'', []))
     = Some [ApiGet ''/api/v1/dns/zones/a.com/advanced'', sent_preview ''A'', sent_put ''B'']"
  by code_simp

text \<open>Closing the editor while a preview is awaited makes its answer fail the page.\<close>

lemma closed_editor_fails:
  assumes "isPending (dn_preview s)" "\<not> isPending (dn_apply s)" "dn_advanced s = Some a" "\<not> dn_failed s"
  shows "dns_offered eo frac s CloseEditor \<and>
         dn_failed (fst (dns_step eo u frac (PreviewArrives d) (fst (dns_step eo u frac CloseEditor s))))"
  using assms by (simp add: dns_offered_def preview_arrives_def)

text \<open>A change of the working domain, from another tab, turns an open question to the other zone: the
  confirmation deletes the record of that name there.\<close>

lemma deletion_follows_domain:
  assumes "dn_toDelete s = Some r" "\<not> dn_failed s" "\<not> isPending (dn_delete s)" "d \<noteq> dn_domain s"
  shows "dns_offered eo frac s (SwitchDomain d c) \<and>
         fst (snd (dns_step eo u frac ConfirmDeleteRecord (fst (dns_step eo u frac (SwitchDomain d c) s)))) =
           [ApiDeleteWith (records_url d) [(''subdomain'', JStr (dr_subdomain r)), (''type'', dr_type r)]]"
  using assms by (simp add: dns_offered_def)

section \<open>Editing a record\<close>

text \<open>Names as the zone stores them: the zone itself, or an owner below it.\<close>

definition plain_owner :: "jsstring \<Rightarrow> jsstring \<Rightarrow> bool" where
  "plain_owner z p \<longleftrightarrow>
     toLowerCase (trim p) = p \<and> p \<noteq> [] \<and> p \<noteq> ''@'' \<and> p \<noteq> z \<and> \<not> endsWith p (''.'' @ z) \<and> \<not> endsWith p ''.''"

definition stored_name :: "jsstring \<Rightarrow> jsstring \<Rightarrow> jsstring" where
  "stored_name z p = (if p = ''@'' then z else p @ ''.'' @ z)"

definition stored_record :: "jsstring \<Rightarrow> jsstring \<Rightarrow> jsstring \<Rightarrow> nat \<Rightarrow> jsstring list \<Rightarrow> json" where
  "stored_record z p t ttl vs =
     JObj [(''name'', JStr (stored_name z p @ ''.'')), (''type'', JStr t), (''ttl'', JNum (int ttl)), (''values'', JArr (map JStr vs))]"

lemma subdomain_of_stored: "z \<noteq> [] \<Longrightarrow> p = ''@'' \<or> plain_owner z p \<Longrightarrow> subdomain_of z (stored_name z p) = p"
  using endsWith_append[of p "''.'' @ z"] by (auto simp: subdomain_of_def stored_name_def plain_owner_def)

lemma preview_of_stored:
  assumes "zone_origin (Some z) = z" "p = ''@'' \<or> plain_owner z p"
  shows "fqdn (dnsOwnerPreview (Some z) (Some p)) = stored_name z p"
proof (cases "p = ''@''")
  case True
  have "toLowerCase (trim ''@'') = ''@''" "strip_dot ''@'' = ''@''" by code_simp+
  with True assms(1) show ?thesis by (simp add: dnsOwnerPreview_def Let_def or_string_def stored_name_def)
next
  case False
  with assms(2) have p: "plain_owner z p" by simp
  then have "toLowerCase (trim (or_string (Some p) [])) = p" "strip_dot p = p"
    by (auto simp: or_string_def plain_owner_def strip_dot_def)
  with p False assms(1) show ?thesis by (simp add: dnsOwnerPreview_def Let_def plain_owner_def stored_name_def)
qed

lemma trim_plain: "p = ''@'' \<or> plain_owner z p \<Longrightarrow> trim p = p \<and> p \<noteq> []"
proof (elim disjE)
  assume "p = ''@''"
  moreover have "trim ''@'' = ''@''" by code_simp
  ultimately show ?thesis by simp
next
  assume p: "plain_owner z p"
  then have "trim p = trim (toLowerCase (trim p))" "p = toLowerCase (trim p)" by (simp_all add: plain_owner_def)
  then show ?thesis using p by (metis plain_owner_def trim_idem trim_toLowerCase)
qed



text \<open>A name that repeats the zone is shown as one the dialog reads as another owner.\<close>

lemma repeated_zone_ambiguous:
  "subdomain_of ''a.com'' ''x.a.com.a.com'' = ''x.a.com'' \<and>
   fqdn (dnsOwnerPreview (Some ''a.com'') (Some ''x.a.com'')) = ''x.a.com''"
  by code_simp

end
