(* ===== verification/Domain_Forms.thy ===== *)
theory Domain_Forms
  imports Page_Machine
begin

text \<open>
  The settings forms of a website in \<open>pages/customer/DomainDetail.jsx\<close> that
  \<open>pages/customer/DomainFeature.jsx\<close> shows one at a time: redirects, forwarding, the server cache and
  hotlink protection. Each form works on the domain it is given; the picker above it, the top bar and
  other tabs change that domain while the form stays mounted (\<open>Switch\<close>, with what the query cache holds
  for the new domain). What a query holds is JUndef while nothing has been loaded.
\<close>

definition domain_url :: "jsstring \<Rightarrow> jsstring \<Rightarrow> jsstring \<Rightarrow> jsstring" where
  "domain_url u d tail = ''/api/v1/accounts/'' @ u @ ''/domains/'' @ d @ tail"

text \<open>What a query of a tab holds and whether its last answer was a failure.\<close>

record tab_query =
  tq_domain :: jsstring
  tq_data :: json
  tq_failed :: bool

definition tab_ready :: "tab_query \<Rightarrow> bool" where
  "tab_ready q \<longleftrightarrow> tq_data q \<noteq> JUndef \<and> \<not> tq_failed q"

datatype query_event = Answer json | Failure | Switch jsstring json

fun tab_answer :: "query_event \<Rightarrow> tab_query \<Rightarrow> tab_query" where
  "tab_answer (Answer d) q = q\<lparr>tq_data := d, tq_failed := False\<rparr>"
| "tab_answer Failure q = q\<lparr>tq_failed := True\<rparr>"
| "tab_answer (Switch d cached) q = q\<lparr>tq_domain := d, tq_data := cached, tq_failed := False\<rparr>"

definition mounted_query :: "jsstring \<Rightarrow> tab_query" where
  "mounted_query d = \<lparr>tq_domain = d, tq_data = JUndef, tq_failed = False\<rparr>"

definition tab_invalidate :: "jsstring \<Rightarrow> jsstring \<Rightarrow> tab_query \<Rightarrow> page_effect" where
  "tab_invalidate key u q = Invalidate [key, u, tq_domain q]"

section \<open>Redirects\<close>

record redirect_form =
  rf_edit :: bool
  rf_path :: jsstring
  rf_target :: jsstring
  rf_code :: jsstring

record redirects_tab =
  rt_query :: tab_query
  rt_dialog :: "redirect_form option"
  rt_toDelete :: "json option"
  rt_save :: mutation
  rt_delete :: mutation

definition initial_redirects :: "jsstring \<Rightarrow> redirects_tab" where
  "initial_redirects d =
     \<lparr>rt_query = mounted_query d, rt_dialog = None, rt_toDelete = None, rt_save = idle, rt_delete = idle\<rparr>"

definition redirect_rows :: "redirects_tab \<Rightarrow> json list" where
  "redirect_rows s = json_list (jget (tq_data (rt_query s)) ''redirects'')"

definition redirect_of :: "json \<Rightarrow> redirect_form" where
  "redirect_of r =
     \<lparr>rf_edit = True, rf_path = json_text (jget r ''path''), rf_target = json_text (jget r ''target_url''),
      rf_code = js_String (jget r ''status_code'')\<rparr>"

definition redirect_body :: "(jsstring \<Rightarrow> json) \<Rightarrow> redirect_form \<Rightarrow> body" where
  "redirect_body frac f =
     [(''path'', JStr (trim (rf_path f))), (''target_url'', JStr (trim (rf_target f))), (''status_code'', js_Number frac (rf_code f))]"

definition redirects_url :: "jsstring \<Rightarrow> redirects_tab \<Rightarrow> jsstring" where
  "redirects_url u s = domain_url u (tq_domain (rt_query s)) ''/redirects''"

datatype redirects_event =
    RedirectsQuery query_event
  | AddRedirect | EditRedirect json | TypeRedirect redirect_form | CloseRedirect | SubmitRedirect | RedirectSaved | RedirectFails jsstring
  | AskRedirect json | KeepRedirect | DeleteRedirect | RedirectDeleted | RedirectStays jsstring

text \<open>Browser checks before submission: both fields filled, the target an address (a parameter).\<close>

fun redirects_offered :: "(jsstring \<Rightarrow> bool) \<Rightarrow> redirects_tab \<Rightarrow> redirects_event \<Rightarrow> bool" where
  "redirects_offered valid_url s (RedirectsQuery q) = True"
| "redirects_offered valid_url s AddRedirect = (rt_dialog s = None \<and> rt_toDelete s = None)"
| "redirects_offered valid_url s (EditRedirect r) = (rt_dialog s = None \<and> rt_toDelete s = None \<and> r \<in> set (redirect_rows s))"
| "redirects_offered valid_url s (TypeRedirect f) =
     (case rt_dialog s of
        Some g \<Rightarrow> rf_edit f = rf_edit g \<and> (rf_edit g \<longrightarrow> rf_path f = rf_path g) \<and> (rf_code f = rf_code g \<or> rf_code f \<in> set [''301'', ''302''])
      | None \<Rightarrow> False)"
| "redirects_offered valid_url s CloseRedirect = (rt_dialog s \<noteq> None)"
| "redirects_offered valid_url s SubmitRedirect =
     (case rt_dialog s of
        Some f \<Rightarrow> rf_path f \<noteq> [] \<and> rf_target f \<noteq> [] \<and> valid_url (rf_target f) \<and> \<not> isPending (rt_save s)
      | None \<Rightarrow> False)"
| "redirects_offered valid_url s RedirectSaved = isPending (rt_save s)"
| "redirects_offered valid_url s (RedirectFails e) = isPending (rt_save s)"
| "redirects_offered valid_url s (AskRedirect r) = (rt_dialog s = None \<and> rt_toDelete s = None \<and> r \<in> set (redirect_rows s))"
| "redirects_offered valid_url s KeepRedirect = (rt_toDelete s \<noteq> None \<and> \<not> isPending (rt_delete s))"
| "redirects_offered valid_url s DeleteRedirect = (rt_toDelete s \<noteq> None \<and> \<not> isPending (rt_delete s))"
| "redirects_offered valid_url s RedirectDeleted = isPending (rt_delete s)"
| "redirects_offered valid_url s (RedirectStays e) = isPending (rt_delete s)"

fun redirects_step :: "jsstring \<Rightarrow> (jsstring \<Rightarrow> json) \<Rightarrow> redirects_event \<Rightarrow> redirects_tab \<Rightarrow> redirects_tab \<times> api_request list \<times> page_effect list" where
  "redirects_step u frac (RedirectsQuery q) s = (s\<lparr>rt_query := tab_answer q (rt_query s)\<rparr>, [], [])"
| "redirects_step u frac AddRedirect s =
     (s\<lparr>rt_dialog := Some \<lparr>rf_edit = False, rf_path = [], rf_target = [], rf_code = ''301''\<rparr>\<rparr>, [], [])"
| "redirects_step u frac (EditRedirect r) s = (s\<lparr>rt_dialog := Some (redirect_of r)\<rparr>, [], [])"
| "redirects_step u frac (TypeRedirect f) s = (s\<lparr>rt_dialog := Some f\<rparr>, [], [])"
| "redirects_step u frac CloseRedirect s = (s\<lparr>rt_dialog := None\<rparr>, [], [])"
| "redirects_step u frac SubmitRedirect s =
     (s\<lparr>rt_save := mutate (rt_save s)\<rparr>,
      (case rt_dialog s of
         Some f \<Rightarrow> [(if rf_edit f then ApiPut else ApiPost) (redirects_url u s) (redirect_body frac f)]
       | None \<Rightarrow> []), [])"
| "redirects_step u frac RedirectSaved s =
     (s\<lparr>rt_save := settle_ok (rt_save s), rt_dialog := None\<rparr>, [],
      [Toast Success ''Redirect saved'' [], tab_invalidate ''redirects'' u (rt_query s)])"
| "redirects_step u frac (RedirectFails e) s =
     (s\<lparr>rt_save := settle_error e (rt_save s)\<rparr>, [], [Toast ErrorTone ''Could not save redirect'' e])"
| "redirects_step u frac (AskRedirect r) s = (s\<lparr>rt_toDelete := Some r\<rparr>, [], [])"
| "redirects_step u frac KeepRedirect s = (s\<lparr>rt_toDelete := None\<rparr>, [], [])"
| "redirects_step u frac DeleteRedirect s =
     (s\<lparr>rt_delete := mutate (rt_delete s)\<rparr>,
      (case rt_toDelete s of Some r \<Rightarrow> [ApiDeleteWith (redirects_url u s) [(''path'', jget r ''path'')]] | None \<Rightarrow> []), [])"
| "redirects_step u frac RedirectDeleted s =
     (s\<lparr>rt_delete := settle_ok (rt_delete s), rt_toDelete := None\<rparr>, [],
      [Toast Success ''Redirect deleted'' [], tab_invalidate ''redirects'' u (rt_query s)])"
| "redirects_step u frac (RedirectStays e) s =
     (s\<lparr>rt_delete := settle_error e (rt_delete s), rt_toDelete := None\<rparr>, [], [Toast ErrorTone ''Could not delete redirect'' e])"

section \<open>Forwarding\<close>

record forwarding_form =
  ff_target :: jsstring
  ff_code :: jsstring
  ff_keep :: json

record forwarding_tab =
  ft_query :: tab_query
  ft_seeded :: bool
  ft_form :: forwarding_form
  ft_save :: mutation
  ft_remove :: mutation

definition empty_forwarding :: forwarding_form where
  "empty_forwarding = \<lparr>ff_target = [], ff_code = ''301'', ff_keep = JBool True\<rparr>"

definition initial_forwarding :: "jsstring \<Rightarrow> forwarding_tab" where
  "initial_forwarding d =
     \<lparr>ft_query = mounted_query d, ft_seeded = False, ft_form = empty_forwarding, ft_save = idle, ft_remove = idle\<rparr>"

definition forwarding_of :: "json \<Rightarrow> forwarding_form" where
  "forwarding_of fwd =
     \<lparr>ff_target = json_text (jget fwd ''target_url''), ff_code = js_String (jget fwd ''status_code''), ff_keep = jget fwd ''keep_path''\<rparr>"

text \<open>The form takes the stored settings over once, in the first render that has them.\<close>

definition seed_forwarding :: "forwarding_tab \<Rightarrow> forwarding_tab" where
  "seed_forwarding s =
     (let data = tq_data (ft_query s); fwd = jget data ''forwarding''
      in if \<not> ft_seeded s \<and> truthy data
         then s\<lparr>ft_seeded := True, ft_form := (if truthy fwd then forwarding_of fwd else ft_form s)\<rparr> else s)"

definition forwarding_body :: "(jsstring \<Rightarrow> json) \<Rightarrow> forwarding_form \<Rightarrow> body" where
  "forwarding_body frac f =
     [(''target_url'', JStr (trim (ff_target f))), (''status_code'', js_Number frac (ff_code f)), (''keep_path'', ff_keep f)]"

datatype forwarding_event =
    ForwardingQuery query_event | TypeForwarding forwarding_form
  | SaveForwarding | ForwardingSaved | ForwardingFails jsstring
  | RemoveForwarding | ForwardingRemoved | ForwardingStays jsstring

fun forwarding_offered :: "forwarding_tab \<Rightarrow> forwarding_event \<Rightarrow> bool" where
  "forwarding_offered s (ForwardingQuery q) = True"
| "forwarding_offered s (TypeForwarding f) = tab_ready (ft_query s)"
| "forwarding_offered s SaveForwarding = (tab_ready (ft_query s) \<and> trim (ff_target (ft_form s)) \<noteq> [] \<and> \<not> isPending (ft_save s))"
| "forwarding_offered s ForwardingSaved = isPending (ft_save s)"
| "forwarding_offered s (ForwardingFails e) = isPending (ft_save s)"
| "forwarding_offered s RemoveForwarding =
     (tab_ready (ft_query s) \<and> truthy (jget (tq_data (ft_query s)) ''forwarding'') \<and> \<not> isPending (ft_remove s))"
| "forwarding_offered s ForwardingRemoved = isPending (ft_remove s)"
| "forwarding_offered s (ForwardingStays e) = isPending (ft_remove s)"

definition forwarding_url :: "jsstring \<Rightarrow> forwarding_tab \<Rightarrow> jsstring" where
  "forwarding_url u s = domain_url u (tq_domain (ft_query s)) ''/forwarding''"

fun forwarding_step :: "jsstring \<Rightarrow> (jsstring \<Rightarrow> json) \<Rightarrow> forwarding_event \<Rightarrow> forwarding_tab \<Rightarrow> forwarding_tab \<times> api_request list \<times> page_effect list" where
  "forwarding_step u frac (ForwardingQuery q) s = (seed_forwarding (s\<lparr>ft_query := tab_answer q (ft_query s)\<rparr>), [], [])"
| "forwarding_step u frac (TypeForwarding f) s = (s\<lparr>ft_form := f\<rparr>, [], [])"
| "forwarding_step u frac SaveForwarding s =
     (s\<lparr>ft_save := mutate (ft_save s)\<rparr>, [ApiPut (forwarding_url u s) (forwarding_body frac (ft_form s))], [])"
| "forwarding_step u frac ForwardingSaved s =
     (s\<lparr>ft_save := settle_ok (ft_save s)\<rparr>, [],
      [Toast Success ''Forwarding saved'' (tq_domain (ft_query s) @ '' now redirects.''), tab_invalidate ''forwarding'' u (ft_query s)])"
| "forwarding_step u frac (ForwardingFails e) s =
     (s\<lparr>ft_save := settle_error e (ft_save s)\<rparr>, [], [Toast ErrorTone ''Could not save forwarding'' e])"
| "forwarding_step u frac RemoveForwarding s = (s\<lparr>ft_remove := mutate (ft_remove s)\<rparr>, [ApiDelete (forwarding_url u s)], [])"
| "forwarding_step u frac ForwardingRemoved s =
     (s\<lparr>ft_remove := settle_ok (ft_remove s), ft_form := empty_forwarding\<rparr>, [],
      [Toast Success ''Forwarding removed'' [], tab_invalidate ''forwarding'' u (ft_query s)])"
| "forwarding_step u frac (ForwardingStays e) s =
     (s\<lparr>ft_remove := settle_error e (ft_remove s)\<rparr>, [], [Toast ErrorTone ''Could not remove forwarding'' e])"

section \<open>The server cache\<close>

record cache_form =
  cf_enabled :: bool
  cf_ttl :: json \<comment> \<open>the stored number, or the text typed over it\<close>
  cf_exclude :: jsstring

record cache_tab =
  ct_query :: tab_query
  ct_key :: "json option" \<comment> \<open>the key of the mounted form\<close>
  ct_form :: cache_form
  ct_save :: mutation
  ct_purge :: mutation

definition cache_of :: "json \<Rightarrow> cache_form" where
  "cache_of settings =
     \<lparr>cf_enabled = truthy (jget settings ''enabled''),
      cf_ttl = (if nullish (jget settings ''ttl_seconds'') then JNum 3600 else jget settings ''ttl_seconds''),
      cf_exclude = js_join [newline] (json_list (jget settings ''exclude_paths''))\<rparr>"

definition initial_cache :: "jsstring \<Rightarrow> cache_tab" where
  "initial_cache d =
     \<lparr>ct_query = mounted_query d, ct_key = None, ct_form = cache_of JUndef, ct_save = idle, ct_purge = idle\<rparr>"

definition form_key :: "json \<Rightarrow> json" where
  "form_key data = js_or (jget data ''last_purged_at'') (JStr ''lscache'')"

text \<open>The form is mounted anew, with fresh fields, when it appears or its key changes, and goes away while
  nothing is loaded or loading failed.\<close>

definition mount_cache :: "cache_tab \<Rightarrow> cache_tab" where
  "mount_cache s =
     (let data = tq_data (ct_query s)
      in if \<not> tab_ready (ct_query s) \<or> \<not> truthy data then s\<lparr>ct_key := None\<rparr>
         else if ct_key s = Some (form_key data) then s
         else s\<lparr>ct_key := Some (form_key data), ct_form := cache_of data, ct_save := idle, ct_purge := idle\<rparr>)"

definition ttl_number :: "(jsstring \<Rightarrow> json) \<Rightarrow> json \<Rightarrow> json" where
  "ttl_number frac v = js_or (case v of JNum n \<Rightarrow> JNum n | _ \<Rightarrow> js_Number frac (js_String v)) (JNum 3600)"

definition cache_body :: "(jsstring \<Rightarrow> json) \<Rightarrow> cache_form \<Rightarrow> body" where
  "cache_body frac f =
     [(''enabled'', JBool (cf_enabled f)), (''ttl_seconds'', ttl_number frac (cf_ttl f)),
      (''exclude_paths'', JArr (map JStr (linesToList (cf_exclude f))))]"

datatype cache_event =
    CacheQuery query_event | TypeCache cache_form
  | SaveCache | CacheSaved | CacheFails jsstring | PurgeCache | CachePurged | PurgeFails jsstring

fun cache_offered :: "cache_tab \<Rightarrow> cache_event \<Rightarrow> bool" where
  "cache_offered s (CacheQuery q) = True"
| "cache_offered s (TypeCache f) = (ct_key s \<noteq> None \<and> (cf_ttl f = cf_ttl (ct_form s) \<or> (case cf_ttl f of JStr t \<Rightarrow> True | _ \<Rightarrow> False)))"
| "cache_offered s SaveCache = (ct_key s \<noteq> None \<and> \<not> isPending (ct_save s))"
| "cache_offered s CacheSaved = isPending (ct_save s)"
| "cache_offered s (CacheFails e) = isPending (ct_save s)"
| "cache_offered s PurgeCache = (ct_key s \<noteq> None \<and> \<not> isPending (ct_purge s))"
| "cache_offered s CachePurged = isPending (ct_purge s)"
| "cache_offered s (PurgeFails e) = isPending (ct_purge s)"

definition cache_url :: "jsstring \<Rightarrow> cache_tab \<Rightarrow> jsstring" where
  "cache_url u s = domain_url u (tq_domain (ct_query s)) ''/lscache''"

fun cache_step :: "jsstring \<Rightarrow> (jsstring \<Rightarrow> json) \<Rightarrow> cache_event \<Rightarrow> cache_tab \<Rightarrow> cache_tab \<times> api_request list \<times> page_effect list" where
  "cache_step u frac (CacheQuery q) s = (mount_cache (s\<lparr>ct_query := tab_answer q (ct_query s)\<rparr>), [], [])"
| "cache_step u frac (TypeCache f) s = (s\<lparr>ct_form := f\<rparr>, [], [])"
| "cache_step u frac SaveCache s =
     (s\<lparr>ct_save := mutate (ct_save s)\<rparr>, [ApiPut (cache_url u s) (cache_body frac (ct_form s))], [])"
| "cache_step u frac CacheSaved s =
     (s\<lparr>ct_save := settle_ok (ct_save s)\<rparr>, [], [Toast Success ''Cache settings saved'' [], tab_invalidate ''lscache'' u (ct_query s)])"
| "cache_step u frac (CacheFails e) s =
     (s\<lparr>ct_save := settle_error e (ct_save s)\<rparr>, [], [Toast ErrorTone ''Could not save cache settings'' e])"
| "cache_step u frac PurgeCache s = (s\<lparr>ct_purge := mutate (ct_purge s)\<rparr>, [ApiPost (cache_url u s @ ''/purge'') []], [])"
| "cache_step u frac CachePurged s =
     (s\<lparr>ct_purge := settle_ok (ct_purge s)\<rparr>, [], [Toast Success ''Cache purged'' [], tab_invalidate ''lscache'' u (ct_query s)])"
| "cache_step u frac (PurgeFails e) s =
     (s\<lparr>ct_purge := settle_error e (ct_purge s)\<rparr>, [], [Toast ErrorTone ''Could not purge cache'' e])"

section \<open>Hotlink protection\<close>

record hotlink_form =
  hf_enabled :: bool
  hf_allowed :: jsstring

record hotlink_card =
  hc_query :: tab_query
  hc_seeded :: bool
  hc_form :: hotlink_form
  hc_save :: mutation

definition initial_hotlink :: "jsstring \<Rightarrow> hotlink_card" where
  "initial_hotlink d =
     \<lparr>hc_query = mounted_query d, hc_seeded = False, hc_form = \<lparr>hf_enabled = False, hf_allowed = []\<rparr>, hc_save = idle\<rparr>"

definition hotlink_of :: "json \<Rightarrow> hotlink_form" where
  "hotlink_of data =
     \<lparr>hf_enabled = truthy (jget data ''enabled''), hf_allowed = js_join [newline] (json_list (jget data ''allowed_domains''))\<rparr>"

definition seed_hotlink :: "hotlink_card \<Rightarrow> hotlink_card" where
  "seed_hotlink s =
     (let data = tq_data (hc_query s)
      in if \<not> hc_seeded s \<and> truthy data then s\<lparr>hc_seeded := True, hc_form := hotlink_of data\<rparr> else s)"

definition hotlink_body :: "hotlink_form \<Rightarrow> body" where
  "hotlink_body f = [(''enabled'', JBool (hf_enabled f)), (''allowed_domains'', JArr (map JStr (linesToList (hf_allowed f))))]"

datatype hotlink_event = HotlinkQuery query_event | TypeHotlink hotlink_form | SaveHotlink | HotlinkSaved | HotlinkFails jsstring

fun hotlink_offered :: "hotlink_card \<Rightarrow> hotlink_event \<Rightarrow> bool" where
  "hotlink_offered s (HotlinkQuery q) = True"
| "hotlink_offered s (TypeHotlink f) = tab_ready (hc_query s)"
| "hotlink_offered s SaveHotlink = (tab_ready (hc_query s) \<and> \<not> isPending (hc_save s))"
| "hotlink_offered s HotlinkSaved = isPending (hc_save s)"
| "hotlink_offered s (HotlinkFails e) = isPending (hc_save s)"

fun hotlink_step :: "jsstring \<Rightarrow> hotlink_event \<Rightarrow> hotlink_card \<Rightarrow> hotlink_card \<times> api_request list \<times> page_effect list" where
  "hotlink_step u (HotlinkQuery q) s = (seed_hotlink (s\<lparr>hc_query := tab_answer q (hc_query s)\<rparr>), [], [])"
| "hotlink_step u (TypeHotlink f) s = (s\<lparr>hc_form := f\<rparr>, [], [])"
| "hotlink_step u SaveHotlink s =
     (s\<lparr>hc_save := mutate (hc_save s)\<rparr>,
      [ApiPatch (domain_url u (tq_domain (hc_query s)) ''/hotlink-protection'') (hotlink_body (hc_form s))], [])"
| "hotlink_step u HotlinkSaved s =
     (s\<lparr>hc_save := settle_ok (hc_save s)\<rparr>, [], [Toast Success ''Hotlink protection saved'' [], tab_invalidate ''hotlink'' u (hc_query s)])"
| "hotlink_step u (HotlinkFails e) s =
     (s\<lparr>hc_save := settle_error e (hc_save s)\<rparr>, [], [Toast ErrorTone ''Could not save hotlink protection'' e])"

section \<open>Stored settings and the forms\<close>

lemma redirect_round_trip:
  assumes "jget r ''path'' = JStr p" "trim p = p" "jget r ''target_url'' = JStr t" "trim t = t"
    "jget r ''status_code'' = JNum c" "0 \<le> c"
  shows "redirect_body frac (redirect_of r) = [(''path'', JStr p), (''target_url'', JStr t), (''status_code'', JNum c)]"
  using assms js_Number_show_int[of c frac] by (simp add: redirect_body_def redirect_of_def json_text_def)

lemma forwarding_round_trip:
  assumes "jget fwd ''target_url'' = JStr t" "trim t = t" "jget fwd ''status_code'' = JNum c" "0 \<le> c"
  shows "forwarding_body frac (forwarding_of fwd) =
           [(''target_url'', JStr t), (''status_code'', JNum c), (''keep_path'', jget fwd ''keep_path'')]"
  using assms js_Number_show_int[of c frac] by (simp add: forwarding_body_def forwarding_of_def json_text_def)

lemma cache_round_trip:
  assumes "jget d ''enabled'' = JBool b" "jget d ''ttl_seconds'' = JNum n" "n \<noteq> 0"
    "jget d ''exclude_paths'' = JArr (map JStr ws)" "list_all clean_line ws"
  shows "cache_body frac (cache_of d) =
           [(''enabled'', JBool b), (''ttl_seconds'', JNum n), (''exclude_paths'', JArr (map JStr ws))]"
  using assms linesToList_join[OF assms(5)]
  by (simp add: cache_body_def cache_of_def ttl_number_def nullish_def json_list_def js_join_strings js_or_def)

lemma hotlink_round_trip:
  assumes "jget d ''enabled'' = JBool b" "jget d ''allowed_domains'' = JArr (map JStr ws)" "list_all clean_line ws"
  shows "hotlink_body (hotlink_of d) = [(''enabled'', JBool b), (''allowed_domains'', JArr (map JStr ws))]"
  using assms linesToList_join[OF assms(3)] by (simp add: hotlink_body_def hotlink_of_def json_list_def js_join_strings)

text \<open>A lifetime of zero, which the field allows, is sent as an hour.\<close>

lemma zero_ttl_becomes_hour: "jget (JObj (cache_body frac (f\<lparr>cf_ttl := JStr ''0''\<rparr>))) ''ttl_seconds'' = JNum 3600"
  by (simp add: cache_body_def ttl_number_def js_or_def) code_simp

text \<open>
  The forms keep what they took over when the domain changes: the settings of one domain are saved to
  another one, unseen, as soon as that one is chosen.
\<close>

lemma forwarding_follows_domain:
  assumes "ft_seeded s" "\<not> isPending (ft_save s)" "trim (ff_target (ft_form s)) \<noteq> []" "truthy c"
  shows "let s' = fst (forwarding_step u frac (ForwardingQuery (Switch d c)) s)
         in forwarding_offered s' SaveForwarding \<and>
            fst (snd (forwarding_step u frac SaveForwarding s')) =
              [ApiPut (domain_url u d ''/forwarding'') (forwarding_body frac (ft_form s))]"
  using assms by (auto simp: Let_def seed_forwarding_def tab_ready_def forwarding_url_def)

lemma hotlink_follows_domain:
  assumes "hc_seeded s" "\<not> isPending (hc_save s)" "truthy c"
  shows "let s' = fst (hotlink_step u (HotlinkQuery (Switch d c)) s)
         in hotlink_offered s' SaveHotlink \<and>
            fst (snd (hotlink_step u SaveHotlink s')) =
              [ApiPatch (domain_url u d ''/hotlink-protection'') (hotlink_body (hc_form s))]"
  using assms by (auto simp: Let_def seed_hotlink_def tab_ready_def)

lemma cache_follows_domain:
  assumes "ct_key s = Some (form_key c)" "\<not> isPending (ct_save s)" "truthy c"
  shows "let s' = fst (cache_step u frac (CacheQuery (Switch d c)) s)
         in cache_offered s' SaveCache \<and>
            fst (snd (cache_step u frac SaveCache s')) = [ApiPut (domain_url u d ''/lscache'') (cache_body frac (ct_form s))]"
  using assms by (auto simp: Let_def mount_cache_def tab_ready_def cache_url_def)

text \<open>A purge drops what was entered but not saved.\<close>

lemma purge_drops_entries:
  assumes "ct_key s = Some k" "form_key d \<noteq> k" "truthy d"
  shows "ct_form (fst (cache_step u frac (CacheQuery (Answer d)) s)) = cache_of d"
  using assms by (auto simp: mount_cache_def tab_ready_def Let_def)

text \<open>A path of blanks passes the browser's check and is sent empty.\<close>

lemma blank_path_sent:
  assumes "rt_dialog s = Some f" "rf_path f = '' ''" "rf_target f \<noteq> []" "valid_url (rf_target f)" "\<not> isPending (rt_save s)"
  shows "redirects_offered valid_url s SubmitRedirect \<and> jget (JObj (redirect_body frac f)) ''path'' = JStr []"
proof -
  have "trim '' '' = []" by code_simp
  with assms show ?thesis by (simp add: redirect_body_def)
qed

end
