(* ===== verification/Domain_Service.thy ===== *)
theory Domain_Service
  imports Domain_Forms Preferences
begin

text \<open>
  The rest of a website's settings (\<open>pages/customer/DomainDetail.jsx\<close>): blocked addresses, protected
  directories, the maintenance page and the error pages; the page that shows one of the forms
  (\<open>pages/customer/DomainFeature.jsx\<close>), and the summary of a domain.
\<close>

section \<open>Blocked addresses\<close>

record ipblock_card =
  ic_query :: tab_query
  ic_entry :: jsstring
  ic_toDelete :: "json option"
  ic_add :: mutation
  ic_delete :: mutation

definition initial_ipblock :: "jsstring \<Rightarrow> ipblock_card" where
  "initial_ipblock d = \<lparr>ic_query = mounted_query d, ic_entry = [], ic_toDelete = None, ic_add = idle, ic_delete = idle\<rparr>"

definition blocked_entries :: "ipblock_card \<Rightarrow> json list" where
  "blocked_entries s = json_list (jget (tq_data (ic_query s)) ''blocked'')"

definition ipblock_url :: "jsstring \<Rightarrow> ipblock_card \<Rightarrow> jsstring" where
  "ipblock_url u s = domain_url u (tq_domain (ic_query s)) ''/ip-block''"

datatype ipblock_event =
    BlockQuery query_event | TypeEntry jsstring | BlockEntry | EntryBlocked | BlockFails jsstring
  | AskUnblock json | KeepBlocked | Unblock | Unblocked | UnblockFails jsstring

fun ipblock_offered :: "ipblock_card \<Rightarrow> ipblock_event \<Rightarrow> bool" where
  "ipblock_offered s (BlockQuery q) = True"
| "ipblock_offered s (TypeEntry v) = (ic_toDelete s = None)"
| "ipblock_offered s BlockEntry = (ic_toDelete s = None \<and> trim (ic_entry s) \<noteq> [] \<and> \<not> isPending (ic_add s))"
| "ipblock_offered s EntryBlocked = isPending (ic_add s)"
| "ipblock_offered s (BlockFails e) = isPending (ic_add s)"
| "ipblock_offered s (AskUnblock x) = (ic_toDelete s = None \<and> x \<in> set (blocked_entries s))"
| "ipblock_offered s KeepBlocked = (ic_toDelete s \<noteq> None \<and> \<not> isPending (ic_delete s))"
| "ipblock_offered s Unblock = (ic_toDelete s \<noteq> None \<and> \<not> isPending (ic_delete s))"
| "ipblock_offered s Unblocked = isPending (ic_delete s)"
| "ipblock_offered s (UnblockFails e) = isPending (ic_delete s)"

fun ipblock_step :: "jsstring \<Rightarrow> ipblock_event \<Rightarrow> ipblock_card \<Rightarrow> ipblock_card \<times> api_request list \<times> page_effect list" where
  "ipblock_step u (BlockQuery q) s = (s\<lparr>ic_query := tab_answer q (ic_query s)\<rparr>, [], [])"
| "ipblock_step u (TypeEntry v) s = (s\<lparr>ic_entry := v\<rparr>, [], [])"
| "ipblock_step u BlockEntry s =
     (if trim (ic_entry s) \<noteq> []
      then (s\<lparr>ic_add := mutate (ic_add s)\<rparr>, [ApiPost (ipblock_url u s) [(''entry'', JStr (trim (ic_entry s)))]], [])
      else (s, [], []))"
| "ipblock_step u EntryBlocked s =
     (s\<lparr>ic_add := settle_ok (ic_add s), ic_entry := []\<rparr>, [], [Toast Success ''IP blocked'' [], tab_invalidate ''ip-block'' u (ic_query s)])"
| "ipblock_step u (BlockFails e) s = (s\<lparr>ic_add := settle_error e (ic_add s)\<rparr>, [], [Toast ErrorTone ''Could not block IP'' e])"
| "ipblock_step u (AskUnblock x) s = (s\<lparr>ic_toDelete := Some x\<rparr>, [], [])"
| "ipblock_step u KeepBlocked s = (s\<lparr>ic_toDelete := None\<rparr>, [], [])"
| "ipblock_step u Unblock s =
     (s\<lparr>ic_delete := mutate (ic_delete s)\<rparr>,
      (case ic_toDelete s of Some x \<Rightarrow> [ApiDeleteWith (ipblock_url u s) [(''entry'', x)]] | None \<Rightarrow> []), [])"
| "ipblock_step u Unblocked s =
     (s\<lparr>ic_delete := settle_ok (ic_delete s), ic_toDelete := None\<rparr>, [],
      [Toast Success ''IP unblocked'' [], tab_invalidate ''ip-block'' u (ic_query s)])"
| "ipblock_step u (UnblockFails e) s =
     (s\<lparr>ic_delete := settle_error e (ic_delete s), ic_toDelete := None\<rparr>, [], [Toast ErrorTone ''Could not unblock IP'' e])"

section \<open>Protected directories\<close>

record privacy_card =
  pv_data :: json
  pv_path :: jsstring
  pv_toDelete :: "json option"
  pv_manage :: json \<comment> \<open>the directory whose users are managed, JNull for none\<close>
  pv_users :: json
  pv_htuser :: jsstring
  pv_password :: jsstring
  pv_add :: mutation
  pv_delete :: mutation
  pv_addUser :: mutation
  pv_deleteUser :: mutation

definition initial_privacy :: privacy_card where
  "initial_privacy =
     \<lparr>pv_data = JUndef, pv_path = [], pv_toDelete = None, pv_manage = JNull, pv_users = JUndef, pv_htuser = [], pv_password = [],
      pv_add = idle, pv_delete = idle, pv_addUser = idle, pv_deleteUser = idle\<rparr>"

definition protected_rows :: "privacy_card \<Rightarrow> json list" where
  "protected_rows s = json_list (jget (pv_data s) ''protected'')"

definition file_auth_url :: "jsstring \<Rightarrow> jsstring" where
  "file_auth_url u = ''/api/v1/accounts/'' @ u @ ''/file-auth''"

datatype privacy_event =
    ProtectedArrive json | TypePath jsstring | ProtectPath | PathProtected | ProtectFails jsstring
  | AskUnprotect json | KeepProtected | Unprotect | Unprotected | UnprotectFails jsstring
  | ManageUsers json | CloseUsers | UsersOf json | TypeMember jsstring jsstring | SaveMember | MemberSaved | MemberFails jsstring
  | DeleteMember json | MemberDeleted | MemberStays jsstring

definition browsing :: "privacy_card \<Rightarrow> bool" where
  "browsing s \<longleftrightarrow> pv_toDelete s = None \<and> \<not> truthy (pv_manage s)"

fun privacy_offered :: "privacy_card \<Rightarrow> privacy_event \<Rightarrow> bool" where
  "privacy_offered s (ProtectedArrive d) = True"
| "privacy_offered s (TypePath v) = browsing s"
| "privacy_offered s ProtectPath = (browsing s \<and> trim (pv_path s) \<noteq> [] \<and> \<not> isPending (pv_add s))"
| "privacy_offered s PathProtected = isPending (pv_add s)"
| "privacy_offered s (ProtectFails e) = isPending (pv_add s)"
| "privacy_offered s (AskUnprotect r) = (browsing s \<and> r \<in> set (protected_rows s))"
| "privacy_offered s KeepProtected = (pv_toDelete s \<noteq> None \<and> \<not> isPending (pv_delete s))"
| "privacy_offered s Unprotect = (pv_toDelete s \<noteq> None \<and> \<not> isPending (pv_delete s))"
| "privacy_offered s Unprotected = isPending (pv_delete s)"
| "privacy_offered s (UnprotectFails e) = isPending (pv_delete s)"
| "privacy_offered s (ManageUsers r) = (browsing s \<and> r \<in> set (protected_rows s))"
| "privacy_offered s CloseUsers = truthy (pv_manage s)"
| "privacy_offered s (UsersOf d) = truthy (pv_manage s)"
| "privacy_offered s (TypeMember n p) = truthy (pv_manage s)"
| "privacy_offered s SaveMember =
     (truthy (pv_manage s) \<and> trim (pv_htuser s) \<noteq> [] \<and> pv_password s \<noteq> [] \<and> \<not> isPending (pv_addUser s))"
| "privacy_offered s MemberSaved = isPending (pv_addUser s)"
| "privacy_offered s (MemberFails e) = isPending (pv_addUser s)"
| "privacy_offered s (DeleteMember m) =
     (truthy (pv_manage s) \<and> m \<in> set (json_list (jget (pv_users s) ''users'')) \<and> \<not> isPending (pv_deleteUser s))"
| "privacy_offered s MemberDeleted = isPending (pv_deleteUser s)"
| "privacy_offered s (MemberStays e) = isPending (pv_deleteUser s)"

definition privacy_refresh :: "jsstring \<Rightarrow> page_effect" where
  "privacy_refresh u = Invalidate [''file-auth'', u]"

definition users_refresh :: "jsstring \<Rightarrow> privacy_card \<Rightarrow> page_effect" where
  "users_refresh u s = Invalidate [''file-auth-users'', u, js_String (pv_manage s)]"

text \<open>The dialog of the users is mounted only while a directory is chosen: its fields start empty.\<close>

fun privacy_step :: "jsstring \<Rightarrow> privacy_event \<Rightarrow> privacy_card \<Rightarrow> privacy_card \<times> api_request list \<times> page_effect list" where
  "privacy_step u (ProtectedArrive d) s = (s\<lparr>pv_data := d\<rparr>, [], [])"
| "privacy_step u (TypePath v) s = (s\<lparr>pv_path := v\<rparr>, [], [])"
| "privacy_step u ProtectPath s =
     (if trim (pv_path s) \<noteq> []
      then (s\<lparr>pv_add := mutate (pv_add s)\<rparr>, [ApiPost (file_auth_url u) [(''path'', JStr (trim (pv_path s)))]], [])
      else (s, [], []))"
| "privacy_step u PathProtected s =
     (s\<lparr>pv_add := settle_ok (pv_add s), pv_path := []\<rparr>, [], [Toast Success ''Directory protected'' [], privacy_refresh u])"
| "privacy_step u (ProtectFails e) s = (s\<lparr>pv_add := settle_error e (pv_add s)\<rparr>, [], [Toast ErrorTone ''Could not protect directory'' e])"
| "privacy_step u (AskUnprotect r) s = (s\<lparr>pv_toDelete := Some r\<rparr>, [], [])"
| "privacy_step u KeepProtected s = (s\<lparr>pv_toDelete := None\<rparr>, [], [])"
| "privacy_step u Unprotect s =
     (s\<lparr>pv_delete := mutate (pv_delete s)\<rparr>,
      (case pv_toDelete s of Some r \<Rightarrow> [ApiDeleteWith (file_auth_url u) [(''path'', jget r ''path'')]] | None \<Rightarrow> []), [])"
| "privacy_step u Unprotected s =
     (s\<lparr>pv_delete := settle_ok (pv_delete s), pv_toDelete := None\<rparr>, [], [Toast Success ''Protection removed'' [], privacy_refresh u])"
| "privacy_step u (UnprotectFails e) s =
     (s\<lparr>pv_delete := settle_error e (pv_delete s), pv_toDelete := None\<rparr>, [], [Toast ErrorTone ''Could not remove protection'' e])"
| "privacy_step u (ManageUsers r) s =
     (s\<lparr>pv_manage := jget r ''path'', pv_users := JUndef, pv_htuser := [], pv_password := [], pv_addUser := idle, pv_deleteUser := idle\<rparr>, [], [])"
| "privacy_step u CloseUsers s = (s\<lparr>pv_manage := JNull\<rparr>, [], [])"
| "privacy_step u (UsersOf d) s = (s\<lparr>pv_users := d\<rparr>, [], [])"
| "privacy_step u (TypeMember n p) s = (s\<lparr>pv_htuser := n, pv_password := p\<rparr>, [], [])"
| "privacy_step u SaveMember s =
     (if trim (pv_htuser s) \<noteq> [] \<and> pv_password s \<noteq> []
      then (s\<lparr>pv_addUser := mutate (pv_addUser s)\<rparr>,
            [ApiPost (file_auth_url u @ ''/users'')
               [(''path'', pv_manage s), (''htuser'', JStr (trim (pv_htuser s))), (''password'', JStr (pv_password s))]], [])
      else (s, [], []))"
| "privacy_step u MemberSaved s =
     (s\<lparr>pv_addUser := settle_ok (pv_addUser s), pv_htuser := [], pv_password := []\<rparr>, [],
      [Toast Success ''User saved'' [], users_refresh u s])"
| "privacy_step u (MemberFails e) s = (s\<lparr>pv_addUser := settle_error e (pv_addUser s)\<rparr>, [], [Toast ErrorTone ''Could not save user'' e])"
| "privacy_step u (DeleteMember m) s =
     (s\<lparr>pv_deleteUser := mutate (pv_deleteUser s)\<rparr>,
      [ApiDeleteWith (file_auth_url u @ ''/users'') [(''path'', pv_manage s), (''htuser'', m)]], [])"
| "privacy_step u MemberDeleted s =
     (s\<lparr>pv_deleteUser := settle_ok (pv_deleteUser s)\<rparr>, [], [Toast Success ''User deleted'' [], users_refresh u s])"
| "privacy_step u (MemberStays e) s =
     (s\<lparr>pv_deleteUser := settle_error e (pv_deleteUser s)\<rparr>, [], [Toast ErrorTone ''Could not delete user'' e])"

section \<open>The maintenance page\<close>

definition AUTO_DISABLE_OPTIONS :: "(jsstring \<times> jsstring) list" where
  "AUTO_DISABLE_OPTIONS =
     [([], ''Manual (leave on until I turn it off)''), (''60'', ''1 hour''), (''240'', ''4 hours''), (''1440'', ''24 hours'')]"

record maintenance_form =
  mf_title :: jsstring
  mf_message :: jsstring
  mf_estimated :: jsstring
  mf_auto :: jsstring

record maintenance_tab =
  mt_query :: tab_query
  mt_seeded :: bool
  mt_form :: maintenance_form
  mt_set :: mutation
  mt_regen :: mutation

definition initial_maintenance :: "jsstring \<Rightarrow> maintenance_tab" where
  "initial_maintenance d =
     \<lparr>mt_query = mounted_query d, mt_seeded = False,
      mt_form = \<lparr>mf_title = [], mf_message = [], mf_estimated = [], mf_auto = []\<rparr>, mt_set = idle, mt_regen = idle\<rparr>"

definition maintenance_of :: "json \<Rightarrow> maintenance_form" where
  "maintenance_of data =
     \<lparr>mf_title = json_text (jget data ''title''), mf_message = json_text (jget data ''message''),
      mf_estimated = json_text (jget data ''estimated_time''), mf_auto = json_text (jget data ''auto_disable_minutes'')\<rparr>"

definition seed_maintenance :: "maintenance_tab \<Rightarrow> maintenance_tab" where
  "seed_maintenance s =
     (let data = tq_data (mt_query s)
      in if \<not> mt_seeded s \<and> truthy data then s\<lparr>mt_seeded := True, mt_form := maintenance_of data\<rparr> else s)"

definition texts_of :: "maintenance_form \<Rightarrow> body" where
  "texts_of f = [(''title'', JStr (mf_title f)), (''message'', JStr (mf_message f)), (''estimated_time'', JStr (mf_estimated f))]"

definition maintenance_body :: "(jsstring \<Rightarrow> json) \<Rightarrow> bool \<Rightarrow> maintenance_form \<Rightarrow> body" where
  "maintenance_body frac on f =
     (''enabled'', JBool on) # texts_of f @
       [(''auto_disable_minutes'', if mf_auto f = [] then JNull else js_Number frac (mf_auto f))]"

definition regenerate_body :: "json \<Rightarrow> maintenance_form \<Rightarrow> body" where
  "regenerate_body data f =
     (''enabled'', if nullish (jget data ''enabled'') then JBool True else jget data ''enabled'') # texts_of f @
       [(''regenerate_token'', JBool True)]"

definition bypassUrl :: "maintenance_tab \<Rightarrow> jsstring option" where
  "bypassUrl s =
     (let d = tq_data (mt_query s)
      in if truthy (jget d ''bypass_token'')
         then Some (''https://'' @ tq_domain (mt_query s) @ ''/?'' @ js_String (jget d ''bypass_query_param'') @ ''='' @ js_String (jget d ''bypass_token''))
         else None)"

definition maintenance_on :: "maintenance_tab \<Rightarrow> bool" where
  "maintenance_on s \<longleftrightarrow> truthy (jget (tq_data (mt_query s)) ''enabled'')"

datatype maintenance_event =
    MaintenanceQuery query_event | TypeMaintenance maintenance_form
  | SetMaintenance bool | MaintenanceSet bool | MaintenanceFails jsstring
  | RegenerateLink | LinkRegenerated | RegenerateFails jsstring

fun maintenance_offered :: "maintenance_tab \<Rightarrow> maintenance_event \<Rightarrow> bool" where
  "maintenance_offered s (MaintenanceQuery q) = True"
| "maintenance_offered s (TypeMaintenance f) =
     (tab_ready (mt_query s) \<and> (mf_auto f = mf_auto (mt_form s) \<or> mf_auto f \<in> set (map fst AUTO_DISABLE_OPTIONS)))"
| "maintenance_offered s (SetMaintenance on) = (tab_ready (mt_query s) \<and> \<not> isPending (mt_set s) \<and> (on \<or> maintenance_on s))"
| "maintenance_offered s (MaintenanceSet on) = isPending (mt_set s)"
| "maintenance_offered s (MaintenanceFails e) = isPending (mt_set s)"
| "maintenance_offered s RegenerateLink =
     (tab_ready (mt_query s) \<and> truthy (jget (tq_data (mt_query s)) ''bypass_token'') \<and> \<not> isPending (mt_regen s))"
| "maintenance_offered s LinkRegenerated = isPending (mt_regen s)"
| "maintenance_offered s (RegenerateFails e) = isPending (mt_regen s)"

definition maintenance_url :: "jsstring \<Rightarrow> maintenance_tab \<Rightarrow> jsstring" where
  "maintenance_url u s = domain_url u (tq_domain (mt_query s)) ''/maintenance''"

fun maintenance_step :: "jsstring \<Rightarrow> (jsstring \<Rightarrow> json) \<Rightarrow> maintenance_event \<Rightarrow> maintenance_tab \<Rightarrow> maintenance_tab \<times> api_request list \<times> page_effect list" where
  "maintenance_step u frac (MaintenanceQuery q) s = (seed_maintenance (s\<lparr>mt_query := tab_answer q (mt_query s)\<rparr>), [], [])"
| "maintenance_step u frac (TypeMaintenance f) s = (s\<lparr>mt_form := f\<rparr>, [], [])"
| "maintenance_step u frac (SetMaintenance on) s =
     (s\<lparr>mt_set := mutate (mt_set s)\<rparr>, [ApiPatch (maintenance_url u s) (maintenance_body frac on (mt_form s))], [])"
| "maintenance_step u frac (MaintenanceSet on) s =
     (s\<lparr>mt_set := settle_ok (mt_set s)\<rparr>, [],
      [Toast Success (if on then ''Maintenance mode enabled'' else ''Maintenance mode disabled'') [], tab_invalidate ''maintenance'' u (mt_query s)])"
| "maintenance_step u frac (MaintenanceFails e) s =
     (s\<lparr>mt_set := settle_error e (mt_set s)\<rparr>, [], [Toast ErrorTone ''Could not update maintenance mode'' e])"
| "maintenance_step u frac RegenerateLink s =
     (s\<lparr>mt_regen := mutate (mt_regen s)\<rparr>, [ApiPatch (maintenance_url u s) (regenerate_body (tq_data (mt_query s)) (mt_form s))], [])"
| "maintenance_step u frac LinkRegenerated s =
     (s\<lparr>mt_regen := settle_ok (mt_regen s)\<rparr>, [], [Toast Success ''Bypass link regenerated'' [], tab_invalidate ''maintenance'' u (mt_query s)])"
| "maintenance_step u frac (RegenerateFails e) s =
     (s\<lparr>mt_regen := settle_error e (mt_regen s)\<rparr>, [], [Toast ErrorTone ''Could not regenerate bypass link'' e])"

section \<open>Error pages\<close>

text \<open>The query of the pages is keyed by code: \<open>ep_cache\<close> is what it holds for each. Its answer for the code
  chosen is taken over in the first render that has it.\<close>

definition ERROR_CODE_LABELS :: "(int \<times> jsstring) list" where
  "ERROR_CODE_LABELS = [(403, ''Forbidden''), (404, ''Not Found''), (500, ''Server Error''), (503, ''Unavailable'')]"

record error_pages =
  ep_query :: tab_query
  ep_cache :: "(int \<times> json) list"
  activeCode :: int
  ep_content :: "jsstring option"
  loadedCode :: "int option"
  ep_preview :: bool
  ep_save :: mutation
  ep_reset :: mutation

definition initial_error_pages :: "jsstring \<Rightarrow> error_pages" where
  "initial_error_pages d =
     \<lparr>ep_query = mounted_query d, ep_cache = [], activeCode = 404, ep_content = None, loadedCode = None, ep_preview = False,
      ep_save = idle, ep_reset = idle\<rparr>"

definition page_data :: "error_pages \<Rightarrow> json" where
  "page_data s = (case map_of (ep_cache s) (activeCode s) of Some d \<Rightarrow> d | None \<Rightarrow> JUndef)"

definition load_page :: "error_pages \<Rightarrow> error_pages" where
  "load_page s =
     (if truthy (page_data s) \<and> loadedCode s \<noteq> Some (activeCode s)
      then s\<lparr>ep_content := Some (json_text (jget (page_data s) ''content'')), loadedCode := Some (activeCode s)\<rparr> else s)"

definition page_codes :: "error_pages \<Rightarrow> json list" where
  "page_codes s = map (\<lambda>p. jget p ''code'') (json_list (jget (tq_data (ep_query s)) ''pages''))"

definition has_custom :: "error_pages \<Rightarrow> bool" where
  "has_custom s \<longleftrightarrow>
     (case List.find (\<lambda>p. jget p ''code'' = JNum (activeCode s)) (json_list (jget (tq_data (ep_query s)) ''pages'')) of
        Some p \<Rightarrow> truthy (jget p ''has_custom'')
      | None \<Rightarrow> False)"

definition error_pages_url :: "jsstring \<Rightarrow> error_pages \<Rightarrow> jsstring" where
  "error_pages_url u s = domain_url u (tq_domain (ep_query s)) ''/error-pages/'' @ show_int (activeCode s)"

datatype error_pages_event =
    PagesQuery query_event "(int \<times> json) list" | PageAnswer int json | ChooseCode int | TypePage jsstring
  | SavePage | PageSaved | SavePageFails jsstring | ResetPage | PageReset | ResetPageFails jsstring | PreviewPage bool

fun error_pages_offered :: "error_pages \<Rightarrow> error_pages_event \<Rightarrow> bool" where
  "error_pages_offered s (PagesQuery q cache) = True"
| "error_pages_offered s (PageAnswer c d) = True"
| "error_pages_offered s (ChooseCode c) = (tab_ready (ep_query s) \<and> \<not> ep_preview s \<and> JNum c \<in> set (page_codes s))"
| "error_pages_offered s (TypePage t) = (tab_ready (ep_query s) \<and> \<not> ep_preview s)"
| "error_pages_offered s SavePage =
     (tab_ready (ep_query s) \<and> \<not> ep_preview s \<and> \<not> isPending (ep_save s) \<and>
      (case ep_content s of Some t \<Rightarrow> trim t \<noteq> [] | None \<Rightarrow> False))"
| "error_pages_offered s PageSaved = isPending (ep_save s)"
| "error_pages_offered s (SavePageFails e) = isPending (ep_save s)"
| "error_pages_offered s ResetPage = (tab_ready (ep_query s) \<and> \<not> ep_preview s \<and> has_custom s \<and> \<not> isPending (ep_reset s))"
| "error_pages_offered s PageReset = isPending (ep_reset s)"
| "error_pages_offered s (ResetPageFails e) = isPending (ep_reset s)"
| "error_pages_offered s (PreviewPage b) = (b \<noteq> ep_preview s \<and> (b \<longrightarrow> tab_ready (ep_query s)))"

text \<open>After a save or a reset both queries are fetched again; until their answers arrive they hold what
  they held, and the page is taken over at once, again.\<close>

definition reload_pages :: "error_pages \<Rightarrow> error_pages" where
  "reload_pages s = load_page (s\<lparr>loadedCode := None\<rparr>)"

definition content_json :: "jsstring option \<Rightarrow> json" where
  "content_json v = (case v of Some t \<Rightarrow> JStr t | None \<Rightarrow> JNull)"

fun error_pages_step :: "jsstring \<Rightarrow> error_pages_event \<Rightarrow> error_pages \<Rightarrow> error_pages \<times> api_request list \<times> page_effect list" where
  "error_pages_step u (PagesQuery q cache) s =
     (load_page (s\<lparr>ep_query := tab_answer q (ep_query s), ep_cache := (case q of Switch d c \<Rightarrow> cache | _ \<Rightarrow> ep_cache s)\<rparr>), [], [])"
| "error_pages_step u (PageAnswer c d) s = (load_page (s\<lparr>ep_cache := (c, d) # ep_cache s\<rparr>), [], [])"
| "error_pages_step u (ChooseCode c) s = (load_page (s\<lparr>activeCode := c\<rparr>), [], [])"
| "error_pages_step u (TypePage t) s = (s\<lparr>ep_content := Some t\<rparr>, [], [])"
| "error_pages_step u SavePage s =
     (s\<lparr>ep_save := mutate (ep_save s)\<rparr>, [ApiPut (error_pages_url u s) [(''content'', content_json (ep_content s))]], [])"
| "error_pages_step u PageSaved s =
     (reload_pages (s\<lparr>ep_save := settle_ok (ep_save s)\<rparr>), [],
      [Toast Success (''Custom '' @ show_int (activeCode s) @ '' page saved'') [], tab_invalidate ''error-pages'' u (ep_query s)])"
| "error_pages_step u (SavePageFails e) s = (s\<lparr>ep_save := settle_error e (ep_save s)\<rparr>, [], [Toast ErrorTone ''Could not save page'' e])"
| "error_pages_step u ResetPage s = (s\<lparr>ep_reset := mutate (ep_reset s)\<rparr>, [ApiDelete (error_pages_url u s)], [])"
| "error_pages_step u PageReset s =
     (reload_pages (s\<lparr>ep_reset := settle_ok (ep_reset s)\<rparr>), [],
      [Toast Success (''Reverted to the default '' @ show_int (activeCode s) @ '' page'') [], tab_invalidate ''error-pages'' u (ep_query s)])"
| "error_pages_step u (ResetPageFails e) s =
     (s\<lparr>ep_reset := settle_error e (ep_reset s)\<rparr>, [], [Toast ErrorTone ''Could not reset page'' e])"
| "error_pages_step u (PreviewPage b) s = (s\<lparr>ep_preview := b\<rparr>, [], [])"

section \<open>One feature of one website\<close>

definition features :: "(jsstring \<times> jsstring \<times> jsstring) list" where
  "features =
     [(''redirects'', ''Site Redirection'', ''Redirect individual paths to new web addresses.''),
      (''forwarding'', ''Domain Forwarding'', ''Forward an entire domain while preserving optional URL paths.''),
      (''cache'', ''LiteSpeed Cache'', ''Configure and purge the server-side cache for a website.''),
      (''security'', ''Website Security'', ''Manage directory privacy, hotlink protection, and blocked visitors.''),
      (''maintenance'', ''Website Maintenance'', ''Publish a maintenance page while work is in progress.''),
      (''errors'', ''Custom Error Pages'', ''Create branded pages for common website errors.''),
      (''statistics'', ''Website Statistics'', ''Review traffic, visitors, referrers, and bandwidth for a domain.'')]"

definition feature_domains :: "json \<Rightarrow> json list" where
  "feature_domains data = filter (\<lambda>d. jget d ''kind'' \<noteq> JStr ''parked'') (json_list (jget data ''domains''))"

datatype feature_part = HeaderPart jsstring "json list" | SpinnerPart | FailurePart | EmptyPart | ViewPart json

text \<open>What the page shows: \<open>None\<close> for an unknown feature. The domain is the stored one if it is among the
  choices, else the first.\<close>

definition feature_page :: "jsstring \<Rightarrow> json \<Rightarrow> bool \<Rightarrow> bool \<Rightarrow> json \<Rightarrow> feature_part list option" where
  "feature_page feature data loading failed stored =
     (case map_of features feature of
        None \<Rightarrow> None
      | Some (title, description) \<Rightarrow>
          let domains = feature_domains data;
              domain = selected_domain (domain_names domains) stored
          in Some (HeaderPart title (if domains = [] then [] else domain_names domains) #
                   (if loading then [SpinnerPart] else []) @
                   (if failed then [FailurePart] else []) @
                   (if \<not> loading \<and> \<not> failed \<and> domains = [] then [EmptyPart] else []) @
                   (if truthy domain then [ViewPart domain] else [])))"

lemma shown_domain_not_parked:
  assumes "feature_page feature data loading failed stored = Some parts" "ViewPart d \<in> set parts"
  shows "\<exists>row \<in> set (json_list (jget data ''domains'')). domain_name_of row = d \<and> jget row ''kind'' \<noteq> JStr ''parked''"
proof -
  let ?sel = "selected_domain (domain_names (feature_domains data)) stored"
  have d: "d = ?sel" "truthy ?sel"
    using assms by (auto simp: feature_page_def Let_def split: option.splits if_splits)
  then have "d \<in> set (domain_names (feature_domains data))"
    by (auto simp: selected_domain_def split: if_splits list.splits)
  then show ?thesis by (auto simp: domain_names_def feature_domains_def)
qed

section \<open>The summary of a domain\<close>

definition backPath :: "jsstring \<Rightarrow> jsstring option \<Rightarrow> jsstring" where
  "backPath username scoped = (if scoped = None then ''/domains'' else ''/accounts/'' @ username @ ''?tab=domains'')"

definition domain_item :: "json \<Rightarrow> jsstring \<Rightarrow> json" where
  "domain_item data domain =
     (case List.find (\<lambda>e. jget e ''domain'' = JStr domain) (json_list (jget data ''domains'')) of Some e \<Rightarrow> e | None \<Rightarrow> JUndef)"

definition domain_info :: "json \<Rightarrow> bool \<Rightarrow> jsstring \<Rightarrow> (jsstring \<times> jsstring) list" where
  "domain_info data loading domain =
     (let item = domain_item data domain
      in [(''Domain name'', domain),
          (''Type'', if loading then ''Loading'' @ [ellipsis] else json_text (js_or (jget item ''kind'') (JStr ''Domain''))),
          (''Status'', json_text (js_or (jget item ''status'') (JStr ''active''))),
          (''Document root'', json_text (js_or (jget item ''docroot'') (JStr (''Loading'' @ [ellipsis])))),
          (''PHP version'', if truthy (jget item ''php_version'') then ''PHP '' @ js_String (jget item ''php_version'') else ''Account default'')])"

definition domain_links :: "jsstring \<Rightarrow> jsstring option \<Rightarrow> (jsstring \<times> jsstring) list" where
  "domain_links username scoped =
     (let account = ''/accounts/'' @ username
      in [(''PHP settings'', if scoped = None then ''/php'' else account @ ''/php'')] @
         (if scoped = None then []
          else [(''DNS records'', account @ ''/dns''), (''SSL certificates'', account @ ''/ssl''), (''Redirects'', account @ ''/redirects'')]) @
         [(''Add another domain'', backPath username scoped)])"

section \<open>Stored settings and the forms\<close>

lemma maintenance_round_trip:
  assumes "jget d ''title'' = JStr t" "jget d ''message'' = JStr m" "jget d ''estimated_time'' = JStr e"
    "jget d ''auto_disable_minutes'' = JNum n" "0 < n"
  shows "maintenance_body frac on (maintenance_of d) =
           [(''enabled'', JBool on), (''title'', JStr t), (''message'', JStr m), (''estimated_time'', JStr e),
            (''auto_disable_minutes'', JNum n)]"
proof -
  have "show_int n \<noteq> []" using assms(5) by (simp add: show_int_def)
  then show ?thesis using assms js_Number_show_int[of n frac]
    by (simp add: maintenance_body_def maintenance_of_def texts_of_def json_text_def)
qed



section \<open>What goes wrong\<close>

lemma maintenance_follows_domain:
  assumes "mt_seeded s" "\<not> isPending (mt_set s)" "truthy c"
  shows "let s' = fst (maintenance_step u frac (MaintenanceQuery (Switch d c)) s)
         in maintenance_offered s' (SetMaintenance True) \<and>
            fst (snd (maintenance_step u frac (SetMaintenance True) s')) =
              [ApiPatch (domain_url u d ''/maintenance'') (maintenance_body frac True (mt_form s))]"
  using assms by (auto simp: Let_def seed_maintenance_def tab_ready_def maintenance_url_def)

text \<open>A new bypass link is asked for without the automatic end, which the server then takes for none.\<close>

lemma regenerate_drops_auto_disable: "jget (JObj (regenerate_body data f)) ''auto_disable_minutes'' = JUndef"
  by (simp add: regenerate_body_def texts_of_def)

text \<open>Choosing a code whose page is not loaded yet keeps the text of the previous one, which can be saved
  under the new code.\<close>

lemma page_saved_under_other_code:
  assumes "error_pages_offered s (ChooseCode c)" "ep_content s = Some t" "trim t \<noteq> []" "\<not> isPending (ep_save s)"
    "map_of (ep_cache s) c = None"
  shows "let s' = fst (error_pages_step u (ChooseCode c) s)
         in error_pages_offered s' SavePage \<and>
            fst (snd (error_pages_step u SavePage s')) =
              [ApiPut (domain_url u (tq_domain (ep_query s)) ''/error-pages/'' @ show_int c) [(''content'', JStr t)]]"
  using assms by (simp add: Let_def load_page_def page_data_def error_pages_url_def content_json_def)

text \<open>After a save the editor falls back to the text loaded before, and the answer with the saved text no
  longer changes it: saving again restores the old page.\<close>

lemma saved_page_falls_back:
  assumes "map_of (ep_cache s) (activeCode s) = Some d" "truthy d"
  shows "let s' = fst (error_pages_step u PageSaved s);
             s'' = fst (error_pages_step u (PageAnswer (activeCode s) d') s')
         in ep_content s' = Some (json_text (jget d ''content'')) \<and> ep_content s'' = ep_content s'"
  using assms by (auto simp: Let_def reload_pages_def load_page_def page_data_def)

end
