(* ===== verification/Js_Decimals.thy ===== *)
theory Js_Decimals
  imports Js_Numbers Complex_Main
begin

text \<open>
  The conversion of a text to a number where fractions matter: decimal literals with an optional fraction are read exactly;
  exponents, base prefixes and texts that are no number go to the parameter, None standing for NaN.\<close>

definition fraction_value :: "jsstring \<Rightarrow> rat" where
  "fraction_value ds = of_int (digits_value 0 ds) / 10 ^ length ds"

definition decimal_literal :: "jsstring \<Rightarrow> rat option" where
  "decimal_literal t =
     (let u = unsigned_part t;
          whole = takeWhile is_digit u;
          rest = dropWhile is_digit u;
          fraction = (case rest of [] \<Rightarrow> Some [] | c # cs \<Rightarrow> if c = CHR ''.'' \<and> list_all is_digit cs then Some cs else None)
      in case fraction of
           None \<Rightarrow> None
         | Some ds \<Rightarrow>
             if whole = [] \<and> ds = [] then None
             else let v = of_int (digits_value 0 whole) + fraction_value ds
                  in Some (if startsWith t ''-'' then - v else v))"

definition js_Decimal :: "(jsstring \<Rightarrow> rat option) \<Rightarrow> jsstring \<Rightarrow> rat option" where
  "js_Decimal other s =
     (let t = trim s
      in if t = [] then Some 0 else case decimal_literal t of Some q \<Rightarrow> Some q | None \<Rightarrow> other t)"

lemma decimal_examples:
  "decimal_literal ''0.5'' = Some (1 / 2)" "decimal_literal ''-12'' = Some (- 12)" "decimal_literal ''.25'' = Some (1 / 4)"
  "decimal_literal ''1e3'' = None" "decimal_literal ''.'' = None"
  by code_simp+

end
