(* ===== verification/Email_Page.thy ===== *)
theory Email_Page
  imports Url_Params Databases_Page Preferences Js_Decimals
begin

text \<open>
  \<open>pages/customer/Email.jsx\<close>: the mailboxes of a domain, forwarders, the catch-all address, spam scoring and
  mail routing. The tools are mounted anew whenever the domain changes (the page keys them by it), so the
  domain is a parameter of each of them.
\<close>

section \<open>Which tool is shown\<close>

definition EMAIL_MODES :: "(jsstring \<times> jsstring \<times> (jsstring \<times> jsstring) list) list" where
  "EMAIL_MODES =
     [(''accounts'', ''Email Accounts'', [(''mailboxes'', ''Email accounts'')]),
      (''webmail'', ''Webmail'', [(''webmail'', ''Webmail login'')]),
      (''settings'', ''Email Settings'',
         [(''forwarders'', ''Forwarders''), (''catchall'', ''Catch-all''), (''routing'', ''Mail routing''), (''delivery'', ''Delivery log'')]),
      (''spam'', ''Spam Filters'', [(''spam'', ''Spam scoring''), (''spam-entries'', ''Allow & block lists'')]),
      (''migration'', ''IMAP Migration'', [(''imap-migrate'', ''IMAP migration'')])]"

definition effectiveMode :: "params \<Rightarrow> jsstring \<Rightarrow> jsstring" where
  "effectiveMode q mode = (if map_of q ''webmail'' = Some ''1'' then ''webmail'' else mode)"

definition mode_config :: "jsstring \<Rightarrow> jsstring \<times> (jsstring \<times> jsstring) list" where
  "mode_config m =
     (case map_of EMAIL_MODES m of Some c \<Rightarrow> c | None \<Rightarrow> (''Email Accounts'', [(''mailboxes'', ''Email accounts'')]))"

definition mode_sections :: "params \<Rightarrow> jsstring \<Rightarrow> jsstring list" where
  "mode_sections q mode = map fst (snd (mode_config (effectiveMode q mode)))"

definition activeSection :: "params \<Rightarrow> jsstring \<Rightarrow> jsstring" where
  "activeSection q mode =
     (let ss = mode_sections q mode
      in case map_of q ''tab'' of Some t \<Rightarrow> if t \<in> set ss then t else hd ss | None \<Rightarrow> hd ss)"

definition selectSection :: "jsstring \<Rightarrow> jsstring \<Rightarrow> params \<Rightarrow> params" where
  "selectSection mode section q =
     (let next = param_delete ''webmail'' q
      in if section = hd (mode_sections q mode) then param_delete ''tab'' next else param_set ''tab'' section next)"

definition picker_shown :: "params \<Rightarrow> jsstring \<Rightarrow> bool" where
  "picker_shown q mode \<longleftrightarrow> \<not> length (mode_sections q mode) < 2"

lemma mode_sections_nonempty: "mode_sections q mode \<noteq> []"
proof -
  have "list_all (\<lambda>(m, c). snd c \<noteq> []) EMAIL_MODES" by code_simp
  then have h: "(m, c) \<in> set EMAIL_MODES \<Longrightarrow> snd c \<noteq> []" for m c by (auto simp: list_all_iff)
  show ?thesis
  proof (cases "map_of EMAIL_MODES (effectiveMode q mode)")
    case (Some c)
    with h[OF map_of_mem[OF Some]] show ?thesis by (simp add: mode_sections_def mode_config_def)
  qed (simp add: mode_sections_def mode_config_def)
qed

lemma webmail_has_one_section: "mode_sections q ''webmail'' = [''webmail'']"
  by (simp add: mode_sections_def effectiveMode_def mode_config_def EMAIL_MODES_def)

text \<open>Choosing a tool in the picker shows that tool: what the address then says is read back as the section
  chosen, and the page always shows one of its own sections.
\<close>

theorem section_choice_round_trip:
  assumes "picker_shown q mode" "section \<in> set (mode_sections q mode)"
  shows "activeSection (selectSection mode section q) mode = section \<and> activeSection q mode \<in> set (mode_sections q mode)"
proof -
  have not_webmail: "map_of q ''webmail'' \<noteq> Some ''1''"
  proof
    assume "map_of q ''webmail'' = Some ''1''"
    then have "mode_sections q mode = mode_sections q ''webmail''" by (simp add: mode_sections_def effectiveMode_def)
    with assms(1) show False by (simp add: picker_shown_def webmail_has_one_section)
  qed
  have same: "map_of q' ''webmail'' = None \<Longrightarrow> mode_sections q' mode = mode_sections q mode" for q'
    using not_webmail by (simp add: mode_sections_def effectiveMode_def)
  have "activeSection (selectSection mode section q) mode = section"
  proof (cases "section = hd (mode_sections q mode)")
    case True
    let ?q = "param_delete ''tab'' (param_delete ''webmail'' q)"
    have "map_of ?q ''webmail'' = None" "map_of ?q ''tab'' = None" by (simp_all add: map_of_param_delete)
    with True same[of ?q] show ?thesis by (simp add: selectSection_def activeSection_def)
  next
    case False
    let ?q = "param_set ''tab'' section (param_delete ''webmail'' q)"
    have "map_of ?q ''webmail'' = None" "map_of ?q ''tab'' = Some section"
      by (simp_all add: map_of_param_delete map_of_param_set)
    with False same[of ?q] assms(2) show ?thesis by (simp add: selectSection_def activeSection_def)
  qed
  moreover have "activeSection q mode \<in> set (mode_sections q mode)"
    using mode_sections_nonempty[of q mode] by (auto simp: activeSection_def Let_def split: option.split)
  ultimately show ?thesis by blast
qed

theorem section_choice_round_trip_witness:
  "activeSection (selectSection ''settings'' ''routing'' [(''tab'', ''catchall''), (''x'', ''1'')]) ''settings'' = ''routing''"
proof -
  have "picker_shown [(''tab'', ''catchall''), (''x'', ''1'')] ''settings''"
    "''routing'' \<in> set (mode_sections [(''tab'', ''catchall''), (''x'', ''1'')] ''settings'')"
    by code_simp+
  from section_choice_round_trip[OF this] show ?thesis ..
qed

section \<open>Mailboxes\<close>

record mailbox_form =
  mb_local :: jsstring
  mb_password :: jsstring
  mb_quota :: jsstring

definition empty_mailbox :: mailbox_form where
  "empty_mailbox = \<lparr>mb_local = [], mb_password = [], mb_quota = ''1''\<rparr>"

record mailboxes_tab =
  ml_data :: json
  ml_createOpen :: bool
  ml_form :: mailbox_form
  ml_toDelete :: "jsstring option"
  ml_selected :: json
  ml_password :: jsstring
  ml_quota :: jsstring
  ml_set :: "jsstring list"
  ml_bulkOpen :: bool
  ml_create :: mutation
  ml_delete :: mutation
  ml_bulk :: mutation
  ml_active :: mutation
  ml_quotaMut :: mutation
  ml_passwordMut :: mutation

definition initial_mailboxes :: mailboxes_tab where
  "initial_mailboxes =
     \<lparr>ml_data = JUndef, ml_createOpen = False, ml_form = empty_mailbox, ml_toDelete = None, ml_selected = JNull,
      ml_password = [], ml_quota = ''1'', ml_set = [], ml_bulkOpen = False, ml_create = idle, ml_delete = idle,
      ml_bulk = idle, ml_active = idle, ml_quotaMut = idle, ml_passwordMut = idle\<rparr>"

definition mailbox_rows :: "mailboxes_tab \<Rightarrow> json list" where
  "mailbox_rows s = json_list (jget (ml_data s) ''mailboxes'')"

text \<open>A quota in gigabytes as typed, in megabytes as sent. NaN is null in the body.\<close>

definition quota_mb :: "(jsstring \<Rightarrow> rat option) \<Rightarrow> jsstring \<Rightarrow> json" where
  "quota_mb other t = (case js_Decimal other t of Some q \<Rightarrow> JNum (js_round (q * 1024)) | None \<Rightarrow> JNull)"

definition quota_button_disabled :: "(jsstring \<Rightarrow> rat option) \<Rightarrow> jsstring \<Rightarrow> bool" where
  "quota_button_disabled other t \<longleftrightarrow> t = [] \<or> (case js_Decimal other t of Some q \<Rightarrow> q \<le> 0 \<or> q > 100 | None \<Rightarrow> False)"

text \<open>The browser's check of the number field of the form: minimum and step a megabyte, maximum 100, required.\<close>

definition quota_field_ok :: "(jsstring \<Rightarrow> rat option) \<Rightarrow> jsstring \<Rightarrow> bool" where
  "quota_field_ok other t \<longleftrightarrow>
     t \<noteq> [] \<and> (case js_Decimal other t of
                 Some q \<Rightarrow> 1 / 1024 \<le> q \<and> q \<le> 100 \<and> of_int (js_round (q * 1024)) = q * 1024
               | None \<Rightarrow> False)"

definition create_body :: "(jsstring \<Rightarrow> rat option) \<Rightarrow> jsstring \<Rightarrow> mailbox_form \<Rightarrow> body" where
  "create_body other domain f =
     [(''domain'', JStr domain), (''local_part'', JStr (mb_local f)), (''password'', JStr (mb_password f)),
      (''quota_mb'', quota_mb other (mb_quota f))]"

definition mailbox_url :: "jsstring \<Rightarrow> jsstring \<Rightarrow> jsstring" where
  "mailbox_url domain local_part = ''/api/v1/mail/domains/'' @ encodeURIComponent domain @ ''/mailboxes/'' @ encodeURIComponent local_part"

definition plain_mailbox_url :: "jsstring \<Rightarrow> jsstring \<Rightarrow> jsstring" where
  "plain_mailbox_url domain local_part = ''/api/v1/mail/domains/'' @ domain @ ''/mailboxes/'' @ local_part"

definition selected_local :: "mailboxes_tab \<Rightarrow> jsstring" where
  "selected_local s = js_String (jget (ml_selected s) ''local_part'')"

datatype mailbox_event =
    MailboxesArrive json
  | OpenCreate | CloseCreate | TypeMailbox mailbox_form | SubmitMailbox | MailboxCreated | CreateFails jsstring
  | Manage json | TypeQuota jsstring | UpdateQuota | QuotaUpdated json | QuotaFails jsstring
  | TypeNewPassword jsstring | SubmitPassword | PasswordUpdated | PasswordFails jsstring | CloseManage
  | AskDelete json | KeepMailbox | ConfirmDelete jsstring | MailboxDeleted | DeleteFails jsstring
  | ToggleActive json | ActiveChanged json | ActiveFails jsstring
  | Tick jsstring bool | TickAll | Untick | OpenBulk | CloseBulk | ConfirmBulk | BulkSettles "(jsstring \<times> jsstring option option) list"

definition free :: "mailboxes_tab \<Rightarrow> bool" where
  "free s \<longleftrightarrow> \<not> ml_createOpen s \<and> ml_toDelete s = None \<and> \<not> truthy (ml_selected s) \<and> \<not> ml_bulkOpen s"

fun mailbox_offered :: "(jsstring \<Rightarrow> rat option) \<Rightarrow> jsstring \<Rightarrow> mailboxes_tab \<Rightarrow> mailbox_event \<Rightarrow> bool" where
  "mailbox_offered other d s (MailboxesArrive v) = True"
| "mailbox_offered other d s OpenCreate = free s"
| "mailbox_offered other d s CloseCreate = ml_createOpen s"
| "mailbox_offered other d s (TypeMailbox f) = ml_createOpen s"
| "mailbox_offered other d s SubmitMailbox =
     (ml_createOpen s \<and> \<not> isPending (ml_create s) \<and> mb_local (ml_form s) \<noteq> [] \<and> 12 \<le> length (mb_password (ml_form s)) \<and>
      quota_field_ok other (mb_quota (ml_form s)))"
| "mailbox_offered other d s MailboxCreated = isPending (ml_create s)"
| "mailbox_offered other d s (CreateFails e) = isPending (ml_create s)"
| "mailbox_offered other d s (Manage r) = (free s \<and> r \<in> set (mailbox_rows s))"
| "mailbox_offered other d s (TypeQuota t) = truthy (ml_selected s)"
| "mailbox_offered other d s UpdateQuota =
     (truthy (ml_selected s) \<and> \<not> quota_button_disabled other (ml_quota s) \<and> \<not> isPending (ml_quotaMut s))"
| "mailbox_offered other d s (QuotaUpdated v) = isPending (ml_quotaMut s)"
| "mailbox_offered other d s (QuotaFails e) = isPending (ml_quotaMut s)"
| "mailbox_offered other d s (TypeNewPassword p) = (truthy (ml_selected s) \<and> \<not> isPending (ml_passwordMut s))"
| "mailbox_offered other d s SubmitPassword =
     (truthy (ml_selected s) \<and> 12 \<le> length (ml_password s) \<and> \<not> isPending (ml_passwordMut s))"
| "mailbox_offered other d s PasswordUpdated = isPending (ml_passwordMut s)"
| "mailbox_offered other d s (PasswordFails e) = isPending (ml_passwordMut s)"
| "mailbox_offered other d s CloseManage = (truthy (ml_selected s) \<and> \<not> isPending (ml_passwordMut s))"
| "mailbox_offered other d s (AskDelete r) = (free s \<and> r \<in> set (mailbox_rows s))"
| "mailbox_offered other d s KeepMailbox = (ml_toDelete s \<noteq> None \<and> \<not> isPending (ml_delete s))"
| "mailbox_offered other d s (ConfirmDelete t) =
     (case ml_toDelete s of Some l \<Rightarrow> t = l @ ''@'' @ d \<and> \<not> isPending (ml_delete s) | None \<Rightarrow> False)"
| "mailbox_offered other d s MailboxDeleted = isPending (ml_delete s)"
| "mailbox_offered other d s (DeleteFails e) = isPending (ml_delete s)"
| "mailbox_offered other d s (ToggleActive r) = (free s \<and> r \<in> set (mailbox_rows s) \<and> \<not> isPending (ml_active s))"
| "mailbox_offered other d s (ActiveChanged v) = isPending (ml_active s)"
| "mailbox_offered other d s (ActiveFails e) = isPending (ml_active s)"
| "mailbox_offered other d s (Tick l b) =
     (free s \<and> list_ex (\<lambda>r. jget r ''local_part'' = JStr l) (mailbox_rows s) \<and> b = (l \<notin> set (ml_set s)))"
| "mailbox_offered other d s TickAll = (free s \<and> ml_set s \<noteq> [] \<and> length (ml_set s) < length (mailbox_rows s))"
| "mailbox_offered other d s Untick = (free s \<and> ml_set s \<noteq> [])"
| "mailbox_offered other d s OpenBulk = (free s \<and> ml_set s \<noteq> [])"
| "mailbox_offered other d s CloseBulk = (ml_bulkOpen s \<and> \<not> isPending (ml_bulk s))"
| "mailbox_offered other d s ConfirmBulk = (ml_bulkOpen s \<and> \<not> isPending (ml_bulk s))"
| "mailbox_offered other d s (BulkSettles rs) = (isPending (ml_bulk s) \<and> map fst rs = ml_set s)"

text \<open>The effect on the mailbox that is managed: its quota in gigabytes is shown. \<open>shown\<close> renders a number.\<close>

definition select_mailbox :: "(rat \<Rightarrow> jsstring) \<Rightarrow> json \<Rightarrow> mailboxes_tab \<Rightarrow> mailboxes_tab" where
  "select_mailbox shown r s =
     s\<lparr>ml_selected := r,
       ml_quota := (if truthy r then (case jget r ''quota_mb'' of JNum n \<Rightarrow> shown (of_int n / 1024) | _ \<Rightarrow> ''NaN'') else ml_quota s)\<rparr>"

definition refresh_mailboxes :: "jsstring \<Rightarrow> page_effect" where
  "refresh_mailboxes d = Invalidate [''mailboxes'', d]"

fun mailbox_step :: "(rat \<Rightarrow> jsstring) \<Rightarrow> (jsstring \<Rightarrow> rat option) \<Rightarrow> jsstring \<Rightarrow> jsstring \<Rightarrow> mailbox_event \<Rightarrow> mailboxes_tab
    \<Rightarrow> mailboxes_tab \<times> api_request list \<times> page_effect list" where
  "mailbox_step shown other u d (MailboxesArrive v) s = (s\<lparr>ml_data := v\<rparr>, [], [])"
| "mailbox_step shown other u d OpenCreate s = (s\<lparr>ml_createOpen := True\<rparr>, [], [])"
| "mailbox_step shown other u d CloseCreate s = (s\<lparr>ml_createOpen := False\<rparr>, [], [])"
| "mailbox_step shown other u d (TypeMailbox f) s = (s\<lparr>ml_form := f\<rparr>, [], [])"
| "mailbox_step shown other u d SubmitMailbox s =
     (s\<lparr>ml_create := mutate (ml_create s)\<rparr>, [ApiPost ''/api/v1/mail/mailboxes'' (create_body other d (ml_form s))], [])"
| "mailbox_step shown other u d MailboxCreated s =
     (s\<lparr>ml_create := settle_ok (ml_create s), ml_createOpen := False, ml_form := empty_mailbox\<rparr>, [],
      [Toast Success ''Mailbox created'' [], refresh_mailboxes d])"
| "mailbox_step shown other u d (CreateFails e) s =
     (s\<lparr>ml_create := settle_error e (ml_create s)\<rparr>, [], [Toast ErrorTone ''Could not create mailbox'' e])"
| "mailbox_step shown other u d (Manage r) s = (select_mailbox shown r s, [], [])"
| "mailbox_step shown other u d (TypeQuota t) s = (s\<lparr>ml_quota := t\<rparr>, [], [])"
| "mailbox_step shown other u d UpdateQuota s =
     (s\<lparr>ml_quotaMut := mutate (ml_quotaMut s)\<rparr>,
      [ApiPatch (mailbox_url d (selected_local s) @ ''/quota'') [(''quota_mb'', quota_mb other (ml_quota s))]], [])"
| "mailbox_step shown other u d (QuotaUpdated v) s =
     (select_mailbox shown (with_fields (ml_selected s) [(''quota_mb'', jget v ''quota_mb'')]) (s\<lparr>ml_quotaMut := settle_ok (ml_quotaMut s)\<rparr>), [],
      [Toast Success ''Mailbox quota updated'' [], refresh_mailboxes d])"
| "mailbox_step shown other u d (QuotaFails e) s =
     (s\<lparr>ml_quotaMut := settle_error e (ml_quotaMut s)\<rparr>, [], [Toast ErrorTone ''Could not update quota'' e])"
| "mailbox_step shown other u d (TypeNewPassword p) s = (s\<lparr>ml_password := p\<rparr>, [], [])"
| "mailbox_step shown other u d SubmitPassword s =
     (s\<lparr>ml_passwordMut := mutate (ml_passwordMut s)\<rparr>,
      [ApiPatch (''/api/v1/accounts/'' @ encodeURIComponent u @ ''/email/'' @ encodeURIComponent (selected_local s) @ ''/password'')
         [(''domain'', JStr d), (''password'', JStr (ml_password s))]], [])"
| "mailbox_step shown other u d PasswordUpdated s =
     (s\<lparr>ml_passwordMut := settle_ok (ml_passwordMut s), ml_password := []\<rparr>, [], [Toast Success ''Mailbox password updated'' []])"
| "mailbox_step shown other u d (PasswordFails e) s =
     (s\<lparr>ml_passwordMut := settle_error e (ml_passwordMut s)\<rparr>, [], [Toast ErrorTone ''Could not update password'' e])"
| "mailbox_step shown other u d CloseManage s = (s\<lparr>ml_selected := JNull, ml_password := []\<rparr>, [], [])"
| "mailbox_step shown other u d (AskDelete r) s = (s\<lparr>ml_toDelete := Some (js_String (jget r ''local_part''))\<rparr>, [], [])"
| "mailbox_step shown other u d KeepMailbox s = (s\<lparr>ml_toDelete := None\<rparr>, [], [])"
| "mailbox_step shown other u d (ConfirmDelete t) s =
     (s\<lparr>ml_delete := mutate (ml_delete s)\<rparr>, (case ml_toDelete s of Some l \<Rightarrow> [ApiDelete (plain_mailbox_url d l)] | None \<Rightarrow> []), [])"
| "mailbox_step shown other u d MailboxDeleted s =
     (s\<lparr>ml_delete := settle_ok (ml_delete s), ml_toDelete := None\<rparr>, [], [Toast Success ''Mailbox deleted'' [], refresh_mailboxes d])"
| "mailbox_step shown other u d (DeleteFails e) s =
     (s\<lparr>ml_delete := settle_error e (ml_delete s)\<rparr>, [], [Toast ErrorTone ''Could not delete mailbox'' e])"
| "mailbox_step shown other u d (ToggleActive r) s =
     (s\<lparr>ml_active := mutate (ml_active s)\<rparr>,
      [ApiPatch (mailbox_url d (js_String (jget r ''local_part''))) [(''active'', JBool (\<not> truthy (jget r ''active'')))]], [])"
| "mailbox_step shown other u d (ActiveChanged v) s =
     (let s' = s\<lparr>ml_active := settle_ok (ml_active s)\<rparr>
      in (if truthy (ml_selected s) \<and> jget (ml_selected s) ''local_part'' = jget v ''local_part''
          then select_mailbox shown (with_fields (ml_selected s) [(''active'', jget v ''active'')]) s' else s'),
      [], [Toast Success (if truthy (jget v ''active'') then ''Mailbox unsuspended'' else ''Mailbox suspended'') [], refresh_mailboxes d])"
| "mailbox_step shown other u d (ActiveFails e) s =
     (s\<lparr>ml_active := settle_error e (ml_active s)\<rparr>, [], [Toast ErrorTone ''Could not update mailbox status'' e])"
| "mailbox_step shown other u d (Tick l b) s = (s\<lparr>ml_set := toggle_member l b (ml_set s)\<rparr>, [], [])"
| "mailbox_step shown other u d TickAll s =
     (s\<lparr>ml_set := remdups (map (\<lambda>r. js_String (jget r ''local_part'')) (mailbox_rows s))\<rparr>, [], [])"
| "mailbox_step shown other u d Untick s = (s\<lparr>ml_set := []\<rparr>, [], [])"
| "mailbox_step shown other u d OpenBulk s = (s\<lparr>ml_bulkOpen := True\<rparr>, [], [])"
| "mailbox_step shown other u d CloseBulk s = (s\<lparr>ml_bulkOpen := False\<rparr>, [], [])"
| "mailbox_step shown other u d ConfirmBulk s =
     (s\<lparr>ml_bulk := mutate (ml_bulk s)\<rparr>, map (\<lambda>l. ApiDelete (plain_mailbox_url d l)) (ml_set s), [])"
| "mailbox_step shown other u d (BulkSettles rs) s =
     (case bulk_result (map (\<lambda>(l, r). (l @ ''@'' @ d, r)) rs) of
        Inl e \<Rightarrow> (s\<lparr>ml_bulk := settle_error e (ml_bulk s)\<rparr>, [], [Toast ErrorTone ''Could not delete selected mailboxes'' e])
      | Inr n \<Rightarrow>
          (s\<lparr>ml_bulk := settle_ok (ml_bulk s), ml_set := [], ml_bulkOpen := False\<rparr>, [],
           [Toast Success (show_nat n @ '' mailbox'' @ (if n = 1 then [] else ''es'') @ '' deleted'') [], refresh_mailboxes d]))"

section \<open>What is sent about mailboxes\<close>

definition int_between :: "int \<Rightarrow> int \<Rightarrow> json \<Rightarrow> bool" where
  "int_between lo hi v \<longleftrightarrow> (case v of JNum n \<Rightarrow> lo \<le> n \<and> n \<le> hi | _ \<Rightarrow> False)"

definition long_text :: "json \<Rightarrow> bool" where
  "long_text v \<longleftrightarrow> (case v of JStr p \<Rightarrow> 12 \<le> length p | _ \<Rightarrow> False)"

definition mailbox_request_ok :: "api_request \<Rightarrow> bool" where
  "mailbox_request_ok r =
     (case r of
        ApiPost url b \<Rightarrow>
          url = ''/api/v1/mail/mailboxes'' \<and> int_between 1 102400 (jget (JObj b) ''quota_mb'') \<and> long_text (jget (JObj b) ''password'') \<and>
          jget (JObj b) ''local_part'' \<noteq> JStr []
      | ApiPatch url b \<Rightarrow>
          (jget (JObj b) ''quota_mb'' = JUndef \<or> jget (JObj b) ''quota_mb'' = JNull \<or> int_between 0 102400 (jget (JObj b) ''quota_mb'')) \<and>
          (jget (JObj b) ''password'' = JUndef \<or> long_text (jget (JObj b) ''password''))
      | ApiDelete url \<Rightarrow> startsWith url ''/api/v1/mail/domains/''
      | _ \<Rightarrow> False)"

lemma quota_created:
  assumes "quota_field_ok other t"
  shows "int_between 1 102400 (quota_mb other t)"
proof -
  obtain q where q: "js_Decimal other t = Some q" "1 / 1024 \<le> q" "q \<le> 100" "of_int (js_round (q * 1024)) = q * 1024"
    using assms by (auto simp: quota_field_ok_def split: option.splits)
  then have "(1::rat) \<le> of_int (js_round (q * 1024))" "of_int (js_round (q * 1024)) \<le> (102400::rat)" by simp_all
  then have "1 \<le> js_round (q * 1024)" "js_round (q * 1024) \<le> 102400" by linarith+
  with q(1) show ?thesis by (simp add: int_between_def quota_mb_def)
qed

lemma quota_updated:
  assumes "\<not> quota_button_disabled other t"
  shows "quota_mb other t = JNull \<or> int_between 0 102400 (quota_mb other t)"
proof (cases "js_Decimal other t")
  case (Some q)
  with assms have q: "0 < q" "q \<le> 100" by (simp_all add: quota_button_disabled_def)
  have "0 \<le> js_round (q * 1024)" using q by (simp add: js_round_def)
  moreover have "q * 1024 + 1 / 2 < 102401" using q by linarith
  then have "js_round (q * 1024) < 102401" unfolding js_round_def by (subst floor_less_iff) simp
  ultimately show ?thesis using Some by (simp add: int_between_def quota_mb_def)
qed (simp add: quota_mb_def)

lemma bulk_result_kept: "fst (snd (mailbox_step shown other u d (BulkSettles rs) s)) = []"
  by (simp split: sum.split)

lemma plain_url_prefix: "startsWith (plain_mailbox_url d l) ''/api/v1/mail/domains/''"
  using startsWith_append[of "''/api/v1/mail/domains/''" "d @ ''/mailboxes/'' @ l"] by (simp add: plain_mailbox_url_def)

lemma mailbox_good_step:
  "mailbox_offered other d s e \<Longrightarrow> list_all mailbox_request_ok (fst (snd (mailbox_step shown other u d e s)))"
proof (cases e)
  case (BulkSettles rs)
  show ?thesis unfolding BulkSettles bulk_result_kept by simp
next
  case SubmitMailbox
  assume "mailbox_offered other d s e"
  with SubmitMailbox show ?thesis
    by (simp add: mailbox_request_ok_def create_body_def quota_created long_text_def)
next
  case UpdateQuota
  assume "mailbox_offered other d s e"
  with UpdateQuota quota_updated[of other "ml_quota s"] show ?thesis by (auto simp: mailbox_request_ok_def)
qed (auto simp: mailbox_request_ok_def long_text_def plain_url_prefix list_all_iff Let_def split: option.split)

interpretation mailboxes: page_contract initial_mailboxes "mailbox_offered other d" "mailbox_step shown other u d" "\<lambda>s. True" mailbox_request_ok
  by unfold_locales (simp_all only: mailbox_good_step)

text \<open>Every mailbox asked for has a name, a password of at least twelve characters and between one and 102400
  megabytes; a new quota is at most that, a new password as long; and a mailbox is deleted only after its full
  address was typed.
\<close>

theorem mailbox_requests_bounded:
  assumes "page_reach initial_mailboxes (mailbox_offered other d) (mailbox_step shown other u d) s sent"
  shows "list_all mailbox_request_ok sent \<and>
         (\<forall>t. mailbox_offered other d s (ConfirmDelete t) \<longrightarrow>
            (\<exists>l. ml_toDelete s = Some l \<and> t = l @ ''@'' @ d \<and>
                 fst (snd (mailbox_step shown other u d (ConfirmDelete t) s)) = [ApiDelete (plain_mailbox_url d l)]))"
proof -
  have "list_all mailbox_request_ok sent" using mailboxes.reach_inv[OF assms] by blast
  moreover have "\<exists>l. ml_toDelete s = Some l \<and> t = l @ ''@'' @ d \<and>
      fst (snd (mailbox_step shown other u d (ConfirmDelete t) s)) = [ApiDelete (plain_mailbox_url d l)]"
    if "mailbox_offered other d s (ConfirmDelete t)" for t
    using that by (auto split: option.splits)
  ultimately show ?thesis by blast
qed

definition no_decimal :: "jsstring \<Rightarrow> rat option" where "no_decimal t = None"

definition mailbox_script :: "mailbox_event list" where
  "mailbox_script =
     [OpenCreate, TypeMailbox \<lparr>mb_local = ''ann'', mb_password = ''0123456789ab'', mb_quota = ''0.5''\<rparr>, SubmitMailbox]"

definition created_request :: api_request where
  "created_request =
     ApiPost ''/api/v1/mail/mailboxes''
       [(''domain'', JStr ''a.com''), (''local_part'', JStr ''ann''), (''password'', JStr ''0123456789ab''), (''quota_mb'', JNum 512)]"

theorem mailbox_requests_bounded_witness: "list_all mailbox_request_ok [created_request]"
proof -
  have "map_option snd (page_run (mailbox_offered no_decimal ''a.com'') (mailbox_step (\<lambda>q. []) no_decimal ''joe'' ''a.com'') mailbox_script
      (initial_mailboxes, [])) = Some [created_request]"
    by code_simp
  then obtain s where "page_run (mailbox_offered no_decimal ''a.com'') (mailbox_step (\<lambda>q. []) no_decimal ''joe'' ''a.com'') mailbox_script
      (initial_mailboxes, []) = Some (s, [created_request])"
    by auto
  from mailbox_requests_bounded[OF scripted_reach[OF this]] show ?thesis by blast
qed

text \<open>The button beside the quota of an existing mailbox is no submission: less than half a megabyte passes
  its test and is sent as zero.\<close>

lemma tiny_quota_sent_as_zero:
  "\<not> quota_button_disabled no_decimal ''0.0001'' \<and> quota_mb no_decimal ''0.0001'' = JNum 0"
  by code_simp

text \<open>The answer to a quota change brings a dialog back that was closed meanwhile, about no mailbox: its
  password form then addresses a mailbox of the name undefined.\<close>

lemma closed_dialog_returns:
  assumes "truthy (ml_selected s)" "\<not> isPending (ml_passwordMut s)"
  shows "let s' = fst (mailbox_step shown other u d (QuotaUpdated v) (fst (mailbox_step shown other u d CloseManage s)))
         in mailbox_offered other d s CloseManage \<and> truthy (ml_selected s') \<and> selected_local s' = ''undefined''"
  using assms by (simp add: Let_def select_mailbox_def selected_local_def with_fields_def json_fields_def)

text \<open>Whatever changes the mailbox that is managed writes its stored quota over the one being typed.\<close>

lemma answer_overwrites_quota:
  assumes "truthy (ml_selected s)" "jget (ml_selected s) ''local_part'' = jget v ''local_part''"
    "jget (ml_selected s) ''quota_mb'' = JNum n"
  shows "ml_quota (fst (mailbox_step shown other u d (ActiveChanged v) (s\<lparr>ml_quota := t\<rparr>))) = shown (of_int n / 1024)"
  using assms by (simp add: Let_def select_mailbox_def)

end
