(* ===== verification/Email_Tools.thy ===== *)
theory Email_Tools
  imports Email_Page
begin

text \<open>
  The other tools of \<open>pages/customer/Email.jsx\<close>: the launch of webmail, forwarders, the catch-all address,
  spam scoring, mail routing, the lists of a mailbox and the migration from another server.
\<close>

section \<open>Webmail\<close>

text \<open>A launch is awaited with the address it is for and whether its window could be opened.\<close>

record webmail =
  wm_launching :: jsstring
  wm_calls :: "(jsstring \<times> bool) list"

definition initial_webmail :: webmail where
  "initial_webmail = \<lparr>wm_launching = [], wm_calls = []\<rparr>"

definition strip_slash :: "jsstring \<Rightarrow> jsstring" where
  "strip_slash s = (if endsWith s ''/'' then butlast s else s)"

definition login_form :: "jsstring \<Rightarrow> json \<Rightarrow> api_request" where
  "login_form address launch =
     ApiPost (strip_slash (json_text (jget launch ''url'')) @ ''/?_task=login&_action=login'')
       [(''_task'', JStr ''login''), (''_action'', JStr ''login''), (''_user'', JStr address), (''_pass'', JStr ''boron-sso''),
        (''_boron_token'', jget launch ''token'')]"

datatype webmail_event = OpenWebmail json bool | WebmailAnswers "jsstring \<times> bool" json | WebmailFails "jsstring \<times> bool" jsstring

fun webmail_offered :: "json list \<Rightarrow> jsstring \<Rightarrow> webmail \<Rightarrow> webmail_event \<Rightarrow> bool" where
  "webmail_offered boxes d s (OpenWebmail r popup) =
     (r \<in> set boxes \<and> truthy (jget r ''active'') \<and> wm_launching s \<noteq> js_String (jget r ''local_part'') @ ''@'' @ d)"
| "webmail_offered boxes d s (WebmailAnswers c v) = (c \<in> set (wm_calls s))"
| "webmail_offered boxes d s (WebmailFails c e) = (c \<in> set (wm_calls s))"

fun webmail_step :: "jsstring \<Rightarrow> jsstring \<Rightarrow> webmail_event \<Rightarrow> webmail \<Rightarrow> webmail \<times> api_request list \<times> page_effect list" where
  "webmail_step u d (OpenWebmail r popup) s =
     (if \<not> truthy (jget r ''active'') then (s, [], [])
      else let l = js_String (jget r ''local_part''); address = l @ ''@'' @ d
           in (s\<lparr>wm_launching := address, wm_calls := (address, popup) # wm_calls s\<rparr>,
               [OpenWindow [],
                ApiPost (''/api/v1/accounts/'' @ encodeURIComponent u @ ''/email/'' @ encodeURIComponent l @ ''/webmail-session'') [(''domain'', JStr d)]],
               []))"
| "webmail_step u d (WebmailAnswers c v) s =
     (s\<lparr>wm_launching := [], wm_calls := remove1 c (wm_calls s)\<rparr>, [login_form (fst c) v], [])"
| "webmail_step u d (WebmailFails c e) s =
     (s\<lparr>wm_launching := [], wm_calls := remove1 c (wm_calls s)\<rparr>, [], [Toast ErrorTone ''Could not open webmail'' e])"

section \<open>Forwarders\<close>

record forwarders_tab =
  fw_data :: json
  fw_createOpen :: bool
  fw_local :: jsstring
  fw_destination :: jsstring
  fw_toDelete :: "json option"
  fw_create :: mutation
  fw_delete :: mutation

definition initial_forwarders :: forwarders_tab where
  "initial_forwarders =
     \<lparr>fw_data = JUndef, fw_createOpen = False, fw_local = [], fw_destination = [], fw_toDelete = None, fw_create = idle, fw_delete = idle\<rparr>"

definition email_url :: "jsstring \<Rightarrow> jsstring \<Rightarrow> jsstring \<Rightarrow> jsstring" where
  "email_url u d tool = ''/api/v1/accounts/'' @ u @ ''/domains/'' @ d @ ''/email/'' @ tool"

datatype forwarders_event =
    ForwardsArrive json | OpenForward | CloseForward | TypeForward jsstring jsstring | SubmitForward | ForwardCreated | ForwardFails jsstring
  | AskForward json | KeepForward | DeleteForward | ForwardDeleted | ForwardStays jsstring

fun forwarders_offered :: "(jsstring \<Rightarrow> bool) \<Rightarrow> forwarders_tab \<Rightarrow> forwarders_event \<Rightarrow> bool" where
  "forwarders_offered valid_email s (ForwardsArrive v) = True"
| "forwarders_offered valid_email s OpenForward = (\<not> fw_createOpen s \<and> fw_toDelete s = None)"
| "forwarders_offered valid_email s CloseForward = fw_createOpen s"
| "forwarders_offered valid_email s (TypeForward l t) = fw_createOpen s"
| "forwarders_offered valid_email s SubmitForward =
     (fw_createOpen s \<and> fw_local s \<noteq> [] \<and> fw_destination s \<noteq> [] \<and> valid_email (fw_destination s) \<and> \<not> isPending (fw_create s))"
| "forwarders_offered valid_email s ForwardCreated = isPending (fw_create s)"
| "forwarders_offered valid_email s (ForwardFails e) = isPending (fw_create s)"
| "forwarders_offered valid_email s (AskForward r) =
     (\<not> fw_createOpen s \<and> fw_toDelete s = None \<and> r \<in> set (json_list (jget (fw_data s) ''forwards'')))"
| "forwarders_offered valid_email s KeepForward = (fw_toDelete s \<noteq> None \<and> \<not> isPending (fw_delete s))"
| "forwarders_offered valid_email s DeleteForward = (fw_toDelete s \<noteq> None \<and> \<not> isPending (fw_delete s))"
| "forwarders_offered valid_email s ForwardDeleted = isPending (fw_delete s)"
| "forwarders_offered valid_email s (ForwardStays e) = isPending (fw_delete s)"

fun forwarders_step :: "jsstring \<Rightarrow> jsstring \<Rightarrow> forwarders_event \<Rightarrow> forwarders_tab \<Rightarrow> forwarders_tab \<times> api_request list \<times> page_effect list" where
  "forwarders_step u d (ForwardsArrive v) s = (s\<lparr>fw_data := v\<rparr>, [], [])"
| "forwarders_step u d OpenForward s = (s\<lparr>fw_createOpen := True\<rparr>, [], [])"
| "forwarders_step u d CloseForward s = (s\<lparr>fw_createOpen := False\<rparr>, [], [])"
| "forwarders_step u d (TypeForward l t) s = (s\<lparr>fw_local := l, fw_destination := t\<rparr>, [], [])"
| "forwarders_step u d SubmitForward s =
     (s\<lparr>fw_create := mutate (fw_create s)\<rparr>,
      [ApiPost (email_url u d ''forwarders'') [(''local_part'', JStr (fw_local s)), (''destination'', JStr (fw_destination s))]], [])"
| "forwarders_step u d ForwardCreated s =
     (s\<lparr>fw_create := settle_ok (fw_create s), fw_createOpen := False, fw_local := [], fw_destination := []\<rparr>, [],
      [Toast Success ''Forwarder created'' [], Invalidate [''forwarders'', u, d]])"
| "forwarders_step u d (ForwardFails e) s =
     (s\<lparr>fw_create := settle_error e (fw_create s)\<rparr>, [], [Toast ErrorTone ''Could not create forwarder'' e])"
| "forwarders_step u d (AskForward r) s = (s\<lparr>fw_toDelete := Some r\<rparr>, [], [])"
| "forwarders_step u d KeepForward s = (s\<lparr>fw_toDelete := None\<rparr>, [], [])"
| "forwarders_step u d DeleteForward s =
     (s\<lparr>fw_delete := mutate (fw_delete s)\<rparr>,
      (case fw_toDelete s of
         Some r \<Rightarrow> [ApiDeleteWith (email_url u d ''forwarders'') [(''local_part'', jget r ''local_part''), (''destination'', jget r ''destination'')]]
       | None \<Rightarrow> []), [])"
| "forwarders_step u d ForwardDeleted s =
     (s\<lparr>fw_delete := settle_ok (fw_delete s), fw_toDelete := None\<rparr>, [],
      [Toast Success ''Forwarder deleted'' [], Invalidate [''forwarders'', u, d]])"
| "forwarders_step u d (ForwardStays e) s =
     (s\<lparr>fw_delete := settle_error e (fw_delete s)\<rparr>, [], [Toast ErrorTone ''Could not delete forwarder'' e])"

section \<open>The catch-all address\<close>

record catchall_tab =
  ca_data :: json
  ca_failed :: bool
  ca_seen :: json \<comment> \<open>the destination the field was last set from\<close>
  ca_destination :: jsstring
  ca_confirmOpen :: bool
  ca_setMut :: mutation
  ca_deleteMut :: mutation

definition initial_catchall :: catchall_tab where
  "initial_catchall =
     \<lparr>ca_data = JUndef, ca_failed = False, ca_seen = JUndef, ca_destination = [], ca_confirmOpen = False, ca_setMut = idle, ca_deleteMut = idle\<rparr>"

definition ca_current :: "json \<Rightarrow> json" where
  "ca_current data = jget data ''catchall''"

text \<open>The effect runs when the stored destination changes.\<close>

definition seed_catchall :: "catchall_tab \<Rightarrow> catchall_tab" where
  "seed_catchall s =
     (let dest = jget (ca_current (ca_data s)) ''destination''
      in if dest = ca_seen s then s else s\<lparr>ca_seen := dest, ca_destination := json_text dest\<rparr>)"

datatype catchall_event =
    CatchallArrives json | CatchallQueryFails | TypeCatchall jsstring | SaveCatchall | CatchallSaved | CatchallFails jsstring
  | AskCatchall bool | DeleteCatchall | CatchallDeleted | CatchallStays jsstring

definition ca_ready :: "catchall_tab \<Rightarrow> bool" where
  "ca_ready s \<longleftrightarrow> ca_data s \<noteq> JUndef \<and> \<not> ca_failed s"

fun catchall_offered :: "(jsstring \<Rightarrow> bool) \<Rightarrow> catchall_tab \<Rightarrow> catchall_event \<Rightarrow> bool" where
  "catchall_offered valid_email s (CatchallArrives v) = True"
| "catchall_offered valid_email s CatchallQueryFails = True"
| "catchall_offered valid_email s (TypeCatchall t) = (ca_ready s \<and> \<not> ca_confirmOpen s)"
| "catchall_offered valid_email s SaveCatchall =
     (ca_ready s \<and> \<not> ca_confirmOpen s \<and> ca_destination s \<noteq> [] \<and> valid_email (ca_destination s) \<and> \<not> isPending (ca_setMut s))"
| "catchall_offered valid_email s CatchallSaved = isPending (ca_setMut s)"
| "catchall_offered valid_email s (CatchallFails e) = isPending (ca_setMut s)"
| "catchall_offered valid_email s (AskCatchall b) =
     (ca_ready s \<and> (if b then \<not> ca_confirmOpen s \<and> truthy (ca_current (ca_data s)) else ca_confirmOpen s \<and> \<not> isPending (ca_deleteMut s)))"
| "catchall_offered valid_email s DeleteCatchall = (ca_ready s \<and> ca_confirmOpen s \<and> \<not> isPending (ca_deleteMut s))"
| "catchall_offered valid_email s CatchallDeleted = isPending (ca_deleteMut s)"
| "catchall_offered valid_email s (CatchallStays e) = isPending (ca_deleteMut s)"

fun catchall_step :: "jsstring \<Rightarrow> jsstring \<Rightarrow> catchall_event \<Rightarrow> catchall_tab \<Rightarrow> catchall_tab \<times> api_request list \<times> page_effect list" where
  "catchall_step u d (CatchallArrives v) s = (seed_catchall (s\<lparr>ca_data := v, ca_failed := False\<rparr>), [], [])"
| "catchall_step u d CatchallQueryFails s = (s\<lparr>ca_failed := True\<rparr>, [], [])"
| "catchall_step u d (TypeCatchall t) s = (s\<lparr>ca_destination := t\<rparr>, [], [])"
| "catchall_step u d SaveCatchall s =
     (s\<lparr>ca_setMut := mutate (ca_setMut s)\<rparr>, [ApiPost (email_url u d ''catchall'') [(''destination'', JStr (ca_destination s))]], [])"
| "catchall_step u d CatchallSaved s =
     (s\<lparr>ca_setMut := settle_ok (ca_setMut s)\<rparr>, [], [Toast Success ''Catch-all saved'' [], Invalidate [''catchall'', u, d]])"
| "catchall_step u d (CatchallFails e) s =
     (s\<lparr>ca_setMut := settle_error e (ca_setMut s)\<rparr>, [], [Toast ErrorTone ''Could not save catch-all'' e])"
| "catchall_step u d (AskCatchall b) s = (s\<lparr>ca_confirmOpen := b\<rparr>, [], [])"
| "catchall_step u d DeleteCatchall s = (s\<lparr>ca_deleteMut := mutate (ca_deleteMut s)\<rparr>, [ApiDelete (email_url u d ''catchall'')], [])"
| "catchall_step u d CatchallDeleted s =
     (s\<lparr>ca_deleteMut := settle_ok (ca_deleteMut s), ca_confirmOpen := False\<rparr>, [],
      [Toast Success ''Catch-all removed'' [], Invalidate [''catchall'', u, d]])"
| "catchall_step u d (CatchallStays e) s =
     (s\<lparr>ca_deleteMut := settle_error e (ca_deleteMut s)\<rparr>, [], [Toast ErrorTone ''Could not remove catch-all'' e])"

section \<open>Spam scoring\<close>

record spam_tab =
  sp_enabled :: bool
  sp_threshold :: jsstring
  sp_data :: json
  sp_failed :: bool
  sp_save :: mutation

definition initial_spam :: spam_tab where
  "initial_spam = \<lparr>sp_enabled = True, sp_threshold = [], sp_data = JUndef, sp_failed = False, sp_save = idle\<rparr>"

text \<open>Every answer that differs from the one before sets both fields.\<close>

definition seed_spam :: "json \<Rightarrow> spam_tab \<Rightarrow> spam_tab" where
  "seed_spam v s =
     (if v = sp_data s \<or> \<not> truthy v then s\<lparr>sp_data := v, sp_failed := False\<rparr>
      else s\<lparr>sp_data := v, sp_failed := False, sp_enabled := truthy (jget v ''enabled''),
             sp_threshold := (if nullish (jget v ''threshold'') then [] else js_String (jget v ''threshold''))\<rparr>)"

definition spam_body :: "(jsstring \<Rightarrow> json) \<Rightarrow> spam_tab \<Rightarrow> body" where
  "spam_body number s =
     [(''enabled'', JBool (sp_enabled s)), (''threshold'', if sp_threshold s = [] then JNull else js_Number number (sp_threshold s))]"

datatype spam_event = SpamArrives json | SpamQueryFails | TypeSpam bool jsstring | SaveSpam | SpamSaved | SpamFails jsstring

fun spam_offered :: "(jsstring \<Rightarrow> bool) \<Rightarrow> spam_tab \<Rightarrow> spam_event \<Rightarrow> bool" where
  "spam_offered field_ok s (SpamArrives v) = True"
| "spam_offered field_ok s SpamQueryFails = True"
| "spam_offered field_ok s (TypeSpam b t) = (sp_data s \<noteq> JUndef \<and> \<not> sp_failed s \<and> (t = sp_threshold s \<or> sp_enabled s))"
| "spam_offered field_ok s SaveSpam = (sp_data s \<noteq> JUndef \<and> \<not> sp_failed s \<and> field_ok (sp_threshold s) \<and> \<not> isPending (sp_save s))"
| "spam_offered field_ok s SpamSaved = isPending (sp_save s)"
| "spam_offered field_ok s (SpamFails e) = isPending (sp_save s)"

fun spam_step :: "(jsstring \<Rightarrow> json) \<Rightarrow> jsstring \<Rightarrow> jsstring \<Rightarrow> spam_event \<Rightarrow> spam_tab \<Rightarrow> spam_tab \<times> api_request list \<times> page_effect list" where
  "spam_step number u d (SpamArrives v) s = (seed_spam v s, [], [])"
| "spam_step number u d SpamQueryFails s = (s\<lparr>sp_failed := True\<rparr>, [], [])"
| "spam_step number u d (TypeSpam b t) s = (s\<lparr>sp_enabled := b, sp_threshold := t\<rparr>, [], [])"
| "spam_step number u d SaveSpam s =
     (s\<lparr>sp_save := mutate (sp_save s)\<rparr>, [ApiPatch (email_url u d ''spam-filter'') (spam_body number s)], [])"
| "spam_step number u d SpamSaved s =
     (s\<lparr>sp_save := settle_ok (sp_save s)\<rparr>, [], [Toast Success ''Spam filter updated'' [], Invalidate [''spam-filter'', u, d]])"
| "spam_step number u d (SpamFails e) s =
     (s\<lparr>sp_save := settle_error e (sp_save s)\<rparr>, [], [Toast ErrorTone ''Could not update spam filter'' e])"

section \<open>Mail routing\<close>

text \<open>The arrow of the notice is written \<open>->\<close>.\<close>

definition ROUTING_MODES :: "(jsstring \<times> jsstring) list" where
  "ROUTING_MODES = [(''local'', ''Local''), (''remote'', ''Remote''), (''backup'', ''Backup MX'')]"

definition routing_current :: "json \<Rightarrow> json" where
  "routing_current data = js_or (jget data ''mode'') (JStr ''local'')"

record routing_tab =
  ro_data :: json
  ro_mut :: mutation

datatype routing_event = RoutingArrives json | ChooseRouting jsstring | RoutingChanged json | RoutingFails jsstring

fun routing_offered :: "routing_tab \<Rightarrow> routing_event \<Rightarrow> bool" where
  "routing_offered s (RoutingArrives v) = True"
| "routing_offered s (ChooseRouting m) =
     (ro_data s \<noteq> JUndef \<and> \<not> isPending (ro_mut s) \<and> m \<in> set (map fst ROUTING_MODES) \<and> JStr m \<noteq> routing_current (ro_data s))"
| "routing_offered s (RoutingChanged v) = isPending (ro_mut s)"
| "routing_offered s (RoutingFails e) = isPending (ro_mut s)"

fun routing_step :: "jsstring \<Rightarrow> jsstring \<Rightarrow> routing_event \<Rightarrow> routing_tab \<Rightarrow> routing_tab \<times> api_request list \<times> page_effect list" where
  "routing_step u d (RoutingArrives v) s = (s\<lparr>ro_data := v\<rparr>, [], [])"
| "routing_step u d (ChooseRouting m) s =
     (s\<lparr>ro_mut := mutate (ro_mut s)\<rparr>, [ApiPatch (email_url u d ''routing'') [(''mode'', JStr m)]], [])"
| "routing_step u d (RoutingChanged v) s =
     (s\<lparr>ro_mut := settle_ok (ro_mut s)\<rparr>, [],
      [Toast Success ''Email routing updated'' (d @ '' -> '' @ js_String (jget v ''mode'')), Invalidate [''email-routing'', u, d]])"
| "routing_step u d (RoutingFails e) s = (s\<lparr>ro_mut := settle_error e (ro_mut s)\<rparr>, [], [Toast ErrorTone ''Could not update routing'' e])"

section \<open>The lists of a mailbox\<close>

record filters_tab =
  fl_mailboxes :: "json list"
  fl_mailbox :: jsstring
  fl_entries :: json
  fl_pattern :: jsstring
  fl_importOpen :: bool
  fl_importKind :: jsstring
  fl_importText :: jsstring
  fl_add :: mutation
  fl_delete :: mutation
  fl_import :: mutation

definition initial_filters :: filters_tab where
  "initial_filters =
     \<lparr>fl_mailboxes = [], fl_mailbox = [], fl_entries = JUndef, fl_pattern = [], fl_importOpen = False, fl_importKind = ''blacklist'',
      fl_importText = [], fl_add = idle, fl_delete = idle, fl_import = idle\<rparr>"

definition first_mailbox :: "json list \<Rightarrow> jsstring \<Rightarrow> jsstring" where
  "first_mailbox boxes current =
     (if current = [] then (case boxes of [] \<Rightarrow> [] | b # _ \<Rightarrow> js_String (jget b ''local_part'')) else current)"

definition entries_of_kind :: "jsstring \<Rightarrow> filters_tab \<Rightarrow> json list" where
  "entries_of_kind k s = filter (\<lambda>e. jget e ''kind'' = JStr k) (json_list (jget (fl_entries s) ''entries''))"

definition entry_label :: "json \<Rightarrow> jsstring" where
  "entry_label e =
     (if jget e ''kind'' = JStr ''blacklist'' then ''Delete allow-list pattern '' else ''Delete block-list pattern '') @ js_String (jget e ''pattern'')"

definition filters_url :: "jsstring \<Rightarrow> filters_tab \<Rightarrow> jsstring" where
  "filters_url u s = ''/api/v1/accounts/'' @ u @ ''/email/'' @ fl_mailbox s @ ''/spam-filters''"

datatype filters_event =
    FilterMailboxes "json list" | EntriesArrive json | ChooseMailbox jsstring | TypePattern jsstring
  | AddEntry jsstring | EntryAdded jsstring | AddFails jsstring | RemoveEntry json | EntryRemoved | RemoveFails jsstring
  | OpenImport bool | TypeImport jsstring jsstring | RunImport | Imported json | ImportFails jsstring

definition entries_shown :: "filters_tab \<Rightarrow> bool" where
  "entries_shown s \<longleftrightarrow> fl_mailboxes s \<noteq> [] \<and> fl_entries s \<noteq> JUndef \<and> \<not> fl_importOpen s"

fun filters_offered :: "filters_tab \<Rightarrow> filters_event \<Rightarrow> bool" where
  "filters_offered s (FilterMailboxes bs) = True"
| "filters_offered s (EntriesArrive v) = True"
| "filters_offered s (ChooseMailbox m) = (\<not> fl_importOpen s \<and> list_ex (\<lambda>b. jget b ''local_part'' = JStr m) (fl_mailboxes s))"
| "filters_offered s (TypePattern t) = entries_shown s"
| "filters_offered s (AddEntry k) =
     (entries_shown s \<and> k \<in> set [''whitelist'', ''blacklist''] \<and> trim (fl_pattern s) \<noteq> [] \<and> \<not> isPending (fl_add s))"
| "filters_offered s (EntryAdded k) = isPending (fl_add s)"
| "filters_offered s (AddFails e) = isPending (fl_add s)"
| "filters_offered s (RemoveEntry e) = (entries_shown s \<and> (e \<in> set (entries_of_kind ''blacklist'' s) \<or> e \<in> set (entries_of_kind ''whitelist'' s)))"
| "filters_offered s EntryRemoved = isPending (fl_delete s)"
| "filters_offered s (RemoveFails e) = isPending (fl_delete s)"
| "filters_offered s (OpenImport b) = (if b then entries_shown s else fl_importOpen s)"
| "filters_offered s (TypeImport k t) = (fl_importOpen s \<and> k \<in> set [''blacklist'', ''whitelist''])"
| "filters_offered s RunImport = (fl_importOpen s \<and> trim (fl_importText s) \<noteq> [] \<and> \<not> isPending (fl_import s))"
| "filters_offered s (Imported v) = isPending (fl_import s)"
| "filters_offered s (ImportFails e) = isPending (fl_import s)"

definition filters_refresh :: "jsstring \<Rightarrow> jsstring \<Rightarrow> filters_tab \<Rightarrow> page_effect" where
  "filters_refresh u d s = Invalidate [''spam-filter-entries'', u, fl_mailbox s, d]"

fun filters_step :: "jsstring \<Rightarrow> jsstring \<Rightarrow> filters_event \<Rightarrow> filters_tab \<Rightarrow> filters_tab \<times> api_request list \<times> page_effect list" where
  "filters_step u d (FilterMailboxes bs) s = (s\<lparr>fl_mailboxes := bs, fl_mailbox := first_mailbox bs (fl_mailbox s)\<rparr>, [], [])"
| "filters_step u d (EntriesArrive v) s = (s\<lparr>fl_entries := v\<rparr>, [], [])"
| "filters_step u d (ChooseMailbox m) s = (s\<lparr>fl_mailbox := m, fl_entries := JUndef\<rparr>, [], [])"
| "filters_step u d (TypePattern t) s = (s\<lparr>fl_pattern := t\<rparr>, [], [])"
| "filters_step u d (AddEntry k) s =
     (s\<lparr>fl_add := mutate (fl_add s)\<rparr>,
      [ApiPost (filters_url u s) [(''domain'', JStr d), (''kind'', JStr k), (''pattern'', JStr (trim (fl_pattern s)))]], [])"
| "filters_step u d (EntryAdded k) s =
     (s\<lparr>fl_add := settle_ok (fl_add s), fl_pattern := []\<rparr>, [], [Toast Success (''Added to '' @ k) [], filters_refresh u d s])"
| "filters_step u d (AddFails e) s = (s\<lparr>fl_add := settle_error e (fl_add s)\<rparr>, [], [Toast ErrorTone ''Could not add entry'' e])"
| "filters_step u d (RemoveEntry e) s =
     (s\<lparr>fl_delete := mutate (fl_delete s)\<rparr>, [ApiDeleteWith (filters_url u s) [(''id'', jget e ''id''), (''domain'', JStr d)]], [])"
| "filters_step u d EntryRemoved s =
     (s\<lparr>fl_delete := settle_ok (fl_delete s)\<rparr>, [], [Toast Success ''Entry removed'' [], filters_refresh u d s])"
| "filters_step u d (RemoveFails e) s = (s\<lparr>fl_delete := settle_error e (fl_delete s)\<rparr>, [], [Toast ErrorTone ''Could not remove entry'' e])"
| "filters_step u d (OpenImport b) s = (s\<lparr>fl_importOpen := b\<rparr>, [], [])"
| "filters_step u d (TypeImport k t) s = (s\<lparr>fl_importKind := k, fl_importText := t\<rparr>, [], [])"
| "filters_step u d RunImport s =
     (s\<lparr>fl_import := mutate (fl_import s)\<rparr>,
      [ApiPost (filters_url u s @ ''/import'') [(''domain'', JStr d), (''kind'', JStr (fl_importKind s)), (''text'', JStr (fl_importText s))]], [])"
| "filters_step u d (Imported v) s =
     (s\<lparr>fl_import := settle_ok (fl_import s), fl_importOpen := False, fl_importText := []\<rparr>, [],
      [Toast Success ''Import finished''
         (show_nat (length (json_list (jget v ''added''))) @ '' added, '' @ show_nat (length (json_list (jget v ''errors''))) @ '' skipped''),
       filters_refresh u d s])"
| "filters_step u d (ImportFails e) s = (s\<lparr>fl_import := settle_error e (fl_import s)\<rparr>, [], [Toast ErrorTone ''Could not import list'' e])"

text \<open>The buttons that remove an entry are announced as those of the other list.\<close>

lemma entry_labels_swapped:
  "e \<in> set (entries_of_kind ''blacklist'' s) \<Longrightarrow> startsWith (entry_label e) ''Delete allow-list pattern ''"
  using startsWith_append[of "''Delete allow-list pattern ''"] by (simp add: entries_of_kind_def entry_label_def)

section \<open>Migration from another server\<close>

record imap_form =
  im_host :: jsstring
  im_port :: json
  im_email :: jsstring
  im_password :: jsstring
  im_dest_password :: jsstring

definition empty_imap :: imap_form where
  "empty_imap = \<lparr>im_host = [], im_port = JNum 993, im_email = [], im_password = [], im_dest_password = []\<rparr>"

record imap_tab =
  im_mailboxes :: "json list"
  im_mailbox :: jsstring
  im_form :: imap_form
  im_folders :: "jsstring list option"
  im_selected :: "jsstring list"
  im_jobs :: json
  im_list :: mutation
  im_start :: mutation
  im_cancel :: mutation

definition initial_imap :: imap_tab where
  "initial_imap =
     \<lparr>im_mailboxes = [], im_mailbox = [], im_form = empty_imap, im_folders = None, im_selected = [], im_jobs = JUndef,
      im_list = idle, im_start = idle, im_cancel = idle\<rparr>"

definition active_job :: "json \<Rightarrow> bool" where
  "active_job j \<longleftrightarrow> jget j ''status'' \<in> JStr ` set [''pending'', ''connecting'', ''running'', ''cancelling'']"

definition imap_jobs :: "json \<Rightarrow> json list" where
  "imap_jobs data = json_list (jget data ''jobs'')"

definition imap_poll :: "json \<Rightarrow> nat option" where
  "imap_poll data = (if list_ex active_job (imap_jobs data) then Some 3000 else None)"

definition source_body :: "(jsstring \<Rightarrow> json) \<Rightarrow> imap_form \<Rightarrow> body" where
  "source_body nonint f =
     [(''source_host'', JStr (im_host f)),
      (''source_port'', case im_port f of JNum n \<Rightarrow> JNum n | v \<Rightarrow> js_Number nonint (js_String v)),
      (''source_ssl'', JBool True), (''source_email'', JStr (im_email f)), (''source_password'', JStr (im_password f))]"

definition start_body :: "(jsstring \<Rightarrow> json) \<Rightarrow> jsstring \<Rightarrow> imap_tab \<Rightarrow> body" where
  "start_body nonint d s =
     [(''domain'', JStr d), (''local_part'', JStr (im_mailbox s))] @ source_body nonint (im_form s) @
     [(''dest_password'', JStr (im_dest_password (im_form s))),
      (''folders'', JArr (map JStr (case im_folders s of Some fs \<Rightarrow> im_selected s | None \<Rightarrow> [])))]"

definition canList :: "imap_tab \<Rightarrow> bool" where
  "canList s \<longleftrightarrow> im_host (im_form s) \<noteq> [] \<and> im_email (im_form s) \<noteq> [] \<and> im_password (im_form s) \<noteq> []"

definition canStart :: "imap_tab \<Rightarrow> bool" where
  "canStart s \<longleftrightarrow> im_mailbox s \<noteq> [] \<and> canList s \<and> im_dest_password (im_form s) \<noteq> []"

datatype imap_event =
    ImapMailboxes "json list" | ImapChoose jsstring | TypeImap imap_form | ListFolders | FoldersArrive "jsstring list" | ListFails jsstring
  | TickFolder jsstring bool | StartMigration | MigrationStarted | StartFails jsstring
  | JobsArrive json | CancelJob json | JobCancelled | CancelFails jsstring

definition imap_url :: "jsstring \<Rightarrow> jsstring" where
  "imap_url u = ''/api/v1/accounts/'' @ u @ ''/email/imap-migrate''"

fun imap_offered :: "imap_tab \<Rightarrow> imap_event \<Rightarrow> bool" where
  "imap_offered s (ImapMailboxes bs) = True"
| "imap_offered s (ImapChoose m) = list_ex (\<lambda>b. jget b ''local_part'' = JStr m) (im_mailboxes s)"
| "imap_offered s (TypeImap f) = (im_mailboxes s \<noteq> [])"
| "imap_offered s ListFolders = (im_mailboxes s \<noteq> [] \<and> canList s \<and> \<not> isPending (im_list s))"
| "imap_offered s (FoldersArrive fs) = isPending (im_list s)"
| "imap_offered s (ListFails e) = isPending (im_list s)"
| "imap_offered s (TickFolder f b) =
     (im_mailboxes s \<noteq> [] \<and> (case im_folders s of Some fs \<Rightarrow> f \<in> set fs \<and> b = (f \<notin> set (im_selected s)) | None \<Rightarrow> False))"
| "imap_offered s StartMigration = (im_mailboxes s \<noteq> [] \<and> canStart s \<and> \<not> isPending (im_start s))"
| "imap_offered s MigrationStarted = isPending (im_start s)"
| "imap_offered s (StartFails e) = isPending (im_start s)"
| "imap_offered s (JobsArrive v) = True"
| "imap_offered s (CancelJob j) = (j \<in> set (imap_jobs (im_jobs s)) \<and> active_job j)"
| "imap_offered s JobCancelled = isPending (im_cancel s)"
| "imap_offered s (CancelFails e) = isPending (im_cancel s)"

fun imap_step :: "(jsstring \<Rightarrow> json) \<Rightarrow> jsstring \<Rightarrow> jsstring \<Rightarrow> imap_event \<Rightarrow> imap_tab \<Rightarrow> imap_tab \<times> api_request list \<times> page_effect list" where
  "imap_step nonint u d (ImapMailboxes bs) s = (s\<lparr>im_mailboxes := bs, im_mailbox := first_mailbox bs (im_mailbox s)\<rparr>, [], [])"
| "imap_step nonint u d (ImapChoose m) s = (s\<lparr>im_mailbox := m\<rparr>, [], [])"
| "imap_step nonint u d (TypeImap f) s = (s\<lparr>im_form := f\<rparr>, [], [])"
| "imap_step nonint u d ListFolders s =
     (s\<lparr>im_list := mutate (im_list s)\<rparr>, [ApiPost (imap_url u @ ''/list-folders'') (source_body nonint (im_form s))], [])"
| "imap_step nonint u d (FoldersArrive fs) s =
     (s\<lparr>im_list := settle_ok (im_list s), im_folders := Some fs, im_selected := remdups fs\<rparr>, [],
      [Toast Success (''Found '' @ show_nat (length fs) @ '' folder(s)'') []])"
| "imap_step nonint u d (ListFails e) s =
     (s\<lparr>im_list := settle_error e (im_list s)\<rparr>, [], [Toast ErrorTone ''Could not connect to source server'' e])"
| "imap_step nonint u d (TickFolder f b) s = (s\<lparr>im_selected := toggle_member f b (im_selected s)\<rparr>, [], [])"
| "imap_step nonint u d StartMigration s = (s\<lparr>im_start := mutate (im_start s)\<rparr>, [ApiPost (imap_url u) (start_body nonint d s)], [])"
| "imap_step nonint u d MigrationStarted s =
     (s\<lparr>im_start := settle_ok (im_start s), im_form := empty_imap, im_folders := None, im_selected := []\<rparr>, [],
      [Toast Success ''Migration started'' ''Progress will appear below.'', Invalidate [''imap-migrations'', u]])"
| "imap_step nonint u d (StartFails e) s = (s\<lparr>im_start := settle_error e (im_start s)\<rparr>, [], [Toast ErrorTone ''Could not start migration'' e])"
| "imap_step nonint u d (JobsArrive v) s = (s\<lparr>im_jobs := v\<rparr>, [], [])"
| "imap_step nonint u d (CancelJob j) s =
     (s\<lparr>im_cancel := mutate (im_cancel s)\<rparr>, [ApiPost (imap_url u @ ''/'' @ js_String (jget j ''id'') @ ''/cancel'') []], [])"
| "imap_step nonint u d JobCancelled s =
     (s\<lparr>im_cancel := settle_ok (im_cancel s)\<rparr>, [], [Toast Success ''Migration cancelled'' [], Invalidate [''imap-migrations'', u]])"
| "imap_step nonint u d (CancelFails e) s = (s\<lparr>im_cancel := settle_error e (im_cancel s)\<rparr>, [], [Toast ErrorTone ''Could not cancel migration'' e])"

definition progress_percent :: "int \<Rightarrow> int \<Rightarrow> int" where
  "progress_percent value maximum = (if maximum > 0 then js_round (of_int value / of_int maximum * 100) else 0)"

text \<open>Only listed folders are selected, each once; nothing is selected before a listing.\<close>

definition imap_inv :: "imap_tab \<Rightarrow> bool" where
  "imap_inv s \<longleftrightarrow>
     (case im_folders s of Some fs \<Rightarrow> set (im_selected s) \<subseteq> set fs \<and> distinct (im_selected s) | None \<Rightarrow> im_selected s = [])"

definition filled_text :: "json \<Rightarrow> bool" where
  "filled_text v \<longleftrightarrow> (case v of JStr t \<Rightarrow> t \<noteq> [] | _ \<Rightarrow> False)"

definition imap_request_ok :: "jsstring \<Rightarrow> jsstring \<Rightarrow> api_request \<Rightarrow> bool" where
  "imap_request_ok u d r =
     (case r of
        ApiPost url b \<Rightarrow>
          startsWith url (imap_url u) \<and>
          (url = imap_url u \<longrightarrow>
             jget (JObj b) ''domain'' = JStr d \<and>
             list_all (\<lambda>k. filled_text (jget (JObj b) k))
               [''local_part'', ''source_host'', ''source_email'', ''source_password'', ''dest_password''] \<and>
             distinct (json_list (jget (JObj b) ''folders'')))
      | _ \<Rightarrow> False)"

lemma toggle_member_distinct: "distinct xs \<Longrightarrow> distinct (toggle_member x b xs)"
  by (simp add: toggle_member_def)

lemma set_toggle_member: "set (toggle_member x b xs) \<subseteq> insert x (set xs)"
  by (auto simp: toggle_member_def)

lemma imap_inv_step: "imap_inv s \<Longrightarrow> imap_offered s e \<Longrightarrow> imap_inv (fst (imap_step nonint u d e s))"
proof (cases e)
  case (TickFolder f b)
  assume "imap_inv s" "imap_offered s e"
  with TickFolder show ?thesis
    using set_toggle_member[of f b "im_selected s"] toggle_member_distinct[of "im_selected s" f b]
    by (auto simp: imap_inv_def split: option.splits)
qed (auto simp: imap_inv_def split: option.splits)

lemma start_body_ok:
  "imap_inv s \<Longrightarrow> canStart s \<Longrightarrow> imap_request_ok u d (ApiPost (imap_url u) (start_body nonint d s))"
proof -
  assume "imap_inv s" "canStart s"
  moreover have "startsWith (imap_url u) (imap_url u)" using startsWith_append[of "imap_url u" "[]"] by simp
  ultimately show ?thesis
    by (auto simp: imap_request_ok_def start_body_def source_body_def canStart_def canList_def filled_text_def json_list_def
        imap_inv_def distinct_map inj_on_def split: option.splits)
qed

lemma imap_good_step: "imap_inv s \<Longrightarrow> imap_offered s e \<Longrightarrow> list_all (imap_request_ok u d) (fst (snd (imap_step nonint u d e s)))"
proof (cases e)
  case StartMigration
  assume "imap_inv s" "imap_offered s e"
  with StartMigration start_body_ok[of s u d nonint] show ?thesis by simp
next
  case ListFolders
  then show ?thesis using startsWith_append[of "imap_url u"] by (simp add: imap_request_ok_def)
next
  case (CancelJob j)
  then show ?thesis using startsWith_append[of "imap_url u"] by (simp add: imap_request_ok_def)
qed simp_all

interpretation imap: page_contract initial_imap imap_offered "imap_step nonint u d" imap_inv "imap_request_ok u d"
  by unfold_locales (simp_all only: imap_inv_step imap_good_step, simp add: imap_inv_def initial_imap_def)

text \<open>A migration is only started for this domain with a mailbox, a source server and both passwords, and with
  folders chosen at most once each, all of them listed by a server.
\<close>

theorem migration_requests_complete:
  assumes "page_reach initial_imap imap_offered (imap_step nonint u d) s sent"
  shows "list_all (imap_request_ok u d) sent \<and>
         (case im_folders s of Some fs \<Rightarrow> set (im_selected s) \<subseteq> set fs | None \<Rightarrow> im_selected s = [])"
  using imap.reach_inv[OF assms] by (auto simp: imap_inv_def split: option.splits)

definition migration_script :: "imap_event list" where
  "migration_script =
     [ImapMailboxes [JObj [(''local_part'', JStr ''ann'')]],
      TypeImap \<lparr>im_host = ''h'', im_port = JStr ''143'', im_email = ''a@b'', im_password = ''p'', im_dest_password = ''q''\<rparr>, StartMigration]"

definition start_request :: api_request where
  "start_request =
     ApiPost ''/api/v1/accounts/joe/email/imap-migrate''
       [(''domain'', JStr ''a.com''), (''local_part'', JStr ''ann''), (''source_host'', JStr ''h''), (''source_port'', JNum 143),
        (''source_ssl'', JBool True), (''source_email'', JStr ''a@b''), (''source_password'', JStr ''p''), (''dest_password'', JStr ''q''),
        (''folders'', JArr [])]"

theorem migration_requests_complete_witness: "list_all (imap_request_ok ''joe'' ''a.com'') [start_request]"
proof -
  have "map_option snd (page_run imap_offered (imap_step (\<lambda>t. JNull) ''joe'' ''a.com'') migration_script (initial_imap, [])) = Some [start_request]"
    by code_simp
  then obtain s where
    "page_run imap_offered (imap_step (\<lambda>t. JNull) ''joe'' ''a.com'') migration_script (initial_imap, []) = Some (s, [start_request])"
    by auto
  from migration_requests_complete[OF scripted_reach[OF this]] show ?thesis by blast
qed

text \<open>Deselecting every listed folder sends the same empty list as not listing them, which the server takes
  for all folders.\<close>

lemma no_folder_means_all:
  assumes "im_folders s = Some fs" "im_selected s = []"
  shows "start_body nonint d s = start_body nonint d (s\<lparr>im_folders := None\<rparr>)"
  using assms by (simp add: start_body_def)

text \<open>The folders listed by one server stay selected when another one is entered.\<close>

lemma folders_of_other_server:
  "im_folders (fst (imap_step nonint u d (TypeImap f) s)) = im_folders s \<and> im_selected (fst (imap_step nonint u d (TypeImap f) s)) = im_selected s"
  by simp

end
