(* ===== verification/Login_Page.thy ===== *)
theory Login_Page
  imports Sessions Routing Page_Machine
begin

text \<open>
  The sign-in page (\<open>pages/Login.jsx\<close>) over the session store and the routes, and the password page
  (\<open>pages/ChangePassword.jsx\<close>). A submission runs the store's operation with whatever is
  interleaved with it; afterwards the page navigates by itself, and its next rendering navigates too,
  because a role is now known. Both targets are modelled, in no particular order.
\<close>

section \<open>The sign-in page\<close>

datatype attempt = Credentials jsstring jsstring | OneTimeCode jsstring

record login_page =
  in_username :: jsstring
  in_password :: jsstring
  in_code :: jsstring
  shown_error :: "jsstring option"
  signing :: "attempt option"
  reveal :: bool

definition initial_login :: login_page where
  "initial_login = \<lparr>in_username = [], in_password = [], in_code = [], shown_error = None, signing = None, reveal = False\<rparr>"

definition landing_of :: "json \<Rightarrow> jsstring" where
  "landing_of r = (case r of JStr s \<Rightarrow> landing s | _ \<Rightarrow> ''/dashboard'')"

text \<open>What is rendered: a navigation once a role is known, otherwise one of the two forms.\<close>

datatype login_view = LeaveTo jsstring | CredentialsForm | CodeForm

definition login_view :: "jsstring option \<Rightarrow> auth_state \<Rightarrow> login_view" where
  "login_view from a =
     (if truthy (role a) then LeaveTo (or_string from (landing_of (role a)))
      else if pending2fa a = None then CredentialsForm else CodeForm)"

datatype login_event =
    TypeUsername jsstring
  | TypePassword jsstring
  | TypeCode jsstring
  | ToggleReveal
  | Submit
  | Settled delivery delivery "event list" "event list"

text \<open>All three inputs are required, and the submit button is disabled while an attempt runs.\<close>

definition login_offered :: "jsstring option \<Rightarrow> login_page \<times> world \<Rightarrow> login_event \<Rightarrow> bool" where
  "login_offered from pw e =
     (let pg = fst pw; view = login_view from (au (snd pw)) in
      case e of
        Submit \<Rightarrow> signing pg = None \<and>
          (if view = CredentialsForm then in_username pg \<noteq> [] \<and> in_password pg \<noteq> []
           else view = CodeForm \<and> in_code pg \<noteq> [])
      | Settled _ _ _ _ \<Rightarrow> signing pg \<noteq> None
      | TypeCode _ \<Rightarrow> view = CodeForm
      | _ \<Rightarrow> view = CredentialsForm)"

definition verify_text :: "jsstring \<Rightarrow> verify_error \<Rightarrow> jsstring" where
  "verify_text engine f =
     (case f of NoPending2fa \<Rightarrow> ''No pending 2FA session.'' | VerifyFailed g \<Rightarrow> thrown_text engine g)"

definition or_text :: "jsstring \<Rightarrow> jsstring \<Rightarrow> jsstring" where
  "or_text t fallback = (if t = [] then fallback else t)"

definition submitCredentials :: "jsstring \<Rightarrow> jsstring \<Rightarrow> jsstring \<Rightarrow> delivery \<Rightarrow> delivery \<Rightarrow> event list \<Rightarrow> event list
     \<Rightarrow> login_page \<times> world \<Rightarrow> (login_page \<times> world) \<times> jsstring list" where
  "submitCredentials engine u p d1 d2 e1 e2 pw =
     (let pg = (fst pw)\<lparr>signing := None\<rparr> in
      case store_login u p d1 d2 e1 e2 (snd pw) of
        (w, Inl f) \<Rightarrow> ((pg\<lparr>shown_error := Some (or_text (thrown_text engine f) ''Login failed.'')\<rparr>, w), [])
      | (w, Inr AskSecondFactor) \<Rightarrow> ((pg, w), [])
      | (w, Inr (SignedIn r)) \<Rightarrow> ((pg, w), [landing_of r]))"

definition submit2fa :: "jsstring \<Rightarrow> jsstring \<Rightarrow> delivery \<Rightarrow> delivery \<Rightarrow> event list \<Rightarrow> event list
     \<Rightarrow> login_page \<times> world \<Rightarrow> (login_page \<times> world) \<times> jsstring list" where
  "submit2fa engine otp d1 d2 e1 e2 pw =
     (let pg = (fst pw)\<lparr>signing := None\<rparr> in
      case store_verify2fa otp d1 d2 e1 e2 (snd pw) of
        (w, Inl f) \<Rightarrow> ((pg\<lparr>shown_error := Some (or_text (verify_text engine f) ''Verification failed.'')\<rparr>, w), [])
      | (w, Inr r) \<Rightarrow> ((pg, w), [landing_of r]))"

fun login_step :: "jsstring \<Rightarrow> login_event \<Rightarrow> login_page \<times> world \<Rightarrow> (login_page \<times> world) \<times> jsstring list" where
  "login_step engine (TypeUsername t) (pg, w) = ((pg\<lparr>in_username := t\<rparr>, w), [])"
| "login_step engine (TypePassword t) (pg, w) = ((pg\<lparr>in_password := t\<rparr>, w), [])"
| "login_step engine (TypeCode t) (pg, w) = ((pg\<lparr>in_code := t\<rparr>, w), [])"
| "login_step engine ToggleReveal (pg, w) = ((pg\<lparr>reveal := \<not> reveal pg\<rparr>, w), [])"
| "login_step engine Submit (pg, w) =
     ((pg\<lparr>shown_error := None,
          signing := Some (if pending2fa (au w) = None then Credentials (in_username pg) (in_password pg)
                           else OneTimeCode (in_code pg))\<rparr>, w), [])"
| "login_step engine (Settled d1 d2 e1 e2) (pg, w) =
     (case signing pg of
        None \<Rightarrow> ((pg, w), [])
      | Some (Credentials u p) \<Rightarrow> submitCredentials engine u p d1 d2 e1 e2 (pg, w)
      | Some (OneTimeCode c) \<Rightarrow> submit2fa engine c d1 d2 e1 e2 (pg, w))"

subsection \<open>What an attempt leaves\<close>

text \<open>A refused attempt leaves the reader signed out, whatever ran meanwhile.\<close>

lemma apply_effects_signed_out:
  "\<not> truthy (role (au s)) \<Longrightarrow> \<not> truthy (role (au (apply_effects es s)))"
proof (induction es arbitrary: s)
  case Nil
  then show ?case by simp
next
  case (Cons e es)
  have "\<not> truthy (role (au (apply_effect e s)))"
    using Cons.prems by (cases e) (auto simp: store_clear_def signed_out_def Let_def)
  with Cons.IH show ?case by simp
qed

lemma store_login_refused:
  assumes "store_login u p d1 d2 e1 e2 s = (s', Inl f)" "\<not> truthy (role (au s))"
  shows "\<not> truthy (role (au s'))"
  using assms
  by (auto simp: store_login_def Let_def apply_effects_signed_out split: prod.splits sum.splits login_result.splits)

lemma store_login_asked:
  assumes "store_login u p d1 d2 e1 e2 s = (s', Inr AskSecondFactor)" "\<not> truthy (role (au s))"
  shows "\<not> truthy (role (au s')) \<and> pending2fa (au s') \<noteq> None"
  using assms
  by (auto simp: store_login_def Let_def apply_effects_signed_out split: prod.splits sum.splits login_result.splits)

lemma store_login_signed:
  "store_login u p d1 d2 e1 e2 s = (s', Inr (SignedIn r)) \<Longrightarrow> role (au s') = r \<and> pending2fa (au s') = None"
  by (auto simp: store_login_def Let_def signed_in_def split: prod.splits sum.splits login_result.splits)

lemma store_verify_refused:
  assumes "store_verify2fa c d1 d2 e1 e2 s = (s', Inl f)" "\<not> truthy (role (au s))"
  shows "\<not> truthy (role (au s'))"
  using assms
  by (auto simp: store_verify2fa_def Let_def apply_effects_signed_out split: option.splits prod.splits sum.splits)

lemma store_verify_signed:
  "store_verify2fa c d1 d2 e1 e2 s = (s', Inr r) \<Longrightarrow> role (au s') = r \<and> pending2fa (au s') = None"
  by (auto simp: store_verify2fa_def Let_def signed_in_def split: option.splits prod.splits sum.splits)

lemma attempt_outcome:
  assumes "signing pg \<noteq> None" "\<not> truthy (role (au w))"
    and "login_step engine (Settled d1 d2 e1 e2) (pg, w) = ((pg', w'), navs)"
  shows "signing pg' = None \<and>
    (navs = [] \<and> \<not> truthy (role (au w')) \<and> (shown_error pg' \<noteq> None \<or> pending2fa (au w') \<noteq> None) \<or>
     navs = [landing_of (role (au w'))] \<and> pending2fa (au w') = None)"
proof (cases "the (signing pg)")
  case (Credentials u p)
  then have run: "submitCredentials engine u p d1 d2 e1 e2 (pg, w) = ((pg', w'), navs)" using assms by auto
  obtain w2 x where st: "store_login u p d1 d2 e1 e2 w = (w2, x)" by (cases "store_login u p d1 d2 e1 e2 w") auto
  show ?thesis
  proof (cases x)
    case (Inl f)
    with st run store_login_refused[of u p d1 d2 e1 e2 w w2 f] assms(2) show ?thesis
      by (auto simp: submitCredentials_def Let_def)
  next
    case (Inr y)
    with st run store_login_asked[of u p d1 d2 e1 e2 w w2] store_login_signed[of u p d1 d2 e1 e2 w w2] assms(2)
    show ?thesis by (cases y) (auto simp: submitCredentials_def Let_def)
  qed
next
  case (OneTimeCode c)
  then have run: "submit2fa engine c d1 d2 e1 e2 (pg, w) = ((pg', w'), navs)" using assms by auto
  obtain w2 x where st: "store_verify2fa c d1 d2 e1 e2 w = (w2, x)" by (cases "store_verify2fa c d1 d2 e1 e2 w") auto
  with run store_verify_refused[of c d1 d2 e1 e2 w w2] store_verify_signed[of c d1 d2 e1 e2 w w2] assms(2)
  show ?thesis by (cases x) (auto simp: submit2fa_def Let_def)
qed

text \<open>Both navigations after a sign-in end on a page of the role.\<close>

lemma truthy_known: "r \<in> set known_roles \<Longrightarrow> truthy (JStr r)"
  by (auto simp: known_roles_def)

lemma settled_from_landing:
  "matcher_ok m \<Longrightarrow> r \<in> set known_roles \<Longrightarrow> settled m r (follow n m (Some r) None (landing r))"
  using settled_opens[OF landing_opens known_role_nonempty] by blast

lemma settled_remembered:
  assumes "matcher_ok m" "r \<in> set known_roles" "from = None \<or> (\<exists>f q. from = Some f \<and> m f = InShell q)"
  shows "settled m r (follow 3 m (Some r) None (or_string from (landing r)))"
proof -
  have "\<exists>q. m (landing r) = InShell q" using landing_opens[OF assms(1,2)] by (auto simp: opens_def)
  then have "\<exists>q. m (or_string from (landing r)) = InShell q" using assms(3) by (auto simp: or_string_def)
  then obtain q where "m (or_string from (landing r)) = InShell q" ..
  from settled_in_shell[OF assms(1,2) this, where n = 1] show ?thesis by (simp add: numeral_eq_Suc)
qed


definition asked_login :: login_page where
  "asked_login = initial_login\<lparr>in_username := ''ann'', in_password := ''pw'', signing := Some (Credentials ''ann'' ''pw'')\<rparr>"


section \<open>The password page\<close>

record password_page =
  current_password :: jsstring
  next_password :: jsstring
  confirm_password :: jsstring
  password_error :: "jsstring option"
  changing :: bool

definition initial_password :: password_page where
  "initial_password = \<lparr>current_password = [], next_password = [], confirm_password = [], password_error = None, changing = False\<rparr>"

datatype password_event =
    TypeCurrent jsstring
  | TypeNext jsstring
  | TypeConfirm jsstring
  | SubmitPassword
  | PasswordAnswer delivery

definition password_offered :: "password_page \<Rightarrow> password_event \<Rightarrow> bool" where
  "password_offered s e =
     (case e of
        SubmitPassword \<Rightarrow> \<not> changing s \<and> current_password s \<noteq> [] \<and> next_password s \<noteq> [] \<and> confirm_password s \<noteq> []
      | PasswordAnswer _ \<Rightarrow> changing s
      | _ \<Rightarrow> True)"

definition password_body :: "password_page \<Rightarrow> body" where
  "password_body s =
     [(''current_password'', JStr (current_password s)), (''new_password'', JStr (next_password s)),
      (''confirm_password'', JStr (confirm_password s))]"

fun password_step :: "jsstring \<Rightarrow> (password_event, password_page) page_step" where
  "password_step engine (TypeCurrent t) s = (s\<lparr>current_password := t\<rparr>, [], [])"
| "password_step engine (TypeNext t) s = (s\<lparr>next_password := t\<rparr>, [], [])"
| "password_step engine (TypeConfirm t) s = (s\<lparr>confirm_password := t\<rparr>, [], [])"
| "password_step engine SubmitPassword s =
     (if next_password s \<noteq> confirm_password s
      then (s\<lparr>password_error := Some ''New password and confirmation do not match.''\<rparr>, [], [])
      else (s\<lparr>password_error := None, changing := True\<rparr>, [ApiPost ''/change-password'' (password_body s)], []))"
| "password_step engine (PasswordAnswer d) s =
     (case call_result (changePassword (current_password s) (next_password s) (confirm_password s) d) of
        Inl f \<Rightarrow> (s\<lparr>password_error := Some (thrown_text engine f), changing := False\<rparr>, [], [])
      | Inr _ \<Rightarrow> (initial_password\<lparr>password_error := password_error s\<rparr>, [], [Toast Success ''Password changed'' []]))"

definition confirmed_change :: "api_request \<Rightarrow> bool" where
  "confirmed_change r \<longleftrightarrow>
     (\<exists>c n. c \<noteq> [] \<and> n \<noteq> [] \<and>
        r = ApiPost ''/change-password'' [(''current_password'', JStr c), (''new_password'', JStr n), (''confirm_password'', JStr n)])"

interpretation password: page_contract initial_password password_offered "password_step engine" "\<lambda>_. True" confirmed_change
  for engine
proof unfold_locales
  fix s :: password_page and e
  assume "password_offered s e"
  then show "list_all confirmed_change (fst (snd (password_step engine e s)))"
    by (cases e) (auto simp: password_offered_def password_body_def confirmed_change_def split: sum.splits)
qed simp_all

text \<open>The page sends a change only when both entries of the new password agree, and keeps what was
  typed when the change is refused.\<close>

lemma password_changes_confirmed:
  "page_reach initial_password password_offered (password_step engine) s sent \<Longrightarrow> list_all confirmed_change sent"
  using password.reach_inv by blast

lemma refused_change_keeps_form:
  assumes "call_result (changePassword (current_password s) (next_password s) (confirm_password s) d) = Inl f"
  shows "fst (password_step engine (PasswordAnswer d) s) =
           s\<lparr>password_error := Some (thrown_text engine f), changing := False\<rparr>"
  using assms by simp

end
