(* ===== verification/Tokens_Page.thy ===== *)
theory Tokens_Page
  imports Page_Machine
begin

text \<open>
  \<open>pages/admin/ApiTokens.jsx\<close>: creating, showing once and revoking the tokens of the API. The
  dialogs are modal: while one is open only its own controls can be used. The clipboard answers
  with an event of its own; a select offers its options only.
\<close>

section \<open>State\<close>

record token_form =
  tf_label :: jsstring
  tf_role :: jsstring
  tf_account_id :: jsstring
  tf_scope :: jsstring
  tf_expires :: jsstring

definition EMPTY_TOKEN :: token_form where
  "EMPTY_TOKEN = \<lparr>tf_label = [], tf_role = ''admin'', tf_account_id = [], tf_scope = ''read-only'', tf_expires = ''30''\<rparr>"

record tokens_page =
  to_accounts :: json
  to_rows :: json
  to_createOpen :: bool
  to_form :: token_form
  to_new :: json
  to_copied :: bool
  to_copying :: nat
  to_timers :: nat
  to_revoke :: json
  to_create :: mutation
  to_revoking :: "json option"

definition initial_tokens :: tokens_page where
  "initial_tokens =
     \<lparr>to_accounts = JUndef, to_rows = JUndef, to_createOpen = False, to_form = EMPTY_TOKEN, to_new = JNull,
      to_copied = False, to_copying = 0, to_timers = 0, to_revoke = JNull, to_create = idle, to_revoking = None\<rparr>"

text \<open>The account list is asked for only while the form is open; the active accounts can be chosen.\<close>

definition activeAccounts :: "tokens_page \<Rightarrow> json list" where
  "activeAccounts s = filter (\<lambda>a. jget a ''status'' = JStr ''active'') (json_list (to_accounts s))"

definition account_options :: "tokens_page \<Rightarrow> jsstring list" where
  "account_options s = [] # map (\<lambda>a. js_String (jget a ''id'')) (activeAccounts s)"

definition token_days :: "jsstring list" where
  "token_days = map show_nat [1, 7, 30, 60, 90]"

section \<open>Creation\<close>

definition token_account :: "token_form \<Rightarrow> int option" where
  "token_account f =
     (if tf_role f = ''customer''
      then case parseInt10 (tf_account_id f) of Some n \<Rightarrow> if n > 0 then Some n else None | None \<Rightarrow> None
      else None)"

definition token_body :: "(jsstring \<Rightarrow> json) \<Rightarrow> token_form \<Rightarrow> body" where
  "token_body frac f =
     [(''label'', JStr (trim (tf_label f))), (''role'', JStr (tf_role f)), (''scope'', JStr (tf_scope f)),
      (''expires_in_days'', js_Number frac (tf_expires f))] @
     (case token_account f of Some n \<Rightarrow> [(''account_id'', JNum n)] | None \<Rightarrow> [])"

definition submitCreate :: "(jsstring \<Rightarrow> json) \<Rightarrow> tokens_page \<Rightarrow> tokens_page \<times> api_request list \<times> page_effect list" where
  "submitCreate frac s =
     (if tf_role (to_form s) = ''customer'' \<and> token_account (to_form s) = None
      then (s, [], [Toast ErrorTone ''Choose a hosting account'' []])
      else (s\<lparr>to_create := mutate (to_create s)\<rparr>, [ApiPost ''/api/v1/tokens'' (token_body frac (to_form s))], []))"

datatype token_event =
    TokensArrive json
  | AccountsArrive json
  | OpenCreateToken
  | CloseCreateToken
  | CancelCreateToken
  | TypeLabel jsstring
  | ChooseRole jsstring
  | ChooseAccount jsstring
  | ChooseScope jsstring
  | ChooseDays jsstring
  | SubmitToken
  | TokenCreated json
  | TokenRefused jsstring
  | CopyToken
  | CopySettles bool
  | CopiedExpires
  | TokenDone
  | AskRevoke json
  | CancelRevoke
  | ConfirmRevoke
  | TokenRevoked
  | RevokeRefused jsstring

definition no_dialog :: "tokens_page \<Rightarrow> bool" where
  "no_dialog s \<longleftrightarrow> \<not> to_createOpen s \<and> \<not> truthy (to_new s) \<and> \<not> truthy (to_revoke s)"

definition form_open :: "tokens_page \<Rightarrow> bool" where
  "form_open s \<longleftrightarrow> to_createOpen s \<and> \<not> truthy (to_new s)"

definition revoke_open :: "tokens_page \<Rightarrow> bool" where
  "revoke_open s \<longleftrightarrow> truthy (to_revoke s) \<and> \<not> truthy (to_new s)"

text \<open>A required select whose value is not among its options shows the empty one, and blocks the form.\<close>

fun tokens_offered :: "tokens_page \<Rightarrow> token_event \<Rightarrow> bool" where
  "tokens_offered s OpenCreateToken = no_dialog s"
| "tokens_offered s CloseCreateToken = form_open s"
| "tokens_offered s CancelCreateToken = form_open s"
| "tokens_offered s (AccountsArrive d) = to_createOpen s"
| "tokens_offered s (TypeLabel t) = form_open s"
| "tokens_offered s (ChooseRole r) = (form_open s \<and> r \<in> set [''admin'', ''customer''])"
| "tokens_offered s (ChooseAccount i) = (form_open s \<and> tf_role (to_form s) = ''customer'' \<and> i \<in> set (account_options s))"
| "tokens_offered s (ChooseScope c) = (form_open s \<and> c \<in> set [''read-only'', ''full''])"
| "tokens_offered s (ChooseDays d) = (form_open s \<and> d \<in> set token_days)"
| "tokens_offered s SubmitToken =
     (form_open s \<and> \<not> isPending (to_create s) \<and> trim (tf_label (to_form s)) \<noteq> [] \<and>
      (tf_role (to_form s) = ''customer'' \<longrightarrow> tf_account_id (to_form s) \<noteq> [] \<and> tf_account_id (to_form s) \<in> set (account_options s)))"
| "tokens_offered s (TokenCreated v) = isPending (to_create s)"
| "tokens_offered s (TokenRefused e) = isPending (to_create s)"
| "tokens_offered s CopyToken = truthy (to_new s)"
| "tokens_offered s (CopySettles b) = (0 < to_copying s)"
| "tokens_offered s CopiedExpires = (0 < to_timers s)"
| "tokens_offered s TokenDone = truthy (to_new s)"
| "tokens_offered s (AskRevoke row) =
     (no_dialog s \<and> truthy row \<and> row \<in> set (json_list (to_rows s)) \<and> \<not> truthy (jget row ''revoked''))"
| "tokens_offered s CancelRevoke = (revoke_open s \<and> to_revoking s = None)"
| "tokens_offered s ConfirmRevoke = (revoke_open s \<and> to_revoking s = None)"
| "tokens_offered s TokenRevoked = (to_revoking s \<noteq> None)"
| "tokens_offered s (RevokeRefused e) = (to_revoking s \<noteq> None)"
| "tokens_offered s (TokensArrive d) = True"

definition token_url :: "json \<Rightarrow> jsstring" where
  "token_url row = ''/api/v1/tokens/'' @ js_String (jget row ''id'')"

fun tokens_step :: "(jsstring \<Rightarrow> json) \<Rightarrow> jsstring \<Rightarrow> (token_event, tokens_page) page_step" where
  "tokens_step frac u (TokensArrive d) s = (s\<lparr>to_rows := d\<rparr>, [], [])"
| "tokens_step frac u (AccountsArrive d) s = (s\<lparr>to_accounts := d\<rparr>, [], [])"
| "tokens_step frac u OpenCreateToken s = (s\<lparr>to_createOpen := True\<rparr>, [], [])"
| "tokens_step frac u CloseCreateToken s = (s\<lparr>to_createOpen := False, to_form := EMPTY_TOKEN\<rparr>, [], [])"
| "tokens_step frac u CancelCreateToken s = (s\<lparr>to_createOpen := False\<rparr>, [], [])"
| "tokens_step frac u (TypeLabel t) s = (s\<lparr>to_form := (to_form s)\<lparr>tf_label := t\<rparr>\<rparr>, [], [])"
| "tokens_step frac u (ChooseRole r) s = (s\<lparr>to_form := (to_form s)\<lparr>tf_role := r\<rparr>\<rparr>, [], [])"
| "tokens_step frac u (ChooseAccount i) s = (s\<lparr>to_form := (to_form s)\<lparr>tf_account_id := i\<rparr>\<rparr>, [], [])"
| "tokens_step frac u (ChooseScope c) s = (s\<lparr>to_form := (to_form s)\<lparr>tf_scope := c\<rparr>\<rparr>, [], [])"
| "tokens_step frac u (ChooseDays d) s = (s\<lparr>to_form := (to_form s)\<lparr>tf_expires := d\<rparr>\<rparr>, [], [])"
| "tokens_step frac u SubmitToken s = submitCreate frac s"
| "tokens_step frac u (TokenCreated v) s =
     (s\<lparr>to_create := settle_ok (to_create s), to_createOpen := False, to_form := EMPTY_TOKEN, to_copied := False,
        to_new := js_or (jget v ''token'') JNull\<rparr>, [],
      [Toast Success ''Token created'' (''Copy the token now '' @ [em_dash] @ '' it will not be shown again.''),
       Invalidate [''api-tokens'', u]])"
| "tokens_step frac u (TokenRefused e) s =
     (s\<lparr>to_create := settle_error e (to_create s)\<rparr>, [], [Toast ErrorTone ''Could not create token'' e])"
| "tokens_step frac u CopyToken s = (s\<lparr>to_copying := Suc (to_copying s)\<rparr>, [], [])"
| "tokens_step frac u (CopySettles b) s =
     (if b then (s\<lparr>to_copying := to_copying s - 1, to_copied := True, to_timers := Suc (to_timers s)\<rparr>, [],
                 [Toast Success ''Token copied to clipboard'' []])
      else (s\<lparr>to_copying := to_copying s - 1\<rparr>, [], [Toast ErrorTone ''Could not copy'' ''Select the token and copy it manually.'']))"
| "tokens_step frac u CopiedExpires s = (s\<lparr>to_copied := False, to_timers := to_timers s - 1\<rparr>, [], [])"
| "tokens_step frac u TokenDone s = (s\<lparr>to_new := JNull, to_copied := False\<rparr>, [], [])"
| "tokens_step frac u (AskRevoke row) s = (s\<lparr>to_revoke := row\<rparr>, [], [])"
| "tokens_step frac u CancelRevoke s = (s\<lparr>to_revoke := JNull\<rparr>, [], [])"
| "tokens_step frac u ConfirmRevoke s =
     (s\<lparr>to_revoking := Some (to_revoke s)\<rparr>, [ApiDelete (token_url (to_revoke s))], [])"
| "tokens_step frac u TokenRevoked s =
     (s\<lparr>to_revoking := None, to_revoke := JNull\<rparr>, [],
      [Toast Success ''Token revoked'' ''Requests using this token will now be rejected.'', Invalidate [''api-tokens'', u]])"
| "tokens_step frac u (RevokeRefused e) s = (s\<lparr>to_revoking := None\<rparr>, [], [Toast ErrorTone ''Could not revoke token'' e])"

section \<open>What is sent\<close>

definition token_form_ok :: "token_form \<Rightarrow> bool" where
  "token_form_ok f \<longleftrightarrow> tf_role f \<in> set [''admin'', ''customer''] \<and> tf_scope f \<in> set [''read-only'', ''full''] \<and> tf_expires f \<in> set token_days"

definition tokens_inv :: "tokens_page \<Rightarrow> bool" where
  "tokens_inv s \<longleftrightarrow> token_form_ok (to_form s) \<and> (truthy (to_new s) \<longrightarrow> \<not> isPending (to_create s)) \<and>
     (\<forall>r. to_revoking s = Some r \<longrightarrow> to_revoke s = r \<and> truthy r)"

definition token_request_ok :: "api_request \<Rightarrow> bool" where
  "token_request_ok r \<longleftrightarrow>
     (case r of
        ApiPost url b \<Rightarrow> url = ''/api/v1/tokens'' \<and>
          (\<exists>l role scope days account.
             b = [(''label'', JStr l), (''role'', JStr role), (''scope'', JStr scope), (''expires_in_days'', JNum days)] @ account \<and>
             l \<noteq> [] \<and> trim l = l \<and> scope \<in> {''read-only'', ''full''} \<and> days \<in> {1, 7, 30, 60, 90} \<and>
             (role = ''admin'' \<and> account = [] \<or> role = ''customer'' \<and> (\<exists>n > 0. account = [(''account_id'', JNum n)])))
      | ApiDelete url \<Rightarrow> startsWith url ''/api/v1/tokens/''
      | _ \<Rightarrow> False)"

lemma days_number: "d \<in> set token_days \<Longrightarrow> \<exists>n \<in> {1, 7, 30, 60, 90}. js_Number frac d = JNum n"
  by (auto simp: token_days_def)

lemma empty_token_fields [simp]:
  "tf_role EMPTY_TOKEN = ''admin''" "tf_scope EMPTY_TOKEN = ''read-only''" "tf_expires EMPTY_TOKEN \<in> set token_days"
  by code_simp+

lemma tokens_inv_initial: "tokens_inv initial_tokens"
  by (simp add: tokens_inv_def initial_tokens_def idle_def token_form_ok_def)

lemma tokens_inv_step: "tokens_inv s \<Longrightarrow> tokens_offered s e \<Longrightarrow> tokens_inv (fst (tokens_step frac u e s))"
  by (cases e)
     (auto simp: tokens_inv_def submitCreate_def mutation_simps form_open_def revoke_open_def no_dialog_def
        token_form_ok_def)

lemma token_body_ok:
  assumes "token_form_ok f" "trim (tf_label f) \<noteq> []" "tf_role f = ''customer'' \<longrightarrow> token_account f \<noteq> None"
  shows "token_request_ok (ApiPost ''/api/v1/tokens'' (token_body frac f))"
proof -
  obtain n where n: "n \<in> {1, 7, 30, 60, 90}" "js_Number frac (tf_expires f) = JNum n"
    using days_number assms(1) by (auto simp: token_form_ok_def)
  have scope: "tf_scope f \<in> {''read-only'', ''full''}" using assms(1) by (simp add: token_form_ok_def)
  show ?thesis
  proof (cases "tf_role f = ''customer''")
    case True
    then obtain k where k: "token_account f = Some k" using assms(3) by auto
    then have "k > 0" using True by (simp add: token_account_def split: option.splits if_splits)
    with True k n scope assms(2) show ?thesis by (simp add: token_request_ok_def token_body_def)
  next
    case False
    then have "tf_role f = ''admin''" "token_account f = None"
      using assms(1) by (auto simp: token_form_ok_def token_account_def)
    with n scope assms(2) show ?thesis by (simp add: token_request_ok_def token_body_def)
  qed
qed

lemma tokens_good_step:
  "tokens_inv s \<Longrightarrow> tokens_offered s e \<Longrightarrow> list_all token_request_ok (fst (snd (tokens_step frac u e s)))"
proof (cases e)
  case SubmitToken
  assume "tokens_inv s" "tokens_offered s e"
  then show ?thesis using SubmitToken token_body_ok[of "to_form s" frac] by (auto simp: submitCreate_def tokens_inv_def)
next
  case ConfirmRevoke
  have "startsWith (token_url (to_revoke s)) ''/api/v1/tokens/''"
    unfolding token_url_def by (rule startsWith_append)
  then show ?thesis using ConfirmRevoke by (simp add: token_request_ok_def)
qed simp_all

interpretation tokens: page_contract initial_tokens tokens_offered "tokens_step frac u" tokens_inv token_request_ok
  for frac u
  by unfold_locales (simp_all only: tokens_inv_initial tokens_inv_step tokens_good_step)

text \<open>What is asked of the API for a token is always complete and bounded: a trimmed label that is not
  empty, one of the two permissions and one of the five lifetimes; an administrator's token never
  carries an account, a customer's always a positive one. And a token the server has handed out stays
  on the screen until the reader closes it: no other event changes it, and no second creation can be
  running that would replace it.\<close>

theorem token_requests_and_display:
  assumes "page_reach initial_tokens tokens_offered (tokens_step frac u) s sent"
  shows "list_all token_request_ok sent \<and>
    (truthy (to_new s) \<longrightarrow> \<not> isPending (to_create s) \<and>
       (\<forall>e. tokens_offered s e \<and> e \<noteq> TokenDone \<longrightarrow> to_new (fst (tokens_step frac u e s)) = to_new s))"
proof -
  have inv: "tokens_inv s" and sent: "list_all token_request_ok sent" using tokens.reach_inv[OF assms] by auto
  have "to_new (fst (tokens_step frac u e s)) = to_new s"
    if "truthy (to_new s)" "tokens_offered s e" "e \<noteq> TokenDone" for e
    using that inv by (cases e) (auto simp: tokens_inv_def submitCreate_def)
  with inv sent show ?thesis by (auto simp: tokens_inv_def)
qed

definition token_script :: "token_event list" where
  "token_script =
     [OpenCreateToken, AccountsArrive (JArr [JObj [(''id'', JNum 4), (''status'', JStr ''active'')]]), TypeLabel '' billing '',
      ChooseRole ''customer'', ChooseAccount ''4'', ChooseDays ''7'', SubmitToken, TokenCreated (JObj [(''token'', JStr ''bt_1'')])]"

definition billing_request :: api_request where
  "billing_request =
     ApiPost ''/api/v1/tokens''
       [(''label'', JStr ''billing''), (''role'', JStr ''customer''), (''scope'', JStr ''read-only''),
        (''expires_in_days'', JNum 7), (''account_id'', JNum 4)]"

theorem token_requests_and_display_witness:
  "\<exists>s. to_new s = JStr ''bt_1'' \<and> token_request_ok billing_request \<and>
     (\<forall>e. tokens_offered s e \<and> e \<noteq> TokenDone \<longrightarrow> to_new (fst (tokens_step (\<lambda>_. JNull) ''root'' e s)) = to_new s)"
proof -
  have "map_option (\<lambda>r. (to_new (fst r), snd r)) (page_run tokens_offered (tokens_step (\<lambda>_. JNull) ''root'') token_script (initial_tokens, [])) =
      Some (JStr ''bt_1'', [billing_request])"
    by code_simp
  then obtain s where s: "page_run tokens_offered (tokens_step (\<lambda>_. JNull) ''root'') token_script (initial_tokens, []) =
      Some (s, [billing_request])" "to_new s = JStr ''bt_1''" by auto
  from token_requests_and_display[OF scripted_reach[OF s(1)]] s(2) show ?thesis by auto
qed

section \<open>The list\<close>

text \<open>The cells of a token. The time an expiry text stands for is a parameter, None for a text that is no
  date: NaN is not before now.\<close>

definition scope_cell :: "json \<Rightarrow> jsstring" where
  "scope_cell row = (if nullish (jget row ''account_id'') then ''Global'' else ''account #'' @ js_String (jget row ''account_id''))"

definition permission_cell :: "json \<Rightarrow> jsstring" where
  "permission_cell row = (if jget row ''scope'' = JStr ''read-only'' then ''Read only'' else ''Read and manage'')"

definition token_status :: "(json \<Rightarrow> int option) \<Rightarrow> int \<Rightarrow> json \<Rightarrow> jsstring" where
  "token_status time now row =
     (if truthy (jget row ''revoked'') then ''revoked''
      else (case time (jget row ''expires_at'') of
              Some t \<Rightarrow> if t \<le> now then ''expired'' else ''active''
            | None \<Rightarrow> ''active''))"

definition revoke_shown :: "json \<Rightarrow> bool" where
  "revoke_shown row \<longleftrightarrow> \<not> truthy (jget row ''revoked'')"

definition revoke_title :: "json \<Rightarrow> jsstring" where
  "revoke_title row =
     (if truthy row then ''Revoke '' @ [CHR 0x22] @ js_String (jget row ''label'') @ [CHR 0x22] @ ''?'' else ''Revoke token?'')"

text \<open>A token shown as active or expired can be revoked, a revoked one cannot.\<close>

lemma revocable_status: "revoke_shown row \<longleftrightarrow> token_status time now row \<noteq> ''revoked''"
  by (auto simp: revoke_shown_def token_status_def split: option.split)

end
