(* ===== verification/Webhooks_Page.thy ===== *)
theory Webhooks_Page
  imports Page_Machine Format
begin

text \<open>
  \<open>pages/admin/Webhooks.jsx\<close>: the endpoints that are told of account events, their switches, test
  deliveries and the delivery log. The dialogs are modal. A mutation keeps the argument of its latest
  call (\<open>variables\<close>); calls may overlap, so every call in flight is listed with its argument.
\<close>

section \<open>State\<close>

record webhook_form =
  wf_url :: jsstring
  wf_secret :: jsstring
  wf_events :: "jsstring list"

definition EMPTY_WEBHOOK :: webhook_form where
  "EMPTY_WEBHOOK = \<lparr>wf_url = [], wf_secret = [], wf_events = []\<rparr>"

record webhooks_page =
  wh_rows :: "json list"
  wh_open :: bool
  wh_form :: webhook_form
  wh_delete :: "json option"
  wh_deliveries :: "json option"
  wh_creating :: bool
  wh_toggles :: "(jsstring \<times> bool) list"
  wh_tests :: "jsstring list"
  wh_deleting :: "json option"

definition initial_webhooks :: webhooks_page where
  "initial_webhooks =
     \<lparr>wh_rows = [], wh_open = False, wh_form = EMPTY_WEBHOOK, wh_delete = None, wh_deliveries = None,
      wh_creating = False, wh_toggles = [], wh_tests = [], wh_deleting = None\<rparr>"

definition hook_id :: "json \<Rightarrow> jsstring" where
  "hook_id row = js_String (jget row ''id'')"

definition hook_url :: "jsstring \<Rightarrow> jsstring" where
  "hook_url i = ''/api/v1/admin/webhooks/'' @ i"

definition webhook_body :: "webhook_form \<Rightarrow> body" where
  "webhook_body f =
     [(''url'', JStr (trim (wf_url f))), (''events'', JArr (map JStr (wf_events f)))] @
     (if trim (wf_secret f) = [] then [] else [(''secret'', JStr (trim (wf_secret f)))]) @
     [(''enabled'', JBool True)]"

definition toggleEvent :: "jsstring \<Rightarrow> webhook_form \<Rightarrow> webhook_form" where
  "toggleEvent ev f =
     f\<lparr>wf_events := (if ev \<in> set (wf_events f) then filter (\<lambda>x. x \<noteq> ev) (wf_events f) else wf_events f @ [ev])\<rparr>"

section \<open>Events\<close>

datatype webhook_event =
    HooksArrive json
  | OpenHook
  | CloseHook
  | TypeHookUrl jsstring
  | TypeSecret jsstring
  | TickEvent jsstring
  | SubmitHook
  | HookCreated
  | HookRefused jsstring
  | SwitchHook json bool
  | SwitchSettles jsstring bool
  | SwitchFails jsstring bool jsstring
  | TestHook json
  | TestSettles jsstring
  | TestFails jsstring jsstring
  | ShowDeliveries json
  | CloseDeliveries
  | AskDeleteHook json
  | CancelDeleteHook
  | ConfirmDeleteHook
  | HookDeleted
  | DeleteHookFails jsstring

definition hook_dialog :: "webhooks_page \<Rightarrow> bool" where
  "hook_dialog s \<longleftrightarrow> wh_open s \<or> wh_delete s \<noteq> None \<or> wh_deliveries s \<noteq> None"

definition toggling :: "webhooks_page \<Rightarrow> jsstring \<Rightarrow> bool" where
  "toggling s i \<longleftrightarrow> (case wh_toggles s of [] \<Rightarrow> False | (j, _) # _ \<Rightarrow> j = i)"

text \<open>A field of type url holds its text without surrounding white space.\<close>

fun webhooks_offered :: "webhooks_page \<Rightarrow> webhook_event \<Rightarrow> bool" where
  "webhooks_offered s (HooksArrive d) = True"
| "webhooks_offered s OpenHook = (\<not> hook_dialog s)"
| "webhooks_offered s CloseHook = wh_open s"
| "webhooks_offered s (TypeHookUrl t) = (wh_open s \<and> trim t = t)"
| "webhooks_offered s (TypeSecret t) = wh_open s"
| "webhooks_offered s (TickEvent ev) = (wh_open s \<and> ev \<in> set WEBHOOK_EVENTS)"
| "webhooks_offered s SubmitHook = (wh_open s \<and> \<not> wh_creating s \<and> wf_url (wh_form s) \<noteq> [] \<and> wf_events (wh_form s) \<noteq> [])"
| "webhooks_offered s HookCreated = wh_creating s"
| "webhooks_offered s (HookRefused e) = wh_creating s"
| "webhooks_offered s (SwitchHook row next) =
     (\<not> hook_dialog s \<and> row \<in> set (wh_rows s) \<and> \<not> toggling s (hook_id row) \<and> next = (\<not> truthy (jget row ''enabled'')))"
| "webhooks_offered s (SwitchSettles i b) = ((i, b) \<in> set (wh_toggles s))"
| "webhooks_offered s (SwitchFails i b e) = ((i, b) \<in> set (wh_toggles s))"
| "webhooks_offered s (TestHook row) =
     (\<not> hook_dialog s \<and> row \<in> set (wh_rows s) \<and> (case wh_tests s of [] \<Rightarrow> True | i # _ \<Rightarrow> i \<noteq> hook_id row))"
| "webhooks_offered s (TestSettles i) = (i \<in> set (wh_tests s))"
| "webhooks_offered s (TestFails i e) = (i \<in> set (wh_tests s))"
| "webhooks_offered s (ShowDeliveries row) = (\<not> hook_dialog s \<and> row \<in> set (wh_rows s))"
| "webhooks_offered s CloseDeliveries = (wh_deliveries s \<noteq> None)"
| "webhooks_offered s (AskDeleteHook row) = (\<not> hook_dialog s \<and> row \<in> set (wh_rows s))"
| "webhooks_offered s CancelDeleteHook = (wh_delete s \<noteq> None \<and> wh_deleting s = None)"
| "webhooks_offered s ConfirmDeleteHook = (wh_delete s \<noteq> None \<and> wh_deleting s = None)"
| "webhooks_offered s HookDeleted = (wh_deleting s \<noteq> None)"
| "webhooks_offered s (DeleteHookFails e) = (wh_deleting s \<noteq> None)"

fun webhooks_step :: "jsstring \<Rightarrow> (webhook_event, webhooks_page) page_step" where
  "webhooks_step u (HooksArrive d) s = (s\<lparr>wh_rows := json_list (jget d ''webhooks'')\<rparr>, [], [])"
| "webhooks_step u OpenHook s = (s\<lparr>wh_open := True\<rparr>, [], [])"
| "webhooks_step u CloseHook s = (s\<lparr>wh_open := False\<rparr>, [], [])"
| "webhooks_step u (TypeHookUrl t) s = (s\<lparr>wh_form := (wh_form s)\<lparr>wf_url := t\<rparr>\<rparr>, [], [])"
| "webhooks_step u (TypeSecret t) s = (s\<lparr>wh_form := (wh_form s)\<lparr>wf_secret := t\<rparr>\<rparr>, [], [])"
| "webhooks_step u (TickEvent ev) s = (s\<lparr>wh_form := toggleEvent ev (wh_form s)\<rparr>, [], [])"
| "webhooks_step u SubmitHook s =
     (s\<lparr>wh_creating := True\<rparr>, [ApiPost ''/api/v1/admin/webhooks'' (webhook_body (wh_form s))], [])"
| "webhooks_step u HookCreated s =
     (s\<lparr>wh_creating := False, wh_open := False, wh_form := EMPTY_WEBHOOK\<rparr>, [],
      [Toast Success ''Webhook created'' [], Invalidate [''webhooks'', u]])"
| "webhooks_step u (HookRefused e) s = (s\<lparr>wh_creating := False\<rparr>, [], [Toast ErrorTone ''Could not create webhook'' e])"
| "webhooks_step u (SwitchHook row next) s =
     (s\<lparr>wh_toggles := (hook_id row, next) # wh_toggles s\<rparr>,
      [ApiPatch (hook_url (hook_id row)) [(''enabled'', JBool next)]], [])"
| "webhooks_step u (SwitchSettles i b) s =
     (s\<lparr>wh_toggles := remove1 (i, b) (wh_toggles s)\<rparr>, [],
      [Toast Success (if b then ''Webhook enabled'' else ''Webhook disabled'') [], Invalidate [''webhooks'', u]])"
| "webhooks_step u (SwitchFails i b e) s =
     (s\<lparr>wh_toggles := remove1 (i, b) (wh_toggles s)\<rparr>, [], [Toast ErrorTone ''Could not update webhook'' e])"
| "webhooks_step u (TestHook row) s =
     (s\<lparr>wh_tests := hook_id row # wh_tests s\<rparr>, [ApiPost (hook_url (hook_id row) @ ''/test'') []], [])"
| "webhooks_step u (TestSettles i) s =
     (s\<lparr>wh_tests := remove1 i (wh_tests s)\<rparr>, [],
      [Toast Success ''Test event queued'' ''A test payload was dispatched to the endpoint.''])"
| "webhooks_step u (TestFails i e) s =
     (s\<lparr>wh_tests := remove1 i (wh_tests s)\<rparr>, [], [Toast ErrorTone ''Could not send test event'' e])"
| "webhooks_step u (ShowDeliveries row) s =
     (s\<lparr>wh_deliveries := Some row\<rparr>, [ApiGet (hook_url (hook_id row) @ ''/deliveries'')], [])"
| "webhooks_step u CloseDeliveries s = (s\<lparr>wh_deliveries := None\<rparr>, [], [])"
| "webhooks_step u (AskDeleteHook row) s = (s\<lparr>wh_delete := Some row\<rparr>, [], [])"
| "webhooks_step u CancelDeleteHook s = (s\<lparr>wh_delete := None\<rparr>, [], [])"
| "webhooks_step u ConfirmDeleteHook s =
     (case wh_delete s of
        None \<Rightarrow> (s, [], [])
      | Some row \<Rightarrow> (s\<lparr>wh_deleting := Some row\<rparr>, [ApiDelete (hook_url (hook_id row))], []))"
| "webhooks_step u HookDeleted s =
     (s\<lparr>wh_deleting := None, wh_delete := None\<rparr>, [], [Toast Success ''Webhook deleted'' [], Invalidate [''webhooks'', u]])"
| "webhooks_step u (DeleteHookFails e) s = (s\<lparr>wh_deleting := None\<rparr>, [], [Toast ErrorTone ''Could not delete webhook'' e])"

section \<open>What is sent\<close>

definition hook_form_ok :: "webhook_form \<Rightarrow> bool" where
  "hook_form_ok f \<longleftrightarrow> trim (wf_url f) = wf_url f \<and> distinct (wf_events f) \<and> set (wf_events f) \<subseteq> set WEBHOOK_EVENTS"

definition webhooks_inv :: "webhooks_page \<Rightarrow> bool" where
  "webhooks_inv s \<longleftrightarrow> hook_form_ok (wh_form s) \<and> (\<forall>r. wh_deleting s = Some r \<longrightarrow> wh_delete s = Some r)"

definition creation_ok :: "body \<Rightarrow> bool" where
  "creation_ok b \<longleftrightarrow>
     (\<exists>url events secret.
        b = [(''url'', JStr url), (''events'', JArr (map JStr events))] @ secret @ [(''enabled'', JBool True)] \<and>
        url \<noteq> [] \<and> trim url = url \<and> events \<noteq> [] \<and> distinct events \<and> set events \<subseteq> set WEBHOOK_EVENTS \<and>
        (secret = [] \<or> (\<exists>t. t \<noteq> [] \<and> trim t = t \<and> secret = [(''secret'', JStr t)])))"

definition hook_request_ok :: "api_request \<Rightarrow> bool" where
  "hook_request_ok r \<longleftrightarrow>
     (case r of
        ApiPost url b \<Rightarrow> url = ''/api/v1/admin/webhooks'' \<and> creation_ok b \<or> endsWith url ''/test'' \<and> b = []
      | ApiPatch url b \<Rightarrow> \<exists>x. b = [(''enabled'', JBool x)]
      | ApiDelete url \<Rightarrow> startsWith url ''/api/v1/admin/webhooks/''
      | ApiGet url \<Rightarrow> endsWith url ''/deliveries''
      | _ \<Rightarrow> False)"

lemma toggleEvent_ok: "hook_form_ok f \<Longrightarrow> ev \<in> set WEBHOOK_EVENTS \<Longrightarrow> hook_form_ok (toggleEvent ev f)"
  by (auto simp: hook_form_ok_def toggleEvent_def)

lemma empty_webhook_ok: "hook_form_ok EMPTY_WEBHOOK"
  by (simp add: hook_form_ok_def EMPTY_WEBHOOK_def)

lemma webhooks_inv_initial: "webhooks_inv initial_webhooks"
  using empty_webhook_ok by (simp add: webhooks_inv_def initial_webhooks_def)

lemma webhooks_inv_step: "webhooks_inv s \<Longrightarrow> webhooks_offered s e \<Longrightarrow> webhooks_inv (fst (webhooks_step u e s))"
proof (cases e)
  case (TickEvent ev)
  assume "webhooks_inv s" "webhooks_offered s e"
  then show ?thesis using TickEvent by (simp add: webhooks_inv_def toggleEvent_ok)
qed (auto simp: webhooks_inv_def empty_webhook_ok hook_dialog_def split: option.splits, auto simp: hook_form_ok_def)

lemma webhook_body_ok:
  assumes "hook_form_ok f" "wf_url f \<noteq> []" "wf_events f \<noteq> []"
  shows "creation_ok (webhook_body f)"
proof -
  let ?s = "if trim (wf_secret f) = [] then [] else [(''secret'', JStr (trim (wf_secret f)))]"
  have "?s = [] \<or> (\<exists>t. t \<noteq> [] \<and> trim t = t \<and> ?s = [(''secret'', JStr t)])"
    using trim_idem[of "wf_secret f"] by (cases "trim (wf_secret f) = []") auto
  with assms show ?thesis
    unfolding creation_ok_def webhook_body_def hook_form_ok_def
    by (intro exI[of _ "trim (wf_url f)"] exI[of _ "wf_events f"] exI[of _ ?s]) simp
qed

lemma hook_url_parts:
  "startsWith (hook_url i) ''/api/v1/admin/webhooks/''" "endsWith (hook_url i @ ''/test'') ''/test''"
  "endsWith (hook_url i @ ''/deliveries'') ''/deliveries''"
  unfolding hook_url_def by (rule startsWith_append endsWith_append)+

lemma webhooks_good_step:
  "webhooks_inv s \<Longrightarrow> webhooks_offered s e \<Longrightarrow> list_all hook_request_ok (fst (snd (webhooks_step u e s)))"
proof (cases e)
  case SubmitHook
  assume "webhooks_inv s" "webhooks_offered s e"
  then show ?thesis using SubmitHook webhook_body_ok[of "wh_form s"] by (simp add: hook_request_ok_def webhooks_inv_def)
qed (auto simp: hook_request_ok_def hook_url_parts split: option.splits)

interpretation webhooks: page_contract initial_webhooks webhooks_offered "webhooks_step u" webhooks_inv hook_request_ok
  for u
  by unfold_locales (simp_all only: webhooks_inv_initial webhooks_inv_step webhooks_good_step)

text \<open>An endpoint is registered only with a trimmed address that is not empty and at least one event,
  each of them one the server knows and none twice, a secret only when one was typed, and switched
  on; a switch sends the opposite of what the list shows. A deletion is sent only from its open
  question, for the endpoint it names, which cannot change until the answer.\<close>

theorem webhook_requests_valid:
  assumes "page_reach initial_webhooks webhooks_offered (webhooks_step u) s sent"
  shows "list_all hook_request_ok sent \<and>
    (\<forall>row b. webhooks_offered s (SwitchHook row b) \<longrightarrow> b = (\<not> truthy (jget row ''enabled''))) \<and>
    (webhooks_offered s ConfirmDeleteHook \<longrightarrow>
       (\<exists>row. wh_delete s = Some row \<and> fst (snd (webhooks_step u ConfirmDeleteHook s)) = [ApiDelete (hook_url (hook_id row))])) \<and>
    (\<forall>row e. wh_deleting s = Some row \<and> webhooks_offered s e \<and> e \<noteq> HookDeleted \<longrightarrow>
       wh_delete (fst (webhooks_step u e s)) = Some row)"
proof -
  have inv: "webhooks_inv s" and sent: "list_all hook_request_ok sent" using webhooks.reach_inv[OF assms] by auto
  have "wh_delete (fst (webhooks_step u e s)) = Some row"
    if "wh_deleting s = Some row" "webhooks_offered s e" "e \<noteq> HookDeleted" for e row
    using that inv by (cases e) (auto simp: webhooks_inv_def hook_dialog_def split: option.splits)
  with sent show ?thesis by auto
qed

definition webhook_script :: "webhook_event list" where
  "webhook_script =
     [OpenHook, TypeHookUrl ''https://a.example/h'', TickEvent (hd WEBHOOK_EVENTS), TypeSecret '' k '', SubmitHook, HookCreated,
      HooksArrive (JObj [(''webhooks'', JArr [JObj [(''id'', JNum 3), (''enabled'', JBool True)]])]),
      AskDeleteHook (JObj [(''id'', JNum 3), (''enabled'', JBool True)]), ConfirmDeleteHook]"

theorem webhook_requests_valid_witness:
  "\<exists>s. wh_deleting s = Some (JObj [(''id'', JNum 3), (''enabled'', JBool True)]) \<and>
     wh_delete (fst (webhooks_step ''root'' (DeleteHookFails ''no'') s)) = Some (JObj [(''id'', JNum 3), (''enabled'', JBool True)]) \<and>
     hook_request_ok (ApiDelete ''/api/v1/admin/webhooks/3'')"
proof -
  let ?row = "JObj [(''id'', JNum 3), (''enabled'', JBool True)]"
  let ?sent = "[ApiPost ''/api/v1/admin/webhooks'' [(''url'', JStr ''https://a.example/h''), (''events'', JArr [JStr (hd WEBHOOK_EVENTS)]),
      (''secret'', JStr ''k''), (''enabled'', JBool True)], ApiDelete ''/api/v1/admin/webhooks/3'']"
  have "map_option (\<lambda>r. (wh_deleting (fst r), snd r)) (page_run webhooks_offered (webhooks_step ''root'') webhook_script (initial_webhooks, [])) =
      Some (Some ?row, ?sent)"
    by code_simp
  then obtain s where s: "page_run webhooks_offered (webhooks_step ''root'') webhook_script (initial_webhooks, []) = Some (s, ?sent)"
      "wh_deleting s = Some ?row" by auto
  have off: "webhooks_offered s (DeleteHookFails ''no'') \<and> DeleteHookFails ''no'' \<noteq> HookDeleted" using s(2) by simp
  note valid = webhook_requests_valid[OF scripted_reach[OF s(1)]]
  have "hook_request_ok (ApiDelete ''/api/v1/admin/webhooks/3'')" using conjunct1[OF valid] by (simp only: list.pred_inject)
  moreover have "wh_delete (fst (webhooks_step ''root'' (DeleteHookFails ''no'') s)) = Some ?row"
    using conjunct2[OF conjunct2[OF conjunct2[OF valid]], rule_format, of ?row "DeleteHookFails ''no''"] off s(2) by blast
  ultimately show ?thesis using s(2) by blast
qed

text \<open>What was typed, the secret included, is still in the form when the dialog is opened again after
  it was closed without saving.\<close>

lemma webhook_draft_survives:
  "wh_form (fst (webhooks_step u OpenHook (fst (webhooks_step u CloseHook s)))) = wh_form s"
  by simp

section \<open>The lists\<close>

definition hook_events :: "json \<Rightarrow> jsstring list" where
  "hook_events row = map js_String (json_list (jget row ''events''))"

definition events_cell :: "json \<Rightarrow> jsstring list" where
  "events_cell row = (if hook_events row = [] then [''No events selected''] else hook_events row)"

definition events_search :: "json \<Rightarrow> jsstring" where
  "events_search row = join_with '' '' (hook_events row)"

definition response_cell :: "json \<Rightarrow> jsstring" where
  "response_cell d = (if nullish (jget d ''response_code'') then [em_dash] else js_String (jget d ''response_code''))"

definition attempts_cell :: "json \<Rightarrow> jsstring" where
  "attempts_cell d = (if nullish (jget d ''attempt_count'') then [em_dash] else js_String (jget d ''attempt_count''))"

definition delivery_error_cell :: "json \<Rightarrow> jsstring" where
  "delivery_error_cell d = (if truthy (jget d ''error'') then js_String (jget d ''error'') else [em_dash])"

definition delete_hook_text :: "webhooks_page \<Rightarrow> jsstring" where
  "delete_hook_text s =
     (case wh_delete s of
        Some row \<Rightarrow> ''Stop delivering events to '' @ js_String (jget row ''url'') @ ''. Existing delivery history will be removed.''
      | None \<Rightarrow> [])"

end
