(* ===== verification/Account_Limits.thy ===== *)
theory Account_Limits
  imports Page_Machine Js_Decimals Format
begin

text \<open>
  The settings of one hosting account (\<open>pages/admin/AccountDetail.jsx\<close>): PHP version, resource limits,
  plan, isolation, usage limits and the disabled PHP functions. Numbers are exact rationals: the
  divisions by 100 and 1024 and the products the page rounds are computed without the rounding of
  floating point. A text that is no decimal literal is converted by the parameter \<open>other\<close>, None
  standing for NaN.
\<close>

section \<open>Form values\<close>

text \<open>A field shows the number it was opened with until something is typed in it.\<close>

datatype field_value = FNum rat | FText jsstring

fun field_number :: "(jsstring \<Rightarrow> rat option) \<Rightarrow> field_value \<Rightarrow> rat option" where
  "field_number other (FNum q) = Some q"
| "field_number other (FText t) = js_Decimal other t"

text \<open>Comparisons with NaN are false, other than \<open>!==\<close>.\<close>

definition at_least :: "rat option \<Rightarrow> rat \<Rightarrow> bool" where
  "at_least v q \<longleftrightarrow> (case v of Some x \<Rightarrow> x \<ge> q | None \<Rightarrow> False)"

definition at_most :: "rat option \<Rightarrow> rat option \<Rightarrow> bool" where
  "at_most v q \<longleftrightarrow> (case v of None \<Rightarrow> False | Some x \<Rightarrow> (case q of None \<Rightarrow> True | Some y \<Rightarrow> x \<le> y))"

definition whole :: "rat option \<Rightarrow> bool" where
  "whole v \<longleftrightarrow> (case v of Some x \<Rightarrow> of_int \<lfloor>x\<rfloor> = x | None \<Rightarrow> False)"

definition differ :: "rat option \<Rightarrow> rat option \<Rightarrow> bool" where
  "differ a b \<longleftrightarrow> a = None \<or> b = None \<or> a \<noteq> b"

section \<open>Resource limits\<close>

record account_limits =
  ac_cpu_pct :: int
  ac_cpu_cores :: "rat option"
  ac_host_cores :: "rat option"
  ac_mem_mb :: int
  ac_io_mb :: rat
  ac_pids_max :: rat

record limits_form =
  lf_cpu :: field_value
  lf_memory :: field_value
  lf_io :: field_value
  lf_pids :: field_value

definition originalLimits :: "account_limits \<Rightarrow> limits_form" where
  "originalLimits a =
     \<lparr>lf_cpu = FNum (case ac_cpu_cores a of Some c \<Rightarrow> c | None \<Rightarrow> of_int (ac_cpu_pct a) / 100),
      lf_memory = FNum (of_int (ac_mem_mb a) / 1024), lf_io = FNum (ac_io_mb a), lf_pids = FNum (ac_pids_max a)\<rparr>"

text \<open>The body of the request; a number that is NaN is written as null (None).\<close>

record limits_body =
  lb_cpu_pct :: "int option"
  lb_mem_mb :: "int option"
  lb_io_mb :: "rat option"
  lb_pids_max :: "rat option"

definition resourcePayload :: "(jsstring \<Rightarrow> rat option) \<Rightarrow> limits_form \<Rightarrow> limits_body" where
  "resourcePayload other f =
     \<lparr>lb_cpu_pct = map_option (\<lambda>q. js_round (q * 100)) (field_number other (lf_cpu f)),
      lb_mem_mb = map_option (\<lambda>q. js_round (q * 1024)) (field_number other (lf_memory f)),
      lb_io_mb = field_number other (lf_io f), lb_pids_max = field_number other (lf_pids f)\<rparr>"

definition limitsDirty :: "(jsstring \<Rightarrow> rat option) \<Rightarrow> account_limits \<Rightarrow> limits_form \<Rightarrow> bool" where
  "limitsDirty other a f \<longleftrightarrow>
     list_ex (\<lambda>g. differ (field_number other (g f)) (field_number other (g (originalLimits a)))) [lf_cpu, lf_memory, lf_io, lf_pids]"

definition limitsValid :: "(jsstring \<Rightarrow> rat option) \<Rightarrow> account_limits \<Rightarrow> limits_form \<Rightarrow> bool" where
  "limitsValid other a f \<longleftrightarrow>
     whole (field_number other (lf_pids f)) \<and>
     at_least (field_number other (lf_cpu f)) (1 / 100) \<and> at_most (field_number other (lf_cpu f)) (ac_host_cores a) \<and>
     at_least (field_number other (lf_memory f)) (1 / 16) \<and> at_most (field_number other (lf_memory f)) (Some 64) \<and>
     at_least (field_number other (lf_io f)) 1 \<and> at_least (field_number other (lf_pids f)) 10"

record limits_card =
  lc_account :: account_limits
  lc_draft :: "limits_form option"
  lc_sent :: "limits_body option"

definition lc_form :: "limits_card \<Rightarrow> limits_form" where
  "lc_form s = (case lc_draft s of Some f \<Rightarrow> f | None \<Rightarrow> originalLimits (lc_account s))"

datatype limits_event =
    EditLimits limits_form
  | UpdateLimits
  | LimitsSaved
  | LimitsRefused jsstring
  | DiscardLimits
  | AccountArrives account_limits

text \<open>The button, and the Save of the bar of unsaved sections, which checks validity only: the bar
  shows a section only while it is dirty.\<close>

definition limits_offered :: "(jsstring \<Rightarrow> rat option) \<Rightarrow> limits_card \<Rightarrow> limits_event \<Rightarrow> bool" where
  "limits_offered other s e =
     (case e of
        UpdateLimits \<Rightarrow> lc_sent s = None \<and> limitsValid other (lc_account s) (lc_form s) \<and> limitsDirty other (lc_account s) (lc_form s)
      | LimitsSaved \<Rightarrow> lc_sent s \<noteq> None
      | LimitsRefused _ \<Rightarrow> lc_sent s \<noteq> None
      | DiscardLimits \<Rightarrow> lc_sent s = None \<and> limitsDirty other (lc_account s) (lc_form s)
      | _ \<Rightarrow> True)"

text \<open>What the cache entry of the account becomes when an update is reported as done. The account's
  numbers are never NaN; a null in the body leaves the model's number as it was.\<close>

definition with_body :: "limits_body \<Rightarrow> account_limits \<Rightarrow> account_limits" where
  "with_body b a =
     (let put = (\<lambda>v old. case v of Some x \<Rightarrow> x | None \<Rightarrow> old)
      in a\<lparr>ac_cpu_pct := put (lb_cpu_pct b) (ac_cpu_pct a),
           ac_cpu_cores := (case lb_cpu_pct b of Some p \<Rightarrow> Some (of_int p / 100) | None \<Rightarrow> ac_cpu_cores a),
           ac_mem_mb := put (lb_mem_mb b) (ac_mem_mb a), ac_io_mb := (case lb_io_mb b of Some x \<Rightarrow> x | None \<Rightarrow> ac_io_mb a),
           ac_pids_max := (case lb_pids_max b of Some x \<Rightarrow> x | None \<Rightarrow> ac_pids_max a)\<rparr>)"

fun limits_step :: "(jsstring \<Rightarrow> rat option) \<Rightarrow> limits_event \<Rightarrow> limits_card \<Rightarrow> limits_card \<times> limits_body list \<times> page_effect list" where
  "limits_step other (EditLimits f) s = (s\<lparr>lc_draft := Some f\<rparr>, [], [])"
| "limits_step other UpdateLimits s =
     (s\<lparr>lc_sent := Some (resourcePayload other (lc_form s))\<rparr>, [resourcePayload other (lc_form s)], [])"
| "limits_step other LimitsSaved s =
     (case lc_sent s of
        None \<Rightarrow> (s, [], [])
      | Some b \<Rightarrow>
          (s\<lparr>lc_sent := None, lc_account := with_body b (lc_account s),
             lc_draft := (case lc_draft s of Some f \<Rightarrow> if resourcePayload other f \<noteq> b then Some f else None | None \<Rightarrow> None)\<rparr>,
           [], [Toast Success ''Limits updated'' []]))"
| "limits_step other (LimitsRefused e) s =
     (s\<lparr>lc_sent := None\<rparr>, [], [Toast ErrorTone ''Could not update resource limits'' e])"
| "limits_step other DiscardLimits s = (s\<lparr>lc_draft := None\<rparr>, [], [])"
| "limits_step other (AccountArrives a) s = (s\<lparr>lc_account := a\<rparr>, [], [])"

subsection \<open>Bounds and the way back\<close>

lemma js_round_of_int [simp]: "js_round (of_int n) = n"
  unfolding js_round_def by (rule floor_unique) simp_all

lemma js_round_mono: "a \<le> b \<Longrightarrow> js_round a \<le> js_round b"
  by (simp add: js_round_def floor_mono)

lemma js_round_bounds: "of_int lo \<le> q \<Longrightarrow> q \<le> of_int hi \<Longrightarrow> lo \<le> js_round q \<and> js_round q \<le> hi"
  using js_round_mono[of "of_int lo" q] js_round_mono[of q "of_int hi"] by simp

definition body_in_bounds :: "account_limits \<Rightarrow> limits_body \<Rightarrow> bool" where
  "body_in_bounds a b \<longleftrightarrow>
     (\<exists>cpu mem io pids. b = \<lparr>lb_cpu_pct = Some cpu, lb_mem_mb = Some mem, lb_io_mb = Some io, lb_pids_max = Some (of_int pids)\<rparr> \<and>
        1 \<le> cpu \<and> (\<forall>h. ac_host_cores a = Some h \<longrightarrow> cpu \<le> js_round (h * 100)) \<and> 64 \<le> mem \<and> mem \<le> 65536 \<and> 1 \<le> io \<and> 10 \<le> pids)"

lemma valid_payload_bounds:
  assumes "limitsValid other a f"
  shows "body_in_bounds a (resourcePayload other f)"
proof -
  obtain cpu mem io pids where v: "field_number other (lf_cpu f) = Some cpu" "field_number other (lf_memory f) = Some mem"
      "field_number other (lf_io f) = Some io" "field_number other (lf_pids f) = Some pids"
    using assms by (auto simp: limitsValid_def at_least_def whole_def split: option.splits)
  have w: "of_int \<lfloor>pids\<rfloor> = pids" using assms unfolding limitsValid_def whole_def v option.case by blast
  have b: "1 / 100 \<le> cpu" "\<forall>h. ac_host_cores a = Some h \<longrightarrow> cpu \<le> h" "1 / 16 \<le> mem" "mem \<le> 64" "1 \<le> io" "10 \<le> pids"
    using assms v by (auto simp: limitsValid_def at_least_def at_most_def split: option.splits)
  have "1 \<le> js_round (cpu * 100)" using js_round_mono[of "of_int 1" "cpu * 100"] b(1) js_round_of_int[of 1] by simp
  moreover have "64 \<le> js_round (mem * 1024)" "js_round (mem * 1024) \<le> 65536"
    using js_round_bounds[of 64 "mem * 1024" 65536] b(3,4) by simp_all
  moreover have "\<forall>h. ac_host_cores a = Some h \<longrightarrow> js_round (cpu * 100) \<le> js_round (h * 100)"
    using b(2) by (auto intro!: js_round_mono)
  moreover have "10 \<le> \<lfloor>pids\<rfloor>" using b(6) by (simp add: le_floor_iff)
  moreover have "resourcePayload other f =
      \<lparr>lb_cpu_pct = Some (js_round (cpu * 100)), lb_mem_mb = Some (js_round (mem * 1024)), lb_io_mb = Some io, lb_pids_max = Some (of_int \<lfloor>pids\<rfloor>)\<rparr>"
    unfolding w using v by (simp add: resourcePayload_def)
  ultimately show ?thesis using b(5) unfolding body_in_bounds_def by blast
qed

text \<open>The form a saved body is shown in sends that body again.\<close>

lemma payload_of_saved:
  assumes "body_in_bounds a0 b"
  shows "resourcePayload other (originalLimits (with_body b a)) = b"
proof -
  obtain cpu mem io pids where "b = \<lparr>lb_cpu_pct = Some cpu, lb_mem_mb = Some mem, lb_io_mb = Some io, lb_pids_max = Some (of_int pids)\<rparr>"
    using assms by (auto simp: body_in_bounds_def)
  then show ?thesis
    by (simp add: resourcePayload_def originalLimits_def with_body_def Let_def)
qed

lemma original_not_dirty: "\<not> limitsDirty other a (originalLimits a)"
  by (simp add: limitsDirty_def originalLimits_def differ_def)

inductive limits_reach :: "(jsstring \<Rightarrow> rat option) \<Rightarrow> limits_card \<Rightarrow> limits_body list \<Rightarrow> bool" for other where
  start: "limits_reach other \<lparr>lc_account = a, lc_draft = None, lc_sent = None\<rparr> []"
| step: "limits_reach other s sent \<Longrightarrow> limits_offered other s e \<Longrightarrow> limits_step other e s = (s', new, effs) \<Longrightarrow>
     limits_reach other s' (sent @ new)"

definition finite_body :: "limits_body \<Rightarrow> bool" where
  "finite_body b \<longleftrightarrow>
     (\<exists>cpu mem io pids. b = \<lparr>lb_cpu_pct = Some cpu, lb_mem_mb = Some mem, lb_io_mb = Some io, lb_pids_max = Some (of_int pids)\<rparr> \<and>
        1 \<le> cpu \<and> 64 \<le> mem \<and> mem \<le> 65536 \<and> 1 \<le> io \<and> 10 \<le> pids)"

lemma in_bounds_finite: "body_in_bounds a b \<Longrightarrow> finite_body b"
  unfolding body_in_bounds_def finite_body_def by blast

lemma limits_reach_bounds:
  "limits_reach other s sent \<Longrightarrow> list_all finite_body sent \<and> (\<forall>b. lc_sent s = Some b \<longrightarrow> finite_body b)"
proof (induction rule: limits_reach.induct)
  case (start a)
  then show ?case by simp
next
  case (step s sent e s' new effs)
  then show ?case
    by (cases e) (auto simp: limits_offered_def split: option.splits dest!: valid_payload_bounds in_bounds_finite)
qed

text \<open>C30. Resource limits. Whatever is typed, every update sent has the four numbers, none of them NaN: at
  least one percent of a core and never more than the host's, 64 to 65,536 megabytes, at least
  one megabyte a second and a whole number of at least ten processes. When an update is reported as
  done and nothing was typed meanwhile, the form shows the saved numbers: it is not dirty, and would
  send the same body; what was typed meanwhile is kept.\<close>

theorem resource_limits_bounded:
  assumes "limits_reach other s sent"
  shows "list_all finite_body sent \<and>
    (limits_offered other s UpdateLimits \<longrightarrow> body_in_bounds (lc_account s) (resourcePayload other (lc_form s))) \<and>
    (\<forall>b. lc_sent s = Some b \<longrightarrow>
       (let s' = fst (limits_step other LimitsSaved s)
        in resourcePayload other (originalLimits (lc_account s')) = b \<and>
           (case lc_draft s of
              None \<Rightarrow> lc_form s' = originalLimits (lc_account s')
            | Some f \<Rightarrow> if resourcePayload other f = b then \<not> limitsDirty other (lc_account s') (lc_form s') else lc_form s' = f)))"
proof -
  have saved: "resourcePayload other (originalLimits (with_body b a)) = b" if "finite_body b" for a b
  proof -
    have "body_in_bounds \<lparr>ac_cpu_pct = 1, ac_cpu_cores = None, ac_host_cores = None, ac_mem_mb = 64, ac_io_mb = 1, ac_pids_max = 10\<rparr> b"
      using that by (auto simp: body_in_bounds_def finite_body_def)
    then show ?thesis by (rule payload_of_saved)
  qed
  show ?thesis
    using limits_reach_bounds[OF assms] saved valid_payload_bounds[of other "lc_account s" "lc_form s"] original_not_dirty
    by (auto simp: Let_def lc_form_def limits_offered_def split: option.splits)
qed

definition small_account :: account_limits where
  "small_account = \<lparr>ac_cpu_pct = 25, ac_cpu_cores = Some (1 / 4), ac_host_cores = Some 4, ac_mem_mb = 512, ac_io_mb = 50, ac_pids_max = 50\<rparr>"

theorem resource_limits_bounded_witness:
  "\<exists>s. limits_reach (\<lambda>_. None) s [\<lparr>lb_cpu_pct = Some 150, lb_mem_mb = Some 512, lb_io_mb = Some 50, lb_pids_max = Some 50\<rparr>] \<and>
     finite_body \<lparr>lb_cpu_pct = Some 150, lb_mem_mb = Some 512, lb_io_mb = Some 50, lb_pids_max = Some 50\<rparr>"
proof -
  let ?s = "\<lparr>lc_account = small_account, lc_draft = None, lc_sent = None\<rparr>"
  let ?f = "(originalLimits small_account)\<lparr>lf_cpu := FText ''1.5''\<rparr>"
  let ?b = "\<lparr>lb_cpu_pct = Some 150, lb_mem_mb = Some 512, lb_io_mb = Some 50, lb_pids_max = Some 50\<rparr>"
  have 1: "limits_reach (\<lambda>_. None) (?s\<lparr>lc_draft := Some ?f\<rparr>) ([] @ [])"
    by (rule limits_reach.step[OF limits_reach.start, of _ _ "EditLimits ?f"]) (simp_all add: limits_offered_def)
  have p: "resourcePayload (\<lambda>_. None) ?f = ?b" by code_simp
  have "limitsValid (\<lambda>_. None) small_account ?f" "limitsDirty (\<lambda>_. None) small_account ?f" by code_simp+
  then have "limits_offered (\<lambda>_. None) (?s\<lparr>lc_draft := Some ?f\<rparr>) UpdateLimits" by (simp add: limits_offered_def lc_form_def)
  from limits_reach.step[OF 1 this] p
  have 2: "limits_reach (\<lambda>_. None) (?s\<lparr>lc_draft := Some ?f, lc_sent := Some ?b\<rparr>) ([] @ [] @ [?b])"
    by (simp add: lc_form_def)
  show ?thesis
    using 2 conjunct1[OF resource_limits_bounded[OF 2]] by (intro exI[of _ "?s\<lparr>lc_draft := Some ?f, lc_sent := Some ?b\<rparr>"]) simp
qed

text \<open>The page tells the administrator of an account whose stored share exceeds the host to save in
  order to reconcile it; the server answers with the capped share, which is what the form shows, so
  nothing can be saved until another value is changed.\<close>

lemma capped_account_not_savable:
  assumes "ac_cpu_cores a = Some (min (of_int (ac_cpu_pct a) / 100) h)" "ac_host_cores a = Some h" "of_int (ac_cpu_pct a) / 100 > h"
  shows "\<not> limits_offered other \<lparr>lc_account = a, lc_draft = None, lc_sent = None\<rparr> UpdateLimits"
  using original_not_dirty[of other a] by (simp add: limits_offered_def lc_form_def)

text \<open>A fraction of a megabyte per second passes the page's check, and the server accepts integers only.\<close>

lemma fractional_io_passes:
  "limitsValid (\<lambda>_. None) small_account ((originalLimits small_account)\<lparr>lf_io := FText ''1.5''\<rparr>) \<and>
   lb_io_mb (resourcePayload (\<lambda>_. None) ((originalLimits small_account)\<lparr>lf_io := FText ''1.5''\<rparr>)) = Some (3 / 2)"
  by code_simp

end
