(* ===== verification/Account_Settings.thy ===== *)
theory Account_Settings
  imports Account_Limits
begin

text \<open>
  The remaining settings of an account (\<open>pages/admin/AccountDetail.jsx\<close>): the usage limits, which are
  sent as the differences to what the server reported, the lists of disabled PHP functions with
  their scopes, the PHP version, the plan and the isolation.
\<close>

section \<open>Usage limits\<close>

datatype limit_key = Bandwidth | DatabaseLimit | EmailLimit | SubdomainLimit

definition USAGE_LIMIT_FIELDS :: "(limit_key \<times> jsstring \<times> jsstring) list" where
  "USAGE_LIMIT_FIELDS =
     [(Bandwidth, ''bandwidth_limit_mb'', ''Bandwidth limit (GB/month)''), (DatabaseLimit, ''database_limit'', ''Database limit''),
      (EmailLimit, ''email_account_limit'', ''Email account limit''), (SubdomainLimit, ''subdomain_limit'', ''Subdomain limit'')]"

definition limit_keys :: "limit_key list" where
  "limit_keys = map fst USAGE_LIMIT_FIELDS"

record usage_data =
  ud_value :: "limit_key \<Rightarrow> int option"
  ud_auto :: bool

record usage_form =
  uf_value :: "limit_key \<Rightarrow> field_value"
  uf_auto :: bool

text \<open>Bandwidth is edited in gigabytes and stored in megabytes.\<close>

definition usage_originalForm :: "usage_data \<Rightarrow> usage_form" where
  "usage_originalForm d =
     \<lparr>uf_value = (\<lambda>k. case ud_value d k of None \<Rightarrow> FText []
                  | Some n \<Rightarrow> FNum (if k = Bandwidth then of_int n / 1024 else of_int n)),
      uf_auto = ud_auto d\<rparr>"

datatype api_value = ANull | ANaN | ANum rat

definition apiValue :: "(jsstring \<Rightarrow> rat option) \<Rightarrow> limit_key \<Rightarrow> field_value \<Rightarrow> api_value" where
  "apiValue other k v =
     (if v = FText [] then ANull
      else case field_number other v of
             None \<Rightarrow> ANaN
           | Some q \<Rightarrow> ANum (if k = Bandwidth then of_int (js_round (q * 1024)) else q))"

definition stored :: "int option \<Rightarrow> api_value" where
  "stored v = (case v of None \<Rightarrow> ANull | Some n \<Rightarrow> ANum (of_int n))"

definition changed_keys :: "(jsstring \<Rightarrow> rat option) \<Rightarrow> usage_data \<Rightarrow> usage_form \<Rightarrow> limit_key list" where
  "changed_keys other d f =
     filter (\<lambda>k. apiValue other k (uf_value f k) = ANaN \<or> apiValue other k (uf_value f k) \<noteq> stored (ud_value d k)) limit_keys"

definition usage_dirty :: "(jsstring \<Rightarrow> rat option) \<Rightarrow> usage_data \<Rightarrow> usage_form \<Rightarrow> bool" where
  "usage_dirty other d f \<longleftrightarrow> changed_keys other d f \<noteq> [] \<or> uf_auto f \<noteq> ud_auto d"

definition usage_valid :: "(jsstring \<Rightarrow> rat option) \<Rightarrow> usage_form \<Rightarrow> bool" where
  "usage_valid other f \<longleftrightarrow>
     list_all (\<lambda>k. uf_value f k = FText [] \<or>
        (at_least (field_number other (uf_value f k)) 1 \<and> (k = Bandwidth \<or> whole (field_number other (uf_value f k))))) limit_keys"

text \<open>The body: the changed limits and the changed switch. An empty one is not sent.\<close>

record usage_body =
  ub_limits :: "(limit_key \<times> api_value) list"
  ub_auto :: "bool option"

definition save_usage :: "(jsstring \<Rightarrow> rat option) \<Rightarrow> usage_data \<Rightarrow> usage_form \<Rightarrow> usage_body option" where
  "save_usage other d f =
     (let b = \<lparr>ub_limits = map (\<lambda>k. (k, apiValue other k (uf_value f k))) (changed_keys other d f),
               ub_auto = (if uf_auto f \<noteq> ud_auto d then Some (uf_auto f) else None)\<rparr>
      in if ub_limits b = [] \<and> ub_auto b = None then None else Some b)"

text \<open>What the server does with a body, and what the page puts into its cache.\<close>

definition patch_usage :: "usage_body \<Rightarrow> usage_data \<Rightarrow> usage_data" where
  "patch_usage b d =
     \<lparr>ud_value = (\<lambda>k. case map_of (ub_limits b) k of
                     None \<Rightarrow> ud_value d k | Some (ANum q) \<Rightarrow> Some \<lfloor>q\<rfloor> | Some _ \<Rightarrow> None),
      ud_auto = (case ub_auto b of None \<Rightarrow> ud_auto d | Some x \<Rightarrow> x)\<rparr>"

definition same_usage_form :: "usage_form \<Rightarrow> usage_form \<Rightarrow> bool" where
  "same_usage_form f g \<longleftrightarrow> list_all (\<lambda>k. uf_value f k = uf_value g k) limit_keys \<and> uf_auto f = uf_auto g"

definition usage_after_save :: "usage_form option \<Rightarrow> usage_form \<Rightarrow> usage_form option" where
  "usage_after_save draft submitted =
     (case draft of Some f \<Rightarrow> if \<not> same_usage_form f submitted then Some f else None | None \<Rightarrow> None)"

lemma all_limit_keys [simp]: "k \<in> set limit_keys"
  by (cases k) (simp_all add: limit_keys_def USAGE_LIMIT_FIELDS_def)

lemma original_value: "apiValue other k (uf_value (usage_originalForm d) k) = stored (ud_value d k)"
  by (simp add: apiValue_def usage_originalForm_def stored_def split: option.split)

lemma original_auto: "uf_auto (usage_originalForm d) = ud_auto d"
  by (simp add: usage_originalForm_def)

lemma original_usage_clean: "\<not> usage_dirty other d (usage_originalForm d)"
  by (auto simp: usage_dirty_def changed_keys_def original_value original_auto filter_empty_conv stored_def split: option.splits)

lemma valid_api_value:
  assumes "usage_valid other f"
  shows "apiValue other k (uf_value f k) = ANull \<or> (\<exists>n. apiValue other k (uf_value f k) = ANum (of_int n) \<and> 1 \<le> n)"
proof (cases "uf_value f k = FText []")
  case True
  then show ?thesis by (simp add: apiValue_def)
next
  case False
  have "k \<in> set limit_keys" by simp
  with assms False have v: "at_least (field_number other (uf_value f k)) 1" "k = Bandwidth \<or> whole (field_number other (uf_value f k))"
    by (auto simp: usage_valid_def list_all_iff)
  then obtain q where q: "field_number other (uf_value f k) = Some q" "1 \<le> q" by (auto simp: at_least_def split: option.splits)
  show ?thesis
  proof (cases "k = Bandwidth")
    case True
    have "1 \<le> js_round (q * 1024)" using js_round_mono[of "of_int 1" "q * 1024"] js_round_of_int[of 1] q(2) by simp
    with True False q show ?thesis by (simp add: apiValue_def)
  next
    case nb: False
    then have "of_int \<lfloor>q\<rfloor> = q" using v(2) unfolding whole_def q(1) option.case by blast
    moreover have "1 \<le> \<lfloor>q\<rfloor>" using q(2) by (simp add: le_floor_iff)
    ultimately have "\<exists>n. q = of_int n \<and> 1 \<le> n" by metis
    with nb False q show ?thesis by (simp add: apiValue_def)
  qed
qed

lemma patched_value:
  assumes "save_usage other d f = Some b" "usage_valid other f"
  shows "stored (ud_value (patch_usage b d) k) = apiValue other k (uf_value f k)"
proof -
  have lim: "ub_limits b = map (\<lambda>k. (k, apiValue other k (uf_value f k))) (changed_keys other d f)"
    using assms(1) by (auto simp: save_usage_def Let_def split: if_splits)
  have m: "map_of (map (\<lambda>k. (k, g k)) ks) k = (if k \<in> set ks then Some (g k) else None)" for g :: "limit_key \<Rightarrow> api_value" and ks
    by (induction ks) auto
  show ?thesis
  proof (cases "k \<in> set (changed_keys other d f)")
    case True
    then show ?thesis using valid_api_value[OF assms(2), of k] by (auto simp: patch_usage_def lim m stored_def)
  next
    case False
    then have "apiValue other k (uf_value f k) = stored (ud_value d k)" by (auto simp: changed_keys_def)
    with False show ?thesis by (simp add: patch_usage_def lim m)
  qed
qed

text \<open>C27. Saving the usage limits sends exactly the difference: nothing is sent when the form shows what the
  server holds; otherwise every limit sent is one that differs, is null (not tracked) or a whole number of at
  least one, and the stored limits changed by the body are the ones the form shows, so the form is
  no longer dirty.\<close>

theorem usage_limits_sent_exactly:
  assumes "usage_valid other f"
  shows "case save_usage other d f of
      None \<Rightarrow> \<not> usage_dirty other d f
    | Some b \<Rightarrow> usage_dirty other d f \<and>
        list_all (\<lambda>(k, v). v \<noteq> stored (ud_value d k) \<and> (v = ANull \<or> (\<exists>n\<ge>1. v = ANum (of_int n)))) (ub_limits b) \<and>
        (\<forall>k. stored (ud_value (patch_usage b d) k) = apiValue other k (uf_value f k)) \<and>
        ud_auto (patch_usage b d) = uf_auto f \<and> \<not> usage_dirty other (patch_usage b d) f"
proof (cases "save_usage other d f")
  case None
  then show ?thesis by (auto simp: save_usage_def Let_def usage_dirty_def split: if_splits)
next
  case (Some b)
  have b: "ub_limits b = map (\<lambda>k. (k, apiValue other k (uf_value f k))) (changed_keys other d f)"
      "ub_auto b = (if uf_auto f \<noteq> ud_auto d then Some (uf_auto f) else None)"
    using Some by (auto simp: save_usage_def Let_def split: if_splits)
  have dirty: "usage_dirty other d f"
    using Some by (auto simp: save_usage_def Let_def usage_dirty_def split: if_splits)
  have nan: "apiValue other k (uf_value f k) \<noteq> ANaN" for k using valid_api_value[OF assms, of k] by auto
  have sent: "list_all (\<lambda>(k, v). v \<noteq> stored (ud_value d k) \<and> (v = ANull \<or> (\<exists>n\<ge>1. v = ANum (of_int n)))) (ub_limits b)"
    using valid_api_value[OF assms] nan by (fastforce simp: b(1) list_all_iff changed_keys_def)
  have auto_flag: "ud_auto (patch_usage b d) = uf_auto f" by (simp add: patch_usage_def b(2))
  have "\<not> usage_dirty other (patch_usage b d) f"
    by (simp add: usage_dirty_def changed_keys_def patched_value[OF Some assms] nan auto_flag filter_empty_conv)
  with Some dirty sent auto_flag patched_value[OF Some assms] show ?thesis by simp
qed

definition tracked :: usage_data where
  "tracked = \<lparr>ud_value = (\<lambda>k. if k = Bandwidth then Some 1536 else None), ud_auto = False\<rparr>"

theorem usage_limits_sent_exactly_witness:
  "\<exists>b. save_usage (\<lambda>_. None) tracked ((usage_originalForm tracked)\<lparr>uf_value := (uf_value (usage_originalForm tracked))(EmailLimit := FText ''5'')\<rparr>) = Some b \<and>
     ub_limits b = [(EmailLimit, ANum 5)] \<and> ud_value (patch_usage b tracked) Bandwidth = Some 1536"
proof -
  let ?f = "(usage_originalForm tracked)\<lparr>uf_value := (uf_value (usage_originalForm tracked))(EmailLimit := FText ''5'')\<rparr>"
  have valid: "usage_valid (\<lambda>_. None) ?f" by code_simp
  have "map_option ub_limits (save_usage (\<lambda>_. None) tracked ?f) = Some [(EmailLimit, ANum 5)]" by code_simp
  then obtain b where b: "save_usage (\<lambda>_. None) tracked ?f = Some b" "ub_limits b = [(EmailLimit, ANum 5)]" by auto
  have "stored (ud_value (patch_usage b tracked) Bandwidth) = apiValue (\<lambda>_. None) Bandwidth (uf_value ?f Bandwidth)"
    using usage_limits_sent_exactly[OF valid, of tracked] by (simp only: b(1) option.case)
  also have "\<dots> = stored (Some 1536)" by code_simp
  finally show ?thesis using b by (auto simp: stored_def split: option.splits)
qed

section \<open>Disabled PHP functions\<close>

definition function_text :: "jsstring list \<Rightarrow> jsstring" where
  "function_text xs = join_with '', '' xs"

definition function_list :: "jsstring \<Rightarrow> jsstring list" where
  "function_list t = filter (\<lambda>x. x \<noteq> []) (map trim (split_on (CHR '','') t))"

record php_functions =
  pf_default :: "jsstring list"
  pf_account :: "jsstring list option"
  pf_domains :: "(jsstring \<times> jsstring list) list"

record php_functions_tab =
  pt_data :: php_functions
  pt_domain :: jsstring
  pt_draft :: "jsstring list option"
  pt_saving :: bool
  pt_clearing :: bool

text \<open>The override of the chosen scope: of the whole account when no domain is chosen.\<close>

definition scopeOverride :: "php_functions_tab \<Rightarrow> jsstring list option" where
  "scopeOverride s = (if pt_domain s = [] then pf_account (pt_data s) else map_of (pf_domains (pt_data s)) (pt_domain s))"

definition effective :: "php_functions_tab \<Rightarrow> jsstring list option" where
  "effective s =
     (case scopeOverride s of Some xs \<Rightarrow> Some xs
      | None \<Rightarrow> if pt_domain s = [] then Some (pf_default (pt_data s)) else None)"

definition shown_functions :: "php_functions_tab \<Rightarrow> jsstring list" where
  "shown_functions s =
     (case pt_draft s of Some xs \<Rightarrow> xs
      | None \<Rightarrow> (case scopeOverride s of Some xs \<Rightarrow> xs | None \<Rightarrow> pf_default (pt_data s)))"

definition scope_hint :: "php_functions_tab \<Rightarrow> jsstring" where
  "scope_hint s =
     (if scopeOverride s \<noteq> None then ''This scope has its own override, shown below.''
      else if pt_domain s \<noteq> []
        then ''No override for this domain '' @ [em_dash] @ '' falls back to the account-wide override (if any), else the server default, shown below.''
      else ''No account-wide override '' @ [em_dash] @ '' the server default is shown below.'')"

definition re_enabled_note :: "php_functions_tab \<Rightarrow> bool" where
  "re_enabled_note s \<longleftrightarrow> effective s = None"

datatype function_event =
    ChooseScope jsstring
  | EditFunctions jsstring
  | SaveOverride
  | OverrideSaved
  | OverrideRefused jsstring
  | ClearOverride
  | OverrideCleared
  | ClearRefused jsstring
  | DiscardFunctions
  | FunctionsArrive php_functions

fun functions_offered :: "jsstring list \<Rightarrow> php_functions_tab \<Rightarrow> function_event \<Rightarrow> bool" where
  "functions_offered domains s (ChooseScope d) = (d = [] \<or> d \<in> set domains)"
| "functions_offered domains s (EditFunctions t) = (\<not> pt_saving s \<and> \<not> pt_clearing s)"
| "functions_offered domains s SaveOverride = (\<not> pt_saving s)"
| "functions_offered domains s OverrideSaved = pt_saving s"
| "functions_offered domains s (OverrideRefused e) = pt_saving s"
| "functions_offered domains s ClearOverride = (scopeOverride s \<noteq> None \<and> \<not> pt_clearing s)"
| "functions_offered domains s OverrideCleared = pt_clearing s"
| "functions_offered domains s (ClearRefused e) = pt_clearing s"
| "functions_offered domains s DiscardFunctions = (pt_draft s \<noteq> None \<and> \<not> pt_saving s)"
| "functions_offered domains s (FunctionsArrive d) = True"

definition functions_url :: "jsstring \<Rightarrow> jsstring" where
  "functions_url u = ''/api/v1/admin/accounts/'' @ u @ ''/php-functions''"

definition override_body :: "php_functions_tab \<Rightarrow> body" where
  "override_body s =
     [(''domain'', if pt_domain s = [] then JNull else JStr (pt_domain s)), (''disable_functions'', JArr (map JStr (shown_functions s)))]"

fun functions_step :: "jsstring \<Rightarrow> (function_event, php_functions_tab) page_step" where
  "functions_step u (ChooseScope d) s = (s\<lparr>pt_domain := d, pt_draft := None\<rparr>, [], [])"
| "functions_step u (EditFunctions t) s = (s\<lparr>pt_draft := Some (function_list t)\<rparr>, [], [])"
| "functions_step u SaveOverride s = (s\<lparr>pt_saving := True\<rparr>, [ApiPut (functions_url u) (override_body s)], [])"
| "functions_step u OverrideSaved s =
     (s\<lparr>pt_saving := False, pt_draft := None\<rparr>, [], [Toast Success ''Override saved'' [], Invalidate [''php-functions'', u]])"
| "functions_step u (OverrideRefused e) s = (s\<lparr>pt_saving := False\<rparr>, [], [Toast ErrorTone ''Could not save override'' e])"
| "functions_step u ClearOverride s =
     (s\<lparr>pt_clearing := True\<rparr>,
      [ApiDelete (functions_url u @ (if pt_domain s = [] then [] else ''?domain='' @ encodeURIComponent (pt_domain s)))], [])"
| "functions_step u OverrideCleared s =
     (s\<lparr>pt_clearing := False, pt_draft := None\<rparr>, [],
      [Toast Success (''Override cleared '' @ [em_dash] @ '' reverted to the scope above'') [], Invalidate [''php-functions'', u]])"
| "functions_step u (ClearRefused e) s = (s\<lparr>pt_clearing := False\<rparr>, [], [Toast ErrorTone ''Could not clear override'' e])"
| "functions_step u DiscardFunctions s = (s\<lparr>pt_draft := None\<rparr>, [], [])"
| "functions_step u (FunctionsArrive d) s = (s\<lparr>pt_data := d\<rparr>, [], [])"

subsection \<open>The editor\<close>

definition clean_name :: "jsstring \<Rightarrow> bool" where
  "clean_name x \<longleftrightarrow> x \<noteq> [] \<and> trim x = x \<and> CHR '','' \<notin> set x"


lemma trim_leading_blank [simp]: "trim (CHR '' '' # w) = trim w"
  by (simp add: trim_def is_space_def code_def)

lemma trim_split_blank: "map trim (split_on (CHR '','') (CHR '' '' # t)) = map trim (split_on (CHR '','') t)"
  by (auto split: list.split)

lemma function_list_blank [simp]: "function_list (CHR '' '' # t) = function_list t"
  unfolding function_list_def trim_split_blank ..

lemma function_list_first: "clean_name x \<Longrightarrow> function_list (x @ CHR '','' # t) = x # function_list t"
  by (simp add: function_list_def clean_name_def split_on_append)

lemma function_list_one: "clean_name x \<Longrightarrow> function_list x = [x]"
  by (simp add: function_list_def clean_name_def split_on_single)

lemma function_list_Nil [simp]: "function_list [] = []"
  by (simp add: function_list_def)

lemma function_text_end:
  assumes "list_all clean_name xs" "\<And>x. clean_name x \<Longrightarrow> function_list (x @ t) = [x]" "function_list t = []"
  shows "function_list (function_text xs @ t) = xs"
  using assms(1)
proof (induction "'', ''" xs rule: join_with.induct)
  case (3 w w' ws)
  then have "function_list (function_text (w' # ws) @ t) = w' # ws" by (simp add: function_text_def)
  moreover have "function_text (w # w' # ws) @ t = w @ CHR '','' # CHR '' '' # (function_text (w' # ws) @ t)"
    by (simp add: function_text_def)
  ultimately show ?case using 3(2) function_list_first[of w "CHR '' '' # (function_text (w' # ws) @ t)"] by simp
qed (use assms(2,3) in \<open>simp_all add: function_text_def\<close>)

text \<open>The text shown for a list of names reads back as that list, so an override that is opened and saved
  untouched stays what it was.\<close>

lemma function_text_round_trip: "list_all clean_name xs \<Longrightarrow> function_list (function_text xs) = xs"
  using function_text_end[of xs "[]"] by (simp add: function_list_one)

text \<open>Every list the editor produces consists of clean names.\<close>

lemma function_list_clean: "list_all clean_name (function_list t)"
  using split_on_no_sep set_trim by (fastforce simp: function_list_def list_all_iff clean_name_def)

text \<open>A comma typed after the names disappears: the list read from the text, and so the text shown, is the
  one before. Names can be separated only by pasting; typed one character at a time they run together.\<close>

lemma typed_comma_disappears:
  assumes "list_all clean_name xs"
  shows "function_list (function_text xs @ '','') = xs"
  using function_text_end[of xs "'',''"] assms function_list_first[of _ "[]"] by (simp add: function_list_def)

definition type_functions :: "jsstring \<Rightarrow> php_functions_tab \<Rightarrow> php_functions_tab" where
  "type_functions t s =
     fold (\<lambda>c s. fst (functions_step [] (EditFunctions (function_text (shown_functions s) @ [c])) s)) t s"

lemma typed_names_run_together:
  "shown_functions (type_functions ''exec, system''
     \<lparr>pt_data = \<lparr>pf_default = [], pf_account = None, pf_domains = []\<rparr>, pt_domain = [], pt_draft = None, pt_saving = False, pt_clearing = False\<rparr>)
   = [''execsystem'']"
  by code_simp

text \<open>For a domain without an override of its own, the hint announces the account's override, while the
  editor shows the server default, and saving sends that; and the note that everything is enabled
  again stands exactly at such a domain, never at a scope whose override is empty.\<close>

lemma domain_scope_ignores_account_override:
  assumes "pt_domain s \<noteq> []" "map_of (pf_domains (pt_data s)) (pt_domain s) = None" "pt_draft s = None"
  shows "shown_functions s = pf_default (pt_data s) \<and> re_enabled_note s \<and>
         snd (override_body s ! 1) = JArr (map JStr (pf_default (pt_data s)))"
  using assms by (simp add: shown_functions_def scopeOverride_def re_enabled_note_def effective_def override_body_def)

lemma re_enabled_note_misplaced: "scopeOverride s = Some [] \<Longrightarrow> \<not> re_enabled_note s"
  by (simp add: re_enabled_note_def effective_def)

section \<open>PHP version, plan, isolation\<close>

record version_card =
  vc_version :: jsstring
  vc_draft :: "jsstring option"
  vc_sent :: "jsstring option"

datatype version_event = ChooseVersion jsstring | SaveVersion | VersionSaved | VersionRefused jsstring | DiscardVersion

definition vc_shown :: "version_card \<Rightarrow> jsstring" where
  "vc_shown s = (case vc_draft s of Some v \<Rightarrow> v | None \<Rightarrow> vc_version s)"

definition phpDirty :: "version_card \<Rightarrow> bool" where
  "phpDirty s \<longleftrightarrow> vc_shown s \<noteq> vc_version s"

fun version_offered :: "version_card \<Rightarrow> version_event \<Rightarrow> bool" where
  "version_offered s (ChooseVersion v) = (v \<in> set PHP_VERSIONS)"
| "version_offered s SaveVersion = (phpDirty s \<and> vc_sent s = None)"
| "version_offered s VersionSaved = (vc_sent s \<noteq> None)"
| "version_offered s (VersionRefused e) = (vc_sent s \<noteq> None)"
| "version_offered s DiscardVersion = (phpDirty s \<and> vc_sent s = None)"

fun version_step :: "jsstring \<Rightarrow> (version_event, version_card) page_step" where
  "version_step u (ChooseVersion v) s = (s\<lparr>vc_draft := Some v\<rparr>, [], [])"
| "version_step u SaveVersion s =
     (s\<lparr>vc_sent := Some (vc_shown s)\<rparr>,
      [ApiPatch (''/api/v1/accounts/'' @ u @ ''/php-version'') [(''php_version'', JStr (vc_shown s))]], [])"
| "version_step u VersionSaved s =
     (case vc_sent s of
        None \<Rightarrow> (s, [], [])
      | Some v \<Rightarrow> (s\<lparr>vc_sent := None, vc_version := v, vc_draft := (if vc_draft s = Some v then None else vc_draft s)\<rparr>, [],
                   [Toast Success ''PHP version updated'' [], Invalidate [''account'', u]]))"
| "version_step u (VersionRefused e) s = (s\<lparr>vc_sent := None\<rparr>, [], [Toast ErrorTone ''Could not change PHP version'' e])"
| "version_step u DiscardVersion s = (s\<lparr>vc_draft := None\<rparr>, [], [])"

text \<open>What is sent is one of the versions the panel offers and differs from the current one; when the
  change is reported as done, the card is clean unless another version was chosen meanwhile.\<close>

lemma version_sent_differs:
  assumes "version_offered s SaveVersion" "\<And>v. vc_draft s = Some v \<Longrightarrow> v \<in> set PHP_VERSIONS"
  shows "vc_shown s \<in> set PHP_VERSIONS \<and> vc_shown s \<noteq> vc_version s"
  using assms by (auto simp: phpDirty_def vc_shown_def split: option.splits)

lemma version_saved_clean:
  assumes "vc_sent s = Some v"
  shows "phpDirty (fst (version_step u VersionSaved s)) \<longleftrightarrow> (\<exists>w. vc_draft s = Some w \<and> w \<noteq> v)"
  using assms by (auto simp: phpDirty_def vc_shown_def split: option.splits)

record plan_card =
  pc_plan :: jsstring
  pc_applying :: bool

datatype plan_event = ChoosePlan jsstring | ApplyPlan | PlanApplied | PlanRefused jsstring

fun plan_offered :: "jsstring list \<Rightarrow> plan_card \<Rightarrow> plan_event \<Rightarrow> bool" where
  "plan_offered plans s (ChoosePlan p) = (p = [] \<or> p \<in> set plans)"
| "plan_offered plans s ApplyPlan = (pc_plan s \<noteq> [] \<and> \<not> pc_applying s)"
| "plan_offered plans s PlanApplied = pc_applying s"
| "plan_offered plans s (PlanRefused e) = pc_applying s"

fun plan_step :: "jsstring \<Rightarrow> (plan_event, plan_card) page_step" where
  "plan_step u (ChoosePlan p) s = (s\<lparr>pc_plan := p\<rparr>, [], [])"
| "plan_step u ApplyPlan s =
     (s\<lparr>pc_applying := True\<rparr>, [ApiPost (''/api/v1/admin/accounts/'' @ u @ ''/apply-plan/'' @ pc_plan s) []], [])"
| "plan_step u PlanApplied s =
     (s\<lparr>pc_applying := False, pc_plan := []\<rparr>, [],
      [Toast Success ''Plan applied'' ''CPU/RAM/IO/pids, disk quota, usage limits and Redis were all updated.'',
       Invalidate [''account'', u], Invalidate [''usage-limits'', u]])"
| "plan_step u (PlanRefused e) s = (s\<lparr>pc_applying := False\<rparr>, [], [Toast ErrorTone ''Could not apply plan'' e])"

definition isolation_text :: "json \<Rightarrow> jsstring" where
  "isolation_text d =
     (if truthy d then (if truthy (jget d ''enabled'') then ''Active'' else if truthy (jget d ''eligible'') then ''Not active'' else ''Not eligible'')
      else ''n/a'')"

definition isolation_disabled :: "json \<Rightarrow> bool \<Rightarrow> bool" where
  "isolation_disabled d pending \<longleftrightarrow> \<not> truthy d \<or> \<not> truthy (jget d ''eligible'') \<or> pending"

definition isolation_request :: "jsstring \<Rightarrow> json \<Rightarrow> api_request" where
  "isolation_request u d = ApiPatch (''/api/v1/accounts/'' @ u @ ''/namespace'') [(''enabled'', JBool (\<not> truthy (jget d ''enabled'')))]"

end
