(* ===== verification/Task_Forms.thy ===== *)
theory Task_Forms
  imports Background_Tasks Page_Machine
begin

text \<open>
  The forms whose request starts a background operation and whose mutation lasts until that
  operation ends: \<open>const task = await post(...); return waitForControlTask(task, ...)\<close>. They are
  shared by account creation, termination and renaming.
\<close>

definition start_task :: "delivery \<Rightarrow> nat \<Rightarrow> int \<Rightarrow> (nat \<Rightarrow> int) \<Rightarrow> (nat \<Rightarrow> delivery) \<Rightarrow> bool \<Rightarrow> delivery
     \<Rightarrow> (task_error + json) option" where
  "start_task posted fuel start clock answer reveal revealed =
     (case posted of
        Inl error \<Rightarrow> Some (Inl (RequestFailed (snd (intercept error))))
      | Inr res \<Rightarrow> map_option outcome (waitForControlTask fuel start clock answer reveal revealed (rdata res)))"

definition task_message :: "jsstring \<Rightarrow> task_error \<Rightarrow> jsstring" where
  "task_message engine e =
     (case e of StillRunning m \<Rightarrow> m | OperationFailed m \<Rightarrow> m | RequestFailed f \<Rightarrow> thrown_text engine f)"

text \<open>The mutation always settles, and it succeeds only with the value of a completed task.\<close>

lemma start_task_settles:
  assumes "clock_ok start clock" "668 \<le> fuel"
  shows "\<exists>r. start_task posted fuel start clock answer reveal revealed = Some r"
proof (cases posted)
  case (Inr res)
  have "clock (0 + 667) \<ge> start + 10 * 60 * 1000" using clock_ok_at[OF assms(1), of 667] by simp
  from poll_loop_returns[where n = 0 and m = 667 and clock = clock, OF this, of fuel answer reveal revealed "rdata res"] assms(2)
  obtain r where "waitForControlTask fuel start clock answer reveal revealed (rdata res) = Some r"
    unfolding waitForControlTask_def by auto
  with Inr show ?thesis by (simp add: start_task_def)
qed (simp add: start_task_def)

lemma start_task_value:
  assumes "start_task posted fuel start clock answer reveal revealed = Some (Inr v)"
  shows "\<exists>res k r. posted = Inr res \<and> completed_run reveal revealed (task_at (rdata res) answer) k r v"
proof -
  obtain res r where r: "posted = Inr res"
      "waitForControlTask fuel start clock answer reveal revealed (rdata res) = Some r" "outcome r = Inr v"
    using assms by (auto simp: start_task_def split: sum.splits)
  from poll_loop_completed[OF r(2)[unfolded waitForControlTask_def] r(3)] r(1) show ?thesis by auto
qed

end
