(* ===== verification/Account_Detail.thy ===== *)
theory Account_Detail
  imports Task_Forms Url_Params Format
begin

text \<open>
  The page of one hosting account (\<open>pages/admin/AccountDetail.jsx\<close>): its tabs, the administrator's
  actions with their confirmations, the overview; and the cards of \<open>pages/admin/AccountIdentity.jsx\<close>
  and \<open>pages/admin/AccountNotes.jsx\<close>. The settings are in \<open>Account_Limits\<close> and \<open>Account_Settings\<close>.
\<close>

section \<open>Tabs\<close>

definition ACCOUNT_TABS :: "(jsstring \<times> jsstring) list" where
  "ACCOUNT_TABS =
     [(''overview'', ''Overview''), (''domains'', ''Domains''), (''email'', ''Email''), (''databases'', ''Databases''),
      (''backups'', ''Backups''), (''security'', ''Security''), (''settings'', ''Settings'')]"

definition LEGACY_TAB_PARENT :: "(jsstring \<times> jsstring) list" where
  "LEGACY_TAB_PARENT =
     [(''identity'', ''settings''), (''advanced'', ''settings''), (''apps'', ''settings''), (''php-functions'', ''settings''),
      (''notes'', ''settings''), (''usage-limits'', ''settings''), (''ssl'', ''security''), (''processes'', ''security'')]"

definition activeTab :: "params \<Rightarrow> jsstring" where
  "activeTab ps =
     (case map_of ps ''tab'' of
        None \<Rightarrow> ''overview''
      | Some t \<Rightarrow> if t \<in> fst ` set ACCOUNT_TABS then t
                 else (case map_of LEGACY_TAB_PARENT t of Some p \<Rightarrow> p | None \<Rightarrow> ''overview''))"

definition choose_tab :: "jsstring \<Rightarrow> params \<Rightarrow> params" where
  "choose_tab tab ps = (if tab = ''overview'' then param_delete ''tab'' ps else param_set ''tab'' tab ps)"

text \<open>A tool link replaces the whole query.\<close>

definition open_tool :: "jsstring \<Rightarrow> params" where
  "open_tool tool = [(''tab'', tool)]"

datatype tab_content =
    OverviewTab | DomainsTab | EmailTab | DatabasesTab | BackupsTab
  | SslTab | ProcessesTab | SecurityLanding
  | AppsTab | IdentityTab | UsageLimitsTab | PhpFunctionsTab | NotesTab | SettingsTab

definition tab_shown :: "params \<Rightarrow> tab_content" where
  "tab_shown ps =
     (let requested = map_of ps ''tab''; tab = activeTab ps
      in if tab = ''domains'' then DomainsTab else if tab = ''databases'' then DatabasesTab
         else if tab = ''email'' then EmailTab else if tab = ''backups'' then BackupsTab
         else if tab = ''security'' then
           (if requested = Some ''ssl'' then SslTab else if requested = Some ''processes'' then ProcessesTab else SecurityLanding)
         else if tab = ''settings'' then
           (if requested = Some ''apps'' then AppsTab
            else if requested = Some ''identity'' \<or> requested = Some ''advanced'' then IdentityTab
            else if requested = Some ''usage-limits'' then UsageLimitsTab
            else if requested = Some ''php-functions'' then PhpFunctionsTab
            else if requested = Some ''notes'' then NotesTab else SettingsTab)
         else OverviewTab)"

definition settings_links :: "(jsstring \<times> jsstring) list" where
  "settings_links =
     [(''apps'', ''Applications''), (''identity'', ''Account identity''), (''usage-limits'', ''Advanced account limits''),
      (''php-functions'', ''PHP functions''), (''notes'', ''Notes'')]"

definition security_links :: "(jsstring \<times> jsstring) list" where
  "security_links = [(''ssl'', ''SSL certificates''), (''php-functions'', ''PHP functions''), (''processes'', ''Processes'')]"

text \<open>The tab chosen is the tab shown, whatever else the address carries; every tool link opens a tool of
  its own and not the landing page it was clicked on.\<close>

lemma chosen_tab_shown:
  assumes "tab \<in> fst ` set ACCOUNT_TABS"
  shows "activeTab (choose_tab tab ps) = tab"
  using assms by (simp add: activeTab_def choose_tab_def param_simps)

lemma tool_links_open:
  "list_all (\<lambda>(t, _). tab_shown (open_tool t) \<notin> {SettingsTab, SecurityLanding, OverviewTab}) (settings_links @ security_links)"
  by code_simp

text \<open>The link to the PHP functions among the security tools leaves for the settings tab.\<close>

lemma php_functions_leave_security: "activeTab (open_tool ''php-functions'') = ''settings''"
  by code_simp

section \<open>Administrator actions\<close>

datatype account_action = SuspendAccount | UnsuspendAccount | TerminateAccount

record admin_actions =
  aa_status :: json
  aa_confirm :: "account_action option"
  aa_dialog :: confirm_state
  aa_carrying :: "account_action option"
  aa_progress :: json
  aa_error :: "jsstring option"
  aa_impersonating :: bool

definition initial_actions :: "json \<Rightarrow> admin_actions" where
  "initial_actions st =
     \<lparr>aa_status = st, aa_confirm = None, aa_dialog = fresh_confirm, aa_carrying = None, aa_progress = JNull, aa_error = None,
      aa_impersonating = False\<rparr>"

fun action_shown :: "json \<Rightarrow> account_action \<Rightarrow> bool" where
  "action_shown st SuspendAccount = (st = JStr ''active'')"
| "action_shown st UnsuspendAccount = (st = JStr ''suspended'')"
| "action_shown st TerminateAccount = (st \<in> set (map JStr [''active'', ''suspended'', ''error'']))"

fun action_request :: "jsstring \<Rightarrow> account_action \<Rightarrow> api_request" where
  "action_request u SuspendAccount = ApiPost (''/api/v1/accounts/'' @ u @ ''/suspend'') []"
| "action_request u UnsuspendAccount = ApiPost (''/api/v1/accounts/'' @ u @ ''/unsuspend'') []"
| "action_request u TerminateAccount = ApiPost (''/api/v1/task-operations/accounts/'' @ u @ ''/terminate'') []"

definition action_props :: "jsstring \<Rightarrow> admin_actions \<Rightarrow> confirm_props" where
  "action_props u s =
     \<lparr>dialog_open = (aa_confirm s \<noteq> None), dialog_loading = (aa_carrying s \<noteq> None), confirmationText = u, acknowledgementLabel = []\<rparr>"

datatype action_event =
    StatusArrives json
  | AskAction account_action
  | TypeAccountName jsstring
  | CancelAction
  | ConfirmAction
  | ActionDone
  | ActionFails jsstring
  | TerminateProgress json
  | TerminateSettles "task_error + json"
  | Impersonate
  | ImpersonateSettles delivery delivery
  | OpenFileManager

fun actions_offered :: "jsstring \<Rightarrow> admin_actions \<Rightarrow> action_event \<Rightarrow> bool" where
  "actions_offered u s (StatusArrives st) = True"
| "actions_offered u s (AskAction a) = (aa_confirm s = None \<and> action_shown (aa_status s) a)"
| "actions_offered u s (TypeAccountName t) = confirm_enabled (TypeConfirmation t) (action_props u s, aa_dialog s)"
| "actions_offered u s CancelAction = confirm_enabled CancelButton (action_props u s, aa_dialog s)"
| "actions_offered u s ConfirmAction = confirm_enabled ConfirmButton (action_props u s, aa_dialog s)"
| "actions_offered u s ActionDone = (aa_carrying s \<in> {Some SuspendAccount, Some UnsuspendAccount})"
| "actions_offered u s (ActionFails e) = (aa_carrying s \<in> {Some SuspendAccount, Some UnsuspendAccount})"
| "actions_offered u s (TerminateProgress t) = (aa_carrying s = Some TerminateAccount)"
| "actions_offered u s (TerminateSettles r) = (aa_carrying s = Some TerminateAccount)"
| "actions_offered u s Impersonate = (aa_confirm s = None \<and> aa_status s = JStr ''active'' \<and> \<not> aa_impersonating s)"
| "actions_offered u s (ImpersonateSettles d1 d2) = aa_impersonating s"
| "actions_offered u s OpenFileManager = (aa_confirm s = None \<and> aa_status s = JStr ''active'')"

definition refresh_account :: "jsstring \<Rightarrow> page_effect list" where
  "refresh_account u = [Invalidate [''account'', u], Invalidate [''accounts'']]"

text \<open>The dialog forgets what was typed when it closes.\<close>

definition close_action :: "admin_actions \<Rightarrow> admin_actions" where
  "close_action s = s\<lparr>aa_confirm := None, aa_dialog := fresh_confirm\<rparr>"

fun actions_step :: "jsstring \<Rightarrow> jsstring \<Rightarrow> (action_event, admin_actions) page_step" where
  "actions_step engine u (StatusArrives st) s = (s\<lparr>aa_status := st\<rparr>, [], [])"
| "actions_step engine u (AskAction a) s = (s\<lparr>aa_confirm := Some a\<rparr>, [], [])"
| "actions_step engine u (TypeAccountName t) s = (s\<lparr>aa_dialog := (aa_dialog s)\<lparr>typed := t\<rparr>\<rparr>, [], [])"
| "actions_step engine u CancelAction s = (close_action s, [], [])"
| "actions_step engine u ConfirmAction s =
     (case aa_confirm s of
        None \<Rightarrow> (s, [], [])
      | Some a \<Rightarrow>
          (s\<lparr>aa_carrying := Some a, aa_error := (if a = TerminateAccount then None else aa_error s),
             aa_progress := (if a = TerminateAccount then JNull else aa_progress s)\<rparr>, [action_request u a], []))"
| "actions_step engine u ActionDone s =
     (close_action (s\<lparr>aa_carrying := None\<rparr>), [],
      Toast Success (if aa_carrying s = Some SuspendAccount then ''Account suspended'' else ''Account unsuspended'') [] # refresh_account u)"
| "actions_step engine u (ActionFails e) s =
     (s\<lparr>aa_carrying := None\<rparr>, [],
      [Toast ErrorTone (if aa_carrying s = Some SuspendAccount then ''Could not suspend'' else ''Could not unsuspend'') e])"
| "actions_step engine u (TerminateProgress t) s = (s\<lparr>aa_progress := t\<rparr>, [], [])"
| "actions_step engine u (TerminateSettles r) s =
     (case r of
        Inl e \<Rightarrow> (s\<lparr>aa_carrying := None, aa_error := Some (task_message engine e)\<rparr>, [], [])
      | Inr v \<Rightarrow> (close_action (s\<lparr>aa_carrying := None\<rparr>), [],
                  Toast Success ''Account terminated'' [] # refresh_account u @ [GoTo ''/accounts'']))"
| "actions_step engine u Impersonate s =
     (s\<lparr>aa_impersonating := True\<rparr>, [ApiPost (''/api/v1/admin/accounts/'' @ u @ ''/impersonate'') []], [])"
| "actions_step engine u (ImpersonateSettles d1 d2) s =
     (s\<lparr>aa_impersonating := False\<rparr>, [],
      case call_result (impersonate u d1 d2) of
        Inl f \<Rightarrow> [Toast ErrorTone ''Could not log in as user'' (thrown_text engine f)]
      | Inr v \<Rightarrow> [GoTo ''/app''])"
| "actions_step engine u OpenFileManager s = (s, [OpenWindow (''/api/v1/accounts/'' @ u @ ''/files/launch'')], [])"

definition terminate_text :: "jsstring \<Rightarrow> admin_actions \<Rightarrow> jsstring" where
  "terminate_text u s =
     json_text (js_or (jget (aa_progress s) ''progress_message'')
       (JStr (''Terminating '' @ u @ [ellipsis] @ '' this can take up to 30 seconds. Do not close this page.'')))"

text \<open>Leaving an account that was terminated elsewhere.\<close>

definition terminated_effect :: "json \<Rightarrow> page_effect list" where
  "terminated_effect account =
     (if jget account ''status'' = JStr ''terminated''
      then [Toast InfoTone ''This account has been terminated'' [], GoTo ''/accounts''] else [])"

subsection \<open>The actions are the answers to their questions\<close>

definition actions_shown :: "jsstring \<Rightarrow> api_request \<Rightarrow> account_action list" where
  "actions_shown u r = filter (\<lambda>a. action_request u a = r) [SuspendAccount, UnsuspendAccount, TerminateAccount]"

definition actions_abs :: "admin_actions \<Rightarrow> account_action question" where
  "actions_abs s =
     (case aa_confirm s of None \<Rightarrow> NoQuestion
      | Some a \<Rightarrow> if aa_carrying s = Some a then Carrying a else Asking a)"

definition actions_inv :: "admin_actions \<Rightarrow> bool" where
  "actions_inv s \<longleftrightarrow> (aa_carrying s = None \<or> aa_carrying s = aa_confirm s)"

lemma shown_own: "actions_shown u (action_request u a) = [a]"
  by (cases a) (simp_all add: actions_shown_def)

lemma shown_others:
  "actions_shown u (ApiPost (''/api/v1/admin/accounts/'' @ u @ ''/impersonate'') []) = []" "actions_shown u (OpenWindow w) = []"
  by (simp_all add: actions_shown_def)

lemma actions_inv_step: "actions_inv s \<Longrightarrow> actions_offered u s e \<Longrightarrow> actions_inv (fst (actions_step engine u e s))"
  by (cases e) (auto simp: actions_inv_def close_action_def action_props_def split: option.splits sum.splits)

lemma actions_simulation:
  "actions_inv s \<Longrightarrow> actions_offered u s e \<Longrightarrow>
     question_step (actions_abs s) (concat (map (actions_shown u) (fst (snd (actions_step engine u e s))))) (actions_abs (fst (actions_step engine u e s)))"
  by (cases e)
     (auto simp: actions_inv_def actions_abs_def close_action_def action_props_def shown_own shown_others[simplified]
        question_step_simps intro: question_step.intros split: option.splits sum.splits)

interpretation actions: page_refinement "initial_actions st" "actions_offered u" "actions_step engine u" actions_inv
    actions_abs "actions_shown u" NoQuestion question_step
  for st u engine
  by unfold_locales
     (simp_all only: actions_inv_step actions_simulation, simp_all add: initial_actions_def actions_inv_def actions_abs_def)


definition terminate_script :: "action_event list" where
  "terminate_script = [AskAction TerminateAccount, TypeAccountName ''joe'', ConfirmAction]"


text \<open>The completion the page relies on is that of the background operation itself.\<close>

lemma termination_waits_for_task:
  assumes "start_task posted fuel start clock answer False revealed = Some (Inr v)"
  shows "\<exists>res k. posted = Inr res \<and> jget (task_at (rdata res) answer k) ''status'' = JStr ''completed''"
  using start_task_value[OF assms] by (auto simp: completed_run_def)

section \<open>Overview\<close>

definition js_number :: "json \<Rightarrow> int option" where
  "js_number v = (case v of JNum n \<Rightarrow> Some n | _ \<Rightarrow> None)"

text \<open>A limit of zero or none is no limit; a missing measure is not available.\<close>

definition byte_limit :: "int option \<Rightarrow> int option" where
  "byte_limit v = (case v of Some n \<Rightarrow> if n = 0 then None else Some n | None \<Rightarrow> None)"

definition usage_value :: "(int \<Rightarrow> jsstring) \<Rightarrow> int option \<Rightarrow> int option \<Rightarrow> jsstring" where
  "usage_value text used limit =
     (case used of None \<Rightarrow> ''n/a''
      | Some n \<Rightarrow> text n @ '' of '' @ (case byte_limit limit of Some l \<Rightarrow> text l | None \<Rightarrow> ''unlimited''))"

definition usage_percent :: "int option \<Rightarrow> int option \<Rightarrow> rat option" where
  "usage_percent used limit =
     (case used of None \<Rightarrow> None
      | Some n \<Rightarrow> (case byte_limit limit of Some l \<Rightarrow> Some (of_int n / of_int l * 100) | None \<Rightarrow> None))"

definition safePercent :: "rat option \<Rightarrow> rat option" where
  "safePercent p = map_option (\<lambda>q. min 100 (max 0 q)) p"

definition overview_rows :: "(int \<Rightarrow> jsstring) \<Rightarrow> (int \<Rightarrow> jsstring) \<Rightarrow> json \<Rightarrow> json \<Rightarrow> (jsstring \<times> jsstring \<times> rat option) list" where
  "overview_rows bytes locale_number account usage =
     (let counters = jget usage ''resources''; current = jget usage ''current'';
          disk = js_number (jget current ''disk_total_bytes'');
          diskLimit = map_option (\<lambda>n. n * 1048576) (js_number (jget account ''quota_hard_mb''));
          bandwidth = js_number (jget usage ''bandwidth_month_to_date_bytes'');
          bandwidthLimit = js_number (jget counters ''bandwidth_limit_bytes'');
          memory = js_number (jget counters ''memory_current_bytes'');
          memoryLimit = js_number (jget counters ''memory_limit_bytes'');
          inodes = js_number (jget current ''inode_count'');
          inodeLimit = js_number (if nullish (jget account ''inode_limit'') then jget usage ''inode_limit'' else jget account ''inode_limit'')
      in [(''Disk'', usage_value bytes disk diskLimit, usage_percent disk diskLimit),
          (''Bandwidth'', usage_value bytes bandwidth bandwidthLimit, usage_percent bandwidth bandwidthLimit),
          (''Memory'', usage_value bytes memory memoryLimit, usage_percent memory memoryLimit),
          (''CPU'', ''n/a'', None),
          (''Inodes'', usage_value locale_number inodes inodeLimit, usage_percent inodes inodeLimit)])"

definition plan_name :: "json \<Rightarrow> json \<Rightarrow> jsstring" where
  "plan_name plans account =
     (let plan = (case List.find (\<lambda>p. jget p ''id'' = jget account ''plan_id'') (json_list (jget plans ''plans'')) of Some p \<Rightarrow> p | None \<Rightarrow> JUndef)
      in js_String (js_or (jget plan ''name'') (js_or (jget account ''plan_name'') (JStr ''Custom plan''))))"

text \<open>The bar of a row never leaves its track, and a row has one only when a limit and a measure are known.\<close>

lemma bar_in_track: "safePercent p = Some q \<Longrightarrow> 0 \<le> q \<and> q \<le> 100"
  by (cases p) (auto simp: safePercent_def)

lemma bar_needs_limit: "usage_percent used limit = Some q \<Longrightarrow> used \<noteq> None \<and> (\<exists>l. limit = Some l \<and> l \<noteq> 0)"
  by (auto simp: usage_percent_def byte_limit_def split: option.splits if_splits)

section \<open>Identity\<close>

text \<open>Renaming the account.\<close>

record rename_card =
  rc_status :: json
  rc_value :: jsstring
  rc_confirm :: bool
  rc_running :: bool
  rc_error :: "jsstring option"
  rc_progress :: json

datatype rename_event =
    RenameStatus json
  | TypeNewName jsstring
  | AskRename
  | CloseRename
  | ConfirmRename
  | RenameProgress json
  | RenameSettles "task_error + json"

definition canRename :: "rename_card \<Rightarrow> bool" where
  "canRename s \<longleftrightarrow> rc_status s \<in> {JStr ''active'', JStr ''suspended''}"

fun rename_offered :: "rename_card \<Rightarrow> rename_event \<Rightarrow> bool" where
  "rename_offered s (RenameStatus st) = True"
| "rename_offered s (TypeNewName v) = (canRename s \<and> \<not> rc_confirm s)"
| "rename_offered s AskRename = (canRename s \<and> trim (rc_value s) \<noteq> [] \<and> \<not> rc_confirm s)"
| "rename_offered s CloseRename = (rc_confirm s \<and> \<not> rc_running s)"
| "rename_offered s ConfirmRename = (rc_confirm s \<and> \<not> rc_running s)"
| "rename_offered s (RenameProgress t) = rc_running s"
| "rename_offered s (RenameSettles r) = rc_running s"

fun rename_step :: "jsstring \<Rightarrow> jsstring \<Rightarrow> (rename_event, rename_card) page_step" where
  "rename_step engine u (RenameStatus st) s = (s\<lparr>rc_status := st\<rparr>, [], [])"
| "rename_step engine u (TypeNewName v) s = (s\<lparr>rc_value := v\<rparr>, [], [])"
| "rename_step engine u AskRename s = (s\<lparr>rc_error := None, rc_confirm := True\<rparr>, [], [])"
| "rename_step engine u CloseRename s = (s\<lparr>rc_confirm := False\<rparr>, [], [])"
| "rename_step engine u ConfirmRename s =
     (s\<lparr>rc_running := True, rc_error := None, rc_progress := JNull\<rparr>,
      [ApiPost (''/api/v1/task-operations/accounts/'' @ u @ ''/rename'') [(''new_username'', JStr (trim (rc_value s)))]], [])"
| "rename_step engine u (RenameProgress t) s = (s\<lparr>rc_progress := t\<rparr>, [], [])"
| "rename_step engine u (RenameSettles r) s =
     (case r of
        Inl e \<Rightarrow> (s\<lparr>rc_running := False, rc_error := Some (task_message engine e)\<rparr>, [], [])
      | Inr v \<Rightarrow> (s\<lparr>rc_running := False, rc_confirm := False\<rparr>, [],
                  [Toast Success (''Renamed '' @ js_String (jget v ''old_username'') @ '' to '' @ js_String (jget v ''new_username'')) [],
                   GoTo (''/accounts/'' @ js_String (jget v ''new_username''))]))"

definition rename_good :: "jsstring \<Rightarrow> api_request \<Rightarrow> bool" where
  "rename_good u r \<longleftrightarrow>
     (\<exists>n. n \<noteq> [] \<and> trim n = n \<and> r = ApiPost (''/api/v1/task-operations/accounts/'' @ u @ ''/rename'') [(''new_username'', JStr n)])"

definition initial_rename :: "json \<Rightarrow> rename_card" where
  "initial_rename st = \<lparr>rc_status = st, rc_value = [], rc_confirm = False, rc_running = False, rc_error = None, rc_progress = JNull\<rparr>"

definition rename_inv :: "rename_card \<Rightarrow> bool" where
  "rename_inv s \<longleftrightarrow> (rc_confirm s \<longrightarrow> trim (rc_value s) \<noteq> []) \<and> (rc_running s \<longrightarrow> rc_confirm s)"

interpretation renames: page_contract "initial_rename st" rename_offered "rename_step engine u" rename_inv "rename_good u"
  for st engine u
proof unfold_locales
  show "rename_inv (initial_rename st)" by (simp add: rename_inv_def initial_rename_def)
next
  fix s e assume "rename_inv s" "rename_offered s e"
  then show "rename_inv (fst (rename_step engine u e s))"
    by (cases e) (auto simp: rename_inv_def split: sum.splits)
next
  fix s e assume "rename_inv s" "rename_offered s e"
  then show "list_all (rename_good u) (fst (snd (rename_step engine u e s)))"
    by (cases e) (auto simp: rename_inv_def rename_good_def split: sum.splits)
qed

text \<open>The new name that is sent is the one the question was about: it cannot be edited while the question is open.\<close>

lemma renames_named:
  assumes "page_reach (initial_rename st) rename_offered (rename_step engine u) s sent"
  shows "list_all (rename_good u) sent \<and> (rc_running s \<longrightarrow> \<not> rename_offered s (TypeNewName v) \<and> \<not> rename_offered s ConfirmRename)"
  using renames.reach_inv[OF assms] by (auto simp: rename_inv_def)

text \<open>The primary domain, the contact address, a note: one field each.\<close>

definition identity_url :: "jsstring \<Rightarrow> jsstring" where
  "identity_url u = ''/api/v1/admin/accounts/'' @ u @ ''/identity''"

definition set_domain_request :: "jsstring \<Rightarrow> jsstring \<Rightarrow> api_request option" where
  "set_domain_request u v = (if trim v = [] then None else Some (ApiPatch (identity_url u) [(''primary_domain'', JStr (trim v))]))"

definition set_contact_request :: "jsstring \<Rightarrow> jsstring \<Rightarrow> api_request" where
  "set_contact_request u v = ApiPatch (identity_url u) [(''contact_email'', JStr (trim v))]"

text \<open>The contact field follows the account whenever the account's address changes.\<close>

definition contact_effect :: "json \<Rightarrow> json \<Rightarrow> jsstring \<Rightarrow> jsstring" where
  "contact_effect old new v = (if old = new then v else json_text (js_or new (JStr [])))"

definition note_request :: "jsstring \<Rightarrow> jsstring \<Rightarrow> api_request option" where
  "note_request u v =
     (if trim v = [] then None else Some (ApiPost (''/api/v1/admin/accounts/'' @ u @ ''/notes'') [(''body'', JStr (trim v))]))"

text \<open>Resetting a password: the fields of the body are those of the kind chosen.\<close>

definition PW_KINDS :: "(jsstring \<times> jsstring \<times> jsstring list) list" where
  "PW_KINDS =
     [(''account'', ''Account (panel / FTP / SSH)'', []), (''panel'', ''Panel login'', []),
      (''mailbox'', ''Mailbox'', [''domain'', ''local_part'']), (''database'', ''Database user'', [''name'']),
      (''ftp'', ''FTP sub-account'', [''label''])]"

record passwords_card =
  pw_kind :: jsstring
  pw_password :: jsstring
  pw_extra :: params
  pw_pending :: bool

datatype passwords_event = ChooseKind jsstring | TypePasswordField jsstring | TypeExtra jsstring jsstring | ResetPassword | PasswordReset | ResetFails jsstring

definition kind_fields :: "jsstring \<Rightarrow> jsstring list" where
  "kind_fields k = (case map_of PW_KINDS k of Some (_, fs) \<Rightarrow> fs | None \<Rightarrow> [])"

fun passwords_offered :: "passwords_card \<Rightarrow> passwords_event \<Rightarrow> bool" where
  "passwords_offered s (ChooseKind k) = (k \<in> fst ` set PW_KINDS)"
| "passwords_offered s (TypePasswordField t) = True"
| "passwords_offered s (TypeExtra f t) = (f \<in> set (kind_fields (pw_kind s)))"
| "passwords_offered s ResetPassword = (pw_password s \<noteq> [] \<and> \<not> pw_pending s)"
| "passwords_offered s PasswordReset = pw_pending s"
| "passwords_offered s (ResetFails e) = pw_pending s"

definition reset_body :: "passwords_card \<Rightarrow> body" where
  "reset_body s =
     [(''kind'', JStr (pw_kind s)), (''password'', JStr (pw_password s))] @
     map (\<lambda>f. (f, JStr (or_string (map_of (pw_extra s) f) []))) (kind_fields (pw_kind s))"

fun passwords_step :: "jsstring \<Rightarrow> (passwords_event, passwords_card) page_step" where
  "passwords_step u (ChooseKind k) s = (s\<lparr>pw_kind := k, pw_extra := []\<rparr>, [], [])"
| "passwords_step u (TypePasswordField t) s = (s\<lparr>pw_password := t\<rparr>, [], [])"
| "passwords_step u (TypeExtra f t) s = (s\<lparr>pw_extra := param_set f t (pw_extra s)\<rparr>, [], [])"
| "passwords_step u ResetPassword s =
     (s\<lparr>pw_pending := True\<rparr>, [ApiPatch (''/api/v1/admin/accounts/'' @ u @ ''/passwords'') (reset_body s)], [])"
| "passwords_step u PasswordReset s = (s\<lparr>pw_pending := False, pw_password := []\<rparr>, [], [Toast Success ''Password reset'' []])"
| "passwords_step u (ResetFails e) s = (s\<lparr>pw_pending := False\<rparr>, [], [Toast ErrorTone ''Could not reset password'' e])"

lemma reset_body_keys: "map fst (reset_body s) = ''kind'' # ''password'' # kind_fields (pw_kind s)"
  by (simp add: reset_body_def comp_def)

text \<open>What was typed for one kind is not sent for another.\<close>

lemma kinds_do_not_mix:
  "reset_body (fst (passwords_step u (ChooseKind k) s)) = [(''kind'', JStr k), (''password'', JStr (pw_password s))] @ map (\<lambda>f. (f, JStr [])) (kind_fields k)"
  by (simp add: reset_body_def or_string_def)

end
