(* ===== verification/Server_Checks.thy ===== *)
theory Server_Checks
  imports Boron_Prelude
begin

text \<open>
  The checks the server applies to names (\<open>shared/validation.py\<close>), as the reference the forms that
  ask for the same names are compared with. The regular expressions are written as predicates.
\<close>

definition is_letter :: "char \<Rightarrow> bool" where
  "is_letter c \<longleftrightarrow> is_lower c \<or> is_upper c"

definition domain_char :: "char \<Rightarrow> bool" where
  "domain_char c \<longleftrightarrow> is_letter c \<or> is_digit c \<or> c = CHR ''-''"

text \<open>\<open>USERNAME_RE\<close>, \<open>DOMAIN_RE\<close> on the lowercased candidate, \<open>EMAIL_RE\<close>.\<close>

definition server_username :: "jsstring \<Rightarrow> bool" where
  "server_username u \<longleftrightarrow> u \<noteq> [] \<and> length u \<le> 16 \<and> is_lower (hd u) \<and> list_all (\<lambda>x. is_lower x \<or> is_digit x) (tl u)"

definition server_label :: "jsstring \<Rightarrow> bool" where
  "server_label l \<longleftrightarrow> 1 \<le> length l \<and> length l \<le> 63 \<and> list_all (\<lambda>c. is_lower c \<or> is_digit c \<or> c = CHR ''-'') l \<and>
     hd l \<noteq> CHR ''-'' \<and> last l \<noteq> CHR ''-''"

definition server_domain :: "jsstring \<Rightarrow> bool" where
  "server_domain d \<longleftrightarrow> 1 \<le> length d \<and> length d \<le> 253 \<and> 2 \<le> length (split_on (CHR ''.'') d) \<and> list_all server_label (split_on (CHR ''.'') d)"

definition server_email :: "jsstring \<Rightarrow> bool" where
  "server_email e \<longleftrightarrow>
     (case split_on (CHR ''@'') e of
        [l, d] \<Rightarrow>
          1 \<le> length l \<and> length l \<le> 64 \<and> list_all (\<lambda>c. is_letter c \<or> is_digit c \<or> c \<in> set ''._%+-'') l \<and>
          list_ex (\<lambda>i. d ! i = CHR ''.'' \<and> 1 \<le> i \<and> i \<le> 253 \<and> list_all (\<lambda>c. is_letter c \<or> is_digit c \<or> c \<in> set ''.-'') (take i d) \<and>
                       2 \<le> length (drop (Suc i) d) \<and> length (drop (Suc i) d) \<le> 63 \<and> list_all is_letter (drop (Suc i) d)) [0..<length d]
      | _ \<Rightarrow> False)"

lemma split_lower:
  "split_on (CHR ''.'') (toLowerCase d) = map toLowerCase (split_on (CHR ''.'') d)"
proof (induction d)
  case (Cons c d)
  have "lower_char c = CHR ''.'' \<longleftrightarrow> c = CHR ''.''"
    using code_lower_char[of c] code_eq_iff[of "lower_char c" "CHR ''.''"] code_eq_iff[of c "CHR ''.''"]
    by (auto simp: code_def split: if_splits)
  with Cons show ?case by (auto simp: toLowerCase_def split: list.split)
qed (simp add: toLowerCase_def)

lemma lowered_domain_char: "is_lower (lower_char c) \<or> is_digit (lower_char c) \<or> lower_char c = CHR ''-'' \<Longrightarrow> domain_char c"
proof -
  assume h: "is_lower (lower_char c) \<or> is_digit (lower_char c) \<or> lower_char c = CHR ''-''"
  then show "domain_char c"
    using code_lower_char[of c] code_eq_iff[of "lower_char c" "CHR ''-''"] code_eq_iff[of c "CHR ''-''"]
    by (auto simp: domain_char_def is_letter_def is_lower_def is_upper_def is_digit_def code_def split: if_splits)
qed

lemma split_on_not_Nil [simp]: "split_on c s \<noteq> []"
  by (cases s) (auto split: list.split)

lemma join_split: "join_with [c] (split_on c s) = s"
proof (induction s)
  case (Cons x s)
  obtain w ws where "split_on c s = w # ws" by (cases "split_on c s") auto
  with Cons show ?case by (cases ws) auto
qed simp

end
