(* ===== verification/Create_Account.thy ===== *)
theory Create_Account
  imports Task_Forms Account_Fields Server_Checks
begin

text \<open>
  \<open>pages/admin/CreateAccount.jsx\<close>: the form that creates a hosting account, its checks, the background
  operation it starts and the page with the one-time password; and the checks the server applies
  to the same fields (\<open>shared/validation.py\<close>), which the form is compared with. The regular
  expressions are written as predicates on the characters. A field of type email holds its text
  without surrounding white space; the browser's own check of that type is left out, so the model
  lets more be submitted.
\<close>

section \<open>The checks\<close>

text \<open>\<open>^[a-z][a-z0-9]{0,15}$\<close>\<close>

definition username_ok :: "jsstring \<Rightarrow> bool" where
  "username_ok u \<longleftrightarrow> (case u of [] \<Rightarrow> False | c # cs \<Rightarrow> is_lower c \<and> list_all (\<lambda>x. is_lower x \<or> is_digit x) cs \<and> length cs \<le> 15)"

text \<open>\<open>^(?=.{1,253}$)(?!-)[a-z0-9-]+(?:\.[a-z0-9-]+)+$\<close> ignoring case\<close>

definition domain_ok :: "jsstring \<Rightarrow> bool" where
  "domain_ok d \<longleftrightarrow>
     1 \<le> length d \<and> length d \<le> 253 \<and> \<not> startsWith d ''-'' \<and>
     2 \<le> length (split_on (CHR ''.'') d) \<and> list_all (\<lambda>l. l \<noteq> [] \<and> list_all domain_char l) (split_on (CHR ''.'') d)"

text \<open>\<open>^[^\s@]+@[^\s@]+\.[^\s@]+$\<close>\<close>

definition email_ok :: "jsstring \<Rightarrow> bool" where
  "email_ok e \<longleftrightarrow>
     list_all (\<lambda>c. \<not> is_space c) e \<and>
     (case split_on (CHR ''@'') e of
        [l, d] \<Rightarrow> l \<noteq> [] \<and> list_ex (\<lambda>i. d ! i = CHR ''.'') [1..<length d - 1]
      | _ \<Rightarrow> False)"

record create_form =
  cf_username :: jsstring
  cf_domain :: jsstring
  cf_plan :: jsstring
  cf_email :: jsstring
  cf_password :: jsstring
  cf_selection :: jsstring
  cf_ip :: jsstring

definition INITIAL :: create_form where
  "INITIAL = \<lparr>cf_username = [], cf_domain = [], cf_plan = [], cf_email = [], cf_password = [], cf_selection = ''automatic'', cf_ip = []\<rparr>"

definition usernameError :: "create_form \<Rightarrow> jsstring option" where
  "usernameError f =
     (if cf_username f \<noteq> [] \<and> \<not> username_ok (cf_username f) then Some ''Use 1-16 lowercase letters or digits, starting with a letter.'' else None)"

definition emailError :: "create_form \<Rightarrow> jsstring option" where
  "emailError f =
     (if cf_email f \<noteq> [] \<and> \<not> email_ok (cf_email f) then Some ''Enter an email address such as owner@example.com.'' else None)"

definition domainError :: "create_form \<Rightarrow> jsstring option" where
  "domainError f =
     (if cf_domain f \<noteq> [] \<and> \<not> domain_ok (cf_domain f) then Some ''Enter a valid domain such as example.com.'' else None)"

definition passwordError :: "create_form \<Rightarrow> jsstring option" where
  "passwordError f =
     (if cf_password f \<noteq> [] \<and> \<not> meetsRules (cf_password f) then Some ''Use 12+ characters with upper, lower, number, and symbol.'' else None)"

section \<open>The page\<close>

text \<open>\<open>email.trim() || undefined\<close> and the like: an empty field is left out.\<close>

definition optional_field :: "jsstring \<Rightarrow> jsstring \<Rightarrow> body" where
  "optional_field k v = (if v = [] then [] else [(k, JStr v)])"

definition account_body :: "(jsstring \<Rightarrow> json) \<Rightarrow> create_form \<Rightarrow> body" where
  "account_body nonint f =
     [(''username'', JStr (cf_username f))] @ optional_field ''primary_domain'' (cf_domain f) @
     (if cf_plan f = [] then [] else [(''plan_id'', js_Number nonint (cf_plan f))]) @
     optional_field ''email'' (trim (cf_email f)) @ optional_field ''password'' (cf_password f) @
     [(''ip_selection'', JStr (cf_selection f))] @
     (if cf_selection f = ''specific'' then [(''server_ip_id'', js_Number nonint (cf_ip f))] else [])"

record create_page =
  cp_plans :: json
  cp_ips :: json
  cp_form :: create_form
  cp_created :: "json option"
  cp_progress :: json
  cp_running :: bool
  cp_error :: "jsstring option"

definition initial_create :: create_page where
  "initial_create =
     \<lparr>cp_plans = JUndef, cp_ips = JUndef, cp_form = INITIAL, cp_created = None, cp_progress = JNull, cp_running = False, cp_error = None\<rparr>"

definition option_ids :: "json list \<Rightarrow> jsstring list" where
  "option_ids rows = [] # map (\<lambda>r. js_String (jget r ''id'')) rows"

definition plan_rows :: "create_page \<Rightarrow> json list" where
  "plan_rows s = json_list (jget (cp_plans s) ''plans'')"

definition availableIps :: "create_page \<Rightarrow> json list" where
  "availableIps s =
     filter (\<lambda>e. truthy (jget e ''active'') \<and> truthy (jget e ''present_on_host'')) (json_list (jget (cp_ips s) ''ips''))"

definition ip_modes :: "jsstring list" where
  "ip_modes = [''automatic'', ''primary'', ''random'', ''specific'']"

datatype create_event =
    PlansArrive json
  | IpsArrive json
  | TypeUser jsstring
  | TypeDomain jsstring
  | TypeEmail jsstring
  | TypePass jsstring
  | GeneratePass "nat list"
  | ChoosePlan jsstring
  | ChooseMode jsstring
  | ChooseIp jsstring
  | SubmitCreate
  | CreateProgress json
  | CreateSettles "task_error + json"

definition form_valid :: "create_form \<Rightarrow> bool" where
  "form_valid f \<longleftrightarrow> cf_username f \<noteq> [] \<and> usernameError f = None \<and> domainError f = None \<and> passwordError f = None \<and> emailError f = None"

definition create_offered :: "create_page \<Rightarrow> create_event \<Rightarrow> bool" where
  "create_offered s e =
     (case e of
        PlansArrive d \<Rightarrow> True
      | IpsArrive d \<Rightarrow> True
      | CreateProgress t \<Rightarrow> cp_running s
      | CreateSettles r \<Rightarrow> cp_running s
      | _ \<Rightarrow> cp_created s = None \<and>
          (case e of
             TypeEmail t \<Rightarrow> trim t = t
           | GeneratePass bs \<Rightarrow> generateAccountPassword bs \<noteq> None
           | ChoosePlan p \<Rightarrow> p \<in> set (option_ids (plan_rows s))
           | ChooseMode m \<Rightarrow> m \<in> set ip_modes
           | ChooseIp i \<Rightarrow> cf_selection (cp_form s) = ''specific'' \<and> i \<in> set (option_ids (availableIps s))
           | SubmitCreate \<Rightarrow> \<not> cp_running s \<and> form_valid (cp_form s) \<and>
               (cf_selection (cp_form s) = ''specific'' \<longrightarrow>
                  cf_ip (cp_form s) \<noteq> [] \<and> cf_ip (cp_form s) \<in> set (option_ids (availableIps s)))
           | _ \<Rightarrow> True))"

definition needs_review :: "json \<Rightarrow> bool" where
  "needs_review account \<longleftrightarrow>
     json_list (jget account ''warnings'') \<noteq> [] \<or> truthy (jget account ''plan_apply_error'') \<or> truthy (jget account ''ip_assignment_error'')"

definition edit_form :: "(create_form \<Rightarrow> create_form) \<Rightarrow> create_page \<Rightarrow> create_page \<times> api_request list \<times> page_effect list" where
  "edit_form f s = (s\<lparr>cp_form := f (cp_form s)\<rparr>, [], [])"

fun create_step :: "jsstring \<Rightarrow> (jsstring \<Rightarrow> json) \<Rightarrow> (create_event, create_page) page_step" where
  "create_step engine nonint (PlansArrive d) s = (s\<lparr>cp_plans := d\<rparr>, [], [])"
| "create_step engine nonint (IpsArrive d) s = (s\<lparr>cp_ips := d\<rparr>, [], [])"
| "create_step engine nonint (TypeUser t) s = edit_form (\<lambda>f. f\<lparr>cf_username := t\<rparr>) s"
| "create_step engine nonint (TypeDomain t) s = edit_form (\<lambda>f. f\<lparr>cf_domain := t\<rparr>) s"
| "create_step engine nonint (TypeEmail t) s = edit_form (\<lambda>f. f\<lparr>cf_email := t\<rparr>) s"
| "create_step engine nonint (TypePass t) s = edit_form (\<lambda>f. f\<lparr>cf_password := t\<rparr>) s"
| "create_step engine nonint (GeneratePass bs) s =
     edit_form (\<lambda>f. case generateAccountPassword bs of Some (p, _) \<Rightarrow> f\<lparr>cf_password := p\<rparr> | None \<Rightarrow> f) s"
| "create_step engine nonint (ChoosePlan p) s = edit_form (\<lambda>f. f\<lparr>cf_plan := p\<rparr>) s"
| "create_step engine nonint (ChooseMode m) s = edit_form (\<lambda>f. f\<lparr>cf_selection := m\<rparr>) s"
| "create_step engine nonint (ChooseIp i) s = edit_form (\<lambda>f. f\<lparr>cf_ip := i\<rparr>) s"
| "create_step engine nonint SubmitCreate s =
     (s\<lparr>cp_running := True, cp_error := None, cp_progress := JNull\<rparr>,
      [ApiPost ''/api/v1/task-operations/account-create'' (account_body nonint (cp_form s))], [])"
| "create_step engine nonint (CreateProgress t) s = (s\<lparr>cp_progress := t\<rparr>, [], [])"
| "create_step engine nonint (CreateSettles r) s =
     (case r of
        Inl e \<Rightarrow> (s\<lparr>cp_running := False, cp_error := Some (task_message engine e)\<rparr>, [], [])
      | Inr account \<Rightarrow>
          (s\<lparr>cp_running := False, cp_created := Some account\<rparr>, [],
           [Invalidate [''accounts''],
            if needs_review account then Toast WarningTone ''Account created with an item to review'' []
            else Toast Success ''Hosting account created'' []]))"

text \<open>What the page shows once the account exists.\<close>

definition created_rows :: "json \<Rightarrow> (jsstring \<times> json) list" where
  "created_rows account = [(''Username'', jget account ''username''), (''Initial password'', jget account ''initial_password'')]"

section \<open>What is sent\<close>

definition absent_or :: "(jsstring \<Rightarrow> bool) \<Rightarrow> json \<Rightarrow> bool" where
  "absent_or P v \<longleftrightarrow> (case v of JStr t \<Rightarrow> P t | _ \<Rightarrow> v = JUndef)"

definition create_request_ok :: "api_request \<Rightarrow> bool" where
  "create_request_ok r \<longleftrightarrow>
     (\<exists>b. r = ApiPost ''/api/v1/task-operations/account-create'' b \<and>
        (\<exists>u. jget (JObj b) ''username'' = JStr u \<and> username_ok u) \<and>
        absent_or domain_ok (jget (JObj b) ''primary_domain'') \<and> absent_or email_ok (jget (JObj b) ''email'') \<and>
        absent_or meetsRules (jget (JObj b) ''password'') \<and>
        (\<exists>m \<in> set ip_modes. jget (JObj b) ''ip_selection'' = JStr m \<and> (m \<noteq> ''specific'' \<longrightarrow> jget (JObj b) ''server_ip_id'' = JUndef)))"

lemma optional_field_get [simp]:
  "map_of (optional_field k v) j = (if j = k \<and> v \<noteq> [] then Some (JStr v) else None)"
  by (auto simp: optional_field_def)

lemma account_body_get:
  "jget (JObj (account_body nonint f)) ''username'' = JStr (cf_username f)"
  "jget (JObj (account_body nonint f)) ''primary_domain'' = (if cf_domain f = [] then JUndef else JStr (cf_domain f))"
  "jget (JObj (account_body nonint f)) ''email'' = (if trim (cf_email f) = [] then JUndef else JStr (trim (cf_email f)))"
  "jget (JObj (account_body nonint f)) ''password'' = (if cf_password f = [] then JUndef else JStr (cf_password f))"
  "jget (JObj (account_body nonint f)) ''ip_selection'' = JStr (cf_selection f)"
  "cf_selection f \<noteq> ''specific'' \<Longrightarrow> jget (JObj (account_body nonint f)) ''server_ip_id'' = JUndef"
  by (simp_all add: account_body_def map_add_def split: option.split)

definition create_inv :: "create_page \<Rightarrow> bool" where
  "create_inv s \<longleftrightarrow> trim (cf_email (cp_form s)) = cf_email (cp_form s) \<and> cf_selection (cp_form s) \<in> set ip_modes \<and>
     (cp_running s \<longrightarrow> cp_created s = None)"

lemma body_ok:
  assumes "form_valid f" "trim (cf_email f) = cf_email f" "cf_selection f \<in> set ip_modes"
  shows "create_request_ok (ApiPost ''/api/v1/task-operations/account-create'' (account_body nonint f))"
proof -
  let ?b = "account_body nonint f"
  note err = form_valid_def usernameError_def domainError_def emailError_def passwordError_def
  have "\<exists>u. jget (JObj ?b) ''username'' = JStr u \<and> username_ok u"
    unfolding account_body_get using assms(1) by (auto simp: err split: if_splits)
  moreover have "absent_or domain_ok (jget (JObj ?b) ''primary_domain'')"
    unfolding account_body_get using assms(1) by (auto simp: err absent_or_def split: if_splits)
  moreover have "absent_or email_ok (jget (JObj ?b) ''email'')"
    unfolding account_body_get using assms(1,2) by (auto simp: err absent_or_def split: if_splits)
  moreover have "absent_or meetsRules (jget (JObj ?b) ''password'')"
    unfolding account_body_get using assms(1) by (auto simp: err absent_or_def split: if_splits)
  moreover have "\<exists>m \<in> set ip_modes. jget (JObj ?b) ''ip_selection'' = JStr m \<and> (m \<noteq> ''specific'' \<longrightarrow> jget (JObj ?b) ''server_ip_id'' = JUndef)"
    using account_body_get(5,6)[where f = f] assms(3) by blast
  ultimately show ?thesis unfolding create_request_ok_def by blast
qed

lemma create_inv_initial: "create_inv initial_create"
  by (simp add: create_inv_def initial_create_def INITIAL_def ip_modes_def)

lemma create_inv_step: "create_inv s \<Longrightarrow> create_offered s e \<Longrightarrow> create_inv (fst (create_step engine nonint e s))"
  by (cases e) (auto simp: create_inv_def create_offered_def edit_form_def split: option.splits sum.splits)

lemma create_good_step: "create_inv s \<Longrightarrow> create_offered s e \<Longrightarrow> list_all create_request_ok (fst (snd (create_step engine nonint e s)))"
  by (cases e) (auto simp: create_inv_def create_offered_def edit_form_def body_ok split: sum.splits)

interpretation creation: page_contract initial_create create_offered "create_step engine nonint" create_inv create_request_ok
  for engine nonint
  by unfold_locales (simp_all only: create_inv_initial create_inv_step create_good_step)

text \<open>Every account that is asked for has a name of one to sixteen lowercase letters and digits
  starting with a letter; the domain, the address and the password are either left out or well
  formed, and an address of the server is named only when one was to be chosen. Once the account
  exists, its one-time password stays on the page: nothing can be submitted again and no event
  replaces what is shown.\<close>

theorem account_creation_valid:
  assumes "page_reach initial_create create_offered (create_step engine nonint) s sent"
  shows "list_all create_request_ok sent \<and>
    (\<forall>account e. cp_created s = Some account \<and> create_offered s e \<longrightarrow>
       e \<noteq> SubmitCreate \<and> cp_created (fst (create_step engine nonint e s)) = Some account)"
proof -
  have inv: "create_inv s" "list_all create_request_ok sent" using creation.reach_inv[OF assms] by auto
  have "e \<noteq> SubmitCreate \<and> cp_created (fst (create_step engine nonint e s)) = Some account"
    if "cp_created s = Some account" "create_offered s e" for account e
    using that inv(1) by (cases e) (auto simp: create_offered_def create_inv_def edit_form_def)
  with inv(2) show ?thesis by blast
qed

definition create_script :: "create_event list" where
  "create_script =
     [TypeUser ''acme1'', TypeDomain ''Acme-1.example'', TypeEmail ''a@acme.example'', SubmitCreate,
      CreateSettles (Inr (JObj [(''username'', JStr ''acme1''), (''initial_password'', JStr ''x'')]))]"

theorem account_creation_valid_witness:
  "\<exists>s account. cp_created s = Some account \<and> \<not> create_offered s SubmitCreate \<and>
     create_request_ok (ApiPost ''/api/v1/task-operations/account-create''
       [(''username'', JStr ''acme1''), (''primary_domain'', JStr ''Acme-1.example''), (''email'', JStr ''a@acme.example''),
        (''ip_selection'', JStr ''automatic'')])"
proof -
  let ?r = "ApiPost ''/api/v1/task-operations/account-create''
       [(''username'', JStr ''acme1''), (''primary_domain'', JStr ''Acme-1.example''), (''email'', JStr ''a@acme.example''),
        (''ip_selection'', JStr ''automatic'')]"
  let ?a = "JObj [(''username'', JStr ''acme1''), (''initial_password'', JStr ''x'')]"
  have "map_option (\<lambda>r. (cp_created (fst r), snd r)) (page_run create_offered (create_step [] (\<lambda>_. JNull)) create_script (initial_create, [])) =
      Some (Some ?a, [?r])"
    by code_simp
  then obtain s where s: "page_run create_offered (create_step [] (\<lambda>_. JNull)) create_script (initial_create, []) = Some (s, [?r])"
      "cp_created s = Some ?a" by auto
  note valid = account_creation_valid[OF scripted_reach[OF s(1)]]
  have "create_request_ok ?r" using conjunct1[OF valid] by (simp only: list.pred_inject)
  moreover have "\<not> create_offered s SubmitCreate" using conjunct2[OF valid] s(2) by blast
  ultimately show ?thesis using s(2) by blast
qed

text \<open>The account shown is the answer to the one reveal request of the completed operation.\<close>

lemma created_from_completed_task:
  assumes "start_task posted fuel start clock answer True revealed = Some (Inr account)"
  shows "\<exists>res k answered. posted = Inr res \<and> jget (task_at (rdata res) answer k) ''status'' = JStr ''completed'' \<and>
           revealed = Inr answered \<and> account = rdata answered"
  using start_task_value[OF assms] by (auto simp: completed_run_def)

section \<open>Agreement with the server\<close>

lemma split_first: "c \<noteq> CHR ''.'' \<Longrightarrow> \<exists>w ws. split_on (CHR ''.'') (c # d) = (c # w) # ws"
  by (auto split: list.split)

lemma domain_form_complete:
  assumes "server_domain (toLowerCase d)"
  shows "domain_ok d"
proof -
  have labels: "list_all (\<lambda>l. server_label (toLowerCase l)) (split_on (CHR ''.'') d)"
    using assms by (simp add: server_domain_def split_lower list_all_iff)
  have "l \<noteq> [] \<and> list_all domain_char l" if "l \<in> set (split_on (CHR ''.'') d)" for l
    using labels that lowered_domain_char by (auto simp: list_all_iff server_label_def toLowerCase_def)
  then have chars: "list_all (\<lambda>l. l \<noteq> [] \<and> list_all domain_char l) (split_on (CHR ''.'') d)" by (simp add: list_all_iff)
  have "\<not> startsWith d ''-''"
  proof
    assume "startsWith d ''-''"
    then obtain d' where d: "d = CHR ''-'' # d'" by (cases d) (auto simp: startsWith_def)
    obtain w ws where "split_on (CHR ''.'') d = (CHR ''-'' # w) # ws" using split_first[of "CHR ''-''" d'] d by auto
    with labels have "server_label (toLowerCase (CHR ''-'' # w))" by simp
    moreover have "lower_char (CHR ''-'') = CHR ''-''" by code_simp
    ultimately show False by (simp add: server_label_def toLowerCase_def)
  qed
  moreover have "1 \<le> length d \<and> length d \<le> 253 \<and> 2 \<le> length (split_on (CHR ''.'') d)"
    using assms unfolding server_domain_def split_lower length_map by (simp add: toLowerCase_def)
  ultimately show ?thesis using chars by (simp add: domain_ok_def)
qed

lemma email_form_complete:
  assumes "server_email e"
  shows "email_ok e"
proof -
  obtain l d where sp: "split_on (CHR ''@'') e = [l, d]" using assms by (auto simp: server_email_def split: list.splits)
  have l: "1 \<le> length l" "list_all (\<lambda>c. is_letter c \<or> is_digit c \<or> c \<in> set ''._%+-'') l"
    using assms sp by (simp_all add: server_email_def)
  obtain i where i: "i < length d" "d ! i = CHR ''.''" "1 \<le> i" "list_all (\<lambda>c. is_letter c \<or> is_digit c \<or> c \<in> set ''.-'') (take i d)"
      "2 \<le> length (drop (Suc i) d)" "list_all is_letter (drop (Suc i) d)"
    using assms sp by (auto simp: server_email_def list_ex_iff)
  have e: "e = l @ CHR ''@'' # take i d @ CHR ''.'' # drop (Suc i) d"
    using join_split[of "CHR ''@''" e] sp id_take_nth_drop[OF i(1)] i(2) by simp
  have nosp: "\<not> is_space c" if "is_letter c \<or> is_digit c \<or> c \<in> set ''._%+-@''" for c
    using that by (auto simp: is_letter_def is_lower_def is_upper_def is_digit_def is_space_def code_def)
  have "list_all (\<lambda>c. \<not> is_space c) e"
    unfolding list_all_iff
  proof
    fix c assume "c \<in> set e"
    then have "c \<in> set l \<or> c = CHR ''@'' \<or> c \<in> set (take i d) \<or> c = CHR ''.'' \<or> c \<in> set (drop (Suc i) d)"
      by (subst (asm) e) auto
    then have "is_letter c \<or> is_digit c \<or> c \<in> set ''._%+-@''"
      using l(2) i(4,6) by (auto simp: list_all_iff)
    then show "\<not> is_space c" by (rule nosp)
  qed
  moreover have "list_ex (\<lambda>i. d ! i = CHR ''.'') [1..<length d - 1]"
    using i(2,3,5) by (auto simp: list_ex_iff intro!: bexI[of _ i])
  ultimately show ?thesis using l(1) sp by (auto simp: email_ok_def)
qed



text \<open>A domain typed with the root's dot is refused by the form, and the server would take it; a label ending
  in a hyphen passes the form, and the server refuses it.\<close>

lemma domain_checks_differ:
  "\<not> domain_ok ''example.com.''" "domain_ok ''bad-.com'' \<and> \<not> server_domain ''bad-.com''"
  by code_simp+

end
