(* ===== verification/Domains_Page.thy ===== *)
theory Domains_Page
  imports Task_Forms Server_Checks Preferences
begin

text \<open>
  \<open>pages/customer/Domains.jsx\<close>: the domains of an account, their creation (as a background
  operation), suspension and removal one by one or several at a time, and the parked domains. The
  parent of a new subdomain is the domain the panel is working on (\<open>useDomainContext\<close>), whose stored
  choice another tab can change. The selection is a set of JavaScript values, kept as a list
  without duplicates.
\<close>

section \<open>Names\<close>

text \<open>\<open>^[a-z0-9](?:[a-z0-9-]{0,61}[a-z0-9])?$\<close> ignoring case\<close>

definition alnum :: "char \<Rightarrow> bool" where
  "alnum c \<longleftrightarrow> is_letter c \<or> is_digit c"

definition label_ok :: "jsstring \<Rightarrow> bool" where
  "label_ok l \<longleftrightarrow> l \<noteq> [] \<and> length l \<le> 63 \<and> alnum (hd l) \<and> alnum (last l) \<and> list_all domain_char l"

definition validDomainName :: "jsstring \<Rightarrow> bool" where
  "validDomainName v \<longleftrightarrow> length v \<le> 253 \<and> js_includes v ''.'' \<and> list_all label_ok (split_on (CHR ''.'') v)"

lemma lowered_char_iff: "domain_char c \<longleftrightarrow> is_lower (lower_char c) \<or> is_digit (lower_char c) \<or> lower_char c = CHR ''-''"
  using code_lower_char[of c] code_eq_iff[of "lower_char c" "CHR ''-''"] code_eq_iff[of c "CHR ''-''"]
  by (auto simp: domain_char_def is_letter_def is_lower_def is_upper_def is_digit_def code_def split: if_splits)

lemma lowered_hyphen: "lower_char c = CHR ''-'' \<longleftrightarrow> c = CHR ''-''"
  using code_lower_char[of c] code_eq_iff[of "lower_char c" "CHR ''-''"] code_eq_iff[of c "CHR ''-''"]
  by (auto simp: code_def split: if_splits)

lemma label_is_servers: "label_ok l \<longleftrightarrow> server_label (toLowerCase l)"
proof (cases "l = []")
  case False
  have alnum: "alnum c \<longleftrightarrow> domain_char c \<and> c \<noteq> CHR ''-''" for c
    by (auto simp: alnum_def domain_char_def is_letter_def is_lower_def is_upper_def is_digit_def code_def)
  have ends: "list_all domain_char l \<Longrightarrow> domain_char (hd l) \<and> domain_char (last l)"
    using False by (simp add: list_all_iff)
  have "server_label (toLowerCase l) \<longleftrightarrow>
      length l \<le> 63 \<and> list_all domain_char l \<and> hd l \<noteq> CHR ''-'' \<and> last l \<noteq> CHR ''-''"
    using False unfolding server_label_def toLowerCase_def list.pred_map comp_def lowered_char_iff[symmetric]
    by (simp add: hd_map last_map lowered_hyphen Suc_le_eq)
  then show ?thesis using False ends unfolding label_ok_def alnum by blast
qed (simp add: label_ok_def server_label_def toLowerCase_def)

lemma includes_dot: "js_includes v ''.'' \<longleftrightarrow> 2 \<le> length (split_on (CHR ''.'') v)"
proof (induction v)
  case (Cons c v)
  obtain w ws where s: "split_on (CHR ''.'') v = w # ws" by (cases "split_on (CHR ''.'') v") auto
  with Cons show ?case by (auto simp: startsWith_def)
qed simp

text \<open>C32. The page's check of a complete domain name is the server's: a name passes it exactly when its
  lowercase form matches the server's expression, label by label.\<close>

theorem domain_check_is_servers:
  "validDomainName v \<longleftrightarrow> server_domain (toLowerCase v)"
proof -
  have "server_domain (toLowerCase v) \<longleftrightarrow>
      1 \<le> length v \<and> length v \<le> 253 \<and> 2 \<le> length (split_on (CHR ''.'') v) \<and>
      list_all (\<lambda>l. server_label (toLowerCase l)) (split_on (CHR ''.'') v)"
    unfolding server_domain_def split_lower list.pred_map comp_def by (simp add: toLowerCase_def)
  moreover have "2 \<le> length (split_on (CHR ''.'') v) \<Longrightarrow> 1 \<le> length v" by (cases v) auto
  ultimately show ?thesis unfolding validDomainName_def includes_dot label_is_servers by blast
qed

section \<open>State\<close>

datatype bulk_action = BulkDelete | BulkSuspend | BulkUnsuspend

record bulk_run =
  br_action :: bulk_action
  br_rows :: "json list"
  br_left :: "json list"
  br_report :: "(json \<times> jsstring option) list"

record domains_page =
  dm_only :: bool
  dm_rows :: "json list"
  dm_stored :: json
  dm_createOpen :: bool
  dm_selected :: "json list"
  dm_action :: "bulk_action option"
  dm_typed :: jsstring
  dm_report :: "(json \<times> jsstring option) list"
  dm_bulk :: "bulk_run option"
  dm_domain :: jsstring
  dm_kind :: jsstring
  dm_docrootMode :: jsstring
  dm_customDocroot :: jsstring
  dm_toDelete :: "json option"
  dm_deleting :: "json option"
  dm_toSuspend :: "json option"
  dm_reason :: jsstring
  dm_suspending :: bool
  dm_htaccess :: bool
  dm_creating :: bool
  dm_createError :: "jsstring option"

definition initial_domains :: "bool \<Rightarrow> domains_page" where
  "initial_domains only =
     \<lparr>dm_only = only, dm_rows = [], dm_stored = JUndef, dm_createOpen = False, dm_selected = [], dm_action = None,
      dm_typed = [], dm_report = [], dm_bulk = None, dm_domain = [], dm_kind = (if only then ''subdomain'' else ''addon''),
      dm_docrootMode = ''default'', dm_customDocroot = [], dm_toDelete = None, dm_deleting = None, dm_toSuspend = None,
      dm_reason = [], dm_suspending = False, dm_htaccess = False, dm_creating = False, dm_createError = None\<rparr>"

definition name_of :: "json \<Rightarrow> json" where "name_of row = jget row ''domain''"

definition kind_is :: "jsstring \<Rightarrow> json \<Rightarrow> bool" where "kind_is k row \<longleftrightarrow> jget row ''kind'' = JStr k"

definition row_suspended :: "json \<Rightarrow> bool" where "row_suspended row \<longleftrightarrow> truthy (jget row ''suspended'')"

definition parentDomains :: "domains_page \<Rightarrow> json list" where
  "parentDomains s = filter (\<lambda>r. \<not> kind_is ''subdomain'' r \<and> \<not> kind_is ''parked'' r) (dm_rows s)"

definition parent_names :: "domains_page \<Rightarrow> json list" where
  "parent_names s = domain_names (parentDomains s)"

definition parent_domain :: "domains_page \<Rightarrow> json" where
  "parent_domain s = selected_domain (parent_names s) (dm_stored s)"

definition visibleDomains :: "domains_page \<Rightarrow> json list" where
  "visibleDomains s = (if dm_only s then filter (kind_is ''subdomain'') (dm_rows s) else dm_rows s)"

definition selectedRows :: "domains_page \<Rightarrow> json list" where
  "selectedRows s = filter (\<lambda>r. name_of r \<in> set (dm_selected s)) (visibleDomains s)"

fun eligible :: "bulk_action \<Rightarrow> json \<Rightarrow> bool" where
  "eligible BulkDelete row = (\<not> kind_is ''primary'' row)"
| "eligible BulkSuspend row = (\<not> row_suspended row)"
| "eligible BulkUnsuspend row = row_suspended row"

definition bulkRows :: "domains_page \<Rightarrow> bulk_action \<Rightarrow> json list" where
  "bulkRows s a = filter (eligible a) (selectedRows s)"

text \<open>The effect on the rows forgets selected names that are gone.\<close>

definition prune_selection :: "json list \<Rightarrow> json list \<Rightarrow> json list" where
  "prune_selection rows selected = filter (\<lambda>n. list_ex (\<lambda>r. name_of r = n) rows) selected"

definition domainError :: "domains_page \<Rightarrow> bool" where
  "domainError s \<longleftrightarrow>
     dm_domain s \<noteq> [] \<and>
     (if dm_kind s = ''subdomain'' then \<not> label_ok (trim (dm_domain s)) else \<not> validDomainName (trim (dm_domain s)))"

definition create_blocked :: "domains_page \<Rightarrow> bool" where
  "create_blocked s \<longleftrightarrow>
     domainError s \<or> trim (dm_domain s) = [] \<or> (dm_kind s = ''subdomain'' \<and> \<not> truthy (parent_domain s))"

section \<open>Requests\<close>

definition domains_base :: "jsstring \<Rightarrow> jsstring" where
  "domains_base u = ''/api/v1/accounts/'' @ u @ ''/domains''"

definition domain_text :: "json \<Rightarrow> jsstring" where
  "domain_text row = js_String (name_of row)"

definition domain_body :: "domains_page \<Rightarrow> body" where
  "domain_body s =
     (let sub = (dm_kind s = ''subdomain'') in
      [(''domain'', JStr (if sub then trim (dm_domain s) @ ''.'' @ js_String (parent_domain s) else trim (dm_domain s))),
       (''kind'', JStr (dm_kind s))] @
      (if sub then [(''parent_domain'', parent_domain s)] else []) @
      [(''document_root_mode'', JStr (if sub then dm_docrootMode s else ''default''))] @
      (if sub \<and> dm_docrootMode s = ''custom'' then [(''document_root'', JStr (trim (dm_customDocroot s)))] else []))"

definition delete_domain_request :: "jsstring \<Rightarrow> json \<Rightarrow> api_request" where
  "delete_domain_request u row = ApiDelete (domains_base u @ ''/'' @ domain_text row)"

definition suspension_request :: "jsstring \<Rightarrow> json \<Rightarrow> bool \<Rightarrow> json \<Rightarrow> api_request" where
  "suspension_request u row on reason =
     ApiPatch (domains_base u @ ''/'' @ encodeURIComponent (domain_text row) @ ''/suspension'') [(''suspended'', JBool on), (''reason'', reason)]"

fun bulk_request :: "jsstring \<Rightarrow> bulk_action \<Rightarrow> json \<Rightarrow> api_request" where
  "bulk_request u BulkDelete row = delete_domain_request u row"
| "bulk_request u BulkSuspend row = suspension_request u row True (JStr [])"
| "bulk_request u BulkUnsuspend row = suspension_request u row False JNull"

text \<open>The sequential run: the first row left is the one in flight; an empty rest ends it.\<close>

definition finish_bulk :: "jsstring \<Rightarrow> bulk_run \<Rightarrow> domains_page \<Rightarrow> domains_page \<times> api_request list \<times> page_effect list" where
  "finish_bulk u r s =
     (let failed = filter (\<lambda>e. snd e \<noteq> None) (br_report r) in
      (s\<lparr>dm_bulk := None, dm_action := None, dm_typed := []\<rparr>, [],
       [Invalidate [''domains'', u],
        if failed \<noteq> [] then Toast ErrorTone ''Some domains could not be changed'' (show_nat (length failed) @ '' failed. See the per-domain results below.'')
        else Toast Success ''Domains updated'' (show_nat (length (br_report r)) @ '' domains changed.'')]))"

definition continue_bulk :: "jsstring \<Rightarrow> bulk_run \<Rightarrow> domains_page \<Rightarrow> domains_page \<times> api_request list \<times> page_effect list" where
  "continue_bulk u r s =
     (case br_left r of
        [] \<Rightarrow> finish_bulk u r s
      | row # _ \<Rightarrow> (s\<lparr>dm_bulk := Some r\<rparr>, [bulk_request u (br_action r) row], []))"

definition bulk_settles :: "jsstring \<Rightarrow> jsstring option \<Rightarrow> domains_page \<Rightarrow> domains_page \<times> api_request list \<times> page_effect list" where
  "bulk_settles u result s =
     (case dm_bulk s of
        None \<Rightarrow> (s, [], [])
      | Some r \<Rightarrow>
          (case br_left r of
             [] \<Rightarrow> (s, [], [])
           | row # rest \<Rightarrow>
               (let report = br_report r @ [(name_of row, result)];
                    r' = r\<lparr>br_left := rest, br_report := report\<rparr>;
                    selected = (if result = None then filter (\<lambda>n. n \<noteq> name_of row) (dm_selected s) else dm_selected s)
                in continue_bulk u r' (s\<lparr>dm_report := report, dm_selected := selected\<rparr>))))"

section \<open>Events\<close>

datatype domains_event =
    DomainsArrive json
  | StoredChanges json
  | OpenCreateDomain
  | CloseCreateDomain
  | ChooseKind jsstring
  | TypeDomainName jsstring
  | ChooseParent json
  | ChooseRootMode jsstring
  | TypeDocroot jsstring
  | SubmitDomain
  | DomainSettles "task_error + json"
  | TickDomain json bool
  | TickAll bool
  | SelectAllButton
  | ClearSelection
  | AskBulk bulk_action
  | TypeConfirmName jsstring
  | CancelBulk
  | ConfirmBulk
  | BulkSettles "jsstring option"
  | AskRemove json
  | CancelRemove
  | ConfirmRemove
  | RemoveDone
  | RemoveFails jsstring
  | AskSuspend json
  | TypeReason jsstring
  | DismissSuspend
  | CancelSuspend
  | SubmitSuspend
  | SuspendDone json
  | SuspendFails jsstring
  | ReloadHtaccess json
  | HtaccessDone json
  | HtaccessFails jsstring

definition no_domain_dialog :: "domains_page \<Rightarrow> bool" where
  "no_domain_dialog s \<longleftrightarrow> \<not> dm_createOpen s \<and> dm_action s = None \<and> dm_toDelete s = None \<and> dm_toSuspend s = None"

text \<open>The confirmations ask for the account's name, or for the domain's, to be typed.\<close>

fun domains_offered :: "jsstring \<Rightarrow> domains_page \<Rightarrow> domains_event \<Rightarrow> bool" where
  "domains_offered u s (DomainsArrive d) = True"
| "domains_offered u s (StoredChanges v) = True"
| "domains_offered u s OpenCreateDomain = no_domain_dialog s"
| "domains_offered u s CloseCreateDomain = (dm_createOpen s \<and> \<not> dm_creating s)"
| "domains_offered u s (ChooseKind k) =
     (dm_createOpen s \<and> \<not> dm_only s \<and> (k = ''addon'' \<or> k = ''subdomain'' \<and> parentDomains s \<noteq> []))"
| "domains_offered u s (TypeDomainName t) = dm_createOpen s"
| "domains_offered u s (ChooseParent p) = (dm_createOpen s \<and> dm_kind s = ''subdomain'' \<and> p \<in> set (map name_of (parentDomains s)))"
| "domains_offered u s (ChooseRootMode m) = (dm_createOpen s \<and> dm_kind s = ''subdomain'' \<and> m \<in> {''default'', ''parent'', ''custom''})"
| "domains_offered u s (TypeDocroot t) = (dm_createOpen s \<and> dm_kind s = ''subdomain'' \<and> dm_docrootMode s = ''custom'')"
| "domains_offered u s SubmitDomain =
     (dm_createOpen s \<and> \<not> dm_creating s \<and> \<not> create_blocked s \<and>
      (dm_kind s = ''subdomain'' \<and> dm_docrootMode s = ''custom'' \<longrightarrow> dm_customDocroot s \<noteq> []))"
| "domains_offered u s (DomainSettles r) = dm_creating s"
| "domains_offered u s (TickDomain n b) = (no_domain_dialog s \<and> n \<in> set (map name_of (visibleDomains s)) \<and> b = (n \<notin> set (dm_selected s)))"
| "domains_offered u s (TickAll b) = no_domain_dialog s"
| "domains_offered u s SelectAllButton =
     (no_domain_dialog s \<and> selectedRows s \<noteq> [] \<and> length (selectedRows s) < length (visibleDomains s))"
| "domains_offered u s ClearSelection = (no_domain_dialog s \<and> selectedRows s \<noteq> [])"
| "domains_offered u s (AskBulk a) =
     (no_domain_dialog s \<and> dm_bulk s = None \<and> selectedRows s \<noteq> [] \<and> list_ex (eligible a) (selectedRows s))"
| "domains_offered u s (TypeConfirmName t) = (dm_action s \<noteq> None \<or> dm_toDelete s \<noteq> None)"
| "domains_offered u s CancelBulk = (dm_action s \<noteq> None \<and> dm_bulk s = None)"
| "domains_offered u s ConfirmBulk = (dm_action s \<noteq> None \<and> dm_bulk s = None \<and> dm_typed s = u)"
| "domains_offered u s (BulkSettles r) = (dm_bulk s \<noteq> None)"
| "domains_offered u s (AskRemove row) = (no_domain_dialog s \<and> row \<in> set (visibleDomains s) \<and> \<not> kind_is ''primary'' row)"
| "domains_offered u s CancelRemove = (dm_toDelete s \<noteq> None \<and> dm_deleting s = None)"
| "domains_offered u s ConfirmRemove =
     (dm_deleting s = None \<and> (case dm_toDelete s of Some row \<Rightarrow> dm_typed s = domain_text row | None \<Rightarrow> False))"
| "domains_offered u s RemoveDone = (dm_deleting s \<noteq> None)"
| "domains_offered u s (RemoveFails e) = (dm_deleting s \<noteq> None)"
| "domains_offered u s (AskSuspend row) = (no_domain_dialog s \<and> row \<in> set (visibleDomains s) \<and> \<not> dm_suspending s)"
| "domains_offered u s (TypeReason t) =
     (length t \<le> 500 \<and> (case dm_toSuspend s of Some row \<Rightarrow> \<not> row_suspended row | None \<Rightarrow> False))"
| "domains_offered u s DismissSuspend = (dm_toSuspend s \<noteq> None \<and> \<not> dm_suspending s)"
| "domains_offered u s CancelSuspend = (dm_toSuspend s \<noteq> None \<and> \<not> dm_suspending s)"
| "domains_offered u s SubmitSuspend = (dm_toSuspend s \<noteq> None \<and> \<not> dm_suspending s)"
| "domains_offered u s (SuspendDone v) = dm_suspending s"
| "domains_offered u s (SuspendFails e) = dm_suspending s"
| "domains_offered u s (ReloadHtaccess row) = (no_domain_dialog s \<and> row \<in> set (visibleDomains s) \<and> \<not> dm_htaccess s)"
| "domains_offered u s (HtaccessDone row) = dm_htaccess s"
| "domains_offered u s (HtaccessFails e) = dm_htaccess s"

definition first_parent :: "domains_page \<Rightarrow> json" where
  "first_parent s = (case parentDomains s of [] \<Rightarrow> JStr [] | r # _ \<Rightarrow> js_or (name_of r) (JStr []))"

text \<open>Choosing a domain stores it for the whole panel, when it is one of the choices.\<close>

definition store_parent :: "jsstring \<Rightarrow> json \<Rightarrow> domains_page \<Rightarrow> domains_page" where
  "store_parent u p s = (if choose_domain u (parentDomains s) p \<noteq> [] then s\<lparr>dm_stored := p\<rparr> else s)"

fun domains_step :: "jsstring \<Rightarrow> jsstring \<Rightarrow> (domains_event, domains_page) page_step" where
  "domains_step engine u (DomainsArrive d) s =
     (let rows = json_list (jget d ''domains'') in (s\<lparr>dm_rows := rows, dm_selected := prune_selection rows (dm_selected s)\<rparr>, [], []))"
| "domains_step engine u (StoredChanges v) s = (s\<lparr>dm_stored := v\<rparr>, [], [])"
| "domains_step engine u OpenCreateDomain s = (s\<lparr>dm_createOpen := True\<rparr>, [], [])"
| "domains_step engine u CloseCreateDomain s = (s\<lparr>dm_createOpen := False\<rparr>, [], [])"
| "domains_step engine u (ChooseKind k) s = (store_parent u (first_parent s) (s\<lparr>dm_kind := k, dm_domain := []\<rparr>), [], [])"
| "domains_step engine u (TypeDomainName t) s = (s\<lparr>dm_domain := t\<rparr>, [], [])"
| "domains_step engine u (ChooseParent p) s = (store_parent u p s, [], [])"
| "domains_step engine u (ChooseRootMode m) s = (s\<lparr>dm_docrootMode := m\<rparr>, [], [])"
| "domains_step engine u (TypeDocroot t) s = (s\<lparr>dm_customDocroot := t\<rparr>, [], [])"
| "domains_step engine u SubmitDomain s =
     (s\<lparr>dm_creating := True, dm_createError := None\<rparr>,
      [ApiPost (''/api/v1/task-operations/accounts/'' @ u @ ''/domains'') (domain_body s)], [])"
| "domains_step engine u (DomainSettles r) s =
     (case r of
        Inl e \<Rightarrow> (s\<lparr>dm_creating := False, dm_createError := Some (task_message engine e)\<rparr>, [],
                  [Toast ErrorTone ''Could not add domain'' (task_message engine e)])
      | Inr d \<Rightarrow> (s\<lparr>dm_creating := False, dm_createOpen := False, dm_domain := [], dm_customDocroot := []\<rparr>, [],
                  [Toast Success (if dm_kind s = ''subdomain'' then ''Subdomain added'' else ''Domain added'')
                     (js_String (js_or (name_of d) (JStr (dm_domain s))) @ '' was added to your account.''),
                   Invalidate [''domains'', u]]))"
| "domains_step engine u (TickDomain n b) s =
     (s\<lparr>dm_selected := (if b then (if n \<in> set (dm_selected s) then dm_selected s else dm_selected s @ [n])
                        else filter (\<lambda>x. x \<noteq> n) (dm_selected s))\<rparr>, [], [])"
| "domains_step engine u (TickAll b) s = (s\<lparr>dm_selected := (if b then remdups (map name_of (visibleDomains s)) else [])\<rparr>, [], [])"
| "domains_step engine u SelectAllButton s =
     (s\<lparr>dm_selected := remdups (map (\<lambda>r. if nullish (jget r ''id'') then name_of r else jget r ''id'') (visibleDomains s))\<rparr>, [], [])"
| "domains_step engine u ClearSelection s = (s\<lparr>dm_selected := []\<rparr>, [], [])"
| "domains_step engine u (AskBulk a) s = (s\<lparr>dm_action := Some a\<rparr>, [], [])"
| "domains_step engine u (TypeConfirmName t) s = (s\<lparr>dm_typed := t\<rparr>, [], [])"
| "domains_step engine u CancelBulk s = (s\<lparr>dm_action := None, dm_typed := []\<rparr>, [], [])"
| "domains_step engine u ConfirmBulk s =
     (case dm_action s of
        None \<Rightarrow> (s, [], [])
      | Some a \<Rightarrow>
          continue_bulk u \<lparr>br_action = a, br_rows = bulkRows s a, br_left = bulkRows s a, br_report = []\<rparr> (s\<lparr>dm_report := []\<rparr>))"
| "domains_step engine u (BulkSettles r) s = bulk_settles u r s"
| "domains_step engine u (AskRemove row) s = (s\<lparr>dm_toDelete := Some row\<rparr>, [], [])"
| "domains_step engine u CancelRemove s = (s\<lparr>dm_toDelete := None, dm_typed := []\<rparr>, [], [])"
| "domains_step engine u ConfirmRemove s =
     (case dm_toDelete s of
        None \<Rightarrow> (s, [], [])
      | Some row \<Rightarrow> (s\<lparr>dm_deleting := Some row\<rparr>, [delete_domain_request u row], []))"
| "domains_step engine u RemoveDone s =
     (s\<lparr>dm_deleting := None, dm_toDelete := None, dm_typed := []\<rparr>, [],
      [Toast Success ''Domain removed''
         ((case dm_deleting s of Some row \<Rightarrow> domain_text row | None \<Rightarrow> []) @ '' and its vhost were removed. Files on disk are kept.''),
       Invalidate [''domains'', u]])"
| "domains_step engine u (RemoveFails e) s = (s\<lparr>dm_deleting := None\<rparr>, [], [Toast ErrorTone ''Could not remove domain'' e])"
| "domains_step engine u (AskSuspend row) s =
     (s\<lparr>dm_toSuspend := Some row, dm_reason := json_text (js_or (jget row ''suspension_reason'') (JStr []))\<rparr>, [], [])"
| "domains_step engine u (TypeReason t) s = (s\<lparr>dm_reason := t\<rparr>, [], [])"
| "domains_step engine u DismissSuspend s = (s\<lparr>dm_toSuspend := None, dm_reason := []\<rparr>, [], [])"
| "domains_step engine u CancelSuspend s = (s\<lparr>dm_toSuspend := None\<rparr>, [], [])"
| "domains_step engine u SubmitSuspend s =
     (case dm_toSuspend s of
        None \<Rightarrow> (s, [], [])
      | Some row \<Rightarrow>
          (s\<lparr>dm_suspending := True\<rparr>,
           [suspension_request u row (\<not> row_suspended row) (if row_suspended row then JNull else JStr (trim (dm_reason s)))], []))"
| "domains_step engine u (SuspendDone v) s =
     (s\<lparr>dm_suspending := False, dm_toSuspend := None, dm_reason := []\<rparr>, [],
      [if row_suspended v then Toast Success ''Domain suspended'' ''Only this website now shows the suspension page.''
       else Toast Success ''Domain reactivated'' ''The website is serving normally again.'', Invalidate [''domains'', u]])"
| "domains_step engine u (SuspendFails e) s =
     (s\<lparr>dm_suspending := False\<rparr>, [], [Toast ErrorTone ''Could not change domain status'' e])"
| "domains_step engine u (ReloadHtaccess row) s =
     (s\<lparr>dm_htaccess := True\<rparr>, [ApiPost (domains_base u @ ''/'' @ encodeURIComponent (domain_text row) @ ''/reload-htaccess'') []], [])"
| "domains_step engine u (HtaccessDone row) s =
     (s\<lparr>dm_htaccess := False\<rparr>, [], [Toast Success ''.htaccess reloaded'' (domain_text row @ '' is using the latest rewrite rules.'')])"
| "domains_step engine u (HtaccessFails e) s = (s\<lparr>dm_htaccess := False\<rparr>, [], [Toast ErrorTone ''Could not reload .htaccess'' e])"

section \<open>What is sent\<close>

definition domain_creation_ok :: "body \<Rightarrow> bool" where
  "domain_creation_ok b \<longleftrightarrow>
     (\<exists>d rest. b = (''domain'', JStr d) # rest \<and>
        (rest = [(''kind'', JStr ''addon''), (''document_root_mode'', JStr ''default'')] \<and> validDomainName d \<or>
         (\<exists>l p mode root. rest = [(''kind'', JStr ''subdomain''), (''parent_domain'', p), (''document_root_mode'', JStr mode)] @ root \<and>
            d = l @ ''.'' @ js_String p \<and> label_ok l \<and> truthy p \<and> mode \<in> {''default'', ''parent'', ''custom''} \<and>
            (mode = ''custom'' \<longleftrightarrow> root \<noteq> []))))"

definition domain_request_ok :: "jsstring \<Rightarrow> api_request \<Rightarrow> bool" where
  "domain_request_ok u r \<longleftrightarrow>
     (case r of
        ApiPost url b \<Rightarrow> url = ''/api/v1/task-operations/accounts/'' @ u @ ''/domains'' \<and> domain_creation_ok b \<or>
                       startsWith url (domains_base u @ ''/'') \<and> b = []
      | ApiPatch url b \<Rightarrow> startsWith url (domains_base u @ ''/'') \<and>
          (b = [(''suspended'', JBool False), (''reason'', JNull)] \<or> (\<exists>t. trim t = t \<and> b = [(''suspended'', JBool True), (''reason'', JStr t)]))
      | ApiDelete url \<Rightarrow> startsWith url (domains_base u @ ''/'')
      | _ \<Rightarrow> False)"

definition run_ok :: "bulk_run \<Rightarrow> bool" where
  "run_ok r \<longleftrightarrow> br_left r \<noteq> [] \<and> list_all (eligible (br_action r)) (br_rows r) \<and>
     map fst (br_report r) @ map name_of (br_left r) = map name_of (br_rows r) \<and> set (br_left r) \<subseteq> set (br_rows r)"

definition domains_inv :: "domains_page \<Rightarrow> bool" where
  "domains_inv s \<longleftrightarrow> dm_kind s \<in> {''addon'', ''subdomain''} \<and> dm_docrootMode s \<in> {''default'', ''parent'', ''custom''} \<and>
     (\<forall>r. dm_bulk s = Some r \<longrightarrow> run_ok r \<and> dm_action s = Some (br_action r) \<and> dm_report s = br_report r)"

lemma base_prefix: "startsWith (domains_base u @ ''/'' @ x) (domains_base u @ ''/'')"
  using startsWith_append[of "domains_base u @ ''/''" x] by simp

lemma domain_requests_prefixed:
  "domain_request_ok u (delete_domain_request u row)" "domain_request_ok u (suspension_request u row False JNull)"
  "trim t = t \<Longrightarrow> domain_request_ok u (suspension_request u row True (JStr t))"
  "domain_request_ok u (ApiPost (domains_base u @ ''/'' @ x) [])"
  by (auto simp only: domain_request_ok_def delete_domain_request_def suspension_request_def base_prefix api_request.case)

lemma bulk_requests_ok: "domain_request_ok u (bulk_request u a row)"
  by (cases a) (simp_all add: domain_requests_prefixed)

lemma domain_body_ok:
  assumes "\<not> create_blocked s" "domains_inv s"
  shows "domain_creation_ok (domain_body s)"
proof (cases "dm_kind s = ''subdomain''")
  case True
  have "label_ok (trim (dm_domain s))" "truthy (parent_domain s)"
    using assms(1) True by (auto simp: create_blocked_def domainError_def)
  moreover have "dm_docrootMode s \<in> {''default'', ''parent'', ''custom''}" using assms(2) by (simp add: domains_inv_def)
  ultimately show ?thesis
    unfolding domain_creation_ok_def domain_body_def using True
    by (intro exI conjI disjI2) (auto simp: Let_def)
next
  case False
  then have "dm_kind s = ''addon''" using assms(2) by (simp add: domains_inv_def)
  moreover have "validDomainName (trim (dm_domain s))"
    using assms(1) False by (auto simp: create_blocked_def domainError_def)
  ultimately show ?thesis by (simp add: domain_creation_ok_def domain_body_def)
qed

lemma continue_bulk_inv:
  assumes "domains_inv (s\<lparr>dm_bulk := None\<rparr>)" "dm_action s = Some (br_action r)" "dm_report s = br_report r"
    "list_all (eligible (br_action r)) (br_rows r)" "map fst (br_report r) @ map name_of (br_left r) = map name_of (br_rows r)"
    "set (br_left r) \<subseteq> set (br_rows r)"
  shows "domains_inv (fst (continue_bulk u r s)) \<and> list_all (domain_request_ok u) (fst (snd (continue_bulk u r s)))"
  using assms
  by (cases "br_left r") (auto simp: continue_bulk_def finish_bulk_def domains_inv_def run_ok_def bulk_requests_ok Let_def)

lemma domains_inv_initial: "domains_inv (initial_domains only)"
  by (simp add: domains_inv_def initial_domains_def)

lemma store_parent_keeps [simp]:
  "dm_kind (store_parent u p s) = dm_kind s" "dm_docrootMode (store_parent u p s) = dm_docrootMode s"
  "dm_bulk (store_parent u p s) = dm_bulk s" "dm_action (store_parent u p s) = dm_action s"
  "dm_report (store_parent u p s) = dm_report s"
  by (simp_all add: store_parent_def)

lemma bulk_settles_keeps:
  assumes "domains_inv s"
  shows "domains_inv (fst (bulk_settles u result s)) \<and> list_all (domain_request_ok u) (fst (snd (bulk_settles u result s)))"
proof (cases "dm_bulk s")
  case (Some r)
  then obtain row rest where l: "br_left r = row # rest" and ok: "run_ok r" "dm_action s = Some (br_action r)" "dm_report s = br_report r"
    using assms by (cases "br_left r") (auto simp: domains_inv_def run_ok_def)
  let ?report = "br_report r @ [(name_of row, result)]"
  let ?selected = "if result = None then filter (\<lambda>n. n \<noteq> name_of row) (dm_selected s) else dm_selected s"
  let ?r = "r\<lparr>br_left := rest, br_report := ?report\<rparr>" and ?s = "s\<lparr>dm_report := ?report, dm_selected := ?selected\<rparr>"
  have "domains_inv (fst (continue_bulk u ?r ?s)) \<and> list_all (domain_request_ok u) (fst (snd (continue_bulk u ?r ?s)))"
    by (rule continue_bulk_inv) (use assms ok l in \<open>simp_all add: domains_inv_def run_ok_def\<close>)
  then show ?thesis using Some l by (simp add: bulk_settles_def Let_def)
qed (use assms in \<open>simp add: bulk_settles_def\<close>)

lemma domains_keep:
  assumes "domains_inv s" "domains_offered u s e"
  shows "domains_inv (fst (domains_step engine u e s)) \<and> list_all (domain_request_ok u) (fst (snd (domains_step engine u e s)))"
proof (cases e)
  case (BulkSettles r)
  then show ?thesis using bulk_settles_keeps[OF assms(1)] by simp
next
  case ConfirmBulk
  with assms(2) obtain a where "dm_action s = Some a" "dm_bulk s = None" by auto
  let ?r = "\<lparr>br_action = a, br_rows = bulkRows s a, br_left = bulkRows s a, br_report = []\<rparr>"
  have "domains_inv (fst (continue_bulk u ?r (s\<lparr>dm_report := []\<rparr>))) \<and>
      list_all (domain_request_ok u) (fst (snd (continue_bulk u ?r (s\<lparr>dm_report := []\<rparr>))))"
    by (rule continue_bulk_inv)
       (use assms(1) \<open>dm_action s = Some a\<close> in \<open>simp_all add: domains_inv_def bulkRows_def list_all_iff\<close>)
  then show ?thesis using ConfirmBulk \<open>dm_action s = Some a\<close> by simp
next
  case SubmitDomain
  with assms have "domain_creation_ok (domain_body s)" by (intro domain_body_ok) simp_all
  with SubmitDomain assms(1) show ?thesis by (simp add: domain_request_ok_def domains_inv_def)
next
  case SubmitSuspend
  with assms show ?thesis by (auto simp: domains_inv_def domain_requests_prefixed split: option.splits)
next
  case (ReloadHtaccess row)
  show ?thesis unfolding ReloadHtaccess domains_step.simps fst_conv snd_conv list.pred_inject
    using assms(1) domain_requests_prefixed(4)[of u "encodeURIComponent (domain_text row) @ ''/reload-htaccess''"]
    by (simp add: domains_inv_def)
qed (use assms in \<open>auto simp: domains_inv_def domain_requests_prefixed Let_def split: option.splits sum.splits\<close>)

interpretation domains: page_contract "initial_domains only" "domains_offered u" "domains_step engine u" domains_inv "domain_request_ok u"
  for only u engine
  by unfold_locales (simp_all only: domains_inv_initial domains_keep)

text \<open>Whatever is done on the page, it only ever asks for domains the server's expression admits
  (a complete name, or a label in front of a chosen parent, with a folder exactly when one was chosen),
  and otherwise only addresses the domains of its own account: a suspension carries a trimmed reason,
  a reactivation none.\<close>

theorem domain_requests_valid:
  assumes "page_reach (initial_domains only) (domains_offered u) (domains_step engine u) s sent"
  shows "list_all (domain_request_ok u) sent"
  using domains.reach_inv[OF assms] by blast

text \<open>A row for the scripts.\<close>

definition domain_row :: "nat \<Rightarrow> jsstring \<Rightarrow> jsstring \<Rightarrow> json" where
  "domain_row n name kind = JObj [(''id'', JNum (int n)), (''domain'', JStr name), (''kind'', JStr kind), (''suspended'', JBool False)]"

definition domain_answer :: json where
  "domain_answer = JObj [(''domains'', JArr [domain_row 1 ''a.com'' ''primary'', domain_row 2 ''b.com'' ''addon'', domain_row 3 ''c.com'' ''addon''])]"

lemma creation_script:
  "map_option (\<lambda>(s, sent). (dm_creating s, sent))
     (page_run (domains_offered ''bob'') (domains_step [] ''bob'')
        [DomainsArrive domain_answer, OpenCreateDomain, ChooseKind ''subdomain'', TypeDomainName '' blog '', SubmitDomain]
        (initial_domains False, [])) =
   Some (True, [ApiPost ''/api/v1/task-operations/accounts/bob/domains''
     [(''domain'', JStr ''blog.a.com''), (''kind'', JStr ''subdomain''), (''parent_domain'', JStr ''a.com''),
      (''document_root_mode'', JStr ''default'')]])"
  by code_simp

theorem domain_requests_valid_witness:
  "domain_request_ok ''bob'' (ApiPost ''/api/v1/task-operations/accounts/bob/domains''
     [(''domain'', JStr ''blog.a.com''), (''kind'', JStr ''subdomain''), (''parent_domain'', JStr ''a.com''),
      (''document_root_mode'', JStr ''default'')])"
proof -
  obtain s where "page_run (domains_offered ''bob'') (domains_step [] ''bob'')
      [DomainsArrive domain_answer, OpenCreateDomain, ChooseKind ''subdomain'', TypeDomainName '' blog '', SubmitDomain]
      (initial_domains False, []) = Some (s, [ApiPost ''/api/v1/task-operations/accounts/bob/domains''
     [(''domain'', JStr ''blog.a.com''), (''kind'', JStr ''subdomain''), (''parent_domain'', JStr ''a.com''),
      (''document_root_mode'', JStr ''default'')]])"
    using creation_script by (auto simp only: map_option_eq_Some prod.case prod.inject split: prod.splits)
  from domain_requests_valid[OF scripted_reach[OF this]] show ?thesis by (simp only: list.pred_inject)
qed

section \<open>Several domains at a time\<close>

definition failures :: "(json \<times> jsstring option) list \<Rightarrow> nat" where
  "failures report = length (filter (\<lambda>e. snd e \<noteq> None) report)"

text \<open>C13. While several domains are changed, those reported and those left are together the rows the
  confirmation captured, in their order, and none of them is one the action does not apply to (so a
  primary domain is never removed); the report is what the page shows, and the answer to the last
  request leaves a report on every row and announces exactly the number of failures in it.\<close>

theorem bulk_changes_accounted:
  assumes "page_reach (initial_domains only) (domains_offered u) (domains_step engine u) s sent" "dm_bulk s = Some r"
  shows "br_left r \<noteq> [] \<and> list_all (eligible (br_action r)) (br_rows r) \<and> dm_report s = br_report r \<and>
    map fst (br_report r) @ map name_of (br_left r) = map name_of (br_rows r) \<and>
    (length (br_left r) = 1 \<longrightarrow>
       (let (s', new, effs) = domains_step engine u (BulkSettles x) s; n = failures (br_report r) + (if x = None then 0 else 1) in
        new = [] \<and> dm_bulk s' = None \<and> map fst (dm_report s') = map name_of (br_rows r) \<and>
        effs = [Invalidate [''domains'', u],
                if n = 0 then Toast Success ''Domains updated'' (show_nat (length (br_rows r)) @ '' domains changed.'')
                else Toast ErrorTone ''Some domains could not be changed''
                       (show_nat n @ '' failed. See the per-domain results below.'')]))"
proof -
  have ok: "run_ok r" "dm_report s = br_report r" using domains.reach_inv[OF assms(1)] assms(2) by (auto simp: domains_inv_def)
  have len: "length (br_report r) + length (br_left r) = length (br_rows r)"
    using ok(1) unfolding run_ok_def by (metis length_append length_map)
  show ?thesis
  proof (intro conjI impI)
    assume "length (br_left r) = 1"
    then obtain row where row: "br_left r = [row]" by (cases "br_left r") auto
    have "map fst (br_report r) @ [name_of row] = map name_of (br_rows r)" using ok(1) row by (simp add: run_ok_def)
    with len row assms(2) show "let (s', new, effs) = domains_step engine u (BulkSettles x) s; n = failures (br_report r) + (if x = None then 0 else 1) in
        new = [] \<and> dm_bulk s' = None \<and> map fst (dm_report s') = map name_of (br_rows r) \<and>
        effs = [Invalidate [''domains'', u],
                if n = 0 then Toast Success ''Domains updated'' (show_nat (length (br_rows r)) @ '' domains changed.'')
                else Toast ErrorTone ''Some domains could not be changed''
                       (show_nat n @ '' failed. See the per-domain results below.'')]"
      by (cases x) (simp_all add: bulk_settles_def continue_bulk_def finish_bulk_def failures_def Let_def)
  qed (use ok in \<open>simp_all add: run_ok_def\<close>)
qed

definition bulk_script :: "domains_event list" where
  "bulk_script = [DomainsArrive domain_answer, TickAll True, AskBulk BulkDelete, TypeConfirmName ''bob'', ConfirmBulk,
     BulkSettles (Some ''busy'')]"

lemma bulk_script_runs:
  "map_option (\<lambda>(s, sent). (dm_bulk s, sent)) (page_run (domains_offered ''bob'') (domains_step [] ''bob'') bulk_script (initial_domains False, [])) =
   Some (Some \<lparr>br_action = BulkDelete, br_rows = [domain_row 2 ''b.com'' ''addon'', domain_row 3 ''c.com'' ''addon''],
               br_left = [domain_row 3 ''c.com'' ''addon''], br_report = [(JStr ''b.com'', Some ''busy'')]\<rparr>,
         [ApiDelete ''/api/v1/accounts/bob/domains/b.com'', ApiDelete ''/api/v1/accounts/bob/domains/c.com''])"
  by code_simp

theorem bulk_changes_accounted_witness:
  "\<exists>s. dm_report s = [(JStr ''b.com'', Some ''busy'')] \<and>
     snd (snd (domains_step [] ''bob'' (BulkSettles None) s)) =
       [Invalidate [''domains'', ''bob''],
        Toast ErrorTone ''Some domains could not be changed'' ''1 failed. See the per-domain results below.'']"
proof -
  let ?r = "\<lparr>br_action = BulkDelete, br_rows = [domain_row 2 ''b.com'' ''addon'', domain_row 3 ''c.com'' ''addon''],
               br_left = [domain_row 3 ''c.com'' ''addon''], br_report = [(JStr ''b.com'', Some ''busy'')]\<rparr>"
  obtain s where s: "page_run (domains_offered ''bob'') (domains_step [] ''bob'') bulk_script (initial_domains False, []) =
      Some (s, [ApiDelete ''/api/v1/accounts/bob/domains/b.com'', ApiDelete ''/api/v1/accounts/bob/domains/c.com''])"
      and r: "dm_bulk s = Some ?r"
    using bulk_script_runs by (auto simp only: map_option_eq_Some prod.case prod.inject split: prod.splits)
  have one: "show_nat 1 = ''1''" by code_simp
  from bulk_changes_accounted[OF scripted_reach[OF s] r, of None] one show ?thesis
    by (intro exI[of _ s]) (simp add: failures_def Let_def split: prod.splits)
qed

text \<open>The button of the selection bar collects the numbers of the rows, where the selection is of names:
  with the rows the API sends, it selects nothing.\<close>

definition row_identified :: "json \<Rightarrow> bool" where
  "row_identified r \<longleftrightarrow> (\<exists>n name. jget r ''id'' = JNum n \<and> jget r ''domain'' = JStr name)"

lemma select_all_selects_nothing:
  assumes "list_all row_identified (dm_rows s)"
  shows "selectedRows (fst (domains_step engine u SelectAllButton s)) = []"
proof -
  have ids: "row_identified r" if "r \<in> set (visibleDomains s)" for r
    using assms that by (auto simp: visibleDomains_def list_all_iff split: if_splits)
  define s' where "s' = fst (domains_step engine u SelectAllButton s)"
  have vis: "visibleDomains s' = visibleDomains s" by (simp add: visibleDomains_def s'_def)
  have "\<exists>n. v = JNum n" if "v \<in> set (dm_selected s')" for v
    using that by (auto simp: s'_def nullish_def row_identified_def dest!: ids)
  moreover have "\<exists>name. name_of r = JStr name" if "r \<in> set (visibleDomains s)" for r
    using ids[OF that] by (auto simp: row_identified_def name_of_def)
  ultimately have "name_of r \<notin> set (dm_selected s')" if "r \<in> set (visibleDomains s)" for r
    using that by (metis json.distinct)
  then show ?thesis unfolding s'_def[symmetric] selectedRows_def vis by simp
qed

end
