(* ===== verification/Php_Page.thy ===== *)
theory Php_Page
  imports Page_Machine Js_Decimals Preferences Format
begin

text \<open>
  \<open>pages/customer/Php.jsx\<close>: the PHP version of the account and of each site, the directives, and the
  extensions. The directives come as descriptors from the server (name, type, default, stored value);
  the form holds only what was edited, and saving sends what differs. What the server stores of it
  (\<open>set_php_ini\<close> in \<open>daemon/handlers_php_ini.py\<close>) is written out as \<open>apply_directives\<close>, so that
  saving can be compared with what the form shows. \<open>other\<close> reads the numbers a number field accepts
  beside plain decimals (exponents).
\<close>

section \<open>Descriptors and the form\<close>

definition LEGACY_NAMES :: "jsstring list" where
  "LEGACY_NAMES =
     [''memory_limit'', ''upload_max_filesize'', ''post_max_size'', ''max_execution_time'', ''display_errors'', ''error_reporting'']"

definition isLegacy :: "jsstring \<Rightarrow> bool" where
  "isLegacy n \<longleftrightarrow> n \<in> set LEGACY_NAMES"

definition ERROR_REPORTING_PRESETS :: "jsstring list" where
  "ERROR_REPORTING_PRESETS =
     [''E_ALL & ~E_DEPRECATED & ~E_STRICT'', ''E_ALL'', ''E_ALL & ~E_NOTICE'',
      ''E_ALL & ~E_NOTICE & ~E_WARNING & ~E_DEPRECATED'', ''E_ERROR'']"

definition dir_name :: "json \<Rightarrow> jsstring" where "dir_name d = js_String (jget d ''name'')"

definition dir_is :: "jsstring \<Rightarrow> json \<Rightarrow> bool" where "dir_is t d \<longleftrightarrow> jget d ''type'' = JStr t"

definition raw_value :: "json \<Rightarrow> json" where
  "raw_value d = (if nullish (jget d ''value'') then jget d ''default'' else jget d ''value'')"

definition serverValue :: "json \<Rightarrow> json" where
  "serverValue d =
     (if dir_is ''bool'' d then JBool (raw_value d = JBool True \<or> raw_value d = JStr ''On'') else JStr (js_String (raw_value d)))"

definition effective_directive :: "(jsstring \<times> json) list \<Rightarrow> json \<Rightarrow> json" where
  "effective_directive form d = (case map_of form (dir_name d) of Some v \<Rightarrow> v | None \<Rightarrow> serverValue d)"

definition overridden :: "json \<Rightarrow> bool" where
  "overridden d \<longleftrightarrow> \<not> nullish (jget d ''value'')"

definition dirty_directives :: "(jsstring \<times> json) list \<Rightarrow> json list \<Rightarrow> json list" where
  "dirty_directives form ds = filter (\<lambda>d. effective_directive form d \<noteq> serverValue d) ds"

text \<open>The value sent for a directive. \<open>NaN\<close>, which \<open>parseInt\<close> makes of a blank field, is
  \<open>null\<close> in the JSON that is sent.\<close>

definition parsed_value :: "(jsstring \<times> json) list \<Rightarrow> json \<Rightarrow> json" where
  "parsed_value form d =
     (let e = effective_directive form d
      in if dir_is ''int'' d then (case parseInt10 (js_String e) of Some n \<Rightarrow> JNum n | None \<Rightarrow> JNull) else e)"

definition rendered_value :: "(jsstring \<times> json) list \<Rightarrow> json \<Rightarrow> jsstring" where
  "rendered_value form d =
     (if dir_is ''bool'' d then (if truthy (parsed_value form d) then ''On'' else ''Off'')
      else if dir_is ''int'' d \<and> parsed_value form d = JNull then ''NaN''
      else js_String (parsed_value form d))"

definition sent_value :: "(jsstring \<times> json) list \<Rightarrow> json \<Rightarrow> json" where
  "sent_value form d =
     (if \<not> isLegacy (dir_name d) \<and> rendered_value form d = js_String (jget d ''default'') then JNull else parsed_value form d)"

definition settings_body :: "(jsstring \<times> json) list \<Rightarrow> json list \<Rightarrow> body" where
  "settings_body form ds = map (\<lambda>d. (dir_name d, sent_value form d)) (dirty_directives form ds)"

text \<open>A template overwrites the fields it names.\<close>

definition preset_form :: "json \<Rightarrow> (jsstring \<times> json) list \<Rightarrow> (jsstring \<times> json) list" where
  "preset_form preset form =
     map (\<lambda>(k, v). (k, JStr (js_String v))) (json_fields (jget preset ''directives'')) @ form"

definition find_preset :: "json \<Rightarrow> jsstring \<Rightarrow> json option" where
  "find_preset d i = List.find (\<lambda>p. jget p ''id'' = JStr i) (json_list (jget d ''limit_presets''))"

section \<open>What the server stores\<close>

definition stored_form :: "jsstring \<Rightarrow> json \<Rightarrow> json" where
  "stored_form n v =
     (if isLegacy n then v
      else case v of JNum k \<Rightarrow> JStr (show_int k) | JBool b \<Rightarrow> JStr (if b then ''On'' else ''Off'') | _ \<Rightarrow> v)"

text \<open>A change of one of the six older directives stores all six.\<close>

definition apply_directives :: "body \<Rightarrow> json list \<Rightarrow> json list" where
  "apply_directives b ds =
     map (\<lambda>d. case map_of b (dir_name d) of
                Some v \<Rightarrow> with_fields d [(''value'', stored_form (dir_name d) v)]
              | None \<Rightarrow> if isLegacy (dir_name d) \<and> list_ex (\<lambda>e. isLegacy (fst e)) b
                        then with_fields d [(''value'', raw_value d)] else d) ds"

section \<open>Saving\<close>

text \<open>The descriptors of the server: the defaults of the newer directives are texts. A form fits when
  its number fields hold integers in plain notation and the switches their state.\<close>

definition descriptor_ok :: "json \<Rightarrow> bool" where
  "descriptor_ok d \<longleftrightarrow> isLegacy (dir_name d) \<or> (\<exists>t. jget d ''default'' = JStr t)"

definition form_fits :: "(jsstring \<times> json) list \<Rightarrow> json \<Rightarrow> bool" where
  "form_fits form d \<longleftrightarrow>
     (case effective_directive form d of
        JBool b \<Rightarrow> dir_is ''bool'' d
      | JStr t \<Rightarrow> \<not> dir_is ''bool'' d \<and> (dir_is ''int'' d \<longrightarrow> (\<exists>n. t = show_int n))
      | _ \<Rightarrow> False)"

lemma map_of_body:
  assumes "distinct (map dir_name ds)" "d \<in> set ds"
  shows "map_of (settings_body form ds) (dir_name d) =
    (if effective_directive form d \<noteq> serverValue d then Some (sent_value form d) else None)"
proof -
  have inj: "inj_on dir_name (set ds)" using assms(1) by (simp add: distinct_map)
  let ?dirty = "dirty_directives form ds"
  have dirty: "d \<in> set ?dirty \<longleftrightarrow> effective_directive form d \<noteq> serverValue d"
    using assms(2) by (simp add: dirty_directives_def)
  have dist: "distinct (map fst (settings_body form ds))"
    using assms(1) by (simp add: settings_body_def dirty_directives_def comp_def distinct_map_filter)
  show ?thesis
  proof (cases "effective_directive form d = serverValue d")
    case True
    have "dir_name d \<notin> fst ` set (settings_body form ds)"
    proof
      assume "dir_name d \<in> fst ` set (settings_body form ds)"
      then obtain e where "e \<in> set ?dirty" "dir_name d = dir_name e" by (auto simp: settings_body_def)
      moreover from this(1) have "e \<in> set ds" by (simp add: dirty_directives_def)
      ultimately show False using dirty True inj_onD[OF inj] assms(2) by metis
    qed
    then show ?thesis using True by (simp add: map_of_eq_None_iff)
  next
    case False
    then have "(dir_name d, sent_value form d) \<in> set (settings_body form ds)"
      using dirty by (auto simp: settings_body_def)
    with dist False show ?thesis by simp
  qed
qed

lemma stored_value_shown:
  assumes "form_fits form d" "descriptor_ok d"
  shows "serverValue (with_fields d [(''value'', stored_form (dir_name d) (sent_value form d))]) = effective_directive form d"
proof -
  note defs = serverValue_def raw_value_def dir_is_def stored_form_def sent_value_def rendered_value_def parsed_value_def nullish_def Let_def
  show ?thesis
  proof (cases "effective_directive form d")
    case (JBool b)
    with assms show ?thesis
      by (cases b; cases "isLegacy (dir_name d)") (auto simp: form_fits_def descriptor_ok_def defs)
  next
    case (JStr t)
    with assms show ?thesis
      by (cases "isLegacy (dir_name d)"; cases "jget d ''type'' = JStr ''int''") (auto simp: form_fits_def descriptor_ok_def defs)
  qed (use assms(1) in \<open>simp_all add: form_fits_def\<close>)
qed

lemma untouched_value_shown: "serverValue (with_fields d [(''value'', raw_value d)]) = serverValue d"
  by (simp add: serverValue_def raw_value_def dir_is_def nullish_def)


definition sample_directives :: "json list" where
  "sample_directives =
     [JObj [(''name'', JStr ''max_execution_time''), (''type'', JStr ''int''), (''min'', JNum 1), (''max'', JNum 300), (''default'', JNum 30), (''value'', JNull)],
      JObj [(''name'', JStr ''max_input_time''), (''type'', JStr ''int''), (''min'', JNum (- 1)), (''max'', JNum 3600), (''default'', JStr ''60''), (''value'', JStr ''120'')],
      JObj [(''name'', JStr ''allow_url_fopen''), (''type'', JStr ''bool''), (''default'', JStr ''On''), (''value'', JNull)]]"

definition sample_form :: "(jsstring \<times> json) list" where
  "sample_form = [(''max_execution_time'', JStr ''120''), (''max_input_time'', JStr ''60''), (''allow_url_fopen'', JBool False)]"

lemma sample_fits: "list_all (form_fits sample_form) sample_directives"
proof -
  have "''120'' = show_int 120" "''60'' = show_int 60" by code_simp+
  then show ?thesis
    unfolding sample_directives_def sample_form_def form_fits_def effective_directive_def dir_is_def dir_name_def
    by (simp del: parse_shown; metis)
qed


section \<open>The settings card\<close>

record php_settings =
  ps_data :: json
  ps_form :: "(jsstring \<times> json) list"
  ps_preset :: jsstring
  ps_saving :: bool
  ps_resetOpen :: bool
  ps_resetting :: bool

definition initial_php :: php_settings where
  "initial_php = \<lparr>ps_data = JUndef, ps_form = [], ps_preset = ''custom'', ps_saving = False, ps_resetOpen = False, ps_resetting = False\<rparr>"

definition directives :: "php_settings \<Rightarrow> json list" where
  "directives s = json_list (jget (ps_data s) ''directives'')"

definition php_dirty :: "php_settings \<Rightarrow> json list" where
  "php_dirty s = dirty_directives (ps_form s) (directives s)"

definition anyOverride :: "php_settings \<Rightarrow> bool" where
  "anyOverride s \<longleftrightarrow> list_ex overridden (directives s)"

definition unsaved_text :: "php_settings \<Rightarrow> jsstring option" where
  "unsaved_text s =
     (let n = length (php_dirty s)
      in if n = 0 then None else Some (show_nat n @ '' unsaved '' @ (if n = 1 then ''change'' else ''changes'')))"

text \<open>What the browser lets a number field hold when the form is submitted: nothing, or a whole number within the bounds.\<close>

definition int_field_ok :: "(jsstring \<Rightarrow> rat option) \<Rightarrow> json \<Rightarrow> jsstring \<Rightarrow> bool" where
  "int_field_ok other d t \<longleftrightarrow>
     t = [] \<or>
     (case (jget d ''min'', jget d ''max'', js_Decimal other t) of
        (JNum lo, JNum hi, Some q) \<Rightarrow> q = of_int \<lfloor>q\<rfloor> \<and> of_int lo \<le> q \<and> q \<le> of_int hi
      | _ \<Rightarrow> False)"

definition error_options :: "jsstring \<Rightarrow> jsstring list" where
  "error_options shown = (if shown \<in> set ERROR_REPORTING_PRESETS then ERROR_REPORTING_PRESETS else shown # ERROR_REPORTING_PRESETS)"

text \<open>What the field of a directive can be changed to.\<close>

definition field_admits :: "php_settings \<Rightarrow> json \<Rightarrow> json \<Rightarrow> bool" where
  "field_admits s d v \<longleftrightarrow>
     (case v of
        JBool b \<Rightarrow> dir_is ''bool'' d
      | JStr t \<Rightarrow> \<not> dir_is ''bool'' d \<and>
          (dir_name d = ''error_reporting'' \<longrightarrow> t \<in> set (error_options (js_String (effective_directive (ps_form s) d))))
      | _ \<Rightarrow> False)"

datatype php_event =
    SettingsArrive json
  | ChooseTemplate jsstring
  | EditDirective json json
  | SubmitSettings
  | SettingsSaved
  | SettingsRefused jsstring
  | AskReset
  | CloseReset
  | ConfirmReset
  | ResetDone
  | ResetRefused jsstring

fun php_offered :: "(jsstring \<Rightarrow> rat option) \<Rightarrow> php_settings \<Rightarrow> php_event \<Rightarrow> bool" where
  "php_offered other s (SettingsArrive d) = True"
| "php_offered other s (ChooseTemplate i) =
     (\<not> ps_resetOpen s \<and> (i = ''custom'' \<or> find_preset (ps_data s) i \<noteq> None))"
| "php_offered other s (EditDirective d v) = (\<not> ps_resetOpen s \<and> d \<in> set (directives s) \<and> field_admits s d v)"
| "php_offered other s SubmitSettings =
     (\<not> ps_resetOpen s \<and> \<not> ps_saving s \<and> php_dirty s \<noteq> [] \<and>
      list_all (\<lambda>d. dir_is ''int'' d \<longrightarrow> int_field_ok other d (js_String (effective_directive (ps_form s) d))) (directives s))"
| "php_offered other s SettingsSaved = ps_saving s"
| "php_offered other s (SettingsRefused e) = ps_saving s"
| "php_offered other s AskReset = (\<not> ps_resetOpen s \<and> anyOverride s)"
| "php_offered other s CloseReset = (ps_resetOpen s \<and> \<not> ps_resetting s)"
| "php_offered other s ConfirmReset = (ps_resetOpen s \<and> \<not> ps_resetting s)"
| "php_offered other s ResetDone = ps_resetting s"
| "php_offered other s (ResetRefused e) = ps_resetting s"

definition php_url :: "jsstring \<Rightarrow> jsstring" where
  "php_url u = ''/api/v1/accounts/'' @ u @ ''/php-ini''"

text \<open>The arrival of other data clears the form.\<close>

fun php_step :: "jsstring \<Rightarrow> (php_event, php_settings) page_step" where
  "php_step u (SettingsArrive d) s = (s\<lparr>ps_data := d, ps_form := [], ps_preset := ''custom''\<rparr>, [], [])"
| "php_step u (ChooseTemplate i) s =
     (s\<lparr>ps_preset := i, ps_form := (case find_preset (ps_data s) i of Some p \<Rightarrow> preset_form p (ps_form s) | None \<Rightarrow> ps_form s)\<rparr>, [], [])"
| "php_step u (EditDirective d v) s = (s\<lparr>ps_preset := ''custom'', ps_form := (dir_name d, v) # ps_form s\<rparr>, [], [])"
| "php_step u SubmitSettings s =
     (s\<lparr>ps_saving := True\<rparr>, [ApiPatch (php_url u) [(''directives'', JObj (settings_body (ps_form s) (directives s)))]], [])"
| "php_step u SettingsSaved s =
     (s\<lparr>ps_saving := False\<rparr>, [],
      [Toast Success ''PHP settings saved'' (''Changes apply within a few seconds '' @ [em_dash] @ '' PHP workers restart automatically.''),
       Invalidate [''php-ini'', u]])"
| "php_step u (SettingsRefused e) s = (s\<lparr>ps_saving := False\<rparr>, [], [Toast ErrorTone ''Could not save PHP settings'' e])"
| "php_step u AskReset s = (s\<lparr>ps_resetOpen := True\<rparr>, [], [])"
| "php_step u CloseReset s = (s\<lparr>ps_resetOpen := False\<rparr>, [], [])"
| "php_step u ConfirmReset s = (s\<lparr>ps_resetting := True\<rparr>, [ApiDelete (php_url u)], [])"
| "php_step u ResetDone s =
     (s\<lparr>ps_resetting := False, ps_resetOpen := False\<rparr>, [],
      [Toast Success ''PHP settings reset'' ''All values are back to the server defaults.'', Invalidate [''php-ini'', u]])"
| "php_step u (ResetRefused e) s =
     (s\<lparr>ps_resetting := False, ps_resetOpen := False\<rparr>, [], [Toast ErrorTone ''Could not reset PHP settings'' e])"

text \<open>A save always changes something, and a reset is only sent where something is overridden and no
  other reset is under way.\<close>

definition php_request_ok :: "jsstring \<Rightarrow> api_request \<Rightarrow> bool" where
  "php_request_ok u r \<longleftrightarrow>
     (case r of
        ApiPatch url b \<Rightarrow> url = php_url u \<and> (\<exists>ds. ds \<noteq> [] \<and> b = [(''directives'', JObj ds)])
      | ApiDelete url \<Rightarrow> url = php_url u
      | _ \<Rightarrow> False)"

interpretation php: page_contract initial_php "php_offered other" "php_step u" "\<lambda>s. ps_resetting s \<longrightarrow> ps_resetOpen s" "php_request_ok u"
  for other u
proof unfold_locales
  fix s e
  assume "ps_resetting s \<longrightarrow> ps_resetOpen s" "php_offered other s e"
  then show "ps_resetting (fst (php_step u e s)) \<longrightarrow> ps_resetOpen (fst (php_step u e s))" by (cases e) auto
next
  fix s e
  assume "ps_resetting s \<longrightarrow> ps_resetOpen s" "php_offered other s e"
  then show "list_all (php_request_ok u) (fst (snd (php_step u e s)))"
    by (cases e) (auto simp: php_request_ok_def settings_body_def php_dirty_def)
qed (simp add: initial_php_def)

lemma php_requests_change_something:
  assumes "page_reach initial_php (php_offered other) (php_step u) s sent"
  shows "list_all (php_request_ok u) sent"
  using php.reach_inv[OF assms] by blast

text \<open>A field of the newer directives that is left blank passes the browser's check, and clears what is stored.\<close>

lemma blank_field_unsets:
  assumes "dir_is ''int'' d" "effective_directive form d = JStr []"
  shows "int_field_ok other d [] \<and> sent_value form d = JNull"
  using assms by (simp add: int_field_ok_def sent_value_def parsed_value_def parseInt10_def trimStart_def startsWith_def)

text \<open>A number field also accepts exponents; what is sent is the mantissa.\<close>

definition time_directive :: json where
  "time_directive = JObj [(''name'', JStr ''max_execution_time''), (''type'', JStr ''int''), (''min'', JNum 1), (''max'', JNum 300), (''default'', JNum 30), (''value'', JNull)]"

lemma exponent_sent_as_mantissa:
  assumes "other ''1e2'' = Some 100"
  shows "int_field_ok other time_directive ''1e2'' \<and>
    settings_body [(''max_execution_time'', JStr ''1e2'')] [time_directive] = [(''max_execution_time'', JNum 1)]"
proof
  have "js_Decimal other ''1e2'' = Some 100"
  proof -
    have "trim ''1e2'' = ''1e2''" "decimal_literal ''1e2'' = None" by code_simp+
    then show ?thesis using assms by (simp add: js_Decimal_def)
  qed
  then show "int_field_ok other time_directive ''1e2''" by (simp add: int_field_ok_def time_directive_def)
  show "settings_body [(''max_execution_time'', JStr ''1e2'')] [time_directive] = [(''max_execution_time'', JNum 1)]" by code_simp
qed

text \<open>The fields stay enabled while a save is awaited; what is typed there is dropped when the saved settings arrive.\<close>

lemma edit_during_save_lost:
  assumes "ps_saving s" "\<not> ps_resetOpen s" "d \<in> set (directives s)" "field_admits s d v"
  shows "php_offered other s (EditDirective d v) \<and>
    ps_form (fst (php_step u (SettingsArrive new) (fst (php_step u SettingsSaved (fst (php_step u (EditDirective d v) s)))))) = []"
  using assms by simp

section \<open>Extensions\<close>

text \<open>The default order of \<open>sort\<close> on texts: by code units.\<close>

fun text_less :: "jsstring \<Rightarrow> jsstring \<Rightarrow> bool" where
  "text_less a [] = False"
| "text_less [] (y # ys) = True"
| "text_less (x # xs) (y # ys) = (code x < code y \<or> x = y \<and> text_less xs ys)"

definition text_cmp :: "jsstring \<Rightarrow> jsstring \<Rightarrow> int" where
  "text_cmp a b = (if text_less a b then - 1 else if a = b then 0 else 1)"

record extensions_card =
  xc_data :: json
  xc_setting :: "jsstring list option"
  xc_resetOpen :: bool
  xc_resetting :: bool

definition enabled_names :: "extensions_card \<Rightarrow> jsstring list" where
  "enabled_names s = remdups (map js_String (json_list (jget (xc_data s) ''enabled'')))"

definition toggled_names :: "jsstring \<Rightarrow> bool \<Rightarrow> extensions_card \<Rightarrow> jsstring list" where
  "toggled_names n on s =
     js_sort text_cmp
       (if on then (if n \<in> set (enabled_names s) then enabled_names s else enabled_names s @ [n])
        else filter (\<lambda>x. x \<noteq> n) (enabled_names s))"

definition extension_rows :: "extensions_card \<Rightarrow> json list" where
  "extension_rows s = json_list (jget (xc_data s) ''extensions'')"

datatype extension_event =
    ExtensionsArrive json
  | ToggleExtension jsstring bool
  | ExtensionsSet
  | ExtensionsRefused jsstring
  | AskExtensionReset
  | CloseExtensionReset
  | ConfirmExtensionReset
  | ExtensionsReset
  | ExtensionResetRefused jsstring

fun extensions_offered :: "extensions_card \<Rightarrow> extension_event \<Rightarrow> bool" where
  "extensions_offered s (ExtensionsArrive d) = True"
| "extensions_offered s (ToggleExtension n on) =
     (\<not> xc_resetOpen s \<and> xc_setting s = None \<and>
      list_ex (\<lambda>e. js_String (jget e ''name'') = n \<and> truthy (jget e ''enabled'') = (\<not> on)) (extension_rows s))"
| "extensions_offered s ExtensionsSet = (xc_setting s \<noteq> None)"
| "extensions_offered s (ExtensionsRefused e) = (xc_setting s \<noteq> None)"
| "extensions_offered s AskExtensionReset = (\<not> xc_resetOpen s \<and> truthy (jget (xc_data s) ''overridden''))"
| "extensions_offered s CloseExtensionReset = (xc_resetOpen s \<and> \<not> xc_resetting s)"
| "extensions_offered s ConfirmExtensionReset = (xc_resetOpen s \<and> \<not> xc_resetting s)"
| "extensions_offered s ExtensionsReset = xc_resetting s"
| "extensions_offered s (ExtensionResetRefused e) = xc_resetting s"

definition extensions_url :: "jsstring \<Rightarrow> jsstring" where
  "extensions_url u = ''/api/v1/accounts/'' @ u @ ''/php-extensions''"

fun extensions_step :: "jsstring \<Rightarrow> (extension_event, extensions_card) page_step" where
  "extensions_step u (ExtensionsArrive d) s = (s\<lparr>xc_data := d\<rparr>, [], [])"
| "extensions_step u (ToggleExtension n on) s =
     (s\<lparr>xc_setting := Some (toggled_names n on s)\<rparr>,
      [ApiPut (extensions_url u) [(''enabled'', JArr (map JStr (toggled_names n on s)))]], [])"
| "extensions_step u ExtensionsSet s =
     (let n = (case xc_setting s of Some l \<Rightarrow> length l | None \<Rightarrow> 0)
      in (s\<lparr>xc_setting := None\<rparr>, [],
          [Toast Success ''Extensions updated''
             (show_nat n @ '' extension'' @ (if n = 1 then [] else ''s'') @ '' enabled. PHP workers restart automatically.''),
           Invalidate [''php-extensions'', u]]))"
| "extensions_step u (ExtensionsRefused e) s =
     (s\<lparr>xc_setting := None\<rparr>, [], [Toast ErrorTone ''Could not update extensions'' e, Invalidate [''php-extensions'', u]])"
| "extensions_step u AskExtensionReset s = (s\<lparr>xc_resetOpen := True\<rparr>, [], [])"
| "extensions_step u CloseExtensionReset s = (s\<lparr>xc_resetOpen := False\<rparr>, [], [])"
| "extensions_step u ConfirmExtensionReset s = (s\<lparr>xc_resetting := True\<rparr>, [ApiDelete (extensions_url u)], [])"
| "extensions_step u ExtensionsReset s =
     (s\<lparr>xc_resetting := False, xc_resetOpen := False\<rparr>, [],
      [Toast Success ''Extensions reset'' ''Back to the server default selection.'', Invalidate [''php-extensions'', u]])"
| "extensions_step u (ExtensionResetRefused e) s =
     (s\<lparr>xc_resetting := False, xc_resetOpen := False\<rparr>, [], [Toast ErrorTone ''Could not reset extensions'' e])"

text \<open>A switch sends the known selection with its own extension added or removed, each name once.\<close>

lemma toggled_set: "set (toggled_names n on s) = (if on then insert n (set (enabled_names s)) else set (enabled_names s) - {n})"
  by (auto simp: toggled_names_def)

lemma toggled_distinct: "distinct (toggled_names n on s)"
proof -
  have "distinct (if on then (if n \<in> set (enabled_names s) then enabled_names s else enabled_names s @ [n])
        else filter (\<lambda>x. x \<noteq> n) (enabled_names s))"
    by (auto simp: enabled_names_def)
  then show ?thesis unfolding toggled_names_def by (metis mset_eq_imp_distinct_iff mset_js_sort)
qed

text \<open>The switches are enabled again as soon as a change is answered, before the selection is read
  again; a second change sent then takes the first one back.\<close>

lemma second_toggle_reverts:
  assumes "xc_setting s = None" "n \<notin> set (enabled_names s)" "n \<noteq> m"
    "s1 = fst (extensions_step u ExtensionsSet (fst (extensions_step u (ToggleExtension n True) s)))"
  shows "s1 = s \<and> n \<notin> set (toggled_names m on s1)"
proof -
  have "s1 = s" using assms(1,4) by (simp add: Let_def)
  with assms(2,3) show ?thesis by (auto simp: toggled_set)
qed

section \<open>Versions\<close>

definition lifecycle_of :: "json \<Rightarrow> json \<Rightarrow> json" where
  "lifecycle_of runtime v =
     (case List.find (\<lambda>i. js_String (jget i ''version'') = js_String v) (rev (json_list (jget runtime ''php_lifecycle''))) of
        Some i \<Rightarrow> i | None \<Rightarrow> JUndef)"

definition version_options :: "json \<Rightarrow> json list" where
  "version_options runtime =
     (case jget runtime ''php_versions'' of JArr vs \<Rightarrow> vs | _ \<Rightarrow> map JStr PHP_VERSIONS)"

definition version_text :: "json \<Rightarrow> json \<Rightarrow> jsstring" where
  "version_text runtime v =
     (let l = lifecycle_of runtime v
      in ''PHP '' @ js_String v @
         (if truthy (jget l ''is_eol'') then '' '' @ [em_dash] @ '' EOL '' @ js_String (jget l ''eol_date'')
          else if truthy (jget l ''eol_date'') then '' '' @ [em_dash] @ '' supported to '' @ js_String (jget l ''eol_date'') else []))"

definition currentLifecycle :: "json \<Rightarrow> json \<Rightarrow> json" where
  "currentLifecycle runtime account =
     js_or (lifecycle_of runtime (jget account ''php_version'')) (jget runtime ''current_php_lifecycle'')"

record default_version =
  dv_account :: json
  dv_version :: json
  dv_pending :: bool

datatype version_change = AccountArrives json | PickVersion json | ChangeVersion | VersionChanged | VersionFails jsstring

fun default_offered :: "json \<Rightarrow> default_version \<Rightarrow> version_change \<Rightarrow> bool" where
  "default_offered runtime s (AccountArrives a) = True"
| "default_offered runtime s (PickVersion v) = (v \<in> set (version_options runtime))"
| "default_offered runtime s ChangeVersion =
     (\<not> dv_pending s \<and> truthy (dv_version s) \<and> dv_version s \<noteq> jget (dv_account s) ''php_version'')"
| "default_offered runtime s VersionChanged = dv_pending s"
| "default_offered runtime s (VersionFails e) = dv_pending s"

text \<open>The selection follows the account's version whenever that changes.\<close>

fun default_step :: "jsstring \<Rightarrow> (version_change, default_version) page_step" where
  "default_step u (AccountArrives a) s =
     (let v = jget a ''php_version''
      in (s\<lparr>dv_account := a, dv_version := (if v \<noteq> jget (dv_account s) ''php_version'' \<and> truthy v then v else dv_version s)\<rparr>, [], []))"
| "default_step u (PickVersion v) s = (s\<lparr>dv_version := v\<rparr>, [], [])"
| "default_step u ChangeVersion s =
     (s\<lparr>dv_pending := True\<rparr>, [ApiPatch (''/api/v1/accounts/'' @ u @ ''/php-version'') [(''php_version'', dv_version s)]], [])"
| "default_step u VersionChanged s =
     (s\<lparr>dv_pending := False\<rparr>, [],
      [Toast Success ''PHP version updated'' (''Sites using the account default now run PHP '' @ js_String (dv_version s) @ ''.''),
       Invalidate [''account'', u]])"
| "default_step u (VersionFails e) s = (s\<lparr>dv_pending := False\<rparr>, [], [Toast ErrorTone ''Could not change PHP version'' e])"

text \<open>The success message names the selection at that time, not the version that was sent.\<close>

lemma later_pick_announced:
  assumes "dv_pending s" "v \<in> set (version_options runtime)"
  shows "default_offered runtime s (PickVersion v) \<and>
    (\<exists>rest. snd (snd (default_step u VersionChanged (fst (default_step u (PickVersion v) s)))) =
       Toast Success ''PHP version updated'' (''Sites using the account default now run PHP '' @ js_String v @ ''.'') # rest)"
  using assms by simp

text \<open>The row of a site: the empty choice follows the account.\<close>

definition site_choice :: "json \<Rightarrow> json" where
  "site_choice site = js_or (jget site ''php_version'') (JStr [])"

definition site_save_disabled :: "json \<Rightarrow> json \<Rightarrow> bool" where
  "site_save_disabled site version \<longleftrightarrow> version = site_choice site"

definition site_request :: "jsstring \<Rightarrow> json \<Rightarrow> json \<Rightarrow> api_request" where
  "site_request u site version =
     ApiPatch (''/api/v1/accounts/'' @ u @ ''/domains/'' @ encodeURIComponent (js_String (jget site ''domain'')) @ ''/php-version'')
       [(''php_version'', js_or version JNull)]"

definition site_effective :: "json \<Rightarrow> json \<Rightarrow> json" where
  "site_effective site own = js_or (jget site ''php_version'') own"

definition site_status :: "json \<Rightarrow> json \<Rightarrow> json \<Rightarrow> jsstring" where
  "site_status runtime site own =
     (let v = site_effective site own; l = lifecycle_of runtime v
      in ''Currently PHP '' @ (if truthy v then js_String v else [ellipsis]) @ '' '' @ [CHR 0xB7] @ '' '' @
         (if truthy (jget site ''php_version'') then ''Site override'' else ''Account default'') @
         (if truthy (jget l ''is_eol'') then '' '' @ [CHR 0xB7] @ '' EOL since '' @ js_String (jget l ''eol_date'') else []))"

section \<open>The effective configuration\<close>

definition config_labels :: "(jsstring \<times> jsstring) list" where
  "config_labels =
     [(''open_basedir'', ''Open basedir''), (''disable_functions'', ''Disabled functions''), (''upload_tmp_dir'', ''Upload temp directory''),
      (''upload_max_filesize'', ''Upload limit''), (''session.save_path'', ''Session directory''), (''error_log'', ''Error log'')]"

definition effective_url :: "jsstring \<Rightarrow> json \<Rightarrow> jsstring" where
  "effective_url u d = php_url u @ ''/effective/'' @ encodeURIComponent (js_String d)"

definition effective_rows :: "json \<Rightarrow> (jsstring \<times> jsstring) list" where
  "effective_rows d =
     (''PHP version'', js_String (js_or (jget d ''php_version'') (JStr ''n/a''))) #
     map (\<lambda>(n, v). (or_string (map_of config_labels n) n, js_String (js_or v (JStr ''Not set in the rendered vhost''))))
       (json_fields (jget d ''values''))"

end
