(* ===== verification/Cloudflare_Page.thy ===== *)
theory Cloudflare_Page
  imports Page_Machine Format
begin

text \<open>
  \<open>pages/admin/Cloudflare.jsx\<close>: the pool of Cloudflare accounts, the checks before proxying, the
  zones with their purge and migration, and the settings with the lockdown of the firewall. The
  lockdown asks a second time when the server says that sites would become unreachable; that
  protocol is stated as a specification of its own and the card is shown to implement it.
\<close>

section \<open>The account pool\<close>

record pool_form =
  pf_name :: jsstring
  pf_token :: jsstring
  pf_account :: jsstring
  pf_max :: jsstring

definition EMPTY_ADD :: pool_form where
  "EMPTY_ADD = \<lparr>pf_name = [], pf_token = [], pf_account = [], pf_max = ''800''\<rparr>"

record pool_tab =
  po_data :: json
  po_addOpen :: bool
  po_form :: pool_form
  po_adding :: bool
  po_edit :: "json option"
  po_edit_max :: jsstring
  po_edit_active :: bool
  po_setting :: bool
  po_testing :: "json option"
  po_delete :: "json option"
  po_deleting :: bool

definition initial_pool :: pool_tab where
  "initial_pool =
     \<lparr>po_data = JUndef, po_addOpen = False, po_form = EMPTY_ADD, po_adding = False, po_edit = None, po_edit_max = [],
      po_edit_active = True, po_setting = False, po_testing = None, po_delete = None, po_deleting = False\<rparr>"

definition pool_rows :: "pool_tab \<Rightarrow> json list" where
  "pool_rows s = json_list (jget (po_data s) ''accounts'')"

text \<open>A number field with \<open>min="1"\<close>: nothing, or a whole number from 1.\<close>

definition max_field_ok :: "(jsstring \<Rightarrow> json) \<Rightarrow> jsstring \<Rightarrow> bool" where
  "max_field_ok nonint t \<longleftrightarrow> t = [] \<or> (case js_Number nonint t of JNum n \<Rightarrow> 1 \<le> n | _ \<Rightarrow> False)"

definition max_zones :: "(jsstring \<Rightarrow> json) \<Rightarrow> jsstring \<Rightarrow> json" where
  "max_zones nonint t = js_or (js_Number nonint t) (JNum 800)"

definition add_body :: "(jsstring \<Rightarrow> json) \<Rightarrow> pool_form \<Rightarrow> body" where
  "add_body nonint f =
     [(''name'', JStr (trim (pf_name f))), (''api_token'', JStr (pf_token f)), (''account_id'', JStr (trim (pf_account f))),
      (''max_zones'', max_zones nonint (pf_max f))]"

definition pool_url :: "json \<Rightarrow> jsstring" where
  "pool_url row = ''/api/v1/cloudflare/accounts/'' @ js_String (jget row ''id'')"

datatype pool_event =
    PoolArrives json
  | OpenAdd
  | CloseAdd
  | TypeAdd pool_form
  | SubmitAdd
  | AddDone
  | AddFails jsstring
  | OpenEdit json
  | CloseEdit
  | TypeMax jsstring
  | SwitchActive bool
  | SubmitEdit
  | EditDone
  | EditFails jsstring
  | TestAccount json
  | TestAnswered json
  | TestFails jsstring
  | AskDelete json
  | CancelDelete
  | ConfirmDelete
  | DeleteDone
  | DeleteFails jsstring

definition no_pool_dialog :: "pool_tab \<Rightarrow> bool" where
  "no_pool_dialog s \<longleftrightarrow> \<not> po_addOpen s \<and> po_edit s = None \<and> po_delete s = None"

fun pool_offered :: "(jsstring \<Rightarrow> json) \<Rightarrow> pool_tab \<Rightarrow> pool_event \<Rightarrow> bool" where
  "pool_offered nonint s (PoolArrives d) = True"
| "pool_offered nonint s OpenAdd = no_pool_dialog s"
| "pool_offered nonint s CloseAdd = po_addOpen s"
| "pool_offered nonint s (TypeAdd f) = po_addOpen s"
| "pool_offered nonint s SubmitAdd =
     (po_addOpen s \<and> \<not> po_adding s \<and> pf_name (po_form s) \<noteq> [] \<and> pf_token (po_form s) \<noteq> [] \<and> pf_account (po_form s) \<noteq> [] \<and>
      max_field_ok nonint (pf_max (po_form s)))"
| "pool_offered nonint s AddDone = po_adding s"
| "pool_offered nonint s (AddFails e) = po_adding s"
| "pool_offered nonint s (OpenEdit row) = (no_pool_dialog s \<and> row \<in> set (pool_rows s))"
| "pool_offered nonint s CloseEdit = (po_edit s \<noteq> None)"
| "pool_offered nonint s (TypeMax t) = (po_edit s \<noteq> None)"
| "pool_offered nonint s (SwitchActive b) = (po_edit s \<noteq> None)"
| "pool_offered nonint s SubmitEdit = (po_edit s \<noteq> None \<and> \<not> po_setting s \<and> max_field_ok nonint (po_edit_max s))"
| "pool_offered nonint s EditDone = po_setting s"
| "pool_offered nonint s (EditFails e) = po_setting s"
| "pool_offered nonint s (TestAccount row) =
     (no_pool_dialog s \<and> row \<in> set (pool_rows s) \<and> po_testing s \<noteq> Some (jget row ''id''))"
| "pool_offered nonint s (TestAnswered r) = (po_testing s \<noteq> None)"
| "pool_offered nonint s (TestFails e) = (po_testing s \<noteq> None)"
| "pool_offered nonint s (AskDelete row) = (no_pool_dialog s \<and> row \<in> set (pool_rows s))"
| "pool_offered nonint s CancelDelete = (po_delete s \<noteq> None \<and> \<not> po_deleting s)"
| "pool_offered nonint s ConfirmDelete = (po_delete s \<noteq> None \<and> \<not> po_deleting s)"
| "pool_offered nonint s DeleteDone = po_deleting s"
| "pool_offered nonint s (DeleteFails e) = po_deleting s"

definition yes_no :: "json \<Rightarrow> jsstring" where
  "yes_no v = (if truthy v then ''yes'' else ''no'')"

definition test_toast :: "json \<Rightarrow> page_effect" where
  "test_toast r =
     (if truthy (jget r ''error'') then Toast ErrorTone ''Token test failed'' (js_String (jget r ''error''))
      else Toast Success (if truthy (jget r ''ok'') then ''Token is valid'' else ''Token test completed'')
             (''Token valid: '' @ yes_no (jget r ''token_valid'') @ '' '' @ [CHR 0xB7] @ '' API reachable: '' @ yes_no (jget r ''api_ok'') @
              (if nullish (jget r ''live_zone_count'') then []
               else '' '' @ [CHR 0xB7] @ '' live zones: '' @ js_String (jget r ''live_zone_count''))))"

fun pool_step :: "(jsstring \<Rightarrow> json) \<Rightarrow> (pool_event, pool_tab) page_step" where
  "pool_step nonint (PoolArrives d) s = (s\<lparr>po_data := d\<rparr>, [], [])"
| "pool_step nonint OpenAdd s = (s\<lparr>po_form := EMPTY_ADD, po_addOpen := True\<rparr>, [], [])"
| "pool_step nonint CloseAdd s = (s\<lparr>po_addOpen := False\<rparr>, [], [])"
| "pool_step nonint (TypeAdd f) s = (s\<lparr>po_form := f\<rparr>, [], [])"
| "pool_step nonint SubmitAdd s =
     (s\<lparr>po_adding := True\<rparr>, [ApiPost ''/api/v1/cloudflare/accounts'' (add_body nonint (po_form s))], [])"
| "pool_step nonint AddDone s =
     (s\<lparr>po_adding := False, po_addOpen := False, po_form := EMPTY_ADD\<rparr>, [],
      [Toast Success ''Cloudflare account added'' [], Invalidate [''cf-accounts'']])"
| "pool_step nonint (AddFails e) s = (s\<lparr>po_adding := False\<rparr>, [], [Toast ErrorTone ''Could not add account'' e])"
| "pool_step nonint (OpenEdit row) s =
     (s\<lparr>po_edit := Some row, po_edit_max := js_String (jget row ''max_zones''), po_edit_active := truthy (jget row ''active'')\<rparr>, [], [])"
| "pool_step nonint CloseEdit s = (s\<lparr>po_edit := None\<rparr>, [], [])"
| "pool_step nonint (TypeMax t) s = (s\<lparr>po_edit_max := t\<rparr>, [], [])"
| "pool_step nonint (SwitchActive b) s = (s\<lparr>po_edit_active := b\<rparr>, [], [])"
| "pool_step nonint SubmitEdit s =
     (case po_edit s of
        None \<Rightarrow> (s, [], [])
      | Some row \<Rightarrow>
          (s\<lparr>po_setting := True\<rparr>,
           [ApiPatch (pool_url row) [(''max_zones'', max_zones nonint (po_edit_max s)), (''active'', JBool (po_edit_active s))]], []))"
| "pool_step nonint EditDone s =
     (s\<lparr>po_setting := False, po_edit := None\<rparr>, [], [Toast Success ''Account updated'' [], Invalidate [''cf-accounts'']])"
| "pool_step nonint (EditFails e) s = (s\<lparr>po_setting := False\<rparr>, [], [Toast ErrorTone ''Could not update account'' e])"
| "pool_step nonint (TestAccount row) s = (s\<lparr>po_testing := Some (jget row ''id'')\<rparr>, [ApiPost (pool_url row @ ''/test'') []], [])"
| "pool_step nonint (TestAnswered r) s = (s\<lparr>po_testing := None\<rparr>, [], [test_toast r])"
| "pool_step nonint (TestFails e) s = (s\<lparr>po_testing := None\<rparr>, [], [Toast ErrorTone ''Token test failed'' e])"
| "pool_step nonint (AskDelete row) s = (s\<lparr>po_delete := Some row\<rparr>, [], [])"
| "pool_step nonint CancelDelete s = (s\<lparr>po_delete := None\<rparr>, [], [])"
| "pool_step nonint ConfirmDelete s =
     (case po_delete s of None \<Rightarrow> (s, [], []) | Some row \<Rightarrow> (s\<lparr>po_deleting := True\<rparr>, [ApiDelete (pool_url row)], []))"
| "pool_step nonint DeleteDone s =
     (s\<lparr>po_deleting := False, po_delete := None\<rparr>, [], [Toast Success ''Account deleted'' [], Invalidate [''cf-accounts'']])"
| "pool_step nonint (DeleteFails e) s =
     (s\<lparr>po_deleting := False, po_delete := None\<rparr>, [], [Toast ErrorTone ''Could not delete account'' e])"

definition capacity_ok :: "json \<Rightarrow> bool" where
  "capacity_ok v \<longleftrightarrow> (\<exists>n \<ge> 1. v = JNum n)"

definition pool_request_ok :: "api_request \<Rightarrow> bool" where
  "pool_request_ok r \<longleftrightarrow>
     (case r of
        ApiPost url b \<Rightarrow> url = ''/api/v1/cloudflare/accounts'' \<and>
            (\<exists>n k a m. b = [(''name'', JStr n), (''api_token'', JStr k), (''account_id'', JStr a), (''max_zones'', m)] \<and>
               trim n = n \<and> k \<noteq> [] \<and> trim a = a \<and> capacity_ok m) \<or>
            startsWith url ''/api/v1/cloudflare/accounts/'' \<and> b = []
      | ApiPatch url b \<Rightarrow> startsWith url ''/api/v1/cloudflare/accounts/'' \<and> (\<exists>m on. b = [(''max_zones'', m), (''active'', JBool on)] \<and> capacity_ok m)
      | ApiDelete url \<Rightarrow> startsWith url ''/api/v1/cloudflare/accounts/''
      | _ \<Rightarrow> False)"

lemma capacity_sent: "max_field_ok nonint t \<Longrightarrow> capacity_ok (max_zones nonint t)"
proof (cases "t = []")
  case True
  then show ?thesis by (simp add: capacity_ok_def max_zones_def js_Number_def js_or_def)
next
  case False
  assume "max_field_ok nonint t"
  with False obtain n where "js_Number nonint t = JNum n" "1 \<le> n" by (auto simp: max_field_ok_def split: json.splits)
  then show ?thesis by (simp add: capacity_ok_def max_zones_def js_or_def)
qed

lemma pool_urls: "startsWith (pool_url row) ''/api/v1/cloudflare/accounts/''"
  "startsWith (pool_url row @ ''/test'') ''/api/v1/cloudflare/accounts/''"
  unfolding pool_url_def append_assoc by (rule startsWith_append)+

interpretation pool: page_contract initial_pool "pool_offered nonint" "pool_step nonint" "\<lambda>s. po_deleting s \<longrightarrow> po_delete s \<noteq> None" pool_request_ok
  for nonint
proof unfold_locales
  fix s e
  assume "po_deleting s \<longrightarrow> po_delete s \<noteq> None" "pool_offered nonint s e"
  then show "po_deleting (fst (pool_step nonint e s)) \<longrightarrow> po_delete (fst (pool_step nonint e s)) \<noteq> None"
    by (cases e) (auto simp: no_pool_dialog_def split: option.splits)
next
  fix s e
  assume "po_deleting s \<longrightarrow> po_delete s \<noteq> None" "pool_offered nonint s e"
  then show "list_all pool_request_ok (fst (snd (pool_step nonint e s)))"
    by (cases e) (auto simp: pool_request_ok_def pool_urls add_body_def capacity_sent split: option.splits)
qed (simp add: initial_pool_def)

lemma pool_requests_valid:
  assumes "page_reach initial_pool (pool_offered nonint) (pool_step nonint) s sent"
  shows "list_all pool_request_ok sent"
  using pool.reach_inv[OF assms] by blast

text \<open>Closing a form does not stop the request that was sent from it: its answer closes and clears the
  form that is open then.\<close>

lemma late_answer_clears_form:
  assumes "po_adding s" "po_addOpen s"
    "s2 = fst (pool_step (\<lambda>_. JNull) (TypeAdd f) (fst (pool_step (\<lambda>_. JNull) OpenAdd (fst (pool_step (\<lambda>_. JNull) CloseAdd s)))))"
  shows "po_form s2 = f \<and> pool_offered nonint s2 AddDone \<and>
    po_form (fst (pool_step nonint AddDone s2)) = EMPTY_ADD \<and> \<not> po_addOpen (fst (pool_step nonint AddDone s2))"
  using assms by simp

text \<open>The cells of the list.\<close>

definition zones_cell :: "json \<Rightarrow> jsstring" where
  "zones_cell r = js_String (jget r ''zone_count'') @ ''/'' @ js_String (jget r ''max_zones'')"

definition active_cell :: "json \<Rightarrow> jsstring" where
  "active_cell r = (if truthy (jget r ''active'') then ''Active'' else ''Inactive'')"

section \<open>The lockdown\<close>

datatype lock_kind = EnableLock | ForceLock | DisableLock

record lock_card =
  lk_data :: json
  lk_confirm :: bool
  lk_force :: bool
  lk_sending :: "lock_kind option"
  lk_auto :: bool

definition initial_lock :: lock_card where
  "initial_lock = \<lparr>lk_data = JUndef, lk_confirm = False, lk_force = False, lk_sending = None, lk_auto = False\<rparr>"

definition lockdownEnabled :: "lock_card \<Rightarrow> bool" where
  "lockdownEnabled s \<longleftrightarrow> truthy (jget (lk_data s) ''lockdown_enabled'')"

fun lock_body :: "lock_kind \<Rightarrow> body" where
  "lock_body EnableLock = [(''enabled'', JBool True), (''confirm'', JBool True)]"
| "lock_body ForceLock = [(''enabled'', JBool True), (''confirm'', JBool True), (''force'', JBool True)]"
| "lock_body DisableLock = [(''enabled'', JBool False)]"

definition lock_request :: "lock_kind \<Rightarrow> api_request" where
  "lock_request k = ApiPatch ''/api/v1/cloudflare/lockdown'' (lock_body k)"

datatype lock_event =
    CfSettingsArrive json
  | SwitchLock
  | CloseConfirm
  | ConfirmLock
  | CloseForce
  | ConfirmForce
  | LockDone
  | LockFails jsstring
  | SwitchAuto
  | AutoDone bool
  | AutoFails jsstring

fun lock_offered :: "lock_card \<Rightarrow> lock_event \<Rightarrow> bool" where
  "lock_offered s (CfSettingsArrive d) = True"
| "lock_offered s SwitchLock = (lk_sending s = None \<and> \<not> lk_confirm s \<and> \<not> lk_force s)"
| "lock_offered s CloseConfirm = (lk_confirm s \<and> lk_sending s = None)"
| "lock_offered s ConfirmLock = (lk_confirm s \<and> lk_sending s = None)"
| "lock_offered s CloseForce = (lk_force s \<and> lk_sending s = None)"
| "lock_offered s ConfirmForce = (lk_force s \<and> lk_sending s = None)"
| "lock_offered s LockDone = (lk_sending s \<noteq> None)"
| "lock_offered s (LockFails e) = (lk_sending s \<noteq> None)"
| "lock_offered s SwitchAuto = (\<not> lk_auto s \<and> \<not> lk_confirm s \<and> \<not> lk_force s)"
| "lock_offered s (AutoDone b) = lk_auto s"
| "lock_offered s (AutoFails e) = lk_auto s"

text \<open>The daemon refuses when a site would go dark; the card recognises that by a word of the message.\<close>

definition asks_force :: "lock_kind option \<Rightarrow> jsstring \<Rightarrow> bool" where
  "asks_force k e \<longleftrightarrow> k = Some EnableLock \<and> test_ci ''unreachable'' e"

fun lock_step :: "(lock_event, lock_card) page_step" where
  "lock_step (CfSettingsArrive d) s = (s\<lparr>lk_data := d\<rparr>, [], [])"
| "lock_step SwitchLock s =
     (if lockdownEnabled s then (s\<lparr>lk_sending := Some DisableLock\<rparr>, [lock_request DisableLock], [])
      else (s\<lparr>lk_confirm := True\<rparr>, [], []))"
| "lock_step CloseConfirm s = (s\<lparr>lk_confirm := False\<rparr>, [], [])"
| "lock_step ConfirmLock s = (s\<lparr>lk_sending := Some EnableLock\<rparr>, [lock_request EnableLock], [])"
| "lock_step CloseForce s = (s\<lparr>lk_force := False\<rparr>, [], [])"
| "lock_step ConfirmForce s = (s\<lparr>lk_sending := Some ForceLock\<rparr>, [lock_request ForceLock], [])"
| "lock_step LockDone s =
     (s\<lparr>lk_sending := None, lk_confirm := False, lk_force := False\<rparr>, [],
      [Toast Success (if lk_sending s = Some DisableLock then ''CF-only lockdown disabled'' else ''CF-only lockdown enabled'') [],
       Invalidate [''cf-settings'']])"
| "lock_step (LockFails e) s =
     (if asks_force (lk_sending s) e then (s\<lparr>lk_sending := None, lk_confirm := False, lk_force := True\<rparr>, [], [])
      else (s\<lparr>lk_sending := None, lk_force := False\<rparr>, [], [Toast ErrorTone ''Could not change lockdown'' e]))"
| "lock_step SwitchAuto s =
     (s\<lparr>lk_auto := True\<rparr>, [ApiPatch ''/api/v1/cloudflare/settings'' [(''auto_enable'', JBool (\<not> truthy (jget (lk_data s) ''auto_enable'')))]], [])"
| "lock_step (AutoDone b) s =
     (s\<lparr>lk_auto := False\<rparr>, [],
      [Toast Success (if b then ''Auto-enable turned on'' else ''Auto-enable turned off'') [], Invalidate [''cf-settings'']])"
| "lock_step (AutoFails e) s = (s\<lparr>lk_auto := False\<rparr>, [], [Toast ErrorTone ''Could not update setting'' e])"

subsection \<open>The protocol\<close>

datatype lock_phase = LockIdle | LockAsked | LockSent | ForceAsked | ForceSent | UnlockSent

inductive lock_protocol :: "lock_phase \<Rightarrow> lock_kind list \<Rightarrow> lock_phase \<Rightarrow> bool" where
  stay: "lock_protocol p [] p"
| ask: "lock_protocol LockIdle [] LockAsked"
| withdraw: "lock_protocol LockAsked [] LockIdle"
| send: "lock_protocol LockAsked [EnableLock] LockSent"
| accepted: "lock_protocol LockSent [] LockIdle"
| refused: "lock_protocol LockSent [] LockAsked"
| unreachable: "lock_protocol LockSent [] ForceAsked"
| give_up: "lock_protocol ForceAsked [] LockIdle"
| force: "lock_protocol ForceAsked [ForceLock] ForceSent"
| forced: "lock_protocol ForceSent [] LockIdle"
| unlock: "lock_protocol LockIdle [DisableLock] UnlockSent"
| unlocked: "lock_protocol UnlockSent [] LockIdle"

inductive_simps lock_protocol_simps:
  "lock_protocol LockIdle l p" "lock_protocol LockAsked l p" "lock_protocol LockSent l p"
  "lock_protocol ForceAsked l p" "lock_protocol ForceSent l p" "lock_protocol UnlockSent l p"

definition lock_phase_of :: "lock_card \<Rightarrow> lock_phase" where
  "lock_phase_of s =
     (case lk_sending s of
        Some EnableLock \<Rightarrow> LockSent
      | Some ForceLock \<Rightarrow> ForceSent
      | Some DisableLock \<Rightarrow> UnlockSent
      | None \<Rightarrow> if lk_confirm s then LockAsked else if lk_force s then ForceAsked else LockIdle)"

text \<open>What can be seen of the lockdown from outside.\<close>

definition lock_shown :: "api_request \<Rightarrow> lock_kind list" where
  "lock_shown r = filter (\<lambda>k. r = lock_request k) [EnableLock, ForceLock, DisableLock]"

lemma lock_shown_simps [simp]:
  "lock_shown (lock_request k) = [k]" "lock_shown (ApiPatch ''/api/v1/cloudflare/settings'' b) = []"
  by (cases k) (simp_all add: lock_shown_def lock_request_def)

definition lock_inv :: "lock_card \<Rightarrow> bool" where
  "lock_inv s \<longleftrightarrow> \<not> (lk_confirm s \<and> lk_force s) \<and>
     (lk_sending s = Some EnableLock \<longrightarrow> lk_confirm s) \<and> (lk_sending s = Some ForceLock \<longrightarrow> lk_force s) \<and>
     (lk_sending s = Some DisableLock \<longrightarrow> \<not> lk_confirm s \<and> \<not> lk_force s)"

lemma lock_simulation:
  assumes "lock_inv s" "lock_offered s e"
  shows "lock_inv (fst (lock_step e s)) \<and>
    lock_protocol (lock_phase_of s) (concat (map lock_shown (fst (snd (lock_step e s))))) (lock_phase_of (fst (lock_step e s)))"
proof (cases e)
  case (LockFails m)
  with assms show ?thesis
    by (auto simp: lock_inv_def lock_phase_of_def asks_force_def lock_protocol_simps split: option.splits lock_kind.splits)
next
  case LockDone
  with assms show ?thesis
    by (auto simp: lock_inv_def lock_phase_of_def lock_protocol_simps split: option.splits lock_kind.splits)
qed (use assms in \<open>auto simp: lock_inv_def lock_phase_of_def lock_protocol_simps lock_protocol.stay split: option.splits lock_kind.splits\<close>)

interpretation lock: page_refinement initial_lock lock_offered lock_step lock_inv lock_phase_of lock_shown LockIdle lock_protocol
proof unfold_locales
  show "lock_inv initial_lock" "lock_phase_of initial_lock = LockIdle"
    by (simp_all add: lock_inv_def initial_lock_def lock_phase_of_def)
qed (use lock_simulation in blast)+

text \<open>In the protocol every forced request follows directly on an unforced one.\<close>

definition forced_after :: "lock_kind list \<Rightarrow> bool" where
  "forced_after ks \<longleftrightarrow> (\<forall>i < length ks. ks ! i = ForceLock \<longrightarrow> 0 < i \<and> ks ! (i - 1) = EnableLock)"

lemma forced_after_snoc:
  assumes "forced_after ks" "k = ForceLock \<Longrightarrow> ks \<noteq> [] \<and> last ks = EnableLock"
  shows "forced_after (ks @ [k])"
  unfolding forced_after_def
proof (intro allI impI)
  fix i assume i: "i < length (ks @ [k])" "(ks @ [k]) ! i = ForceLock"
  show "0 < i \<and> (ks @ [k]) ! (i - 1) = EnableLock"
  proof (cases "i = length ks")
    case True
    with i assms(2) show ?thesis by (auto simp: nth_append last_conv_nth)
  next
    case False
    with i assms(1) show ?thesis by (auto simp: forced_after_def nth_append)
  qed
qed

lemma protocol_forced:
  "spec_run LockIdle lock_protocol ks p \<Longrightarrow>
     forced_after ks \<and> (p \<in> {LockSent, ForceAsked} \<longrightarrow> ks \<noteq> [] \<and> last ks = EnableLock)"
proof (induction rule: spec_run.induct)
  case start
  then show ?case by (simp add: forced_after_def)
next
  case (step ks p l p')
  from step.hyps(2) step.IH show ?case by cases (auto intro: forced_after_snoc)
qed


definition lock_script :: "lock_event list" where
  "lock_script = [SwitchLock, ConfirmLock, LockFails ''a.com would become Unreachable'', ConfirmForce, LockDone]"


subsection \<open>The refusal never gets here\<close>

text \<open>
  The daemon refuses with a \<open>RuntimeError\<close>, which the API answers with status 502 and the client
  replaces by its fixed text: the word the card looks for is not in it, so the second question is
  never asked and a refused lockdown cannot be forced from the page.
\<close>

lemma references_without_u: "valid_reference r \<Longrightarrow> CHR ''u'' \<notin> set (toLowerCase r)"
proof
  assume r: "valid_reference r" and "CHR ''u'' \<in> set (toLowerCase r)"
  then obtain c where c: "c \<in> set r" "lower_char c = CHR ''u''" by (auto simp: toLowerCase_def)
  then have "is_hex_ci c" using r by (simp add: valid_reference_def list_all_iff)
  moreover have "code (lower_char c) = 117" unfolding c(2) by code_simp
  ultimately show False by (auto simp: is_hex_ci_def is_digit_def code_lower_char split: if_splits)
qed

lemma safe_message_suffix:
  "safe_message m \<Longrightarrow> \<exists>t. m = SERVER_MESSAGE @ t \<and> CHR ''u'' \<notin> set (toLowerCase t)"
proof (induction rule: safe_message.induct)
  case safe_base
  then show ?case by (simp add: toLowerCase_def)
next
  case (safe_ref m r)
  then obtain t where t: "m = SERVER_MESSAGE @ t" "CHR ''u'' \<notin> set (toLowerCase t)" by blast
  have "CHR ''u'' \<notin> set (toLowerCase ('' (reference: '' @ [CHR 0x29]))" by code_simp
  with t references_without_u[OF safe_ref.hyps(2)] show ?case
    by (intro exI[of _ "t @ '' (reference: '' @ r @ '')''"]) (simp only: with_reference_def append_assoc toLowerCase_append set_append Un_iff simp_thms)
qed

lemma no_includes_first: "c \<notin> set s \<Longrightarrow> \<not> js_includes s (c # q)"
  by (induction s) (auto simp: startsWith_def)

lemma safe_message_not_unreachable:
  assumes "safe_message m"
  shows "\<not> test_ci ''unreachable'' m"
proof -
  obtain t where t: "m = SERVER_MESSAGE @ t" "CHR ''u'' \<notin> set (toLowerCase t)" using safe_message_suffix[OF assms] by blast
  have "toLowerCase SERVER_MESSAGE =
      ''the server could not complete this operation. retry once; if it fails again, ask the administrator to check the error log.''"
    by code_simp
  then show ?thesis using no_includes_first[OF t(2), of "''nreachable''"]
    by (simp add: test_ci_def t(1) startsWith_def)
qed

lemma forced_lockdown_never_offered:
  assumes "normalizeError error = Some e" "response error = Some r" "500 \<le> status r"
    "body_message error = Some (message, flds)" "\<not> limit_message message" "lk_sending s = Some EnableLock"
  shows "\<not> lk_force (fst (lock_step (LockFails (err_message e)) s))"
  using normalizeError_internal_safe[OF assms(1-5)] by (simp add: asks_force_def safe_message_not_unreachable)

section \<open>Checks before proxying\<close>

record rails_tab =
  ra_data :: json
  ra_refreshing :: "bool option" \<comment> \<open>whether the refresh under way is forced\<close>

datatype rails_event = RailsArrive json | RefreshRanges bool | RangesDone | RangesFail jsstring

text \<open>Each of the two buttons is only blocked by a refresh of its own kind.\<close>

fun rails_offered :: "rails_tab \<Rightarrow> rails_event \<Rightarrow> bool" where
  "rails_offered s (RailsArrive d) = True"
| "rails_offered s (RefreshRanges forced) = (ra_refreshing s \<noteq> Some forced)"
| "rails_offered s RangesDone = (ra_refreshing s \<noteq> None)"
| "rails_offered s (RangesFail e) = (ra_refreshing s \<noteq> None)"

fun rails_step :: "(rails_event, rails_tab) page_step" where
  "rails_step (RailsArrive d) s = (s\<lparr>ra_data := d\<rparr>, [], [])"
| "rails_step (RefreshRanges forced) s =
     (s\<lparr>ra_refreshing := Some forced\<rparr>,
      [ApiPost (''/api/v1/cloudflare/ranges/refresh'' @ (if forced then ''?force=true'' else [])) []], [])"
| "rails_step RangesDone s =
     (s\<lparr>ra_refreshing := None\<rparr>, [],
      [Toast Success ''Edge ranges refreshed'' ''OpenLiteSpeed and fail2ban are re-synced when the ranges change.'', Invalidate [''cf-rails'']])"
| "rails_step (RangesFail e) s = (s\<lparr>ra_refreshing := None\<rparr>, [], [Toast ErrorTone ''Could not refresh ranges'' e])"

definition rails_pills :: "rails_tab \<Rightarrow> (jsstring \<times> bool) list" where
  "rails_pills s =
     [(''Edge ranges fresh'', truthy (jget (ra_data s) ''ranges_ok'')), (''OLS real-IP'', truthy (jget (ra_data s) ''ols_real_ip'')),
      (''fail2ban ignoreip'', truthy (jget (ra_data s) ''fail2ban_ignoreip''))]"

definition or_dash :: "json \<Rightarrow> jsstring" where
  "or_dash v = (if nullish v then [em_dash] else js_String v)"

definition ranges_facts :: "rails_tab \<Rightarrow> (jsstring \<times> jsstring) list" where
  "ranges_facts s =
     (let rf = js_or (jget (ra_data s) ''ranges_file'') (JObj [])
      in [(''Ranges file'', if truthy (jget rf ''exists'') then ''Present'' else ''Missing''),
          (''Age'', case jget rf ''age_seconds'' of JNum n \<Rightarrow> formatDuration (Some (of_int n)) | _ \<Rightarrow> [em_dash]),
          (''IPv4 ranges'', or_dash (jget rf ''ipv4_count'')), (''IPv6 ranges'', or_dash (jget rf ''ipv6_count''))])"

section \<open>Zones\<close>

record zones_tab =
  zo_data :: json
  zo_live :: bool
  zo_purgeOpen :: bool
  zo_purging :: bool
  zo_migrateOpen :: bool
  zo_result :: json
  zo_migrating :: bool

definition initial_zones :: zones_tab where
  "initial_zones =
     \<lparr>zo_data = JUndef, zo_live = False, zo_purgeOpen = False, zo_purging = False, zo_migrateOpen = False, zo_result = JNull,
      zo_migrating = False\<rparr>"

definition zones_url :: "zones_tab \<Rightarrow> jsstring" where
  "zones_url s = ''/api/v1/cloudflare/zones'' @ (if zo_live s then ''?live=true'' else [])"

datatype zones_event =
    ZonesArrive json
  | SwitchLive bool
  | AskPurge
  | ClosePurge
  | ConfirmPurge
  | PurgeDone json
  | PurgeFails jsstring
  | AskMigrate
  | CloseMigrate
  | ConfirmMigrate
  | ContinueMigration
  | MigrateDone json
  | MigrateFails jsstring
  | CloseResult

definition remaining_left :: "json \<Rightarrow> bool" where
  "remaining_left r \<longleftrightarrow> (case jget r ''remaining'' of JNum n \<Rightarrow> 0 < n | _ \<Rightarrow> False)"

definition no_zone_dialog :: "zones_tab \<Rightarrow> bool" where
  "no_zone_dialog s \<longleftrightarrow> \<not> zo_purgeOpen s \<and> \<not> zo_migrateOpen s \<and> \<not> truthy (zo_result s)"

fun zones_offered :: "zones_tab \<Rightarrow> zones_event \<Rightarrow> bool" where
  "zones_offered s (ZonesArrive d) = True"
| "zones_offered s (SwitchLive b) = no_zone_dialog s"
| "zones_offered s AskPurge = no_zone_dialog s"
| "zones_offered s ClosePurge = (zo_purgeOpen s \<and> \<not> zo_purging s)"
| "zones_offered s ConfirmPurge = (zo_purgeOpen s \<and> \<not> zo_purging s)"
| "zones_offered s (PurgeDone r) = zo_purging s"
| "zones_offered s (PurgeFails e) = zo_purging s"
| "zones_offered s AskMigrate = no_zone_dialog s"
| "zones_offered s CloseMigrate = (zo_migrateOpen s \<and> \<not> zo_migrating s)"
| "zones_offered s ConfirmMigrate = (zo_migrateOpen s \<and> \<not> zo_migrating s)"
| "zones_offered s ContinueMigration = (truthy (zo_result s) \<and> remaining_left (zo_result s) \<and> \<not> zo_migrating s)"
| "zones_offered s (MigrateDone r) = (zo_migrating s \<and> truthy r)"
| "zones_offered s (MigrateFails e) = zo_migrating s"
| "zones_offered s CloseResult = truthy (zo_result s)"

definition or_zero :: "json \<Rightarrow> jsstring" where
  "or_zero v = (if nullish v then ''0'' else js_String v)"

fun zones_step :: "(zones_event, zones_tab) page_step" where
  "zones_step (ZonesArrive d) s = (s\<lparr>zo_data := d\<rparr>, [], [])"
| "zones_step (SwitchLive b) s = (s\<lparr>zo_live := b\<rparr>, [], [])"
| "zones_step AskPurge s = (s\<lparr>zo_purgeOpen := True\<rparr>, [], [])"
| "zones_step ClosePurge s = (s\<lparr>zo_purgeOpen := False\<rparr>, [], [])"
| "zones_step ConfirmPurge s = (s\<lparr>zo_purging := True\<rparr>, [ApiPost ''/api/v1/cloudflare/bulk-purge'' []], [])"
| "zones_step (PurgeDone r) s =
     (s\<lparr>zo_purging := False, zo_purgeOpen := False\<rparr>, [],
      [Toast Success ''Purge complete'' (''Purged '' @ or_zero (jget r ''purged'') @ '' of '' @ or_zero (jget r ''total'') @ '' active zone(s).'')])"
| "zones_step (PurgeFails e) s = (s\<lparr>zo_purging := False, zo_purgeOpen := False\<rparr>, [], [Toast ErrorTone ''Bulk purge failed'' e])"
| "zones_step AskMigrate s = (s\<lparr>zo_migrateOpen := True\<rparr>, [], [])"
| "zones_step CloseMigrate s = (s\<lparr>zo_migrateOpen := False\<rparr>, [], [])"
| "zones_step ConfirmMigrate s = (s\<lparr>zo_migrating := True\<rparr>, [ApiPost ''/api/v1/cloudflare/bulk-migrate'' []], [])"
| "zones_step ContinueMigration s = (s\<lparr>zo_migrating := True\<rparr>, [ApiPost ''/api/v1/cloudflare/bulk-migrate'' []], [])"
| "zones_step (MigrateDone r) s =
     (s\<lparr>zo_migrating := False, zo_result := r, zo_migrateOpen := False\<rparr>, [],
      [Invalidate [''cf-zones''],
       if truthy (jget r ''stopped_on_error'') then Toast WarningTone ''Migration stopped on error'' ''See the per-domain results.''
       else Toast Success ''Migration run complete'' (js_String (jget r ''prepared'') @ '' prepared, '' @ js_String (jget r ''remaining'') @ '' remaining.'')])"
| "zones_step (MigrateFails e) s =
     (s\<lparr>zo_migrating := False, zo_migrateOpen := False\<rparr>, [], [Toast ErrorTone ''Bulk migrate failed'' e])"
| "zones_step CloseResult s = (s\<lparr>zo_result := JNull\<rparr>, [], [])"

text \<open>Runs of one kind do not overlap, and a run goes on only from a confirmation or from a result that
  leaves zones to migrate.\<close>

lemma migration_needs_reason:
  assumes "zones_offered s e" "ApiPost ''/api/v1/cloudflare/bulk-migrate'' [] \<in> set (fst (snd (zones_step e s)))"
  shows "\<not> zo_migrating s \<and> (zo_migrateOpen s \<or> remaining_left (zo_result s))"
  using assms by (cases e) auto

text \<open>A result closed while the next run is under way comes back with that run's answer.\<close>

lemma closed_result_returns:
  assumes "zo_migrating s" "truthy (zo_result s)" "truthy r"
  shows "zones_offered s CloseResult \<and>
    truthy (zo_result (fst (zones_step (MigrateDone r) (fst (zones_step CloseResult s)))))"
  using assms by simp

definition status_variant :: "jsstring \<Rightarrow> jsstring" where
  "status_variant st = (if st = ''active'' then ''success'' else if st = ''pending'' then ''warning'' else ''neutral'')"

definition proxied_cell :: "json \<Rightarrow> jsstring" where
  "proxied_cell r =
     (if nullish (jget r ''proxied'') then [em_dash] else if truthy (jget r ''proxied'') then ''Proxied'' else ''DNS only'')"

definition servers_cell :: "json \<Rightarrow> jsstring" where
  "servers_cell r =
     (let t = js_join ('' '' @ [CHR 0xB7] @ '' '') (json_list (jget r ''name_servers'')) in if t = [] then [em_dash] else t)"

definition result_text :: "json \<Rightarrow> jsstring" where
  "result_text r =
     (if \<not> truthy r then []
      else js_String (jget r ''attempted'') @ '' attempted '' @ [CHR 0xB7] @ '' '' @ js_String (jget r ''prepared'') @ '' prepared '' @
           [CHR 0xB7] @ '' '' @ js_String (jget r ''remaining'') @ '' remaining'' @
           (if truthy (jget r ''stopped_on_error'') then '' '' @ [CHR 0xB7] @ '' stopped on error'' else []))"

end
