(* ===== verification/Apps_Page.thy ===== *)
theory Apps_Page
  imports Page_Machine Preferences
begin

text \<open>
  \<open>pages/customer/Apps.jsx\<close>: the Node.js and Python applications of an account. One panel serves both
  kinds; the kind decides the address and one field of the form. The domain of the form follows the
  domain the panel is working on by an effect that runs after every render.
\<close>

section \<open>Environment variables\<close>

definition index_of :: "char \<Rightarrow> jsstring \<Rightarrow> nat option" where
  "index_of c s = (if c \<in> set s then Some (length (takeWhile (\<lambda>x. x \<noteq> c) s)) else None)"

definition env_line :: "jsstring \<Rightarrow> (jsstring \<times> jsstring) option" where
  "env_line raw =
     (let line = trim raw
      in if line = [] \<or> startsWith line ''#'' then None
         else case index_of (CHR ''='') line of
                None \<Rightarrow> None
              | Some i \<Rightarrow> (let key = trim (take i line) in if key = [] then None else Some (key, trim (drop (Suc i) line))))"

text \<open>\<open>out[key] = value\<close> on a plain object: for the name \<open>__proto__\<close> a text value is ignored. (An object
  lists names that are array indices first; the order of the fields is not kept here.)\<close>

definition own_set :: "jsstring \<Rightarrow> jsstring \<Rightarrow> (jsstring \<times> jsstring) list \<Rightarrow> (jsstring \<times> jsstring) list" where
  "own_set k v out = (if k = ''__proto__'' then out else AList.update k v out)"

definition parseEnvVars :: "jsstring \<Rightarrow> (jsstring \<times> jsstring) list" where
  "parseEnvVars text =
     fold (\<lambda>raw out. case env_line raw of None \<Rightarrow> out | Some (k, v) \<Rightarrow> own_set k v out) (split_on newline text) []"

text \<open>A variable that can be written in a line, and the text of several.\<close>

definition writable :: "jsstring \<times> jsstring \<Rightarrow> bool" where
  "writable kv \<longleftrightarrow>
     (case kv of (k, v) \<Rightarrow>
        k \<noteq> [] \<and> trim k = k \<and> trim v = v \<and> CHR ''='' \<notin> set k \<and> newline \<notin> set k \<and> newline \<notin> set v \<and> hd k \<noteq> CHR ''#'' \<and> k \<noteq> ''__proto__'')"

definition env_text :: "(jsstring \<times> jsstring) list \<Rightarrow> jsstring" where
  "env_text kvs = join_with [newline] (map (\<lambda>(k, v). k @ ''='' @ v) kvs)"

lemma trim_join:
  assumes "k \<noteq> []" "trim k = k" "trim v = v" "v \<noteq> []"
  shows "trim (k @ CHR ''='' # v) = k @ CHR ''='' # v"
proof (rule trim_id)
  show "\<not> is_space (hd (k @ CHR ''='' # v))" using assms(1,2) trim_hd_not_space[of k] by simp
  show "\<not> is_space (last (k @ CHR ''='' # v))" using assms(3,4) trim_last_not_space[of v] by simp
qed

lemma trim_join_empty:
  assumes "k \<noteq> []" "trim k = k"
  shows "trim (k @ ''='') = k @ ''=''"
  by (rule trim_id) (use assms trim_hd_not_space[of k] in \<open>auto simp: is_space_def code_def\<close>)

lemma takeWhile_key: "c \<notin> set k \<Longrightarrow> takeWhile (\<lambda>x. x \<noteq> c) (k @ c # v) = k"
  by (induction k) auto

lemma env_line_written:
  assumes "writable (k, v)"
  shows "env_line (k @ ''='' @ v) = Some (k, v)"
proof -
  have k: "k \<noteq> []" "trim k = k" "trim v = v" "CHR ''='' \<notin> set k" "hd k \<noteq> CHR ''#''" using assms by (auto simp: writable_def)
  have line: "trim (k @ CHR ''='' # v) = k @ CHR ''='' # v"
    using trim_join[OF k(1-3)] trim_join_empty[OF k(1,2)] by (cases "v = []") simp_all
  have "\<not> startsWith (k @ CHR ''='' # v) ''#''" using k(1,5) by (cases k) (auto simp: startsWith_def)
  moreover have "index_of (CHR ''='') (k @ CHR ''='' # v) = Some (length k)"
    using takeWhile_key[OF k(4)] by (simp add: index_of_def)
  ultimately show ?thesis using k by (simp add: env_line_def line Let_def)
qed

lemma fold_update_distinct:
  assumes "distinct (map fst (out @ kvs))"
  shows "fold (\<lambda>kv out. AList.update (fst kv) (snd kv) out) kvs out = out @ kvs"
  using assms
proof (induction kvs arbitrary: out)
  case (Cons kv kvs)
  have "AList.update (fst kv) (snd kv) out = out @ [kv]"
  proof -
    have "fst kv \<notin> fst ` set out" using Cons.prems by auto
    then show ?thesis by (induction out) auto
  qed
  with Cons show ?case by simp
qed simp



text \<open>Every name that is sent is non-empty, without surrounding blanks and without an equals sign.\<close>

lemma takeWhile_no: "c \<notin> set (takeWhile (\<lambda>x. x \<noteq> c) s)"
  by (induction s) auto

lemma env_line_name:
  assumes "env_line raw = Some (k, v)"
  shows "k \<noteq> [] \<and> trim k = k \<and> CHR ''='' \<notin> set k \<and> trim v = v"
proof -
  let ?l = "trim raw"
  obtain i where i: "index_of (CHR ''='') ?l = Some i" and k: "k = trim (take i ?l)" "k \<noteq> []"
    and v: "v = trim (drop (Suc i) ?l)"
    using assms by (auto simp: env_line_def Let_def split: if_splits option.splits)
  have "i = length (takeWhile (\<lambda>x. x \<noteq> CHR ''='') ?l)"
    using i by (simp add: index_of_def split: if_splits)
  then have "take i ?l = takeWhile (\<lambda>x. x \<noteq> CHR ''='') ?l"
    by (simp only: takeWhile_eq_take[symmetric])
  then have "CHR ''='' \<notin> set (take i ?l)" using takeWhile_no[of "CHR ''=''" ?l] by simp
  moreover have "set k \<subseteq> set (take i ?l)" unfolding k(1) by (rule set_trim)
  moreover have "trim k = k" "trim v = v" unfolding k(1) v by simp_all
  ultimately show ?thesis using k(2) by blast
qed

definition env_names_ok :: "(jsstring \<times> jsstring) list \<Rightarrow> bool" where
  "env_names_ok kvs \<longleftrightarrow> list_all (\<lambda>(k, v). k \<noteq> [] \<and> trim k = k \<and> CHR ''='' \<notin> set k) kvs"

lemma env_update_ok: "env_names_ok out \<Longrightarrow> k \<noteq> [] \<Longrightarrow> trim k = k \<Longrightarrow> CHR ''='' \<notin> set k \<Longrightarrow> env_names_ok (own_set k v out)"
  unfolding own_set_def by (induction out) (auto simp: env_names_ok_def)

lemma env_fold_ok:
  "env_names_ok out \<Longrightarrow>
     env_names_ok (fold (\<lambda>raw out. case env_line raw of None \<Rightarrow> out | Some (k, v) \<Rightarrow> own_set k v out) lines out)"
proof (induction lines arbitrary: out)
  case (Cons raw lines)
  show ?case
  proof (cases "env_line raw")
    case (Some kv)
    then obtain k v where kv: "env_line raw = Some (k, v)" by (cases kv) auto
    with Cons env_line_name[OF kv] show ?thesis by (simp add: env_update_ok)
  qed (use Cons in simp)
qed simp

lemma parsed_names_ok: "env_names_ok (parseEnvVars text)"
  unfolding parseEnvVars_def by (rule env_fold_ok) (simp add: env_names_ok_def)

section \<open>The panel\<close>

definition NODE_VERSIONS :: "jsstring list" where "NODE_VERSIONS = [''22'', ''20'', ''18'']"

definition PYTHON_APP_TYPES :: "jsstring list" where "PYTHON_APP_TYPES = [''wsgi'', ''asgi'']"

record app_form =
  af_domain :: json
  af_name :: jsstring
  af_entry :: jsstring
  af_node :: jsstring
  af_type :: jsstring
  af_env :: jsstring

definition EMPTY_APP :: app_form where
  "EMPTY_APP = \<lparr>af_domain = JStr [], af_name = [], af_entry = [], af_node = ''20'', af_type = ''wsgi'', af_env = []\<rparr>"

record apps_panel =
  ap_data :: json
  ap_domains :: "json list"
  ap_stored :: json
  ap_createOpen :: bool
  ap_form :: app_form
  ap_creating :: bool
  ap_acting :: "(json \<times> jsstring) option"
  ap_delete :: "json option"
  ap_deleting :: "json option"
  ap_logs :: "json option"
  ap_selected :: "json option" \<comment> \<open>the number of the application managed\<close>

definition initial_apps :: apps_panel where
  "initial_apps =
     \<lparr>ap_data = JUndef, ap_domains = [], ap_stored = JUndef, ap_createOpen = False, ap_form = EMPTY_APP, ap_creating = False,
      ap_acting = None, ap_delete = None, ap_deleting = None, ap_logs = None, ap_selected = None\<rparr>"

definition apps_base :: "bool \<Rightarrow> jsstring \<Rightarrow> jsstring" where
  "apps_base node u = ''/api/v1/accounts/'' @ u @ ''/apps/'' @ (if node then ''node'' else ''python'')"

definition app_rows :: "apps_panel \<Rightarrow> json list" where
  "app_rows s = json_list (jget (ap_data s) ''apps'')"

definition app_active :: "json \<Rightarrow> bool" where
  "app_active a \<longleftrightarrow> jget a ''active'' = JStr ''active''"

definition apps_poll :: "json \<Rightarrow> nat option" where
  "apps_poll d = (if list_ex app_active (json_list (jget d ''apps'')) then Some 5000 else None)"

definition app_status :: "json \<Rightarrow> jsstring" where
  "app_status a = (if app_active a then ''running'' else js_String (js_or (jget a ''active'') (JStr ''stopped'')))"

definition app_selected :: "apps_panel \<Rightarrow> json option" where
  "app_selected s = (case ap_selected s of None \<Rightarrow> None | Some i \<Rightarrow> List.find (\<lambda>a. jget a ''id'' = i) (app_rows s))"

definition workingDomain :: "apps_panel \<Rightarrow> json" where
  "workingDomain s = selected_domain (domain_names (ap_domains s)) (ap_stored s)"

definition domain_effect_run :: "apps_panel \<Rightarrow> apps_panel" where
  "domain_effect_run s =
     (if ap_createOpen s \<and> truthy (workingDomain s) \<and> af_domain (ap_form s) \<noteq> workingDomain s
      then s\<lparr>ap_form := (ap_form s)\<lparr>af_domain := workingDomain s\<rparr>\<rparr> else s)"

definition app_url :: "bool \<Rightarrow> jsstring \<Rightarrow> json \<Rightarrow> jsstring" where
  "app_url node u a = apps_base node u @ ''/'' @ js_String (jget a ''id'')"

definition env_object :: "(jsstring \<times> jsstring) list \<Rightarrow> json" where
  "env_object kvs = JObj (map (\<lambda>(k, v). (k, JStr v)) kvs)"

definition app_body :: "bool \<Rightarrow> app_form \<Rightarrow> body" where
  "app_body node f =
     [(''domain'', af_domain f), (''name'', JStr (trim (af_name f))), (''entry_point'', JStr (trim (af_entry f))),
      (''env_vars'', env_object (parseEnvVars (af_env f))),
      (if node then (''node_version'', JStr (af_node f)) else (''app_type'', JStr (af_type f)))]"

definition action_verb :: "jsstring \<Rightarrow> jsstring" where
  "action_verb a = or_string (map_of [(''start'', ''started''), (''stop'', ''stopped''), (''restart'', ''restarted'')] a) a"

datatype apps_event =
    AppsArrive json
  | AppDomainsArrive "json list"
  | WorkingChanges json
  | OpenAppForm
  | CloseAppForm
  | EditApp app_form
  | PickAppDomain json
  | SubmitApp
  | AppCreated json
  | AppRefused jsstring
  | RowAction json jsstring
  | ActionAnswered
  | ActionRefused jsstring
  | ManageApp json
  | CloseManage
  | ManageToggle
  | ManageRestart
  | ManageLogs
  | ManageDelete
  | RowLogs json
  | CloseLogs
  | RowDelete json
  | CancelAppDelete
  | ConfirmAppDelete
  | AppDeleted
  | AppDeleteRefused jsstring

definition no_app_dialog :: "apps_panel \<Rightarrow> bool" where
  "no_app_dialog s \<longleftrightarrow> \<not> ap_createOpen s \<and> ap_delete s = None \<and> ap_logs s = None \<and> app_selected s = None"

fun action_fits :: "json \<Rightarrow> jsstring \<Rightarrow> bool" where
  "action_fits a v = (v = ''start'' \<and> \<not> app_active a \<or> v = ''stop'' \<and> app_active a \<or> v = ''restart'')"

fun apps_offered :: "bool \<Rightarrow> apps_panel \<Rightarrow> apps_event \<Rightarrow> bool" where
  "apps_offered node s (AppsArrive d) = True"
| "apps_offered node s (AppDomainsArrive ds) = ap_createOpen s"
| "apps_offered node s (WorkingChanges v) = True"
| "apps_offered node s OpenAppForm = no_app_dialog s"
| "apps_offered node s CloseAppForm = ap_createOpen s"
| "apps_offered node s (EditApp f) =
     (ap_createOpen s \<and> af_domain f = af_domain (ap_form s) \<and> af_node f \<in> set NODE_VERSIONS \<and> af_type f \<in> set PYTHON_APP_TYPES)"
| "apps_offered node s (PickAppDomain d) = (ap_createOpen s \<and> d \<in> set (domain_names (ap_domains s)))"
| "apps_offered node s SubmitApp =
     (ap_createOpen s \<and> \<not> ap_creating s \<and> truthy (af_domain (ap_form s)) \<and> trim (af_name (ap_form s)) \<noteq> [] \<and>
      trim (af_entry (ap_form s)) \<noteq> [])"
| "apps_offered node s (AppCreated v) = ap_creating s"
| "apps_offered node s (AppRefused e) = ap_creating s"
| "apps_offered node s (RowAction a v) = (no_app_dialog s \<and> a \<in> set (app_rows s) \<and> ap_acting s = None \<and> action_fits a v)"
| "apps_offered node s ActionAnswered = (ap_acting s \<noteq> None)"
| "apps_offered node s (ActionRefused e) = (ap_acting s \<noteq> None)"
| "apps_offered node s (ManageApp a) = (no_app_dialog s \<and> a \<in> set (app_rows s))"
| "apps_offered node s CloseManage = (app_selected s \<noteq> None)"
| "apps_offered node s ManageToggle = (app_selected s \<noteq> None \<and> ap_acting s = None)"
| "apps_offered node s ManageRestart = (app_selected s \<noteq> None \<and> ap_acting s = None)"
| "apps_offered node s ManageLogs = (app_selected s \<noteq> None)"
| "apps_offered node s ManageDelete = (app_selected s \<noteq> None \<and> ap_acting s = None)"
| "apps_offered node s (RowLogs a) = (no_app_dialog s \<and> a \<in> set (app_rows s))"
| "apps_offered node s CloseLogs = (ap_logs s \<noteq> None)"
| "apps_offered node s (RowDelete a) = (no_app_dialog s \<and> a \<in> set (app_rows s))"
| "apps_offered node s CancelAppDelete = (ap_delete s \<noteq> None \<and> ap_deleting s = None)"
| "apps_offered node s ConfirmAppDelete = (ap_delete s \<noteq> None \<and> ap_deleting s = None)"
| "apps_offered node s AppDeleted = (ap_deleting s \<noteq> None)"
| "apps_offered node s (AppDeleteRefused e) = (ap_deleting s \<noteq> None)"

definition apps_key :: "bool \<Rightarrow> jsstring \<Rightarrow> page_effect" where
  "apps_key node u = Invalidate [''apps'', if node then ''node'' else ''python'', u]"

definition act :: "bool \<Rightarrow> jsstring \<Rightarrow> json \<Rightarrow> jsstring \<Rightarrow> apps_panel \<Rightarrow> apps_panel \<times> api_request list \<times> page_effect list" where
  "act node u a v s = (s\<lparr>ap_acting := Some (a, v)\<rparr>, [ApiPost (app_url node u a @ ''/'' @ v) []], [])"

fun apps_react :: "bool \<Rightarrow> jsstring \<Rightarrow> (apps_event, apps_panel) page_step" where
  "apps_react node u (AppsArrive d) s = (s\<lparr>ap_data := d\<rparr>, [], [])"
| "apps_react node u (AppDomainsArrive ds) s = (s\<lparr>ap_domains := ds\<rparr>, [], [])"
| "apps_react node u (WorkingChanges v) s = (s\<lparr>ap_stored := v\<rparr>, [], [])"
| "apps_react node u OpenAppForm s = (s\<lparr>ap_createOpen := True\<rparr>, [], [])"
| "apps_react node u CloseAppForm s = (s\<lparr>ap_createOpen := False\<rparr>, [], [])"
| "apps_react node u (EditApp f) s = (s\<lparr>ap_form := f\<rparr>, [], [])"
| "apps_react node u (PickAppDomain d) s =
     ((if choose_domain u (ap_domains s) d \<noteq> [] then s\<lparr>ap_stored := d\<rparr> else s)\<lparr>ap_form := (ap_form s)\<lparr>af_domain := d\<rparr>\<rparr>, [], [])"
| "apps_react node u SubmitApp s = (s\<lparr>ap_creating := True\<rparr>, [ApiPost (apps_base node u) (app_body node (ap_form s))], [])"
| "apps_react node u (AppCreated v) s =
     (s\<lparr>ap_creating := False, ap_createOpen := False, ap_form := EMPTY_APP\<rparr>, [],
      [Toast Success ''Application created''
         (js_String (js_or (jget v ''name'') (JStr (af_name (ap_form s)))) @ '' was created. Upload your code, then start it.''),
       apps_key node u])"
| "apps_react node u (AppRefused e) s = (s\<lparr>ap_creating := False\<rparr>, [], [Toast ErrorTone ''Could not create application'' e])"
| "apps_react node u (RowAction a v) s = act node u a v s"
| "apps_react node u ActionAnswered s =
     (case ap_acting s of
        None \<Rightarrow> (s, [], [])
      | Some (a, v) \<Rightarrow> (s\<lparr>ap_acting := None\<rparr>, [],
          [Toast Success (''Application '' @ action_verb v) (js_String (jget a ''name'')), apps_key node u]))"
| "apps_react node u (ActionRefused e) s = (s\<lparr>ap_acting := None\<rparr>, [], [Toast ErrorTone ''Action failed'' e])"
| "apps_react node u (ManageApp a) s = (s\<lparr>ap_selected := Some (jget a ''id'')\<rparr>, [], [])"
| "apps_react node u CloseManage s = (s\<lparr>ap_selected := None\<rparr>, [], [])"
| "apps_react node u ManageToggle s =
     (case app_selected s of None \<Rightarrow> (s, [], []) | Some a \<Rightarrow> act node u a (if app_active a then ''stop'' else ''start'') s)"
| "apps_react node u ManageRestart s = (case app_selected s of None \<Rightarrow> (s, [], []) | Some a \<Rightarrow> act node u a ''restart'' s)"
| "apps_react node u ManageLogs s = (s\<lparr>ap_logs := app_selected s, ap_selected := None\<rparr>, [], [])"
| "apps_react node u ManageDelete s = (s\<lparr>ap_delete := app_selected s, ap_selected := None\<rparr>, [], [])"
| "apps_react node u (RowLogs a) s = (s\<lparr>ap_logs := Some a\<rparr>, [], [])"
| "apps_react node u CloseLogs s = (s\<lparr>ap_logs := None\<rparr>, [], [])"
| "apps_react node u (RowDelete a) s = (s\<lparr>ap_delete := Some a\<rparr>, [], [])"
| "apps_react node u CancelAppDelete s = (s\<lparr>ap_delete := None\<rparr>, [], [])"
| "apps_react node u ConfirmAppDelete s =
     (case ap_delete s of None \<Rightarrow> (s, [], []) | Some a \<Rightarrow> (s\<lparr>ap_deleting := Some a\<rparr>, [ApiDelete (app_url node u a)], []))"
| "apps_react node u AppDeleted s =
     (s\<lparr>ap_deleting := None, ap_delete := None\<rparr>, [],
      [Toast Success ''Application deleted''
         ((case ap_deleting s of Some a \<Rightarrow> js_String (jget a ''name'') | None \<Rightarrow> []) @ '' and its service unit were removed.''),
       apps_key node u])"
| "apps_react node u (AppDeleteRefused e) s = (s\<lparr>ap_deleting := None\<rparr>, [], [Toast ErrorTone ''Could not delete application'' e])"

definition apps_step :: "bool \<Rightarrow> jsstring \<Rightarrow> (apps_event, apps_panel) page_step" where
  "apps_step node u e s = (case apps_react node u e s of (s', new, effs) \<Rightarrow> (domain_effect_run s', new, effs))"

section \<open>What is sent\<close>

definition app_creation_ok :: "bool \<Rightarrow> body \<Rightarrow> bool" where
  "app_creation_ok node b \<longleftrightarrow>
     (\<exists>d n e kvs last.
        b = [(''domain'', d), (''name'', JStr n), (''entry_point'', JStr e), (''env_vars'', env_object kvs), last] \<and>
        truthy d \<and> n \<noteq> [] \<and> trim n = n \<and> e \<noteq> [] \<and> trim e = e \<and> env_names_ok kvs \<and>
        (if node then \<exists>v \<in> set NODE_VERSIONS. last = (''node_version'', JStr v)
         else \<exists>t \<in> set PYTHON_APP_TYPES. last = (''app_type'', JStr t)))"

definition app_request_ok :: "bool \<Rightarrow> jsstring \<Rightarrow> api_request \<Rightarrow> bool" where
  "app_request_ok node u r \<longleftrightarrow>
     (case r of
        ApiPost url b \<Rightarrow> url = apps_base node u \<and> app_creation_ok node b \<or>
          b = [] \<and> (\<exists>a v. url = app_url node u a @ ''/'' @ v \<and> action_fits a v)
      | ApiDelete url \<Rightarrow> (\<exists>a. url = app_url node u a)
      | _ \<Rightarrow> False)"

definition app_form_ok :: "app_form \<Rightarrow> bool" where
  "app_form_ok f \<longleftrightarrow> af_node f \<in> set NODE_VERSIONS \<and> af_type f \<in> set PYTHON_APP_TYPES"

definition apps_inv :: "apps_panel \<Rightarrow> bool" where
  "apps_inv s \<longleftrightarrow> app_form_ok (ap_form s) \<and>
     (ap_createOpen s \<and> truthy (workingDomain s) \<longrightarrow> af_domain (ap_form s) = workingDomain s)"

lemma empty_app_ok: "app_form_ok EMPTY_APP"
  by (simp add: app_form_ok_def EMPTY_APP_def NODE_VERSIONS_def PYTHON_APP_TYPES_def)

lemma effect_form_ok: "app_form_ok (ap_form (domain_effect_run s)) = app_form_ok (ap_form s)"
  by (simp add: domain_effect_run_def app_form_ok_def)

lemma effect_settles:
  "ap_createOpen (domain_effect_run s) \<and> truthy (workingDomain (domain_effect_run s)) \<longrightarrow>
     af_domain (ap_form (domain_effect_run s)) = workingDomain (domain_effect_run s)"
  by (auto simp: domain_effect_run_def workingDomain_def)

lemma apps_react_form:
  "app_form_ok (ap_form s) \<Longrightarrow> apps_offered node s e \<Longrightarrow> app_form_ok (ap_form (fst (apps_react node u e s)))"
  by (cases e) (auto simp: empty_app_ok[unfolded app_form_ok_def] act_def app_form_ok_def split: option.splits)

lemma apps_keep: "apps_inv s \<Longrightarrow> apps_offered node s e \<Longrightarrow> apps_inv (fst (apps_step node u e s))"
  using apps_react_form[of s node e u] effect_settles[of "fst (apps_react node u e s)"]
  by (cases "apps_react node u e s") (simp add: apps_inv_def apps_step_def effect_form_ok)

lemma apps_start: "apps_inv initial_apps"
  by (simp add: apps_inv_def initial_apps_def empty_app_ok)

lemma app_body_ok:
  assumes "apps_inv s" "apps_offered node s SubmitApp"
  shows "app_creation_ok node (app_body node (ap_form s))"
  unfolding app_creation_ok_def app_body_def
  by (intro exI conjI, rule refl) (use assms parsed_names_ok in \<open>auto simp: apps_inv_def app_form_ok_def\<close>)

lemma act_good:
  assumes "action_fits a v"
  shows "list_all (app_request_ok node u) (fst (snd (act node u a v s)))"
proof -
  have "\<exists>b w. app_url node u a @ CHR ''/'' # v = app_url node u b @ CHR ''/'' # w \<and> action_fits b w"
    using assms by blast
  then show ?thesis by (simp add: act_def app_request_ok_def del: action_fits.simps)
qed

lemma action_fits_toggle:
  "app_active a \<Longrightarrow> action_fits a ''stop''" "\<not> app_active a \<Longrightarrow> action_fits a ''start''" "action_fits a ''restart''"
  by simp_all

lemma apps_good:
  assumes "apps_inv s" "apps_offered node s e"
  shows "list_all (app_request_ok node u) (fst (snd (apps_step node u e s)))"
proof (cases "e = SubmitApp")
  case True
  with app_body_ok[of s node] assms show ?thesis by (simp add: apps_step_def app_request_ok_def)
next
  case False
  have "list_all (app_request_ok node u) (fst (snd (apps_react node u e s)))"
    using False assms(2) act_good[of _ _ node u s]
    by (cases e) (auto simp: app_request_ok_def[of _ _ "ApiDelete _"] action_fits_toggle simp del: action_fits.simps
        split: option.splits)
  then show ?thesis by (auto simp: apps_step_def split: prod.splits)
qed

interpretation apps: page_contract initial_apps "apps_offered node" "apps_step node u" apps_inv "app_request_ok node u"
  for node u
  by unfold_locales (auto simp: apps_start apps_keep apps_good)

text \<open>While the form is open it names the domain the panel is working on; what it asks for is complete,
  and an application is only started when it is not known to run, and only stopped when it is.\<close>

lemma app_requests_valid:
  assumes "page_reach initial_apps (apps_offered node) (apps_step node u) s sent"
  shows "list_all (app_request_ok node u) sent \<and>
    (ap_createOpen s \<and> truthy (workingDomain s) \<longrightarrow> af_domain (ap_form s) = workingDomain s)"
  using apps.reach_inv[OF assms] by (auto simp: apps_inv_def)

text \<open>A line whose name is repeated replaces the earlier value without a word; a line without an equals
  sign is dropped.\<close>

lemma repeated_name_last:
  "parseEnvVars (env_text [(''A'', ''1''), (''B'', ''2''), (''A'', ''3'')]) = [(''A'', ''3''), (''B'', ''2'')]"
  by code_simp

lemma line_without_equals_dropped: "parseEnvVars ''export A'' = []"
  by code_simp

section \<open>Logs\<close>

definition logs_url :: "bool \<Rightarrow> jsstring \<Rightarrow> json \<Rightarrow> jsstring" where
  "logs_url node u a = app_url node u a @ ''/logs''"

definition logs_text :: "json \<Rightarrow> jsstring" where
  "logs_text d =
     (let lines = json_list (jget d ''log_lines'') in if lines = [] then ''No log output yet.'' else js_join [newline] lines)"

end
