(* ===== verification/Ftp_Page.thy ===== *)
theory Ftp_Page
  imports Page_Machine
begin

text \<open>
  \<open>pages/customer/Ftp.jsx\<close>: the FTP accounts of a customer, their passwords and directories. Of the
  server, how a requested directory is placed (\<open>_resolve_path\<close> in \<open>daemon/handlers_ftp.py\<close>) is written
  out for a home without symbolic links, so that what the page sends can be compared with what it shows.
\<close>

section \<open>The page\<close>

record ftp_form =
  ff_label :: jsstring
  ff_password :: jsstring
  ff_path :: jsstring

definition EMPTY_FTP :: ftp_form where
  "EMPTY_FTP = \<lparr>ff_label = [], ff_password = [], ff_path = []\<rparr>"

record ftp_page =
  fp_data :: json
  fp_createOpen :: bool
  fp_form :: ftp_form
  fp_creating :: bool
  fp_pwTarget :: "json option"
  fp_pwValue :: jsstring
  fp_pwPending :: "json option" \<comment> \<open>the row of the password change under way\<close>
  fp_pathTarget :: "json option"
  fp_pathValue :: jsstring
  fp_pathPending :: "json option"
  fp_delete :: "json option"
  fp_deleting :: "json option"
  fp_selected :: "json option"

definition initial_ftp :: ftp_page where
  "initial_ftp =
     \<lparr>fp_data = JUndef, fp_createOpen = False, fp_form = EMPTY_FTP, fp_creating = False, fp_pwTarget = None, fp_pwValue = [],
      fp_pwPending = None, fp_pathTarget = None, fp_pathValue = [], fp_pathPending = None, fp_delete = None, fp_deleting = None,
      fp_selected = None\<rparr>"

definition ftp_url :: "jsstring \<Rightarrow> jsstring" where
  "ftp_url u = ''/api/v1/accounts/'' @ u @ ''/ftp''"

definition ftp_row_url :: "jsstring \<Rightarrow> json \<Rightarrow> jsstring" where
  "ftp_row_url u r = ftp_url u @ ''/'' @ js_String (jget r ''label'')"

definition ftp_rows :: "ftp_page \<Rightarrow> json list" where
  "ftp_rows s = json_list (jget (fp_data s) ''ftp_accounts'')"

definition login_preview :: "jsstring \<Rightarrow> ftp_form \<Rightarrow> jsstring" where
  "login_preview u f = u @ ''_'' @ (if ff_label f = [] then ''<label>'' else ff_label f)"

definition ftp_directory :: "jsstring \<Rightarrow> json \<Rightarrow> jsstring" where
  "ftp_directory u r = (if truthy (jget r ''path'') then js_String (jget r ''path'') else ''/home/'' @ u)"

definition ftp_body :: "ftp_form \<Rightarrow> body" where
  "ftp_body f = [(''label'', JStr (trim (ff_label f))), (''password'', JStr (ff_password f)), (''path'', JStr (trim (ff_path f)))]"

text \<open>\<open>required\<close> and \<open>minLength={10}\<close> of a password field that has been typed into.\<close>

definition password_typed :: "jsstring \<Rightarrow> bool" where
  "password_typed p \<longleftrightarrow> 10 \<le> length p"

datatype ftp_event =
    FtpArrive json
  | OpenFtpForm
  | CloseFtpForm
  | EditFtp ftp_form
  | SubmitFtp
  | FtpCreated json
  | FtpRefused jsstring
  | SelectFtp json
  | CloseSelected
  | SelectedPassword
  | SelectedPath
  | SelectedDelete
  | RowPassword json
  | EditPassword jsstring
  | ClosePassword
  | SubmitPassword
  | PasswordChanged
  | PasswordRefused jsstring
  | RowPath json
  | EditPath jsstring
  | ClosePath
  | SubmitPath
  | PathChanged
  | PathRefused jsstring
  | RowFtpDelete json
  | CloseFtpDelete
  | ConfirmFtpDelete
  | FtpDeleted
  | FtpDeleteRefused jsstring

definition no_ftp_dialog :: "ftp_page \<Rightarrow> bool" where
  "no_ftp_dialog s \<longleftrightarrow>
     \<not> fp_createOpen s \<and> fp_pwTarget s = None \<and> fp_pathTarget s = None \<and> fp_delete s = None \<and> fp_selected s = None"

fun ftp_offered :: "ftp_page \<Rightarrow> ftp_event \<Rightarrow> bool" where
  "ftp_offered s (FtpArrive d) = True"
| "ftp_offered s OpenFtpForm = no_ftp_dialog s"
| "ftp_offered s CloseFtpForm = fp_createOpen s"
| "ftp_offered s (EditFtp f) = fp_createOpen s"
| "ftp_offered s SubmitFtp =
     (fp_createOpen s \<and> \<not> fp_creating s \<and> trim (ff_label (fp_form s)) \<noteq> [] \<and> password_typed (ff_password (fp_form s)))"
| "ftp_offered s (FtpCreated r) = fp_creating s"
| "ftp_offered s (FtpRefused e) = fp_creating s"
| "ftp_offered s (SelectFtp r) = (no_ftp_dialog s \<and> r \<in> set (ftp_rows s))"
| "ftp_offered s CloseSelected = (fp_selected s \<noteq> None)"
| "ftp_offered s SelectedPassword = (fp_selected s \<noteq> None)"
| "ftp_offered s SelectedPath = (fp_selected s \<noteq> None)"
| "ftp_offered s SelectedDelete = (fp_selected s \<noteq> None)"
| "ftp_offered s (RowPassword r) = (no_ftp_dialog s \<and> r \<in> set (ftp_rows s))"
| "ftp_offered s (EditPassword v) = (fp_pwTarget s \<noteq> None)"
| "ftp_offered s ClosePassword = (fp_pwTarget s \<noteq> None)"
| "ftp_offered s SubmitPassword = (fp_pwTarget s \<noteq> None \<and> fp_pwPending s = None \<and> password_typed (fp_pwValue s))"
| "ftp_offered s PasswordChanged = (fp_pwPending s \<noteq> None)"
| "ftp_offered s (PasswordRefused e) = (fp_pwPending s \<noteq> None)"
| "ftp_offered s (RowPath r) = (no_ftp_dialog s \<and> r \<in> set (ftp_rows s))"
| "ftp_offered s (EditPath v) = (fp_pathTarget s \<noteq> None)"
| "ftp_offered s ClosePath = (fp_pathTarget s \<noteq> None)"
| "ftp_offered s SubmitPath = (fp_pathTarget s \<noteq> None \<and> fp_pathPending s = None)"
| "ftp_offered s PathChanged = (fp_pathPending s \<noteq> None)"
| "ftp_offered s (PathRefused e) = (fp_pathPending s \<noteq> None)"
| "ftp_offered s (RowFtpDelete r) = (no_ftp_dialog s \<and> r \<in> set (ftp_rows s))"
| "ftp_offered s CloseFtpDelete = (fp_delete s \<noteq> None \<and> fp_deleting s = None)"
| "ftp_offered s ConfirmFtpDelete = (fp_delete s \<noteq> None \<and> fp_deleting s = None)"
| "ftp_offered s FtpDeleted = (fp_deleting s \<noteq> None)"
| "ftp_offered s (FtpDeleteRefused e) = (fp_deleting s \<noteq> None)"

definition login_of :: "json option \<Rightarrow> jsstring" where
  "login_of r = (case r of Some r \<Rightarrow> js_String (jget r ''ftp_login'') | None \<Rightarrow> [])"

definition stored_path :: "json option \<Rightarrow> jsstring" where
  "stored_path r = (case r of Some r \<Rightarrow> json_text (jget r ''path'') | None \<Rightarrow> [])"

fun ftp_step :: "jsstring \<Rightarrow> (ftp_event, ftp_page) page_step" where
  "ftp_step u (FtpArrive d) s = (s\<lparr>fp_data := d\<rparr>, [], [])"
| "ftp_step u OpenFtpForm s = (s\<lparr>fp_createOpen := True\<rparr>, [], [])"
| "ftp_step u CloseFtpForm s = (s\<lparr>fp_createOpen := False\<rparr>, [], [])"
| "ftp_step u (EditFtp f) s = (s\<lparr>fp_form := f\<rparr>, [], [])"
| "ftp_step u SubmitFtp s = (s\<lparr>fp_creating := True\<rparr>, [ApiPost (ftp_url u) (ftp_body (fp_form s))], [])"
| "ftp_step u (FtpCreated r) s =
     (s\<lparr>fp_creating := False, fp_createOpen := False, fp_form := EMPTY_FTP\<rparr>, [],
      [Toast Success ''FTP account created''
         (js_String (js_or (jget r ''ftp_login'') (JStr (u @ ''_'' @ ff_label (fp_form s)))) @ '' is ready to use.''),
       Invalidate [''ftp'', u]])"
| "ftp_step u (FtpRefused e) s = (s\<lparr>fp_creating := False\<rparr>, [], [Toast ErrorTone ''Could not create FTP account'' e])"
| "ftp_step u (SelectFtp r) s = (s\<lparr>fp_selected := Some r\<rparr>, [], [])"
| "ftp_step u CloseSelected s = (s\<lparr>fp_selected := None\<rparr>, [], [])"
| "ftp_step u SelectedPassword s = (s\<lparr>fp_pwValue := [], fp_pwTarget := fp_selected s, fp_selected := None\<rparr>, [], [])"
| "ftp_step u SelectedPath s =
     (s\<lparr>fp_pathValue := stored_path (fp_selected s), fp_pathTarget := fp_selected s, fp_selected := None\<rparr>, [], [])"
| "ftp_step u SelectedDelete s = (s\<lparr>fp_delete := fp_selected s, fp_selected := None\<rparr>, [], [])"
| "ftp_step u (RowPassword r) s = (s\<lparr>fp_pwValue := [], fp_pwTarget := Some r\<rparr>, [], [])"
| "ftp_step u (EditPassword v) s = (s\<lparr>fp_pwValue := v\<rparr>, [], [])"
| "ftp_step u ClosePassword s = (s\<lparr>fp_pwTarget := None, fp_pwValue := []\<rparr>, [], [])"
| "ftp_step u SubmitPassword s =
     (case fp_pwTarget s of
        None \<Rightarrow> (s, [], [])
      | Some r \<Rightarrow> (s\<lparr>fp_pwPending := Some r\<rparr>,
                  [ApiPatch (ftp_row_url u r @ ''/password'') [(''password'', JStr (fp_pwValue s))]], []))"
| "ftp_step u PasswordChanged s =
     (s\<lparr>fp_pwPending := None, fp_pwTarget := None, fp_pwValue := []\<rparr>, [],
      [Toast Success ''Password changed'' (''The password for '' @ login_of (fp_pwPending s) @ '' was updated.''), Invalidate [''ftp'', u]])"
| "ftp_step u (PasswordRefused e) s = (s\<lparr>fp_pwPending := None\<rparr>, [], [Toast ErrorTone ''Could not change password'' e])"
| "ftp_step u (RowPath r) s = (s\<lparr>fp_pathValue := stored_path (Some r), fp_pathTarget := Some r\<rparr>, [], [])"
| "ftp_step u (EditPath v) s = (s\<lparr>fp_pathValue := v\<rparr>, [], [])"
| "ftp_step u ClosePath s = (s\<lparr>fp_pathTarget := None, fp_pathValue := []\<rparr>, [], [])"
| "ftp_step u SubmitPath s =
     (case fp_pathTarget s of
        None \<Rightarrow> (s, [], [])
      | Some r \<Rightarrow> (s\<lparr>fp_pathPending := Some r\<rparr>, [ApiPatch (ftp_row_url u r) [(''path'', JStr (trim (fp_pathValue s)))]], []))"
| "ftp_step u PathChanged s =
     (s\<lparr>fp_pathPending := None, fp_pathTarget := None, fp_pathValue := []\<rparr>, [],
      [Toast Success ''Path updated'' (login_of (fp_pathPending s) @ '' is now scoped to its new path.''), Invalidate [''ftp'', u]])"
| "ftp_step u (PathRefused e) s = (s\<lparr>fp_pathPending := None\<rparr>, [], [Toast ErrorTone ''Could not change path'' e])"
| "ftp_step u (RowFtpDelete r) s = (s\<lparr>fp_delete := Some r\<rparr>, [], [])"
| "ftp_step u CloseFtpDelete s = (s\<lparr>fp_delete := None\<rparr>, [], [])"
| "ftp_step u ConfirmFtpDelete s =
     (case fp_delete s of None \<Rightarrow> (s, [], []) | Some r \<Rightarrow> (s\<lparr>fp_deleting := Some r\<rparr>, [ApiDelete (ftp_row_url u r)], []))"
| "ftp_step u FtpDeleted s =
     (s\<lparr>fp_deleting := None, fp_delete := None\<rparr>, [],
      [Toast Success ''FTP account deleted'' (login_of (fp_deleting s) @ '' was permanently removed.''), Invalidate [''ftp'', u]])"
| "ftp_step u (FtpDeleteRefused e) s = (s\<lparr>fp_deleting := None\<rparr>, [], [Toast ErrorTone ''Could not delete FTP account'' e])"

section \<open>What is sent\<close>

definition ftp_request_ok :: "jsstring \<Rightarrow> api_request \<Rightarrow> bool" where
  "ftp_request_ok u r \<longleftrightarrow>
     (case r of
        ApiPost url b \<Rightarrow> url = ftp_url u \<and>
          (\<exists>l p d. b = [(''label'', JStr l), (''password'', JStr p), (''path'', JStr d)] \<and> l \<noteq> [] \<and> trim l = l \<and>
                   10 \<le> length p \<and> trim d = d)
      | ApiPatch url b \<Rightarrow>
          (\<exists>r p. url = ftp_row_url u r @ ''/password'' \<and> b = [(''password'', JStr p)] \<and> 10 \<le> length p) \<or>
          (\<exists>r d. url = ftp_row_url u r \<and> b = [(''path'', JStr d)] \<and> trim d = d)
      | ApiDelete url \<Rightarrow> (\<exists>r. url = ftp_row_url u r)
      | _ \<Rightarrow> False)"

text \<open>The deletion is a question about one account; the other dialogs take no part in it.\<close>

definition ftp_question :: "jsstring \<Rightarrow> ftp_page \<Rightarrow> jsstring question" where
  "ftp_question u s =
     (case fp_deleting s of
        Some r \<Rightarrow> Carrying (ftp_row_url u r)
      | None \<Rightarrow> (case fp_delete s of Some r \<Rightarrow> Asking (ftp_row_url u r) | None \<Rightarrow> NoQuestion))"

text \<open>One dialog is open at a time, and the one that asks for a deletion stays until it is answered.\<close>

definition ftp_inv :: "ftp_page \<Rightarrow> bool" where
  "ftp_inv s \<longleftrightarrow>
     (fp_deleting s \<noteq> None \<longrightarrow> fp_delete s = fp_deleting s) \<and>
     (fp_delete s \<noteq> None \<longrightarrow> \<not> fp_createOpen s \<and> fp_pwTarget s = None \<and> fp_pathTarget s = None \<and> fp_selected s = None) \<and>
     (fp_selected s \<noteq> None \<longrightarrow> \<not> fp_createOpen s \<and> fp_pwTarget s = None \<and> fp_pathTarget s = None)"

lemma ftp_keep: "ftp_inv s \<Longrightarrow> ftp_offered s e \<Longrightarrow> ftp_inv (fst (ftp_step u e s))"
  by (cases e) (auto simp: ftp_inv_def no_ftp_dialog_def split: option.splits)

lemma ftp_good: "ftp_offered s e \<Longrightarrow> list_all (ftp_request_ok u) (fst (snd (ftp_step u e s)))"
  by (cases e) (auto simp: ftp_request_ok_def ftp_body_def password_typed_def split: option.splits)

lemma ftp_simulates:
  assumes "ftp_inv s" "ftp_offered s e"
  shows "question_step (ftp_question u s) (concat (map deletion_shown (fst (snd (ftp_step u e s))))) (ftp_question u (fst (ftp_step u e s)))"
  using assms
  by (cases e)
     (auto simp: ftp_inv_def no_ftp_dialog_def ftp_question_def deletion_shown_def intro: question_step.intros split: option.splits)

lemma ftp_start: "ftp_inv initial_ftp" "ftp_question u initial_ftp = NoQuestion"
  by (simp_all add: ftp_inv_def ftp_question_def initial_ftp_def)

interpretation ftp: page_contract initial_ftp ftp_offered "ftp_step u" ftp_inv "ftp_request_ok u"
  for u
  by unfold_locales (auto simp: ftp_keep ftp_good ftp_start)

interpretation ftp_removal: page_refinement initial_ftp ftp_offered "ftp_step u" ftp_inv "ftp_question u" deletion_shown NoQuestion question_step
  for u
  by unfold_locales (auto simp: ftp_keep ftp_simulates ftp_start)

text \<open>Every request is complete, and accounts are only removed one at a time after their own question.\<close>

lemma ftp_requests_valid:
  assumes "page_reach initial_ftp ftp_offered (ftp_step u) s sent"
  shows "list_all (ftp_request_ok u) sent \<and> question_run (concat (map deletion_shown sent)) (ftp_question u s)"
  using ftp.reach_inv[OF assms] ftp_removal.refines[OF assms] by blast

text \<open>The password and path dialogs can be closed while their change is awaited; its success then closes,
  and empties, the dialog of another account.\<close>

lemma late_success_closes_other:
  assumes "fp_pwPending s = Some r" "fp_pwTarget s = Some q"
  shows "ftp_offered s PasswordChanged \<and>
    fp_pwTarget (fst (ftp_step u PasswordChanged s)) = None \<and> fp_pwValue (fst (ftp_step u PasswordChanged s)) = []"
  using assms by simp

lemma late_success_reached:
  assumes "r = JObj [(''label'', JStr ''one'')]" "q = JObj [(''label'', JStr ''two'')]"
    "script = [FtpArrive (JObj [(''ftp_accounts'', JArr [r, q])]), RowPassword r, EditPassword ''abcdefghij'', SubmitPassword,
       ClosePassword, RowPassword q, EditPassword ''klm'']"
  shows "\<exists>s sent. page_reach initial_ftp ftp_offered (ftp_step u) s sent \<and> fp_pwPending s = Some r \<and> fp_pwTarget s = Some q"
proof -
  have "page_run ftp_offered (ftp_step u) script (initial_ftp, []) \<noteq> None \<and>
      map_option (\<lambda>(s, sent). (fp_pwPending s, fp_pwTarget s)) (page_run ftp_offered (ftp_step u) script (initial_ftp, [])) =
        Some (Some r, Some q)"
    using assms by (simp add: initial_ftp_def no_ftp_dialog_def ftp_rows_def json_list_def password_typed_def)
  then obtain s sent where "page_run ftp_offered (ftp_step u) script (initial_ftp, []) = Some (s, sent)"
    "fp_pwPending s = Some r" "fp_pwTarget s = Some q" by auto
  with scripted_reach[of ftp_offered "ftp_step u" script initial_ftp s sent] show ?thesis by blast
qed

section \<open>Where the server puts a directory\<close>

text \<open>\<open>os.path.normpath\<close> of an absolute path, as its segments.\<close>

fun place :: "jsstring list \<Rightarrow> jsstring list \<Rightarrow> jsstring list" where
  "place done_segs [] = rev done_segs"
| "place done_segs (x # xs) =
     (if x = [] \<or> x = ''.'' then place done_segs xs
      else if x = ''..'' then place (tl done_segs) xs
      else place (x # done_segs) xs)"

definition path_text :: "jsstring list \<Rightarrow> jsstring" where
  "path_text segs = concat (map (\<lambda>x. CHR ''/'' # x) segs)"

text \<open>\<open>home\<close> is given by its segments; the leading slashes of the request are stripped, and a place
  outside the home is refused.\<close>

definition resolve_path :: "jsstring list \<Rightarrow> jsstring \<Rightarrow> jsstring option" where
  "resolve_path home rel =
     (let segs = place (rev home) (split_on (CHR ''/'') (dropWhile (\<lambda>c. c = CHR ''/'') rel))
      in if take (length home) segs = home then Some (path_text segs) else None)"

definition plain_segment :: "jsstring \<Rightarrow> bool" where
  "plain_segment x \<longleftrightarrow> x \<noteq> [] \<and> x \<noteq> ''.'' \<and> x \<noteq> ''..'' \<and> CHR ''/'' \<notin> set x"

lemma place_plain: "list_all plain_segment xs \<Longrightarrow> place acc xs = rev acc @ xs"
  by (induction xs arbitrary: acc) (auto simp: plain_segment_def)

lemma dropWhile_plain: "list_all plain_segment (x # xs) \<Longrightarrow>
    dropWhile (\<lambda>c. c = CHR ''/'') (join_with ''/'' (x # xs)) = join_with ''/'' (x # xs)"
  by (cases xs; cases x) (auto simp: plain_segment_def)

lemma path_text_join: "xs \<noteq> [] \<Longrightarrow> path_text xs = CHR ''/'' # join_with ''/'' xs"
  by (induction "''/''" xs rule: join_with.induct) (auto simp: path_text_def)

text \<open>What is sent for a plain relative path is that directory of the home.\<close>

lemma relative_resolves:
  assumes "list_all plain_segment segs" "segs \<noteq> []"
  shows "resolve_path home (join_with ''/'' segs) = Some (path_text (home @ segs))"
proof -
  obtain x xs where segs: "segs = x # xs" using assms(2) by (cases segs) auto
  have "split_on (CHR ''/'') (join_with ''/'' segs) = segs"
    by (rule split_on_join) (use assms in \<open>auto simp: list_all_iff plain_segment_def\<close>)
  moreover have "dropWhile (\<lambda>c. c = CHR ''/'') (join_with ''/'' segs) = join_with ''/'' segs"
    using dropWhile_plain[of x xs] assms(1) segs by simp
  ultimately show ?thesis using place_plain[OF assms(1), of "rev home"] by (simp add: resolve_path_def Let_def)
qed

text \<open>The dialog opens with the stored directory, an absolute path. Sent back as it is, its leading
  slash is dropped and the account is moved to a copy of the path below the home.\<close>

lemma unchanged_path_moves:
  assumes "list_all plain_segment home" "list_all plain_segment segs" "home \<noteq> []"
  shows "resolve_path home (path_text (home @ segs)) = Some (path_text (home @ home @ segs))"
proof -
  have ne: "home @ segs \<noteq> []" and plain: "list_all plain_segment (home @ segs)" using assms by auto
  obtain x xs where hs: "home @ segs = x # xs" using ne by (cases "home @ segs") auto
  have "dropWhile (\<lambda>c. c = CHR ''/'') (path_text (home @ segs)) = dropWhile (\<lambda>c. c = CHR ''/'') (join_with ''/'' (home @ segs))"
    using path_text_join[OF ne] by simp
  then have "resolve_path home (path_text (home @ segs)) = resolve_path home (join_with ''/'' (home @ segs))"
    by (simp add: resolve_path_def)
  then show ?thesis using relative_resolves[OF plain ne, of home] by simp
qed

lemma unchanged_path_sent:
  assumes "no_ftp_dialog s" "fp_pathPending s = None" "r \<in> set (ftp_rows s)" "jget r ''path'' = JStr p" "p \<noteq> []" "trim p = p"
    "s1 = fst (ftp_step u (RowPath r) s)"
  shows "ftp_offered s (RowPath r) \<and> ftp_offered s1 SubmitPath \<and>
    fst (snd (ftp_step u SubmitPath s1)) = [ApiPatch (ftp_row_url u r) [(''path'', JStr p)]]"
  using assms by (simp add: stored_path_def json_text_def)

end
