(* ===== verification/Git_Page.thy ===== *)
theory Git_Page
  imports Page_Machine
begin

text \<open>
  \<open>pages/customer/Git.jsx\<close>: the repositories of a customer, the directory a push is checked out to,
  and the log of pushes. Of the server, the two checks of \<open>shared/validation.py\<close> a request meets are
  written out, to compare them with what the forms send.
\<close>

section \<open>The page\<close>

definition hostname_or :: "jsstring \<Rightarrow> jsstring" where
  "hostname_or host = or_string (Some host) ''<this-server>''"

definition cloneUrl :: "jsstring \<Rightarrow> jsstring \<Rightarrow> jsstring \<Rightarrow> jsstring" where
  "cloneUrl host username name =
     (if username = [] \<or> name = [] then []
      else ''ssh://'' @ username @ ''@'' @ hostname_or host @ ''/home/'' @ username @ ''/repos/'' @ name @ ''.git'')"

record git_page =
  gp_data :: json
  gp_createOpen :: bool
  gp_name :: jsstring
  gp_creating :: bool
  gp_deployTarget :: "json option"
  gp_deployValue :: jsstring
  gp_deploying :: "json option" \<comment> \<open>the row of the change under way\<close>
  gp_log :: "json option"
  gp_delete :: "json option"
  gp_deleting :: "json option"
  gp_selected :: "json option"

definition initial_git :: git_page where
  "initial_git =
     \<lparr>gp_data = JUndef, gp_createOpen = False, gp_name = [], gp_creating = False, gp_deployTarget = None, gp_deployValue = [],
      gp_deploying = None, gp_log = None, gp_delete = None, gp_deleting = None, gp_selected = None\<rparr>"

definition git_url :: "jsstring \<Rightarrow> jsstring" where
  "git_url u = ''/api/v1/accounts/'' @ u @ ''/git''"

definition repo_name :: "json \<Rightarrow> jsstring" where
  "repo_name r = js_String (jget r ''name'')"

definition repo_url :: "jsstring \<Rightarrow> json \<Rightarrow> jsstring" where
  "repo_url u r = git_url u @ ''/'' @ repo_name r"

definition repo_rows :: "git_page \<Rightarrow> json list" where
  "repo_rows s = json_list (jget (gp_data s) ''repos'')"

definition repo_of :: "json option \<Rightarrow> jsstring" where
  "repo_of r = (case r of Some r \<Rightarrow> repo_name r | None \<Rightarrow> [])"

definition stored_target :: "json option \<Rightarrow> jsstring" where
  "stored_target r = (case r of Some r \<Rightarrow> json_text (jget r ''deploy_target'') | None \<Rightarrow> [])"

datatype git_event =
    ReposArrive json
  | OpenRepoForm
  | CloseRepoForm
  | EditRepoName jsstring
  | SubmitRepo
  | RepoCreated json
  | RepoRefused jsstring
  | SelectRepo json
  | CloseRepo
  | SelectedDeploy
  | SelectedLog
  | SelectedRepoDelete
  | RowDeploy json
  | EditDeploy jsstring
  | CloseDeploy
  | SubmitDeploy
  | DeploySaved
  | DeployRefused jsstring
  | RowLog json
  | CloseLog
  | RowRepoDelete json
  | CloseRepoDelete
  | ConfirmRepoDelete
  | RepoDeleted
  | RepoDeleteRefused jsstring

definition no_git_dialog :: "git_page \<Rightarrow> bool" where
  "no_git_dialog s \<longleftrightarrow>
     \<not> gp_createOpen s \<and> gp_deployTarget s = None \<and> gp_log s = None \<and> gp_delete s = None \<and> gp_selected s = None"

fun git_offered :: "git_page \<Rightarrow> git_event \<Rightarrow> bool" where
  "git_offered s (ReposArrive d) = True"
| "git_offered s OpenRepoForm = no_git_dialog s"
| "git_offered s CloseRepoForm = gp_createOpen s"
| "git_offered s (EditRepoName n) = gp_createOpen s"
| "git_offered s SubmitRepo = (gp_createOpen s \<and> \<not> gp_creating s \<and> trim (gp_name s) \<noteq> [])"
| "git_offered s (RepoCreated r) = gp_creating s"
| "git_offered s (RepoRefused e) = gp_creating s"
| "git_offered s (SelectRepo r) = (no_git_dialog s \<and> r \<in> set (repo_rows s))"
| "git_offered s CloseRepo = (gp_selected s \<noteq> None)"
| "git_offered s SelectedDeploy = (gp_selected s \<noteq> None)"
| "git_offered s SelectedLog = (gp_selected s \<noteq> None)"
| "git_offered s SelectedRepoDelete = (gp_selected s \<noteq> None)"
| "git_offered s (RowDeploy r) = (no_git_dialog s \<and> r \<in> set (repo_rows s))"
| "git_offered s (EditDeploy v) = (gp_deployTarget s \<noteq> None)"
| "git_offered s CloseDeploy = (gp_deployTarget s \<noteq> None)"
| "git_offered s SubmitDeploy = (gp_deployTarget s \<noteq> None \<and> gp_deploying s = None)"
| "git_offered s DeploySaved = (gp_deploying s \<noteq> None)"
| "git_offered s (DeployRefused e) = (gp_deploying s \<noteq> None)"
| "git_offered s (RowLog r) = (no_git_dialog s \<and> r \<in> set (repo_rows s))"
| "git_offered s CloseLog = (gp_log s \<noteq> None)"
| "git_offered s (RowRepoDelete r) = (no_git_dialog s \<and> r \<in> set (repo_rows s))"
| "git_offered s CloseRepoDelete = (gp_delete s \<noteq> None \<and> gp_deleting s = None)"
| "git_offered s ConfirmRepoDelete = (gp_delete s \<noteq> None \<and> gp_deleting s = None)"
| "git_offered s RepoDeleted = (gp_deleting s \<noteq> None)"
| "git_offered s (RepoDeleteRefused e) = (gp_deleting s \<noteq> None)"

fun git_step :: "jsstring \<Rightarrow> (git_event, git_page) page_step" where
  "git_step u (ReposArrive d) s = (s\<lparr>gp_data := d\<rparr>, [], [])"
| "git_step u OpenRepoForm s = (s\<lparr>gp_createOpen := True\<rparr>, [], [])"
| "git_step u CloseRepoForm s = (s\<lparr>gp_createOpen := False\<rparr>, [], [])"
| "git_step u (EditRepoName n) s = (s\<lparr>gp_name := n\<rparr>, [], [])"
| "git_step u SubmitRepo s = (s\<lparr>gp_creating := True\<rparr>, [ApiPost (git_url u) [(''name'', JStr (trim (gp_name s)))]], [])"
| "git_step u (RepoCreated r) s =
     (s\<lparr>gp_creating := False, gp_createOpen := False, gp_name := []\<rparr>, [],
      [Toast Success ''Repository created'' (js_String (js_or (jget r ''name'') (JStr (gp_name s))) @ '' is ready to push to.''),
       Invalidate [''git'', u]])"
| "git_step u (RepoRefused e) s = (s\<lparr>gp_creating := False\<rparr>, [], [Toast ErrorTone ''Could not create repository'' e])"
| "git_step u (SelectRepo r) s = (s\<lparr>gp_selected := Some r\<rparr>, [], [])"
| "git_step u CloseRepo s = (s\<lparr>gp_selected := None\<rparr>, [], [])"
| "git_step u SelectedDeploy s =
     (s\<lparr>gp_deployValue := stored_target (gp_selected s), gp_deployTarget := gp_selected s, gp_selected := None\<rparr>, [], [])"
| "git_step u SelectedLog s = (s\<lparr>gp_log := gp_selected s, gp_selected := None\<rparr>, [], [])"
| "git_step u SelectedRepoDelete s = (s\<lparr>gp_delete := gp_selected s, gp_selected := None\<rparr>, [], [])"
| "git_step u (RowDeploy r) s = (s\<lparr>gp_deployValue := stored_target (Some r), gp_deployTarget := Some r\<rparr>, [], [])"
| "git_step u (EditDeploy v) s = (s\<lparr>gp_deployValue := v\<rparr>, [], [])"
| "git_step u CloseDeploy s = (s\<lparr>gp_deployTarget := None, gp_deployValue := []\<rparr>, [], [])"
| "git_step u SubmitDeploy s =
     (case gp_deployTarget s of
        None \<Rightarrow> (s, [], [])
      | Some r \<Rightarrow> (s\<lparr>gp_deploying := Some r\<rparr>,
                  [ApiPatch (repo_url u r @ ''/deploy-target'') [(''deploy_target'', JStr (trim (gp_deployValue s)))]], []))"
| "git_step u DeploySaved s =
     (s\<lparr>gp_deploying := None, gp_deployTarget := None, gp_deployValue := []\<rparr>, [],
      [Toast Success ''Deploy target updated''
         (''Pushes to '' @ repo_of (gp_deploying s) @ '' now check out to the configured directory.''),
       Invalidate [''git'', u]])"
| "git_step u (DeployRefused e) s = (s\<lparr>gp_deploying := None\<rparr>, [], [Toast ErrorTone ''Could not update deploy target'' e])"
| "git_step u (RowLog r) s = (s\<lparr>gp_log := Some r\<rparr>, [], [])"
| "git_step u CloseLog s = (s\<lparr>gp_log := None\<rparr>, [], [])"
| "git_step u (RowRepoDelete r) s = (s\<lparr>gp_delete := Some r\<rparr>, [], [])"
| "git_step u CloseRepoDelete s = (s\<lparr>gp_delete := None\<rparr>, [], [])"
| "git_step u ConfirmRepoDelete s =
     (case gp_delete s of None \<Rightarrow> (s, [], []) | Some r \<Rightarrow> (s\<lparr>gp_deleting := Some r\<rparr>, [ApiDelete (repo_url u r)], []))"
| "git_step u RepoDeleted s =
     (s\<lparr>gp_deleting := None, gp_delete := None\<rparr>, [],
      [Toast Success ''Repository deleted'' (repo_of (gp_deleting s) @ '' was permanently removed.''), Invalidate [''git'', u]])"
| "git_step u (RepoDeleteRefused e) s = (s\<lparr>gp_deleting := None\<rparr>, [], [Toast ErrorTone ''Could not delete repository'' e])"

section \<open>What is sent\<close>

definition git_request_ok :: "jsstring \<Rightarrow> api_request \<Rightarrow> bool" where
  "git_request_ok u r \<longleftrightarrow>
     (case r of
        ApiPost url b \<Rightarrow> url = git_url u \<and> (\<exists>n. b = [(''name'', JStr n)] \<and> n \<noteq> [] \<and> trim n = n)
      | ApiPatch url b \<Rightarrow> (\<exists>r d. url = repo_url u r @ ''/deploy-target'' \<and> b = [(''deploy_target'', JStr d)] \<and> trim d = d)
      | ApiDelete url \<Rightarrow> (\<exists>r. url = repo_url u r)
      | _ \<Rightarrow> False)"

definition git_question :: "jsstring \<Rightarrow> git_page \<Rightarrow> jsstring question" where
  "git_question u s =
     (case gp_deleting s of
        Some r \<Rightarrow> Carrying (repo_url u r)
      | None \<Rightarrow> (case gp_delete s of Some r \<Rightarrow> Asking (repo_url u r) | None \<Rightarrow> NoQuestion))"

definition git_inv :: "git_page \<Rightarrow> bool" where
  "git_inv s \<longleftrightarrow>
     (gp_deleting s \<noteq> None \<longrightarrow> gp_delete s = gp_deleting s) \<and>
     (gp_delete s \<noteq> None \<longrightarrow> gp_selected s = None)"

lemma git_keep: "git_inv s \<Longrightarrow> git_offered s e \<Longrightarrow> git_inv (fst (git_step u e s))"
  by (cases e) (auto simp: git_inv_def no_git_dialog_def split: option.splits)

lemma git_good: "git_offered s e \<Longrightarrow> list_all (git_request_ok u) (fst (snd (git_step u e s)))"
  by (cases e) (auto simp: git_request_ok_def split: option.splits)

lemma git_simulates:
  assumes "git_inv s" "git_offered s e"
  shows "question_step (git_question u s) (concat (map deletion_shown (fst (snd (git_step u e s))))) (git_question u (fst (git_step u e s)))"
  using assms
  by (cases e)
     (auto simp: git_inv_def no_git_dialog_def git_question_def deletion_shown_def intro: question_step.intros split: option.splits)

lemma git_start: "git_inv initial_git" "git_question u initial_git = NoQuestion"
  by (simp_all add: git_inv_def git_question_def initial_git_def)

interpretation git: page_contract initial_git git_offered "git_step u" git_inv "git_request_ok u"
  for u
  by unfold_locales (auto simp: git_keep git_good git_start)

interpretation git_removal: page_refinement initial_git git_offered "git_step u" git_inv "git_question u" deletion_shown NoQuestion question_step
  for u
  by unfold_locales (auto simp: git_keep git_simulates git_start)

lemma git_requests_valid:
  assumes "page_reach initial_git git_offered (git_step u) s sent"
  shows "list_all (git_request_ok u) sent \<and> question_run (concat (map deletion_shown sent)) (git_question u s)"
  using git.reach_inv[OF assms] git_removal.refines[OF assms] by blast

section \<open>What the server admits\<close>

text \<open>\<open>[a-z][a-z0-9-]{0,62}\<close>\<close>

definition server_repo_name :: "jsstring \<Rightarrow> bool" where
  "server_repo_name s \<longleftrightarrow>
     s \<noteq> [] \<and> is_lower (hd s) \<and> list_all (\<lambda>c. is_lower c \<or> is_digit c \<or> c = CHR ''-'') (tl s) \<and> length s \<le> 63"

definition strip_char :: "char \<Rightarrow> jsstring \<Rightarrow> jsstring" where
  "strip_char c s = rev (dropWhile (\<lambda>x. x = c) (rev (dropWhile (\<lambda>x. x = c) s)))"

text \<open>\<open>validate_protected_dir_relative_path\<close>; \<open>strip\<close> agrees with \<open>trim\<close> on the characters left.\<close>

definition server_directory :: "jsstring \<Rightarrow> jsstring option" where
  "server_directory v =
     (let c = strip_char (CHR ''/'') (trim v)
      in if trim v = [] \<or> c = [] \<or> \<not> list_all (\<lambda>x. is_lower x \<or> is_upper x \<or> is_digit x \<or> x \<in> set ''_./-'') c then None else Some c)"

text \<open>The dialog says that a blank target switches the deployment off; what it then sends is refused.\<close>

lemma blank_target_refused:
  assumes "gp_deployTarget s = Some r" "gp_deploying s = None" "trim (gp_deployValue s) = []"
  shows "git_offered s SubmitDeploy \<and>
    fst (snd (git_step u SubmitDeploy s)) = [ApiPatch (repo_url u r @ ''/deploy-target'') [(''deploy_target'', JStr [])]] \<and>
    server_directory [] = None"
  using assms by (simp add: server_directory_def trim_def)

text \<open>A name the server admits is one segment of the address, and the clone address shows it as it is.\<close>

lemma repo_name_unreserved: "server_repo_name s \<Longrightarrow> encodeURIComponent s = s"
  by (rule encode_unreserved) (cases s; auto simp: server_repo_name_def unreserved_def list_all_iff)

section \<open>The log of pushes\<close>

definition push_log_url :: "jsstring \<Rightarrow> json \<Rightarrow> jsstring" where
  "push_log_url u r = repo_url u r @ ''/push-log''"

definition push_log_text :: "json \<Rightarrow> jsstring" where
  "push_log_text d =
     (let lines = json_list (jget d ''lines'') in if lines = [] then ''No pushes yet.'' else js_join [newline] lines)"

end
