(* ===== verification/Audit_Page.thy ===== *)
theory Audit_Page
  imports Page_Machine Url_Params
begin

text \<open>
  \<open>pages/admin/AuditLog.jsx\<close>: the audit log. What is asked for is held by the address of the page:
  five filters and a page number. The form holds a draft, which is reset from the address whenever that
  changes, by an effect that runs after the render. The texts of an address are its names and values
  (\<open>Url_Params\<close>); they are joined to the query the server is asked.
\<close>

section \<open>The address\<close>

definition AUDIT_PAGE_SIZE :: nat where "AUDIT_PAGE_SIZE = 50"

definition filter_names :: "jsstring list" where
  "filter_names = [''q'', ''actor'', ''op'', ''result'', ''include_reads'']"

definition EMPTY_FILTERS :: params where
  "EMPTY_FILTERS = map (\<lambda>k. (k, [])) filter_names"

definition applied_filters :: "params \<Rightarrow> params" where
  "applied_filters ps = map (\<lambda>k. (k, or_string (map_of ps k) [])) filter_names"

definition audit_page_of :: "params \<Rightarrow> int" where
  "audit_page_of ps =
     max 1 (case parseInt10 (or_string (map_of ps ''page'') ''1'') of None \<Rightarrow> 1 | Some n \<Rightarrow> if n = 0 then 1 else n)"

definition set_given :: "params \<Rightarrow> params" where
  "set_given fs = fold (\<lambda>(k, v) ps. if v = [] then ps else param_set k v ps) fs []"

definition buildParams :: "params \<Rightarrow> int \<Rightarrow> bool \<Rightarrow> params" where
  "buildParams filters page withPaging =
     (let p = set_given filters
      in if withPaging then param_set ''page_size'' (show_nat AUDIT_PAGE_SIZE) (param_set ''page'' (show_int page) p) else p)"

definition apply_draft :: "params \<Rightarrow> params" where
  "apply_draft draft = set_given draft"

definition go_page :: "int \<Rightarrow> params \<Rightarrow> params" where
  "go_page n ps = (if n \<le> 1 then param_delete ''page'' ps else param_set ''page'' (show_int n) ps)"

text \<open>The filters are read back as they were applied, whatever else the address held.\<close>

lemma given_lookup:
  assumes "distinct (map fst fs)"
  shows "map_of (fold (\<lambda>(k, v) ps. if v = [] then ps else param_set k v ps) fs ps) j =
    (case map_of fs j of Some v \<Rightarrow> if v = [] then map_of ps j else Some v | None \<Rightarrow> map_of ps j)"
  using assms
proof (induction fs arbitrary: ps)
  case (Cons f fs)
  then have "map_of fs (fst f) = None" by (auto simp: map_of_eq_None_iff)
  with Cons show ?case by (cases f) (auto simp: param_simps split: option.splits)
qed simp

definition draft_ok :: "params \<Rightarrow> bool" where
  "draft_ok d \<longleftrightarrow> map fst d = filter_names"

lemma filter_names_distinct: "distinct filter_names"
  by (simp add: filter_names_def)

lemma page_not_filter: "''page'' \<notin> set filter_names"
  by (simp add: filter_names_def)

lemma draft_names: "draft_ok d \<Longrightarrow> k \<in> set filter_names \<longleftrightarrow> map_of d k \<noteq> None"
  unfolding draft_ok_def map_of_eq_None_iff by (metis image_set)

lemma draft_lookups: "draft_ok d \<Longrightarrow> map (\<lambda>k. (k, the (map_of d k))) filter_names = d"
proof -
  assume d: "draft_ok d"
  then have "distinct (map fst d)" using filter_names_distinct by (simp add: draft_ok_def)
  then have "map (\<lambda>k. (k, the (map_of d k))) (map fst d) = d"
    by (auto intro!: map_idI simp: comp_def)
  with d show ?thesis by (simp add: draft_ok_def)
qed

lemma apply_lookup: "draft_ok d \<Longrightarrow> map_of (apply_draft d) k = (case map_of d k of Some v \<Rightarrow> if v = [] then None else Some v | None \<Rightarrow> None)"
proof -
  assume "draft_ok d"
  then have "distinct (map fst d)" using filter_names_distinct by (simp only: draft_ok_def)
  from given_lookup[OF this, of "[]" k] show ?thesis by (cases "map_of d k") (simp_all add: apply_draft_def set_given_def)
qed

lemma applied_apply: "draft_ok d \<Longrightarrow> applied_filters (apply_draft d) = d"
proof -
  assume d: "draft_ok d"
  have "or_string (map_of (apply_draft d) k) [] = the (map_of d k)" if "k \<in> set filter_names" for k
  proof -
    from that draft_names[OF d, of k] have "map_of d k \<noteq> None" by (rule iffD1[rotated])
    then obtain v where v: "map_of d k = Some v" by (rule not_None_eq[THEN iffD1, THEN exE])
    show ?thesis unfolding apply_lookup[OF d] v by (simp add: or_string_def)
  qed
  then have "applied_filters (apply_draft d) = map (\<lambda>k. (k, the (map_of d k))) filter_names"
    by (simp add: applied_filters_def)
  with draft_lookups[OF d] show ?thesis by simp
qed

lemma apply_first_page: "draft_ok d \<Longrightarrow> audit_page_of (apply_draft d) = 1"
proof -
  assume d: "draft_ok d"
  then have "map_of d ''page'' = None" using page_not_filter draft_names by blast
  then have "map_of (apply_draft d) ''page'' = None" using apply_lookup[OF d] by simp
  moreover have "parseInt10 ''1'' = Some 1" by code_simp
  ultimately show ?thesis by (simp add: audit_page_of_def or_string_def)
qed

lemma go_page_filters: "applied_filters (go_page n ps) = applied_filters ps"
  using page_not_filter by (auto simp: applied_filters_def go_page_def param_simps)

lemma go_page_page: "audit_page_of (go_page n ps) = max 1 n"
proof (cases "n \<le> 1")
  case True
  have "parseInt10 ''1'' = Some 1" by code_simp
  then show ?thesis using True by (simp add: audit_page_of_def go_page_def param_simps or_string_def)
next
  case False
  then have "show_int n \<noteq> []" by (simp add: show_int_def)
  then show ?thesis using False by (simp add: audit_page_of_def go_page_def param_simps or_string_def)
qed

section \<open>The page\<close>

record audit_page =
  au_params :: params
  au_draft :: params
  au_data :: json
  au_fetching :: bool
  au_detail :: "json option"
  au_detailData :: json
  au_copied :: bool

definition initial_audit :: "params \<Rightarrow> audit_page" where
  "initial_audit ps =
     \<lparr>au_params = ps, au_draft = applied_filters ps, au_data = JUndef, au_fetching = False, au_detail = None, au_detailData = JUndef,
      au_copied = False\<rparr>"

definition audit_entries :: "audit_page \<Rightarrow> json list" where
  "audit_entries s = json_list (jget (au_data s) ''entries'')"

definition audit_total :: "audit_page \<Rightarrow> nat" where
  "audit_total s = (case jget (au_data s) ''total'' of JNum n \<Rightarrow> nat n | _ \<Rightarrow> 0)"

definition audit_pages :: "nat \<Rightarrow> nat" where
  "audit_pages n = max 1 ((n + AUDIT_PAGE_SIZE - 1) div AUDIT_PAGE_SIZE)"

definition rangeStart :: "nat \<Rightarrow> int \<Rightarrow> int" where
  "rangeStart n page = (if n = 0 then 0 else (page - 1) * int AUDIT_PAGE_SIZE + 1)"

definition rangeEnd :: "nat \<Rightarrow> int \<Rightarrow> int" where
  "rangeEnd n page = min (page * int AUDIT_PAGE_SIZE) (int n)"

definition audit_query :: "params \<Rightarrow> params" where
  "audit_query ps = buildParams (applied_filters ps) (audit_page_of ps) True"

definition export_query :: "params \<Rightarrow> params" where
  "export_query ps = buildParams (applied_filters ps) (audit_page_of ps) False"

text \<open>\<open>URLSearchParams.toString\<close>: spaces as plus signs, what is not a letter, digit or one of \<open>*-._\<close> as
  percent triplets.\<close>

definition form_char :: "char \<Rightarrow> jsstring" where
  "form_char c =
     (if c = CHR '' '' then ''+''
      else if c \<in> set ''!~()'' \<or> c = CHR 0x27 then percent_byte (code c) else encode_char c)"

definition query_text :: "params \<Rightarrow> jsstring" where
  "query_text ps = join_with ''&'' (map (\<lambda>(k, v). concat (map form_char k) @ ''='' @ concat (map form_char v)) ps)"

definition audit_url :: "params \<Rightarrow> jsstring" where
  "audit_url ps = ''/api/v1/audit-log?'' @ query_text (audit_query ps)"

definition copied_names :: "(jsstring \<times> jsstring) list" where
  "copied_names =
     [(''id'', ''id''), (''created_at'', ''created_at''), (''actor'', ''actor''), (''role'', ''role''), (''source_ip'', ''source_ip''),
      (''operation'', ''op''), (''target'', ''target''), (''result'', ''result''), (''detail'', ''detail''), (''request_id'', ''request_id''),
      (''reference'', ''reference''), (''duration_ms'', ''duration_ms''), (''changes'', ''changes''), (''steps'', ''steps'')]"

text \<open>The copied object; \<open>JSON.stringify\<close> leaves undefined fields out.\<close>

definition copied_entry :: "json \<Rightarrow> json" where
  "copied_entry e = JObj (filter (\<lambda>(k, v). v \<noteq> JUndef) (map (\<lambda>(k, f). (k, jget e f)) copied_names))"

datatype audit_event =
    AddressChanges params
  | FetchStarts
  | EntriesArrive json
  | EditFilter jsstring jsstring
  | ApplyFilters
  | ClearFilters
  | PreviousPage
  | NextPage
  | ExportCsv
  | OpenDetail json
  | CloseDetail
  | DetailArrives json
  | CopyDetails bool \<comment> \<open>whether the clipboard accepts the text\<close>
  | CopyFades

definition result_choices :: "jsstring list" where
  "result_choices = [[], ''ok'', ''failed'']"

definition reads_choices :: "jsstring list" where
  "reads_choices = [[], ''true'']"

fun audit_offered :: "audit_page \<Rightarrow> audit_event \<Rightarrow> bool" where
  "audit_offered s (AddressChanges ps) = True"
| "audit_offered s FetchStarts = True"
| "audit_offered s (EntriesArrive d) = True"
| "audit_offered s (EditFilter k v) =
     (au_detail s = None \<and> k \<in> set filter_names \<and> (k = ''result'' \<longrightarrow> v \<in> set result_choices) \<and>
      (k = ''include_reads'' \<longrightarrow> v \<in> set reads_choices))"
| "audit_offered s ApplyFilters = (au_detail s = None \<and> \<not> au_fetching s)"
| "audit_offered s ClearFilters = (au_detail s = None)"
| "audit_offered s PreviousPage = (au_detail s = None \<and> 1 < audit_page_of (au_params s) \<and> \<not> au_fetching s)"
| "audit_offered s NextPage =
     (au_detail s = None \<and> audit_page_of (au_params s) < int (audit_pages (audit_total s)) \<and> \<not> au_fetching s)"
| "audit_offered s ExportCsv = (au_detail s = None)"
| "audit_offered s (OpenDetail i) = (au_detail s = None \<and> i \<in> (\<lambda>e. jget e ''id'') ` set (audit_entries s))"
| "audit_offered s CloseDetail = (au_detail s \<noteq> None)"
| "audit_offered s (DetailArrives d) = (au_detail s \<noteq> None)"
| "audit_offered s (CopyDetails ok) = (au_detail s \<noteq> None \<and> truthy (au_detailData s))"
| "audit_offered s CopyFades = au_copied s"

text \<open>A change of the address starts a request, unless it asks for the same.\<close>

definition go_to :: "params \<Rightarrow> audit_page \<Rightarrow> audit_page" where
  "go_to ps s =
     s\<lparr>au_params := ps, au_draft := (if query_text ps = query_text (au_params s) then au_draft s else applied_filters ps),
       au_fetching := au_fetching s \<or> audit_query ps \<noteq> audit_query (au_params s)\<rparr>"

fun audit_step :: "(audit_event, audit_page) page_step" where
  "audit_step (AddressChanges ps) s = (go_to ps s, [], [])"
| "audit_step FetchStarts s = (s\<lparr>au_fetching := True\<rparr>, [], [])"
| "audit_step (EntriesArrive d) s = (s\<lparr>au_data := d, au_fetching := False\<rparr>, [], [])"
| "audit_step (EditFilter k v) s = (s\<lparr>au_draft := AList.update k v (au_draft s)\<rparr>, [], [])"
| "audit_step ApplyFilters s = (go_to (apply_draft (au_draft s)) s, [], [])"
| "audit_step ClearFilters s = (go_to [] (s\<lparr>au_draft := EMPTY_FILTERS\<rparr>), [], [])"
| "audit_step PreviousPage s = (go_to (go_page (max 1 (audit_page_of (au_params s) - 1)) (au_params s)) s, [], [])"
| "audit_step NextPage s =
     (go_to (go_page (min (int (audit_pages (audit_total s))) (audit_page_of (au_params s) + 1)) (au_params s)) s, [], [])"
| "audit_step ExportCsv s = (s, [OpenWindow (''/api/v1/audit-log/export.csv?'' @ query_text (export_query (au_params s)))], [])"
| "audit_step (OpenDetail i) s = (s\<lparr>au_copied := False, au_detail := Some i, au_detailData := JUndef\<rparr>, [], [])"
| "audit_step CloseDetail s = (s\<lparr>au_detail := None\<rparr>, [], [])"
| "audit_step (DetailArrives d) s = (s\<lparr>au_detailData := d\<rparr>, [], [])"
| "audit_step (CopyDetails ok) s = (s\<lparr>au_copied := au_copied s \<or> ok\<rparr>, [], [])"
| "audit_step CopyFades s = (s\<lparr>au_copied := False\<rparr>, [], [])"

definition audit_inv :: "audit_page \<Rightarrow> bool" where
  "audit_inv s \<longleftrightarrow> draft_ok (au_draft s)"

lemma applied_ok: "draft_ok (applied_filters ps)"
  by (simp add: draft_ok_def applied_filters_def comp_def)

lemma empty_ok: "draft_ok EMPTY_FILTERS"
  by (simp add: draft_ok_def EMPTY_FILTERS_def comp_def)

lemma update_ok: "draft_ok d \<Longrightarrow> k \<in> set filter_names \<Longrightarrow> draft_ok (AList.update k v d)"
  by (auto simp: draft_ok_def update_keys)

lemma go_to_ok: "draft_ok (au_draft s) \<Longrightarrow> draft_ok (au_draft (go_to ps s))"
  by (simp add: go_to_def applied_ok)

definition audit_request_ok :: "api_request \<Rightarrow> bool" where
  "audit_request_ok r \<longleftrightarrow> (\<exists>ps. r = OpenWindow (''/api/v1/audit-log/export.csv?'' @ query_text (export_query ps)))"

interpretation audit: page_contract "initial_audit ps" audit_offered audit_step audit_inv audit_request_ok
  for ps
proof unfold_locales
  show "audit_inv (initial_audit ps)" by (simp add: audit_inv_def initial_audit_def applied_ok)
  show "audit_inv s \<Longrightarrow> audit_offered s e \<Longrightarrow> audit_inv (fst (audit_step e s))" for s e
    by (cases e) (auto simp: audit_inv_def go_to_ok empty_ok update_ok)
  show "audit_inv s \<Longrightarrow> audit_offered s e \<Longrightarrow> list_all audit_request_ok (fst (snd (audit_step e s)))" for s e
    by (cases e) (auto simp: audit_request_ok_def)
qed

text \<open>Searching asks for the first page with exactly the filters that were filled in, and the form goes
  on showing them; turning pages keeps the filters.\<close>

theorem audit_search_exact:
  assumes "page_reach (initial_audit ps) audit_offered audit_step s sent"
    "audit_offered s ApplyFilters" "s1 = fst (audit_step ApplyFilters s)"
  shows "applied_filters (au_params s1) = au_draft s \<and> au_draft s1 = au_draft s \<and> audit_page_of (au_params s1) = 1 \<and>
    applied_filters (au_params (fst (audit_step NextPage s1))) = au_draft s \<and>
    applied_filters (au_params (fst (audit_step PreviousPage s1))) = au_draft s"
proof -
  have d: "draft_ok (au_draft s)" using audit.reach_inv[OF assms(1)] by (simp add: audit_inv_def)
  have p: "au_params s1 = apply_draft (au_draft s)" using assms(3) by (simp add: go_to_def)
  have "au_draft s1 = au_draft s" using assms(3) applied_apply[OF d] by (simp add: go_to_def)
  moreover have "au_params (fst (audit_step NextPage s1)) = go_page (min (int (audit_pages (audit_total s1))) (audit_page_of (au_params s1) + 1)) (au_params s1)"
    "au_params (fst (audit_step PreviousPage s1)) = go_page (max 1 (audit_page_of (au_params s1) - 1)) (au_params s1)"
    by (simp_all add: go_to_def)
  ultimately show ?thesis using applied_apply[OF d] apply_first_page[OF d] by (simp add: p go_page_filters)
qed

theorem audit_search_exact_witness:
  "\<exists>s sent. page_reach (initial_audit []) audit_offered audit_step s sent \<and>
    applied_filters (au_params (fst (audit_step ApplyFilters s))) = au_draft s \<and> map_of (au_draft s) ''actor'' = Some ''admin''"
proof -
  let ?script = "[EditFilter ''actor'' ''admin'']"
  have "map_option (\<lambda>(s, sent). (au_detail s, au_fetching s, map_of (au_draft s) ''actor''))
      (page_run audit_offered audit_step ?script (initial_audit [], [])) = Some (None, False, Some ''admin'')"
    by code_simp
  then obtain x where x: "page_run audit_offered audit_step ?script (initial_audit [], []) = Some x"
    "(case x of (s, sent) \<Rightarrow> (au_detail s, au_fetching s, map_of (au_draft s) ''actor'')) = (None, False, Some ''admin'')"
    by (auto simp only: map_option_eq_Some)
  obtain s sent where r: "page_run audit_offered audit_step ?script (initial_audit [], []) = Some (s, sent)"
    and "(au_detail s, au_fetching s, map_of (au_draft s) ''actor'') = (None, False, Some ''admin'')"
    using x by (cases x) simp
  then have s: "au_detail s = None" "\<not> au_fetching s" "map_of (au_draft s) ''actor'' = Some ''admin''" by simp_all
  have o: "audit_offered s ApplyFilters" using s by simp
  from audit_search_exact[OF scripted_reach[OF r] o refl] scripted_reach[OF r] s(3) show ?thesis by blast
qed

section \<open>Pages\<close>

text \<open>The pages up to the last cover the entries without gap or overlap.\<close>

lemma audit_ranges:
  assumes "0 < n" "1 \<le> p" "p \<le> int (audit_pages n)"
  shows "rangeStart n p \<le> rangeEnd n p" "p < int (audit_pages n) \<Longrightarrow> rangeStart n (p + 1) = rangeEnd n p + 1"
    "p = int (audit_pages n) \<Longrightarrow> rangeEnd n p = int n"
  using assms by (auto simp: rangeStart_def rangeEnd_def audit_pages_def AUDIT_PAGE_SIZE_def)

text \<open>A page beyond the last, which an address can name, shows a range that ends before it starts, and
  the message that no entries match the filters.\<close>

lemma page_beyond_last:
  assumes "0 < n" "int (audit_pages n) < p"
  shows "rangeEnd n p < rangeStart n p"
  using assms by (auto simp: rangeStart_def rangeEnd_def audit_pages_def AUDIT_PAGE_SIZE_def)

end
