(* ===== verification/Redis_Page.thy ===== *)
theory Redis_Page
  imports Page_Machine Js_Numbers
begin

text \<open>
  \<open>pages/customer/Redis.jsx\<close>: the Redis instance of an account. The page keeps the state of the server
  as it was last read, asks for it again every five seconds while the instance is enabled, and shows the
  stored memory limit in its form whenever that limit changes. Clearing the instance and disabling it
  go through confirmation dialogs (\<open>Ui_Kit\<close>) that ask for a word to be typed. The browser's own check of
  the number field only refuses more than \<open>saveMem\<close> does.
\<close>

section \<open>The page\<close>

definition MIN_MEM :: int where "MIN_MEM = 16"

definition MAX_MEM :: int where "MAX_MEM = 4096"

record redis_page =
  rd_status :: json
  rd_connOpen :: bool
  rd_flushOpen :: bool
  rd_flushDialog :: confirm_state
  rd_flushing :: bool
  rd_disableOpen :: bool
  rd_disableDialog :: confirm_state
  rd_disabling :: bool
  rd_memValue :: jsstring
  rd_memError :: jsstring
  rd_saving :: "int option"
  rd_enabling :: bool

definition initial_redis :: redis_page where
  "initial_redis =
     \<lparr>rd_status = JUndef, rd_connOpen = False, rd_flushOpen = False, rd_flushDialog = fresh_confirm, rd_flushing = False,
      rd_disableOpen = False, rd_disableDialog = fresh_confirm, rd_disabling = False, rd_memValue = [], rd_memError = [],
      rd_saving = None, rd_enabling = False\<rparr>"

definition redis_provisioned :: "redis_page \<Rightarrow> bool" where
  "redis_provisioned s \<longleftrightarrow> truthy (jget (rd_status s) ''provisioned'')"

definition redis_enabled :: "redis_page \<Rightarrow> bool" where
  "redis_enabled s \<longleftrightarrow> truthy (jget (rd_status s) ''enabled'')"

definition redis_running :: "redis_page \<Rightarrow> bool" where
  "redis_running s \<longleftrightarrow> redis_enabled s \<and> jget (rd_status s) ''active'' = JStr ''active''"

definition redis_poll :: "json \<Rightarrow> nat option" where
  "redis_poll d = (if truthy (jget d ''enabled'') then Some 5000 else None)"

text \<open>A new state of the server, and the effect that follows a change of its memory limit.\<close>

definition set_status :: "json \<Rightarrow> redis_page \<Rightarrow> redis_page" where
  "set_status d s =
     (let m = jget d ''mem_mb''
      in s\<lparr>rd_status := d,
           rd_memValue := (if m \<noteq> jget (rd_status s) ''mem_mb'' \<and> \<not> nullish m then js_String m else rd_memValue s)\<rparr>)"

definition redis_url :: "jsstring \<Rightarrow> jsstring" where
  "redis_url u = ''/api/v1/accounts/'' @ u @ ''/redis''"

definition flush_props :: "redis_page \<Rightarrow> confirm_props" where
  "flush_props s =
     \<lparr>dialog_open = rd_flushOpen s, dialog_loading = rd_flushing s, confirmationText = ''FLUSH'', acknowledgementLabel = []\<rparr>"

definition disable_props :: "jsstring \<Rightarrow> redis_page \<Rightarrow> confirm_props" where
  "disable_props u s =
     \<lparr>dialog_open = rd_disableOpen s, dialog_loading = rd_disabling s, confirmationText = u, acknowledgementLabel = []\<rparr>"

definition enable_memory :: "redis_page \<Rightarrow> json" where
  "enable_memory s = (if redis_provisioned s then jget (rd_status s) ''mem_mb'' else JNum 256)"

definition memory_message :: jsstring where
  "memory_message = ''Enter a value between '' @ show_int MIN_MEM @ '' and '' @ show_int MAX_MEM @ '' MB.''"

datatype redis_event =
    RedisArrives json
  | EnableRedis
  | RedisEnabled json
  | EnableRefused jsstring
  | EditMemory jsstring
  | SaveMemory
  | MemorySaved
  | MemoryRefused jsstring
  | AskFlush
  | TypeFlush jsstring
  | CancelFlush
  | ConfirmFlush
  | Flushed
  | FlushRefused jsstring
  | AskDisable
  | TypeDisable jsstring
  | CancelDisable
  | ConfirmDisable
  | RedisDisabled json
  | DisableRefused jsstring
  | OpenConnection
  | CloseConnection

definition no_redis_dialog :: "redis_page \<Rightarrow> bool" where
  "no_redis_dialog s \<longleftrightarrow> \<not> rd_connOpen s \<and> \<not> rd_flushOpen s \<and> \<not> rd_disableOpen s"

fun redis_offered :: "jsstring \<Rightarrow> redis_page \<Rightarrow> redis_event \<Rightarrow> bool" where
  "redis_offered u s (RedisArrives d) = True"
| "redis_offered u s EnableRedis = (no_redis_dialog s \<and> \<not> rd_enabling s \<and> \<not> (redis_provisioned s \<and> redis_enabled s))"
| "redis_offered u s (RedisEnabled r) = rd_enabling s"
| "redis_offered u s (EnableRefused e) = rd_enabling s"
| "redis_offered u s (EditMemory v) = (no_redis_dialog s \<and> redis_provisioned s)"
| "redis_offered u s SaveMemory = (no_redis_dialog s \<and> redis_provisioned s \<and> rd_saving s = None)"
| "redis_offered u s MemorySaved = (rd_saving s \<noteq> None)"
| "redis_offered u s (MemoryRefused e) = (rd_saving s \<noteq> None)"
| "redis_offered u s AskFlush = (no_redis_dialog s \<and> redis_provisioned s \<and> redis_running s)"
| "redis_offered u s (TypeFlush t) = confirm_enabled (TypeConfirmation t) (flush_props s, rd_flushDialog s)"
| "redis_offered u s CancelFlush = confirm_enabled CancelButton (flush_props s, rd_flushDialog s)"
| "redis_offered u s ConfirmFlush = confirm_enabled ConfirmButton (flush_props s, rd_flushDialog s)"
| "redis_offered u s Flushed = rd_flushing s"
| "redis_offered u s (FlushRefused e) = rd_flushing s"
| "redis_offered u s AskDisable = (no_redis_dialog s \<and> redis_provisioned s \<and> redis_enabled s)"
| "redis_offered u s (TypeDisable t) = confirm_enabled (TypeConfirmation t) (disable_props u s, rd_disableDialog s)"
| "redis_offered u s CancelDisable = confirm_enabled CancelButton (disable_props u s, rd_disableDialog s)"
| "redis_offered u s ConfirmDisable = confirm_enabled ConfirmButton (disable_props u s, rd_disableDialog s)"
| "redis_offered u s (RedisDisabled r) = rd_disabling s"
| "redis_offered u s (DisableRefused e) = rd_disabling s"
| "redis_offered u s OpenConnection = (no_redis_dialog s \<and> redis_provisioned s)"
| "redis_offered u s CloseConnection = rd_connOpen s"

definition close_flush :: "redis_page \<Rightarrow> redis_page" where
  "close_flush s = s\<lparr>rd_flushOpen := False, rd_flushDialog := fresh_confirm\<rparr>"

definition close_disable :: "redis_page \<Rightarrow> redis_page" where
  "close_disable s = s\<lparr>rd_disableOpen := False, rd_disableDialog := fresh_confirm\<rparr>"

definition save_memory :: "jsstring \<Rightarrow> redis_page \<Rightarrow> redis_page \<times> api_request list \<times> page_effect list" where
  "save_memory u s =
     (case parseInt10 (rd_memValue s) of
        None \<Rightarrow> (s\<lparr>rd_memError := memory_message\<rparr>, [], [])
      | Some n \<Rightarrow>
          if n < MIN_MEM \<or> MAX_MEM < n then (s\<lparr>rd_memError := memory_message\<rparr>, [], [])
          else if JNum n = jget (rd_status s) ''mem_mb'' then (s\<lparr>rd_memError := []\<rparr>, [], [])
          else (s\<lparr>rd_memError := [], rd_saving := Some n\<rparr>, [ApiPatch (redis_url u) [(''mem_mb'', JNum n)]], []))"

fun redis_step :: "jsstring \<Rightarrow> (redis_event, redis_page) page_step" where
  "redis_step u (RedisArrives d) s = (set_status d s, [], [])"
| "redis_step u EnableRedis s = (s\<lparr>rd_enabling := True\<rparr>, [ApiPost (redis_url u) [(''mem_mb'', enable_memory s)]], [])"
| "redis_step u (RedisEnabled r) s =
     (set_status (with_fields r [(''provisioned'', JBool True)]) (s\<lparr>rd_enabling := False\<rparr>), [],
      [Toast Success ''Redis enabled'' ''The saved instance configuration is active.'', Invalidate [''redis'', u]])"
| "redis_step u (EnableRefused e) s = (s\<lparr>rd_enabling := False\<rparr>, [], [Toast ErrorTone ''Could not enable Redis'' e])"
| "redis_step u (EditMemory v) s = (s\<lparr>rd_memValue := v\<rparr>, [], [])"
| "redis_step u SaveMemory s = save_memory u s"
| "redis_step u MemorySaved s =
     (s\<lparr>rd_saving := None\<rparr>, [],
      [Toast Success ''Memory limit updated''
         (''Redis is now capped at '' @ (case rd_saving s of Some n \<Rightarrow> show_int n | None \<Rightarrow> []) @ '' MB.''), Invalidate [''redis'', u]])"
| "redis_step u (MemoryRefused e) s = (s\<lparr>rd_saving := None\<rparr>, [], [Toast ErrorTone ''Could not update memory limit'' e])"
| "redis_step u AskFlush s = (s\<lparr>rd_flushOpen := True\<rparr>, [], [])"
| "redis_step u (TypeFlush t) s = (s\<lparr>rd_flushDialog := (rd_flushDialog s)\<lparr>typed := t\<rparr>\<rparr>, [], [])"
| "redis_step u CancelFlush s = (close_flush s, [], [])"
| "redis_step u ConfirmFlush s = (s\<lparr>rd_flushing := True\<rparr>, [ApiPost (redis_url u @ ''/flush'') []], [])"
| "redis_step u Flushed s =
     (close_flush (s\<lparr>rd_flushing := False\<rparr>), [],
      [Toast Success ''Flushed'' ''All keys were removed from this Redis instance.'', Invalidate [''redis'', u]])"
| "redis_step u (FlushRefused e) s = (close_flush (s\<lparr>rd_flushing := False\<rparr>), [], [Toast ErrorTone ''Could not flush Redis'' e])"
| "redis_step u AskDisable s = (s\<lparr>rd_disableOpen := True\<rparr>, [], [])"
| "redis_step u (TypeDisable t) s = (s\<lparr>rd_disableDialog := (rd_disableDialog s)\<lparr>typed := t\<rparr>\<rparr>, [], [])"
| "redis_step u CancelDisable s = (close_disable s, [], [])"
| "redis_step u ConfirmDisable s = (s\<lparr>rd_disabling := True\<rparr>, [ApiDelete (redis_url u)], [])"
| "redis_step u (RedisDisabled r) s =
     (close_disable (set_status r (s\<lparr>rd_disabling := False\<rparr>)), [],
      [Toast Success ''Redis disabled'' ''The service is stopped. Saved configuration and files are retained.'', Invalidate [''redis'', u]])"
| "redis_step u (DisableRefused e) s = (close_disable (s\<lparr>rd_disabling := False\<rparr>), [], [Toast ErrorTone ''Could not disable Redis'' e])"
| "redis_step u OpenConnection s = (s\<lparr>rd_connOpen := True\<rparr>, [], [])"
| "redis_step u CloseConnection s = (s\<lparr>rd_connOpen := False\<rparr>, [], [])"

section \<open>What is sent\<close>

text \<open>The dialogs as questions: what is sent of each kind, and its state.\<close>

datatype redis_action = FlushAll | DisableInstance

definition redis_actions_shown :: "jsstring \<Rightarrow> api_request \<Rightarrow> redis_action list" where
  "redis_actions_shown u r =
     (case r of
        ApiPost url b \<Rightarrow> if url = redis_url u @ ''/flush'' then [FlushAll] else []
      | ApiDelete url \<Rightarrow> [DisableInstance]
      | _ \<Rightarrow> [])"

definition redis_question :: "redis_page \<Rightarrow> redis_action question" where
  "redis_question s =
     (if rd_flushing s then Carrying FlushAll
      else if rd_disabling s then Carrying DisableInstance
      else if rd_flushOpen s then Asking FlushAll
      else if rd_disableOpen s then Asking DisableInstance else NoQuestion)"

text \<open>A dialog stays open while its request is under way, and its typed text is gone once it closes.\<close>

definition redis_inv :: "redis_page \<Rightarrow> bool" where
  "redis_inv s \<longleftrightarrow>
     (rd_flushing s \<longrightarrow> rd_flushOpen s) \<and> (rd_disabling s \<longrightarrow> rd_disableOpen s) \<and>
     \<not> (rd_flushOpen s \<and> rd_disableOpen s) \<and>
     (\<not> rd_flushOpen s \<longrightarrow> rd_flushDialog s = fresh_confirm) \<and> (\<not> rd_disableOpen s \<longrightarrow> rd_disableDialog s = fresh_confirm)"

definition redis_request_ok :: "jsstring \<Rightarrow> api_request \<Rightarrow> bool" where
  "redis_request_ok u r \<longleftrightarrow>
     (case r of
        ApiPost url b \<Rightarrow> url = redis_url u @ ''/flush'' \<and> b = [] \<or> url = redis_url u \<and> (\<exists>m. b = [(''mem_mb'', m)])
      | ApiPatch url b \<Rightarrow> url = redis_url u \<and> (\<exists>n. b = [(''mem_mb'', JNum n)] \<and> 16 \<le> n \<and> n \<le> 4096)
      | ApiDelete url \<Rightarrow> url = redis_url u
      | _ \<Rightarrow> False)"

lemma set_status_fields [simp]:
  "rd_connOpen (set_status d s) = rd_connOpen s" "rd_flushOpen (set_status d s) = rd_flushOpen s"
  "rd_flushDialog (set_status d s) = rd_flushDialog s" "rd_flushing (set_status d s) = rd_flushing s"
  "rd_disableOpen (set_status d s) = rd_disableOpen s" "rd_disableDialog (set_status d s) = rd_disableDialog s"
  "rd_disabling (set_status d s) = rd_disabling s" "rd_saving (set_status d s) = rd_saving s"
  by (simp_all add: set_status_def Let_def)

lemma save_memory_fields:
  "redis_inv (fst (save_memory u s)) = redis_inv s" "redis_question (fst (save_memory u s)) = redis_question s"
  "list_all (redis_request_ok u) (fst (snd (save_memory u s)))"
  "concat (map (redis_actions_shown u) (fst (snd (save_memory u s)))) = []"
  by (auto simp: save_memory_def redis_inv_def redis_question_def redis_request_ok_def redis_actions_shown_def MIN_MEM_def MAX_MEM_def
      split: option.splits)

lemmas redis_dialog_defs = close_flush_def close_disable_def flush_props_def disable_props_def no_redis_dialog_def

lemma redis_keep: "redis_inv s \<Longrightarrow> redis_offered u s e \<Longrightarrow> redis_inv (fst (redis_step u e s))"
  by (cases "e = SaveMemory", simp add: save_memory_fields)
     (cases e; simp; auto simp: redis_inv_def redis_dialog_defs)

lemma redis_good: "list_all (redis_request_ok u) (fst (snd (redis_step u e s)))"
  by (cases "e = SaveMemory", simp add: save_memory_fields) (cases e; simp add: redis_request_ok_def)

lemma flush_url_differs: "redis_url u \<noteq> redis_url u @ ''/flush''"
  by simp

lemma redis_simulates:
  assumes "redis_inv s" "redis_offered u s e"
  shows "question_step (redis_question s) (concat (map (redis_actions_shown u) (fst (snd (redis_step u e s)))))
    (redis_question (fst (redis_step u e s)))"
proof (cases "e = SaveMemory")
  case True
  show ?thesis unfolding True redis_step.simps save_memory_fields by (rule question_step.idle)
next
  case False
  then show ?thesis using assms
    by (cases e; simp)
       (auto simp: redis_inv_def redis_question_def redis_dialog_defs redis_actions_shown_def intro: question_step.intros)
qed

lemma redis_start: "redis_inv initial_redis" "redis_question initial_redis = NoQuestion"
  by (simp_all add: redis_inv_def initial_redis_def redis_question_def)

interpretation redis: page_contract initial_redis "redis_offered u" "redis_step u" redis_inv "redis_request_ok u"
  for u
  by unfold_locales (auto simp: redis_keep redis_good redis_start)

interpretation redis_actions: page_refinement initial_redis "redis_offered u" "redis_step u" redis_inv redis_question
    "redis_actions_shown u" NoQuestion question_step
  for u
  by unfold_locales (auto simp: redis_keep redis_simulates redis_start)


definition redis_script :: "redis_event list" where
  "redis_script =
     [RedisArrives (JObj [(''provisioned'', JBool True), (''enabled'', JBool True), (''active'', JStr ''active''), (''mem_mb'', JNum 256)]),
      EditMemory ''512'', SaveMemory, MemorySaved, AskFlush, TypeFlush ''FLUSH'', ConfirmFlush]"


text \<open>The stored limit replaces what is being typed only when it changes.\<close>

lemma poll_keeps_typing:
  "jget d ''mem_mb'' = jget (rd_status s) ''mem_mb'' \<Longrightarrow> rd_memValue (fst (redis_step u (RedisArrives d) s)) = rd_memValue s"
  by (simp add: set_status_def Let_def)

lemma stored_limit_not_sent:
  "rd_memValue s = show_int n \<Longrightarrow> jget (rd_status s) ''mem_mb'' = JNum n \<Longrightarrow> fst (snd (redis_step u SaveMemory s)) = []"
  by (simp add: save_memory_def)

section \<open>Connection\<close>

definition connection_url :: "jsstring \<Rightarrow> jsstring" where
  "connection_url u = redis_url u @ ''/connection-info''"

definition predisSnippet :: "json \<Rightarrow> jsstring" where
  "predisSnippet d =
     (let p = jget d ''socket_path''
      in if truthy p
         then ''new Predis'' @ [CHR 0x5C] @ ''Client(['' @ [CHR 0x27] @ ''scheme'' @ [CHR 0x27] @ '' => '' @ [CHR 0x27] @ ''unix'' @ [CHR 0x27] @
              '', '' @ [CHR 0x27] @ ''path'' @ [CHR 0x27] @ '' => '' @ [CHR 0x27] @ js_String p @ [CHR 0x27] @ '']);''
         else [])"

definition phpredisSnippet :: "json \<Rightarrow> jsstring" where
  "phpredisSnippet d =
     (let p = jget d ''socket_path''
      in if truthy p
         then ''$redis = new Redis();'' @ [newline] @ ''$redis->connect('' @ [CHR 0x27] @ js_String p @ [CHR 0x27] @ '');'' else [])"

end
