(* ===== verification/Fail2ban_Page.thy ===== *)
theory Fail2ban_Page
  imports Page_Machine
begin

text \<open>
  \<open>pages/admin/Fail2ban.jsx\<close>: the jails and the addresses banned in them. Releasing single addresses is
  not confirmed and several can be under way at a time; the button that is disabled is the one of the
  request started last. Releasing a whole jail and reconfiguring the jails are questions.
\<close>

section \<open>The page\<close>

record fail2ban_page =
  fb_data :: json
  fb_detail :: "json option" \<comment> \<open>the name of the jail shown\<close>
  fb_unbanAll :: "json option"
  fb_releasing :: "json option"
  fb_bootstrapOpen :: bool
  fb_bootstrapping :: bool
  fb_pending :: "(nat \<times> json \<times> json) list" \<comment> \<open>the releases under way: jail and address\<close>
  fb_latest :: "nat option" \<comment> \<open>the one observed, while it is under way\<close>
  fb_next :: nat

definition initial_fail2ban :: fail2ban_page where
  "initial_fail2ban =
     \<lparr>fb_data = JUndef, fb_detail = None, fb_unbanAll = None, fb_releasing = None, fb_bootstrapOpen = False, fb_bootstrapping = False,
      fb_pending = [], fb_latest = None, fb_next = 0\<rparr>"

definition jails :: "fail2ban_page \<Rightarrow> json list" where
  "jails s = json_list (jget (fb_data s) ''jails'')"

definition activeJail :: "fail2ban_page \<Rightarrow> json option" where
  "activeJail s = (case fb_detail s of None \<Rightarrow> None | Some n \<Rightarrow> List.find (\<lambda>j. jget j ''jail'' = n) (jails s))"

definition banned_ips :: "json \<Rightarrow> json list" where
  "banned_ips j = json_list (jget j ''banned_ips'')"

definition banned_text :: "fail2ban_page \<Rightarrow> jsstring" where
  "banned_text s =
     (case activeJail s of
        None \<Rightarrow> ''No addresses are currently banned in this jail.''
      | Some j \<Rightarrow> let n = length (banned_ips j)
                  in if n = 0 then ''No addresses are currently banned in this jail.''
                     else show_nat n @ '' address'' @ (if n = 1 then [] else ''es'') @ '' currently banned in this jail.'')"

definition release_loading :: "fail2ban_page \<Rightarrow> json \<Rightarrow> json \<Rightarrow> bool" where
  "release_loading s jail ip \<longleftrightarrow> (\<exists>i. fb_latest s = Some i \<and> (i, jail, ip) \<in> set (fb_pending s))"

definition jail_url :: "json \<Rightarrow> jsstring \<Rightarrow> jsstring" where
  "jail_url jail rest = ''/api/v1/fail2ban/'' @ encodeURIComponent (js_String jail) @ rest"

datatype fail2ban_event =
    JailsArrive json
  | ViewJail json
  | CloseJail
  | UnbanAddress json
  | UnbanSettles nat "jsstring option" \<comment> \<open>the request, and the message of its failure\<close>
  | AskUnbanAll json
  | AskUnbanShown
  | CancelUnbanAll
  | ConfirmUnbanAll
  | UnbannedAll
  | UnbanAllRefused jsstring
  | AskBootstrap
  | CancelBootstrap
  | ConfirmBootstrap
  | Bootstrapped
  | BootstrapRefused jsstring

definition no_jail_question :: "fail2ban_page \<Rightarrow> bool" where
  "no_jail_question s \<longleftrightarrow> fb_unbanAll s = None \<and> \<not> fb_bootstrapOpen s"

fun fail2ban_offered :: "fail2ban_page \<Rightarrow> fail2ban_event \<Rightarrow> bool" where
  "fail2ban_offered s (JailsArrive d) = True"
| "fail2ban_offered s (ViewJail j) = (no_jail_question s \<and> fb_detail s = None \<and> j \<in> set (jails s))"
| "fail2ban_offered s CloseJail = (no_jail_question s \<and> fb_detail s \<noteq> None)"
| "fail2ban_offered s (UnbanAddress ip) =
     (no_jail_question s \<and>
      (case activeJail s of None \<Rightarrow> False | Some j \<Rightarrow> ip \<in> set (banned_ips j) \<and> \<not> release_loading s (jget j ''jail'') ip))"
| "fail2ban_offered s (UnbanSettles i r) = (i \<in> fst ` set (fb_pending s))"
| "fail2ban_offered s (AskUnbanAll j) =
     (no_jail_question s \<and> fb_detail s = None \<and> j \<in> set (jails s) \<and> truthy (jget j ''currently_banned''))"
| "fail2ban_offered s AskUnbanShown =
     (no_jail_question s \<and> (case activeJail s of None \<Rightarrow> False | Some j \<Rightarrow> banned_ips j \<noteq> []))"
| "fail2ban_offered s CancelUnbanAll = (fb_unbanAll s \<noteq> None \<and> fb_releasing s = None)"
| "fail2ban_offered s ConfirmUnbanAll = (fb_unbanAll s \<noteq> None \<and> fb_releasing s = None)"
| "fail2ban_offered s UnbannedAll = (fb_releasing s \<noteq> None)"
| "fail2ban_offered s (UnbanAllRefused e) = (fb_releasing s \<noteq> None)"
| "fail2ban_offered s AskBootstrap = (no_jail_question s \<and> fb_detail s = None)"
| "fail2ban_offered s CancelBootstrap = (fb_bootstrapOpen s \<and> \<not> fb_bootstrapping s)"
| "fail2ban_offered s ConfirmBootstrap = (fb_bootstrapOpen s \<and> \<not> fb_bootstrapping s)"
| "fail2ban_offered s Bootstrapped = fb_bootstrapping s"
| "fail2ban_offered s (BootstrapRefused e) = fb_bootstrapping s"

definition jails_key :: "jsstring \<Rightarrow> page_effect" where
  "jails_key u = Invalidate [''fail2ban'', u]"

definition start_release :: "json \<Rightarrow> json \<Rightarrow> fail2ban_page \<Rightarrow> fail2ban_page" where
  "start_release jail ip s =
     s\<lparr>fb_pending := fb_pending s @ [(fb_next s, jail, ip)], fb_latest := Some (fb_next s), fb_next := Suc (fb_next s)\<rparr>"

definition end_release :: "nat \<Rightarrow> fail2ban_page \<Rightarrow> fail2ban_page" where
  "end_release i s =
     s\<lparr>fb_pending := filter (\<lambda>p. fst p \<noteq> i) (fb_pending s), fb_latest := (if fb_latest s = Some i then None else fb_latest s)\<rparr>"

definition released_ip :: "fail2ban_page \<Rightarrow> nat \<Rightarrow> jsstring" where
  "released_ip s i = (case map_of (fb_pending s) i of Some (jail, ip) \<Rightarrow> js_String ip | None \<Rightarrow> [])"

definition name_text :: "json option \<Rightarrow> jsstring" where
  "name_text n = (case n of Some n \<Rightarrow> js_String n | None \<Rightarrow> [])"

fun fail2ban_step :: "jsstring \<Rightarrow> (fail2ban_event, fail2ban_page) page_step" where
  "fail2ban_step u (JailsArrive d) s = (s\<lparr>fb_data := d\<rparr>, [], [])"
| "fail2ban_step u (ViewJail j) s = (s\<lparr>fb_detail := Some (jget j ''jail'')\<rparr>, [], [])"
| "fail2ban_step u CloseJail s = (s\<lparr>fb_detail := None\<rparr>, [], [])"
| "fail2ban_step u (UnbanAddress ip) s =
     (case activeJail s of
        None \<Rightarrow> (s, [], [])
      | Some j \<Rightarrow> (start_release (jget j ''jail'') ip s, [ApiPost (jail_url (jget j ''jail'') ''/unban'') [(''ip'', ip)]], []))"
| "fail2ban_step u (UnbanSettles i r) s =
     (end_release i s, [],
      case r of
        Some e \<Rightarrow> [Toast ErrorTone ''Could not unban IP'' e]
      | None \<Rightarrow> [Toast Success ''IP unbanned'' (released_ip s i @ '' was removed from the jail.''), jails_key u])"
| "fail2ban_step u (AskUnbanAll j) s = (s\<lparr>fb_unbanAll := Some (jget j ''jail'')\<rparr>, [], [])"
| "fail2ban_step u AskUnbanShown s =
     (case activeJail s of None \<Rightarrow> (s, [], []) | Some j \<Rightarrow> (s\<lparr>fb_unbanAll := Some (jget j ''jail'')\<rparr>, [], []))"
| "fail2ban_step u CancelUnbanAll s = (s\<lparr>fb_unbanAll := None\<rparr>, [], [])"
| "fail2ban_step u ConfirmUnbanAll s =
     (case fb_unbanAll s of
        None \<Rightarrow> (s, [], [])
      | Some n \<Rightarrow> (s\<lparr>fb_releasing := Some n\<rparr>, [ApiPost (jail_url n ''/unban-all'') []], []))"
| "fail2ban_step u UnbannedAll s =
     (s\<lparr>fb_releasing := None, fb_unbanAll := None\<rparr>, [],
      [Toast Success ''All IPs unbanned'' (''Every banned IP was cleared from '' @ name_text (fb_releasing s) @ ''.''), jails_key u])"
| "fail2ban_step u (UnbanAllRefused e) s = (s\<lparr>fb_releasing := None\<rparr>, [], [Toast ErrorTone ''Could not unban all'' e])"
| "fail2ban_step u AskBootstrap s = (s\<lparr>fb_bootstrapOpen := True\<rparr>, [], [])"
| "fail2ban_step u CancelBootstrap s = (s\<lparr>fb_bootstrapOpen := False\<rparr>, [], [])"
| "fail2ban_step u ConfirmBootstrap s = (s\<lparr>fb_bootstrapping := True\<rparr>, [ApiPost ''/api/v1/fail2ban/bootstrap'' []], [])"
| "fail2ban_step u Bootstrapped s =
     (s\<lparr>fb_bootstrapping := False, fb_bootstrapOpen := False\<rparr>, [],
      [Toast Success ''Jails configured'' ''Fail2ban jails were installed / reconfigured.'', jails_key u])"
| "fail2ban_step u (BootstrapRefused e) s = (s\<lparr>fb_bootstrapping := False\<rparr>, [], [Toast ErrorTone ''Could not configure jails'' e])"

section \<open>What is sent\<close>

datatype jail_action = ReleaseAll jsstring | Reconfigure

definition jail_actions_shown :: "api_request \<Rightarrow> jail_action list" where
  "jail_actions_shown r =
     (case r of
        ApiPost url b \<Rightarrow> if b \<noteq> [] then [] else if url = ''/api/v1/fail2ban/bootstrap'' then [Reconfigure] else [ReleaseAll url]
      | _ \<Rightarrow> [])"

definition jail_question :: "fail2ban_page \<Rightarrow> jail_action question" where
  "jail_question s =
     (case fb_releasing s of
        Some n \<Rightarrow> Carrying (ReleaseAll (jail_url n ''/unban-all''))
      | None \<Rightarrow>
          if fb_bootstrapping s then Carrying Reconfigure
          else case fb_unbanAll s of
                 Some n \<Rightarrow> Asking (ReleaseAll (jail_url n ''/unban-all''))
               | None \<Rightarrow> if fb_bootstrapOpen s then Asking Reconfigure else NoQuestion)"

text \<open>The releases under way have numbers of their own, below the next.\<close>

definition fail2ban_inv :: "fail2ban_page \<Rightarrow> bool" where
  "fail2ban_inv s \<longleftrightarrow>
     (fb_releasing s \<noteq> None \<longrightarrow> fb_unbanAll s = fb_releasing s) \<and> (fb_bootstrapping s \<longrightarrow> fb_bootstrapOpen s) \<and>
     \<not> (fb_unbanAll s \<noteq> None \<and> fb_bootstrapOpen s) \<and>
     distinct (map fst (fb_pending s)) \<and> list_all (\<lambda>p. fst p < fb_next s) (fb_pending s) \<and>
     (\<forall>i. fb_latest s = Some i \<longrightarrow> i \<in> fst ` set (fb_pending s))"

definition fail2ban_request_ok :: "api_request \<Rightarrow> bool" where
  "fail2ban_request_ok r \<longleftrightarrow>
     (\<exists>n ip. r = ApiPost (jail_url n ''/unban'') [(''ip'', ip)]) \<or> (\<exists>n. r = ApiPost (jail_url n ''/unban-all'') []) \<or>
     r = ApiPost ''/api/v1/fail2ban/bootstrap'' []"

lemma release_fields [simp]:
  "fb_releasing (start_release jail ip s) = fb_releasing s" "fb_releasing (end_release i s) = fb_releasing s"
  "fb_unbanAll (start_release jail ip s) = fb_unbanAll s" "fb_unbanAll (end_release i s) = fb_unbanAll s"
  "fb_bootstrapOpen (start_release jail ip s) = fb_bootstrapOpen s" "fb_bootstrapOpen (end_release i s) = fb_bootstrapOpen s"
  "fb_bootstrapping (start_release jail ip s) = fb_bootstrapping s" "fb_bootstrapping (end_release i s) = fb_bootstrapping s"
  by (simp_all add: start_release_def end_release_def)

lemma release_question [simp]:
  "jail_question (start_release jail ip s) = jail_question s" "jail_question (end_release i s) = jail_question s"
  unfolding jail_question_def release_fields by (rule refl)+

lemma start_release_inv: "fail2ban_inv s \<Longrightarrow> fail2ban_inv (start_release jail ip s)"
  by (auto simp: fail2ban_inv_def start_release_def list_all_iff less_Suc_eq)

lemma end_release_inv: "fail2ban_inv s \<Longrightarrow> fail2ban_inv (end_release i s)"
  by (auto simp: fail2ban_inv_def end_release_def list_all_iff intro: distinct_map_filter split: if_splits)

lemma fail2ban_keep: "fail2ban_inv s \<Longrightarrow> fail2ban_offered s e \<Longrightarrow> fail2ban_inv (fst (fail2ban_step u e s))"
proof (cases "\<exists>ip i r. e = UnbanAddress ip \<or> e = UnbanSettles i r")
  case True
  then show "fail2ban_inv s \<Longrightarrow> fail2ban_inv (fst (fail2ban_step u e s))"
    by (auto simp: start_release_inv end_release_inv split: option.splits)
next
  case False
  then show "fail2ban_inv s \<Longrightarrow> fail2ban_offered s e \<Longrightarrow> fail2ban_inv (fst (fail2ban_step u e s))"
    by (cases e) (auto simp: fail2ban_inv_def no_jail_question_def split: option.splits)
qed

lemma fail2ban_good: "list_all fail2ban_request_ok (fst (snd (fail2ban_step u e s)))"
  by (cases e) (auto simp: fail2ban_request_ok_def split: option.splits)

lemma unban_all_not_bootstrap: "jail_url n ''/unban-all'' \<noteq> ''/api/v1/fail2ban/bootstrap''"
proof
  assume eq: "jail_url n ''/unban-all'' = ''/api/v1/fail2ban/bootstrap''"
  have "last (jail_url n ''/unban-all'') = CHR ''l''" by (simp add: jail_url_def)
  then show False unfolding eq by simp
qed

lemma fail2ban_simulates:
  assumes "fail2ban_inv s" "fail2ban_offered s e"
  shows "question_step (jail_question s) (concat (map jail_actions_shown (fst (snd (fail2ban_step u e s)))))
    (jail_question (fst (fail2ban_step u e s)))"
proof (cases "\<exists>ip i r. e = UnbanAddress ip \<or> e = UnbanSettles i r")
  case True
  then show ?thesis by (auto simp: jail_actions_shown_def question_step.idle split: option.splits)
next
  case False
  then show ?thesis using assms
    by (cases e)
       (auto simp: fail2ban_inv_def jail_question_def no_jail_question_def jail_actions_shown_def unban_all_not_bootstrap
          intro: question_step.intros split: option.splits)
qed

lemma fail2ban_start: "fail2ban_inv initial_fail2ban" "jail_question initial_fail2ban = NoQuestion"
  by (simp_all add: fail2ban_inv_def initial_fail2ban_def jail_question_def)

interpretation fail2ban: page_contract initial_fail2ban fail2ban_offered "fail2ban_step u" fail2ban_inv fail2ban_request_ok
  for u
  by unfold_locales (auto simp: fail2ban_keep fail2ban_good fail2ban_start)

interpretation jail_actions: page_refinement initial_fail2ban fail2ban_offered "fail2ban_step u" fail2ban_inv jail_question
    jail_actions_shown NoQuestion question_step
  for u
  by unfold_locales (auto simp: fail2ban_keep fail2ban_simulates fail2ban_start)

text \<open>Whole jails are only released, and the jails only reconfigured, one at a time as answers to their
  questions; single addresses only when the jail shown lists them.\<close>

lemma jail_actions_confirmed:
  assumes "page_reach initial_fail2ban fail2ban_offered (fail2ban_step u) s sent"
  shows "list_all fail2ban_request_ok sent \<and> question_run (concat (map jail_actions_shown sent)) (jail_question s)"
  using fail2ban.reach_inv[OF assms] jail_actions.refines[OF assms] by blast

lemma listed_address_released:
  assumes "fail2ban_offered s (UnbanAddress ip)"
  shows "\<exists>j \<in> set (jails s). fb_detail s = Some (jget j ''jail'') \<and> ip \<in> set (banned_ips j) \<and>
    fst (snd (fail2ban_step u (UnbanAddress ip) s)) = [ApiPost (jail_url (jget j ''jail'') ''/unban'') [(''ip'', ip)]]"
proof -
  obtain j where j: "activeJail s = Some j" "ip \<in> set (banned_ips j)" using assms by (auto split: option.splits)
  then obtain n where n: "fb_detail s = Some n" "List.find (\<lambda>j. jget j ''jail'' = n) (jails s) = Some j"
    by (auto simp: activeJail_def split: option.splits)
  then have "j \<in> set (jails s)" "jget j ''jail'' = n" by (auto simp: find_Some_iff)
  with j n(1) show ?thesis by auto
qed

text \<open>Only the release started last disables its button: an earlier one can be sent again.\<close>

lemma earlier_release_again:
  assumes "fb_latest s = Some i" "distinct (map fst (fb_pending s))" "(i, jail', ip') \<in> set (fb_pending s)" "ip \<noteq> ip'"
  shows "\<not> release_loading s jail ip"
proof
  assume "release_loading s jail ip"
  then have "(i, jail, ip) \<in> set (fb_pending s)" using assms(1) by (simp add: release_loading_def)
  then have "(jail, ip) = (jail', ip')" using assms(2,3) eq_key_imp_eq_value by metis
  with assms(4) show False by simp
qed

end
