(* ===== verification/Slow_Queries.thy ===== *)
theory Slow_Queries
  imports Audit_Page
begin

text \<open>
  \<open>pages/admin/SlowQueries.jsx\<close>: the slow query log. The filters of the form are applied by a
  submission; the log is asked for once it is known to be enabled, and enabling it is a question, since
  it restarts the database. The query of the request is written as in \<open>Audit_Page\<close>.
\<close>

record slow_filters =
  sf_db :: jsstring
  sf_q :: jsstring
  sf_limit :: nat

definition LIMIT_OPTIONS :: "nat list" where
  "LIMIT_OPTIONS = [50, 100, 250, 500]"

definition no_filters :: slow_filters where
  "no_filters = \<lparr>sf_db = [], sf_q = [], sf_limit = 100\<rparr>"

record slow_page =
  sl_status :: json
  sl_data :: json
  sl_draft :: slow_filters
  sl_applied :: slow_filters
  sl_selected :: "json option"
  sl_bootstrapOpen :: bool
  sl_bootstrapping :: bool

definition initial_slow :: slow_page where
  "initial_slow =
     \<lparr>sl_status = JUndef, sl_data = JUndef, sl_draft = no_filters, sl_applied = no_filters, sl_selected = None,
      sl_bootstrapOpen = False, sl_bootstrapping = False\<rparr>"

definition slow_enabled :: "slow_page \<Rightarrow> bool" where
  "slow_enabled s \<longleftrightarrow> truthy (jget (sl_status s) ''enabled'')"

definition slow_params :: "slow_filters \<Rightarrow> params" where
  "slow_params f =
     (let p = (if sf_db f \<noteq> [] then param_set ''db'' (sf_db f) [] else []);
          p = (if sf_q f \<noteq> [] then param_set ''q'' (sf_q f) p else p)
      in param_set ''limit'' (show_nat (sf_limit f)) p)"

text \<open>What is asked for, once the log is known to be enabled.\<close>

definition slow_request :: "slow_page \<Rightarrow> api_request option" where
  "slow_request s =
     (if slow_enabled s then Some (ApiGet (''/api/v1/mysql/slow-queries?'' @ query_text (slow_params (sl_applied s)))) else None)"

definition slow_rows :: "slow_page \<Rightarrow> json list" where
  "slow_rows s = json_list (jget (sl_data s) ''queries'')"

definition or_dash_text :: "json \<Rightarrow> jsstring" where
  "or_dash_text v = js_String (js_or v (JStr [em_dash]))"

definition threshold_text :: "json \<Rightarrow> jsstring" where
  "threshold_text st =
     (let t = jget st ''long_query_time'' in if nullish t then [em_dash] else js_String t @ ''s'')"

definition recorded_text :: "json \<Rightarrow> jsstring" where
  "recorded_text r =
     (if truthy (jget r ''start_time'') then ''Recorded '' @ js_String (jget r ''start_time'')
      else ''Query captured in the slow query log.'')"

datatype slow_event =
    SlowStatusArrives json
  | SlowRowsArrive json
  | EditSlow slow_filters
  | ApplySlow
  | ClearSlow
  | SelectQuery json
  | CloseQuery
  | AskSlowBootstrap
  | CancelSlowBootstrap
  | ConfirmSlowBootstrap
  | SlowBootstrapped
  | SlowBootstrapRefused jsstring

definition no_slow_dialog :: "slow_page \<Rightarrow> bool" where
  "no_slow_dialog s \<longleftrightarrow> sl_selected s = None \<and> \<not> sl_bootstrapOpen s"

fun slow_offered :: "slow_page \<Rightarrow> slow_event \<Rightarrow> bool" where
  "slow_offered s (SlowStatusArrives d) = True"
| "slow_offered s (SlowRowsArrive d) = True"
| "slow_offered s (EditSlow f) = (no_slow_dialog s \<and> slow_enabled s \<and> sf_limit f \<in> set LIMIT_OPTIONS)"
| "slow_offered s ApplySlow = (no_slow_dialog s \<and> slow_enabled s)"
| "slow_offered s ClearSlow = (no_slow_dialog s \<and> slow_enabled s)"
| "slow_offered s (SelectQuery r) = (no_slow_dialog s \<and> slow_enabled s \<and> r \<in> set (slow_rows s))"
| "slow_offered s CloseQuery = (sl_selected s \<noteq> None)"
| "slow_offered s AskSlowBootstrap = (no_slow_dialog s \<and> truthy (sl_status s) \<and> \<not> slow_enabled s)"
| "slow_offered s CancelSlowBootstrap = (sl_bootstrapOpen s \<and> \<not> sl_bootstrapping s)"
| "slow_offered s ConfirmSlowBootstrap = (sl_bootstrapOpen s \<and> \<not> sl_bootstrapping s)"
| "slow_offered s SlowBootstrapped = sl_bootstrapping s"
| "slow_offered s (SlowBootstrapRefused e) = sl_bootstrapping s"

fun slow_step :: "jsstring \<Rightarrow> (slow_event, slow_page) page_step" where
  "slow_step u (SlowStatusArrives d) s = (s\<lparr>sl_status := d\<rparr>, [], [])"
| "slow_step u (SlowRowsArrive d) s = (s\<lparr>sl_data := d\<rparr>, [], [])"
| "slow_step u (EditSlow f) s = (s\<lparr>sl_draft := f\<rparr>, [], [])"
| "slow_step u ApplySlow s =
     (s\<lparr>sl_applied := (sl_draft s)\<lparr>sf_db := trim (sf_db (sl_draft s)), sf_q := trim (sf_q (sl_draft s))\<rparr>\<rparr>, [], [])"
| "slow_step u ClearSlow s = (s\<lparr>sl_draft := no_filters, sl_applied := no_filters\<rparr>, [], [])"
| "slow_step u (SelectQuery r) s = (s\<lparr>sl_selected := Some r\<rparr>, [], [])"
| "slow_step u CloseQuery s = (s\<lparr>sl_selected := None\<rparr>, [], [])"
| "slow_step u AskSlowBootstrap s = (s\<lparr>sl_bootstrapOpen := True\<rparr>, [], [])"
| "slow_step u CancelSlowBootstrap s = (s\<lparr>sl_bootstrapOpen := False\<rparr>, [], [])"
| "slow_step u ConfirmSlowBootstrap s =
     (s\<lparr>sl_bootstrapping := True\<rparr>, [ApiPost ''/api/v1/mysql/slow-queries/bootstrap'' [(''confirm'', JBool True)]], [])"
| "slow_step u SlowBootstrapped s =
     (s\<lparr>sl_bootstrapping := False, sl_bootstrapOpen := False\<rparr>, [],
      [Toast Success ''Slow query log enabled'' ''MariaDB now records queries slower than the threshold.'',
       Invalidate [''slow-queries-status'', u], Invalidate [''slow-queries'', u]])"
| "slow_step u (SlowBootstrapRefused e) s =
     (s\<lparr>sl_bootstrapping := False\<rparr>, [], [Toast ErrorTone ''Could not enable slow query log'' e])"

section \<open>What is asked\<close>

definition clean_filters :: "slow_filters \<Rightarrow> bool" where
  "clean_filters f \<longleftrightarrow> trim (sf_db f) = sf_db f \<and> trim (sf_q f) = sf_q f \<and> sf_limit f \<in> set LIMIT_OPTIONS"

definition slow_inv :: "slow_page \<Rightarrow> bool" where
  "slow_inv s \<longleftrightarrow> sf_limit (sl_draft s) \<in> set LIMIT_OPTIONS \<and> clean_filters (sl_applied s) \<and> (sl_bootstrapping s \<longrightarrow> sl_bootstrapOpen s)"

definition bootstrap_question :: "slow_page \<Rightarrow> unit question" where
  "bootstrap_question s = (if sl_bootstrapping s then Carrying () else if sl_bootstrapOpen s then Asking () else NoQuestion)"

definition posts_shown :: "api_request \<Rightarrow> unit list" where
  "posts_shown r = (case r of ApiPost url b \<Rightarrow> [()] | _ \<Rightarrow> [])"

lemma no_filters_clean: "clean_filters no_filters" "sf_limit no_filters \<in> set LIMIT_OPTIONS"
  by (simp_all add: clean_filters_def no_filters_def LIMIT_OPTIONS_def trim_def)

lemma slow_keep: "slow_inv s \<Longrightarrow> slow_offered s e \<Longrightarrow> slow_inv (fst (slow_step u e s))"
  by (cases e) (simp_all add: slow_inv_def no_filters_clean, simp_all add: clean_filters_def)

lemma slow_simulates:
  "slow_inv s \<Longrightarrow> slow_offered s e \<Longrightarrow>
     question_step (bootstrap_question s) (concat (map posts_shown (fst (snd (slow_step u e s))))) (bootstrap_question (fst (slow_step u e s)))"
  by (cases e)
     (auto simp: slow_inv_def bootstrap_question_def no_slow_dialog_def posts_shown_def intro: question_step.intros)

interpretation slow_bootstrap: page_refinement initial_slow slow_offered "slow_step u" slow_inv bootstrap_question posts_shown
    NoQuestion question_step
  for u
proof unfold_locales
  show "slow_inv initial_slow" using no_filters_clean by (simp add: slow_inv_def initial_slow_def)
  show "bootstrap_question initial_slow = NoQuestion" by (simp add: bootstrap_question_def initial_slow_def)
qed (simp_all only: slow_keep slow_simulates)

text \<open>The log is asked for only when it is enabled, with the filters as they were applied and a limit
  among the offered ones; the database is only reconfigured by the answer to the question.\<close>

lemma slow_requests:
  assumes "page_reach initial_slow slow_offered (slow_step u) s sent"
  shows "clean_filters (sl_applied s) \<and> question_run (concat (map posts_shown sent)) (bootstrap_question s) \<and>
    (slow_request s \<noteq> None \<longrightarrow> slow_enabled s)"
  using slow_bootstrap.refines[OF assms] by (auto simp: slow_inv_def slow_request_def)

lemma slow_params_lookup:
  "map_of (slow_params f) ''limit'' = Some (show_nat (sf_limit f))"
  "map_of (slow_params f) ''db'' = (if sf_db f = [] then None else Some (sf_db f))"
  "map_of (slow_params f) ''q'' = (if sf_q f = [] then None else Some (sf_q f))"
  by (simp_all add: slow_params_def Let_def param_simps)

end
