(* ===== verification/Notify_Page.thy ===== *)
theory Notify_Page
  imports Page_Machine Format
begin

text \<open>
  \<open>pages/admin/NotificationSettings.jsx\<close>: the sender address of the notifications and the events that
  send one. The page shows what the server stores until something is edited; from then on it shows a
  draft, so that reading the settings again does not replace it. A save that succeeds drops the draft,
  unless it was edited meanwhile. Whether the browser admits an address is a parameter, \<open>valid_address\<close>.
\<close>

section \<open>Events\<close>

text \<open>\<open>key.replace(/[._]+/g, ' ')\<close>\<close>

fun collapse_separators :: "bool \<Rightarrow> jsstring \<Rightarrow> jsstring" where
  "collapse_separators inside [] = []"
| "collapse_separators inside (c # cs) =
     (if c = CHR ''.'' \<or> c = CHR ''_'' then (if inside then [] else '' '') @ collapse_separators True cs
      else c # collapse_separators False cs)"

definition eventLabel :: "jsstring \<Rightarrow> jsstring" where
  "eventLabel key = (case map_of NOTIFICATION_EVENTS key of
       Some l \<Rightarrow> if l = [] then titleCase (JStr (collapse_separators False key)) else l
     | None \<Rightarrow> titleCase (JStr (collapse_separators False key)))"

type_synonym switches = "(jsstring \<times> bool) list"

definition known_events :: "jsstring list" where
  "known_events = map fst NOTIFICATION_EVENTS"

definition stored_events :: "json \<Rightarrow> (jsstring \<times> json) list" where
  "stored_events d = json_fields (jget d ''events'')"

definition enabled_by_default :: "json \<Rightarrow> json" where
  "enabled_by_default v = (if nullish v then JBool True else v)"

definition savedEvents :: "json \<Rightarrow> switches" where
  "savedEvents d =
     fold (\<lambda>(k, v) r. AList.update k (truthy v) r) (stored_events d)
       (map (\<lambda>k. (k, truthy (enabled_by_default (jget (jget d ''events'') k)))) known_events)"

section \<open>The page\<close>

record notify_page =
  nf_data :: json
  nf_draft :: "(jsstring \<times> switches) option"
  nf_saving :: "(jsstring \<times> switches) option"

definition initial_notify :: notify_page where
  "initial_notify = \<lparr>nf_data = JUndef, nf_draft = None, nf_saving = None\<rparr>"

definition sender_text :: "json \<Rightarrow> jsstring" where
  "sender_text d = (let v = jget d ''sender_address'' in if nullish v then [] else js_String v)"

definition shown_sender :: "notify_page \<Rightarrow> jsstring" where
  "shown_sender s = (case nf_draft s of Some (a, ev) \<Rightarrow> a | None \<Rightarrow> sender_text (nf_data s))"

definition shown_events :: "notify_page \<Rightarrow> switches" where
  "shown_events s = (case nf_draft s of Some (a, ev) \<Rightarrow> ev | None \<Rightarrow> savedEvents (nf_data s))"

definition eventRows :: "notify_page \<Rightarrow> jsstring list" where
  "eventRows s = known_events @ filter (\<lambda>k. k \<notin> set known_events) (map fst (shown_events s))"

definition switch_on :: "switches \<Rightarrow> jsstring \<Rightarrow> bool" where
  "switch_on ev k = (map_of ev k = Some True)"

definition notify_dirty :: "notify_page \<Rightarrow> bool" where
  "notify_dirty s \<longleftrightarrow>
     truthy (nf_data s) \<and>
     (js_or (jget (nf_data s) ''sender_address'') (JStr []) \<noteq> JStr (shown_sender s) \<or>
      list_ex (\<lambda>k. enabled_by_default (jget (jget (nf_data s) ''events'') k) \<noteq> JBool (switch_on (shown_events s) k)) (eventRows s))"

definition senderEmpty :: "notify_page \<Rightarrow> bool" where
  "senderEmpty s \<longleftrightarrow> truthy (nf_data s) \<and> trim (shown_sender s) = []"

definition events_json :: "switches \<Rightarrow> json" where
  "events_json ev = JObj (map (\<lambda>(k, b). (k, JBool b)) ev)"

definition notify_body :: "jsstring \<times> switches \<Rightarrow> body" where
  "notify_body sub = [(''sender_address'', JStr (fst sub)), (''events'', events_json (snd sub))]"

definition submitted :: "notify_page \<Rightarrow> jsstring \<times> switches" where
  "submitted s = (trim (shown_sender s), shown_events s)"

definition edited_since :: "jsstring \<times> switches \<Rightarrow> jsstring \<times> switches \<Rightarrow> bool" where
  "edited_since current sub \<longleftrightarrow> trim (fst current) \<noteq> fst sub \<or> snd current \<noteq> snd sub"

datatype notify_event =
    NotifyArrives json
  | EditSender jsstring
  | SwitchEvent jsstring bool
  | SaveNotify
  | NotifySaved json
  | NotifyRefused jsstring
  | DiscardNotify

text \<open>An object that was read names each field once.\<close>

fun notify_offered :: "(jsstring \<Rightarrow> bool) \<Rightarrow> notify_page \<Rightarrow> notify_event \<Rightarrow> bool" where
  "notify_offered valid_address s (NotifyArrives d) = (truthy d \<and> distinct (map fst (stored_events d)))"
| "notify_offered valid_address s (EditSender v) = truthy (nf_data s)"
| "notify_offered valid_address s (SwitchEvent k b) = (truthy (nf_data s) \<and> k \<in> set (eventRows s))"
| "notify_offered valid_address s SaveNotify =
     (truthy (nf_data s) \<and> nf_saving s = None \<and> notify_dirty s \<and> (shown_sender s = [] \<or> valid_address (shown_sender s)))"
| "notify_offered valid_address s (NotifySaved r) = (nf_saving s \<noteq> None)"
| "notify_offered valid_address s (NotifyRefused e) = (nf_saving s \<noteq> None)"
| "notify_offered valid_address s DiscardNotify = (notify_dirty s \<and> nf_saving s = None)"

fun notify_step :: "jsstring \<Rightarrow> (notify_event, notify_page) page_step" where
  "notify_step u (NotifyArrives d) s = (s\<lparr>nf_data := d\<rparr>, [], [])"
| "notify_step u (EditSender v) s = (s\<lparr>nf_draft := Some (v, shown_events s)\<rparr>, [], [])"
| "notify_step u (SwitchEvent k b) s = (s\<lparr>nf_draft := Some (shown_sender s, AList.update k b (shown_events s))\<rparr>, [], [])"
| "notify_step u SaveNotify s =
     (s\<lparr>nf_saving := Some (submitted s)\<rparr>, [ApiPatch ''/api/v1/admin/notifications/settings'' (notify_body (submitted s))], [])"
| "notify_step u (NotifySaved r) s =
     (case nf_saving s of
        None \<Rightarrow> (s, [], [])
      | Some sub \<Rightarrow>
          (s\<lparr>nf_saving := None, nf_data := with_fields (nf_data s) (notify_body sub @ json_fields r),
             nf_draft := (case nf_draft s of None \<Rightarrow> None | Some d \<Rightarrow> if edited_since d sub then Some d else None)\<rparr>, [],
           [Toast Success ''Notification settings saved'' [], Invalidate [''admin-notification-settings'', u]]))"
| "notify_step u (NotifyRefused e) s = (s\<lparr>nf_saving := None\<rparr>, [], [Toast ErrorTone ''Could not save settings'' e])"
| "notify_step u DiscardNotify s = (s\<lparr>nf_draft := None\<rparr>, [], [])"

section \<open>Stored and shown switches\<close>

lemma known_distinct: "distinct known_events"
  by (simp add: known_events_def NOTIFICATION_EVENTS_def)

lemma fold_update_lookup:
  assumes "distinct (map fst kvs)"
  shows "map_of (fold (\<lambda>(k, v) r. AList.update k (f v) r) kvs r) j = (case map_of kvs j of Some v \<Rightarrow> Some (f v) | None \<Rightarrow> map_of r j)"
  using assms
proof (induction kvs arbitrary: r)
  case (Cons e kvs)
  then have "map_of kvs (fst e) = None" by (auto simp: map_of_eq_None_iff)
  with Cons show ?case by (cases e) (auto simp: update_conv split: option.splits)
qed simp

lemma fold_update_distinct_keys:
  "distinct (map fst r) \<Longrightarrow> distinct (map fst (fold (\<lambda>(k, v) r. AList.update k (f v) r) kvs r))"
  by (induction kvs arbitrary: r) (auto simp: distinct_update)

lemma known_lookup: "map_of (map (\<lambda>k. (k, f k)) ks) k = (if k \<in> set ks then Some (f k) else None)"
  by (induction ks) auto

lemma saved_lookup:
  assumes "distinct (map fst (stored_events d))"
  shows "map_of (savedEvents d) k =
    (case map_of (stored_events d) k of
       Some v \<Rightarrow> Some (truthy v)
     | None \<Rightarrow> if k \<in> set known_events then Some (truthy (enabled_by_default (jget (jget d ''events'') k))) else None)"
  unfolding savedEvents_def fold_update_lookup[OF assms] known_lookup by (rule refl)

lemma saved_distinct: "distinct (map fst (savedEvents d))"
  unfolding savedEvents_def by (rule fold_update_distinct_keys) (simp add: comp_def known_distinct)

definition switches_ok :: "switches \<Rightarrow> bool" where
  "switches_ok ev \<longleftrightarrow> distinct (map fst ev) \<and> set known_events \<subseteq> fst ` set ev"

lemma switches_ok_lookup: "switches_ok ev \<longleftrightarrow> distinct (map fst ev) \<and> (\<forall>k \<in> set known_events. map_of ev k \<noteq> None)"
  by (auto simp: switches_ok_def map_of_eq_None_iff)

lemma saved_ok: "distinct (map fst (stored_events d)) \<Longrightarrow> switches_ok (savedEvents d)"
  by (auto simp: switches_ok_lookup saved_distinct saved_lookup split: option.splits)

lemma update_switches_ok: "switches_ok ev \<Longrightarrow> switches_ok (AList.update k b ev)"
  by (auto simp: switches_ok_lookup distinct_update update_conv)

text \<open>Switches that were stored are shown again as they are.\<close>

lemma stored_switches: "json_fields (events_json ev) = map (\<lambda>(k, b). (k, JBool b)) ev"
  by (simp add: events_json_def json_fields_def)

lemma map_of_switches: "map_of (map (\<lambda>(k, b). (k, JBool b)) ev) k = map_option JBool (map_of ev k)"
  by (induction ev) auto

lemma jget_switches: "jget (events_json ev) k = (case map_of ev k of Some b \<Rightarrow> JBool b | None \<Rightarrow> JUndef)"
  by (simp add: events_json_def map_of_switches split: option.split)

lemma saved_switches:
  assumes "switches_ok ev" "jget d ''events'' = events_json ev"
  shows "map_of (savedEvents d) k = map_of ev k"
proof -
  have "distinct (map fst (stored_events d))"
    using assms by (simp add: stored_events_def stored_switches switches_ok_def comp_def case_prod_beta)
  from saved_lookup[OF this, of k] show ?thesis
    using assms by (auto simp: stored_events_def stored_switches map_of_switches switches_ok_lookup split: option.splits)
qed

section \<open>Saving\<close>

definition notify_inv :: "notify_page \<Rightarrow> bool" where
  "notify_inv s \<longleftrightarrow>
     distinct (map fst (stored_events (nf_data s))) \<and>
     (\<forall>a ev. nf_draft s = Some (a, ev) \<longrightarrow> switches_ok ev) \<and>
     (\<forall>a ev. nf_saving s = Some (a, ev) \<longrightarrow> switches_ok ev \<and> trim a = a)"

definition notify_request_ok :: "api_request \<Rightarrow> bool" where
  "notify_request_ok r \<longleftrightarrow>
     (\<exists>a ev. r = ApiPatch ''/api/v1/admin/notifications/settings'' (notify_body (a, ev)) \<and> trim a = a \<and> switches_ok ev)"

lemma shown_ok: "notify_inv s \<Longrightarrow> switches_ok (shown_events s)"
  by (auto simp: notify_inv_def shown_events_def saved_ok split: option.splits)

lemma saved_data:
  "jget (with_fields v (notify_body sub @ fs)) ''events'' = events_json (snd sub)"
  "jget (with_fields v (notify_body sub @ fs)) ''sender_address'' = JStr (fst sub)"
  by (simp_all add: notify_body_def del: jget.simps)

lemma notify_keep:
  assumes "notify_inv s" "notify_offered valid_address s e"
  shows "notify_inv (fst (notify_step u e s))"
proof (cases e)
  case (NotifySaved r)
  then obtain a ev where sub: "nf_saving s = Some (a, ev)" using assms(2) by auto
  then have "switches_ok ev" using assms(1) by (simp add: notify_inv_def)
  then have "distinct (map fst (stored_events (with_fields (nf_data s) (notify_body (a, ev) @ json_fields r))))"
    unfolding stored_events_def saved_data by (simp add: stored_switches switches_ok_def comp_def case_prod_beta)
  then show ?thesis using assms(1) NotifySaved sub by (auto simp: notify_inv_def split: option.splits)
qed (use assms shown_ok[OF assms(1)] in \<open>auto simp: notify_inv_def update_switches_ok submitted_def\<close>)

lemma sent_ok:
  "switches_ok ev \<Longrightarrow> notify_request_ok (ApiPatch ''/api/v1/admin/notifications/settings'' (notify_body (trim a, ev)))"
  unfolding notify_request_ok_def using trim_idem by blast

lemma notify_good:
  "notify_inv s \<Longrightarrow> notify_offered valid_address s e \<Longrightarrow> list_all notify_request_ok (fst (snd (notify_step u e s)))"
  using shown_ok[of s] sent_ok[of "shown_events s" "shown_sender s"]
  by (cases e) (auto simp: submitted_def split: option.splits)

lemma notify_start: "notify_inv initial_notify"
  by (simp add: notify_inv_def initial_notify_def stored_events_def json_fields_def)

interpretation notify: page_contract initial_notify "notify_offered valid_address" "notify_step u" notify_inv notify_request_ok
  for valid_address u
  by unfold_locales (auto simp: notify_start notify_keep notify_good)

lemma clean_after:
  assumes "switches_ok ev" "jget (nf_data s) ''events'' = events_json ev" "jget (nf_data s) ''sender_address'' = JStr a"
    "nf_draft s = None"
  shows "shown_sender s = a \<and> (\<forall>k. map_of (shown_events s) k = map_of ev k) \<and> \<not> notify_dirty s"
proof -
  have sender: "shown_sender s = a" using assms(3,4) by (simp add: shown_sender_def sender_text_def nullish_def)
  have events: "map_of (shown_events s) k = map_of ev k" for k
    using saved_switches[OF assms(1,2)] assms(4) by (simp add: shown_events_def)
  have "enabled_by_default (jget (jget (nf_data s) ''events'') k) = JBool (switch_on (shown_events s) k)"
    if "k \<in> set (eventRows s)" for k
  proof -
    have "k \<in> set known_events \<or> map_of (shown_events s) k \<noteq> None"
      using that by (auto simp: eventRows_def map_of_eq_None_iff simp del: not_None_eq)
    then have "map_of ev k \<noteq> None" using assms(1) events by (auto simp: switches_ok_lookup)
    then obtain b where "map_of ev k = Some b" by auto
    then show ?thesis unfolding assms(2) jget_switches switch_on_def events by (simp add: enabled_by_default_def nullish_def)
  qed
  then have "\<not> notify_dirty s" using sender assms(3) by (auto simp: notify_dirty_def list_ex_iff js_or_def)
  with sender events show ?thesis by blast
qed

text \<open>C22. When a save succeeds, a draft edited meanwhile is kept; otherwise it is dropped, and the page then
  shows exactly what was submitted and has nothing left to save, whatever the answer holds.\<close>

theorem notification_save_settles:
  assumes "page_reach initial_notify (notify_offered valid_address) (notify_step u) s sent" "nf_saving s = Some (a, ev)"
    "s1 = fst (notify_step u (NotifySaved r) s)"
  shows "(\<exists>d. nf_draft s = Some d \<and> edited_since d (a, ev) \<and> nf_draft s1 = Some d) \<or>
    nf_draft s1 = None \<and> shown_sender s1 = a \<and> (\<forall>k. map_of (shown_events s1) k = map_of ev k) \<and> \<not> notify_dirty s1"
proof (cases "\<exists>d. nf_draft s = Some d \<and> edited_since d (a, ev)")
  case True
  then show ?thesis using assms(2,3) by auto
next
  case False
  have ok: "switches_ok ev" using notify.reach_inv[OF assms(1)] assms(2) by (simp add: notify_inv_def)
  have d: "nf_data s1 = with_fields (nf_data s) (notify_body (a, ev) @ json_fields r)" and n: "nf_draft s1 = None"
    using assms(2,3) False by (auto split: option.splits)
  have "jget (nf_data s1) ''events'' = events_json ev" "jget (nf_data s1) ''sender_address'' = JStr a"
    unfolding d saved_data by simp_all
  from clean_after[OF ok this n] n show ?thesis by blast
qed

definition notify_script :: "notify_event list" where
  "notify_script =
     [NotifyArrives (JObj [(''sender_address'', JStr ''old@example.com''), (''events'', JObj [(''host.load'', JBool False)])]),
      EditSender ''new@example.com'', SwitchEvent ''host.load'' True, SaveNotify]"

theorem notification_save_settles_witness:
  "\<exists>s sent ev. page_reach initial_notify (notify_offered (\<lambda>a. True)) (notify_step ''admin'') s sent \<and>
     nf_saving s = Some (''new@example.com'', ev) \<and> map_of ev ''host.load'' = Some True \<and>
     shown_sender (fst (notify_step ''admin'' (NotifySaved (JObj [])) s)) = ''new@example.com''"
proof -
  let ?run = "page_run (notify_offered (\<lambda>a. True)) (notify_step ''admin'') notify_script (initial_notify, [])"
  have "map_option (\<lambda>(s, sent). (map_option fst (nf_draft s), map_option fst (nf_saving s),
      map_option (\<lambda>p. map_of (snd p) ''host.load'') (nf_saving s), nf_draft s = nf_saving s)) ?run =
      Some (Some ''new@example.com'', Some ''new@example.com'', Some (Some True), True)"
    by code_simp
  then obtain x where x: "?run = Some x"
    "(case x of (s, sent) \<Rightarrow> (map_option fst (nf_draft s), map_option fst (nf_saving s),
      map_option (\<lambda>p. map_of (snd p) ''host.load'') (nf_saving s), nf_draft s = nf_saving s)) =
      (Some ''new@example.com'', Some ''new@example.com'', Some (Some True), True)"
    by (auto simp only: map_option_eq_Some)
  obtain s sent where r: "?run = Some (s, sent)" and s: "map_option fst (nf_saving s) = Some ''new@example.com''"
    "map_option (\<lambda>p. map_of (snd p) ''host.load'') (nf_saving s) = Some (Some True)" "nf_draft s = nf_saving s"
    using x by (cases x) simp
  obtain ev where ev: "nf_saving s = Some (''new@example.com'', ev)" "map_of ev ''host.load'' = Some True"
    using s(1,2) by (cases "nf_saving s") auto
  have "trim ''new@example.com'' = ''new@example.com''" by code_simp
  then have "\<not> edited_since (''new@example.com'', ev) (''new@example.com'', ev)" by (simp add: edited_since_def)
  with notification_save_settles[OF scripted_reach[OF r] ev(1) refl, of "JObj []"] s(3) ev scripted_reach[OF r]
  show ?thesis by auto
qed

text \<open>Reading the settings again never replaces a draft.\<close>

lemma draft_survives_reading: "nf_draft (fst (notify_step u (NotifyArrives d) s)) = nf_draft s"
  by simp

end
