(* ===== verification/Backup_Policy.thy ===== *)
theory Backup_Policy
  imports Page_Machine Js_Numbers
begin

text \<open>
  The dialog that edits a backup job (\<open>PolicyDialog\<close> in \<open>pages/admin/BackupJobs.jsx\<close>). Its form is one
  object, spread from the defaults and from the job, so a field the job does not have keeps its default;
  four texts hold what is edited line by line. What the server keeps of a request (\<open>validate_options\<close> and
  \<open>_policy_dict\<close> in \<open>daemon/snapshot_jobs.py\<close>) is written out as \<open>server_policy\<close> and \<open>policy_dict\<close>, so that
  editing a job can be compared with what is stored; its checks of accounts, addresses, time zones and of
  the state of the destinations are left out. \<open>frac\<close> reads numbers that are not whole.
\<close>

section \<open>The form\<close>

definition toggle :: "json list \<Rightarrow> json \<Rightarrow> bool \<Rightarrow> json list" where
  "toggle items v on = (if on then rev (remdups (rev (items @ [v]))) else filter (\<lambda>x. x \<noteq> v) items)"

definition BACKUP_EVENTS :: "(jsstring \<times> jsstring) list" where
  "BACKUP_EVENTS =
     [(''backup.completed'', ''Backup completed''), (''backup.failed'', ''Backup failed''), (''backup.partial'', ''Partial completion''),
      (''backup.overdue'', ''Backup overdue''), (''backup.destination_unavailable'', ''Destination unavailable''),
      (''backup.restore_completed'', ''Restore completed''), (''backup.restore_failed'', ''Restore failed''),
      (''backup.download_ready'', ''Download ready'')]"

definition strs :: "jsstring list \<Rightarrow> json" where
  "strs ws = JArr (map JStr ws)"

definition COMPONENTS :: "jsstring list" where
  "COMPONENTS = [''files'', ''databases'', ''mail'', ''config'']"

definition emptyPolicy :: json where
  "emptyPolicy = JObj
     [(''name'', JStr []), (''destination_id'', JStr []), (''destination_ids'', JArr []), (''frequency'', JStr ''daily''),
      (''timezone'', JStr ''UTC''), (''schedule_hour'', JNum 2), (''schedule_minute'', JNum 0), (''schedule_weekday'', JNum 0),
      (''schedule_monthday'', JNum 1), (''enabled'', JBool True), (''mode'', JStr ''incremental''), (''accounts'', JArr []),
      (''excluded_accounts'', JArr []), (''components'', strs COMPONENTS), (''include_paths'', JArr []), (''exclude_patterns'', JArr []),
      (''quiesce_apps'', JBool False), (''encrypt_portable'', JBool False), (''notification_channels'', JArr []),
      (''notification_events'', strs (map fst BACKUP_EVENTS)), (''notification_recipients'', JArr []), (''digest_frequency'', JStr ''immediate''),
      (''retention_count'', JNum 7), (''on_demand_retention'', JNum 7), (''pre_restore_retention'', JNum 7), (''freshness_hours'', JNum 36),
      (''minimum_free_mb'', JNum 2048), (''retention_daily'', JNum 7), (''retention_weekly'', JNum 4), (''retention_monthly'', JNum 6)]"

text \<open>A destination is offered when it is ready and enabled; the default is the first that is ready.\<close>

definition destination_ready :: "json \<Rightarrow> bool" where
  "destination_ready d \<longleftrightarrow> jget d ''status'' = JStr ''ready''"

definition destination_offered :: "json \<Rightarrow> bool" where
  "destination_offered d \<longleftrightarrow> destination_ready d \<and> truthy (jget d ''enabled'')"

definition default_destination :: "json list \<Rightarrow> json" where
  "default_destination ds =
     js_or (case List.find destination_ready ds of Some d \<Rightarrow> jget d ''id'' | None \<Rightarrow> JUndef) (JStr [])"

definition policy_form :: "json \<Rightarrow> json list \<Rightarrow> json" where
  "policy_form policy ds =
     (if truthy (jget policy ''id'') \<or> truthy (jget policy ''prefill'')
      then put_fields emptyPolicy
             (json_fields policy @ json_fields (jget policy ''options'') @ [(''id'', JUndef), (''prefill'', JUndef)])
      else put_fields emptyPolicy [(''destination_id'', default_destination ds)])"

record policy_dialog =
  pd_policy :: json
  pd_destinations :: "json list"
  pd_accounts :: "json list"
  pd_form :: json
  pd_all :: bool
  pd_include :: jsstring
  pd_exclude :: jsstring
  pd_recipients :: jsstring
  pd_saving :: bool
  pd_error :: "jsstring option"
  pd_closed :: bool

definition joined_lines :: "json \<Rightarrow> jsstring" where
  "joined_lines v = js_join [newline] (json_list v)"

definition open_policy :: "json \<Rightarrow> json list \<Rightarrow> json list \<Rightarrow> policy_dialog" where
  "open_policy policy ds accounts =
     (let f = policy_form policy ds
      in \<lparr>pd_policy = policy, pd_destinations = ds, pd_accounts = accounts, pd_form = f,
          pd_all = (json_list (jget f ''accounts'') = []), pd_include = joined_lines (jget f ''include_paths''),
          pd_exclude = joined_lines (jget f ''exclude_patterns''), pd_recipients = joined_lines (jget f ''notification_recipients''),
          pd_saving = False, pd_error = None, pd_closed = False\<rparr>)"

definition set_field :: "jsstring \<Rightarrow> json \<Rightarrow> policy_dialog \<Rightarrow> policy_dialog" where
  "set_field k v s = s\<lparr>pd_form := put_fields (pd_form s) [(k, v)]\<rparr>"

text \<open>\<open>Number(v)\<close>; JNull stands for NaN.\<close>

fun json_Number :: "(jsstring \<Rightarrow> json) \<Rightarrow> json \<Rightarrow> json" where
  "json_Number frac JUndef = JNull"
| "json_Number frac JNull = JNum 0"
| "json_Number frac (JBool b) = JNum (if b then 1 else 0)"
| "json_Number frac (JNum n) = JNum n"
| "json_Number frac (JStr s) = js_Number frac s"
| "json_Number frac v = js_Number frac (js_String v)"

definition chosen_destinations :: "(jsstring \<Rightarrow> json) \<Rightarrow> json \<Rightarrow> json list" where
  "chosen_destinations frac f =
     map (json_Number frac)
       (case jget f ''destination_ids'' of JArr (x # xs) \<Rightarrow> x # xs | _ \<Rightarrow> [jget f ''destination_id''])"

definition toggle_destination :: "(jsstring \<Rightarrow> json) \<Rightarrow> json \<Rightarrow> bool \<Rightarrow> policy_dialog \<Rightarrow> policy_dialog" where
  "toggle_destination frac i on s =
     (let current = filter truthy (chosen_destinations frac (pd_form s));
          s' = set_field ''destination_ids'' (JArr (toggle current i on)) s
      in if on \<and> \<not> truthy (jget (pd_form s) ''destination_id'') then set_field ''destination_id'' i s' else s')"

definition number_fields :: "jsstring list" where
  "number_fields =
     [''schedule_hour'', ''schedule_minute'', ''schedule_weekday'', ''schedule_monthday'', ''retention_count'', ''on_demand_retention'',
      ''pre_restore_retention'', ''freshness_hours'', ''minimum_free_mb'', ''retention_daily'', ''retention_weekly'', ''retention_monthly'']"

definition policy_body :: "(jsstring \<Rightarrow> json) \<Rightarrow> policy_dialog \<Rightarrow> body" where
  "policy_body frac s =
     (let f = pd_form s; ids = chosen_destinations frac f
      in sent_fields (put_fields f
           ([(''accounts'', if pd_all s then JArr [] else jget f ''accounts''), (''include_paths'', strs (linesToList (pd_include s))),
             (''exclude_patterns'', strs (linesToList (pd_exclude s))), (''notification_recipients'', strs (linesToList (pd_recipients s))),
             (''destination_id'', hd ids), (''destination_ids'', JArr ids)] @
            map (\<lambda>k. (k, json_Number frac (jget f k))) number_fields)))"

definition backups_api :: jsstring where "backups_api = ''/api/v1/backups/snapshots''"

definition policy_request :: "(jsstring \<Rightarrow> json) \<Rightarrow> policy_dialog \<Rightarrow> api_request" where
  "policy_request frac s =
     (if truthy (jget (pd_policy s) ''id'')
      then ApiPut (backups_api @ ''/policies/'' @ js_String (jget (pd_policy s) ''id'')) (policy_body frac s)
      else ApiPost (backups_api @ ''/policies'') (policy_body frac s))"

text \<open>The fields the controls set, with the values they can give.\<close>

definition option_controls :: "(jsstring \<times> jsstring list) list" where
  "option_controls =
     [(''mode'', [''incremental'', ''compressed'', ''archive'', ''full'']), (''frequency'', [''hourly'', ''daily'', ''weekly'', ''monthly'', ''manual'']),
      (''digest_frequency'', [''immediate'', ''daily'', ''weekly'']), (''schedule_hour'', map show_nat [0..<24]),
      (''schedule_minute'', map show_nat [0..<60]), (''schedule_weekday'', map show_nat [0..<7])]"

definition number_limits :: "(jsstring \<times> int \<times> int) list" where
  "number_limits =
     [(''schedule_monthday'', 1, 31), (''freshness_hours'', 1, 8760), (''retention_count'', 1, 365), (''on_demand_retention'', 1, 365),
      (''pre_restore_retention'', 1, 365), (''retention_daily'', 0, 365), (''retention_weekly'', 0, 104), (''retention_monthly'', 0, 120),
      (''minimum_free_mb'', 256, 1048576)]"

definition switch_fields :: "jsstring list" where
  "switch_fields = [''enabled'', ''quiesce_apps'', ''encrypt_portable'']"

definition control_admits :: "jsstring list \<Rightarrow> jsstring \<Rightarrow> json \<Rightarrow> bool" where
  "control_admits zones k v \<longleftrightarrow>
     (case v of
        JStr t \<Rightarrow> k = ''name'' \<and> length t \<le> 100 \<or> k = ''timezone'' \<and> t \<in> set zones \<or> k \<in> fst ` set number_limits \<or>
          (case map_of option_controls k of Some ts \<Rightarrow> t \<in> set ts | None \<Rightarrow> False)
      | JBool b \<Rightarrow> k \<in> set switch_fields
      | _ \<Rightarrow> False)"

definition list_choices :: "policy_dialog \<Rightarrow> jsstring \<Rightarrow> jsstring list" where
  "list_choices s k =
     (if k = ''accounts'' \<or> k = ''excluded_accounts'' then map (\<lambda>a. js_String (jget a ''username'')) (pd_accounts s)
      else if k = ''components'' then COMPONENTS
      else if k = ''notification_channels'' then [''email'', ''telegram'', ''webhook'']
      else if k = ''notification_events'' then map fst BACKUP_EVENTS else [])"

text \<open>The browser's check of a number field: blank unless required, else a whole number within its bounds.\<close>

definition number_valid :: "(jsstring \<Rightarrow> json) \<Rightarrow> json \<Rightarrow> jsstring \<times> int \<times> int \<Rightarrow> bool" where
  "number_valid frac f lim \<longleftrightarrow>
     (case lim of (k, lo, hi) \<Rightarrow>
        jget f k = JStr [] \<and> k \<noteq> ''retention_count'' \<or>
        (jget f k \<noteq> JStr [] \<and> (case json_Number frac (jget f k) of JNum n \<Rightarrow> lo \<le> n \<and> n \<le> hi | _ \<Rightarrow> False)))"

definition form_submits :: "(jsstring \<Rightarrow> json) \<Rightarrow> json \<Rightarrow> bool" where
  "form_submits frac f \<longleftrightarrow>
     jget f ''name'' \<noteq> JStr [] \<and>
     list_all (\<lambda>lim. fst lim = ''schedule_monthday'' \<and> jget f ''frequency'' \<noteq> JStr ''monthly'' \<or> number_valid frac f lim) number_limits"

datatype policy_event =
    SetField jsstring json
  | ToggleIn jsstring jsstring bool
  | ToggleAll bool
  | ToggleDestination json bool
  | EditIncludes jsstring
  | EditExcludes jsstring
  | EditRecipients jsstring
  | SavePolicy
  | PolicySaved
  | PolicyRefused jsstring
  | ClosePolicy

fun policy_offered :: "(jsstring \<Rightarrow> json) \<Rightarrow> jsstring list \<Rightarrow> policy_dialog \<Rightarrow> policy_event \<Rightarrow> bool" where
  "policy_offered frac zones s (SetField k v) = (\<not> pd_closed s \<and> control_admits (js_String (jget (pd_form s) ''timezone'') # zones) k v)"
| "policy_offered frac zones s (ToggleIn k v on) = (\<not> pd_closed s \<and> v \<in> set (list_choices s k) \<and> (k = ''accounts'' \<longrightarrow> \<not> pd_all s))"
| "policy_offered frac zones s (ToggleAll b) = (\<not> pd_closed s)"
| "policy_offered frac zones s (ToggleDestination i on) =
     (\<not> pd_closed s \<and> list_ex (\<lambda>d. destination_offered d \<and> jget d ''id'' = i) (pd_destinations s) \<and>
      on = (i \<notin> set (chosen_destinations frac (pd_form s))))"
| "policy_offered frac zones s (EditIncludes t) = (\<not> pd_closed s)"
| "policy_offered frac zones s (EditExcludes t) = (\<not> pd_closed s)"
| "policy_offered frac zones s (EditRecipients t) = (\<not> pd_closed s)"
| "policy_offered frac zones s SavePolicy =
     (\<not> pd_closed s \<and> \<not> pd_saving s \<and> json_list (jget (pd_form s) ''components'') \<noteq> [] \<and> form_submits frac (pd_form s))"
| "policy_offered frac zones s PolicySaved = pd_saving s"
| "policy_offered frac zones s (PolicyRefused e) = pd_saving s"
| "policy_offered frac zones s ClosePolicy = (\<not> pd_closed s \<and> \<not> pd_saving s)"

definition no_account_message :: jsstring where
  "no_account_message = ''Select at least one account or choose all active accounts.''"

definition refresh_backups :: "page_effect list" where
  "refresh_backups = map (\<lambda>k. Invalidate [k])
     [''snapshot-destinations'', ''snapshot-policies'', ''snapshot-runs'', ''snapshot-account-catalog'', ''snapshot-destination-operations'']"

fun policy_step :: "(jsstring \<Rightarrow> json) \<Rightarrow> (policy_event, policy_dialog) page_step" where
  "policy_step frac (SetField k v) s = (set_field k v s, [], [])"
| "policy_step frac (ToggleIn k v on) s =
     (set_field k (JArr (toggle (json_list (jget (pd_form s) k)) (JStr v) on)) s, [], [])"
| "policy_step frac (ToggleAll b) s = (s\<lparr>pd_all := b\<rparr>, [], [])"
| "policy_step frac (ToggleDestination i on) s = (toggle_destination frac i on s, [], [])"
| "policy_step frac (EditIncludes t) s = (s\<lparr>pd_include := t\<rparr>, [], [])"
| "policy_step frac (EditExcludes t) s = (s\<lparr>pd_exclude := t\<rparr>, [], [])"
| "policy_step frac (EditRecipients t) s = (s\<lparr>pd_recipients := t\<rparr>, [], [])"
| "policy_step frac SavePolicy s =
     (if \<not> pd_all s \<and> json_list (jget (pd_form s) ''accounts'') = [] then (s\<lparr>pd_error := Some no_account_message\<rparr>, [], [])
      else (s\<lparr>pd_saving := True, pd_error := None\<rparr>, [policy_request frac s], []))"
| "policy_step frac PolicySaved s =
     (s\<lparr>pd_saving := False, pd_closed := True\<rparr>, [], Toast Success ''Backup job saved'' [] # refresh_backups)"
| "policy_step frac (PolicyRefused e) s = (s\<lparr>pd_saving := False, pd_error := Some e\<rparr>, [], [])"
| "policy_step frac ClosePolicy s = (s\<lparr>pd_closed := True\<rparr>, [], [])"

section \<open>What the server keeps\<close>

record backup_policy =
  bp_name :: jsstring
  bp_frequency :: jsstring
  bp_enabled :: bool
  bp_accounts :: "jsstring list"
  bp_excluded :: "jsstring list"
  bp_components :: "jsstring list"
  bp_includes :: "jsstring list"
  bp_excludes :: "jsstring list"
  bp_channels :: "jsstring list"
  bp_events :: "jsstring list"
  bp_recipients :: "jsstring list"
  bp_digest :: jsstring
  bp_retention :: int
  bp_mode :: jsstring
  bp_destinations :: "int list"
  bp_quiesce :: bool
  bp_encrypt :: bool
  bp_timezone :: jsstring
  bp_hour :: int
  bp_minute :: int
  bp_weekday :: int
  bp_monthday :: int
  bp_on_demand :: int
  bp_pre_restore :: int
  bp_freshness :: int
  bp_min_free :: int
  bp_daily :: int
  bp_weekly :: int
  bp_monthly :: int

definition policy_options :: "backup_policy \<Rightarrow> (jsstring \<times> json) list" where
  "policy_options p =
     [(''accounts'', strs (bp_accounts p)), (''excluded_accounts'', strs (bp_excluded p)), (''components'', strs (bp_components p)),
      (''include_paths'', strs (bp_includes p)), (''exclude_patterns'', strs (bp_excludes p)), (''notification_channels'', strs (bp_channels p)),
      (''notification_events'', strs (bp_events p)), (''notification_recipients'', strs (bp_recipients p)),
      (''digest_frequency'', JStr (bp_digest p)), (''retention_count'', JNum (bp_retention p)), (''mode'', JStr (bp_mode p)),
      (''destination_ids'', JArr (map JNum (bp_destinations p))), (''quiesce_apps'', JBool (bp_quiesce p)),
      (''encrypt_portable'', JBool (bp_encrypt p)), (''timezone'', JStr (bp_timezone p)), (''schedule_hour'', JNum (bp_hour p)),
      (''schedule_minute'', JNum (bp_minute p)), (''schedule_weekday'', JNum (bp_weekday p)), (''schedule_monthday'', JNum (bp_monthday p)),
      (''on_demand_retention'', JNum (bp_on_demand p)), (''pre_restore_retention'', JNum (bp_pre_restore p)),
      (''freshness_hours'', JNum (bp_freshness p)), (''minimum_free_mb'', JNum (bp_min_free p)), (''retention_daily'', JNum (bp_daily p)),
      (''retention_weekly'', JNum (bp_weekly p)), (''retention_monthly'', JNum (bp_monthly p))]"

definition policy_dict :: "int \<Rightarrow> json \<Rightarrow> backup_policy \<Rightarrow> json" where
  "policy_dict i queued p = JObj
     [(''id'', JNum i), (''name'', JStr (bp_name p)), (''destination_id'', JNum (hd (bp_destinations p))), (''frequency'', JStr (bp_frequency p)),
      (''enabled'', JBool (bp_enabled p)), (''options'', JObj (policy_options p)), (''last_queued_at'', queued)]"

definition clamp :: "int \<Rightarrow> int \<Rightarrow> int \<Rightarrow> int" where
  "clamp lo hi n = max lo (min hi n)"

definition as_int :: "json \<Rightarrow> int option" where
  "as_int v = (case v of JNum n \<Rightarrow> Some n | _ \<Rightarrow> None)"

definition as_bool :: "json \<Rightarrow> bool option" where
  "as_bool v = (case v of JBool b \<Rightarrow> Some b | _ \<Rightarrow> None)"

definition as_str :: "json \<Rightarrow> jsstring option" where
  "as_str v = (case v of JStr s \<Rightarrow> Some s | _ \<Rightarrow> None)"

definition as_list :: "(json \<Rightarrow> 'a option) \<Rightarrow> json \<Rightarrow> 'a list option" where
  "as_list f v = (case v of JArr xs \<Rightarrow> those (map f xs) | _ \<Rightarrow> None)"

definition first_uniq :: "'a list \<Rightarrow> 'a list" where
  "first_uniq xs = rev (remdups (rev xs))"

definition server_strings :: "nat \<Rightarrow> json \<Rightarrow> jsstring list option" where
  "server_strings limit v =
     (case as_list as_str v of
        None \<Rightarrow> None
      | Some ws \<Rightarrow>
          if length ws \<le> limit \<and> list_all (\<lambda>w. w \<noteq> [] \<and> length w \<le> 1024 \<and> set w \<inter> {CHR 0x00, CHR 0x0D, newline} = {}) ws
          then Some (first_uniq ws) else None)"

definition in_range :: "int \<Rightarrow> int \<Rightarrow> int \<Rightarrow> bool" where
  "in_range lo hi n \<longleftrightarrow> lo \<le> n \<and> n \<le> hi"

definition policy_admitted :: "backup_policy \<Rightarrow> bool" where
  "policy_admitted p \<longleftrightarrow>
     bp_name p \<noteq> [] \<and> length (bp_name p) \<le> 100 \<and> bp_frequency p \<in> set [''hourly'', ''daily'', ''weekly'', ''monthly'', ''manual''] \<and>
     bp_components p \<noteq> [] \<and> set (bp_components p) \<subseteq> set COMPONENTS \<and>
     set (bp_channels p) \<subseteq> set [''email'', ''telegram'', ''webhook''] \<and> set (bp_events p) \<subseteq> fst ` set BACKUP_EVENTS \<and>
     bp_digest p \<in> set [''immediate'', ''daily'', ''weekly''] \<and> in_range 1 365 (bp_retention p) \<and>
     bp_mode p \<in> set [''full'', ''incremental'', ''compressed'', ''archive''] \<and>
     bp_destinations p \<noteq> [] \<and> length (bp_destinations p) \<le> 8 \<and> list_all (\<lambda>d. 0 < d) (bp_destinations p) \<and>
     in_range 0 23 (bp_hour p) \<and> in_range 0 59 (bp_minute p) \<and> in_range 0 6 (bp_weekday p) \<and> in_range 1 31 (bp_monthday p)"

definition is_portable :: "jsstring \<Rightarrow> bool" where
  "is_portable m \<longleftrightarrow> m = ''compressed'' \<or> m = ''archive''"

definition field :: "body \<Rightarrow> jsstring \<Rightarrow> json" where
  "field b k = (case map_of b k of Some v \<Rightarrow> v | None \<Rightarrow> JUndef)"

definition server_policy :: "body \<Rightarrow> backup_policy option" where
  "server_policy b =
     Option.bind (as_str (field b ''name'')) (\<lambda>name.
     Option.bind (as_str (field b ''frequency'')) (\<lambda>frequency.
     Option.bind (as_bool (field b ''enabled'')) (\<lambda>enabled.
     Option.bind (server_strings 200 (field b ''accounts'')) (\<lambda>accounts.
     Option.bind (server_strings 200 (field b ''excluded_accounts'')) (\<lambda>excluded.
     Option.bind (server_strings 200 (field b ''components'')) (\<lambda>components.
     Option.bind (server_strings 200 (field b ''include_paths'')) (\<lambda>incs.
     Option.bind (server_strings 200 (field b ''exclude_patterns'')) (\<lambda>excs.
     Option.bind (server_strings 200 (field b ''notification_channels'')) (\<lambda>channels.
     Option.bind (server_strings 200 (field b ''notification_events'')) (\<lambda>events.
     Option.bind (server_strings 25 (field b ''notification_recipients'')) (\<lambda>recipients.
     Option.bind (as_str (field b ''digest_frequency'')) (\<lambda>digest.
     Option.bind (as_int (field b ''retention_count'')) (\<lambda>retention.
     Option.bind (as_str (field b ''mode'')) (\<lambda>mode.
     Option.bind (as_list as_int (field b ''destination_ids'')) (\<lambda>ds.
     Option.bind (as_bool (field b ''quiesce_apps'')) (\<lambda>quiesce.
     Option.bind (as_bool (field b ''encrypt_portable'')) (\<lambda>encrypt.
     Option.bind (as_str (field b ''timezone'')) (\<lambda>timezone.
     Option.bind (as_int (field b ''schedule_hour'')) (\<lambda>hour.
     Option.bind (as_int (field b ''schedule_minute'')) (\<lambda>minute.
     Option.bind (as_int (field b ''schedule_weekday'')) (\<lambda>weekday.
     Option.bind (as_int (field b ''schedule_monthday'')) (\<lambda>monthday.
     Option.bind (as_int (field b ''on_demand_retention'')) (\<lambda>on_demand.
     Option.bind (as_int (field b ''pre_restore_retention'')) (\<lambda>pre_restore.
     Option.bind (as_int (field b ''freshness_hours'')) (\<lambda>freshness.
     Option.bind (as_int (field b ''minimum_free_mb'')) (\<lambda>min_free.
     Option.bind (as_int (field b ''retention_daily'')) (\<lambda>daily.
     Option.bind (as_int (field b ''retention_weekly'')) (\<lambda>weekly.
     Option.bind (as_int (field b ''retention_monthly'')) (\<lambda>monthly.
       let p = \<lparr>bp_name = trim name, bp_frequency = frequency, bp_enabled = enabled, bp_accounts = accounts, bp_excluded = excluded,
            bp_components = components, bp_includes = incs, bp_excludes = excs, bp_channels = channels, bp_events = events,
            bp_recipients = recipients, bp_digest = digest, bp_retention = retention, bp_mode = mode, bp_destinations = first_uniq ds,
            bp_quiesce = quiesce, bp_encrypt = (encrypt \<and> is_portable mode), bp_timezone = timezone, bp_hour = hour, bp_minute = minute,
            bp_weekday = weekday, bp_monthday = monthday, bp_on_demand = clamp 1 365 on_demand, bp_pre_restore = clamp 1 365 pre_restore,
            bp_freshness = clamp 1 8760 freshness, bp_min_free = clamp 256 1048576 min_free, bp_daily = clamp 0 365 daily,
            bp_weekly = clamp 0 104 weekly, bp_monthly = clamp 0 120 monthly\<rparr>
       in if policy_admitted p then Some p else None)))))))))))))))))))))))))))))"

section \<open>A stored job is edited faithfully\<close>

text \<open>What the server stores: it was admitted, its lists hold each element once, its lines fit a text
  edited line by line, and its numbers lie within the bounds they are clamped to.\<close>

definition lines_ok :: "nat \<Rightarrow> jsstring list \<Rightarrow> bool" where
  "lines_ok limit ws \<longleftrightarrow>
     length ws \<le> limit \<and> distinct ws \<and>
     list_all (\<lambda>w. clean_line w \<and> length w \<le> 1024 \<and> CHR 0x00 \<notin> set w \<and> CHR 0x0D \<notin> set w) ws"

definition policy_stored :: "backup_policy \<Rightarrow> bool" where
  "policy_stored p \<longleftrightarrow>
     policy_admitted p \<and> trim (bp_name p) = bp_name p \<and>
     list_all (lines_ok 200) [bp_accounts p, bp_excluded p, bp_components p, bp_includes p, bp_excludes p, bp_channels p, bp_events p] \<and>
     lines_ok 25 (bp_recipients p) \<and> distinct (bp_destinations p) \<and> (bp_encrypt p \<longrightarrow> is_portable (bp_mode p)) \<and>
     in_range 1 365 (bp_on_demand p) \<and> in_range 1 365 (bp_pre_restore p) \<and> in_range 1 8760 (bp_freshness p) \<and>
     in_range 256 1048576 (bp_min_free p) \<and> in_range 0 365 (bp_daily p) \<and> in_range 0 104 (bp_weekly p) \<and> in_range 0 120 (bp_monthly p)"

lemma first_uniq_distinct: "distinct xs \<Longrightarrow> first_uniq xs = xs"
  by (simp add: first_uniq_def distinct_remdups_id)

lemma those_map_str: "those (map (as_str \<circ> JStr) ws) = Some ws"
  by (induction ws) (auto simp: as_str_def)

lemma those_map_int: "those (map (as_int \<circ> JNum) ns) = Some ns"
  by (induction ns) (auto simp: as_int_def)

lemma server_strings_stored: "lines_ok n ws \<Longrightarrow> server_strings n (strs ws) = Some ws"
  by (auto simp: server_strings_def as_list_def strs_def those_map_str lines_ok_def first_uniq_distinct clean_line_def list_all_iff)

lemma joined_lines_back: "lines_ok n ws \<Longrightarrow> linesToList (joined_lines (strs ws)) = ws"
proof -
  assume "lines_ok n ws"
  then have "list_all clean_line ws" by (simp add: lines_ok_def list_all_iff)
  then show ?thesis by (simp add: joined_lines_def strs_def json_list_def js_join_strings linesToList_join)
qed

lemma clamp_in_range: "in_range lo hi n \<Longrightarrow> clamp lo hi n = n"
  by (simp add: clamp_def in_range_def)

text \<open>The form of a stored job has each of its fields.\<close>

definition stored_form :: "int \<Rightarrow> json \<Rightarrow> backup_policy \<Rightarrow> json" where
  "stored_form i queued p =
     put_fields emptyPolicy (json_fields (policy_dict i queued p) @ policy_options p @ [(''id'', JUndef), (''prefill'', JUndef)])"

lemma policy_form_stored: "i \<noteq> 0 \<Longrightarrow> policy_form (policy_dict i queued p) ds = stored_form i queued p"
  by (simp add: policy_form_def stored_form_def policy_dict_def json_fields_def)

lemma option_names_distinct: "distinct (map fst (policy_options p))"
  by (simp add: policy_options_def)

lemma map_of_rev: "distinct (map fst xs) \<Longrightarrow> map_of (rev xs) = map_of xs"
  by (rule map_of_inject_set[THEN iffD2]) (simp_all add: rev_map[symmetric])

lemma stored_option:
  assumes "map_of (policy_options p) k = Some v" "k \<noteq> ''id''" "k \<noteq> ''prefill''"
  shows "jget (stored_form i queued p) k = v"
  using assms by (simp add: stored_form_def jget_put_fields map_of_append map_add_def map_of_rev[OF option_names_distinct])

lemma stored_top:
  assumes "map_of (policy_options p) k = None" "map_of (json_fields (policy_dict i queued p)) k = Some v" "k \<noteq> ''id''" "k \<noteq> ''prefill''"
  shows "jget (stored_form i queued p) k = v"
proof -
  have "distinct (map fst (json_fields (policy_dict i queued p)))" by (simp add: policy_dict_def json_fields_def)
  from map_of_rev[OF this] show ?thesis
    using assms by (simp add: stored_form_def jget_put_fields map_of_append map_add_def map_of_rev[OF option_names_distinct])
qed

lemma policy_body_lookup:
  assumes "distinct (map fst (json_fields (pd_form s)))"
  shows "field (policy_body frac s) k =
     (case map_of (rev ([(''accounts'', if pd_all s then JArr [] else jget (pd_form s) ''accounts''),
             (''include_paths'', strs (linesToList (pd_include s))), (''exclude_patterns'', strs (linesToList (pd_exclude s))),
             (''notification_recipients'', strs (linesToList (pd_recipients s))),
             (''destination_id'', hd (chosen_destinations frac (pd_form s))), (''destination_ids'', JArr (chosen_destinations frac (pd_form s)))] @
            map (\<lambda>k. (k, json_Number frac (jget (pd_form s) k))) number_fields)) k of
        Some v \<Rightarrow> v | None \<Rightarrow> jget (pd_form s) k)"
  unfolding policy_body_def Let_def field_def sent_lookup[OF put_fields_distinct[OF assms]] jget_put_fields
  by (auto split: option.splits)

lemma number_names: "distinct number_fields" "''accounts'' \<notin> set number_fields" "''include_paths'' \<notin> set number_fields"
  "''exclude_patterns'' \<notin> set number_fields" "''notification_recipients'' \<notin> set number_fields" "''destination_ids'' \<notin> set number_fields"
  by (simp_all add: number_fields_def)

lemma number_lookup:
  "map_of (rev (map (\<lambda>k. (k, g k)) number_fields)) k = (if k \<in> set number_fields then Some (g k) else None)"
proof -
  have "distinct (map fst (map (\<lambda>k. (k, g k)) number_fields))" using number_names(1) by (simp add: comp_def)
  from map_of_rev[OF this] show ?thesis by (simp add: map_of_map_restrict restrict_map_def)
qed

lemma body_number:
  "distinct (map fst (json_fields (pd_form s))) \<Longrightarrow> k \<in> set number_fields \<Longrightarrow>
     field (policy_body frac s) k = json_Number frac (jget (pd_form s) k)"
  by (simp only: policy_body_lookup rev_append map_of_append map_add_def number_lookup if_True option.case)

definition override_names :: "jsstring list" where
  "override_names =
     [''accounts'', ''include_paths'', ''exclude_patterns'', ''notification_recipients'', ''destination_id'', ''destination_ids'']"

lemma body_plain:
  assumes "distinct (map fst (json_fields (pd_form s)))" "k \<notin> set number_fields" "k \<notin> set override_names"
  shows "field (policy_body frac s) k = jget (pd_form s) k"
  using assms(2,3) unfolding policy_body_lookup[OF assms(1)] rev_append map_of_append map_add_def number_lookup override_names_def
  by simp

lemma body_overridden:
  assumes "distinct (map fst (json_fields (pd_form s)))"
  shows "field (policy_body frac s) ''accounts'' = (if pd_all s then JArr [] else jget (pd_form s) ''accounts'')"
    "field (policy_body frac s) ''include_paths'' = strs (linesToList (pd_include s))"
    "field (policy_body frac s) ''exclude_patterns'' = strs (linesToList (pd_exclude s))"
    "field (policy_body frac s) ''notification_recipients'' = strs (linesToList (pd_recipients s))"
    "field (policy_body frac s) ''destination_ids'' = JArr (chosen_destinations frac (pd_form s))"
  unfolding policy_body_lookup[OF assms] rev_append map_of_append map_add_def number_lookup
  by (simp_all add: number_names)

lemma emptyPolicy_distinct: "distinct (map fst (json_fields emptyPolicy))"
  by (simp add: emptyPolicy_def json_fields_def)

lemma stored_form_distinct: "distinct (map fst (json_fields (stored_form i queued p)))"
  unfolding stored_form_def by (rule put_fields_distinct[OF emptyPolicy_distinct])

lemma stored_form_fields:
  "jget (stored_form i queued p) ''name'' = JStr (bp_name p)"
  "jget (stored_form i queued p) ''frequency'' = JStr (bp_frequency p)"
  "jget (stored_form i queued p) ''enabled'' = JBool (bp_enabled p)"
  by (rule stored_top; simp add: policy_options_def policy_dict_def json_fields_def)+

lemma stored_form_options:
  "jget (stored_form i queued p) ''accounts'' = strs (bp_accounts p)"
  "jget (stored_form i queued p) ''excluded_accounts'' = strs (bp_excluded p)"
  "jget (stored_form i queued p) ''components'' = strs (bp_components p)"
  "jget (stored_form i queued p) ''include_paths'' = strs (bp_includes p)"
  "jget (stored_form i queued p) ''exclude_patterns'' = strs (bp_excludes p)"
  "jget (stored_form i queued p) ''notification_channels'' = strs (bp_channels p)"
  "jget (stored_form i queued p) ''notification_events'' = strs (bp_events p)"
  "jget (stored_form i queued p) ''notification_recipients'' = strs (bp_recipients p)"
  "jget (stored_form i queued p) ''digest_frequency'' = JStr (bp_digest p)"
  "jget (stored_form i queued p) ''mode'' = JStr (bp_mode p)"
  "jget (stored_form i queued p) ''destination_ids'' = JArr (map JNum (bp_destinations p))"
  "jget (stored_form i queued p) ''quiesce_apps'' = JBool (bp_quiesce p)"
  "jget (stored_form i queued p) ''encrypt_portable'' = JBool (bp_encrypt p)"
  "jget (stored_form i queued p) ''timezone'' = JStr (bp_timezone p)"
  by (rule stored_option; simp add: policy_options_def)+

lemma stored_form_numbers:
  "jget (stored_form i queued p) ''retention_count'' = JNum (bp_retention p)"
  "jget (stored_form i queued p) ''schedule_hour'' = JNum (bp_hour p)"
  "jget (stored_form i queued p) ''schedule_minute'' = JNum (bp_minute p)"
  "jget (stored_form i queued p) ''schedule_weekday'' = JNum (bp_weekday p)"
  "jget (stored_form i queued p) ''schedule_monthday'' = JNum (bp_monthday p)"
  "jget (stored_form i queued p) ''on_demand_retention'' = JNum (bp_on_demand p)"
  "jget (stored_form i queued p) ''pre_restore_retention'' = JNum (bp_pre_restore p)"
  "jget (stored_form i queued p) ''freshness_hours'' = JNum (bp_freshness p)"
  "jget (stored_form i queued p) ''minimum_free_mb'' = JNum (bp_min_free p)"
  "jget (stored_form i queued p) ''retention_daily'' = JNum (bp_daily p)"
  "jget (stored_form i queued p) ''retention_weekly'' = JNum (bp_weekly p)"
  "jget (stored_form i queued p) ''retention_monthly'' = JNum (bp_monthly p)"
  by (rule stored_option; simp add: policy_options_def)+

lemma opened_stored:
  assumes "i \<noteq> 0" "policy_stored p" and s_def: "s = open_policy (policy_dict i queued p) ds accounts"
  shows "pd_form s = stored_form i queued p" "pd_all s = (bp_accounts p = [])"
    "linesToList (pd_include s) = bp_includes p" "linesToList (pd_exclude s) = bp_excludes p"
    "linesToList (pd_recipients s) = bp_recipients p"
    "chosen_destinations frac (pd_form s) = map JNum (bp_destinations p)"
proof -
  have f: "policy_form (policy_dict i queued p) ds = stored_form i queued p" by (rule policy_form_stored[OF assms(1)])
  show form: "pd_form s = stored_form i queued p" by (simp add: s_def open_policy_def Let_def f)
  show "pd_all s = (bp_accounts p = [])"
    by (simp add: s_def open_policy_def Let_def f stored_form_options strs_def json_list_def)
  have l: "lines_ok 200 (bp_includes p)" "lines_ok 200 (bp_excludes p)" "lines_ok 25 (bp_recipients p)"
    using assms(2) by (simp_all add: policy_stored_def)
  show "linesToList (pd_include s) = bp_includes p" "linesToList (pd_exclude s) = bp_excludes p"
    "linesToList (pd_recipients s) = bp_recipients p"
    by (simp_all add: s_def open_policy_def Let_def f stored_form_options joined_lines_back[OF l(1)] joined_lines_back[OF l(2)]
        joined_lines_back[OF l(3)])
  have "bp_destinations p \<noteq> []" using assms(2) by (simp add: policy_stored_def policy_admitted_def)
  then show "chosen_destinations frac (pd_form s) = map JNum (bp_destinations p)"
    by (cases "bp_destinations p") (simp_all add: form chosen_destinations_def stored_form_options comp_def)
qed


definition nightly_job :: backup_policy where
  "nightly_job =
     \<lparr>bp_name = ''Nightly'', bp_frequency = ''weekly'', bp_enabled = True, bp_accounts = [''joe'', ''ann''], bp_excluded = [],
      bp_components = [''files'', ''mail''], bp_includes = [''public_html''], bp_excludes = [''**/cache/**'', ''**/node modules/**''],
      bp_channels = [''email''], bp_events = [''backup.failed''], bp_recipients = [''ops@example.com''], bp_digest = ''daily'',
      bp_retention = 14, bp_mode = ''compressed'', bp_destinations = [3, 1], bp_quiesce = False, bp_encrypt = True, bp_timezone = ''UTC'',
      bp_hour = 23, bp_minute = 5, bp_weekday = 6, bp_monthday = 31, bp_on_demand = 2, bp_pre_restore = 1, bp_freshness = 48,
      bp_min_free = 512, bp_daily = 0, bp_weekly = 4, bp_monthly = 12\<rparr>"


section \<open>New jobs\<close>

text \<open>Every request of the dialog keeps some components, names some accounts unless it is for all, and its
  texts are clean lines.\<close>

definition policy_sent_ok :: "api_request \<Rightarrow> bool" where
  "policy_sent_ok r \<longleftrightarrow>
     (case r of
        ApiPut url b \<Rightarrow> (\<exists>frac s. b = policy_body frac s \<and> json_list (jget (pd_form s) ''components'') \<noteq> [] \<and>
                          (pd_all s \<or> json_list (jget (pd_form s) ''accounts'') \<noteq> []))
      | ApiPost url b \<Rightarrow> (\<exists>frac s. b = policy_body frac s \<and> json_list (jget (pd_form s) ''components'') \<noteq> [] \<and>
                          (pd_all s \<or> json_list (jget (pd_form s) ''accounts'') \<noteq> []))
      | _ \<Rightarrow> False)"

lemma policy_sent: "policy_offered frac zones s e \<Longrightarrow> list_all policy_sent_ok (fst (snd (policy_step frac e s)))"
  by (cases e) (auto simp: policy_sent_ok_def policy_request_def)

definition form_distinct :: "policy_dialog \<Rightarrow> bool" where
  "form_distinct s \<longleftrightarrow> distinct (map fst (json_fields (pd_form s)))"

lemma set_field_distinct: "form_distinct s \<Longrightarrow> form_distinct (set_field k v s)"
  by (simp add: form_distinct_def set_field_def put_fields_distinct)

lemma toggle_destination_distinct: "form_distinct s \<Longrightarrow> form_distinct (toggle_destination frac i on s)"
  by (simp add: toggle_destination_def Let_def set_field_distinct)

lemma policy_keep: "form_distinct s \<Longrightarrow> form_distinct (fst (policy_step frac e s))"
  by (cases e) (simp_all add: set_field_distinct toggle_destination_distinct, simp_all add: form_distinct_def)

lemma open_policy_distinct: "form_distinct (open_policy policy ds accounts)"
  by (simp add: form_distinct_def open_policy_def Let_def policy_form_def put_fields_distinct emptyPolicy_distinct)

interpretation policy: page_contract "open_policy policy ds accounts" "policy_offered frac zones" "policy_step frac" form_distinct
    policy_sent_ok
  for policy ds accounts frac zones
  by unfold_locales (simp_all only: open_policy_distinct policy_keep policy_sent)

text \<open>A request never names a field twice, and its accounts are the chosen ones or all.\<close>

lemma policy_requests_valid:
  assumes "page_reach (open_policy policy ds accounts) (policy_offered frac zones) (policy_step frac) s sent"
  shows "list_all policy_sent_ok sent \<and>
    field (policy_body frac s) ''accounts'' = (if pd_all s then JArr [] else jget (pd_form s) ''accounts'') \<and>
    list_all clean_line (linesToList (pd_include s))"
proof -
  have inv: "form_distinct s" "list_all policy_sent_ok sent" using policy.reach_inv[OF assms] by blast+
  have "list_all clean_line (linesToList (pd_include s))"
  proof -
    have "newline \<notin> set w" if "w \<in> set (split_on newline t)" for w t
      using that by (induction t arbitrary: w) (auto split: list.splits if_splits)
    then show ?thesis using set_trim by (fastforce simp: linesToList_def clean_line_def list_all_iff)
  qed
  with inv body_overridden(1)[of s frac] show ?thesis by (simp add: form_distinct_def)
qed

text \<open>The default destination is the first that is ready, even when it is disabled; the boxes only show
  destinations that are enabled as well. Such a default cannot be unchosen: whatever boxes are ticked or
  cleared, it stays among the destinations of the request, which the server then refuses.\<close>

definition stuck :: "int \<Rightarrow> policy_dialog \<Rightarrow> bool" where
  "stuck d s \<longleftrightarrow> jget (pd_form s) ''destination_id'' = JNum d \<and>
     (jget (pd_form s) ''destination_ids'' = JArr [] \<or>
      (\<exists>xs. jget (pd_form s) ''destination_ids'' = JArr xs \<and> JNum d \<in> set xs))"

lemma stuck_chosen: "stuck d s \<Longrightarrow> JNum d \<in> set (chosen_destinations frac (pd_form s))"
  by (auto simp: stuck_def chosen_destinations_def split: list.splits) (force intro: rev_image_eqI[of "JNum d"])+

lemma set_field_get: "jget (pd_form (set_field k v s)) j = (if j = k then v else jget (pd_form s) j)"
  by (simp add: set_field_def jget_put_fields)

lemma disabled_default_stuck:
  assumes "stuck d s" "d \<noteq> 0" "policy_offered frac zones s e" "list_all (\<lambda>x. destination_offered x \<longrightarrow> jget x ''id'' \<noteq> JNum d) (pd_destinations s)"
  shows "stuck d (fst (policy_step frac e s))"
proof (cases e)
  case (ToggleDestination i on)
  have i: "i \<noteq> JNum d" using assms(3,4) ToggleDestination by (auto simp: list_ex_iff list_all_iff)
  have t: "truthy (jget (pd_form s) ''destination_id'')" using assms(1,2) by (simp add: stuck_def)
  have "JNum d \<in> set (filter truthy (chosen_destinations frac (pd_form s)))"
    using stuck_chosen[OF assms(1)] assms(2) by simp
  then have "JNum d \<in> set (toggle (filter truthy (chosen_destinations frac (pd_form s))) i on)"
    using i by (auto simp: toggle_def)
  moreover have "jget (pd_form (fst (policy_step frac e s))) ''destination_ids'' =
      JArr (toggle (filter truthy (chosen_destinations frac (pd_form s))) i on)"
    "jget (pd_form (fst (policy_step frac e s))) ''destination_id'' = JNum d"
    using ToggleDestination t assms(1) by (simp_all add: toggle_destination_def Let_def set_field_get stuck_def)
  ultimately show ?thesis unfolding stuck_def by blast
next
  case (SetField k v)
  then have "k \<noteq> ''destination_id''" "k \<noteq> ''destination_ids''"
    using assms(3) by (auto simp: control_admits_def number_limits_def option_controls_def switch_fields_def split: json.splits option.splits if_splits)
  then show ?thesis using assms(1) SetField by (simp add: stuck_def set_field_get)
next
  case (ToggleIn k v on)
  then have "k \<noteq> ''destination_id''" "k \<noteq> ''destination_ids''" using assms(3) by (auto simp: list_choices_def)
  then show ?thesis using assms(1) ToggleIn by (simp add: stuck_def set_field_get)
qed (use assms(1) in \<open>simp_all add: stuck_def\<close>)

lemma disabled_default_chosen:
  assumes "List.find destination_ready ds = Some d" "jget d ''id'' = JNum n" "n \<noteq> 0"
  shows "stuck n (open_policy (JObj []) ds accounts)"
proof -
  have "policy_form (JObj []) ds = put_fields emptyPolicy [(''destination_id'', JNum n)]"
    using assms by (simp add: policy_form_def default_destination_def js_or_def)
  then show ?thesis by (simp add: stuck_def open_policy_def Let_def jget_put_fields emptyPolicy_def)
qed

text \<open>Clearing the only chosen destination brings it back.\<close>

lemma sole_destination_returns:
  assumes "jget (pd_form s) ''destination_ids'' = JArr [JNum d]" "jget (pd_form s) ''destination_id'' = JNum d"
  shows "chosen_destinations frac (pd_form (fst (policy_step frac (ToggleDestination (JNum d) False) s))) = [JNum d]"
  using assms by (simp add: toggle_destination_def Let_def toggle_def chosen_destinations_def set_field_get)

end
