(* ===== verification/Backup_Manager.thy ===== *)
theory Backup_Manager
  imports Backup_Policy Url_Params
begin

text \<open>
  The rest of \<open>pages/admin/BackupJobs.jsx\<close>: the tabs and their address, the run of a job, the dialog of a
  destination (\<open>DestinationDialog\<close>), the transfer of the configuration (\<open>ConfigurationTransfer\<close>), the
  Telegram plugin (\<open>NotificationPlugins\<close>) and the earlier archives (\<open>OnDemandArchiveHistory\<close>). Buttons that
  do not wait for their own request can start several; of those under way the last started is observed.
\<close>

section \<open>Destinations\<close>

definition S3_PROVIDERS :: "(jsstring \<times> jsstring \<times> jsstring) list" where
  "S3_PROVIDERS =
     [(''aws'', ''https://s3.amazonaws.com'', ''us-east-1''), (''cloudflare'', [], ''auto''), (''backblaze'', [], []),
      (''wasabi'', ''https://s3.wasabisys.com'', ''us-east-1''), (''digitalocean'', [], []), (''minio'', [], ''us-east-1''), (''custom'', [], [])]"

definition EMPTY_DESTINATION :: json where
  "EMPTY_DESTINATION = JObj
     [(''name'', JStr []), (''kind'', JStr ''local''), (''path'', JStr ''/var/backups/boron''), (''ssh_host'', JStr []), (''ssh_user'', JStr []),
      (''ssh_port'', JNum 22), (''ssh_host_key'', JStr []), (''ssh_auth'', JStr ''key''), (''ssh_password'', JStr []),
      (''ssh_private_key'', JStr []), (''ssh_key_passphrase'', JStr []), (''s3_provider'', JStr ''aws''),
      (''s3_endpoint'', JStr ''https://s3.amazonaws.com''), (''s3_bucket'', JStr []), (''s3_prefix'', JStr ''boron''),
      (''s3_region'', JStr ''us-east-1''), (''s3_access_key'', JStr []), (''s3_secret_key'', JStr []), (''s3_session_token'', JStr []),
      (''drive_folder'', JStr ''Boron backups''), (''drive_client_id'', JStr []), (''drive_client_secret'', JStr [])]"

definition choose_provider :: "jsstring \<Rightarrow> json \<Rightarrow> json" where
  "choose_provider v f =
     (case map_of S3_PROVIDERS v of
        Some (endpoint, region) \<Rightarrow> put_fields f [(''s3_provider'', JStr v), (''s3_endpoint'', JStr endpoint), (''s3_region'', JStr region)]
      | None \<Rightarrow> f)"

text \<open>The fields a kind of storage requires.\<close>

definition kind_is_one_of :: "json \<Rightarrow> jsstring list \<Rightarrow> bool" where
  "kind_is_one_of f ks \<longleftrightarrow> list_ex (\<lambda>k. jget f ''kind'' = JStr k) ks"

definition required_fields :: "json \<Rightarrow> jsstring list" where
  "required_fields f =
     [''name''] @
     (if kind_is_one_of f [''ssh'', ''sftp'']
      then [''ssh_host'', ''ssh_port'', ''ssh_user'', ''ssh_host_key''] @ (if jget f ''ssh_auth'' = JStr ''password'' then [''ssh_password''] else [])
      else []) @
     (if kind_is_one_of f [''s3''] then [''s3_region'', ''s3_endpoint'', ''s3_bucket'', ''s3_access_key'', ''s3_secret_key''] else []) @
     (if kind_is_one_of f [''drive''] then [''drive_folder'', ''drive_client_id'', ''drive_client_secret''] else []) @
     (if kind_is_one_of f [''local'', ''ssh'', ''sftp''] then [''path''] else [])"

definition destination_submits :: "(jsstring \<Rightarrow> json) \<Rightarrow> (jsstring \<Rightarrow> bool) \<Rightarrow> json \<Rightarrow> bool" where
  "destination_submits frac valid_url f \<longleftrightarrow>
     list_all (\<lambda>k. jget f k \<noteq> JStr []) (required_fields f) \<and>
     (kind_is_one_of f [''ssh'', ''sftp''] \<longrightarrow>
        (case json_Number frac (jget f ''ssh_port'') of JNum n \<Rightarrow> 1 \<le> n \<and> n \<le> 65535 | _ \<Rightarrow> False)) \<and>
     (kind_is_one_of f [''s3''] \<longrightarrow> valid_url (js_String (jget f ''s3_endpoint'')))"

datatype destination_request =
    CreateRequest | InitializeRequest | KeyRequest | RemoveRequest | BrowseRequest | ConnectRequest | FolderRequest | RevokeRequest

record destination_dialog =
  dd_form :: json
  dd_saved :: "json option"
  dd_recovery :: "json option"
  dd_removeOpen :: bool
  dd_mapping :: "(jsstring \<times> jsstring) list"
  dd_inventory :: json
  dd_operations :: runs
  dd_settings :: runs
  dd_pending :: "destination_request list"
  dd_closed :: bool

definition open_destination :: "json \<Rightarrow> destination_dialog" where
  "open_destination d =
     \<lparr>dd_form = EMPTY_DESTINATION, dd_saved = (if truthy (jget d ''id'') then Some d else None), dd_recovery = None, dd_removeOpen = False,
      dd_mapping = [], dd_inventory = JUndef, dd_operations = ([], 0), dd_settings = ([], 0), dd_pending = [], dd_closed = False\<rparr>"

definition waits :: "destination_request \<Rightarrow> destination_dialog \<Rightarrow> bool" where
  "waits r s \<longleftrightarrow> r \<in> set (dd_pending s)"

definition destination_busy :: "destination_dialog \<Rightarrow> bool" where
  "destination_busy s \<longleftrightarrow> dd_pending s \<noteq> [] \<or> run_observed (dd_operations s) \<or> run_observed (dd_settings s)"

definition begin_wait :: "destination_request \<Rightarrow> destination_dialog \<Rightarrow> destination_dialog" where
  "begin_wait r s = s\<lparr>dd_pending := r # dd_pending s\<rparr>"

definition end_wait :: "destination_request \<Rightarrow> destination_dialog \<Rightarrow> destination_dialog" where
  "end_wait r s = s\<lparr>dd_pending := filter (\<lambda>x. x \<noteq> r) (dd_pending s)\<rparr>"

definition saved_url :: "json \<Rightarrow> jsstring \<Rightarrow> jsstring" where
  "saved_url d rest = backups_api @ ''/destinations/'' @ js_String (jget d ''id'') @ rest"

definition drive_connected :: "json \<Rightarrow> bool" where
  "drive_connected d \<longleftrightarrow> truthy (jget (jget d ''connection'') ''oauth_connected'')"

definition saved_is :: "destination_dialog \<Rightarrow> (json \<Rightarrow> bool) \<Rightarrow> bool" where
  "saved_is s P \<longleftrightarrow> (case dd_saved s of None \<Rightarrow> False | Some d \<Rightarrow> P d)"

text \<open>The recovery points that belong to no account here, by the number of their account.\<close>

definition unmapped_accounts :: "json \<Rightarrow> jsstring list" where
  "unmapped_accounts pts =
     first_uniq (map (\<lambda>e. js_String (jget e ''account_id''))
       (filter (\<lambda>e. \<not> truthy (jget e ''username'') \<and> truthy (jget e ''account_id'')) (json_list (jget pts ''entries''))))"

definition location_text :: "json \<Rightarrow> jsstring" where
  "location_text d =
     (let c = jget d ''connection''; path = js_String (jget d ''path'')
      in if jget d ''kind'' = JStr ''ssh'' \<or> jget d ''kind'' = JStr ''sftp''
         then js_String (jget c ''user'') @ ''@'' @ js_String (jget c ''host'') @ '':'' @ path
         else if jget d ''kind'' = JStr ''s3'' then js_String (jget c ''bucket'') @ ''/'' @ path
         else if jget d ''kind'' = JStr ''drive'' then ''Google Drive: '' @ path else path)"

definition is_text :: "json \<Rightarrow> bool" where
  "is_text v = (case v of JStr t \<Rightarrow> True | _ \<Rightarrow> False)"

definition is_truth :: "json \<Rightarrow> bool" where
  "is_truth v = (case v of JBool b \<Rightarrow> True | _ \<Rightarrow> False)"

datatype destination_event =
    EditDestination jsstring json
  | ChooseProvider jsstring
  | CreateDestination
  | DestinationCreated json
  | DestinationFails destination_request \<comment> \<open>its error is shown in the dialog\<close>
  | InitializeDestination
  | DestinationInitialized json
  | RevealKey
  | KeyRevealed json
  | StartOperation jsstring
  | OperationSettles nat "json option"
  | BrowsePoints
  | PointsArrive json
  | MapAccount jsstring jsstring
  | SwitchSetting jsstring
  | SettingSettles nat "json option"
  | AskRemoveDestination
  | CancelRemoveDestination
  | ConfirmRemoveDestination
  | DestinationRemoved
  | ConnectDrive
  | DriveRedirect json
  | ChooseFolder json
  | FolderChosen json
  | RevokeDrive
  | DriveRevoked json
  | CloseDestination

definition destination_main :: "destination_dialog \<Rightarrow> bool" where
  "destination_main s \<longleftrightarrow> \<not> dd_closed s \<and> \<not> dd_removeOpen s"

fun destination_event_offered :: "(jsstring \<Rightarrow> json) \<Rightarrow> (jsstring \<Rightarrow> bool) \<Rightarrow> destination_dialog \<Rightarrow> destination_event \<Rightarrow> bool" where
  "destination_event_offered frac valid_url s (EditDestination k v) =
     (destination_main s \<and> dd_saved s = None \<and> k \<in> fst ` set (json_fields EMPTY_DESTINATION) \<and> is_text v)"
| "destination_event_offered frac valid_url s (ChooseProvider p) = (destination_main s \<and> dd_saved s = None \<and> p \<in> fst ` set S3_PROVIDERS)"
| "destination_event_offered frac valid_url s CreateDestination =
     (destination_main s \<and> dd_saved s = None \<and> \<not> waits CreateRequest s \<and> destination_submits frac valid_url (dd_form s))"
| "destination_event_offered frac valid_url s (DestinationCreated d) = (waits CreateRequest s \<and> truthy (jget d ''id''))"
| "destination_event_offered frac valid_url s (DestinationFails r) = waits r s"
| "destination_event_offered frac valid_url s InitializeDestination =
     (destination_main s \<and> \<not> waits InitializeRequest s \<and> saved_is s (\<lambda>d. jget d ''kind'' = JStr ''drive'' \<longrightarrow> drive_connected d))"
| "destination_event_offered frac valid_url s (DestinationInitialized d) = (waits InitializeRequest s \<and> truthy (jget d ''id''))"
| "destination_event_offered frac valid_url s RevealKey =
     (destination_main s \<and> dd_saved s \<noteq> None \<and> dd_recovery s = None \<and> \<not> waits KeyRequest s)"
| "destination_event_offered frac valid_url s (KeyRevealed r) = waits KeyRequest s"
| "destination_event_offered frac valid_url s (StartOperation a) =
     (destination_main s \<and> a \<in> set [''test'', ''speed'', ''reindex''] \<and> saved_is s destination_ready)"
| "destination_event_offered frac valid_url s (OperationSettles i r) = (i \<in> set (fst (dd_operations s)))"
| "destination_event_offered frac valid_url s BrowsePoints = (destination_main s \<and> \<not> waits BrowseRequest s \<and> saved_is s destination_ready)"
| "destination_event_offered frac valid_url s (PointsArrive pts) = waits BrowseRequest s"
| "destination_event_offered frac valid_url s (MapAccount src u) = (destination_main s \<and> src \<in> set (unmapped_accounts (dd_inventory s)))"
| "destination_event_offered frac valid_url s (SwitchSetting k) =
     (destination_main s \<and> dd_saved s \<noteq> None \<and> k \<in> set [''enabled'', ''customer_visible''])"
| "destination_event_offered frac valid_url s (SettingSettles i r) =
     (i \<in> set (fst (dd_settings s)) \<and> (case r of None \<Rightarrow> True | Some d \<Rightarrow> truthy (jget d ''id'')))"
| "destination_event_offered frac valid_url s AskRemoveDestination = (destination_main s \<and> dd_saved s \<noteq> None \<and> \<not> waits RemoveRequest s)"
| "destination_event_offered frac valid_url s CancelRemoveDestination = (\<not> dd_closed s \<and> dd_removeOpen s \<and> \<not> waits RemoveRequest s)"
| "destination_event_offered frac valid_url s ConfirmRemoveDestination = (\<not> dd_closed s \<and> dd_removeOpen s \<and> \<not> waits RemoveRequest s)"
| "destination_event_offered frac valid_url s DestinationRemoved = waits RemoveRequest s"
| "destination_event_offered frac valid_url s ConnectDrive =
     (destination_main s \<and> \<not> waits ConnectRequest s \<and> saved_is s (\<lambda>d. jget d ''kind'' = JStr ''drive''))"
| "destination_event_offered frac valid_url s (DriveRedirect d) = waits ConnectRequest s"
| "destination_event_offered frac valid_url s (ChooseFolder p) =
     (destination_main s \<and> \<not> waits FolderRequest s \<and> saved_is s (\<lambda>d. jget d ''kind'' = JStr ''drive'' \<and> drive_connected d))"
| "destination_event_offered frac valid_url s (FolderChosen d) = (waits FolderRequest s \<and> truthy (jget d ''id''))"
| "destination_event_offered frac valid_url s RevokeDrive =
     (destination_main s \<and> \<not> waits RevokeRequest s \<and> saved_is s (\<lambda>d. jget d ''kind'' = JStr ''drive'' \<and> drive_connected d))"
| "destination_event_offered frac valid_url s (DriveRevoked d) = (waits RevokeRequest s \<and> truthy (jget d ''id''))"
| "destination_event_offered frac valid_url s CloseDestination = (destination_main s \<and> \<not> destination_busy s)"

definition saved_post :: "destination_dialog \<Rightarrow> jsstring \<Rightarrow> body \<Rightarrow> api_request list" where
  "saved_post s rest b = (case dd_saved s of None \<Rightarrow> [] | Some d \<Rightarrow> [ApiPost (saved_url d rest) b])"

definition destination_body :: "(jsstring \<Rightarrow> json) \<Rightarrow> json \<Rightarrow> body" where
  "destination_body frac f = sent_fields (put_fields f [(''ssh_port'', json_Number frac (jget f ''ssh_port''))])"

definition mapping_json :: "(jsstring \<times> jsstring) list \<Rightarrow> json" where
  "mapping_json m = JObj (map (\<lambda>(k, v). (k, JStr v)) m)"

fun destination_step :: "(jsstring \<Rightarrow> json) \<Rightarrow> (destination_event, destination_dialog) page_step" where
  "destination_step frac (EditDestination k v) s = (s\<lparr>dd_form := put_fields (dd_form s) [(k, v)]\<rparr>, [], [])"
| "destination_step frac (ChooseProvider p) s = (s\<lparr>dd_form := choose_provider p (dd_form s)\<rparr>, [], [])"
| "destination_step frac CreateDestination s =
     (begin_wait CreateRequest s, [ApiPost (backups_api @ ''/destinations'') (destination_body frac (dd_form s))], [])"
| "destination_step frac (DestinationCreated d) s = ((end_wait CreateRequest s)\<lparr>dd_saved := Some d\<rparr>, [], refresh_backups)"
| "destination_step frac (DestinationFails r) s = (end_wait r s, [], [])"
| "destination_step frac InitializeDestination s = (begin_wait InitializeRequest s, saved_post s ''/initialize'' [], [])"
| "destination_step frac (DestinationInitialized d) s =
     ((end_wait InitializeRequest s)\<lparr>dd_saved := Some d\<rparr>, [],
      refresh_backups @ [Toast Success ''Destination ready'' ''Backups can now be stored here.''])"
| "destination_step frac RevealKey s = (begin_wait KeyRequest s, saved_post s ''/recovery-key'' [], [])"
| "destination_step frac (KeyRevealed r) s = ((end_wait KeyRequest s)\<lparr>dd_recovery := Some r\<rparr>, [], [])"
| "destination_step frac (StartOperation a) s =
     (s\<lparr>dd_operations := start_run (dd_operations s)\<rparr>,
      saved_post s (''/'' @ a) (if a = ''reindex'' then [(''account_mapping'', mapping_json (dd_mapping s))] else []), [])"
| "destination_step frac (OperationSettles i r) s =
     (s\<lparr>dd_operations := settle_run i (dd_operations s)\<rparr>, [],
      case r of
        None \<Rightarrow> []
      | Some row \<Rightarrow> Toast Success ''Destination task queued'' (js_String (jget row ''action'') @ '' is running in the background.'') # refresh_backups)"
| "destination_step frac BrowsePoints s =
     (begin_wait BrowseRequest s, (case dd_saved s of None \<Rightarrow> [] | Some d \<Rightarrow> [ApiGet (saved_url d ''/browse'')]), [])"
| "destination_step frac (PointsArrive pts) s = ((end_wait BrowseRequest s)\<lparr>dd_inventory := pts\<rparr>, [], [])"
| "destination_step frac (MapAccount src u) s = (s\<lparr>dd_mapping := AList.update src u (dd_mapping s)\<rparr>, [], [])"
| "destination_step frac (SwitchSetting k) s =
     (case dd_saved s of
        None \<Rightarrow> (s, [], [])
      | Some d \<Rightarrow> (s\<lparr>dd_settings := start_run (dd_settings s)\<rparr>, [ApiPatch (saved_url d []) [(k, JBool (\<not> truthy (jget d k)))]], []))"
| "destination_step frac (SettingSettles i r) s =
     (s\<lparr>dd_settings := settle_run i (dd_settings s), dd_saved := (case r of None \<Rightarrow> dd_saved s | Some d \<Rightarrow> Some d)\<rparr>, [],
      case r of None \<Rightarrow> [] | Some d \<Rightarrow> refresh_backups)"
| "destination_step frac AskRemoveDestination s = (s\<lparr>dd_removeOpen := True\<rparr>, [], [])"
| "destination_step frac CancelRemoveDestination s = (s\<lparr>dd_removeOpen := False\<rparr>, [], [])"
| "destination_step frac ConfirmRemoveDestination s =
     (begin_wait RemoveRequest s, (case dd_saved s of None \<Rightarrow> [] | Some d \<Rightarrow> [ApiDelete (saved_url d [])]), [])"
| "destination_step frac DestinationRemoved s =
     ((end_wait RemoveRequest s)\<lparr>dd_closed := True\<rparr>, [],
      Toast Success ''Destination configuration removed'' ''Remote backup data was retained.'' # refresh_backups)"
| "destination_step frac ConnectDrive s = (begin_wait ConnectRequest s, saved_post s ''/drive/oauth/start'' [], [])"
| "destination_step frac (DriveRedirect d) s = (end_wait ConnectRequest s, [OpenWindow (js_String (jget d ''authorization_url''))], [])"
| "destination_step frac (ChooseFolder p) s =
     (begin_wait FolderRequest s, (case dd_saved s of None \<Rightarrow> [] | Some d \<Rightarrow> [ApiPut (saved_url d ''/drive/folder'') [(''path'', p)]]), [])"
| "destination_step frac (FolderChosen d) s =
     ((end_wait FolderRequest s)\<lparr>dd_saved := Some d\<rparr>, [], Toast Success ''Google Drive folder selected'' [] # refresh_backups)"
| "destination_step frac RevokeDrive s = (begin_wait RevokeRequest s, saved_post s ''/drive/revoke'' [], [])"
| "destination_step frac (DriveRevoked d) s =
     ((end_wait RevokeRequest s)\<lparr>dd_saved := Some d\<rparr>, [], Toast Success ''Google Drive disconnected'' [] # refresh_backups)"
| "destination_step frac CloseDestination s = (s\<lparr>dd_closed := True\<rparr>, [], [])"

subsection \<open>What is sent\<close>

definition destination_inv :: "destination_dialog \<Rightarrow> bool" where
  "destination_inv s \<longleftrightarrow>
     distinct (map fst (json_fields (dd_form s))) \<and> saved_is s (\<lambda>d. truthy (jget d ''id'')) = (dd_saved s \<noteq> None) \<and>
     (dd_removeOpen s \<longrightarrow> dd_saved s \<noteq> None) \<and> (waits RemoveRequest s \<longrightarrow> dd_removeOpen s)"

definition destination_request_ok :: "api_request \<Rightarrow> bool" where
  "destination_request_ok r \<longleftrightarrow>
     (case r of
        ApiPost url b \<Rightarrow>
          (\<exists>frac f. url = backups_api @ ''/destinations'' \<and> b = destination_body frac f \<and> distinct (map fst b)) \<or>
          (\<exists>d rest. truthy (jget d ''id'') \<and> url = saved_url d rest)
      | ApiPut url b \<Rightarrow> (\<exists>d p. truthy (jget d ''id'') \<and> url = saved_url d ''/drive/folder'' \<and> b = [(''path'', p)])
      | ApiPatch url b \<Rightarrow>
          (\<exists>d k. truthy (jget d ''id'') \<and> url = saved_url d [] \<and> k \<in> set [''enabled'', ''customer_visible''] \<and>
                 b = [(k, JBool (\<not> truthy (jget d k)))])
      | ApiDelete url \<Rightarrow> (\<exists>d. truthy (jget d ''id'') \<and> url = saved_url d [])
      | ApiGet url \<Rightarrow> (\<exists>d. truthy (jget d ''id'') \<and> url = saved_url d ''/browse'')
      | OpenWindow url \<Rightarrow> True
      | _ \<Rightarrow> False)"

lemma EMPTY_DESTINATION_distinct: "distinct (map fst (json_fields EMPTY_DESTINATION))"
  by (simp add: EMPTY_DESTINATION_def json_fields_def)

lemma choose_provider_distinct:
  "distinct (map fst (json_fields f)) \<Longrightarrow> distinct (map fst (json_fields (choose_provider p f)))"
  by (auto simp: choose_provider_def put_fields_distinct split: option.splits)

lemma sent_fields_distinct: "distinct (map fst (json_fields v)) \<Longrightarrow> distinct (map fst (sent_fields v))"
  unfolding sent_fields_def by (rule distinct_map_filter)

lemmas destination_defs = destination_inv_def saved_is_def begin_wait_def end_wait_def waits_def destination_main_def

lemma destination_keep:
  "destination_inv s \<Longrightarrow> destination_event_offered frac valid_url s e \<Longrightarrow> destination_inv (fst (destination_step frac e s))"
  by (cases e) (auto simp: destination_defs put_fields_distinct choose_provider_distinct split: option.splits)

lemma destination_good:
  assumes "destination_inv s" "destination_event_offered frac valid_url s e"
  shows "list_all destination_request_ok (fst (snd (destination_step frac e s)))"
proof (cases e)
  case CreateDestination
  have "distinct (map fst (destination_body frac (dd_form s)))"
    using assms(1) by (simp add: destination_body_def sent_fields_distinct put_fields_distinct destination_inv_def)
  then show ?thesis using CreateDestination by (auto simp: destination_request_ok_def)
qed (use assms in \<open>auto simp: destination_request_ok_def destination_inv_def saved_is_def saved_post_def split: option.splits\<close>)

definition destination_question :: "destination_dialog \<Rightarrow> unit question" where
  "destination_question s =
     (if dd_closed s then NoQuestion
      else if waits RemoveRequest s then Carrying () else if dd_removeOpen s then Asking () else NoQuestion)"

definition removal_shown :: "api_request \<Rightarrow> unit list" where
  "removal_shown r = (case r of ApiDelete url \<Rightarrow> [()] | _ \<Rightarrow> [])"

lemma destination_simulates:
  assumes "destination_inv s" "destination_event_offered frac valid_url s e"
  shows "question_step (destination_question s) (concat (map removal_shown (fst (snd (destination_step frac e s)))))
    (destination_question (fst (destination_step frac e s)))"
  using assms
  by (cases e)
     (auto simp: destination_defs destination_question_def removal_shown_def saved_post_def destination_busy_def intro: question_step.intros
        split: option.splits)

lemma destination_start: "destination_inv (open_destination d)" "destination_question (open_destination d) = NoQuestion"
  by (simp_all add: destination_defs destination_question_def open_destination_def EMPTY_DESTINATION_distinct)

interpretation destination: page_contract "open_destination d" "destination_event_offered frac valid_url" "destination_step frac"
    destination_inv destination_request_ok
  for d frac valid_url
  by unfold_locales (simp_all only: destination_start destination_keep destination_good)

interpretation destination_removal: page_refinement "open_destination d" "destination_event_offered frac valid_url" "destination_step frac"
    destination_inv destination_question removal_shown NoQuestion question_step
  for d frac valid_url
  by unfold_locales (simp_all only: destination_start destination_keep destination_simulates)

text \<open>What is sent about a destination is addressed to one that was saved, switches exactly one of its
  settings at a time, and its configuration is only removed by the answer to the question.\<close>

theorem destination_requests_valid:
  assumes "page_reach (open_destination d) (destination_event_offered frac valid_url) (destination_step frac) s sent"
  shows "list_all destination_request_ok sent \<and> question_run (concat (map removal_shown sent)) (destination_question s)"
  using destination.reach_inv[OF assms] destination_removal.refines[OF assms] by blast

definition destination_script :: "destination_event list" where
  "destination_script =
     [EditDestination ''name'' (JStr ''Offsite''), CreateDestination, DestinationCreated (JObj [(''id'', JNum 4), (''enabled'', JBool True)]),
      SwitchSetting ''enabled'', AskRemoveDestination, ConfirmRemoveDestination]"

theorem destination_requests_valid_witness:
  "\<exists>s sent. page_reach (open_destination (JObj [])) (destination_event_offered (\<lambda>t. JNull) (\<lambda>u. True)) (destination_step (\<lambda>t. JNull)) s sent \<and>
     question_run [()] (destination_question s) \<and> concat (map removal_shown sent) = [()]"
proof -
  have "map_option (\<lambda>(s, sent). concat (map removal_shown sent))
      (page_run (destination_event_offered (\<lambda>t. JNull) (\<lambda>u. True)) (destination_step (\<lambda>t. JNull)) destination_script
         (open_destination (JObj []), [])) = Some [()]"
    by code_simp
  then obtain x where x: "page_run (destination_event_offered (\<lambda>t. JNull) (\<lambda>u. True)) (destination_step (\<lambda>t. JNull)) destination_script
         (open_destination (JObj []), []) = Some x" "(case x of (s, sent) \<Rightarrow> concat (map removal_shown sent)) = [()]"
    by (auto simp only: map_option_eq_Some)
  obtain s sent where "page_run (destination_event_offered (\<lambda>t. JNull) (\<lambda>u. True)) (destination_step (\<lambda>t. JNull)) destination_script
         (open_destination (JObj []), []) = Some (s, sent)" and c: "concat (map removal_shown sent) = [()]"
    using x by (cases x) simp
  note r = scripted_reach[OF this(1)]
  from destination_requests_valid[OF r] c r show ?thesis by auto
qed

text \<open>The endpoint and the region of a provider replace what was typed for the one before.\<close>

lemma provider_replaces:
  assumes "map_of S3_PROVIDERS p = Some (e, r)"
  shows "jget (choose_provider p f) ''s3_endpoint'' = JStr e \<and> jget (choose_provider p f) ''s3_region'' = JStr r"
  using assms by (simp add: choose_provider_def jget_put_fields)

section \<open>Transferring the configuration\<close>

record transfer =
  ct_exported :: "json option"
  ct_exporting :: bool
  ct_importOpen :: bool
  ct_payload :: jsstring
  ct_key :: jsstring
  ct_preview :: "json option"
  ct_importing :: "bool option" \<comment> \<open>whether the request under way applies\<close>
  ct_error :: "jsstring option"

definition initial_transfer :: transfer where
  "initial_transfer =
     \<lparr>ct_exported = None, ct_exporting = False, ct_importOpen = False, ct_payload = [], ct_key = [], ct_preview = None,
      ct_importing = None, ct_error = None\<rparr>"

definition no_conflicts :: "json \<Rightarrow> bool" where
  "no_conflicts d \<longleftrightarrow> list_all (\<lambda>(k, v). json_list v = []) (json_fields (jget d ''conflicts''))"

datatype transfer_event =
    ExportConfiguration
  | ConfigurationExported json
  | ExportFails
  | CloseExport
  | OpenImport
  | CloseImport
  | PickPayload jsstring
  | EditKey jsstring
  | PreviewImport
  | ApplyImport
  | ImportAnswered json
  | ImportFails jsstring

fun transfer_offered :: "transfer \<Rightarrow> transfer_event \<Rightarrow> bool" where
  "transfer_offered s ExportConfiguration = (\<not> ct_exporting s \<and> ct_exported s = None \<and> \<not> ct_importOpen s)"
| "transfer_offered s (ConfigurationExported d) = ct_exporting s"
| "transfer_offered s ExportFails = ct_exporting s"
| "transfer_offered s CloseExport = (ct_exported s \<noteq> None)"
| "transfer_offered s OpenImport = (ct_exported s = None \<and> \<not> ct_importOpen s)"
| "transfer_offered s CloseImport = ct_importOpen s"
| "transfer_offered s (PickPayload t) = ct_importOpen s"
| "transfer_offered s (EditKey t) = ct_importOpen s"
| "transfer_offered s PreviewImport = (ct_importOpen s \<and> ct_importing s = None \<and> ct_payload s \<noteq> [] \<and> ct_key s \<noteq> [])"
| "transfer_offered s ApplyImport =
     (ct_importOpen s \<and> ct_importing s = None \<and> (case ct_preview s of None \<Rightarrow> False | Some d \<Rightarrow> no_conflicts d))"
| "transfer_offered s (ImportAnswered d) = (ct_importing s \<noteq> None)"
| "transfer_offered s (ImportFails e) = (ct_importing s \<noteq> None)"

definition import_request :: "transfer \<Rightarrow> bool \<Rightarrow> api_request" where
  "import_request s apply_it =
     ApiPost (backups_api @ ''/configuration/import'')
       [(''payload'', JStr (ct_payload s)), (''recovery_key'', JStr (ct_key s)), (''apply'', JBool apply_it)]"

fun transfer_step :: "(transfer_event, transfer) page_step" where
  "transfer_step ExportConfiguration s = (s\<lparr>ct_exporting := True\<rparr>, [ApiPost (backups_api @ ''/configuration/export'') []], [])"
| "transfer_step (ConfigurationExported d) s = (s\<lparr>ct_exporting := False, ct_exported := Some d\<rparr>, [], [])"
| "transfer_step ExportFails s = (s\<lparr>ct_exporting := False\<rparr>, [], [])"
| "transfer_step CloseExport s = (s\<lparr>ct_exported := None\<rparr>, [], [])"
| "transfer_step OpenImport s = (s\<lparr>ct_importOpen := True\<rparr>, [], [])"
| "transfer_step CloseImport s = (s\<lparr>ct_importOpen := False\<rparr>, [], [])"
| "transfer_step (PickPayload t) s = (s\<lparr>ct_payload := t\<rparr>, [], [])"
| "transfer_step (EditKey t) s = (s\<lparr>ct_key := t\<rparr>, [], [])"
| "transfer_step PreviewImport s = (s\<lparr>ct_importing := Some False, ct_error := None\<rparr>, [import_request s False], [])"
| "transfer_step ApplyImport s = (s\<lparr>ct_importing := Some True, ct_error := None\<rparr>, [import_request s True], [])"
| "transfer_step (ImportAnswered d) s =
     (s\<lparr>ct_importing := None, ct_preview := Some d\<rparr>, [],
      if jget d ''status'' = JStr ''imported''
      then Toast Success ''Backup configuration imported'' ''Destinations and jobs are disabled until tested and reindexed.'' # refresh_backups
      else [])"
| "transfer_step (ImportFails e) s = (s\<lparr>ct_importing := None, ct_error := Some e\<rparr>, [], [])"

text \<open>A configuration is only applied after an answer without conflicts; but the answer stays when another
  file or key is chosen, so what is applied need not be what was previewed.\<close>

definition asks_preview :: "api_request \<Rightarrow> bool" where
  "asks_preview r =
     (case r of ApiPost url b \<Rightarrow> url = backups_api @ ''/configuration/import'' \<and> map_of b ''apply'' = Some (JBool False) | _ \<Rightarrow> False)"

lemma import_after_preview:
  assumes "page_reach initial_transfer transfer_offered transfer_step s sent"
  shows "transfer_offered s ApplyImport \<longrightarrow> list_ex asks_preview sent"
proof -
  have "ct_preview s \<noteq> None \<or> ct_importing s \<noteq> None \<longrightarrow> list_ex asks_preview sent"
    using assms
  proof (induction rule: page_reach.induct)
    case start
    then show ?case by (simp add: initial_transfer_def)
  next
    case (step s sent e s' new effs)
    then show ?case by (cases e) (auto simp: import_request_def asks_preview_def split: option.splits)
  qed
  then show ?thesis by (auto split: option.splits)
qed

lemma unpreviewed_payload_applied:
  assumes "transfer_offered s ApplyImport" "t \<noteq> ct_payload s" "s1 = fst (transfer_step (PickPayload t) s)"
  shows "transfer_offered s (PickPayload t) \<and> transfer_offered s1 ApplyImport \<and>
    fst (snd (transfer_step ApplyImport s1)) =
      [ApiPost (backups_api @ ''/configuration/import'')
        [(''payload'', JStr t), (''recovery_key'', JStr (ct_key s)), (''apply'', JBool True)]]"
  using assms by (auto simp: import_request_def split: option.splits)

section \<open>The Telegram plugin\<close>

record telegram_page =
  tg_status :: json
  tg_form :: "json option"
  tg_saving :: bool
  tg_testing :: bool

definition initial_telegram :: telegram_page where
  "initial_telegram = \<lparr>tg_status = JUndef, tg_form = None, tg_saving = False, tg_testing = False\<rparr>"

definition telegram_plugin :: "json \<Rightarrow> json option" where
  "telegram_plugin st = List.find (\<lambda>p. jget p ''kind'' = JStr ''telegram'') (json_list (jget st ''plugins''))"

definition telegram_form :: "json \<Rightarrow> json" where
  "telegram_form p = JObj
     [(''enabled'', jget p ''enabled''), (''chat_id'', js_or (jget p ''chat_id'') (JStr [])), (''token'', JStr []),
      (''events'', if json_list (jget p ''events'') \<noteq> [] then jget p ''events'' else strs [''backup.completed'', ''backup.failed''])]"

text \<open>The effect that fills the form once.\<close>

definition telegram_effect :: "telegram_page \<Rightarrow> telegram_page" where
  "telegram_effect s =
     (case (tg_form s, telegram_plugin (tg_status s)) of
        (None, Some p) \<Rightarrow> s\<lparr>tg_form := Some (telegram_form p)\<rparr>
      | _ \<Rightarrow> s)"

datatype telegram_event =
    TelegramArrives json
  | TelegramFails \<comment> \<open>the plugins cannot be read\<close>
  | EditTelegram jsstring json
  | ToggleTelegramEvent jsstring bool
  | SaveTelegram
  | TelegramSaved
  | SaveTelegramFails
  | TestTelegram
  | TelegramTested
  | TestTelegramFails

fun telegram_offered :: "telegram_page \<Rightarrow> telegram_event \<Rightarrow> bool" where
  "telegram_offered s (TelegramArrives d) = True"
| "telegram_offered s TelegramFails = True"
| "telegram_offered s (EditTelegram k v) =
     (tg_form s \<noteq> None \<and> (k \<in> set [''chat_id'', ''token''] \<and> is_text v \<or> k = ''enabled'' \<and> is_truth v))"
| "telegram_offered s (ToggleTelegramEvent n on) = (tg_form s \<noteq> None \<and> n \<in> fst ` set BACKUP_EVENTS)"
| "telegram_offered s SaveTelegram = (tg_form s \<noteq> None \<and> \<not> tg_saving s)"
| "telegram_offered s TelegramSaved = tg_saving s"
| "telegram_offered s SaveTelegramFails = tg_saving s"
| "telegram_offered s TestTelegram = (tg_form s \<noteq> None \<and> \<not> tg_testing s)"
| "telegram_offered s TelegramTested = tg_testing s"
| "telegram_offered s TestTelegramFails = tg_testing s"

fun telegram_react :: "(telegram_event, telegram_page) page_step" where
  "telegram_react (TelegramArrives d) s = (s\<lparr>tg_status := d\<rparr>, [], [])"
| "telegram_react TelegramFails s = (s, [], [])"
| "telegram_react (EditTelegram k v) s = (s\<lparr>tg_form := map_option (\<lambda>f. put_fields f [(k, v)]) (tg_form s)\<rparr>, [], [])"
| "telegram_react (ToggleTelegramEvent n on) s =
     (s\<lparr>tg_form := map_option (\<lambda>f. put_fields f [(''events'', JArr (toggle (json_list (jget f ''events'')) (JStr n) on))]) (tg_form s)\<rparr>, [], [])"
| "telegram_react SaveTelegram s =
     (s\<lparr>tg_saving := True\<rparr>,
      (case tg_form s of None \<Rightarrow> [] | Some f \<Rightarrow> [ApiPut (backups_api @ ''/notifications/telegram'') (sent_fields f)]), [])"
| "telegram_react TelegramSaved s =
     (s\<lparr>tg_saving := False\<rparr>, [], [Toast Success ''Telegram settings saved'' [], Invalidate [''backup-notification-plugins'']])"
| "telegram_react SaveTelegramFails s = (s\<lparr>tg_saving := False\<rparr>, [], [])"
| "telegram_react TestTelegram s = (s\<lparr>tg_testing := True\<rparr>, [ApiPost (backups_api @ ''/notifications/telegram/test'') []], [])"
| "telegram_react TelegramTested s =
     (s\<lparr>tg_testing := False\<rparr>, [], [Toast Success ''Telegram test delivered'' [], Invalidate [''backup-notification-deliveries'']])"
| "telegram_react TestTelegramFails s = (s\<lparr>tg_testing := False\<rparr>, [], [])"

definition telegram_step :: "(telegram_event, telegram_page) page_step" where
  "telegram_step e s = (case telegram_react e s of (s', new, effs) \<Rightarrow> (telegram_effect s', new, effs))"

definition telegram_shows_loading :: "telegram_page \<Rightarrow> bool" where
  "telegram_shows_loading s \<longleftrightarrow> tg_form s = None"

text \<open>When the plugins cannot be read the page goes on showing that it is loading; the failure is never
  shown.\<close>

lemma failure_shown_as_loading:
  "telegram_shows_loading s \<Longrightarrow> telegram_plugin (tg_status s) = None \<Longrightarrow> telegram_shows_loading (fst (telegram_step TelegramFails s))"
  by (simp add: telegram_step_def telegram_effect_def telegram_shows_loading_def)

text \<open>The settings that were read never replace what is being edited, and a blank token keeps the stored one.\<close>

lemma telegram_form_kept: "tg_form s = Some f \<Longrightarrow> tg_form (fst (telegram_step (TelegramArrives d) s)) = Some f"
  by (simp add: telegram_step_def telegram_effect_def)

section \<open>Earlier archives\<close>

definition archives_url :: "jsstring \<Rightarrow> jsstring" where
  "archives_url u = ''/api/v1/backups/jobs?username='' @ encodeURIComponent u"

definition archives_poll :: "json \<Rightarrow> nat option" where
  "archives_poll d =
     (if list_ex (\<lambda>r. jget r ''status'' = JStr ''pending'' \<or> jget r ''status'' = JStr ''running'') (json_list (jget d ''jobs''))
      then Some 3000 else None)"

record archives =
  oa_data :: json
  oa_restoring :: "json option"

datatype archives_event = ArchivesArrive json | RestoreArchive json | ArchiveQueued | RestoreFails jsstring

fun archives_offered :: "archives \<Rightarrow> archives_event \<Rightarrow> bool" where
  "archives_offered s (ArchivesArrive d) = True"
| "archives_offered s (RestoreArchive r) =
     (oa_restoring s = None \<and> r \<in> set (json_list (jget (oa_data s) ''jobs'')) \<and> jget r ''status'' = JStr ''completed'')"
| "archives_offered s ArchiveQueued = (oa_restoring s \<noteq> None)"
| "archives_offered s (RestoreFails e) = (oa_restoring s \<noteq> None)"

fun archives_step :: "jsstring \<Rightarrow> (archives_event, archives) page_step" where
  "archives_step u (ArchivesArrive d) s = (s\<lparr>oa_data := d\<rparr>, [], [])"
| "archives_step u (RestoreArchive r) s =
     (s\<lparr>oa_restoring := Some r\<rparr>,
      [ApiPost (''/api/v1/accounts/'' @ encodeURIComponent u @ ''/backups/'' @ js_String (jget r ''id'') @ ''/restore'') []], [])"
| "archives_step u ArchiveQueued s =
     (s\<lparr>oa_restoring := None\<rparr>, [],
      [Toast Success ''Archive restore queued'' ''Progress remains available on the account backup page.'',
       Invalidate [''admin-account-archives'', u]])"
| "archives_step u (RestoreFails e) s = (s\<lparr>oa_restoring := None\<rparr>, [], [Toast ErrorTone ''Could not restore archive'' e])"

text \<open>One click restores an archive over the account: nothing is asked first.\<close>

lemma restore_unconfirmed:
  assumes "oa_restoring s = None" "r \<in> set (json_list (jget (oa_data s) ''jobs''))" "jget r ''status'' = JStr ''completed''"
  shows "archives_offered s (RestoreArchive r) \<and> fst (snd (archives_step u (RestoreArchive r) s)) \<noteq> []"
  using assms by simp

section \<open>The page\<close>

definition MANAGER_TABS :: "jsstring list" where
  "MANAGER_TABS = [''accounts'', ''jobs'', ''destinations'', ''history'', ''notifications'']"

definition requestedTab :: "params \<Rightarrow> jsstring" where
  "requestedTab ps = (case map_of ps ''tab'' of Some t \<Rightarrow> if t \<in> set MANAGER_TABS then t else ''accounts'' | None \<Rightarrow> ''accounts'')"

record manager =
  bm_params :: params
  bm_tab :: jsstring
  bm_policy :: "json option"
  bm_destination :: "json option"
  bm_account :: "json option"
  bm_former :: bool
  bm_destinations :: json
  bm_policies :: json
  bm_running :: "json option" \<comment> \<open>the job whose run is asked for\<close>

text \<open>The effect of a new address: its tab, the dialog it asks for, and the address without the request.\<close>

definition address_effect :: "manager \<Rightarrow> manager" where
  "address_effect s =
     (let t = requestedTab (bm_params s); action = or_string (map_of (bm_params s) ''action'') [];
          s1 = s\<lparr>bm_tab := t\<rparr>;
          s2 = (if action = ''create'' then (if t = ''destinations'' then s1\<lparr>bm_destination := Some (JObj [])\<rparr> else s1\<lparr>bm_policy := Some (JObj [])\<rparr>) else s1)
      in if action \<noteq> [] then s2\<lparr>bm_params := [(''tab'', t)]\<rparr> else s2)"

definition initial_manager :: "params \<Rightarrow> manager" where
  "initial_manager ps = address_effect
     \<lparr>bm_params = ps, bm_tab = requestedTab ps, bm_policy = None, bm_destination = None, bm_account = None, bm_former = False,
      bm_destinations = JUndef, bm_policies = JUndef, bm_running = None\<rparr>"

definition duplicate_policy :: "json \<Rightarrow> json" where
  "duplicate_policy r =
     put_fields r [(''id'', JNull), (''prefill'', JBool True), (''name'', JStr (js_String (jget r ''name'') @ '' copy''))]"

definition run_url :: "json \<Rightarrow> jsstring" where
  "run_url i = backups_api @ ''/policies/'' @ js_String i @ ''/run''"

definition run_notice :: "json \<Rightarrow> page_effect" where
  "run_notice d =
     (let n = length (json_list (jget d ''run_ids''))
      in Toast Success (if n \<noteq> 0 then ''Backup queued'' else ''No backups queued'')
           (show_nat n @ '' account(s) queued. '' @ show_nat (length (json_list (jget d ''skipped_busy_accounts''))) @ '' busy account(s) skipped.''))"

definition scheduled_jobs :: "json \<Rightarrow> nat" where
  "scheduled_jobs d = length (filter (\<lambda>p. truthy (jget p ''enabled'') \<and> jget p ''frequency'' \<noteq> JStr ''manual'') (json_list (jget d ''policies'')))"

definition destination_name :: "json \<Rightarrow> json \<Rightarrow> jsstring" where
  "destination_name ds i =
     (let name = (case List.find (\<lambda>d. jget d ''id'' = i) (json_list (jget ds ''destinations'')) of Some d \<Rightarrow> jget d ''name'' | None \<Rightarrow> JUndef)
      in if truthy name then js_String name else ''Destination #'' @ js_String i)"

text \<open>The answer of a run opens the list of runs; a request to create in the address is carried out once.\<close>

lemma address_action_once:
  "requestedTab (bm_params (initial_manager ps)) = requestedTab ps \<and>
   or_string (map_of (bm_params (initial_manager ps)) ''action'') [] = []"
  by (auto simp: initial_manager_def address_effect_def Let_def requestedTab_def or_string_def MANAGER_TABS_def split: option.splits if_splits)

text \<open>A duplicate is a new job with the settings of its model.\<close>

lemma duplicate_is_new:
  assumes "policy_form (duplicate_policy (policy_dict i queued p)) ds = f" "k \<in> fst ` set (policy_options p)" "k \<noteq> ''id''" "k \<noteq> ''prefill''"
  shows "jget f k = the (map_of (policy_options p) k) \<and> jget f ''id'' = JUndef"
proof -
  have opts: "jget (duplicate_policy (policy_dict i queued p)) ''options'' = JObj (policy_options p)"
    by (simp add: duplicate_policy_def jget_put_fields policy_dict_def)
  have pre: "jget (duplicate_policy (policy_dict i queued p)) ''prefill'' = JBool True"
    by (simp add: duplicate_policy_def jget_put_fields)
  obtain v where v: "map_of (policy_options p) k = Some v" using assms(2) by (metis map_of_eq_None_iff option.exhaust)
  have "f = put_fields emptyPolicy (json_fields (duplicate_policy (policy_dict i queued p)) @ policy_options p @ [(''id'', JUndef), (''prefill'', JUndef)])"
    using assms(1) by (simp add: policy_form_def opts pre json_fields_def del: jget.simps)
  then show ?thesis using v assms(3,4)
    by (simp add: jget_put_fields map_of_append map_add_def map_of_rev[OF option_names_distinct])
qed

end
