(* ===== verification/Health_Page.thy ===== *)
theory Health_Page
  imports Account_Limits
begin

text \<open>
  \<open>pages/admin/ServerHealth.jsx\<close>: the conditions that need attention, the figures of the last day, the
  state of Cloudflare and of the clock, and the settings of the monitoring (\<open>MonitoringCard\<close>). What the
  server keeps of a request (\<open>set_settings\<close> in \<open>daemon/monitoring.py\<close>, with the types the interface
  \<open>api/routers/monitoring.py\<close> asks for) is written out as \<open>store_settings\<close>. Its check of an address is the parameter
  \<open>server_email\<close>; texts of number fields that are no plain decimals are read by \<open>other\<close>.
\<close>

section \<open>Resources\<close>

record disk =
  dk_mount :: jsstring
  dk_pct :: "rat option"

record health =
  hl_clock :: "jsstring option"
  hl_disks :: "disk list"
  hl_mem :: "rat option"
  hl_cpu :: "rat option"

definition rootDisk :: "health \<Rightarrow> disk option" where
  "rootDisk h =
     (case List.find (\<lambda>d. dk_mount d = ''/'') (hl_disks h) of
        Some d \<Rightarrow> Some d
      | None \<Rightarrow> (case hl_disks h of [] \<Rightarrow> None | d # ds \<Rightarrow> Some d))"

definition root_pct :: "health \<Rightarrow> rat option" where
  "root_pct h = Option.bind (rootDisk h) dk_pct"

definition gauge_pct :: "rat option \<Rightarrow> int" where
  "gauge_pct p = js_round (case p of None \<Rightarrow> 0 | Some q \<Rightarrow> q)"

type_synonym condition = "jsstring \<times> jsstring" \<comment> \<open>its label and its link\<close>

definition resource_condition :: "rat option \<Rightarrow> rat \<Rightarrow> jsstring \<Rightarrow> jsstring \<Rightarrow> jsstring \<Rightarrow> condition list" where
  "resource_condition p limit before after link =
     (if at_least p limit then [(before @ show_int (gauge_pct p) @ after, link)] else [])"

definition attention :: "health option \<Rightarrow> jsstring option \<Rightarrow> condition list" where
  "attention h update =
     (case Option.bind h hl_clock of
        None \<Rightarrow> [] | Some c \<Rightarrow> if c \<noteq> ''healthy'' then [(''Clock synchronization needs attention'', ''#clock-health'')] else []) @
     (case update of None \<Rightarrow> [] | Some v \<Rightarrow> [(''Boron '' @ v @ '' is ready to install'', ''/updates'')]) @
     resource_condition (Option.bind h root_pct) 85 ''Root disk is '' (''% full '' @ [em_dash] @ '' review account usage'') ''/accounts'' @
     resource_condition (Option.bind h hl_mem) 90 ''Memory usage is '' (''% '' @ [em_dash] @ '' review services'') ''/services'' @
     resource_condition (Option.bind h hl_cpu) 90 ''CPU usage is '' (''% '' @ [em_dash] @ '' review services'') ''/services''"

text \<open>A condition is shown exactly when one of the limits is reached.\<close>

lemma attention_exact:
  "attention (Some h) update \<noteq> [] \<longleftrightarrow>
     (\<exists>c. hl_clock h = Some c \<and> c \<noteq> ''healthy'') \<or> update \<noteq> None \<or> at_least (root_pct h) 85 \<or> at_least (hl_mem h) 90 \<or> at_least (hl_cpu h) 90"
  by (auto simp: attention_def resource_condition_def split: option.splits)

text \<open>The figure beside a warning is never below the limit the warning is about.\<close>

lemma warning_figure: "at_least p (of_int n) \<Longrightarrow> n \<le> gauge_pct p"
proof -
  have "js_round (of_int n) = n" unfolding js_round_def by (rule floor_unique) simp_all
  then show "at_least p (of_int n) \<Longrightarrow> n \<le> gauge_pct p"
    using js_round_mono[of "of_int n"] by (auto simp: at_least_def gauge_pct_def split: option.splits)
qed

text \<open>But the figure can show a limit that is not reached, with no warning.\<close>

lemma rounded_limit_unwarned:
  "let h = \<lparr>hl_clock = None, hl_disks = [], hl_mem = Some (179 / 2), hl_cpu = None\<rparr>
   in gauge_pct (hl_mem h) = 90 \<and> attention (Some h) None = []"
  by code_simp

section \<open>The last day\<close>

record sample =
  sm_cpu :: "rat option"
  sm_total :: "int option"
  sm_used :: "int option"
  sm_rx :: "int option"
  sm_tx :: "int option"

definition or_zero :: "int option \<Rightarrow> int" where
  "or_zero v = (case v of None \<Rightarrow> 0 | Some n \<Rightarrow> n)"

definition history_point :: "sample \<Rightarrow> int \<times> int \<times> int" where
  "history_point p =
     (gauge_pct (sm_cpu p),
      (if or_zero (sm_total p) \<noteq> 0 then js_round (of_int (or_zero (sm_used p)) / of_int (or_zero (sm_total p)) * 100) else 0),
      or_zero (sm_rx p) + or_zero (sm_tx p))"

lemma memory_share_bounded:
  assumes "0 \<le> or_zero (sm_used p)" "or_zero (sm_used p) \<le> or_zero (sm_total p)"
  shows "0 \<le> fst (snd (history_point p)) \<and> fst (snd (history_point p)) \<le> 100"
proof (cases "or_zero (sm_total p) = 0")
  case False
  let ?q = "of_int (or_zero (sm_used p)) / of_int (or_zero (sm_total p)) * 100 :: rat"
  have t: "0 < or_zero (sm_total p)" using assms False by linarith
  then have "0 \<le> ?q" "?q \<le> 100" using assms by (simp_all add: pos_divide_le_eq)
  then have "js_round 0 \<le> js_round ?q" "js_round ?q \<le> js_round 100" by (simp_all only: js_round_mono)
  moreover have "js_round 0 = 0" "js_round 100 = 100" by code_simp+
  moreover have "fst (snd (history_point p)) = js_round ?q" using False by (simp only: history_point_def fst_conv snd_conv simp_thms not_False_eq_True if_True)
  ultimately show ?thesis by metis
qed (simp add: history_point_def)

section \<open>Cloudflare and the clock\<close>

definition cloudflare_badge :: "bool \<Rightarrow> bool \<Rightarrow> json \<Rightarrow> badge \<times> jsstring" where
  "cloudflare_badge loading failed d =
     (if loading then (BadgeNeutral, ''Checking'' @ [ellipsis])
      else if failed then (BadgeDanger, ''Unavailable'')
      else if \<not> truthy (jget d ''configured'') then (BadgeNeutral, ''Not configured'')
      else if truthy (jget d ''ok'') then (BadgeSuccess, ''Healthy'') else (BadgeDanger, ''Error''))"

definition ranges_text :: "json \<Rightarrow> rat option \<Rightarrow> jsstring" where
  "ranges_text d age =
     (let f = jget d ''ranges_file''
      in if truthy (jget f ''exists'')
         then ''updated '' @ formatDuration age @ '' ago'' @ (if truthy (jget f ''stale'') then '' (stale)'' else [])
         else ''not fetched yet'')"

definition clock_badge :: "jsstring option \<Rightarrow> badge" where
  "clock_badge c =
     (if c = Some ''healthy'' then BadgeSuccess else if c = Some ''critical'' then BadgeDanger else BadgeWarning)"

section \<open>Monitoring settings\<close>

datatype number_key = Cooldown | DiskFree | InodeFree | MemoryUsed | LoadPerCpu | LoginThreshold | LoginWindow

definition number_keys :: "number_key list" where
  "number_keys = [Cooldown, DiskFree, InodeFree, MemoryUsed, LoadPerCpu, LoginThreshold, LoginWindow]"

lemma number_keys_all: "k \<in> set number_keys"
  by (cases k) (simp_all add: number_keys_def)

record alert_settings =
  as_email :: "jsstring option"
  as_enabled :: bool
  as_channels :: "jsstring list"
  as_number :: "number_key \<Rightarrow> rat"

record alert_form =
  af_email :: jsstring
  af_enabled :: bool
  af_channels :: "jsstring list"
  af_number :: "number_key \<Rightarrow> field_value"

fun default_number :: "number_key \<Rightarrow> rat" where
  "default_number Cooldown = 30"
| "default_number DiskFree = 10"
| "default_number InodeFree = 10"
| "default_number MemoryUsed = 95"
| "default_number LoadPerCpu = 2"
| "default_number LoginThreshold = 20"
| "default_number LoginWindow = 10"

definition alert_defaults :: alert_form where
  "alert_defaults = \<lparr>af_email = [], af_enabled = True, af_channels = [''email''], af_number = (\<lambda>k. FNum (default_number k))\<rparr>"

definition settings_form :: "alert_settings \<Rightarrow> alert_form" where
  "settings_form st =
     \<lparr>af_email = or_string (as_email st) [], af_enabled = as_enabled st, af_channels = as_channels st, af_number = (\<lambda>k. FNum (as_number st k))\<rparr>"

record monitoring_card =
  mc_data :: "alert_settings option" \<comment> \<open>the settings, once they were read\<close>
  mc_form :: "alert_form option"
  mc_saving :: bool

definition initial_monitoring :: monitoring_card where
  "initial_monitoring = \<lparr>mc_data = None, mc_form = None, mc_saving = False\<rparr>"

definition active_form :: "monitoring_card \<Rightarrow> alert_form" where
  "active_form s =
     (case mc_form s of
        Some f \<Rightarrow> f
      | None \<Rightarrow> (case mc_data s of Some st \<Rightarrow> settings_form st | None \<Rightarrow> alert_defaults))"

record alert_body =
  ab_email :: "jsstring option"
  ab_enabled :: bool
  ab_channels :: "jsstring list"
  ab_number :: "number_key \<Rightarrow> rat option" \<comment> \<open>None: NaN, sent as null\<close>

definition alert_body_of :: "(jsstring \<Rightarrow> rat option) \<Rightarrow> alert_form \<Rightarrow> alert_body" where
  "alert_body_of other f =
     \<lparr>ab_email = (if af_email f = [] then None else Some (af_email f)), ab_enabled = af_enabled f, ab_channels = af_channels f,
      ab_number = (\<lambda>k. field_number other (af_number f k))\<rparr>"

definition alert_channels :: "jsstring list" where
  "alert_channels = [''email'', ''webhook'', ''telegram'']"

datatype monitoring_event =
    SettingsArrive alert_settings
  | EditAlertEmail jsstring
  | EditAlertNumber number_key jsstring
  | SwitchAlerts bool
  | SwitchChannel jsstring bool
  | SaveMonitoring
  | MonitoringSaved
  | MonitoringRefused jsstring

fun monitoring_offered :: "monitoring_card \<Rightarrow> monitoring_event \<Rightarrow> bool" where
  "monitoring_offered s (SettingsArrive st) = True"
| "monitoring_offered s (EditAlertEmail t) = True"
| "monitoring_offered s (EditAlertNumber k t) = True"
| "monitoring_offered s (SwitchAlerts b) = (b \<noteq> af_enabled (active_form s))"
| "monitoring_offered s (SwitchChannel c b) = (c \<in> set alert_channels \<and> b = (c \<notin> set (af_channels (active_form s))))"
| "monitoring_offered s SaveMonitoring = (\<not> mc_saving s)"
| "monitoring_offered s MonitoringSaved = mc_saving s"
| "monitoring_offered s (MonitoringRefused e) = mc_saving s"

definition edit_form :: "(alert_form \<Rightarrow> alert_form) \<Rightarrow> monitoring_card \<Rightarrow> monitoring_card" where
  "edit_form g s = s\<lparr>mc_form := Some (g (active_form s))\<rparr>"

fun monitoring_step ::
    "(jsstring \<Rightarrow> rat option) \<Rightarrow> monitoring_event \<Rightarrow> monitoring_card \<Rightarrow> monitoring_card \<times> alert_body list \<times> page_effect list" where
  "monitoring_step other (SettingsArrive st) s = (s\<lparr>mc_data := Some st\<rparr>, [], [])"
| "monitoring_step other (EditAlertEmail t) s = (edit_form (\<lambda>f. f\<lparr>af_email := t\<rparr>) s, [], [])"
| "monitoring_step other (EditAlertNumber k t) s = (edit_form (\<lambda>f. f\<lparr>af_number := (af_number f)(k := FText t)\<rparr>) s, [], [])"
| "monitoring_step other (SwitchAlerts b) s = (edit_form (\<lambda>f. f\<lparr>af_enabled := b\<rparr>) s, [], [])"
| "monitoring_step other (SwitchChannel c b) s =
     (edit_form (\<lambda>f. f\<lparr>af_channels := (if b then af_channels f @ [c] else filter (\<lambda>x. x \<noteq> c) (af_channels f))\<rparr>) s, [], [])"
| "monitoring_step other SaveMonitoring s = (s\<lparr>mc_saving := True\<rparr>, [alert_body_of other (active_form s)], [])"
| "monitoring_step other MonitoringSaved s =
     (s\<lparr>mc_saving := False, mc_form := None\<rparr>, [], [Toast Success ''Monitoring settings saved'' [], Invalidate [''monitoring-settings'']])"
| "monitoring_step other (MonitoringRefused e) s = (s\<lparr>mc_saving := False\<rparr>, [], [Toast ErrorTone ''Could not save settings'' e])"

section \<open>What the server keeps of them\<close>

fun number_range :: "number_key \<Rightarrow> rat \<times> rat \<times> bool" where \<comment> \<open>and whether it is a whole number\<close>
  "number_range Cooldown = (1, 1440, True)"
| "number_range DiskFree = (1, 50, True)"
| "number_range InodeFree = (1, 50, True)"
| "number_range MemoryUsed = (50, 100, True)"
| "number_range LoadPerCpu = (1 / 2, 20, False)"
| "number_range LoginThreshold = (2, 10000, True)"
| "number_range LoginWindow = (1, 1440, True)"

definition number_admitted :: "number_key \<Rightarrow> rat option \<Rightarrow> bool" where
  "number_admitted k v \<longleftrightarrow>
     (case number_range k of (lo, hi, w) \<Rightarrow> at_least v lo \<and> at_most v (Some hi) \<and> (w \<longrightarrow> whole v))"

definition server_address :: "(jsstring \<Rightarrow> jsstring option) \<Rightarrow> jsstring option \<Rightarrow> jsstring option option" where
  "server_address server_email a =
     (case a of
        None \<Rightarrow> Some None
      | Some t \<Rightarrow> if t = [] then Some None else (case server_email t of None \<Rightarrow> None | Some x \<Rightarrow> Some (Some x)))"

definition number_or_zero :: "rat option \<Rightarrow> rat" where
  "number_or_zero v = (case v of Some q \<Rightarrow> q | None \<Rightarrow> 0)"

definition store_settings :: "(jsstring \<Rightarrow> jsstring option) \<Rightarrow> alert_body \<Rightarrow> alert_settings option" where
  "store_settings server_email b =
     (case server_address server_email (ab_email b) of
        None \<Rightarrow> None
      | Some a \<Rightarrow>
          if list_all (\<lambda>k. number_admitted k (ab_number b k)) number_keys \<and> set (ab_channels b) \<subseteq> set alert_channels
          then Some \<lparr>as_email = a, as_enabled = ab_enabled b, as_channels = rev (remdups (rev (ab_channels b))),
                     as_number = (\<lambda>k. number_or_zero (ab_number b k))\<rparr>
          else None)"

definition settings_stored :: "(jsstring \<Rightarrow> jsstring option) \<Rightarrow> alert_settings \<Rightarrow> bool" where
  "settings_stored server_email st \<longleftrightarrow>
     (\<forall>k. number_admitted k (Some (as_number st k))) \<and> distinct (as_channels st) \<and> set (as_channels st) \<subseteq> set alert_channels \<and>
     (case as_email st of None \<Rightarrow> True | Some a \<Rightarrow> a \<noteq> [] \<and> server_email a = Some a)"

text \<open>Settings the server stored are shown and, saved unedited, stored again as they were.\<close>

lemma body_of_settings: "settings_stored E st \<Longrightarrow> store_settings E (alert_body_of other (settings_form st)) = Some st"
  by (cases st)
     (auto simp: settings_stored_def store_settings_def alert_body_of_def settings_form_def server_address_def or_string_def list_all_iff
        number_or_zero_def distinct_remdups_id split: option.splits)

lemma monitoring_round_trip:
  assumes "settings_stored E st" "mc_form s = None" "\<not> mc_saving s"
  shows "\<exists>b. fst (snd (monitoring_step other SaveMonitoring (fst (monitoring_step other (SettingsArrive st) s)))) = [b] \<and>
    store_settings E b = Some st"
  using assms body_of_settings[OF assms(1)] by (simp add: active_form_def)

text \<open>Whatever was edited, the server stores the values that are shown or nothing at all, and what it
  stores is well formed, provided its check of addresses is idempotent.\<close>

lemma stored_well_formed:
  assumes "\<And>a x. E a = Some x \<Longrightarrow> x \<noteq> [] \<and> E x = Some x" "store_settings E b = Some st"
  shows "settings_stored E st"
proof -
  have n: "number_admitted k (ab_number b k)" for k
    using assms(2) number_keys_all[of k] by (auto simp: store_settings_def list_all_iff split: option.splits if_splits)
  then have "ab_number b k = Some (number_or_zero (ab_number b k))" for k
    using n[of k] by (cases "ab_number b k") (auto simp: number_admitted_def at_least_def number_or_zero_def split: prod.splits)
  then have "number_admitted k (Some (number_or_zero (ab_number b k)))" for k using n[of k] by metis
  with assms(2) show ?thesis
    by (auto simp: settings_stored_def store_settings_def server_address_def dest: assms(1) split: option.splits if_splits)
qed

lemma stored_numbers_are_shown:
  assumes "store_settings E (alert_body_of other (active_form s)) = Some st"
  shows "field_number other (af_number (active_form s) k) = Some (as_number st k)"
proof -
  have "number_admitted k (field_number other (af_number (active_form s) k))"
    using assms number_keys_all[of k] by (auto simp: store_settings_def alert_body_of_def list_all_iff split: option.splits if_splits)
  then show ?thesis
    using assms
    by (cases "field_number other (af_number (active_form s) k)")
       (auto simp: number_admitted_def at_least_def store_settings_def alert_body_of_def number_or_zero_def split: option.splits if_splits prod.splits)
qed

text \<open>A number field that was cleared is sent as zero, which no range admits.\<close>

lemma cleared_number_refused:
  assumes "s1 = fst (monitoring_step other (EditAlertNumber k []) s)"
  shows "store_settings E (alert_body_of other (active_form s1)) = None"
proof -
  have "ab_number (alert_body_of other (active_form s1)) k = Some 0"
    using assms by (simp add: edit_form_def active_form_def alert_body_of_def js_Decimal_def trim_def trimStart_def)
  moreover have "\<not> number_admitted k (Some 0)" by (cases k) (simp_all add: number_admitted_def at_least_def)
  ultimately have "\<not> list_all (\<lambda>k. number_admitted k (ab_number (alert_body_of other (active_form s1)) k)) number_keys"
    unfolding list_all_iff using number_keys_all[of k] by metis
  then show ?thesis by (simp add: store_settings_def split: option.split)
qed

text \<open>Switching a channel off and on again puts it last; the set of channels is the one from before.\<close>

lemma channel_switched_twice:
  assumes "c \<in> set (af_channels (active_form s))"
    and "s1 = fst (monitoring_step other (SwitchChannel c False) s)" "s2 = fst (monitoring_step other (SwitchChannel c True) s1)"
  shows "set (af_channels (active_form s2)) = set (af_channels (active_form s))"
  using assms by (auto simp: edit_form_def active_form_def)

text \<open>The save button is usable before the settings were read, and also when they could not be read: then
  the defaults are sent, and they replace whatever the server has stored, the address among it.\<close>

lemma unread_defaults_replace:
  "monitoring_offered initial_monitoring SaveMonitoring \<and>
   (\<exists>b st. fst (snd (monitoring_step other SaveMonitoring initial_monitoring)) = [b] \<and> store_settings E b = Some st \<and>
           as_email st = None \<and> as_channels st = [''email''] \<and> as_number st = default_number)"
proof -
  have "list_all (\<lambda>k. number_admitted k (Some (default_number k))) number_keys" by code_simp
  then show ?thesis
    by (simp add: initial_monitoring_def active_form_def alert_defaults_def alert_body_of_def store_settings_def server_address_def
        alert_channels_def number_or_zero_def)
qed

text \<open>What is edited while a save is awaited is forgotten by its success.\<close>

lemma late_edit_forgotten:
  assumes "mc_saving s"
  shows "mc_form (fst (monitoring_step other MonitoringSaved (fst (monitoring_step other (EditAlertEmail t) s)))) = None"
  by simp

end
