(* ===== verification/Ssl_Page.thy ===== *)
theory Ssl_Page
  imports Page_Machine
begin

text \<open>
  \<open>pages/customer/Ssl.jsx\<close>: the certificates of an account, of an account an administrator looks at, and of the
  whole server. Issuing is a question about one domain; the diagnostics of a service run beside it, several
  at a time, of which the last started is the one observed. A dialog blocks the page behind it; diagnostics
  that arrive open theirs over whatever is open.
\<close>

section \<open>Rows\<close>

definition is_status :: "jsstring list \<Rightarrow> json \<Rightarrow> bool" where
  "is_status names r \<longleftrightarrow> list_ex (\<lambda>n. jget r ''cert_status'' = JStr n) names"

definition ssl_rows :: "json \<Rightarrow> json list" where
  "ssl_rows d = json_list (jget d ''domains'')"

definition serviceDomains :: "json \<Rightarrow> json list" where
  "serviceDomains d = filter (\<lambda>r. truthy (jget r ''system'')) (ssl_rows d)"

definition hostedDomains :: "json \<Rightarrow> json list" where
  "hostedDomains d = filter (\<lambda>r. \<not> truthy (jget r ''system'')) (ssl_rows d)"

definition installed_rows :: "json \<Rightarrow> json list" where
  "installed_rows d = filter (\<lambda>r. truthy (jget r ''cert_status'') \<and> \<not> is_status [''missing'', ''none''] r) (hostedDomains d)"

definition unsecured_rows :: "json \<Rightarrow> json list" where
  "unsecured_rows d = filter (\<lambda>r. \<not> truthy (jget r ''cert_status'') \<or> is_status [''missing'', ''none''] r) (hostedDomains d)"

definition hasCert :: "json \<Rightarrow> bool" where
  "hasCert r \<longleftrightarrow> truthy (jget r ''cert_status'') \<and> \<not> is_status [''missing'', ''none''] r"

definition counts_secured :: "json \<Rightarrow> bool" where
  "counts_secured r \<longleftrightarrow> truthy (jget r ''cert_status'') \<and> \<not> is_status [''missing'', ''none'', ''expired''] r"

definition secured_count :: "json \<Rightarrow> nat" where
  "secured_count d = length (filter counts_secured (ssl_rows d))"

definition unsecured_count :: "json \<Rightarrow> nat" where
  "unsecured_count d = length (ssl_rows d) - secured_count d"

definition days_below :: "int \<Rightarrow> json \<Rightarrow> bool" where
  "days_below n r = (case jget r ''days_remaining'' of JNum m \<Rightarrow> m < n | _ \<Rightarrow> False)"

definition expiring_count :: "json \<Rightarrow> nat" where
  "expiring_count d = length (filter (days_below 30) (ssl_rows d))"

text \<open>The two tables show every hosted domain once.\<close>

lemma tables_partition_domains:
  "length (installed_rows d) + length (unsecured_rows d) = length (hostedDomains d) \<and>
   set (installed_rows d) \<inter> set (unsecured_rows d) = {} \<and> set (installed_rows d) \<union> set (unsecured_rows d) = set (hostedDomains d)"
proof -
  have "unsecured_rows d = filter (\<lambda>r. \<not> (truthy (jget r ''cert_status'') \<and> \<not> is_status [''missing'', ''none''] r)) (hostedDomains d)"
    by (auto simp: unsecured_rows_def intro: filter_cong)
  with sum_length_filter_compl[of "\<lambda>r. truthy (jget r ''cert_status'') \<and> \<not> is_status [''missing'', ''none''] r" "hostedDomains d"]
  show ?thesis by (auto simp: installed_rows_def)
qed

lemma counts_add_up: "secured_count d + unsecured_count d = length (ssl_rows d)"
  by (simp add: secured_count_def unsecured_count_def)

text \<open>A domain whose certificate has expired counts as one that needs a certificate, yet it is listed among
  the installed ones and not among those to issue one for; and it also counts as one that expires soon.\<close>

lemma expired_not_offered:
  assumes "r \<in> set (hostedDomains d)" "jget r ''cert_status'' = JStr ''expired''" "jget r ''days_remaining'' = JNum n" "n < 0"
  shows "\<not> counts_secured r \<and> r \<in> set (installed_rows d) \<and> r \<notin> set (unsecured_rows d) \<and> days_below 30 r"
  using assms by (simp add: counts_secured_def installed_rows_def unsecured_rows_def is_status_def days_below_def)

section \<open>The page\<close>

datatype ssl_action = IssueCert | IssueWildcard

record ssl_page =
  sl_data :: json
  sl_confirm :: "(ssl_action \<times> json) option"
  sl_issuing :: bool \<comment> \<open>the request of the question is under way\<close>
  sl_selected :: "json option"
  sl_diagnostics :: "json option"
  sl_checks :: "(nat \<times> json) list" \<comment> \<open>the diagnostics under way, by the number of their start\<close>
  sl_started :: nat

definition initial_ssl :: ssl_page where
  "initial_ssl =
     \<lparr>sl_data = JUndef, sl_confirm = None, sl_issuing = False, sl_selected = None, sl_diagnostics = None, sl_checks = [], sl_started = 0\<rparr>"

text \<open>Who looks: an administrator or not, at the whole server or at one account.\<close>

record viewer =
  vw_admin :: bool
  vw_scoped :: bool
  vw_username :: jsstring

definition serverWide :: "viewer \<Rightarrow> bool" where
  "serverWide v \<longleftrightarrow> vw_admin v \<and> \<not> vw_scoped v"

definition ssl_list_url :: "viewer \<Rightarrow> jsstring" where
  "ssl_list_url v = (if serverWide v then ''/api/v1/admin/ssl'' else ''/api/v1/accounts/'' @ vw_username v @ ''/ssl'')"

definition row_domain :: "json \<Rightarrow> jsstring" where
  "row_domain r = js_String (jget r ''domain'')"

definition admin_ssl_url :: "json \<Rightarrow> jsstring \<Rightarrow> jsstring" where
  "admin_ssl_url r what = ''/api/v1/admin/ssl/domains/'' @ row_domain r @ ''/'' @ what"

fun ssl_url :: "viewer \<Rightarrow> ssl_action \<times> json \<Rightarrow> jsstring" where
  "ssl_url v (IssueCert, r) =
     (if vw_admin v
      then if jget r ''service'' = JStr ''panel'' then ''/api/v1/admin/ssl/panel/issue'' else admin_ssl_url r ''issue''
      else ''/api/v1/accounts/'' @ vw_username v @ ''/domains/'' @ row_domain r @ ''/ssl/issue'')"
| "ssl_url v (IssueWildcard, r) =
     (if vw_admin v then admin_ssl_url r ''wildcard''
      else ''/api/v1/accounts/'' @ vw_username v @ ''/domains/'' @ row_domain r @ ''/ssl/wildcard'')"

definition check_loading :: "ssl_page \<Rightarrow> json \<Rightarrow> bool" where
  "check_loading s r \<longleftrightarrow>
     (case List.find (\<lambda>(i, x). Suc i = sl_started s) (sl_checks s) of
        Some (i, x) \<Rightarrow> jget x ''domain'' = jget r ''domain''
      | None \<Rightarrow> False)"

definition no_ssl_dialog :: "ssl_page \<Rightarrow> bool" where
  "no_ssl_dialog s \<longleftrightarrow> sl_confirm s = None \<and> sl_selected s = None \<and> sl_diagnostics s = None"

datatype ssl_event =
    SslArrives json
  | SelectDomain json
  | CloseSelected
  | AskSsl ssl_action json
  | AskSslSelected ssl_action
  | WithdrawSsl
  | ConfirmSsl
  | SslRequested
  | SslRefused jsstring
  | Diagnose json
  | DiagnosticsArrive nat json
  | DiagnosticsFail nat jsstring
  | CloseDiagnostics

fun ssl_offered :: "viewer \<Rightarrow> ssl_page \<Rightarrow> ssl_event \<Rightarrow> bool" where
  "ssl_offered v s (SslArrives d) = True"
| "ssl_offered v s (SelectDomain r) = (no_ssl_dialog s \<and> r \<in> set (hostedDomains (sl_data s)))"
| "ssl_offered v s CloseSelected = (sl_selected s \<noteq> None)"
| "ssl_offered v s (AskSsl a r) =
     (no_ssl_dialog s \<and>
      (r \<in> set (hostedDomains (sl_data s)) \<or> serverWide v \<and> a = IssueCert \<and> r \<in> set (serviceDomains (sl_data s))))"
| "ssl_offered v s (AskSslSelected a) =
     (sl_confirm s = None \<and> (case sl_selected s of None \<Rightarrow> False | Some r \<Rightarrow> a = IssueWildcard \<longrightarrow> \<not> truthy (jget r ''system'')))"
| "ssl_offered v s WithdrawSsl = (sl_confirm s \<noteq> None \<and> \<not> sl_issuing s)"
| "ssl_offered v s ConfirmSsl = (sl_confirm s \<noteq> None \<and> \<not> sl_issuing s)"
| "ssl_offered v s SslRequested = sl_issuing s"
| "ssl_offered v s (SslRefused e) = sl_issuing s"
| "ssl_offered v s (Diagnose r) =
     (no_ssl_dialog s \<and> serverWide v \<and> r \<in> set (serviceDomains (sl_data s)) \<and> \<not> check_loading s r)"
| "ssl_offered v s (DiagnosticsArrive i d) = (i \<in> fst ` set (sl_checks s))"
| "ssl_offered v s (DiagnosticsFail i e) = (i \<in> fst ` set (sl_checks s))"
| "ssl_offered v s CloseDiagnostics = (sl_diagnostics s \<noteq> None)"

definition ssl_notice :: "ssl_action \<times> json \<Rightarrow> page_effect" where
  "ssl_notice q =
     (case q of
        (IssueCert, r) \<Rightarrow> Toast Success ''Certificate requested'' (''SSL issuance started for '' @ row_domain r @ ''.'')
      | (IssueWildcard, r) \<Rightarrow>
          Toast Success ''Wildcard certificate requested'' (''Wildcard SSL issuance started for *.'' @ row_domain r @ ''.''))"

definition end_check :: "nat \<Rightarrow> ssl_page \<Rightarrow> ssl_page" where
  "end_check i s = s\<lparr>sl_checks := filter (\<lambda>p. fst p \<noteq> i) (sl_checks s)\<rparr>"

fun ssl_step :: "viewer \<Rightarrow> (ssl_event, ssl_page) page_step" where
  "ssl_step v (SslArrives d) s = (s\<lparr>sl_data := d\<rparr>, [], [])"
| "ssl_step v (SelectDomain r) s = (s\<lparr>sl_selected := Some r\<rparr>, [], [])"
| "ssl_step v CloseSelected s = (s\<lparr>sl_selected := None\<rparr>, [], [])"
| "ssl_step v (AskSsl a r) s = (s\<lparr>sl_confirm := Some (a, r)\<rparr>, [], [])"
| "ssl_step v (AskSslSelected a) s =
     (s\<lparr>sl_confirm := map_option (Pair a) (sl_selected s), sl_selected := None\<rparr>, [], [])"
| "ssl_step v WithdrawSsl s = (s\<lparr>sl_confirm := None\<rparr>, [], [])"
| "ssl_step v ConfirmSsl s =
     (case sl_confirm s of
        None \<Rightarrow> (s, [], [])
      | Some q \<Rightarrow> (s\<lparr>sl_issuing := True\<rparr>, [ApiPost (ssl_url v q) [(''force'', JBool False)]], []))"
| "ssl_step v SslRequested s =
     (s\<lparr>sl_issuing := False, sl_confirm := None\<rparr>, [],
      (case sl_confirm s of None \<Rightarrow> [] | Some q \<Rightarrow> [ssl_notice q]) @ [Invalidate [''ssl'']])"
| "ssl_step v (SslRefused e) s =
     (s\<lparr>sl_issuing := False\<rparr>, [],
      [Toast ErrorTone
         (case sl_confirm s of Some (IssueWildcard, r) \<Rightarrow> ''Could not issue wildcard certificate'' | _ \<Rightarrow> ''Could not issue certificate'') e])"
| "ssl_step v (Diagnose r) s =
     (s\<lparr>sl_checks := (sl_started s, r) # sl_checks s, sl_started := Suc (sl_started s)\<rparr>, [ApiGet (admin_ssl_url r ''diagnostics'')], [])"
| "ssl_step v (DiagnosticsArrive i d) s = ((end_check i s)\<lparr>sl_diagnostics := Some d\<rparr>, [], [])"
| "ssl_step v (DiagnosticsFail i e) s = (end_check i s, [], [Toast ErrorTone ''Could not run certificate diagnostics'' e])"
| "ssl_step v CloseDiagnostics s = (s\<lparr>sl_diagnostics := None\<rparr>, [], [])"

section \<open>What is sent\<close>

definition question_ok :: "viewer \<Rightarrow> ssl_action \<times> json \<Rightarrow> bool" where
  "question_ok v q \<longleftrightarrow> (truthy (jget (snd q) ''system'') \<longrightarrow> fst q = IssueCert \<and> serverWide v)"

definition ssl_inv :: "viewer \<Rightarrow> ssl_page \<Rightarrow> bool" where
  "ssl_inv v s \<longleftrightarrow>
     (sl_issuing s \<longrightarrow> sl_confirm s \<noteq> None) \<and> (case sl_confirm s of None \<Rightarrow> True | Some q \<Rightarrow> question_ok v q) \<and>
     (case sl_selected s of None \<Rightarrow> True | Some r \<Rightarrow> \<not> truthy (jget r ''system'')) \<and> \<not> (sl_confirm s \<noteq> None \<and> sl_selected s \<noteq> None)"

text \<open>A request for a certificate is about a hosted domain, or about a service when the whole server is
  shown; services are never asked for a wildcard; diagnostics are only run for services.\<close>

definition ssl_request_ok :: "viewer \<Rightarrow> api_request \<Rightarrow> bool" where
  "ssl_request_ok v r \<longleftrightarrow>
     (\<exists>q. question_ok v q \<and> r = ApiPost (ssl_url v q) [(''force'', JBool False)]) \<or>
     (\<exists>x. serverWide v \<and> truthy (jget x ''system'') \<and> r = ApiGet (admin_ssl_url x ''diagnostics''))"

definition issue_shown :: "api_request \<Rightarrow> jsstring list" where
  "issue_shown r = (case r of ApiPost url b \<Rightarrow> [url] | _ \<Rightarrow> [])"

definition ssl_question :: "viewer \<Rightarrow> ssl_page \<Rightarrow> jsstring question" where
  "ssl_question v s =
     (case sl_confirm s of None \<Rightarrow> NoQuestion | Some q \<Rightarrow> if sl_issuing s then Carrying (ssl_url v q) else Asking (ssl_url v q))"

lemma ssl_start: "ssl_inv v initial_ssl" "ssl_question v initial_ssl = NoQuestion"
  by (simp_all add: ssl_inv_def initial_ssl_def ssl_question_def)

lemma hosted_not_system: "r \<in> set (hostedDomains d) \<Longrightarrow> \<not> truthy (jget r ''system'')"
  by (simp add: hostedDomains_def)

lemma service_system: "r \<in> set (serviceDomains d) \<Longrightarrow> truthy (jget r ''system'')"
  by (simp add: serviceDomains_def)

lemma ssl_keep: "ssl_inv v s \<Longrightarrow> ssl_offered v s e \<Longrightarrow> ssl_inv v (fst (ssl_step v e s))"
  by (cases e)
     (auto simp: ssl_inv_def question_ok_def no_ssl_dialog_def end_check_def hosted_not_system split: option.splits)

lemma ssl_good: "ssl_inv v s \<Longrightarrow> ssl_offered v s e \<Longrightarrow> list_all (ssl_request_ok v) (fst (snd (ssl_step v e s)))"
  by (cases e) (auto simp: ssl_inv_def ssl_request_ok_def split: option.splits, (blast dest: service_system)+)

lemma ssl_simulates:
  "ssl_inv v s \<Longrightarrow> ssl_offered v s e \<Longrightarrow>
     question_step (ssl_question v s) (concat (map issue_shown (fst (snd (ssl_step v e s))))) (ssl_question v (fst (ssl_step v e s)))"
  by (cases e)
     (auto simp: ssl_inv_def ssl_question_def issue_shown_def no_ssl_dialog_def end_check_def intro: question_step.intros split: option.splits)

interpretation ssl: page_contract initial_ssl "ssl_offered v" "ssl_step v" "ssl_inv v" "ssl_request_ok v" for v
  by unfold_locales (simp_all only: ssl_start ssl_keep ssl_good)

interpretation ssl_issue: page_refinement initial_ssl "ssl_offered v" "ssl_step v" "ssl_inv v" "ssl_question v" issue_shown NoQuestion
    question_step
  for v
  by unfold_locales (simp_all only: ssl_start ssl_keep ssl_simulates)

lemma certificates_requested_as_asked:
  assumes "page_reach initial_ssl (ssl_offered v) (ssl_step v) s sent"
  shows "list_all (ssl_request_ok v) sent \<and> question_run (concat (map issue_shown sent)) (ssl_question v s)"
  using ssl.reach_inv[OF assms] ssl_issue.refines[OF assms] by blast

text \<open>A customer's requests stay under the own account.\<close>

lemma customer_requests_own:
  assumes "page_reach initial_ssl (ssl_offered v) (ssl_step v) s sent" "\<not> vw_admin v" "ApiPost url b \<in> set sent"
  shows "startsWith url (''/api/v1/accounts/'' @ vw_username v @ ''/domains/'')"
proof -
  have "ssl_request_ok v (ApiPost url b)" using ssl.reach_inv[OF assms(1)] assms(3) by (auto simp: list_all_iff)
  then obtain a r where "url = ssl_url v (a, r)" by (auto simp: ssl_request_ok_def)
  then show ?thesis using assms(2) by (cases a) (simp_all add: startsWith_def)
qed

section \<open>Texts\<close>

definition menu_issue_label :: "json \<Rightarrow> jsstring" where
  "menu_issue_label r = (if hasCert r then ''Renew now'' else ''Issue certificate'')"

definition confirm_title :: "ssl_action \<times> json \<Rightarrow> jsstring" where
  "confirm_title q =
     (case q of
        (IssueWildcard, r) \<Rightarrow> (if truthy (jget r ''is_wildcard'') then ''Renew wildcard certificate?'' else ''Issue wildcard certificate?'')
      | (IssueCert, r) \<Rightarrow> (if \<not> is_status [''missing'', ''none''] r then ''Renew certificate?'' else ''Issue certificate?''))"

definition service_label :: "json \<Rightarrow> jsstring" where
  "service_label r = (if is_status [''missing''] r then ''Issue certificate'' else ''Renew'')"

definition days_low :: "json \<Rightarrow> bool" where
  "days_low r = days_below 14 r"

text \<open>For a domain without any status the menu offers to issue a certificate and the question asks whether
  to renew it.\<close>

lemma unknown_status_texts:
  assumes "jget r ''cert_status'' = JUndef"
  shows "menu_issue_label r = ''Issue certificate'' \<and> confirm_title (IssueCert, r) = ''Renew certificate?''"
  using assms by (simp add: menu_issue_label_def confirm_title_def hasCert_def is_status_def)

text \<open>The diagnostics of one service can be started again while an earlier run is under way, once those of
  another were started after it.\<close>

lemma diagnostics_repeat:
  assumes "sl_checks s = [(1, y), (0, x)]" "sl_started s = 2" "jget x ''domain'' \<noteq> jget y ''domain''"
  shows "\<not> check_loading s x"
  using assms by (simp add: check_loading_def)

end
