(* ===== verification/Ssh_Page.thy ===== *)
theory Ssh_Page
  imports Page_Machine
begin

text \<open>
  \<open>pages/customer/SshKeys.jsx\<close>: the public keys that may sign in to an account's shell. While somebody
  impersonates the customer the page shows and does nothing. The dialogs are modal; the one for a new key
  can be left while its request is under way.
\<close>

record ssh_page =
  sk_data :: json
  sk_createOpen :: bool
  sk_text :: jsstring
  sk_adding :: bool
  sk_delete :: "json option"
  sk_deleting :: bool
  sk_selected :: "json option"

definition initial_ssh :: ssh_page where
  "initial_ssh =
     \<lparr>sk_data = JUndef, sk_createOpen = False, sk_text = [], sk_adding = False, sk_delete = None, sk_deleting = False, sk_selected = None\<rparr>"

definition ssh_url :: "jsstring \<Rightarrow> jsstring" where
  "ssh_url u = ''/api/v1/accounts/'' @ u @ ''/ssh-keys''"

definition key_url :: "jsstring \<Rightarrow> json \<Rightarrow> jsstring" where
  "key_url u r = ssh_url u @ ''/'' @ encodeURIComponent (js_String (jget r ''fingerprint''))"

definition ssh_rows :: "ssh_page \<Rightarrow> json list" where
  "ssh_rows s = json_list (jget (sk_data s) ''keys'')"

definition no_ssh_dialog :: "ssh_page \<Rightarrow> bool" where
  "no_ssh_dialog s \<longleftrightarrow> \<not> sk_createOpen s \<and> sk_delete s = None \<and> sk_selected s = None"

datatype ssh_event =
    KeysArrive json
  | SelectKey json
  | CloseKey
  | RemoveSelectedKey
  | AskRemoveKey json
  | WithdrawRemoveKey
  | ConfirmRemoveKey
  | KeyRemoved
  | RemoveKeyFails jsstring
  | OpenNewKey
  | DismissNewKey \<comment> \<open>Escape, a click outside, the close button\<close>
  | CancelNewKey
  | TypeKey jsstring
  | AddKey
  | KeyAdded
  | KeyRefused jsstring

fun ssh_event_offered :: "ssh_page \<Rightarrow> ssh_event \<Rightarrow> bool" where
  "ssh_event_offered s (KeysArrive d) = True"
| "ssh_event_offered s (SelectKey r) = (no_ssh_dialog s \<and> r \<in> set (ssh_rows s))"
| "ssh_event_offered s CloseKey = (sk_selected s \<noteq> None)"
| "ssh_event_offered s RemoveSelectedKey = (sk_selected s \<noteq> None \<and> sk_delete s = None)"
| "ssh_event_offered s (AskRemoveKey r) = (no_ssh_dialog s \<and> r \<in> set (ssh_rows s))"
| "ssh_event_offered s WithdrawRemoveKey = (sk_delete s \<noteq> None \<and> \<not> sk_deleting s)"
| "ssh_event_offered s ConfirmRemoveKey = (sk_delete s \<noteq> None \<and> \<not> sk_deleting s)"
| "ssh_event_offered s KeyRemoved = sk_deleting s"
| "ssh_event_offered s (RemoveKeyFails e) = sk_deleting s"
| "ssh_event_offered s OpenNewKey = no_ssh_dialog s"
| "ssh_event_offered s DismissNewKey = sk_createOpen s"
| "ssh_event_offered s CancelNewKey = sk_createOpen s"
| "ssh_event_offered s (TypeKey t) = sk_createOpen s"
| "ssh_event_offered s AddKey = (sk_createOpen s \<and> \<not> sk_adding s \<and> trim (sk_text s) \<noteq> [])"
| "ssh_event_offered s KeyAdded = sk_adding s"
| "ssh_event_offered s (KeyRefused e) = sk_adding s"

definition ssh_offered :: "bool \<Rightarrow> ssh_page \<Rightarrow> ssh_event \<Rightarrow> bool" where
  "ssh_offered impersonating s e \<longleftrightarrow> \<not> impersonating \<and> ssh_event_offered s e"

fun ssh_step :: "jsstring \<Rightarrow> (ssh_event, ssh_page) page_step" where
  "ssh_step u (KeysArrive d) s = (s\<lparr>sk_data := d\<rparr>, [], [])"
| "ssh_step u (SelectKey r) s = (s\<lparr>sk_selected := Some r\<rparr>, [], [])"
| "ssh_step u CloseKey s = (s\<lparr>sk_selected := None\<rparr>, [], [])"
| "ssh_step u RemoveSelectedKey s = (s\<lparr>sk_delete := sk_selected s, sk_selected := None\<rparr>, [], [])"
| "ssh_step u (AskRemoveKey r) s = (s\<lparr>sk_delete := Some r\<rparr>, [], [])"
| "ssh_step u WithdrawRemoveKey s = (s\<lparr>sk_delete := None\<rparr>, [], [])"
| "ssh_step u ConfirmRemoveKey s =
     (case sk_delete s of None \<Rightarrow> (s, [], []) | Some r \<Rightarrow> (s\<lparr>sk_deleting := True\<rparr>, [ApiDelete (key_url u r)], []))"
| "ssh_step u KeyRemoved s =
     (s\<lparr>sk_deleting := False, sk_delete := None\<rparr>, [],
      [Toast Success ''SSH key removed'' ''This key can no longer be used to sign in.'', Invalidate [''ssh-keys'', u]])"
| "ssh_step u (RemoveKeyFails e) s = (s\<lparr>sk_deleting := False\<rparr>, [], [Toast ErrorTone ''Could not remove SSH key'' e])"
| "ssh_step u OpenNewKey s = (s\<lparr>sk_createOpen := True\<rparr>, [], [])"
| "ssh_step u DismissNewKey s = (s\<lparr>sk_createOpen := False, sk_text := []\<rparr>, [], [])"
| "ssh_step u CancelNewKey s = (s\<lparr>sk_createOpen := False\<rparr>, [], [])"
| "ssh_step u (TypeKey t) s = (s\<lparr>sk_text := t\<rparr>, [], [])"
| "ssh_step u AddKey s = (s\<lparr>sk_adding := True\<rparr>, [ApiPost (ssh_url u) [(''key'', JStr (trim (sk_text s)))]], [])"
| "ssh_step u KeyAdded s =
     (s\<lparr>sk_adding := False, sk_createOpen := False, sk_text := []\<rparr>, [],
      [Toast Success ''SSH key added'' ''You can now sign in over SSH with this key.'', Invalidate [''ssh-keys'', u]])"
| "ssh_step u (KeyRefused e) s = (s\<lparr>sk_adding := False\<rparr>, [], [Toast ErrorTone ''Could not add SSH key'' e])"

section \<open>What is sent\<close>

text \<open>A key without surrounding white space, or the removal of one key, whose fingerprint cannot leave its
  place in the address.\<close>

definition ssh_request_ok :: "jsstring \<Rightarrow> api_request \<Rightarrow> bool" where
  "ssh_request_ok u r \<longleftrightarrow>
     (\<exists>k. k \<noteq> [] \<and> trim k = k \<and> r = ApiPost (ssh_url u) [(''key'', JStr k)]) \<or>
     (\<exists>seg. set seg \<inter> set ''/?#&= '' = {} \<and> r = ApiDelete (ssh_url u @ ''/'' @ seg))"

definition ssh_question :: "jsstring \<Rightarrow> ssh_page \<Rightarrow> jsstring question" where
  "ssh_question u s =
     (case sk_delete s of None \<Rightarrow> NoQuestion | Some r \<Rightarrow> if sk_deleting s then Carrying (key_url u r) else Asking (key_url u r))"

definition ssh_inv :: "ssh_page \<Rightarrow> bool" where
  "ssh_inv s \<longleftrightarrow> (sk_deleting s \<longrightarrow> sk_delete s \<noteq> None) \<and> (sk_selected s \<noteq> None \<longrightarrow> sk_delete s = None)"

lemma ssh_start: "ssh_inv initial_ssh" "ssh_question u initial_ssh = NoQuestion"
  by (simp_all add: ssh_inv_def ssh_question_def initial_ssh_def)

lemma ssh_keep: "ssh_inv s \<Longrightarrow> ssh_offered imp s e \<Longrightarrow> ssh_inv (fst (ssh_step u e s))"
  by (cases e) (auto simp: ssh_inv_def ssh_offered_def no_ssh_dialog_def split: option.splits)

lemma key_url_ok: "ssh_request_ok u (ApiDelete (key_url u r))"
  using encoded_segment_stays by (auto simp: ssh_request_ok_def key_url_def)

lemma ssh_good: "ssh_offered imp s e \<Longrightarrow> list_all (ssh_request_ok u) (fst (snd (ssh_step u e s)))"
proof (cases e)
  case AddKey
  then show "ssh_offered imp s e \<Longrightarrow> ?thesis" by (auto simp: ssh_offered_def ssh_request_ok_def)
qed (simp_all add: key_url_ok split: option.split)

lemma ssh_simulates:
  "ssh_inv s \<Longrightarrow> ssh_offered imp s e \<Longrightarrow>
     question_step (ssh_question u s) (concat (map deletion_shown (fst (snd (ssh_step u e s))))) (ssh_question u (fst (ssh_step u e s)))"
  by (cases e)
     (auto simp: ssh_inv_def ssh_offered_def ssh_question_def deletion_shown_def no_ssh_dialog_def intro: question_step.intros split: option.splits)

interpretation ssh: page_contract initial_ssh "ssh_offered imp" "ssh_step u" ssh_inv "ssh_request_ok u" for imp u
  by unfold_locales (simp_all only: ssh_start ssh_keep ssh_good)

interpretation ssh_removal: page_refinement initial_ssh "ssh_offered imp" "ssh_step u" ssh_inv "ssh_question u" deletion_shown NoQuestion
    question_step
  for imp u
  by unfold_locales (simp_all only: ssh_start ssh_keep ssh_simulates)

lemma ssh_requests_valid:
  assumes "page_reach initial_ssh (ssh_offered imp) (ssh_step u) s sent"
  shows "list_all (ssh_request_ok u) sent \<and> question_run (concat (map deletion_shown sent)) (ssh_question u s)"
  using ssh.reach_inv[OF assms] ssh_removal.refines[OF assms] by blast

text \<open>While the customer is impersonated nothing is ever sent.\<close>

lemma impersonator_sends_nothing:
  "page_reach initial_ssh (ssh_offered True) (ssh_step u) s sent \<Longrightarrow> sent = [] \<and> s = initial_ssh"
  by (induction rule: page_reach.induct) (simp_all add: ssh_offered_def)

section \<open>What the server makes of it\<close>

text \<open>The cheap check of a key (\<open>validate_ssh_key_text\<close> in \<open>shared/validation.py\<close>).\<close>

definition server_key_text :: "jsstring \<Rightarrow> jsstring option" where
  "server_key_text v =
     (let t = trim v
      in if t = [] \<or> CHR 0x00 \<in> set t \<or> 8192 < length t \<or> newline \<in> set t then None else Some t)"

text \<open>The request carries the text the server would cut out of what was typed.\<close>

lemma trim_trim: "trim (trim t) = trim t"
  by simp

lemma added_key_is_servers:
  "server_key_text (sk_text s) = Some t \<Longrightarrow> fst (snd (ssh_step u AddKey s)) = [ApiPost (ssh_url u) [(''key'', JStr t)]]"
  by (auto simp: server_key_text_def Let_def split: if_splits)

text \<open>The path of an address is decoded before the server matches its routes (documented behaviour of ASGI
  servers), and the parameter of the route that removes a key (\<open>api/routers/sshkeys.py\<close>) matches no
  slash. A fingerprint is base64 text, in which slashes are ordinary; such a key cannot be removed.\<close>

definition hex_value :: "char \<Rightarrow> nat" where
  "hex_value c = (if is_digit c then code c - 48 else code c - 55)"

fun percent_decode :: "jsstring \<Rightarrow> jsstring" where
  "percent_decode (c # a # b # cs) =
     (if c = CHR ''%'' then char_of (16 * hex_value a + hex_value b) # percent_decode cs else c # percent_decode (a # b # cs))"
| "percent_decode cs = cs"

definition segment_matches :: "jsstring \<Rightarrow> bool" where
  "segment_matches t \<longleftrightarrow> t \<noteq> [] \<and> CHR ''/'' \<notin> set t"

lemma percent_decode_plain: "c \<noteq> CHR ''%'' \<Longrightarrow> percent_decode (c # cs) = c # percent_decode cs"
  by (cases cs rule: percent_decode.cases) auto

lemma hex_value_digit: "n < 16 \<Longrightarrow> hex_value (hex_digit n) = n"
  by (auto simp: hex_value_def hex_digit_def is_digit_def)

lemma percent_decode_byte: "n < 256 \<Longrightarrow> percent_decode (percent_byte n @ cs) = char_of n # percent_decode cs"
proof -
  assume "n < 256"
  then have "hex_value (hex_digit (n div 16)) = n div 16" "hex_value (hex_digit (n mod 16)) = n mod 16"
    by (auto intro: hex_value_digit)
  then show ?thesis by (simp add: percent_byte_def)
qed

lemma decode_encoded:
  "list_all (\<lambda>c. code c < 128) t \<Longrightarrow> percent_decode (encodeURIComponent t) = t"
proof (induction t)
  case Nil
  then show ?case by (simp add: encodeURIComponent_def)
next
  case (Cons c t)
  have "\<not> unreserved CHR ''%''" by code_simp
  then have "unreserved c \<Longrightarrow> c \<noteq> CHR ''%''" by blast
  with Cons show ?case
    by (auto simp: encodeURIComponent_def encode_char_def percent_decode_plain percent_decode_byte code_def)
qed

lemma fingerprint_with_slash_unmatched:
  assumes "jget r ''fingerprint'' = JStr f" "list_all (\<lambda>c. code c < 128) f"
  shows "\<exists>seg. key_url u r = ssh_url u @ ''/'' @ seg \<and> segment_matches (percent_decode seg) = (f \<noteq> [] \<and> CHR ''/'' \<notin> set f)"
  using assms decode_encoded[of f] by (auto simp: key_url_def segment_matches_def)

section \<open>Leaving the dialog\<close>

text \<open>The cancel button keeps the text for the next time, the other ways of closing forget it; and the success
  of a request that was left closes the dialog opened since and drops what was typed into it.\<close>

lemma cancel_keeps_text:
  "sk_text (fst (ssh_step u CancelNewKey s)) = sk_text s \<and> sk_text (fst (ssh_step u DismissNewKey s)) = []"
  by simp

lemma late_success_drops_text:
  assumes "sk_adding s" "sk_createOpen s" "\<not> imp"
    and "es = [CancelNewKey, OpenNewKey, TypeKey t]" "s' = fold (\<lambda>e s. fst (ssh_step u e s)) es s"
  shows "sk_text s' = t \<and> ssh_event_offered s' KeyAdded \<and> sk_text (fst (ssh_step u KeyAdded s')) = []"
  using assms by simp

end
