(* ===== verification/Waf_Page.thy ===== *)
theory Waf_Page
  imports Page_Machine
begin

text \<open>
  \<open>pages/admin/Waf.jsx\<close>: the web application firewall with its policy, the exceptions and rules of single
  domains, the incidents, and the review of a trial period. The form of the policy follows the server's
  settings by an effect that runs when one of them changes. What the server admits of the settings and of
  an exception (\<open>daemon/waf.py\<close>) is written out to compare it with the forms. \<open>frac\<close> reads numbers that are not
  whole.
\<close>

section \<open>Forms\<close>

definition TARGET_OPTIONS :: "jsstring list" where
  "TARGET_OPTIONS =
     [''ARGS'', ''ARGS_NAMES'', ''REQUEST_URI'', ''QUERY_STRING'', ''REQUEST_BODY'', ''REQUEST_COOKIES'', ''REQUEST_HEADERS:User-Agent'',
      ''REQUEST_HEADERS:Referer'']"

definition EMPTY_RULE :: json where
  "EMPTY_RULE = JObj [(''domain'', JStr []), (''target'', JStr ''ARGS''), (''pattern'', JStr [])]"

definition EMPTY_EXCEPTION :: json where
  "EMPTY_EXCEPTION = JObj
     [(''domain'', JStr []), (''rule_id'', JStr []), (''category'', JStr []), (''uri_prefix'', JStr []), (''parameter'', JStr []),
      (''duration_hours'', JStr ''24''), (''reason'', JStr [])]"

definition DEFAULT_SETTINGS :: json where
  "DEFAULT_SETTINGS = JObj
     [(''mode'', JStr ''disabled''), (''paranoia_level'', JStr ''1''), (''anomaly_threshold'', JStr ''5''), (''wp_login_limit'', JStr ''10''),
      (''wp_xmlrpc_limit'', JStr ''5''), (''wp_rate_window_seconds'', JStr ''60'')]"

definition setting_numbers :: "jsstring list" where
  "setting_numbers = [''paranoia_level'', ''anomaly_threshold'', ''wp_login_limit'', ''wp_xmlrpc_limit'', ''wp_rate_window_seconds'']"

definition status_form :: "json \<Rightarrow> json" where
  "status_form st = JObj ((''mode'', jget st ''mode'') # map (\<lambda>k. (k, JStr (js_String (jget st k)))) setting_numbers)"

definition status_deps :: "json \<Rightarrow> json list" where
  "status_deps st = map (jget st) (''mode'' # setting_numbers)"

definition text_Number :: "(jsstring \<Rightarrow> json) \<Rightarrow> json \<Rightarrow> json" where
  "text_Number frac v = (case v of JStr t \<Rightarrow> js_Number frac t | _ \<Rightarrow> v)"

definition settings_body :: "(jsstring \<Rightarrow> json) \<Rightarrow> json \<Rightarrow> body" where
  "settings_body frac f = map (\<lambda>(k, v). (k, if k = ''mode'' then v else text_Number frac v)) (json_fields f)"

definition exception_body :: "(jsstring \<Rightarrow> json) \<Rightarrow> json \<Rightarrow> body" where
  "exception_body frac f =
     json_fields (put_fields f
       [(''rule_id'', if truthy (jget f ''rule_id'') then text_Number frac (jget f ''rule_id'') else JNull),
        (''category'', js_or (jget f ''category'') JNull), (''duration_hours'', text_Number frac (jget f ''duration_hours''))])"

text \<open>A text up to the first occurrence of a character.\<close>

definition before_char :: "char \<Rightarrow> jsstring \<Rightarrow> jsstring" where
  "before_char c t = takeWhile (\<lambda>x. x \<noteq> c) t"

definition incident_exception :: "json \<Rightarrow> json" where
  "incident_exception ev =
     put_fields EMPTY_EXCEPTION
       [(''domain'', JStr (before_char (CHR '':'') (json_text (jget ev ''host'')))), (''rule_id'', JStr (json_text (jget ev ''rule_id''))),
        (''uri_prefix'', JStr (before_char (CHR ''?'') (json_text (jget ev ''path'')))),
        (''reason'', JStr (''False positive from incident '' @ js_String (jget ev ''txid'')))]"

section \<open>The page\<close>

datatype waf_call = SettingsCall | AddRuleCall | DeleteRuleCall | AddExceptionCall | DeleteExceptionCall | UnblockCall | StartTrialCall
  | FinishTrialCall

record waf_page =
  wf_status :: json
  wf_settings :: json
  wf_policy :: "jsstring \<times> jsstring" \<comment> \<open>domain and mode\<close>
  wf_ruleOpen :: bool
  wf_rule :: json
  wf_deleteRule :: "json option"
  wf_exceptionOpen :: bool
  wf_exception :: json
  wf_deleteException :: "json option"
  wf_incident :: "json option"
  wf_trial :: "jsstring option"
  wf_pending :: "waf_call list"
  wf_policies :: "nat list" \<comment> \<open>the requests about domain policies under way\<close>
  wf_started :: nat

definition initial_waf :: waf_page where
  "initial_waf =
     \<lparr>wf_status = JUndef, wf_settings = DEFAULT_SETTINGS, wf_policy = ([], ''detect''), wf_ruleOpen = False, wf_rule = EMPTY_RULE,
      wf_deleteRule = None, wf_exceptionOpen = False, wf_exception = EMPTY_EXCEPTION, wf_deleteException = None, wf_incident = None,
      wf_trial = None, wf_pending = [], wf_policies = [], wf_started = 0\<rparr>"

definition wf_waits :: "waf_call \<Rightarrow> waf_page \<Rightarrow> bool" where
  "wf_waits c s \<longleftrightarrow> c \<in> set (wf_pending s)"

definition wf_begin :: "waf_call \<Rightarrow> waf_page \<Rightarrow> waf_page" where
  "wf_begin c s = s\<lparr>wf_pending := c # wf_pending s\<rparr>"

definition wf_end :: "waf_call \<Rightarrow> waf_page \<Rightarrow> waf_page" where
  "wf_end c s = s\<lparr>wf_pending := filter (\<lambda>x. x \<noteq> c) (wf_pending s)\<rparr>"

definition policy_pending :: "waf_page \<Rightarrow> bool" where
  "policy_pending s \<longleftrightarrow> wf_started s \<noteq> 0 \<and> wf_started s - 1 \<in> set (wf_policies s)"

definition no_waf_dialog :: "waf_page \<Rightarrow> bool" where
  "no_waf_dialog s \<longleftrightarrow>
     \<not> wf_ruleOpen s \<and> wf_deleteRule s = None \<and> \<not> wf_exceptionOpen s \<and> wf_deleteException s = None \<and> wf_incident s = None \<and> wf_trial s = None"

text \<open>The page shows once the status was read; its tools, if the firewall is installed.\<close>

definition waf_usable :: "waf_page \<Rightarrow> bool" where
  "waf_usable s \<longleftrightarrow> truthy (wf_status s) \<and> truthy (jget (wf_status s) ''available'')"

definition waf_domains :: "waf_page \<Rightarrow> jsstring list" where
  "waf_domains s = map js_String (json_list (jget (wf_status s) ''available_domains''))"

definition waf_rows :: "jsstring \<Rightarrow> waf_page \<Rightarrow> json list" where
  "waf_rows k s = json_list (jget (wf_status s) k)"

definition trial_active :: "waf_page \<Rightarrow> bool" where
  "trial_active s \<longleftrightarrow> truthy (jget (jget (wf_status s) ''detect_trial'') ''active'')"

definition review_ready :: "waf_page \<Rightarrow> bool" where
  "review_ready s \<longleftrightarrow> truthy (jget (jget (wf_status s) ''detect_trial'') ''review_ready'')"

text \<open>The values the controls of the forms can hold: a select gives one of its options, a number field any
  text, which the browser checks when the form is submitted.\<close>

definition setting_choices :: "jsstring \<Rightarrow> jsstring list option" where
  "setting_choices k =
     (if k = ''mode'' then Some [''disabled'', ''detect'', ''protect'']
      else if k = ''paranoia_level'' then Some [''1'', ''2'', ''3'', ''4''] else None)"

definition setting_limits :: "(jsstring \<times> int \<times> int) list" where
  "setting_limits =
     [(''anomaly_threshold'', 1, 100), (''wp_login_limit'', 0, 10000), (''wp_xmlrpc_limit'', 0, 10000), (''wp_rate_window_seconds'', 10, 3600)]"

definition whole_within :: "(jsstring \<Rightarrow> json) \<Rightarrow> int \<Rightarrow> int \<Rightarrow> json \<Rightarrow> bool" where
  "whole_within frac lo hi v \<longleftrightarrow> (case text_Number frac v of JNum n \<Rightarrow> lo \<le> n \<and> n \<le> hi | _ \<Rightarrow> False)"

definition settings_submit :: "(jsstring \<Rightarrow> json) \<Rightarrow> json \<Rightarrow> bool" where
  "settings_submit frac f \<longleftrightarrow> list_all (\<lambda>(k, lo, hi). jget f k = JStr [] \<or> whole_within frac lo hi (jget f k)) setting_limits"

definition rule_id_valid :: "(jsstring \<Rightarrow> json) \<Rightarrow> json \<Rightarrow> bool" where
  "rule_id_valid frac v \<longleftrightarrow> v = JStr [] \<or> (case text_Number frac v of JNum n \<Rightarrow> 1 \<le> n | _ \<Rightarrow> False)"

definition known_domain :: "waf_page \<Rightarrow> json \<Rightarrow> bool" where
  "known_domain s f \<longleftrightarrow> list_ex (\<lambda>d. d \<noteq> [] \<and> jget f ''domain'' = JStr d) (waf_domains s)"

definition exception_hours :: "jsstring list" where
  "exception_hours = [''1'', ''6'', ''24'', ''168'', ''720'']"

datatype waf_event =
    StatusArrives json
  | EditSetting jsstring jsstring
  | SaveSettings
  | WafSettingsSaved
  | WafFails waf_call jsstring
  | EditPolicy jsstring jsstring
  | ApplyPolicy
  | UseGlobal json
  | PolicySettles nat "jsstring option"
  | OpenRule
  | CloseRule
  | EditRule jsstring jsstring
  | AddRule
  | RuleAdded
  | AskDeleteRule json
  | WithdrawDeleteRule
  | ConfirmDeleteRule
  | RuleDeleted
  | OpenException
  | CloseException
  | EditException jsstring jsstring
  | AddException
  | ExceptionAdded
  | AskDeleteException json
  | WithdrawDeleteException
  | ConfirmDeleteException
  | ExceptionDeleted
  | Inspect json
  | CloseIncident
  | Unblock
  | Unblocked json
  | ExceptIncident
  | StartTrial
  | TrialStarted
  | AskTrial jsstring
  | WithdrawTrial
  | ConfirmTrial
  | TrialFinished json

fun waf_offered :: "(jsstring \<Rightarrow> json) \<Rightarrow> json list \<Rightarrow> waf_page \<Rightarrow> waf_event \<Rightarrow> bool" where
  "waf_offered frac incidents s (StatusArrives st) = truthy st"
| "waf_offered frac incidents s (EditSetting k t) =
     (waf_usable s \<and> no_waf_dialog s \<and>
      (case setting_choices k of Some ts \<Rightarrow> t \<in> set ts | None \<Rightarrow> k \<in> fst ` set setting_limits))"
| "waf_offered frac incidents s SaveSettings =
     (waf_usable s \<and> no_waf_dialog s \<and> \<not> wf_waits SettingsCall s \<and> settings_submit frac (wf_settings s))"
| "waf_offered frac incidents s WafSettingsSaved = wf_waits SettingsCall s"
| "waf_offered frac incidents s (WafFails c e) = wf_waits c s"
| "waf_offered frac incidents s (EditPolicy d m) =
     (waf_usable s \<and> no_waf_dialog s \<and> (d = [] \<or> d \<in> set (waf_domains s)) \<and> m \<in> set [''inherit'', ''detect'', ''protect'', ''disabled''])"
| "waf_offered frac incidents s ApplyPolicy = (waf_usable s \<and> no_waf_dialog s \<and> \<not> policy_pending s \<and> fst (wf_policy s) \<noteq> [])"
| "waf_offered frac incidents s (UseGlobal r) = (waf_usable s \<and> no_waf_dialog s \<and> r \<in> set (waf_rows ''domain_policies'' s))"
| "waf_offered frac incidents s (PolicySettles i f) = (i \<in> set (wf_policies s))"
| "waf_offered frac incidents s OpenRule = (waf_usable s \<and> no_waf_dialog s)"
| "waf_offered frac incidents s CloseRule = wf_ruleOpen s"
| "waf_offered frac incidents s (EditRule k t) =
     (wf_ruleOpen s \<and>
      (k = ''domain'' \<and> (t = [] \<or> t \<in> set (waf_domains s)) \<or> k = ''target'' \<and> t \<in> set TARGET_OPTIONS \<or> k = ''pattern'' \<and> length t \<le> 300))"
| "waf_offered frac incidents s AddRule =
     (wf_ruleOpen s \<and> \<not> wf_waits AddRuleCall s \<and> known_domain s (wf_rule s) \<and> jget (wf_rule s) ''pattern'' \<noteq> JStr [])"
| "waf_offered frac incidents s RuleAdded = wf_waits AddRuleCall s"
| "waf_offered frac incidents s (AskDeleteRule r) = (waf_usable s \<and> no_waf_dialog s \<and> r \<in> set (waf_rows ''custom_rules'' s))"
| "waf_offered frac incidents s WithdrawDeleteRule = (wf_deleteRule s \<noteq> None \<and> \<not> wf_waits DeleteRuleCall s)"
| "waf_offered frac incidents s ConfirmDeleteRule = (wf_deleteRule s \<noteq> None \<and> \<not> wf_waits DeleteRuleCall s)"
| "waf_offered frac incidents s RuleDeleted = wf_waits DeleteRuleCall s"
| "waf_offered frac incidents s OpenException = (waf_usable s \<and> no_waf_dialog s)"
| "waf_offered frac incidents s CloseException = wf_exceptionOpen s"
| "waf_offered frac incidents s (EditException k t) =
     (wf_exceptionOpen s \<and>
      (k = ''domain'' \<and> (t = [] \<or> t \<in> set (waf_domains s)) \<or> k = ''duration_hours'' \<and> t \<in> set exception_hours \<or>
       k = ''category'' \<and> \<not> truthy (jget (wf_exception s) ''rule_id'') \<or> k \<in> set [''rule_id'', ''uri_prefix'', ''parameter'', ''reason'']))"
| "waf_offered frac incidents s AddException =
     (wf_exceptionOpen s \<and> \<not> wf_waits AddExceptionCall s \<and> known_domain s (wf_exception s) \<and> rule_id_valid frac (jget (wf_exception s) ''rule_id''))"
| "waf_offered frac incidents s ExceptionAdded = wf_waits AddExceptionCall s"
| "waf_offered frac incidents s (AskDeleteException r) = (waf_usable s \<and> no_waf_dialog s \<and> r \<in> set (waf_rows ''exceptions'' s))"
| "waf_offered frac incidents s WithdrawDeleteException = (wf_deleteException s \<noteq> None \<and> \<not> wf_waits DeleteExceptionCall s)"
| "waf_offered frac incidents s ConfirmDeleteException = (wf_deleteException s \<noteq> None \<and> \<not> wf_waits DeleteExceptionCall s)"
| "waf_offered frac incidents s ExceptionDeleted = wf_waits DeleteExceptionCall s"
| "waf_offered frac incidents s (Inspect r) = (waf_usable s \<and> no_waf_dialog s \<and> r \<in> set incidents)"
| "waf_offered frac incidents s CloseIncident = (wf_incident s \<noteq> None)"
| "waf_offered frac incidents s Unblock = (wf_incident s \<noteq> None \<and> \<not> wf_waits UnblockCall s)"
| "waf_offered frac incidents s (Unblocked r) = wf_waits UnblockCall s"
| "waf_offered frac incidents s ExceptIncident = (wf_incident s \<noteq> None)"
| "waf_offered frac incidents s StartTrial = (waf_usable s \<and> no_waf_dialog s \<and> \<not> trial_active s \<and> \<not> wf_waits StartTrialCall s)"
| "waf_offered frac incidents s TrialStarted = wf_waits StartTrialCall s"
| "waf_offered frac incidents s (AskTrial a) =
     (waf_usable s \<and> no_waf_dialog s \<and> trial_active s \<and>
      (a = ''continue_detect'' \<or> a = ''disable'' \<or> a = ''enable_protection'' \<and> review_ready s))"
| "waf_offered frac incidents s WithdrawTrial = (wf_trial s \<noteq> None \<and> \<not> wf_waits FinishTrialCall s)"
| "waf_offered frac incidents s ConfirmTrial = (wf_trial s \<noteq> None \<and> \<not> wf_waits FinishTrialCall s)"
| "waf_offered frac incidents s (TrialFinished r) = wf_waits FinishTrialCall s"

fun waf_failure :: "waf_call \<Rightarrow> jsstring" where
  "waf_failure SettingsCall = ''Could not update WAF policy''"
| "waf_failure AddRuleCall = ''Could not add rule''"
| "waf_failure DeleteRuleCall = ''Could not delete rule''"
| "waf_failure AddExceptionCall = ''Could not add exception''"
| "waf_failure DeleteExceptionCall = ''Could not remove exception''"
| "waf_failure UnblockCall = ''Could not unblock IP''"
| "waf_failure StartTrialCall = ''Could not start detection review''"
| "waf_failure FinishTrialCall = ''Could not finish detection review''"

definition waf_key :: "jsstring \<Rightarrow> page_effect" where
  "waf_key u = Invalidate [''waf'', u]"

definition domain_policy_request :: "json \<Rightarrow> json \<Rightarrow> api_request" where
  "domain_policy_request d m = ApiPut ''/api/v1/waf/domain-policy'' [(''domain'', d), (''mode'', m)]"

definition start_policy :: "waf_page \<Rightarrow> waf_page" where
  "start_policy s = s\<lparr>wf_policies := wf_started s # wf_policies s, wf_started := Suc (wf_started s)\<rparr>"

definition rule_url :: "json \<Rightarrow> jsstring" where
  "rule_url r = ''/api/v1/waf/custom-rules/'' @ js_String (jget r ''id'')"

definition exception_url :: "json \<Rightarrow> jsstring" where
  "exception_url r = ''/api/v1/waf/exceptions/'' @ js_String (jget r ''id'')"

definition review_request :: "jsstring \<Rightarrow> api_request" where
  "review_request a = ApiPost ''/api/v1/waf/detect-trial/review'' [(''action'', JStr a), (''confirm'', JBool True)]"

definition trial_notice :: "json \<Rightarrow> jsstring" where
  "trial_notice r =
     (if jget r ''mode'' = JStr ''protect'' then ''WAF protection enabled''
      else if jget r ''mode'' = JStr ''disabled'' then ''WAF disabled'' else ''Detection mode continued'')"

definition unblock_notice :: "json \<Rightarrow> page_effect" where
  "unblock_notice r =
     (let jails = json_list (jget r ''unbanned_from'')
      in Toast Success (if jails \<noteq> [] then ''IP unblocked'' else ''IP was not temporarily banned'') (js_join '', '' jails))"

definition edit_exception :: "jsstring \<Rightarrow> jsstring \<Rightarrow> json \<Rightarrow> json" where
  "edit_exception k t f =
     put_fields f ((k, JStr t) # (if k = ''rule_id'' \<and> t \<noteq> [] then [(''category'', JStr [])] else []))"

fun waf_step :: "(jsstring \<Rightarrow> json) \<Rightarrow> jsstring \<Rightarrow> (waf_event, waf_page) page_step" where
  "waf_step frac u (StatusArrives st) s =
     (s\<lparr>wf_status := st, wf_settings := (if status_deps st = status_deps (wf_status s) then wf_settings s else status_form st)\<rparr>, [], [])"
| "waf_step frac u (EditSetting k t) s = (s\<lparr>wf_settings := put_fields (wf_settings s) [(k, JStr t)]\<rparr>, [], [])"
| "waf_step frac u SaveSettings s =
     (wf_begin SettingsCall s, [ApiPut ''/api/v1/waf/settings'' (settings_body frac (wf_settings s))], [])"
| "waf_step frac u WafSettingsSaved s = (wf_end SettingsCall s, [], [Toast Success ''WAF policy updated'' [], waf_key u])"
| "waf_step frac u (WafFails c e) s = (wf_end c s, [], [Toast ErrorTone (waf_failure c) e])"
| "waf_step frac u (EditPolicy d m) s = (s\<lparr>wf_policy := (d, m)\<rparr>, [], [])"
| "waf_step frac u ApplyPolicy s = (start_policy s, [domain_policy_request (JStr (fst (wf_policy s))) (JStr (snd (wf_policy s)))], [])"
| "waf_step frac u (UseGlobal r) s = (start_policy s, [domain_policy_request (jget r ''domain'') (JStr ''inherit'')], [])"
| "waf_step frac u (PolicySettles i f) s =
     (let s1 = s\<lparr>wf_policies := filter (\<lambda>j. j \<noteq> i) (wf_policies s)\<rparr>
      in case f of
           None \<Rightarrow> (s1\<lparr>wf_policy := ([], ''detect'')\<rparr>, [], [Toast Success ''Domain policy updated'' [], waf_key u])
         | Some e \<Rightarrow> (s1, [], [Toast ErrorTone ''Could not update domain policy'' e]))"
| "waf_step frac u OpenRule s = (s\<lparr>wf_ruleOpen := True\<rparr>, [], [])"
| "waf_step frac u CloseRule s = (s\<lparr>wf_ruleOpen := False\<rparr>, [], [])"
| "waf_step frac u (EditRule k t) s = (s\<lparr>wf_rule := put_fields (wf_rule s) [(k, JStr t)]\<rparr>, [], [])"
| "waf_step frac u AddRule s = (wf_begin AddRuleCall s, [ApiPost ''/api/v1/waf/custom-rules'' (json_fields (wf_rule s))], [])"
| "waf_step frac u RuleAdded s =
     ((wf_end AddRuleCall s)\<lparr>wf_ruleOpen := False, wf_rule := EMPTY_RULE\<rparr>, [], [Toast Success ''Custom rule added'' [], waf_key u])"
| "waf_step frac u (AskDeleteRule r) s = (s\<lparr>wf_deleteRule := Some r\<rparr>, [], [])"
| "waf_step frac u WithdrawDeleteRule s = (s\<lparr>wf_deleteRule := None\<rparr>, [], [])"
| "waf_step frac u ConfirmDeleteRule s =
     (wf_begin DeleteRuleCall s, (case wf_deleteRule s of None \<Rightarrow> [] | Some r \<Rightarrow> [ApiDelete (rule_url r)]), [])"
| "waf_step frac u RuleDeleted s =
     ((wf_end DeleteRuleCall s)\<lparr>wf_deleteRule := None\<rparr>, [], [Toast Success ''Custom rule deleted'' [], waf_key u])"
| "waf_step frac u OpenException s = (s\<lparr>wf_exceptionOpen := True\<rparr>, [], [])"
| "waf_step frac u CloseException s = (s\<lparr>wf_exceptionOpen := False\<rparr>, [], [])"
| "waf_step frac u (EditException k t) s = (s\<lparr>wf_exception := edit_exception k t (wf_exception s)\<rparr>, [], [])"
| "waf_step frac u AddException s =
     (wf_begin AddExceptionCall s, [ApiPost ''/api/v1/waf/exceptions'' (exception_body frac (wf_exception s))], [])"
| "waf_step frac u ExceptionAdded s =
     ((wf_end AddExceptionCall s)\<lparr>wf_exceptionOpen := False, wf_exception := EMPTY_EXCEPTION\<rparr>, [],
      [Toast Success ''Temporary exception added'' [], waf_key u])"
| "waf_step frac u (AskDeleteException r) s = (s\<lparr>wf_deleteException := Some r\<rparr>, [], [])"
| "waf_step frac u WithdrawDeleteException s = (s\<lparr>wf_deleteException := None\<rparr>, [], [])"
| "waf_step frac u ConfirmDeleteException s =
     (wf_begin DeleteExceptionCall s, (case wf_deleteException s of None \<Rightarrow> [] | Some r \<Rightarrow> [ApiDelete (exception_url r)]), [])"
| "waf_step frac u ExceptionDeleted s =
     ((wf_end DeleteExceptionCall s)\<lparr>wf_deleteException := None\<rparr>, [], [Toast Success ''Exception removed'' [], waf_key u])"
| "waf_step frac u (Inspect r) s = (s\<lparr>wf_incident := Some r\<rparr>, [], [])"
| "waf_step frac u CloseIncident s = (s\<lparr>wf_incident := None\<rparr>, [], [])"
| "waf_step frac u Unblock s =
     (wf_begin UnblockCall s,
      [ApiPost ''/api/v1/waf/incidents/unblock''
         (sent_fields (JObj [(''ip'', case wf_incident s of None \<Rightarrow> JUndef | Some r \<Rightarrow> jget r ''verified_client_ip'')]))], [])"
| "waf_step frac u (Unblocked r) s = (wf_end UnblockCall s, [], [unblock_notice r])"
| "waf_step frac u ExceptIncident s =
     (case wf_incident s of
        None \<Rightarrow> (s, [], [])
      | Some r \<Rightarrow> (s\<lparr>wf_exception := incident_exception r, wf_incident := None, wf_exceptionOpen := True\<rparr>, [], []))"
| "waf_step frac u StartTrial s = (wf_begin StartTrialCall s, [ApiPost ''/api/v1/waf/detect-trial'' []], [])"
| "waf_step frac u TrialStarted s =
     (wf_end StartTrialCall s, [],
      [Toast Success ''Seven-day detection review started'' ''Requests are logged but not blocked.'', waf_key u])"
| "waf_step frac u (AskTrial a) s = (s\<lparr>wf_trial := Some a\<rparr>, [], [])"
| "waf_step frac u WithdrawTrial s = (s\<lparr>wf_trial := None\<rparr>, [], [])"
| "waf_step frac u ConfirmTrial s =
     (wf_begin FinishTrialCall s, (case wf_trial s of None \<Rightarrow> [] | Some a \<Rightarrow> [review_request a]), [])"
| "waf_step frac u (TrialFinished r) s =
     ((wf_end FinishTrialCall s)\<lparr>wf_trial := None\<rparr>, [], [Toast Success (trial_notice r) [], waf_key u])"

section \<open>What is sent\<close>

definition fields_distinct :: "json \<Rightarrow> bool" where
  "fields_distinct f \<longleftrightarrow> distinct (map fst (json_fields f))"

definition one_target :: "json \<Rightarrow> bool" where
  "one_target f \<longleftrightarrow> \<not> (truthy (jget f ''rule_id'') \<and> truthy (jget f ''category''))"

definition waf_inv :: "waf_page \<Rightarrow> bool" where
  "waf_inv s \<longleftrightarrow>
     fields_distinct (wf_exception s) \<and> one_target (wf_exception s) \<and>
     (wf_waits DeleteRuleCall s \<longrightarrow> wf_deleteRule s \<noteq> None) \<and> (wf_waits DeleteExceptionCall s \<longrightarrow> wf_deleteException s \<noteq> None) \<and>
     (wf_waits FinishTrialCall s \<longrightarrow> wf_trial s \<noteq> None) \<and>
     (wf_deleteRule s \<noteq> None \<longrightarrow> wf_deleteException s = None \<and> wf_trial s = None) \<and>
     (wf_deleteException s \<noteq> None \<longrightarrow> wf_trial s = None)"

text \<open>Removals and the decisions about a trial.\<close>

definition waf_target :: "api_request \<Rightarrow> api_request list" where
  "waf_target r =
     (case r of
        ApiDelete url \<Rightarrow> [r]
      | ApiPost url b \<Rightarrow> if url = ''/api/v1/waf/detect-trial/review'' then [r] else []
      | _ \<Rightarrow> [])"

definition carried :: "bool \<Rightarrow> 't \<Rightarrow> 't question" where
  "carried waiting t = (if waiting then Carrying t else Asking t)"

definition waf_question :: "waf_page \<Rightarrow> api_request question" where
  "waf_question s =
     (case wf_trial s of
        Some a \<Rightarrow> carried (wf_waits FinishTrialCall s) (review_request a)
      | None \<Rightarrow>
          (case wf_deleteRule s of
             Some r \<Rightarrow> carried (wf_waits DeleteRuleCall s) (ApiDelete (rule_url r))
           | None \<Rightarrow>
               (case wf_deleteException s of
                  Some r \<Rightarrow> carried (wf_waits DeleteExceptionCall s) (ApiDelete (exception_url r))
                | None \<Rightarrow> NoQuestion)))"

definition waf_request_ok :: "api_request \<Rightarrow> bool" where
  "waf_request_ok r \<longleftrightarrow>
     (case r of
        ApiPost url b \<Rightarrow>
          (url = ''/api/v1/waf/exceptions'' \<longrightarrow>
             \<not> (truthy (the (map_of b ''rule_id'')) \<and> truthy (the (map_of b ''category''))))
      | _ \<Rightarrow> True)"

lemma js_Number_zero: "t = [] \<Longrightarrow> js_Number frac t = JNum 0"
  by (simp add: js_Number_def trim_def trimStart_def)

lemma exception_body_target:
  assumes "fields_distinct f" "one_target f"
  shows "\<not> (truthy (the (map_of (exception_body frac f) ''rule_id'')) \<and> truthy (the (map_of (exception_body frac f) ''category'')))"
  using assms(2)
  by (auto simp: exception_body_def json_fields_put fold_update_map_of one_target_def js_or_def update_conv)

lemma edit_exception_inv:
  assumes "fields_distinct f" "one_target f" "k = ''category'' \<longrightarrow> \<not> truthy (jget f ''rule_id'')"
  shows "fields_distinct (edit_exception k t f)" "one_target (edit_exception k t f)"
  using assms
  by (auto simp: fields_distinct_def edit_exception_def put_fields_distinct one_target_def jget_put_fields)

lemma empty_exception_inv [simp]: "fields_distinct EMPTY_EXCEPTION" "one_target EMPTY_EXCEPTION"
  by (simp_all add: fields_distinct_def one_target_def EMPTY_EXCEPTION_def json_fields_def)

lemma incident_exception_inv [simp]: "fields_distinct (incident_exception r)" "one_target (incident_exception r)"
  using empty_exception_inv(1)
  by (simp_all add: fields_distinct_def one_target_def incident_exception_def put_fields_distinct jget_put_fields EMPTY_EXCEPTION_def)

lemmas waf_defs = waf_inv_def wf_begin_def wf_end_def wf_waits_def no_waf_dialog_def start_policy_def

lemma waf_keep:
  assumes "waf_inv s" "waf_offered frac incidents s e"
  shows "waf_inv (fst (waf_step frac u e s))"
proof (cases e)
  case (EditException k t)
  then have "k = ''category'' \<longrightarrow> \<not> truthy (jget (wf_exception s) ''rule_id'')" using assms(2) by auto
  then show ?thesis using assms(1) EditException edit_exception_inv[of "wf_exception s" k t] by (simp add: waf_inv_def wf_waits_def)
next
  case (StatusArrives st)
  then show ?thesis using assms(1) by (simp add: waf_inv_def wf_waits_def)
next
  case (PolicySettles i f)
  then show ?thesis using assms(1) by (cases f) (simp_all add: waf_inv_def wf_waits_def Let_def)
next
  case ExceptIncident
  then show ?thesis using assms(1) by (auto simp: waf_inv_def wf_waits_def split: option.splits)
qed (use assms in \<open>auto simp: waf_defs\<close>)

lemma waf_good: "waf_inv s \<Longrightarrow> waf_offered frac incidents s e \<Longrightarrow> list_all waf_request_ok (fst (snd (waf_step frac u e s)))"
proof (cases e)
  case AddException
  then show "waf_inv s \<Longrightarrow> ?thesis" using exception_body_target[of "wf_exception s" frac] by (simp add: waf_request_ok_def waf_inv_def)
qed (simp_all add: waf_request_ok_def domain_policy_request_def review_request_def Let_def split: option.split)

text \<open>An event that leaves the questions alone is a step that changes nothing.\<close>

lemma other_event:
  assumes "wf_trial s' = wf_trial s" "wf_deleteRule s' = wf_deleteRule s" "wf_deleteException s' = wf_deleteException s"
    and "\<And>c. c \<in> {DeleteRuleCall, DeleteExceptionCall, FinishTrialCall} \<Longrightarrow> wf_waits c s' = wf_waits c s"
  shows "question_step (waf_question s) [] (waf_question s')"
proof -
  have w: "wf_waits DeleteRuleCall s' = wf_waits DeleteRuleCall s" "wf_waits DeleteExceptionCall s' = wf_waits DeleteExceptionCall s"
    "wf_waits FinishTrialCall s' = wf_waits FinishTrialCall s" using assms(4) by simp_all
  have "waf_question s' = waf_question s" unfolding waf_question_def assms(1-3) w by (rule refl)
  then show ?thesis by (simp add: question_step.idle)
qed

lemma wf_waits_begin [simp]: "wf_waits c (wf_begin d s) = (c = d \<or> wf_waits c s)" "wf_waits c (wf_end d s) = (c \<noteq> d \<and> wf_waits c s)"
  by (auto simp: wf_waits_def wf_begin_def wf_end_def)

lemma wf_fields [simp]:
  "wf_trial (wf_begin d s) = wf_trial s" "wf_deleteRule (wf_begin d s) = wf_deleteRule s" "wf_deleteException (wf_begin d s) = wf_deleteException s"
  "wf_trial (wf_end d s) = wf_trial s" "wf_deleteRule (wf_end d s) = wf_deleteRule s" "wf_deleteException (wf_end d s) = wf_deleteException s"
  "wf_waits c (s\<lparr>wf_trial := t\<rparr>) = wf_waits c s" "wf_waits c (s\<lparr>wf_deleteRule := r\<rparr>) = wf_waits c s"
  "wf_waits c (s\<lparr>wf_deleteException := r\<rparr>) = wf_waits c s"
  by (simp_all add: wf_begin_def wf_end_def wf_waits_def)

text \<open>At most one question is open, so each determines the abstract state.\<close>

lemma question_of:
  "wf_trial s = Some a \<Longrightarrow> waf_question s = carried (wf_waits FinishTrialCall s) (review_request a)"
  "wf_deleteRule s = Some r \<Longrightarrow> wf_trial s = None \<Longrightarrow> waf_question s = carried (wf_waits DeleteRuleCall s) (ApiDelete (rule_url r))"
  "wf_deleteException s = Some r \<Longrightarrow> wf_trial s = None \<Longrightarrow> wf_deleteRule s = None \<Longrightarrow>
     waf_question s = carried (wf_waits DeleteExceptionCall s) (ApiDelete (exception_url r))"
  "wf_trial s = None \<Longrightarrow> wf_deleteRule s = None \<Longrightarrow> wf_deleteException s = None \<Longrightarrow> waf_question s = NoQuestion"
  by (simp_all add: waf_question_def)

lemma only_question:
  assumes "waf_inv s"
  shows "wf_deleteRule s = Some r \<Longrightarrow> wf_trial s = None \<and> wf_deleteException s = None"
    and "wf_deleteException s = Some r \<Longrightarrow> wf_trial s = None \<and> wf_deleteRule s = None"
    and "wf_trial s = Some a \<Longrightarrow> wf_deleteRule s = None \<and> wf_deleteException s = None"
    and "wf_waits DeleteRuleCall s \<Longrightarrow> \<exists>r. wf_deleteRule s = Some r"
    and "wf_waits DeleteExceptionCall s \<Longrightarrow> \<exists>r. wf_deleteException s = Some r"
    and "wf_waits FinishTrialCall s \<Longrightarrow> \<exists>a. wf_trial s = Some a"
  using assms unfolding waf_inv_def by auto

lemma waf_simulates:
  assumes "waf_inv s" "waf_offered frac incidents s e"
  shows "question_step (waf_question s) (concat (map waf_target (fst (snd (waf_step frac u e s))))) (waf_question (fst (waf_step frac u e s)))"
proof -
  note only = only_question[OF assms(1)]
  note q = question_of carried_def waf_target_def question_step.intros
  show ?thesis
  proof (cases e)
    case (WafFails c x)
    show ?thesis
    proof (cases c)
      case DeleteRuleCall
      then obtain r where "wf_deleteRule s = Some r" using only(4) assms(2) WafFails by auto
      then show ?thesis using only(1) DeleteRuleCall WafFails assms(2) by (simp add: q)
    next
      case DeleteExceptionCall
      then obtain r where "wf_deleteException s = Some r" using only(5) assms(2) WafFails by auto
      then show ?thesis using only(2) DeleteExceptionCall WafFails assms(2) by (simp add: q)
    next
      case FinishTrialCall
      then obtain a where "wf_trial s = Some a" using only(6) assms(2) WafFails by auto
      then show ?thesis using FinishTrialCall WafFails assms(2) by (simp add: q)
    qed (use WafFails in \<open>auto simp: waf_target_def intro!: other_event\<close>)
  next
    case (PolicySettles i f)
    then show ?thesis by (cases f) (auto simp: waf_target_def Let_def wf_waits_def intro!: other_event)
  next
    case (AskDeleteRule r)
    then have "\<not> wf_waits DeleteRuleCall s" using only(4) assms(2) by (auto simp: no_waf_dialog_def)
    then show ?thesis using AskDeleteRule assms(2) by (simp add: q no_waf_dialog_def)
  next
    case WithdrawDeleteRule
    then obtain r where "wf_deleteRule s = Some r" using assms(2) by auto
    then show ?thesis using only(1) WithdrawDeleteRule assms(2) by (simp add: q)
  next
    case ConfirmDeleteRule
    then obtain r where "wf_deleteRule s = Some r" using assms(2) by auto
    then show ?thesis using only(1) ConfirmDeleteRule assms(2) by (simp add: q)
  next
    case RuleDeleted
    then obtain r where "wf_deleteRule s = Some r" using only(4) assms(2) by auto
    then show ?thesis using only(1) RuleDeleted assms(2) by (simp add: q)
  next
    case (AskDeleteException r)
    then have "\<not> wf_waits DeleteExceptionCall s" using only(5) assms(2) by (auto simp: no_waf_dialog_def)
    then show ?thesis using AskDeleteException assms(2) by (simp add: q no_waf_dialog_def)
  next
    case WithdrawDeleteException
    then obtain r where "wf_deleteException s = Some r" using assms(2) by auto
    then show ?thesis using only(2) WithdrawDeleteException assms(2) by (simp add: q)
  next
    case ConfirmDeleteException
    then obtain r where "wf_deleteException s = Some r" using assms(2) by auto
    then show ?thesis using only(2) ConfirmDeleteException assms(2) by (simp add: q)
  next
    case ExceptionDeleted
    then obtain r where "wf_deleteException s = Some r" using only(5) assms(2) by auto
    then show ?thesis using only(2) ExceptionDeleted assms(2) by (simp add: q)
  next
    case (AskTrial a)
    then have "\<not> wf_waits FinishTrialCall s" using only(6) assms(2) by (auto simp: no_waf_dialog_def)
    then show ?thesis using AskTrial assms(2) by (simp add: q no_waf_dialog_def)
  next
    case WithdrawTrial
    then obtain a where "wf_trial s = Some a" using assms(2) by auto
    then show ?thesis using only(3) WithdrawTrial assms(2) by (simp add: q)
  next
    case ConfirmTrial
    then obtain a where "wf_trial s = Some a" using assms(2) by auto
    then show ?thesis using ConfirmTrial assms(2) by (simp add: q review_request_def)
  next
    case (TrialFinished r)
    then obtain a where "wf_trial s = Some a" using only(6) assms(2) by auto
    then show ?thesis using only(3) TrialFinished assms(2) by (simp add: q)
  qed (auto simp: waf_target_def domain_policy_request_def start_policy_def wf_waits_def wf_begin_def wf_end_def intro!: other_event
      split: option.split)
qed

lemma waf_start: "waf_inv initial_waf" "waf_question initial_waf = NoQuestion"
  by (simp_all add: waf_defs initial_waf_def waf_question_def)

interpretation waf: page_contract initial_waf "waf_offered frac incidents" "waf_step frac u" waf_inv waf_request_ok for frac incidents u
  by unfold_locales (simp_all only: waf_start waf_keep waf_good)

interpretation waf_decisions: page_refinement initial_waf "waf_offered frac incidents" "waf_step frac u" waf_inv waf_question waf_target
    NoQuestion question_step
  for frac incidents u
  by unfold_locales (simp_all only: waf_start waf_keep waf_simulates)


definition waf_script :: "json \<Rightarrow> waf_event list" where
  "waf_script row =
     [StatusArrives (JObj [(''available'', JBool True), (''exceptions'', JArr [row])]), AskDeleteException row, ConfirmDeleteException]"


text \<open>Protection is only proposed as the end of a trial whose review is due.\<close>

lemma protection_after_review:
  "waf_offered frac incidents s (AskTrial ''enable_protection'') \<Longrightarrow> trial_active s \<and> review_ready s"
  by simp

section \<open>The server's view\<close>

definition server_setting :: "jsstring \<Rightarrow> json \<Rightarrow> bool" where
  "server_setting k v \<longleftrightarrow>
     (case v of
        JNum n \<Rightarrow>
          (case map_of ((''paranoia_level'', 1, 4) # setting_limits) k of Some (lo, hi) \<Rightarrow> lo \<le> n \<and> n \<le> hi | None \<Rightarrow> False)
      | _ \<Rightarrow> False)"

definition settings_admitted :: "body \<Rightarrow> bool" where
  "settings_admitted b \<longleftrightarrow>
     list_ex (\<lambda>m. map_of b ''mode'' = Some (JStr m)) [''disabled'', ''detect'', ''protect''] \<and>
     list_all (\<lambda>k. case map_of b k of Some v \<Rightarrow> server_setting k v | None \<Rightarrow> False) setting_numbers"

text \<open>Settings that were read go back unchanged.\<close>

lemma settings_round_trip:
  assumes "\<And>k. k \<in> set setting_numbers \<Longrightarrow> \<exists>n. jget st k = JNum (int n)" "status_deps st \<noteq> status_deps (wf_status s)"
  shows "settings_body frac (wf_settings (fst (waf_step frac u (StatusArrives st) s))) =
    map (\<lambda>k. (k, jget st k)) (''mode'' # setting_numbers)"
proof -
  have n: "text_Number frac (JStr (js_String (jget st k))) = jget st k" if "k \<in> set setting_numbers" for k
    using assms(1)[OF that] by (auto simp: text_Number_def js_Number_show_int)
  show ?thesis using assms(2) n by (simp add: settings_body_def status_form_def json_fields_def setting_numbers_def)
qed

text \<open>A limit that is cleared is sent as zero. Zero is a value of the WordPress limits the server admits, so
  that clearing one switches it off.\<close>

lemma cleared_limit_is_zero:
  assumes "wf_settings s = status_form st" "s1 = fst (waf_step frac u (EditSetting ''wp_login_limit'' []) s)"
  shows "map_of (settings_body frac (wf_settings s1)) ''wp_login_limit'' = Some (JNum 0) \<and> server_setting ''wp_login_limit'' (JNum 0)"
  using assms
  by (simp add: settings_body_def put_fields_def status_form_def setting_numbers_def json_fields_def text_Number_def js_Number_zero
      server_setting_def setting_limits_def)

text \<open>An exception has to name a rule or a category; the form can be submitted without either.\<close>

definition server_exception_target :: "body \<Rightarrow> bool" where
  "server_exception_target b \<longleftrightarrow>
     (let rule = map_of b ''rule_id''; category = trim (json_text (the (map_of b ''category'')))
      in if rule = Some JNull \<or> rule = Some (JStr []) then category \<noteq> [] else category = [])"

lemma untargeted_exception_refused:
  assumes "wf_exceptionOpen s" "\<not> wf_waits AddExceptionCall s" "known_domain s (wf_exception s)"
    and "jget (wf_exception s) ''rule_id'' = JStr []" "jget (wf_exception s) ''category'' = JStr []"
  shows "waf_offered frac incidents s AddException \<and> \<not> server_exception_target (exception_body frac (wf_exception s))"
proof -
  have "map_of (exception_body frac (wf_exception s)) ''rule_id'' = Some JNull"
    "map_of (exception_body frac (wf_exception s)) ''category'' = Some JNull"
    using assms(4,5) by (simp_all add: exception_body_def json_fields_put fold_update_map_of js_or_def update_conv)
  then show ?thesis using assms
    by (simp add: server_exception_target_def rule_id_valid_def json_text_def trim_def trimStart_def)
qed

text \<open>Any change of the settings on the server, such as the one a trial makes, replaces what is being edited.\<close>

lemma trial_replaces_edits:
  assumes "jget st ''mode'' \<noteq> jget (wf_status s) ''mode''"
  shows "wf_settings (fst (waf_step frac u (StatusArrives st) s)) = status_form st"
  using assms by (simp add: status_deps_def)

text \<open>The form of an exception that was left keeps its values, those of an incident too.\<close>

lemma left_exception_kept:
  assumes "wf_incident s = Some r"
    and "s' = fold (\<lambda>e s. fst (waf_step frac u e s)) [ExceptIncident, CloseException, OpenException] s"
  shows "wf_exception s' = incident_exception r"
  using assms by simp

end
