(* ===== verification/Services_Page.thy ===== *)
theory Services_Page
  imports Page_Machine
begin

text \<open>
  \<open>pages/admin/Services.jsx\<close>: the system services and their logs. Starting a service is not confirmed and
  does not wait for other actions, so several requests can be under way; all of them are one mutation, of
  which the latest is observed, and the success of any of them closes the question that is open. The
  field \<open>sv_answer\<close> names the request the open question has started; it is kept for the specification only.
\<close>

section \<open>The page\<close>

definition ACTION_VERBS :: "(jsstring \<times> jsstring) list" where
  "ACTION_VERBS = [(''start'', ''started''), (''stop'', ''stopped''), (''restart'', ''restarted'')]"

definition CONFIRM_ACTIONS :: "jsstring list" where
  "CONFIRM_ACTIONS = [''stop'', ''restart'']"

type_synonym service_action = "jsstring \<times> jsstring" \<comment> \<open>the service and what is done to it\<close>

record services_page =
  sv_data :: json
  sv_confirm :: "service_action option"
  sv_logs :: "jsstring option"
  sv_runs :: "(nat \<times> service_action) list" \<comment> \<open>the requests under way, by the number of their start\<close>
  sv_started :: nat
  sv_answer :: "nat option"

definition initial_services :: services_page where
  "initial_services = \<lparr>sv_data = JUndef, sv_confirm = None, sv_logs = None, sv_runs = [], sv_started = 0, sv_answer = None\<rparr>"

definition service_rows :: "services_page \<Rightarrow> json list" where
  "service_rows s = json_list (jget (sv_data s) ''services'')"

definition running :: "json \<Rightarrow> bool" where
  "running r \<longleftrightarrow> jget r ''active'' = JStr ''active''"

definition action_pending :: "services_page \<Rightarrow> bool" where
  "action_pending s \<longleftrightarrow> sv_started s \<noteq> 0 \<and> sv_started s - 1 \<in> fst ` set (sv_runs s)"

definition action_url :: "service_action \<Rightarrow> jsstring" where
  "action_url a = ''/api/v1/services/'' @ fst a @ ''/'' @ snd a"

definition action_notice :: "service_action \<Rightarrow> page_effect" where
  "action_notice a =
     Toast Success (''Service '' @ or_string (map_of ACTION_VERBS (snd a)) (snd a)) (fst a)"

definition menu_offers :: "json \<Rightarrow> jsstring \<Rightarrow> bool" where
  "menu_offers r a \<longleftrightarrow> a = ''start'' \<and> \<not> running r \<or> a = ''stop'' \<and> running r \<or> a = ''restart''"

datatype services_event =
    ServicesArrive json
  | RunAction jsstring jsstring
  | WithdrawAction
  | ConfirmAction
  | ActionSettles nat "jsstring option" \<comment> \<open>the error, if it failed\<close>
  | OpenLogs jsstring
  | CloseLogs

fun services_offered :: "services_page \<Rightarrow> services_event \<Rightarrow> bool" where
  "services_offered s (ServicesArrive d) = True"
| "services_offered s (RunAction n a) =
     (sv_confirm s = None \<and> sv_logs s = None \<and> list_ex (\<lambda>r. jget r ''service'' = JStr n \<and> menu_offers r a) (service_rows s))"
| "services_offered s WithdrawAction = (sv_confirm s \<noteq> None \<and> \<not> action_pending s)"
| "services_offered s ConfirmAction = (sv_confirm s \<noteq> None \<and> \<not> action_pending s)"
| "services_offered s (ActionSettles i f) = (i \<in> fst ` set (sv_runs s))"
| "services_offered s (OpenLogs n) =
     (sv_confirm s = None \<and> sv_logs s = None \<and> list_ex (\<lambda>r. jget r ''service'' = JStr n) (service_rows s))"
| "services_offered s CloseLogs = (sv_logs s \<noteq> None)"

definition start_action :: "service_action \<Rightarrow> services_page \<Rightarrow> services_page" where
  "start_action a s = s\<lparr>sv_runs := (sv_started s, a) # sv_runs s, sv_started := Suc (sv_started s)\<rparr>"

definition end_action :: "nat \<Rightarrow> services_page \<Rightarrow> services_page" where
  "end_action i s = s\<lparr>sv_runs := filter (\<lambda>p. fst p \<noteq> i) (sv_runs s), sv_answer := (if sv_answer s = Some i then None else sv_answer s)\<rparr>"

definition action_request :: "service_action \<Rightarrow> api_request" where
  "action_request a = ApiPost (action_url a) [(''confirm'', JBool True)]"

fun services_step :: "jsstring \<Rightarrow> (services_event, services_page) page_step" where
  "services_step u (ServicesArrive d) s = (s\<lparr>sv_data := d\<rparr>, [], [])"
| "services_step u (RunAction n a) s =
     (if a \<in> set CONFIRM_ACTIONS then (s\<lparr>sv_confirm := Some (n, a)\<rparr>, [], [])
      else (start_action (n, a) s, [action_request (n, a)], []))"
| "services_step u WithdrawAction s = (s\<lparr>sv_confirm := None\<rparr>, [], [])"
| "services_step u ConfirmAction s =
     (case sv_confirm s of
        None \<Rightarrow> (s, [], [])
      | Some a \<Rightarrow> ((start_action a s)\<lparr>sv_answer := Some (sv_started s)\<rparr>, [action_request a], []))"
| "services_step u (ActionSettles i f) s =
     (case f of
        None \<Rightarrow>
          ((end_action i s)\<lparr>sv_confirm := None, sv_answer := None\<rparr>, [],
           (case map_of (sv_runs s) i of None \<Rightarrow> [] | Some a \<Rightarrow> [action_notice a]) @ [Invalidate [''services'', u]])
      | Some e \<Rightarrow> (end_action i s, [], [Toast ErrorTone ''Action failed'' e]))"
| "services_step u (OpenLogs n) s = (s\<lparr>sv_logs := Some n\<rparr>, [], [])"
| "services_step u CloseLogs s = (s\<lparr>sv_logs := None\<rparr>, [], [])"

section \<open>What is sent\<close>

text \<open>The interruptions among the requests.\<close>

definition interrupts :: "service_action \<Rightarrow> bool" where
  "interrupts a \<longleftrightarrow> snd a \<in> set CONFIRM_ACTIONS"

definition interruption_shown :: "api_request \<Rightarrow> jsstring list" where
  "interruption_shown r =
     (case r of ApiPost url b \<Rightarrow> if list_ex (\<lambda>a. endsWith url (''/'' @ a)) CONFIRM_ACTIONS then [url] else [] | _ \<Rightarrow> [])"

definition services_question :: "services_page \<Rightarrow> jsstring question" where
  "services_question s =
     (case sv_confirm s of
        None \<Rightarrow> NoQuestion
      | Some a \<Rightarrow> if sv_answer s = None then Asking (action_url a) else Carrying (action_url a))"

definition services_inv :: "services_page \<Rightarrow> bool" where
  "services_inv s \<longleftrightarrow>
     (case sv_confirm s of None \<Rightarrow> sv_answer s = None | Some a \<Rightarrow> interrupts a) \<and>
     (\<forall>i. sv_answer s = Some i \<longrightarrow> Suc i = sv_started s \<and> i \<in> fst ` set (sv_runs s)) \<and>
     list_all (\<lambda>p. fst p < sv_started s) (sv_runs s)"

definition services_request_ok :: "api_request \<Rightarrow> bool" where
  "services_request_ok r \<longleftrightarrow> (\<exists>a. snd a \<in> fst ` set ACTION_VERBS \<and> r = action_request a)"

lemma services_start: "services_inv initial_services" "services_question initial_services = NoQuestion"
  by (simp_all add: services_inv_def initial_services_def services_question_def)

lemma start_action_fields [simp]:
  "sv_confirm (start_action a s) = sv_confirm s" "sv_answer (start_action a s) = sv_answer s"
  "sv_started (start_action a s) = Suc (sv_started s)" "sv_runs (start_action a s) = (sv_started s, a) # sv_runs s"
  "sv_confirm (end_action i s) = sv_confirm s" "sv_started (end_action i s) = sv_started s"
  by (simp_all add: start_action_def end_action_def)

lemma answer_pending:
  assumes "services_inv s" "sv_answer s \<noteq> None"
  shows "action_pending s"
proof -
  obtain i where "sv_answer s = Some i" using assms(2) by blast
  then have "Suc i = sv_started s \<and> i \<in> fst ` set (sv_runs s)" using assms(1) by (simp add: services_inv_def)
  then show ?thesis by (metis action_pending_def diff_Suc_1 nat.distinct(1))
qed

lemma services_keep: "services_inv s \<Longrightarrow> services_offered s e \<Longrightarrow> services_inv (fst (services_step u e s))"
proof (cases e)
  case ConfirmAction
  then show "services_inv s \<Longrightarrow> services_offered s e \<Longrightarrow> ?thesis"
    by (auto simp: services_inv_def list_all_iff less_Suc_eq split: option.splits)
next
  case (ActionSettles i f)
  then show "services_inv s \<Longrightarrow> services_offered s e \<Longrightarrow> ?thesis"
    by (cases f) (auto simp: services_inv_def end_action_def list_all_iff split: option.splits if_splits)
next
  case WithdrawAction
  then show "services_inv s \<Longrightarrow> services_offered s e \<Longrightarrow> ?thesis"
    using answer_pending[of s] by (auto simp: services_inv_def simp del: not_None_eq)
qed (auto simp: services_inv_def interrupts_def list_all_iff less_Suc_eq split: option.splits if_splits)

lemma menu_action: "menu_offers r a \<Longrightarrow> a \<in> fst ` set ACTION_VERBS"
  by (auto simp: menu_offers_def ACTION_VERBS_def)

lemma known_action_ok: "snd a \<in> fst ` set ACTION_VERBS \<Longrightarrow> services_request_ok (action_request a)"
  unfolding services_request_ok_def by blast

lemma services_good: "services_inv s \<Longrightarrow> services_offered s e \<Longrightarrow> list_all services_request_ok (fst (snd (services_step u e s)))"
proof (cases e)
  case (RunAction n a)
  then show "services_offered s e \<Longrightarrow> ?thesis"
    using menu_action[of _ a] known_action_ok[of "(n, a)"] by (fastforce simp only: services_offered.simps services_step.simps list_ex_iff
        snd_conv fst_conv list.pred_inject simp_thms split: if_splits)
next
  case ConfirmAction
  then show "services_inv s \<Longrightarrow> ?thesis"
    by (auto simp: services_inv_def interrupts_def CONFIRM_ACTIONS_def ACTION_VERBS_def intro!: known_action_ok split: option.split)
qed (auto split: option.split)

lemma no_interruption: "\<not> endsWith url ''/stop'' \<Longrightarrow> \<not> endsWith url ''/restart'' \<Longrightarrow> interruption_shown (ApiPost url b) = []"
  by (simp add: interruption_shown_def CONFIRM_ACTIONS_def)

lemma interruption_of_request:
  "interrupts a \<Longrightarrow> interruption_shown (action_request a) = [action_url a]"
  using endsWith_append[of "''/api/v1/services/'' @ fst a" "''/'' @ snd a"]
  by (auto simp: interruption_shown_def action_request_def action_url_def interrupts_def CONFIRM_ACTIONS_def)

lemma start_no_interruption: "interruption_shown (action_request (n, ''start'')) = []"
proof -
  have "action_url (n, ''start'') = (''/api/v1/services/'' @ n) @ ''/start''" by (simp add: action_url_def)
  moreover have "\<not> endsWith (x @ ''/start'') ''/stop''" "\<not> endsWith (x @ ''/start'') ''/restart''" for x
    by (rule not_endsWith[of _ 2]; simp add: endsWith_def)+
  ultimately show ?thesis unfolding action_request_def by (metis no_interruption)
qed

lemma services_simulates:
  assumes "services_inv s" "services_offered s e"
  shows "question_step (services_question s) (concat (map interruption_shown (fst (snd (services_step u e s)))))
    (services_question (fst (services_step u e s)))"
proof (cases e)
  case (RunAction n a)
  show ?thesis
  proof (cases "a \<in> set CONFIRM_ACTIONS")
    case True
    then show ?thesis using assms RunAction
      by (auto simp: services_inv_def services_question_def intro: question_step.intros split: option.splits)
  next
    case False
    then have "a = ''start''" using assms(2) RunAction by (auto simp: list_ex_iff menu_offers_def CONFIRM_ACTIONS_def)
    then show ?thesis using assms RunAction False
      by (auto simp: services_question_def start_no_interruption intro: question_step.intros)
  qed
next
  case ConfirmAction
  obtain a where a: "sv_confirm s = Some a" using assms(2) ConfirmAction by auto
  then have "interrupts a" "sv_answer s = None"
    using assms ConfirmAction answer_pending[OF assms(1)] by (auto simp: services_inv_def simp del: not_None_eq)
  then show ?thesis using a ConfirmAction by (simp add: services_question_def interruption_of_request question_step.intros)
next
  case (ActionSettles i f)
  then show ?thesis
    by (cases f) (auto simp: services_question_def end_action_def intro: question_step.intros split: option.splits)
next
  case WithdrawAction
  then show ?thesis using assms answer_pending[OF assms(1)]
    by (auto simp: services_question_def intro: question_step.intros split: option.splits)
qed (auto simp: services_question_def intro: question_step.intros split: option.splits)

interpretation services: page_contract initial_services services_offered "services_step u" services_inv services_request_ok for u
  by unfold_locales (simp_all only: services_start services_keep services_good)

interpretation service_interruptions: page_refinement initial_services services_offered "services_step u" services_inv services_question
    interruption_shown NoQuestion question_step
  for u
  by unfold_locales (simp_all only: services_start services_keep services_simulates)

text \<open>A service is only stopped or restarted by the answer to the question about it; starting one is no
  interruption.\<close>

lemma interruptions_confirmed:
  assumes "page_reach initial_services services_offered (services_step u) s sent"
  shows "list_all services_request_ok sent \<and> question_run (concat (map interruption_shown sent)) (services_question s)"
  using services.reach_inv[OF assms] service_interruptions.refines[OF assms] by blast

text \<open>The success of a start closes a question about another service that was asked meanwhile, unanswered.\<close>

lemma start_closes_question:
  assumes "sv_confirm s = Some a" "(i, (n, ''start'')) \<in> set (sv_runs s)"
  shows "services_offered s (ActionSettles i None) \<and> sv_confirm (fst (services_step u (ActionSettles i None) s)) = None"
  using assms by (auto intro: rev_image_eqI)

section \<open>Logs and labels\<close>

definition enabled_label :: "jsstring \<Rightarrow> jsstring" where
  "enabled_label e =
     or_string (map_of [(''enabled'', ''Starts at boot''), (''enabled-runtime'', ''Enabled for this boot''), (''disabled'', ''Manual start''),
        (''static'', ''Started by dependency''), (''masked'', ''Blocked'')] e) e"

definition log_text :: "bool \<Rightarrow> jsstring option \<Rightarrow> json \<Rightarrow> jsstring" where
  "log_text loading error d =
     (if loading then []
      else case error of
             Some e \<Rightarrow> e
           | None \<Rightarrow>
               (case json_list (jget d ''log_lines'') of [] \<Rightarrow> ''No log output.'' | ls \<Rightarrow> js_join [newline] ls))"

definition confirm_copy :: "service_action \<Rightarrow> jsstring option" where
  "confirm_copy a =
     (if snd a = ''stop''
      then Some (''This stops '' @ fst a @ '' until it is started again manually. Anything it serves will be unavailable in the meantime.'')
      else if snd a = ''restart'' then Some (''This briefly interrupts '' @ fst a @ '' while it restarts.'') else None)"

text \<open>Every question of the page says what it interrupts.\<close>

lemma question_has_copy: "services_inv s \<Longrightarrow> sv_confirm s = Some a \<Longrightarrow> confirm_copy a \<noteq> None"
  by (auto simp: services_inv_def interrupts_def CONFIRM_ACTIONS_def confirm_copy_def)

end
