(* ===== verification/Ip_Lists.thy ===== *)
theory Ip_Lists
  imports Page_Machine
begin

text \<open>
  The two lists of addresses of the administrator, \<open>pages/admin/IpBans.jsx\<close> and \<open>pages/admin/IpWhitelist.jsx\<close>.
  They are one page with different addresses, names and texts (\<open>list_kind\<close>), except that leaving the
  dialog of the whitelist by its close button forgets what was typed.
\<close>

section \<open>The page\<close>

record list_kind =
  lk_url :: jsstring
  lk_rows :: jsstring \<comment> \<open>the name of the rows in the answer\<close>
  lk_remark :: jsstring \<comment> \<open>the name of the second field\<close>
  lk_key :: "jsstring \<Rightarrow> jsstring list"
  lk_forgets :: bool
  lk_added :: page_effect
  lk_addFailed :: jsstring
  lk_removed :: page_effect
  lk_removeFailed :: jsstring

definition ip_bans :: list_kind where
  "ip_bans =
     \<lparr>lk_url = ''/api/v1/admin/ip-bans'', lk_rows = ''bans'', lk_remark = ''reason'', lk_key = (\<lambda>u. [''ip-bans'']), lk_forgets = False,
      lk_added = Toast Success ''IP banned'' ''Blocked server-wide, effective immediately.'', lk_addFailed = ''Could not add ban'',
      lk_removed = Toast Success ''Ban removed'' [], lk_removeFailed = ''Could not remove ban''\<rparr>"

definition ip_whitelist :: list_kind where
  "ip_whitelist =
     \<lparr>lk_url = ''/api/v1/security/ip-whitelist'', lk_rows = ''entries'', lk_remark = ''note'', lk_key = (\<lambda>u. [''ip-whitelist'', u]),
      lk_forgets = True,
      lk_added = Toast Success ''Whitelist entry added'' ''Panel login is now restricted to the whitelisted IPs.'',
      lk_addFailed = ''Could not add entry'',
      lk_removed = Toast Success ''Whitelist entry removed'' ''An empty whitelist leaves panel access unrestricted by IP.'',
      lk_removeFailed = ''Could not remove entry''\<rparr>"

record ip_page =
  ip_data :: json
  ip_open :: bool
  ip_value :: jsstring
  ip_remark :: jsstring
  ip_adding :: bool
  ip_remove :: "json option"
  ip_removing :: bool

definition initial_ip :: ip_page where
  "initial_ip = \<lparr>ip_data = JUndef, ip_open = False, ip_value = [], ip_remark = [], ip_adding = False, ip_remove = None, ip_removing = False\<rparr>"

definition ip_rows :: "list_kind \<Rightarrow> ip_page \<Rightarrow> json list" where
  "ip_rows k s = json_list (jget (ip_data s) (lk_rows k))"

datatype ip_event =
    EntriesArrive json
  | OpenAdd
  | DismissAdd \<comment> \<open>Escape, a click outside, the close button\<close>
  | CancelAdd
  | EditValue jsstring
  | EditRemark jsstring
  | AddEntry
  | EntryAdded
  | EntryRefused jsstring
  | AskRemove json
  | WithdrawRemove
  | ConfirmRemove
  | EntryRemoved
  | RemoveEntryFails jsstring

fun ip_offered :: "list_kind \<Rightarrow> ip_page \<Rightarrow> ip_event \<Rightarrow> bool" where
  "ip_offered k s (EntriesArrive d) = True"
| "ip_offered k s OpenAdd = (\<not> ip_open s \<and> ip_remove s = None)"
| "ip_offered k s DismissAdd = ip_open s"
| "ip_offered k s CancelAdd = ip_open s"
| "ip_offered k s (EditValue t) = ip_open s"
| "ip_offered k s (EditRemark t) = ip_open s"
| "ip_offered k s AddEntry = (ip_open s \<and> \<not> ip_adding s \<and> trim (ip_value s) \<noteq> [])"
| "ip_offered k s EntryAdded = ip_adding s"
| "ip_offered k s (EntryRefused e) = ip_adding s"
| "ip_offered k s (AskRemove r) = (\<not> ip_open s \<and> ip_remove s = None \<and> r \<in> set (ip_rows k s))"
| "ip_offered k s WithdrawRemove = (ip_remove s \<noteq> None \<and> \<not> ip_removing s)"
| "ip_offered k s ConfirmRemove = (ip_remove s \<noteq> None \<and> \<not> ip_removing s)"
| "ip_offered k s EntryRemoved = ip_removing s"
| "ip_offered k s (RemoveEntryFails e) = ip_removing s"

definition entry_body :: "list_kind \<Rightarrow> ip_page \<Rightarrow> body" where
  "entry_body k s = [(''value'', JStr (trim (ip_value s))), (lk_remark k, JStr (trim (ip_remark s)))]"

definition entry_url :: "list_kind \<Rightarrow> json \<Rightarrow> jsstring" where
  "entry_url k r = lk_url k @ ''/'' @ js_String (jget r ''id'')"

fun ip_step :: "list_kind \<Rightarrow> jsstring \<Rightarrow> (ip_event, ip_page) page_step" where
  "ip_step k u (EntriesArrive d) s = (s\<lparr>ip_data := d\<rparr>, [], [])"
| "ip_step k u OpenAdd s = (s\<lparr>ip_open := True\<rparr>, [], [])"
| "ip_step k u DismissAdd s =
     (if lk_forgets k then s\<lparr>ip_open := False, ip_value := [], ip_remark := []\<rparr> else s\<lparr>ip_open := False\<rparr>, [], [])"
| "ip_step k u CancelAdd s = (s\<lparr>ip_open := False\<rparr>, [], [])"
| "ip_step k u (EditValue t) s = (s\<lparr>ip_value := t\<rparr>, [], [])"
| "ip_step k u (EditRemark t) s = (s\<lparr>ip_remark := t\<rparr>, [], [])"
| "ip_step k u AddEntry s = (s\<lparr>ip_adding := True\<rparr>, [ApiPost (lk_url k) (entry_body k s)], [])"
| "ip_step k u EntryAdded s =
     (s\<lparr>ip_adding := False, ip_open := False, ip_value := [], ip_remark := []\<rparr>, [], [lk_added k, Invalidate (lk_key k u)])"
| "ip_step k u (EntryRefused e) s = (s\<lparr>ip_adding := False\<rparr>, [], [Toast ErrorTone (lk_addFailed k) e])"
| "ip_step k u (AskRemove r) s = (s\<lparr>ip_remove := Some r\<rparr>, [], [])"
| "ip_step k u WithdrawRemove s = (s\<lparr>ip_remove := None\<rparr>, [], [])"
| "ip_step k u ConfirmRemove s =
     (case ip_remove s of None \<Rightarrow> (s, [], []) | Some r \<Rightarrow> (s\<lparr>ip_removing := True\<rparr>, [ApiDelete (entry_url k r)], []))"
| "ip_step k u EntryRemoved s =
     (s\<lparr>ip_removing := False, ip_remove := None\<rparr>, [], [lk_removed k, Invalidate (lk_key k u)])"
| "ip_step k u (RemoveEntryFails e) s = (s\<lparr>ip_removing := False\<rparr>, [], [Toast ErrorTone (lk_removeFailed k) e])"

section \<open>What is sent\<close>

definition ip_inv :: "ip_page \<Rightarrow> bool" where
  "ip_inv s \<longleftrightarrow> (ip_removing s \<longrightarrow> ip_remove s \<noteq> None)"

definition ip_question :: "list_kind \<Rightarrow> ip_page \<Rightarrow> jsstring question" where
  "ip_question k s =
     (case ip_remove s of None \<Rightarrow> NoQuestion | Some r \<Rightarrow> if ip_removing s then Carrying (entry_url k r) else Asking (entry_url k r))"

definition ip_request_ok :: "list_kind \<Rightarrow> api_request \<Rightarrow> bool" where
  "ip_request_ok k r \<longleftrightarrow>
     (\<exists>v w. v \<noteq> [] \<and> trim v = v \<and> trim w = w \<and> r = ApiPost (lk_url k) [(''value'', JStr v), (lk_remark k, JStr w)]) \<or>
     (\<exists>x. r = ApiDelete (entry_url k x))"

lemma ip_start: "ip_inv initial_ip" "ip_question k initial_ip = NoQuestion"
  by (simp_all add: ip_inv_def initial_ip_def ip_question_def)

lemma ip_keep: "ip_inv s \<Longrightarrow> ip_offered k s e \<Longrightarrow> ip_inv (fst (ip_step k u e s))"
  by (cases e) (auto simp: ip_inv_def split: option.splits)

lemma ip_good: "ip_offered k s e \<Longrightarrow> list_all (ip_request_ok k) (fst (snd (ip_step k u e s)))"
proof (cases e)
  case AddEntry
  then show "ip_offered k s e \<Longrightarrow> ?thesis" by (auto simp: ip_request_ok_def entry_body_def)
qed (auto simp: ip_request_ok_def split: option.split)

lemma ip_simulates:
  "ip_inv s \<Longrightarrow> ip_offered k s e \<Longrightarrow>
     question_step (ip_question k s) (concat (map deletion_shown (fst (snd (ip_step k u e s))))) (ip_question k (fst (ip_step k u e s)))"
  by (cases e) (auto simp: ip_inv_def ip_question_def deletion_shown_def intro: question_step.intros split: option.splits)

interpretation ip: page_contract initial_ip "ip_offered k" "ip_step k u" ip_inv "ip_request_ok k" for k u
  by unfold_locales (simp_all only: ip_start ip_keep ip_good)

interpretation ip_removal: page_refinement initial_ip "ip_offered k" "ip_step k u" ip_inv "ip_question k" deletion_shown NoQuestion
    question_step
  for k u
  by unfold_locales (simp_all only: ip_start ip_keep ip_simulates)

text \<open>For bans and for the whitelist alike: an address is only added without surrounding white space, an entry
  only removed by the answer to its question.\<close>

lemma ip_requests_valid:
  assumes "page_reach initial_ip (ip_offered k) (ip_step k u) s sent"
  shows "list_all (ip_request_ok k) sent \<and> question_run (concat (map deletion_shown sent)) (ip_question k s)"
  using ip.reach_inv[OF assms] ip_removal.refines[OF assms] by blast

text \<open>The two kinds never send to each other's address.\<close>

lemma kinds_apart: "entry_url ip_bans r \<noteq> entry_url ip_whitelist r' \<and> lk_url ip_bans \<noteq> lk_url ip_whitelist"
  by (simp add: entry_url_def ip_bans_def ip_whitelist_def)

text \<open>A ban that was typed and left is there again when the dialog is opened for the next one; the whitelist
  forgets it, unless it was left by the cancel button.\<close>

lemma left_entry:
  "ip_value (fst (ip_step ip_bans u DismissAdd s)) = ip_value s \<and> ip_value (fst (ip_step ip_whitelist u DismissAdd s)) = [] \<and>
   ip_value (fst (ip_step ip_whitelist u CancelAdd s)) = ip_value s"
  by (simp add: ip_bans_def ip_whitelist_def)

text \<open>A ban that succeeds late closes the dialog opened since and drops what was typed there.\<close>

lemma late_entry_drops_text:
  assumes "ip_adding s" "ip_open s" "ip_remove s = None"
    and "s' = fold (\<lambda>e s. fst (ip_step k u e s)) [CancelAdd, OpenAdd, EditValue t] s"
  shows "ip_value s' = t \<and> ip_open s' \<and> ip_offered k s' EntryAdded \<and> ip_value (fst (ip_step k u EntryAdded s')) = []"
  using assms by simp

end
