(* ===== verification/Mail_Queue.thy ===== *)
theory Mail_Queue
  imports Page_Machine
begin

text \<open>
  \<open>pages/admin/MailQueue.jsx\<close>: the messages waiting in the mail server. Flushing one message is not
  confirmed and does not wait; removing one, and emptying the queue, are questions, the second of which asks
  for a word to be typed (\<open>Ui_Kit\<close>).
\<close>

section \<open>The page\<close>

record queue_page =
  mq_data :: json
  mq_deleteAllOpen :: bool
  mq_deletingAll :: bool
  mq_delete :: "json option"
  mq_deleting :: bool
  mq_flushingAll :: bool
  mq_flushes :: "(nat \<times> json) list" \<comment> \<open>flushes of single messages under way\<close>
  mq_started :: nat

definition initial_queue :: queue_page where
  "initial_queue =
     \<lparr>mq_data = JUndef, mq_deleteAllOpen = False, mq_deletingAll = False, mq_delete = None, mq_deleting = False, mq_flushingAll = False,
      mq_flushes = [], mq_started = 0\<rparr>"

definition queue_entries :: "queue_page \<Rightarrow> json list" where
  "queue_entries s = json_list (jget (mq_data s) ''entries'')"

definition queue_count :: "queue_page \<Rightarrow> json" where
  "queue_count s = (let c = jget (mq_data s) ''count'' in if nullish c then JNum (int (length (queue_entries s))) else c)"

definition queue_empty :: "queue_page \<Rightarrow> bool" where
  "queue_empty s \<longleftrightarrow> queue_count s = JNum 0"

definition queue_text :: "queue_page \<Rightarrow> jsstring" where
  "queue_text s = js_String (queue_count s) @ '' message'' @ (if queue_count s = JNum 1 then [] else ''s'') @ '' currently queued.''"

definition queue_id :: "json \<Rightarrow> jsstring" where
  "queue_id r = js_String (jget r ''queue_id'')"

definition message_url :: "json \<Rightarrow> jsstring \<Rightarrow> jsstring" where
  "message_url r what = ''/api/v1/mail-queue/'' @ queue_id r @ ''/'' @ what"

definition delete_all_props :: "queue_page \<Rightarrow> confirm_props" where
  "delete_all_props s =
     \<lparr>dialog_open = mq_deleteAllOpen s, dialog_loading = mq_deletingAll s, confirmationText = ''DELETE ALL'', acknowledgementLabel = []\<rparr>"

datatype queue_event =
    QueueArrives json
  | FlushAll
  | AllFlushed
  | FlushAllFails jsstring
  | AskDeleteAll
  | WithdrawDeleteAll
  | ConfirmDeleteAll confirm_state \<comment> \<open>what the dialog holds\<close>
  | AllDeleted
  | DeleteAllFails jsstring
  | FlushMessage json
  | FlushSettles nat "jsstring option"
  | AskDelete json
  | WithdrawDelete
  | ConfirmDelete
  | MessageDeleted
  | DeleteFails jsstring

definition no_queue_dialog :: "queue_page \<Rightarrow> bool" where
  "no_queue_dialog s \<longleftrightarrow> \<not> mq_deleteAllOpen s \<and> mq_delete s = None"

fun queue_offered :: "queue_page \<Rightarrow> queue_event \<Rightarrow> bool" where
  "queue_offered s (QueueArrives d) = True"
| "queue_offered s FlushAll = (no_queue_dialog s \<and> \<not> mq_flushingAll s \<and> \<not> queue_empty s)"
| "queue_offered s AllFlushed = mq_flushingAll s"
| "queue_offered s (FlushAllFails e) = mq_flushingAll s"
| "queue_offered s AskDeleteAll = (no_queue_dialog s \<and> \<not> queue_empty s)"
| "queue_offered s WithdrawDeleteAll = (mq_deleteAllOpen s \<and> \<not> mq_deletingAll s)"
| "queue_offered s (ConfirmDeleteAll c) = confirm_enabled ConfirmButton (delete_all_props s, c)"
| "queue_offered s AllDeleted = mq_deletingAll s"
| "queue_offered s (DeleteAllFails e) = mq_deletingAll s"
| "queue_offered s (FlushMessage r) = (no_queue_dialog s \<and> r \<in> set (queue_entries s))"
| "queue_offered s (FlushSettles i f) = (i \<in> fst ` set (mq_flushes s))"
| "queue_offered s (AskDelete r) = (no_queue_dialog s \<and> r \<in> set (queue_entries s))"
| "queue_offered s WithdrawDelete = (mq_delete s \<noteq> None \<and> \<not> mq_deleting s)"
| "queue_offered s ConfirmDelete = (mq_delete s \<noteq> None \<and> \<not> mq_deleting s)"
| "queue_offered s MessageDeleted = mq_deleting s"
| "queue_offered s (DeleteFails e) = mq_deleting s"

definition queue_key :: "jsstring \<Rightarrow> page_effect" where
  "queue_key u = Invalidate [''mail-queue'', u]"

definition flush_notice :: "(nat \<times> json) list \<Rightarrow> nat \<Rightarrow> page_effect list" where
  "flush_notice fs i =
     (case map_of fs i of
        None \<Rightarrow> []
      | Some r \<Rightarrow> [Toast Success ''Message flushed'' (''Delivery of '' @ queue_id r @ '' was requested.'')])"

fun queue_step :: "jsstring \<Rightarrow> (queue_event, queue_page) page_step" where
  "queue_step u (QueueArrives d) s = (s\<lparr>mq_data := d\<rparr>, [], [])"
| "queue_step u FlushAll s = (s\<lparr>mq_flushingAll := True\<rparr>, [ApiPost ''/api/v1/mail-queue/flush'' []], [])"
| "queue_step u AllFlushed s =
     (s\<lparr>mq_flushingAll := False\<rparr>, [],
      [Toast Success ''Queue flushed'' ''Postfix is attempting to deliver all queued mail now.'', queue_key u])"
| "queue_step u (FlushAllFails e) s = (s\<lparr>mq_flushingAll := False\<rparr>, [], [Toast ErrorTone ''Could not flush queue'' e])"
| "queue_step u AskDeleteAll s = (s\<lparr>mq_deleteAllOpen := True\<rparr>, [], [])"
| "queue_step u WithdrawDeleteAll s = (s\<lparr>mq_deleteAllOpen := False\<rparr>, [], [])"
| "queue_step u (ConfirmDeleteAll c) s = (s\<lparr>mq_deletingAll := True\<rparr>, [ApiPost ''/api/v1/mail-queue/delete-all'' []], [])"
| "queue_step u AllDeleted s =
     (s\<lparr>mq_deletingAll := False, mq_deleteAllOpen := False\<rparr>, [],
      [Toast Success ''Queue emptied'' ''Every message was removed from the mail queue.'', queue_key u])"
| "queue_step u (DeleteAllFails e) s = (s\<lparr>mq_deletingAll := False\<rparr>, [], [Toast ErrorTone ''Could not empty queue'' e])"
| "queue_step u (FlushMessage r) s =
     (s\<lparr>mq_flushes := (mq_started s, r) # mq_flushes s, mq_started := Suc (mq_started s)\<rparr>, [ApiPost (message_url r ''flush'') []], [])"
| "queue_step u (FlushSettles i f) s =
     (s\<lparr>mq_flushes := filter (\<lambda>p. fst p \<noteq> i) (mq_flushes s)\<rparr>, [],
      case f of None \<Rightarrow> flush_notice (mq_flushes s) i @ [queue_key u] | Some e \<Rightarrow> [Toast ErrorTone ''Could not flush message'' e])"
| "queue_step u (AskDelete r) s = (s\<lparr>mq_delete := Some r\<rparr>, [], [])"
| "queue_step u WithdrawDelete s = (s\<lparr>mq_delete := None\<rparr>, [], [])"
| "queue_step u ConfirmDelete s =
     (case mq_delete s of None \<Rightarrow> (s, [], []) | Some r \<Rightarrow> (s\<lparr>mq_deleting := True\<rparr>, [ApiPost (message_url r ''delete'') []], []))"
| "queue_step u MessageDeleted s =
     (s\<lparr>mq_deleting := False, mq_delete := None\<rparr>, [],
      (case mq_delete s of None \<Rightarrow> [] | Some r \<Rightarrow> [Toast Success ''Message deleted'' (queue_id r @ '' was removed from the queue.'')]) @ [queue_key u])"
| "queue_step u (DeleteFails e) s = (s\<lparr>mq_deleting := False\<rparr>, [], [Toast ErrorTone ''Could not delete message'' e])"

section \<open>What is sent\<close>

definition queue_question :: "queue_page \<Rightarrow> api_request question" where
  "queue_question s =
     (if mq_deleteAllOpen s
      then (if mq_deletingAll s then Carrying (ApiPost ''/api/v1/mail-queue/delete-all'' [])
            else Asking (ApiPost ''/api/v1/mail-queue/delete-all'' []))
      else case mq_delete s of
             None \<Rightarrow> NoQuestion
           | Some r \<Rightarrow> if mq_deleting s then Carrying (ApiPost (message_url r ''delete'') []) else Asking (ApiPost (message_url r ''delete'') []))"

text \<open>A request that removes ends in one of two words.\<close>

definition removals_shown :: "api_request \<Rightarrow> api_request list" where
  "removals_shown r =
     (case r of ApiPost url b \<Rightarrow> if endsWith url ''delete-all'' \<or> endsWith url ''/delete'' then [r] else [] | _ \<Rightarrow> [])"

definition queue_inv :: "queue_page \<Rightarrow> bool" where
  "queue_inv s \<longleftrightarrow>
     (mq_deletingAll s \<longrightarrow> mq_deleteAllOpen s) \<and> (mq_deleting s \<longrightarrow> mq_delete s \<noteq> None) \<and> \<not> (mq_deleteAllOpen s \<and> mq_delete s \<noteq> None)"

definition queue_request_ok :: "api_request \<Rightarrow> bool" where
  "queue_request_ok r \<longleftrightarrow>
     r = ApiPost ''/api/v1/mail-queue/flush'' [] \<or> r = ApiPost ''/api/v1/mail-queue/delete-all'' [] \<or>
     (\<exists>x. r = ApiPost (message_url x ''flush'') [] \<or> r = ApiPost (message_url x ''delete'') [])"

lemma queue_start: "queue_inv initial_queue" "queue_question initial_queue = NoQuestion"
  by (simp_all add: queue_inv_def initial_queue_def queue_question_def)

lemma queue_keep: "queue_inv s \<Longrightarrow> queue_offered s e \<Longrightarrow> queue_inv (fst (queue_step u e s))"
  by (cases e) (auto simp: queue_inv_def no_queue_dialog_def delete_all_props_def split: option.splits)

lemma queue_good: "list_all queue_request_ok (fst (snd (queue_step u e s)))"
  by (cases e) (auto simp: queue_request_ok_def split: option.split)

lemma message_shown:
  "removals_shown (ApiPost (message_url r ''delete'') []) = [ApiPost (message_url r ''delete'') []]"
  "removals_shown (ApiPost (message_url r ''flush'') []) = []"
  "removals_shown (ApiPost ''/api/v1/mail-queue/flush'' []) = []"
  "removals_shown (ApiPost ''/api/v1/mail-queue/delete-all'' []) = [ApiPost ''/api/v1/mail-queue/delete-all'' []]"
proof -
  let ?x = "''/api/v1/mail-queue/'' @ queue_id r"
  have url: "message_url r w = ?x @ ''/'' @ w" for w by (simp add: message_url_def)
  have "endsWith (?x @ ''/delete'') ''/delete''" by (subst endsWith_suffix) (simp_all add: endsWith_def)
  then show "removals_shown (ApiPost (message_url r ''delete'') []) = [ApiPost (message_url r ''delete'') []]"
    by (simp only: removals_shown_def url append.simps api_request.simps simp_thms if_True)
  have "\<not> endsWith (?x @ ''/flush'') ''delete-all''" "\<not> endsWith (?x @ ''/flush'') ''/delete''"
    by (rule not_endsWith[of _ 7]; simp add: endsWith_def) (rule not_endsWith[of _ 2]; simp add: endsWith_def)
  then show "removals_shown (ApiPost (message_url r ''flush'') []) = []"
    by (simp only: removals_shown_def url append.simps api_request.simps simp_thms if_False)
qed (simp_all add: removals_shown_def endsWith_def)

lemma queue_simulates:
  "queue_inv s \<Longrightarrow> queue_offered s e \<Longrightarrow>
     question_step (queue_question s) (concat (map removals_shown (fst (snd (queue_step u e s))))) (queue_question (fst (queue_step u e s)))"
  by (cases e)
     (auto simp: queue_inv_def no_queue_dialog_def queue_question_def delete_all_props_def message_shown simp del: append.simps
        intro: question_step.intros split: option.splits)

interpretation queue: page_contract initial_queue queue_offered "queue_step u" queue_inv queue_request_ok for u
  by unfold_locales (simp_all only: queue_start queue_keep queue_good)

interpretation queue_removal: page_refinement initial_queue queue_offered "queue_step u" queue_inv queue_question removals_shown NoQuestion
    question_step
  for u
  by unfold_locales (simp_all only: queue_start queue_keep queue_simulates)

text \<open>Messages are only removed by the answer to the question about exactly them.\<close>

lemma queue_removals_confirmed:
  assumes "page_reach initial_queue queue_offered (queue_step u) s sent"
  shows "list_all queue_request_ok sent \<and> question_run (concat (map removals_shown sent)) (queue_question s)"
  using queue.reach_inv[OF assms] queue_removal.refines[OF assms] by blast

text \<open>And the whole queue only after its words were typed exactly.\<close>

lemma emptied_after_typing:
  "queue_offered s (ConfirmDeleteAll c) \<Longrightarrow> typed c = ''DELETE ALL'' \<and> \<not> mq_deletingAll s"
  by (simp add: delete_all_props_def confirmed_def)

text \<open>The queue may have been emptied or filled anew meanwhile: what is removed is what is there then.\<close>

lemma queue_text_examples:
  "queue_text (initial_queue\<lparr>mq_data := JObj [(''count'', JNum 1)]\<rparr>) = ''1 message currently queued.''"
  "queue_text initial_queue = ''0 messages currently queued.''"
  by code_simp+

end
