(* ===== verification/Branding_Page.thy ===== *)
theory Branding_Page
  imports Page_Machine
begin

text \<open>
  \<open>pages/admin/Branding.jsx\<close>: the name of the panel, the support contacts, the logo and the icon, and the
  welcome of the administrator's terminal. Only what differs from the stored settings is sent. What the
  server keeps of a request (\<open>set_settings\<close> in \<open>daemon/branding.py\<close>) is written out, its checks of addresses
  and links being the parameters \<open>server_email\<close> and \<open>server_link\<close>.
\<close>

section \<open>Name and contacts\<close>

record contacts =
  ct_name :: jsstring
  ct_email :: jsstring
  ct_link :: jsstring

text \<open>A stored text that may be null, as the form shows it.\<close>

definition contacts_of :: "json \<Rightarrow> contacts" where
  "contacts_of d =
     \<lparr>ct_name = json_text (jget d ''panel_name''), ct_email = json_text (jget d ''support_email''), ct_link = json_text (jget d ''support_url'')\<rparr>"

definition or_null :: "jsstring \<Rightarrow> json" where
  "or_null t = (if t = [] then JNull else JStr t)"

definition branding_body :: "json \<Rightarrow> contacts \<Rightarrow> body" where
  "branding_body d a =
     (let old = contacts_of d
      in (if ct_name a \<noteq> ct_name old then [(''panel_name'', JStr (ct_name a))] else []) @
         (if ct_email a \<noteq> ct_email old then [(''support_email'', or_null (ct_email a))] else []) @
         (if ct_link a \<noteq> ct_link old then [(''support_url'', or_null (ct_link a))] else []))"

datatype asset = Logo | Favicon

datatype asset_call = Upload asset | Remove asset

fun asset_url :: "asset \<Rightarrow> jsstring" where
  "asset_url Logo = ''/api/v1/admin/branding/logo''"
| "asset_url Favicon = ''/api/v1/admin/branding/favicon''"

fun asset_stored :: "json \<Rightarrow> asset \<Rightarrow> bool" where
  "asset_stored d Logo = truthy (jget d ''logo_url'')"
| "asset_stored d Favicon = truthy (jget d ''favicon_url'')"

fun asset_name :: "asset \<Rightarrow> jsstring" where
  "asset_name Logo = ''logo''"
| "asset_name Favicon = ''favicon''"

fun asset_title :: "asset \<Rightarrow> jsstring" where
  "asset_title Logo = ''Logo''"
| "asset_title Favicon = ''Favicon''"

record branding_page =
  br_data :: json
  br_form :: "contacts option"
  br_saving :: bool
  br_assets :: "asset_call list"

definition initial_branding :: branding_page where
  "initial_branding = \<lparr>br_data = JUndef, br_form = None, br_saving = False, br_assets = []\<rparr>"

definition active_contacts :: "branding_page \<Rightarrow> contacts" where
  "active_contacts s = (case br_form s of Some a \<Rightarrow> a | None \<Rightarrow> contacts_of (br_data s))"

datatype branding_event =
    BrandingArrives json
  | EditName jsstring
  | EditContact jsstring
  | EditLink jsstring
  | SaveBranding
  | BrandingSaved
  | BrandingRefused jsstring
  | StartAsset asset_call jsstring \<comment> \<open>with the file that was chosen\<close>
  | AssetDone asset_call
  | AssetFails asset_call jsstring

fun branding_offered :: "branding_page \<Rightarrow> branding_event \<Rightarrow> bool" where
  "branding_offered s (BrandingArrives d) = True"
| "branding_offered s (EditName t) = (length t \<le> 64)"
| "branding_offered s (EditContact t) = True"
| "branding_offered s (EditLink t) = True"
| "branding_offered s SaveBranding = (\<not> br_saving s \<and> trim (ct_name (active_contacts s)) \<noteq> [])"
| "branding_offered s BrandingSaved = br_saving s"
| "branding_offered s (BrandingRefused e) = br_saving s"
| "branding_offered s (StartAsset c f) =
     (c \<notin> set (br_assets s) \<and> (case c of Upload a \<Rightarrow> True | Remove a \<Rightarrow> asset_stored (br_data s) a))"
| "branding_offered s (AssetDone c) = (c \<in> set (br_assets s))"
| "branding_offered s (AssetFails c e) = (c \<in> set (br_assets s))"

fun asset_request :: "asset_call \<Rightarrow> jsstring \<Rightarrow> api_request" where
  "asset_request (Upload a) f = ApiPost (asset_url a) [(''file'', JStr f)]"
| "asset_request (Remove a) f = ApiDelete (asset_url a)"

fun asset_done :: "asset_call \<Rightarrow> jsstring" where
  "asset_done (Upload a) = asset_title a @ '' uploaded''"
| "asset_done (Remove a) = asset_title a @ '' removed''"

fun asset_failed :: "asset_call \<Rightarrow> jsstring" where
  "asset_failed (Upload a) = ''Could not upload '' @ asset_name a"
| "asset_failed (Remove a) = ''Could not remove '' @ asset_name a"

definition edit_contacts :: "(contacts \<Rightarrow> contacts) \<Rightarrow> branding_page \<Rightarrow> branding_page" where
  "edit_contacts g s = s\<lparr>br_form := Some (g (active_contacts s))\<rparr>"

definition end_asset :: "asset_call \<Rightarrow> branding_page \<Rightarrow> branding_page" where
  "end_asset c s = s\<lparr>br_assets := filter (\<lambda>x. x \<noteq> c) (br_assets s)\<rparr>"

fun branding_step :: "(branding_event, branding_page) page_step" where
  "branding_step (BrandingArrives d) s = (s\<lparr>br_data := d\<rparr>, [], [])"
| "branding_step (EditName t) s = (edit_contacts (\<lambda>a. a\<lparr>ct_name := t\<rparr>) s, [], [])"
| "branding_step (EditContact t) s = (edit_contacts (\<lambda>a. a\<lparr>ct_email := t\<rparr>) s, [], [])"
| "branding_step (EditLink t) s = (edit_contacts (\<lambda>a. a\<lparr>ct_link := t\<rparr>) s, [], [])"
| "branding_step SaveBranding s =
     (let b = branding_body (br_data s) (active_contacts s)
      in if b = [] then (s, [], [Toast InfoTone ''No changes to save'' []])
         else (s\<lparr>br_saving := True\<rparr>, [ApiPatch ''/api/v1/admin/branding'' b], []))"
| "branding_step BrandingSaved s =
     (s\<lparr>br_saving := False, br_form := None\<rparr>, [], [Toast Success ''Branding updated'' [], Invalidate [''branding'']])"
| "branding_step (BrandingRefused e) s = (s\<lparr>br_saving := False\<rparr>, [], [Toast ErrorTone ''Could not save branding'' e])"
| "branding_step (StartAsset c f) s = (s\<lparr>br_assets := c # br_assets s\<rparr>, [asset_request c f], [])"
| "branding_step (AssetDone c) s = (end_asset c s, [], [Toast Success (asset_done c) [], Invalidate [''branding'']])"
| "branding_step (AssetFails c e) s = (end_asset c s, [], [Toast ErrorTone (asset_failed c) e])"

section \<open>What the server keeps\<close>

record stored_branding =
  sb_name :: jsstring
  sb_email :: "jsstring option"
  sb_link :: "jsstring option"

definition branding_dict :: "stored_branding \<Rightarrow> (jsstring \<times> json) list \<Rightarrow> json" where
  "branding_dict b rest = JObj
     ([(''panel_name'', JStr (sb_name b)), (''support_email'', case sb_email b of None \<Rightarrow> JNull | Some t \<Rightarrow> JStr t),
       (''support_url'', case sb_link b of None \<Rightarrow> JNull | Some t \<Rightarrow> JStr t)] @ rest)"

text \<open>A field that may be cleared, after a check of what is not empty.\<close>

definition keep_optional :: "(jsstring \<Rightarrow> jsstring option) \<Rightarrow> json option \<Rightarrow> jsstring option \<Rightarrow> jsstring option option" where
  "keep_optional check v old =
     (case v of
        None \<Rightarrow> Some old
      | Some (JStr t) \<Rightarrow> if t = [] then Some None else (case check t of None \<Rightarrow> None | Some x \<Rightarrow> Some (Some x))
      | Some w \<Rightarrow> Some None)"

definition keep_name :: "json option \<Rightarrow> jsstring \<Rightarrow> jsstring option" where
  "keep_name v old =
     (case v of
        None \<Rightarrow> Some old
      | Some w \<Rightarrow> let t = trim (json_text w) in if t = [] \<or> 64 < length t then None else Some t)"

definition keep_branding ::
    "(jsstring \<Rightarrow> jsstring option) \<Rightarrow> (jsstring \<Rightarrow> jsstring option) \<Rightarrow> body \<Rightarrow> stored_branding \<Rightarrow> stored_branding option" where
  "keep_branding server_email server_link b old =
     (case keep_name (map_of b ''panel_name'') (sb_name old) of
        None \<Rightarrow> None
      | Some n \<Rightarrow>
          (case keep_optional server_email (map_of b ''support_email'') (sb_email old) of
             None \<Rightarrow> None
           | Some e \<Rightarrow>
               (case keep_optional server_link (map_of b ''support_url'') (sb_link old) of
                  None \<Rightarrow> None
                | Some l \<Rightarrow> Some \<lparr>sb_name = n, sb_email = e, sb_link = l\<rparr>)))"

definition branding_kept :: "(jsstring \<Rightarrow> jsstring option) \<Rightarrow> (jsstring \<Rightarrow> jsstring option) \<Rightarrow> stored_branding \<Rightarrow> bool" where
  "branding_kept E L b \<longleftrightarrow>
     sb_name b \<noteq> [] \<and> trim (sb_name b) = sb_name b \<and> length (sb_name b) \<le> 64 \<and>
     (\<forall>t. sb_email b = Some t \<longrightarrow> t \<noteq> [] \<and> E t = Some t) \<and> (\<forall>t. sb_link b = Some t \<longrightarrow> t \<noteq> [] \<and> L t = Some t)"

text \<open>The whole form, as if every field were sent.\<close>

definition whole_body :: "contacts \<Rightarrow> body" where
  "whole_body a = [(''panel_name'', JStr (ct_name a)), (''support_email'', or_null (ct_email a)), (''support_url'', or_null (ct_link a))]"

lemma shown_of_stored [simp]:
  "contacts_of (branding_dict b rest) = \<lparr>ct_name = sb_name b, ct_email = or_string (sb_email b) [], ct_link = or_string (sb_link b) []\<rparr>"
  by (simp add: contacts_of_def branding_dict_def json_text_def or_string_def split: option.split)

lemma keep_unchanged:
  assumes "\<forall>t. old = Some t \<longrightarrow> t \<noteq> [] \<and> check t = Some t"
  shows "keep_optional check (Some (or_null (or_string old []))) old = Some old"
  using assms by (cases old) (auto simp: keep_optional_def or_null_def or_string_def)

text \<open>C29. Sending only the differences to what was read leaves the server with the same settings as sending
  everything, as long as what was read is what the server holds.\<close>

theorem differences_suffice:
  assumes "branding_kept E L b"
  shows "keep_branding E L (branding_body (branding_dict b rest) a) b = keep_branding E L (whole_body a) b"
proof -
  have name: "keep_name (Some (JStr (sb_name b))) (sb_name b) = Some (sb_name b)"
    using assms by (simp add: keep_name_def json_text_def branding_kept_def)
  have email: "keep_optional E (Some (or_null (or_string (sb_email b) []))) (sb_email b) = Some (sb_email b)"
    and link: "keep_optional L (Some (or_null (or_string (sb_link b) []))) (sb_link b) = Some (sb_link b)"
    using assms by (auto simp: branding_kept_def intro!: keep_unchanged)
  have none: "keep_name None x = Some x" "keep_optional E None y = Some y" "keep_optional L None y = Some y" for x y
    by (simp_all add: keep_name_def keep_optional_def)
  let ?b = "branding_body (branding_dict b rest) a" and ?w = "whole_body a"
  have "keep_name (map_of ?b ''panel_name'') (sb_name b) = keep_name (map_of ?w ''panel_name'') (sb_name b)"
    by (simp add: branding_body_def whole_body_def Let_def none name)
  moreover have "keep_optional E (map_of ?b ''support_email'') (sb_email b) = keep_optional E (map_of ?w ''support_email'') (sb_email b)"
    by (simp add: branding_body_def whole_body_def Let_def none email)
  moreover have "keep_optional L (map_of ?b ''support_url'') (sb_link b) = keep_optional L (map_of ?w ''support_url'') (sb_link b)"
    by (simp add: branding_body_def whole_body_def Let_def none link)
  ultimately show ?thesis by (simp only: keep_branding_def)
qed

definition branding_example :: stored_branding where
  "branding_example = \<lparr>sb_name = ''Boron'', sb_email = None, sb_link = Some ''https://boron.example''\<rparr>"

definition contacts_example :: contacts where
  "contacts_example = \<lparr>ct_name = ''Boron'', ct_email = ''help@boron.example'', ct_link = []\<rparr>"

theorem differences_suffice_witness:
  "keep_branding Some Some (branding_body (branding_dict branding_example []) contacts_example) branding_example =
     Some \<lparr>sb_name = ''Boron'', sb_email = Some ''help@boron.example'', sb_link = None\<rparr> \<and>
   map fst (branding_body (branding_dict branding_example []) contacts_example) = [''support_email'', ''support_url'']"
proof -
  have "trim (sb_name branding_example) = sb_name branding_example" by code_simp
  then have kept: "branding_kept Some Some branding_example" by (simp add: branding_kept_def branding_example_def)
  have "keep_branding Some Some (whole_body contacts_example) branding_example =
      Some \<lparr>sb_name = ''Boron'', sb_email = Some ''help@boron.example'', sb_link = None\<rparr>" by code_simp
  moreover have "map fst (branding_body (branding_dict branding_example []) contacts_example) = [''support_email'', ''support_url'']" by code_simp
  ultimately show ?thesis by (simp only: differences_suffice[OF kept] simp_thms)
qed

text \<open>Saving unedited settings asks nothing of the server.\<close>

lemma unedited_not_sent:
  assumes "br_form s = None"
  shows "fst (snd (branding_step SaveBranding s)) = []"
  using assms by (simp add: active_contacts_def branding_body_def Let_def)

text \<open>Every request of the form changes something, and never sends an empty name.\<close>

lemma saved_name_nonempty:
  assumes "branding_offered s SaveBranding" "fst (snd (branding_step SaveBranding s)) = [ApiPatch url b]"
  shows "b \<noteq> [] \<and> (\<forall>v. map_of b ''panel_name'' = Some v \<longrightarrow> trim (json_text v) \<noteq> [])"
proof -
  have "json_text (JStr t) = t" for t by (simp add: json_text_def)
  then show ?thesis using assms by (auto simp: branding_body_def Let_def or_null_def split: if_splits)
qed

text \<open>What is typed while a save is awaited is dropped by its success.\<close>

lemma late_branding_edit_dropped:
  assumes "br_saving s" "s' = fst (branding_step (EditName t) s)"
  shows "ct_name (active_contacts s') = t \<and> branding_offered s' BrandingSaved \<and> br_form (fst (branding_step BrandingSaved s')) = None"
  using assms by (simp add: edit_contacts_def active_contacts_def)

section \<open>The welcome of the terminal\<close>

record banner_card =
  bn_data :: json
  bn_draft :: "jsstring option"
  bn_saving :: bool

definition banner_value :: "banner_card \<Rightarrow> jsstring" where
  "banner_value s =
     (case bn_draft s of
        Some t \<Rightarrow> t
      | None \<Rightarrow>
          (let v = (if nullish (jget (bn_data s) ''terminal_banner'') then jget (bn_data s) ''default_terminal_banner''
                    else jget (bn_data s) ''terminal_banner'')
           in if nullish v then [] else js_String v))"

datatype banner_event = BannerArrives json | EditBanner jsstring | SaveBanner | ResetBanner | BannerSaved | BannerRefused jsstring

fun banner_offered :: "banner_card \<Rightarrow> banner_event \<Rightarrow> bool" where
  "banner_offered s (BannerArrives d) = truthy d"
| "banner_offered s (EditBanner t) = (truthy (bn_data s) \<and> length t \<le> 4000)"
| "banner_offered s SaveBanner = (truthy (bn_data s) \<and> \<not> bn_saving s \<and> bn_draft s \<noteq> None)"
| "banner_offered s ResetBanner = (truthy (bn_data s) \<and> \<not> bn_saving s)"
| "banner_offered s BannerSaved = bn_saving s"
| "banner_offered s (BannerRefused e) = bn_saving s"

definition banner_request :: "json \<Rightarrow> api_request" where
  "banner_request v = ApiPatch ''/api/v1/admin/branding'' [(''terminal_banner'', v)]"

fun banner_step :: "(banner_event, banner_card) page_step" where
  "banner_step (BannerArrives d) s = (s\<lparr>bn_data := d\<rparr>, [], [])"
| "banner_step (EditBanner t) s = (s\<lparr>bn_draft := Some t\<rparr>, [], [])"
| "banner_step SaveBanner s = (s\<lparr>bn_saving := True\<rparr>, [banner_request (JStr (banner_value s))], [])"
| "banner_step ResetBanner s = (s\<lparr>bn_saving := True\<rparr>, [banner_request JNull], [])"
| "banner_step BannerSaved s =
     (s\<lparr>bn_saving := False, bn_draft := None\<rparr>, [],
      [Invalidate [''admin-branding''], Toast Success ''Terminal welcome updated'' ''Applies to new admin terminal sessions.''])"
| "banner_step (BannerRefused e) s = (s\<lparr>bn_saving := False\<rparr>, [], [Toast ErrorTone ''Could not update terminal welcome'' e])"

text \<open>An empty welcome that was stored stays empty and is not replaced by the default; what is saved is what
  the preview shows.\<close>

lemma empty_banner_shown:
  assumes "bn_draft s = None" "jget (bn_data s) ''terminal_banner'' = JStr []"
  shows "banner_value s = []"
  using assms by (simp add: banner_value_def nullish_def)

lemma banner_saved_as_shown:
  assumes "banner_offered s SaveBanner"
  shows "\<exists>t. bn_draft s = Some t \<and> banner_value s = t \<and> fst (snd (banner_step SaveBanner s)) = [banner_request (JStr t)]"
  using assms by (auto simp: banner_value_def)

end
