(* ===== verification/Dev_Tools.thy ===== *)
theory Dev_Tools
  imports Server_Checks Page_Machine
begin

text \<open>
  \<open>pages/customer/DevTools.jsx\<close>: WordPress and Composer commands that run as the account's own user, and the
  job that shows what they print. What the server makes of a WordPress command (\<open>_build\<close> in
  \<open>daemon/wpcli.py\<close>) is written out, and what it takes for an install (\<open>run_wpcli\<close> with \<open>validate_domain\<close>).
\<close>

section \<open>The output of a job\<close>

definition job_live :: "json \<Rightarrow> bool" where
  "job_live j \<longleftrightarrow> jget j ''status'' = JStr ''pending'' \<or> jget j ''status'' = JStr ''running''"

definition run_poll :: "json \<Rightarrow> nat option" where
  "run_poll j = (if job_live j then Some 1500 else None)"

definition run_output :: "json \<Rightarrow> jsstring" where
  "run_output j =
     (let out = join_with [newline] (filter (\<lambda>t. t \<noteq> []) [json_text (jget j ''stdout''), json_text (jget j ''stderr'')])
      in if out \<noteq> [] then out
         else if job_live j then ''Running'' @ [ellipsis]
         else if truthy (jget j ''error'') then js_String (jget j ''error'') else ''(no output)'')"

text \<open>A job that was not read, or could not be, shows as one that has ended without output and is not read
  again.\<close>

lemma unread_job_shows_no_output: "run_output JUndef = ''(no output)'' \<and> run_poll JUndef = None"
  by code_simp

section \<open>WordPress commands\<close>

definition WP_ACTIONS :: "(jsstring \<times> jsstring list) list" where
  "WP_ACTIONS =
     [(''core_update'', []), (''core_check_update'', []), (''plugin_list'', []), (''plugin_update'', [''name_or_all'']),
      (''plugin_activate'', [''name'']), (''plugin_deactivate'', [''name'']), (''theme_list'', []), (''theme_update'', [''name_or_all'']),
      (''theme_activate'', [''name'']), (''theme_deactivate'', [''name'']), (''user_reset_password'', [''user'']), (''cache_flush'', []),
      (''search_replace'', [''search'', ''replace'']), (''maintenance_on'', []), (''maintenance_off'', [])]"

record wp_fields =
  wp_name :: jsstring
  wp_all :: bool
  wp_user :: jsstring
  wp_search :: jsstring
  wp_replace :: jsstring
  wp_preview :: bool

record wp_tab =
  wp_installs :: "json list"
  wp_install :: jsstring
  wp_action :: jsstring
  wp_values :: wp_fields
  wp_running :: bool
  wp_jobId :: json
  wp_job :: json \<comment> \<open>what was read of that job\<close>

definition initial_wp :: wp_tab where
  "initial_wp =
     \<lparr>wp_installs = [], wp_install = [], wp_action = ''plugin_list'',
      wp_values = \<lparr>wp_name = [], wp_all = False, wp_user = [], wp_search = [], wp_replace = [], wp_preview = True\<rparr>,
      wp_running = False, wp_jobId = JNull, wp_job = JUndef\<rparr>"

definition asks_for :: "wp_tab \<Rightarrow> jsstring \<Rightarrow> bool" where
  "asks_for s f \<longleftrightarrow> (case map_of WP_ACTIONS (wp_action s) of Some fs \<Rightarrow> f \<in> set fs | None \<Rightarrow> False)"

definition activeInstall :: "wp_tab \<Rightarrow> jsstring" where
  "activeInstall s =
     (if wp_install s \<noteq> [] then wp_install s
      else case wp_installs s of [] \<Rightarrow> [] | i # is \<Rightarrow> json_text (jget i ''id''))"

definition wp_body :: "wp_tab \<Rightarrow> body" where
  "wp_body s =
     (let f = wp_values s
      in [(''action'', JStr (wp_action s))] @
         (if asks_for s ''name_or_all'' then (if wp_all f then [(''all'', JBool True)] else [(''name'', JStr (wp_name f))]) else []) @
         (if asks_for s ''name'' then [(''name'', JStr (wp_name f))] else []) @
         (if asks_for s ''user'' then [(''user'', JStr (wp_user f))] else []) @
         (if asks_for s ''search''
          then [(''search'', JStr (wp_search f)), (''replace'', JStr (wp_replace f)), (''preview'', JBool (wp_preview f))] else []))"

definition wpcli_url :: "jsstring \<Rightarrow> wp_tab \<Rightarrow> jsstring" where
  "wpcli_url u s = ''/api/v1/accounts/'' @ u @ ''/wordpress/'' @ activeInstall s @ ''/wpcli''"

datatype wp_event =
    InstallsArrive "json list"
  | ChooseInstall jsstring
  | ChooseAction jsstring
  | EditName jsstring
  | SwitchAll
  | EditUser jsstring
  | EditSearch jsstring
  | EditReplace jsstring
  | SwitchPreview
  | RunCommand
  | CommandStarted json
  | CommandRefused jsstring
  | JobArrives json

fun wp_offered :: "wp_tab \<Rightarrow> wp_event \<Rightarrow> bool" where
  "wp_offered s (InstallsArrive is) = True"
| "wp_offered s (ChooseInstall i) = list_ex (\<lambda>x. jget x ''id'' = JStr i) (wp_installs s)"
| "wp_offered s (ChooseAction a) = (wp_installs s \<noteq> [] \<and> a \<in> fst ` set WP_ACTIONS)"
| "wp_offered s (EditName t) =
     (wp_installs s \<noteq> [] \<and> (asks_for s ''name_or_all'' \<and> \<not> wp_all (wp_values s) \<or> asks_for s ''name''))"
| "wp_offered s SwitchAll = (wp_installs s \<noteq> [] \<and> asks_for s ''name_or_all'')"
| "wp_offered s (EditUser t) = (wp_installs s \<noteq> [] \<and> asks_for s ''user'')"
| "wp_offered s (EditSearch t) = (wp_installs s \<noteq> [] \<and> asks_for s ''search'')"
| "wp_offered s (EditReplace t) = (wp_installs s \<noteq> [] \<and> asks_for s ''search'')"
| "wp_offered s SwitchPreview = (wp_installs s \<noteq> [] \<and> asks_for s ''search'')"
| "wp_offered s RunCommand = (wp_installs s \<noteq> [] \<and> \<not> wp_running s)"
| "wp_offered s (CommandStarted j) = wp_running s"
| "wp_offered s (CommandRefused e) = wp_running s"
| "wp_offered s (JobArrives j) = (\<not> nullish (wp_jobId s))"

definition set_values :: "(wp_fields \<Rightarrow> wp_fields) \<Rightarrow> wp_tab \<Rightarrow> wp_tab" where
  "set_values g s = s\<lparr>wp_values := g (wp_values s)\<rparr>"

text \<open>The job is read under its number, so that another number starts with nothing read.\<close>

fun wp_step :: "jsstring \<Rightarrow> (wp_event, wp_tab) page_step" where
  "wp_step u (InstallsArrive is) s = (s\<lparr>wp_installs := is\<rparr>, [], [])"
| "wp_step u (ChooseInstall i) s = (s\<lparr>wp_install := i\<rparr>, [], [])"
| "wp_step u (ChooseAction a) s = (s\<lparr>wp_action := a\<rparr>, [], [])"
| "wp_step u (EditName t) s = (set_values (\<lambda>f. f\<lparr>wp_name := t\<rparr>) s, [], [])"
| "wp_step u SwitchAll s = (set_values (\<lambda>f. f\<lparr>wp_all := \<not> wp_all f\<rparr>) s, [], [])"
| "wp_step u (EditUser t) s = (set_values (\<lambda>f. f\<lparr>wp_user := t\<rparr>) s, [], [])"
| "wp_step u (EditSearch t) s = (set_values (\<lambda>f. f\<lparr>wp_search := t\<rparr>) s, [], [])"
| "wp_step u (EditReplace t) s = (set_values (\<lambda>f. f\<lparr>wp_replace := t\<rparr>) s, [], [])"
| "wp_step u SwitchPreview s = (set_values (\<lambda>f. f\<lparr>wp_preview := \<not> wp_preview f\<rparr>) s, [], [])"
| "wp_step u RunCommand s = (s\<lparr>wp_running := True\<rparr>, [ApiPost (wpcli_url u s) (wp_body s)], [])"
| "wp_step u (CommandStarted j) s =
     (s\<lparr>wp_running := False, wp_jobId := jget j ''id'', wp_job := (if jget j ''id'' = wp_jobId s then wp_job s else JUndef)\<rparr>, [],
      [Toast Success ''WP-CLI command started'' []])"
| "wp_step u (CommandRefused e) s = (s\<lparr>wp_running := False\<rparr>, [], [Toast ErrorTone ''Could not run WP-CLI'' e])"
| "wp_step u (JobArrives j) s = (s\<lparr>wp_job := j\<rparr>, [], [])"

section \<open>What the server runs\<close>

text \<open>The arguments of the command (\<open>_build\<close>); the password the server makes up for a user is not one of them.\<close>

definition slug_ok :: "jsstring \<Rightarrow> bool" where
  "slug_ok t \<longleftrightarrow>
     t \<noteq> [] \<and> length t \<le> 128 \<and> (is_letter (hd t) \<or> is_digit (hd t)) \<and>
     list_all (\<lambda>c. is_letter c \<or> is_digit c \<or> c \<in> set ''._-'') t"

definition arg_ok :: "jsstring \<Rightarrow> bool" where
  "arg_ok t \<longleftrightarrow> t \<noteq> [] \<and> CHR 0x00 \<notin> set t \<and> length t \<le> 2000"

definition fixed_commands :: "(jsstring \<times> jsstring list) list" where
  "fixed_commands =
     [(''core_update'', [''core'', ''update'']), (''core_check_update'', [''core'', ''check-update'', ''--format=json'']),
      (''plugin_list'', [''plugin'', ''list'', ''--format=json'', ''--skip-update-check'', ''--skip-plugins'', ''--skip-themes'']),
      (''theme_list'', [''theme'', ''list'', ''--format=json'', ''--skip-update-check'', ''--skip-plugins'', ''--skip-themes'']),
      (''plugin_check_updates'', [''plugin'', ''update'', ''--all'', ''--dry-run'', ''--format=json'', ''--skip-plugins'', ''--skip-themes'']),
      (''theme_check_updates'', [''theme'', ''update'', ''--all'', ''--dry-run'', ''--format=json'', ''--skip-plugins'', ''--skip-themes'']),
      (''cache_flush'', [''cache'', ''flush'']), (''maintenance_on'', [''maintenance-mode'', ''activate'']),
      (''maintenance_off'', [''maintenance-mode'', ''deactivate''])]"

definition update_kinds :: "(jsstring \<times> jsstring) list" where
  "update_kinds = [(''plugin_update'', ''plugin''), (''theme_update'', ''theme'')]"

definition switch_commands :: "(jsstring \<times> jsstring list) list" where
  "switch_commands =
     [(''plugin_activate'', [''plugin'', ''activate'']), (''plugin_deactivate'', [''plugin'', ''deactivate'']),
      (''theme_activate'', [''theme'', ''activate'']), (''theme_deactivate'', [''theme'', ''deactivate''])]"

definition body_text :: "(jsstring \<Rightarrow> bool) \<Rightarrow> body \<Rightarrow> jsstring \<Rightarrow> jsstring option" where
  "body_text ok b k = (case map_of b k of Some (JStr t) \<Rightarrow> if ok t then Some t else None | _ \<Rightarrow> None)"

definition server_args :: "body \<Rightarrow> jsstring list option" where
  "server_args b =
     (case map_of b ''action'' of
        Some (JStr a) \<Rightarrow>
          (case map_of fixed_commands a of
             Some args \<Rightarrow> Some args
           | None \<Rightarrow>
               (case map_of update_kinds a of
                  Some k \<Rightarrow>
                    if map_of b ''all'' = Some (JBool True) then Some [k, ''update'', ''--all'']
                    else map_option (\<lambda>t. [k, ''update'', t]) (body_text slug_ok b ''name'')
                | None \<Rightarrow>
                    (case map_of switch_commands a of
                       Some args \<Rightarrow> map_option (\<lambda>t. args @ [t]) (body_text slug_ok b ''name'')
                     | None \<Rightarrow>
                         if a = ''user_reset_password''
                         then map_option (\<lambda>t. [''user'', ''update'', t, ''--prompt=user_pass'']) (body_text slug_ok b ''user'')
                         else if a = ''search_replace''
                         then (case (body_text arg_ok b ''search'', body_text arg_ok b ''replace'') of
                                 (Some x, Some y) \<Rightarrow>
                                   Some ([''search-replace'', x, y, ''--report-changed-only''] @
                                         (if map_of b ''preview'' = Some (JBool False) then [] else [''--dry-run'']))
                               | _ \<Rightarrow> None)
                         else None)))
      | _ \<Rightarrow> None)"

definition server_install :: "jsstring \<Rightarrow> bool" where
  "server_install wp_id \<longleftrightarrow> server_domain (toLowerCase (trim wp_id))"

text \<open>The values a command needs, from the form.\<close>

definition values_ok :: "wp_tab \<Rightarrow> bool" where
  "values_ok s \<longleftrightarrow>
     (let f = wp_values s
      in (asks_for s ''name_or_all'' \<longrightarrow> wp_all f \<or> slug_ok (wp_name f)) \<and> (asks_for s ''name'' \<longrightarrow> slug_ok (wp_name f)) \<and>
         (asks_for s ''user'' \<longrightarrow> slug_ok (wp_user f)) \<and> (asks_for s ''search'' \<longrightarrow> arg_ok (wp_search f) \<and> arg_ok (wp_replace f)))"

definition known_action :: "wp_tab \<Rightarrow> bool" where
  "known_action s \<longleftrightarrow> wp_action s \<in> fst ` set WP_ACTIONS"

text \<open>Every command the page offers is one the server knows, so that only the values decide.\<close>

lemmas command_tables = WP_ACTIONS_def fixed_commands_def update_kinds_def switch_commands_def

lemma known_cases:
  assumes "known_action s"
  obtains (fixed) args where "map_of fixed_commands (wp_action s) = Some args" "map_of WP_ACTIONS (wp_action s) = Some []"
    | (upd) k where "map_of fixed_commands (wp_action s) = None" "map_of update_kinds (wp_action s) = Some k"
        "map_of WP_ACTIONS (wp_action s) = Some [''name_or_all'']"
    | (switch) args where "map_of fixed_commands (wp_action s) = None" "map_of update_kinds (wp_action s) = None"
        "map_of switch_commands (wp_action s) = Some args" "map_of WP_ACTIONS (wp_action s) = Some [''name'']"
    | (user) "wp_action s = ''user_reset_password''"
    | (replace) "wp_action s = ''search_replace''"
proof -
  let ?kind = "\<lambda>a. map_of fixed_commands a \<noteq> None \<and> map_of WP_ACTIONS a = Some [] \<or>
     map_of fixed_commands a = None \<and> map_of update_kinds a \<noteq> None \<and> map_of WP_ACTIONS a = Some [''name_or_all''] \<or>
     map_of fixed_commands a = None \<and> map_of update_kinds a = None \<and> map_of switch_commands a \<noteq> None \<and> map_of WP_ACTIONS a = Some [''name''] \<or>
     a = ''user_reset_password'' \<or> a = ''search_replace''"
  have "list_all ?kind (map fst WP_ACTIONS)" by code_simp
  then have "?kind (wp_action s)" using assms by (auto simp only: known_action_def list_all_iff set_map)
  then show thesis using that by blast
qed

lemma commands_known:
  assumes "known_action s"
  shows "server_args (wp_body s) \<noteq> None \<longleftrightarrow> values_ok s"
  using assms
proof (cases rule: known_cases)
  case (fixed args)
  then show ?thesis by (simp add: server_args_def wp_body_def values_ok_def asks_for_def Let_def)
next
  case (upd k)
  then show ?thesis by (simp add: server_args_def wp_body_def values_ok_def asks_for_def body_text_def Let_def)
next
  case (switch args)
  then show ?thesis by (simp add: server_args_def wp_body_def values_ok_def asks_for_def body_text_def Let_def)
next
  case user
  then show ?thesis by (simp add: server_args_def wp_body_def values_ok_def asks_for_def command_tables body_text_def Let_def)
next
  case replace
  then show ?thesis by (simp add: server_args_def wp_body_def values_ok_def asks_for_def command_tables body_text_def Let_def)
qed

lemma search_replace_dry_run:
  assumes "wp_action s = ''search_replace''" "values_ok s"
  shows "server_args (wp_body s) =
    Some ([''search-replace'', wp_search (wp_values s), wp_replace (wp_values s), ''--report-changed-only''] @
          (if wp_preview (wp_values s) then [''--dry-run''] else []))"
  using assms
  by (simp add: server_args_def wp_body_def values_ok_def asks_for_def WP_ACTIONS_def fixed_commands_def update_kinds_def switch_commands_def
      body_text_def Let_def)

lemma all_means_all:
  assumes "wp_action s = ''plugin_update''" "wp_all (wp_values s)"
  shows "server_args (wp_body s) = Some [''plugin'', ''update'', ''--all'']"
  using assms by (simp add: server_args_def wp_body_def asks_for_def WP_ACTIONS_def fixed_commands_def update_kinds_def Let_def)

section \<open>What is sent\<close>

definition wp_inv :: "wp_tab \<Rightarrow> bool" where
  "wp_inv s \<longleftrightarrow> known_action s"

text \<open>A request names the command and exactly the values that one needs.\<close>

definition command_fields :: "jsstring \<Rightarrow> bool \<Rightarrow> jsstring list" where
  "command_fields a al =
     (case map_of WP_ACTIONS a of
        None \<Rightarrow> []
      | Some fs \<Rightarrow>
          map (\<lambda>f. if f = ''name_or_all'' then if al then ''all'' else ''name'' else f) fs @
          (if ''search'' \<in> set fs then [''preview''] else []))"

definition wp_request_ok :: "api_request \<Rightarrow> bool" where
  "wp_request_ok r \<longleftrightarrow>
     (\<exists>url b a al. r = ApiPost url b \<and> a \<in> fst ` set WP_ACTIONS \<and> map_of b ''action'' = Some (JStr a) \<and>
        map fst b = ''action'' # command_fields a al)"

lemma wp_body_fields:
  assumes "known_action s"
  shows "map fst (wp_body s) = ''action'' # command_fields (wp_action s) (wp_all (wp_values s))"
  using assms
proof (cases rule: known_cases)
  case user
  then show ?thesis by (simp add: wp_body_def command_fields_def asks_for_def WP_ACTIONS_def Let_def)
next
  case replace
  then show ?thesis by (simp add: wp_body_def command_fields_def asks_for_def WP_ACTIONS_def Let_def)
qed (simp_all add: wp_body_def command_fields_def asks_for_def Let_def)

lemma wp_body_request_ok:
  assumes "known_action s"
  shows "wp_request_ok (ApiPost url (wp_body s))"
  unfolding wp_request_ok_def
proof (intro exI conjI)
  show "ApiPost url (wp_body s) = ApiPost url (wp_body s)" by (rule refl)
  show "wp_action s \<in> fst ` set WP_ACTIONS" using assms by (simp only: known_action_def)
  show "map_of (wp_body s) ''action'' = Some (JStr (wp_action s))" by (simp add: wp_body_def Let_def)
  show "map fst (wp_body s) = ''action'' # command_fields (wp_action s) (wp_all (wp_values s))" by (rule wp_body_fields[OF assms])
qed

lemma wp_start: "wp_inv initial_wp"
  by (simp add: wp_inv_def known_action_def initial_wp_def WP_ACTIONS_def)

lemma wp_keep: "wp_inv s \<Longrightarrow> wp_offered s e \<Longrightarrow> wp_inv (fst (wp_step u e s))"
  by (cases e) (auto simp: wp_inv_def known_action_def set_values_def)

lemma wp_good: "wp_inv s \<Longrightarrow> list_all wp_request_ok (fst (snd (wp_step u e s)))"
  by (cases e) (simp_all add: wp_inv_def wp_body_request_ok)

interpretation wp: page_contract initial_wp wp_offered "wp_step u" wp_inv wp_request_ok for u
  by unfold_locales (simp_all only: wp_start wp_keep wp_good)

lemma wp_commands_complete:
  assumes "page_reach initial_wp wp_offered (wp_step u) s sent"
  shows "list_all wp_request_ok sent"
  using wp.reach_inv[OF assms] by blast

section \<open>Where the page and the server differ\<close>

text \<open>The command can be run with nothing filled in, and a replacement that deletes its text cannot be asked for.\<close>

lemma blank_command_refused:
  assumes "wp_installs s \<noteq> []" "\<not> wp_running s" "wp_action s = ''plugin_activate''" "wp_name (wp_values s) = []"
  shows "wp_offered s RunCommand \<and> server_args (wp_body s) = None"
proof -
  have "known_action s" using assms(3) by (simp add: known_action_def WP_ACTIONS_def)
  moreover have "\<not> values_ok s" using assms(3,4) by (simp add: values_ok_def asks_for_def WP_ACTIONS_def slug_ok_def)
  ultimately show ?thesis using commands_known[of s] assms(1,2) by auto
qed

lemma deleting_replacement_refused:
  assumes "wp_action s = ''search_replace''" "wp_replace (wp_values s) = []"
  shows "server_args (wp_body s) = None"
proof -
  have "known_action s" using assms(1) by (simp add: known_action_def WP_ACTIONS_def)
  moreover have "\<not> values_ok s" using assms by (simp add: values_ok_def asks_for_def WP_ACTIONS_def arg_ok_def)
  ultimately show ?thesis using commands_known[of s] by auto
qed

text \<open>An install in a subdirectory is listed as the domain, two colons and its path. The page offers it, but
  the server takes the whole for a domain and refuses it.\<close>

lemma colon_no_domain: "CHR '':'' \<in> set d \<Longrightarrow> \<not> server_domain d"
proof
  assume c: "CHR '':'' \<in> set d" and d: "server_domain d"
  have "d = join_with ''.'' (split_on (CHR ''.'') d)" by (simp add: join_split)
  moreover have "CHR '':'' \<in> set (join_with ''.'' ws) \<Longrightarrow> \<exists>w \<in> set ws. CHR '':'' \<in> set w" for ws
    by (induction "''.''" ws rule: join_with.induct) auto
  ultimately obtain w where w: "w \<in> set (split_on (CHR ''.'') d)" "CHR '':'' \<in> set w" using c by metis
  have "list_all server_label (split_on (CHR ''.'') d)" using d unfolding server_domain_def by blast
  then have "server_label w" using w(1) by (simp add: list_all_iff)
  then have "is_lower (CHR '':'') \<or> is_digit (CHR '':'')" using w(2) by (auto simp: server_label_def list_all_iff)
  moreover have "\<not> is_lower (CHR '':'')" "\<not> is_digit (CHR '':'')" by code_simp+
  ultimately show False by blast
qed

lemma lowered_colon: "CHR '':'' \<in> set t \<Longrightarrow> CHR '':'' \<in> set (toLowerCase t)"
proof -
  have "lower_char (CHR '':'') = CHR '':''" by code_simp
  then show "CHR '':'' \<in> set t \<Longrightarrow> CHR '':'' \<in> set (toLowerCase t)" unfolding toLowerCase_def by (metis image_eqI list.set_map)
qed

lemma trim_keeps: "c \<in> set t \<Longrightarrow> \<not> is_space c \<Longrightarrow> c \<in> set (trim t)"
  unfolding trim_def by (metis dropWhile_eq_Nil_conv set_rev set_takeWhileD set_append Un_iff takeWhile_dropWhile_id)

lemma subdirectory_install_refused:
  assumes "wp_installs s = [i]" "jget i ''id'' = JStr (d @ ''::'' @ p)" "wp_install s = []"
  shows "wpcli_url u s = ''/api/v1/accounts/'' @ u @ ''/wordpress/'' @ (d @ ''::'' @ p) @ ''/wpcli'' \<and> \<not> server_install (d @ ''::'' @ p)"
proof -
  have "\<not> is_space (CHR '':'')" by code_simp
  then have "CHR '':'' \<in> set (toLowerCase (trim (d @ ''::'' @ p)))" by (intro lowered_colon trim_keeps) simp_all
  then show ?thesis using assms colon_no_domain unfolding server_install_def by (simp add: wpcli_url_def activeInstall_def json_text_def)
qed

section \<open>Composer\<close>

record composer_tab =
  cp_command :: jsstring
  cp_dir :: jsstring
  cp_package :: jsstring
  cp_running :: bool
  cp_jobId :: json
  cp_job :: json

definition initial_composer :: composer_tab where
  "initial_composer = \<lparr>cp_command = ''install'', cp_dir = [], cp_package = [], cp_running = False, cp_jobId = JNull, cp_job = JUndef\<rparr>"

definition composer_commands :: "jsstring list" where
  "composer_commands = [''install'', ''update'', ''require'', ''dump-autoload'']"

definition composer_body :: "composer_tab \<Rightarrow> body" where
  "composer_body s =
     [(''command'', JStr (cp_command s)), (''app_dir'', JStr (trim (cp_dir s)))] @
     (if cp_command s = ''require'' then [(''package'', JStr (trim (cp_package s)))] else [])"

definition composer_url :: "jsstring \<Rightarrow> jsstring" where
  "composer_url u = ''/api/v1/accounts/'' @ u @ ''/composer''"

datatype composer_event =
    ChooseCommand jsstring
  | EditDir jsstring
  | EditPackage jsstring
  | RunComposer
  | ComposerStarted json
  | ComposerRefused jsstring
  | ComposerJobArrives json

fun composer_offered :: "composer_tab \<Rightarrow> composer_event \<Rightarrow> bool" where
  "composer_offered s (ChooseCommand c) = (c \<in> set composer_commands)"
| "composer_offered s (EditDir t) = True"
| "composer_offered s (EditPackage t) = (cp_command s = ''require'')"
| "composer_offered s RunComposer = (\<not> cp_running s)"
| "composer_offered s (ComposerStarted j) = cp_running s"
| "composer_offered s (ComposerRefused e) = cp_running s"
| "composer_offered s (ComposerJobArrives j) = (\<not> nullish (cp_jobId s))"

fun composer_step :: "jsstring \<Rightarrow> (composer_event, composer_tab) page_step" where
  "composer_step u (ChooseCommand c) s = (s\<lparr>cp_command := c\<rparr>, [], [])"
| "composer_step u (EditDir t) s = (s\<lparr>cp_dir := t\<rparr>, [], [])"
| "composer_step u (EditPackage t) s = (s\<lparr>cp_package := t\<rparr>, [], [])"
| "composer_step u RunComposer s = (s\<lparr>cp_running := True\<rparr>, [ApiPost (composer_url u) (composer_body s)], [])"
| "composer_step u (ComposerStarted j) s =
     (s\<lparr>cp_running := False, cp_jobId := jget j ''id'', cp_job := (if jget j ''id'' = cp_jobId s then cp_job s else JUndef)\<rparr>, [],
      [Toast Success ''Composer command started'' []])"
| "composer_step u (ComposerRefused e) s = (s\<lparr>cp_running := False\<rparr>, [], [Toast ErrorTone ''Could not run Composer'' e])"
| "composer_step u (ComposerJobArrives j) s = (s\<lparr>cp_job := j\<rparr>, [], [])"

definition composer_inv :: "composer_tab \<Rightarrow> bool" where
  "composer_inv s \<longleftrightarrow> cp_command s \<in> set composer_commands"

text \<open>The commands are the server's; a package is named exactly for the one that needs it.\<close>

definition composer_request_ok :: "jsstring \<Rightarrow> api_request \<Rightarrow> bool" where
  "composer_request_ok u r \<longleftrightarrow>
     (\<exists>c d p. c \<in> set composer_commands \<and> trim d = d \<and> trim p = p \<and>
        r = ApiPost (composer_url u)
              ([(''command'', JStr c), (''app_dir'', JStr d)] @ (if c = ''require'' then [(''package'', JStr p)] else [])))"

lemma composer_start: "composer_inv initial_composer"
  by (simp add: composer_inv_def initial_composer_def composer_commands_def)

lemma composer_keep: "composer_inv s \<Longrightarrow> composer_offered s e \<Longrightarrow> composer_inv (fst (composer_step u e s))"
  by (cases e) (auto simp: composer_inv_def)

lemma composer_body_ok:
  assumes "composer_inv s"
  shows "composer_request_ok u (ApiPost (composer_url u) (composer_body s))"
  unfolding composer_request_ok_def
proof (intro exI conjI)
  show "cp_command s \<in> set composer_commands" using assms by (simp only: composer_inv_def)
  show "trim (trim (cp_dir s)) = trim (cp_dir s)" "trim (trim (cp_package s)) = trim (cp_package s)" by simp_all
  show "ApiPost (composer_url u) (composer_body s) = ApiPost (composer_url u)
      ([(''command'', JStr (cp_command s)), (''app_dir'', JStr (trim (cp_dir s)))] @
       (if cp_command s = ''require'' then [(''package'', JStr (trim (cp_package s)))] else []))" by (simp only: composer_body_def)
qed

lemma composer_good: "composer_inv s \<Longrightarrow> list_all (composer_request_ok u) (fst (snd (composer_step u e s)))"
  by (cases e) (simp_all add: composer_body_ok)

interpretation composer: page_contract initial_composer composer_offered "composer_step u" composer_inv "composer_request_ok u" for u
  by unfold_locales (simp_all only: composer_start composer_keep composer_good)

lemma composer_requests_valid:
  assumes "page_reach initial_composer composer_offered (composer_step u) s sent"
  shows "list_all (composer_request_ok u) sent"
  using composer.reach_inv[OF assms] by blast

end
