(* ===== verification/Dns_Cluster.thy ===== *)
theory Dns_Cluster
  imports Cron_Page Page_Machine
begin

text \<open>
  \<open>pages/admin/DnsCluster.jsx\<close>: the name servers zones are copied to. Removing a peer and switching it on or
  off are questions; the tests of peers run beside them, of which the last started is the one observed. What
  the server asks of a new peer (\<open>_validate_peer\<close> in \<open>daemon/dnscluster.py\<close>) is written out, its checks of
  the address and of a zone's name being the parameters \<open>clean_endpoint\<close> and \<open>valid_zone\<close>.
\<close>

section \<open>The form\<close>

record peer_form =
  pf_name :: jsstring
  pf_type :: jsstring
  pf_endpoint :: jsstring
  pf_username :: jsstring
  pf_credential :: jsstring
  pf_verify :: bool
  pf_direction :: jsstring
  pf_zones :: jsstring

definition EMPTY :: peer_form where
  "EMPTY =
     \<lparr>pf_name = [], pf_type = ''directadmin'', pf_endpoint = [], pf_username = ''admin'', pf_credential = [], pf_verify = True,
      pf_direction = ''push'', pf_zones = []\<rparr>"

definition peer_types :: "jsstring list" where
  "peer_types = [''directadmin'', ''cpanel'', ''boron'']"

definition directions :: "jsstring list" where
  "directions = [''push'', ''receive'', ''bidirectional'']"

definition zone_break :: "char \<Rightarrow> bool" where
  "zone_break c \<longleftrightarrow> is_space c \<or> c = CHR '',''"

definition zone_words :: "jsstring \<Rightarrow> jsstring list" where
  "zone_words t = filter (\<lambda>w. w \<noteq> []) (map trim (split_where zone_break t))"

definition peer_body :: "peer_form \<Rightarrow> body" where
  "peer_body f =
     [(''name'', JStr (pf_name f)), (''peer_type'', JStr (pf_type f)), (''endpoint'', JStr (pf_endpoint f)),
      (''username'', JStr (pf_username f)), (''credential'', if pf_credential f = [] then JNull else JStr (pf_credential f)),
      (''verify_tls'', JBool (pf_verify f)), (''direction'', JStr (pf_direction f)),
      (''zones'', JArr (map JStr (zone_words (pf_zones f))))]"

definition choose_type :: "jsstring \<Rightarrow> peer_form \<Rightarrow> peer_form" where
  "choose_type t f =
     f\<lparr>pf_type := t, pf_direction := (if t = ''boron'' then pf_direction f else ''push''),
       pf_username := (if t = ''boron'' then [] else if t = ''cpanel'' then ''root'' else ''admin'')\<rparr>"

datatype peer_field = PeerName | PeerEndpoint | PeerUsername | PeerCredential | PeerZones

fun put_peer :: "peer_field \<Rightarrow> jsstring \<Rightarrow> peer_form \<Rightarrow> peer_form" where
  "put_peer PeerName t f = f\<lparr>pf_name := t\<rparr>"
| "put_peer PeerEndpoint t f = f\<lparr>pf_endpoint := t\<rparr>"
| "put_peer PeerUsername t f = f\<lparr>pf_username := t\<rparr>"
| "put_peer PeerCredential t f = f\<lparr>pf_credential := t\<rparr>"
| "put_peer PeerZones t f = f\<lparr>pf_zones := t\<rparr>"

text \<open>What the browser asks of the fields that are shown.\<close>

definition peer_submits :: "(jsstring \<Rightarrow> bool) \<Rightarrow> peer_form \<Rightarrow> bool" where
  "peer_submits valid_url f \<longleftrightarrow>
     pf_name f \<noteq> [] \<and> pf_endpoint f \<noteq> [] \<and> valid_url (pf_endpoint f) \<and>
     (pf_type f \<noteq> ''boron'' \<longrightarrow> pf_username f \<noteq> [] \<and> pf_credential f \<noteq> []) \<and>
     (pf_direction f \<noteq> ''push'' \<longrightarrow> pf_zones f \<noteq> [])"

definition typeHelp :: "peer_form \<Rightarrow> jsstring" where
  "typeHelp f =
     (if pf_type f = ''directadmin''
      then ''Use a restricted DirectAdmin login key with CMD_API_DNS_ADMIN and CMD_API_LOGIN_TEST access.''
      else if pf_type f = ''cpanel'' then ''Use a restricted WHM API token with DNS zone management permissions.''
      else ''Leave the key empty to generate a shared Boron cluster key, then configure that same key on the other node.'')"

section \<open>The page\<close>

record cluster_page =
  dc_data :: json
  dc_open :: bool
  dc_form :: peer_form
  dc_creating :: bool
  dc_toggle :: "json option"
  dc_toggling :: bool
  dc_remove :: "json option"
  dc_removing :: bool
  dc_generated :: "jsstring option"
  dc_tests :: "(nat \<times> json) list" \<comment> \<open>the tests under way, with the peer of each\<close>
  dc_tested :: nat
  dc_syncing :: bool

definition initial_cluster :: cluster_page where
  "initial_cluster =
     \<lparr>dc_data = JUndef, dc_open = False, dc_form = EMPTY, dc_creating = False, dc_toggle = None, dc_toggling = False, dc_remove = None,
      dc_removing = False, dc_generated = None, dc_tests = [], dc_tested = 0, dc_syncing = False\<rparr>"

definition peers :: "cluster_page \<Rightarrow> json list" where
  "peers s = json_list (jget (dc_data s) ''peers'')"

definition delivery_jobs :: "cluster_page \<Rightarrow> json list" where
  "delivery_jobs s = json_list (jget (dc_data s) ''jobs'')"

definition peer_status :: "json \<Rightarrow> json" where
  "peer_status r = (if \<not> truthy (jget r ''enabled'') then JStr ''disabled'' else jget r ''status'')"

definition peers_url :: jsstring where
  "peers_url = ''/api/v1/admin/dns-cluster/peers''"

definition peer_url :: "json \<Rightarrow> jsstring" where
  "peer_url r = peers_url @ ''/'' @ js_String (jget r ''id'')"

definition toggle_request :: "json \<Rightarrow> api_request" where
  "toggle_request r = ApiPatch (peer_url r) [(''enabled'', JBool (\<not> truthy (jget r ''enabled'')))]"

definition toggle_title :: "json \<Rightarrow> jsstring" where
  "toggle_title r = (if truthy (jget r ''enabled'') then ''Disable'' else ''Enable'') @ '' DNS peer?''"

definition test_loading :: "cluster_page \<Rightarrow> json \<Rightarrow> bool" where
  "test_loading s r \<longleftrightarrow>
     (case List.find (\<lambda>(i, x). Suc i = dc_tested s) (dc_tests s) of
        Some (i, x) \<Rightarrow> jget x ''id'' = jget r ''id''
      | None \<Rightarrow> False)"

definition no_cluster_dialog :: "cluster_page \<Rightarrow> bool" where
  "no_cluster_dialog s \<longleftrightarrow> \<not> dc_open s \<and> dc_toggle s = None \<and> dc_remove s = None \<and> dc_generated s = None"

datatype cluster_event =
    ClusterArrives json
  | OpenPeer
  | ClosePeer
  | EditPeer peer_field jsstring
  | SwitchVerify
  | ChooseType jsstring
  | ChooseDirection jsstring
  | CreatePeer
  | PeerCreated json
  | PeerRefused jsstring
  | KeySaved
  | TestPeer json
  | TestSettles nat "jsstring option"
  | AskToggle json
  | WithdrawToggle
  | ConfirmToggle
  | Toggled
  | ToggleFails jsstring
  | AskRemovePeer json
  | WithdrawRemovePeer
  | ConfirmRemovePeer
  | PeerRemoved
  | RemovePeerFails jsstring
  | SyncAll
  | SyncQueued json
  | SyncFails jsstring

fun cluster_offered :: "(jsstring \<Rightarrow> bool) \<Rightarrow> cluster_page \<Rightarrow> cluster_event \<Rightarrow> bool" where
  "cluster_offered V s (ClusterArrives d) = True"
| "cluster_offered V s OpenPeer = no_cluster_dialog s"
| "cluster_offered V s ClosePeer = dc_open s"
| "cluster_offered V s (EditPeer k t) = (dc_open s \<and> (k = PeerUsername \<longrightarrow> pf_type (dc_form s) \<noteq> ''boron''))"
| "cluster_offered V s SwitchVerify = dc_open s"
| "cluster_offered V s (ChooseType t) = (dc_open s \<and> t \<in> set peer_types)"
| "cluster_offered V s (ChooseDirection t) = (dc_open s \<and> pf_type (dc_form s) = ''boron'' \<and> t \<in> set directions)"
| "cluster_offered V s CreatePeer = (dc_open s \<and> \<not> dc_creating s \<and> peer_submits V (dc_form s))"
| "cluster_offered V s (PeerCreated r) = dc_creating s"
| "cluster_offered V s (PeerRefused e) = dc_creating s"
| "cluster_offered V s KeySaved = (dc_generated s \<noteq> None)"
| "cluster_offered V s (TestPeer r) = (no_cluster_dialog s \<and> r \<in> set (peers s) \<and> \<not> test_loading s r)"
| "cluster_offered V s (TestSettles i f) = (i \<in> fst ` set (dc_tests s))"
| "cluster_offered V s (AskToggle r) = (no_cluster_dialog s \<and> r \<in> set (peers s) \<and> \<not> dc_toggling s)"
| "cluster_offered V s WithdrawToggle = (dc_toggle s \<noteq> None \<and> \<not> dc_toggling s)"
| "cluster_offered V s ConfirmToggle = (dc_toggle s \<noteq> None \<and> \<not> dc_toggling s)"
| "cluster_offered V s Toggled = dc_toggling s"
| "cluster_offered V s (ToggleFails e) = dc_toggling s"
| "cluster_offered V s (AskRemovePeer r) = (no_cluster_dialog s \<and> r \<in> set (peers s))"
| "cluster_offered V s WithdrawRemovePeer = (dc_remove s \<noteq> None \<and> \<not> dc_removing s)"
| "cluster_offered V s ConfirmRemovePeer = (dc_remove s \<noteq> None \<and> \<not> dc_removing s)"
| "cluster_offered V s PeerRemoved = dc_removing s"
| "cluster_offered V s (RemovePeerFails e) = dc_removing s"
| "cluster_offered V s SyncAll = (no_cluster_dialog s \<and> \<not> dc_syncing s \<and> peers s \<noteq> [])"
| "cluster_offered V s (SyncQueued r) = dc_syncing s"
| "cluster_offered V s (SyncFails e) = dc_syncing s"

definition cluster_key :: page_effect where
  "cluster_key = Invalidate [''dns-cluster'']"

definition sync_text :: "json \<Rightarrow> jsstring" where
  "sync_text r = js_String (jget r ''zones'') @ '' zones '' @ [CHR 0xB7] @ '' '' @ js_String (jget r ''queued'') @ '' deliveries''"

fun cluster_step :: "(cluster_event, cluster_page) page_step" where
  "cluster_step (ClusterArrives d) s = (s\<lparr>dc_data := d\<rparr>, [], [])"
| "cluster_step OpenPeer s = (s\<lparr>dc_open := True\<rparr>, [], [])"
| "cluster_step ClosePeer s = (s\<lparr>dc_open := False\<rparr>, [], [])"
| "cluster_step (EditPeer k t) s = (s\<lparr>dc_form := put_peer k t (dc_form s)\<rparr>, [], [])"
| "cluster_step SwitchVerify s = (s\<lparr>dc_form := (dc_form s)\<lparr>pf_verify := \<not> pf_verify (dc_form s)\<rparr>\<rparr>, [], [])"
| "cluster_step (ChooseType t) s = (s\<lparr>dc_form := choose_type t (dc_form s)\<rparr>, [], [])"
| "cluster_step (ChooseDirection t) s = (s\<lparr>dc_form := (dc_form s)\<lparr>pf_direction := t\<rparr>\<rparr>, [], [])"
| "cluster_step CreatePeer s = (s\<lparr>dc_creating := True\<rparr>, [ApiPost peers_url (peer_body (dc_form s))], [])"
| "cluster_step (PeerCreated r) s =
     (s\<lparr>dc_creating := False, dc_open := False, dc_form := EMPTY,
        dc_generated := (if truthy (jget r ''generated_credential'') then Some (js_String (jget r ''generated_credential'')) else dc_generated s)\<rparr>,
      [], [cluster_key, Toast Success ''DNS peer added'' []])"
| "cluster_step (PeerRefused e) s = (s\<lparr>dc_creating := False\<rparr>, [], [Toast ErrorTone ''Could not add DNS peer'' e])"
| "cluster_step KeySaved s = (s\<lparr>dc_generated := None\<rparr>, [], [])"
| "cluster_step (TestPeer r) s =
     (s\<lparr>dc_tests := (dc_tested s, r) # dc_tests s, dc_tested := Suc (dc_tested s)\<rparr>, [ApiPost (peer_url r @ ''/test'') []], [])"
| "cluster_step (TestSettles i f) s =
     (s\<lparr>dc_tests := filter (\<lambda>p. fst p \<noteq> i) (dc_tests s)\<rparr>, [],
      [case f of None \<Rightarrow> Toast Success ''Peer connection verified'' [] | Some e \<Rightarrow> Toast ErrorTone ''Peer test failed'' e, cluster_key])"
| "cluster_step (AskToggle r) s = (s\<lparr>dc_toggle := Some r\<rparr>, [], [])"
| "cluster_step WithdrawToggle s = (s\<lparr>dc_toggle := None\<rparr>, [], [])"
| "cluster_step ConfirmToggle s = (s\<lparr>dc_toggling := True\<rparr>, (case dc_toggle s of None \<Rightarrow> [] | Some r \<Rightarrow> [toggle_request r]), [])"
| "cluster_step Toggled s = (s\<lparr>dc_toggling := False, dc_toggle := None\<rparr>, [], [Toast Success ''Peer updated'' [], cluster_key])"
| "cluster_step (ToggleFails e) s = (s\<lparr>dc_toggling := False\<rparr>, [], [Toast ErrorTone ''Could not update peer'' e])"
| "cluster_step (AskRemovePeer r) s = (s\<lparr>dc_remove := Some r\<rparr>, [], [])"
| "cluster_step WithdrawRemovePeer s = (s\<lparr>dc_remove := None\<rparr>, [], [])"
| "cluster_step ConfirmRemovePeer s =
     (s\<lparr>dc_removing := True\<rparr>, (case dc_remove s of None \<Rightarrow> [] | Some r \<Rightarrow> [ApiDelete (peer_url r)]), [])"
| "cluster_step PeerRemoved s = (s\<lparr>dc_removing := False, dc_remove := None\<rparr>, [], [cluster_key, Toast Success ''DNS peer removed'' []])"
| "cluster_step (RemovePeerFails e) s = (s\<lparr>dc_removing := False\<rparr>, [], [Toast ErrorTone ''Could not remove peer'' e])"
| "cluster_step SyncAll s = (s\<lparr>dc_syncing := True\<rparr>, [ApiPost ''/api/v1/admin/dns-cluster/sync-all'' []], [])"
| "cluster_step (SyncQueued r) s = (s\<lparr>dc_syncing := False\<rparr>, [], [cluster_key, Toast Success ''Full DNS sync queued'' (sync_text r)])"
| "cluster_step (SyncFails e) s = (s\<lparr>dc_syncing := False\<rparr>, [], [Toast ErrorTone ''Could not queue DNS sync'' e])"

section \<open>What is sent\<close>

definition form_inv :: "peer_form \<Rightarrow> bool" where
  "form_inv f \<longleftrightarrow>
     pf_type f \<in> set peer_types \<and> pf_direction f \<in> set directions \<and> (pf_type f \<noteq> ''boron'' \<longrightarrow> pf_direction f = ''push'')"

definition cluster_inv :: "cluster_page \<Rightarrow> bool" where
  "cluster_inv s \<longleftrightarrow>
     form_inv (dc_form s) \<and> (dc_toggling s \<longrightarrow> dc_toggle s \<noteq> None) \<and> (dc_removing s \<longrightarrow> dc_remove s \<noteq> None) \<and>
     (dc_toggle s = None \<or> dc_remove s = None)"

text \<open>A new peer has a type and a direction the server knows, receives only if it is another panel, and lists zones
  without white space; switching and removing are about one peer.\<close>

definition cluster_request_ok :: "api_request \<Rightarrow> bool" where
  "cluster_request_ok r \<longleftrightarrow>
     (\<exists>f. form_inv f \<and> r = ApiPost peers_url (peer_body f)) \<or>
     (\<exists>p. r = ApiPost (peer_url p @ ''/test'') [] \<or> r = toggle_request p \<or> r = ApiDelete (peer_url p)) \<or>
     r = ApiPost ''/api/v1/admin/dns-cluster/sync-all'' []"

definition peer_target :: "api_request \<Rightarrow> api_request list" where
  "peer_target r = (case r of ApiDelete url \<Rightarrow> [r] | ApiPatch url b \<Rightarrow> [r] | _ \<Rightarrow> [])"

definition asked :: "bool \<Rightarrow> 't \<Rightarrow> 't question" where
  "asked waiting t = (if waiting then Carrying t else Asking t)"

definition cluster_question :: "cluster_page \<Rightarrow> api_request question" where
  "cluster_question s =
     (case dc_toggle s of
        Some r \<Rightarrow> asked (dc_toggling s) (toggle_request r)
      | None \<Rightarrow> (case dc_remove s of Some r \<Rightarrow> asked (dc_removing s) (ApiDelete (peer_url r)) | None \<Rightarrow> NoQuestion))"

lemma EMPTY_inv: "form_inv EMPTY"
  by (simp add: form_inv_def EMPTY_def peer_types_def directions_def)

lemma choose_type_inv: "form_inv f \<Longrightarrow> t \<in> set peer_types \<Longrightarrow> form_inv (choose_type t f)"
  by (simp add: form_inv_def choose_type_def directions_def)

lemma put_peer_inv: "form_inv f \<Longrightarrow> form_inv (put_peer k t f)"
  by (cases k) (simp_all add: form_inv_def)

lemma cluster_start: "cluster_inv initial_cluster" "cluster_question initial_cluster = NoQuestion"
  by (simp_all add: cluster_inv_def initial_cluster_def cluster_question_def EMPTY_inv)

lemma cluster_keep: "cluster_inv s \<Longrightarrow> cluster_offered V s e \<Longrightarrow> cluster_inv (fst (cluster_step e s))"
proof (cases e)
  case (ChooseType t)
  then show "cluster_inv s \<Longrightarrow> cluster_offered V s e \<Longrightarrow> ?thesis" by (simp add: cluster_inv_def choose_type_inv)
next
  case (EditPeer k t)
  then show "cluster_inv s \<Longrightarrow> cluster_offered V s e \<Longrightarrow> ?thesis" by (simp add: cluster_inv_def put_peer_inv)
next
  case (PeerCreated r)
  then show "cluster_inv s \<Longrightarrow> cluster_offered V s e \<Longrightarrow> ?thesis" by (simp add: cluster_inv_def EMPTY_inv)
qed (auto simp: cluster_inv_def form_inv_def no_cluster_dialog_def)

lemma cluster_good: "cluster_inv s \<Longrightarrow> list_all cluster_request_ok (fst (snd (cluster_step e s)))"
  by (cases e) (auto simp: cluster_request_ok_def cluster_inv_def split: option.split)

lemma cluster_idle:
  assumes "dc_toggle s' = dc_toggle s" "dc_remove s' = dc_remove s" "dc_toggling s' = dc_toggling s" "dc_removing s' = dc_removing s"
  shows "question_step (cluster_question s) [] (cluster_question s')"
proof -
  have "cluster_question s' = cluster_question s" unfolding cluster_question_def assms by (rule refl)
  then show ?thesis by (simp add: question_step.idle)
qed

lemma cluster_simulates:
  assumes "cluster_inv s" "cluster_offered V s e"
  shows "question_step (cluster_question s) (concat (map peer_target (fst (snd (cluster_step e s))))) (cluster_question (fst (cluster_step e s)))"
proof -
  note q = cluster_question_def asked_def peer_target_def cluster_inv_def no_cluster_dialog_def toggle_request_def
  show ?thesis
  proof (cases e)
    case ConfirmToggle
    then show ?thesis using assms by (auto simp: q intro: question_step.intros)
  next
    case ConfirmRemovePeer
    then show ?thesis using assms by (auto simp: q intro: question_step.intros)
  next
    case (ToggleFails x)
    then show ?thesis using assms by (auto simp: q intro: question_step.intros)
  next
    case (RemovePeerFails x)
    then show ?thesis using assms by (auto simp: q intro: question_step.intros)
  next
    case Toggled
    then show ?thesis using assms by (auto simp: q intro: question_step.intros)
  next
    case PeerRemoved
    then show ?thesis using assms by (auto simp: q intro: question_step.intros)
  next
    case (AskToggle r)
    then show ?thesis using assms by (auto simp: q intro: question_step.intros)
  next
    case (AskRemovePeer r)
    then show ?thesis using assms by (auto simp: q intro: question_step.intros)
  next
    case WithdrawToggle
    then show ?thesis using assms by (auto simp: q intro: question_step.intros)
  next
    case WithdrawRemovePeer
    then show ?thesis using assms by (auto simp: q intro: question_step.intros)
  qed (simp_all add: peer_target_def cluster_idle)
qed

interpretation cluster: page_contract initial_cluster "cluster_offered V" cluster_step cluster_inv cluster_request_ok for V
  by unfold_locales (simp_all only: cluster_start cluster_keep cluster_good)

interpretation cluster_decisions: page_refinement initial_cluster "cluster_offered V" cluster_step cluster_inv cluster_question peer_target
    NoQuestion question_step
  for V
  by unfold_locales (simp_all only: cluster_start cluster_keep cluster_simulates)

text \<open>Peers are only switched and removed by the answer to the question about exactly that, and the switch does
  what the question said.\<close>

lemma peer_changes_confirmed:
  assumes "page_reach initial_cluster (cluster_offered V) cluster_step s sent"
  shows "list_all cluster_request_ok sent \<and> question_run (concat (map peer_target sent)) (cluster_question s)"
  using cluster.reach_inv[OF assms] cluster_decisions.refines[OF assms] by blast

lemma switch_as_asked:
  "toggle_title r = ''Disable DNS peer?'' \<longleftrightarrow> toggle_request r = ApiPatch (peer_url r) [(''enabled'', JBool False)]"
  by (simp add: toggle_title_def toggle_request_def)

section \<open>What the server makes of a new peer\<close>

definition server_peer ::
    "(jsstring \<Rightarrow> jsstring \<Rightarrow> jsstring option) \<Rightarrow> (jsstring \<Rightarrow> bool) \<Rightarrow> body \<Rightarrow> bool" where
  "server_peer clean_endpoint valid_zone b \<longleftrightarrow>
     (case (map_of b ''peer_type'', map_of b ''name'', map_of b ''endpoint'', map_of b ''username'', map_of b ''credential'',
            map_of b ''direction'', map_of b ''zones'') of
        (Some (JStr t), Some (JStr n), Some (JStr e), Some (JStr u), Some c, Some (JStr d), Some (JArr zs)) \<Rightarrow>
          t \<in> set peer_types \<and> trim n \<noteq> [] \<and> length (trim n) \<le> 100 \<and> clean_endpoint e t \<noteq> None \<and>
          (t \<noteq> ''boron'' \<longrightarrow> trim u \<noteq> []) \<and>
          (case c of JStr k \<Rightarrow> k \<noteq> [] \<and> length k \<le> 4096 | JNull \<Rightarrow> t = ''boron'' | _ \<Rightarrow> False) \<and>
          d \<in> set directions \<and> (t \<noteq> ''boron'' \<longrightarrow> d = ''push'') \<and> length zs \<le> 10000 \<and>
          list_all (\<lambda>z. case z of JStr x \<Rightarrow> valid_zone x | _ \<Rightarrow> False) zs \<and> (d \<noteq> ''push'' \<longrightarrow> zs \<noteq> [])
      | _ \<Rightarrow> False)"

text \<open>What the page submits is refused only for what the texts are: a blank or long name, an address that is no
  server's, a blank user name, a long key, names that are no zones, or no zone where one is needed.\<close>

lemma submitted_peer_admitted:
  assumes "form_inv f" "peer_submits V f"
  shows "server_peer clean_endpoint valid_zone (peer_body f) \<longleftrightarrow>
    trim (pf_name f) \<noteq> [] \<and> length (trim (pf_name f)) \<le> 100 \<and> clean_endpoint (pf_endpoint f) (pf_type f) \<noteq> None \<and>
    (pf_type f \<noteq> ''boron'' \<longrightarrow> trim (pf_username f) \<noteq> []) \<and> length (pf_credential f) \<le> 4096 \<and>
    length (zone_words (pf_zones f)) \<le> 10000 \<and> list_all valid_zone (zone_words (pf_zones f)) \<and>
    (pf_direction f \<noteq> ''push'' \<longrightarrow> zone_words (pf_zones f) \<noteq> [])"
proof -
  have z: "list_all (\<lambda>z. case z of JStr x \<Rightarrow> valid_zone x | _ \<Rightarrow> False) (map JStr ws) = list_all valid_zone ws" for ws
    by (induction ws) simp_all
  show ?thesis using assms by (auto simp: server_peer_def peer_body_def form_inv_def peer_submits_def z)
qed

text \<open>The field of the zones is only required not to be empty: separators alone pass, and are refused.\<close>

lemma separators_refused:
  assumes "pf_direction f = ''receive''" "pf_zones f = '', ,''"
  shows "\<not> server_peer clean_endpoint valid_zone (peer_body f)"
proof -
  have "zone_words '', ,'' = []" by code_simp
  then show ?thesis using assms by (simp add: server_peer_def peer_body_def split: json.split option.split)
qed

text \<open>The key the server makes up is shown until it is said to be saved, whatever arrives meanwhile.\<close>

lemma generated_key_stays:
  assumes "dc_generated s = Some k" "cluster_offered V s e" "e \<noteq> KeySaved" "\<And>r. e \<noteq> PeerCreated r"
  shows "dc_generated (fst (cluster_step e s)) = Some k"
  using assms by (cases e) auto

text \<open>Leaving the dialog keeps the key that was typed for the next time; adding a peer forgets what was typed
  since.\<close>

lemma left_key_kept:
  "pf_credential (dc_form (fst (cluster_step OpenPeer (fst (cluster_step ClosePeer s))))) = pf_credential (dc_form s)"
  by simp

lemma late_peer_drops_form:
  assumes "dc_creating s" "dc_open s"
  shows "cluster_offered V (fst (cluster_step ClosePeer s)) (PeerCreated r) \<and> dc_form (fst (cluster_step (PeerCreated r) s)) = EMPTY"
  using assms by simp

end
