(* ===== verification/Da_Migration.thy ===== *)
theory Da_Migration
  imports Server_Checks Page_Machine
begin

text \<open>
  \<open>pages/admin/DirectAdminMigration.jsx\<close>: the accounts of another server are listed with the credentials
  typed in, some are chosen and given names, and one request after another queues them. Each request is
  awaited before the next is sent, so the run is a machine of its own inside the page. Account names
  are no numerals, so that the chosen ones keep the order they were chosen in.
\<close>

section \<open>The page\<close>

record connection =
  cn_mode :: jsstring
  cn_host :: jsstring
  cn_port :: json
  cn_login :: jsstring
  cn_password :: jsstring
  cn_host_key :: jsstring

definition initial_connection :: connection where
  "initial_connection =
     \<lparr>cn_mode = ''admin'', cn_host = [], cn_port = JNum 2222, cn_login = ''admin'', cn_password = [], cn_host_key = []\<rparr>"

definition connection_json :: "connection \<Rightarrow> json" where
  "connection_json c = JObj
     [(''mode'', JStr (cn_mode c)), (''host'', JStr (cn_host c)), (''port'', cn_port c), (''login'', JStr (cn_login c)),
      (''password'', JStr (cn_password c)), (''host_key'', JStr (cn_host_key c))]"

type_synonym selection = "(jsstring \<times> jsstring) list" \<comment> \<open>source account and new name\<close>

record da_run =
  dr_remote :: connection
  dr_compat :: jsstring
  dr_analyze :: bool
  dr_current :: "jsstring \<times> jsstring"
  dr_rest :: selection
  dr_jobs :: "json list"
  dr_errors :: "jsstring list"

record da_page =
  da_connection :: connection
  da_preview :: "json option"
  da_selected :: selection
  da_compat :: jsstring
  da_analyze :: bool
  da_queued :: "json list"
  da_failures :: "jsstring list"
  da_inspecting :: bool
  da_run :: "da_run option"
  da_handed :: "json option" \<comment> \<open>the job the page around was given to show\<close>

definition initial_da :: da_page where
  "initial_da =
     \<lparr>da_connection = initial_connection, da_preview = None, da_selected = [], da_compat = ''strict'', da_analyze = False, da_queued = [],
      da_failures = [], da_inspecting = False, da_run = None, da_handed = None\<rparr>"

definition da_busy :: "da_page \<Rightarrow> bool" where
  "da_busy s \<longleftrightarrow> da_inspecting s \<or> da_run s \<noteq> None"

definition new_name_ok :: "jsstring \<Rightarrow> bool" where
  "new_name_ok n \<longleftrightarrow> 1 \<le> length n \<and> length n \<le> 16 \<and> is_lower (hd n) \<and> list_all (\<lambda>c. is_lower c \<or> is_digit c) (tl n)"

definition chosen_valid :: "selection \<Rightarrow> bool" where
  "chosen_valid sel \<longleftrightarrow> sel \<noteq> [] \<and> distinct (map snd sel) \<and> list_all new_name_ok (map snd sel)"

definition accounts_of :: "json \<Rightarrow> json list" where
  "accounts_of p = json_list (jget p ''accounts'')"

definition account_name :: "json \<Rightarrow> jsstring" where
  "account_name r = js_String (jget r ''username'')"

definition select_row :: "json \<Rightarrow> bool \<Rightarrow> selection \<Rightarrow> selection" where
  "select_row r chosen sel =
     (if chosen then AList.update (account_name r) (if truthy (jget r ''available'') then account_name r else []) sel
      else AList.delete (account_name r) sel)"

definition available_selection :: "json \<Rightarrow> selection" where
  "available_selection p =
     fold (\<lambda>r sel. AList.update (account_name r) (account_name r) sel) (filter (\<lambda>r. truthy (jget r ''available'')) (accounts_of p)) []"

definition inspect_url :: jsstring where
  "inspect_url = ''/api/v1/admin/import/accounts/directadmin/inspect''"

definition migrate_url :: jsstring where
  "migrate_url = ''/api/v1/admin/import/accounts/directadmin/migrate''"

definition migrate_request :: "connection \<Rightarrow> jsstring \<Rightarrow> bool \<Rightarrow> jsstring \<times> jsstring \<Rightarrow> api_request" where
  "migrate_request c mode analyze x =
     ApiPost migrate_url
       [(''remote'', connection_json c), (''remote_user'', JStr (fst x)), (''username'', JStr (snd x)),
        (''db_compatibility'', JStr mode), (''preflight_only'', JBool analyze)]"

definition inspect_request :: "connection \<Rightarrow> api_request" where
  "inspect_request c = ApiPost inspect_url (json_fields (connection_json c))"

text \<open>What the browser asks of the fields that are shown. \<open>valid_port\<close> judges the number.\<close>

definition connection_submits :: "(json \<Rightarrow> bool) \<Rightarrow> connection \<Rightarrow> bool" where
  "connection_submits valid_port c \<longleftrightarrow>
     cn_host c \<noteq> [] \<and> valid_port (cn_port c) \<and> cn_password c \<noteq> [] \<and>
     (cn_mode c = ''admin'' \<longrightarrow> cn_login c \<noteq> []) \<and> (cn_mode c = ''root'' \<longrightarrow> cn_host_key c \<noteq> [])"

datatype conn_field = Host | Port json | Login | Password | HostKey

fun put_conn :: "conn_field \<Rightarrow> jsstring \<Rightarrow> connection \<Rightarrow> connection" where
  "put_conn Host t c = c\<lparr>cn_host := t\<rparr>"
| "put_conn (Port n) t c = c\<lparr>cn_port := n\<rparr>"
| "put_conn Login t c = c\<lparr>cn_login := t\<rparr>"
| "put_conn Password t c = c\<lparr>cn_password := t\<rparr>"
| "put_conn HostKey t c = c\<lparr>cn_host_key := t\<rparr>"

datatype da_event =
    ChooseMode jsstring
  | EditConn conn_field jsstring
  | Connect
  | AccountsListed json
  | ListFails jsstring
  | SelectRow json bool
  | RenameRow jsstring jsstring
  | SelectAvailable
  | ClearSelection
  | ChooseCompat jsstring
  | SwitchAnalyze
  | Migrate
  | Submitted json
  | SubmitFails jsstring

fun da_offered :: "(json \<Rightarrow> bool) \<Rightarrow> da_page \<Rightarrow> da_event \<Rightarrow> bool" where
  "da_offered P s (ChooseMode m) = (\<not> da_busy s \<and> m \<in> set [''admin'', ''root''])"
| "da_offered P s (EditConn k t) =
     (\<not> da_busy s \<and> (k = Login \<longrightarrow> cn_mode (da_connection s) = ''admin'') \<and> (k = HostKey \<longrightarrow> cn_mode (da_connection s) = ''root''))"
| "da_offered P s Connect = (\<not> da_busy s \<and> connection_submits P (da_connection s))"
| "da_offered P s (AccountsListed p) = da_inspecting s"
| "da_offered P s (ListFails e) = da_inspecting s"
| "da_offered P s (SelectRow r b) =
     (\<not> da_busy s \<and> (case da_preview s of None \<Rightarrow> False | Some p \<Rightarrow> r \<in> set (accounts_of p)) \<and>
      b = (account_name r \<notin> fst ` set (da_selected s)))"
| "da_offered P s (RenameRow a n) = (\<not> da_busy s \<and> da_preview s \<noteq> None \<and> a \<in> fst ` set (da_selected s))"
| "da_offered P s SelectAvailable = (\<not> da_busy s \<and> da_preview s \<noteq> None)"
| "da_offered P s ClearSelection = (\<not> da_busy s \<and> da_preview s \<noteq> None)"
| "da_offered P s (ChooseCompat c) = (\<not> da_busy s \<and> da_preview s \<noteq> None \<and> c \<in> set [''strict'', ''adapt''])"
| "da_offered P s SwitchAnalyze = (\<not> da_busy s \<and> da_preview s \<noteq> None)"
| "da_offered P s Migrate = (\<not> da_busy s \<and> da_preview s \<noteq> None \<and> chosen_valid (da_selected s))"
| "da_offered P s (Submitted j) = (da_run s \<noteq> None)"
| "da_offered P s (SubmitFails e) = (da_run s \<noteq> None)"

text \<open>The end of a run.\<close>

definition finish_run :: "json list \<Rightarrow> jsstring list \<Rightarrow> da_page \<Rightarrow> da_page \<times> page_effect list" where
  "finish_run jobs errors s =
     (let s1 = s\<lparr>da_run := None, da_queued := da_queued s @ jobs, da_failures := errors\<rparr>;
          s2 = (if errors = []
                then s1\<lparr>da_connection := (da_connection s)\<lparr>cn_password := []\<rparr>, da_preview := None,
                        da_handed := (case jobs of [] \<Rightarrow> da_handed s | j # js \<Rightarrow> Some j)\<rparr>
                else s1)
      in (s2, Invalidate [''account-imports''] #
            (if jobs = [] then []
             else [Toast Success (show_nat (length jobs) @ '' migration(s) queued'') ''Follow progress in the migration history.''])))"

definition settle_current :: "da_run \<Rightarrow> json list \<Rightarrow> jsstring list \<Rightarrow> da_page \<Rightarrow> da_page \<times> api_request list \<times> page_effect list" where
  "settle_current r jobs errors s =
     (case dr_rest r of
        [] \<Rightarrow> (case finish_run jobs errors s of (s', effs) \<Rightarrow> (s', [], effs))
      | x # xs \<Rightarrow>
          (s\<lparr>da_run := Some (r\<lparr>dr_current := x, dr_rest := xs, dr_jobs := jobs, dr_errors := errors\<rparr>)\<rparr>,
           [migrate_request (dr_remote r) (dr_compat r) (dr_analyze r) x], []))"

fun da_step :: "(da_event, da_page) page_step" where
  "da_step (ChooseMode m) s =
     (s\<lparr>da_connection := (da_connection s)\<lparr>cn_mode := m, cn_port := JNum (if m = ''root'' then 22 else 2222)\<rparr>, da_preview := None,
        da_selected := []\<rparr>, [], [])"
| "da_step (EditConn k t) s = (s\<lparr>da_connection := put_conn k t (da_connection s), da_preview := None, da_selected := []\<rparr>, [], [])"
| "da_step Connect s = (s\<lparr>da_inspecting := True\<rparr>, [inspect_request (da_connection s)], [])"
| "da_step (AccountsListed p) s = (s\<lparr>da_inspecting := False, da_preview := Some p, da_failures := []\<rparr>, [], [])"
| "da_step (ListFails e) s = (s\<lparr>da_inspecting := False\<rparr>, [], [Toast ErrorTone ''Could not connect'' e])"
| "da_step (SelectRow r b) s = (s\<lparr>da_selected := select_row r b (da_selected s)\<rparr>, [], [])"
| "da_step (RenameRow a n) s = (s\<lparr>da_selected := AList.update a n (da_selected s)\<rparr>, [], [])"
| "da_step SelectAvailable s =
     (s\<lparr>da_selected := (case da_preview s of None \<Rightarrow> da_selected s | Some p \<Rightarrow> available_selection p)\<rparr>, [], [])"
| "da_step ClearSelection s = (s\<lparr>da_selected := []\<rparr>, [], [])"
| "da_step (ChooseCompat c) s = (s\<lparr>da_compat := c\<rparr>, [], [])"
| "da_step SwitchAnalyze s = (s\<lparr>da_analyze := \<not> da_analyze s\<rparr>, [], [])"
| "da_step Migrate s =
     (case da_selected s of
        [] \<Rightarrow> (s, [], [])
      | x # xs \<Rightarrow>
          (s\<lparr>da_run := Some \<lparr>dr_remote = da_connection s, dr_compat = da_compat s, dr_analyze = da_analyze s, dr_current = x, dr_rest = xs,
                             dr_jobs = [], dr_errors = []\<rparr>\<rparr>,
           [migrate_request (da_connection s) (da_compat s) (da_analyze s) x], []))"
| "da_step (Submitted j) s =
     (case da_run s of
        None \<Rightarrow> (s, [], [])
      | Some r \<Rightarrow>
          settle_current r (dr_jobs r @ [j]) (dr_errors r) (s\<lparr>da_selected := AList.delete (fst (dr_current r)) (da_selected s)\<rparr>))"
| "da_step (SubmitFails e) s =
     (case da_run s of
        None \<Rightarrow> (s, [], [])
      | Some r \<Rightarrow> settle_current r (dr_jobs r) (dr_errors r @ [fst (dr_current r) @ '': '' @ e]) s)"

section \<open>What is sent\<close>

text \<open>The check of a new name is the server's.\<close>

lemma new_name_is_servers: "new_name_ok n = server_username n"
  by (cases n) (auto simp: new_name_ok_def server_username_def)

text \<open>
  The specification: accounts are only taken from a server, and with the credentials, that listed them, and
  nothing about the connection changes in between.
\<close>

datatype da_label = Inspects json | Migrates json

datatype da_abs = Unlisted | Listing json | Listed json | Relisting json

inductive da_spec :: "da_abs \<Rightarrow> da_label list \<Rightarrow> da_abs \<Rightarrow> bool" where
  idle: "da_spec a [] a"
| look: "da_spec Unlisted [Inspects c] (Listing c)"
| look_again: "da_spec (Listed c) [Inspects c] (Relisting c)"
| listed: "da_spec (Listing c) [] (Listed c)"
| unlisted: "da_spec (Listing c) [] Unlisted"
| relisted: "da_spec (Relisting c) [] (Listed c)"
| take_account: "da_spec (Listed c) [Migrates c] (Listed c)"
| forget: "da_spec (Listed c) [] Unlisted"

definition da_abs_of :: "da_page \<Rightarrow> da_abs" where
  "da_abs_of s =
     (let c = connection_json (da_connection s)
      in case da_preview s of
           None \<Rightarrow> if da_inspecting s then Listing c else Unlisted
         | Some p \<Rightarrow> if da_inspecting s then Relisting c else Listed c)"

definition da_shown :: "api_request \<Rightarrow> da_label list" where
  "da_shown r =
     (case r of
        ApiPost url b \<Rightarrow>
          if url = inspect_url then [Inspects (JObj b)]
          else if url = migrate_url then [Migrates (the (map_of b ''remote''))] else []
      | _ \<Rightarrow> [])"

lemma shown_requests [simp]:
  "da_shown (inspect_request c) = [Inspects (connection_json c)]"
  "da_shown (migrate_request c mode analyze x) = [Migrates (connection_json c)]"
  by (simp_all add: da_shown_def inspect_request_def migrate_request_def inspect_url_def migrate_url_def connection_json_def json_fields_def)

text \<open>During a run the connection is the one it was started with, the list is shown, and the names of what is
  still to be sent are valid and no two are the same.\<close>

definition da_run_inv :: "da_page \<Rightarrow> da_run \<Rightarrow> bool" where
  "da_run_inv s r \<longleftrightarrow>
     dr_remote r = da_connection s \<and> da_preview s \<noteq> None \<and> \<not> da_inspecting s \<and> chosen_valid (dr_current r # dr_rest r)"

definition da_inv :: "da_page \<Rightarrow> bool" where
  "da_inv s \<longleftrightarrow> (case da_run s of None \<Rightarrow> True | Some r \<Rightarrow> da_run_inv s r)"

definition da_request_ok :: "api_request \<Rightarrow> bool" where
  "da_request_ok r \<longleftrightarrow>
     (\<exists>c. r = inspect_request c) \<or>
     (\<exists>c mode an x. r = migrate_request c mode an x \<and> server_username (snd x))"

lemma request_ok [simp]: "da_request_ok (inspect_request c)" "server_username (snd x) \<Longrightarrow> da_request_ok (migrate_request c mode an x)"
  unfolding da_request_ok_def by blast+

lemma selection_tail: "chosen_valid (x # y # ys) \<Longrightarrow> chosen_valid (y # ys)"
  by (simp add: chosen_valid_def)

lemma selection_head: "chosen_valid (x # xs) \<Longrightarrow> server_username (snd x)"
  by (simp add: chosen_valid_def new_name_is_servers)

lemma finish_facts:
  assumes "da_preview s = Some p" "\<not> da_inspecting s"
  shows "da_run (fst (finish_run jobs errors s)) = None"
    and "da_abs_of (fst (finish_run jobs errors s)) = (if errors = [] then Unlisted else Listed (connection_json (da_connection s)))"
  using assms by (simp_all add: finish_run_def da_abs_of_def Let_def)

lemma settle_cases:
  assumes "da_run_inv s r" "da_run s = Some r" "da_connection s' = da_connection s" "da_preview s' = da_preview s" "\<not> da_inspecting s'"
    and "settle_current r jobs errors s' = (t, reqs, effs)"
  shows "da_inv t \<and> list_all da_request_ok reqs \<and> da_spec (da_abs_of s) (concat (map da_shown reqs)) (da_abs_of t)"
proof (cases "dr_rest r")
  case Nil
  obtain p where p: "da_preview s' = Some p" "da_abs_of s = Listed (connection_json (da_connection s'))"
    using assms(1,3,4) by (auto simp: da_run_inv_def da_abs_of_def Let_def)
  have t: "t = fst (finish_run jobs errors s')" "reqs = []"
    using assms(6) Nil by (auto simp: settle_current_def split: prod.splits)
  show ?thesis unfolding t
    using finish_facts[OF p(1) assms(5), of jobs errors] p(2) by (auto simp: da_inv_def intro: da_spec.intros)
next
  case (Cons x xs)
  then have "chosen_valid (x # xs)" using assms(1) selection_tail[of "dr_current r" x xs] by (simp add: da_run_inv_def)
  then show ?thesis using assms Cons selection_head[of x xs]
    by (auto simp: settle_current_def da_inv_def da_run_inv_def da_abs_of_def Let_def intro: da_spec.intros)
qed

lemma da_event_ok:
  assumes "da_inv s" "da_offered P s e" "da_step e s = (t, reqs, effs)"
  shows "da_inv t \<and> list_all da_request_ok reqs \<and> da_spec (da_abs_of s) (concat (map da_shown reqs)) (da_abs_of t)"
proof (cases e)
  case (Submitted j)
  then obtain r where r: "da_run s = Some r" "da_run_inv s r" using assms(1,2) by (auto simp: da_inv_def)
  show ?thesis
    by (rule settle_cases[OF r(2,1), of "s\<lparr>da_selected := AList.delete (fst (dr_current r)) (da_selected s)\<rparr>"])
      (use assms(3) Submitted r in \<open>auto simp: da_run_inv_def\<close>)
next
  case (SubmitFails x)
  then obtain r where r: "da_run s = Some r" "da_run_inv s r" using assms(1,2) by (auto simp: da_inv_def)
  show ?thesis by (rule settle_cases[OF r(2,1), of s]) (use assms(3) SubmitFails r in \<open>auto simp: da_run_inv_def\<close>)
next
  case Migrate
  then obtain x xs where x: "da_selected s = x # xs" "chosen_valid (x # xs)"
    using assms(2) by (cases "da_selected s") (auto simp: chosen_valid_def)
  obtain p where "da_preview s = Some p" "\<not> da_inspecting s" using assms(2) Migrate by (auto simp: da_busy_def)
  then show ?thesis using assms Migrate x selection_head[OF x(2)]
    by (auto simp: da_inv_def da_run_inv_def da_abs_of_def Let_def intro: da_spec.intros)
next
  case Connect
  then show ?thesis using assms
    by (auto simp: da_inv_def da_busy_def da_abs_of_def Let_def intro: da_spec.intros split: option.splits)
next
  case (AccountsListed p)
  then show ?thesis using assms
    by (auto simp: da_inv_def da_run_inv_def da_abs_of_def Let_def intro: da_spec.intros split: option.splits)
next
  case (ListFails x)
  then show ?thesis using assms
    by (auto simp: da_inv_def da_run_inv_def da_abs_of_def Let_def intro: da_spec.intros split: option.splits)
qed (use assms in \<open>auto simp: da_inv_def da_busy_def da_run_inv_def da_abs_of_def Let_def intro: da_spec.intros split: option.splits\<close>)

lemma da_start: "da_inv initial_da" "da_abs_of initial_da = Unlisted"
  by (simp_all add: da_inv_def initial_da_def da_abs_of_def Let_def)

lemma da_keep: "da_inv s \<Longrightarrow> da_offered P s e \<Longrightarrow> da_inv (fst (da_step e s))"
  and da_good: "da_inv s \<Longrightarrow> da_offered P s e \<Longrightarrow> list_all da_request_ok (fst (snd (da_step e s)))"
  and da_simulates: "da_inv s \<Longrightarrow> da_offered P s e \<Longrightarrow>
    da_spec (da_abs_of s) (concat (map da_shown (fst (snd (da_step e s))))) (da_abs_of (fst (da_step e s)))"
  using da_event_ok[of s P e] by (cases "da_step e s"; auto)+

interpretation da: page_contract initial_da "da_offered P" da_step da_inv da_request_ok for P
  by unfold_locales (simp_all only: da_start da_keep da_good)

interpretation da_protocol: page_refinement initial_da "da_offered P" da_step da_inv da_abs_of da_shown Unlisted da_spec for P
  by unfold_locales (simp_all only: da_start da_keep da_simulates)

text \<open>C11. Accounts are only ever taken from the server, and with the credentials, whose list of accounts was read last,
  with nothing about the connection changed in between, and every account taken gets a name the server admits.\<close>

theorem migrations_from_listed_server:
  assumes "page_reach initial_da (da_offered P) da_step s sent"
  shows "list_all da_request_ok sent \<and> spec_run Unlisted da_spec (concat (map da_shown sent)) (da_abs_of s)"
  using da.reach_inv[OF assms] da_protocol.refines[OF assms] by blast

text \<open>Two accounts are listed and chosen; one is taken, the other refused.\<close>

definition da_script :: "da_event list" where
  "da_script =
     [EditConn Host ''old.example'', EditConn Password ''secret'', Connect,
      AccountsListed (JObj [(''accounts'', JArr [JObj [(''username'', JStr ''ann''), (''available'', JBool True)],
                                               JObj [(''username'', JStr ''bob''), (''available'', JBool True)]])]),
      SelectAvailable]"

definition da_ready :: da_page where
  "da_ready = (case page_run (da_offered (\<lambda>n. True)) da_step da_script (initial_da, []) of Some (s, sent) \<Rightarrow> s | None \<Rightarrow> initial_da)"

theorem migrations_from_listed_server_witness:
  "\<exists>s sent. page_reach initial_da (da_offered (\<lambda>n. True)) da_step s sent \<and> length sent = 3 \<and> da_abs_of s = Listed (connection_json (da_connection s)) \<and>
     list_all da_request_ok sent \<and> spec_run Unlisted da_spec (concat (map da_shown sent)) (da_abs_of s)"
proof -
  let ?run = "page_run (da_offered (\<lambda>n. True)) da_step (da_script @ [Migrate, Submitted JNull, SubmitFails ''busy'']) (initial_da, [])"
  have "map_option (\<lambda>(s, sent). length sent = 3 \<and> da_abs_of s = Listed (connection_json (da_connection s))) ?run = Some True"
    by code_simp
  then obtain s sent where r: "?run = Some (s, sent)" and c: "length sent = 3" "da_abs_of s = Listed (connection_json (da_connection s))"
    by (auto simp only: map_option_eq_Some prod.case split: prod.splits)
  from scripted_reach[OF r] migrations_from_listed_server[OF scripted_reach[OF r]] c show ?thesis by metis
qed

section \<open>A run\<close>

text \<open>The answers to a run, one for each account: a job, or the text of a failure.\<close>

type_synonym answer = "json + jsstring"

definition answer_event :: "answer \<Rightarrow> da_event" where
  "answer_event a = (case a of Inl j \<Rightarrow> Submitted j | Inr e \<Rightarrow> SubmitFails e)"

fun run_answers :: "answer list \<Rightarrow> da_page \<Rightarrow> da_page \<times> api_request list" where
  "run_answers [] s = (s, [])"
| "run_answers (a # as) s =
     (let (s1, reqs, effs) = da_step (answer_event a) s; (s2, more) = run_answers as s1 in (s2, reqs @ more))"

definition job_of :: "answer \<Rightarrow> json list" where
  "job_of a = (case a of Inl j \<Rightarrow> [j] | Inr e \<Rightarrow> [])"

definition error_of :: "(jsstring \<times> jsstring) \<times> answer \<Rightarrow> jsstring list" where
  "error_of p = (case snd p of Inl j \<Rightarrow> [] | Inr e \<Rightarrow> [fst (fst p) @ '': '' @ e])"

definition accepted :: "((jsstring \<times> jsstring) \<times> answer) list \<Rightarrow> jsstring list" where
  "accepted ps = map (\<lambda>p. fst (fst p)) (filter (\<lambda>p. isl (snd p)) ps)"

lemma delete_is_filter: "AList.delete k xs = filter (\<lambda>x. fst x \<noteq> k) xs"
  by (auto simp: AList.delete_eq case_prod_unfold intro: filter_cong)

lemma accepted_Cons: "accepted ((x, a) # ps) = (if isl a then fst x # accepted ps else accepted ps)"
  by (simp add: accepted_def)

text \<open>Every chosen account is submitted once, in order; the jobs are those of the accepted ones, the failures name
  the others, and only the accepted ones are no longer chosen.\<close>

lemma run_accounts:
  assumes "da_run s = Some r" "dr_current r # dr_rest r = xs" "length as = length xs" "run_answers as s = (t, reqs)"
  shows "reqs = map (migrate_request (dr_remote r) (dr_compat r) (dr_analyze r)) (dr_rest r) \<and> da_run t = None \<and>
    da_queued t = da_queued s @ dr_jobs r @ concat (map job_of as) \<and>
    da_failures t = dr_errors r @ concat (map error_of (zip xs as)) \<and>
    da_selected t = filter (\<lambda>x. fst x \<notin> set (accepted (zip xs as))) (da_selected s)"
  using assms
proof (induction as arbitrary: s r xs reqs)
  case Nil
  then show ?case by auto
next
  case (Cons a as)
  show ?case
  proof (cases "dr_rest r")
    case Nil
    then have "as = []" using Cons.prems by auto
    have one: "accepted [] = []" by (simp add: accepted_def)
    then show ?thesis using Cons.prems Nil
      by (cases a) (auto simp: answer_event_def settle_current_def finish_run_def job_of_def error_of_def delete_is_filter Let_def accepted_Cons one
          split: list.splits)
  next
    case (Cons y ys)
    let ?r = "r\<lparr>dr_current := y, dr_rest := ys, dr_jobs := dr_jobs r @ job_of a, dr_errors := dr_errors r @ error_of (dr_current r, a)\<rparr>"
    let ?sel = "if isl a then AList.delete (fst (dr_current r)) (da_selected s) else da_selected s"
    let ?s = "s\<lparr>da_run := Some ?r, da_selected := ?sel\<rparr>"
    have step: "da_step (answer_event a) s = (?s, [migrate_request (dr_remote r) (dr_compat r) (dr_analyze r) y], [])"
      using Cons Cons.prems(1) by (cases a) (auto simp: answer_event_def settle_current_def job_of_def error_of_def)
    obtain more where more: "run_answers as ?s = (t, more)" "reqs = migrate_request (dr_remote r) (dr_compat r) (dr_analyze r) y # more"
      using Cons.prems(4) step by (auto simp: Let_def split: prod.splits)
    have xs: "xs = dr_current r # y # ys" "length as = length (y # ys)" using Cons.prems(2,3) Cons by auto
    have "more = map (migrate_request (dr_remote r) (dr_compat r) (dr_analyze r)) ys \<and> da_run t = None \<and>
      da_queued t = da_queued s @ (dr_jobs r @ job_of a) @ concat (map job_of as) \<and>
      da_failures t = (dr_errors r @ error_of (dr_current r, a)) @ concat (map error_of (zip (y # ys) as)) \<and>
      da_selected t = filter (\<lambda>x. fst x \<notin> set (accepted (zip (y # ys) as))) ?sel"
      using Cons.IH[of ?s ?r "y # ys" more] more(1) xs(2) by simp
    then show ?thesis using more(2) Cons xs
      by (auto simp: accepted_Cons delete_is_filter intro: filter_cong)
  qed
qed

text \<open>So after a run without failures nothing stays chosen of it, and otherwise the next run takes exactly what
  failed, with the names it was given.\<close>

lemma failed_stay_chosen:
  assumes "da_run s = Some r" "dr_current r # dr_rest r = da_selected s" "distinct (map fst (da_selected s))"
    and "length as = length (da_selected s)" "run_answers as s = (t, reqs)"
  shows "da_selected t = map fst (filter (\<lambda>p. \<not> isl (snd p)) (zip (da_selected s) as))"
proof -
  have "filter (\<lambda>x. fst x \<notin> set (accepted (zip xs bs))) xs = map fst (filter (\<lambda>p. \<not> isl (snd p)) (zip xs bs))"
    if "length bs = length xs" "distinct (map fst xs)" for xs :: selection and bs
    using that
  proof (induction xs bs rule: list_induct2')
    case (4 x xs b bs)
    have "fst x \<notin> set (accepted (zip xs bs))" using 4(3) by (force simp: accepted_def dest: set_zip_leftD)
    moreover have "filter (\<lambda>z. fst z \<notin> set (fst x # accepted (zip xs bs))) xs = filter (\<lambda>z. fst z \<notin> set (accepted (zip xs bs))) xs"
      using 4(3) by (intro filter_cong) (auto simp: image_iff)
    ultimately show ?case using 4 by (auto simp: accepted_Cons)
  qed simp_all
  then show ?thesis using run_accounts[OF assms(1,2,4,5)] assms(3,4) by simp
qed

text \<open>An account is chosen at most once.\<close>

lemma available_once: "distinct (map fst (available_selection p))"
proof -
  have "distinct (map fst (fold (\<lambda>r sel. AList.update (account_name r) (account_name r) sel) rs xs))" if "distinct (map fst xs)" for rs xs
    using that by (induction rs arbitrary: xs) (simp_all add: AList.distinct_update)
  then show ?thesis by (simp add: available_selection_def)
qed

lemma settle_selection: "da_selected (fst (settle_current r jobs errors s)) = da_selected s"
  by (simp add: settle_current_def finish_run_def Let_def split: list.splits)

lemma chosen_once:
  assumes "page_reach initial_da (da_offered P) da_step s sent"
  shows "distinct (map fst (da_selected s))"
  using assms
proof (induction rule: page_reach.induct)
  case start
  then show ?case by (simp add: initial_da_def)
next
  case (step s sent e s' new effs)
  have "distinct (map fst (da_selected (fst (da_step e s))))" using step.IH
    by (cases e) (auto simp: available_once select_row_def AList.distinct_update AList.distinct_delete settle_selection rev_image_eqI
        simp del: set_map split: option.split list.split)
  then show ?case using step.hyps by simp
qed

text \<open>C15. A run asks for every chosen account once and in order, whatever happens to the others. After it the failures
  name exactly the accounts that were refused, and exactly these are still chosen, with the names they were given.\<close>

theorem migration_run_accounted:
  assumes "page_reach initial_da (da_offered P) da_step s sent" "da_offered P s Migrate"
    and "length as = length (da_selected s)" "run_answers as (fst (da_step Migrate s)) = (t, reqs)"
  shows "fst (snd (da_step Migrate s)) @ reqs = map (migrate_request (da_connection s) (da_compat s) (da_analyze s)) (da_selected s) \<and>
    da_run t = None \<and> da_failures t = concat (map error_of (zip (da_selected s) as)) \<and>
    da_selected t = map fst (filter (\<lambda>p. \<not> isl (snd p)) (zip (da_selected s) as))"
proof -
  obtain x xs where x: "da_selected s = x # xs" using assms(2) by (cases "da_selected s") (auto simp: chosen_valid_def)
  define r where "r = \<lparr>dr_remote = da_connection s, dr_compat = da_compat s, dr_analyze = da_analyze s, dr_current = x, dr_rest = xs,
    dr_jobs = [], dr_errors = []\<rparr>"
  define s1 where "s1 = s\<lparr>da_run := Some r\<rparr>"
  have st: "da_step Migrate s = (s1, [migrate_request (da_connection s) (da_compat s) (da_analyze s) x], [])"
    by (simp add: x r_def s1_def)
  have run: "da_run s1 = Some r" "dr_current r # dr_rest r = da_selected s1" "length as = length (da_selected s1)" "run_answers as s1 = (t, reqs)"
    using assms(3,4) x st by (simp_all add: r_def s1_def)
  have dist: "distinct (map fst (da_selected s1))" using chosen_once[OF assms(1)] by (simp add: s1_def)
  show ?thesis using run_accounts[OF run] failed_stay_chosen[OF run(1,2) dist run(3,4)] st x
    by (simp add: r_def s1_def)
qed

theorem migration_run_accounted_witness:
  "da_selected da_ready = [(''ann'', ''ann''), (''bob'', ''bob'')] \<and>
   da_selected (fst (run_answers [Inl JNull, Inr ''busy''] (fst (da_step Migrate da_ready)))) = [(''bob'', ''bob'')] \<and>
   da_failures (fst (run_answers [Inl JNull, Inr ''busy''] (fst (da_step Migrate da_ready)))) = [''bob: busy'']"
proof -
  have sel: "da_selected da_ready = [(''ann'', ''ann''), (''bob'', ''bob'')]" by code_simp
  have off: "da_offered (\<lambda>n. True) da_ready Migrate" by code_simp
  have "map_option (\<lambda>x. ()) (page_run (da_offered (\<lambda>n. True)) da_step da_script (initial_da, [])) = Some ()" by code_simp
  then obtain s sent where r: "page_run (da_offered (\<lambda>n. True)) da_step da_script (initial_da, []) = Some (s, sent)" by auto
  then have reach: "page_reach initial_da (da_offered (\<lambda>n. True)) da_step da_ready sent"
    using scripted_reach[OF r] by (simp add: da_ready_def)
  obtain t reqs where t: "run_answers [Inl JNull, Inr ''busy''] (fst (da_step Migrate da_ready)) = (t, reqs)" by fastforce
  show ?thesis using migration_run_accounted[OF reach off _ t] unfolding t sel by (simp add: error_of_def)
qed

text \<open>The credentials are forgotten after a run without failures, and kept after any other.\<close>

lemma password_after_run:
  "cn_password (da_connection (fst (finish_run jobs errors s))) = (if errors = [] then [] else cn_password (da_connection s))"
  by (simp add: finish_run_def Let_def)

end
