(* ===== verification/Account_Imports.thy ===== *)
theory Account_Imports
  imports Da_Migration
begin

text \<open>
  \<open>pages/admin/CpanelImport.jsx\<close>: the accounts taken over from archives, the dialog that starts one, and the
  progress of one of them, read every three seconds. The password of a new account is in one answer only
  (\<open>get_job\<close> in \<open>daemon/cpanel_import.py\<close>). \<open>collate\<close> is the order of texts, \<open>parse\<close> the reading of a date in
  milliseconds, \<open>valid_url\<close> the browser's judgement of an address. The success of a request is handled
  with the page as it is by then.
\<close>

section \<open>Rows\<close>

definition import_active :: "json list \<Rightarrow> bool" where
  "import_active rows \<longleftrightarrow> list_ex (\<lambda>j. jget j ''status'' = JStr ''running'' \<or> jget j ''status'' = JStr ''pending'') rows"

definition import_poll :: "json list \<Rightarrow> nat option" where
  "import_poll rows = (if import_active rows then Some 4000 else None)"

definition external_row :: "json \<Rightarrow> json" where
  "external_row j =
     with_fields j [(''panel'', js_or (jget j ''panel'') (JStr ''cpanel'')), (''rowKey'', JStr (''external-'' @ js_String (jget j ''id'')))]"

definition native_row :: "json \<Rightarrow> json" where
  "native_row j =
     with_fields j [(''panel'', JStr ''boron''), (''source'', JStr ''upload''), (''rowKey'', JStr (''boron-'' @ js_String (jget j ''id'')))]"

definition newer_first :: "(jsstring \<Rightarrow> jsstring \<Rightarrow> int) \<Rightarrow> json \<Rightarrow> json \<Rightarrow> int" where
  "newer_first collate a b = collate (js_String (jget b ''started_at'')) (js_String (jget a ''started_at''))"

definition import_rows :: "(jsstring \<Rightarrow> jsstring \<Rightarrow> int) \<Rightarrow> json list \<Rightarrow> json list \<Rightarrow> json list" where
  "import_rows collate external native = js_sort (newer_first collate) (map external_row external @ map native_row native)"

definition panelLabels :: "(jsstring \<times> jsstring) list" where
  "panelLabels = [(''cpanel'', ''cPanel''), (''directadmin'', ''DirectAdmin''), (''boron'', ''Boron archive'')]"

definition progress_text :: "json \<Rightarrow> jsstring" where
  "progress_text r =
     (if jget r ''status'' = JStr ''failed'' \<and> truthy (jget r ''error'') then js_String (jget r ''error'')
      else if truthy (jget r ''progress_message'') then js_String (jget r ''progress_message'') else [em_dash])"

text \<open>Jobs of the two kinds never share a key, though they can share a number.\<close>

lemma row_keys_apart: "jget (external_row a) ''rowKey'' \<noteq> jget (native_row b) ''rowKey''"
  by (simp add: external_row_def native_row_def)

lemma rows_complete: "set (import_rows collate ex nt) = external_row ` set ex \<union> native_row ` set nt"
  by (simp add: import_rows_def)

section \<open>The page\<close>

record import_form =
  if_username :: jsstring
  if_panel :: jsstring
  if_source :: jsstring
  if_url :: jsstring

definition no_import :: import_form where
  "no_import = \<lparr>if_username = [], if_panel = ''cpanel'', if_source = ''upload'', if_url = []\<rparr>"

definition by_url :: "import_form \<Rightarrow> bool" where
  "by_url f \<longleftrightarrow> if_source f = ''url'' \<and> if_panel f \<noteq> ''boron''"

record import_page =
  im_external :: "json list"
  im_native :: "json list"
  im_remoteOpen :: bool
  im_open :: bool
  im_selected :: "json option"
  im_password :: "jsstring option"
  im_form :: import_form
  im_file :: "jsstring option"
  im_input :: "jsstring option" \<comment> \<open>what the file field on the screen holds\<close>
  im_creating :: bool
  im_detail :: json
  im_reading :: bool \<comment> \<open>an answer about the selected job is awaited\<close>

definition initial_imports :: import_page where
  "initial_imports =
     \<lparr>im_external = [], im_native = [], im_remoteOpen = False, im_open = False, im_selected = None, im_password = None,
      im_form = no_import, im_file = None, im_input = None, im_creating = False, im_detail = JUndef, im_reading = False\<rparr>"

definition canSubmit :: "import_page \<Rightarrow> bool" where
  "canSubmit s \<longleftrightarrow>
     trim (if_username (im_form s)) \<noteq> [] \<and>
     (if by_url (im_form s) then trim (if_url (im_form s)) \<noteq> [] else im_file s \<noteq> None)"

text \<open>What the browser asks of the fields on the screen; the pattern of the name is the server's.\<close>

definition import_submits :: "(jsstring \<Rightarrow> bool) \<Rightarrow> import_page \<Rightarrow> bool" where
  "import_submits valid_url s \<longleftrightarrow>
     new_name_ok (if_username (im_form s)) \<and>
     (if by_url (im_form s) then if_url (im_form s) \<noteq> [] \<and> valid_url (if_url (im_form s)) else im_input s \<noteq> None)"

definition cpanel_body :: "import_page \<Rightarrow> body" where
  "cpanel_body s =
     [(''username'', JStr (trim (if_username (im_form s))))] @
     (if if_panel (im_form s) \<noteq> ''boron'' then [(''panel'', JStr (if_panel (im_form s)))] else []) @
     (if by_url (im_form s) then [(''url'', JStr (trim (if_url (im_form s))))]
      else case im_file s of None \<Rightarrow> [] | Some f \<Rightarrow> [(''file'', JStr f)])"

definition import_url :: "import_form \<Rightarrow> jsstring" where
  "import_url f = (if if_panel f = ''boron'' then ''/api/v1/admin/import/boron'' else ''/api/v1/admin/import/accounts'')"

definition detail_url :: "json \<Rightarrow> jsstring" where
  "detail_url r =
     (if jget r ''panel'' = JStr ''boron'' then ''/api/v1/admin/import/boron/'' @ js_String (jget r ''id'')
      else ''/api/v1/admin/import/accounts/'' @ js_String (jget r ''id'') @ ''?username='' @ encodeURIComponent (js_String (jget r ''username'')))"

definition latestRow :: "(jsstring \<Rightarrow> jsstring \<Rightarrow> int) \<Rightarrow> import_page \<Rightarrow> json option" where
  "latestRow collate s =
     (case im_selected s of
        None \<Rightarrow> None
      | Some r \<Rightarrow>
          (case List.find (\<lambda>x. jget x ''rowKey'' = jget r ''rowKey'') (import_rows collate (im_external s) (im_native s)) of
             Some x \<Rightarrow> Some x | None \<Rightarrow> Some r))"

definition shown_job :: "(jsstring \<Rightarrow> jsstring \<Rightarrow> int) \<Rightarrow> import_page \<Rightarrow> json option" where
  "shown_job collate s =
     map_option (\<lambda>r. if truthy (im_detail s) then with_fields r (json_fields (im_detail s)) else r) (latestRow collate s)"

definition failed_items :: "json \<Rightarrow> nat" where
  "failed_items j = length (filter (\<lambda>x. jget x ''status'' = JStr ''failed'') (json_list (jget j ''results'')))"

definition zoned :: "jsstring \<Rightarrow> bool" where
  "zoned t \<longleftrightarrow>
     endsWith t ''Z'' \<or>
     (case drop (length t - 6) t of
        [a, b, c, d, e, f] \<Rightarrow> (a = CHR ''+'' \<or> a = CHR ''-'') \<and> is_digit b \<and> is_digit c \<and> d = CHR '':'' \<and> is_digit e \<and> is_digit f
      | _ \<Rightarrow> False)"

definition parse_time :: "(jsstring \<Rightarrow> int) \<Rightarrow> json \<Rightarrow> int" where
  "parse_time parse v = (let t = js_String v in parse (if zoned t then t else t @ ''Z''))"

definition elapsed :: "(jsstring \<Rightarrow> int) \<Rightarrow> int \<Rightarrow> json \<Rightarrow> int option" where
  "elapsed parse now j =
     (if truthy (jget j ''started_at'') \<and> parse_time parse (jget j ''started_at'') \<noteq> 0
      then Some (max 0 (((if truthy (jget j ''completed_at'') then parse_time parse (jget j ''completed_at'') else now)
                         - parse_time parse (jget j ''started_at'')) div 1000))
      else None)"

definition elapsed_text :: "int \<Rightarrow> jsstring" where
  "elapsed_text n = ''Elapsed: '' @ show_int (n div 60) @ ''m '' @ show_int (n mod 60) @ ''s''"

definition open_details :: "json \<Rightarrow> import_page \<Rightarrow> import_page" where
  "open_details r s =
     s\<lparr>im_remoteOpen := False, im_password := None, im_selected := Some r, im_detail := JUndef, im_reading := False\<rparr>"

definition close_details :: "import_page \<Rightarrow> import_page" where
  "close_details s = s\<lparr>im_selected := None, im_password := None, im_detail := JUndef, im_reading := False\<rparr>"

definition reset_import :: "import_page \<Rightarrow> import_page" where
  "reset_import s = s\<lparr>im_form := no_import, im_file := None\<rparr>"

text \<open>The file field starts empty whenever it comes onto the screen.\<close>

definition settle_input :: "import_page \<Rightarrow> import_page" where
  "settle_input s = (if im_open s \<and> \<not> by_url (im_form s) then s else s\<lparr>im_input := None\<rparr>)"

datatype import_event =
    ExternalArrive "json list"
  | NativeArrive "json list"
  | OpenNew
  | DismissNew
  | CancelNew
  | ChoosePanel jsstring
  | EditUsername jsstring
  | ChooseSource jsstring
  | EditUrl jsstring
  | ChooseFile "jsstring option"
  | StartImport
  | ImportQueued json
  | ImportRefused jsstring
  | OpenDetails json
  | CloseDetails
  | ReadDetail
  | DetailArrives json
  | DetailFails
  | RetryImport
  | ToggleRemote
  | CloseRemote
  | RemoteQueued json

definition no_import_dialog :: "import_page \<Rightarrow> bool" where
  "no_import_dialog s \<longleftrightarrow> \<not> im_open s \<and> im_selected s = None"

fun imports_offered :: "(jsstring \<Rightarrow> jsstring \<Rightarrow> int) \<Rightarrow> (jsstring \<Rightarrow> bool) \<Rightarrow> import_page \<Rightarrow> import_event \<Rightarrow> bool" where
  "imports_offered C V s (ExternalArrive js) = True"
| "imports_offered C V s (NativeArrive js) = True"
| "imports_offered C V s OpenNew = no_import_dialog s"
| "imports_offered C V s DismissNew = im_open s"
| "imports_offered C V s CancelNew = im_open s"
| "imports_offered C V s (ChoosePanel p) = (im_open s \<and> p \<in> set [''cpanel'', ''directadmin'', ''boron''])"
| "imports_offered C V s (EditUsername t) = im_open s"
| "imports_offered C V s (ChooseSource x) = (im_open s \<and> if_panel (im_form s) \<noteq> ''boron'' \<and> x \<in> set [''upload'', ''url''])"
| "imports_offered C V s (EditUrl t) = (im_open s \<and> by_url (im_form s))"
| "imports_offered C V s (ChooseFile f) = (im_open s \<and> \<not> by_url (im_form s))"
| "imports_offered C V s StartImport = (im_open s \<and> \<not> im_creating s \<and> canSubmit s \<and> import_submits V s)"
| "imports_offered C V s (ImportQueued j) = im_creating s"
| "imports_offered C V s (ImportRefused e) = im_creating s"
| "imports_offered C V s (OpenDetails r) = (no_import_dialog s \<and> r \<in> set (import_rows C (im_external s) (im_native s)))"
| "imports_offered C V s CloseDetails = (im_selected s \<noteq> None)"
| "imports_offered C V s ReadDetail = (im_selected s \<noteq> None \<and> \<not> im_reading s)"
| "imports_offered C V s (DetailArrives d) = im_reading s"
| "imports_offered C V s DetailFails = im_reading s"
| "imports_offered C V s RetryImport =
     (case shown_job C s of None \<Rightarrow> False | Some j \<Rightarrow> jget j ''status'' = JStr ''failed'')"
| "imports_offered C V s ToggleRemote = no_import_dialog s"
| "imports_offered C V s CloseRemote = (no_import_dialog s \<and> im_remoteOpen s)"
| "imports_offered C V s (RemoteQueued j) = True"

definition set_form :: "import_form \<Rightarrow> import_page \<Rightarrow> import_page" where
  "set_form f s = settle_input (s\<lparr>im_form := f\<rparr>)"

definition queued_row :: "import_form \<Rightarrow> json \<Rightarrow> json" where
  "queued_row f j =
     with_fields j [(''panel'', JStr (if_panel f)),
       (''rowKey'', JStr ((if if_panel f = ''boron'' then ''boron'' else ''external'') @ ''-'' @ js_String (jget j ''id'')))]"

definition remote_row :: "json \<Rightarrow> json" where
  "remote_row j = with_fields j [(''panel'', JStr ''directadmin''), (''rowKey'', JStr (''external-'' @ js_String (jget j ''id'')))]"

fun imports_step :: "(jsstring \<Rightarrow> jsstring \<Rightarrow> int) \<Rightarrow> (import_event, import_page) page_step" where
  "imports_step C (ExternalArrive js) s = (s\<lparr>im_external := js\<rparr>, [], [])"
| "imports_step C (NativeArrive js) s = (s\<lparr>im_native := js\<rparr>, [], [])"
| "imports_step C OpenNew s = (settle_input (s\<lparr>im_open := True\<rparr>), [], [])"
| "imports_step C DismissNew s = (settle_input (reset_import (s\<lparr>im_open := False\<rparr>)), [], [])"
| "imports_step C CancelNew s = (settle_input (s\<lparr>im_open := False\<rparr>), [], [])"
| "imports_step C (ChoosePanel p) s = (set_form ((im_form s)\<lparr>if_panel := p, if_source := ''upload''\<rparr>) s, [], [])"
| "imports_step C (EditUsername t) s = (set_form ((im_form s)\<lparr>if_username := t\<rparr>) s, [], [])"
| "imports_step C (ChooseSource x) s = (set_form ((im_form s)\<lparr>if_source := x\<rparr>) s, [], [])"
| "imports_step C (EditUrl t) s = (set_form ((im_form s)\<lparr>if_url := t\<rparr>) s, [], [])"
| "imports_step C (ChooseFile f) s = (s\<lparr>im_file := f, im_input := f\<rparr>, [], [])"
| "imports_step C StartImport s = (s\<lparr>im_creating := True\<rparr>, [ApiPost (import_url (im_form s)) (cpanel_body s)], [])"
| "imports_step C (ImportQueued j) s =
     (settle_input (reset_import (open_details (queued_row (im_form s) j) (s\<lparr>im_creating := False, im_open := False\<rparr>))), [],
      [Toast Success ''Import queued'' (''Account '' @ js_String (jget j ''username'') @ '' will be restored in the background.''),
       Invalidate [''account-imports''], Invalidate [''boron-archive-imports'']])"
| "imports_step C (ImportRefused e) s = (s\<lparr>im_creating := False\<rparr>, [], [Toast ErrorTone ''Could not start import'' e])"
| "imports_step C (OpenDetails r) s = (open_details r s, [], [])"
| "imports_step C CloseDetails s = (close_details s, [], [])"
| "imports_step C ReadDetail s =
     (case im_selected s of None \<Rightarrow> (s, [], []) | Some r \<Rightarrow> (s\<lparr>im_reading := True\<rparr>, [ApiGet (detail_url r)], []))"
| "imports_step C (DetailArrives d) s =
     (s\<lparr>im_reading := False, im_detail := d,
        im_password := (if truthy (jget d ''initial_password'') then Some (js_String (jget d ''initial_password'')) else im_password s)\<rparr>,
      [], [])"
| "imports_step C DetailFails s = (s\<lparr>im_reading := False\<rparr>, [], [])"
| "imports_step C RetryImport s =
     (case shown_job C s of
        None \<Rightarrow> (s, [], [])
      | Some j \<Rightarrow>
          (let s1 = close_details s
           in if jget j ''source'' = JStr ''directadmin_remote'' then (s1\<lparr>im_remoteOpen := True\<rparr>, [], [])
              else (settle_input (s1\<lparr>im_form := \<lparr>if_username = json_text (jget j ''username''), if_panel = json_text (jget j ''panel''),
                                                if_source = ''upload'', if_url = []\<rparr>, im_open := True\<rparr>), [], [])))"
| "imports_step C ToggleRemote s = (s\<lparr>im_remoteOpen := \<not> im_remoteOpen s\<rparr>, [], [])"
| "imports_step C CloseRemote s = (s\<lparr>im_remoteOpen := False\<rparr>, [], [])"
| "imports_step C (RemoteQueued j) s = (open_details (remote_row j) s, [], [])"

section \<open>What is sent\<close>

text \<open>A new import has a name the server admits and comes from exactly one place, an address or the file the
  field on the screen holds.\<close>

definition import_request_ok :: "api_request \<Rightarrow> bool" where
  "import_request_ok r \<longleftrightarrow>
     (\<exists>url b u. r = ApiPost url b \<and> map_of b ''username'' = Some (JStr u) \<and> server_username u \<and>
        (map_of b ''url'' = None \<longleftrightarrow> map_of b ''file'' \<noteq> None) \<and>
        (url = ''/api/v1/admin/import/boron'' \<longleftrightarrow> map_of b ''panel'' = None)) \<or>
     (\<exists>j. r = ApiGet (detail_url j))"

definition imports_inv :: "import_page \<Rightarrow> bool" where
  "imports_inv s \<longleftrightarrow>
     (im_input s \<noteq> None \<longrightarrow> im_file s = im_input s) \<and> (im_password s \<noteq> None \<longrightarrow> im_selected s \<noteq> None) \<and>
     (im_reading s \<longrightarrow> im_selected s \<noteq> None)"

lemma name_trimmed:
  assumes "server_username u"
  shows "trim u = u"
proof -
  have space: "\<not> is_space c" if "is_lower c \<or> is_digit c" for c
    using that by (auto simp: is_space_def is_lower_def is_digit_def)
  obtain x xs where u: "u = x # xs" using assms by (cases u) (auto simp: server_username_def)
  have "list_all (\<lambda>c. \<not> is_space c) u" using assms space u by (auto simp: server_username_def list_all_iff)
  then have "\<not> is_space (hd u)" "\<not> is_space (last u)" using u by (auto simp: list_all_iff)
  then show ?thesis by (intro trim_id) simp_all
qed

lemmas import_state = settle_input_def set_form_def reset_import_def open_details_def close_details_def

lemma imports_start: "imports_inv initial_imports"
  by (simp add: imports_inv_def initial_imports_def)

lemma imports_keep: "imports_inv s \<Longrightarrow> imports_offered C V s e \<Longrightarrow> imports_inv (fst (imports_step C e s))"
  by (cases e) (auto simp: imports_inv_def import_state Let_def split: option.splits)

lemma imports_good:
  assumes "imports_inv s" "imports_offered C V s e"
  shows "list_all import_request_ok (fst (snd (imports_step C e s)))"
proof (cases e)
  case StartImport
  then have u: "server_username (if_username (im_form s))" using assms(2) by (simp add: import_submits_def new_name_is_servers)
  have chosen: "\<not> by_url (im_form s) \<Longrightarrow> im_file s \<noteq> None" using assms(2) StartImport by (simp add: canSubmit_def)
  have "import_request_ok (ApiPost (import_url (im_form s)) (cpanel_body s))"
    unfolding import_request_ok_def
    using u chosen name_trimmed[OF u]
    by (intro disjI1 exI[of _ "import_url (im_form s)"] exI[of _ "cpanel_body s"] exI[of _ "if_username (im_form s)"])
      (auto simp: cpanel_body_def import_url_def by_url_def)
  with StartImport show ?thesis by simp
qed (auto simp: import_request_ok_def Let_def split: option.split)

interpretation importing: page_contract initial_imports "imports_offered C V" "imports_step C" imports_inv import_request_ok for C V
  by unfold_locales (simp_all only: imports_start imports_keep imports_good)

lemma imports_valid:
  assumes "page_reach initial_imports (imports_offered C V) (imports_step C) s sent"
  shows "imports_inv s \<and> list_all import_request_ok sent"
  using importing.reach_inv[OF assms] by blast

text \<open>The file that is sent is the one the field on the screen holds, not one chosen in an earlier visit.\<close>

lemma sent_file_on_screen:
  assumes "imports_inv s" "imports_offered C V s StartImport" "\<not> by_url (im_form s)"
  shows "map_of (cpanel_body s) ''file'' = map_option JStr (im_input s)"
  using assms by (auto simp: imports_inv_def import_submits_def cpanel_body_def)

section \<open>The password of a new account\<close>

text \<open>What the server does when a job is read: its password is in the answer and gone from the job.\<close>

definition read_job :: "jsstring option \<Rightarrow> json \<Rightarrow> json \<times> jsstring option" where
  "read_job password job =
     (case password of
        None \<Rightarrow> (job, None)
      | Some p \<Rightarrow> if p = [] then (job, Some p) else (with_fields job [(''initial_password'', JStr p)], None))"

text \<open>Once shown it stays until the details are closed or others opened, whatever else is read.\<close>

lemma password_stays:
  assumes "im_password s = Some p" "imports_offered C V s e" "im_selected (fst (imports_step C e s)) = im_selected s"
    and "\<And>d. e = DetailArrives d \<Longrightarrow> \<not> truthy (jget d ''initial_password'')" "\<And>j. e \<noteq> RemoteQueued j" "\<And>j. e \<noteq> ImportQueued j"
    and "\<And>r. e \<noteq> OpenDetails r" "imports_inv s"
  shows "im_password (fst (imports_step C e s)) = Some p"
  using assms by (cases e) (auto simp: import_state Let_def imports_inv_def split: option.splits if_splits)

text \<open>Details that are closed while an answer is awaited lose the password for good: the server has forgotten it
  with the answer, and the page never looks at that answer.\<close>

lemma password_lost_on_close:
  assumes "im_selected s = Some r" "\<not> im_reading s" "p \<noteq> []"
    and "s1 = fst (imports_step C ReadDetail s)" "s2 = fst (imports_step C CloseDetails s1)"
  shows "imports_offered C V s ReadDetail \<and> imports_offered C V s1 CloseDetails \<and> snd (read_job (Some p) job) = None \<and>
    im_password s2 = None \<and> \<not> imports_offered C V s2 (DetailArrives (fst (read_job (Some p) job)))"
  using assms by (simp add: import_state read_job_def)

section \<open>Which job is shown\<close>

text \<open>After a job was queued its own details are shown, if the form was left alone.\<close>

lemma queued_details:
  assumes "if_panel (im_form s) = ''boron''"
  shows "\<exists>r. im_selected (fst (imports_step C (ImportQueued j) s)) = Some r \<and>
    detail_url r = ''/api/v1/admin/import/boron/'' @ js_String (jget j ''id'') \<and> jget r ''rowKey'' = jget (native_row j) ''rowKey''"
  using assms by (simp add: import_state queued_row_def detail_url_def native_row_def)

text \<open>But the dialog can be left while the archive is uploaded, which resets the form. The details of a Boron
  archive are then looked for among the other imports, under the same number.\<close>

lemma left_import_misdirected:
  assumes "im_creating s" "im_open s" "s1 = fst (imports_step C DismissNew s)"
  shows "imports_offered C V s1 (ImportQueued j) \<and>
    (\<exists>r. im_selected (fst (imports_step C (ImportQueued j) s1)) = Some r \<and> jget r ''rowKey'' = jget (external_row j) ''rowKey'' \<and>
         jget r ''panel'' = JStr ''cpanel'')"
  using assms by (simp add: import_state queued_row_def no_import_def external_row_def)

text \<open>An import that failed is tried again with its own name and format, from an archive.\<close>

lemma retry_prefills:
  assumes "shown_job C s = Some j" "jget j ''status'' = JStr ''failed''" "jget j ''source'' \<noteq> JStr ''directadmin_remote''"
    and "jget j ''username'' = JStr u" "jget j ''panel'' = JStr p"
  shows "imports_offered C V s RetryImport \<and>
    im_form (fst (imports_step C RetryImport s)) = \<lparr>if_username = u, if_panel = p, if_source = ''upload'', if_url = []\<rparr> \<and>
    im_open (fst (imports_step C RetryImport s)) \<and> im_selected (fst (imports_step C RetryImport s)) = None"
  using assms by (auto simp: import_state Let_def json_text_def)

end
