(* ===== verification/Wp_Install.thy ===== *)
theory Wp_Install
  imports Server_Checks Page_Machine
begin

text \<open>
  The first half of \<open>pages/WordPressManager.jsx\<close>: the wizard that installs WordPress (\<open>InstallWizard\<close>) and the
  passwords it makes up. The address it previews and the passwords are compared with the server
  (\<open>website_url\<close> in \<open>daemon/wordpress.py\<close>, \<open>validate_password_strength\<close>). \<open>valid_email\<close> is the browser's
  judgement, \<open>engine\<close> the text of the error a missing value throws.
\<close>

section \<open>Sites\<close>

definition site_text :: "json \<Rightarrow> jsstring \<Rightarrow> jsstring" where
  "site_text site k = js_String (jget site k)"

definition wp_base :: "json \<Rightarrow> jsstring" where
  "wp_base site =
     ''/api/v1/accounts/'' @ encodeURIComponent (site_text site ''username'') @ ''/domains/'' @
     encodeURIComponent (site_text site ''domain'') @ ''/wordpress''"

definition live_job :: "json \<Rightarrow> bool" where
  "live_job j \<longleftrightarrow> jget j ''status'' = JStr ''pending'' \<or> jget j ''status'' = JStr ''running''"

definition completed_job :: "json \<Rightarrow> bool" where
  "completed_job j \<longleftrightarrow> jget j ''status'' = JStr ''completed''"

section \<open>Passwords\<close>

definition wp_alphabet :: jsstring where
  "wp_alphabet = ''abcdefghijklmnopqrstuvwxyzABCDEFGHIJKLMNOPQRSTUVWXYZ0123456789''"

text \<open>\<open>bytes\<close> are the 22 random bytes.\<close>

definition wp_password :: "nat list \<Rightarrow> jsstring" where
  "wp_password bytes = ''Wp1!'' @ map (\<lambda>n. wp_alphabet ! (n mod 62)) bytes"

text \<open>What the server asks of a password.\<close>

definition server_password :: "jsstring \<Rightarrow> bool" where
  "server_password p \<longleftrightarrow>
     list_all (\<lambda>c. c \<noteq> CHR 0x00 \<and> c \<noteq> CHR 0x0D \<and> c \<noteq> CHR 0x0A) p \<and> 12 \<le> length p \<and> length p \<le> 256 \<and>
     toLowerCase p \<notin> set [''password'', ''password1'', ''password123'', ''12345678'', ''123456789'', ''1234567890'', ''qwertyuiop'',
        ''letmein123'', ''changeme123'', ''admin1234'', ''password1!'', ''password123!'', ''welcome123!'', ''iloveyou123''] \<and>
     2 \<le> length (remdups p) \<and> list_ex is_upper p \<and> list_ex is_lower p \<and> list_ex is_digit p \<and>
     list_ex (\<lambda>c. \<not> is_letter c \<and> \<not> is_digit c) p"

lemma alphabet_chars:
  "n < 62 \<Longrightarrow> is_letter (wp_alphabet ! n) \<or> is_digit (wp_alphabet ! n)"
proof -
  have "list_all (\<lambda>c. is_letter c \<or> is_digit c) wp_alphabet" "length wp_alphabet = 62" by code_simp+
  then show "n < 62 \<Longrightarrow> ?thesis" by (simp add: list_all_length)
qed

lemma password_chars: "c \<in> set (wp_password bytes) \<Longrightarrow> c = CHR ''!'' \<or> is_letter c \<or> is_digit c"
proof -
  have "is_letter (CHR ''W'')" "is_letter (CHR ''p'')" "is_digit (CHR ''1'')" by code_simp+
  moreover have "is_letter (wp_alphabet ! (n mod 62)) \<or> is_digit (wp_alphabet ! (n mod 62))" for n by (simp add: alphabet_chars)
  ultimately show "c \<in> set (wp_password bytes) \<Longrightarrow> ?thesis" by (auto simp: wp_password_def)
qed

lemma generated_password_admitted:
  assumes "length bytes = 22"
  shows "server_password (wp_password bytes)"
proof -
  let ?p = "wp_password bytes"
  have len: "length ?p = 26" using assms by (simp add: wp_password_def)
  have "\<not> (CHR 0x00 = CHR ''!'' \<or> is_letter (CHR 0x00) \<or> is_digit (CHR 0x00))" "\<not> (CHR 0x0D = CHR ''!'' \<or> is_letter (CHR 0x0D) \<or> is_digit (CHR 0x0D))"
    "\<not> (CHR 0x0A = CHR ''!'' \<or> is_letter (CHR 0x0A) \<or> is_digit (CHR 0x0A))" by code_simp+
  then have "list_all (\<lambda>c. c \<noteq> CHR 0x00 \<and> c \<noteq> CHR 0x0D \<and> c \<noteq> CHR 0x0A) ?p" using password_chars by (auto simp: list_all_iff)
  moreover have "toLowerCase ?p \<noteq> w" if "length w < 26" for w using len that by (auto simp: toLowerCase_def)
  moreover have "list_ex is_upper ''Wp1!''" "list_ex is_lower ''Wp1!''" "list_ex is_digit ''Wp1!''"
    "list_ex (\<lambda>c. \<not> is_letter c \<and> \<not> is_digit c) ''Wp1!''" by code_simp+
  then have "list_ex is_upper ?p" "list_ex is_lower ?p" "list_ex is_digit ?p" "list_ex (\<lambda>c. \<not> is_letter c \<and> \<not> is_digit c) ?p"
    unfolding wp_password_def list_ex_append by blast+
  moreover have "2 \<le> length (remdups ?p)"
  proof -
    have "card {CHR ''W'', CHR ''p''} \<le> card (set ?p)" by (rule card_mono) (simp_all add: wp_password_def)
    then show ?thesis by (simp add: length_remdups_card_conv)
  qed
  ultimately show ?thesis using len unfolding server_password_def by simp
qed

text \<open>The letters are not equally likely: five of the 256 bytes give the first, four the last.\<close>

lemma first_letter_likelier:
  "filter (\<lambda>n. n mod 62 = 0) [0..255] = [0, 62, 124, 186, 248 :: int]"
  "filter (\<lambda>n. n mod 62 = 61) [0..255] = [61, 123, 185, 247 :: int]"
  by code_simp+

section \<open>The form\<close>

record wp_form =
  wf_choice :: jsstring
  wf_path :: jsstring
  wf_address :: jsstring
  wf_title :: jsstring
  wf_user :: jsstring
  wf_email :: jsstring
  wf_pass :: jsstring

definition choice_of :: "json \<Rightarrow> jsstring" where
  "choice_of d = site_text d ''username'' @ '':'' @ site_text d ''domain''"

definition default_address :: "json \<Rightarrow> jsstring" where
  "default_address d = (if truthy (jget d ''https_ready'') then ''https'' else ''http'')"

definition find_choice :: "json list \<Rightarrow> jsstring \<Rightarrow> json option" where
  "find_choice domains c = List.find (\<lambda>d. choice_of d = c) domains"

definition initial_form :: "json list \<Rightarrow> jsstring \<Rightarrow> nat list \<Rightarrow> wp_form" where
  "initial_form domains preferred bytes =
     (let p = List.find (\<lambda>d. jget d ''domain'' = JStr preferred) domains
      in \<lparr>wf_choice = (case p of None \<Rightarrow> [] | Some d \<Rightarrow> choice_of d), wf_path = [],
          wf_address = (case p of None \<Rightarrow> ''http'' | Some d \<Rightarrow> default_address d), wf_title = [], wf_user = ''siteadmin'', wf_email = [],
          wf_pass = wp_password bytes\<rparr>)"

definition protocol_of :: "jsstring \<Rightarrow> jsstring" where
  "protocol_of a = (if startsWith a ''https'' then ''https'' else ''http'')"

definition strip_slashes :: "jsstring \<Rightarrow> jsstring" where
  "strip_slashes t = rev (dropWhile (\<lambda>c. c = CHR ''/'') (rev (dropWhile (\<lambda>c. c = CHR ''/'') t)))"

definition wizard_url :: "json option \<Rightarrow> wp_form \<Rightarrow> jsstring" where
  "wizard_url site f =
     (case site of
        None \<Rightarrow> []
      | Some d \<Rightarrow>
          protocol_of (wf_address f) @ ''://'' @ (if endsWith (wf_address f) ''www'' then ''www.'' else []) @ site_text d ''domain'' @
          (if wf_path f \<noteq> [] then ''/'' @ strip_slashes (wf_path f) else []))"

definition install_body :: "wp_form \<Rightarrow> body" where
  "install_body f =
     [(''path'', JStr (wf_path f)), (''protocol'', JStr (protocol_of (wf_address f))),
      (''use_www'', JBool (endsWith (wf_address f) ''www'')), (''title'', JStr (wf_title f)), (''admin_user'', JStr (wf_user f)),
      (''admin_email'', JStr (wf_email f)), (''admin_password'', JStr (wf_pass f))]"

definition folder_ok :: "jsstring \<Rightarrow> bool" where
  "folder_ok t \<longleftrightarrow> list_all (\<lambda>c. is_letter c \<or> is_digit c \<or> c = CHR ''_'' \<or> c = CHR ''-'') t"

definition user_ok :: "jsstring \<Rightarrow> bool" where
  "user_ok t \<longleftrightarrow> t \<noteq> [] \<and> list_all (\<lambda>c. is_letter c \<or> is_digit c \<or> c \<in> set ''_.-'') t"

text \<open>The address the server installs at, from the request.\<close>

definition server_url :: "jsstring \<Rightarrow> body \<Rightarrow> jsstring" where
  "server_url domain b =
     (case (map_of b ''protocol'', map_of b ''use_www'', map_of b ''path'') of
        (Some (JStr p), Some (JBool w), Some (JStr t)) \<Rightarrow>
          p @ ''://'' @ (if w then ''www.'' else []) @ domain @ (let u = strip_slashes (trim t) in if u \<noteq> [] then ''/'' @ strip_slashes u else [])
      | _ \<Rightarrow> [])"

lemma strip_plain: "list_all (\<lambda>c. c \<noteq> CHR ''/'') t \<Longrightarrow> strip_slashes t = t"
proof -
  assume t: "list_all (\<lambda>c. c \<noteq> CHR ''/'') t"
  then have "dropWhile (\<lambda>c. c = CHR ''/'') t = t" by (cases t) simp_all
  moreover have "list_all (\<lambda>c. c \<noteq> CHR ''/'') (rev t)" using t by (simp add: list_all_iff)
  then have "dropWhile (\<lambda>c. c = CHR ''/'') (rev t) = rev t" by (cases "rev t") simp_all
  ultimately show ?thesis by (simp add: strip_slashes_def)
qed

lemma folder_plain:
  assumes "folder_ok t"
  shows "strip_slashes t = t" "trim t = t"
proof -
  have "\<not> (is_letter (CHR ''/'') \<or> is_digit (CHR ''/'') \<or> CHR ''/'' = CHR ''_'' \<or> CHR ''/'' = CHR ''-'')" by code_simp
  then have "list_all (\<lambda>c. c \<noteq> CHR ''/'') t" using assms unfolding folder_ok_def list_all_iff by metis
  then show "strip_slashes t = t" by (rule strip_plain)
  have "\<not> is_space c" if "is_letter c \<or> is_digit c \<or> c = CHR ''_'' \<or> c = CHR ''-''" for c
    using that by (auto simp: is_space_def is_letter_def is_lower_def is_upper_def is_digit_def code_def)
  then have s: "list_all (\<lambda>c. \<not> is_space c) t" using assms unfolding folder_ok_def list_all_iff by metis
  show "trim t = t" by (rule trim_id) (use s in \<open>auto simp: list_all_iff\<close>)
qed

text \<open>The wizard previews the address the server will use.\<close>

lemma preview_is_server_url:
  assumes "folder_ok (wf_path f)"
  shows "wizard_url (Some d) f = server_url (site_text d ''domain'') (install_body f)"
  using folder_plain[OF assms] by (simp add: wizard_url_def server_url_def install_body_def Let_def)

section \<open>The wizard\<close>

record wizard =
  wz_domains :: "json list"
  wz_step :: nat
  wz_form :: wp_form
  wz_error :: "jsstring option"
  wz_pending :: bool
  wz_job :: json
  wz_open :: bool

definition open_wizard :: "json list \<Rightarrow> jsstring \<Rightarrow> nat list \<Rightarrow> wizard" where
  "open_wizard domains preferred bytes =
     \<lparr>wz_domains = domains, wz_step = 0, wz_form = initial_form domains preferred bytes, wz_error = None, wz_pending = False,
      wz_job = JNull, wz_open = True\<rparr>"

definition wizard_site :: "wizard \<Rightarrow> json option" where
  "wizard_site s = find_choice (wz_domains s) (wf_choice (wz_form s))"

definition wizard_busy :: "wizard \<Rightarrow> bool" where
  "wizard_busy s \<longleftrightarrow> wz_pending s \<or> live_job (wz_job s)"

datatype wizard_field = WPath | WAddress | WTitle | WUser | WEmail | WPass

fun put_wizard :: "wizard_field \<Rightarrow> jsstring \<Rightarrow> wp_form \<Rightarrow> wp_form" where
  "put_wizard WPath t f = f\<lparr>wf_path := t\<rparr>"
| "put_wizard WAddress t f = f\<lparr>wf_address := t\<rparr>"
| "put_wizard WTitle t f = f\<lparr>wf_title := t\<rparr>"
| "put_wizard WUser t f = f\<lparr>wf_user := t\<rparr>"
| "put_wizard WEmail t f = f\<lparr>wf_email := t\<rparr>"
| "put_wizard WPass t f = f\<lparr>wf_pass := t\<rparr>"

definition location_fields :: "wizard_field list" where
  "location_fields = [WPath, WAddress]"

definition account_fields :: "wizard_field list" where
  "account_fields = [WTitle, WUser, WEmail, WPass]"

definition addresses :: "jsstring list" where
  "addresses = [''https'', ''https-www'', ''http'', ''http-www'']"

definition account_ok :: "(jsstring \<Rightarrow> bool) \<Rightarrow> wp_form \<Rightarrow> bool" where
  "account_ok valid_email f \<longleftrightarrow>
     wf_title f \<noteq> [] \<and> user_ok (wf_user f) \<and> wf_email f \<noteq> [] \<and> valid_email (wf_email f) \<and> 12 \<le> length (wf_pass f)"

datatype wizard_event =
    DomainsArrive "json list"
  | ChooseSite jsstring
  | EditField wizard_field jsstring
  | MakePassword "nat list"
  | NextStep
  | BackStep
  | Install
  | InstallStarted json
  | InstallFails jsstring
  | InstallRead json
  | CloseWizard

fun wizard_offered :: "(jsstring \<Rightarrow> bool) \<Rightarrow> wizard \<Rightarrow> wizard_event \<Rightarrow> bool" where
  "wizard_offered E s (DomainsArrive ds) = True"
| "wizard_offered E s (ChooseSite c) =
     (wz_open s \<and> \<not> completed_job (wz_job s) \<and> wz_step s = 0 \<and> (c = [] \<or> find_choice (wz_domains s) c \<noteq> None))"
| "wizard_offered E s (EditField k t) =
     (wz_open s \<and> \<not> completed_job (wz_job s) \<and>
      (wz_step s = 0 \<and> k \<in> set location_fields \<and> (k = WAddress \<longrightarrow> t \<in> set addresses) \<or> wz_step s = 1 \<and> k \<in> set account_fields))"
| "wizard_offered E s (MakePassword bs) = (wz_open s \<and> \<not> completed_job (wz_job s) \<and> wz_step s = 1 \<and> length bs = 22)"
| "wizard_offered E s NextStep =
     (wz_open s \<and> \<not> completed_job (wz_job s) \<and>
      (wz_step s = 0 \<and> wf_choice (wz_form s) \<noteq> [] \<or> wz_step s = 1 \<and> account_ok E (wz_form s)))"
| "wizard_offered E s BackStep = (wz_open s \<and> \<not> completed_job (wz_job s) \<and> \<not> wizard_busy s)"
| "wizard_offered E s Install = (wz_open s \<and> \<not> completed_job (wz_job s) \<and> wz_step s = 2 \<and> \<not> wizard_busy s)"
| "wizard_offered E s (InstallStarted j) = wz_pending s"
| "wizard_offered E s (InstallFails e) = wz_pending s"
| "wizard_offered E s (InstallRead j) = (wz_open s \<and> \<not> wz_pending s \<and> live_job (wz_job s))"
| "wizard_offered E s CloseWizard = (wz_open s \<and> \<not> wizard_busy s)"

definition inventory_key :: page_effect where
  "inventory_key = Invalidate [''wordpress-inventory'']"

fun wizard_step :: "jsstring \<Rightarrow> (wizard_event, wizard) page_step" where
  "wizard_step engine (DomainsArrive ds) s = (s\<lparr>wz_domains := ds\<rparr>, [], [])"
| "wizard_step engine (ChooseSite c) s =
     (s\<lparr>wz_form := (wz_form s)\<lparr>wf_choice := c,
          wf_address := (case find_choice (wz_domains s) c of None \<Rightarrow> wf_address (wz_form s) | Some d \<Rightarrow> default_address d)\<rparr>\<rparr>, [], [])"
| "wizard_step engine (EditField k t) s = (s\<lparr>wz_form := put_wizard k t (wz_form s)\<rparr>, [], [])"
| "wizard_step engine (MakePassword bs) s = (s\<lparr>wz_form := (wz_form s)\<lparr>wf_pass := wp_password bs\<rparr>\<rparr>, [], [])"
| "wizard_step engine NextStep s =
     (if wizard_site s = None then (s\<lparr>wz_error := Some ''Choose a domain first.''\<rparr>, [], [])
      else if \<not> folder_ok (wf_path (wz_form s))
      then (s\<lparr>wz_error := Some ''Use a single folder name with letters, numbers, hyphens or underscores.''\<rparr>, [], [])
      else (s\<lparr>wz_error := None, wz_step := Suc (wz_step s)\<rparr>, [], []))"
| "wizard_step engine BackStep s =
     (if wz_step s = 0 then s\<lparr>wz_open := False\<rparr> else s\<lparr>wz_step := wz_step s - 1\<rparr>, [], [])"
| "wizard_step engine Install s =
     (case wizard_site s of
        None \<Rightarrow> (s\<lparr>wz_error := Some engine\<rparr>, [], [])
      | Some d \<Rightarrow> (s\<lparr>wz_pending := True, wz_error := None\<rparr>, [ApiPost (wp_base d) (install_body (wz_form s))], []))"
| "wizard_step engine (InstallStarted j) s = (s\<lparr>wz_pending := False, wz_job := j\<rparr>, [], [])"
| "wizard_step engine (InstallFails e) s = (s\<lparr>wz_pending := False, wz_error := Some e\<rparr>, [], [])"
| "wizard_step engine (InstallRead j) s = (s\<lparr>wz_job := j\<rparr>, [], if completed_job j then [inventory_key] else [])"
| "wizard_step engine CloseWizard s = (s\<lparr>wz_open := False\<rparr>, [], [])"

text \<open>At the last step everything was checked: the folder on the way from the first, the account on the way from
  the second, and neither can be edited without coming by again.\<close>

definition wizard_inv :: "(jsstring \<Rightarrow> bool) \<Rightarrow> wizard \<Rightarrow> bool" where
  "wizard_inv E s \<longleftrightarrow>
     wz_step s \<le> 2 \<and> (wz_step s \<noteq> 0 \<longrightarrow> folder_ok (wf_path (wz_form s))) \<and> (wz_step s = 2 \<longrightarrow> account_ok E (wz_form s))"

definition wizard_request_ok :: "(jsstring \<Rightarrow> bool) \<Rightarrow> api_request \<Rightarrow> bool" where
  "wizard_request_ok E r \<longleftrightarrow>
     (\<exists>d f. folder_ok (wf_path f) \<and> account_ok E f \<and> r = ApiPost (wp_base d) (install_body f) \<and>
        wizard_url (Some d) f = server_url (site_text d ''domain'') (install_body f))"

lemma wizard_start: "wizard_inv E (open_wizard domains preferred bytes)"
  by (simp add: wizard_inv_def open_wizard_def)

lemma put_keeps_account: "k \<in> set location_fields \<Longrightarrow> account_ok E (put_wizard k t f) = account_ok E f"
  by (auto simp: location_fields_def account_ok_def)

lemma put_keeps_path: "k \<in> set account_fields \<Longrightarrow> wf_path (put_wizard k t f) = wf_path f"
  by (auto simp: account_fields_def)

lemma wizard_keep: "wizard_inv E s \<Longrightarrow> wizard_offered E s e \<Longrightarrow> wizard_inv E (fst (wizard_step engine e s))"
proof (cases e)
  case (EditField k t)
  then show "wizard_inv E s \<Longrightarrow> wizard_offered E s e \<Longrightarrow> ?thesis" using put_keeps_path by (auto simp: wizard_inv_def)
qed (auto simp: wizard_inv_def split: option.splits)

lemma wizard_good: "wizard_inv E s \<Longrightarrow> wizard_offered E s e \<Longrightarrow> list_all (wizard_request_ok E) (fst (snd (wizard_step engine e s)))"
proof (cases e)
  case Install
  then show "wizard_inv E s \<Longrightarrow> wizard_offered E s e \<Longrightarrow> ?thesis"
    using preview_is_server_url by (auto simp: wizard_inv_def wizard_request_ok_def split: option.splits)
qed auto

interpretation wizard: page_contract "open_wizard domains preferred bytes" "wizard_offered E" "wizard_step engine" "wizard_inv E"
    "wizard_request_ok E" for domains preferred bytes E engine
  by unfold_locales (simp_all only: wizard_start wizard_keep wizard_good)

lemma installs_checked:
  assumes "page_reach (open_wizard domains preferred bytes) (wizard_offered E) (wizard_step engine) s sent"
  shows "list_all (wizard_request_ok E) sent"
  using wizard.reach_inv[OF assms] by blast

text \<open>A password can be long enough for the wizard and still be refused.\<close>

lemma plain_password_refused:
  assumes "wf_pass f = ''abcdefghijkl''" "wf_title f = ''Blog''" "wf_user f = ''siteadmin''" "wf_email f = ''a@b.example''" "E ''a@b.example''"
  shows "account_ok E f \<and> \<not> server_password (wf_pass f)"
proof -
  have "\<not> server_password ''abcdefghijkl''" "user_ok ''siteadmin''" by code_simp+
  then show ?thesis using assms by (simp add: account_ok_def)
qed

end
