(* ===== verification/Wp_Sites.thy ===== *)
theory Wp_Sites
  imports Wp_Install Search
begin

text \<open>
  The second half of \<open>pages/WordPressManager.jsx\<close>: the list of installations, and the dialog that manages one
  (\<open>SiteManager\<close>). Its operations run as jobs that are read every two seconds; what a finished job changed is
  told from its command. The lists of extensions are kept for thirty seconds. \<open>parse_json\<close> reads the text
  a job printed. The buttons of the dialog are disabled while a job runs, so at most one does.
\<close>

section \<open>The dialog of one installation\<close>

record wp_confirm =
  wc_action :: jsstring
  wc_fields :: body
  wc_cli :: bool

record site_manager =
  sm_tab :: jsstring
  sm_job :: json
  sm_error :: "jsstring option"
  sm_acting :: bool \<comment> \<open>an operation is being started\<close>
  sm_removing :: bool \<comment> \<open>the removal is being asked for\<close>
  sm_result :: json
  sm_backups :: "json list"
  sm_target :: jsstring
  sm_address :: jsstring
  sm_folder :: jsstring
  sm_confirm :: "wp_confirm option"
  sm_mode :: jsstring
  sm_typed :: jsstring
  sm_cache :: "jsstring \<Rightarrow> (json \<times> int) option" \<comment> \<open>of this installation, by kind: the list and when it expires\<close>
  sm_open :: bool

definition site_address :: "json \<Rightarrow> jsstring" where
  "site_address site = site_text site ''domain'' @ (if truthy (jget site ''path'') then ''/'' @ site_text site ''path'' else [])"

text \<open>\<open>www\<close>: the host of the site's address is the domain with the prefix.\<close>

definition open_manager :: "json \<Rightarrow> bool \<Rightarrow> (jsstring \<Rightarrow> (json \<times> int) option) \<Rightarrow> site_manager" where
  "open_manager site www cache =
     \<lparr>sm_tab = ''overview'', sm_job = JNull, sm_error = None, sm_acting = False, sm_removing = False, sm_result = JNull, sm_backups = [],
      sm_target = site_text site ''domain'',
      sm_address = (if startsWith (site_text site ''url'') ''https:'' then ''https'' else ''http'') @ (if www then ''-www'' else []),
      sm_folder = (if truthy (jget site ''path'') then site_text site ''path'' @ ''-copy'' else ''staging''),
      sm_confirm = None, sm_mode = ''soft'', sm_typed = [], sm_cache = cache, sm_open = True\<rparr>"

definition manager_busy :: "site_manager \<Rightarrow> bool" where
  "manager_busy s \<longleftrightarrow> sm_acting s \<or> sm_removing s \<or> live_job (sm_job s)"

definition manager_tabs :: "jsstring list" where
  "manager_tabs = [''overview'', ''plugins'', ''themes'', ''backups'', ''clone'', ''remove'']"

definition extension_tabs :: "jsstring list" where
  "extension_tabs = [''plugins'', ''themes'']"

definition list_action :: "jsstring \<Rightarrow> jsstring" where
  "list_action kind = (if kind = ''plugins'' then ''plugin_list'' else ''theme_list'')"

definition extension_ms :: int where
  "extension_ms = 30000"

definition act_request :: "json \<Rightarrow> jsstring \<Rightarrow> body \<Rightarrow> bool \<Rightarrow> api_request" where
  "act_request site action fs cli =
     ApiPost (wp_base site @ ''/'' @ (if cli then ''actions'' else ''manage''))
       ([(''path'', jget site ''path''), (''action'', JStr action)] @ fs)"

definition start_act :: "site_manager \<Rightarrow> site_manager" where
  "start_act s = s\<lparr>sm_acting := True, sm_error := None, sm_result := JNull\<rparr>"

type_synonym manager_result = "site_manager \<times> api_request list \<times> page_effect list"

definition manage_act :: "json \<Rightarrow> jsstring \<Rightarrow> body \<Rightarrow> bool \<Rightarrow> site_manager \<Rightarrow> manager_result" where
  "manage_act site action fs cli s = (start_act s, [act_request site action fs cli], [])"

definition visit_tab :: "json \<Rightarrow> jsstring \<Rightarrow> bool \<Rightarrow> int \<Rightarrow> site_manager \<Rightarrow> manager_result" where
  "visit_tab site t force now s =
     (let s1 = s\<lparr>sm_tab := t, sm_result := JNull, sm_job := JNull\<rparr>
      in if t = ''backups'' then manage_act site ''backups'' [] False s1
         else if t \<in> set extension_tabs
         then (case sm_cache s t of
                 Some (d, expires) \<Rightarrow>
                   if \<not> force \<and> now < expires then (s1\<lparr>sm_result := d\<rparr>, [], [])
                   else manage_act site (list_action t) [] True (s1\<lparr>sm_cache := (sm_cache s)(t := None)\<rparr>)
               | None \<Rightarrow> manage_act site (list_action t) [] True s1)
         else (s1, [], []))"

text \<open>What a finished job did, from its command.\<close>

definition dry_run :: "jsstring \<Rightarrow> bool" where
  "dry_run command \<longleftrightarrow> js_includes command '' --dry-run''"

definition changed_kind :: "jsstring \<Rightarrow> jsstring option" where
  "changed_kind command =
     (if dry_run command then None
      else if startsWith command ''wp plugin '' \<and> \<not> startsWith command ''wp plugin list'' then Some ''plugins''
      else if startsWith command ''wp theme '' \<and> \<not> startsWith command ''wp theme list'' then Some ''themes'' else None)"

definition parseWpResult :: "(jsstring \<Rightarrow> json option) \<Rightarrow> json \<Rightarrow> jsstring + json" where
  "parseWpResult parse_json job =
     (case parse_json (if truthy (jget job ''stdout'') then js_String (jget job ''stdout'') else ''null'') of
        Some v \<Rightarrow> Inr v
      | None \<Rightarrow>
          Inl (or_string (if nullish (jget job ''stderr'') then None else Some (trim (js_String (jget job ''stderr''))))
                 ''WordPress returned an unreadable response. Review the site PHP error log and try again.''))"

definition is_array :: "json \<Rightarrow> bool" where
  "is_array v \<longleftrightarrow> (case v of JArr xs \<Rightarrow> True | _ \<Rightarrow> False)"

text \<open>\<open>new Map(data.map(item => [item.name, item]))\<close>: the last of several items of one name.\<close>

definition update_of :: "json list \<Rightarrow> json \<Rightarrow> json option" where
  "update_of updates name = map_of (rev (map (\<lambda>u. (jget u ''name'', u)) updates)) name"

definition merge_update :: "json list \<Rightarrow> json \<Rightarrow> json" where
  "merge_update updates item =
     (case update_of updates (jget item ''name'') of
        None \<Rightarrow> item
      | Some u \<Rightarrow>
          with_fields item [(''update'', JStr ''available''), (''update_version'', js_or (jget u ''new_version'') (jget item ''update_version''))])"

definition installed_list :: "site_manager \<Rightarrow> json list" where
  "installed_list s =
     (if is_array (sm_result s) then json_list (sm_result s)
      else case sm_cache s (sm_tab s) of Some (d, x) \<Rightarrow> json_list d | None \<Rightarrow> [])"

definition job_error :: "jsstring \<Rightarrow> site_manager \<Rightarrow> site_manager" where
  "job_error e s = s\<lparr>sm_result := JNull, sm_error := Some e\<rparr>"

definition keep_list :: "json \<Rightarrow> int \<Rightarrow> site_manager \<Rightarrow> site_manager" where
  "keep_list d now s = s\<lparr>sm_cache := (sm_cache s)(sm_tab s := Some (d, now + extension_ms))\<rparr>"

definition new_backups :: "json \<Rightarrow> json list \<Rightarrow> json list" where
  "new_backups d old =
     (if truthy (jget d ''backups'') then json_list (jget d ''backups'')
      else if truthy (jget d ''name'') \<and> truthy (jget d ''created_at'')
      then d # filter (\<lambda>b. jget b ''name'' \<noteq> jget d ''name'') old else old)"

definition job_done :: "(jsstring \<Rightarrow> json option) \<Rightarrow> json \<Rightarrow> json \<Rightarrow> int \<Rightarrow> site_manager \<Rightarrow> manager_result" where
  "job_done parse_json site j now s =
     (let command = json_text (jget j ''command'')
      in case changed_kind command of
           Some k \<Rightarrow> manage_act site (list_action k) [] True (s\<lparr>sm_cache := (sm_cache s)(k := None), sm_job := JNull\<rparr>)
         | None \<Rightarrow>
             (case parseWpResult parse_json j of
                Inl e \<Rightarrow> (job_error e s, [], [])
              | Inr d \<Rightarrow>
                  if sm_tab s \<in> set extension_tabs \<and> \<not> is_array d
                  then (job_error (if dry_run command then ''WordPress did not return an update list for '' @ sm_tab s @ ''.''
                          else ''WordPress did not return an installed '' @ sm_tab s @ '' list. Try again or review the site PHP error log.'') s,
                        [], [])
                  else if dry_run command \<and> sm_tab s \<in> set extension_tabs
                  then (let merged = JArr (map (merge_update (json_list d)) (installed_list s))
                        in ((keep_list merged now s)\<lparr>sm_result := merged, sm_job := JNull\<rparr>, [], []))
                  else ((if sm_tab s \<in> set extension_tabs then keep_list d now s else s)
                          \<lparr>sm_result := d, sm_backups := new_backups d (sm_backups s)\<rparr>,
                        [], [inventory_key])))"

datatype manager_event =
    ChooseTab jsstring int
  | RefreshList int
  | CheckUpdates
  | ToggleExtension json
  | ClearCache
  | Maintenance bool
  | BackupNow
  | RefreshBackups
  | CloneSite
  | EditTarget jsstring
  | EditTargetAddress jsstring
  | EditFolder jsstring
  | AskCoreUpdate
  | AskUpdateAll
  | AskRestore json
  | WithdrawAsk
  | ConfirmAsk
  | ActAnswered json
  | ActFails jsstring
  | JobRead json int
  | ChooseMode jsstring
  | TypeAddress jsstring
  | RemoveSite
  | RemoveAnswered json
  | RemoveFails jsstring
  | CloseManager

definition can_remove :: "json \<Rightarrow> site_manager \<Rightarrow> bool" where
  "can_remove site s \<longleftrightarrow>
     \<not> manager_busy s \<and> \<not> completed_job (sm_job s) \<and> (sm_mode s = ''hard'' \<longrightarrow> sm_typed s = site_address site)"

definition at_rest :: "site_manager \<Rightarrow> bool" where
  "at_rest s \<longleftrightarrow> sm_open s \<and> sm_confirm s = None \<and> \<not> manager_busy s"

fun manager_offered :: "json \<Rightarrow> jsstring list \<Rightarrow> site_manager \<Rightarrow> manager_event \<Rightarrow> bool" where
  "manager_offered site ds s (ChooseTab t now) = (at_rest s \<and> t \<in> set manager_tabs)"
| "manager_offered site ds s (RefreshList now) = (at_rest s \<and> sm_tab s \<in> set extension_tabs)"
| "manager_offered site ds s CheckUpdates = (at_rest s \<and> sm_tab s \<in> set extension_tabs \<and> is_array (sm_result s))"
| "manager_offered site ds s (ToggleExtension x) =
     (at_rest s \<and> sm_tab s \<in> set extension_tabs \<and> x \<in> set (json_list (sm_result s)) \<and>
      \<not> (sm_tab s = ''themes'' \<and> jget x ''status'' = JStr ''active''))"
| "manager_offered site ds s ClearCache = (at_rest s \<and> sm_tab s = ''overview'')"
| "manager_offered site ds s (Maintenance b) = (at_rest s \<and> sm_tab s = ''overview'')"
| "manager_offered site ds s BackupNow = (at_rest s \<and> sm_tab s = ''backups'')"
| "manager_offered site ds s RefreshBackups = (at_rest s \<and> sm_tab s = ''backups'')"
| "manager_offered site ds s CloneSite = (at_rest s \<and> sm_tab s = ''clone'' \<and> sm_target s \<noteq> [])"
| "manager_offered site ds s (EditTarget t) = (sm_open s \<and> sm_confirm s = None \<and> sm_tab s = ''clone'' \<and> (t = [] \<or> t \<in> set ds))"
| "manager_offered site ds s (EditTargetAddress t) = (sm_open s \<and> sm_confirm s = None \<and> sm_tab s = ''clone'' \<and> t \<in> set addresses)"
| "manager_offered site ds s (EditFolder t) = (sm_open s \<and> sm_confirm s = None \<and> sm_tab s = ''clone'')"
| "manager_offered site ds s AskCoreUpdate = (at_rest s \<and> sm_tab s = ''overview'')"
| "manager_offered site ds s AskUpdateAll = (at_rest s \<and> sm_tab s \<in> set extension_tabs)"
| "manager_offered site ds s (AskRestore b) = (at_rest s \<and> sm_tab s = ''backups'' \<and> b \<in> set (sm_backups s))"
| "manager_offered site ds s WithdrawAsk = (sm_confirm s \<noteq> None)"
| "manager_offered site ds s ConfirmAsk = (sm_confirm s \<noteq> None)"
| "manager_offered site ds s (ActAnswered j) = sm_acting s"
| "manager_offered site ds s (ActFails e) = sm_acting s"
| "manager_offered site ds s (JobRead j now) = (sm_open s \<and> live_job (sm_job s))"
| "manager_offered site ds s (ChooseMode m) = (at_rest s \<and> sm_tab s = ''remove'' \<and> m \<in> set [''soft'', ''hard''])"
| "manager_offered site ds s (TypeAddress t) = (sm_open s \<and> sm_confirm s = None \<and> sm_tab s = ''remove'' \<and> sm_mode s = ''hard'')"
| "manager_offered site ds s RemoveSite = (sm_open s \<and> sm_confirm s = None \<and> sm_tab s = ''remove'' \<and> can_remove site s)"
| "manager_offered site ds s (RemoveAnswered j) = sm_removing s"
| "manager_offered site ds s (RemoveFails e) = sm_removing s"
| "manager_offered site ds s CloseManager = (sm_open s \<and> \<not> manager_busy s)"

definition toggle_action :: "jsstring \<Rightarrow> json \<Rightarrow> jsstring" where
  "toggle_action tab x =
     (if tab = ''plugins'' then ''plugin'' else ''theme'') @ ''_'' @
     (if jget x ''status'' = JStr ''active'' \<and> tab = ''plugins'' then ''deactivate'' else ''activate'')"

definition clone_fields :: "site_manager \<Rightarrow> body" where
  "clone_fields s =
     [(''target_domain'', JStr (sm_target s)), (''target_path'', JStr (sm_folder s)),
      (''target_protocol'', JStr (protocol_of (sm_address s))), (''target_www'', JBool (endsWith (sm_address s) ''www''))]"

definition remove_request :: "json \<Rightarrow> site_manager \<Rightarrow> api_request" where
  "remove_request site s =
     ApiPost (wp_base site @ ''/remove'')
       [(''path'', jget site ''path''), (''mode'', JStr (sm_mode s)), (''confirmation'', JStr (sm_typed s))]"

fun manager_step :: "(jsstring \<Rightarrow> json option) \<Rightarrow> json \<Rightarrow> (manager_event, site_manager) page_step" where
  "manager_step P site (ChooseTab t now) s = visit_tab site t False now s"
| "manager_step P site (RefreshList now) s = visit_tab site (sm_tab s) True now s"
| "manager_step P site CheckUpdates s =
     manage_act site (if sm_tab s = ''plugins'' then ''plugin_check_updates'' else ''theme_check_updates'') [] True s"
| "manager_step P site (ToggleExtension x) s = manage_act site (toggle_action (sm_tab s) x) [(''name'', jget x ''name'')] True s"
| "manager_step P site ClearCache s = manage_act site ''cache_flush'' [] True s"
| "manager_step P site (Maintenance b) s = manage_act site (if b then ''maintenance_on'' else ''maintenance_off'') [] True s"
| "manager_step P site BackupNow s = manage_act site ''backup'' [] False s"
| "manager_step P site RefreshBackups s = manage_act site ''backups'' [] False s"
| "manager_step P site CloneSite s = manage_act site ''clone'' (clone_fields s) False s"
| "manager_step P site (EditTarget t) s = (s\<lparr>sm_target := t\<rparr>, [], [])"
| "manager_step P site (EditTargetAddress t) s = (s\<lparr>sm_address := t\<rparr>, [], [])"
| "manager_step P site (EditFolder t) s = (s\<lparr>sm_folder := t\<rparr>, [], [])"
| "manager_step P site AskCoreUpdate s = (s\<lparr>sm_confirm := Some \<lparr>wc_action = ''core_update'', wc_fields = [], wc_cli = True\<rparr>\<rparr>, [], [])"
| "manager_step P site AskUpdateAll s =
     (s\<lparr>sm_confirm := Some \<lparr>wc_action = (if sm_tab s = ''plugins'' then ''plugin_update'' else ''theme_update''),
                             wc_fields = [(''all'', JBool True)], wc_cli = True\<rparr>\<rparr>, [], [])"
| "manager_step P site (AskRestore b) s =
     (s\<lparr>sm_confirm := Some \<lparr>wc_action = ''restore'', wc_fields = [(''backup'', jget b ''name''), (''confirm'', JBool True)], wc_cli = False\<rparr>\<rparr>,
      [], [])"
| "manager_step P site WithdrawAsk s = (s\<lparr>sm_confirm := None\<rparr>, [], [])"
| "manager_step P site ConfirmAsk s =
     (case sm_confirm s of
        None \<Rightarrow> (s, [], [])
      | Some q \<Rightarrow> manage_act site (wc_action q) (wc_fields q) (wc_cli q) (s\<lparr>sm_confirm := None\<rparr>))"
| "manager_step P site (ActAnswered j) s = (s\<lparr>sm_acting := False, sm_job := j\<rparr>, [], [])"
| "manager_step P site (ActFails e) s = (s\<lparr>sm_acting := False, sm_error := Some e\<rparr>, [], [])"
| "manager_step P site (JobRead j now) s =
     (let s1 = s\<lparr>sm_job := j\<rparr> in if completed_job j then job_done P site j now s1 else (s1, [], []))"
| "manager_step P site (ChooseMode m) s = (s\<lparr>sm_mode := m, sm_typed := []\<rparr>, [], [])"
| "manager_step P site (TypeAddress t) s = (s\<lparr>sm_typed := t\<rparr>, [], [])"
| "manager_step P site RemoveSite s = (s\<lparr>sm_removing := True, sm_error := None\<rparr>, [remove_request site s], [])"
| "manager_step P site (RemoveAnswered j) s =
     (if jget j ''status'' = JStr ''removed'' then (s\<lparr>sm_removing := False, sm_open := False\<rparr>, [], [inventory_key])
      else (s\<lparr>sm_removing := False, sm_job := j\<rparr>, [], []))"
| "manager_step P site (RemoveFails e) s = (s\<lparr>sm_removing := False, sm_error := Some e\<rparr>, [], [])"
| "manager_step P site CloseManager s = (s\<lparr>sm_open := False\<rparr>, [], [])"

section \<open>What is sent\<close>

text \<open>Restoring, updating the core and updating everything are only done by the answer to their question.\<close>

definition grave_actions :: "jsstring list" where
  "grave_actions = [''restore'', ''core_update'', ''plugin_update'', ''theme_update'']"

definition grave :: "api_request \<Rightarrow> api_request list" where
  "grave r =
     (case r of
        ApiPost url b \<Rightarrow> if list_ex (\<lambda>a. map_of b ''action'' = Some (JStr a)) grave_actions then [r] else []
      | _ \<Rightarrow> [])"

inductive consent :: "api_request option \<Rightarrow> api_request list \<Rightarrow> api_request option \<Rightarrow> bool" where
  idle: "consent q [] q"
| ask: "consent None [] (Some r)"
| withdraw: "consent (Some r) [] None"
| agree: "consent (Some r) [r] None"

definition asked_request :: "json \<Rightarrow> site_manager \<Rightarrow> api_request option" where
  "asked_request site s = map_option (\<lambda>q. act_request site (wc_action q) (wc_fields q) (wc_cli q)) (sm_confirm s)"

definition manager_inv :: "site_manager \<Rightarrow> bool" where
  "manager_inv s \<longleftrightarrow> (case sm_confirm s of None \<Rightarrow> True | Some q \<Rightarrow> wc_action q \<in> set grave_actions \<and> \<not> manager_busy s)"

text \<open>A permanent removal carries the address of the installation, as the server wants it.\<close>

definition server_removes :: "json \<Rightarrow> body \<Rightarrow> bool" where
  "server_removes site b \<longleftrightarrow>
     map_of b ''mode'' = Some (JStr ''soft'') \<or>
     map_of b ''mode'' = Some (JStr ''hard'') \<and> map_of b ''confirmation'' = Some (JStr (site_address site))"

definition manager_request_ok :: "json \<Rightarrow> api_request \<Rightarrow> bool" where
  "manager_request_ok site r \<longleftrightarrow>
     (\<exists>a fs cli. r = act_request site a fs cli) \<or> (\<exists>b. r = ApiPost (wp_base site @ ''/remove'') b \<and> server_removes site b)"

definition removal_inv :: "site_manager \<Rightarrow> bool" where
  "removal_inv s \<longleftrightarrow> manager_inv s \<and> sm_mode s \<in> set [''soft'', ''hard'']"

lemma act_request_ok [simp]: "manager_request_ok site (act_request site a fs cli)"
  unfolding manager_request_ok_def by blast

lemma grave_act [simp]:
  "grave (act_request site a fs cli) = (if a \<in> set grave_actions then [act_request site a fs cli] else [])"
  by (auto simp: grave_def act_request_def grave_actions_def)

lemma list_action_light [simp]: "list_action k \<notin> set grave_actions"
  by (simp add: list_action_def grave_actions_def)

lemma act_facts [simp]:
  "fst (manage_act site a fs cli s) = start_act s" "fst (snd (manage_act site a fs cli s)) = [act_request site a fs cli]"
  by (simp_all add: manage_act_def)

lemma start_act_facts [simp]:
  "sm_confirm (start_act s) = sm_confirm s" "sm_mode (start_act s) = sm_mode s" "sm_tab (start_act s) = sm_tab s"
  by (simp_all add: start_act_def)

lemma choose_tab_facts:
  "sm_confirm (fst (visit_tab site t force now s)) = sm_confirm s" "sm_mode (fst (visit_tab site t force now s)) = sm_mode s"
  "list_all (manager_request_ok site) (fst (snd (visit_tab site t force now s)))"
  "concat (map grave (fst (snd (visit_tab site t force now s)))) = []"
proof -
  have b: "''backups'' \<notin> set grave_actions" by (simp add: grave_actions_def)
  show "sm_confirm (fst (visit_tab site t force now s)) = sm_confirm s" "sm_mode (fst (visit_tab site t force now s)) = sm_mode s"
    "list_all (manager_request_ok site) (fst (snd (visit_tab site t force now s)))"
    "concat (map grave (fst (snd (visit_tab site t force now s)))) = []"
    using b by (auto simp: visit_tab_def Let_def split: option.split)
qed

lemma job_done_facts:
  "sm_confirm (fst (job_done P site j now s)) = sm_confirm s" "sm_mode (fst (job_done P site j now s)) = sm_mode s"
  "list_all (manager_request_ok site) (fst (snd (job_done P site j now s)))"
  "concat (map grave (fst (snd (job_done P site j now s)))) = []"
  by (auto simp: job_done_def job_error_def keep_list_def Let_def split: option.split sum.split)

lemma job_done_light: "r \<in> set (fst (snd (job_done P site j now s))) \<Longrightarrow> grave r = []"
  using job_done_facts(4)[where P = P and site = site and j = j and now = now and s = s] by auto

lemma toggle_light [simp]: "toggle_action tab x \<notin> set grave_actions"
  by (simp add: toggle_action_def grave_actions_def)

lemma plain_light:
  "list_all (\<lambda>a. a \<notin> set grave_actions)
     [''backup'', ''backups'', ''clone'', ''cache_flush'', ''maintenance_on'', ''maintenance_off'', ''plugin_check_updates'', ''theme_check_updates'']"
  by (simp add: grave_actions_def)

definition quiet :: "manager_event \<Rightarrow> bool" where
  "quiet e \<longleftrightarrow>
     (case e of AskCoreUpdate \<Rightarrow> False | AskUpdateAll \<Rightarrow> False | AskRestore b \<Rightarrow> False | WithdrawAsk \<Rightarrow> False | ConfirmAsk \<Rightarrow> False | _ \<Rightarrow> True)"

lemma quiet_facts:
  assumes "quiet e" "removal_inv s" "manager_offered site ds s e"
  shows "sm_confirm (fst (manager_step P site e s)) = sm_confirm s"
    and "sm_mode (fst (manager_step P site e s)) \<in> set [''soft'', ''hard'']"
    and "list_all (manager_request_ok site) (fst (snd (manager_step P site e s)))"
    and "concat (map grave (fst (snd (manager_step P site e s)))) = []"
proof -
  have m: "sm_mode s = ''soft'' \<or> sm_mode s = ''hard''" using assms(2) by (simp add: removal_inv_def)
  have rm: "manager_request_ok site (remove_request site s)" if "can_remove site s"
    using m that unfolding manager_request_ok_def remove_request_def server_removes_def can_remove_def by auto
  have gr: "grave (remove_request site s) = []" by (simp add: grave_def remove_request_def list_ex_iff)
  show "sm_confirm (fst (manager_step P site e s)) = sm_confirm s"
    using assms(1) by (cases e) (simp_all add: quiet_def choose_tab_facts job_done_facts Let_def)
  show "sm_mode (fst (manager_step P site e s)) \<in> set [''soft'', ''hard'']"
    using assms(1,3) m by (cases e) (auto simp: quiet_def choose_tab_facts job_done_facts Let_def)
  show "list_all (manager_request_ok site) (fst (snd (manager_step P site e s)))"
    using assms(1,3) rm by (cases e) (simp_all add: quiet_def choose_tab_facts job_done_facts Let_def)
  show "concat (map grave (fst (snd (manager_step P site e s)))) = []"
    using assms(1) gr plain_light by (cases e) (simp_all add: quiet_def choose_tab_facts job_done_light Let_def)
qed

text \<open>While a question is open the dialog does nothing else.\<close>

lemma asked_stays_free:
  assumes "manager_inv s" "sm_confirm s = Some q" "quiet e" "manager_offered site ds s e"
  shows "\<not> manager_busy (fst (manager_step P site e s))"
  using assms by (cases e) (auto simp: manager_inv_def quiet_def at_rest_def manager_busy_def)

lemma manager_start: "removal_inv (open_manager site www cache)" "asked_request site (open_manager site www cache) = None"
  by (simp_all add: removal_inv_def manager_inv_def open_manager_def asked_request_def)

lemma manager_keep:
  assumes "removal_inv s" "manager_offered site ds s e"
  shows "removal_inv (fst (manager_step P site e s))"
proof (cases "quiet e")
  case True
  note f = quiet_facts[OF True assms, of P]
  have "manager_inv (fst (manager_step P site e s))"
  proof (cases "sm_confirm s")
    case None
    then show ?thesis using f(1) by (simp add: manager_inv_def)
  next
    case (Some q)
    have "manager_inv s" using assms(1) by (simp add: removal_inv_def)
    then have "wc_action q \<in> set grave_actions" "\<not> manager_busy (fst (manager_step P site e s))"
      using Some asked_stays_free[OF _ Some True assms(2)] by (simp_all add: manager_inv_def)
    then show ?thesis using f(1) Some by (simp add: manager_inv_def)
  qed
  then show ?thesis using f(2) unfolding removal_inv_def by blast
next
  case False
  then show ?thesis using assms
    by (cases e) (auto simp: quiet_def removal_inv_def manager_inv_def grave_actions_def at_rest_def manager_busy_def split: option.split)
qed

lemma manager_good:
  assumes "removal_inv s" "manager_offered site ds s e"
  shows "list_all (manager_request_ok site) (fst (snd (manager_step P site e s)))"
proof (cases "quiet e")
  case True
  then show ?thesis using quiet_facts(3)[OF True assms] by blast
next
  case False
  then show ?thesis by (cases e) (auto simp: quiet_def split: option.split)
qed

lemma manager_simulates:
  assumes "removal_inv s" "manager_offered site ds s e"
  shows "consent (asked_request site s) (concat (map grave (fst (snd (manager_step P site e s))))) (asked_request site (fst (manager_step P site e s)))"
proof (cases "quiet e")
  case True
  note f = quiet_facts[OF True assms, of P]
  show ?thesis unfolding f(4) asked_request_def f(1) by (rule consent.idle)
next
  case False
  then show ?thesis using assms
    by (cases e) (auto simp: quiet_def asked_request_def at_rest_def removal_inv_def manager_inv_def intro: consent.intros split: option.splits)
qed

interpretation manager: page_contract "open_manager site www cache" "manager_offered site ds" "manager_step P site" removal_inv
    "manager_request_ok site" for site www cache ds P
  by unfold_locales (simp_all only: manager_start manager_keep manager_good)

interpretation manager_consent: page_refinement "open_manager site www cache" "manager_offered site ds" "manager_step P site" removal_inv
    "asked_request site" grave None consent for site www cache ds P
  by unfold_locales (simp_all only: manager_start manager_keep manager_simulates)


definition shop :: json where
  "shop = JObj [(''username'', JStr ''ann''), (''domain'', JStr ''shop.example''), (''path'', JStr []), (''url'', JStr ''http://shop.example'')]"


section \<open>The lists of extensions\<close>

text \<open>Looking for updates keeps the list: the same extensions in the same order, with those marked that the answer
  names.\<close>

lemma merge_keeps_name: "jget (merge_update us x) ''name'' = jget x ''name''"
  by (auto simp: merge_update_def split: option.split)

lemma merge_marks: "update_of us (jget x ''name'') \<noteq> None \<Longrightarrow> jget (merge_update us x) ''update'' = JStr ''available''"
  by (auto simp: merge_update_def)

lemma check_keeps_list:
  assumes "sm_cache s (sm_tab s) = Some (JArr xs, x)" "sm_tab s \<in> set extension_tabs" "\<not> is_array (sm_result s)"
    and "jget j ''command'' = JStr c" "dry_run c" "parseWpResult P j = Inr (JArr us)"
  shows "sm_result (fst (job_done P site j now s)) = JArr (map (merge_update us) xs) \<and>
    map (\<lambda>v. jget v ''name'') (map (merge_update us) xs) = map (\<lambda>v. jget v ''name'') xs"
proof -
  have "json_text (JStr c) = c" by (simp add: json_text_def)
  then have "changed_kind (json_text (jget j ''command'')) = None" "dry_run (json_text (jget j ''command''))"
    using assms(4,5) by (simp_all add: changed_kind_def)
  then show ?thesis using assms(1-3,6) by (simp add: job_done_def is_array_def installed_list_def json_list_def Let_def merge_keeps_name)
qed

text \<open>A change of an extension makes the list be read again, and never from what was kept.\<close>

lemma change_reads_again:
  assumes "changed_kind (json_text (jget j ''command'')) = Some k"
  shows "fst (snd (job_done P site j now s)) = [act_request site (list_action k) [] True] \<and>
    sm_cache (fst (job_done P site j now s)) k = None"
  using assms by (simp add: job_done_def manage_act_def start_act_def)

text \<open>A kept list is shown without asking for thirty seconds and not longer.\<close>

lemma kept_list_shown:
  assumes "t \<in> set extension_tabs" "sm_cache s t = Some (d, kept + extension_ms)"
  shows "fst (snd (visit_tab site t False now s)) = [] \<longleftrightarrow> now < kept + extension_ms"
  using assms by (auto simp: visit_tab_def extension_tabs_def Let_def)

section \<open>The list of installations\<close>

record wp_list =
  wl_data :: json
  wl_query :: jsstring
  wl_error :: "jsstring option"
  wl_notice :: jsstring
  wl_scanning :: bool
  wl_refreshing :: "json option"

definition initial_list :: wp_list where
  "initial_list = \<lparr>wl_data = JUndef, wl_query = [], wl_error = None, wl_notice = [], wl_scanning = False, wl_refreshing = None\<rparr>"

definition inventory_poll :: "json \<Rightarrow> nat option" where
  "inventory_poll d = (if list_ex live_job (json_list (jget d ''activity'')) then Some 3000 else None)"

definition inventory_url :: "bool \<Rightarrow> jsstring \<Rightarrow> jsstring" where
  "inventory_url admin u = ''/api/v1/wordpress'' @ (if admin then [] else ''?username='' @ encodeURIComponent u)"

definition site_entry :: "json \<Rightarrow> search_entry" where
  "site_entry r =
     \<lparr>e_section = [], e_label = site_text r ''domain'' @ '' '' @ site_text r ''path'' @ '' '' @ site_text r ''username'', e_to = [], e_icon = [],
      e_external = False, e_keywords = []\<rparr>"

definition shown_sites :: "wp_list \<Rightarrow> json list" where
  "shown_sites s = filter (\<lambda>r. 0 < searchScore (site_entry r) (wl_query s)) (json_list (jget (wl_data s) ''installs''))"

definition site_active :: "json \<Rightarrow> bool" where
  "site_active r \<longleftrightarrow> \<not> truthy (jget r ''account_status'') \<or> jget r ''account_status'' = JStr ''active''"

definition scan_text :: "json \<Rightarrow> jsstring" where
  "scan_text r =
     ''Scan complete. '' @ js_String (jget r ''found'') @ '' WordPress '' @
     (if jget r ''found'' = JNum 1 then ''installation'' else ''installations'') @ '' refreshed.''"

definition scan_errors :: "json \<Rightarrow> jsstring option" where
  "scan_errors r =
     (case json_list (jget r ''errors'') of
        [] \<Rightarrow> None
      | es \<Rightarrow> Some (join_with ('' '' @ [CHR 0xB7] @ '' '')
                 (map (\<lambda>e. js_String (jget e ''domain'') @ '': '' @ js_String (jget e ''message'')) es)))"

datatype list_event =
    InventoryArrives json
  | EditQuery jsstring
  | Scan
  | Scanned json
  | ScanFails jsstring
  | RefreshSite json
  | SiteRefreshed
  | RefreshFails jsstring
  | LogIn json bool \<comment> \<open>whether the browser opened the window\<close>

fun list_offered :: "wp_list \<Rightarrow> list_event \<Rightarrow> bool" where
  "list_offered s (InventoryArrives d) = True"
| "list_offered s (EditQuery t) = True"
| "list_offered s Scan = (\<not> wl_scanning s)"
| "list_offered s (Scanned r) = wl_scanning s"
| "list_offered s (ScanFails e) = wl_scanning s"
| "list_offered s (RefreshSite r) = (r \<in> set (shown_sites s) \<and> site_active r \<and> wl_refreshing s = None)"
| "list_offered s SiteRefreshed = (wl_refreshing s \<noteq> None)"
| "list_offered s (RefreshFails e) = (wl_refreshing s \<noteq> None)"
| "list_offered s (LogIn r opened) = (r \<in> set (shown_sites s) \<and> site_active r)"

text \<open>The request to log in is a form the new window submits.\<close>

fun list_step :: "bool \<Rightarrow> jsstring \<Rightarrow> (list_event, wp_list) page_step" where
  "list_step admin u (InventoryArrives d) s = (s\<lparr>wl_data := d\<rparr>, [], [])"
| "list_step admin u (EditQuery t) s = (s\<lparr>wl_query := t\<rparr>, [], [])"
| "list_step admin u Scan s =
     (s\<lparr>wl_scanning := True, wl_error := None, wl_notice := []\<rparr>,
      [ApiPost ''/api/v1/wordpress/scan'' (if admin then [] else [(''username'', JStr u)])], [])"
| "list_step admin u (Scanned r) s =
     (s\<lparr>wl_scanning := False, wl_notice := scan_text r,
        wl_error := (case scan_errors r of None \<Rightarrow> wl_error s | Some e \<Rightarrow> Some e)\<rparr>, [], [inventory_key])"
| "list_step admin u (ScanFails e) s = (s\<lparr>wl_scanning := False, wl_error := Some e\<rparr>, [], [])"
| "list_step admin u (RefreshSite r) s =
     (s\<lparr>wl_refreshing := Some r, wl_error := None\<rparr>, [ApiPost (wp_base r @ ''/refresh'') [(''path'', jget r ''path'')]], [])"
| "list_step admin u SiteRefreshed s =
     (s\<lparr>wl_refreshing := None,
        wl_notice := (case wl_refreshing s of None \<Rightarrow> wl_notice s | Some r \<Rightarrow> site_text r ''domain'' @ '' refreshed from WordPress.'')\<rparr>,
      [], [inventory_key])"
| "list_step admin u (RefreshFails e) s = (s\<lparr>wl_refreshing := None, wl_error := Some e\<rparr>, [], [])"
| "list_step admin u (LogIn r opened) s =
     (if opened
      then (s\<lparr>wl_error := None\<rparr>,
            [ApiPost (wp_base r @ ''/login/open'') [(''path'', if truthy (jget r ''path'') then jget r ''path'' else JStr [])]], [])
      else (s\<lparr>wl_error := Some ''Allow pop-ups for this panel, then try Log in again.''\<rparr>, [], []))"

text \<open>Nothing but a scan is asked for about a site whose account is not active, and with nothing typed every
  installation is listed.\<close>

lemma suspended_untouched:
  assumes "list_offered s e" "ApiPost url b \<in> set (fst (snd (list_step admin u e s)))" "url \<noteq> ''/api/v1/wordpress/scan''"
  shows "\<exists>r. r \<in> set (shown_sites s) \<and> site_active r \<and> (url = wp_base r @ ''/refresh'' \<or> url = wp_base r @ ''/login/open'')"
  using assms by (cases e) (auto split: if_splits)

lemma all_sites_shown: "wl_query s = [] \<Longrightarrow> shown_sites s = json_list (jget (wl_data s) ''installs'')"
proof -
  have "normalize [] = []" by code_simp
  then show "wl_query s = [] \<Longrightarrow> ?thesis" by (simp add: shown_sites_def searchScore_def Let_def)
qed

lemma site_found_by_name: "0 < searchScore (site_entry r) (site_text r ''domain'' @ '' '' @ site_text r ''path'' @ '' '' @ site_text r ''username'')"
  using own_label_score[of "site_entry r"] by (simp add: site_entry_def)

end
