(* ===== verification/Spec2Isabelle.thy ===== *)
theory Spec2Isabelle
  imports Routing Search Tool_Groups Sessions Format Background_Tasks Dns_Owner Node_Socket Account_Fields Data_Table
    Preferences Ui_Kit Updates_Page Accounts_Page Cron_Page Firewall_Page Backups_Page Palette Databases_Page Security_Page
    Dns_Page Domain_Service Email_Tools Login_Page Tokens_Page Webhooks_Page Account_Limits Account_Settings Account_Detail
    Create_Account Domains_Page Php_Page Cloudflare_Page Apps_Page Ftp_Page Git_Page Audit_Page
    Redis_Page Fail2ban_Page Slow_Queries Notify_Page Backup_Policy Backup_Manager
    Health_Page Ssl_Page Ssh_Page Waf_Page Services_Page Ip_Lists Mail_Queue Branding_Page
    Dev_Tools Dns_Cluster Account_Imports Wp_Sites
begin

text \<open>
  Verification development for the browser client of the Boron hosting control panel (JavaScript,
  \<open>frontend/src\<close>; paths below are relative to it) and for the preload of Node applications
  (\<open>scripts/node_socket_activation.cjs\<close>). Of the panel's Python daemon it holds the fragments the client is
  compared with.

  The program. A single-page application: \<open>main.jsx\<close> mounts the routes of \<open>routes.jsx\<close>, guarded by the
  role in the session store (\<open>store/auth.js\<close>). Every request passes the HTTP client (\<open>lib/api.js\<close>),
  which turns failures into the errors the pages show and reports 401 and 503 to the session store. Each
  page holds queries (answers of the server, kept by a cache under a key), mutations (requests under way)
  and local state; long operations of the server are polled (\<open>lib/control-tasks.js\<close>). The navigation
  lists (\<open>config/nav.js\<close>) feed the menus, the grouped tools and the search boxes.

  How it is modelled. A JavaScript value is a \<open>json\<close> (\<open>Boron_Prelude\<close>), with the language's truthiness,
  property access and conversions to text; strings are lists of code units, maps with an order are
  association lists. A page is a state record, a datatype of events (what the enabled controls can do,
  what the server can answer, what a clock or another tab can change), the predicate \<open>*_offered\<close> that
  says which events the markup and the outstanding requests admit in a state, and the function \<open>*_step\<close>
  that gives the next state, the requests sent and the notices shown. An event of an answer is offered
  only while its request is under way, and its failure is an event of its own. \<open>page_reach\<close> collects the
  states a page can come to together with everything it has sent, in any order of events.

  The library.
  \<^item> \<open>Boron_Prelude\<close>: strings, values, and the contract of a sort comparator as the locale
    \<open>js_comparator\<close>, and of a normaliser of outside values as the locale \<open>sanitizer\<close>.
  \<^item> \<open>Js_Numbers\<close>, \<open>Js_Decimals\<close>, \<open>Url_Params\<close>, \<open>Format\<close>: numbers and their texts, the query of an
    address, \<open>lib/utils.js\<close> and \<open>config/constants.js\<close>.
  \<^item> \<open>Page_Machine\<close>: requests, pages as machines, and two contracts as locales. \<open>page_contract\<close> has an
    invariant that every offered event keeps and a property every sent request has; \<open>page_refinement\<close>
    maps a page to an abstract machine, mostly that of a question that is asked, answered and carried
    out once. Every page theory interprets one of them or both, and its properties rest on their facts.
  \<^item> \<open>Ui_Kit\<close>, \<open>Data_Table\<close>, \<open>Task_Forms\<close>: the shared widgets (toasts, confirmation dialogs, mutations),
    the table with its filters, order and pages, and forms that wait for an operation of the server.
  \<^item> \<open>Server_Checks\<close>: checks of \<open>shared/validation.py\<close>, as reference for the forms.

  The core.
  \<^item> \<open>Api_Client\<close> (\<open>lib/api.js\<close>, \<open>lib/queryClient.js\<close>): no internal detail of a failure reaches a message.
  \<^item> \<open>Sessions\<close> (\<open>store/auth.js\<close>, \<open>main.jsx\<close>): each operation is cut where it awaits an answer and
    anything may be interleaved there; data of one session never shows under another, and the identity
    is only what the server said.
  \<^item> \<open>Routing\<close> (\<open>routes.jsx\<close>, \<open>components/auth/ProtectedRoute.jsx\<close>): the guard admits the right roles,
    and redirects settle within 3 steps. \<open>Login_Page\<close> composes it with the session store.
  \<^item> \<open>Background_Tasks\<close> (\<open>lib/control-tasks.js\<close>): with a timer that waits at least the 900 ms asked
    for, 668 rounds of fuel always reach the result or the deadline of ten minutes.
  \<^item> \<open>Navigation\<close>, \<open>Tool_Groups\<close>, \<open>Search\<close>, \<open>Palette\<close>: the lists of \<open>config/nav.js\<close> filtered by what is
    installed, the layouts of \<open>config/toolGroups.js\<close>, the edit distance and ranking of \<open>config/search.js\<close>,
    and the two search boxes.
  \<^item> \<open>Preferences\<close> (\<open>store/ui.js\<close>, \<open>config/themes.js\<close>, hooks): preferences are valid whatever the browser's
    storage holds. \<open>Account_Fields\<close> (\<open>components/ui/AccountFields.jsx\<close>): the password sampler is total once
    39 of the random bytes it draws are small enough not to be rejected.
  \<^item> \<open>Dns_Owner\<close> (\<open>lib/dns-owner.js\<close>), \<open>Node_Socket\<close> (\<open>node_socket_activation.cjs\<close>).

  The pages, one theory each, with the server fragment it is compared with where there is one:
  \<open>Updates_Page\<close>, \<open>Accounts_Page\<close>, \<open>Account_Detail\<close> with \<open>Account_Limits\<close> and \<open>Account_Settings\<close>,
  \<open>Create_Account\<close> (\<open>shared/validation.py\<close>), \<open>Firewall_Page\<close>, \<open>Cloudflare_Page\<close>, \<open>Fail2ban_Page\<close>,
  \<open>Audit_Page\<close>, \<open>Slow_Queries\<close>, \<open>Notify_Page\<close>, \<open>Tokens_Page\<close>, \<open>Webhooks_Page\<close>, \<open>Backup_Policy\<close>
  (\<open>daemon/snapshot_jobs.py\<close>), \<open>Backup_Manager\<close>, \<open>Health_Page\<close> (\<open>daemon/monitoring.py\<close>), \<open>Waf_Page\<close>
  (\<open>daemon/waf.py\<close>), \<open>Services_Page\<close>, \<open>Ip_Lists\<close>, \<open>Mail_Queue\<close>, \<open>Branding_Page\<close>
  (\<open>daemon/branding.py\<close>), \<open>Dns_Cluster\<close> (\<open>daemon/dnscluster.py\<close>) and \<open>Account_Imports\<close> with
  \<open>Da_Migration\<close> (\<open>daemon/cpanel_import.py\<close>) of the administrator; \<open>Domains_Page\<close>, \<open>Domain_Forms\<close>
  and \<open>Domain_Service\<close>, \<open>Dns_Page\<close>, \<open>Email_Page\<close> and \<open>Email_Tools\<close>, \<open>Databases_Page\<close>, \<open>Backups_Page\<close>,
  \<open>Cron_Page\<close> (\<open>daemon/cron.py\<close>), \<open>Php_Page\<close> (\<open>daemon/handlers_php_ini.py\<close>), \<open>Apps_Page\<close>, \<open>Ftp_Page\<close>
  (\<open>daemon/handlers_ftp.py\<close>), \<open>Git_Page\<close>, \<open>Redis_Page\<close>, \<open>Security_Page\<close>, \<open>Ssl_Page\<close>, \<open>Ssh_Page\<close>
  (\<open>validate_ssh_key_text\<close>) and \<open>Dev_Tools\<close> (\<open>daemon/wpcli.py\<close>) of the customer; \<open>Wp_Install\<close> and
  \<open>Wp_Sites\<close> (\<open>daemon/wordpress.py\<close>, \<open>daemon/wpmanager.py\<close>) of both. Their lemmas show
  that every request is well formed and addressed to what the page shows, that destructive requests are
  only the answers to their questions, that forms give back what they were filled with, and that the
  forms and the server agree; the lemmas beside them record where the code does not behave so.

  Parameters and bounds. What the source takes from its environment is an argument of the definitions:
  the outcome of a request, the clock, random bytes, the collation behind \<open>localeCompare\<close>, the browser's
  judgement of addresses and of URLs in form fields (\<open>valid_address\<close>, \<open>valid_url\<close>), the formatting of
  dates, and the conversion of texts that are no plain decimal numeral (\<open>frac\<close>, \<open>nonint\<close>, \<open>other\<close>, by
  theory). Numbers are integers or exact rationals; binary floating point is not modelled. Characters
  are the code units below 256, two control codes standing for the dash and the ellipsis the program's
  literals use. Regular expressions are predicates on characters.

  Not modelled. Markup, layout, icons, focus and scrolling, styles and charts, since they carry no state the
  operations depend on. The Python daemon, its HTTP interface and its modules for the mail, web and name
  servers (only the fragments named above), the end-to-end tests, the bundled API browser
  (\<open>static/apidocs\<close>, vendored) and the build configuration. Code of \<open>DomainDetail.jsx\<close> that no route
  reaches (its tabs for DNS, name servers, PHP and WordPress). Pages not listed above: they are the plan
  of this development.
\<close>

end
